(* ===== verification/Prelude.thy ===== *)
theory Prelude
  imports "HOL-Library.Word"
begin

text \<open>
  The vocabulary shared by every component of the model of \<^verbatim>\<open>crates/ndm24-ppp\<close>.

  \<^item> Rust's fixed-width integers are words; \<^verbatim>\<open>usize\<close> is \<open>nat\<close> (lengths of slices in memory,
    which never come near \<^verbatim>\<open>usize::MAX\<close>); a slice or \<^verbatim>\<open>Vec<u8>\<close> is a list of octets.
  \<^item> A Rust computation ends in \<open>Ok\<close>, in \<open>Err\<close>, or it panics: the three constructors of
    \<open>result\<close>. A method that takes \<^verbatim>\<open>&mut self\<close> returns the result and the state it leaves behind,
    because Rust keeps the mutations made before an early return.
  \<^item> \<open>from_be16\<close>, \<open>to_be16\<close>, \<open>from_le32\<close>, \<dots> are \<^verbatim>\<open>u16::from_be_bytes\<close> and its kin, with
    their round trips.
\<close>

unbundle bit_operations_syntax

section \<open>Types\<close>

type_synonym u8 = "8 word"
type_synonym u16 = "16 word"
type_synonym u32 = "32 word"
type_synonym u64 = "64 word"
type_synonym bytes = "8 word list"

text \<open>\<^verbatim>\<open>[u8; 4]\<close>: an array whose length is part of its type.\<close>

type_synonym octets4 = "8 word \<times> 8 word \<times> 8 word \<times> 8 word"

datatype ('a, 'e) result = Ok 'a | Err 'e | Panic

named_theorems codec_simps \<open>equations that evaluate packet codecs\<close>
named_theorems step_simps \<open>defining equations of state-machine operations\<close>

section \<open>Results\<close>

fun is_ok :: "('a, 'e) result \<Rightarrow> bool" where
  "is_ok (Ok _) = True"
| "is_ok _ = False"

text \<open>Rust's \<^verbatim>\<open>map_err\<close>.\<close>

fun map_err :: "('e \<Rightarrow> 'f) \<Rightarrow> ('a, 'e) result \<Rightarrow> ('a, 'f) result" where
  "map_err f (Ok x) = Ok x"
| "map_err f (Err e) = Err (f e)"
| "map_err f Panic = Panic"

text \<open>
  The question-mark operator on a value: stop at the first error (or panic). With a state, the
  state at the point of the early return is the one the caller sees.
\<close>

fun and_then :: "('a, 'e) result \<Rightarrow> ('a \<Rightarrow> ('b, 'e) result) \<Rightarrow> ('b, 'e) result" where
  "and_then (Ok x) f = f x"
| "and_then (Err e) f = Err e"
| "and_then Panic f = Panic"

fun and_then_st ::
  "('a, 'e) result \<times> 's \<Rightarrow> ('a \<Rightarrow> 's \<Rightarrow> ('b, 'e) result \<times> 's) \<Rightarrow> ('b, 'e) result \<times> 's" where
  "and_then_st (Ok x, s) f = f x s"
| "and_then_st (Err e, s) f = (Err e, s)"
| "and_then_st (Panic, s) f = (Panic, s)"

lemma is_ok_iff: "is_ok r \<longleftrightarrow> (\<exists>x. r = Ok x)"
  by (cases r) auto

lemma is_ok_map_err [simp]: "is_ok (map_err f r) = is_ok r"
  by (cases r) auto

lemma map_err_eq_Ok [simp]: "map_err f r = Ok x \<longleftrightarrow> r = Ok x"
  by (cases r) auto

lemma map_err_eq_Panic [simp]: "map_err f r = Panic \<longleftrightarrow> r = Panic"
  by (cases r) auto

lemma and_then_eq_Ok: "and_then r f = Ok y \<longleftrightarrow> (\<exists>x. r = Ok x \<and> f x = Ok y)"
  by (cases r) auto

lemma and_then_st_eq_Ok:
  "and_then_st r f = (Ok y, s') \<longleftrightarrow> (\<exists>x s. r = (Ok x, s) \<and> f x s = (Ok y, s'))"
  by (cases "(r, f)" rule: and_then_st.cases) auto

section \<open>Fixed-width integers\<close>

definition saturating_sub :: "'a::len word \<Rightarrow> 'a word \<Rightarrow> 'a word" where
  "saturating_sub a b = (if b \<le> a then a - b else 0)"

definition saturating_add :: "'a::len word \<Rightarrow> 'a word \<Rightarrow> 'a word" where
  "saturating_add a b = (if unat a + unat b < 2 ^ LENGTH('a) then a + b else - 1)"

lemma unat_saturating_sub: "unat (saturating_sub a b) = unat a - unat b"
  by (simp add: saturating_sub_def unat_sub_if' word_le_nat_alt)

lemma saturating_sub_le: "saturating_sub a b \<le> a"
  by (simp add: word_le_nat_alt unat_saturating_sub)

lemma unat_saturating_add:
  "unat (saturating_add a (b :: 'a::len word)) = min (unat a + unat b) (2 ^ LENGTH('a) - 1)"
proof (cases "unat a + unat b < 2 ^ LENGTH('a)")
  case True
  then have "unat (a + b) = unat a + unat b" by (simp add: unat_add_lem)
  with True show ?thesis by (simp add: saturating_add_def)
next
  case False
  then show ?thesis by (simp add: saturating_add_def unsigned_minus_1_eq_mask mask_eq_exp_minus_1)
qed

lemma saturating_add_ge: "a \<le> saturating_add a b"
proof -
  have "unat a \<le> 2 ^ LENGTH('a) - 1"
    using unsigned_less [of a, where 'a = nat] by linarith
  then show ?thesis
    by (simp add: word_le_nat_alt unat_saturating_add)
qed

lemma unat_dec: "x \<noteq> 0 \<Longrightarrow> unat (x - 1 :: 'a::len word) = unat x - 1"
  by (simp add: unat_sub_if' unat_gt_0 Suc_leI)

lemma Suc_unat_dec: "0 < x \<Longrightarrow> Suc (unat (x - 1 :: 'a::len word)) = unat x"
  using unat_dec [of x] by (cases "x = 0") (auto simp: unat_gt_0)

section \<open>Octet order\<close>

definition from_be16 :: "8 word \<Rightarrow> 8 word \<Rightarrow> 16 word" where
  "from_be16 a b = of_nat (256 * unat a + unat b)"

definition to_be16 :: "16 word \<Rightarrow> bytes" where
  "to_be16 w = [of_nat (unat w div 256), of_nat (unat w)]"

definition to_le16 :: "16 word \<Rightarrow> bytes" where
  "to_le16 w = [of_nat (unat w), of_nat (unat w div 256)]"

definition from_be32 :: "octets4 \<Rightarrow> 32 word" where
  "from_be32 q = (case q of (a, b, c, d) \<Rightarrow>
     of_nat (2 ^ 24 * unat a + 2 ^ 16 * unat b + 2 ^ 8 * unat c + unat d))"

definition octets_be32 :: "32 word \<Rightarrow> octets4" where
  "octets_be32 w =
     (of_nat (unat w div 2 ^ 24), of_nat (unat w div 2 ^ 16), of_nat (unat w div 2 ^ 8), of_nat (unat w))"

definition octets4_list :: "octets4 \<Rightarrow> bytes" where
  "octets4_list q = (case q of (a, b, c, d) \<Rightarrow> [a, b, c, d])"

definition to_be32 :: "32 word \<Rightarrow> bytes" where
  "to_be32 w = octets4_list (octets_be32 w)"

definition from_le32 :: "octets4 \<Rightarrow> 32 word" where
  "from_le32 q = (case q of (a, b, c, d) \<Rightarrow> from_be32 (d, c, b, a))"

definition to_le32 :: "32 word \<Rightarrow> bytes" where
  "to_le32 w = rev (to_be32 w)"

text \<open>\<^verbatim>\<open>bytes[i..i + 4].try_into().unwrap()\<close>, for an offset whose four octets are in range.\<close>

definition octets4_at :: "bytes \<Rightarrow> nat \<Rightarrow> octets4" where
  "octets4_at bs i = (bs ! i, bs ! (i + 1), bs ! (i + 2), bs ! (i + 3))"

lemma unat_less_256 [simp]: "unat (x :: 8 word) < 256"
  using unsigned_less [of x, where 'a = nat] by simp

lemma unat_le_255 [simp]: "unat (x :: 8 word) \<le> 255"
  using unat_less_256 [of x] by linarith

lemma unat_less_65536 [simp]: "unat (x :: 16 word) < 65536"
  using unsigned_less [of x, where 'a = nat] by simp

lemma unat_le_65535 [simp]: "unat (x :: 16 word) \<le> 65535"
  using unat_less_65536 [of x] by linarith

lemma unat_of_nat8: "unat (of_nat n :: 8 word) = n mod 256"
  by (simp add: unat_of_nat)

lemma unat_of_nat16: "unat (of_nat n :: 16 word) = n mod 65536"
  by (simp add: unat_of_nat)

lemma unat_of_nat32: "unat (of_nat n :: 32 word) = n mod 4294967296"
  by (simp add: unat_of_nat)

lemma unat_from_be16: "unat (from_be16 a b) = 256 * unat a + unat b"
proof -
  have "256 * unat a + unat b < 65536"
    using unat_less_256 [of a] unat_less_256 [of b] by linarith
  then show ?thesis unfolding from_be16_def unat_of_nat16 by simp
qed

lemma length_to_be16 [simp]: "length (to_be16 w) = 2"
  by (simp add: to_be16_def)

lemma length_to_le16 [simp]: "length (to_le16 w) = 2"
  by (simp add: to_le16_def)

lemma length_to_be32 [simp]: "length (to_be32 w) = 4"
  by (simp add: to_be32_def octets4_list_def octets_be32_def)

lemma length_octets4_list [simp]: "length (octets4_list q) = 4"
  by (simp add: octets4_list_def split: prod.splits)

lemma from_to_be16: "from_be16 (of_nat (unat w div 256)) (of_nat (unat w)) = w"
proof -
  have "unat w div 256 < 256" by (simp add: less_mult_imp_div_less)
  then have "unat (from_be16 (of_nat (unat w div 256)) (of_nat (unat w))) = unat w"
    unfolding unat_from_be16 unat_of_nat8 by simp
  then show ?thesis unfolding word_unat_eq_iff .
qed

lemma to_from_be16: "to_be16 (from_be16 a b) = [a, b]"
  unfolding to_be16_def unat_from_be16 list.inject word_unat_eq_iff unat_of_nat8 by simp

lemma to_be16_cases: "\<exists>hi lo. to_be16 w = [hi, lo] \<and> from_be16 hi lo = w"
  unfolding to_be16_def using from_to_be16 by blast

lemma from_be16_of_nat:
  "n < 65536 \<Longrightarrow> unat (from_be16 (of_nat (n div 256)) (of_nat n)) = n"
  using from_to_be16 [of "of_nat n"] by (simp add: unat_of_nat16)

lemma nat_octets4:
  fixes u :: nat
  assumes "u < 4294967296"
  shows "2 ^ 24 * (u div 2 ^ 24 mod 256) + 2 ^ 16 * (u div 2 ^ 16 mod 256) +
    2 ^ 8 * (u div 2 ^ 8 mod 256) + u mod 256 = u"
proof -
  have "u div 16777216 < 256" using assms by (simp add: less_mult_imp_div_less)
  then have top: "u div 16777216 mod 256 = u div 16777216" by simp
  have "u div 65536 = 256 * (u div 16777216) + u div 65536 mod 256"
    using mult_div_mod_eq [of 256 "u div 65536"] by (simp add: div_mult2_eq [symmetric])
  moreover have "u div 256 = 256 * (u div 65536) + u div 256 mod 256"
    using mult_div_mod_eq [of 256 "u div 256"] by (simp add: div_mult2_eq [symmetric])
  moreover have "u = 256 * (u div 256) + u mod 256" by simp
  ultimately have "16777216 * (u div 16777216) + 65536 * (u div 65536 mod 256) +
      256 * (u div 256 mod 256) + u mod 256 = u" by linarith
  then show ?thesis by (simp add: top)
qed

lemma from_octets_be32 [simp]: "from_be32 (octets_be32 w) = w"
proof -
  have w: "unat w < 4294967296" using unsigned_less [of w, where 'a = nat] by simp
  have "2 ^ 24 * (unat w div 2 ^ 24 mod 256) + 2 ^ 16 * (unat w div 2 ^ 16 mod 256) +
      2 ^ 8 * (unat w div 2 ^ 8 mod 256) + unat w mod 256 = unat w"
    by (rule nat_octets4 [OF w])
  then show ?thesis
    unfolding from_be32_def octets_be32_def prod.case word_unat_eq_iff unat_of_nat32 unat_of_nat8
    by (simp only: mod_less [OF w])
qed

lemma octets4_at_list [simp]: "octets4_at (octets4_list q) 0 = q"
  by (cases q) (simp add: octets4_at_def octets4_list_def)

lemma from_to_be32 [simp]: "from_be32 (octets4_at (to_be32 w) 0) = w"
  by (simp add: to_be32_def)

lemma unat_from_be32:
  "unat (from_be32 (a, b, c, d)) = 16777216 * unat a + 65536 * unat b + 256 * unat c + unat d"
proof -
  have "16777216 * unat a + 65536 * unat b + 256 * unat c + unat d < 4294967296"
    using unat_le_255 [of a] unat_le_255 [of b] unat_le_255 [of c] unat_le_255 [of d] by linarith
  then show ?thesis unfolding from_be32_def prod.case unat_of_nat32 by simp
qed

lemma octets_from_be32 [simp]: "octets_be32 (from_be32 q) = q"
proof -
  obtain a b c d where q: "q = (a, b, c, d)" by (cases q)
  let ?u = "unat (from_be32 q)"
  note bounds = unat_le_255 [of b] unat_le_255 [of c] unat_le_255 [of d]
  have 1: "?u = 16777216 * unat a + (65536 * unat b + 256 * unat c + unat d)"
    "?u = 65536 * (256 * unat a + unat b) + (256 * unat c + unat d)"
    "?u = 256 * (65536 * unat a + 256 * unat b + unat c) + unat d"
    unfolding q unat_from_be32 by simp_all
  have "?u div 16777216 = unat a"
    unfolding 1(1) using bounds by (intro div_nat_eqI) (linarith, simp del: unat_le_255, linarith?)
  moreover have "?u div 65536 = 256 * unat a + unat b"
    unfolding 1(2) using bounds by (intro div_nat_eqI) (linarith, simp del: unat_le_255, linarith?)
  moreover have "?u div 256 = 65536 * unat a + 256 * unat b + unat c"
    unfolding 1(3) using bounds by (intro div_nat_eqI) (linarith, simp del: unat_le_255, linarith?)
  moreover have "?u = 256 * (65536 * unat a + 256 * unat b + unat c) + unat d" by (rule 1(3))
  ultimately have o: "octets_be32 (from_be32 q) = (of_nat (unat a), of_nat (256 * unat a + unat b),
      of_nat (256 * (256 * unat a + unat b) + unat c),
      of_nat (256 * (65536 * unat a + 256 * unat b + unat c) + unat d))"
    unfolding octets_be32_def by simp
  have low: "(of_nat (256 * n + unat x) :: u8) = x" for n and x :: u8
    unfolding word_unat_eq_iff unat_of_nat8 by simp
  from o show ?thesis unfolding low by (simp add: q)
qed

lemma to_be32_octets:
  obtains a b c d where "to_be32 w = [a, b, c, d]" "from_be32 (a, b, c, d) = w"
proof -
  obtain a b c d where o: "octets_be32 w = (a, b, c, d)" by (cases "octets_be32 w")
  then have "to_be32 w = [a, b, c, d]" by (simp add: to_be32_def octets4_list_def)
  moreover have "from_be32 (a, b, c, d) = w" using from_octets_be32 [of w] o by simp
  ultimately show ?thesis by (rule that)
qed

lemma to_from_be32: "to_be32 (from_be32 (a, b, c, d)) = [a, b, c, d]"
  by (simp add: to_be32_def octets4_list_def)

lemma length_to_le32 [simp]: "length (to_le32 w) = 4"
  by (simp add: to_le32_def)

lemma rev_to_be16: "rev (to_be16 w) = to_le16 w"
  by (simp add: to_be16_def to_le16_def)

lemma to_le16_inject [simp]: "to_le16 v = to_le16 w \<longleftrightarrow> v = w"
proof
  assume "to_le16 v = to_le16 w"
  then have "rev (to_be16 v) = rev (to_be16 w)" by (simp only: rev_to_be16)
  then have "to_be16 v = to_be16 w" by simp
  then show "v = w" using to_be16_cases [of v] to_be16_cases [of w] by auto
qed simp

lemma to_le32_inject [simp]: "to_le32 v = to_le32 w \<longleftrightarrow> v = w"
proof
  assume "to_le32 v = to_le32 w"
  then have "to_be32 v = to_be32 w" by (simp add: to_le32_def)
  then have "from_be32 (octets4_at (to_be32 v) 0) = from_be32 (octets4_at (to_be32 w) 0)" by (rule arg_cong)
  then show "v = w" by (simp only: from_to_be32)
qed simp

lemma octets4_list_inject [simp]: "octets4_list p = octets4_list q \<longleftrightarrow> p = q"
  by (cases p; cases q) (simp add: octets4_list_def)

lemma to_from_le32: "to_le32 (from_le32 q) = rev (octets4_list (case q of (a, b, c, d) \<Rightarrow> (d, c, b, a)))"
  by (simp add: to_le32_def to_be32_def from_le32_def octets_from_be32 split: prod.splits)

lemma rev_octets4: "rev (octets4_list (case q of (a, b, c, d) \<Rightarrow> (d, c, b, a))) = octets4_list q"
  by (cases q) (simp add: octets4_list_def)

end
