(* ===== verification/Fcs.thy ===== *)
theory Fcs
  imports Prelude
begin

text \<open>
  The RFC 1662 16-bit frame check sequence of \<^verbatim>\<open>crates/ndm24-ppp/src/lib.rs\<close>: the bitwise
  update, the checksum of a frame, the octets appended on transmission and the receiver's test.
  The lemmas show that the appended octets always reach the good value and that no change of a
  single octet goes unnoticed.
\<close>

section \<open>Constants of \<^verbatim>\<open>lib.rs\<close>\<close>

definition FLAG_SEQUENCE :: u8 where "FLAG_SEQUENCE = 0x7e"
definition CONTROL_ESCAPE :: u8 where "CONTROL_ESCAPE = 0x7d"
definition TRANSPARENCY_XOR :: u8 where "TRANSPARENCY_XOR = 0x20"
definition DEFAULT_ACCM :: u32 where "DEFAULT_ACCM = 0xffffffff"
definition INITIAL_FCS16 :: u16 where "INITIAL_FCS16 = 0xffff"
definition GOOD_FCS16 :: u16 where "GOOD_FCS16 = 0xf0b8"
definition FCS16_POLYNOMIAL_REVERSED :: u16 where "FCS16_POLYNOMIAL_REVERSED = 0x8408"
definition DEFAULT_MRU :: nat where "DEFAULT_MRU = 1500"
definition UNCOMPRESSED_HEADER_LENGTH :: nat where "UNCOMPRESSED_HEADER_LENGTH = 4"
definition FCS16_LENGTH :: nat where "FCS16_LENGTH = 2"
definition MINIMUM_FRAME_WITH_FCS_LENGTH :: nat where "MINIMUM_FRAME_WITH_FCS_LENGTH = 4"
definition DEFAULT_MAX_UNESCAPED_FRAME_LENGTH :: nat where
  "DEFAULT_MAX_UNESCAPED_FRAME_LENGTH = UNCOMPRESSED_HEADER_LENGTH + DEFAULT_MRU + FCS16_LENGTH"

section \<open>The update, one bit and one octet at a time\<close>

definition fcs_bit_step :: "u16 \<Rightarrow> u16" where
  "fcs_bit_step fcs =
     (if fcs AND 1 \<noteq> 0 then drop_bit 1 fcs XOR FCS16_POLYNOMIAL_REVERSED else drop_bit 1 fcs)"

definition update_fcs16 :: "u16 \<Rightarrow> u8 \<Rightarrow> u16" where
  "update_fcs16 fcs octet = (fcs_bit_step ^^ 8) (fcs XOR ucast octet)"

definition fcs16 :: "bytes \<Rightarrow> u16" where
  "fcs16 octets = foldl update_fcs16 INITIAL_FCS16 octets"

definition transmitted_fcs16 :: "bytes \<Rightarrow> u16" where
  "transmitted_fcs16 frame = fcs16 frame XOR 0xffff"

definition append_fcs16 :: "bytes \<Rightarrow> bytes" where
  "append_fcs16 frame = frame @ to_le16 (transmitted_fcs16 frame)"

definition has_valid_fcs16 :: "bytes \<Rightarrow> bool" where
  "has_valid_fcs16 frame_with_fcs \<longleftrightarrow> fcs16 frame_with_fcs = GOOD_FCS16"

text \<open>Equations by which the simplifier computes a checksum of concrete octets.\<close>

lemma funpow_8: "(f ^^ 8) x = f (f (f (f (f (f (f (f x)))))))"
  by (simp add: numeral_eq_Suc)

lemma fcs_bit_step_div: "fcs_bit_step x = (if odd x then (x div 2) XOR 0x8408 else x div 2)"
  by (simp add: fcs_bit_step_def and_one_eq mod_2_eq_odd drop_bit_eq_div FCS16_POLYNOMIAL_REVERSED_def)

lemmas fcs_eval = funpow_8 fcs_bit_step_div update_fcs16_def fcs16_def has_valid_fcs16_def
  INITIAL_FCS16_def GOOD_FCS16_def

section \<open>Linearity\<close>

lemma fcs_bit_step_xor: "fcs_bit_step (a XOR b) = fcs_bit_step a XOR fcs_bit_step b"
  by (rule bit_word_eqI)
    (auto simp: fcs_bit_step_def and_one_eq mod_2_eq_odd bit_simps even_xor_iff)

lemma fcs_bit_steps_xor: "(fcs_bit_step ^^ n) (a XOR b) = (fcs_bit_step ^^ n) a XOR (fcs_bit_step ^^ n) b"
  by (induction n) (simp_all add: fcs_bit_step_xor)

lemma bit_lt_256: "x < (256 :: u16) \<Longrightarrow> bit x m \<Longrightarrow> m < 8"
proof (rule ccontr)
  assume x: "x < 256" and b: "bit x m" and m: "\<not> m < 8"
  from x have "unat x < 2 ^ 8" by (simp add: word_less_nat_alt)
  then have "take_bit 8 x = x" by (simp add: word_unat_eq_iff unsigned_take_bit_eq take_bit_nat_eq_self)
  with b have "bit (take_bit 8 x) m" by simp
  with m show False by (simp add: bit_take_bit_iff)
qed

lemma fcs_bit_step_push:
  assumes "x < 256" "k < 8"
  shows "fcs_bit_step (push_bit (Suc k) x) = push_bit k x"
proof -
  have "drop_bit 1 (push_bit (Suc k) x) = push_bit k x"
    by (rule bit_word_eqI) (use assms in \<open>auto simp: bit_simps simp del: push_bit_Suc dest: bit_lt_256\<close>)
  moreover have "push_bit (Suc k) x AND 1 = 0"
    by (simp add: and_one_eq mod_2_eq_odd)
  ultimately show ?thesis by (simp add: fcs_bit_step_def)
qed

lemma fcs_bit_steps_high: "x < 256 \<Longrightarrow> n \<le> 8 \<Longrightarrow> (fcs_bit_step ^^ n) (push_bit n x) = x"
proof (induction n)
  case 0
  then show ?case by simp
next
  case (Suc n)
  then show ?case
    by (simp add: funpow_Suc_right fcs_bit_step_push del: funpow.simps push_bit_Suc)
qed

lemma fcs_bit_step_eq_0: "fcs_bit_step a = 0 \<Longrightarrow> a = 0"
proof (rule bit_word_eqI)
  fix n
  assume z: "fcs_bit_step a = 0" and n: "n < LENGTH(16)"
  have low: "\<not> bit a 0"
  proof
    assume "bit a 0"
    moreover have "\<not> bit a 16" using bit_imp_le_length [of a 16] by auto
    ultimately have "bit (fcs_bit_step a) 15"
      by (simp add: fcs_bit_step_def and_one_eq mod_2_eq_odd bit_0 bit_simps FCS16_POLYNOMIAL_REVERSED_def)
    with z show False by simp
  qed
  then have "drop_bit 1 a = 0"
    using z by (simp add: fcs_bit_step_def and_one_eq mod_2_eq_odd bit_0 split: if_splits)
  then have "\<not> bit a (Suc m)" for m
    using bit_drop_bit_eq [of 1 a] by (auto simp: fun_eq_iff)
  with low show "bit a n = bit 0 n" by (cases n) simp_all
qed

lemma fcs_bit_steps_eq_0: "(fcs_bit_step ^^ n) a = 0 \<Longrightarrow> a = 0"
  by (induction n) (auto dest: fcs_bit_step_eq_0)

lemma xor_eq_0_iff: "(a :: 'a::len word) XOR b = 0 \<longleftrightarrow> a = b"
  by (metis xor.assoc xor.right_neutral xor_self_eq)

lemma fcs_bit_steps_inject: "(fcs_bit_step ^^ n) a = (fcs_bit_step ^^ n) b \<longleftrightarrow> a = b"
proof
  assume "(fcs_bit_step ^^ n) a = (fcs_bit_step ^^ n) b"
  then have "(fcs_bit_step ^^ n) (a XOR b) = 0" by (simp add: fcs_bit_steps_xor)
  then show "a = b" using fcs_bit_steps_eq_0 xor_eq_0_iff by blast
qed simp

lemma xor_right_cancel: "(a :: 'a::len word) XOR c = b XOR c \<longleftrightarrow> a = b"
  by (metis xor.assoc xor.right_neutral xor_self_eq)

lemma xor_left_cancel: "(c :: 'a::len word) XOR a = c XOR b \<longleftrightarrow> a = b"
  by (simp add: xor.commute [of c] xor_right_cancel)

lemma update_fcs16_inject_fcs: "update_fcs16 a o1 = update_fcs16 b o1 \<longleftrightarrow> a = b"
  by (simp add: update_fcs16_def fcs_bit_steps_inject xor_right_cancel)

lemma ucast_16_8: "ucast (ucast (a :: u8) :: u16) = a"
  by (rule bit_word_eqI) (simp add: bit_simps)

lemma ucast_8_16_inject: "(ucast (a :: u8) :: u16) = ucast b \<longleftrightarrow> a = b"
  by (metis ucast_16_8)

lemma update_fcs16_inject_octet: "update_fcs16 f a = update_fcs16 f b \<longleftrightarrow> a = b"
  by (simp add: update_fcs16_def fcs_bit_steps_inject xor_left_cancel ucast_8_16_inject)

lemma foldl_fcs_inject: "foldl update_fcs16 a bs = foldl update_fcs16 b bs \<longleftrightarrow> a = b"
  by (induction bs arbitrary: a b) (simp_all add: update_fcs16_inject_fcs)

section \<open>The two octets of the complement reach the good value\<close>

lemma ff_mask: "(0xff :: u16) = mask 8" "(0xffff :: u16) = mask 16"
  by (simp_all add: mask_eq_exp_minus_1)

lemma xor_low_octet:
  "x XOR ucast (ucast (x XOR 0xffff :: u16) :: u8) = push_bit 8 (drop_bit 8 x) XOR (0xff :: u16)"
  unfolding ff_mask by (rule bit_word_eqI) (auto simp: bit_simps bit_mask_iff)

lemma xor_high_octet:
  "(drop_bit 8 x XOR t) XOR ucast (ucast (drop_bit 8 (x XOR 0xffff :: u16)) :: u8) = t XOR (0xff :: u16)"
  unfolding ff_mask by (rule bit_word_eqI) (auto simp: bit_simps bit_mask_iff dest: bit_imp_le_length)

lemma to_le16_drop: "to_le16 w = [ucast w, ucast (drop_bit 8 w)]"
proof -
  have "(of_nat (unat w div 256) :: u8) = ucast (drop_bit 8 w)"
    by (simp add: word_unat_eq_iff unat_of_nat8 unsigned_ucast_eq unsigned_drop_bit_eq
        drop_bit_eq_div take_bit_eq_mod unat_div)
  then show ?thesis by (simp add: to_le16_def)
qed

lemma fcs_bit_steps_eval:
  "(fcs_bit_step ^^ 8) 0xff = 0x0f78"
  "(fcs_bit_step ^^ 8) (0x0f78 XOR 0xff) = GOOD_FCS16"
  by (simp_all add: fcs_eval)

lemma drop_bit_8_lt: "drop_bit 8 (x :: u16) < 256"
  by (simp add: word_less_nat_alt unsigned_drop_bit_eq drop_bit_eq_div unat_div less_mult_imp_div_less)

lemma fcs_residue: "foldl update_fcs16 x (to_le16 (x XOR 0xffff)) = GOOD_FCS16"
proof -
  have "update_fcs16 x (ucast (x XOR 0xffff)) = (fcs_bit_step ^^ 8) (push_bit 8 (drop_bit 8 x) XOR 0xff)"
    by (simp only: update_fcs16_def xor_low_octet)
  also have "\<dots> = drop_bit 8 x XOR 0x0f78"
    by (simp only: fcs_bit_steps_xor fcs_bit_steps_eval fcs_bit_steps_high drop_bit_8_lt order_refl)
  finally have "foldl update_fcs16 x (to_le16 (x XOR 0xffff)) =
      (fcs_bit_step ^^ 8) (0x0f78 XOR 0xff)"
    by (simp only: to_le16_drop foldl.simps update_fcs16_def xor_high_octet)
  then show ?thesis by (simp only: fcs_bit_steps_eval)
qed

lemma append_fcs16_valid: "has_valid_fcs16 (append_fcs16 frame)"
  by (simp add: has_valid_fcs16_def append_fcs16_def transmitted_fcs16_def fcs16_def fcs_residue)

lemma length_append_fcs16 [simp]: "length (append_fcs16 frame) = length frame + 2"
  by (simp add: append_fcs16_def)

text \<open>
  C2: the frame check sequence detects every change of a single octet, wherever it is in the
  frame (the appended checksum included): if a frame passes the receiver's test, the same frame
  with one octet replaced by a different one fails it.
\<close>

theorem fcs_detects_octet_change:
  assumes "has_valid_fcs16 (xs @ a # ys)" and "b \<noteq> a"
  shows "\<not> has_valid_fcs16 (xs @ b # ys)"
proof
  assume "has_valid_fcs16 (xs @ b # ys)"
  with assms(1) have "foldl update_fcs16 (update_fcs16 (fcs16 xs) a) ys =
      foldl update_fcs16 (update_fcs16 (fcs16 xs) b) ys"
    by (simp add: has_valid_fcs16_def fcs16_def)
  then have "a = b" by (simp only: foldl_fcs_inject update_fcs16_inject_octet)
  with assms(2) show False by simp
qed

theorem fcs_detects_octet_change_witness:
  "has_valid_fcs16 [0xff, 0x03, 0xc0, 0x21, 0x01, 0x01, 0x00, 0x04, 0xd1, 0xb5] \<and>
   \<not> has_valid_fcs16 [0xff, 0x03, 0xc0, 0x21, 0x01, 0x01, 0x00, 0x05, 0xd1, 0xb5]"
proof -
  have v: "has_valid_fcs16 ([0xff, 0x03, 0xc0, 0x21, 0x01, 0x01, 0x00] @ 0x04 # [0xd1, 0xb5])"
    by (simp add: fcs_eval)
  show ?thesis using v fcs_detects_octet_change [OF v, of "0x05"] by simp
qed

end
