(* ===== verification/Hdlc_Encoder.thy ===== *)
theory Hdlc_Encoder
  imports Fcs
begin

text \<open>
  Asynchronous framing, sending side (\<^verbatim>\<open>encode_async\<close> and \<^verbatim>\<open>AsyncEncoder\<close> of
  \<^verbatim>\<open>crates/ndm24-ppp/src/lib.rs\<close>). The one-shot encoder is the specification; the restartable
  encoder refines it: its abstraction \<open>remaining\<close> is the list of wire octets still to be sent,
  \<open>peek\<close> is its head and \<open>advance\<close> its tail. The interface \<open>octet_source\<close> states that contract;
  what \<open>pump\<close> delivers to a transport that may refuse octets is proved from it.
\<close>

section \<open>Transparency\<close>

definition accm_contains :: "u32 \<Rightarrow> u8 \<Rightarrow> bool" where
  "accm_contains accm octet \<longleftrightarrow> octet < 0x20 \<and> accm AND push_bit (unat octet) 1 \<noteq> 0"

definition must_escape :: "u8 \<Rightarrow> u32 \<Rightarrow> bool" where
  "must_escape octet send_accm \<longleftrightarrow>
     octet = FLAG_SEQUENCE \<or> octet = CONTROL_ESCAPE \<or> accm_contains send_accm octet"

definition escape_octet :: "u32 \<Rightarrow> u8 \<Rightarrow> bytes" where
  "escape_octet send_accm octet =
     (if must_escape octet send_accm then [CONTROL_ESCAPE, octet XOR TRANSPARENCY_XOR] else [octet])"

definition encode_async :: "bytes \<Rightarrow> u32 \<Rightarrow> bytes" where
  "encode_async frame send_accm =
     FLAG_SEQUENCE # concat (map (escape_octet send_accm) (append_fcs16 frame)) @ [FLAG_SEQUENCE]"

section \<open>The restartable encoder\<close>

datatype encoder_stage = OpeningFlag | Frame_Stage | FcsLow | FcsHigh | ClosingFlag | Complete

record async_encoder =
  enc_frame :: bytes
  enc_send_accm :: u32
  enc_position :: nat
  enc_fcs :: u16
  enc_stage :: encoder_stage
  enc_escape_second :: bool

definition encoder_new :: "bytes \<Rightarrow> u32 \<Rightarrow> async_encoder" where
  "encoder_new frame send_accm =
     \<lparr>enc_frame = frame, enc_send_accm = send_accm, enc_position = 0, enc_fcs = INITIAL_FCS16,
      enc_stage = OpeningFlag, enc_escape_second = False\<rparr>"

definition is_complete :: "async_encoder \<Rightarrow> bool" where
  "is_complete e \<longleftrightarrow> enc_stage e = Complete"

text \<open>\<^verbatim>\<open>logical_octet\<close> panics outside its three stages and for a position past the frame.\<close>

definition logical_octet :: "async_encoder \<Rightarrow> (u8, unit) result" where
  "logical_octet e = (case enc_stage e of
     Frame_Stage \<Rightarrow> if enc_position e < length (enc_frame e) then Ok (enc_frame e ! enc_position e) else Panic
   | FcsLow \<Rightarrow> Ok (to_le16 (enc_fcs e XOR 0xffff) ! 0)
   | FcsHigh \<Rightarrow> Ok (to_le16 (enc_fcs e XOR 0xffff) ! 1)
   | _ \<Rightarrow> Panic)"

definition finish_logical_octet :: "async_encoder \<Rightarrow> u8 \<Rightarrow> (unit, unit) result \<times> async_encoder" where
  "finish_logical_octet e octet = (case enc_stage e of
     Frame_Stage \<Rightarrow>
       (Ok (), e\<lparr>enc_fcs := update_fcs16 (enc_fcs e) octet, enc_position := enc_position e + 1,
          enc_stage := if enc_position e + 1 = length (enc_frame e) then FcsLow else Frame_Stage\<rparr>)
   | FcsLow \<Rightarrow> (Ok (), e\<lparr>enc_stage := FcsHigh\<rparr>)
   | FcsHigh \<Rightarrow> (Ok (), e\<lparr>enc_stage := ClosingFlag\<rparr>)
   | _ \<Rightarrow> (Panic, e))"

definition peek :: "async_encoder \<Rightarrow> (u8 option, unit) result" where
  "peek e = (case enc_stage e of
     OpeningFlag \<Rightarrow> Ok (Some FLAG_SEQUENCE)
   | ClosingFlag \<Rightarrow> Ok (Some FLAG_SEQUENCE)
   | Complete \<Rightarrow> Ok None
   | _ \<Rightarrow> and_then (logical_octet e) (\<lambda>octet.
       if must_escape octet (enc_send_accm e)
       then Ok (Some (if enc_escape_second e then octet XOR TRANSPARENCY_XOR else CONTROL_ESCAPE))
       else Ok (Some octet)))"

definition advance :: "async_encoder \<Rightarrow> (unit, unit) result \<times> async_encoder" where
  "advance e = (case enc_stage e of
     OpeningFlag \<Rightarrow> (Ok (), e\<lparr>enc_stage := if enc_frame e = [] then FcsLow else Frame_Stage\<rparr>)
   | ClosingFlag \<Rightarrow> (Ok (), e\<lparr>enc_stage := Complete\<rparr>)
   | Complete \<Rightarrow> (Ok (), e)
   | _ \<Rightarrow> and_then_st (logical_octet e, e) (\<lambda>octet e.
       if must_escape octet (enc_send_accm e) \<and> \<not> enc_escape_second e
       then (Ok (), e\<lparr>enc_escape_second := True\<rparr>)
       else finish_logical_octet (e\<lparr>enc_escape_second := False\<rparr>) octet))"

lemmas encoder_defs = peek_def advance_def logical_octet_def finish_logical_octet_def

text \<open>How many steps an encoder can still make, whatever its state: the loop of \<open>pump\<close> ends.\<close>

fun encoder_fuel :: "async_encoder \<Rightarrow> nat" where
  "encoder_fuel e = (let k = (if enc_escape_second e then 0 else 1) in case enc_stage e of
     OpeningFlag \<Rightarrow> 2 * length (enc_frame e) + 6
   | Frame_Stage \<Rightarrow> 2 * (length (enc_frame e) - enc_position e) + 4 + k
   | FcsLow \<Rightarrow> 4 + k
   | FcsHigh \<Rightarrow> 2 + k
   | ClosingFlag \<Rightarrow> 1
   | Complete \<Rightarrow> 0)"

lemma advance_fuel:
  assumes "peek e = Ok (Some x)" "advance e = (Ok (), e')"
  shows "encoder_fuel e' < encoder_fuel e"
  using assms
  by (auto simp: encoder_defs Let_def split: encoder_stage.splits if_splits)

text \<open>
  The sink is Rust's \<^verbatim>\<open>FnMut(u8) -> bool\<close>: a function of its own state and the offered octet.
\<close>

function pump_loop ::
  "('k \<Rightarrow> u8 \<Rightarrow> bool \<times> 'k) \<Rightarrow> nat \<Rightarrow> 'k \<Rightarrow> async_encoder \<Rightarrow> (nat, unit) result \<times> async_encoder \<times> 'k"
where
  "pump_loop accept accepted k e = (case peek e of
     Ok (Some octet) \<Rightarrow>
       (let (taken, k') = accept k octet in
        if \<not> taken then (Ok accepted, e, k')
        else (case advance e of
            (Ok _, e') \<Rightarrow> pump_loop accept (accepted + 1) k' e'
          | (Err u, e') \<Rightarrow> (Err u, e', k')
          | (Panic, e') \<Rightarrow> (Panic, e', k')))
   | Ok None \<Rightarrow> (Ok accepted, e, k)
   | Err u \<Rightarrow> (Err u, e, k)
   | Panic \<Rightarrow> (Panic, e, k))"
  by pat_completeness auto
termination
  by (relation "measure (\<lambda>(accept, accepted, k, e). encoder_fuel e)")
    (auto intro: advance_fuel simp del: encoder_fuel.simps)

declare pump_loop.simps [simp del]

definition pump ::
  "('k \<Rightarrow> u8 \<Rightarrow> bool \<times> 'k) \<Rightarrow> 'k \<Rightarrow> async_encoder \<Rightarrow> (nat, unit) result \<times> async_encoder \<times> 'k"
where "pump accept k e = pump_loop accept 0 k e"

section \<open>The contract of an octet source\<close>

text \<open>
  What the transmitter relies on: while the invariant holds, \<open>peek\<close> shows the first outstanding
  octet without changing anything, and \<open>advance\<close> drops exactly that octet.
\<close>

fun offer :: "('k \<Rightarrow> u8 \<Rightarrow> bool \<times> 'k) \<Rightarrow> 'k \<Rightarrow> bytes \<Rightarrow> nat \<times> 'k" where
  "offer accept k [] = (0, k)"
| "offer accept k (x # xs) = (let (taken, k') = accept k x in
     if taken then (let (n, k'') = offer accept k' xs in (n + 1, k'')) else (0, k'))"

text \<open>A transport with room for \<open>room\<close> more octets, and what it has accepted so far.\<close>

fun bounded_sink :: "nat \<times> bytes \<Rightarrow> u8 \<Rightarrow> bool \<times> (nat \<times> bytes)" where
  "bounded_sink (room, out) x = (if room = 0 then (False, (room, out)) else (True, (room - 1, out @ [x])))"

lemma offer_bounded_sink:
  "offer bounded_sink (room, out) xs =
     (min room (length xs), (room - length xs, out @ take room xs))"
proof (induction xs arbitrary: room out)
  case Nil
  then show ?case by simp
next
  case (Cons x xs)
  then show ?case by (cases room) simp_all
qed

locale octet_source =
  fixes next_octet :: "'s \<Rightarrow> (u8 option, unit) result"
    and commit :: "'s \<Rightarrow> (unit, unit) result \<times> 's"
    and run :: "('k \<Rightarrow> u8 \<Rightarrow> bool \<times> 'k) \<Rightarrow> nat \<Rightarrow> 'k \<Rightarrow> 's \<Rightarrow> (nat, unit) result \<times> 's \<times> 'k"
    and outstanding :: "'s \<Rightarrow> bytes"
    and inv :: "'s \<Rightarrow> bool"
  assumes next_octet: "inv s \<Longrightarrow>
      next_octet s = Ok (case outstanding s of [] \<Rightarrow> None | x # _ \<Rightarrow> Some x)"
    and commit: "inv s \<Longrightarrow> outstanding s \<noteq> [] \<Longrightarrow>
      \<exists>s'. commit s = (Ok (), s') \<and> inv s' \<and> outstanding s' = tl (outstanding s)"
    and run_loop: "run accept n k s = (case next_octet s of
        Ok (Some x) \<Rightarrow> (let (taken, k') = accept k x in
          if \<not> taken then (Ok n, s, k')
          else (case commit s of
              (Ok _, s') \<Rightarrow> run accept (n + 1) k' s'
            | (Err u, s') \<Rightarrow> (Err u, s', k')
            | (Panic, s') \<Rightarrow> (Panic, s', k')))
      | Ok None \<Rightarrow> (Ok n, s, k)
      | Err u \<Rightarrow> (Err u, s, k)
      | Panic \<Rightarrow> (Panic, s, k))"
begin

lemma run_offers:
  assumes "inv s" "outstanding s = xs"
  shows "\<exists>s'. run accept n k s = (Ok (n + fst (offer accept k xs)), s', snd (offer accept k xs)) \<and>
           inv s' \<and> outstanding s' = drop (fst (offer accept k xs)) xs"
  using assms
proof (induction xs arbitrary: s n k)
  case Nil
  then show ?case by (subst run_loop) (simp add: next_octet)
next
  case (Cons x xs)
  obtain taken k' where a: "accept k x = (taken, k')" by fastforce
  show ?case
  proof (cases taken)
    case False
    with Cons.prems a show ?thesis by (subst run_loop) (simp add: next_octet)
  next
    case True
    from commit [OF Cons.prems(1)] Cons.prems(2) obtain s1
      where s1: "commit s = (Ok (), s1)" "inv s1" "outstanding s1 = xs" by auto
    from Cons.IH [OF s1(2,3), of "n + 1" k'] obtain s' where
      "run accept (n + 1) k' s1 = (Ok (n + 1 + fst (offer accept k' xs)), s', snd (offer accept k' xs))"
      "inv s'" "outstanding s' = drop (fst (offer accept k' xs)) xs" by auto
    with Cons.prems a True s1(1) show ?thesis
      by (subst run_loop) (simp add: next_octet split: prod.splits)
  qed
qed

end

section \<open>The restartable encoder is an octet source\<close>

abbreviation wire :: "u32 \<Rightarrow> bytes \<Rightarrow> bytes" where
  "wire accm bs \<equiv> concat (map (escape_octet accm) bs)"

text \<open>The unescaped octets the encoder has not finished yet.\<close>

definition logical_rest :: "async_encoder \<Rightarrow> bytes" where
  "logical_rest e = (case enc_stage e of
     FcsLow \<Rightarrow> to_le16 (enc_fcs e XOR 0xffff)
   | FcsHigh \<Rightarrow> [to_le16 (enc_fcs e XOR 0xffff) ! 1]
   | ClosingFlag \<Rightarrow> []
   | Complete \<Rightarrow> []
   | _ \<Rightarrow> (let rest = drop (enc_position e) (enc_frame e)
          in rest @ to_le16 (foldl update_fcs16 (enc_fcs e) rest XOR 0xffff)))"

definition remaining :: "async_encoder \<Rightarrow> bytes" where
  "remaining e = (let w = wire (enc_send_accm e) (logical_rest e) @ [FLAG_SEQUENCE] in
     case enc_stage e of
       OpeningFlag \<Rightarrow> FLAG_SEQUENCE # w
     | Complete \<Rightarrow> []
     | _ \<Rightarrow> if enc_escape_second e then tl w else w)"

definition encoder_inv :: "async_encoder \<Rightarrow> bool" where
  "encoder_inv e \<longleftrightarrow>
     (enc_stage e = OpeningFlag \<longrightarrow> enc_position e = 0) \<and>
     (enc_stage e = Frame_Stage \<longrightarrow> enc_position e < length (enc_frame e)) \<and>
     (enc_escape_second e \<longrightarrow> (\<exists>octet. logical_octet e = Ok octet \<and> must_escape octet (enc_send_accm e)))"

lemma to_le16_cases: "\<exists>lo hi. to_le16 w = [lo, hi]"
  by (simp add: to_le16_def)

lemma logical_octet_rest:
  assumes "encoder_inv e" "enc_stage e \<in> {Frame_Stage, FcsLow, FcsHigh}"
  shows "\<exists>octet rest. logical_octet e = Ok octet \<and> logical_rest e = octet # rest \<and>
     (\<exists>e'. finish_logical_octet (e\<lparr>enc_escape_second := False\<rparr>) octet = (Ok (), e') \<and>
       encoder_inv e' \<and> remaining e' = wire (enc_send_accm e) rest @ [FLAG_SEQUENCE])"
proof -
  obtain lo hi where l: "to_le16 (enc_fcs e XOR 0xffff) = [lo, hi]" using to_le16_cases by blast
  from assms(2) consider "enc_stage e = Frame_Stage" | "enc_stage e = FcsLow" | "enc_stage e = FcsHigh"
    by auto
  then show ?thesis
  proof cases
    case 1
    with assms(1) have p: "enc_position e < length (enc_frame e)" by (simp add: encoder_inv_def)
    then have d: "drop (enc_position e) (enc_frame e) =
        enc_frame e ! enc_position e # drop (Suc (enc_position e)) (enc_frame e)"
      by (simp add: Cons_nth_drop_Suc)
    show ?thesis
      by (cases "Suc (enc_position e) = length (enc_frame e)")
        (use 1 p d in \<open>simp_all add: logical_octet_def logical_rest_def finish_logical_octet_def
          encoder_inv_def remaining_def Let_def\<close>)
  next
    case 2
    with l show ?thesis
      by (simp add: logical_octet_def logical_rest_def finish_logical_octet_def encoder_inv_def
          remaining_def Let_def)
  next
    case 3
    with l show ?thesis
      by (simp add: logical_octet_def logical_rest_def finish_logical_octet_def encoder_inv_def
          remaining_def Let_def)
  qed
qed

lemma remaining_logical:
  assumes "enc_stage e \<in> {Frame_Stage, FcsLow, FcsHigh}"
  shows "remaining e =
    (if enc_escape_second e then tl (wire (enc_send_accm e) (logical_rest e) @ [FLAG_SEQUENCE])
     else wire (enc_send_accm e) (logical_rest e) @ [FLAG_SEQUENCE])"
  using assms by (auto simp: remaining_def Let_def)

lemma peek_logical:
  assumes "enc_stage e \<in> {Frame_Stage, FcsLow, FcsHigh}" "logical_octet e = Ok octet"
  shows "peek e = Ok (Some (if must_escape octet (enc_send_accm e)
     then (if enc_escape_second e then octet XOR TRANSPARENCY_XOR else CONTROL_ESCAPE) else octet))"
  using assms by (auto simp: peek_def)

lemma advance_logical:
  assumes "enc_stage e \<in> {Frame_Stage, FcsLow, FcsHigh}" "logical_octet e = Ok octet"
  shows "advance e =
    (if must_escape octet (enc_send_accm e) \<and> \<not> enc_escape_second e
     then (Ok (), e\<lparr>enc_escape_second := True\<rparr>)
     else finish_logical_octet (e\<lparr>enc_escape_second := False\<rparr>) octet)"
  using assms by (auto simp: advance_def)

lemma logical_octet_escape_second [simp]:
  "logical_octet (e\<lparr>enc_escape_second := b\<rparr>) = logical_octet e"
  "logical_rest (e\<lparr>enc_escape_second := b\<rparr>) = logical_rest e"
  by (cases "enc_stage e"; simp add: logical_octet_def logical_rest_def)+

lemma peek_remaining:
  assumes "encoder_inv e"
  shows "peek e = Ok (case remaining e of [] \<Rightarrow> None | x # _ \<Rightarrow> Some x)"
proof (cases "enc_stage e \<in> {Frame_Stage, FcsLow, FcsHigh}")
  case True
  obtain octet rest where o: "logical_octet e = Ok octet" "logical_rest e = octet # rest"
    using logical_octet_rest [OF assms True] by auto
  have "enc_escape_second e \<Longrightarrow> must_escape octet (enc_send_accm e)"
    using assms o(1) by (auto simp: encoder_inv_def)
  with o show ?thesis
    by (simp add: peek_logical [OF True o(1)] remaining_logical [OF True] escape_octet_def)
next
  case False
  with assms show ?thesis
    by (cases "enc_stage e") (auto simp: peek_def remaining_def encoder_inv_def logical_octet_def
        logical_rest_def Let_def)
qed

lemma advance_remaining:
  assumes inv: "encoder_inv e" and rem: "remaining e \<noteq> []"
  shows "\<exists>e'. advance e = (Ok (), e') \<and> encoder_inv e' \<and> remaining e' = tl (remaining e)"
proof (cases "enc_stage e \<in> {Frame_Stage, FcsLow, FcsHigh}")
  case True
  obtain octet rest e' where o: "logical_octet e = Ok octet" "logical_rest e = octet # rest"
      "finish_logical_octet (e\<lparr>enc_escape_second := False\<rparr>) octet = (Ok (), e')" "encoder_inv e'"
      "remaining e' = wire (enc_send_accm e) rest @ [FLAG_SEQUENCE]"
    using logical_octet_rest [OF inv True] by auto
  show ?thesis
  proof (cases "must_escape octet (enc_send_accm e) \<and> \<not> enc_escape_second e")
    case esc: True
    let ?e = "e\<lparr>enc_escape_second := True\<rparr>"
    have "encoder_inv ?e" using inv o(1) esc by (simp add: encoder_inv_def)
    moreover have "remaining ?e = tl (remaining e)"
      using True esc o(2) by (simp add: remaining_logical)
    ultimately show ?thesis using esc by (simp add: advance_logical [OF True o(1)])
  next
    case plain: False
    have "enc_escape_second e \<Longrightarrow> must_escape octet (enc_send_accm e)"
      using inv o(1) by (auto simp: encoder_inv_def)
    with plain o True show ?thesis
      by (auto simp: advance_logical [OF True o(1)] remaining_logical [OF True] escape_octet_def)
  qed
next
  case False
  with rem have "enc_stage e = OpeningFlag \<or> enc_stage e = ClosingFlag"
    by (cases "enc_stage e") (auto simp: remaining_def Let_def)
  then have calm: "\<not> enc_escape_second e"
    using inv by (auto simp: encoder_inv_def logical_octet_def)
  from \<open>enc_stage e = OpeningFlag \<or> enc_stage e = ClosingFlag\<close> show ?thesis
  proof
    assume o: "enc_stage e = OpeningFlag"
    with inv have "enc_position e = 0" by (simp add: encoder_inv_def)
    with o calm show ?thesis
      by (cases "enc_frame e = []")
        (simp_all add: advance_def encoder_inv_def remaining_def logical_rest_def Let_def)
  next
    assume "enc_stage e = ClosingFlag"
    with calm show ?thesis
      by (simp add: advance_def encoder_inv_def remaining_def logical_rest_def Let_def)
  qed
qed

interpretation encoder: octet_source peek advance pump_loop remaining encoder_inv
proof (unfold_locales, goal_cases)
  case (1 s)
  then show ?case by (rule peek_remaining)
next
  case (2 s)
  then show ?case by (rule advance_remaining)
next
  case (3 accept n k s)
  show ?case by (rule pump_loop.simps)
qed

lemma encoder_new_inv [simp]: "encoder_inv (encoder_new frame send_accm)"
  by (simp add: encoder_new_def encoder_inv_def)

lemma remaining_new [simp]: "remaining (encoder_new frame send_accm) = encode_async frame send_accm"
  by (simp add: encoder_new_def remaining_def logical_rest_def encode_async_def append_fcs16_def
      transmitted_fcs16_def fcs16_def Let_def)

lemma remaining_Nil_iff:
  assumes "encoder_inv e"
  shows "remaining e = [] \<longleftrightarrow> is_complete e"
proof (cases "enc_stage e \<in> {Frame_Stage, FcsLow, FcsHigh}")
  case True
  then obtain octet rest where "logical_rest e = octet # rest"
    using logical_octet_rest [OF assms True] by auto
  with True show ?thesis
    by (auto simp: remaining_logical [OF True] escape_octet_def is_complete_def)
next
  case False
  with assms show ?thesis
    by (cases "enc_stage e") (auto simp: remaining_def is_complete_def encoder_inv_def
        logical_octet_def logical_rest_def Let_def)
qed

section \<open>Stages are passed in order\<close>

fun stage_rank :: "encoder_stage \<Rightarrow> nat" where
  "stage_rank OpeningFlag = 0"
| "stage_rank Frame_Stage = 1"
| "stage_rank FcsLow = 2"
| "stage_rank FcsHigh = 3"
| "stage_rank ClosingFlag = 4"
| "stage_rank Complete = 5"

lemma stage_rank_inject: "stage_rank a = stage_rank b \<longleftrightarrow> a = b"
  by (cases a; cases b) simp_all

instantiation encoder_stage :: linorder
begin

definition less_eq_encoder_stage :: "encoder_stage \<Rightarrow> encoder_stage \<Rightarrow> bool" where
  "less_eq_encoder_stage a b \<longleftrightarrow> stage_rank a \<le> stage_rank b"

definition less_encoder_stage :: "encoder_stage \<Rightarrow> encoder_stage \<Rightarrow> bool" where
  "less_encoder_stage a b \<longleftrightarrow> stage_rank a < stage_rank b"

instance
  by intro_classes (auto simp: less_eq_encoder_stage_def less_encoder_stage_def stage_rank_inject)

end

lemma advance_stage_mono: "enc_stage e \<le> enc_stage (snd (advance e))"
  by (cases "enc_stage e")
    (auto simp: less_eq_encoder_stage_def encoder_defs)

section \<open>Streaming\<close>

text \<open>
  Repeated \<open>pump\<close> calls into a transport that has room for \<open>r\<close> octets in the first call, and so
  on: what has been transmitted, and the encoder that is left.
\<close>

fun pump_rooms :: "nat list \<Rightarrow> bytes \<Rightarrow> async_encoder \<Rightarrow> bytes \<times> async_encoder" where
  "pump_rooms [] out e = (out, e)"
| "pump_rooms (room # rooms) out e =
     (case pump bounded_sink (room, out) e of (r, e', room', out') \<Rightarrow> pump_rooms rooms out' e')"

lemma pump_bounded:
  assumes "encoder_inv e"
  shows "\<exists>e'. pump bounded_sink (room, out) e =
       (Ok (min room (length (remaining e))), e',
        (room - length (remaining e), out @ take room (remaining e))) \<and>
     encoder_inv e' \<and> remaining e' = drop room (remaining e)"
  using encoder.run_offers [OF assms refl, of bounded_sink 0 "(room, out)"]
  by (auto simp: pump_def offer_bounded_sink min_def split: if_splits)

lemma pump_rooms_remaining:
  assumes "encoder_inv e"
  shows "\<exists>e'. pump_rooms rooms out e = (out @ take (sum_list rooms) (remaining e), e') \<and>
     encoder_inv e' \<and> remaining e' = drop (sum_list rooms) (remaining e)"
  using assms
proof (induction rooms arbitrary: out e)
  case Nil
  then show ?case by simp
next
  case (Cons room rooms)
  from pump_bounded [OF Cons.prems, of room out] obtain e1 where
    e1: "pump bounded_sink (room, out) e = (Ok (min room (length (remaining e))), e1,
        (room - length (remaining e), out @ take room (remaining e)))"
      "encoder_inv e1" "remaining e1 = drop room (remaining e)" by blast
  from Cons.IH [OF e1(2), of "out @ take room (remaining e)"] e1 show ?case
    by (auto simp: take_add add.commute)
qed

text \<open>
  C3: streaming with back-pressure is the same as encoding at once. However the transport's
  room is cut up over calls of \<open>pump\<close>, the octets transmitted are a prefix of the one-shot
  encoding, as long as the room that was given, nothing lost or sent twice; and the encoder
  reports completion exactly when the whole encoding has been accepted.
\<close>

theorem streaming_is_one_shot:
  "fst (pump_rooms rooms [] (encoder_new frame send_accm)) =
     take (sum_list rooms) (encode_async frame send_accm) \<and>
   (is_complete (snd (pump_rooms rooms [] (encoder_new frame send_accm))) \<longleftrightarrow>
     length (encode_async frame send_accm) \<le> sum_list rooms)"
proof -
  obtain e' where e': "pump_rooms rooms [] (encoder_new frame send_accm) =
      (take (sum_list rooms) (encode_async frame send_accm), e')"
      "encoder_inv e'" "remaining e' = drop (sum_list rooms) (encode_async frame send_accm)"
    using pump_rooms_remaining [of "encoder_new frame send_accm" rooms "[]"] by auto
  then show ?thesis by (simp flip: remaining_Nil_iff)
qed

text \<open>
  With any sink, a call of \<open>pump\<close> on an encoder reached from \<open>new\<close> returns without
  panicking; it offers the outstanding octets in order until the sink refuses one, counts the
  accepted ones, and leaves exactly the refused octet and its successors outstanding.
\<close>

theorem pump_delivers_prefix:
  assumes "encoder_inv e"
  shows "\<exists>e'. pump accept k e =
       (Ok (fst (offer accept k (remaining e))), e', snd (offer accept k (remaining e))) \<and>
     encoder_inv e' \<and> remaining e' = drop (fst (offer accept k (remaining e))) (remaining e)"
  using encoder.run_offers [OF assms refl, of accept 0 k] by (simp add: pump_def)

theorem pump_delivers_prefix_witness:
  "\<exists>e'. pump bounded_sink (0, []) (encoder_new [0xff] DEFAULT_ACCM) = (Ok 0, e', (0, [])) \<and>
     encoder_inv e' \<and> remaining e' = encode_async [0xff] DEFAULT_ACCM"
  using pump_delivers_prefix [OF encoder_new_inv, of bounded_sink "(0, [])" "[0xff]" DEFAULT_ACCM]
  by (simp add: offer_bounded_sink)

end
