(* ===== verification/Hdlc_Decoder.thy ===== *)
theory Hdlc_Decoder
  imports Hdlc_Encoder
begin

text \<open>
  Asynchronous framing, receiving side (\<^verbatim>\<open>AsyncDecoder\<close> of \<^verbatim>\<open>crates/ndm24-ppp/src/lib.rs\<close>): one
  octet is pushed at a time and each Flag Sequence may yield an event. The specification
  \<open>frame_verdict\<close> says what a flag must report for the octets since the previous flag; the lemmas
  show that the decoder reports exactly that, so that every encoded frame comes out again, from any
  state of the decoder and after any noise.
\<close>

section \<open>State and operations\<close>

datatype invalid_frame_reason = TooShort | EscapeBeforeFlag

datatype decode_event =
    Frame bytes
  | FcsError nat \<comment> \<open>\<^verbatim>\<open>unescaped_length\<close>\<close>
  | InvalidFrame invalid_frame_reason
  | Overflow nat \<comment> \<open>\<^verbatim>\<open>maximum_length\<close>\<close>

record async_decoder =
  dec_receive_accm :: u32
  dec_maximum :: nat
  dec_frame :: bytes
  dec_synchronized :: bool
  dec_escaped :: bool
  dec_overflowed :: bool

definition decoder_new :: "u32 \<Rightarrow> nat \<Rightarrow> async_decoder" where
  "decoder_new receive_accm maximum =
     \<lparr>dec_receive_accm = receive_accm, dec_maximum = maximum, dec_frame = [],
      dec_synchronized = False, dec_escaped = False, dec_overflowed = False\<rparr>"

definition decoder_default :: async_decoder where
  "decoder_default = decoder_new DEFAULT_ACCM DEFAULT_MAX_UNESCAPED_FRAME_LENGTH"

definition decoder_reset :: "async_decoder \<Rightarrow> async_decoder" where
  "decoder_reset d = d\<lparr>dec_frame := [], dec_synchronized := False, dec_escaped := False,
     dec_overflowed := False\<rparr>"

definition finish_at_flag :: "async_decoder \<Rightarrow> decode_event option \<times> async_decoder" where
  "finish_at_flag d =
     (if \<not> dec_synchronized d then
        (None, d\<lparr>dec_synchronized := True, dec_frame := [], dec_escaped := False, dec_overflowed := False\<rparr>)
      else if dec_escaped d then
        (Some (InvalidFrame EscapeBeforeFlag),
         d\<lparr>dec_frame := [], dec_escaped := False, dec_overflowed := False\<rparr>)
      else if dec_overflowed d then
        (Some (Overflow (dec_maximum d)), d\<lparr>dec_frame := [], dec_overflowed := False\<rparr>)
      else if dec_frame d = [] then (None, d)
      else if length (dec_frame d) < MINIMUM_FRAME_WITH_FCS_LENGTH then
        (Some (InvalidFrame TooShort), d\<lparr>dec_frame := []\<rparr>)
      else if \<not> has_valid_fcs16 (dec_frame d) then
        (Some (FcsError (length (dec_frame d))), d\<lparr>dec_frame := []\<rparr>)
      else
        (Some (Frame (take (length (dec_frame d) - FCS16_LENGTH) (dec_frame d))),
         d\<lparr>dec_frame := []\<rparr>))"

definition push :: "async_decoder \<Rightarrow> u8 \<Rightarrow> decode_event option \<times> async_decoder" where
  "push d octet =
     (if octet = FLAG_SEQUENCE then finish_at_flag d
      else if \<not> dec_synchronized d \<or> dec_overflowed d then (None, d)
      else if accm_contains (dec_receive_accm d) octet then (None, d)
      else if \<not> dec_escaped d \<and> octet = CONTROL_ESCAPE then (None, d\<lparr>dec_escaped := True\<rparr>)
      else
        (let decoded = (if dec_escaped d then octet XOR TRANSPARENCY_XOR else octet);
             d = d\<lparr>dec_escaped := False\<rparr>
         in if length (dec_frame d) = dec_maximum d
            then (None, d\<lparr>dec_frame := [], dec_overflowed := True\<rparr>)
            else (None, d\<lparr>dec_frame := dec_frame d @ [decoded]\<rparr>)))"

text \<open>Pushing octets one after the other and collecting the events.\<close>

fun decode_all :: "async_decoder \<Rightarrow> bytes \<Rightarrow> decode_event list \<times> async_decoder" where
  "decode_all d [] = ([], d)"
| "decode_all d (octet # octets) =
     (let (event, d') = push d octet; (events, d'') = decode_all d' octets
      in ((case event of None \<Rightarrow> [] | Some ev \<Rightarrow> [ev]) @ events, d''))"

lemma decode_all_append:
  "decode_all d (xs @ ys) =
     (let (ev1, d1) = decode_all d xs; (ev2, d2) = decode_all d1 ys in (ev1 @ ev2, d2))"
  by (induction xs arbitrary: d) (auto simp: Let_def split: prod.splits)

section \<open>One escaped octet\<close>

lemma lt_32_bit:
  assumes "(x :: u8) < 0x20" "bit x n"
  shows "n < 5"
proof (rule ccontr)
  assume "\<not> n < 5"
  from assms(1) have "unat x < 2 ^ 5" by (simp add: word_less_nat_alt)
  then have "take_bit 5 x = x" by (simp add: word_unat_eq_iff unsigned_take_bit_eq take_bit_nat_eq_self)
  with assms(2) have "bit (take_bit 5 x) n" by simp
  with \<open>\<not> n < 5\<close> show False by (simp add: bit_take_bit_iff)
qed

lemma escaped_octet_plain:
  assumes "must_escape x accm"
  shows "x XOR TRANSPARENCY_XOR \<noteq> FLAG_SEQUENCE" "\<not> x XOR TRANSPARENCY_XOR < 0x20"
proof -
  consider "x < 0x20" | "x = FLAG_SEQUENCE" | "x = CONTROL_ESCAPE"
    using assms by (auto simp: must_escape_def accm_contains_def)
  then have "x XOR TRANSPARENCY_XOR \<noteq> FLAG_SEQUENCE \<and> \<not> x XOR TRANSPARENCY_XOR < 0x20"
  proof cases
    case 1
    have "\<not> bit x 5" "\<not> bit x 6" using lt_32_bit [OF 1] by fastforce+
    then have "bit (x XOR 0x20) 5" "\<not> bit (x XOR 0x20) 6" by (simp_all add: bit_simps)
    moreover have "bit (0x7e :: u8) 6" by simp
    ultimately show ?thesis
      using lt_32_bit [of "x XOR 0x20" 5] by (auto simp: TRANSPARENCY_XOR_def FLAG_SEQUENCE_def)
  qed (simp_all add: FLAG_SEQUENCE_def CONTROL_ESCAPE_def TRANSPARENCY_XOR_def)
  then show "x XOR TRANSPARENCY_XOR \<noteq> FLAG_SEQUENCE" "\<not> x XOR TRANSPARENCY_XOR < 0x20" by simp_all
qed

lemma control_escape_plain [simp]:
  "CONTROL_ESCAPE \<noteq> FLAG_SEQUENCE" "FLAG_SEQUENCE \<noteq> CONTROL_ESCAPE" "\<not> CONTROL_ESCAPE < 0x20"
  by (simp_all add: FLAG_SEQUENCE_def CONTROL_ESCAPE_def)

lemma transparency_involution [simp]: "(x XOR TRANSPARENCY_XOR) XOR TRANSPARENCY_XOR = x"
  by (simp add: xor.assoc)

text \<open>
  The receive map must not remove what the sender sends in the clear: every control character that
  the receiver drops is one the sender escapes.
\<close>

definition accm_covered :: "u32 \<Rightarrow> u32 \<Rightarrow> bool" where
  "accm_covered receive_accm send_accm \<longleftrightarrow>
     (\<forall>octet \<in> set (map word_of_nat [0..<32]). accm_contains receive_accm octet \<longrightarrow> accm_contains send_accm octet)"

lemma accm_coveredD:
  assumes "accm_covered r s" "accm_contains r x"
  shows "accm_contains s x"
proof -
  have "x < 0x20" using assms(2) by (simp add: accm_contains_def)
  then have "unat x < 32" by (simp add: word_less_nat_alt)
  then have "x \<in> word_of_nat ` {0..<32}" by (force intro!: image_eqI [of _ _ "unat x"])
  with assms show ?thesis by (auto simp: accm_covered_def)
qed

abbreviation receiving :: "async_decoder \<Rightarrow> bool" where
  "receiving d \<equiv> dec_synchronized d \<and> \<not> dec_escaped d \<and> \<not> dec_overflowed d"

lemma decode_overflowed:
  assumes "dec_overflowed d" "dec_synchronized d" "FLAG_SEQUENCE \<notin> set xs"
  shows "decode_all d xs = ([], d)"
  using assms by (induction xs) (auto simp: push_def)

lemma flag_notin_escape: "FLAG_SEQUENCE \<notin> set (escape_octet accm x)"
  using escaped_octet_plain(1) [of x accm]
  by (auto simp: escape_octet_def must_escape_def split: if_splits)

section \<open>What a flag reports\<close>

text \<open>
  The specification, from RFC 1662: of the octets since the previous flag the receiver removes the control characters of its
  map, then undoes every escape sequence. The second component says that a Control Escape stood last.
\<close>

fun unescape :: "bytes \<Rightarrow> bytes \<times> bool" where
  "unescape [] = ([], False)"
| "unescape [x] = (if x = CONTROL_ESCAPE then ([], True) else ([x], False))"
| "unescape (x # y # ws) =
     (if x = CONTROL_ESCAPE then apfst (Cons (y XOR TRANSPARENCY_XOR)) (unescape ws)
      else apfst (Cons x) (unescape (y # ws)))"

definition received :: "u32 \<Rightarrow> bytes \<Rightarrow> bytes \<times> bool" where
  "received receive_accm ws = unescape (filter (\<lambda>x. \<not> accm_contains receive_accm x) ws)"

text \<open>
  The event owed for these octets, with the limit \<open>maximum\<close>.
\<close>

definition frame_verdict :: "nat \<Rightarrow> bytes \<times> bool \<Rightarrow> decode_event list" where
  "frame_verdict maximum r =
     (let octets = fst r in
      if maximum < length octets then [Overflow maximum]
      else if snd r then [InvalidFrame EscapeBeforeFlag]
      else if octets = [] then []
      else if length octets < 4 then [InvalidFrame TooShort]
      else if has_valid_fcs16 octets then [Frame (take (length octets - 2) octets)]
      else [FcsError (length octets)])"

lemma unescape_plain: "x \<noteq> CONTROL_ESCAPE \<Longrightarrow> unescape (x # ws) = apfst (Cons x) (unescape ws)"
  by (cases ws) simp_all

text \<open>What a sender escapes comes out as it went in.\<close>

lemma received_escape_octet:
  assumes "accm_covered receive_accm accm"
  shows "received receive_accm (escape_octet accm x @ ws) = apfst (Cons x) (received receive_accm ws)"
proof (cases "must_escape x accm")
  case True
  from escaped_octet_plain [OF True] True show ?thesis
    by (simp add: received_def escape_octet_def accm_contains_def)
next
  case False
  then have "x \<noteq> CONTROL_ESCAPE" "\<not> accm_contains receive_accm x"
    using accm_coveredD [OF assms] by (auto simp: must_escape_def)
  with False show ?thesis by (simp add: received_def escape_octet_def unescape_plain)
qed

lemma received_wire: "accm_covered receive_accm accm \<Longrightarrow> received receive_accm (wire accm octets) = (octets, False)"
proof (induction octets)
  case (Cons x octets)
  then show ?case using received_escape_octet [of receive_accm accm x "wire accm octets"] by simp
qed (simp add: received_def)

text \<open>The decoder refines the specification octet by octet.\<close>

lemma decode_removed:
  assumes "FLAG_SEQUENCE \<notin> set ws"
  shows "decode_all d ws = decode_all d (filter (\<lambda>x. \<not> accm_contains (dec_receive_accm d) x) ws)"
  using assms
proof (induction ws arbitrary: d)
  case (Cons x ws)
  then have x: "x \<noteq> FLAG_SEQUENCE" by auto
  then have "dec_receive_accm (snd (push d x)) = dec_receive_accm d"
    by (simp add: push_def Let_def)
  moreover have "push d x = (None, d)" if "accm_contains (dec_receive_accm d) x"
    using that x by (simp add: push_def)
  ultimately show ?case using Cons.IH [of "snd (push d x)"] Cons.prems by (auto split: prod.splits)
qed simp

lemma decode_unescape:
  assumes "receiving d" "length (dec_frame d) \<le> dec_maximum d" "FLAG_SEQUENCE \<notin> set ws"
    and "\<forall>x \<in> set ws. \<not> accm_contains (dec_receive_accm d) x"
  shows "decode_all d ws =
    ([], if length (dec_frame d) + length (fst (unescape ws)) \<le> dec_maximum d
         then d\<lparr>dec_frame := dec_frame d @ fst (unescape ws), dec_escaped := snd (unescape ws)\<rparr>
         else d\<lparr>dec_frame := [], dec_overflowed := True\<rparr>)"
  using assms
proof (induction ws arbitrary: d rule: unescape.induct)
  case 1
  then show ?case by simp
next
  case (2 x)
  then show ?case by (auto simp: push_def Let_def)
next
  case (3 x y ws)
  have plain: "x \<noteq> FLAG_SEQUENCE" "y \<noteq> FLAG_SEQUENCE" "\<not> accm_contains (dec_receive_accm d) x"
    "\<not> accm_contains (dec_receive_accm d) y" using "3.prems"(3,4) by auto
  let ?full = "length (dec_frame d) = dec_maximum d"
  let ?over = "d\<lparr>dec_frame := [], dec_overflowed := True\<rparr>"
  obtain v rest where step: "decode_all d (x # y # ws) =
      decode_all (if ?full then ?over else d\<lparr>dec_frame := dec_frame d @ [v]\<rparr>) rest"
    and spec: "unescape (x # y # ws) = apfst (Cons v) (unescape rest)" and flags: "FLAG_SEQUENCE \<notin> set rest"
    and IH: "\<not> ?full \<Longrightarrow> decode_all (d\<lparr>dec_frame := dec_frame d @ [v]\<rparr>) rest =
      ([], if length (dec_frame d @ [v]) + length (fst (unescape rest)) \<le> dec_maximum d
           then d\<lparr>dec_frame := (dec_frame d @ [v]) @ fst (unescape rest), dec_escaped := snd (unescape rest)\<rparr> else ?over)"
  proof (cases "x = CONTROL_ESCAPE")
    case True
    let ?v = "y XOR TRANSPARENCY_XOR"
    have "push d x = (None, d\<lparr>dec_escaped := True\<rparr>)" using True plain "3.prems"(1) by (simp add: push_def)
    moreover have "push (d\<lparr>dec_escaped := True\<rparr>) y = (None, if ?full then ?over else d\<lparr>dec_frame := dec_frame d @ [?v]\<rparr>)"
      using plain "3.prems"(1) by (simp add: push_def Let_def)
    ultimately have "decode_all d (x # y # ws) = decode_all (if ?full then ?over else d\<lparr>dec_frame := dec_frame d @ [?v]\<rparr>) ws"
      by (simp split: prod.splits)
    then show thesis
      using that [of ?v ws] True "3.prems" "3.IH"(1) [of "d\<lparr>dec_frame := dec_frame d @ [?v]\<rparr>"] by simp
  next
    case False
    have "push d x = (None, if ?full then ?over else d\<lparr>dec_frame := dec_frame d @ [x]\<rparr>)"
      using False plain "3.prems"(1) by (simp add: push_def Let_def)
    then have "decode_all d (x # y # ws) = decode_all (if ?full then ?over else d\<lparr>dec_frame := dec_frame d @ [x]\<rparr>) (y # ws)"
      by (subst decode_all.simps) (simp del: decode_all.simps split: prod.splits)
    then show thesis
      using that [of x "y # ws"] False "3.prems" "3.IH"(2) [of "d\<lparr>dec_frame := dec_frame d @ [x]\<rparr>"]
      by (simp del: decode_all.simps)
  qed
  show ?case
  proof (cases ?full)
    case True
    have "decode_all ?over rest = ([], ?over)" using "3.prems"(1) flags by (simp add: decode_overflowed)
    with True show ?thesis by (simp only: step spec) simp
  next
    case False
    with IH show ?thesis by (simp only: step spec) simp
  qed
qed

definition decoder_idle :: "async_decoder \<Rightarrow> bool" where
  "decoder_idle d \<longleftrightarrow> receiving d \<and> dec_frame d = []"

lemma finish_at_flag_idle: "decoder_idle (snd (finish_at_flag d))"
  by (auto simp: finish_at_flag_def decoder_idle_def)

lemma finish_at_flag_config [simp]:
  "dec_receive_accm (snd (finish_at_flag d)) = dec_receive_accm d"
  "dec_maximum (snd (finish_at_flag d)) = dec_maximum d"
  by (simp_all add: finish_at_flag_def)

lemma push_flag [simp]: "push d FLAG_SEQUENCE = finish_at_flag d"
  by (simp add: push_def)

lemma idle_update: "decoder_idle d \<Longrightarrow> d\<lparr>dec_frame := []\<rparr> = d"
  by (simp add: decoder_idle_def)

lemma decode_idle_received:
  assumes "decoder_idle d" "FLAG_SEQUENCE \<notin> set ws"
  shows "decode_all d (ws @ [FLAG_SEQUENCE]) = (frame_verdict (dec_maximum d) (received (dec_receive_accm d) ws), d)"
proof -
  let ?r = "received (dec_receive_accm d) ws"
  have w: "decode_all d ws =
    ([], if length (fst ?r) \<le> dec_maximum d then d\<lparr>dec_frame := fst ?r, dec_escaped := snd ?r\<rparr>
         else d\<lparr>dec_frame := [], dec_overflowed := True\<rparr>)"
  proof -
    let ?ws = "filter (\<lambda>x. \<not> accm_contains (dec_receive_accm d) x) ws"
    have "decode_all d ?ws = ([], if length (dec_frame d) + length (fst (unescape ?ws)) \<le> dec_maximum d
         then d\<lparr>dec_frame := dec_frame d @ fst (unescape ?ws), dec_escaped := snd (unescape ?ws)\<rparr>
         else d\<lparr>dec_frame := [], dec_overflowed := True\<rparr>)"
      by (rule decode_unescape) (use assms in \<open>auto simp: decoder_idle_def\<close>)
    moreover have "dec_frame d = []" using assms(1) by (simp add: decoder_idle_def)
    ultimately show ?thesis by (simp only: decode_removed [OF assms(2)] received_def append_Nil list.size add_0)
  qed
  have restored: "d\<lparr>dec_frame := [], dec_overflowed := False\<rparr> = d"
    "d\<lparr>dec_frame := [], dec_escaped := False, dec_overflowed := False\<rparr> = d" "d\<lparr>dec_frame := [], dec_escaped := False\<rparr> = d"
    using assms(1) by (simp_all add: decoder_idle_def)
  let ?d = "snd (decode_all d ws)"
  have run: "decode_all d (ws @ [FLAG_SEQUENCE]) =
      ((case fst (finish_at_flag ?d) of None \<Rightarrow> [] | Some ev \<Rightarrow> [ev]), snd (finish_at_flag ?d))"
    by (simp add: decode_all_append w split: prod.splits)
  show ?thesis
  proof (cases "length (fst ?r) \<le> dec_maximum d")
    case True
    then have "?d = d\<lparr>dec_frame := fst ?r, dec_escaped := snd ?r\<rparr>" by (simp add: w)
    with True assms(1) restored show ?thesis unfolding run
      by (auto simp: finish_at_flag_def frame_verdict_def Let_def decoder_idle_def
          MINIMUM_FRAME_WITH_FCS_LENGTH_def FCS16_LENGTH_def)
  next
    case False
    then have "?d = d\<lparr>dec_frame := [], dec_overflowed := True\<rparr>" by (simp add: w)
    with False assms(1) restored show ?thesis unfolding run
      by (simp add: finish_at_flag_def frame_verdict_def Let_def decoder_idle_def)
  qed
qed

section \<open>Properties\<close>

text \<open>
  C4: the decoder meets its specification. From an idle decoder, whatever octets other than the flag arrive
  between two flags, well escaped or not, the closing flag
  reports exactly what \<open>frame_verdict\<close> prescribes for the octets that remain when the characters of the receive map are
  removed and the escapes undone: nothing for an empty frame, a frame without its checksum, too
  short, longer than the maximum, a wrong checksum, or an escape just before the flag; and the decoder is back in the state
  it started from.
\<close>

theorem decoder_meets_verdict:
  assumes "decoder_idle d" and "FLAG_SEQUENCE \<notin> set ws"
  shows "decode_all d (ws @ [FLAG_SEQUENCE]) =
    (frame_verdict (dec_maximum d) (unescape (filter (\<lambda>x. \<not> accm_contains (dec_receive_accm d) x) ws)), d)"
  using decode_idle_received [OF assms] by (simp only: received_def)

lemma decoder_new_flag_idle: "decoder_idle (snd (push (decoder_new r m) FLAG_SEQUENCE))"
  by (simp add: finish_at_flag_idle)

lemma accm_covered_refl [simp]: "accm_covered r r"
  by (simp add: accm_covered_def)

theorem decoder_meets_verdict_witness:
  "decode_all (decoder_new 1 4\<lparr>dec_synchronized := True\<rparr>) ([1, 0, 0x7d, 2, 3, 0x7d] @ [FLAG_SEQUENCE]) =
   ([InvalidFrame EscapeBeforeFlag], decoder_new 1 4\<lparr>dec_synchronized := True\<rparr>)"
proof -
  have "unescape (filter (\<lambda>x. \<not> accm_contains 1 x) [1, 0, 0x7d, 2, 3, 0x7d]) = ([1, 2 XOR 0x20, 3], True)"
    by (simp add: accm_contains_def CONTROL_ESCAPE_def TRANSPARENCY_XOR_def)
  then show ?thesis
    using decoder_meets_verdict [of "decoder_new 1 4\<lparr>dec_synchronized := True\<rparr>" "[1, 0, 0x7d, 2, 3, 0x7d]"]
    by (simp add: decoder_idle_def decoder_new_def frame_verdict_def FLAG_SEQUENCE_def)
qed

lemma decode_encode_idle:
  assumes "decoder_idle d" "accm_covered (dec_receive_accm d) accm"
  shows "decode_all d (wire accm (append_fcs16 frame) @ [FLAG_SEQUENCE]) =
    ([if dec_maximum d < length frame + 2 then Overflow (dec_maximum d)
      else if length frame < 2 then InvalidFrame TooShort else Frame frame], d)"
proof -
  have "append_fcs16 frame \<noteq> []" by (simp add: append_fcs16_def to_le16_def)
  moreover have "take (length frame) (append_fcs16 frame) = frame" by (simp add: append_fcs16_def)
  ultimately have "frame_verdict (dec_maximum d) (append_fcs16 frame, False) =
      [if dec_maximum d < length frame + 2 then Overflow (dec_maximum d)
       else if length frame < 2 then InvalidFrame TooShort else Frame frame]"
    by (simp add: frame_verdict_def append_fcs16_valid)
  moreover have "FLAG_SEQUENCE \<notin> set (wire accm (append_fcs16 frame))" using flag_notin_escape by auto
  ultimately show ?thesis
    using decode_idle_received [OF assms(1)] received_wire [OF assms(2)] by simp
qed

lemma decode_encode_events:
  assumes "accm_covered (dec_receive_accm d) accm"
  shows "decode_all d (encode_async frame accm) =
     ((case fst (finish_at_flag d) of None \<Rightarrow> [] | Some ev \<Rightarrow> [ev]) @
        [if dec_maximum d < length frame + 2 then Overflow (dec_maximum d)
         else if length frame < 2 then InvalidFrame TooShort else Frame frame],
      snd (finish_at_flag d)) \<and>
    decoder_idle (snd (finish_at_flag d))"
proof -
  let ?d = "snd (finish_at_flag d)"
  have "accm_covered (dec_receive_accm ?d) accm" using assms by simp
  from decode_encode_idle [OF finish_at_flag_idle this, of frame]
  have "decode_all ?d (wire accm (append_fcs16 frame) @ [FLAG_SEQUENCE]) =
    ([if dec_maximum d < length frame + 2 then Overflow (dec_maximum d)
      else if length frame < 2 then InvalidFrame TooShort else Frame frame], ?d)" by simp
  then show ?thesis by (simp add: encode_async_def finish_at_flag_idle Let_def split_beta)
qed

text \<open>
  C1: framing round-trips through any receiver whose map the sender covers. Whatever state the decoder is in (never
  synchronised, in the middle of a frame, after an escape, overflowed) and whatever its maximum, decoding an encoded frame
  reports at most one event for the octets that were pending, then exactly the frame when it has at least two
  octets and fits the maximum with its checksum, an overflow when it does not fit, and a frame too short otherwise; and the
  decoder is idle again.
\<close>

theorem decode_encode_roundtrip:
  assumes "accm_covered (dec_receive_accm d) accm"
  shows "decode_all d (encode_async frame accm) =
     ((case fst (finish_at_flag d) of None \<Rightarrow> [] | Some ev \<Rightarrow> [ev]) @
        [if dec_maximum d < length frame + 2 then Overflow (dec_maximum d)
         else if length frame < 2 then InvalidFrame TooShort else Frame frame],
      snd (finish_at_flag d)) \<and>
    decoder_idle (snd (finish_at_flag d))"
  using assms by (rule decode_encode_events)

theorem decode_encode_roundtrip_witness:
  "decode_all decoder_default (encode_async [0xff, 0x03, 0xc0, 0x21, 0x01, 0x01, 0x00, 0x04] DEFAULT_ACCM) =
     ([Frame [0xff, 0x03, 0xc0, 0x21, 0x01, 0x01, 0x00, 0x04]], snd (finish_at_flag decoder_default))"
  using decode_encode_roundtrip [of decoder_default DEFAULT_ACCM
      "[0xff, 0x03, 0xc0, 0x21, 0x01, 0x01, 0x00, 0x04]"]
  by (simp add: decoder_default_def decoder_new_def DEFAULT_MAX_UNESCAPED_FRAME_LENGTH_def DEFAULT_MRU_def
      UNCOMPRESSED_HEADER_LENGTH_def FCS16_LENGTH_def finish_at_flag_def)

definition decoder_inv :: "async_decoder \<Rightarrow> bool" where
  "decoder_inv d \<longleftrightarrow> length (dec_frame d) \<le> dec_maximum d"

definition frame_event_ok :: "nat \<Rightarrow> decode_event \<Rightarrow> bool" where
  "frame_event_ok maximum ev = (case ev of
     Frame f \<Rightarrow> 2 \<le> length f \<and> length f + 2 \<le> maximum \<and> (\<exists>fcs. length fcs = 2 \<and> has_valid_fcs16 (f @ fcs))
   | _ \<Rightarrow> True)"

lemma checked_frame_event:
  assumes "\<not> length f < 4" "has_valid_fcs16 f" "length f \<le> m"
  shows "frame_event_ok m (Frame (take (length f - 2) f))"
proof -
  have "take (length f - 2) f @ drop (length f - 2) f = f" by simp
  with assms show ?thesis
    by (auto simp: frame_event_ok_def intro!: exI [of _ "drop (length f - 2) f"])
qed

lemma push_inv:
  assumes "decoder_inv d"
  shows "decoder_inv (snd (push d x)) \<and> dec_maximum (snd (push d x)) = dec_maximum d \<and>
    (\<forall>ev. fst (push d x) = Some ev \<longrightarrow> frame_event_ok (dec_maximum d) ev)"
proof (cases "x = FLAG_SEQUENCE")
  case True
  with assms show ?thesis
    using checked_frame_event [of "dec_frame d" "dec_maximum d"]
    by (auto simp: finish_at_flag_def decoder_inv_def frame_event_ok_def [of _ "Overflow _"]
        frame_event_ok_def [of _ "InvalidFrame _"] frame_event_ok_def [of _ "FcsError _"]
        MINIMUM_FRAME_WITH_FCS_LENGTH_def FCS16_LENGTH_def)
next
  case False
  with assms show ?thesis by (auto simp: push_def decoder_inv_def Let_def)
qed

lemma decode_all_inv:
  assumes "decoder_inv d"
  shows "decoder_inv (snd (decode_all d xs)) \<and> list_all (frame_event_ok (dec_maximum d)) (fst (decode_all d xs))"
  using assms
proof (induction xs arbitrary: d)
  case Nil
  then show ?case by simp
next
  case (Cons x xs)
  obtain ev d1 where p: "push d x = (ev, d1)" by fastforce
  with push_inv [OF Cons.prems, of x] have "decoder_inv d1" "dec_maximum d1 = dec_maximum d"
      "\<forall>e. ev = Some e \<longrightarrow> frame_event_ok (dec_maximum d) e" by simp_all
  with Cons.IH [of d1] p show ?case
    by (auto split: prod.splits option.splits)
qed

text \<open>
  Only checked frames are delivered. In any state reachable from \<open>new\<close> the frame buffer
  stays within the limit, and every frame the decoder reports has at least two and at most
  \<open>maximum - 2\<close> octets and arrived with two further octets that make its checksum valid.
\<close>

theorem only_checked_frames:
  "decoder_inv (snd (decode_all (decoder_new r m) octets)) \<and>
   list_all (frame_event_ok m) (fst (decode_all (decoder_new r m) octets))"
  using decode_all_inv [of "decoder_new r m" octets] by (simp add: decoder_inv_def decoder_new_def)

end
