(* ===== verification/Control_Packet.thy ===== *)
theory Control_Packet
  imports Prelude
begin

text \<open>
  The interfaces shared by the control protocols. LCP, IPCP, PAP and CHAP packets have the same
  four-octet header (Code, Identifier, Length) and LCP and IPCP carry the same
  type-length-value options, but the source has a codec of its own for each. The locales below
  state what their clients rely on; each codec's theory discharges them for its own model.
\<close>

section \<open>Packets with a four-octet header\<close>

text \<open>The layout of a packet on the wire.\<close>

definition packet_bytes :: "u8 \<Rightarrow> u8 \<Rightarrow> bytes \<Rightarrow> bytes" where
  "packet_bytes code identifier data =
     [code, identifier] @ to_be16 (of_nat (4 + length data)) @ data"

lemma length_packet_bytes [simp]: "length (packet_bytes c i d) = 4 + length d"
  by (simp add: packet_bytes_def)

lemma packet_bytes_header:
  "packet_bytes c i d @ pad =
     c # i # of_nat ((4 + length d) mod 65536 div 256) # of_nat ((4 + length d) mod 65536) # d @ pad"
  unfolding packet_bytes_def to_be16_def unat_of_nat16 by simp

lemma declared_length:
  "4 + length d \<le> 65535 \<Longrightarrow>
   unat (from_be16 ((packet_bytes c i d @ pad) ! 2) ((packet_bytes c i d @ pad) ! 3)) = 4 + length d"
  unfolding packet_bytes_header using from_be16_of_nat [of "4 + length d"] by simp

lemma packet_bytes_of_input:
  assumes "4 \<le> length bs" "unat (from_be16 (bs ! 2) (bs ! 3)) = n" "4 \<le> n" "n \<le> length bs"
  shows "bs = packet_bytes (bs ! 0) (bs ! 1) (take (n - 4) (drop 4 bs)) @ drop n bs"
proof -
  from assms(1) obtain a b c d rest where bs: "bs = a # b # c # d # rest"
    by (auto simp: numeral_eq_Suc Suc_le_length_iff)
  have w: "of_nat n = from_be16 c d"
    using assms(2) bs by (auto simp: word_unat_eq_iff unat_of_nat16)
  have "4 + length (take (n - 4) rest) = n" using assms(3,4) bs by simp
  then have "to_be16 (of_nat (4 + length (take (n - 4) rest))) = [c, d]"
    by (simp only: w to_from_be16)
  moreover have "take (n - 4) rest @ drop n bs = rest"
    using assms(3) bs by (simp add: drop_Cons' numeral_eq_Suc)
  ultimately show ?thesis
    using bs by (simp add: packet_bytes_def)
qed

locale header_parser =
  fixes parse :: "bytes \<Rightarrow> ('p, 'e) result"
    and fields :: "'p \<Rightarrow> u8 \<times> u8 \<times> bytes"
    and known :: "u8 \<Rightarrow> bool"
  assumes parse_layout: "4 + length d \<le> 65535 \<Longrightarrow> known c \<Longrightarrow>
      \<exists>p. parse (packet_bytes c i d @ pad) = Ok p \<and> fields p = (c, i, d)"
    and parse_sound: "parse bs = Ok p \<Longrightarrow> fields p = (c, i, d) \<Longrightarrow>
      known c \<and> 4 + length d \<le> 65535 \<and> (\<exists>pad. bs = packet_bytes c i d @ pad)"
    and parse_total: "parse bs \<noteq> Panic"
begin

lemma parse_padding:
  assumes "parse bs = Ok p"
  shows "\<exists>q. parse (bs @ pad) = Ok q \<and> fields q = fields p"
proof -
  obtain c i d where f: "fields p = (c, i, d)" by (cases "fields p") auto
  from parse_sound [OF assms f] obtain pad' where
    "known c" "4 + length d \<le> 65535" "bs = packet_bytes c i d @ pad'" by auto
  with parse_layout [of d c i "pad' @ pad"] f show ?thesis by auto
qed

lemma parse_length: "parse bs = Ok p \<Longrightarrow> fields p = (c, i, d) \<Longrightarrow> 4 + length d \<le> min 65535 (length bs)"
  using parse_sound by fastforce

end

text \<open>
  A codec that also writes packets into a caller's buffer: it writes the packet and nothing behind
  it, or fails and leaves the buffer alone.
\<close>

locale control_codec = header_parser +
  fixes encode :: "u8 \<Rightarrow> u8 \<Rightarrow> bytes \<Rightarrow> bytes \<Rightarrow> (nat, 'ee) result \<times> bytes"
  assumes all_known: "known c"
    and encode_ok: "4 + length d \<le> 65535 \<Longrightarrow> 4 + length d \<le> length out \<Longrightarrow>
      encode c i d out = (Ok (4 + length d), packet_bytes c i d @ drop (4 + length d) out)"
    and encode_err: "\<not> (4 + length d \<le> 65535 \<and> 4 + length d \<le> length out) \<Longrightarrow>
      \<exists>e. encode c i d out = (Err e, out)"
begin

lemma encode_iff: "is_ok (fst (encode c i d out)) \<longleftrightarrow> 4 + length d \<le> 65535 \<and> 4 + length d \<le> length out"
  using encode_ok [of d out c i] encode_err [of d out c i] by (cases "4 + length d \<le> 65535 \<and> 4 + length d \<le> length out") auto

lemma encode_frame:
  "encode c i d out = (r, out') \<Longrightarrow>
   length out' = length out \<and> drop (4 + length d) out' = drop (4 + length d) out"
  using encode_ok [of d out c i] encode_err [of d out c i]
  by (cases "4 + length d \<le> 65535 \<and> 4 + length d \<le> length out") auto

lemma roundtrip:
  assumes "encode c i d out = (Ok n, out')"
  shows "n = 4 + length d \<and> take n out' = packet_bytes c i d \<and>
    (\<exists>p. parse (take n out' @ pad) = Ok p \<and> fields p = (c, i, d))"
proof -
  have fits: "4 + length d \<le> 65535 \<and> 4 + length d \<le> length out"
    using encode_err [of d out c i] assms by fastforce
  with assms encode_ok [of d out c i] have
    "n = 4 + length d" "out' = packet_bytes c i d @ drop (4 + length d) out" by auto
  with parse_layout [of d c i pad] fits all_known show ?thesis by simp
qed

text \<open>Writing a parsed packet back gives the octets it was parsed from.\<close>

lemma parse_encode:
  assumes "parse bs = Ok p" "fields p = (c, i, d)"
  shows "encode c i d bs = (Ok (4 + length d), bs)"
proof -
  from parse_sound [OF assms] obtain pad where
    "4 + length d \<le> 65535" "bs = packet_bytes c i d @ pad" by auto
  then show ?thesis by (simp add: encode_ok)
qed

end

section \<open>Type-length-value options\<close>

definition tlv_bytes :: "u8 \<times> bytes \<Rightarrow> bytes" where
  "tlv_bytes opt = fst opt # of_nat (2 + length (snd opt)) # snd opt"

definition tlv_fits :: "u8 \<times> bytes \<Rightarrow> bool" where
  "tlv_fits opt \<longleftrightarrow> length (snd opt) \<le> 253"

definition splits_tlv :: "bytes \<Rightarrow> bool" where
  "splits_tlv bs \<longleftrightarrow> 2 \<le> length bs \<and> 2 \<le> unat (bs ! 1) \<and> unat (bs ! 1) \<le> length bs"

lemma length_tlv_bytes [simp]: "length (tlv_bytes opt) = 2 + length (snd opt)"
  by (simp add: tlv_bytes_def)

lemma splits_tlv_append: "tlv_fits opt \<Longrightarrow> splits_tlv (tlv_bytes opt @ rest)"
  unfolding splits_tlv_def tlv_bytes_def tlv_fits_def by (simp add: unat_of_nat8 del: of_nat_add of_nat_Suc)

lemma tlv_split:
  assumes "splits_tlv bs"
  shows "tlv_fits (bs ! 0, take (unat (bs ! 1) - 2) (drop 2 bs))"
    and "bs = tlv_bytes (bs ! 0, take (unat (bs ! 1) - 2) (drop 2 bs)) @ drop (unat (bs ! 1)) bs"
proof -
  from assms obtain t l rest where bs: "bs = t # l # rest"
    by (cases bs; cases "tl bs") (auto simp: splits_tlv_def)
  with assms have l: "2 \<le> unat l" "unat l \<le> 2 + length rest" by (simp_all add: splits_tlv_def)
  then have len: "length (take (unat l - 2) rest) = unat l - 2" by simp
  show "tlv_fits (bs ! 0, take (unat (bs ! 1) - 2) (drop 2 bs))"
    using bs l(1) unat_le_255 [of l] by (simp add: tlv_fits_def del: unat_le_255)
  have "2 + length (take (unat l - 2) rest) = unat l" using l(1) unfolding len by simp
  then have "(of_nat (2 + length (take (unat l - 2) rest)) :: u8) = l" by (simp only: of_nat_unat ucast_id)
  moreover have "take (unat l - 2) rest @ drop (unat l) bs = rest"
    using bs l(1) append_take_drop_id [of "unat l - 2" rest] by (simp add: drop_Cons' numeral_2_eq_2)
  ultimately show "bs = tlv_bytes (bs ! 0, take (unat (bs ! 1) - 2) (drop 2 bs)) @ drop (unat (bs ! 1)) bs"
    using bs by (simp add: tlv_bytes_def)
qed

text \<open>
  What a client relies on when it collects the options of a packet: a well-formed list yields its
  options in order and the collection stops with an error at the first malformed one.
\<close>

locale option_collector =
  fixes collect :: "bytes \<Rightarrow> ('o list, 'e) result"
    and view :: "'o \<Rightarrow> u8 \<times> bytes"
    and encoded :: "'o \<Rightarrow> bytes"
  assumes collect_nil: "collect [] = Ok []"
    and collect_cons: "tlv_fits opt \<Longrightarrow>
      \<exists>o'. view o' = opt \<and> encoded o' = tlv_bytes opt \<and>
        collect (tlv_bytes opt @ rest) =
          and_then (collect rest) (\<lambda>os. Ok (o' # os))"
    and collect_err: "bs \<noteq> [] \<Longrightarrow> \<not> splits_tlv bs \<Longrightarrow> \<exists>e. collect bs = Err e"
begin

lemma collect_cases:
  assumes "bs \<noteq> []"
  obtains (bad) e where "\<not> splits_tlv bs" "collect bs = Err e"
  | (good) opt o' rest where "tlv_fits opt" "bs = tlv_bytes opt @ rest" "length rest < length bs"
      "view o' = opt" "encoded o' = tlv_bytes opt" "collect bs = and_then (collect rest) (\<lambda>os. Ok (o' # os))"
proof (cases "splits_tlv bs")
  case True
  let ?opt = "(bs ! 0, take (unat (bs ! 1) - 2) (drop 2 bs))" and ?rest = "drop (unat (bs ! 1)) bs"
  note split = tlv_split [OF True]
  from collect_cons [OF split(1), of ?rest] obtain o' where
    "view o' = ?opt" "encoded o' = tlv_bytes ?opt"
    "collect (tlv_bytes ?opt @ ?rest) = and_then (collect ?rest) (\<lambda>os. Ok (o' # os))" by blast
  moreover have "length ?rest < length bs" using True by (auto simp: splits_tlv_def)
  ultimately show ?thesis using split by (intro good) auto
next
  case False
  with collect_err [OF assms] bad show ?thesis by blast
qed

lemma collect_not_panic: "collect bs \<noteq> Panic"
proof (induction bs rule: length_induct)
  case (1 bs)
  show ?case
  proof (cases "bs = []")
    case True
    then show ?thesis by (simp add: collect_nil)
  next
    case False
    then show ?thesis
    proof (cases rule: collect_cases)
      case (good opt o' rest)
      then have "collect rest \<noteq> Panic" using 1 by blast
      with good(6) show ?thesis by (cases "collect rest") simp_all
    qed simp
  qed
qed

lemma collect_sound:
  assumes "collect bs = Ok os"
  shows "bs = concat (map tlv_bytes (map view os)) \<and> list_all tlv_fits (map view os) \<and>
    map encoded os = map tlv_bytes (map view os)"
  using assms
proof (induction bs arbitrary: os rule: length_induct)
  case (1 bs)
  show ?case
  proof (cases "bs = []")
    case True
    with 1 show ?thesis by (simp add: collect_nil)
  next
    case False
    then show ?thesis
    proof (cases rule: collect_cases)
      case (bad e)
      with 1 show ?thesis by simp
    next
      case (good opt o' rest)
      with "1.prems" obtain os' where os': "collect rest = Ok os'" "os = o' # os'"
        by (auto simp: and_then_eq_Ok eq_commute [of "Ok os"])
      with good "1.IH" have "rest = concat (map tlv_bytes (map view os')) \<and>
          list_all tlv_fits (map view os') \<and> map encoded os' = map tlv_bytes (map view os')" by blast
      with good os' show ?thesis by simp
    qed
  qed
qed

lemma collect_complete:
  assumes "list_all tlv_fits opts"
  shows "\<exists>os. collect (concat (map tlv_bytes opts)) = Ok os \<and> map view os = opts \<and>
    map encoded os = map tlv_bytes opts"
  using assms
proof (induction opts)
  case Nil
  then show ?case by (simp add: collect_nil)
next
  case (Cons opt opts)
  then obtain os where os: "collect (concat (map tlv_bytes opts)) = Ok os" "map view os = opts"
      "map encoded os = map tlv_bytes opts" by auto
  from Cons.prems collect_cons [of opt "concat (map tlv_bytes opts)"] obtain o' where
    "view o' = opt" "encoded o' = tlv_bytes opt"
    "collect (tlv_bytes opt @ concat (map tlv_bytes opts)) = Ok (o' # os)"
    using os(1) by auto
  with os show ?case by (intro exI [of _ "o' # os"]) simp
qed

text \<open>The options determine the octets and the octets the options.\<close>

lemma collect_iff:
  "is_ok (collect bs) \<longleftrightarrow> (\<exists>opts. list_all tlv_fits opts \<and> bs = concat (map tlv_bytes opts))"
  using collect_sound collect_complete by (fastforce simp: is_ok_iff)

end

section \<open>Duplicate option types\<close>

text \<open>
  The two 256-entry tables of \<^verbatim>\<open>duplicate_type_map\<close>: a type is marked as a duplicate when it comes
  up again after it has been seen.
\<close>

fun mark_duplicates :: "(u8 \<Rightarrow> bool) \<Rightarrow> (u8 \<Rightarrow> bool) \<Rightarrow> u8 list \<Rightarrow> (u8 \<Rightarrow> bool)" where
  "mark_duplicates seen duplicate [] = duplicate"
| "mark_duplicates seen duplicate (t # ts) =
     mark_duplicates (seen(t := True)) (duplicate(t := duplicate t \<or> seen t)) ts"

lemma mark_duplicates_iff:
  "mark_duplicates seen duplicate ts t \<longleftrightarrow>
     duplicate t \<or> (seen t \<and> t \<in> set ts) \<or> 2 \<le> count_list ts t"
proof (induction ts arbitrary: seen duplicate)
  case Nil
  then show ?case by simp
next
  case (Cons u ts)
  have "t \<in> set ts \<longleftrightarrow> 1 \<le> count_list ts t"
    using count_list_0_iff [of ts t] by auto
  with Cons show ?case by (cases "u = t") auto
qed

lemma distinct_count_list: "distinct ts \<longleftrightarrow> (\<forall>t. count_list ts t \<le> 1)"
proof (induction ts)
  case Nil
  then show ?case by simp
next
  case (Cons u ts)
  show ?case
  proof
    assume "distinct (u # ts)"
    with Cons show "\<forall>t. count_list (u # ts) t \<le> 1" by (simp add: count_notin)
  next
    assume a: "\<forall>t. count_list (u # ts) t \<le> 1"
    then have "count_list ts u = 0" by (metis Suc_eq_plus1 add_le_same_cancel2 count_list.simps(2) le_zero_eq plus_1_eq_Suc)
    moreover have "\<forall>t. count_list ts t \<le> 1"
      using a by (metis count_list.simps(2) add_leD1)
    ultimately show "distinct (u # ts)" using Cons by (simp add: count_list_0_iff)
  qed
qed

lemma all_octets: "(\<forall>t \<in> set (map word_of_nat [0..<256]). P t) \<longleftrightarrow> (\<forall>t :: u8. P t)"
proof -
  have "(t :: u8) \<in> set (map word_of_nat [0..<256])" for t
    by (force intro!: image_eqI [of _ _ "unat t"])
  then show ?thesis by blast
qed

lemma no_duplicates_iff:
  "list_ex (mark_duplicates (\<lambda>_. False) (\<lambda>_. False) ts) (map word_of_nat [0..<256]) \<longleftrightarrow> \<not> distinct ts"
  using all_octets [of "\<lambda>t. \<not> 2 \<le> count_list ts t"]
  by (simp add: list_ex_iff mark_duplicates_iff distinct_count_list not_less_eq_eq numeral_2_eq_2
      Bex_def Ball_def del: set_map) (meson not_less_eq_eq)

end
