(* ===== verification/Lcp_Codec.thy ===== *)
theory Lcp_Codec
  imports Control_Packet
begin

text \<open>
  The LCP packet codec, \<^verbatim>\<open>crates/ndm24-ppp/src/lcp.rs\<close>: codes and option types, \<^verbatim>\<open>Packet::parse\<close>,
  \<^verbatim>\<open>encode_into\<close> and the \<^verbatim>\<open>ConfigurationOptions\<close> iterator. It provides the interfaces
  \<open>control_codec\<close> and \<open>option_collector\<close>.
\<close>

section \<open>Codes and option types\<close>

definition LCP_PROTOCOL :: u16 where "LCP_PROTOCOL = 0xc021"
definition LCP_HEADER_LENGTH :: nat where "LCP_HEADER_LENGTH = 4"

datatype lcp_code = ConfigureRequest | ConfigureAck | ConfigureNak | ConfigureReject
  | TerminateRequest | TerminateAck | CodeReject | ProtocolReject | EchoRequest | EchoReply
  | DiscardRequest

fun lcp_code_octet :: "lcp_code \<Rightarrow> u8" where
  "lcp_code_octet ConfigureRequest = 1"
| "lcp_code_octet ConfigureAck = 2"
| "lcp_code_octet ConfigureNak = 3"
| "lcp_code_octet ConfigureReject = 4"
| "lcp_code_octet TerminateRequest = 5"
| "lcp_code_octet TerminateAck = 6"
| "lcp_code_octet CodeReject = 7"
| "lcp_code_octet ProtocolReject = 8"
| "lcp_code_octet EchoRequest = 9"
| "lcp_code_octet EchoReply = 10"
| "lcp_code_octet DiscardRequest = 11"

definition lcp_code_from_octet :: "u8 \<Rightarrow> lcp_code option" where
  "lcp_code_from_octet value =
     (if value = 1 then Some ConfigureRequest
      else if value = 2 then Some ConfigureAck
      else if value = 3 then Some ConfigureNak
      else if value = 4 then Some ConfigureReject
      else if value = 5 then Some TerminateRequest
      else if value = 6 then Some TerminateAck
      else if value = 7 then Some CodeReject
      else if value = 8 then Some ProtocolReject
      else if value = 9 then Some EchoRequest
      else if value = 10 then Some EchoReply
      else if value = 11 then Some DiscardRequest
      else None)"

datatype lcp_option_type = MaximumReceiveUnit | AsyncControlCharacterMap
  | AuthenticationProtocol | QualityProtocol | MagicNumber | ProtocolFieldCompression
  | AddressControlFieldCompression

fun lcp_option_type_octet :: "lcp_option_type \<Rightarrow> u8" where
  "lcp_option_type_octet MaximumReceiveUnit = 1"
| "lcp_option_type_octet AsyncControlCharacterMap = 2"
| "lcp_option_type_octet AuthenticationProtocol = 3"
| "lcp_option_type_octet QualityProtocol = 4"
| "lcp_option_type_octet MagicNumber = 5"
| "lcp_option_type_octet ProtocolFieldCompression = 7"
| "lcp_option_type_octet AddressControlFieldCompression = 8"

definition lcp_option_type_from_octet :: "u8 \<Rightarrow> lcp_option_type option" where
  "lcp_option_type_from_octet value =
     (if value = 1 then Some MaximumReceiveUnit
      else if value = 2 then Some AsyncControlCharacterMap
      else if value = 3 then Some AuthenticationProtocol
      else if value = 4 then Some QualityProtocol
      else if value = 5 then Some MagicNumber
      else if value = 7 then Some ProtocolFieldCompression
      else if value = 8 then Some AddressControlFieldCompression
      else None)"

lemma lcp_code_octets [simp]: "lcp_code_from_octet (lcp_code_octet c) = Some c"
  by (cases c) (simp_all add: lcp_code_from_octet_def)

lemma lcp_code_from_octet_iff: "lcp_code_from_octet v = Some c \<longleftrightarrow> v = lcp_code_octet c"
proof
  assume "lcp_code_from_octet v = Some c"
  then show "v = lcp_code_octet c" by (auto simp: lcp_code_from_octet_def split: if_splits)
qed simp

lemma lcp_option_type_octets [simp]: "lcp_option_type_from_octet (lcp_option_type_octet t) = Some t"
  by (cases t) (simp_all add: lcp_option_type_from_octet_def)

lemma lcp_option_type_from_octet_iff:
  "lcp_option_type_from_octet v = Some t \<longleftrightarrow> v = lcp_option_type_octet t"
proof
  assume "lcp_option_type_from_octet v = Some t"
  then show "v = lcp_option_type_octet t" by (auto simp: lcp_option_type_from_octet_def split: if_splits)
qed simp

section \<open>Packets\<close>

datatype lcp_parse_error = LcpHeaderTruncated nat | LcpInvalidLength nat nat
datatype lcp_encode_error = LcpDataTooLong nat | LcpOutputTooSmall nat nat

record lcp_packet =
  lp_code :: u8
  lp_identifier :: u8
  lp_data :: bytes

definition lcp_packet_parse :: "bytes \<Rightarrow> (lcp_packet, lcp_parse_error) result" where
  "lcp_packet_parse input =
     (if length input < LCP_HEADER_LENGTH then Err (LcpHeaderTruncated (length input))
      else
        (let declared_length = unat (from_be16 (input ! 2) (input ! 3))
         in if declared_length < LCP_HEADER_LENGTH \<or> declared_length > length input
            then Err (LcpInvalidLength declared_length (length input))
            else Ok \<lparr>lp_code = input ! 0, lp_identifier = input ! 1,
                     lp_data = take (declared_length - LCP_HEADER_LENGTH) (drop LCP_HEADER_LENGTH input)\<rparr>))"

definition lcp_known_code :: "lcp_packet \<Rightarrow> lcp_code option" where
  "lcp_known_code packet = lcp_code_from_octet (lp_code packet)"

definition lcp_exactly_acknowledges :: "lcp_packet \<Rightarrow> u8 \<Rightarrow> bytes \<Rightarrow> bool" where
  "lcp_exactly_acknowledges packet identifier options \<longleftrightarrow>
     lcp_known_code packet = Some ConfigureAck \<and> lp_identifier packet = identifier \<and>
     lp_data packet = options"

definition lcp_encode_into ::
  "u8 \<Rightarrow> u8 \<Rightarrow> bytes \<Rightarrow> bytes \<Rightarrow> (nat, lcp_encode_error) result \<times> bytes" where
  "lcp_encode_into code identifier data output =
     (let required = LCP_HEADER_LENGTH + length data in
      if \<not> required \<le> 65535 then (Err (LcpDataTooLong (length data)), output)
      else if length output < required then
        (Err (LcpOutputTooSmall required (length output)), output)
      else
        (Ok required,
         [code, identifier] @ to_be16 (of_nat required) @ data @ drop required output))"

section \<open>Configuration options\<close>

datatype lcp_option_parse_error = LcpOptionHeaderTruncated nat | LcpOptionInvalidLength u8 nat nat

record lcp_option =
  lo_type :: u8
  lo_data :: bytes
  lo_encoded :: bytes

definition lcp_known_type :: "lcp_option \<Rightarrow> lcp_option_type option" where
  "lcp_known_type opt = lcp_option_type_from_octet (lo_type opt)"

record lcp_options =
  los_remaining :: bytes
  los_failed :: bool

definition lcp_configuration_options :: "bytes \<Rightarrow> lcp_options" where
  "lcp_configuration_options data = \<lparr>los_remaining = data, los_failed = False\<rparr>"

definition lcp_options_next ::
  "lcp_options \<Rightarrow> (lcp_option, lcp_option_parse_error) result option \<times> lcp_options" where
  "lcp_options_next it =
     (if los_failed it \<or> los_remaining it = [] then (None, it)
      else if length (los_remaining it) < 2 then
        (Some (Err (LcpOptionHeaderTruncated (length (los_remaining it)))), it\<lparr>los_failed := True\<rparr>)
      else
        (let option_type = los_remaining it ! 0;
             declared_length = unat (los_remaining it ! 1)
         in if declared_length < 2 \<or> declared_length > length (los_remaining it) then
              (Some (Err (LcpOptionInvalidLength option_type declared_length (length (los_remaining it)))),
               it\<lparr>los_failed := True\<rparr>)
            else
              (let encoded = take declared_length (los_remaining it)
               in (Some (Ok \<lparr>lo_type = option_type, lo_data = drop 2 encoded, lo_encoded = encoded\<rparr>),
                   it\<lparr>los_remaining := drop declared_length (los_remaining it)\<rparr>))))"

text \<open>
  Iterating to the end, with Rust's \<^verbatim>\<open>collect::<Result<Vec<_>, _>>()\<close>: the first error ends the
  iteration and is the result.
\<close>

function lcp_options_collect :: "lcp_options \<Rightarrow> (lcp_option list, lcp_option_parse_error) result" where
  "lcp_options_collect it = (case lcp_options_next it of
     (None, _) \<Rightarrow> Ok []
   | (Some (Ok opt), it') \<Rightarrow> and_then (lcp_options_collect it') (\<lambda>opts. Ok (opt # opts))
   | (Some (Err e), _) \<Rightarrow> Err e
   | (Some Panic, _) \<Rightarrow> Panic)"
  by pat_completeness auto
termination
  by (relation "measure (\<lambda>it. length (los_remaining it))")
    (auto simp: lcp_options_next_def Let_def split: if_splits)

declare lcp_options_collect.simps [simp del]

definition lcp_collect_options :: "bytes \<Rightarrow> (lcp_option list, lcp_option_parse_error) result" where
  "lcp_collect_options data = lcp_options_collect (lcp_configuration_options data)"

section \<open>The codec provides the packet interface\<close>

definition lcp_fields :: "lcp_packet \<Rightarrow> u8 \<times> u8 \<times> bytes" where
  "lcp_fields p = (lp_code p, lp_identifier p, lp_data p)"

lemma lcp_parse_packet_bytes:
  "4 + length d \<le> 65535 \<Longrightarrow>
   lcp_packet_parse (packet_bytes c i d @ pad) = Ok \<lparr>lp_code = c, lp_identifier = i, lp_data = d\<rparr>"
  using declared_length [of d c i pad]
  by (simp add: lcp_packet_parse_def LCP_HEADER_LENGTH_def Let_def packet_bytes_header)

interpretation lcp: control_codec lcp_packet_parse lcp_fields "\<lambda>_. True" lcp_encode_into
proof (unfold_locales, goal_cases)
  case (1 d c i pad)
  then show ?case using lcp_parse_packet_bytes [of d c i pad] by (simp add: lcp_fields_def)
next
  case (2 bs p c i d)
  then have "4 \<le> length bs" and ok: "4 \<le> unat (from_be16 (bs ! 2) (bs ! 3))"
      "unat (from_be16 (bs ! 2) (bs ! 3)) \<le> length bs"
    by (auto simp: lcp_packet_parse_def LCP_HEADER_LENGTH_def Let_def split: if_splits)
  moreover have "p = \<lparr>lp_code = bs ! 0, lp_identifier = bs ! 1,
      lp_data = take (unat (from_be16 (bs ! 2) (bs ! 3)) - 4) (drop 4 bs)\<rparr>"
    using 2(1) by (auto simp: lcp_packet_parse_def LCP_HEADER_LENGTH_def Let_def split: if_splits)
  ultimately show ?case
    using 2(2) packet_bytes_of_input [OF _ refl, of bs] unat_le_65535 [of "from_be16 (bs ! 2) (bs ! 3)"]
    by (auto simp: lcp_fields_def simp del: unat_le_65535)
next
  case (3 bs)
  then show ?case by (simp add: lcp_packet_parse_def Let_def)
next
  case (4 c)
  then show ?case by simp
next
  case (5 d out c i)
  then show ?case by (simp add: lcp_encode_into_def LCP_HEADER_LENGTH_def Let_def packet_bytes_def)
next
  case (6 d out c i)
  then show ?case by (auto simp: lcp_encode_into_def LCP_HEADER_LENGTH_def Let_def)
qed

section \<open>The iterator provides the option interface\<close>

definition lcp_option_view :: "lcp_option \<Rightarrow> u8 \<times> bytes" where
  "lcp_option_view opt = (lo_type opt, lo_data opt)"

lemma lcp_collect_tlv:
  assumes "tlv_fits opt"
  shows "lcp_collect_options (tlv_bytes opt @ rest) =
    and_then (lcp_collect_options rest)
      (\<lambda>os. Ok (\<lparr>lo_type = fst opt, lo_data = snd opt, lo_encoded = tlv_bytes opt\<rparr> # os))"
proof -
  have "unat (of_nat (2 + length (snd opt)) :: u8) = 2 + length (snd opt)"
    using assms unfolding tlv_fits_def unat_of_nat8 by simp
  then show ?thesis
    unfolding lcp_collect_options_def
    by (subst lcp_options_collect.simps)
      (simp add: lcp_options_next_def lcp_configuration_options_def tlv_bytes_def Let_def
        del: of_nat_add of_nat_Suc)
qed

interpretation lcp_options: option_collector lcp_collect_options lcp_option_view lo_encoded
proof (unfold_locales, goal_cases)
  case 1
  show ?case
    unfolding lcp_collect_options_def
    by (subst lcp_options_collect.simps) (simp add: lcp_options_next_def lcp_configuration_options_def)
next
  case (2 opt rest)
  then show ?case
    by (intro exI [of _ "\<lparr>lo_type = fst opt, lo_data = snd opt, lo_encoded = tlv_bytes opt\<rparr>"])
      (simp add: lcp_option_view_def lcp_collect_tlv)
next
  case (3 bs)
  then show ?case
    unfolding lcp_collect_options_def
    by (subst lcp_options_collect.simps)
      (auto simp: lcp_options_next_def lcp_configuration_options_def splits_tlv_def Let_def)
qed

end
