(* ===== verification/Lcp_Negotiation.thy ===== *)
theory Lcp_Negotiation
  imports Lcp_Codec
begin

text \<open>
  Evaluating and rewriting LCP option lists: the free functions of
  \<^verbatim>\<open>crates/ndm24-ppp/src/lcp/negotiation.rs\<close>. \<open>evaluate_peer_request\<close> decides what to answer to a
  peer's Configure-Request; \<open>apply_nak\<close> and \<open>apply_reject\<close> rewrite our own option list after a
  negative answer; \<open>local_magic\<close> and \<open>next_magic\<close> look after the Magic-Number.
\<close>

section \<open>Data\<close>

definition LCP_DEFAULT_MRU :: u16 where "LCP_DEFAULT_MRU = 1500"
definition PAP_PROTOCOL :: u16 where "PAP_PROTOCOL = 0xc023"
definition CHAP_PROTOCOL :: u16 where "CHAP_PROTOCOL = 0xc223"
definition CHAP_MD5_ALGORITHM :: u8 where "CHAP_MD5_ALGORITHM = 5"
definition MAGIC_RETRY_INCREMENT :: u32 where "MAGIC_RETRY_INCREMENT = 0x9e3779b9"

datatype authentication_protocol = Pap | ChapMd5

record peer_configuration =
  transmit_mru :: u16
  transmit_accm :: u32
  authentication :: "authentication_protocol option"
  magic_number :: "u32 option"

definition peer_configuration_default :: peer_configuration where
  "peer_configuration_default =
     \<lparr>transmit_mru = LCP_DEFAULT_MRU, transmit_accm = 0xffffffff, authentication = None,
      magic_number = None\<rparr>"

record sfc_policy =
  accept_pap :: bool
  accept_chap_md5 :: bool

datatype lcp_machine_error =
  InvalidLocalOptions lcp_option_parse_error | PacketTooLarge lcp_encode_error

datatype option_disposition = Ack | Nak bytes | Reject

record lcp_evaluation =
  ev_code :: lcp_code
  ev_data :: bytes
  ev_configuration :: "peer_configuration option"

section \<open>Option lists\<close>

definition lcp_validate_options :: "bytes \<Rightarrow> (unit, lcp_option_parse_error) result" where
  "lcp_validate_options data = and_then (lcp_collect_options data) (\<lambda>_. Ok ())"

definition lcp_duplicate_type_map :: "lcp_option list \<Rightarrow> u8 \<Rightarrow> bool" where
  "lcp_duplicate_type_map options = mark_duplicates (\<lambda>_. False) (\<lambda>_. False) (map lo_type options)"

definition lcp_has_duplicate_types :: "lcp_option list \<Rightarrow> bool" where
  "lcp_has_duplicate_types options =
     list_ex (lcp_duplicate_type_map options) (map word_of_nat [0..<256])"

text \<open>
  \<^verbatim>\<open>configuration_options(options).filter_map(Result::ok)\<close>: errors are skipped, and the iterator
  ends after the first.
\<close>

function lcp_options_ok_items :: "lcp_options \<Rightarrow> lcp_option list" where
  "lcp_options_ok_items it = (case lcp_options_next it of
     (None, _) \<Rightarrow> []
   | (Some (Ok opt), it') \<Rightarrow> opt # lcp_options_ok_items it'
   | (Some _, it') \<Rightarrow> lcp_options_ok_items it')"
  by pat_completeness auto
termination
  by (relation "measure (\<lambda>it. length (los_remaining it) + (if los_failed it then 0 else 1))")
    (auto simp: lcp_options_next_def Let_def split: if_splits)

declare lcp_options_ok_items.simps [simp del]

text \<open>The Magic-Number of an option, where it has one: four octets of data.\<close>

definition is_magic_option :: "lcp_option \<Rightarrow> bool" where
  "is_magic_option opt \<longleftrightarrow> lcp_known_type opt = Some MagicNumber \<and> length (lo_data opt) = 4"

definition option_magic :: "lcp_option \<Rightarrow> u32" where
  "option_magic opt = from_be32 (octets4_at (lo_data opt) 0)"

definition local_magic :: "bytes \<Rightarrow> u32 option" where
  "local_magic options =
     map_option option_magic
       (find is_magic_option (lcp_options_ok_items (lcp_configuration_options options)))"

definition next_magic :: "u32 \<Rightarrow> u32" where
  "next_magic current =
     (let candidate = current + MAGIC_RETRY_INCREMENT
      in if candidate = 0 then MAGIC_RETRY_INCREMENT else candidate)"

section \<open>The peer's request\<close>

text \<open>One option: its disposition and the configuration the peer would get.\<close>

definition lcp_evaluate_option ::
  "lcp_option \<Rightarrow> sfc_policy \<Rightarrow> u32 option \<Rightarrow> peer_configuration \<Rightarrow> option_disposition \<times> peer_configuration"
where
  "lcp_evaluate_option opt policy proposed_local_magic configuration =
    (case lcp_known_type opt of
       Some MaximumReceiveUnit \<Rightarrow>
         if length (lo_data opt) = 2 then
           (let value = from_be16 (lo_data opt ! 0) (lo_data opt ! 1)
            in if value = 0 then (Nak [1, 4, 0x05, 0xdc], configuration)
               else (Ack, configuration\<lparr>transmit_mru := value\<rparr>))
         else (Nak [1, 4, 0x05, 0xdc], configuration)
     | Some AsyncControlCharacterMap \<Rightarrow>
         if length (lo_data opt) = 4 then
           (Ack, configuration\<lparr>transmit_accm := from_be32 (octets4_at (lo_data opt) 0)\<rparr>)
         else (Nak [2, 6, 0xff, 0xff, 0xff, 0xff], configuration)
     | Some AuthenticationProtocol \<Rightarrow>
         if accept_chap_md5 policy \<and> lo_data opt = to_be16 CHAP_PROTOCOL @ [CHAP_MD5_ALGORITHM] then
           (Ack, configuration\<lparr>authentication := Some ChapMd5\<rparr>)
         else if accept_pap policy \<and> lo_data opt = to_be16 PAP_PROTOCOL then
           (Ack, configuration\<lparr>authentication := Some Pap\<rparr>)
         else if accept_chap_md5 policy then
           (Nak [3, 5, 0xc2, 0x23, CHAP_MD5_ALGORITHM], configuration)
         else if accept_pap policy then (Nak [3, 4, 0xc0, 0x23], configuration)
         else (Reject, configuration)
     | Some MagicNumber \<Rightarrow>
         if length (lo_data opt) = 4 then
           (let value = option_magic opt
            in if value = 0 \<or> Some value = proposed_local_magic then
                 (let replacement = next_magic (case proposed_local_magic of None \<Rightarrow> value | Some m \<Rightarrow> m)
                  in (Nak ([lcp_option_type_octet MagicNumber, 6] @ to_be32 replacement), configuration))
               else (Ack, configuration\<lparr>magic_number := Some value\<rparr>))
         else (Reject, configuration)
     | _ \<Rightarrow> (Reject, configuration))"

fun lcp_evaluate_options ::
  "(u8 \<Rightarrow> bool) \<Rightarrow> sfc_policy \<Rightarrow> u32 option \<Rightarrow> peer_configuration \<Rightarrow> lcp_option list \<Rightarrow>
     option_disposition list \<times> peer_configuration" where
  "lcp_evaluate_options duplicates policy magic configuration [] = ([], configuration)"
| "lcp_evaluate_options duplicates policy magic configuration (opt # opts) =
     (let (disposition, configuration') =
        (if duplicates (lo_type opt) then (Reject, configuration)
         else lcp_evaluate_option opt policy magic configuration);
        (dispositions, configuration'') = lcp_evaluate_options duplicates policy magic configuration' opts
      in (disposition # dispositions, configuration''))"

fun is_nak :: "option_disposition \<Rightarrow> bool" where
  "is_nak (Nak _) = True"
| "is_nak _ = False"

fun nak_data :: "option_disposition \<Rightarrow> bytes" where
  "nak_data (Nak replacement) = replacement"
| "nak_data _ = []"

definition lcp_evaluate_peer_request ::
  "lcp_packet \<Rightarrow> sfc_policy \<Rightarrow> u32 option \<Rightarrow> (lcp_evaluation, lcp_option_parse_error) result" where
  "lcp_evaluate_peer_request packet policy proposed_local_magic =
     and_then (lcp_collect_options (lp_data packet)) (\<lambda>options.
       (let duplicates = lcp_duplicate_type_map options;
            (dispositions, configuration) =
              lcp_evaluate_options duplicates policy proposed_local_magic peer_configuration_default options
        in if list_ex (\<lambda>item. item = Reject) dispositions then
             Ok \<lparr>ev_code = ConfigureReject,
                 ev_data = concat (map (\<lambda>(opt, _). lo_encoded opt)
                   (filter (\<lambda>(_, disposition). disposition = Reject) (zip options dispositions))),
                 ev_configuration = None\<rparr>
           else if list_ex is_nak dispositions then
             Ok \<lparr>ev_code = ConfigureNak, ev_data = concat (map nak_data dispositions),
                 ev_configuration = None\<rparr>
           else
             Ok \<lparr>ev_code = ConfigureAck, ev_data = lp_data packet, ev_configuration = Some configuration\<rparr>))"

section \<open>The peer's negative answers\<close>

definition nak_option :: "lcp_option list \<Rightarrow> lcp_option \<Rightarrow> bytes" where
  "nak_option suggestions opt =
     (case find (\<lambda>suggestion. lo_type suggestion = lo_type opt) suggestions of
        Some suggestion \<Rightarrow>
          if lcp_known_type opt = Some MagicNumber \<and> length (lo_data opt) = 4 \<and>
             length (lo_data suggestion) = 4 then
            (let current = option_magic opt;
                 suggested = option_magic suggestion;
                 replacement = (if suggested = 0 \<or> suggested = current then next_magic current else suggested)
             in [lcp_option_type_octet MagicNumber, 6] @ to_be32 replacement)
          else lo_encoded suggestion
      | None \<Rightarrow> lo_encoded opt)"

text \<open>\<^verbatim>\<open>apply_nak\<close> unwraps every option of the local list: it panics on a malformed one.\<close>

definition apply_nak :: "bytes \<Rightarrow> lcp_option list \<Rightarrow> (bytes, lcp_machine_error) result" where
  "apply_nak local suggestions =
     (case lcp_collect_options local of
        Ok opts \<Rightarrow> Ok (concat (map (nak_option suggestions) opts))
      | _ \<Rightarrow> Panic)"

definition apply_reject :: "bytes \<Rightarrow> lcp_option list \<Rightarrow> (bytes option, lcp_machine_error) result" where
  "apply_reject local rejected =
     (if rejected = [] \<or> lcp_has_duplicate_types rejected then Ok None
      else (case lcp_collect_options local of
        Ok local_options \<Rightarrow>
          if list_ex (\<lambda>r. \<not> list_ex (\<lambda>l. lo_encoded l = lo_encoded r) local_options) rejected
          then Ok None
          else Ok (Some (concat (map lo_encoded
            (filter (\<lambda>l. \<not> list_ex (\<lambda>r. lo_encoded r = lo_encoded l) rejected) local_options))))
      | _ \<Rightarrow> Panic))"

definition lcp_encode_packet :: "u8 \<Rightarrow> u8 \<Rightarrow> bytes \<Rightarrow> (bytes, lcp_machine_error) result" where
  "lcp_encode_packet code identifier data =
     (let (r, output) = lcp_encode_into code identifier data (replicate (LCP_HEADER_LENGTH + length data) 0)
      in and_then (map_err PacketTooLarge r) (\<lambda>_. Ok output))"

section \<open>Collected options\<close>

text \<open>An option as the iterator yields it: its octets are the encoding of its type and data.\<close>

definition wf_option :: "lcp_option \<Rightarrow> bool" where
  "wf_option opt \<longleftrightarrow> tlv_fits (lcp_option_view opt) \<and> lo_encoded opt = tlv_bytes (lcp_option_view opt)"

lemma collect_wf:
  assumes "lcp_collect_options data = Ok opts"
  shows "list_all wf_option opts" "data = concat (map lo_encoded opts)"
proof -
  note sound = lcp_options.collect_sound [OF assms]
  then show wf: "list_all wf_option opts"
    by (simp add: list_all_iff wf_option_def)
  have "map lo_encoded opts = map tlv_bytes (map lcp_option_view opts)" using sound by blast
  then show "data = concat (map lo_encoded opts)" using sound by (simp del: map_map)
qed

lemma wf_option_eq:
  "wf_option opt \<Longrightarrow> opt = \<lparr>lo_type = lo_type opt, lo_data = lo_data opt,
     lo_encoded = tlv_bytes (lo_type opt, lo_data opt)\<rparr>"
  by (cases opt) (simp add: wf_option_def lcp_option_view_def)

lemma wf_option_inject:
  "wf_option a \<Longrightarrow> wf_option b \<Longrightarrow> lo_type a = lo_type b \<Longrightarrow> lo_data a = lo_data b \<Longrightarrow> a = b"
  using wf_option_eq [of a] wf_option_eq [of b] by simp

lemma tlv_bytes_inject: "tlv_bytes a = tlv_bytes b \<longleftrightarrow> a = b"
  by (cases a; cases b) (auto simp: tlv_bytes_def)

lemma wf_encoded_inject: "wf_option a \<Longrightarrow> wf_option b \<Longrightarrow> lo_encoded a = lo_encoded b \<longleftrightarrow> a = b"
  by (metis lcp_option_view_def old.prod.inject tlv_bytes_inject wf_option_def wf_option_inject)

lemma collect_of_wf:
  assumes "list_all wf_option opts"
  shows "lcp_collect_options (concat (map lo_encoded opts)) = Ok opts"
  using assms
proof (induction opts)
  case Nil
  then show ?case by (simp add: lcp_options.collect_nil)
next
  case (Cons opt opts)
  then have opt: "tlv_fits (lcp_option_view opt)" "lo_encoded opt = tlv_bytes (lcp_option_view opt)"
    by (simp_all add: wf_option_def)
  moreover have "\<lparr>lo_type = fst (lcp_option_view opt), lo_data = snd (lcp_option_view opt),
      lo_encoded = tlv_bytes (lcp_option_view opt)\<rparr> = opt"
    using Cons.prems wf_option_eq [of opt] by (simp add: lcp_option_view_def)
  ultimately show ?case using Cons lcp_collect_tlv [of "lcp_option_view opt"] by simp
qed

lemma wf_option_length: "wf_option opt \<Longrightarrow> length (lo_encoded opt) = 2 + length (lo_data opt) \<and> length (lo_data opt) \<le> 253"
  by (simp add: wf_option_def lcp_option_view_def tlv_fits_def)

lemma ok_items_collect:
  "lcp_options_collect it = Ok opts \<Longrightarrow> lcp_options_ok_items it = opts"
proof (induction it arbitrary: opts rule: lcp_options_collect.induct)
  case (1 it)
  obtain item it' where n: "lcp_options_next it = (item, it')" by fastforce
  show ?case
  proof (cases item)
    case None
    with 1 n show ?thesis
      by (simp add: lcp_options_collect.simps [of it] lcp_options_ok_items.simps [of it])
  next
    case (Some r)
    with 1 n show ?thesis
      by (cases r) (auto simp: lcp_options_collect.simps [of it] lcp_options_ok_items.simps [of it]
          and_then_eq_Ok)
  qed
qed

lemma local_magic_collect:
  "lcp_collect_options bs = Ok opts \<Longrightarrow> local_magic bs = map_option option_magic (find is_magic_option opts)"
  by (simp add: local_magic_def lcp_collect_options_def ok_items_collect)

lemma has_duplicate_types_iff [simp]: "lcp_has_duplicate_types opts \<longleftrightarrow> \<not> distinct (map lo_type opts)"
  by (simp only: lcp_has_duplicate_types_def lcp_duplicate_type_map_def [abs_def] no_duplicates_iff)

lemma duplicate_type_map_iff: "lcp_duplicate_type_map opts t \<longleftrightarrow> 2 \<le> count_list (map lo_type opts) t"
  by (simp add: lcp_duplicate_type_map_def mark_duplicates_iff)

lemma no_duplicates_distinct:
  assumes "\<forall>opt \<in> set opts. \<not> lcp_duplicate_type_map opts (lo_type opt)"
  shows "distinct (map lo_type opts)"
proof -
  have "count_list (map lo_type opts) t \<le> 1" for t
  proof (cases "t \<in> set (map lo_type opts)")
    case True
    with assms show ?thesis by (auto simp: duplicate_type_map_iff not_less_eq_eq numeral_2_eq_2)
  next
    case False
    then show ?thesis by (simp add: count_notin)
  qed
  then show ?thesis unfolding distinct_count_list by blast
qed

lemma distinct_no_duplicates:
  "distinct (map lo_type opts) \<Longrightarrow> \<not> lcp_duplicate_type_map opts t"
  by (simp add: duplicate_type_map_iff distinct_count_list not_less_eq_eq numeral_2_eq_2)

lemma distinct_octets_length: "distinct (ts :: u8 list) \<Longrightarrow> length ts \<le> 256"
proof -
  assume "distinct ts"
  then have "length ts = card (set ts)" by (simp add: distinct_card)
  also have "\<dots> \<le> card (UNIV :: u8 set)" by (rule card_mono) simp_all
  finally show ?thesis by (simp add: card_word)
qed

lemma distinct_options_length: "distinct (map lo_type opts) \<Longrightarrow> length opts \<le> 256"
  using distinct_octets_length [of "map lo_type opts"] by simp

lemma length_concat_le: "\<forall>x \<in> set xs. length (f x) \<le> k \<Longrightarrow> length (concat (map f xs)) \<le> k * length xs"
proof (induction xs)
  case Nil
  then show ?case by simp
next
  case (Cons x xs)
  then have "length (f x) \<le> k" "length (concat (map f xs)) \<le> k * length xs" by simp_all
  then show ?case by simp
qed

section \<open>The local option list stays well formed\<close>

text \<open>
  The list of options we offer: it can be iterated without error and no type comes up twice. Such
  a list has at most 256 options of at most 255 octets and always fits into a packet.
\<close>

definition local_options_ok :: "bytes \<Rightarrow> bool" where
  "local_options_ok local \<longleftrightarrow>
     (case lcp_collect_options local of Ok opts \<Rightarrow> distinct (map lo_type opts) | _ \<Rightarrow> False)"

lemma local_options_ok_iff:
  "local_options_ok local \<longleftrightarrow> (\<exists>opts. lcp_collect_options local = Ok opts \<and> distinct (map lo_type opts))"
  by (simp add: local_options_ok_def split: result.splits)

lemma local_options_length:
  assumes "local_options_ok local"
  shows "length local \<le> 65280"
proof -
  from assms obtain opts where o: "lcp_collect_options local = Ok opts" "distinct (map lo_type opts)"
    by (auto simp: local_options_ok_iff)
  have "\<forall>opt \<in> set opts. length (lo_encoded opt) \<le> 255"
    using collect_wf(1) [OF o(1)] wf_option_length by (fastforce simp: list_all_iff)
  then have "length (concat (map lo_encoded opts)) \<le> 255 * length opts" by (rule length_concat_le)
  also have "\<dots> \<le> 255 * 256" using distinct_options_length [OF o(2)] by simp
  finally show ?thesis using collect_wf(2) [OF o(1)] by simp
qed

lemma next_magic_nonzero: "next_magic c \<noteq> 0"
  by (simp add: next_magic_def Let_def MAGIC_RETRY_INCREMENT_def)

lemma next_magic_changes: "next_magic c \<noteq> c"
proof -
  have "c + MAGIC_RETRY_INCREMENT \<noteq> c" by (simp add: MAGIC_RETRY_INCREMENT_def)
  moreover have "c + MAGIC_RETRY_INCREMENT = 0 \<Longrightarrow> c \<noteq> MAGIC_RETRY_INCREMENT"
    by (auto simp: MAGIC_RETRY_INCREMENT_def)
  ultimately show ?thesis by (auto simp: next_magic_def Let_def)
qed

text \<open>What \<open>nak_option\<close> makes of one of our options, as an option.\<close>

definition nak_option_of :: "lcp_option list \<Rightarrow> lcp_option \<Rightarrow> lcp_option" where
  "nak_option_of suggestions opt =
     (case find (\<lambda>s. lo_type s = lo_type opt) suggestions of
        Some s \<Rightarrow>
          if is_magic_option opt \<and> length (lo_data s) = 4 then
            (let r = (if option_magic s = 0 \<or> option_magic s = option_magic opt then next_magic (option_magic opt)
                      else option_magic s)
             in \<lparr>lo_type = lo_type opt, lo_data = to_be32 r, lo_encoded = tlv_bytes (lo_type opt, to_be32 r)\<rparr>)
          else s
      | None \<Rightarrow> opt)"

lemma find_Some_wf:
  "list_all P xs \<Longrightarrow> find Q xs = Some x \<Longrightarrow> P x \<and> Q x \<and> x \<in> set xs"
  by (auto simp: find_Some_iff list_all_iff)

lemma magic_option_type: "is_magic_option opt \<Longrightarrow> lo_type opt = 5"
  by (simp add: is_magic_option_def lcp_known_type_def lcp_option_type_from_octet_iff)

lemma nak_option_of:
  assumes "wf_option opt" "list_all wf_option suggestions"
  shows "lo_encoded (nak_option_of suggestions opt) = nak_option suggestions opt"
    and "wf_option (nak_option_of suggestions opt)"
    and "lo_type (nak_option_of suggestions opt) = lo_type opt"
proof -
  show "lo_encoded (nak_option_of suggestions opt) = nak_option suggestions opt"
    by (auto simp: nak_option_of_def nak_option_def is_magic_option_def Let_def tlv_bytes_def
        lcp_known_type_def lcp_option_type_from_octet_iff split: option.splits)
  show "wf_option (nak_option_of suggestions opt)" "lo_type (nak_option_of suggestions opt) = lo_type opt"
    using assms find_Some_wf [OF assms(2)]
    by (auto simp: nak_option_of_def Let_def wf_option_def lcp_option_view_def tlv_fits_def
        split: option.splits)
qed

lemma apply_nak_collect:
  assumes "lcp_collect_options local = Ok opts" "list_all wf_option suggestions"
  shows "\<exists>local'. apply_nak local suggestions = Ok local' \<and>
    lcp_collect_options local' = Ok (map (nak_option_of suggestions) opts)"
proof -
  note wf = collect_wf(1) [OF assms(1)]
  have "map (nak_option suggestions) opts = map lo_encoded (map (nak_option_of suggestions) opts)"
    using wf nak_option_of(1) [OF _ assms(2)] by (simp add: list_all_iff)
  moreover have "list_all wf_option (map (nak_option_of suggestions) opts)"
    using wf nak_option_of(2) [OF _ assms(2)] by (simp add: list_all_iff)
  ultimately show ?thesis using assms(1) by (simp only: apply_nak_def result.case) (simp add: collect_of_wf del: map_map)
qed

lemma nak_types:
  assumes "list_all wf_option opts" "list_all wf_option suggestions"
  shows "map lo_type (map (nak_option_of suggestions) opts) = map lo_type opts"
  using assms nak_option_of(3) by (simp add: list_all_iff)

lemma apply_nak_ok:
  assumes "local_options_ok local" "list_all wf_option suggestions"
  shows "\<exists>local'. apply_nak local suggestions = Ok local' \<and> local_options_ok local'"
proof -
  from assms(1) obtain opts where o: "lcp_collect_options local = Ok opts" "distinct (map lo_type opts)"
    by (auto simp: local_options_ok_iff)
  from apply_nak_collect [OF o(1) assms(2)] nak_types [OF collect_wf(1) [OF o(1)] assms(2)] o(2)
  show ?thesis by (auto simp: local_options_ok_iff simp del: map_map)
qed

lemma apply_reject_collect:
  assumes "lcp_collect_options local = Ok opts" "apply_reject local rejected = Ok (Some local')"
    and "list_all wf_option rejected"
  shows "lcp_collect_options local' = Ok (filter (\<lambda>opt. opt \<notin> set rejected) opts) \<and>
    rejected \<noteq> [] \<and> set rejected \<subseteq> set opts"
proof -
  note wf = collect_wf(1) [OF assms(1)]
  have eq: "\<And>l. l \<in> set opts \<Longrightarrow> list_ex (\<lambda>r. lo_encoded r = lo_encoded l) rejected \<longleftrightarrow> l \<in> set rejected"
    using wf assms(3) wf_encoded_inject by (auto simp: list_ex_iff list_all_iff)
  have sub: "\<And>r. r \<in> set rejected \<Longrightarrow> list_ex (\<lambda>l. lo_encoded l = lo_encoded r) opts \<longleftrightarrow> r \<in> set opts"
    using wf assms(3) wf_encoded_inject by (auto simp: list_ex_iff list_all_iff)
  from assms(1,2) have l: "local' = concat (map lo_encoded
      (filter (\<lambda>l. \<not> list_ex (\<lambda>r. lo_encoded r = lo_encoded l) rejected) opts))"
    and r: "rejected \<noteq> []" "\<forall>r \<in> set rejected. list_ex (\<lambda>l. lo_encoded l = lo_encoded r) opts"
    by (auto simp: apply_reject_def list_ex_iff split: if_splits)
  have "filter (\<lambda>l. \<not> list_ex (\<lambda>r. lo_encoded r = lo_encoded l) rejected) opts =
      filter (\<lambda>opt. opt \<notin> set rejected) opts"
    using eq by (auto intro!: filter_cong)
  with l have "local' = concat (map lo_encoded (filter (\<lambda>opt. opt \<notin> set rejected) opts))" by simp
  moreover have "list_all wf_option (filter (\<lambda>opt. opt \<notin> set rejected) opts)"
    using wf by (simp add: list_all_iff)
  ultimately show ?thesis using r sub by (auto simp: collect_of_wf)
qed

lemma apply_reject_ok:
  assumes "local_options_ok local" "list_all wf_option rejected"
  shows "\<exists>r. apply_reject local rejected = Ok r \<and> (\<forall>local'. r = Some local' \<longrightarrow> local_options_ok local')"
proof -
  from assms(1) obtain opts where o: "lcp_collect_options local = Ok opts" "distinct (map lo_type opts)"
    by (auto simp: local_options_ok_iff)
  then obtain r where r: "apply_reject local rejected = Ok r"
    by (cases "apply_reject local rejected") (auto simp: apply_reject_def split: if_splits)
  moreover have "local_options_ok local'" if "r = Some local'" for local'
    using apply_reject_collect [OF o(1) _ assms(2)] r that o(2)
    by (auto simp: local_options_ok_iff intro: distinct_map_filter)
  ultimately show ?thesis by blast
qed

section \<open>The answer to the peer's request\<close>

text \<open>
  The specification, option by option: what \<open>lcp_evaluate_option\<close> disposes does not depend on the
  configuration built so far, and the configuration is what the options say where they are present.
\<close>

definition disposition_of :: "sfc_policy \<Rightarrow> u32 option \<Rightarrow> lcp_option list \<Rightarrow> lcp_option \<Rightarrow> option_disposition" where
  "disposition_of policy magic opts opt =
     (if 2 \<le> count_list (map lo_type opts) (lo_type opt) then Reject
      else fst (lcp_evaluate_option opt policy magic peer_configuration_default))"

fun option_configuration :: "sfc_policy \<Rightarrow> u32 option \<Rightarrow> peer_configuration \<Rightarrow> lcp_option list \<Rightarrow> peer_configuration" where
  "option_configuration policy magic conf [] = conf"
| "option_configuration policy magic conf (opt # opts) =
     option_configuration policy magic (snd (lcp_evaluate_option opt policy magic conf)) opts"

lemma evaluate_option_disposition:
  "fst (lcp_evaluate_option opt policy magic conf) = fst (lcp_evaluate_option opt policy magic conf')"
proof (cases "lcp_known_type opt")
  case None
  then show ?thesis by (simp add: lcp_evaluate_option_def)
next
  case (Some t)
  then show ?thesis by (cases t) (simp_all add: lcp_evaluate_option_def Let_def)
qed

lemma evaluate_options_dispositions:
  "fst (lcp_evaluate_options dup policy magic conf opts) =
     map (\<lambda>opt. if dup (lo_type opt) then Reject
       else fst (lcp_evaluate_option opt policy magic peer_configuration_default)) opts"
proof (induction opts arbitrary: conf)
  case Nil
  then show ?case by simp
next
  case (Cons opt opts)
  then show ?case
    using evaluate_option_disposition [of opt policy magic conf peer_configuration_default]
    by (simp add: Let_def case_prod_unfold)
qed

lemma evaluate_options_configuration:
  "\<forall>opt \<in> set opts. \<not> dup (lo_type opt) \<Longrightarrow>
   snd (lcp_evaluate_options dup policy magic conf opts) = option_configuration policy magic conf opts"
  by (induction opts arbitrary: conf) (simp_all add: Let_def case_prod_unfold)

text \<open>The whole answer, in closed form.\<close>

lemma evaluate_peer_request_eq:
  assumes "lcp_collect_options (lp_data packet) = Ok opts"
  shows "lcp_evaluate_peer_request packet policy magic = Ok
    (if \<exists>opt \<in> set opts. disposition_of policy magic opts opt = Reject then
       \<lparr>ev_code = ConfigureReject,
        ev_data = concat (map lo_encoded (filter (\<lambda>opt. disposition_of policy magic opts opt = Reject) opts)),
        ev_configuration = None\<rparr>
     else if \<exists>opt \<in> set opts. is_nak (disposition_of policy magic opts opt) then
       \<lparr>ev_code = ConfigureNak, ev_data = concat (map (\<lambda>opt. nak_data (disposition_of policy magic opts opt)) opts),
        ev_configuration = None\<rparr>
     else \<lparr>ev_code = ConfigureAck, ev_data = lp_data packet,
        ev_configuration = Some (option_configuration policy magic peer_configuration_default opts)\<rparr>)"
proof -
  let ?dup = "lcp_duplicate_type_map opts"
  have disp: "fst (lcp_evaluate_options ?dup policy magic peer_configuration_default opts) =
      map (disposition_of policy magic opts) opts"
    unfolding evaluate_options_dispositions
    by (simp add: disposition_of_def [abs_def] duplicate_type_map_iff)
  have zip: "map (\<lambda>x. lo_encoded (fst x)) (filter (\<lambda>x. snd x = Reject) (zip xs (map f xs))) =
      map lo_encoded (filter (\<lambda>opt. f opt = Reject) xs)" for f and xs :: "lcp_option list"
    by (induction xs) simp_all
  have conf: "snd (lcp_evaluate_options ?dup policy magic peer_configuration_default opts) =
      option_configuration policy magic peer_configuration_default opts"
    if "\<not> (\<exists>opt \<in> set opts. disposition_of policy magic opts opt = Reject)"
    using that by (intro evaluate_options_configuration) (auto simp: duplicate_type_map_iff disposition_of_def)
  have mem: "Reject \<in> f ` S \<longleftrightarrow> (\<exists>opt \<in> S. f opt = Reject)" for f and S :: "lcp_option set"
    by force
  show ?thesis
    using assms disp conf mem
    by (simp add: lcp_evaluate_peer_request_def Let_def zip list_ex_iff comp_def case_prod_unfold)
qed

lemma evaluate_peer_request_err:
  "lcp_collect_options (lp_data packet) = Err e \<Longrightarrow> lcp_evaluate_peer_request packet policy magic = Err e"
  by (simp add: lcp_evaluate_peer_request_def)

lemma nak_data_length: "length (nak_data (fst (lcp_evaluate_option opt policy magic conf))) \<le> 6"
  by (auto simp: lcp_evaluate_option_def Let_def split: option.splits lcp_option_type.splits)

lemma length_concat_filter: "length (concat (map f (filter P xs))) \<le> length (concat (map f xs))"
  by (induction xs) simp_all

lemma evaluation_fits:
  assumes "length (lp_data packet) \<le> 65531" "lcp_evaluate_peer_request packet policy magic = Ok ev"
  shows "length (ev_data ev) \<le> 65531"
proof -
  obtain opts where o: "lcp_collect_options (lp_data packet) = Ok opts"
    using assms(2) by (auto simp: lcp_evaluate_peer_request_def and_then_eq_Ok)
  note eq = evaluate_peer_request_eq [OF o, of policy magic]
  show ?thesis
  proof (cases "\<exists>opt \<in> set opts. disposition_of policy magic opts opt = Reject")
    case True
    with eq assms(2) have "length (ev_data ev) \<le> length (concat (map lo_encoded opts))"
      using length_concat_filter by auto
    with assms(1) collect_wf(2) [OF o] show ?thesis by simp
  next
    case False
    then have "\<forall>opt \<in> set opts. \<not> lcp_duplicate_type_map opts (lo_type opt)"
      by (auto simp: disposition_of_def duplicate_type_map_iff)
    then have "length opts \<le> 256" using no_duplicates_distinct distinct_options_length by blast
    moreover have "length (concat (map (\<lambda>opt. nak_data (disposition_of policy magic opts opt)) opts)) \<le>
        6 * length opts"
      by (rule length_concat_le) (auto simp: disposition_of_def nak_data_length)
    ultimately show ?thesis using eq assms False by auto
  qed
qed

lemma encode_packet_ok:
  "length data \<le> 65531 \<Longrightarrow> lcp_encode_packet code ident data = Ok (packet_bytes code ident data)"
  using lcp.encode_ok [where d = data and out = "replicate (4 + length data) 0" and c = code and i = ident]
  by (simp add: lcp_encode_packet_def LCP_HEADER_LENGTH_def)

lemma encode_packet_err:
  "\<not> length data \<le> 65531 \<Longrightarrow>
   lcp_encode_packet code ident data = Err (PacketTooLarge (LcpDataTooLong (length data)))"
  by (simp add: lcp_encode_packet_def lcp_encode_into_def LCP_HEADER_LENGTH_def Let_def)

end
