(* ===== verification/Layer_Machine.thy ===== *)
theory Layer_Machine
  imports Prelude
begin

text \<open>
  What the two negotiating layers (LCP and IPCP) share: the actions and transitions their machines
  report, and the contract under which the layer above may listen to them. \<open>layer_track\<close> follows
  the layer's state through a list of actions and rejects an Up while up, a Down or Finished at the
  wrong time; \<open>run_machine\<close> plays a list of events. The locale \<open>layer_machine\<close> lifts the one-step
  contract to whole runs, and \<open>restart_timer\<close> what a machine promises about its restart timer to the
  end of a negotiation with a silent peer.
\<close>

section \<open>Actions and transitions\<close>

datatype 'c action = SendPacket bytes | ThisLayerUp 'c | ThisLayerDown | ThisLayerFinished

record ('c, 'i) transition =
  tr_actions :: "'c action list"
  tr_ignored :: "'i option"

definition transition_default :: "('c, 'i) transition" where
  "transition_default = \<lparr>tr_actions = [], tr_ignored = None\<rparr>"

definition ignoring :: "'i \<Rightarrow> ('c, 'i) transition" where
  "ignoring reason = \<lparr>tr_actions = [], tr_ignored = Some reason\<rparr>"

definition acting :: "'c action list \<Rightarrow> ('c, 'i) transition" where
  "acting actions = \<lparr>tr_actions = actions, tr_ignored = None\<rparr>"

lemma transition_simps [simp]:
  "tr_actions transition_default = []" "tr_ignored transition_default = None"
  "tr_actions (ignoring r) = []" "tr_ignored (ignoring r) = Some r"
  "tr_actions (acting as) = as" "tr_ignored (acting as) = None"
  by (simp_all add: transition_default_def ignoring_def acting_def)

section \<open>Following the layer through its actions\<close>

fun layer_track :: "bool \<Rightarrow> 'c action list \<Rightarrow> bool option" where
  "layer_track up [] = Some up"
| "layer_track up (SendPacket _ # as) = layer_track up as"
| "layer_track up (ThisLayerUp _ # as) = (if up then None else layer_track True as)"
| "layer_track up (ThisLayerDown # as) = (if up then layer_track False as else None)"
| "layer_track up (ThisLayerFinished # as) = (if up then None else layer_track up as)"

lemma layer_track_append:
  "layer_track up (as @ bs) = Option.bind (layer_track up as) (\<lambda>u. layer_track u bs)"
  by (induction up as rule: layer_track.induct) simp_all

section \<open>Runs\<close>

fun run_machine ::
  "('m \<Rightarrow> 'ev \<Rightarrow> (('c, 'i) transition, 'e) result \<times> 'm) \<Rightarrow> 'm \<Rightarrow> 'ev list \<Rightarrow>
     ('c action list, 'e) result \<times> 'm" where
  "run_machine step m [] = (Ok [], m)"
| "run_machine step m (ev # evs) =
     and_then_st (step m ev) (\<lambda>t m'.
       and_then_st (run_machine step m' evs) (\<lambda>as m''. (Ok (tr_actions t @ as), m'')))"

locale layer_machine =
  fixes step :: "'m \<Rightarrow> 'ev \<Rightarrow> (('c, 'i) transition, 'e) result \<times> 'm"
    and opened :: "'m \<Rightarrow> bool"
    and inv :: "'m \<Rightarrow> bool"
  assumes step_ok: "inv m \<Longrightarrow> \<exists>t m'. step m ev = (Ok t, m') \<and> inv m' \<and>
      layer_track (opened m) (tr_actions t) = Some (opened m')"
begin

lemma step_inv: "inv m \<Longrightarrow> inv (snd (step m ev))"
  using step_ok [of m ev] by auto

lemma run_ok:
  assumes "inv m"
  shows "\<exists>as m'. run_machine step m evs = (Ok as, m') \<and> inv m' \<and>
    layer_track (opened m) as = Some (opened m')"
  using assms
proof (induction evs arbitrary: m)
  case Nil
  then show ?case by simp
next
  case (Cons ev evs)
  from step_ok [OF Cons.prems, of ev] obtain t m1 where
    s: "step m ev = (Ok t, m1)" "inv m1" "layer_track (opened m) (tr_actions t) = Some (opened m1)" by blast
  from Cons.IH [OF s(2)] obtain as m2 where
    "run_machine step m1 evs = (Ok as, m2)" "inv m2" "layer_track (opened m1) as = Some (opened m2)" by blast
  with s show ?case by (simp add: layer_track_append)
qed

text \<open>The layer is up at the end exactly when the last Up has not been followed by a Down.\<close>

lemma run_last:
  assumes "inv m" "run_machine step m evs = (Ok as, m')"
    and "as = bs @ a # cs" "\<forall>c \<in> set cs. \<forall>x. c \<noteq> ThisLayerUp x \<and> c \<noteq> ThisLayerDown"
    and "(\<exists>x. a = ThisLayerUp x) \<or> a = ThisLayerDown"
  shows "opened m' \<longleftrightarrow> (\<exists>x. a = ThisLayerUp x)"
proof -
  have quiet: "layer_track u cs = Some v \<Longrightarrow> v = u" for u v
    using assms(4) by (induction u cs rule: layer_track.induct) (auto split: if_splits)
  from run_ok [OF assms(1), of evs] assms(2) have "layer_track (opened m) as = Some (opened m')" by simp
  with assms(3,5) quiet show ?thesis
    by (auto simp: layer_track_append split: Option.bind_splits if_splits dest!: quiet)
qed

end

section \<open>The restart timer\<close>

text \<open>The timer expires up to \<open>n\<close> times, each time at its deadline, and nothing else happens.\<close>

fun expire ::
  "('m \<Rightarrow> u64 \<Rightarrow> (('c, 'i) transition, 'e) result \<times> 'm) \<Rightarrow> ('m \<Rightarrow> u64 option) \<Rightarrow> nat \<Rightarrow> 'm \<Rightarrow>
     ('c action list, 'e) result \<times> 'm" where
  "expire poll deadline 0 m = (Ok [], m)"
| "expire poll deadline (Suc n) m = (case deadline m of
     None \<Rightarrow> (Ok [], m)
   | Some d \<Rightarrow> and_then_st (poll m d) (\<lambda>t m'.
       and_then_st (expire poll deadline n m') (\<lambda>as m''. (Ok (tr_actions t @ as), m''))))"

locale restart_timer =
  fixes poll :: "'m \<Rightarrow> u64 \<Rightarrow> (('c, 'i) transition, 'e) result \<times> 'm"
    and deadline :: "'m \<Rightarrow> u64 option"
    and remaining :: "'m \<Rightarrow> u8"
    and outstanding :: "'m \<Rightarrow> bytes"
    and state :: "'m \<Rightarrow> 's"
    and given_up :: "'m \<Rightarrow> 's"
    and inv :: "'m \<Rightarrow> bool"
  assumes retransmit: "inv m \<Longrightarrow> deadline m = Some d \<Longrightarrow> remaining m \<noteq> 0 \<Longrightarrow>
      \<exists>m'. poll m d = (Ok (acting [SendPacket (outstanding m)]), m') \<and> inv m' \<and> deadline m' \<noteq> None \<and>
        remaining m' = remaining m - 1 \<and> outstanding m' = outstanding m \<and> given_up m' = given_up m"
    and give_up: "inv m \<Longrightarrow> deadline m = Some d \<Longrightarrow> remaining m = 0 \<Longrightarrow>
      \<exists>m'. poll m d = (Ok (acting [ThisLayerFinished]), m') \<and> inv m' \<and> deadline m' = None \<and>
        state m' = given_up m"
begin

lemma silent_peer:
  assumes "inv m" and "deadline m \<noteq> None"
  shows "\<exists>m'. expire poll deadline (unat (remaining m) + 1) m =
      (Ok (replicate (unat (remaining m)) (SendPacket (outstanding m)) @ [ThisLayerFinished]), m') \<and>
    state m' = given_up m \<and> deadline m' = None \<and> inv m'"
  using assms
proof (induction "unat (remaining m)" arbitrary: m)
  case 0
  then obtain d where d: "deadline m = Some d" "remaining m = 0" by (auto simp: unat_eq_0)
  from give_up [OF "0.prems"(1) d] d show ?case by auto
next
  case (Suc k)
  from Suc.hyps(2) have nz: "remaining m \<noteq> 0" by auto
  obtain d where d: "deadline m = Some d" using Suc.prems(2) by blast
  from retransmit [OF Suc.prems(1) d nz] obtain m1 where
    m1: "poll m d = (Ok (acting [SendPacket (outstanding m)]), m1)" "inv m1" "deadline m1 \<noteq> None"
      "remaining m1 = remaining m - 1" "outstanding m1 = outstanding m" "given_up m1 = given_up m" by blast
  have k: "k = unat (remaining m1)" using m1(4) nz Suc.hyps(2) by (simp add: unat_dec)
  from Suc.hyps(1) [OF k m1(2,3)] m1(5,6) k obtain m2 where
    m2: "expire poll deadline (Suc k) m1 = (Ok (replicate k (SendPacket (outstanding m)) @ [ThisLayerFinished]), m2)"
      "state m2 = given_up m" "deadline m2 = None" "inv m2"
    by auto
  have "expire poll deadline (Suc (Suc k)) m =
      (Ok (SendPacket (outstanding m) # replicate k (SendPacket (outstanding m)) @ [ThisLayerFinished]), m2)"
    by (subst expire.simps(2)) (simp add: d m1(1) m2(1) del: expire.simps)
  with m2 show ?case by (simp add: Suc.hyps(2) [symmetric] del: expire.simps)
qed

end

end
