(* ===== verification/Lcp_Machine.thy ===== *)
theory Lcp_Machine
  imports Lcp_Negotiation Layer_Machine
begin

text \<open>
  The LCP automaton, \<^verbatim>\<open>Machine\<close> of \<^verbatim>\<open>crates/ndm24-ppp/src/lcp/negotiation.rs\<close>: its state, every
  method that changes it, and the step function that plays them as events. Each method returns its
  result and the machine it leaves behind, also when it stops early.
\<close>

section \<open>State\<close>

datatype lcp_state = Closed | RequestSent | AckReceived | AckSent | Opened | Closing | Stopped

datatype lcp_ignore_reason =
    MalformedPacket lcp_parse_error
  | MalformedOptions lcp_option_parse_error
  | MalformedEchoRequest
  | InvalidConfigureResponse
  | InvalidTerminateResponse
  | UnexpectedMagicNumber u32 u32 \<comment> \<open>expected, actual\<close>
  | UnsupportedCode u8
  | NotConfiguring

type_synonym lcp_transition = "(peer_configuration, lcp_ignore_reason) transition"

record lcp_settings =
  restart_interval_ms :: u64
  max_configure :: u8
  max_terminate :: u8

definition lcp_settings_default :: lcp_settings where
  "lcp_settings_default = \<lparr>restart_interval_ms = 3000, max_configure = 10, max_terminate = 2\<rparr>"

record lcp_machine =
  lm_state :: lcp_state
  lm_settings :: lcp_settings
  lm_local_options :: bytes
  lm_request_identifier :: u8
  lm_terminate_identifier :: u8
  lm_next_identifier :: u8
  lm_restart_remaining :: u8
  lm_restart_deadline :: "u64 option"
  lm_peer_configuration :: "peer_configuration option"
  lm_acknowledged_local_magic :: "u32 option"

type_synonym lcp_result = "(lcp_transition, lcp_machine_error) result \<times> lcp_machine"

definition lcp_machine_new :: "bytes \<Rightarrow> lcp_settings \<Rightarrow> (lcp_machine, lcp_machine_error) result" where
  "lcp_machine_new local_options settings =
     and_then (map_err InvalidLocalOptions (lcp_validate_options local_options)) (\<lambda>_.
       Ok \<lparr>lm_state = Closed, lm_settings = settings, lm_local_options = local_options,
           lm_request_identifier = 0, lm_terminate_identifier = 0, lm_next_identifier = 0,
           lm_restart_remaining = 0, lm_restart_deadline = None, lm_peer_configuration = None,
           lm_acknowledged_local_magic = None\<rparr>)"

text \<open>\<^verbatim>\<open>peer_configuration.unwrap_or_default()\<close>.\<close>

definition peer_configuration_or_default :: "lcp_machine \<Rightarrow> peer_configuration" where
  "peer_configuration_or_default m =
     (case lm_peer_configuration m of None \<Rightarrow> peer_configuration_default | Some c \<Rightarrow> c)"

section \<open>Sending\<close>

definition allocate_identifier :: "lcp_machine \<Rightarrow> u8 \<times> lcp_machine" where
  "allocate_identifier m =
     (lm_next_identifier m + 1, m\<lparr>lm_next_identifier := lm_next_identifier m + 1\<rparr>)"

definition encode_request :: "lcp_machine \<Rightarrow> (bytes, lcp_machine_error) result" where
  "encode_request m =
     lcp_encode_packet (lcp_code_octet ConfigureRequest) (lm_request_identifier m) (lm_local_options m)"

definition encode_terminate_request :: "lcp_machine \<Rightarrow> (bytes, lcp_machine_error) result" where
  "encode_terminate_request m =
     lcp_encode_packet (lcp_code_octet TerminateRequest) (lm_terminate_identifier m) []"

definition deadline_after :: "lcp_machine \<Rightarrow> u64 \<Rightarrow> u64 option" where
  "deadline_after m now_ms = Some (saturating_add now_ms (restart_interval_ms (lm_settings m)))"

definition send_new_request ::
  "lcp_machine \<Rightarrow> u64 \<Rightarrow> bool \<Rightarrow> (bytes, lcp_machine_error) result \<times> lcp_machine" where
  "send_new_request m now_ms reset_counter =
     (let m = m\<lparr>lm_acknowledged_local_magic := None\<rparr>;
          (identifier, m) = allocate_identifier m;
          m = m\<lparr>lm_request_identifier := identifier\<rparr>;
          m = m\<lparr>lm_restart_remaining :=
            if reset_counter then saturating_sub (max_configure (lm_settings m)) 1
            else saturating_sub (lm_restart_remaining m) 1\<rparr>;
          m = m\<lparr>lm_restart_deadline := deadline_after m now_ms\<rparr>
      in (encode_request m, m))"

section \<open>Administrative events\<close>

definition lcp_open :: "lcp_machine \<Rightarrow> u64 \<Rightarrow> lcp_result" where
  "lcp_open m now_ms =
     (if lm_state m \<in> {Opened, Closing} then (Ok transition_default, m)
      else
        (let m = m\<lparr>lm_state := RequestSent, lm_peer_configuration := None,
                   lm_acknowledged_local_magic := None\<rparr>
         in and_then_st (send_new_request m now_ms True) (\<lambda>packet m.
              (Ok (acting [SendPacket packet]), m))))"

definition lcp_close :: "lcp_machine \<Rightarrow> u64 \<Rightarrow> lcp_result" where
  "lcp_close m now_ms =
     (if lm_state m = Closing then (Ok transition_default, m)
      else if lm_state m \<in> {Closed, Stopped} then
        (Ok transition_default,
         m\<lparr>lm_state := Closed, lm_restart_deadline := None, lm_restart_remaining := 0,
           lm_peer_configuration := None, lm_acknowledged_local_magic := None\<rparr>)
      else
        (let was_open = (lm_state m = Opened);
             m = m\<lparr>lm_state := Closing, lm_peer_configuration := None, lm_acknowledged_local_magic := None\<rparr>;
             (identifier, m) = allocate_identifier m;
             m = m\<lparr>lm_terminate_identifier := identifier,
                   lm_restart_remaining := saturating_sub (max_terminate (lm_settings m)) 1\<rparr>;
             m = m\<lparr>lm_restart_deadline := deadline_after m now_ms\<rparr>;
             actions = (if was_open then [ThisLayerDown] else [])
         in and_then_st (encode_terminate_request m, m) (\<lambda>packet m.
              (Ok (acting (actions @ [SendPacket packet])), m))))"

definition lcp_lower_down :: "lcp_machine \<Rightarrow> lcp_transition \<times> lcp_machine" where
  "lcp_lower_down m =
     (let was_open = (lm_state m = Opened)
      in (acting (if was_open then [ThisLayerDown] else []),
          m\<lparr>lm_state := Closed, lm_restart_deadline := None, lm_restart_remaining := 0,
            lm_peer_configuration := None, lm_acknowledged_local_magic := None\<rparr>))"

text \<open>
  The rejected information is cut so that the packet fits the peer's MRU; an MRU below 6 counts
  as 6.
\<close>

definition lcp_reject_protocol :: "lcp_machine \<Rightarrow> u16 \<Rightarrow> bytes \<Rightarrow> lcp_result" where
  "lcp_reject_protocol m protocol information =
     (if lm_state m \<noteq> Opened then (Ok (ignoring NotConfiguring), m)
      else
        (let peer_mru = unat (max (transmit_mru (peer_configuration_or_default m)) 6);
             information_length = min (length information) (peer_mru - 6);
             rejected = to_be16 protocol @ take information_length information;
             (identifier, m) = allocate_identifier m
         in and_then_st (lcp_encode_packet (lcp_code_octet ProtocolReject) identifier rejected, m)
              (\<lambda>packet m. (Ok (acting [SendPacket packet]), m))))"

definition lcp_poll_timeout :: "lcp_machine \<Rightarrow> u64 \<Rightarrow> lcp_result" where
  "lcp_poll_timeout m now_ms =
     (case lm_restart_deadline m of
        None \<Rightarrow> (Ok transition_default, m)
      | Some deadline \<Rightarrow>
          if now_ms < deadline then (Ok transition_default, m)
          else if lm_state m = Closing then
            (if lm_restart_remaining m = 0 then
               (Ok (acting [ThisLayerFinished]),
                m\<lparr>lm_state := Closed, lm_restart_deadline := None, lm_peer_configuration := None\<rparr>)
             else
               (let m = m\<lparr>lm_restart_remaining := lm_restart_remaining m - 1,
                          lm_restart_deadline := deadline_after m now_ms\<rparr>
                in and_then_st (encode_terminate_request m, m) (\<lambda>packet m.
                     (Ok (acting [SendPacket packet]), m))))
          else if lm_state m \<notin> {RequestSent, AckReceived, AckSent} then
            (Ok transition_default, m\<lparr>lm_restart_deadline := None\<rparr>)
          else if lm_restart_remaining m = 0 then
            (Ok (acting [ThisLayerFinished]), m\<lparr>lm_state := Stopped, lm_restart_deadline := None\<rparr>)
          else
            (let m = m\<lparr>lm_restart_remaining := lm_restart_remaining m - 1\<rparr>;
                 m = (if lm_state m = AckReceived then m\<lparr>lm_state := RequestSent\<rparr> else m);
                 m = m\<lparr>lm_restart_deadline := deadline_after m now_ms\<rparr>
             in and_then_st (encode_request m, m) (\<lambda>packet m.
                  (Ok (acting [SendPacket packet]), m))))"

section \<open>Received packets\<close>

definition receive_echo_request :: "lcp_machine \<Rightarrow> lcp_packet \<Rightarrow> lcp_result" where
  "receive_echo_request m packet =
     (if lm_state m \<noteq> Opened then (Ok (ignoring NotConfiguring), m)
      else if length (lp_data packet) < 4 then (Ok (ignoring MalformedEchoRequest), m)
      else
        (let actual_magic = from_be32 (octets4_at (lp_data packet) 0);
             peer_configuration = peer_configuration_or_default m;
             expected_magic = (case magic_number peer_configuration of None \<Rightarrow> 0 | Some v \<Rightarrow> v)
         in if actual_magic \<noteq> expected_magic then
              (Ok (ignoring (UnexpectedMagicNumber expected_magic actual_magic)), m)
            else
              (let peer_mru = unat (max (transmit_mru peer_configuration) 8);
                   echo_data_length = min (length (drop 4 (lp_data packet))) (peer_mru - 8);
                   response_data =
                     to_be32 (case lm_acknowledged_local_magic m of None \<Rightarrow> 0 | Some v \<Rightarrow> v) @
                     take echo_data_length (drop 4 (lp_data packet))
               in and_then_st
                    (lcp_encode_packet (lcp_code_octet EchoReply) (lp_identifier packet) response_data, m)
                    (\<lambda>response m. (Ok (acting [SendPacket response]), m)))))"

definition receive_terminate_request :: "lcp_machine \<Rightarrow> lcp_packet \<Rightarrow> lcp_result" where
  "receive_terminate_request m packet =
     (let ack = lcp_encode_packet (lcp_code_octet TerminateAck) (lp_identifier packet) [] in
      if lm_state m = Closing then
        and_then_st (ack, m) (\<lambda>response m. (Ok (acting [SendPacket response]), m))
      else
        (let was_open = (lm_state m = Opened);
             m = m\<lparr>lm_state := Stopped, lm_restart_deadline := None, lm_restart_remaining := 0,
                   lm_peer_configuration := None, lm_acknowledged_local_magic := None\<rparr>
         in and_then_st (ack, m) (\<lambda>response m.
              (Ok (acting ([SendPacket response] @ (if was_open then [ThisLayerDown] else []))), m))))"

definition receive_terminate_ack :: "lcp_machine \<Rightarrow> lcp_packet \<Rightarrow> lcp_result" where
  "receive_terminate_ack m packet =
     (if lm_state m \<noteq> Closing then (Ok transition_default, m)
      else if lp_identifier packet \<noteq> lm_terminate_identifier m then
        (Ok (ignoring InvalidTerminateResponse), m)
      else
        (Ok (acting [ThisLayerFinished]),
         m\<lparr>lm_state := Closed, lm_restart_deadline := None, lm_restart_remaining := 0,
           lm_peer_configuration := None, lm_acknowledged_local_magic := None\<rparr>))"

text \<open>The end of \<^verbatim>\<open>receive_configure_request\<close>: the answer, and Up when this opened the layer.\<close>

definition answer_configure_request ::
  "lcp_evaluation \<Rightarrow> bytes \<Rightarrow> peer_configuration action list \<Rightarrow> lcp_machine \<Rightarrow> lcp_result" where
  "answer_configure_request evaluation response actions m =
     (let actions = actions @ [SendPacket response] in
      if lm_state m = Opened then
        (case ev_configuration evaluation of
           Some configuration \<Rightarrow> (Ok (acting (actions @ [ThisLayerUp configuration])), m)
         | None \<Rightarrow> (Panic, m))
      else (Ok (acting actions), m))"

definition receive_configure_request ::
  "lcp_machine \<Rightarrow> lcp_packet \<Rightarrow> u64 \<Rightarrow> sfc_policy \<Rightarrow> lcp_result" where
  "receive_configure_request m packet now_ms policy =
     (case lcp_evaluate_peer_request packet policy (local_magic (lm_local_options m)) of
        Err e \<Rightarrow> (Ok (ignoring (MalformedOptions e)), m)
      | Panic \<Rightarrow> (Panic, m)
      | Ok evaluation \<Rightarrow>
          and_then_st
            (lcp_encode_packet (lcp_code_octet (ev_code evaluation)) (lp_identifier packet)
               (ev_data evaluation), m)
            (\<lambda>response m.
              (let acceptable = (ev_code evaluation = ConfigureAck);
                   m = (if acceptable then m\<lparr>lm_peer_configuration := ev_configuration evaluation\<rparr> else m);
                   answered = (if acceptable then AckSent else RequestSent)
               in case lm_state m of
                    RequestSent \<Rightarrow> answer_configure_request evaluation response [] (m\<lparr>lm_state := answered\<rparr>)
                  | AckSent \<Rightarrow> answer_configure_request evaluation response [] (m\<lparr>lm_state := answered\<rparr>)
                  | AckReceived \<Rightarrow> answer_configure_request evaluation response []
                      (if acceptable then m\<lparr>lm_state := Opened, lm_restart_deadline := None\<rparr> else m)
                  | Opened \<Rightarrow>
                      and_then_st (send_new_request m now_ms True) (\<lambda>request m.
                        answer_configure_request evaluation response [ThisLayerDown, SendPacket request]
                          (m\<lparr>lm_state := answered\<rparr>))
                  | _ \<Rightarrow> (Panic, m))))"

definition receive_configure_ack :: "lcp_machine \<Rightarrow> lcp_packet \<Rightarrow> u64 \<Rightarrow> lcp_result" where
  "receive_configure_ack m packet now_ms =
     (if \<not> lcp_exactly_acknowledges packet (lm_request_identifier m) (lm_local_options m) then
        (Ok (ignoring InvalidConfigureResponse), m)
      else
        (let m = m\<lparr>lm_acknowledged_local_magic := local_magic (lm_local_options m)\<rparr>
         in case lm_state m of
              RequestSent \<Rightarrow>
                (Ok (acting []), m\<lparr>lm_state := AckReceived,
                   lm_restart_remaining := max_configure (lm_settings m)\<rparr>)
            | AckSent \<Rightarrow>
                (Ok (acting [ThisLayerUp (peer_configuration_or_default m)]),
                 m\<lparr>lm_state := Opened, lm_restart_remaining := max_configure (lm_settings m),
                   lm_restart_deadline := None\<rparr>)
            | AckReceived \<Rightarrow>
                and_then_st (send_new_request (m\<lparr>lm_state := RequestSent\<rparr>) now_ms False)
                  (\<lambda>request m. (Ok (acting [SendPacket request]), m))
            | Opened \<Rightarrow>
                and_then_st (send_new_request (m\<lparr>lm_state := RequestSent\<rparr>) now_ms False)
                  (\<lambda>request m. (Ok (acting [ThisLayerDown, SendPacket request]), m))
            | _ \<Rightarrow> (Panic, m)))"

definition after_negative_response :: "lcp_machine \<Rightarrow> u64 \<Rightarrow> lcp_result" where
  "after_negative_response m now_ms =
     (let reset_counter = (lm_state m \<in> {RequestSent, AckSent});
          send = (\<lambda>actions m. and_then_st (send_new_request m now_ms reset_counter)
            (\<lambda>request m. (Ok (acting (actions @ [SendPacket request])), m)))
      in case lm_state m of
           RequestSent \<Rightarrow> send [] (m\<lparr>lm_state := RequestSent\<rparr>)
         | AckReceived \<Rightarrow> send [] (m\<lparr>lm_state := RequestSent\<rparr>)
         | AckSent \<Rightarrow> send [] (m\<lparr>lm_state := AckSent\<rparr>)
         | Opened \<Rightarrow> send [ThisLayerDown] (m\<lparr>lm_state := RequestSent\<rparr>)
         | _ \<Rightarrow> (Panic, m))"

definition receive_configure_nak :: "lcp_machine \<Rightarrow> lcp_packet \<Rightarrow> u64 \<Rightarrow> lcp_result" where
  "receive_configure_nak m packet now_ms =
     (if lp_identifier packet \<noteq> lm_request_identifier m then (Ok (ignoring InvalidConfigureResponse), m)
      else (case lcp_collect_options (lp_data packet) of
        Err e \<Rightarrow> (Ok (ignoring (MalformedOptions e)), m)
      | Panic \<Rightarrow> (Panic, m)
      | Ok options \<Rightarrow>
          if lcp_has_duplicate_types options then (Ok (ignoring InvalidConfigureResponse), m)
          else and_then_st (apply_nak (lm_local_options m) options, m) (\<lambda>updated m.
            after_negative_response
              (m\<lparr>lm_local_options := updated, lm_acknowledged_local_magic := None\<rparr>) now_ms)))"

definition receive_configure_reject :: "lcp_machine \<Rightarrow> lcp_packet \<Rightarrow> u64 \<Rightarrow> lcp_result" where
  "receive_configure_reject m packet now_ms =
     (if lp_identifier packet \<noteq> lm_request_identifier m then (Ok (ignoring InvalidConfigureResponse), m)
      else (case lcp_collect_options (lp_data packet) of
        Err e \<Rightarrow> (Ok (ignoring (MalformedOptions e)), m)
      | Panic \<Rightarrow> (Panic, m)
      | Ok rejected \<Rightarrow>
          and_then_st (apply_reject (lm_local_options m) rejected, m) (\<lambda>updated m.
            case updated of
              None \<Rightarrow> (Ok (ignoring InvalidConfigureResponse), m)
            | Some updated \<Rightarrow>
                after_negative_response
                  (m\<lparr>lm_local_options := updated, lm_acknowledged_local_magic := None\<rparr>) now_ms)))"

definition receive_unknown_code :: "lcp_machine \<Rightarrow> bytes \<Rightarrow> lcp_packet \<Rightarrow> lcp_result" where
  "receive_unknown_code m input packet =
     (let peer_mru = unat (max (transmit_mru (peer_configuration_or_default m)) 8);
          rejected_length = min (LCP_HEADER_LENGTH + length (lp_data packet)) (length input);
          maximum_data = peer_mru - LCP_HEADER_LENGTH;
          rejected = take (min rejected_length maximum_data) input;
          (identifier, m) = allocate_identifier m
      in and_then_st (lcp_encode_packet (lcp_code_octet CodeReject) identifier rejected, m)
           (\<lambda>response m. (Ok (acting [SendPacket response]), m)))"

definition lcp_receive :: "lcp_machine \<Rightarrow> bytes \<Rightarrow> u64 \<Rightarrow> sfc_policy \<Rightarrow> lcp_result" where
  "lcp_receive m input now_ms policy =
     (if lm_state m \<in> {Closed, Stopped} then (Ok (ignoring NotConfiguring), m)
      else (case lcp_packet_parse input of
        Err e \<Rightarrow> (Ok (ignoring (MalformedPacket e)), m)
      | Panic \<Rightarrow> (Panic, m)
      | Ok packet \<Rightarrow>
          if lm_state m = Closing \<and> lcp_known_code packet \<in> Some ` {ConfigureRequest, ConfigureAck,
               ConfigureNak, ConfigureReject, EchoRequest, EchoReply, DiscardRequest}
          then (Ok (ignoring NotConfiguring), m)
          else (case lcp_known_code packet of
            Some ConfigureRequest \<Rightarrow> receive_configure_request m packet now_ms policy
          | Some ConfigureAck \<Rightarrow> receive_configure_ack m packet now_ms
          | Some ConfigureNak \<Rightarrow> receive_configure_nak m packet now_ms
          | Some ConfigureReject \<Rightarrow> receive_configure_reject m packet now_ms
          | Some TerminateRequest \<Rightarrow> receive_terminate_request m packet
          | Some TerminateAck \<Rightarrow> receive_terminate_ack m packet
          | Some EchoRequest \<Rightarrow> receive_echo_request m packet
          | Some EchoReply \<Rightarrow>
              (Ok (if lm_state m = Opened then transition_default else ignoring NotConfiguring), m)
          | Some DiscardRequest \<Rightarrow>
              (Ok (if lm_state m = Opened then transition_default else ignoring NotConfiguring), m)
          | None \<Rightarrow> receive_unknown_code m input packet
          | Some code \<Rightarrow> (Ok (ignoring (UnsupportedCode (lcp_code_octet code))), m))))"

section \<open>The machine as a step function\<close>

datatype lcp_event =
    Open u64
  | Close u64
  | LowerDown
  | RejectProtocol u16 bytes
  | PollTimeout u64
  | Receive bytes u64 sfc_policy

fun lcp_step :: "lcp_machine \<Rightarrow> lcp_event \<Rightarrow> lcp_result" where
  "lcp_step m (Open now_ms) = lcp_open m now_ms"
| "lcp_step m (Close now_ms) = lcp_close m now_ms"
| "lcp_step m LowerDown = (let (t, m') = lcp_lower_down m in (Ok t, m'))"
| "lcp_step m (RejectProtocol protocol information) = lcp_reject_protocol m protocol information"
| "lcp_step m (PollTimeout now_ms) = lcp_poll_timeout m now_ms"
| "lcp_step m (Receive input now_ms policy) = lcp_receive m input now_ms policy"

end
