(* ===== verification/Lcp_Properties.thy ===== *)
theory Lcp_Properties
  imports Lcp_Machine
begin

text \<open>
  The invariant of the LCP automaton and what follows from it: no event makes it fail or panic, the
  layer above sees a strict alternation of Up and Down, the restart timer runs exactly while an
  answer is owed, and a silent peer ends the negotiation after a bounded number of timeouts.
\<close>

section \<open>The invariant\<close>

text \<open>
  The local options can be sent; who has acknowledged the peer knows its configuration; who has
  been acknowledged uses its own Magic-Number; the timer runs exactly while an answer is owed; the
  restart counter stays within the configured limits.
\<close>

definition lcp_inv :: "lcp_machine \<Rightarrow> bool" where
  "lcp_inv m \<longleftrightarrow>
     local_options_ok (lm_local_options m) \<and>
     (lm_state m \<in> {AckSent, Opened} \<longrightarrow> lm_peer_configuration m \<noteq> None) \<and>
     (lm_state m \<in> {AckReceived, Opened} \<longrightarrow>
        lm_acknowledged_local_magic m = local_magic (lm_local_options m)) \<and>
     (lm_restart_deadline m \<noteq> None \<longleftrightarrow> lm_state m \<in> {RequestSent, AckReceived, AckSent, Closing}) \<and>
     unat (lm_restart_remaining m) \<le>
       max (unat (max_configure (lm_settings m))) (unat (max_terminate (lm_settings m)))"

text \<open>A step is good: no error, no panic, the invariant kept, the layer's actions in order.\<close>

definition lcp_good :: "lcp_machine \<Rightarrow> lcp_result \<Rightarrow> bool" where
  "lcp_good m r \<longleftrightarrow> (\<exists>t m'. r = (Ok t, m') \<and> lcp_inv m' \<and>
     layer_track (lm_state m = Opened) (tr_actions t) = Some (lm_state m' = Opened))"

lemma lcp_goodI:
  "r = (Ok t, m') \<Longrightarrow> lcp_inv m' \<Longrightarrow>
   layer_track (lm_state m = Opened) (tr_actions t) = Some (lm_state m' = Opened) \<Longrightarrow> lcp_good m r"
  by (auto simp: lcp_good_def)

lemma lcp_inv_options: "lcp_inv m \<Longrightarrow> local_options_ok (lm_local_options m)"
  by (simp add: lcp_inv_def)

lemma encode_request_ok:
  "local_options_ok (lm_local_options m) \<Longrightarrow>
   encode_request m = Ok (packet_bytes 1 (lm_request_identifier m) (lm_local_options m))"
  using local_options_length by (fastforce simp: encode_request_def intro: encode_packet_ok)

lemma encode_terminate_request_ok [simp]:
  "encode_terminate_request m = Ok (packet_bytes 5 (lm_terminate_identifier m) [])"
  by (simp add: encode_terminate_request_def encode_packet_ok)

lemma send_new_request_ok:
  assumes "local_options_ok (lm_local_options m)"
  shows "send_new_request m now_ms reset = (Ok (packet_bytes 1 (lm_next_identifier m + 1) (lm_local_options m)),
    m\<lparr>lm_acknowledged_local_magic := None, lm_next_identifier := lm_next_identifier m + 1,
      lm_request_identifier := lm_next_identifier m + 1,
      lm_restart_remaining :=
        (if reset then saturating_sub (max_configure (lm_settings m)) 1
         else saturating_sub (lm_restart_remaining m) 1),
      lm_restart_deadline := deadline_after m now_ms\<rparr>)"
  using assms by (simp add: send_new_request_def allocate_identifier_def encode_request_ok deadline_after_def Let_def)

lemma deadline_after_Some [simp]: "deadline_after m now_ms \<noteq> None"
  by (simp add: deadline_after_def)

lemma unat_sub1_le: "unat a \<le> k \<Longrightarrow> unat (saturating_sub a 1) \<le> k"
  by (simp add: unat_saturating_sub)

lemmas lcp_good_simps = lcp_good_def lcp_inv_def send_new_request_ok encode_request_ok
  unat_saturating_sub unat_dec deadline_after_def allocate_identifier_def Let_def

section \<open>Every operation keeps it\<close>

lemma open_good: "lcp_inv m \<Longrightarrow> lcp_good m (lcp_open m now_ms)"
  by (auto simp: lcp_open_def lcp_good_simps)

lemma close_good: "lcp_inv m \<Longrightarrow> lcp_good m (lcp_close m now_ms)"
  by (auto simp: lcp_close_def lcp_good_simps)

lemma lower_down_good: "lcp_inv m \<Longrightarrow> lcp_good m (lcp_step m LowerDown)"
  by (auto simp: lcp_lower_down_def lcp_good_simps)

lemma poll_timeout_good: "lcp_inv m \<Longrightarrow> lcp_good m (lcp_poll_timeout m now_ms)"
  by (auto simp: lcp_poll_timeout_def lcp_good_simps split: option.splits)

lemma reject_protocol_good: "lcp_inv m \<Longrightarrow> lcp_good m (lcp_reject_protocol m protocol information)"
  using unat_le_65535 [of "max (transmit_mru (peer_configuration_or_default m)) 6"]
  by (auto simp: lcp_reject_protocol_def lcp_good_simps encode_packet_ok simp del: unat_le_65535)

lemma echo_request_good: "lcp_inv m \<Longrightarrow> lcp_good m (receive_echo_request m packet)"
  using unat_le_65535 [of "max (transmit_mru (peer_configuration_or_default m)) 8"]
  by (auto simp: receive_echo_request_def lcp_good_simps encode_packet_ok simp del: unat_le_65535)

lemma terminate_request_good: "lcp_inv m \<Longrightarrow> lcp_good m (receive_terminate_request m packet)"
  by (auto simp: receive_terminate_request_def lcp_good_simps encode_packet_ok)

lemma terminate_ack_good: "lcp_inv m \<Longrightarrow> lcp_good m (receive_terminate_ack m packet)"
  by (auto simp: receive_terminate_ack_def lcp_good_simps)

lemma unknown_code_good: "lcp_inv m \<Longrightarrow> lcp_good m (receive_unknown_code m input packet)"
  using unat_le_65535 [of "max (transmit_mru (peer_configuration_or_default m)) 8"]
  by (auto simp: receive_unknown_code_def lcp_good_simps encode_packet_ok LCP_HEADER_LENGTH_def
      simp del: unat_le_65535)

text \<open>
  The handlers that \<open>unreachable!\<close> guards: they are called in the four configuring states only.
\<close>

abbreviation configuring :: "lcp_machine \<Rightarrow> bool" where
  "configuring m \<equiv> lm_state m \<in> {RequestSent, AckReceived, AckSent, Opened}"

lemma after_negative_response_good:
  assumes "lcp_inv m" "configuring m" "local_options_ok updated"
  shows "lcp_good m (after_negative_response
    (m\<lparr>lm_local_options := updated, lm_acknowledged_local_magic := None\<rparr>) now_ms)"
  using assms by (auto simp: after_negative_response_def lcp_good_simps)

lemma configure_nak_good:
  assumes "lcp_inv m" "configuring m"
  shows "lcp_good m (receive_configure_nak m packet now_ms)"
proof -
  have ign: "lcp_good m (Ok (ignoring r), m)" for r using assms(1) by (simp add: lcp_good_def)
  show ?thesis
  proof (cases "lcp_collect_options (lp_data packet)")
    case (Ok opts)
    obtain updated where "apply_nak (lm_local_options m) opts = Ok updated" "local_options_ok updated"
      using apply_nak_ok [OF lcp_inv_options [OF assms(1)] collect_wf(1) [OF Ok]] by blast
    with Ok ign after_negative_response_good [OF assms] show ?thesis
      by (simp add: receive_configure_nak_def)
  qed (use ign lcp_options.collect_not_panic in \<open>auto simp: receive_configure_nak_def\<close>)
qed

lemma configure_reject_good:
  assumes "lcp_inv m" "configuring m"
  shows "lcp_good m (receive_configure_reject m packet now_ms)"
proof -
  have ign: "lcp_good m (Ok (ignoring r), m)" for r using assms(1) by (simp add: lcp_good_def)
  show ?thesis
  proof (cases "lcp_collect_options (lp_data packet)")
    case (Ok opts)
    obtain r where "apply_reject (lm_local_options m) opts = Ok r"
        "\<forall>updated. r = Some updated \<longrightarrow> local_options_ok updated"
      using apply_reject_ok [OF lcp_inv_options [OF assms(1)] collect_wf(1) [OF Ok]] by blast
    with Ok ign after_negative_response_good [OF assms] show ?thesis
      by (cases r) (simp_all add: receive_configure_reject_def)
  qed (use ign lcp_options.collect_not_panic in \<open>auto simp: receive_configure_reject_def\<close>)
qed

lemma configure_ack_good:
  assumes "lcp_inv m" "configuring m"
  shows "lcp_good m (receive_configure_ack m packet now_ms)"
proof (cases "lcp_exactly_acknowledges packet (lm_request_identifier m) (lm_local_options m)")
  case False
  with assms show ?thesis by (simp add: receive_configure_ack_def lcp_good_def)
next
  case True
  with assms show ?thesis
    by (cases "lm_state m") (auto simp: receive_configure_ack_def lcp_good_simps)
qed

lemma evaluate_configuration:
  assumes "lcp_evaluate_peer_request packet policy magic = Ok ev"
  shows "ev_configuration ev \<noteq> None \<longleftrightarrow> ev_code ev = ConfigureAck"
proof -
  obtain opts where "lcp_collect_options (lp_data packet) = Ok opts"
    using assms by (auto simp: lcp_evaluate_peer_request_def and_then_eq_Ok)
  from evaluate_peer_request_eq [OF this, of policy magic] assms show ?thesis by (auto split: if_splits)
qed

lemma configure_request_good:
  assumes "lcp_inv m" "configuring m" "length (lp_data packet) \<le> 65531"
  shows "lcp_good m (receive_configure_request m packet now_ms policy)"
proof (cases "lcp_evaluate_peer_request packet policy (local_magic (lm_local_options m))")
  case (Ok ev)
  have enc: "lcp_encode_packet (lcp_code_octet (ev_code ev)) (lp_identifier packet) (ev_data ev) =
      Ok (packet_bytes (lcp_code_octet (ev_code ev)) (lp_identifier packet) (ev_data ev))"
    using evaluation_fits [OF assms(3) Ok] by (rule encode_packet_ok)
  show ?thesis
  proof (cases "ev_code ev = ConfigureAck")
    case True
    then obtain c where "ev_configuration ev = Some c" using evaluate_configuration [OF Ok] by blast
    with Ok enc True assms(1,2) show ?thesis
      by (cases "lm_state m")
        (auto simp: receive_configure_request_def answer_configure_request_def lcp_good_simps)
  next
    case False
    then have "ev_configuration ev = None" using evaluate_configuration [OF Ok] by blast
    with Ok enc False assms(1,2) show ?thesis
      by (cases "lm_state m")
        (auto simp: receive_configure_request_def answer_configure_request_def lcp_good_simps)
  qed
next
  case (Err e)
  with assms show ?thesis by (simp add: receive_configure_request_def lcp_good_def)
next
  case Panic
  then show ?thesis
    using lcp_options.collect_not_panic evaluate_peer_request_err evaluate_peer_request_eq
    by (cases "lcp_collect_options (lp_data packet)") auto
qed

lemma receive_good: "lcp_inv m \<Longrightarrow> lcp_good m (lcp_receive m input now_ms policy)"
proof -
  assume inv: "lcp_inv m"
  then have ign: "lcp_good m (Ok (ignoring r), m)" "lcp_good m (Ok transition_default, m)" for r
    by (simp_all add: lcp_good_def)
  show ?thesis
  proof (cases "lm_state m \<in> {Closed, Stopped}")
    case True
    with ign show ?thesis by (auto simp: lcp_receive_def)
  next
    case alive: False
    show ?thesis
    proof (cases "lcp_packet_parse input")
      case (Ok packet)
      have len: "length (lp_data packet) \<le> 65531"
        using lcp.parse_length [OF Ok] by (simp add: lcp_fields_def)
      show ?thesis
      proof (cases "lm_state m = Closing")
        case True
        with Ok ign inv show ?thesis
          by (cases "lcp_known_code packet"; cases "the (lcp_known_code packet)")
            (simp_all add: lcp_receive_def terminate_request_good terminate_ack_good unknown_code_good)
      next
        case False
        with alive have conf: "configuring m" by (cases "lm_state m") simp_all
        with Ok ign inv len show ?thesis
          by (cases "lcp_known_code packet"; cases "the (lcp_known_code packet)")
            (auto simp: lcp_receive_def terminate_request_good terminate_ack_good unknown_code_good
              configure_request_good configure_ack_good configure_nak_good configure_reject_good
              echo_request_good)
      qed
    next
      case (Err e)
      with alive ign show ?thesis by (simp add: lcp_receive_def)
    next
      case Panic
      then show ?thesis using lcp.parse_total by blast
    qed
  qed
qed

lemma step_good: "lcp_inv m \<Longrightarrow> lcp_good m (lcp_step m ev)"
  by (cases ev) (simp_all add: open_good close_good lower_down_good [simplified] reject_protocol_good
      poll_timeout_good receive_good)

interpretation lcp_layer: layer_machine lcp_step "\<lambda>m. lm_state m = Opened" lcp_inv
  by unfold_locales (use step_good in \<open>auto simp: lcp_good_def\<close>)

lemma machine_new_inv:
  assumes "lcp_machine_new options settings = Ok m" "local_options_ok options"
  shows "lcp_inv m" "lm_state m = Closed"
  using assms by (auto simp: lcp_machine_new_def and_then_eq_Ok lcp_inv_def)

text \<open>
  C5: an LCP machine made with well-formed options of distinct types never fails and never
  panics. Whatever sequence of events it goes through (open, close, the link going down, timeouts at
  any time, any octets received under any policy), every call returns \<open>Ok\<close>, the invariant holds at
  the end, and the layer above has seen Up and Down strictly in turn, being up exactly when the
  machine is Opened.
\<close>

theorem lcp_runs_safely:
  assumes "lcp_machine_new options settings = Ok m" and "local_options_ok options"
  shows "\<exists>as m'. run_machine lcp_step m events = (Ok as, m') \<and> lcp_inv m' \<and>
    layer_track False as = Some (lm_state m' = Opened)"
  using lcp_layer.run_ok [OF machine_new_inv(1) [OF assms], of events] machine_new_inv(2) [OF assms] by simp

lemma collect_example: "lcp_collect_options [1, 4, 5, 220] =
    Ok [\<lparr>lo_type = 1, lo_data = [5, 220], lo_encoded = [1, 4, 5, 220]\<rparr>]"
  using lcp_collect_tlv [of "(1, [5, 220])" "[]"]
  by (simp add: tlv_fits_def tlv_bytes_def lcp_options.collect_nil)

theorem lcp_runs_safely_witness:
  "\<exists>as m'. run_machine lcp_step
      \<lparr>lm_state = Closed, lm_settings = lcp_settings_default, lm_local_options = [1, 4, 5, 220],
       lm_request_identifier = 0, lm_terminate_identifier = 0, lm_next_identifier = 0,
       lm_restart_remaining = 0, lm_restart_deadline = None, lm_peer_configuration = None,
       lm_acknowledged_local_magic = None\<rparr>
      [Open 0, Receive [2, 1, 0, 8, 1, 4, 5, 220] 10 \<lparr>accept_pap = True, accept_chap_md5 = False\<rparr>] = (Ok as, m') \<and>
    lcp_inv m' \<and> layer_track False as = Some (lm_state m' = Opened)"
  by (rule lcp_runs_safely [of "[1, 4, 5, 220]" lcp_settings_default])
    (simp_all add: lcp_machine_new_def lcp_validate_options_def collect_example local_options_ok_def)

section \<open>A silent peer\<close>

definition outstanding_packet :: "lcp_machine \<Rightarrow> bytes" where
  "outstanding_packet m =
     (if lm_state m = Closing then packet_bytes 5 (lm_terminate_identifier m) []
      else packet_bytes 1 (lm_request_identifier m) (lm_local_options m))"

lemma expire_once:
  assumes "lcp_inv m" "lm_restart_deadline m = Some d" "lm_restart_remaining m \<noteq> 0"
  shows "\<exists>m'. lcp_poll_timeout m d = (Ok (acting [SendPacket (outstanding_packet m)]), m') \<and>
    lcp_inv m' \<and> lm_restart_deadline m' \<noteq> None \<and> lm_restart_remaining m' = lm_restart_remaining m - 1 \<and>
    outstanding_packet m' = outstanding_packet m \<and> (lm_state m' = Closing \<longleftrightarrow> lm_state m = Closing)"
proof -
  have "lm_state m \<in> {RequestSent, AckReceived, AckSent, Closing}" using assms(1,2) by (simp add: lcp_inv_def)
  with assms show ?thesis
    by (cases "lm_state m") (auto simp: lcp_poll_timeout_def outstanding_packet_def lcp_good_simps)
qed

lemma expire_last:
  assumes "lcp_inv m" "lm_restart_deadline m = Some d" "lm_restart_remaining m = 0"
  shows "\<exists>m'. lcp_poll_timeout m d = (Ok (acting [ThisLayerFinished]), m') \<and> lcp_inv m' \<and>
    lm_restart_deadline m' = None \<and> lm_state m' = (if lm_state m = Closing then Closed else Stopped)"
proof -
  have "lm_state m \<in> {RequestSent, AckReceived, AckSent, Closing}" using assms(1,2) by (simp add: lcp_inv_def)
  with assms show ?thesis
    by (cases "lm_state m") (auto simp: lcp_poll_timeout_def lcp_good_simps)
qed

definition given_up_state :: "lcp_machine \<Rightarrow> lcp_state" where
  "given_up_state m = (if lm_state m = Closing then Closed else Stopped)"

interpretation lcp_timer:
  restart_timer lcp_poll_timeout lm_restart_deadline lm_restart_remaining outstanding_packet lm_state
    given_up_state lcp_inv
  by unfold_locales (use expire_once expire_last in \<open>fastforce simp: given_up_state_def\<close>)+

text \<open>
  C6: negotiation and termination end when the peer stays silent. From any state in which the
  restart timer runs, \<open>restart_remaining + 1\<close> expiries of the timer retransmit the outstanding
  packet exactly \<open>restart_remaining\<close> times, always the same octets, report This-Layer-Finished once,
  and leave the machine Stopped (Closed if it was closing) with the timer off.
\<close>

theorem silent_peer_finishes:
  assumes "lcp_inv m" and "lm_restart_deadline m \<noteq> None"
  shows "\<exists>m'. expire lcp_poll_timeout lm_restart_deadline (unat (lm_restart_remaining m) + 1) m =
      (Ok (replicate (unat (lm_restart_remaining m)) (SendPacket (outstanding_packet m)) @ [ThisLayerFinished]), m') \<and>
    lm_state m' = (if lm_state m = Closing then Closed else Stopped) \<and>
    lm_restart_deadline m' = None \<and> lcp_inv m'"
  using lcp_timer.silent_peer [OF assms] by (simp add: given_up_state_def)

lemma opening_machine_inv:
  "lcp_inv \<lparr>lm_state = RequestSent, lm_settings = lcp_settings_default, lm_local_options = [1, 4, 5, 220],
     lm_request_identifier = 1, lm_terminate_identifier = 0, lm_next_identifier = 1,
     lm_restart_remaining = 2, lm_restart_deadline = Some 3000, lm_peer_configuration = None,
     lm_acknowledged_local_magic = None\<rparr>"
  by (simp add: lcp_inv_def local_options_ok_def collect_example lcp_settings_default_def)

theorem silent_peer_finishes_witness:
  "\<exists>m'. expire lcp_poll_timeout lm_restart_deadline 3 \<lparr>lm_state = RequestSent, lm_settings = lcp_settings_default, lm_local_options = [1, 4, 5, 220],
     lm_request_identifier = 1, lm_terminate_identifier = 0, lm_next_identifier = 1,
     lm_restart_remaining = 2, lm_restart_deadline = Some 3000, lm_peer_configuration = None,
     lm_acknowledged_local_magic = None\<rparr> =
    (Ok [SendPacket [1, 1, 0, 8, 1, 4, 5, 220], SendPacket [1, 1, 0, 8, 1, 4, 5, 220], ThisLayerFinished], m') \<and>
    lm_state m' = Stopped"
proof -
  let ?m = "\<lparr>lm_state = RequestSent, lm_settings = lcp_settings_default, lm_local_options = [1, 4, 5, 220],
     lm_request_identifier = 1, lm_terminate_identifier = 0, lm_next_identifier = 1,
     lm_restart_remaining = 2, lm_restart_deadline = Some 3000, lm_peer_configuration = None,
     lm_acknowledged_local_magic = None\<rparr>"
  have "outstanding_packet ?m = [1, 1, 0, 8, 1, 4, 5, 220]"
    by (simp add: outstanding_packet_def packet_bytes_def to_be16_def)
  moreover have "replicate 2 x = [x, x]" for x :: "peer_configuration action" by (simp add: numeral_2_eq_2)
  ultimately show ?thesis using silent_peer_finishes [OF opening_machine_inv]
    by (auto simp del: expire.simps)
qed

end
