(* ===== verification/Lcp_Agreement.thy ===== *)
theory Lcp_Agreement
  imports Lcp_Properties
begin

text \<open>
  What the two sides of an LCP negotiation agree on: which requests of the peer are acknowledged and
  with what configuration, what the other answers contain, when the layer is reported up, and how
  our own options are rewritten after a Nak.
\<close>

section \<open>The answer to a request\<close>

text \<open>An option the policy accepts, by type and data.\<close>

definition lcp_option_acceptable :: "sfc_policy \<Rightarrow> u32 option \<Rightarrow> lcp_option \<Rightarrow> bool" where
  "lcp_option_acceptable policy magic opt \<longleftrightarrow>
     lo_type opt = 1 \<and> length (lo_data opt) = 2 \<and> lo_data opt \<noteq> [0, 0] \<or>
     lo_type opt = 2 \<and> length (lo_data opt) = 4 \<or>
     lo_type opt = 3 \<and> (accept_chap_md5 policy \<and> lo_data opt = [0xc2, 0x23, 5] \<or>
       accept_pap policy \<and> lo_data opt = [0xc0, 0x23]) \<or>
     lo_type opt = 5 \<and> length (lo_data opt) = 4 \<and> option_magic opt \<noteq> 0 \<and> magic \<noteq> Some (option_magic opt)"

text \<open>An option that is rejected: there is no value of it to suggest.\<close>

definition lcp_option_rejected :: "sfc_policy \<Rightarrow> lcp_option list \<Rightarrow> lcp_option \<Rightarrow> bool" where
  "lcp_option_rejected policy opts opt \<longleftrightarrow>
     1 < count_list (map lo_type opts) (lo_type opt) \<or>
     lo_type opt \<notin> {1, 2, 3, 5} \<or>
     lo_type opt = 3 \<and> \<not> accept_chap_md5 policy \<and> \<not> accept_pap policy \<or>
     lo_type opt = 5 \<and> length (lo_data opt) \<noteq> 4"

definition lcp_suggestion :: "sfc_policy \<Rightarrow> u32 option \<Rightarrow> lcp_option \<Rightarrow> bytes" where
  "lcp_suggestion policy magic opt =
     (if lo_type opt = 1 then [1, 4, 0x05, 0xdc]
      else if lo_type opt = 2 then [2, 6, 0xff, 0xff, 0xff, 0xff]
      else if lo_type opt = 3 then (if accept_chap_md5 policy then [3, 5, 0xc2, 0x23, 5] else [3, 4, 0xc0, 0x23])
      else [5, 6] @ to_be32 (next_magic (case magic of None \<Rightarrow> 0 | Some v \<Rightarrow> v)))"

text \<open>The configuration a request asks for: each option where it is present, else its default.\<close>

definition value_of :: "u8 \<Rightarrow> (lcp_option \<Rightarrow> 'a) \<Rightarrow> 'a \<Rightarrow> lcp_option list \<Rightarrow> 'a" where
  "value_of t f d opts = (case find (\<lambda>opt. lo_type opt = t) opts of None \<Rightarrow> d | Some opt \<Rightarrow> f opt)"

definition requested_configuration :: "lcp_option list \<Rightarrow> peer_configuration" where
  "requested_configuration opts =
     \<lparr>transmit_mru = value_of 1 (\<lambda>opt. from_be16 (lo_data opt ! 0) (lo_data opt ! 1)) 1500 opts,
      transmit_accm = value_of 2 (\<lambda>opt. from_be32 (octets4_at (lo_data opt) 0)) 0xffffffff opts,
      authentication = value_of 3 (\<lambda>opt. Some (if lo_data opt = [0xc0, 0x23] then Pap else ChapMd5)) None opts,
      magic_number = value_of 5 (\<lambda>opt. Some (option_magic opt)) None opts\<rparr>"

lemma protocol_octets:
  "to_be16 CHAP_PROTOCOL = [0xc2, 0x23]" "to_be16 PAP_PROTOCOL = [0xc0, 0x23]"
  by (simp_all add: to_be16_def CHAP_PROTOCOL_def PAP_PROTOCOL_def)

lemma known_type_cases:
  "lcp_known_type opt = Some MaximumReceiveUnit \<longleftrightarrow> lo_type opt = 1"
  "lcp_known_type opt = Some AsyncControlCharacterMap \<longleftrightarrow> lo_type opt = 2"
  "lcp_known_type opt = Some AuthenticationProtocol \<longleftrightarrow> lo_type opt = 3"
  "lcp_known_type opt = Some MagicNumber \<longleftrightarrow> lo_type opt = 5"
  by (simp_all add: lcp_known_type_def lcp_option_type_from_octet_iff)

lemma evaluate_by_type:
  "lcp_evaluate_option opt policy magic conf =
    (if lo_type opt = 1 then
       (if length (lo_data opt) = 2 \<and> from_be16 (lo_data opt ! 0) (lo_data opt ! 1) \<noteq> 0
        then (Ack, conf\<lparr>transmit_mru := from_be16 (lo_data opt ! 0) (lo_data opt ! 1)\<rparr>)
        else (Nak [1, 4, 0x05, 0xdc], conf))
     else if lo_type opt = 2 then
       (if length (lo_data opt) = 4 then (Ack, conf\<lparr>transmit_accm := from_be32 (octets4_at (lo_data opt) 0)\<rparr>)
        else (Nak [2, 6, 0xff, 0xff, 0xff, 0xff], conf))
     else if lo_type opt = 3 then
       (if accept_chap_md5 policy \<and> lo_data opt = [0xc2, 0x23, 5] then (Ack, conf\<lparr>authentication := Some ChapMd5\<rparr>)
        else if accept_pap policy \<and> lo_data opt = [0xc0, 0x23] then (Ack, conf\<lparr>authentication := Some Pap\<rparr>)
        else if accept_chap_md5 policy then (Nak [3, 5, 0xc2, 0x23, 5], conf)
        else if accept_pap policy then (Nak [3, 4, 0xc0, 0x23], conf)
        else (Reject, conf))
     else if lo_type opt = 5 then
       (if length (lo_data opt) \<noteq> 4 then (Reject, conf)
        else if option_magic opt = 0 \<or> Some (option_magic opt) = magic then
          (Nak ([5, 6] @ to_be32 (next_magic (case magic of None \<Rightarrow> option_magic opt | Some m \<Rightarrow> m))), conf)
        else (Ack, conf\<lparr>magic_number := Some (option_magic opt)\<rparr>))
     else (Reject, conf))"
proof -
  consider "lo_type opt = 1" | "lo_type opt = 2" | "lo_type opt = 3" | "lo_type opt = 5"
    | "lo_type opt \<notin> {1, 2, 3, 5}" by blast
  then show ?thesis
  proof cases
    case 5
    then have "lcp_known_type opt \<notin> Some ` {MaximumReceiveUnit, AsyncControlCharacterMap, AuthenticationProtocol, MagicNumber}"
      by (auto simp: known_type_cases)
    with 5 show ?thesis
      by (auto simp: lcp_evaluate_option_def split: option.split lcp_option_type.split)
  qed (simp_all add: lcp_evaluate_option_def protocol_octets CHAP_MD5_ALGORITHM_def Let_def
      known_type_cases [THEN iffD2])
qed

lemma from_be16_zero: "from_be16 a b = 0 \<longleftrightarrow> a = 0 \<and> b = 0"
  using unat_from_be16 [of a b] by (auto simp: word_unat_eq_iff)

lemma mru_zero: "length d = 2 \<Longrightarrow> from_be16 (d ! 0) (d ! 1) = 0 \<longleftrightarrow> d = [0, 0]"
  by (auto simp: numeral_2_eq_2 length_Suc_conv from_be16_zero)

text \<open>The disposition of an option that is not duplicated, type by type.\<close>

lemma evaluate_disposition:
  "fst (lcp_evaluate_option opt policy magic conf) =
    (if lo_type opt \<notin> {1, 2, 3, 5} \<or> lo_type opt = 3 \<and> \<not> accept_chap_md5 policy \<and> \<not> accept_pap policy \<or>
        lo_type opt = 5 \<and> length (lo_data opt) \<noteq> 4 then Reject
     else if lcp_option_acceptable policy magic opt then Ack
     else Nak (lcp_suggestion policy magic opt))"
proof -
  consider "lo_type opt = 1" | "lo_type opt = 2" | "lo_type opt = 3" | "lo_type opt = 5"
    | "lo_type opt \<notin> {1, 2, 3, 5}" by blast
  then show ?thesis
  proof cases
    case 1
    then show ?thesis
      by (cases "length (lo_data opt) = 2")
        (simp_all add: evaluate_by_type lcp_option_acceptable_def lcp_suggestion_def mru_zero del: One_nat_def)
  next
    case 2
    then show ?thesis by (simp add: evaluate_by_type lcp_option_acceptable_def lcp_suggestion_def)
  next
    case 3
    then show ?thesis
      by (cases "accept_chap_md5 policy"; cases "accept_pap policy")
        (simp_all add: evaluate_by_type lcp_option_acceptable_def lcp_suggestion_def)
  next
    case 4
    then show ?thesis
      by (cases magic) (simp_all add: evaluate_by_type lcp_option_acceptable_def lcp_suggestion_def)
  next
    case 5
    then show ?thesis by (simp add: evaluate_by_type)
  qed
qed

lemma disposition_eq:
  "disposition_of policy magic opts opt =
    (if lcp_option_rejected policy opts opt then Reject
     else if lcp_option_acceptable policy magic opt then Ack else Nak (lcp_suggestion policy magic opt))"
  unfolding disposition_of_def evaluate_disposition lcp_option_rejected_def
  by (cases "1 < count_list (map lo_type opts) (lo_type opt)") (simp_all del: One_nat_def)

lemma value_of_simps [simp]:
  "value_of t f d [] = d"
  "value_of t f d (opt # opts) = (if lo_type opt = t then f opt else value_of t f d opts)"
  by (simp_all add: value_of_def)

lemma value_of_absent: "t \<notin> lo_type ` set opts \<Longrightarrow> value_of t f d opts = d"
  by (induction opts) auto

text \<open>The evaluation builds the requested configuration, option by option.\<close>

lemma option_configuration_eq:
  assumes "distinct (map lo_type opts)" and "\<forall>opt \<in> set opts. lcp_option_acceptable policy magic opt"
  shows "option_configuration policy magic conf opts =
    \<lparr>transmit_mru = value_of 1 (\<lambda>opt. from_be16 (lo_data opt ! 0) (lo_data opt ! 1)) (transmit_mru conf) opts,
     transmit_accm = value_of 2 (\<lambda>opt. from_be32 (octets4_at (lo_data opt) 0)) (transmit_accm conf) opts,
     authentication = value_of 3 (\<lambda>opt. Some (if lo_data opt = [0xc0, 0x23] then Pap else ChapMd5))
       (authentication conf) opts,
     magic_number = value_of 5 (\<lambda>opt. Some (option_magic opt)) (magic_number conf) opts\<rparr>"
  using assms
proof (induction opts arbitrary: conf)
  case Nil
  then show ?case by simp
next
  case (Cons opt opts)
  then have acc: "lcp_option_acceptable policy magic opt" and new: "lo_type opt \<notin> lo_type ` set opts"
    and IH: "option_configuration policy magic c opts =
      \<lparr>transmit_mru = value_of 1 (\<lambda>opt. from_be16 (lo_data opt ! 0) (lo_data opt ! 1)) (transmit_mru c) opts,
       transmit_accm = value_of 2 (\<lambda>opt. from_be32 (octets4_at (lo_data opt) 0)) (transmit_accm c) opts,
       authentication = value_of 3 (\<lambda>opt. Some (if lo_data opt = [0xc0, 0x23] then Pap else ChapMd5))
         (authentication c) opts,
       magic_number = value_of 5 (\<lambda>opt. Some (option_magic opt)) (magic_number c) opts\<rparr>" for c
    by simp_all
  note absent = value_of_absent [OF new]
  consider "lo_type opt = 1" | "lo_type opt = 2" | "lo_type opt = 3" | "lo_type opt = 5"
    using acc by (auto simp: lcp_option_acceptable_def)
  then show ?case
  proof cases
    case 1
    with acc have "snd (lcp_evaluate_option opt policy magic conf) =
        conf\<lparr>transmit_mru := from_be16 (lo_data opt ! 0) (lo_data opt ! 1)\<rparr>"
      by (simp add: lcp_option_acceptable_def evaluate_by_type mru_zero del: One_nat_def)
    with 1 absent show ?thesis by (simp add: IH)
  next
    case 2
    with acc absent show ?thesis by (simp add: lcp_option_acceptable_def evaluate_by_type IH)
  next
    case 3
    with acc absent show ?thesis by (auto simp: lcp_option_acceptable_def evaluate_by_type IH)
  next
    case 4
    with acc absent show ?thesis by (auto simp: lcp_option_acceptable_def evaluate_by_type IH)
  qed
qed

lemma requested_configuration_eq:
  assumes "\<forall>opt \<in> set opts. \<not> lcp_option_rejected policy opts opt" and "\<forall>opt \<in> set opts. lcp_option_acceptable policy magic opt"
  shows "option_configuration policy magic peer_configuration_default opts = requested_configuration opts"
proof -
  have "distinct (map lo_type opts)"
    using assms(1) by (intro no_duplicates_distinct) (auto simp: lcp_option_rejected_def duplicate_type_map_iff)
  from option_configuration_eq [OF this assms(2)] show ?thesis
    by (simp add: requested_configuration_def peer_configuration_default_def LCP_DEFAULT_MRU_def)
qed

text \<open>
  C8: the complete answer to a peer's request whose options are well formed. If some option
  is of a duplicated type, of a type the firmware does not negotiate, or has no value to suggest, the
  answer rejects exactly those options, unchanged and in order. Otherwise, if the policy accepts every
  option, the answer acknowledges the request octet for octet, with the configuration its options ask
  for and the defaults for the others. Otherwise it suggests a value for exactly the unacceptable
  options, in order; the Magic-Number it suggests is fresh.
\<close>

theorem lcp_request_answered:
  assumes "lcp_collect_options (lp_data packet) = Ok opts"
  shows "lcp_evaluate_peer_request packet policy magic = Ok
    (if \<exists>opt \<in> set opts. lcp_option_rejected policy opts opt then
       \<lparr>ev_code = ConfigureReject, ev_data = concat (map lo_encoded (filter (lcp_option_rejected policy opts) opts)),
        ev_configuration = None\<rparr>
     else if \<forall>opt \<in> set opts. lcp_option_acceptable policy magic opt then
       \<lparr>ev_code = ConfigureAck, ev_data = lp_data packet,
        ev_configuration = Some (requested_configuration opts)\<rparr>
     else
       \<lparr>ev_code = ConfigureNak,
        ev_data = concat (map (lcp_suggestion policy magic)
          (filter (\<lambda>opt. \<not> lcp_option_acceptable policy magic opt) opts)),
        ev_configuration = None\<rparr>)"
proof -
  have reject: "disposition_of policy magic opts opt = Reject \<longleftrightarrow> lcp_option_rejected policy opts opt" for opt
    by (simp add: disposition_eq)
  show ?thesis
  proof (cases "\<exists>opt \<in> set opts. lcp_option_rejected policy opts opt")
    case True
    with evaluate_peer_request_eq [OF assms, of policy magic] show ?thesis by (simp add: reject)
  next
    case False
    then have nak: "is_nak (disposition_of policy magic opts opt) \<longleftrightarrow> \<not> lcp_option_acceptable policy magic opt"
      if "opt \<in> set opts" for opt using that by (simp add: disposition_eq)
    have data: "concat (map (\<lambda>opt. nak_data (disposition_of policy magic opts opt)) os) =
        concat (map (lcp_suggestion policy magic) (filter (\<lambda>opt. \<not> lcp_option_acceptable policy magic opt) os))"
      if "set os \<subseteq> set opts" for os
      using that False by (induction os) (auto simp: disposition_eq)
    from False nak show ?thesis
      using evaluate_peer_request_eq [OF assms, of policy magic] data [OF subset_refl]
        requested_configuration_eq [of opts policy magic]
      by (auto simp: reject)
  qed
qed

theorem lcp_request_answered_witness:
  "lcp_evaluate_peer_request \<lparr>lp_code = 1, lp_identifier = 7, lp_data = [1, 4, 0x05, 0xd4, 3, 4, 0xc0, 0x23]\<rparr>
     \<lparr>accept_pap = True, accept_chap_md5 = False\<rparr> None =
   Ok \<lparr>ev_code = ConfigureAck, ev_data = [1, 4, 0x05, 0xd4, 3, 4, 0xc0, 0x23],
       ev_configuration = Some \<lparr>transmit_mru = 1492, transmit_accm = 0xffffffff, authentication = Some Pap,
         magic_number = None\<rparr>\<rparr>"
proof -
  let ?m = "\<lparr>lo_type = 1, lo_data = [0x05, 0xd4], lo_encoded = [1, 4, 0x05, 0xd4]\<rparr>"
    and ?a = "\<lparr>lo_type = 3, lo_data = [0xc0, 0x23], lo_encoded = [3, 4, 0xc0, 0x23]\<rparr>"
    and ?p = "\<lparr>accept_pap = True, accept_chap_md5 = False\<rparr>"
  have "list_all wf_option [?m, ?a]"
    by (simp add: wf_option_def lcp_option_view_def tlv_fits_def tlv_bytes_def)
  from collect_of_wf [OF this]
  have c: "lcp_collect_options [1, 4, 0x05, 0xd4, 3, 4, 0xc0, 0x23] = Ok [?m, ?a]" by simp
  have "\<not> (\<exists>opt \<in> set [?m, ?a]. lcp_option_rejected ?p [?m, ?a] opt)"
    by (simp add: lcp_option_rejected_def)
  moreover have "\<forall>opt \<in> set [?m, ?a]. lcp_option_acceptable ?p None opt"
    by (simp add: lcp_option_acceptable_def)
  moreover have "requested_configuration [?m, ?a] = \<lparr>transmit_mru = 1492, transmit_accm = 0xffffffff,
      authentication = Some Pap, magic_number = None\<rparr>"
    by (simp add: requested_configuration_def from_be16_def)
  ultimately show ?thesis
    using lcp_request_answered [of "\<lparr>lp_code = 1, lp_identifier = 7, lp_data = [1, 4, 0x05, 0xd4, 3, 4, 0xc0, 0x23]\<rparr>"
        "[?m, ?a]" ?p None] c by (simp del: One_nat_def)
qed

section \<open>What brings the layer up\<close>

definition lcp_reports_up :: "lcp_result \<Rightarrow> peer_configuration \<Rightarrow> bool" where
  "lcp_reports_up r conf \<longleftrightarrow> (case r of (Ok t, _) \<Rightarrow> ThisLayerUp conf \<in> set (tr_actions t) | _ \<Rightarrow> False)"

text \<open>What the peer must have sent, and what both sides then use.\<close>

definition acceptable_lcp_request :: "sfc_policy \<Rightarrow> u32 option \<Rightarrow> bytes \<Rightarrow> peer_configuration \<Rightarrow> bool" where
  "acceptable_lcp_request policy magic data conf \<longleftrightarrow>
     (case lcp_collect_options data of
        Ok opts \<Rightarrow> (\<forall>opt \<in> set opts. \<not> lcp_option_rejected policy opts opt \<and>
            lcp_option_acceptable policy magic opt) \<and> conf = requested_configuration opts
      | _ \<Rightarrow> False)"

lemma reports_up_simps [simp]:
  "lcp_reports_up (and_then_st r f) conf \<longleftrightarrow> (\<exists>x m. r = (Ok x, m) \<and> lcp_reports_up (f x m) conf)"
  "lcp_reports_up (Ok t, m) conf \<longleftrightarrow> ThisLayerUp conf \<in> set (tr_actions t)"
  "\<not> lcp_reports_up (Err e, m) conf"
  "\<not> lcp_reports_up (Panic, m) conf"
  by (cases "(r, f)" rule: and_then_st.cases) (auto simp: lcp_reports_up_def)

lemma no_up_administrative:
  "\<not> lcp_reports_up (lcp_open m now_ms) conf"
  "\<not> lcp_reports_up (lcp_close m now_ms) conf"
  "\<not> lcp_reports_up (lcp_step m LowerDown) conf"
  "\<not> lcp_reports_up (lcp_reject_protocol m protocol information) conf"
  "\<not> lcp_reports_up (lcp_poll_timeout m now_ms) conf"
  by (auto simp: lcp_open_def lcp_close_def lcp_lower_down_def lcp_reject_protocol_def lcp_poll_timeout_def Let_def
      split: option.splits prod.splits)

lemma no_up_negative: "\<not> lcp_reports_up (after_negative_response m now_ms) conf"
  by (auto simp: after_negative_response_def Let_def split: lcp_state.splits)

lemma no_up_handlers:
  "\<not> lcp_reports_up (receive_echo_request m packet) conf"
  "\<not> lcp_reports_up (receive_terminate_request m packet) conf"
  "\<not> lcp_reports_up (receive_terminate_ack m packet) conf"
  "\<not> lcp_reports_up (receive_unknown_code m input packet) conf"
  "\<not> lcp_reports_up (receive_configure_nak m packet now_ms) conf"
  "\<not> lcp_reports_up (receive_configure_reject m packet now_ms) conf"
  by (auto simp: receive_echo_request_def receive_terminate_request_def receive_terminate_ack_def
      receive_unknown_code_def receive_configure_nak_def receive_configure_reject_def no_up_negative Let_def
      split: result.splits prod.splits option.splits)

lemma lcp_up_ack:
  assumes "lcp_reports_up (receive_configure_ack m packet now_ms) conf" and "lcp_inv m"
    and "receive_configure_ack m packet now_ms = (r, m')"
  shows "lm_state m = AckSent \<and> lp_identifier packet = lm_request_identifier m \<and>
    lp_data packet = lm_local_options m \<and> lm_state m' = Opened \<and> lm_peer_configuration m' = Some conf \<and>
    lm_local_options m' = lm_local_options m"
proof -
  have "lm_state m = AckSent \<and> lcp_exactly_acknowledges packet (lm_request_identifier m) (lm_local_options m)"
    using assms(1) by (cases "lm_state m") (auto simp: receive_configure_ack_def Let_def split: if_splits)
  with assms show ?thesis
    by (auto simp: receive_configure_ack_def lcp_exactly_acknowledges_def peer_configuration_or_default_def
        lcp_inv_def Let_def)
qed

lemma evaluate_acceptable:
  assumes "lcp_evaluate_peer_request packet policy magic = Ok ev" and "ev_code ev = ConfigureAck"
  shows "\<exists>conf. ev_configuration ev = Some conf \<and> acceptable_lcp_request policy magic (lp_data packet) conf"
proof -
  obtain opts where o: "lcp_collect_options (lp_data packet) = Ok opts"
    using assms(1) by (auto simp: lcp_evaluate_peer_request_def and_then_eq_Ok)
  have "\<not> (\<exists>opt \<in> set opts. disposition_of policy magic opts opt = Reject)"
    "\<not> (\<exists>opt \<in> set opts. is_nak (disposition_of policy magic opts opt))"
    and ev: "ev_configuration ev = Some (option_configuration policy magic peer_configuration_default opts)"
    using evaluate_peer_request_eq [OF o, of policy magic] assms by (auto split: if_splits)
  then have "\<forall>opt \<in> set opts. \<not> lcp_option_rejected policy opts opt"
    "\<forall>opt \<in> set opts. lcp_option_acceptable policy magic opt"
    by (fastforce simp: disposition_eq split: if_splits)+
  with o ev requested_configuration_eq [OF this] show ?thesis by (simp add: acceptable_lcp_request_def)
qed

lemma lcp_up_request:
  assumes "lcp_reports_up (receive_configure_request m packet now_ms policy) conf"
    and "receive_configure_request m packet now_ms policy = (r, m')" and "lcp_inv m"
  shows "lm_state m = AckReceived \<and>
    acceptable_lcp_request policy (local_magic (lm_local_options m)) (lp_data packet) conf \<and>
    lm_state m' = Opened \<and> lm_peer_configuration m' = Some conf \<and> lm_local_options m' = lm_local_options m"
proof (cases "lcp_evaluate_peer_request packet policy (local_magic (lm_local_options m))")
  case (Ok ev)
  obtain response where enc: "lcp_encode_packet (lcp_code_octet (ev_code ev)) (lp_identifier packet) (ev_data ev) = Ok response"
    using assms(1) Ok by (auto simp: receive_configure_request_def)
  show ?thesis
  proof (cases "ev_code ev = ConfigureAck")
    case True
    from evaluate_acceptable [OF Ok True] obtain c where
      c: "ev_configuration ev = Some c" "acceptable_lcp_request policy (local_magic (lm_local_options m)) (lp_data packet) c"
      by blast
    with assms Ok enc True show ?thesis
      by (cases "lm_state m")
        (auto simp: receive_configure_request_def answer_configure_request_def Let_def split: if_splits)
  next
    case False
    with assms Ok enc show ?thesis
      by (cases "lm_state m")
        (auto simp: receive_configure_request_def answer_configure_request_def Let_def split: if_splits)
  qed
qed (use assms(1) in \<open>auto simp: receive_configure_request_def\<close>)

text \<open>
  C7: LCP is reported up only when both sides have agreed, and with what they agreed on. If a
  step reports This-Layer-Up with a configuration, the machine is then Opened, has stored it as the
  peer's and sends the Magic-Number of its own options; the step was the receipt of a packet, and the
  packet was either an Ack that repeats the outstanding request, in AckSent, or, in AckReceived, a
  request whose options the policy all accepts and which asks for exactly this configuration.
\<close>

theorem lcp_up_only_when_agreed:
  assumes inv: "lcp_inv m" and step: "lcp_step m ev = (Ok t, m')" and up: "ThisLayerUp conf \<in> set (tr_actions t)"
  shows "lm_state m' = Opened \<and> lm_peer_configuration m' = Some conf \<and>
    lm_acknowledged_local_magic m' = local_magic (lm_local_options m) \<and>
    (\<exists>input now_ms policy packet. ev = Receive input now_ms policy \<and> lcp_packet_parse input = Ok packet \<and>
      (lm_state m = AckSent \<and> lcp_known_code packet = Some ConfigureAck \<and>
         lp_identifier packet = lm_request_identifier m \<and> lp_data packet = lm_local_options m \<or>
       lm_state m = AckReceived \<and> lcp_known_code packet = Some ConfigureRequest \<and>
         acceptable_lcp_request policy (local_magic (lm_local_options m)) (lp_data packet) conf))"
proof -
  have "lcp_reports_up (lcp_step m ev) conf" using step up by simp
  then obtain input now_ms policy where ev: "ev = Receive input now_ms policy"
    by (cases ev) (auto simp: no_up_administrative [simplified])
  let ?r = "lcp_receive m input now_ms policy"
  have up: "lcp_reports_up ?r conf" and r: "?r = (Ok t, m')" using step up ev by simp_all
  from up obtain packet where p: "lcp_packet_parse input = Ok packet" and st: "lm_state m \<notin> {Closed, Stopped}"
    by (cases "lcp_packet_parse input") (auto simp: lcp_receive_def split: if_splits)
  have "lcp_inv m'" using step_good [OF inv, of ev] step by (simp add: lcp_good_def)
  then have magic: "lm_state m' = Opened \<Longrightarrow> lm_acknowledged_local_magic m' = local_magic (lm_local_options m')"
    by (simp add: lcp_inv_def)
  consider (ack) "lcp_known_code packet = Some ConfigureAck" "?r = receive_configure_ack m packet now_ms"
    | (request) "lcp_known_code packet = Some ConfigureRequest" "?r = receive_configure_request m packet now_ms policy"
    using up p st
    by (cases "lcp_known_code packet"; cases "the (lcp_known_code packet)")
      (auto simp: lcp_receive_def no_up_handlers split: if_splits)
  then show ?thesis
  proof cases
    case ack
    with lcp_up_ack [of m packet now_ms conf "Ok t" m'] up r inv magic ev p show ?thesis by auto
  next
    case request
    with lcp_up_request [of m packet now_ms policy conf "Ok t" m'] up r inv magic ev p show ?thesis by auto
  qed
qed

theorem lcp_up_only_when_agreed_witness:
  "\<exists>t m'. lcp_step \<lparr>lm_state = AckSent, lm_settings = lcp_settings_default, lm_local_options = [1, 4, 5, 220],
       lm_request_identifier = 3, lm_terminate_identifier = 0, lm_next_identifier = 3,
       lm_restart_remaining = 9, lm_restart_deadline = Some 3000,
       lm_peer_configuration = Some peer_configuration_default, lm_acknowledged_local_magic = None\<rparr>
       (Receive (packet_bytes 2 3 [1, 4, 5, 220]) 10 \<lparr>accept_pap = True, accept_chap_md5 = True\<rparr>) = (Ok t, m') \<and>
     ThisLayerUp peer_configuration_default \<in> set (tr_actions t) \<and>
     lm_state m' = Opened \<and> lm_peer_configuration m' = Some peer_configuration_default"
proof -
  let ?m = "\<lparr>lm_state = AckSent, lm_settings = lcp_settings_default, lm_local_options = [1, 4, 5, 220],
       lm_request_identifier = 3, lm_terminate_identifier = 0, lm_next_identifier = 3,
       lm_restart_remaining = 9, lm_restart_deadline = Some 3000,
       lm_peer_configuration = Some peer_configuration_default, lm_acknowledged_local_magic = None\<rparr>"
  let ?e = "Receive (packet_bytes 2 3 [1, 4, 5, 220]) 10 \<lparr>accept_pap = True, accept_chap_md5 = True\<rparr>"
  have inv: "lcp_inv ?m"
    by (simp add: lcp_inv_def local_options_ok_def collect_example lcp_settings_default_def)
  have code: "lcp_code_from_octet 2 = Some ConfigureAck" using lcp_code_octets [of ConfigureAck] by simp
  obtain t m' where r: "lcp_step ?m ?e = (Ok t, m')" "ThisLayerUp peer_configuration_default \<in> set (tr_actions t)"
    using lcp_parse_packet_bytes [of "[1, 4, 5, 220]" 2 3 "[]"] code
    by (auto simp: lcp_receive_def lcp_known_code_def receive_configure_ack_def lcp_exactly_acknowledges_def
        peer_configuration_or_default_def Let_def)
  with lcp_up_only_when_agreed [OF inv r] show ?thesis by blast
qed

section \<open>Our options after a Nak\<close>

text \<open>What one of our options may become.\<close>

definition naked_option :: "lcp_option list \<Rightarrow> lcp_option \<Rightarrow> lcp_option \<Rightarrow> bool" where
  "naked_option suggestions opt opt' \<longleftrightarrow>
     (case find (\<lambda>s. lo_type s = lo_type opt) suggestions of
        None \<Rightarrow> opt' = opt
      | Some s \<Rightarrow>
          if is_magic_option opt \<and> length (lo_data s) = 4
          then is_magic_option opt' \<and> option_magic opt' \<noteq> 0 \<and> option_magic opt' \<noteq> option_magic opt \<and>
            (option_magic s \<noteq> 0 \<longrightarrow> option_magic s \<noteq> option_magic opt \<longrightarrow> option_magic opt' = option_magic s)
          else opt' = s)"

lemma naked_option_of: "naked_option suggestions opt (nak_option_of suggestions opt)"
proof (cases "find (\<lambda>s. lo_type s = lo_type opt) suggestions")
  case (Some s)
  show ?thesis
  proof (cases "is_magic_option opt \<and> length (lo_data s) = 4")
    case True
    let ?r = "if option_magic s = 0 \<or> option_magic s = option_magic opt then next_magic (option_magic opt)
        else option_magic s"
    from True Some have o: "nak_option_of suggestions opt =
        \<lparr>lo_type = lo_type opt, lo_data = to_be32 ?r, lo_encoded = tlv_bytes (lo_type opt, to_be32 ?r)\<rparr>"
      by (simp add: nak_option_of_def Let_def)
    then have "option_magic (nak_option_of suggestions opt) = ?r" by (simp add: option_magic_def)
    moreover have "is_magic_option (nak_option_of suggestions opt)"
      using True magic_option_type [of opt] o by (simp add: is_magic_option_def known_type_cases)
    ultimately show ?thesis
      using Some True next_magic_nonzero next_magic_changes by (simp add: naked_option_def)
  qed (use Some in \<open>auto simp: naked_option_def nak_option_of_def\<close>)
qed (simp add: naked_option_def nak_option_of_def)

text \<open>
  A Nak rewrites our options one by one and its Magic-Number is never taken over as it
  stands when it is unusable. The list keeps its types and their order; an option that is not named
  stays; a named one becomes the suggestion of its type; but when the Magic-Number is named with four
  octets, the new one is the suggestion if that is non-zero and not our own, and otherwise a fresh
  value, so that it is always non-zero and always changes.
\<close>

theorem lcp_nak_rewrites:
  assumes "lcp_collect_options local = Ok opts" and "lcp_collect_options data = Ok suggestions"
  shows "\<exists>local' opts'. apply_nak local suggestions = Ok local' \<and> lcp_collect_options local' = Ok opts' \<and>
    map lo_type opts' = map lo_type opts \<and> list_all2 (naked_option suggestions) opts opts'"
proof -
  note wf = collect_wf(1) [OF assms(2)]
  from apply_nak_collect [OF assms(1) wf] nak_types [OF collect_wf(1) [OF assms(1)] wf]
  show ?thesis by (fastforce simp: list_all2_map2 naked_option_of list_all2_refl simp del: map_map)
qed

theorem lcp_nak_rewrites_witness:
  "\<exists>local' opts'. apply_nak [1, 4, 5, 220] [\<lparr>lo_type = 1, lo_data = [5, 220], lo_encoded = [1, 4, 5, 220]\<rparr>] = Ok local' \<and>
     lcp_collect_options local' = Ok opts' \<and> map lo_type opts' = [1]"
  using lcp_nak_rewrites [OF collect_example collect_example] by auto

text \<open>
  C28: a Nak with a malformed Magic-Number destroys ours. In RequestSent, with a Magic-Number
  among our options, a Nak of the outstanding request whose only option is a Magic-Number of any
  length other than four octets is accepted: the next request carries that malformed option, and the
  machine has no Magic-Number with which to recognise a loop.
\<close>

theorem lcp_malformed_nak_adopted:
  assumes inv: "lcp_inv m" and state: "lm_state m = RequestSent"
    and magic: "local_magic (lm_local_options m) = Some v" and d: "length d \<noteq> 4" "length d \<le> 253"
  shows "\<exists>m'. lcp_receive m (packet_bytes 3 (lm_request_identifier m) (tlv_bytes (5, d))) now_ms policy =
      (Ok (acting [SendPacket (packet_bytes 1 (lm_next_identifier m + 1) (lm_local_options m'))]), m') \<and>
    lm_state m' = RequestSent \<and> local_magic (lm_local_options m') = None \<and>
    (\<exists>opts opt. lcp_collect_options (lm_local_options m') = Ok opts \<and> opt \<in> set opts \<and>
       lo_type opt = 5 \<and> lo_data opt = d)"
proof -
  let ?s = "\<lparr>lo_type = 5, lo_data = d, lo_encoded = tlv_bytes (5, d)\<rparr>"
  have fits: "tlv_fits (5, d)" using d by (simp add: tlv_fits_def)
  have s: "lcp_collect_options (tlv_bytes (5, d)) = Ok [?s]"
    using lcp_collect_tlv [OF fits, of "[]"] by (simp add: lcp_options.collect_nil)
  have wf: "list_all wf_option [?s]" using fits by (simp add: wf_option_def lcp_option_view_def)
  from lcp_inv_options [OF inv] obtain opts where o: "lcp_collect_options (lm_local_options m) = Ok opts"
    "distinct (map lo_type opts)" by (auto simp: local_options_ok_iff)
  from magic local_magic_collect [OF o(1)] obtain opt where "find is_magic_option opts = Some opt" by auto
  then have opt: "opt \<in> set opts" "is_magic_option opt"
    using find_Some_wf [of "\<lambda>_. True" opts is_magic_option opt] by (simp_all add: list_all_iff)
  from apply_nak_collect [OF o(1) wf] obtain local' where l: "apply_nak (lm_local_options m) [?s] = Ok local'"
    "lcp_collect_options local' = Ok (map (nak_option_of [?s]) opts)" by blast
  have five: "nak_option_of [?s] opt' = (if lo_type opt' = 5 then ?s else opt')" for opt'
    using d by (simp add: nak_option_of_def)
  have "\<not> is_magic_option (nak_option_of [?s] opt')" for opt'
    using d magic_option_type [of opt'] by (auto simp: five is_magic_option_def)
  then have none: "local_magic local' = None"
    using local_magic_collect [OF l(2)] by (auto simp: find_None_iff simp del: find.simps)
  have ok: "local_options_ok local'" using apply_nak_ok [OF lcp_inv_options [OF inv] wf] l(1) by simp
  have code: "lcp_code_from_octet 3 = Some ConfigureNak" using lcp_code_octets [of ConfigureNak] by simp
  have "?s \<in> set (map (nak_option_of [?s]) opts)"
    using opt magic_option_type [OF opt(2)] by (force simp: five)
  with l(2) have adopted: "\<exists>opts opt. lcp_collect_options local' = Ok opts \<and> opt \<in> set opts \<and> lo_type opt = 5 \<and> lo_data opt = d"
    by (intro exI [of _ "map (nak_option_of [?s]) opts"] exI [of _ ?s]) simp
  show ?thesis
    using lcp_parse_packet_bytes [of "tlv_bytes (5, d)" 3 "lm_request_identifier m" "[]"] d s l(1) ok state none code adopted
    by (simp add: lcp_receive_def lcp_known_code_def receive_configure_nak_def after_negative_response_def
        send_new_request_ok Let_def)
qed

theorem lcp_malformed_nak_adopted_witness:
  "\<exists>m'. lcp_receive \<lparr>lm_state = RequestSent, lm_settings = lcp_settings_default, lm_local_options = [5, 6, 1, 2, 3, 4],
       lm_request_identifier = 1, lm_terminate_identifier = 0, lm_next_identifier = 1,
       lm_restart_remaining = 9, lm_restart_deadline = Some 3000, lm_peer_configuration = None,
       lm_acknowledged_local_magic = None\<rparr> (packet_bytes 3 1 (tlv_bytes (5, []))) 10 \<lparr>accept_pap = True, accept_chap_md5 = False\<rparr> =
      (Ok (acting [SendPacket (packet_bytes 1 2 (lm_local_options m'))]), m') \<and>
    local_magic (lm_local_options m') = None"
proof -
  let ?m = "\<lparr>lm_state = RequestSent, lm_settings = lcp_settings_default, lm_local_options = [5, 6, 1, 2, 3, 4],
       lm_request_identifier = 1, lm_terminate_identifier = 0, lm_next_identifier = 1,
       lm_restart_remaining = 9, lm_restart_deadline = Some 3000, lm_peer_configuration = None,
       lm_acknowledged_local_magic = None\<rparr>"
  let ?o = "\<lparr>lo_type = 5, lo_data = [1, 2, 3, 4], lo_encoded = [5, 6, 1, 2, 3, 4]\<rparr>"
  have c: "lcp_collect_options [5, 6, 1, 2, 3, 4] = Ok [?o]"
    using lcp_collect_tlv [of "(5, [1, 2, 3, 4])" "[]"] by (simp add: tlv_fits_def tlv_bytes_def lcp_options.collect_nil)
  have "lcp_inv ?m" by (simp add: lcp_inv_def local_options_ok_def c lcp_settings_default_def)
  moreover have "local_magic (lm_local_options ?m) = Some (option_magic ?o)"
    using local_magic_collect [OF c] by (simp add: is_magic_option_def known_type_cases)
  ultimately show ?thesis
    using lcp_malformed_nak_adopted [of ?m "option_magic ?o" "[]" 10] by auto
qed

end
