(* ===== verification/Ipcp_Codec.thy ===== *)
theory Ipcp_Codec
  imports Control_Packet
begin

text \<open>
  The IPCP packet codec, \<^verbatim>\<open>crates/ndm24-ppp/src/ipcp.rs\<close>. It provides the same two interfaces as the
  LCP codec, \<open>control_codec\<close> and \<open>option_collector\<close>, with its own errors, and the three address
  options.
\<close>

section \<open>Codes and option types\<close>

definition IPCP_PROTOCOL :: u16 where "IPCP_PROTOCOL = 0x8021"
definition IP_PROTOCOL :: u16 where "IP_PROTOCOL = 0x0021"
definition IPCP_HEADER_LENGTH :: nat where "IPCP_HEADER_LENGTH = 4"
definition IP_ADDRESS_OPTION_LENGTH :: nat where "IP_ADDRESS_OPTION_LENGTH = 6"

type_synonym ipv4_address = octets4

definition UNSPECIFIED_ADDRESS :: ipv4_address where "UNSPECIFIED_ADDRESS = (0, 0, 0, 0)"

datatype ipcp_code = ConfigureRequest | ConfigureAck | ConfigureNak | ConfigureReject
  | TerminateRequest | TerminateAck | CodeReject

fun ipcp_code_octet :: "ipcp_code \<Rightarrow> u8" where
  "ipcp_code_octet ConfigureRequest = 1"
| "ipcp_code_octet ConfigureAck = 2"
| "ipcp_code_octet ConfigureNak = 3"
| "ipcp_code_octet ConfigureReject = 4"
| "ipcp_code_octet TerminateRequest = 5"
| "ipcp_code_octet TerminateAck = 6"
| "ipcp_code_octet CodeReject = 7"

definition ipcp_code_from_octet :: "u8 \<Rightarrow> ipcp_code option" where
  "ipcp_code_from_octet value =
     (if value = 1 then Some ConfigureRequest
      else if value = 2 then Some ConfigureAck
      else if value = 3 then Some ConfigureNak
      else if value = 4 then Some ConfigureReject
      else if value = 5 then Some TerminateRequest
      else if value = 6 then Some TerminateAck
      else if value = 7 then Some CodeReject
      else None)"

datatype ipcp_option_type = IpAddresses | IpCompressionProtocol | IpAddress
  | PrimaryDnsServerAddress | SecondaryDnsServerAddress

fun ipcp_option_type_octet :: "ipcp_option_type \<Rightarrow> u8" where
  "ipcp_option_type_octet IpAddresses = 1"
| "ipcp_option_type_octet IpCompressionProtocol = 2"
| "ipcp_option_type_octet IpAddress = 3"
| "ipcp_option_type_octet PrimaryDnsServerAddress = 129"
| "ipcp_option_type_octet SecondaryDnsServerAddress = 131"

definition ipcp_option_type_from_octet :: "u8 \<Rightarrow> ipcp_option_type option" where
  "ipcp_option_type_from_octet value =
     (if value = 1 then Some IpAddresses
      else if value = 2 then Some IpCompressionProtocol
      else if value = 3 then Some IpAddress
      else if value = 129 then Some PrimaryDnsServerAddress
      else if value = 131 then Some SecondaryDnsServerAddress
      else None)"

lemma ipcp_code_octets [simp]: "ipcp_code_from_octet (ipcp_code_octet c) = Some c"
  by (cases c) (simp_all add: ipcp_code_from_octet_def)

lemma ipcp_option_type_octets [simp]: "ipcp_option_type_from_octet (ipcp_option_type_octet t) = Some t"
  by (cases t) (simp_all add: ipcp_option_type_from_octet_def)

lemma ipcp_option_type_from_octet_iff:
  "ipcp_option_type_from_octet v = Some t \<longleftrightarrow> v = ipcp_option_type_octet t"
proof
  assume "ipcp_option_type_from_octet v = Some t"
  then show "v = ipcp_option_type_octet t" by (auto simp: ipcp_option_type_from_octet_def split: if_splits)
qed simp

section \<open>Packets\<close>

datatype ipcp_parse_error = IpcpTruncatedHeader | IpcpInvalidPacketLength u16
  | IpcpTruncatedPacket nat nat \<comment> \<open>declared, available\<close>

datatype ipcp_encode_error = IpcpPacketTooLarge nat | IpcpBufferTooSmall nat nat

record ipcp_packet =
  ip_code :: u8
  ip_identifier :: u8
  ip_data :: bytes

definition ipcp_packet_parse :: "bytes \<Rightarrow> (ipcp_packet, ipcp_parse_error) result" where
  "ipcp_packet_parse input =
     (if length input < IPCP_HEADER_LENGTH then Err IpcpTruncatedHeader
      else
        (let declared = from_be16 (input ! 2) (input ! 3)
         in if unat declared < IPCP_HEADER_LENGTH then Err (IpcpInvalidPacketLength declared)
            else if unat declared > length input then
              Err (IpcpTruncatedPacket (unat declared) (length input))
            else Ok \<lparr>ip_code = input ! 0, ip_identifier = input ! 1,
                     ip_data = take (unat declared - IPCP_HEADER_LENGTH) (drop IPCP_HEADER_LENGTH input)\<rparr>))"

definition ipcp_known_code :: "ipcp_packet \<Rightarrow> ipcp_code option" where
  "ipcp_known_code packet = ipcp_code_from_octet (ip_code packet)"

definition ipcp_exactly_acknowledges :: "ipcp_packet \<Rightarrow> u8 \<Rightarrow> bytes \<Rightarrow> bool" where
  "ipcp_exactly_acknowledges packet identifier options \<longleftrightarrow>
     ipcp_known_code packet = Some ConfigureAck \<and> ip_identifier packet = identifier \<and>
     ip_data packet = options"

definition ipcp_encode_into ::
  "u8 \<Rightarrow> u8 \<Rightarrow> bytes \<Rightarrow> bytes \<Rightarrow> (nat, ipcp_encode_error) result \<times> bytes" where
  "ipcp_encode_into code identifier data output =
     (let len = IPCP_HEADER_LENGTH + length data in
      if \<not> len \<le> 65535 then (Err (IpcpPacketTooLarge len), output)
      else if length output < len then (Err (IpcpBufferTooSmall len (length output)), output)
      else (Ok len, [code, identifier] @ to_be16 (of_nat len) @ data @ drop len output))"

section \<open>Address options\<close>

definition encode_address_option :: "ipcp_option_type \<Rightarrow> ipv4_address \<Rightarrow> bytes" where
  "encode_address_option option_type address =
     [ipcp_option_type_octet option_type, of_nat IP_ADDRESS_OPTION_LENGTH] @ octets4_list address"

definition encode_ip_address_option :: "ipv4_address \<Rightarrow> bytes" where
  "encode_ip_address_option address = encode_address_option IpAddress address"

definition encode_primary_dns_address_option :: "ipv4_address \<Rightarrow> bytes" where
  "encode_primary_dns_address_option address = encode_address_option PrimaryDnsServerAddress address"

definition encode_secondary_dns_address_option :: "ipv4_address \<Rightarrow> bytes" where
  "encode_secondary_dns_address_option address = encode_address_option SecondaryDnsServerAddress address"

section \<open>Configuration options\<close>

datatype ipcp_option_parse_error = IpcpOptionTruncatedHeader nat | IpcpOptionInvalidLength u8
  | IpcpTruncatedOption nat nat \<comment> \<open>declared, remaining\<close>

record ipcp_option =
  io_type :: u8
  io_data :: bytes
  io_encoded :: bytes

definition ipcp_known_type :: "ipcp_option \<Rightarrow> ipcp_option_type option" where
  "ipcp_known_type opt = ipcp_option_type_from_octet (io_type opt)"

text \<open>\<^verbatim>\<open>ip_address\<close>, \<^verbatim>\<open>primary_dns_address\<close> and \<^verbatim>\<open>secondary_dns_address\<close>.\<close>

definition option_ip_address :: "ipcp_option \<Rightarrow> ipv4_address option" where
  "option_ip_address opt =
     (if ipcp_known_type opt = Some IpAddress \<and> length (io_data opt) = 4
      then Some (octets4_at (io_data opt) 0) else None)"

definition option_primary_dns_address :: "ipcp_option \<Rightarrow> ipv4_address option" where
  "option_primary_dns_address opt =
     (if ipcp_known_type opt = Some PrimaryDnsServerAddress \<and> length (io_data opt) = 4
      then Some (octets4_at (io_data opt) 0) else None)"

definition option_secondary_dns_address :: "ipcp_option \<Rightarrow> ipv4_address option" where
  "option_secondary_dns_address opt =
     (if ipcp_known_type opt = Some SecondaryDnsServerAddress \<and> length (io_data opt) = 4
      then Some (octets4_at (io_data opt) 0) else None)"

text \<open>The iterator's whole state is what remains; an error empties it.\<close>

definition ipcp_options_next ::
  "bytes \<Rightarrow> (ipcp_option, ipcp_option_parse_error) result option \<times> bytes" where
  "ipcp_options_next remaining =
     (if remaining = [] then (None, remaining)
      else if length remaining < 2 then (Some (Err (IpcpOptionTruncatedHeader (length remaining))), [])
      else
        (let declared = unat (remaining ! 1) in
         if declared < 2 then (Some (Err (IpcpOptionInvalidLength (remaining ! 1))), [])
         else if declared > length remaining then
           (Some (Err (IpcpTruncatedOption declared (length remaining))), [])
         else
           (let encoded = take declared remaining
            in (Some (Ok \<lparr>io_type = encoded ! 0, io_data = drop 2 encoded, io_encoded = encoded\<rparr>),
                drop declared remaining))))"

function ipcp_collect_options :: "bytes \<Rightarrow> (ipcp_option list, ipcp_option_parse_error) result" where
  "ipcp_collect_options remaining = (case ipcp_options_next remaining of
     (None, _) \<Rightarrow> Ok []
   | (Some (Ok opt), rest) \<Rightarrow> and_then (ipcp_collect_options rest) (\<lambda>opts. Ok (opt # opts))
   | (Some (Err e), _) \<Rightarrow> Err e
   | (Some Panic, _) \<Rightarrow> Panic)"
  by pat_completeness auto
termination
  by (relation "measure length") (auto simp: ipcp_options_next_def Let_def split: if_splits)

declare ipcp_collect_options.simps [simp del]

section \<open>The codec provides the packet interface\<close>

definition ipcp_fields :: "ipcp_packet \<Rightarrow> u8 \<times> u8 \<times> bytes" where
  "ipcp_fields p = (ip_code p, ip_identifier p, ip_data p)"

lemma ipcp_parse_packet_bytes:
  "4 + length d \<le> 65535 \<Longrightarrow>
   ipcp_packet_parse (packet_bytes c i d @ pad) = Ok \<lparr>ip_code = c, ip_identifier = i, ip_data = d\<rparr>"
  using declared_length [of d c i pad]
  by (simp add: ipcp_packet_parse_def IPCP_HEADER_LENGTH_def Let_def packet_bytes_header)

interpretation ipcp: control_codec ipcp_packet_parse ipcp_fields "\<lambda>_. True" ipcp_encode_into
proof (unfold_locales, goal_cases)
  case (1 d c i pad)
  then show ?case using ipcp_parse_packet_bytes [of d c i pad] by (simp add: ipcp_fields_def)
next
  case (2 bs p c i d)
  then have "4 \<le> length bs" and ok: "4 \<le> unat (from_be16 (bs ! 2) (bs ! 3))"
      "unat (from_be16 (bs ! 2) (bs ! 3)) \<le> length bs"
    by (auto simp: ipcp_packet_parse_def IPCP_HEADER_LENGTH_def Let_def split: if_splits)
  moreover have "p = \<lparr>ip_code = bs ! 0, ip_identifier = bs ! 1,
      ip_data = take (unat (from_be16 (bs ! 2) (bs ! 3)) - 4) (drop 4 bs)\<rparr>"
    using 2(1) by (auto simp: ipcp_packet_parse_def IPCP_HEADER_LENGTH_def Let_def split: if_splits)
  ultimately show ?case
    using 2(2) packet_bytes_of_input [OF _ refl, of bs] unat_le_65535 [of "from_be16 (bs ! 2) (bs ! 3)"]
    by (auto simp: ipcp_fields_def simp del: unat_le_65535)
next
  case (3 bs)
  then show ?case by (simp add: ipcp_packet_parse_def Let_def)
next
  case (4 c)
  then show ?case by simp
next
  case (5 d out c i)
  then show ?case by (simp add: ipcp_encode_into_def IPCP_HEADER_LENGTH_def Let_def packet_bytes_def)
next
  case (6 d out c i)
  then show ?case by (auto simp: ipcp_encode_into_def IPCP_HEADER_LENGTH_def Let_def)
qed

section \<open>The iterator provides the option interface\<close>

definition ipcp_option_view :: "ipcp_option \<Rightarrow> u8 \<times> bytes" where
  "ipcp_option_view opt = (io_type opt, io_data opt)"

lemma ipcp_collect_tlv:
  assumes "tlv_fits opt"
  shows "ipcp_collect_options (tlv_bytes opt @ rest) =
    and_then (ipcp_collect_options rest)
      (\<lambda>os. Ok (\<lparr>io_type = fst opt, io_data = snd opt, io_encoded = tlv_bytes opt\<rparr> # os))"
proof -
  have "unat (of_nat (2 + length (snd opt)) :: u8) = 2 + length (snd opt)"
    using assms unfolding tlv_fits_def unat_of_nat8 by simp
  then show ?thesis
    by (subst ipcp_collect_options.simps)
      (simp add: ipcp_options_next_def tlv_bytes_def Let_def del: of_nat_add of_nat_Suc)
qed

interpretation ipcp_options: option_collector ipcp_collect_options ipcp_option_view io_encoded
proof (unfold_locales, goal_cases)
  case 1
  show ?case by (subst ipcp_collect_options.simps) (simp add: ipcp_options_next_def)
next
  case (2 opt rest)
  then show ?case
    by (intro exI [of _ "\<lparr>io_type = fst opt, io_data = snd opt, io_encoded = tlv_bytes opt\<rparr>"])
      (simp add: ipcp_option_view_def ipcp_collect_tlv)
next
  case (3 bs)
  then show ?case
    by (subst ipcp_collect_options.simps)
      (auto simp: ipcp_options_next_def splits_tlv_def Let_def not_less)
qed

text \<open>An address option as the iterator yields it.\<close>

definition address_option :: "ipcp_option_type \<Rightarrow> ipv4_address \<Rightarrow> ipcp_option" where
  "address_option t a =
     \<lparr>io_type = ipcp_option_type_octet t, io_data = octets4_list a, io_encoded = encode_address_option t a\<rparr>"

lemma encode_address_option_tlv:
  "encode_address_option t a = tlv_bytes (ipcp_option_type_octet t, octets4_list a)"
  by (simp add: encode_address_option_def tlv_bytes_def IP_ADDRESS_OPTION_LENGTH_def)

lemma length_encode_address_option [simp]: "length (encode_address_option t a) = 6"
  by (simp add: encode_address_option_tlv)

lemma collect_address_option:
  "ipcp_collect_options (encode_address_option t a @ rest) =
     and_then (ipcp_collect_options rest) (\<lambda>os. Ok (address_option t a # os))"
  unfolding encode_address_option_tlv
  by (subst ipcp_collect_tlv) (simp_all add: tlv_fits_def address_option_def encode_address_option_tlv)

lemma octets4_at_length:
  "length bs = 4 \<Longrightarrow> octets4_list (octets4_at bs 0) = bs"
  by (auto simp: octets4_list_def octets4_at_def numeral_eq_Suc length_Suc_conv)

end
