(* ===== verification/Ipcp_Client.thy ===== *)
theory Ipcp_Client
  imports Ipcp_Codec Layer_Machine
begin

text \<open>
  The IPCP client, \<^verbatim>\<open>Client\<close> of \<^verbatim>\<open>crates/ndm24-ppp/src/ipcp/client.rs\<close>: its state, the evaluation of
  the peer's request, every method and handler, and the step function that plays them as events.
\<close>

section \<open>State\<close>

datatype ipcp_state = Closed | Stopped | RequestSent | AckReceived | AckSent | Opened

record address_configuration =
  ac_local :: ipv4_address
  ac_peer :: ipv4_address
  ac_primary_dns :: ipv4_address
  ac_secondary_dns :: ipv4_address

definition is_usable :: "address_configuration \<Rightarrow> bool" where
  "is_usable a \<longleftrightarrow> ac_local a \<noteq> UNSPECIFIED_ADDRESS \<and> ac_peer a \<noteq> UNSPECIFIED_ADDRESS"

datatype ipcp_ignore_reason =
    NotConfiguring
  | MalformedPacket ipcp_parse_error
  | MalformedOptions ipcp_option_parse_error
  | InvalidConfigureResponse
  | UnsupportedCode u8

type_synonym ipcp_transition = "(address_configuration, ipcp_ignore_reason) transition"

record ipcp_settings =
  is_restart_interval_ms :: u64
  is_max_configure :: u8
  is_requested_local_address :: ipv4_address
  is_preferred_peer_address :: ipv4_address

definition ipcp_settings_default :: ipcp_settings where
  "ipcp_settings_default =
     \<lparr>is_restart_interval_ms = 3000, is_max_configure = 10,
      is_requested_local_address = UNSPECIFIED_ADDRESS, is_preferred_peer_address = UNSPECIFIED_ADDRESS\<rparr>"

datatype ipcp_machine_error = IpcpMachinePacketTooLarge ipcp_encode_error

record ipcp_client =
  ic_state :: ipcp_state
  ic_settings :: ipcp_settings
  ic_local_address :: ipv4_address
  ic_peer_address :: ipv4_address
  ic_primary_dns_address :: ipv4_address
  ic_secondary_dns_address :: ipv4_address
  ic_request_address_option :: bool
  ic_request_primary_dns_option :: bool
  ic_request_secondary_dns_option :: bool
  ic_request_identifier :: u8
  ic_next_identifier :: u8
  ic_restart_remaining :: u8
  ic_restart_deadline :: "u64 option"

type_synonym ipcp_result = "(ipcp_transition, ipcp_machine_error) result \<times> ipcp_client"

definition ipcp_client_new :: "ipcp_settings \<Rightarrow> ipcp_client" where
  "ipcp_client_new settings =
     \<lparr>ic_state = Closed, ic_settings = settings,
      ic_local_address = is_requested_local_address settings,
      ic_peer_address = is_preferred_peer_address settings,
      ic_primary_dns_address = UNSPECIFIED_ADDRESS, ic_secondary_dns_address = UNSPECIFIED_ADDRESS,
      ic_request_address_option = True, ic_request_primary_dns_option = True,
      ic_request_secondary_dns_option = True, ic_request_identifier = 0, ic_next_identifier = 0,
      ic_restart_remaining = 0, ic_restart_deadline = None\<rparr>"

definition ipcp_addresses :: "ipcp_client \<Rightarrow> address_configuration" where
  "ipcp_addresses c =
     \<lparr>ac_local = ic_local_address c, ac_peer = ic_peer_address c,
      ac_primary_dns = ic_primary_dns_address c, ac_secondary_dns = ic_secondary_dns_address c\<rparr>"

section \<open>Option lists\<close>

definition ipcp_duplicate_type_map :: "ipcp_option list \<Rightarrow> u8 \<Rightarrow> bool" where
  "ipcp_duplicate_type_map options = mark_duplicates (\<lambda>_. False) (\<lambda>_. False) (map io_type options)"

definition ipcp_has_duplicate_types :: "ipcp_option list \<Rightarrow> bool" where
  "ipcp_has_duplicate_types options =
     list_ex (ipcp_duplicate_type_map options) (map word_of_nat [0..<256])"

definition ipcp_encode_packet :: "u8 \<Rightarrow> u8 \<Rightarrow> bytes \<Rightarrow> (bytes, ipcp_machine_error) result" where
  "ipcp_encode_packet code identifier data =
     (let (r, output) = ipcp_encode_into code identifier data (replicate (IPCP_HEADER_LENGTH + length data) 0)
      in and_then (map_err IpcpMachinePacketTooLarge r) (\<lambda>_. Ok output))"

section \<open>The peer's request\<close>

datatype ipcp_disposition = Ack | Nak bytes | Reject

record peer_evaluation =
  pe_code :: ipcp_code
  pe_data :: bytes
  pe_peer_address :: "ipv4_address option"

text \<open>
  One option: its disposition and, when it is accepted, the peer's address. \<open>option_ip_address\<close> is
  never \<open>None\<close> where the code expects it: the type and the length have just been checked.
\<close>

definition ipcp_evaluate_option ::
  "ipcp_option \<Rightarrow> ipv4_address \<Rightarrow> ipv4_address option \<Rightarrow> ipcp_disposition \<times> ipv4_address option" where
  "ipcp_evaluate_option opt preferred_peer_address peer_address =
    (case ipcp_known_type opt of
       Some IpAddress \<Rightarrow>
         if length (io_data opt) = 4 then
           (let address = octets4_at (io_data opt) 0
            in if address = UNSPECIFIED_ADDRESS \<and> preferred_peer_address \<noteq> UNSPECIFIED_ADDRESS then
                 (Nak (encode_ip_address_option preferred_peer_address), peer_address)
               else if address = UNSPECIFIED_ADDRESS then (Reject, peer_address)
               else (Ack, Some address))
         else if preferred_peer_address = UNSPECIFIED_ADDRESS then (Reject, peer_address)
         else (Nak (encode_ip_address_option preferred_peer_address), peer_address)
     | _ \<Rightarrow> (Reject, peer_address))"

lemma ip_address_expected:
  "ipcp_known_type opt = Some IpAddress \<Longrightarrow> length (io_data opt) = 4 \<Longrightarrow>
   option_ip_address opt = Some (octets4_at (io_data opt) 0)"
  by (simp add: option_ip_address_def)

fun ipcp_evaluate_options ::
  "(u8 \<Rightarrow> bool) \<Rightarrow> ipv4_address \<Rightarrow> ipv4_address option \<Rightarrow> ipcp_option list \<Rightarrow>
     ipcp_disposition list \<times> ipv4_address option" where
  "ipcp_evaluate_options duplicates preferred peer_address [] = ([], peer_address)"
| "ipcp_evaluate_options duplicates preferred peer_address (opt # opts) =
     (let (disposition, peer_address') =
        (if duplicates (io_type opt) then (Reject, peer_address)
         else ipcp_evaluate_option opt preferred peer_address);
        (dispositions, peer_address'') = ipcp_evaluate_options duplicates preferred peer_address' opts
      in (disposition # dispositions, peer_address''))"

fun ipcp_is_nak :: "ipcp_disposition \<Rightarrow> bool" where
  "ipcp_is_nak (Nak _) = True"
| "ipcp_is_nak _ = False"

fun ipcp_nak_data :: "ipcp_disposition \<Rightarrow> bytes" where
  "ipcp_nak_data (Nak data) = data"
| "ipcp_nak_data _ = []"

definition ipcp_evaluate_peer_request ::
  "ipcp_packet \<Rightarrow> ipv4_address \<Rightarrow> (peer_evaluation, ipcp_option_parse_error) result" where
  "ipcp_evaluate_peer_request packet preferred_peer_address =
     and_then (ipcp_collect_options (ip_data packet)) (\<lambda>options.
       (let duplicates = ipcp_duplicate_type_map options;
            (dispositions, peer_address) =
              ipcp_evaluate_options duplicates preferred_peer_address None options
        in if list_ex (\<lambda>item. item = Reject) dispositions then
             Ok \<lparr>pe_code = ConfigureReject,
                 pe_data = concat (map (\<lambda>(opt, _). io_encoded opt)
                   (filter (\<lambda>(_, disposition). disposition = Reject) (zip options dispositions))),
                 pe_peer_address = None\<rparr>
           else if list_ex ipcp_is_nak dispositions then
             Ok \<lparr>pe_code = ConfigureNak, pe_data = concat (map ipcp_nak_data dispositions),
                 pe_peer_address = None\<rparr>
           else
             Ok \<lparr>pe_code = ConfigureAck, pe_data = ip_data packet, pe_peer_address = peer_address\<rparr>))"

section \<open>Sending\<close>

definition ipcp_local_options :: "ipcp_client \<Rightarrow> bytes" where
  "ipcp_local_options c =
     (if ic_request_address_option c then encode_ip_address_option (ic_local_address c) else []) @
     (if ic_request_primary_dns_option c
      then encode_primary_dns_address_option (ic_primary_dns_address c) else []) @
     (if ic_request_secondary_dns_option c
      then encode_secondary_dns_address_option (ic_secondary_dns_address c) else [])"

definition ipcp_encode_request :: "ipcp_client \<Rightarrow> (bytes, ipcp_machine_error) result" where
  "ipcp_encode_request c =
     ipcp_encode_packet (ipcp_code_octet ConfigureRequest) (ic_request_identifier c) (ipcp_local_options c)"

definition ipcp_allocate_identifier :: "ipcp_client \<Rightarrow> u8 \<times> ipcp_client" where
  "ipcp_allocate_identifier c =
     (ic_next_identifier c + 1, c\<lparr>ic_next_identifier := ic_next_identifier c + 1\<rparr>)"

definition ipcp_send_new_request ::
  "ipcp_client \<Rightarrow> u64 \<Rightarrow> bool \<Rightarrow> (bytes, ipcp_machine_error) result \<times> ipcp_client" where
  "ipcp_send_new_request c now_ms reset_counter =
     (let (identifier, c) = ipcp_allocate_identifier c;
          c = c\<lparr>ic_request_identifier := identifier\<rparr>;
          c = c\<lparr>ic_restart_remaining :=
            if reset_counter then saturating_sub (is_max_configure (ic_settings c)) 1
            else saturating_sub (ic_restart_remaining c) 1\<rparr>;
          c = c\<lparr>ic_restart_deadline :=
            Some (saturating_add now_ms (is_restart_interval_ms (ic_settings c)))\<rparr>
      in (ipcp_encode_request c, c))"

text \<open>The eight assignments \<^verbatim>\<open>open\<close> and \<^verbatim>\<open>lower_down\<close> share.\<close>

definition ipcp_reset_addresses :: "ipcp_client \<Rightarrow> ipcp_client" where
  "ipcp_reset_addresses c =
     c\<lparr>ic_local_address := is_requested_local_address (ic_settings c),
       ic_peer_address := is_preferred_peer_address (ic_settings c),
       ic_primary_dns_address := UNSPECIFIED_ADDRESS, ic_secondary_dns_address := UNSPECIFIED_ADDRESS,
       ic_request_address_option := True, ic_request_primary_dns_option := True,
       ic_request_secondary_dns_option := True\<rparr>"

section \<open>Administrative events\<close>

definition ipcp_open :: "ipcp_client \<Rightarrow> u64 \<Rightarrow> ipcp_result" where
  "ipcp_open c now_ms =
     (if ic_state c = Opened then (Ok transition_default, c)
      else and_then_st
        (ipcp_send_new_request (ipcp_reset_addresses (c\<lparr>ic_state := RequestSent\<rparr>)) now_ms True)
        (\<lambda>packet c. (Ok (acting [SendPacket packet]), c)))"

definition ipcp_lower_down :: "ipcp_client \<Rightarrow> ipcp_transition \<times> ipcp_client" where
  "ipcp_lower_down c =
     (let was_open = (ic_state c = Opened)
      in (acting (if was_open then [ThisLayerDown] else []),
          (ipcp_reset_addresses (c\<lparr>ic_state := Closed\<rparr>))
            \<lparr>ic_restart_deadline := None, ic_restart_remaining := 0\<rparr>))"

definition ipcp_poll_timeout :: "ipcp_client \<Rightarrow> u64 \<Rightarrow> ipcp_result" where
  "ipcp_poll_timeout c now_ms =
     (case ic_restart_deadline c of
        None \<Rightarrow> (Ok transition_default, c)
      | Some deadline \<Rightarrow>
          if now_ms < deadline then (Ok transition_default, c)
          else if ic_state c \<notin> {RequestSent, AckReceived, AckSent} then
            (Ok transition_default, c\<lparr>ic_restart_deadline := None\<rparr>)
          else if ic_restart_remaining c = 0 then
            (Ok (acting [ThisLayerFinished]), c\<lparr>ic_state := Stopped, ic_restart_deadline := None\<rparr>)
          else
            (let c = c\<lparr>ic_restart_remaining := ic_restart_remaining c - 1\<rparr>;
                 c = (if ic_state c = AckReceived then c\<lparr>ic_state := RequestSent\<rparr> else c);
                 c = c\<lparr>ic_restart_deadline :=
                   Some (saturating_add now_ms (is_restart_interval_ms (ic_settings c)))\<rparr>
             in and_then_st (ipcp_encode_request c, c) (\<lambda>packet c.
                  (Ok (acting [SendPacket packet]), c))))"

section \<open>Received packets\<close>

text \<open>The end of \<^verbatim>\<open>receive_configure_request\<close>: the answer, and Up when this opened the layer.\<close>

definition ipcp_answer :: "bytes \<Rightarrow> address_configuration action list \<Rightarrow> ipcp_client \<Rightarrow> ipcp_result" where
  "ipcp_answer response actions c =
     (Ok (acting (actions @ [SendPacket response] @
       (if ic_state c = Opened then [ThisLayerUp (ipcp_addresses c)] else []))), c)"

definition ipcp_receive_configure_request :: "ipcp_client \<Rightarrow> ipcp_packet \<Rightarrow> u64 \<Rightarrow> ipcp_result" where
  "ipcp_receive_configure_request c packet now_ms =
     (case ipcp_evaluate_peer_request packet (is_preferred_peer_address (ic_settings c)) of
        Err e \<Rightarrow> (Ok (ignoring (MalformedOptions e)), c)
      | Panic \<Rightarrow> (Panic, c)
      | Ok evaluation \<Rightarrow>
          and_then_st
            (ipcp_encode_packet (ipcp_code_octet (pe_code evaluation)) (ip_identifier packet)
               (pe_data evaluation), c)
            (\<lambda>response c.
              (let acceptable = (pe_code evaluation = ConfigureAck);
                   c = (case pe_peer_address evaluation of None \<Rightarrow> c
                        | Some address \<Rightarrow> c\<lparr>ic_peer_address := address\<rparr>);
                   answered = (if acceptable then AckSent else RequestSent)
               in case ic_state c of
                    RequestSent \<Rightarrow> ipcp_answer response [] (c\<lparr>ic_state := answered\<rparr>)
                  | AckSent \<Rightarrow> ipcp_answer response [] (c\<lparr>ic_state := answered\<rparr>)
                  | AckReceived \<Rightarrow> ipcp_answer response []
                      (if acceptable then c\<lparr>ic_state := Opened, ic_restart_deadline := None\<rparr> else c)
                  | Opened \<Rightarrow>
                      and_then_st (ipcp_send_new_request c now_ms True) (\<lambda>request c.
                        ipcp_answer response [ThisLayerDown, SendPacket request]
                          (c\<lparr>ic_state := answered\<rparr>))
                  | _ \<Rightarrow> (Panic, c))))"

definition ipcp_receive_configure_ack :: "ipcp_client \<Rightarrow> ipcp_packet \<Rightarrow> u64 \<Rightarrow> ipcp_result" where
  "ipcp_receive_configure_ack c packet now_ms =
     (if \<not> ipcp_exactly_acknowledges packet (ic_request_identifier c) (ipcp_local_options c) then
        (Ok (ignoring InvalidConfigureResponse), c)
      else (case ic_state c of
          RequestSent \<Rightarrow>
            (Ok (acting []), c\<lparr>ic_state := AckReceived,
               ic_restart_remaining := is_max_configure (ic_settings c)\<rparr>)
        | AckSent \<Rightarrow>
            (Ok (acting [ThisLayerUp (ipcp_addresses c)]),
             c\<lparr>ic_state := Opened, ic_restart_remaining := is_max_configure (ic_settings c),
               ic_restart_deadline := None\<rparr>)
        | AckReceived \<Rightarrow>
            and_then_st (ipcp_send_new_request (c\<lparr>ic_state := RequestSent\<rparr>) now_ms False)
              (\<lambda>request c. (Ok (acting [SendPacket request]), c))
        | Opened \<Rightarrow>
            and_then_st (ipcp_send_new_request (c\<lparr>ic_state := RequestSent\<rparr>) now_ms False)
              (\<lambda>request c. (Ok (acting [ThisLayerDown, SendPacket request]), c))
        | _ \<Rightarrow> (Panic, c)))"

definition ipcp_after_negative_response :: "ipcp_client \<Rightarrow> u64 \<Rightarrow> ipcp_result" where
  "ipcp_after_negative_response c now_ms =
     (let reset_counter = (ic_state c \<in> {RequestSent, AckSent});
          send = (\<lambda>actions c. and_then_st (ipcp_send_new_request c now_ms reset_counter)
            (\<lambda>request c. (Ok (acting (actions @ [SendPacket request])), c)))
      in case ic_state c of
           RequestSent \<Rightarrow> send [] (c\<lparr>ic_state := RequestSent\<rparr>)
         | AckReceived \<Rightarrow> send [] (c\<lparr>ic_state := RequestSent\<rparr>)
         | AckSent \<Rightarrow> send [] (c\<lparr>ic_state := AckSent\<rparr>)
         | Opened \<Rightarrow> send [ThisLayerDown] (c\<lparr>ic_state := RequestSent\<rparr>)
         | _ \<Rightarrow> (Panic, c))"

text \<open>
  The address a Nak suggests: \<^verbatim>\<open>option.ip_address().filter(|address| *address != UNSPECIFIED_ADDRESS)\<close>
  and its two siblings.
\<close>

definition usable_suggestion :: "ipv4_address option \<Rightarrow> ipv4_address option" where
  "usable_suggestion a = (if a = Some UNSPECIFIED_ADDRESS then None else a)"

text \<open>
  The loop of \<^verbatim>\<open>receive_configure_nak\<close> writes each suggested address into the client at once. It
  returns \<open>None\<close> when it stops early with \<^verbatim>\<open>invalid_response()\<close>, else whether it accepted an option;
  in both cases with the client as it is then.
\<close>

fun ipcp_nak_loop :: "ipcp_client \<Rightarrow> bool \<Rightarrow> ipcp_option list \<Rightarrow> bool option \<times> ipcp_client" where
  "ipcp_nak_loop c accepted [] = (Some accepted, c)"
| "ipcp_nak_loop c accepted (opt # opts) =
     (if ipcp_known_type opt = Some IpAddress \<and> ic_request_address_option c then
        (case usable_suggestion (option_ip_address opt) of
           None \<Rightarrow> (None, c)
         | Some address \<Rightarrow> ipcp_nak_loop (c\<lparr>ic_local_address := address\<rparr>) True opts)
      else if ipcp_known_type opt = Some PrimaryDnsServerAddress \<and> ic_request_primary_dns_option c then
        (case usable_suggestion (option_primary_dns_address opt) of
           None \<Rightarrow> (None, c)
         | Some address \<Rightarrow> ipcp_nak_loop (c\<lparr>ic_primary_dns_address := address\<rparr>) True opts)
      else if ipcp_known_type opt = Some SecondaryDnsServerAddress \<and> ic_request_secondary_dns_option c then
        (case usable_suggestion (option_secondary_dns_address opt) of
           None \<Rightarrow> (None, c)
         | Some address \<Rightarrow> ipcp_nak_loop (c\<lparr>ic_secondary_dns_address := address\<rparr>) True opts)
      else (None, c))"

definition ipcp_receive_configure_nak :: "ipcp_client \<Rightarrow> ipcp_packet \<Rightarrow> u64 \<Rightarrow> ipcp_result" where
  "ipcp_receive_configure_nak c packet now_ms =
     (if ip_identifier packet \<noteq> ic_request_identifier c then (Ok (ignoring InvalidConfigureResponse), c)
      else (case ipcp_collect_options (ip_data packet) of
        Err e \<Rightarrow> (Ok (ignoring (MalformedOptions e)), c)
      | Panic \<Rightarrow> (Panic, c)
      | Ok options \<Rightarrow>
          if ipcp_has_duplicate_types options then (Ok (ignoring InvalidConfigureResponse), c)
          else (case ipcp_nak_loop c False options of
            (Some True, c) \<Rightarrow> ipcp_after_negative_response c now_ms
          | (_, c) \<Rightarrow> (Ok (ignoring InvalidConfigureResponse), c))))"

text \<open>The loop of \<^verbatim>\<open>receive_configure_reject\<close>: \<open>False\<close> when it stops early.\<close>

fun ipcp_reject_loop :: "ipcp_client \<Rightarrow> ipcp_option list \<Rightarrow> bool \<times> ipcp_client" where
  "ipcp_reject_loop c [] = (True, c)"
| "ipcp_reject_loop c (opt # opts) =
     (if ipcp_known_type opt = Some IpAddress \<and> ic_request_address_option c \<and>
         io_encoded opt = encode_ip_address_option (ic_local_address c) then
        ipcp_reject_loop (c\<lparr>ic_request_address_option := False\<rparr>) opts
      else if ipcp_known_type opt = Some PrimaryDnsServerAddress \<and> ic_request_primary_dns_option c \<and>
         io_encoded opt = encode_primary_dns_address_option (ic_primary_dns_address c) then
        ipcp_reject_loop (c\<lparr>ic_request_primary_dns_option := False,
          ic_primary_dns_address := UNSPECIFIED_ADDRESS\<rparr>) opts
      else if ipcp_known_type opt = Some SecondaryDnsServerAddress \<and> ic_request_secondary_dns_option c \<and>
         io_encoded opt = encode_secondary_dns_address_option (ic_secondary_dns_address c) then
        ipcp_reject_loop (c\<lparr>ic_request_secondary_dns_option := False,
          ic_secondary_dns_address := UNSPECIFIED_ADDRESS\<rparr>) opts
      else (False, c))"

definition ipcp_receive_configure_reject :: "ipcp_client \<Rightarrow> ipcp_packet \<Rightarrow> u64 \<Rightarrow> ipcp_result" where
  "ipcp_receive_configure_reject c packet now_ms =
     (if ip_identifier packet \<noteq> ic_request_identifier c then (Ok (ignoring InvalidConfigureResponse), c)
      else (case ipcp_collect_options (ip_data packet) of
        Err e \<Rightarrow> (Ok (ignoring (MalformedOptions e)), c)
      | Panic \<Rightarrow> (Panic, c)
      | Ok options \<Rightarrow>
          if options = [] \<or> ipcp_has_duplicate_types options then
            (Ok (ignoring InvalidConfigureResponse), c)
          else (case ipcp_reject_loop c options of
            (True, c) \<Rightarrow> ipcp_after_negative_response c now_ms
          | (False, c) \<Rightarrow> (Ok (ignoring InvalidConfigureResponse), c))))"

definition ipcp_receive :: "ipcp_client \<Rightarrow> bytes \<Rightarrow> u64 \<Rightarrow> ipcp_result" where
  "ipcp_receive c input now_ms =
     (if ic_state c \<in> {Closed, Stopped} then (Ok (ignoring NotConfiguring), c)
      else (case ipcp_packet_parse input of
        Err e \<Rightarrow> (Ok (ignoring (MalformedPacket e)), c)
      | Panic \<Rightarrow> (Panic, c)
      | Ok packet \<Rightarrow> (case ipcp_known_code packet of
            Some ConfigureRequest \<Rightarrow> ipcp_receive_configure_request c packet now_ms
          | Some ConfigureAck \<Rightarrow> ipcp_receive_configure_ack c packet now_ms
          | Some ConfigureNak \<Rightarrow> ipcp_receive_configure_nak c packet now_ms
          | Some ConfigureReject \<Rightarrow> ipcp_receive_configure_reject c packet now_ms
          | Some code \<Rightarrow> (Ok (ignoring (UnsupportedCode (ipcp_code_octet code))), c)
          | None \<Rightarrow> (Ok (ignoring (UnsupportedCode (ip_code packet))), c))))"

section \<open>The client as a step function\<close>

datatype ipcp_event = Open u64 | LowerDown | PollTimeout u64 | Receive bytes u64

fun ipcp_step :: "ipcp_client \<Rightarrow> ipcp_event \<Rightarrow> ipcp_result" where
  "ipcp_step c (Open now_ms) = ipcp_open c now_ms"
| "ipcp_step c LowerDown = (let (t, c') = ipcp_lower_down c in (Ok t, c'))"
| "ipcp_step c (PollTimeout now_ms) = ipcp_poll_timeout c now_ms"
| "ipcp_step c (Receive input now_ms) = ipcp_receive c input now_ms"

end
