(* ===== verification/Ipcp_Properties.thy ===== *)
theory Ipcp_Properties
  imports Ipcp_Client
begin

text \<open>
  What the IPCP client promises: the complete answer to every peer request, the invariant of the
  automaton (no failure, no panic, Up and Down strictly in turn), what brings the layer up, the
  outcome of a whole address negotiation, and the end of a negotiation with a silent peer.
\<close>

section \<open>Option lists\<close>

lemma ipcp_collect_types:
  assumes "ipcp_collect_options data = Ok opts"
  shows "data = concat (map io_encoded opts)"
    and "opt \<in> set opts \<Longrightarrow> io_encoded opt = tlv_bytes (io_type opt, io_data opt) \<and> length (io_data opt) \<le> 253"
proof -
  note sound = ipcp_options.collect_sound [OF assms]
  then have enc: "map io_encoded opts = map tlv_bytes (map ipcp_option_view opts)" by blast
  then show "data = concat (map io_encoded opts)" using sound by (simp del: map_map)
  show "opt \<in> set opts \<Longrightarrow> io_encoded opt = tlv_bytes (io_type opt, io_data opt) \<and> length (io_data opt) \<le> 253"
    using enc sound by (auto simp: list_all_iff tlv_fits_def ipcp_option_view_def)
qed

lemma ipcp_has_duplicate_types_iff [simp]:
  "ipcp_has_duplicate_types opts \<longleftrightarrow> \<not> distinct (map io_type opts)"
  by (simp only: ipcp_has_duplicate_types_def ipcp_duplicate_type_map_def [abs_def] no_duplicates_iff)

lemma ipcp_duplicate_type_map_iff: "ipcp_duplicate_type_map opts t \<longleftrightarrow> 2 \<le> count_list (map io_type opts) t"
  by (simp add: ipcp_duplicate_type_map_def mark_duplicates_iff)

lemma ipcp_encode_packet_ok:
  "length data \<le> 65531 \<Longrightarrow> ipcp_encode_packet code ident data = Ok (packet_bytes code ident data)"
  using ipcp.encode_ok [where d = data and out = "replicate (4 + length data) 0" and c = code and i = ident]
  by (simp add: ipcp_encode_packet_def IPCP_HEADER_LENGTH_def)

section \<open>The answer to the peer's request\<close>

text \<open>The verdict on one option, and whether its type comes up once.\<close>

definition acceptable_address :: "ipcp_option \<Rightarrow> bool" where
  "acceptable_address opt \<longleftrightarrow>
     io_type opt = 3 \<and> length (io_data opt) = 4 \<and> octets4_at (io_data opt) 0 \<noteq> UNSPECIFIED_ADDRESS"

definition rejected_option :: "ipv4_address \<Rightarrow> ipcp_option list \<Rightarrow> ipcp_option \<Rightarrow> bool" where
  "rejected_option preferred opts opt \<longleftrightarrow>
     2 \<le> count_list (map io_type opts) (io_type opt) \<or>
     \<not> (acceptable_address opt \<or> io_type opt = 3 \<and> preferred \<noteq> UNSPECIFIED_ADDRESS)"

lemma known_type_address: "ipcp_known_type opt = Some IpAddress \<longleftrightarrow> io_type opt = 3"
  by (simp add: ipcp_known_type_def ipcp_option_type_from_octet_iff)

lemma evaluate_option_eq:
  "ipcp_evaluate_option opt preferred pa =
     (if acceptable_address opt then (Ack, Some (octets4_at (io_data opt) 0))
      else if io_type opt = 3 \<and> preferred \<noteq> UNSPECIFIED_ADDRESS then
        (Nak (encode_ip_address_option preferred), pa)
      else (Reject, pa))"
proof (cases "ipcp_known_type opt = Some IpAddress")
  case True
  then have "io_type opt = 3" by (simp add: known_type_address)
  with True show ?thesis
    by (simp add: ipcp_evaluate_option_def acceptable_address_def Let_def)
next
  case False
  then have "io_type opt \<noteq> 3" by (simp add: known_type_address)
  with False show ?thesis
    by (cases "ipcp_known_type opt"; cases "the (ipcp_known_type opt)")
      (simp_all add: ipcp_evaluate_option_def acceptable_address_def)
qed

lemma ipcp_evaluate_options_dispositions:
  "fst (ipcp_evaluate_options dup preferred pa opts) =
     map (\<lambda>opt. if dup (io_type opt) then Reject
       else fst (ipcp_evaluate_option opt preferred None)) opts"
  by (induction opts arbitrary: pa) (simp_all add: Let_def case_prod_unfold evaluate_option_eq)

lemma evaluate_options_reject:
  "map (\<lambda>x. io_encoded (fst x)) (filter (\<lambda>x. snd x = Reject) (zip xs (map f xs))) =
     map io_encoded (filter (\<lambda>opt. f opt = Reject) xs)"
  by (induction xs) simp_all

lemma single_address:
  assumes "\<forall>opt \<in> set opts. io_type opt = 3 \<and> \<not> 2 \<le> count_list (map io_type opts) (io_type opt)"
  shows "opts = [] \<or> (\<exists>opt. opts = [opt])"
proof (cases opts)
  case (Cons a rest)
  show ?thesis
  proof (cases rest)
    case (Cons b rest')
    with assms \<open>opts = a # rest\<close> show ?thesis by auto
  qed (use Cons in simp)
qed simp

text \<open>The whole answer to a request, in closed form.\<close>

definition request_answer :: "ipv4_address \<Rightarrow> bytes \<Rightarrow> ipcp_option list \<Rightarrow> peer_evaluation" where
  "request_answer preferred data opts =
     (if \<exists>opt \<in> set opts. rejected_option preferred opts opt then
        \<lparr>pe_code = ConfigureReject,
         pe_data = concat (map io_encoded (filter (rejected_option preferred opts) opts)),
         pe_peer_address = None\<rparr>
      else (case opts of
          [opt] \<Rightarrow>
            if acceptable_address opt then
              \<lparr>pe_code = ConfigureAck, pe_data = data, pe_peer_address = Some (octets4_at (io_data opt) 0)\<rparr>
            else \<lparr>pe_code = ConfigureNak, pe_data = encode_ip_address_option preferred, pe_peer_address = None\<rparr>
        | _ \<Rightarrow> \<lparr>pe_code = ConfigureAck, pe_data = data, pe_peer_address = None\<rparr>))"

lemma ipcp_evaluate_peer_request_eq:
  assumes "ipcp_collect_options (ip_data packet) = Ok opts"
  shows "ipcp_evaluate_peer_request packet preferred = Ok (request_answer preferred (ip_data packet) opts)"
proof -
  let ?d = "\<lambda>opt. if ipcp_duplicate_type_map opts (io_type opt) then Reject
       else fst (ipcp_evaluate_option opt preferred None)"
  have rej: "?d opt = Reject \<longleftrightarrow> rejected_option preferred opts opt" for opt
    by (auto simp: rejected_option_def evaluate_option_eq ipcp_duplicate_type_map_iff)
  obtain pa where ev: "ipcp_evaluate_options (ipcp_duplicate_type_map opts) preferred None opts = (map ?d opts, pa)"
    using ipcp_evaluate_options_dispositions [of "ipcp_duplicate_type_map opts" preferred None opts]
    by (metis prod.collapse)
  show ?thesis
  proof (cases "\<exists>opt \<in> set opts. rejected_option preferred opts opt")
    case True
    then have "Reject \<in> ?d ` set opts" using rej by (force simp: image_iff)
    then have "list_ex (\<lambda>item. item = Reject) (map ?d opts)" by (force simp: list_ex_iff)
    with True assms rej evaluate_options_reject [of opts ?d] show ?thesis
      by (simp add: ipcp_evaluate_peer_request_def ev request_answer_def Let_def case_prod_unfold comp_def)
  next
    case False
    then have no: "\<forall>opt \<in> set opts. ?d opt \<noteq> Reject" using rej by blast
    then have l: "\<not> list_ex (\<lambda>item. item = Reject) (map ?d opts)" by (force simp: list_ex_iff)
    have "opts = [] \<or> (\<exists>opt. opts = [opt])"
      using False by (intro single_address) (auto simp: rejected_option_def acceptable_address_def)
    then show ?thesis
    proof
      assume "opts = []"
      with assms show ?thesis by (simp add: ipcp_evaluate_peer_request_def request_answer_def)
    next
      assume "\<exists>opt. opts = [opt]"
      then obtain opt where "opts = [opt]" ..
      with assms False show ?thesis
        by (auto simp: ipcp_evaluate_peer_request_def request_answer_def Let_def evaluate_option_eq
            ipcp_duplicate_type_map_iff rejected_option_def)
    qed
  qed
qed

lemma ipcp_length_concat_filter: "length (concat (map f (filter P xs))) \<le> length (concat (map f xs))"
  by (induction xs) simp_all

lemma request_answer_fits:
  assumes "ipcp_collect_options data = Ok opts" "length data \<le> 65531"
  shows "length (pe_data (request_answer preferred data opts)) \<le> 65531"
proof -
  have "length (concat (map io_encoded (filter (rejected_option preferred opts) opts))) \<le> length data"
    using ipcp_length_concat_filter ipcp_collect_types(1) [OF assms(1)] by metis
  with assms(2) show ?thesis
    by (auto simp: request_answer_def encode_ip_address_option_def split: list.splits)
qed

lemma request_answer_code:
  "pe_peer_address (request_answer preferred data opts) = Some a \<Longrightarrow>
   pe_code (request_answer preferred data opts) = ConfigureAck"
  by (auto simp: request_answer_def split: list.splits if_splits)

section \<open>The invariant\<close>

text \<open>
  The timer runs exactly while an answer is owed, the restart counter stays within its limit, and a
  DNS address that is no longer asked for is zero.
\<close>

definition ipcp_inv :: "ipcp_client \<Rightarrow> bool" where
  "ipcp_inv c \<longleftrightarrow>
     (ic_restart_deadline c \<noteq> None \<longleftrightarrow> ic_state c \<in> {RequestSent, AckReceived, AckSent}) \<and>
     ic_restart_remaining c \<le> is_max_configure (ic_settings c) \<and>
     (\<not> ic_request_primary_dns_option c \<longrightarrow> ic_primary_dns_address c = UNSPECIFIED_ADDRESS) \<and>
     (\<not> ic_request_secondary_dns_option c \<longrightarrow> ic_secondary_dns_address c = UNSPECIFIED_ADDRESS)"

definition ipcp_good :: "ipcp_client \<Rightarrow> ipcp_result \<Rightarrow> bool" where
  "ipcp_good c r \<longleftrightarrow> (\<exists>t c'. r = (Ok t, c') \<and> ipcp_inv c' \<and>
     layer_track (ic_state c = Opened) (tr_actions t) = Some (ic_state c' = Opened))"

lemma length_ipcp_local_options: "length (ipcp_local_options c) \<le> 18"
  by (simp add: ipcp_local_options_def encode_ip_address_option_def
      encode_primary_dns_address_option_def encode_secondary_dns_address_option_def)

lemma ipcp_encode_request_ok [simp]:
  "ipcp_encode_request c = Ok (packet_bytes 1 (ic_request_identifier c) (ipcp_local_options c))"
  using length_ipcp_local_options [of c] by (simp add: ipcp_encode_request_def ipcp_encode_packet_ok)

lemma ipcp_local_options_fields:
  "ipcp_local_options (c\<lparr>ic_state := s\<rparr>) = ipcp_local_options c"
  "ipcp_local_options (c\<lparr>ic_request_identifier := i\<rparr>) = ipcp_local_options c"
  "ipcp_local_options (c\<lparr>ic_next_identifier := i\<rparr>) = ipcp_local_options c"
  "ipcp_local_options (c\<lparr>ic_restart_remaining := i\<rparr>) = ipcp_local_options c"
  "ipcp_local_options (c\<lparr>ic_restart_deadline := d\<rparr>) = ipcp_local_options c"
  by (simp_all add: ipcp_local_options_def)

lemma ipcp_send_new_request_ok:
  "ipcp_send_new_request c now_ms reset =
     (Ok (packet_bytes 1 (ic_next_identifier c + 1) (ipcp_local_options c)),
      c\<lparr>ic_next_identifier := ic_next_identifier c + 1, ic_request_identifier := ic_next_identifier c + 1,
        ic_restart_remaining :=
          (if reset then saturating_sub (is_max_configure (ic_settings c)) 1
           else saturating_sub (ic_restart_remaining c) 1),
        ic_restart_deadline := Some (saturating_add now_ms (is_restart_interval_ms (ic_settings c)))\<rparr>)"
  by (simp add: ipcp_send_new_request_def ipcp_allocate_identifier_def Let_def ipcp_local_options_fields)

lemma saturating_sub_below: "a \<le> b \<Longrightarrow> saturating_sub a 1 \<le> b"
  using saturating_sub_le [of a 1] by order

lemma dec_below: "a \<noteq> 0 \<Longrightarrow> a \<le> b \<Longrightarrow> a - 1 \<le> (b :: 'a :: len word)"
  by (simp add: word_le_nat_alt unat_dec)

lemmas ipcp_good_simps = ipcp_good_def ipcp_inv_def ipcp_send_new_request_ok
  saturating_sub_below saturating_sub_le dec_below Let_def

lemma ipcp_open_good: "ipcp_inv c \<Longrightarrow> ipcp_good c (ipcp_open c now_ms)"
  by (auto simp: ipcp_open_def ipcp_reset_addresses_def ipcp_good_simps)

lemma ipcp_lower_down_good: "ipcp_inv c \<Longrightarrow> ipcp_good c (ipcp_step c LowerDown)"
  by (auto simp: ipcp_lower_down_def ipcp_reset_addresses_def ipcp_good_simps)

lemma ipcp_poll_timeout_good: "ipcp_inv c \<Longrightarrow> ipcp_good c (ipcp_poll_timeout c now_ms)"
  by (auto simp: ipcp_poll_timeout_def ipcp_good_simps split: option.splits)

abbreviation ipcp_configuring :: "ipcp_client \<Rightarrow> bool" where
  "ipcp_configuring c \<equiv> ic_state c \<in> {RequestSent, AckReceived, AckSent, Opened}"

lemma ipcp_after_negative_good:
  assumes "ipcp_inv c" "ipcp_configuring c"
  shows "ipcp_good c (ipcp_after_negative_response c now_ms)"
  using assms by (auto simp: ipcp_after_negative_response_def ipcp_good_simps)

lemma ipcp_nak_loop_frame:
  "ipcp_nak_loop c accepted opts = (r, c') \<Longrightarrow> ipcp_inv c \<Longrightarrow> ipcp_inv c' \<and> ic_state c' = ic_state c"
proof (induction c accepted opts rule: ipcp_nak_loop.induct)
  case (2 c accepted opt opts)
  then show ?case
    by (auto simp: ipcp_inv_def split: if_splits option.splits)
qed simp

lemma ipcp_reject_loop_frame:
  "ipcp_reject_loop c opts = (r, c') \<Longrightarrow> ipcp_inv c \<Longrightarrow> ipcp_inv c' \<and> ic_state c' = ic_state c"
proof (induction c opts rule: ipcp_reject_loop.induct)
  case (2 c opt opts)
  then show ?case
    by (auto simp: ipcp_inv_def split: if_splits)
qed simp

lemma ipcp_ignored_good:
  "ipcp_inv c' \<Longrightarrow> ic_state c' = ic_state c \<Longrightarrow> ipcp_good c (Ok (ignoring r), c')"
  by (simp add: ipcp_good_def)

lemma ipcp_good_state: "ic_state c' = ic_state c \<Longrightarrow> ipcp_good c' r \<Longrightarrow> ipcp_good c r"
  by (simp add: ipcp_good_def)

lemma ipcp_nak_good:
  assumes "ipcp_inv c" "ipcp_configuring c"
  shows "ipcp_good c (ipcp_receive_configure_nak c packet now_ms)"
proof (cases "ip_identifier packet = ic_request_identifier c")
  case id: True
  show ?thesis
  proof (cases "ipcp_collect_options (ip_data packet)")
    case (Ok opts)
    obtain r c' where loop: "ipcp_nak_loop c False opts = (r, c')" by fastforce
    from ipcp_nak_loop_frame [OF this assms(1)] have c': "ipcp_inv c'" "ic_state c' = ic_state c" by auto
    with assms(2) have "ipcp_good c (ipcp_after_negative_response c' now_ms)"
      by (intro ipcp_good_state [OF c'(2)] ipcp_after_negative_good) simp_all
    with id Ok loop c' assms(1) show ?thesis
      by (cases r; cases "the r") (auto simp: ipcp_receive_configure_nak_def ipcp_ignored_good)
  qed (use id assms(1) ipcp_options.collect_not_panic in
    \<open>auto simp: ipcp_receive_configure_nak_def ipcp_ignored_good\<close>)
qed (use assms(1) in \<open>auto simp: ipcp_receive_configure_nak_def ipcp_ignored_good\<close>)

lemma ipcp_reject_good:
  assumes "ipcp_inv c" "ipcp_configuring c"
  shows "ipcp_good c (ipcp_receive_configure_reject c packet now_ms)"
proof (cases "ip_identifier packet = ic_request_identifier c")
  case id: True
  show ?thesis
  proof (cases "ipcp_collect_options (ip_data packet)")
    case (Ok opts)
    obtain r c' where loop: "ipcp_reject_loop c opts = (r, c')" by fastforce
    from ipcp_reject_loop_frame [OF this assms(1)] have c': "ipcp_inv c'" "ic_state c' = ic_state c" by auto
    with assms(2) have "ipcp_good c (ipcp_after_negative_response c' now_ms)"
      by (intro ipcp_good_state [OF c'(2)] ipcp_after_negative_good) simp_all
    with id Ok loop c' assms(1) show ?thesis
      by (cases r) (auto simp: ipcp_receive_configure_reject_def ipcp_ignored_good)
  qed (use id assms(1) ipcp_options.collect_not_panic in
    \<open>auto simp: ipcp_receive_configure_reject_def ipcp_ignored_good\<close>)
qed (use assms(1) in \<open>auto simp: ipcp_receive_configure_reject_def ipcp_ignored_good\<close>)

lemma ipcp_ack_good:
  assumes "ipcp_inv c" "ipcp_configuring c"
  shows "ipcp_good c (ipcp_receive_configure_ack c packet now_ms)"
  using assms by (auto simp: ipcp_receive_configure_ack_def ipcp_good_simps)

lemma ipcp_evaluate_fits:
  assumes "ipcp_evaluate_peer_request packet preferred = Ok ev" "length (ip_data packet) \<le> 65531"
  shows "ipcp_encode_packet (ipcp_code_octet (pe_code ev)) (ip_identifier packet) (pe_data ev) =
    Ok (packet_bytes (ipcp_code_octet (pe_code ev)) (ip_identifier packet) (pe_data ev))"
proof -
  obtain opts where o: "ipcp_collect_options (ip_data packet) = Ok opts"
    using assms(1) by (auto simp: ipcp_evaluate_peer_request_def and_then_eq_Ok)
  with ipcp_evaluate_peer_request_eq [OF o, of preferred] assms(1)
  have "ev = request_answer preferred (ip_data packet) opts" by simp
  with request_answer_fits [OF o assms(2), of preferred] show ?thesis by (simp add: ipcp_encode_packet_ok)
qed

lemma ipcp_evaluate_not_panic: "ipcp_evaluate_peer_request packet preferred \<noteq> Panic"
  using ipcp_options.collect_not_panic [of "ip_data packet"] ipcp_evaluate_peer_request_eq [of packet _ preferred]
  by (cases "ipcp_collect_options (ip_data packet)") (auto simp: ipcp_evaluate_peer_request_def)

lemma ipcp_request_good:
  assumes "ipcp_inv c" "ipcp_configuring c" "length (ip_data packet) \<le> 65531"
  shows "ipcp_good c (ipcp_receive_configure_request c packet now_ms)"
proof (cases "ipcp_evaluate_peer_request packet (is_preferred_peer_address (ic_settings c))")
  case (Ok ev)
  note enc = ipcp_evaluate_fits [OF this assms(3)]
  show ?thesis
  proof (cases "pe_peer_address ev")
    case None
    with Ok enc assms(1,2) show ?thesis
      by (auto simp: ipcp_receive_configure_request_def ipcp_answer_def ipcp_good_simps)
  next
    case (Some a)
    with Ok enc assms(1,2) show ?thesis
      by (auto simp: ipcp_receive_configure_request_def ipcp_answer_def ipcp_good_simps)
  qed
next
  case (Err e)
  with assms show ?thesis by (simp add: ipcp_receive_configure_request_def ipcp_ignored_good)
next
  case Panic
  then show ?thesis using ipcp_evaluate_not_panic by blast
qed

lemma ipcp_receive_good:
  assumes "ipcp_inv c"
  shows "ipcp_good c (ipcp_receive c input now_ms)"
proof (cases "ic_state c \<in> {Closed, Stopped}")
  case True
  with assms show ?thesis by (auto simp: ipcp_receive_def ipcp_ignored_good)
next
  case False
  then have conf: "ipcp_configuring c" by (cases "ic_state c") simp_all
  show ?thesis
  proof (cases "ipcp_packet_parse input")
    case (Ok packet)
    have "length (ip_data packet) \<le> 65531"
      using ipcp.parse_length [OF Ok] by (simp add: ipcp_fields_def)
    with Ok False conf assms show ?thesis
      by (cases "ipcp_known_code packet"; cases "the (ipcp_known_code packet)")
        (simp_all add: ipcp_receive_def ipcp_ignored_good ipcp_request_good ipcp_ack_good ipcp_nak_good
          ipcp_reject_good)
  qed (use False assms ipcp.parse_total in \<open>auto simp: ipcp_receive_def ipcp_ignored_good\<close>)
qed

lemma ipcp_step_good: "ipcp_inv c \<Longrightarrow> ipcp_good c (ipcp_step c ev)"
  by (cases ev) (simp_all add: ipcp_open_good ipcp_lower_down_good [simplified] ipcp_poll_timeout_good
      ipcp_receive_good)

interpretation ipcp_layer: layer_machine ipcp_step "\<lambda>c. ic_state c = Opened" ipcp_inv
  by unfold_locales (use ipcp_step_good in \<open>auto simp: ipcp_good_def\<close>)

lemma ipcp_client_new_inv: "ipcp_inv (ipcp_client_new settings)"
  by (simp add: ipcp_inv_def ipcp_client_new_def)

text \<open>
  C10: no sequence of events makes an IPCP client fail or panic. Whatever its settings, every call
  returns \<open>Ok\<close>, the invariant holds at the end, and the layer above has seen Up and Down strictly
  in turn, being up exactly when the client is Opened.
\<close>

theorem ipcp_runs_safely:
  "\<exists>as c'. run_machine ipcp_step (ipcp_client_new settings) events = (Ok as, c') \<and> ipcp_inv c' \<and>
    layer_track False as = Some (ic_state c' = Opened)"
  using ipcp_layer.run_ok [OF ipcp_client_new_inv [of settings], of events]
  by (simp add: ipcp_client_new_def)

section \<open>What brings the layer up\<close>

definition reports_up :: "ipcp_result \<Rightarrow> address_configuration \<Rightarrow> bool" where
  "reports_up r a \<longleftrightarrow> (case r of (Ok t, _) \<Rightarrow> ThisLayerUp a \<in> set (tr_actions t) | _ \<Rightarrow> False)"

lemma no_up_elsewhere:
  "\<not> reports_up (ipcp_open c now_ms) a"
  "\<not> reports_up (ipcp_step c LowerDown) a"
  "\<not> reports_up (ipcp_poll_timeout c now_ms) a"
  "\<not> reports_up (ipcp_after_negative_response c now_ms) a"
  "\<not> reports_up (Ok (ignoring r), c) a"
  by (auto simp: reports_up_def ipcp_open_def ipcp_lower_down_def ipcp_poll_timeout_def
      ipcp_after_negative_response_def ipcp_send_new_request_ok Let_def split: option.splits ipcp_state.splits)

lemma no_up_nak: "\<not> reports_up (ipcp_receive_configure_nak c packet now_ms) a"
  by (auto simp: ipcp_receive_configure_nak_def no_up_elsewhere split: result.splits prod.splits option.splits bool.splits)
    (simp_all add: reports_up_def)

lemma no_up_reject: "\<not> reports_up (ipcp_receive_configure_reject c packet now_ms) a"
  by (auto simp: ipcp_receive_configure_reject_def no_up_elsewhere split: result.splits prod.splits bool.splits)
    (simp_all add: reports_up_def)

lemma up_ack:
  assumes "reports_up (ipcp_receive_configure_ack c packet now_ms) a"
  shows "ic_state c = AckSent \<and>
    ipcp_exactly_acknowledges packet (ic_request_identifier c) (ipcp_local_options c) \<and>
    a = ipcp_addresses (snd (ipcp_receive_configure_ack c packet now_ms)) \<and>
    ic_state (snd (ipcp_receive_configure_ack c packet now_ms)) = Opened"
  using assms
  by (cases "ic_state c")
    (auto simp: ipcp_receive_configure_ack_def reports_up_def ipcp_send_new_request_ok ipcp_addresses_def
      split: if_splits)

definition acceptable_request :: "bytes \<Rightarrow> bool" where
  "acceptable_request data \<longleftrightarrow>
     data = [] \<or> (\<exists>a. a \<noteq> UNSPECIFIED_ADDRESS \<and> data = encode_ip_address_option a)"

lemma acceptable_option_eq:
  assumes "acceptable_address opt" "io_encoded opt = tlv_bytes (io_type opt, io_data opt)"
  shows "io_encoded opt = encode_ip_address_option (octets4_at (io_data opt) 0)"
  using assms
  by (simp add: acceptable_address_def encode_ip_address_option_def encode_address_option_tlv octets4_at_length)

lemma request_answer_ack:
  assumes "ipcp_collect_options data = Ok opts" "pe_code (request_answer preferred data opts) = ConfigureAck"
  shows "acceptable_request data"
proof (cases "opts = []")
  case True
  with ipcp_collect_types(1) [OF assms(1)] show ?thesis by (simp add: acceptable_request_def)
next
  case False
  with assms(2) obtain opt where opt: "opts = [opt]" "acceptable_address opt"
    by (auto simp: request_answer_def rejected_option_def acceptable_address_def
        split: if_splits list.splits) 
  with ipcp_collect_types [OF assms(1)] acceptable_option_eq [of opt]
  have "data = encode_ip_address_option (octets4_at (io_data opt) 0)" by simp
  moreover have "octets4_at (io_data opt) 0 \<noteq> UNSPECIFIED_ADDRESS" using opt(2) by (simp add: acceptable_address_def)
  ultimately show ?thesis unfolding acceptable_request_def by blast
qed

lemma evaluate_ack:
  assumes "ipcp_evaluate_peer_request packet preferred = Ok ev" "pe_code ev = ConfigureAck"
  shows "acceptable_request (ip_data packet)"
proof -
  obtain opts where o: "ipcp_collect_options (ip_data packet) = Ok opts"
    using assms(1) by (auto simp: ipcp_evaluate_peer_request_def and_then_eq_Ok)
  with ipcp_evaluate_peer_request_eq [OF o, of preferred] assms request_answer_ack [OF o] show ?thesis by simp
qed

lemma up_request:
  assumes "reports_up (ipcp_receive_configure_request c packet now_ms) a" "length (ip_data packet) \<le> 65531"
  shows "ic_state c = AckReceived \<and> acceptable_request (ip_data packet) \<and>
    a = ipcp_addresses (snd (ipcp_receive_configure_request c packet now_ms)) \<and>
    ic_state (snd (ipcp_receive_configure_request c packet now_ms)) = Opened"
proof (cases "ipcp_evaluate_peer_request packet (is_preferred_peer_address (ic_settings c))")
  case (Ok ev)
  note enc = ipcp_evaluate_fits [OF this assms(2)]
  from assms(1) Ok enc have st: "ic_state c = AckReceived \<and> pe_code ev = ConfigureAck"
    by (cases "ic_state c"; cases "pe_peer_address ev"; cases "pe_code ev = ConfigureAck")
      (auto simp: ipcp_receive_configure_request_def ipcp_answer_def reports_up_def ipcp_send_new_request_ok
        Let_def split: if_splits)
  with evaluate_ack [OF Ok] assms(1) Ok enc show ?thesis
    by (cases "pe_peer_address ev")
      (auto simp: ipcp_receive_configure_request_def ipcp_answer_def reports_up_def ipcp_addresses_def)
qed (use assms(1) in \<open>auto simp: ipcp_receive_configure_request_def reports_up_def\<close>)

text \<open>
  The layer is reported up only when both sides have agreed. If a step of the client
  reports This-Layer-Up, the client is then Opened with exactly the reported addresses, the step was
  the receipt of a packet, and that packet was either an Ack with the identifier and the octets of
  the outstanding request, in AckSent, or an acceptable request (no option, or one non-zero
  IP-Address), in AckReceived.
\<close>

theorem ipcp_up_only_when_agreed:
  assumes "ipcp_step c ev = (Ok t, c')" and "ThisLayerUp a \<in> set (tr_actions t)"
  shows "ic_state c' = Opened \<and> a = ipcp_addresses c' \<and>
    (\<exists>input now_ms packet. ev = Receive input now_ms \<and> ipcp_packet_parse input = Ok packet \<and>
      (ic_state c = AckSent \<and> ipcp_known_code packet = Some ConfigureAck \<and>
         ip_identifier packet = ic_request_identifier c \<and> ip_data packet = ipcp_local_options c \<or>
       ic_state c = AckReceived \<and> ipcp_known_code packet = Some ConfigureRequest \<and>
         acceptable_request (ip_data packet)))"
proof -
  from assms have up: "reports_up (ipcp_step c ev) a" by (simp add: reports_up_def)
  then obtain input now_ms where ev: "ev = Receive input now_ms"
    by (cases ev) (auto simp: no_up_elsewhere [simplified])
  with up have up': "reports_up (ipcp_receive c input now_ms) a" by simp
  from up' obtain packet where p: "ipcp_packet_parse input = Ok packet" and st: "ic_state c \<notin> {Closed, Stopped}"
    by (cases "ipcp_packet_parse input") (auto simp: ipcp_receive_def reports_up_def split: if_splits)
  have len: "length (ip_data packet) \<le> 65531"
    using ipcp.parse_length [OF p] by (simp add: ipcp_fields_def)
  show ?thesis
  proof (cases "ipcp_known_code packet = Some ConfigureAck")
    case True
    with p st have r: "ipcp_receive c input now_ms = ipcp_receive_configure_ack c packet now_ms"
      by (simp add: ipcp_receive_def)
    from up_ack [of c packet now_ms a] up' assms(1) ev p True show ?thesis
      unfolding r by (auto simp: r ipcp_exactly_acknowledges_def)
  next
    case no_ack: False
    show ?thesis
    proof (cases "ipcp_known_code packet = Some ConfigureRequest")
      case True
      with p st have r: "ipcp_receive c input now_ms = ipcp_receive_configure_request c packet now_ms"
        by (simp add: ipcp_receive_def)
      from up_request [OF _ len, of c now_ms a] up' assms(1) ev p True show ?thesis
        unfolding r by (auto simp: r)
    next
      case False
      with no_ack p st up' show ?thesis
        by (cases "ipcp_known_code packet"; cases "the (ipcp_known_code packet)")
          (auto simp: ipcp_receive_def no_up_nak no_up_reject no_up_elsewhere)
    qed
  qed
qed

section \<open>A whole negotiation\<close>

lemma collect_three:
  "ipcp_collect_options (encode_address_option s a @ encode_address_option t b @ encode_address_option u c) =
     Ok [address_option s a, address_option t b, address_option u c]"
  using collect_address_option [of u c "[]"] ipcp_options.collect_nil
  by (simp add: collect_address_option)

lemma address_option_simps [simp]:
  "io_type (address_option t a) = ipcp_option_type_octet t" "io_data (address_option t a) = octets4_list a"
  "io_encoded (address_option t a) = encode_address_option t a"
  by (simp_all add: address_option_def)

lemma address_option_type [simp]: "ipcp_known_type (address_option t a) = Some t"
  by (simp add: ipcp_known_type_def)

lemma address_option_values [simp]:
  "option_ip_address (address_option IpAddress a) = Some a"
  "option_primary_dns_address (address_option PrimaryDnsServerAddress a) = Some a"
  "option_secondary_dns_address (address_option SecondaryDnsServerAddress a) = Some a"
  by (simp_all add: option_ip_address_def option_primary_dns_address_def option_secondary_dns_address_def)

text \<open>The options of a request for the three addresses, in the order the client sends them.\<close>

definition three_addresses :: "ipv4_address \<Rightarrow> ipv4_address \<Rightarrow> ipv4_address \<Rightarrow> bytes" where
  "three_addresses a d1 d2 =
     encode_ip_address_option a @ encode_primary_dns_address_option d1 @ encode_secondary_dns_address_option d2"

lemma three_addresses_collect:
  "ipcp_collect_options (three_addresses a d1 d2) =
     Ok [address_option IpAddress a, address_option PrimaryDnsServerAddress d1,
         address_option SecondaryDnsServerAddress d2]"
  by (simp add: three_addresses_def encode_ip_address_option_def encode_primary_dns_address_option_def
      encode_secondary_dns_address_option_def collect_three)

lemma length_three_addresses [simp]: "length (three_addresses a d1 d2) = 18"
  by (simp add: three_addresses_def encode_ip_address_option_def encode_primary_dns_address_option_def
      encode_secondary_dns_address_option_def)

lemma three_addresses_local:
  "ic_request_address_option c \<Longrightarrow> ic_request_primary_dns_option c \<Longrightarrow> ic_request_secondary_dns_option c \<Longrightarrow>
   ipcp_local_options c = three_addresses (ic_local_address c) (ic_primary_dns_address c) (ic_secondary_dns_address c)"
  by (simp add: ipcp_local_options_def three_addresses_def)

lemma receive_packet:
  assumes "ic_state c \<notin> {Closed, Stopped}" "length data \<le> 65531"
  shows "ipcp_receive c (packet_bytes code ident data) now_ms =
    (let packet = \<lparr>ip_code = code, ip_identifier = ident, ip_data = data\<rparr> in
     case ipcp_code_from_octet code of
       Some ConfigureRequest \<Rightarrow> ipcp_receive_configure_request c packet now_ms
     | Some ConfigureAck \<Rightarrow> ipcp_receive_configure_ack c packet now_ms
     | Some ConfigureNak \<Rightarrow> ipcp_receive_configure_nak c packet now_ms
     | Some ConfigureReject \<Rightarrow> ipcp_receive_configure_reject c packet now_ms
     | Some code \<Rightarrow> (Ok (ignoring (UnsupportedCode (ipcp_code_octet code))), c)
     | None \<Rightarrow> (Ok (ignoring (UnsupportedCode code)), c))"
  using assms ipcp_parse_packet_bytes [of data code ident "[]"]
  by (simp add: ipcp_receive_def ipcp_known_code_def Let_def cong: option.case_cong ipcp_code.case_cong)

lemma usable_suggestion_nonzero [simp]: "a \<noteq> UNSPECIFIED_ADDRESS \<Longrightarrow> usable_suggestion (Some a) = Some a"
  by (simp add: usable_suggestion_def)

text \<open>The four steps of the negotiation the client goes through with a peer that assigns addresses.\<close>

lemma negotiation_nak:
  assumes "ic_state c = RequestSent" "ic_request_identifier c = i"
    and "ic_request_address_option c" "ic_request_primary_dns_option c" "ic_request_secondary_dns_option c"
    and "a \<noteq> UNSPECIFIED_ADDRESS" "d1 \<noteq> UNSPECIFIED_ADDRESS" "d2 \<noteq> UNSPECIFIED_ADDRESS"
  shows "ipcp_receive c (packet_bytes 3 i (three_addresses a d1 d2)) now_ms =
    (Ok (acting [SendPacket (packet_bytes 1 (ic_next_identifier c + 1) (three_addresses a d1 d2))]),
     c\<lparr>ic_local_address := a, ic_primary_dns_address := d1, ic_secondary_dns_address := d2,
       ic_next_identifier := ic_next_identifier c + 1, ic_request_identifier := ic_next_identifier c + 1,
       ic_restart_remaining := saturating_sub (is_max_configure (ic_settings c)) 1,
       ic_restart_deadline := Some (saturating_add now_ms (is_restart_interval_ms (ic_settings c)))\<rparr>)"
  using assms ipcp_code_octets [of ConfigureNak]
  by (simp add: receive_packet Let_def ipcp_receive_configure_nak_def three_addresses_collect
      ipcp_after_negative_response_def ipcp_send_new_request_ok three_addresses_local)

lemma negotiation_ack:
  assumes "ic_state c = RequestSent" "ic_request_identifier c = i" "ipcp_local_options c = options"
  shows "ipcp_receive c (packet_bytes 2 i options) now_ms =
    (Ok (acting []), c\<lparr>ic_state := AckReceived, ic_restart_remaining := is_max_configure (ic_settings c)\<rparr>)"
proof -
  have "length options \<le> 65531" using length_ipcp_local_options [of c] assms(3) by simp
  with assms ipcp_code_octets [of ConfigureAck] show ?thesis
    by (simp add: receive_packet Let_def ipcp_receive_configure_ack_def ipcp_exactly_acknowledges_def
        ipcp_known_code_def)
qed

lemma collect_one: "ipcp_collect_options (encode_address_option t a) = Ok [address_option t a]"
  using collect_address_option [of t a "[]"] ipcp_options.collect_nil by simp

lemma negotiation_request:
  assumes "ic_state c = AckReceived" "p \<noteq> UNSPECIFIED_ADDRESS"
  shows "ipcp_receive c (packet_bytes 1 j (encode_ip_address_option p)) now_ms =
    (Ok (acting [SendPacket (packet_bytes 2 j (encode_ip_address_option p)),
        ThisLayerUp ((ipcp_addresses c)\<lparr>ac_peer := p\<rparr>)]),
     c\<lparr>ic_peer_address := p, ic_state := Opened, ic_restart_deadline := None\<rparr>)"
proof -
  have "ipcp_evaluate_peer_request \<lparr>ip_code = 1, ip_identifier = j, ip_data = encode_ip_address_option p\<rparr> pref =
      Ok \<lparr>pe_code = ConfigureAck, pe_data = encode_ip_address_option p, pe_peer_address = Some p\<rparr>" for pref
    using ipcp_evaluate_peer_request_eq [of "\<lparr>ip_code = 1, ip_identifier = j, ip_data = encode_ip_address_option p\<rparr>"
        "[address_option IpAddress p]" pref] assms(2)
    by (simp add: encode_ip_address_option_def collect_one request_answer_def rejected_option_def
        acceptable_address_def)
  moreover have "length (encode_ip_address_option p) = 6" by (simp add: encode_ip_address_option_def)
  ultimately show ?thesis
    using assms(1) ipcp_code_octets [of ConfigureRequest]
    by (simp add: receive_packet Let_def ipcp_receive_configure_request_def ipcp_encode_packet_ok ipcp_answer_def
        ipcp_addresses_def)
qed

text \<open>
  C11: a peer that assigns addresses brings the layer up with them. Whatever the settings and the
  times, a client that is opened, is given a non-zero local address and two non-zero DNS addresses
  in a Nak of its first request, receives the Ack of its second request and then the peer's request
  with a non-zero address, sends exactly the three packets below and reports This-Layer-Up with
  those four addresses.
\<close>

theorem ipcp_negotiates_addresses:
  assumes "a \<noteq> UNSPECIFIED_ADDRESS" and "d1 \<noteq> UNSPECIFIED_ADDRESS" and "d2 \<noteq> UNSPECIFIED_ADDRESS"
    and "p \<noteq> UNSPECIFIED_ADDRESS"
  shows "\<exists>c. run_machine ipcp_step (ipcp_client_new settings)
      [Open t0, Receive (packet_bytes 3 1 (three_addresses a d1 d2)) t1,
       Receive (packet_bytes 2 2 (three_addresses a d1 d2)) t2,
       Receive (packet_bytes 1 j (encode_ip_address_option p)) t3] =
      (Ok [SendPacket (packet_bytes 1 1
             (three_addresses (is_requested_local_address settings) UNSPECIFIED_ADDRESS UNSPECIFIED_ADDRESS)),
           SendPacket (packet_bytes 1 2 (three_addresses a d1 d2)),
           SendPacket (packet_bytes 2 j (encode_ip_address_option p)),
           ThisLayerUp \<lparr>ac_local = a, ac_peer = p, ac_primary_dns = d1, ac_secondary_dns = d2\<rparr>], c) \<and>
    ic_state c = Opened \<and> ic_restart_deadline c = None \<and> is_usable (ipcp_addresses c)"
  using assms
  by (simp add: ipcp_open_def ipcp_client_new_def ipcp_reset_addresses_def ipcp_send_new_request_ok
      three_addresses_local negotiation_nak negotiation_ack negotiation_request ipcp_addresses_def is_usable_def)

theorem ipcp_negotiates_addresses_witness:
  "\<exists>c. run_machine ipcp_step (ipcp_client_new ipcp_settings_default)
      [Open 0, Receive (packet_bytes 3 1 (three_addresses (10, 24, 0, 2) (1, 1, 1, 1) (1, 0, 0, 1))) 100,
       Receive (packet_bytes 2 2 (three_addresses (10, 24, 0, 2) (1, 1, 1, 1) (1, 0, 0, 1))) 200,
       Receive (packet_bytes 1 7 (encode_ip_address_option (10, 24, 0, 1))) 300] =
      (Ok [SendPacket (packet_bytes 1 1 (three_addresses (0, 0, 0, 0) (0, 0, 0, 0) (0, 0, 0, 0))),
           SendPacket (packet_bytes 1 2 (three_addresses (10, 24, 0, 2) (1, 1, 1, 1) (1, 0, 0, 1))),
           SendPacket (packet_bytes 2 7 (encode_ip_address_option (10, 24, 0, 1))),
           ThisLayerUp \<lparr>ac_local = (10, 24, 0, 2), ac_peer = (10, 24, 0, 1), ac_primary_dns = (1, 1, 1, 1),
             ac_secondary_dns = (1, 0, 0, 1)\<rparr>], c) \<and>
    ic_state c = Opened"
  using ipcp_negotiates_addresses [of "(10, 24, 0, 2)" "(1, 1, 1, 1)" "(1, 0, 0, 1)" "(10, 24, 0, 1)"
      ipcp_settings_default 0 100 200 7 300]
  by (auto simp: UNSPECIFIED_ADDRESS_def ipcp_settings_default_def simp del: run_machine.simps)

section \<open>A silent peer\<close>

lemma ipcp_expire_once:
  assumes "ipcp_inv c" "ic_restart_deadline c = Some d" "ic_restart_remaining c \<noteq> 0"
  shows "\<exists>c'. ipcp_poll_timeout c d =
      (Ok (acting [SendPacket (packet_bytes 1 (ic_request_identifier c) (ipcp_local_options c))]), c') \<and>
    ipcp_inv c' \<and> ic_restart_deadline c' \<noteq> None \<and> ic_restart_remaining c' = ic_restart_remaining c - 1 \<and>
    packet_bytes 1 (ic_request_identifier c') (ipcp_local_options c') =
      packet_bytes 1 (ic_request_identifier c) (ipcp_local_options c)"
proof -
  have "ic_state c \<in> {RequestSent, AckReceived, AckSent}" using assms(1,2) by (simp add: ipcp_inv_def)
  with assms show ?thesis
    by (auto simp: ipcp_poll_timeout_def ipcp_good_simps ipcp_local_options_fields)
qed

lemma ipcp_expire_last:
  assumes "ipcp_inv c" "ic_restart_deadline c = Some d" "ic_restart_remaining c = 0"
  shows "\<exists>c'. ipcp_poll_timeout c d = (Ok (acting [ThisLayerFinished]), c') \<and> ipcp_inv c' \<and>
    ic_restart_deadline c' = None \<and> ic_state c' = Stopped"
proof -
  have "ic_state c \<in> {RequestSent, AckReceived, AckSent}" using assms(1,2) by (simp add: ipcp_inv_def)
  with assms show ?thesis
    by (auto simp: ipcp_poll_timeout_def ipcp_good_simps)
qed

interpretation ipcp_timer:
  restart_timer ipcp_poll_timeout ic_restart_deadline ic_restart_remaining
    "\<lambda>c. packet_bytes 1 (ic_request_identifier c) (ipcp_local_options c)" ic_state "\<lambda>_. Stopped" ipcp_inv
  by unfold_locales (use ipcp_expire_once ipcp_expire_last in blast)+

text \<open>
  Address negotiation ends when the peer stays silent. \<open>restart_remaining + 1\<close> expiries of the
  restart timer retransmit the outstanding request exactly \<open>restart_remaining\<close> times, with the same
  identifier and options, report This-Layer-Finished once, and leave the client Stopped with the
  timer off.
\<close>

theorem ipcp_silent_peer_finishes:
  assumes "ipcp_inv c" and "ic_restart_deadline c \<noteq> None"
  shows "\<exists>c'. expire ipcp_poll_timeout ic_restart_deadline (unat (ic_restart_remaining c) + 1) c =
      (Ok (replicate (unat (ic_restart_remaining c))
             (SendPacket (packet_bytes 1 (ic_request_identifier c) (ipcp_local_options c))) @
           [ThisLayerFinished]), c') \<and>
    ic_state c' = Stopped \<and> ic_restart_deadline c' = None \<and> ipcp_inv c'"
  using ipcp_timer.silent_peer [OF assms] .

text \<open>The client of the default settings just after it has been opened: nine retransmissions.\<close>

theorem ipcp_silent_peer_finishes_witness:
  "\<exists>c'. expire ipcp_poll_timeout ic_restart_deadline 10 (snd (ipcp_open (ipcp_client_new ipcp_settings_default) 0)) =
      (Ok (replicate 9 (SendPacket (packet_bytes 1 1 (three_addresses (0, 0, 0, 0) (0, 0, 0, 0) (0, 0, 0, 0)))) @
           [ThisLayerFinished]), c') \<and>
    ic_state c' = Stopped"
proof -
  let ?c = "snd (ipcp_open (ipcp_client_new ipcp_settings_default) 0)"
  have "ipcp_inv ?c"
    using ipcp_open_good [OF ipcp_client_new_inv [of ipcp_settings_default], of 0] by (auto simp: ipcp_good_def)
  moreover have "ic_restart_deadline ?c \<noteq> None" "ic_restart_remaining ?c = 9" "ic_request_identifier ?c = 1"
    "ipcp_local_options ?c = three_addresses (0, 0, 0, 0) (0, 0, 0, 0) (0, 0, 0, 0)"
    by (simp_all add: ipcp_open_def ipcp_client_new_def ipcp_settings_default_def ipcp_send_new_request_ok
        ipcp_reset_addresses_def three_addresses_local saturating_sub_def UNSPECIFIED_ADDRESS_def)
  ultimately show ?thesis using ipcp_silent_peer_finishes [of ?c] by (auto simp del: expire.simps)
qed

section \<open>Answers, stale responses, refused options\<close>

theorem ipcp_up_only_when_agreed_witness:
  "\<exists>c. ic_state c = AckReceived \<and>
     (\<forall>t c'. ipcp_step c (Receive (packet_bytes 1 7 (encode_ip_address_option (10, 24, 0, 1))) 0) = (Ok t, c') \<longrightarrow>
       ic_state c' = Opened \<and> ac_peer (ipcp_addresses c') = (10, 24, 0, 1))"
proof -
  let ?c = "(ipcp_client_new ipcp_settings_default)\<lparr>ic_state := AckReceived\<rparr>"
  let ?ev = "Receive (packet_bytes 1 7 (encode_ip_address_option (10, 24, 0, 1))) 0"
  have st: "ic_state ?c = AckReceived" by simp
  from negotiation_request [OF st, of "(10, 24, 0, 1)" 7 0]
  obtain t c' where s: "ipcp_step ?c ?ev = (Ok t, c')"
      "ThisLayerUp ((ipcp_addresses ?c)\<lparr>ac_peer := (10, 24, 0, 1)\<rparr>) \<in> set (tr_actions t)"
    by (auto simp: UNSPECIFIED_ADDRESS_def)
  from ipcp_up_only_when_agreed [OF this]
  have up: "ic_state c' = Opened" "(ipcp_addresses ?c)\<lparr>ac_peer := (10, 24, 0, 1)\<rparr> = ipcp_addresses c'" by blast+
  have "ac_peer (ipcp_addresses c') = (10, 24, 0, 1)" by (simp flip: up(2))
  with s(1) st up(1) show ?thesis by (intro exI [of _ ?c]) simp
qed

lemma rejected_nak:
  assumes "ipcp_collect_options data = Ok opts"
  shows "pe_code (request_answer preferred data opts) = ConfigureNak \<longleftrightarrow>
    preferred \<noteq> UNSPECIFIED_ADDRESS \<and>
    (\<exists>v. length v \<le> 253 \<and> (length v \<noteq> 4 \<or> v = [0, 0, 0, 0]) \<and> data = tlv_bytes (3, v))"
    (is "?l \<longleftrightarrow> ?r")
proof
  assume ?l
  then obtain opt where opt: "opts = [opt]" "\<not> acceptable_address opt" "\<not> rejected_option preferred opts opt"
    by (auto simp: request_answer_def split: if_splits list.splits)
  then have t: "io_type opt = 3" "preferred \<noteq> UNSPECIFIED_ADDRESS" by (auto simp: rejected_option_def)
  have len: "length (io_data opt) \<noteq> 4 \<or> io_data opt = [0, 0, 0, 0]"
    using opt(2) t(1) octets4_at_length [of "io_data opt"]
    by (auto simp: acceptable_address_def UNSPECIFIED_ADDRESS_def octets4_list_def)
  have "data = tlv_bytes (3, io_data opt)" "length (io_data opt) \<le> 253"
    using ipcp_collect_types(1) [OF assms] ipcp_collect_types(2) [OF assms, of opt] opt(1) t(1) by simp_all
  with t(2) len show ?r by blast
next
  assume r: ?r
  then obtain v where v: "length v \<le> 253" "length v \<noteq> 4 \<or> v = [0, 0, 0, 0]" "data = tlv_bytes (3, v)" by blast
  from v(1) ipcp_collect_tlv [of "(3, v)" "[]"] ipcp_options.collect_nil
  have "ipcp_collect_options data = Ok [\<lparr>io_type = 3, io_data = v, io_encoded = tlv_bytes (3, v)\<rparr>]"
    by (simp add: v(3) tlv_fits_def)
  with assms have opts: "opts = [\<lparr>io_type = 3, io_data = v, io_encoded = tlv_bytes (3, v)\<rparr>]" by simp
  from v(2) have "\<not> acceptable_address \<lparr>io_type = 3, io_data = v, io_encoded = tlv_bytes (3, v)\<rparr>"
    by (auto simp: acceptable_address_def octets4_at_def UNSPECIFIED_ADDRESS_def)
  with r opts show ?l by (simp add: request_answer_def rejected_option_def)
qed

lemma acceptable_request_collect:
  assumes "acceptable_request data" "ipcp_collect_options data = Ok opts"
  shows "pe_code (request_answer preferred data opts) = ConfigureAck"
proof (cases "data = []")
  case True
  with assms(2) ipcp_options.collect_nil show ?thesis by (simp add: request_answer_def)
next
  case False
  with assms(1) obtain a where a: "a \<noteq> UNSPECIFIED_ADDRESS" "data = encode_ip_address_option a"
    by (auto simp: acceptable_request_def)
  with assms(2) have "opts = [address_option IpAddress a]" by (simp add: encode_ip_address_option_def collect_one)
  with a show ?thesis by (simp add: request_answer_def rejected_option_def acceptable_address_def)
qed

lemma request_answer_data:
  "pe_code (request_answer preferred data opts) = ConfigureAck \<Longrightarrow> pe_data (request_answer preferred data opts) = data"
  "pe_code (request_answer preferred data opts) = ConfigureNak \<Longrightarrow>
     pe_data (request_answer preferred data opts) = encode_ip_address_option preferred"
  "pe_code (request_answer preferred data opts) = ConfigureReject \<Longrightarrow>
     (\<exists>opt \<in> set opts. rejected_option preferred opts opt) \<and>
     pe_data (request_answer preferred data opts) =
       concat (map io_encoded (filter (rejected_option preferred opts) opts))"
  by (auto simp: request_answer_def split: list.splits if_splits)

text \<open>
  The complete answer to a peer's request whose options are well formed. It is an Ack that
  repeats the request exactly when the request is empty or holds one non-zero IP-Address; a Nak that
  offers the preferred peer address exactly when there is one and the request is a single
  IP-Address option of the wrong length or zero; otherwise a Reject that returns, unchanged and in
  order, exactly the options of a duplicated or other type (and unacceptable IP-Addresses when there
  is no preferred address), of which there is at least one.
\<close>

theorem ipcp_request_answered:
  assumes "ipcp_collect_options (ip_data packet) = Ok opts"
  shows "\<exists>ev. ipcp_evaluate_peer_request packet preferred = Ok ev \<and>
    (pe_code ev = ConfigureAck \<longleftrightarrow> acceptable_request (ip_data packet)) \<and>
    (pe_code ev = ConfigureNak \<longleftrightarrow> preferred \<noteq> UNSPECIFIED_ADDRESS \<and>
      (\<exists>v. length v \<le> 253 \<and> (length v \<noteq> 4 \<or> v = [0, 0, 0, 0]) \<and> ip_data packet = tlv_bytes (3, v))) \<and>
    (if pe_code ev = ConfigureAck then pe_data ev = ip_data packet
     else if pe_code ev = ConfigureNak then pe_data ev = encode_ip_address_option preferred
     else pe_code ev = ConfigureReject \<and> (\<exists>opt \<in> set opts. rejected_option preferred opts opt) \<and>
       pe_data ev = concat (map io_encoded (filter (rejected_option preferred opts) opts)))"
proof -
  let ?ev = "request_answer preferred (ip_data packet) opts"
  have code: "pe_code ?ev = ConfigureAck \<or> pe_code ?ev = ConfigureNak \<or> pe_code ?ev = ConfigureReject"
    by (simp add: request_answer_def split: list.splits)
  have "pe_code ?ev = ConfigureAck \<longleftrightarrow> acceptable_request (ip_data packet)"
    using request_answer_ack [OF assms] acceptable_request_collect [OF _ assms] by blast
  moreover note rejected_nak [OF assms, of preferred] ipcp_evaluate_peer_request_eq [OF assms, of preferred]
  moreover have "if pe_code ?ev = ConfigureAck then pe_data ?ev = ip_data packet
     else if pe_code ?ev = ConfigureNak then pe_data ?ev = encode_ip_address_option preferred
     else pe_code ?ev = ConfigureReject \<and> (\<exists>opt \<in> set opts. rejected_option preferred opts opt) \<and>
       pe_data ?ev = concat (map io_encoded (filter (rejected_option preferred opts) opts))"
    using code request_answer_data [of preferred "ip_data packet" opts] by presburger
  ultimately show ?thesis by blast
qed

theorem ipcp_request_answered_witness:
  "\<exists>ev. ipcp_evaluate_peer_request \<lparr>ip_code = 1, ip_identifier = 7, ip_data = [3, 6, 0, 0, 0, 0]\<rparr> (10, 24, 0, 1) = Ok ev \<and>
    pe_code ev = ConfigureNak \<and> pe_data ev = encode_ip_address_option (10, 24, 0, 1)"
proof -
  have "encode_address_option IpAddress (0, 0, 0, 0) = [3, 6, 0, 0, 0, 0]"
    by (simp add: encode_address_option_def octets4_list_def IP_ADDRESS_OPTION_LENGTH_def)
  with collect_one [of IpAddress "(0, 0, 0, 0)"] have
    c: "ipcp_collect_options (ip_data \<lparr>ip_code = 1, ip_identifier = 7, ip_data = [3, 6, 0, 0, 0, 0]\<rparr>) =
      Ok [address_option IpAddress (0, 0, 0, 0)]" by simp
  have "[3, 6, 0, 0, 0, 0] = tlv_bytes (3, [0, 0, 0, 0])" by (simp add: tlv_bytes_def)
  then have "\<exists>v. length v \<le> 253 \<and> (length v \<noteq> 4 \<or> v = [0, 0, 0, 0]) \<and> [3, 6, 0, 0, 0, 0] = tlv_bytes (3, v)"
    by (intro exI [of _ "[0, 0, 0, 0]"]) simp
  with ipcp_request_answered [OF c, of "(10, 24, 0, 1)"] show ?thesis
    by (auto simp: UNSPECIFIED_ADDRESS_def split: if_splits)
qed

text \<open>
  A stale answer changes nothing. A Configure-Ack, -Nak or -Reject whose identifier is not
  that of the outstanding request is ignored in every state and leaves the client as it was.
\<close>

theorem ipcp_stale_response_ignored:
  assumes "ipcp_packet_parse input = Ok packet"
    and "ipcp_known_code packet \<in> {Some ConfigureAck, Some ConfigureNak, Some ConfigureReject}"
    and "ip_identifier packet \<noteq> ic_request_identifier c"
  shows "\<exists>r. ipcp_receive c input now_ms = (Ok (ignoring r), c)"
  using assms
  by (auto simp: ipcp_receive_def ipcp_receive_configure_ack_def ipcp_receive_configure_nak_def
      ipcp_receive_configure_reject_def ipcp_exactly_acknowledges_def)

theorem ipcp_stale_response_ignored_witness:
  "\<exists>r. ipcp_receive (snd (ipcp_open (ipcp_client_new ipcp_settings_default) 0)) (packet_bytes 2 9 []) 5 =
     (Ok (ignoring r), snd (ipcp_open (ipcp_client_new ipcp_settings_default) 0))"
  using ipcp_parse_packet_bytes [of "[]" 2 9 "[]"] ipcp_code_octets [of ConfigureAck]
  by (intro ipcp_stale_response_ignored [of _ "\<lparr>ip_code = 2, ip_identifier = 9, ip_data = []\<rparr>"])
    (simp_all add: ipcp_known_code_def ipcp_open_def ipcp_client_new_def ipcp_send_new_request_ok
      ipcp_reset_addresses_def)

lemma collect_two:
  "ipcp_collect_options (encode_address_option s a @ encode_address_option t b) =
     Ok [address_option s a, address_option t b]"
  by (simp add: collect_address_option collect_one)

text \<open>
  C12: a refused Nak is applied in part. When a Nak of the outstanding request, which asked for an address, suggests a
  non-zero local address and then carries one more option that the request did not have (of an unknown
  type, or for a DNS server that was not asked for), with any data, the client reports
  the packet as ignored (an invalid response), sends nothing and stays in its state, also in Opened,
  and yet its local address is the suggested one.
\<close>

theorem ipcp_nak_applied_before_refused:
  assumes "ic_state c \<notin> {Closed, Stopped}" and "ic_request_address_option c" and "a \<noteq> UNSPECIFIED_ADDRESS"
    and "k \<noteq> 3" and "k = 129 \<Longrightarrow> \<not> ic_request_primary_dns_option c" and "k = 131 \<Longrightarrow> \<not> ic_request_secondary_dns_option c"
    and "length v \<le> 253"
  shows "ipcp_receive c (packet_bytes 3 (ic_request_identifier c)
      (encode_ip_address_option a @ [k, of_nat (2 + length v)] @ v)) now_ms =
    (Ok (ignoring InvalidConfigureResponse), c\<lparr>ic_local_address := a\<rparr>)"
proof -
  let ?o = "\<lparr>io_type = k, io_data = v, io_encoded = tlv_bytes (k, v)\<rparr>"
  have tlv: "[k, of_nat (2 + length v)] @ v = tlv_bytes (k, v)" by (simp add: tlv_bytes_def)
  have "ipcp_collect_options (tlv_bytes (k, v)) = Ok [?o]"
    using ipcp_collect_tlv [of "(k, v)" "[]"] assms(7) ipcp_options.collect_nil by (simp add: tlv_fits_def)
  then have "ipcp_collect_options (encode_ip_address_option a @ tlv_bytes (k, v)) = Ok [address_option IpAddress a, ?o]"
    by (simp add: encode_ip_address_option_def collect_address_option)
  moreover have "ipcp_nak_loop (c\<lparr>ic_local_address := a\<rparr>) True [?o] = (None, c\<lparr>ic_local_address := a\<rparr>)"
    using assms(4-6) by (auto simp: ipcp_known_type_def ipcp_option_type_from_octet_iff)
  moreover have "ipcp_has_duplicate_types [address_option IpAddress a, ?o] \<longleftrightarrow> False"
    using assms(4) by (simp add: ipcp_has_duplicate_types_def address_option_def)
  ultimately show ?thesis
    using assms(1-3,7) ipcp_code_octets [of ConfigureNak] unfolding tlv
    by (simp add: encode_ip_address_option_def receive_packet Let_def ipcp_receive_configure_nak_def)
qed

theorem ipcp_nak_applied_before_refused_witness:
  "\<exists>c. ic_state c = Opened \<and> ic_local_address c = (10, 24, 0, 2) \<and>
     ipcp_receive c (packet_bytes 3 0 (encode_ip_address_option (10, 0, 0, 99) @ [0x55, 5, 1, 2, 3])) 0 =
     (Ok (ignoring InvalidConfigureResponse), c\<lparr>ic_local_address := (10, 0, 0, 99)\<rparr>)"
  using ipcp_nak_applied_before_refused [of "(ipcp_client_new ipcp_settings_default)
      \<lparr>ic_state := Opened, ic_local_address := (10, 24, 0, 2)\<rparr>" "(10, 0, 0, 99)" "0x55" "[1, 2, 3]" 0]
  by (intro exI [of _ "(ipcp_client_new ipcp_settings_default)
      \<lparr>ic_state := Opened, ic_local_address := (10, 24, 0, 2)\<rparr>"])
    (simp add: ipcp_client_new_def UNSPECIFIED_ADDRESS_def)

text \<open>
  A peer without DNS servers does not stop the negotiation. When it rejects both DNS
  options of the outstanding request, the client stays in RequestSent, asks again with a new
  identifier for the IP address alone, and its DNS addresses are zero.
\<close>

theorem ipcp_dns_is_optional:
  assumes "ic_state c = RequestSent" and "ic_request_address_option c"
    and "ic_request_primary_dns_option c" and "ic_request_secondary_dns_option c"
  shows "\<exists>c'. ipcp_receive c (packet_bytes 4 (ic_request_identifier c)
      (encode_primary_dns_address_option (ic_primary_dns_address c) @
       encode_secondary_dns_address_option (ic_secondary_dns_address c))) now_ms =
    (Ok (acting [SendPacket (packet_bytes 1 (ic_next_identifier c + 1)
        (encode_ip_address_option (ic_local_address c)))]), c') \<and>
    ic_state c' = RequestSent \<and> ic_local_address c' = ic_local_address c \<and>
    ic_primary_dns_address c' = UNSPECIFIED_ADDRESS \<and> ic_secondary_dns_address c' = UNSPECIFIED_ADDRESS \<and>
    ipcp_local_options c' = encode_ip_address_option (ic_local_address c)"
  using assms ipcp_code_octets [of ConfigureReject]
  by (simp add: encode_primary_dns_address_option_def encode_secondary_dns_address_option_def
      receive_packet Let_def ipcp_receive_configure_reject_def collect_two ipcp_after_negative_response_def
      ipcp_send_new_request_ok ipcp_local_options_def)

theorem ipcp_dns_is_optional_witness:
  "\<exists>c'. ipcp_receive (snd (ipcp_open (ipcp_client_new ipcp_settings_default) 0)) (packet_bytes 4 1
      (encode_primary_dns_address_option (0, 0, 0, 0) @ encode_secondary_dns_address_option (0, 0, 0, 0))) 9 =
    (Ok (acting [SendPacket (packet_bytes 1 2 (encode_ip_address_option (0, 0, 0, 0)))]), c') \<and>
    ic_state c' = RequestSent"
  using ipcp_dns_is_optional [of "snd (ipcp_open (ipcp_client_new ipcp_settings_default) 0)" 9]
  by (auto simp: ipcp_open_def ipcp_client_new_def ipcp_send_new_request_ok ipcp_reset_addresses_def
      ipcp_settings_default_def UNSPECIFIED_ADDRESS_def)

end
