(* ===== verification/Pap_Codec.thy ===== *)
theory Pap_Codec
  imports Control_Packet
begin

text \<open>
  The PAP packet codec, \<^verbatim>\<open>crates/ndm24-ppp/src/pap.rs\<close>: the packet header (it provides the interface
  \<open>header_parser\<close>), the two length-prefixed bodies and their encoders.
\<close>

section \<open>Data\<close>

definition PAP_HEADER_LENGTH :: nat where "PAP_HEADER_LENGTH = 4"

datatype pap_code = AuthenticateRequest | AuthenticateAck | AuthenticateNak

fun pap_code_octet :: "pap_code \<Rightarrow> u8" where
  "pap_code_octet AuthenticateRequest = 1"
| "pap_code_octet AuthenticateAck = 2"
| "pap_code_octet AuthenticateNak = 3"

definition pap_code_from_octet :: "u8 \<Rightarrow> pap_code option" where
  "pap_code_from_octet value =
     (if value = 1 then Some AuthenticateRequest
      else if value = 2 then Some AuthenticateAck
      else if value = 3 then Some AuthenticateNak
      else None)"

lemma pap_code_octets [simp]: "pap_code_from_octet (pap_code_octet c) = Some c"
  by (cases c) (simp_all add: pap_code_from_octet_def)

datatype pap_parse_error = PapHeaderTruncated nat | PapInvalidLength nat nat

datatype pap_data_error =
    WrongCode u8
  | PeerIdLengthMissing
  | PeerIdTruncated nat nat \<comment> \<open>declared, available\<close>
  | PasswordLengthMissing
  | PasswordTruncated nat nat
  | MessageLengthMissing
  | MessageTruncated nat nat
  | TrailingData nat

datatype pap_field = PeerId | Password | Message

datatype pap_encode_error =
    FieldTooLong pap_field nat
  | InvalidReplyCode pap_code
  | PacketTooLong nat
  | OutputTooSmall nat nat \<comment> \<open>required, available\<close>

record pap_packet =
  pp_code :: u8
  pp_identifier :: u8
  pp_data :: bytes

record authenticate_request =
  ar_peer_id :: bytes
  ar_password :: bytes

section \<open>Parsing\<close>

definition pap_packet_parse :: "bytes \<Rightarrow> (pap_packet, pap_parse_error) result" where
  "pap_packet_parse input =
     (if length input < PAP_HEADER_LENGTH then Err (PapHeaderTruncated (length input))
      else
        (let declared_length = unat (from_be16 (input ! 2) (input ! 3))
         in if declared_length < PAP_HEADER_LENGTH \<or> declared_length > length input
            then Err (PapInvalidLength declared_length (length input))
            else Ok \<lparr>pp_code = input ! 0, pp_identifier = input ! 1,
                     pp_data = take (declared_length - PAP_HEADER_LENGTH) (drop PAP_HEADER_LENGTH input)\<rparr>))"

definition pap_known_code :: "pap_packet \<Rightarrow> pap_code option" where
  "pap_known_code packet = pap_code_from_octet (pp_code packet)"

definition pap_authenticate_request :: "pap_packet \<Rightarrow> (authenticate_request, pap_data_error) result" where
  "pap_authenticate_request packet =
     (if pap_known_code packet \<noteq> Some AuthenticateRequest then Err (WrongCode (pp_code packet))
      else (case pp_data packet of
        [] \<Rightarrow> Err PeerIdLengthMissing
      | peer_id_octet # remaining \<Rightarrow>
          (let peer_id_length = unat peer_id_octet in
           if length remaining < peer_id_length then Err (PeerIdTruncated peer_id_length (length remaining))
           else (case drop peer_id_length remaining of
             [] \<Rightarrow> Err PasswordLengthMissing
           | password_octet # remaining' \<Rightarrow>
               (let password_length = unat password_octet in
                if length remaining' < password_length then
                  Err (PasswordTruncated password_length (length remaining'))
                else if drop password_length remaining' \<noteq> [] then
                  Err (TrailingData (length (drop password_length remaining')))
                else Ok \<lparr>ar_peer_id = take peer_id_length remaining,
                         ar_password = take password_length remaining'\<rparr>)))))"

definition pap_reply_message :: "pap_packet \<Rightarrow> (bytes, pap_data_error) result" where
  "pap_reply_message packet =
     (if pap_known_code packet \<notin> {Some AuthenticateAck, Some AuthenticateNak} then
        Err (WrongCode (pp_code packet))
      else (case pp_data packet of
        [] \<Rightarrow> Err MessageLengthMissing
      | message_octet # remaining \<Rightarrow>
          (let message_length = unat message_octet in
           if length remaining < message_length then Err (MessageTruncated message_length (length remaining))
           else if drop message_length remaining \<noteq> [] then
             Err (TrailingData (length (drop message_length remaining)))
           else Ok (take message_length remaining))))"

section \<open>Encoding\<close>

definition require_u8_length :: "pap_field \<Rightarrow> bytes \<Rightarrow> (unit, pap_encode_error) result" where
  "require_u8_length field value =
     (if length value > 255 then Err (FieldTooLong field (length value)) else Ok ())"

definition pap_packet_length :: "nat \<Rightarrow> nat \<Rightarrow> (nat, pap_encode_error) result" where
  "pap_packet_length data_length available =
     (let required = PAP_HEADER_LENGTH + data_length in
      if \<not> required \<le> 65535 then Err (PacketTooLong data_length)
      else if available < required then Err (OutputTooSmall required available)
      else Ok required)"

definition encode_authenticate_request ::
  "u8 \<Rightarrow> bytes \<Rightarrow> bytes \<Rightarrow> bytes \<Rightarrow> (nat, pap_encode_error) result \<times> bytes" where
  "encode_authenticate_request identifier peer_id password output =
     and_then_st (require_u8_length PeerId peer_id, output) (\<lambda>_ output.
     and_then_st (require_u8_length Password password, output) (\<lambda>_ output.
     (let data_length = 2 + length peer_id + length password in
      and_then_st (pap_packet_length data_length (length output), output) (\<lambda>required output.
        (Ok required,
         [pap_code_octet AuthenticateRequest, identifier] @ to_be16 (of_nat required) @
         [of_nat (length peer_id)] @ peer_id @ [of_nat (length password)] @ password @
         drop required output)))))"

definition encode_reply ::
  "pap_code \<Rightarrow> u8 \<Rightarrow> bytes \<Rightarrow> bytes \<Rightarrow> (nat, pap_encode_error) result \<times> bytes" where
  "encode_reply code identifier message output =
     (if code \<notin> {AuthenticateAck, AuthenticateNak} then (Err (InvalidReplyCode code), output)
      else
        and_then_st (require_u8_length Message message, output) (\<lambda>_ output.
        (let data_length = 1 + length message in
         and_then_st (pap_packet_length data_length (length output), output) (\<lambda>required output.
           (Ok required,
            [pap_code_octet code, identifier] @ to_be16 (of_nat required) @ [of_nat (length message)] @
            message @ drop required output)))))"

section \<open>The codec provides the header interface\<close>

definition pap_fields :: "pap_packet \<Rightarrow> u8 \<times> u8 \<times> bytes" where
  "pap_fields p = (pp_code p, pp_identifier p, pp_data p)"

lemma pap_parse_packet_bytes:
  "4 + length d \<le> 65535 \<Longrightarrow>
   pap_packet_parse (packet_bytes c i d @ pad) = Ok \<lparr>pp_code = c, pp_identifier = i, pp_data = d\<rparr>"
  using declared_length [of d c i pad]
  by (simp add: pap_packet_parse_def PAP_HEADER_LENGTH_def Let_def packet_bytes_header)

interpretation pap: header_parser pap_packet_parse pap_fields "\<lambda>_. True"
proof (unfold_locales, goal_cases)
  case (1 d c i pad)
  then show ?case using pap_parse_packet_bytes [of d c i pad] by (simp add: pap_fields_def)
next
  case (2 bs p c i d)
  then have "4 \<le> length bs" and ok: "4 \<le> unat (from_be16 (bs ! 2) (bs ! 3))"
      "unat (from_be16 (bs ! 2) (bs ! 3)) \<le> length bs"
    by (auto simp: pap_packet_parse_def PAP_HEADER_LENGTH_def Let_def split: if_splits)
  moreover have "p = \<lparr>pp_code = bs ! 0, pp_identifier = bs ! 1,
      pp_data = take (unat (from_be16 (bs ! 2) (bs ! 3)) - 4) (drop 4 bs)\<rparr>"
    using 2(1) by (auto simp: pap_packet_parse_def PAP_HEADER_LENGTH_def Let_def split: if_splits)
  ultimately show ?case
    using 2(2) packet_bytes_of_input [OF _ refl, of bs] unat_le_65535 [of "from_be16 (bs ! 2) (bs ! 3)"]
    by (auto simp: pap_fields_def simp del: unat_le_65535)
next
  case (3 bs)
  then show ?case by (simp add: pap_packet_parse_def Let_def)
qed

section \<open>Round trips\<close>

text \<open>The data of the two kinds of packet.\<close>

definition credentials :: "bytes \<Rightarrow> bytes \<Rightarrow> bytes" where
  "credentials peer_id password =
     [of_nat (length peer_id)] @ peer_id @ [of_nat (length password)] @ password"

definition reply_data :: "bytes \<Rightarrow> bytes" where
  "reply_data message = [of_nat (length message)] @ message"

lemma unat_length8: "length xs \<le> 255 \<Longrightarrow> unat (of_nat (length xs) :: u8) = length xs"
  by (simp add: unat_of_nat8)

lemma authenticate_request_credentials:
  "length peer_id \<le> 255 \<Longrightarrow> length password \<le> 255 \<Longrightarrow>
   pap_authenticate_request \<lparr>pp_code = 1, pp_identifier = i, pp_data = credentials peer_id password\<rparr> =
     Ok \<lparr>ar_peer_id = peer_id, ar_password = password\<rparr>"
  using pap_code_octets [of AuthenticateRequest]
  by (simp add: pap_authenticate_request_def pap_known_code_def credentials_def Let_def unat_length8)

lemma reply_message_data:
  "length message \<le> 255 \<Longrightarrow> code \<in> {2, 3} \<Longrightarrow>
   pap_reply_message \<lparr>pp_code = code, pp_identifier = i, pp_data = reply_data message\<rparr> = Ok message"
  by (auto simp: pap_reply_message_def pap_known_code_def pap_code_from_octet_def reply_data_def Let_def unat_length8)

text \<open>
  The request the encoder writes is the one a server reads. \<open>encode_authenticate_request\<close>
  succeeds exactly when both fields have at most 255 octets and the buffer has room; it then writes
  6 + the lengths of the fields octets, leaves the rest of the buffer alone, and the octets parse,
  with anything behind them, to a packet with the identifier and credentials given. When it fails the
  buffer is unchanged.
\<close>

theorem pap_request_roundtrip:
  "encode_authenticate_request identifier peer_id password output = (r, output') \<Longrightarrow>
   (if length peer_id \<le> 255 \<and> length password \<le> 255 \<and> 6 + length peer_id + length password \<le> length output
    then r = Ok (6 + length peer_id + length password) \<and>
      drop (6 + length peer_id + length password) output' = drop (6 + length peer_id + length password) output \<and>
      length output' = length output \<and>
      (\<forall>pad. \<exists>packet. pap_packet_parse (take (6 + length peer_id + length password) output' @ pad) = Ok packet \<and>
        pp_identifier packet = identifier \<and>
        pap_authenticate_request packet = Ok \<lparr>ar_peer_id = peer_id, ar_password = password\<rparr>)
    else \<not> is_ok r \<and> r \<noteq> Panic \<and> output' = output)"
proof -
  assume enc: "encode_authenticate_request identifier peer_id password output = (r, output')"
  let ?n = "6 + length peer_id + length password"
  show ?thesis
  proof (cases "length peer_id \<le> 255 \<and> length password \<le> 255 \<and> ?n \<le> length output")
    case True
    have bytes: "[1, identifier] @ to_be16 (of_nat ?n) @ [of_nat (length peer_id)] @ peer_id @
        [of_nat (length password)] @ password = packet_bytes 1 identifier (credentials peer_id password)"
      by (simp add: packet_bytes_def credentials_def add.commute add.left_commute)
    from True enc have r: "r = Ok ?n"
        "output' = packet_bytes 1 identifier (credentials peer_id password) @ drop ?n output"
      unfolding bytes [symmetric]
      by (auto simp: encode_authenticate_request_def require_u8_length_def pap_packet_length_def
          PAP_HEADER_LENGTH_def Let_def add.commute add.left_commute)
    have len: "length (credentials peer_id password) = 2 + length peer_id + length password"
      by (simp add: credentials_def)
    with r True have t: "take ?n output' = packet_bytes 1 identifier (credentials peer_id password)" by simp
    have "pap_packet_parse (take ?n output' @ pad) =
        Ok \<lparr>pp_code = 1, pp_identifier = identifier, pp_data = credentials peer_id password\<rparr>" for pad
      unfolding t by (rule pap_parse_packet_bytes) (use True len in simp)
    with r True len show ?thesis by (simp add: authenticate_request_credentials)
  next
    case False
    with enc show ?thesis
      by (cases "length peer_id \<le> 255"; cases "length password \<le> 255")
        (auto simp: encode_authenticate_request_def require_u8_length_def pap_packet_length_def
          PAP_HEADER_LENGTH_def Let_def not_le)
  qed
qed

theorem pap_request_roundtrip_witness:
  "\<forall>pad. \<exists>packet. pap_packet_parse (take 8 (snd (encode_authenticate_request 5 [97] [98] (replicate 10 0))) @ pad) =
     Ok packet \<and> pp_identifier packet = 5 \<and>
     pap_authenticate_request packet = Ok \<lparr>ar_peer_id = [97], ar_password = [98]\<rparr>"
  using pap_request_roundtrip [of 5 "[97]" "[98]" "replicate 10 0", OF prod.collapse [symmetric]] by simp

text \<open>
  The reply the encoder writes is the one the client reads. For an Ack or a Nak with a
  message of at most 255 octets and room in the buffer, the octets written parse, with anything
  behind them, to a packet with the given code, identifier and message.
\<close>

theorem pap_reply_roundtrip:
  assumes "code \<in> {AuthenticateAck, AuthenticateNak}" and "length message \<le> 255"
    and "5 + length message \<le> length output"
  shows "\<exists>output'. encode_reply code identifier message output = (Ok (5 + length message), output') \<and>
    drop (5 + length message) output' = drop (5 + length message) output \<and>
    (\<forall>pad. \<exists>packet. pap_packet_parse (take (5 + length message) output' @ pad) = Ok packet \<and>
      pap_known_code packet = Some code \<and> pp_identifier packet = identifier \<and>
      pap_reply_message packet = Ok message)"
proof -
  let ?p = "packet_bytes (pap_code_octet code) identifier (reply_data message)"
  have len: "length ?p = 5 + length message" by (simp add: reply_data_def)
  have bytes: "[pap_code_octet code, identifier] @ to_be16 (of_nat (5 + length message)) @
      [of_nat (length message)] @ message = ?p"
    by (simp add: packet_bytes_def reply_data_def)
  have enc: "encode_reply code identifier message output = (Ok (5 + length message), ?p @ drop (5 + length message) output)"
    unfolding bytes [symmetric] using assms
    by (auto simp: encode_reply_def require_u8_length_def pap_packet_length_def PAP_HEADER_LENGTH_def Let_def)
  have "pap_packet_parse (take (5 + length message) (?p @ drop (5 + length message) output) @ pad) =
      Ok \<lparr>pp_code = pap_code_octet code, pp_identifier = identifier, pp_data = reply_data message\<rparr>" for pad
    using pap_parse_packet_bytes [of "reply_data message" "pap_code_octet code" "identifier" pad] len assms(2)
    by simp
  moreover have "pap_reply_message
      \<lparr>pp_code = pap_code_octet code, pp_identifier = identifier, pp_data = reply_data message\<rparr> = Ok message"
    using assms(1,2) by (intro reply_message_data) auto
  ultimately show ?thesis using enc len by (simp add: pap_known_code_def)
qed

theorem pap_reply_roundtrip_witness:
  "\<exists>output'. encode_reply AuthenticateAck 3 [79, 75] (replicate 7 0) = (Ok 7, output') \<and>
    (\<forall>pad. \<exists>packet. pap_packet_parse (take 7 output' @ pad) = Ok packet \<and>
      pap_known_code packet = Some AuthenticateAck \<and> pp_identifier packet = 3 \<and>
      pap_reply_message packet = Ok [79, 75])"
  using pap_reply_roundtrip [of AuthenticateAck "[79, 75]" "replicate 7 0" 3] by auto

end
