(* ===== verification/Pap_Client.thy ===== *)
theory Pap_Client
  imports Pap_Codec
begin

text \<open>
  The PAP client, \<^verbatim>\<open>Client\<close> of \<^verbatim>\<open>crates/ndm24-ppp/src/pap/client.rs\<close>, and what it promises: the
  retry counter never underflows, a silent or refusing server ends the phase, and only a matching
  Ack authenticates.
\<close>

section \<open>State and operations\<close>

datatype pap_state = Inactive | RequestPending | WaitingForReply | Opened | Failed

datatype pap_failure = Rejected | RetryLimitExceeded

datatype pap_ignore_reason =
    PapInactive
  | PapPacket pap_parse_error
  | PapUnsupportedCode u8
  | PapIdentifierMismatch u8 u8 \<comment> \<open>expected, actual\<close>
  | PapData pap_data_error

datatype receive_outcome = OutcomeAuthenticated | OutcomeRejected | OutcomeIgnored pap_ignore_reason

record pap_client =
  pc_state :: pap_state
  pc_next_identifier :: u8
  pc_current_identifier :: u8
  pc_attempts_remaining :: u8
  pc_max_authenticate :: u8
  pc_failure :: "pap_failure option"

text \<open>\<^verbatim>\<open>assert!\<close> panics on a zero limit.\<close>

definition pap_client_new :: "u8 \<Rightarrow> (pap_client, unit) result" where
  "pap_client_new max_authenticate =
     (if \<not> max_authenticate > 0 then Panic
      else Ok \<lparr>pc_state = Inactive, pc_next_identifier = 1, pc_current_identifier = 0,
               pc_attempts_remaining = 0, pc_max_authenticate = max_authenticate, pc_failure = None\<rparr>)"

definition pap_client_default :: "(pap_client, unit) result" where
  "pap_client_default = pap_client_new 10"

definition pap_current_identifier :: "pap_client \<Rightarrow> u8 option" where
  "pap_current_identifier c =
     (if pc_state c = WaitingForReply then Some (pc_current_identifier c) else None)"

definition pap_lower_up :: "pap_client \<Rightarrow> bool \<Rightarrow> pap_client" where
  "pap_lower_up c pap_required =
     c\<lparr>pc_attempts_remaining := pc_max_authenticate c, pc_failure := None,
       pc_state := (if pap_required then RequestPending else Opened)\<rparr>"

definition pap_lower_down :: "pap_client \<Rightarrow> pap_client" where
  "pap_lower_down c =
     c\<lparr>pc_state := Inactive, pc_current_identifier := 0, pc_attempts_remaining := 0, pc_failure := None\<rparr>"

definition pap_build_pending_request ::
  "pap_client \<Rightarrow> bytes \<Rightarrow> bytes \<Rightarrow> bytes \<Rightarrow> (nat option, pap_encode_error) result \<times> bytes" where
  "pap_build_pending_request c peer_id password output =
     (if pc_state c \<noteq> RequestPending then (Ok None, output)
      else and_then_st (encode_authenticate_request (pc_next_identifier c) peer_id password output)
        (\<lambda>n output. (Ok (Some n), output)))"

text \<open>\<^verbatim>\<open>attempts_remaining -= 1\<close> panics at zero where overflow is checked.\<close>

definition pap_request_sent :: "pap_client \<Rightarrow> (bool, unit) result \<times> pap_client" where
  "pap_request_sent c =
     (if pc_state c \<noteq> RequestPending then (Ok False, c)
      else
        (let c = c\<lparr>pc_current_identifier := pc_next_identifier c\<rparr>;
             c = c\<lparr>pc_next_identifier := pc_next_identifier c + 1\<rparr>
         in if pc_attempts_remaining c = 0 then (Panic, c)
            else (Ok True, c\<lparr>pc_attempts_remaining := pc_attempts_remaining c - 1,
                             pc_state := WaitingForReply\<rparr>)))"

definition pap_timeout :: "pap_client \<Rightarrow> bool \<times> pap_client" where
  "pap_timeout c =
     (if pc_state c \<noteq> WaitingForReply then (False, c)
      else (True,
        if pc_attempts_remaining c = 0 then c\<lparr>pc_state := Failed, pc_failure := Some RetryLimitExceeded\<rparr>
        else c\<lparr>pc_state := RequestPending\<rparr>))"

definition pap_receive :: "pap_client \<Rightarrow> bytes \<Rightarrow> (receive_outcome, unit) result \<times> pap_client" where
  "pap_receive c input =
     (if pc_state c \<noteq> WaitingForReply then (Ok (OutcomeIgnored PapInactive), c)
      else (case pap_packet_parse input of
        Err e \<Rightarrow> (Ok (OutcomeIgnored (PapPacket e)), c)
      | Panic \<Rightarrow> (Panic, c)
      | Ok packet \<Rightarrow>
          if pap_known_code packet \<notin> {Some AuthenticateAck, Some AuthenticateNak} then
            (Ok (OutcomeIgnored (PapUnsupportedCode (pp_code packet))), c)
          else if pp_identifier packet \<noteq> pc_current_identifier c then
            (Ok (OutcomeIgnored (PapIdentifierMismatch (pc_current_identifier c) (pp_identifier packet))), c)
          else (case pap_reply_message packet of
            Err e \<Rightarrow> (Ok (OutcomeIgnored (PapData e)), c)
          | Panic \<Rightarrow> (Panic, c)
          | Ok _ \<Rightarrow>
              if pap_known_code packet = Some AuthenticateAck then
                (Ok OutcomeAuthenticated, c\<lparr>pc_state := Opened\<rparr>)
              else (Ok OutcomeRejected, c\<lparr>pc_state := Failed, pc_failure := Some Rejected\<rparr>))))"

section \<open>Runs\<close>

datatype pap_event = LowerUp bool | LowerDown | RequestSent | Timeout | Receive bytes

text \<open>A step also tells whether a request was sent.\<close>

fun pap_step :: "pap_client \<Rightarrow> pap_event \<Rightarrow> (bool, unit) result \<times> pap_client" where
  "pap_step c (LowerUp pap_required) = (Ok False, pap_lower_up c pap_required)"
| "pap_step c LowerDown = (Ok False, pap_lower_down c)"
| "pap_step c RequestSent = pap_request_sent c"
| "pap_step c Timeout = (Ok False, snd (pap_timeout c))"
| "pap_step c (Receive input) = and_then_st (pap_receive c input) (\<lambda>_ c. (Ok False, c))"

text \<open>The number of requests sent in a run, and the client at its end.\<close>

fun pap_run :: "pap_client \<Rightarrow> pap_event list \<Rightarrow> (nat, unit) result \<times> pap_client" where
  "pap_run c [] = (Ok 0, c)"
| "pap_run c (ev # evs) = and_then_st (pap_step c ev) (\<lambda>sent c.
     and_then_st (pap_run c evs) (\<lambda>n c. (Ok ((if sent then 1 else 0) + n), c)))"

section \<open>The invariant\<close>

definition pap_inv :: "pap_client \<Rightarrow> bool" where
  "pap_inv c \<longleftrightarrow>
     0 < pc_max_authenticate c \<and> pc_attempts_remaining c \<le> pc_max_authenticate c \<and>
     (pc_state c = RequestPending \<longrightarrow> 0 < pc_attempts_remaining c) \<and>
     (pc_state c = Failed \<longleftrightarrow> pc_failure c \<noteq> None)"

lemma pap_client_new_inv: "pap_client_new max_authenticate = Ok c \<Longrightarrow> pap_inv c"
  by (auto simp: pap_client_new_def pap_inv_def split: if_splits)

lemma pap_reply_message_not_panic: "pap_reply_message packet \<noteq> Panic"
  by (simp add: pap_reply_message_def Let_def split: list.splits)

lemma pap_receive_cases:
  "(\<exists>packet message. pc_state c = WaitingForReply \<and> pap_packet_parse input = Ok packet \<and>
      pap_known_code packet = Some AuthenticateAck \<and> pp_identifier packet = pc_current_identifier c \<and>
      pap_reply_message packet = Ok message \<and>
      pap_receive c input = (Ok OutcomeAuthenticated, c\<lparr>pc_state := Opened\<rparr>)) \<or>
   (\<exists>packet message. pc_state c = WaitingForReply \<and> pap_packet_parse input = Ok packet \<and>
      pap_known_code packet = Some AuthenticateNak \<and> pp_identifier packet = pc_current_identifier c \<and>
      pap_reply_message packet = Ok message \<and>
      pap_receive c input = (Ok OutcomeRejected, c\<lparr>pc_state := Failed, pc_failure := Some Rejected\<rparr>)) \<or>
   (\<exists>reason. pap_receive c input = (Ok (OutcomeIgnored reason), c))"
proof (cases "pap_packet_parse input")
  case (Ok packet)
  show ?thesis
  proof (cases "pap_reply_message packet")
    case (Ok message)
    with \<open>pap_packet_parse input = Ok packet\<close> show ?thesis by (auto simp: pap_receive_def)
  next
    case (Err e)
    with Ok show ?thesis by (auto simp: pap_receive_def)
  qed (use pap_reply_message_not_panic in blast)
qed (use pap.parse_total in \<open>auto simp: pap_receive_def\<close>)

lemma pap_receive_ok:
  assumes "pap_inv c"
  shows "\<exists>outcome c'. pap_receive c input = (Ok outcome, c') \<and> pap_inv c' \<and>
    pc_attempts_remaining c' = pc_attempts_remaining c"
  using pap_receive_cases [of c input] assms by (auto simp: pap_inv_def)

text \<open>What is left of the retry budget: a Waiting or Pending client may send that many requests.\<close>

lemma pap_step_ok:
  assumes "pap_inv c"
  shows "\<exists>sent c'. pap_step c ev = (Ok sent, c') \<and> pap_inv c' \<and>
    ((\<exists>required. ev = LowerUp required) \<or>
      unat (pc_attempts_remaining c') + (if sent then 1 else 0) \<le> unat (pc_attempts_remaining c))"
proof (cases ev)
  case (LowerUp required)
  with assms show ?thesis by (simp add: pap_lower_up_def pap_inv_def ex_bool_eq)
next
  case LowerDown
  with assms show ?thesis by (simp add: pap_lower_down_def pap_inv_def ex_bool_eq)
next
  case RequestSent
  show ?thesis
  proof (cases "pc_state c = RequestPending")
    case True
    with assms have pos: "0 < pc_attempts_remaining c" by (simp add: pap_inv_def)
    then have "pc_attempts_remaining c \<noteq> 0" by auto
    moreover have "pc_attempts_remaining c - 1 \<le> pc_max_authenticate c"
      using Suc_unat_dec [OF pos] assms by (simp add: pap_inv_def word_le_nat_alt)
    ultimately show ?thesis
      using RequestSent assms True Suc_unat_dec [OF pos]
      by (simp add: pap_request_sent_def pap_inv_def Let_def ex_bool_eq)
  next
    case False
    with RequestSent assms show ?thesis by (simp add: pap_request_sent_def ex_bool_eq)
  qed
next
  case Timeout
  with assms show ?thesis
    by (cases "pc_state c = WaitingForReply"; cases "pc_attempts_remaining c = 0")
      (simp_all add: pap_timeout_def pap_inv_def word_gt_0 ex_bool_eq)
next
  case (Receive input)
  from pap_receive_ok [OF assms, of input] obtain outcome c' where
    "pap_receive c input = (Ok outcome, c')" "pap_inv c'" "pc_attempts_remaining c' = pc_attempts_remaining c" by blast
  with Receive show ?thesis by (simp add: ex_bool_eq)
qed

lemma pap_run_ok:
  assumes "pap_inv c"
  shows "\<exists>n c'. pap_run c evs = (Ok n, c') \<and> pap_inv c' \<and>
    ((\<forall>required. LowerUp required \<notin> set evs) \<longrightarrow>
      n + unat (pc_attempts_remaining c') \<le> unat (pc_attempts_remaining c))"
  using assms
proof (induction evs arbitrary: c)
  case Nil
  then show ?case by simp
next
  case (Cons ev evs)
  from pap_step_ok [OF Cons.prems, of ev] obtain sent c1 where
    s: "pap_step c ev = (Ok sent, c1)" "pap_inv c1" "(\<exists>required. ev = LowerUp required) \<or>
      unat (pc_attempts_remaining c1) + (if sent then 1 else 0) \<le> unat (pc_attempts_remaining c)" by blast
  from Cons.IH [OF s(2)] obtain n c2 where
    r: "pap_run c1 evs = (Ok n, c2)" "pap_inv c2" "(\<forall>required. LowerUp required \<notin> set evs) \<longrightarrow>
      n + unat (pc_attempts_remaining c2) \<le> unat (pc_attempts_remaining c1)" by blast
  from s r show ?case by (cases sent) auto
qed

text \<open>
  C13: a PAP client never panics and never exceeds its retry limit. Made with a non-zero limit,
  it survives every sequence of events (its counter does not underflow); and from the moment the
  lower layer comes up, however the events after it are arranged, it sends at most as many requests
  as the limit allows until the lower layer comes up again.
\<close>

theorem pap_retry_budget:
  assumes "pap_client_new max_authenticate = Ok c"
  shows "\<exists>n c'. pap_run c before = (Ok n, c') \<and>
    (\<exists>m c''. pap_run (pap_lower_up c' required) after = (Ok m, c'') \<and> pap_inv c'' \<and>
      ((\<forall>r. LowerUp r \<notin> set after) \<longrightarrow> m \<le> unat (pc_max_authenticate c')))"
proof -
  from pap_run_ok [OF pap_client_new_inv [OF assms], of before] obtain n c' where
    b: "pap_run c before = (Ok n, c')" "pap_inv c'" by blast
  then have "pap_inv (pap_lower_up c' required)" by (simp add: pap_inv_def pap_lower_up_def)
  from pap_run_ok [OF this, of after] obtain m c'' where
    a: "pap_run (pap_lower_up c' required) after = (Ok m, c'')" "pap_inv c''"
      "(\<forall>r. LowerUp r \<notin> set after) \<longrightarrow>
        m + unat (pc_attempts_remaining c'') \<le> unat (pc_attempts_remaining (pap_lower_up c' required))" by blast
  have "pc_attempts_remaining (pap_lower_up c' required) = pc_max_authenticate c'"
    by (simp add: pap_lower_up_def)
  with a b(1) show ?thesis by auto
qed

theorem pap_retry_budget_witness:
  "\<exists>c. pap_client_new 2 = Ok c \<and> (\<exists>n c'. pap_run c [] = (Ok n, c') \<and>
    (\<exists>m c''. pap_run (pap_lower_up c' True) [RequestSent, Timeout, RequestSent, Timeout, RequestSent] = (Ok m, c'') \<and>
      m \<le> 2))"
proof -
  obtain c where c: "pap_client_new 2 = Ok c" by (simp add: pap_client_new_def)
  from pap_retry_budget [OF c, of "[]" True "[RequestSent, Timeout, RequestSent, Timeout, RequestSent]"]
  obtain m c'' where "pap_run (pap_lower_up c True) [RequestSent, Timeout, RequestSent, Timeout, RequestSent] = (Ok m, c'')"
    "m \<le> unat (pc_max_authenticate c)" by auto
  moreover have "pc_max_authenticate c = 2" using c by (auto simp: pap_client_new_def)
  ultimately show ?thesis using c by auto
qed

section \<open>A silent server\<close>

text \<open>The phase with a server that never answers: \<open>n\<close> rounds of a request and a timeout.\<close>

definition silent_rounds :: "nat \<Rightarrow> pap_event list" where
  "silent_rounds n = concat (replicate n [RequestSent, Timeout])"

lemma silent_rounds_fail:
  assumes "pc_state c = RequestPending" "unat (pc_attempts_remaining c) = Suc k"
  shows "\<exists>c'. pap_run c (silent_rounds (Suc k)) = (Ok (Suc k), c') \<and> pc_state c' = Failed \<and>
    pc_failure c' = Some RetryLimitExceeded \<and> pc_next_identifier c' = pc_next_identifier c + of_nat (Suc k)"
  using assms
proof (induction k arbitrary: c)
  case 0
  then have "pc_attempts_remaining c = 1" by (simp add: word_unat_eq_iff)
  with 0 show ?case
    by (simp add: silent_rounds_def pap_request_sent_def pap_timeout_def Let_def)
next
  case (Suc k)
  then have nz: "pc_attempts_remaining c \<noteq> 0" by auto
  let ?c = "c\<lparr>pc_current_identifier := pc_next_identifier c, pc_next_identifier := pc_next_identifier c + 1,
    pc_attempts_remaining := pc_attempts_remaining c - 1, pc_state := RequestPending\<rparr>"
  have left: "unat (pc_attempts_remaining c - 1) = Suc k" using nz Suc.prems(2) by (simp add: unat_dec)
  then have "pc_attempts_remaining c - 1 \<noteq> 0" by auto
  then have "pap_run c (RequestSent # Timeout # evs) =
      and_then_st (pap_run ?c evs) (\<lambda>n c. (Ok (Suc n), c))" for evs
    using nz Suc.prems(1) by (cases "pap_run ?c evs"; cases "fst (pap_run ?c evs)")
      (auto simp: pap_request_sent_def pap_timeout_def Let_def)
  moreover from Suc.IH [of ?c] left obtain c' where
    "pap_run ?c (silent_rounds (Suc k)) = (Ok (Suc k), c')" "pc_state c' = Failed"
    "pc_failure c' = Some RetryLimitExceeded" "pc_next_identifier c' = pc_next_identifier c + 1 + of_nat (Suc k)"
    by (auto simp del: of_nat_Suc)
  moreover have "silent_rounds (Suc (Suc k)) = RequestSent # Timeout # silent_rounds (Suc k)"
    by (simp add: silent_rounds_def)
  ultimately show ?case by (simp add: add.assoc)
qed

text \<open>
  Authentication with a silent server ends. A client whose lower layer came up with PAP
  required, and whose requests all time out, sends exactly as many requests as its limit, each with
  the next identifier, and is then Failed because of the retry limit.
\<close>

theorem pap_silent_server_fails:
  assumes "pap_client_new max_authenticate = Ok c"
  shows "\<exists>c'. pap_run (pap_lower_up c True) (silent_rounds (unat max_authenticate)) =
      (Ok (unat max_authenticate), c') \<and>
    pc_state c' = Failed \<and> pc_failure c' = Some RetryLimitExceeded \<and>
    pc_next_identifier c' = 1 + max_authenticate"
proof -
  from assms have c: "0 < max_authenticate" "pc_max_authenticate c = max_authenticate" "pc_next_identifier c = 1"
    by (auto simp: pap_client_new_def split: if_splits)
  then obtain k where k: "unat max_authenticate = Suc k"
    by (cases "unat max_authenticate") (auto simp: unat_eq_0)
  then have w: "(of_nat (Suc k) :: u8) = max_authenticate" by (simp flip: k del: of_nat_Suc)
  from silent_rounds_fail [of "pap_lower_up c True" k] k c show ?thesis
    unfolding w by (auto simp: pap_lower_up_def)
qed

theorem pap_silent_server_fails_witness:
  "\<exists>c c'. pap_client_new 3 = Ok c \<and> pap_run (pap_lower_up c True) (silent_rounds 3) = (Ok 3, c') \<and>
    pc_state c' = Failed"
proof -
  obtain c where c: "pap_client_new 3 = Ok c" by (simp add: pap_client_new_def)
  from pap_silent_server_fails [OF c] c show ?thesis by auto
qed

section \<open>What authenticates\<close>

text \<open>
  Only a matching reply decides. In every state a received packet changes the client only if
  it is waiting and the packet is a well-formed Ack or Nak with the identifier of the outstanding
  request; then an Ack opens the phase and a Nak fails it, and in every other case the client stays
  as it was.
\<close>

theorem pap_only_matching_reply_decides:
  "(\<exists>packet message. pc_state c = WaitingForReply \<and> pap_packet_parse input = Ok packet \<and>
      pap_known_code packet = Some AuthenticateAck \<and> pp_identifier packet = pc_current_identifier c \<and>
      pap_reply_message packet = Ok message \<and>
      pap_receive c input = (Ok OutcomeAuthenticated, c\<lparr>pc_state := Opened\<rparr>)) \<or>
   (\<exists>packet message. pc_state c = WaitingForReply \<and> pap_packet_parse input = Ok packet \<and>
      pap_known_code packet = Some AuthenticateNak \<and> pp_identifier packet = pc_current_identifier c \<and>
      pap_reply_message packet = Ok message \<and>
      pap_receive c input = (Ok OutcomeRejected, c\<lparr>pc_state := Failed, pc_failure := Some Rejected\<rparr>)) \<or>
   (\<exists>reason. pap_receive c input = (Ok (OutcomeIgnored reason), c))"
  by (rule pap_receive_cases)

end
