(* ===== verification/Md5.thy ===== *)
theory Md5
  imports Prelude
begin

text \<open>
  The MD5 engine of \<^verbatim>\<open>crates/ndm24-ppp/src/chap.rs\<close>: the streaming state, \<^verbatim>\<open>update\<close>, \<^verbatim>\<open>finalize\<close> and
  \<^verbatim>\<open>compress\<close>. The abstract specification is the hash of a whole message (padding, blocks of 64
  octets); a state represents the message fed to it so far, and feeding it octets appends them.
\<close>

section \<open>State\<close>

type_synonym md5_words = "u32 \<times> u32 \<times> u32 \<times> u32"

record md5 =
  md5_state :: md5_words
  length_bytes :: u64
  md5_buffer :: bytes
  buffered :: nat

definition md5_initial_state :: md5_words where
  "md5_initial_state = (0x67452301, 0xefcdab89, 0x98badcfe, 0x10325476)"

definition md5_new :: md5 where
  "md5_new = \<lparr>md5_state = md5_initial_state, length_bytes = 0, md5_buffer = replicate 64 0, buffered = 0\<rparr>"

section \<open>Compression\<close>

definition md5_shifts :: "nat list" where
  "md5_shifts =
    [7, 12, 17, 22, 7, 12, 17, 22, 7, 12, 17, 22, 7, 12, 17, 22,
     5, 9, 14, 20, 5, 9, 14, 20, 5, 9, 14, 20, 5, 9, 14, 20,
     4, 11, 16, 23, 4, 11, 16, 23, 4, 11, 16, 23, 4, 11, 16, 23,
     6, 10, 15, 21, 6, 10, 15, 21, 6, 10, 15, 21, 6, 10, 15, 21]"

definition md5_constants :: "u32 list" where
  "md5_constants =
    [0xd76aa478, 0xe8c7b756, 0x242070db, 0xc1bdceee, 0xf57c0faf, 0x4787c62a, 0xa8304613, 0xfd469501,
     0x698098d8, 0x8b44f7af, 0xffff5bb1, 0x895cd7be, 0x6b901122, 0xfd987193, 0xa679438e, 0x49b40821,
     0xf61e2562, 0xc040b340, 0x265e5a51, 0xe9b6c7aa, 0xd62f105d, 0x02441453, 0xd8a1e681, 0xe7d3fbc8,
     0x21e1cde6, 0xc33707d6, 0xf4d50d87, 0x455a14ed, 0xa9e3e905, 0xfcefa3f8, 0x676f02d9, 0x8d2a4c8a,
     0xfffa3942, 0x8771f681, 0x6d9d6122, 0xfde5380c, 0xa4beea44, 0x4bdecfa9, 0xf6bb4b60, 0xbebfbc70,
     0x289b7ec6, 0xeaa127fa, 0xd4ef3085, 0x04881d05, 0xd9d4d039, 0xe6db99e5, 0x1fa27cf8, 0xc4ac5665,
     0xf4292244, 0x432aff97, 0xab9423a7, 0xfc93a039, 0x655b59c3, 0x8f0ccc92, 0xffeff47d, 0x85845dd1,
     0x6fa87e4f, 0xfe2ce6e0, 0xa3014314, 0x4e0811a1, 0xf7537e82, 0xbd3af235, 0x2ad7d2bb, 0xeb86d391]"

text \<open>The sixteen little-endian words of a block.\<close>

definition block_words :: "bytes \<Rightarrow> u32 list" where
  "block_words block = map (\<lambda>j. from_le32 (octets4_at block (4 * j))) [0..<16]"

definition md5_mix :: "md5_words \<Rightarrow> nat \<Rightarrow> u32 \<times> nat" where
  "md5_mix regs i = (case regs of (a, b, c, d) \<Rightarrow>
     if i \<le> 15 then ((b AND c) OR (NOT b AND d), i)
     else if i \<le> 31 then ((d AND b) OR (NOT d AND c), (5 * i + 1) mod 16)
     else if i \<le> 47 then (b XOR c XOR d, (3 * i + 5) mod 16)
     else (c XOR (b OR NOT d), (7 * i) mod 16))"

definition md5_round :: "u32 list \<Rightarrow> nat \<Rightarrow> md5_words \<Rightarrow> md5_words" where
  "md5_round words i regs =
     (case md5_mix regs i of (f, g) \<Rightarrow>
      case regs of (a, b, c, d) \<Rightarrow>
        (let next = word_rotl (md5_shifts ! i) (a + f + md5_constants ! i + words ! g) + b
         in (d, next, b, c)))"

definition compress_words :: "bytes \<Rightarrow> md5_words \<Rightarrow> md5_words" where
  "compress_words block regs =
     (case fold (md5_round (block_words block)) [0..<64] regs of (a, b, c, d) \<Rightarrow>
      case regs of (a0, b0, c0, d0) \<Rightarrow> (a0 + a, b0 + b, c0 + c, d0 + d))"

definition md5_compress :: "md5 \<Rightarrow> bytes \<Rightarrow> md5" where
  "md5_compress self block = self\<lparr>md5_state := compress_words block (md5_state self)\<rparr>"

section \<open>Streaming\<close>

text \<open>The loop of \<^verbatim>\<open>update\<close> over whole blocks; returns the state and the input left.\<close>

function md5_absorb :: "md5 \<Rightarrow> bytes \<Rightarrow> md5 \<times> bytes" where
  "md5_absorb self input =
     (if 64 \<le> length input then md5_absorb (md5_compress self (take 64 input)) (drop 64 input)
      else (self, input))"
  by pat_completeness auto
termination
  by (relation "measure (\<lambda>(self, input). length input)") auto

declare md5_absorb.simps [simp del]

text \<open>Writes into the block buffer, \<^verbatim>\<open>buffer[at..at + src.len()].copy_from_slice(src)\<close>.\<close>

definition buffer_write :: "bytes \<Rightarrow> nat \<Rightarrow> bytes \<Rightarrow> bytes" where
  "buffer_write buf at src = take at buf @ src @ drop (at + length src) buf"

definition md5_fill :: "md5 \<Rightarrow> bytes \<Rightarrow> md5 \<times> bytes" where
  "md5_fill self input =
     (let count = min (64 - buffered self) (length input);
          self = self\<lparr>md5_buffer := buffer_write (md5_buffer self) (buffered self) (take count input),
                      buffered := buffered self + count\<rparr>;
          input = drop count input
      in if buffered self = 64 then ((md5_compress self (md5_buffer self))\<lparr>buffered := 0\<rparr>, input)
         else (self, input))"

definition md5_update :: "md5 \<Rightarrow> bytes \<Rightarrow> md5" where
  "md5_update self input =
     (let self = self\<lparr>length_bytes := length_bytes self + of_nat (length input)\<rparr>;
          (self, input, done) =
            (if buffered self \<noteq> 0 then
               (case md5_fill self input of (self, input) \<Rightarrow> (self, input, input = []))
             else (self, input, False))
      in if done then self
         else (case md5_absorb self input of (self, input) \<Rightarrow>
           self\<lparr>md5_buffer := buffer_write (md5_buffer self) 0 input, buffered := length input\<rparr>))"

definition to_le64 :: "u64 \<Rightarrow> bytes" where
  "to_le64 w = map (\<lambda>i. of_nat (unat w div 256 ^ i)) [0..<8]"

text \<open>The \<^verbatim>\<open>debug_assert_eq!\<close> of \<^verbatim>\<open>finalize\<close> is a \<open>Panic\<close> when it fails.\<close>

definition md5_output :: "md5_words \<Rightarrow> bytes" where
  "md5_output regs = (case regs of (a, b, c, d) \<Rightarrow> to_le32 a @ to_le32 b @ to_le32 c @ to_le32 d)"

definition md5_finalize :: "md5 \<Rightarrow> (bytes, unit) result" where
  "md5_finalize self =
     (let bit_length = length_bytes self * 8;
          padding = 0x80 # replicate 71 0;
          padding_length = (if buffered self < 56 then 56 - buffered self else 120 - buffered self);
          self = md5_update self (take padding_length padding);
          self = md5_update self (to_le64 bit_length)
      in if buffered self \<noteq> 0 then Panic else Ok (md5_output (md5_state self)))"

section \<open>The hash of a message\<close>

function md5_blocks :: "bytes \<Rightarrow> bytes list" where
  "md5_blocks bs = (if 64 \<le> length bs then take 64 bs # md5_blocks (drop 64 bs) else [])"
  by pat_completeness auto
termination
  by (relation "measure length") auto

declare md5_blocks.simps [simp del]

text \<open>
  Padding: one bit, zeros up to 56 octets of a block, the length in bits modulo \<open>2 ^ 64\<close>.
\<close>

definition md5_padded :: "bytes \<Rightarrow> bytes" where
  "md5_padded message =
     message @ 0x80 # replicate ((119 - length message mod 64) mod 64) 0 @
     to_le64 (of_nat (8 * length message))"

definition md5_hash :: "bytes \<Rightarrow> bytes" where
  "md5_hash message = md5_output (fold compress_words (md5_blocks (md5_padded message)) md5_initial_state)"

text \<open>A state represents the message fed to it.\<close>

definition md5_represents :: "md5 \<Rightarrow> bytes \<Rightarrow> bool" where
  "md5_represents self message \<longleftrightarrow>
     length (md5_buffer self) = 64 \<and>
     length_bytes self = of_nat (length message) \<and>
     buffered self = length message mod 64 \<and>
     take (buffered self) (md5_buffer self) = drop (64 * (length message div 64)) message \<and>
     md5_state self = fold compress_words (md5_blocks message) md5_initial_state"

section \<open>Blocks\<close>

lemma md5_blocks_short [simp]: "length bs < 64 \<Longrightarrow> md5_blocks bs = []"
  by (simp add: md5_blocks.simps)

lemma md5_blocks_block: "length b = 64 \<Longrightarrow> md5_blocks (b @ bs) = b # md5_blocks bs"
  by (subst md5_blocks.simps) simp

lemma md5_blocks_append:
  "64 dvd length xs \<Longrightarrow> md5_blocks (xs @ ys) = md5_blocks xs @ md5_blocks ys"
proof (induction xs rule: md5_blocks.induct)
  case (1 xs)
  show ?case
  proof (cases "64 \<le> length xs")
    case True
    then have "64 dvd length (drop 64 xs)" using 1(2) by (simp add: dvd_diff_nat)
    then have "md5_blocks (drop 64 xs @ ys) = md5_blocks (drop 64 xs) @ md5_blocks ys" using 1(1) True by simp
    then show ?thesis
      using md5_blocks_block [of "take 64 xs" "drop 64 xs @ ys"] md5_blocks_block [of "take 64 xs" "drop 64 xs"] True
      by (simp flip: append_assoc)
  next
    case False
    with 1(2) have "xs = []" by (auto dest: dvd_imp_le)
    then show ?thesis by simp
  qed
qed

lemma md5_absorb_eq:
  "md5_absorb self input =
     (self\<lparr>md5_state := fold compress_words (md5_blocks input) (md5_state self)\<rparr>, drop (64 * (length input div 64)) input)"
proof (induction self input rule: md5_absorb.induct)
  case (1 self input)
  show ?case
  proof (cases "64 \<le> length input")
    case True
    then have "length input div 64 = Suc ((length input - 64) div 64)" by (simp add: le_div_geq)
    with True 1 show ?thesis
      by (subst md5_absorb.simps, subst md5_blocks.simps) (simp add: md5_compress_def add.commute)
  qed (simp add: md5_absorb.simps)
qed

text \<open>Whole blocks and the rest determine what a state represents.\<close>

lemma represents_split:
  assumes "64 dvd length whole" and "length rest < 64"
  shows "md5_represents self (whole @ rest) \<longleftrightarrow>
    length (md5_buffer self) = 64 \<and> length_bytes self = of_nat (length whole + length rest) \<and>
    buffered self = length rest \<and> take (length rest) (md5_buffer self) = rest \<and>
    md5_state self = fold compress_words (md5_blocks whole) md5_initial_state"
proof -
  have "length (whole @ rest) mod 64 = length rest" "64 * (length (whole @ rest) div 64) = length whole"
    using assms by (auto elim!: dvdE)
  with assms show ?thesis unfolding md5_represents_def
    by (auto simp: md5_blocks_append)
qed

lemma message_split:
  obtains whole rest where "message = whole @ rest" "64 dvd length whole" "length rest < 64"
proof
  let ?n = "64 * (length message div 64)"
  have "?n \<le> length message" by simp
  then show "64 dvd length (take ?n message)" by simp
  show "length (drop ?n message) < 64" by (simp add: minus_mult_div_eq_mod)
  show "message = take ?n message @ drop ?n message" by simp
qed

section \<open>Streaming computes the hash\<close>

lemma length_buffer_write:
  "at + length src \<le> length buf \<Longrightarrow> length (buffer_write buf at src) = length buf"
  by (simp add: buffer_write_def)

lemma absorb_represents:
  assumes "64 dvd length whole" and "length (md5_buffer self) = 64"
    and "md5_state self = fold compress_words (md5_blocks whole) md5_initial_state"
    and "length_bytes self = of_nat (length whole + length input)"
  shows "md5_represents (case md5_absorb self input of (self, input) \<Rightarrow>
      self\<lparr>md5_buffer := buffer_write (md5_buffer self) 0 input, buffered := length input\<rparr>) (whole @ input)"
proof -
  obtain blocks rest where input: "input = blocks @ rest" "64 dvd length blocks" "length rest < 64"
    by (rule message_split)
  have "64 * (length input div 64) = length blocks" using input by (auto elim!: dvdE)
  then have rest: "drop (64 * (length input div 64)) input = rest" using input(1) by simp
  have blocks: "md5_blocks input = md5_blocks blocks" using input by (simp add: md5_blocks_append)
  have "64 dvd length (whole @ blocks)" using assms(1) input(2) by simp
  note split = represents_split [OF this input(3)]
  have absorb: "md5_absorb self input =
      (self\<lparr>md5_state := fold compress_words (md5_blocks blocks) (md5_state self)\<rparr>, rest)"
    by (simp only: md5_absorb_eq rest blocks)
  show ?thesis
    unfolding absorb using split assms input
    by (simp add: md5_blocks_append buffer_write_def add.assoc)
qed

lemma represents_new: "md5_represents md5_new []"
  by (simp add: md5_represents_def md5_new_def)

lemma fill_short:
  assumes "buffered self + length input < 64"
  shows "md5_fill self input =
    (self\<lparr>md5_buffer := buffer_write (md5_buffer self) (buffered self) input, buffered := buffered self + length input\<rparr>, [])"
  using assms by (simp add: md5_fill_def Let_def)

lemma fill_full:
  assumes "length (md5_buffer self) = 64" and "buffered self < 64" and "64 \<le> buffered self + length input"
    and "take (buffered self) (md5_buffer self) = rest" and "count = 64 - buffered self"
  shows "md5_fill self input =
    (self\<lparr>md5_state := compress_words (rest @ take count input) (md5_state self),
       md5_buffer := rest @ take count input, buffered := 0\<rparr>, drop count input)"
proof -
  have "min (64 - buffered self) (length input) = count" "buffered self + count = 64" using assms by auto
  moreover have "buffer_write (md5_buffer self) (buffered self) (take count input) = rest @ take count input"
    using assms by (simp add: buffer_write_def)
  ultimately show ?thesis by (simp add: md5_fill_def Let_def md5_compress_def)
qed

lemma update_represents:
  assumes "md5_represents self message"
  shows "md5_represents (md5_update self input) (message @ input)"
proof -
  obtain whole rest where m: "message = whole @ rest" "64 dvd length whole" "length rest < 64"
    by (rule message_split)
  note r = assms [unfolded m(1) represents_split [OF m(2,3)]]
  let ?self = "self\<lparr>length_bytes := length_bytes self + of_nat (length input)\<rparr>"
  have len: "length_bytes ?self = of_nat (length whole + (length rest + length input))" using r by simp
  consider (empty) "rest = []" | (short) "rest \<noteq> []" "length rest + length input < 64"
    | (full) "rest \<noteq> []" "64 \<le> length rest + length input" by linarith
  then show ?thesis
  proof cases
    case empty
    with r len absorb_represents [OF m(2), of ?self input] m show ?thesis by (simp add: md5_update_def)
  next
    case short
    have "md5_update self input =
        ?self\<lparr>md5_buffer := buffer_write (md5_buffer self) (length rest) input, buffered := length rest + length input\<rparr>"
      using short r fill_short [of ?self input] by (simp add: md5_update_def)
    moreover have "take (length (rest @ input)) (buffer_write (md5_buffer self) (length rest) input) = rest @ input"
      using r by (simp add: buffer_write_def)
    ultimately show ?thesis
      using short r m represents_split [OF m(2), of "rest @ input"] by (simp add: length_buffer_write)
  next
    case full
    let ?count = "64 - length rest"
    let ?block = "rest @ take ?count input"
    let ?filled = "?self\<lparr>md5_state := compress_words ?block (md5_state self), md5_buffer := ?block, buffered := 0\<rparr>"
    have b: "length ?block = 64" using full m by simp
    have fill: "md5_fill ?self input = (?filled, drop ?count input)"
      using fill_full [of ?self input rest ?count] full r m by simp
    have w: "64 dvd length (whole @ ?block)" using m(2) b by (simp del: append_take_drop_id)
    have blocks: "md5_blocks (whole @ ?block) = md5_blocks whole @ [?block]"
      using m(2) md5_blocks_block [OF b, of "[]"] by (simp add: md5_blocks_append)
    have whole: "message @ input = (whole @ ?block) @ drop ?count input" using m(1) by simp
    have parts: "length (md5_buffer ?filled) = 64"
      "md5_state ?filled = fold compress_words (md5_blocks (whole @ ?block)) md5_initial_state"
      "length_bytes ?filled = of_nat (length (whole @ ?block) + length (drop ?count input))"
      using b blocks r len full m by (simp_all del: append_assoc)
    have rest: "buffered self \<noteq> 0" using r full by simp
    show ?thesis
    proof (cases "drop ?count input = []")
      case True
      then have "md5_update self input = ?filled" using rest fill by (simp add: md5_update_def)
      then show ?thesis unfolding whole True
        using represents_split [OF w, of "[]" ?filled] parts True by simp
    next
      case False
      then show ?thesis unfolding whole using absorb_represents [OF w parts(1,2,3)] rest fill
        by (simp add: md5_update_def)
    qed
  qed
qed

lemma length_to_le64 [simp]: "length (to_le64 w) = 8"
  by (simp add: to_le64_def)

lemma pad_zeros: "r < 64 \<Longrightarrow> (119 - r) mod 64 = (if r < 56 then 55 - r else 119 - r :: nat)"
  using le_mod_geq [of 64 "119 - r"] by (cases "r < 56") simp_all

lemma padded_whole: "64 dvd n + 9 + (119 - n mod 64) mod 64" for n :: nat
proof -
  define q r where "q = n div 64" and "r = n mod 64"
  have n: "n = 64 * q + r" and r: "r < 64" by (simp_all add: q_def r_def)
  have "n + 9 + (119 - r) mod 64 = 64 * (q + (if r < 56 then 1 else 2))"
    using r by (cases "r < 56") (simp_all add: n pad_zeros)
  then show ?thesis unfolding r_def [symmetric] by (metis dvd_triv_left)
qed

lemma padding_eq:
  assumes "r < 64"
  shows "take (if r < 56 then 56 - r else 120 - r) (0x80 # replicate 71 0) =
    (0x80 :: u8) # replicate ((119 - r) mod 64) 0"
proof -
  let ?n = "if r < 56 then 56 - r else 120 - r"
  obtain k where k: "?n = Suc k" using assms by (cases ?n) (auto split: if_splits)
  have "k = (119 - r) mod 64" using k assms by (cases "r < 56") (simp_all add: pad_zeros)
  moreover have "k \<le> 71" using k assms by (cases "r < 56") simp_all
  ultimately have "k \<le> 71" "k = (119 - r) mod 64" by simp_all
  then show ?thesis unfolding k take_Suc_Cons take_replicate by (simp add: min_absorb1)
qed

lemma finalize_hash:
  assumes "md5_represents self message"
  shows "md5_finalize self = Ok (md5_hash message)"
proof -
  let ?r = "length message mod 64"
  let ?padding = "take (if ?r < 56 then 56 - ?r else 120 - ?r) (0x80 # replicate 71 0) :: bytes"
  have r: "buffered self = ?r" "length_bytes self = of_nat (length message)"
    using assms by (simp_all add: md5_represents_def)
  have lt: "?r < 64" by simp
  have padding: "?padding = 0x80 # replicate ((119 - ?r) mod 64) 0" using padding_eq [OF lt] .
  have bits: "length_bytes self * 8 = of_nat (8 * length message)" using r by simp
  let ?done = "md5_update (md5_update self ?padding) (to_le64 (length_bytes self * 8))"
  have "message @ ?padding @ to_le64 (length_bytes self * 8) = md5_padded message"
    unfolding padding bits md5_padded_def by simp
  then have fin: "md5_represents ?done (md5_padded message)"
    using update_represents [OF update_represents [OF assms]] by (metis append_assoc)
  have "length (md5_padded message) = length message + 9 + (119 - ?r) mod 64" by (simp add: md5_padded_def)
  then have "length (md5_padded message) mod 64 = 0" using padded_whole [of "length message"] by simp
  with fin have "buffered ?done = 0"
    "md5_state ?done = fold compress_words (md5_blocks (md5_padded message)) md5_initial_state"
    by (simp_all add: md5_represents_def)
  then show ?thesis unfolding md5_finalize_def Let_def r(1) md5_hash_def by (simp only: simp_thms if_False)
qed

text \<open>
  C14: the streaming digest is MD5 of the concatenation, however the message is cut. Feeding
  any pieces (empty ones, ones that end inside a block, ones of many blocks) to a new state by
  \<open>update\<close> and finalising gives the hash of their concatenation: padded with one bit, zeros and its
  length in bits, and compressed block by block. The assertion that no octets stay buffered holds.
\<close>

theorem md5_streaming:
  "md5_finalize (fold (\<lambda>piece self. md5_update self piece) pieces md5_new) = Ok (md5_hash (concat pieces))"
proof (rule finalize_hash)
  have "md5_represents (fold (\<lambda>piece self. md5_update self piece) pieces self) (message @ concat pieces)"
    if "md5_represents self message" for self message
    using that
  proof (induction pieces arbitrary: self message)
    case (Cons piece pieces)
    from Cons.IH [OF update_represents [OF Cons.prems, of piece]] show ?case by simp
  qed simp
  from this [OF represents_new]
  show "md5_represents (fold (\<lambda>piece self. md5_update self piece) pieces md5_new) (concat pieces)" by simp
qed

end
