(* ===== verification/Chap.thy ===== *)
theory Chap
  imports Control_Packet Md5
begin

text \<open>
  CHAP, \<^verbatim>\<open>crates/ndm24-ppp/src/chap.rs\<close>: parsing a packet and the value field of a Challenge or
  Response, encoding a Response, and the response digest over the MD5 engine of \<open>Md5\<close>. The parser
  provides the interface \<open>header_parser\<close>; unlike the other protocols' it refuses unknown codes.
\<close>

section \<open>Data\<close>

definition CHAP_HEADER_LENGTH :: nat where "CHAP_HEADER_LENGTH = 4"
definition MD5_VALUE_LENGTH :: nat where "MD5_VALUE_LENGTH = 16"

datatype chap_code = Challenge | Response | Success | Failure

fun chap_code_octet :: "chap_code \<Rightarrow> u8" where
  "chap_code_octet Challenge = 1"
| "chap_code_octet Response = 2"
| "chap_code_octet Success = 3"
| "chap_code_octet Failure = 4"

definition chap_code_from_octet :: "u8 \<Rightarrow> chap_code option" where
  "chap_code_from_octet value =
     (if value = 1 then Some Challenge
      else if value = 2 then Some Response
      else if value = 3 then Some Success
      else if value = 4 then Some Failure
      else None)"

lemma chap_code_octets [simp]: "chap_code_from_octet (chap_code_octet c) = Some c"
  by (cases c) (simp_all add: chap_code_from_octet_def)

lemma chap_code_octet_inverse: "chap_code_from_octet v = Some c \<longleftrightarrow> v = chap_code_octet c"
  by (cases c) (auto simp: chap_code_from_octet_def)

datatype chap_parse_error =
    ChapTruncatedHeader | ChapInvalidLength | ChapTruncatedPacket | ChapUnsupportedCode
  | MissingValueLength | TruncatedValue

datatype chap_encode_error = ChapFieldTooLong | ChapOutputTooSmall

record chap_packet =
  cp_code :: chap_code
  cp_identifier :: u8
  cp_data :: bytes

record value_packet =
  vp_value :: bytes
  vp_name :: bytes

section \<open>Operations\<close>

definition chap_packet_parse :: "bytes \<Rightarrow> (chap_packet, chap_parse_error) result" where
  "chap_packet_parse input =
     (if length input < CHAP_HEADER_LENGTH then Err ChapTruncatedHeader
      else
        (let len = unat (from_be16 (input ! 2) (input ! 3)) in
         if len < CHAP_HEADER_LENGTH then Err ChapInvalidLength
         else if len > length input then Err ChapTruncatedPacket
         else (case chap_code_from_octet (input ! 0) of
           None \<Rightarrow> Err ChapUnsupportedCode
         | Some code \<Rightarrow>
             Ok \<lparr>cp_code = code, cp_identifier = input ! 1,
                 cp_data = take (len - CHAP_HEADER_LENGTH) (drop CHAP_HEADER_LENGTH input)\<rparr>)))"

definition chap_value_packet :: "chap_packet \<Rightarrow> (value_packet, chap_parse_error) result" where
  "chap_value_packet packet =
     (if cp_data packet = [] then Err MissingValueLength
      else
        (let value_length = unat (cp_data packet ! 0) in
         if 1 + value_length > length (cp_data packet) then Err TruncatedValue
         else Ok \<lparr>vp_value = take value_length (drop 1 (cp_data packet)),
                  vp_name = drop (1 + value_length) (cp_data packet)\<rparr>))"

text \<open>The digest has the type \<^verbatim>\<open>[u8; 16]\<close>; its length is a hypothesis where it matters.\<close>

definition encode_response ::
  "u8 \<Rightarrow> bytes \<Rightarrow> bytes \<Rightarrow> bytes \<Rightarrow> (nat, chap_encode_error) result \<times> bytes" where
  "encode_response ident name digest output =
     (if length name > 255 then (Err ChapFieldTooLong, output)
      else
        (let len = CHAP_HEADER_LENGTH + 1 + MD5_VALUE_LENGTH + length name in
         if len > 65535 then (Err ChapFieldTooLong, output)
         else if length output < len then (Err ChapOutputTooSmall, output)
         else
           (Ok len,
            [chap_code_octet Response, ident] @ to_be16 (of_nat len) @ [of_nat MD5_VALUE_LENGTH] @
            digest @ name @ drop len output)))"

definition response_digest :: "u8 \<Rightarrow> bytes \<Rightarrow> bytes \<Rightarrow> (bytes, unit) result" where
  "response_digest ident secret challenge =
     (let md5 = md5_new;
          md5 = md5_update md5 [ident];
          md5 = md5_update md5 secret;
          md5 = md5_update md5 challenge
      in md5_finalize md5)"

section \<open>The parser provides the header interface\<close>

definition chap_fields :: "chap_packet \<Rightarrow> u8 \<times> u8 \<times> bytes" where
  "chap_fields p = (chap_code_octet (cp_code p), cp_identifier p, cp_data p)"

lemma chap_parse_packet_bytes:
  "4 + length d \<le> 65535 \<Longrightarrow>
   chap_packet_parse (packet_bytes (chap_code_octet c) i d @ pad) = Ok \<lparr>cp_code = c, cp_identifier = i, cp_data = d\<rparr>"
  using declared_length [of d "chap_code_octet c" i pad]
  by (simp add: chap_packet_parse_def CHAP_HEADER_LENGTH_def Let_def packet_bytes_header)

interpretation chap: header_parser chap_packet_parse chap_fields "\<lambda>c. chap_code_from_octet c \<noteq> None"
proof (unfold_locales, goal_cases)
  case (1 d c i pad)
  then obtain k where "c = chap_code_octet k" by (auto simp: chap_code_octet_inverse)
  with 1 chap_parse_packet_bytes [of d k i pad] show ?case by (simp add: chap_fields_def)
next
  case (2 bs p c i d)
  let ?n = "unat (from_be16 (bs ! 2) (bs ! 3))"
  from 2(1) obtain k where ok: "4 \<le> length bs" "4 \<le> ?n" "?n \<le> length bs"
      "chap_code_from_octet (bs ! 0) = Some k"
      "p = \<lparr>cp_code = k, cp_identifier = bs ! 1, cp_data = take (?n - 4) (drop 4 bs)\<rparr>"
    by (auto simp: chap_packet_parse_def CHAP_HEADER_LENGTH_def Let_def split: if_splits option.splits)
  then show ?case
    using 2(2) packet_bytes_of_input [OF _ refl, of bs] unat_le_65535 [of "from_be16 (bs ! 2) (bs ! 3)"]
    by (auto simp: chap_fields_def chap_code_octet_inverse simp del: unat_le_65535 intro: exI [of _ k])
next
  case (3 bs)
  then show ?case by (simp add: chap_packet_parse_def Let_def split: option.split)
qed

section \<open>Properties\<close>

definition value_data :: "bytes \<Rightarrow> bytes \<Rightarrow> bytes" where
  "value_data value name = of_nat (length value) # value @ name"

lemma value_packet_data:
  "length value \<le> 255 \<Longrightarrow>
   chap_value_packet \<lparr>cp_code = c, cp_identifier = i, cp_data = value_data value name\<rparr> =
     Ok \<lparr>vp_value = value, vp_name = name\<rparr>"
  by (simp add: chap_value_packet_def value_data_def Let_def unat_of_nat8)

text \<open>
  The digest of a Response is MD5 of the identifier, the secret and the challenge, in that
  order and with nothing between them, whatever their lengths; the engine's assertion never fails.
\<close>

theorem chap_digest_is_md5: "response_digest ident secret challenge = Ok (md5_hash (ident # secret @ challenge))"
proof (unfold response_digest_def Let_def, rule finalize_hash)
  have "md5_represents (md5_update (md5_update (md5_update md5_new [ident]) secret) challenge)
      ((([] @ [ident]) @ secret) @ challenge)"
    by (intro update_represents represents_new)
  then show "md5_represents (md5_update (md5_update (md5_update md5_new [ident]) secret) challenge)
      (ident # secret @ challenge)" by simp
qed

text \<open>
  The Response the encoder writes is the one a server reads. With a 16-octet digest, it
  succeeds exactly when the name has at most 255 octets and the buffer 21 octets more; it then leaves
  the rest of the buffer alone and what it wrote parses, with anything behind it, to a Response with
  the identifier, the digest as its value and the name. When it fails the buffer is unchanged.
\<close>

theorem chap_response_roundtrip:
  assumes "length digest = 16" and "encode_response ident name digest buffer = (r, buffer')"
  shows "if length name \<le> 255 \<and> 21 + length name \<le> length buffer
    then r = Ok (21 + length name) \<and> length buffer' = length buffer \<and>
      drop (21 + length name) buffer' = drop (21 + length name) buffer \<and>
      (\<forall>pad. \<exists>packet. chap_packet_parse (take (21 + length name) buffer' @ pad) = Ok packet \<and>
        cp_code packet = Response \<and> cp_identifier packet = ident \<and>
        chap_value_packet packet = Ok \<lparr>vp_value = digest, vp_name = name\<rparr>)
    else \<not> is_ok r \<and> r \<noteq> Panic \<and> buffer' = buffer"
proof (cases "length name \<le> 255 \<and> 21 + length name \<le> length buffer")
  case True
  let ?p = "packet_bytes (chap_code_octet Response) ident (value_data digest name)"
  have len: "length ?p = 21 + length name" using assms(1) by (simp add: value_data_def)
  have bytes: "[chap_code_octet Response, ident] @ to_be16 (of_nat (21 + length name)) @ [of_nat MD5_VALUE_LENGTH] @
      digest @ name = ?p"
    using assms(1) by (simp add: packet_bytes_def value_data_def MD5_VALUE_LENGTH_def)
  have out: "r = Ok (21 + length name)" "buffer' = ?p @ drop (21 + length name) buffer"
    unfolding bytes [symmetric] using assms(2) True
    by (simp_all add: encode_response_def CHAP_HEADER_LENGTH_def Let_def MD5_VALUE_LENGTH_def)
  then have t: "take (21 + length name) buffer' = ?p" using len by simp
  have "chap_packet_parse (take (21 + length name) buffer' @ pad) =
      Ok \<lparr>cp_code = Response, cp_identifier = ident, cp_data = value_data digest name\<rparr>" for pad
    unfolding t by (rule chap_parse_packet_bytes) (use True assms(1) in \<open>simp add: value_data_def\<close>)
  with out True len assms(1) show ?thesis by (simp add: value_packet_data)
next
  case False
  with assms(2) show ?thesis
    by (auto simp: encode_response_def CHAP_HEADER_LENGTH_def Let_def MD5_VALUE_LENGTH_def split: if_splits)
qed

theorem chap_response_roundtrip_witness:
  "\<forall>pad. \<exists>packet. chap_packet_parse (take 23 (snd (encode_response 9 [109, 101] (replicate 16 7) (replicate 30 0))) @ pad) =
     Ok packet \<and> cp_code packet = Response \<and> cp_identifier packet = 9 \<and>
     chap_value_packet packet = Ok \<lparr>vp_value = replicate 16 7, vp_name = [109, 101]\<rparr>"
  using chap_response_roundtrip [of "replicate 16 7" 9 "[109, 101]" "replicate 30 0", OF _ prod.collapse [symmetric]]
  by simp

text \<open>
  The value field is delimited by its length octet. For any packet, \<open>value_packet\<close> yields a
  value and a name exactly when the data is a length octet, that many octets of value and then the
  name; it fails otherwise and never panics.
\<close>

theorem chap_value_delimited:
  "(chap_value_packet packet = Ok \<lparr>vp_value = value, vp_name = name\<rparr> \<longleftrightarrow>
     length value \<le> 255 \<and> cp_data packet = value_data value name) \<and>
   chap_value_packet packet \<noteq> Panic"
proof (intro conjI)
  have "length value \<le> 255 \<and> cp_data packet = value_data value name"
    if "chap_value_packet packet = Ok \<lparr>vp_value = value, vp_name = name\<rparr>"
  proof -
    from that obtain n rest where data: "cp_data packet = n # rest" "unat n \<le> length rest"
        "value = take (unat n) rest" "name = drop (unat n) rest"
      by (cases "cp_data packet") (auto simp: chap_value_packet_def Let_def split: if_splits)
    then have "length value = unat n" by simp
    with data show ?thesis by (simp add: value_data_def)
  qed
  moreover have "chap_value_packet packet = Ok \<lparr>vp_value = value, vp_name = name\<rparr>"
    if "length value \<le> 255" "cp_data packet = value_data value name"
    using that by (simp add: chap_value_packet_def value_data_def Let_def unat_of_nat8)
  ultimately show "chap_value_packet packet = Ok \<lparr>vp_value = value, vp_name = name\<rparr> \<longleftrightarrow>
     length value \<le> 255 \<and> cp_data packet = value_data value name" by blast
  show "chap_value_packet packet \<noteq> Panic" by (simp add: chap_value_packet_def Let_def)
qed

end
