(* ===== verification/Checksum.thy ===== *)
theory Checksum
  imports Prelude
begin

text \<open>
  16-bit reads and writes in a packet and the one's-complement checksum of IPv4, ICMP and UDP
  (\<^verbatim>\<open>internet_checksum\<close> of \<^verbatim>\<open>ipv4.rs\<close>, the sums of \<^verbatim>\<open>udp.rs\<close>). The 32-bit sum is a word, as in the code;
  up to 131070 octets it does not overflow, and the folded result is arithmetic modulo 65535.
\<close>

section \<open>Reads and writes\<close>

definition read_u16 :: "bytes \<Rightarrow> nat \<Rightarrow> u16" where
  "read_u16 bs offset = from_be16 (bs ! offset) (bs ! (offset + 1))"

text \<open>\<^verbatim>\<open>bytes[offset..].copy_from_slice(src)\<close>, for a source that fits.\<close>

definition write_slice :: "bytes \<Rightarrow> nat \<Rightarrow> bytes \<Rightarrow> bytes" where
  "write_slice bs offset src = take offset bs @ src @ drop (offset + length src) bs"

definition write_u16 :: "bytes \<Rightarrow> nat \<Rightarrow> u16 \<Rightarrow> bytes" where
  "write_u16 bs offset value = write_slice bs offset (to_be16 value)"

definition read_address :: "bytes \<Rightarrow> nat \<Rightarrow> octets4" where
  "read_address bs offset = octets4_at bs offset"

lemma length_write_slice [simp]:
  "offset + length src \<le> length bs \<Longrightarrow> length (write_slice bs offset src) = length bs"
  by (simp add: write_slice_def)

text \<open>Writes into a list of known octets evaluate from its front.\<close>

lemma write_slice_nil [simp]: "write_slice bs 0 [] = bs"
  by (simp add: write_slice_def)

lemma write_slice_front [simp]: "write_slice (z # bs) 0 (y # src) = y # write_slice bs 0 src"
  by (simp add: write_slice_def)

lemma write_slice_Suc [simp]: "write_slice (z # bs) (Suc n) src = z # write_slice bs n src"
  by (simp add: write_slice_def)

lemma write_slice_numeral [simp]:
  "write_slice (z # bs) (numeral k) src = z # write_slice bs (pred_numeral k) src"
  by (simp add: numeral_eq_Suc)

lemma list_update_numeral [simp]: "(z # bs)[numeral k := v] = z # bs[pred_numeral k := v]"
  by (simp add: numeral_eq_Suc)

lemma write_slice_append:
  "offset = length xs \<Longrightarrow> length ys = length src \<Longrightarrow> write_slice (xs @ ys @ zs) offset src = xs @ src @ zs"
  by (simp add: write_slice_def)

lemma write_slice_all: "length bs = length src \<Longrightarrow> write_slice bs 0 src = src"
  by (simp add: write_slice_def)

section \<open>The checksum\<close>

text \<open>The loop over \<^verbatim>\<open>chunks_exact(2)\<close> and its remainder.\<close>

fun add_words :: "u32 \<Rightarrow> bytes \<Rightarrow> u32" where
  "add_words tally (a # b # rest) = add_words (tally + ucast (from_be16 a b)) rest"
| "add_words tally [final] = tally + push_bit 8 (ucast final)"
| "add_words tally [] = tally"

lemma unat_low16: "unat (tally AND 0xffff :: u32) = unat tally mod 65536"
proof -
  have "tally AND 0xffff = take_bit 16 tally" by (simp add: take_bit_eq_mask mask_eq_exp_minus_1)
  then show ?thesis by (simp only: unsigned_take_bit_eq) (simp add: take_bit_eq_mod)
qed

lemma unat_high16: "unat (drop_bit 16 tally :: u32) = unat tally div 65536"
  by (simp only: unat_drop_bit_eq) (simp add: drop_bit_eq_div)

lemma unat_fold_step:
  "0xffff < tally \<Longrightarrow> unat ((tally AND 0xffff) + drop_bit 16 tally :: u32) = unat tally mod 65536 + unat tally div 65536"
proof -
  have "unat tally < 4294967296" using unsigned_less [of tally, where 'a = nat] by simp
  then have "unat tally div 65536 < 65536" by (simp add: less_mult_imp_div_less)
  moreover have "unat tally mod 65536 < 65536" by simp
  ultimately have "unat tally mod 65536 + unat tally div 65536 < 2 ^ LENGTH(32)" by simp
  then show ?thesis by (simp add: unat_add_lem [THEN iffD1] unat_low16 unat_high16)
qed

function fold_carries :: "u32 \<Rightarrow> u32" where
  "fold_carries tally =
     (if 0xffff < tally then fold_carries ((tally AND 0xffff) + drop_bit 16 tally) else tally)"
  by pat_completeness auto
termination
proof (relation "measure unat")
  fix tally :: u32
  assume s: "0xffff < tally"
  then have "65536 \<le> unat tally" by (simp add: word_less_nat_alt)
  then have "unat tally mod 65536 + unat tally div 65536 < unat tally"
    using mult_div_mod_eq [of 65536 "unat tally"] by linarith
  then show "((tally AND 0xffff) + drop_bit 16 tally, tally) \<in> measure unat"
    using unat_fold_step [OF s] by simp
qed simp

declare fold_carries.simps [simp del]

definition internet_checksum :: "bytes \<Rightarrow> u16" where
  "internet_checksum bs = NOT (ucast (fold_carries (add_words 0 bs)))"

section \<open>Arithmetic of the checksum\<close>

text \<open>The sum without a bound, and the one's-complement residue of a sum.\<close>

fun sum_words :: "bytes \<Rightarrow> nat" where
  "sum_words (a # b # rest) = 256 * unat a + unat b + sum_words rest"
| "sum_words [final] = 256 * unat final"
| "sum_words [] = 0"

definition residue :: "nat \<Rightarrow> nat" where
  "residue s = (if s = 0 then 0 else (s - 1) mod 65535 + 1)"

lemma sum_words_bound: "sum_words bs \<le> 65535 * ((length bs + 1) div 2)"
proof (induction bs rule: sum_words.induct)
  case (1 a b rest)
  have "256 * unat a + unat b \<le> 65535" using unat_le_255 [of a] unat_le_255 [of b] by linarith
  with 1 show ?case by simp
next
  case (2 a)
  then show ?case using unat_le_255 [of a] by (simp del: unat_le_255)
qed simp

lemma sum_words_append: "even (length xs) \<Longrightarrow> sum_words (xs @ ys) = sum_words xs + sum_words ys"
  by (induction xs rule: sum_words.induct) auto

lemma sum_words_be16 [simp]: "sum_words (to_be16 v) = unat v"
proof -
  have "256 * unat (of_nat (unat v div 256) :: u8) + unat (of_nat (unat v) :: u8) = unat v"
    using from_to_be16 [of v] unat_from_be16 by metis
  then show ?thesis by (simp add: to_be16_def)
qed

lemma unat_add_words:
  "unat tally + sum_words bs < 4294967296 \<Longrightarrow> unat (add_words tally bs) = unat tally + sum_words bs"
proof (induction tally bs rule: add_words.induct)
  case (1 tally a b rest)
  have u: "unat (ucast (from_be16 a b) :: u32) = 256 * unat a + unat b"
    using unat_from_be16 [of a b] unat_less_65536 [of "from_be16 a b"]
    by (simp add: unsigned_ucast_eq take_bit_nat_eq_self_iff del: unat_less_65536)
  have "unat (tally + ucast (from_be16 a b)) = unat tally + (256 * unat a + unat b)"
    using 1(2) u by (subst unat_add_lem [THEN iffD1]) simp_all
  with 1 show ?case by simp
next
  case (2 tally final)
  have "256 * unat final < 4294967296" using unat_le_255 [of final] by linarith
  then have u: "unat (push_bit 8 (ucast final) :: u32) = 256 * unat final"
    by (simp only: unsigned_push_bit_eq unsigned_ucast_eq)
      (simp add: push_bit_eq_mult take_bit_eq_mod mult.commute)
  show ?case using 2 u by (simp add: unat_add_lem [THEN iffD1])
qed simp

lemma residue_step:
  assumes "65535 < s"
  shows "residue (s mod 65536 + s div 65536) = residue s"
proof -
  have "s = 65535 * (s div 65536) + (s mod 65536 + s div 65536)"
    using mult_div_mod_eq [of 65536 s] by linarith
  moreover have pos: "1 \<le> s mod 65536 + s div 65536" using assms by (cases "s div 65536") auto
  ultimately have "s - 1 = 65535 * (s div 65536) + (s mod 65536 + s div 65536 - 1)" by linarith
  then have "(s - 1) mod 65535 = (s mod 65536 + s div 65536 - 1) mod 65535"
    by (metis mod_mult_self4)
  moreover have "s mod 65536 + s div 65536 \<noteq> 0" "s \<noteq> 0" using pos assms by linarith+
  ultimately show ?thesis unfolding residue_def by (simp only: if_False)
qed

lemma residue_small: "s \<le> 65535 \<Longrightarrow> residue s = s"
  by (auto simp: residue_def)

lemma residue_le: "residue s \<le> 65535"
  using mod_less_divisor [of 65535 "s - 1"] by (simp add: residue_def Suc_leI del: mod_less_divisor)

lemma unat_fold_carries: "unat (fold_carries tally) = residue (unat tally)"
proof (induction tally rule: fold_carries.induct)
  case (1 tally)
  show ?case
  proof (cases "0xffff < tally")
    case True
    then have "65535 < unat tally" by (simp add: word_less_nat_alt)
    with 1 True show ?thesis by (subst fold_carries.simps) (simp add: unat_fold_step residue_step)
  next
    case False
    then have "unat tally \<le> 65535" by (simp add: word_less_nat_alt not_less)
    with False show ?thesis by (subst fold_carries.simps) (simp add: residue_small)
  qed
qed

lemma unat_not16: "unat (NOT w :: u16) = 65535 - unat w"
proof -
  have "NOT w = - 1 - w" by (simp add: not_eq_complement)
  moreover have "unat (- 1 - w) = unat (- 1 :: u16) - unat w" by (rule unat_sub) simp
  moreover have "unat (- 1 :: u16) = 65535" by (simp add: unsigned_minus_1_eq_mask mask_eq_exp_minus_1)
  ultimately show ?thesis by simp
qed

lemma unat_folded: "unat (ucast (fold_carries tally) :: u16) = residue (unat tally)"
  using residue_le [of "unat tally"]
  by (simp add: unsigned_ucast_eq unat_fold_carries take_bit_nat_eq_self_iff)

text \<open>The residue of a sum is zero modulo 65535 exactly when it is 0 or 65535.\<close>

lemma residue_max: "residue s = 65535 \<longleftrightarrow> 0 < s \<and> 65535 dvd s"
proof (cases s)
  case 0
  then show ?thesis by (simp add: residue_def)
next
  case (Suc k)
  have "residue s = 65535 \<longleftrightarrow> k mod 65535 = 65534" using Suc by (simp add: residue_def)
  also have "\<dots> \<longleftrightarrow> Suc k mod 65535 = 0" by (simp add: mod_Suc)
  finally show ?thesis using Suc by (simp add: dvd_eq_mod_eq_0)
qed

lemma residue_dvd: "65535 dvd s + (65535 - residue s)"
proof (cases s)
  case (Suc k)
  define q r where "q = k div 65535" and "r = k mod 65535"
  then have k: "k = 65535 * q + r" "r \<le> 65534" using mod_less_divisor [of 65535 k] by simp_all
  have "residue s = r + 1" using Suc by (simp add: residue_def r_def)
  with k Suc have "s + (65535 - residue s) = 65535 * (q + 1)" by simp
  then show ?thesis by (metis dvd_triv_left)
qed (simp add: residue_def)

section \<open>What the checksum does\<close>

lemma to_be16_from: "to_be16 w = [a, b] \<Longrightarrow> from_be16 a b = w"
  using to_be16_cases [of w] by auto

definition checksum_domain :: "bytes \<Rightarrow> bool" where
  "checksum_domain bs \<longleftrightarrow> length bs \<le> 131070"

lemma sum_words_domain: "checksum_domain bs \<Longrightarrow> sum_words bs < 4294967296"
proof -
  assume "checksum_domain bs"
  then have "(length bs + 1) div 2 \<le> 65535" by (simp add: checksum_domain_def)
  then have "65535 * ((length bs + 1) div 2) \<le> 65535 * 65535" by simp
  with sum_words_bound [of bs] show ?thesis by simp
qed

lemma unat_internet_checksum:
  "checksum_domain bs \<Longrightarrow> unat (internet_checksum bs) = 65535 - residue (sum_words bs)"
  using sum_words_domain [of bs] unat_add_words [of 0 bs]
  by (simp add: internet_checksum_def unat_not16 unat_folded)

lemma checksum_zero_iff:
  "checksum_domain bs \<Longrightarrow> internet_checksum bs = 0 \<longleftrightarrow> 0 < sum_words bs \<and> 65535 dvd sum_words bs"
  using unat_internet_checksum [of bs] residue_le [of "sum_words bs"] residue_max [of "sum_words bs"]
  by (simp add: word_unat_eq_iff)

text \<open>Putting the checksum of the rest into a zero field makes the whole check.\<close>

lemma checksum_inserted:
  assumes "even (length xs)" "checksum_domain (xs @ [0, 0] @ ys)"
  shows "internet_checksum (xs @ to_be16 (internet_checksum (xs @ [0, 0] @ ys)) @ ys) = 0"
proof -
  let ?s = "sum_words xs + sum_words ys" and ?c = "internet_checksum (xs @ [0, 0] @ ys)"
  have z: "sum_words (xs @ [0, 0] @ ys) = ?s" using assms(1) by (simp add: sum_words_append)
  then have c: "unat ?c = 65535 - residue ?s" using unat_internet_checksum [OF assms(2)] by simp
  have "sum_words (xs @ to_be16 ?c @ ys) = ?s + (65535 - residue ?s)"
    using assms(1) c sum_words_append [of "to_be16 ?c" ys] by (simp add: sum_words_append)
  moreover have "checksum_domain (xs @ to_be16 ?c @ ys)" using assms(2) by (simp add: checksum_domain_def)
  moreover have "0 < ?s + (65535 - residue ?s)" by (cases "?s = 0") (simp_all add: residue_def)
  ultimately show ?thesis using residue_dvd [of ?s] by (simp add: checksum_zero_iff)
qed

lemma checksum_word_change:
  assumes "even (length xs)" "checksum_domain (xs @ to_be16 v @ ys)"
    and "internet_checksum (xs @ to_be16 v @ ys) = 0" "internet_checksum (xs @ to_be16 w @ ys) = 0"
  shows "v = w \<or> {v, w} = {0, 0xffff}"
proof -
  let ?s = "sum_words xs + sum_words ys"
  have tally: "sum_words (xs @ to_be16 u @ ys) = ?s + unat u" for u
    using assms(1) sum_words_append [of "to_be16 u" ys] by (simp add: sum_words_append)
  have "checksum_domain (xs @ to_be16 w @ ys)" using assms(2) by (simp add: checksum_domain_def)
  with assms(2-4) have d: "65535 dvd ?s + unat v" "65535 dvd ?s + unat w"
    by (simp_all add: checksum_zero_iff tally)
  have key: "unat a = unat b \<or> unat a = 0 \<and> unat b = 65535"
    if "65535 dvd ?s + unat a" "65535 dvd ?s + unat b" "unat a \<le> unat b" for a b :: u16
  proof -
    have "65535 dvd unat b - unat a" using dvd_diff_nat [OF that(2,1)] by simp
    moreover have "unat b - unat a \<le> 65535" using unat_le_65535 [of b] by linarith
    ultimately have "unat b - unat a = 0 \<or> unat b - unat a = 65535" by (auto elim!: dvdE)
    with that(3) show ?thesis using unat_le_65535 [of b] by linarith
  qed
  have "v = w \<or> v = 0 \<and> w = 0xffff \<or> w = 0 \<and> v = 0xffff"
    using key [OF d] key [OF d(2,1)] by (cases "unat v \<le> unat w") (auto simp: word_unat_eq_iff)
  then show ?thesis by auto
qed

end
