(* ===== verification/Ipv4.thy ===== *)
theory Ipv4
  imports Checksum
begin

text \<open>
  IPv4 packets, \<^verbatim>\<open>crates/ndm24-ppp/src/ipv4.rs\<close>: the parser, which accepts headers with options, the
  accessors of a parsed packet, and the encoder, which writes a 20-octet header.
\<close>

section \<open>Data\<close>

definition IPV4_VERSION :: u8 where "IPV4_VERSION = 4"
definition MINIMUM_IHL_WORDS :: u8 where "MINIMUM_IHL_WORDS = 5"
definition MINIMUM_HEADER_LENGTH :: nat where "MINIMUM_HEADER_LENGTH = 20"
definition MAXIMUM_HEADER_LENGTH :: nat where "MAXIMUM_HEADER_LENGTH = 60"
definition PROTOCOL_ICMP :: u8 where "PROTOCOL_ICMP = 1"
definition PROTOCOL_UDP :: u8 where "PROTOCOL_UDP = 17"
definition FLAG_RESERVED :: u16 where "FLAG_RESERVED = 0x8000"
definition FLAG_DONT_FRAGMENT :: u16 where "FLAG_DONT_FRAGMENT = 0x4000"
definition FLAG_MORE_FRAGMENTS :: u16 where "FLAG_MORE_FRAGMENTS = 0x2000"
definition FRAGMENT_OFFSET_MASK :: u16 where "FRAGMENT_OFFSET_MASK = 0x1fff"

datatype ipv4_parse_error =
    TruncatedMinimumHeader
  | UnsupportedVersion u8
  | InvalidHeaderLength u8
  | TruncatedHeader nat nat \<comment> \<open>header_length, available\<close>
  | TotalLengthSmallerThanHeader nat nat
  | TruncatedPacket nat nat
  | InvalidHeaderChecksum

datatype ipv4_encode_error = Ipv4OutputTooSmall nat nat | Ipv4PacketTooLong nat | ReservedFlagSet

record ipv4_header =
  ih_dscp_ecn :: u8
  ih_identification :: u16
  ih_flags_fragment_offset :: u16
  ih_ttl :: u8
  ih_protocol :: u8
  ih_source :: octets4
  ih_destination :: octets4

definition ipv4_header_new :: "u8 \<Rightarrow> octets4 \<Rightarrow> octets4 \<Rightarrow> ipv4_header" where
  "ipv4_header_new protocol source destination =
     \<lparr>ih_dscp_ecn = 0, ih_identification = 0, ih_flags_fragment_offset = 0, ih_ttl = 64,
      ih_protocol = protocol, ih_source = source, ih_destination = destination\<rparr>"

record ipv4_packet =
  ipk_bytes :: bytes
  ipk_header_length :: nat

section \<open>Parsing\<close>

definition ipv4_packet_parse :: "bytes \<Rightarrow> (ipv4_packet, ipv4_parse_error) result" where
  "ipv4_packet_parse bs =
     (if length bs < MINIMUM_HEADER_LENGTH then Err TruncatedMinimumHeader
      else
        (let version_ihl = bs ! 0; version = drop_bit 4 version_ihl in
         if version \<noteq> IPV4_VERSION then Err (UnsupportedVersion version)
         else
           (let ihl_words = version_ihl AND 0x0f in
            if ihl_words < MINIMUM_IHL_WORDS then Err (InvalidHeaderLength ihl_words)
            else
              (let header_length = unat ihl_words * 4 in
               if length bs < header_length then Err (TruncatedHeader header_length (length bs))
               else
                 (let total_length = unat (read_u16 bs 2) in
                  if total_length < header_length then
                    Err (TotalLengthSmallerThanHeader total_length header_length)
                  else if length bs < total_length then Err (TruncatedPacket total_length (length bs))
                  else if internet_checksum (take header_length bs) \<noteq> 0 then Err InvalidHeaderChecksum
                  else Ok \<lparr>ipk_bytes = take total_length bs, ipk_header_length = header_length\<rparr>)))))"

text \<open>The accessors.\<close>

definition ipk_total_length :: "ipv4_packet \<Rightarrow> nat" where
  "ipk_total_length p = length (ipk_bytes p)"

definition ipk_dscp_ecn :: "ipv4_packet \<Rightarrow> u8" where
  "ipk_dscp_ecn p = ipk_bytes p ! 1"

definition ipk_identification :: "ipv4_packet \<Rightarrow> u16" where
  "ipk_identification p = read_u16 (ipk_bytes p) 4"

definition ipk_flags_fragment_offset :: "ipv4_packet \<Rightarrow> u16" where
  "ipk_flags_fragment_offset p = read_u16 (ipk_bytes p) 6"

definition dont_fragment :: "ipv4_packet \<Rightarrow> bool" where
  "dont_fragment p \<longleftrightarrow> ipk_flags_fragment_offset p AND FLAG_DONT_FRAGMENT \<noteq> 0"

definition more_fragments :: "ipv4_packet \<Rightarrow> bool" where
  "more_fragments p \<longleftrightarrow> ipk_flags_fragment_offset p AND FLAG_MORE_FRAGMENTS \<noteq> 0"

definition fragment_offset :: "ipv4_packet \<Rightarrow> u16" where
  "fragment_offset p = ipk_flags_fragment_offset p AND FRAGMENT_OFFSET_MASK"

definition is_fragmented :: "ipv4_packet \<Rightarrow> bool" where
  "is_fragmented p \<longleftrightarrow> more_fragments p \<or> fragment_offset p \<noteq> 0"

definition ipk_ttl :: "ipv4_packet \<Rightarrow> u8" where
  "ipk_ttl p = ipk_bytes p ! 8"

definition ipk_protocol :: "ipv4_packet \<Rightarrow> u8" where
  "ipk_protocol p = ipk_bytes p ! 9"

definition ipk_header_checksum :: "ipv4_packet \<Rightarrow> u16" where
  "ipk_header_checksum p = read_u16 (ipk_bytes p) 10"

definition ipk_source :: "ipv4_packet \<Rightarrow> octets4" where
  "ipk_source p = read_address (ipk_bytes p) 12"

definition ipk_destination :: "ipv4_packet \<Rightarrow> octets4" where
  "ipk_destination p = read_address (ipk_bytes p) 16"

definition ipk_options :: "ipv4_packet \<Rightarrow> bytes" where
  "ipk_options p = drop MINIMUM_HEADER_LENGTH (take (ipk_header_length p) (ipk_bytes p))"

definition ipk_payload :: "ipv4_packet \<Rightarrow> bytes" where
  "ipk_payload p = drop (ipk_header_length p) (ipk_bytes p)"

section \<open>Encoding\<close>

text \<open>The writes into the packet slice, in the order of the code.\<close>

definition ipv4_write_packet :: "ipv4_header \<Rightarrow> bytes \<Rightarrow> bytes \<Rightarrow> bytes" where
  "ipv4_write_packet header payload packet =
     (let total_length = length packet;
          packet = write_slice packet 0 (replicate MINIMUM_HEADER_LENGTH 0);
          packet = packet[0 := push_bit 4 IPV4_VERSION OR MINIMUM_IHL_WORDS];
          packet = packet[1 := ih_dscp_ecn header];
          packet = write_u16 packet 2 (of_nat total_length);
          packet = write_u16 packet 4 (ih_identification header);
          packet = write_u16 packet 6 (ih_flags_fragment_offset header);
          packet = packet[8 := ih_ttl header];
          packet = packet[9 := ih_protocol header];
          packet = write_slice packet 12 (octets4_list (ih_source header));
          packet = write_slice packet 16 (octets4_list (ih_destination header));
          checksum = internet_checksum (take MINIMUM_HEADER_LENGTH packet);
          packet = write_u16 packet 10 checksum
      in write_slice packet MINIMUM_HEADER_LENGTH payload)"

definition ipv4_encode_packet ::
  "ipv4_header \<Rightarrow> bytes \<Rightarrow> bytes \<Rightarrow> (nat, ipv4_encode_error) result \<times> bytes" where
  "ipv4_encode_packet header payload output =
     (let total_length = MINIMUM_HEADER_LENGTH + length payload in
      if total_length > 65535 then (Err (Ipv4PacketTooLong total_length), output)
      else if length output < total_length then
        (Err (Ipv4OutputTooSmall total_length (length output)), output)
      else if ih_flags_fragment_offset header AND FLAG_RESERVED \<noteq> 0 then (Err ReservedFlagSet, output)
      else (Ok total_length,
        ipv4_write_packet header payload (take total_length output) @ drop total_length output))"

section \<open>The header in octets\<close>

text \<open>The two halves of the header around its checksum.\<close>

definition header_front :: "ipv4_header \<Rightarrow> nat \<Rightarrow> bytes" where
  "header_front h total_length =
     [0x45, ih_dscp_ecn h] @ to_be16 (of_nat total_length) @ to_be16 (ih_identification h) @
     to_be16 (ih_flags_fragment_offset h) @ [ih_ttl h, ih_protocol h]"

definition header_back :: "ipv4_header \<Rightarrow> bytes" where
  "header_back h = octets4_list (ih_source h) @ octets4_list (ih_destination h)"

definition ipv4_wire :: "ipv4_header \<Rightarrow> bytes \<Rightarrow> bytes" where
  "ipv4_wire h payload =
     (let front = header_front h (20 + length payload); back = header_back h
      in front @ to_be16 (internet_checksum (front @ [0, 0] @ back)) @ back @ payload)"

lemma length_header_front [simp]: "length (header_front h n) = 10"
  by (simp add: header_front_def)

lemma length_header_back [simp]: "length (header_back h) = 8"
  by (simp add: header_back_def)

lemma length_ipv4_wire [simp]: "length (ipv4_wire h payload) = 20 + length payload"
  by (simp add: ipv4_wire_def Let_def)

lemma replicate_20: "replicate 20 (x :: 'a) = [x,x,x,x,x,x,x,x,x,x,x,x,x,x,x,x,x,x,x,x]"
  by (simp add: numeral_eq_Suc)

text \<open>The octets of an encoded packet, with what they stand for.\<close>

lemma ipv4_wire_octets:
  obtains l1 l2 i1 i2 f1 f2 c1 c2 s0 s1 s2 s3 d0 d1 d2 d3 where
    "ipv4_wire h payload = [0x45, ih_dscp_ecn h, l1, l2, i1, i2, f1, f2, ih_ttl h, ih_protocol h, c1, c2,
       s0, s1, s2, s3, d0, d1, d2, d3] @ payload"
    "to_be16 (of_nat (20 + length payload)) = [l1, l2]" "to_be16 (ih_identification h) = [i1, i2]"
    "to_be16 (ih_flags_fragment_offset h) = [f1, f2]"
    "to_be16 (internet_checksum [0x45, ih_dscp_ecn h, l1, l2, i1, i2, f1, f2, ih_ttl h, ih_protocol h, 0, 0,
       s0, s1, s2, s3, d0, d1, d2, d3]) = [c1, c2]"
    "ih_source h = (s0, s1, s2, s3)" "ih_destination h = (d0, d1, d2, d3)"
proof -
  obtain s0 s1 s2 s3 where s: "ih_source h = (s0, s1, s2, s3)" by (cases "ih_source h")
  obtain d0 d1 d2 d3 where d: "ih_destination h = (d0, d1, d2, d3)" by (cases "ih_destination h")
  obtain l1 l2 where l: "to_be16 (of_nat (20 + length payload)) = [l1, l2]" using to_be16_cases by blast
  obtain i1 i2 where i: "to_be16 (ih_identification h) = [i1, i2]" using to_be16_cases by blast
  obtain f1 f2 where f: "to_be16 (ih_flags_fragment_offset h) = [f1, f2]" using to_be16_cases by blast
  let ?c = "internet_checksum [0x45, ih_dscp_ecn h, l1, l2, i1, i2, f1, f2, ih_ttl h, ih_protocol h,
    0, 0, s0, s1, s2, s3, d0, d1, d2, d3]"
  obtain c1 c2 where c: "to_be16 ?c = [c1, c2]" using to_be16_cases by blast
  have "ipv4_wire h payload = [0x45, ih_dscp_ecn h, l1, l2, i1, i2, f1, f2, ih_ttl h,
      ih_protocol h, c1, c2, s0, s1, s2, s3, d0, d1, d2, d3] @ payload"
    unfolding ipv4_wire_def Let_def header_front_def header_back_def l i f s d octets4_list_def prod.case
    by (simp add: c)
  from this l i f c s d show ?thesis by (rule that)
qed

lemma ipv4_write_packet_eq:
  assumes "length packet = 20 + length payload"
  shows "ipv4_write_packet header payload packet = ipv4_wire header payload"
proof (rule ipv4_wire_octets [of header payload])
  fix l1 l2 i1 i2 f1 f2 c1 c2 s0 s1 s2 s3 d0 d1 d2 d3
  assume w: "ipv4_wire header payload = [0x45, ih_dscp_ecn header, l1, l2, i1, i2, f1, f2, ih_ttl header,
       ih_protocol header, c1, c2, s0, s1, s2, s3, d0, d1, d2, d3] @ payload"
    and l: "to_be16 (of_nat (20 + length payload)) = [l1, l2]"
    and ev: "to_be16 (ih_identification header) = [i1, i2]" "to_be16 (ih_flags_fragment_offset header) = [f1, f2]"
      "to_be16 (internet_checksum [0x45, ih_dscp_ecn header, l1, l2, i1, i2, f1, f2, ih_ttl header,
         ih_protocol header, 0, 0, s0, s1, s2, s3, d0, d1, d2, d3]) = [c1, c2]"
      "ih_source header = (s0, s1, s2, s3)" "ih_destination header = (d0, d1, d2, d3)"
  have v: "push_bit 4 IPV4_VERSION OR MINIMUM_IHL_WORDS = 0x45"
    by (simp add: IPV4_VERSION_def MINIMUM_IHL_WORDS_def)
  let ?x = "drop 20 packet"
  have zero: "write_slice packet 0 (replicate 20 0) = replicate 20 0 @ ?x"
    using write_slice_append [of 0 "[]" "take 20 packet" "replicate 20 0" ?x] assms by simp
  have "length ?x = length payload" using assms by simp
  then show ?thesis
    unfolding w ipv4_write_packet_def assms MINIMUM_HEADER_LENGTH_def write_u16_def replicate_20
    by (simp add: zero [unfolded replicate_20] l [simplified] v ev octets4_list_def write_slice_all
        del: length_drop)
qed

lemma ipv4_header_checks: "internet_checksum (take 20 (ipv4_wire h payload)) = 0"
proof -
  let ?front = "header_front h (20 + length payload)" and ?rear = "header_back h"
  have "internet_checksum (?front @ to_be16 (internet_checksum (?front @ [0, 0] @ ?rear)) @ ?rear) = 0"
    by (intro checksum_inserted) (simp_all add: checksum_domain_def)
  then show ?thesis by (simp add: ipv4_wire_def Let_def)
qed

lemma ipv4_parse_wire:
  assumes "20 + length payload \<le> 65535"
  shows "ipv4_packet_parse (ipv4_wire h payload @ pad) =
    Ok \<lparr>ipk_bytes = ipv4_wire h payload, ipk_header_length = 20\<rparr>"
proof (rule ipv4_wire_octets [of h payload])
  fix l1 l2 i1 i2 f1 f2 c1 c2 s0 s1 s2 s3 d0 d1 d2 d3
  assume w: "ipv4_wire h payload = [0x45, ih_dscp_ecn h, l1, l2, i1, i2, f1, f2, ih_ttl h,
       ih_protocol h, c1, c2, s0, s1, s2, s3, d0, d1, d2, d3] @ payload"
    and l: "to_be16 (of_nat (20 + length payload)) = [l1, l2]"
  have total: "unat (from_be16 l1 l2) = 20 + length payload"
    unfolding to_be16_from [OF l] unat_of_nat16 using assms by simp
  have "take (20 + length payload) (ipv4_wire h payload @ pad) = ipv4_wire h payload" by simp
  moreover have "(0x45 :: u8) AND 0x0f = 5" "drop_bit 4 (0x45 :: u8) = 4" by simp_all
  ultimately show ?thesis
    using ipv4_header_checks [of h payload] total
    by (simp add: ipv4_packet_parse_def w MINIMUM_HEADER_LENGTH_def IPV4_VERSION_def MINIMUM_IHL_WORDS_def
        read_u16_def Let_def)
qed

text \<open>What the accessors read in a packet that was encoded from a header and a payload.\<close>

definition ipv4_view :: "ipv4_header \<Rightarrow> bytes \<Rightarrow> ipv4_packet \<Rightarrow> bool" where
  "ipv4_view header payload p \<longleftrightarrow>
     ipk_payload p = payload \<and> ipk_options p = [] \<and> ipk_total_length p = 20 + length payload \<and>
     ipk_dscp_ecn p = ih_dscp_ecn header \<and> ipk_identification p = ih_identification header \<and>
     ipk_flags_fragment_offset p = ih_flags_fragment_offset header \<and> ipk_ttl p = ih_ttl header \<and>
     ipk_protocol p = ih_protocol header \<and> ipk_source p = ih_source header \<and>
     ipk_destination p = ih_destination header"

lemma ipv4_wire_view: "ipv4_view header payload \<lparr>ipk_bytes = ipv4_wire header payload, ipk_header_length = 20\<rparr>"
proof (rule ipv4_wire_octets [of header payload])
  fix l1 l2 i1 i2 f1 f2 c1 c2 s0 s1 s2 s3 d0 d1 d2 d3
  assume w: "ipv4_wire header payload = [0x45, ih_dscp_ecn header, l1, l2, i1, i2, f1, f2, ih_ttl header,
       ih_protocol header, c1, c2, s0, s1, s2, s3, d0, d1, d2, d3] @ payload"
    and i: "to_be16 (ih_identification header) = [i1, i2]"
    and f: "to_be16 (ih_flags_fragment_offset header) = [f1, f2]"
    and sd: "ih_source header = (s0, s1, s2, s3)" "ih_destination header = (d0, d1, d2, d3)"
  show ?thesis
    by (simp add: ipv4_view_def w ipk_payload_def ipk_options_def ipk_total_length_def ipk_dscp_ecn_def
        ipk_identification_def ipk_flags_fragment_offset_def ipk_ttl_def ipk_protocol_def ipk_source_def
        ipk_destination_def read_u16_def read_address_def octets4_at_def MINIMUM_HEADER_LENGTH_def
        to_be16_from [OF i] to_be16_from [OF f] sd)
qed

lemma ipv4_encode_eq:
  assumes "20 + length payload \<le> 65535" "20 + length payload \<le> length buffer"
    and "ih_flags_fragment_offset header AND FLAG_RESERVED = 0"
  shows "ipv4_encode_packet header payload buffer =
    (Ok (20 + length payload), ipv4_wire header payload @ drop (20 + length payload) buffer)"
  using assms by (simp add: ipv4_encode_packet_def MINIMUM_HEADER_LENGTH_def Let_def ipv4_write_packet_eq)

text \<open>
  An encoded packet parses back. When the packet fits 65535 octets and the buffer, and the
  reserved flag is clear, \<open>ipv4_encode_packet\<close> writes 20 + the length of the payload octets and leaves
  the rest of the buffer alone, and the parser accepts those octets, with anything behind them, and
  returns every field of the header and the payload; its checksum verifies. Otherwise it fails and
  the buffer is unchanged.
\<close>

theorem ipv4_roundtrip:
  "let n = 20 + length payload; (r, output') = ipv4_encode_packet header payload output in
   if n \<le> 65535 \<and> n \<le> length output \<and> ih_flags_fragment_offset header AND FLAG_RESERVED = 0 then
     r = Ok n \<and> drop n output' = drop n output \<and>
     (\<forall>pad. \<exists>p. ipv4_packet_parse (take n output' @ pad) = Ok p \<and> ipk_payload p = payload \<and>
        ipk_options p = [] \<and> ipk_total_length p = n \<and> ipk_dscp_ecn p = ih_dscp_ecn header \<and>
        ipk_identification p = ih_identification header \<and>
        ipk_flags_fragment_offset p = ih_flags_fragment_offset header \<and> ipk_ttl p = ih_ttl header \<and>
        ipk_protocol p = ih_protocol header \<and> ipk_source p = ih_source header \<and>
        ipk_destination p = ih_destination header)
   else \<not> is_ok r \<and> output' = output"
proof (cases "20 + length payload \<le> 65535 \<and> 20 + length payload \<le> length output \<and>
    ih_flags_fragment_offset header AND FLAG_RESERVED = 0")
  case True
  then show ?thesis
    using ipv4_wire_view [of header payload] ipv4_parse_wire [of payload header]
    by (simp add: ipv4_encode_eq ipv4_view_def)
next
  case False
  then show ?thesis
    by (auto simp: ipv4_encode_packet_def MINIMUM_HEADER_LENGTH_def Let_def)
qed

section \<open>What the parser accepts\<close>

lemma unat_low4: "unat (w AND 0x0f :: u8) = unat w mod 16"
proof -
  have "w AND 0x0f = take_bit 4 w" by (simp add: take_bit_eq_mask mask_eq_exp_minus_1)
  then show ?thesis by (simp only: unsigned_take_bit_eq) (simp add: take_bit_eq_mod)
qed

lemma ipv4_parse_iff:
  "ipv4_packet_parse bs = Ok p \<longleftrightarrow>
     (let hl = unat (bs ! 0) mod 16 * 4; tl = unat (read_u16 bs 2) in
      20 \<le> hl \<and> hl \<le> tl \<and> tl \<le> length bs \<and> drop_bit 4 (bs ! 0) = 4 \<and>
      internet_checksum (take hl bs) = 0 \<and> p = \<lparr>ipk_bytes = take tl bs, ipk_header_length = hl\<rparr>)"
proof -
  have "bs ! 0 AND 0x0f < 5 \<longleftrightarrow> unat (bs ! 0) mod 16 * 4 < 20"
    unfolding word_less_nat_alt unat_low4 by simp
  then show ?thesis
    by (auto simp: ipv4_packet_parse_def MINIMUM_HEADER_LENGTH_def IPV4_VERSION_def MINIMUM_IHL_WORDS_def
        unat_low4 Let_def)
qed

text \<open>
  What an accepted packet is. Its header has 20 to 60 octets, the header lies within the
  total length and the total length within the input; header, options and payload are exactly the
  octets of the packet in order; and the packet is the same when it is parsed alone or with anything
  behind it.
\<close>

theorem ipv4_parse_delimits:
  assumes "ipv4_packet_parse bs = Ok p"
  shows "20 \<le> ipk_header_length p \<and> ipk_header_length p \<le> MAXIMUM_HEADER_LENGTH \<and>
    ipk_header_length p \<le> ipk_total_length p \<and> ipk_total_length p \<le> min 65535 (length bs) \<and>
    ipk_bytes p = take (ipk_total_length p) bs \<and>
    ipk_bytes p = take 20 bs @ ipk_options p @ ipk_payload p \<and>
    length (ipk_options p) = ipk_header_length p - 20 \<and>
    ipv4_packet_parse (ipk_bytes p @ pad) = Ok p"
proof -
  define hl tl where "hl = unat (bs ! 0) mod 16 * 4" and "tl = unat (read_u16 bs 2)"
  with assms have ok: "20 \<le> hl" "hl \<le> tl" "tl \<le> length bs" "drop_bit 4 (bs ! 0) = 4"
      "internet_checksum (take hl bs) = 0" and p: "p = \<lparr>ipk_bytes = take tl bs, ipk_header_length = hl\<rparr>"
    unfolding ipv4_parse_iff Let_def by auto
  have "hl \<le> 60" unfolding hl_def using mod_less_divisor [of 16 "unat (bs ! 0)"] by linarith
  moreover have "take tl bs = take 20 bs @ drop 20 (take hl (take tl bs)) @ drop hl (take tl bs)"
  proof -
    have "take 20 bs @ drop 20 (take hl (take tl bs)) = take hl (take tl bs)"
      using ok(1,2) append_take_drop_id [of 20 "take hl (take tl bs)"] by (simp add: min_def)
    then show ?thesis by (metis append.assoc append_take_drop_id)
  qed
  moreover have "ipv4_packet_parse (take tl bs @ pad) = Ok p"
  proof -
    have "(take tl bs @ pad) ! 0 = bs ! 0" "read_u16 (take tl bs @ pad) 2 = read_u16 bs 2"
      using ok(1-3) by (simp_all add: nth_append read_u16_def)
    then show ?thesis using ok p unfolding ipv4_parse_iff Let_def hl_def [symmetric] by (simp flip: hl_def tl_def)
  qed
  moreover have "tl \<le> 65535" unfolding tl_def by simp
  ultimately show ?thesis using ok p
    by (simp add: ipk_total_length_def ipk_options_def ipk_payload_def MINIMUM_HEADER_LENGTH_def
        MAXIMUM_HEADER_LENGTH_def)
qed

theorem ipv4_parse_delimits_witness:
  "ipv4_packet_parse (ipv4_wire (ipv4_header_new 17 (10, 24, 0, 2) (10, 24, 0, 1)) [7] @ [1, 2, 3]) =
     Ok \<lparr>ipk_bytes = ipv4_wire (ipv4_header_new 17 (10, 24, 0, 2) (10, 24, 0, 1)) [7], ipk_header_length = 20\<rparr>"
proof -
  let ?w = "ipv4_wire (ipv4_header_new 17 (10, 24, 0, 2) (10, 24, 0, 1)) [7]"
  have "ipv4_packet_parse (?w @ [9]) = Ok \<lparr>ipk_bytes = ?w, ipk_header_length = 20\<rparr>"
    by (rule ipv4_parse_wire) simp
  from ipv4_parse_delimits [OF this, of "[1, 2, 3]"] show ?thesis by simp
qed

text \<open>
  C15: a damaged header is refused. If one 16-bit word of the header of an accepted packet, other
  than the first, is replaced by a different one, the parser no longer accepts the octets; the one
  exception, inherent in one's-complement sums, is the exchange of 0 and 0xffff.
\<close>

theorem ipv4_detects_word_change:
  assumes "ipv4_packet_parse (xs @ to_be16 v @ ys) = Ok p"
    and "even (length xs)" and "2 \<le> length xs" and "length xs + 2 \<le> ipk_header_length p"
    and "v \<noteq> w" and "{v, w} \<noteq> {0, 0xffff}"
  shows "\<not> is_ok (ipv4_packet_parse (xs @ to_be16 w @ ys))"
proof
  assume "is_ok (ipv4_packet_parse (xs @ to_be16 w @ ys))"
  then obtain q where q: "ipv4_packet_parse (xs @ to_be16 w @ ys) = Ok q" by (auto simp: is_ok_iff)
  define hl where "hl = unat (xs ! 0) mod 16 * 4"
  have first: "(xs @ to_be16 u @ ys) ! 0 = xs ! 0" for u using assms(3) by (cases xs) simp_all
  have hl: "ipk_header_length p = hl" "internet_checksum (take hl (xs @ to_be16 v @ ys)) = 0"
      "internet_checksum (take hl (xs @ to_be16 w @ ys)) = 0"
    using assms(1) q unfolding ipv4_parse_iff Let_def first hl_def [symmetric] by auto
  have split: "take hl (xs @ to_be16 u @ ys) = xs @ to_be16 u @ take (hl - (length xs + 2)) ys" for u
    using assms(4) hl(1) by simp
  have "hl \<le> 60" unfolding hl_def using mod_less_divisor [of 16 "unat (xs ! 0)"] by linarith
  then have "checksum_domain (xs @ to_be16 v @ take (hl - (length xs + 2)) ys)"
    using assms(4) hl(1) by (simp add: checksum_domain_def)
  from checksum_word_change [OF assms(2) this] hl(2,3) assms(5,6) show False unfolding split by blast
qed

theorem ipv4_detects_word_change_witness:
  "\<not> is_ok (ipv4_packet_parse ([0x45, 0] @ to_be16 21 @
     drop 4 (ipv4_wire (ipv4_header_new 17 (10, 24, 0, 2) (10, 24, 0, 1)) [])))"
proof -
  let ?w = "ipv4_wire (ipv4_header_new 17 (10, 24, 0, 2) (10, 24, 0, 1)) []"
  have "take 4 ?w = [0x45, 0] @ to_be16 20"
    by (simp add: ipv4_wire_def header_front_def ipv4_header_new_def to_be16_def Let_def)
  then have w: "?w = [0x45, 0] @ to_be16 20 @ drop 4 ?w" by (metis append.assoc append_take_drop_id)
  have "ipv4_packet_parse (?w @ []) = Ok \<lparr>ipk_bytes = ?w, ipk_header_length = 20\<rparr>"
    by (rule ipv4_parse_wire) simp
  then have "ipv4_packet_parse ([0x45, 0] @ to_be16 20 @ drop 4 ?w) = Ok \<lparr>ipk_bytes = ?w, ipk_header_length = 20\<rparr>"
    using w by simp
  from ipv4_detects_word_change [OF this, of 21] show ?thesis by (simp add: doubleton_eq_iff)
qed

end
