(* ===== verification/Icmp.thy ===== *)
theory Icmp
  imports Checksum
begin

text \<open>
  ICMP Echo, \<^verbatim>\<open>crates/ndm24-ppp/src/icmp.rs\<close>: parsing and encoding of requests and replies, the reply
  to a request, and the correlation of a reply with the request it answers.
\<close>

section \<open>Data\<close>

definition TYPE_ECHO_REPLY :: u8 where "TYPE_ECHO_REPLY = 0"
definition TYPE_ECHO_REQUEST :: u8 where "TYPE_ECHO_REQUEST = 8"
definition ECHO_CODE :: u8 where "ECHO_CODE = 0"
definition ECHO_HEADER_LENGTH :: nat where "ECHO_HEADER_LENGTH = 8"

datatype echo_kind = EchoReply | EchoRequest

fun icmp_type :: "echo_kind \<Rightarrow> u8" where
  "icmp_type EchoReply = TYPE_ECHO_REPLY"
| "icmp_type EchoRequest = TYPE_ECHO_REQUEST"

datatype icmp_parse_error = IcmpTruncated nat | UnsupportedType u8 | NonZeroCode u8 | IcmpInvalidChecksum

datatype icmp_encode_error = IcmpOutputTooSmall nat nat | MessageTooLong nat

datatype correlation_error =
    NotReply
  | SourceMismatch octets4 octets4 \<comment> \<open>expected, received\<close>
  | IdentifierMismatch u16 u16
  | SequenceMismatch u16 u16
  | PayloadMismatch

record echo_packet =
  ep_bytes :: bytes
  ep_kind :: echo_kind

section \<open>Operations\<close>

definition echo_parse :: "bytes \<Rightarrow> (echo_packet, icmp_parse_error) result" where
  "echo_parse bs =
     (if length bs < ECHO_HEADER_LENGTH then Err (IcmpTruncated (length bs))
      else
        and_then
          (if bs ! 0 = TYPE_ECHO_REPLY then Ok EchoReply
           else if bs ! 0 = TYPE_ECHO_REQUEST then Ok EchoRequest
           else Err (UnsupportedType (bs ! 0)))
          (\<lambda>kind.
            if bs ! 1 \<noteq> ECHO_CODE then Err (NonZeroCode (bs ! 1))
            else if internet_checksum bs \<noteq> 0 then Err IcmpInvalidChecksum
            else Ok \<lparr>ep_bytes = bs, ep_kind = kind\<rparr>))"

definition ep_checksum :: "echo_packet \<Rightarrow> u16" where
  "ep_checksum p = read_u16 (ep_bytes p) 2"

definition ep_identifier :: "echo_packet \<Rightarrow> u16" where
  "ep_identifier p = read_u16 (ep_bytes p) 4"

definition ep_sequence :: "echo_packet \<Rightarrow> u16" where
  "ep_sequence p = read_u16 (ep_bytes p) 6"

definition ep_payload :: "echo_packet \<Rightarrow> bytes" where
  "ep_payload p = drop ECHO_HEADER_LENGTH (ep_bytes p)"

text \<open>The writes into the message slice, in the order of the code.\<close>

definition write_echo :: "echo_kind \<Rightarrow> u16 \<Rightarrow> u16 \<Rightarrow> bytes \<Rightarrow> bytes \<Rightarrow> bytes" where
  "write_echo kind ident seq payload message =
     (let message = write_slice message 0 (replicate ECHO_HEADER_LENGTH 0);
          message = message[0 := icmp_type kind];
          message = write_u16 message 4 ident;
          message = write_u16 message 6 seq;
          message = write_slice message ECHO_HEADER_LENGTH payload;
          checksum = internet_checksum message
      in write_u16 message 2 checksum)"

definition encode_echo ::
  "echo_kind \<Rightarrow> u16 \<Rightarrow> u16 \<Rightarrow> bytes \<Rightarrow> bytes \<Rightarrow> (nat, icmp_encode_error) result \<times> bytes" where
  "encode_echo kind ident seq payload output =
     (let len = ECHO_HEADER_LENGTH + length payload in
      if len > 65535 then (Err (MessageTooLong len), output)
      else if length output < len then (Err (IcmpOutputTooSmall len (length output)), output)
      else (Ok len, write_echo kind ident seq payload (take len output) @ drop len output))"

definition encode_echo_reply :: "echo_packet \<Rightarrow> bytes \<Rightarrow> (nat, icmp_encode_error) result \<times> bytes" where
  "encode_echo_reply request output =
     encode_echo EchoReply (ep_identifier request) (ep_sequence request) (ep_payload request) output"

definition correlate_echo_reply ::
  "echo_packet \<Rightarrow> octets4 \<Rightarrow> octets4 \<Rightarrow> u16 \<Rightarrow> u16 \<Rightarrow> bytes \<Rightarrow> (unit, correlation_error) result" where
  "correlate_echo_reply packet source expected_source expected_identifier expected_sequence expected_payload =
     (if ep_kind packet \<noteq> EchoReply then Err NotReply
      else if source \<noteq> expected_source then Err (SourceMismatch expected_source source)
      else if ep_identifier packet \<noteq> expected_identifier then
        Err (IdentifierMismatch expected_identifier (ep_identifier packet))
      else if ep_sequence packet \<noteq> expected_sequence then
        Err (SequenceMismatch expected_sequence (ep_sequence packet))
      else if ep_payload packet \<noteq> expected_payload then Err PayloadMismatch
      else Ok ())"

section \<open>The message in octets\<close>

definition echo_body :: "echo_kind \<Rightarrow> u16 \<Rightarrow> u16 \<Rightarrow> u16 \<Rightarrow> bytes \<Rightarrow> bytes" where
  "echo_body kind checksum ident seq payload =
     [icmp_type kind, 0] @ to_be16 checksum @ to_be16 ident @ to_be16 seq @ payload"

definition echo_wire :: "echo_kind \<Rightarrow> u16 \<Rightarrow> u16 \<Rightarrow> bytes \<Rightarrow> bytes" where
  "echo_wire kind ident seq payload =
     echo_body kind (internet_checksum (echo_body kind 0 ident seq payload)) ident seq payload"

lemma length_echo_body [simp]: "length (echo_body kind c ident seq payload) = 8 + length payload"
  by (simp add: echo_body_def)

lemma length_echo_wire [simp]: "length (echo_wire kind ident seq payload) = 8 + length payload"
  by (simp add: echo_wire_def)

lemma write_echo_eq:
  assumes "length message = 8 + length payload"
  shows "write_echo kind ident seq payload message = echo_wire kind ident seq payload"
proof -
  obtain i1 i2 where i: "to_be16 ident = [i1, i2]" using to_be16_cases by blast
  obtain q1 q2 where q: "to_be16 seq = [q1, q2]" using to_be16_cases by blast
  let ?b = "echo_body kind 0 ident seq payload"
  obtain c1 c2 where c: "to_be16 (internet_checksum ?b) = [c1, c2]" using to_be16_cases by blast
  have b: "?b = icmp_type kind # 0 # 0 # 0 # i1 # i2 # q1 # q2 # payload"
    by (simp add: echo_body_def i q) (simp add: to_be16_def)
  have zero: "write_slice message 0 [0, 0, 0, 0, 0, 0, 0, 0] = [0, 0, 0, 0, 0, 0, 0, 0] @ drop 8 message"
    using write_slice_append [of 0 "[]" "take 8 message" "[0, 0, 0, 0, 0, 0, 0, 0]" "drop 8 message"] assms
    by simp
  have eight: "replicate 8 (0 :: u8) = [0, 0, 0, 0, 0, 0, 0, 0]" by (simp add: numeral_eq_Suc)
  have w: "echo_wire kind ident seq payload = icmp_type kind # 0 # c1 # c2 # i1 # i2 # q1 # q2 # payload"
    unfolding echo_wire_def by (subst echo_body_def) (simp add: c i q)
  have "length (drop 8 message) = length payload" using assms by simp
  then show ?thesis
    unfolding write_echo_def ECHO_HEADER_LENGTH_def write_u16_def eight w
    by (simp add: zero i q c [unfolded b] write_slice_all del: length_drop)
qed

lemma echo_parse_wire:
  assumes "8 + length payload \<le> 65535"
  shows "echo_parse (echo_wire kind ident seq payload) =
    Ok \<lparr>ep_bytes = echo_wire kind ident seq payload, ep_kind = kind\<rparr>"
proof -
  have z: "to_be16 0 = [0, 0]" by (simp add: to_be16_def)
  have "internet_checksum (echo_wire kind ident seq payload) = 0"
    using checksum_inserted [of "[icmp_type kind, 0]" "to_be16 ident @ to_be16 seq @ payload"] assms
    by (simp add: echo_wire_def echo_body_def z checksum_domain_def)
  moreover have "echo_wire kind ident seq payload ! 0 = icmp_type kind" "echo_wire kind ident seq payload ! 1 = 0"
    by (simp_all add: echo_wire_def echo_body_def)
  ultimately show ?thesis
    by (cases kind) (simp_all add: echo_parse_def ECHO_HEADER_LENGTH_def TYPE_ECHO_REPLY_def
        TYPE_ECHO_REQUEST_def ECHO_CODE_def)
qed

lemma echo_wire_fields:
  "ep_identifier \<lparr>ep_bytes = echo_wire kind ident seq payload, ep_kind = k\<rparr> = ident"
  "ep_sequence \<lparr>ep_bytes = echo_wire kind ident seq payload, ep_kind = k\<rparr> = seq"
  "ep_payload \<lparr>ep_bytes = echo_wire kind ident seq payload, ep_kind = k\<rparr> = payload"
proof -
  obtain i1 i2 where i: "to_be16 ident = [i1, i2]" using to_be16_cases by blast
  obtain q1 q2 where q: "to_be16 seq = [q1, q2]" using to_be16_cases by blast
  obtain c1 c2 where c: "to_be16 (internet_checksum (echo_body kind 0 ident seq payload)) = [c1, c2]"
    using to_be16_cases by blast
  have w: "echo_wire kind ident seq payload = icmp_type kind # 0 # c1 # c2 # i1 # i2 # q1 # q2 # payload"
    unfolding echo_wire_def by (subst echo_body_def) (simp add: c i q)
  show "ep_identifier \<lparr>ep_bytes = echo_wire kind ident seq payload, ep_kind = k\<rparr> = ident"
    "ep_sequence \<lparr>ep_bytes = echo_wire kind ident seq payload, ep_kind = k\<rparr> = seq"
    "ep_payload \<lparr>ep_bytes = echo_wire kind ident seq payload, ep_kind = k\<rparr> = payload"
    by (simp_all add: ep_identifier_def ep_sequence_def ep_payload_def read_u16_def w ECHO_HEADER_LENGTH_def
        to_be16_from [OF i] to_be16_from [OF q])
qed

lemma encode_echo_eq:
  "8 + length payload \<le> 65535 \<Longrightarrow> 8 + length payload \<le> length output \<Longrightarrow>
   encode_echo kind ident seq payload output =
     (Ok (8 + length payload), echo_wire kind ident seq payload @ drop (8 + length payload) output)"
  by (simp add: encode_echo_def ECHO_HEADER_LENGTH_def Let_def write_echo_eq)

text \<open>
  An encoded Echo message parses back. When it fits 65535 octets and the buffer,
  \<open>encode_echo\<close> writes 8 + the length of the payload octets and leaves the rest of the buffer alone;
  the message written parses to the same kind, identifier, sequence number and payload. Otherwise it
  fails and the buffer is unchanged.
\<close>

theorem echo_roundtrip:
  "let n = 8 + length payload; (r, output') = encode_echo kind ident seq payload output in
   if n \<le> 65535 \<and> n \<le> length output then
     r = Ok n \<and> drop n output' = drop n output \<and>
     (\<exists>p. echo_parse (take n output') = Ok p \<and> ep_kind p = kind \<and> ep_identifier p = ident \<and>
       ep_sequence p = seq \<and> ep_payload p = payload)
   else \<not> is_ok r \<and> output' = output"
proof (cases "8 + length payload \<le> 65535 \<and> 8 + length payload \<le> length output")
  case True
  then show ?thesis by (simp add: encode_echo_eq echo_parse_wire echo_wire_fields)
next
  case False
  then show ?thesis by (auto simp: encode_echo_def ECHO_HEADER_LENGTH_def Let_def)
qed

text \<open>
  A reply answers its request. The reply made for any parsed request that fits the buffer
  parses to a reply which correlation accepts from the right source, for the identifier, the sequence
  number and the payload of the request and for no others.
\<close>

theorem echo_reply_correlates:
  assumes "echo_parse bs = Ok request" and "length bs \<le> 65535" and "length bs \<le> length output"
  shows "\<exists>output' reply. encode_echo_reply request output = (Ok (length bs), output') \<and>
    echo_parse (take (length bs) output') = Ok reply \<and>
    (\<forall>source expected_source ident seq payload.
      correlate_echo_reply reply source expected_source ident seq payload = Ok () \<longleftrightarrow>
      source = expected_source \<and> ident = ep_identifier request \<and> seq = ep_sequence request \<and>
      payload = ep_payload request)"
proof -
  from assms(1) have bs: "ep_bytes request = bs" "8 \<le> length bs"
    by (auto simp: echo_parse_def ECHO_HEADER_LENGTH_def and_then_eq_Ok split: if_splits)
  then have len: "8 + length (ep_payload request) = length bs" by (simp add: ep_payload_def ECHO_HEADER_LENGTH_def)
  let ?w = "echo_wire EchoReply (ep_identifier request) (ep_sequence request) (ep_payload request)"
  have enc: "encode_echo_reply request output = (Ok (length bs), ?w @ drop (length bs) output)"
    using encode_echo_eq [of "ep_payload request" "output"] len assms(2,3) by (simp add: encode_echo_reply_def)
  have parse: "echo_parse ?w = Ok \<lparr>ep_bytes = ?w, ep_kind = EchoReply\<rparr>"
    using len assms(2) by (intro echo_parse_wire) simp
  have "take (length bs) (?w @ drop (length bs) output) = ?w" by (simp add: len)
  with enc parse show ?thesis
    by (intro exI [of _ "?w @ drop (length bs) output"] exI [of _ "\<lparr>ep_bytes = ?w, ep_kind = EchoReply\<rparr>"])
      (auto simp: correlate_echo_reply_def echo_wire_fields)
qed

theorem echo_reply_correlates_witness:
  "\<exists>output' reply. encode_echo_reply \<lparr>ep_bytes = echo_wire EchoRequest 0x4e44 1 [78, 68], ep_kind = EchoRequest\<rparr>
      (replicate 16 0) = (Ok 10, output') \<and> echo_parse (take 10 output') = Ok reply \<and>
    correlate_echo_reply reply (10, 24, 0, 1) (10, 24, 0, 1) 0x4e44 1 [78, 68] = Ok () \<and>
    correlate_echo_reply reply (10, 24, 0, 1) (10, 24, 0, 1) 0x4e44 2 [78, 68] \<noteq> Ok ()"
proof -
  have p: "echo_parse (echo_wire EchoRequest 0x4e44 1 [78, 68]) =
      Ok \<lparr>ep_bytes = echo_wire EchoRequest 0x4e44 1 [78, 68], ep_kind = EchoRequest\<rparr>"
    by (rule echo_parse_wire) simp
  from echo_reply_correlates [OF p, of "replicate 16 0"] obtain output' reply where
    r: "encode_echo_reply \<lparr>ep_bytes = echo_wire EchoRequest 0x4e44 1 [78, 68], ep_kind = EchoRequest\<rparr>
      (replicate 16 0) = (Ok 10, output')" "echo_parse (take 10 output') = Ok reply"
    and c: "\<And>source expected_source ident seq payload.
      correlate_echo_reply reply source expected_source ident seq payload = Ok () \<longleftrightarrow>
      source = expected_source \<and> ident = 0x4e44 \<and> seq = 1 \<and> payload = [78, 68]"
    unfolding echo_wire_fields by auto
  have "(2 :: u16) \<noteq> 1" by simp
  with r show ?thesis by (intro exI [of _ output'] exI [of _ reply]) (simp add: c)
qed

end
