(* ===== verification/Udp.thy ===== *)
theory Udp
  imports Ipv4
begin

text \<open>
  UDP datagrams, \<^verbatim>\<open>crates/ndm24-ppp/src/udp.rs\<close>: parsing and encoding with the checksum over the IPv4
  pseudo-header.
\<close>

section \<open>Data\<close>

definition UDP_HEADER_LENGTH :: nat where "UDP_HEADER_LENGTH = 8"

datatype udp_parse_error =
    UdpTruncatedHeader nat | UdpInvalidLength nat | TruncatedDatagram nat nat | UdpInvalidChecksum

datatype udp_encode_error = UdpOutputTooSmall nat nat | DatagramTooLong nat

record datagram =
  dg_bytes :: bytes
  dg_checksum_present :: bool

section \<open>The checksum\<close>

definition add_bytes :: "u32 \<Rightarrow> bytes \<Rightarrow> u32" where
  "add_bytes tally bs = add_words tally bs"

definition fold_sum :: "u32 \<Rightarrow> u16" where
  "fold_sum tally = ucast (fold_carries tally)"

definition udp_checksum_sum :: "octets4 \<Rightarrow> octets4 \<Rightarrow> bytes \<Rightarrow> u16" where
  "udp_checksum_sum source destination datagram =
     (let tally = 0;
          tally = add_bytes tally (octets4_list source);
          tally = add_bytes tally (octets4_list destination);
          tally = tally + ucast PROTOCOL_UDP;
          tally = tally + of_nat (length datagram);
          tally = add_bytes tally datagram
      in fold_sum tally)"

section \<open>Operations\<close>

definition udp_parse :: "octets4 \<Rightarrow> octets4 \<Rightarrow> bytes \<Rightarrow> (datagram, udp_parse_error) result" where
  "udp_parse source destination bs =
     (if length bs < UDP_HEADER_LENGTH then Err (UdpTruncatedHeader (length bs))
      else
        (let len = unat (read_u16 bs 4) in
         if len < UDP_HEADER_LENGTH then Err (UdpInvalidLength len)
         else if length bs < len then Err (TruncatedDatagram len (length bs))
         else
           (let bs = take len bs;
                checksum_present = (read_u16 bs 6 \<noteq> 0)
            in if checksum_present \<and> udp_checksum_sum source destination bs \<noteq> 0xffff then Err UdpInvalidChecksum
               else Ok \<lparr>dg_bytes = bs, dg_checksum_present = checksum_present\<rparr>)))"

definition dg_source_port :: "datagram \<Rightarrow> u16" where
  "dg_source_port d = read_u16 (dg_bytes d) 0"

definition dg_destination_port :: "datagram \<Rightarrow> u16" where
  "dg_destination_port d = read_u16 (dg_bytes d) 2"

definition dg_length :: "datagram \<Rightarrow> nat" where
  "dg_length d = length (dg_bytes d)"

definition dg_checksum :: "datagram \<Rightarrow> u16" where
  "dg_checksum d = read_u16 (dg_bytes d) 6"

definition dg_payload :: "datagram \<Rightarrow> bytes" where
  "dg_payload d = drop UDP_HEADER_LENGTH (dg_bytes d)"

text \<open>The writes into the datagram slice; a checksum of zero is sent as \<open>0xffff\<close>.\<close>

definition write_datagram :: "octets4 \<Rightarrow> octets4 \<Rightarrow> u16 \<Rightarrow> u16 \<Rightarrow> bytes \<Rightarrow> bytes \<Rightarrow> bytes" where
  "write_datagram source destination source_port destination_port payload datagram =
     (let len = length datagram;
          datagram = write_slice datagram 0 (replicate UDP_HEADER_LENGTH 0);
          datagram = write_u16 datagram 0 source_port;
          datagram = write_u16 datagram 2 destination_port;
          datagram = write_u16 datagram 4 (of_nat len);
          datagram = write_slice datagram UDP_HEADER_LENGTH payload;
          checksum = NOT (udp_checksum_sum source destination datagram)
      in write_u16 datagram 6 (if checksum = 0 then 0xffff else checksum))"

definition encode_datagram ::
  "octets4 \<Rightarrow> octets4 \<Rightarrow> u16 \<Rightarrow> u16 \<Rightarrow> bytes \<Rightarrow> bytes \<Rightarrow> (nat, udp_encode_error) result \<times> bytes" where
  "encode_datagram source_address destination_address source_port destination_port payload output =
     (let len = UDP_HEADER_LENGTH + length payload in
      if len > 65535 then (Err (DatagramTooLong len), output)
      else if length output < len then (Err (UdpOutputTooSmall len (length output)), output)
      else (Ok len,
        write_datagram source_address destination_address source_port destination_port payload (take len output) @
        drop len output))"

section \<open>Arithmetic of the checksum\<close>

definition pseudo_sum :: "octets4 \<Rightarrow> octets4 \<Rightarrow> bytes \<Rightarrow> nat" where
  "pseudo_sum source destination bs =
     sum_words (octets4_list source) + sum_words (octets4_list destination) + 17 + length bs + sum_words bs"

lemma unat_udp_checksum_sum:
  assumes "length bs \<le> 65535"
  shows "unat (udp_checksum_sum source destination bs) = residue (pseudo_sum source destination bs)"
proof -
  have a: "sum_words (octets4_list q) \<le> 131070" for q
    using sum_words_bound [of "octets4_list q"] by simp
  have d: "sum_words bs \<le> 65535 * 32768"
  proof -
    have "(length bs + 1) div 2 \<le> 32768" using assms by simp
    then have "65535 * ((length bs + 1) div 2) \<le> 65535 * 32768" by (rule mult_le_mono2)
    with sum_words_bound [of bs] show ?thesis by linarith
  qed
  let ?s = "sum_words (octets4_list source)" and ?d = "sum_words (octets4_list destination)"
  have 1: "unat (add_bytes 0 (octets4_list source)) = ?s"
    using a [of source] unat_add_words [of 0 "octets4_list source"] by (simp add: add_bytes_def)
  have 2: "unat (add_bytes (add_bytes 0 (octets4_list source)) (octets4_list destination)) = ?s + ?d"
    using 1 a [of source] a [of destination]
      unat_add_words [of "add_bytes 0 (octets4_list source)" "octets4_list destination"]
    by (simp add: add_bytes_def)
  have u: "unat (ucast PROTOCOL_UDP :: u32) = 17" by (simp add: PROTOCOL_UDP_def)
  have l: "unat (of_nat (length bs) :: u32) = length bs" using assms by (simp add: unat_of_nat32)
  let ?t = "add_bytes (add_bytes 0 (octets4_list source)) (octets4_list destination)"
  have 3: "unat (?t + ucast PROTOCOL_UDP) = ?s + ?d + 17"
    using 2 u a [of source] a [of destination] by (subst unat_add_lem [THEN iffD1]) simp_all
  have 4: "unat (?t + ucast PROTOCOL_UDP + of_nat (length bs)) = ?s + ?d + 17 + length bs"
    using 3 l a [of source] a [of destination] assms by (subst unat_add_lem [THEN iffD1]) simp_all
  have "unat (add_bytes (?t + ucast PROTOCOL_UDP + of_nat (length bs)) bs) = pseudo_sum source destination bs"
    unfolding add_bytes_def [of _ bs] pseudo_sum_def
    by (subst unat_add_words) (use 4 d a [of source] a [of destination] assms in simp_all)
  then show ?thesis by (simp add: udp_checksum_sum_def fold_sum_def unat_folded Let_def)
qed

section \<open>The datagram in octets\<close>

definition udp_body :: "u16 \<Rightarrow> u16 \<Rightarrow> u16 \<Rightarrow> bytes \<Rightarrow> bytes" where
  "udp_body source_port destination_port checksum payload =
     to_be16 source_port @ to_be16 destination_port @ to_be16 (of_nat (8 + length payload)) @
     to_be16 checksum @ payload"

definition udp_field :: "octets4 \<Rightarrow> octets4 \<Rightarrow> bytes \<Rightarrow> u16" where
  "udp_field source destination bs =
     (let c = NOT (udp_checksum_sum source destination bs) in if c = 0 then 0xffff else c)"

definition udp_wire :: "octets4 \<Rightarrow> octets4 \<Rightarrow> u16 \<Rightarrow> u16 \<Rightarrow> bytes \<Rightarrow> bytes" where
  "udp_wire source destination sp dp payload =
     udp_body sp dp (udp_field source destination (udp_body sp dp 0 payload)) payload"

lemma length_udp_body [simp]: "length (udp_body sp dp c payload) = 8 + length payload"
  by (simp add: udp_body_def)

lemma length_udp_wire [simp]: "length (udp_wire source destination sp dp payload) = 8 + length payload"
  by (simp add: udp_wire_def)

lemma udp_body_octets:
  obtains s1 s2 d1 d2 l1 l2 where
    "to_be16 sp = [s1, s2]" "to_be16 dp = [d1, d2]" "to_be16 (of_nat (8 + length payload)) = [l1, l2]"
    "\<And>c. udp_body sp dp c payload = [s1, s2, d1, d2, l1, l2] @ to_be16 c @ payload"
proof -
  obtain s1 s2 where s: "to_be16 sp = [s1, s2]" using to_be16_cases by blast
  obtain d1 d2 where d: "to_be16 dp = [d1, d2]" using to_be16_cases by blast
  obtain l1 l2 where l: "to_be16 (of_nat (8 + length payload)) = [l1, l2]" using to_be16_cases by blast
  have "\<And>c. udp_body sp dp c payload = [s1, s2, d1, d2, l1, l2] @ to_be16 c @ payload"
    unfolding udp_body_def s d l by simp
  from s d l this show ?thesis by (rule that)
qed

lemma write_datagram_eq:
  assumes "length datagram = 8 + length payload"
  shows "write_datagram source destination sp dp payload datagram = udp_wire source destination sp dp payload"
proof (rule udp_body_octets [of sp dp payload])
  fix s1 s2 d1 d2 l1 l2
  assume o: "to_be16 sp = [s1, s2]" "to_be16 dp = [d1, d2]" "to_be16 (of_nat (8 + length payload)) = [l1, l2]"
    "\<And>c. udp_body sp dp c payload = [s1, s2, d1, d2, l1, l2] @ to_be16 c @ payload"
  let ?f = "udp_field source destination (udp_body sp dp 0 payload)"
  obtain c1 c2 where c: "to_be16 ?f = [c1, c2]" using to_be16_cases by blast
  have b: "udp_body sp dp 0 payload = [s1, s2, d1, d2, l1, l2, 0, 0] @ payload"
    unfolding o by (simp add: to_be16_def)
  have zero: "write_slice datagram 0 (replicate 8 0) = [0, 0, 0, 0, 0, 0, 0, 0] @ drop 8 datagram"
    using write_slice_append [of 0 "[]" "take 8 datagram" "replicate 8 0" "drop 8 datagram"] assms
    by (simp add: numeral_eq_Suc)
  have "length (drop 8 datagram) = length payload" using assms by simp
  then have "write_datagram source destination sp dp payload datagram =
      write_slice ([s1, s2, d1, d2, l1, l2, 0, 0] @ payload) 6 (to_be16 ?f)"
    unfolding write_datagram_def UDP_HEADER_LENGTH_def write_u16_def zero assms b udp_field_def
    by (simp add: o(1,2) o(3) [simplified] write_slice_all Let_def del: length_drop)
  then show ?thesis by (simp add: udp_wire_def o(4) c [unfolded o(4), simplified])
qed

lemma udp_field_nonzero: "udp_field source destination bs \<noteq> 0"
  by (simp add: udp_field_def Let_def)

lemma pseudo_sum_body:
  "pseudo_sum source destination (udp_body sp dp c payload) =
     pseudo_sum source destination (udp_body sp dp 0 payload) + unat c"
proof -
  have body: "udp_body sp dp u payload =
      (to_be16 sp @ to_be16 dp @ to_be16 (of_nat (8 + length payload))) @ to_be16 u @ payload" for u
    by (simp add: udp_body_def)
  have "sum_words (udp_body sp dp u payload) =
      sum_words (to_be16 sp @ to_be16 dp @ to_be16 (of_nat (8 + length payload))) + unat u + sum_words payload" for u
    unfolding body by (subst sum_words_append, simp, subst sum_words_append, simp, simp)
  then show ?thesis by (simp add: pseudo_sum_def)
qed

lemma udp_wire_checks:
  assumes "8 + length payload \<le> 65535"
  shows "udp_checksum_sum source destination (udp_wire source destination sp dp payload) = 0xffff"
proof -
  let ?b = "udp_body sp dp 0 payload"
  let ?s = "pseudo_sum source destination ?b"
  have sum0: "unat (udp_checksum_sum source destination ?b) = residue ?s"
    using assms by (intro unat_udp_checksum_sum) simp
  have field: "unat (udp_field source destination ?b) = (if residue ?s = 65535 then 65535 else 65535 - residue ?s)"
    using sum0 residue_le [of ?s] unat_not16 [of "udp_checksum_sum source destination ?b"]
    by (auto simp: udp_field_def Let_def word_unat_eq_iff)
  have "65535 dvd ?s + unat (udp_field source destination ?b)"
  proof (cases "residue ?s = 65535")
    case True
    then have "65535 dvd ?s" using residue_max [of ?s] by (rule iffD1 [THEN conjunct2, rotated])
    moreover have "unat (udp_field source destination ?b) = 65535" using field True by simp
    ultimately show ?thesis by (simp only: dvd_add dvd_refl)
  next
    case False
    then show ?thesis using residue_dvd [of ?s] field by (simp only: if_False)
  qed
  moreover have "0 < ?s" by (simp add: pseudo_sum_def)
  moreover have "pseudo_sum source destination (udp_wire source destination sp dp payload) =
      ?s + unat (udp_field source destination ?b)"
    unfolding udp_wire_def by (rule pseudo_sum_body)
  ultimately have "residue (pseudo_sum source destination (udp_wire source destination sp dp payload)) = 65535"
    by (simp only: residue_max) simp
  then have "unat (udp_checksum_sum source destination (udp_wire source destination sp dp payload)) = 65535"
    using unat_udp_checksum_sum [of "udp_wire source destination sp dp payload" source destination] assms by simp
  then show ?thesis by (simp add: word_unat_eq_iff)
qed

lemma udp_wire_fields:
  assumes "8 + length payload \<le> 65535"
  shows "read_u16 (udp_wire source destination sp dp payload @ pad) 4 = of_nat (8 + length payload) \<and>
    read_u16 (udp_wire source destination sp dp payload) 6 \<noteq> 0 \<and>
    read_u16 (udp_wire source destination sp dp payload) 0 = sp \<and>
    read_u16 (udp_wire source destination sp dp payload) 2 = dp \<and>
    drop 8 (udp_wire source destination sp dp payload) = payload"
proof (rule udp_body_octets [of sp dp payload])
  fix s1 s2 d1 d2 l1 l2
  assume o: "to_be16 sp = [s1, s2]" "to_be16 dp = [d1, d2]" "to_be16 (of_nat (8 + length payload)) = [l1, l2]"
    "\<And>c. udp_body sp dp c payload = [s1, s2, d1, d2, l1, l2] @ to_be16 c @ payload"
  let ?f = "udp_field source destination (udp_body sp dp 0 payload)"
  obtain c1 c2 where c: "to_be16 ?f = [c1, c2]" using to_be16_cases by blast
  have w: "udp_wire source destination sp dp payload = [s1, s2, d1, d2, l1, l2, c1, c2] @ payload"
    unfolding udp_wire_def o(4) [of ?f] c by simp
  have "from_be16 c1 c2 \<noteq> 0" using to_be16_from [OF c] udp_field_nonzero by simp
  then show ?thesis
    unfolding w to_be16_from [OF o(3), symmetric]
    by (simp add: read_u16_def to_be16_from [OF o(1)] to_be16_from [OF o(2)])
qed

lemma encode_datagram_eq:
  assumes "8 + length payload \<le> 65535" "8 + length payload \<le> length buffer"
  shows "encode_datagram source destination sp dp payload buffer =
    (Ok (8 + length payload), udp_wire source destination sp dp payload @ drop (8 + length payload) buffer)"
  using assms by (simp add: encode_datagram_def UDP_HEADER_LENGTH_def Let_def write_datagram_eq)

lemma udp_parse_wire:
  assumes "8 + length payload \<le> 65535"
  shows "udp_parse source destination (udp_wire source destination sp dp payload @ pad) =
    Ok \<lparr>dg_bytes = udp_wire source destination sp dp payload, dg_checksum_present = True\<rparr>"
proof -
  let ?w = "udp_wire source destination sp dp payload"
  have "read_u16 (?w @ pad) 4 = of_nat (8 + length payload)"
    using udp_wire_fields [OF assms] by blast
  then have len: "unat (read_u16 (?w @ pad) 4) = 8 + length payload"
    using assms by (simp only: unat_of_nat16) simp
  have "take (8 + length payload) (?w @ pad) = ?w" by simp
  then show ?thesis
    using len udp_wire_fields [OF assms, of source destination sp dp "[]"] udp_wire_checks [OF assms]
    by (simp add: udp_parse_def UDP_HEADER_LENGTH_def Let_def)
qed

text \<open>
  An encoded datagram parses back. When it fits 65535 octets and the buffer,
  \<open>encode_datagram\<close> writes 8 + the length of the payload octets and leaves the rest of the buffer alone;
  the receiver with the same two addresses accepts them, with anything behind them, as a datagram
  that carries a checksum, and reads the same ports and payload. Otherwise it fails and the buffer is
  unchanged.
\<close>

theorem udp_roundtrip:
  "let n = 8 + length payload;
       (r, output') = encode_datagram source destination source_port destination_port payload output in
   if n \<le> 65535 \<and> n \<le> length output then
     r = Ok n \<and> drop n output' = drop n output \<and>
     (\<forall>pad. \<exists>d. udp_parse source destination (take n output' @ pad) = Ok d \<and> dg_checksum_present d \<and>
        dg_length d = n \<and> dg_source_port d = source_port \<and> dg_destination_port d = destination_port \<and>
        dg_payload d = payload)
   else \<not> is_ok r \<and> output' = output"
proof (cases "8 + length payload \<le> 65535 \<and> 8 + length payload \<le> length output")
  case True
  then show ?thesis
    using udp_wire_fields [of payload source destination source_port destination_port "[]"]
    by (simp add: encode_datagram_eq udp_parse_wire dg_length_def dg_source_port_def dg_destination_port_def
        dg_payload_def UDP_HEADER_LENGTH_def)
next
  case False
  then show ?thesis by (auto simp: encode_datagram_def UDP_HEADER_LENGTH_def Let_def)
qed

end
