(* ===== verification/Dns.thy ===== *)
theory Dns
  imports Checksum
begin

text \<open>
  The minimal DNS client, \<^verbatim>\<open>crates/ndm24-ppp/src/dns.rs\<close>: encoding a query for an A record and
  reading the first A record of a response. Input comes from the network, so every indexed read of
  the parser is modelled with its bounds check: an index out of range is a \<open>Panic\<close>. A name is given
  by its UTF-8 octets; the full stop is octet 46, which UTF-8 never uses inside another character.
\<close>

section \<open>Data\<close>

definition DNS_HEADER_LENGTH :: nat where "DNS_HEADER_LENGTH = 12"
definition TYPE_A :: u16 where "TYPE_A = 1"
definition CLASS_IN :: u16 where "CLASS_IN = 1"
definition MAX_LABEL_LENGTH :: nat where "MAX_LABEL_LENGTH = 63"
definition MAX_NAME_LENGTH :: nat where "MAX_NAME_LENGTH = 253"
definition FLAG_RESPONSE :: u16 where "FLAG_RESPONSE = 0x8000"
definition FLAG_RECURSION_DESIRED :: u16 where "FLAG_RECURSION_DESIRED = 0x0100"
definition FLAG_TRUNCATED :: u16 where "FLAG_TRUNCATED = 0x0200"
definition OPCODE_MASK :: u16 where "OPCODE_MASK = 0x7800"
definition RESPONSE_CODE_MASK :: u16 where "RESPONSE_CODE_MASK = 0x000f"

datatype dns_encode_error =
    EmptyName | NameTooLong nat | EmptyLabel | LabelTooLong nat | NonAscii | InvalidCharacter u8
  | DnsOutputTooSmall nat nat

datatype dns_parse_error =
    Truncated
  | DnsIdentifierMismatch u16 u16 \<comment> \<open>expected, received\<close>
  | NotResponse
  | UnsupportedOpcode u8
  | TruncatedResponse
  | ResponseCode u8
  | NoQuestion
  | NoAnswer
  | MalformedName
  | NoIpv4Answer

record a_response =
  ar_response_code :: u8
  ar_answer_count :: u16
  ar_address :: octets4

section \<open>Queries\<close>

definition strip_dot :: "bytes \<Rightarrow> bytes" where
  "strip_dot name = (if name \<noteq> [] \<and> last name = 46 then butlast name else name)"

text \<open>\<^verbatim>\<open>name.split('.')\<close>: at least one label, empty ones included.\<close>

fun split_dots :: "bytes \<Rightarrow> bytes list" where
  "split_dots [] = [[]]"
| "split_dots (x # xs) =
     (if x = 46 then [] # split_dots xs
      else (case split_dots xs of l # ls \<Rightarrow> (x # l) # ls | [] \<Rightarrow> [[x]]))"

definition label_octet :: "u8 \<Rightarrow> bool" where
  "label_octet x \<longleftrightarrow>
     (48 \<le> x \<and> x \<le> 57) \<or> (65 \<le> x \<and> x \<le> 90) \<or> (97 \<le> x \<and> x \<le> 122) \<or> x = 45"

text \<open>The first loop of \<^verbatim>\<open>encode_a_query\<close>: checks every label and adds up the encoded length.\<close>

fun check_labels :: "nat \<Rightarrow> bytes list \<Rightarrow> (nat, dns_encode_error) result" where
  "check_labels encoded_name_length [] = Ok encoded_name_length"
| "check_labels encoded_name_length (label # labels) =
     (if label = [] then Err EmptyLabel
      else if length label > MAX_LABEL_LENGTH then Err (LabelTooLong (length label))
      else (case find (\<lambda>x. \<not> label_octet x) label of
        Some x \<Rightarrow> Err (InvalidCharacter x)
      | None \<Rightarrow> check_labels (encoded_name_length + (1 + length label)) labels))"

text \<open>The second loop: writes the labels and returns the offset behind them.\<close>

fun write_labels :: "bytes \<Rightarrow> nat \<Rightarrow> bytes list \<Rightarrow> bytes \<times> nat" where
  "write_labels packet offset [] = (packet, offset)"
| "write_labels packet offset (label # labels) =
     (let packet = packet[offset := of_nat (length label)];
          offset = offset + 1;
          packet = write_slice packet offset label;
          offset = offset + length label
      in write_labels packet offset labels)"

definition encode_a_query :: "u16 \<Rightarrow> bytes \<Rightarrow> bytes \<Rightarrow> (nat, dns_encode_error) result \<times> bytes" where
  "encode_a_query ident name output =
     (let name = strip_dot name in
      if name = [] then (Err EmptyName, output)
      else if length name > MAX_NAME_LENGTH then (Err (NameTooLong (length name)), output)
      else if list_ex (\<lambda>x. 128 \<le> x) name then (Err NonAscii, output)
      else
        and_then_st (check_labels 1 (split_dots name), output) (\<lambda>encoded_name_length output.
          (let required = DNS_HEADER_LENGTH + encoded_name_length + 4 in
           if length output < required then (Err (DnsOutputTooSmall required (length output)), output)
           else
             (let packet = replicate required 0;
                  packet = write_u16 packet 0 ident;
                  packet = write_u16 packet 2 FLAG_RECURSION_DESIRED;
                  packet = write_u16 packet 4 1;
                  (packet, offset) = write_labels packet DNS_HEADER_LENGTH (split_dots name);
                  packet = packet[offset := 0];
                  offset = offset + 1;
                  packet = write_u16 packet offset TYPE_A;
                  packet = write_u16 packet (offset + 2) CLASS_IN
              in (Ok required, packet @ drop required output)))))"

section \<open>Responses\<close>

definition dns_read_u16 :: "bytes \<Rightarrow> nat \<Rightarrow> (u16, dns_parse_error) result" where
  "dns_read_u16 bs offset = (if offset + 1 < length bs then Ok (read_u16 bs offset) else Panic)"

definition dns_read :: "bytes \<Rightarrow> nat \<Rightarrow> (u8, dns_parse_error) result" where
  "dns_read bs offset = (if offset < length bs then Ok (bs ! offset) else Panic)"

function skip_name :: "bytes \<Rightarrow> nat \<Rightarrow> (nat, dns_parse_error) result" where
  "skip_name bs offset =
     (if \<not> offset < length bs then Err Truncated
      else
        (let len = bs ! offset in
         if len = 0 then Ok (offset + 1)
         else if len AND 0xc0 = 0xc0 then
           (if \<not> offset + 1 < length bs then Err Truncated
            else
              (let second = bs ! (offset + 1);
                   pointer = push_bit 8 (unat (len AND 0x3f)) OR unat second
               in if pointer \<ge> length bs then Err MalformedName else Ok (offset + 2)))
         else if len AND 0xc0 \<noteq> 0 \<or> unat len > MAX_LABEL_LENGTH then Err MalformedName
         else
           (let offset' = offset + (1 + unat len) in
            if offset' > length bs then Err Truncated else skip_name bs offset')))"
  by pat_completeness auto
termination
  by (relation "measure (\<lambda>(bs, offset). length bs - offset)") auto

declare skip_name.simps [simp del]

fun skip_questions :: "bytes \<Rightarrow> nat \<Rightarrow> nat \<Rightarrow> (nat, dns_parse_error) result" where
  "skip_questions bs 0 offset = Ok offset"
| "skip_questions bs (Suc n) offset =
     and_then (skip_name bs offset) (\<lambda>offset.
       (let offset = offset + 4 in
        if offset > length bs then Err Truncated else skip_questions bs n offset))"

fun find_a_record :: "bytes \<Rightarrow> u8 \<Rightarrow> u16 \<Rightarrow> nat \<Rightarrow> nat \<Rightarrow> (a_response, dns_parse_error) result" where
  "find_a_record bs response_code answer_count 0 offset = Err NoIpv4Answer"
| "find_a_record bs response_code answer_count (Suc n) offset =
     and_then (skip_name bs offset) (\<lambda>offset.
       if length bs - offset < 10 then Err Truncated
       else
         and_then (dns_read_u16 bs offset) (\<lambda>record_type.
         and_then (dns_read_u16 bs (offset + 2)) (\<lambda>record_class.
         and_then (dns_read_u16 bs (offset + 8)) (\<lambda>rdlength.
           (let data_length = unat rdlength; offset = offset + 10 in
            if length bs - offset < data_length then Err Truncated
            else if record_type = TYPE_A \<and> record_class = CLASS_IN \<and> data_length = 4 then
              and_then (dns_read bs offset) (\<lambda>a.
              and_then (dns_read bs (offset + 1)) (\<lambda>b.
              and_then (dns_read bs (offset + 2)) (\<lambda>c.
              and_then (dns_read bs (offset + 3)) (\<lambda>d.
                Ok \<lparr>ar_response_code = response_code, ar_answer_count = answer_count,
                    ar_address = (a, b, c, d)\<rparr>))))
            else find_a_record bs response_code answer_count n (offset + data_length))))))"

definition parse_a_response :: "u16 \<Rightarrow> bytes \<Rightarrow> (a_response, dns_parse_error) result" where
  "parse_a_response ident bs =
     (if length bs < DNS_HEADER_LENGTH then Err Truncated
      else
        and_then (dns_read_u16 bs 0) (\<lambda>received_identifier.
        if received_identifier \<noteq> ident then Err (DnsIdentifierMismatch ident received_identifier)
        else
          and_then (dns_read_u16 bs 2) (\<lambda>flags.
          if flags AND FLAG_RESPONSE = 0 then Err NotResponse
          else
            (let opcode = ucast (drop_bit 11 (flags AND OPCODE_MASK)) in
             if opcode \<noteq> 0 then Err (UnsupportedOpcode opcode)
             else if flags AND FLAG_TRUNCATED \<noteq> 0 then Err TruncatedResponse
             else
               (let response_code = ucast (flags AND RESPONSE_CODE_MASK) in
                if response_code \<noteq> 0 then Err (ResponseCode response_code)
                else
                  and_then (dns_read_u16 bs 4) (\<lambda>question_count.
                  if question_count = 0 then Err NoQuestion
                  else
                    and_then (dns_read_u16 bs 6) (\<lambda>answer_count.
                    if answer_count = 0 then Err NoAnswer
                    else
                      and_then (skip_questions bs (unat question_count) DNS_HEADER_LENGTH) (\<lambda>offset.
                        find_a_record bs response_code answer_count (unat answer_count) offset))))))))"

section \<open>The parser reads in range\<close>

lemma skip_name_range: "skip_name bs offset = Ok n \<Longrightarrow> offset < n \<and> n \<le> length bs"
proof (induction bs offset rule: skip_name.induct)
  case (1 bs offset)
  from 1(2) show ?case
    unfolding skip_name.simps [of bs offset]
    using 1(1) by (auto simp: Let_def split: if_splits) (fastforce dest: 1(1))+
qed

lemma skip_name_not_panic: "skip_name bs offset \<noteq> Panic"
proof (induction bs offset rule: skip_name.induct)
  case (1 bs offset)
  then show ?case by (subst skip_name.simps) (auto simp: Let_def)
qed

lemma and_then_panic: "and_then r f = Panic \<longleftrightarrow> r = Panic \<or> (\<exists>x. r = Ok x \<and> f x = Panic)"
  by (cases r) auto

lemma skip_questions_not_panic: "skip_questions bs n offset \<noteq> Panic"
  by (induction bs n offset rule: skip_questions.induct)
    (auto simp: Let_def skip_name_not_panic and_then_panic)

lemma find_a_record_not_panic: "find_a_record bs code count n offset \<noteq> Panic"
proof (induction n arbitrary: offset)
  case 0
  then show ?case by simp
next
  case (Suc n)
  show ?case
  proof (cases "skip_name bs offset")
    case (Ok o1)
    note Suc.IH [simp]
    show ?thesis using Ok by (auto simp: dns_read_u16_def dns_read_def Let_def)
  qed (use skip_name_not_panic in auto)
qed

text \<open>
  No message makes the response parser panic. Whatever octets arrive, and whatever
  identifier is expected, the parser returns a response or an error; every read is in range, and both
  loops end because a name takes at least one octet.
\<close>

theorem dns_parser_never_panics: "parse_a_response ident bs \<noteq> Panic"
proof (cases "length bs < DNS_HEADER_LENGTH")
  case False
  then have "12 \<le> length bs" by (simp add: DNS_HEADER_LENGTH_def)
  then have "dns_read_u16 bs 0 = Ok (read_u16 bs 0)" "dns_read_u16 bs 2 = Ok (read_u16 bs 2)"
    "dns_read_u16 bs 4 = Ok (read_u16 bs 4)" "dns_read_u16 bs 6 = Ok (read_u16 bs 6)"
    by (simp_all add: dns_read_u16_def)
  with False show ?thesis
    by (auto simp: parse_a_response_def Let_def find_a_record_not_panic skip_questions_not_panic
        and_then_panic)
qed (simp add: parse_a_response_def)

section \<open>Well-formed messages\<close>

text \<open>A name on the wire: labels, then the root or a compression pointer.\<close>

datatype name_end = Root | Pointer nat

type_synonym dns_name = "bytes list \<times> name_end"

definition label_wire :: "bytes \<Rightarrow> bytes" where
  "label_wire label = of_nat (length label) # label"

definition end_wire :: "name_end \<Rightarrow> bytes" where
  "end_wire e = (case e of Root \<Rightarrow> [0] | Pointer p \<Rightarrow> [0xc0 OR of_nat (p div 256), of_nat p])"

definition name_wire :: "dns_name \<Rightarrow> bytes" where
  "name_wire name = concat (map label_wire (fst name)) @ end_wire (snd name)"

definition name_ok :: "nat \<Rightarrow> dns_name \<Rightarrow> bool" where
  "name_ok octets name \<longleftrightarrow>
     (\<forall>label \<in> set (fst name). 1 \<le> length label \<and> length label \<le> 63) \<and>
     (case snd name of Root \<Rightarrow> True | Pointer p \<Rightarrow> p < octets \<and> p < 16384)"

lemma length_label_wire [simp]: "length (label_wire l) = 1 + length l"
  by (simp add: label_wire_def)

lemma label_octet_bits:
  assumes "1 \<le> n" "n \<le> 63"
  shows "unat (of_nat n :: u8) = n" "(of_nat n :: u8) \<noteq> 0" "(of_nat n :: u8) AND 0xc0 = 0"
proof -
  show n: "unat (of_nat n :: u8) = n" using assms by (simp add: unat_of_nat8)
  with assms show "(of_nat n :: u8) \<noteq> 0" by (auto simp: word_unat_eq_iff)
  have "unat (take_bit 6 (of_nat n :: u8)) = n"
    using assms by (simp only: unsigned_take_bit_eq n) (simp add: take_bit_eq_mod)
  then have "(of_nat n :: u8) = take_bit 6 (of_nat n)" by (simp only: word_unat_eq_iff n)
  then have "(of_nat n :: u8) AND 0xc0 = take_bit 6 (of_nat n) AND 0xc0" by simp
  also have "\<dots> = of_nat n AND (0x3f AND 0xc0)"
    by (simp add: take_bit_eq_mask mask_eq_exp_minus_1 and.assoc)
  finally show "(of_nat n :: u8) AND 0xc0 = 0" by simp
qed

lemma pointer_bits:
  assumes "n < 64"
  shows "(0xc0 OR of_nat n :: u8) AND 0xc0 = 0xc0" "(0xc0 OR of_nat n :: u8) \<noteq> 0"
    "unat ((0xc0 OR of_nat n :: u8) AND 0x3f) = n"
proof -
  show flag: "(0xc0 OR of_nat n :: u8) AND 0xc0 = 0xc0" by (rule bit_eqI) (auto simp: bit_or_iff bit_and_iff)
  show "(0xc0 OR of_nat n :: u8) \<noteq> 0"
  proof
    assume "(0xc0 OR of_nat n :: u8) = 0"
    with flag show False by simp
  qed
  have "(0xc0 OR of_nat n :: u8) AND 0x3f = of_nat n AND 0x3f"
    by (simp add: bit.conj_disj_distrib2)
  also have "\<dots> = take_bit 6 (of_nat n)" by (simp add: take_bit_eq_mask mask_eq_exp_minus_1)
  finally show "unat ((0xc0 OR of_nat n :: u8) AND 0x3f) = n"
    using assms by (simp only: unsigned_take_bit_eq) (simp add: unat_of_nat8 take_bit_eq_mod)
qed

lemma pointer_value:
  assumes "b < 256"
  shows "push_bit 8 a OR b = 256 * a + (b :: nat)"
proof -
  have "b = take_bit 8 b" using assms by (simp add: take_bit_eq_mod)
  moreover have "push_bit 8 a AND take_bit 8 b = 0" by (rule bit_eqI) (auto simp: bit_simps)
  ultimately have "push_bit 8 a AND b = 0" by simp
  then have "push_bit 8 a + b = push_bit 8 a OR b" by (rule disjunctive_add_eq_or)
  then show ?thesis by (simp add: push_bit_eq_mult)
qed

lemma skip_end:
  assumes "case e of Root \<Rightarrow> True | Pointer p \<Rightarrow> p < length bs \<and> p < 16384"
    and "bs = pre @ end_wire e @ post"
  shows "skip_name bs (length pre) = Ok (length pre + length (end_wire e))"
proof (cases e)
  case Root
  with assms(2) show ?thesis by (subst skip_name.simps) (simp add: end_wire_def)
next
  case (Pointer p)
  then have p: "p div 256 < 64" "p < length bs" using assms(1) by auto
  have v: "push_bit 8 (p div 256) OR unat (of_nat p :: u8) = p"
    by (subst pointer_value) (simp_all add: unat_of_nat8)
  have "bs ! length pre = 0xc0 OR of_nat (p div 256)" "bs ! (length pre + 1) = of_nat p"
    using Pointer assms(2) by (simp_all add: end_wire_def nth_append)
  moreover have "length pre + 1 < length bs" using Pointer assms(2) by (simp add: end_wire_def)
  ultimately show ?thesis
    using pointer_bits [OF p(1)] v p(2) Pointer
    by (subst skip_name.simps) (simp add: end_wire_def Let_def del: of_nat_div)
qed

lemma skip_labels_wire:
  assumes "name_ok (length bs) (labels, e)" and "bs = pre @ name_wire (labels, e) @ post"
  shows "skip_name bs (length pre) = Ok (length pre + length (name_wire (labels, e)))"
  using assms
proof (induction labels arbitrary: pre)
  case Nil
  have "case e of Root \<Rightarrow> True | Pointer p \<Rightarrow> p < length bs \<and> p < 16384" "bs = pre @ end_wire e @ post"
    using Nil by (simp_all only: name_wire_def name_ok_def) simp_all
  from skip_end [OF this] show ?case by (simp add: name_wire_def)
next
  case (Cons label labels)
  have label: "1 \<le> length label" "length label \<le> 63"
    using Cons.prems(1) by (simp_all add: name_ok_def)
  note bits = label_octet_bits [OF label]
  let ?pre = "pre @ label_wire label"
  have name: "name_wire (label # labels, e) = label_wire label @ name_wire (labels, e)"
    by (simp add: name_wire_def)
  have "name_ok (length bs) (labels, e)" using Cons.prems(1) by (simp add: name_ok_def)
  with Cons.IH [of ?pre] Cons.prems(2)
  have "skip_name bs (length ?pre) = Ok (length ?pre + length (name_wire (labels, e)))" by (simp add: name)
  then have rest: "skip_name bs (length pre + (1 + length label)) =
      Ok (length pre + length (name_wire (label # labels, e)))"
    by (simp add: name)
  have "bs ! length pre = of_nat (length label)" "length pre < length bs" "length pre + (1 + length label) \<le> length bs"
    using Cons.prems(2) by (simp_all add: name label_wire_def)
  then show ?case
    using bits label(2) rest
    by (subst skip_name.simps) (simp add: Let_def MAX_LABEL_LENGTH_def not_less del: of_nat_Suc)
qed

lemma skip_name_wire:
  assumes "name_ok (length bs) name" and "bs = pre @ name_wire name @ post"
  shows "skip_name bs (length pre) = Ok (length pre + length (name_wire name))"
  using assms skip_labels_wire [of bs "fst name" "snd name"] by simp

record dns_record =
  dr_name :: dns_name
  dr_type :: u16
  dr_class :: u16
  dr_ttl :: bytes
  dr_data :: bytes

definition record_wire :: "dns_record \<Rightarrow> bytes" where
  "record_wire r = name_wire (dr_name r) @ to_be16 (dr_type r) @ to_be16 (dr_class r) @ dr_ttl r @
     to_be16 (of_nat (length (dr_data r))) @ dr_data r"

definition record_ok :: "nat \<Rightarrow> dns_record \<Rightarrow> bool" where
  "record_ok octets r \<longleftrightarrow> name_ok octets (dr_name r) \<and> length (dr_ttl r) = 4 \<and> length (dr_data r) \<le> 65535"

definition is_a_record :: "dns_record \<Rightarrow> bool" where
  "is_a_record r \<longleftrightarrow> dr_type r = TYPE_A \<and> dr_class r = CLASS_IN \<and> length (dr_data r) = 4"

definition question_wire :: "dns_name \<times> u16 \<times> u16 \<Rightarrow> bytes" where
  "question_wire q = (case q of (name, t, c) \<Rightarrow> name_wire name @ to_be16 t @ to_be16 c)"

lemma read_u16_at:
  "length pre = n \<Longrightarrow> read_u16 (pre @ to_be16 w @ post) n = w"
  using to_be16_cases [of w] by (auto simp: read_u16_def nth_append)

lemma dns_read_u16_at:
  "length pre = n \<Longrightarrow> dns_read_u16 (pre @ to_be16 w @ post) n = Ok w"
  by (simp add: dns_read_u16_def read_u16_at)

lemma find_a_record_wire:
  assumes "\<forall>r \<in> set rs. record_ok (length bs) r" and "bs = pre @ concat (map record_wire rs) @ post"
  shows "find_a_record bs code count (length rs) (length pre) =
    (case find is_a_record rs of
       Some r \<Rightarrow> Ok \<lparr>ar_response_code = code, ar_answer_count = count, ar_address = octets4_at (dr_data r) 0\<rparr>
     | None \<Rightarrow> Err NoIpv4Answer)"
  using assms
proof (induction rs arbitrary: pre)
  case Nil
  then show ?case by simp
next
  case (Cons r rs)
  have ok: "name_ok (length bs) (dr_name r)" "length (dr_ttl r) = 4" "length (dr_data r) \<le> 65535"
    using Cons.prems(1) by (simp_all add: record_ok_def)
  let ?n = "name_wire (dr_name r)" and ?t = "to_be16 (dr_type r)" and ?c = "to_be16 (dr_class r)"
    and ?l = "to_be16 (of_nat (length (dr_data r)))" and ?rest = "concat (map record_wire rs) @ post"
  have bs: "bs = pre @ ?n @ ?t @ ?c @ dr_ttl r @ ?l @ dr_data r @ ?rest"
    using Cons.prems(2) by (simp add: record_wire_def [of r])
  let ?o = "length pre + length ?n"
  have name: "skip_name bs (length pre) = Ok ?o" using skip_name_wire [OF ok(1) bs] .
  have reads: "dns_read_u16 bs ?o = Ok (dr_type r)" "dns_read_u16 bs (?o + 2) = Ok (dr_class r)"
    "dns_read_u16 bs (?o + 8) = Ok (of_nat (length (dr_data r)))"
    using dns_read_u16_at [of "pre @ ?n" ?o "dr_type r"] dns_read_u16_at [of "pre @ ?n @ ?t" "?o + 2" "dr_class r"]
      dns_read_u16_at [of "pre @ ?n @ ?t @ ?c @ dr_ttl r" "?o + 8" "of_nat (length (dr_data r))"] ok(2)
    by (simp_all add: bs)
  have len: "unat (of_nat (length (dr_data r)) :: u16) = length (dr_data r)"
    using ok(3) by (simp add: unat_of_nat16)
  have room: "\<not> length bs - ?o < 10" "\<not> length bs - (?o + 10) < length (dr_data r)"
    using ok(2) by (simp_all add: bs)
  have step: "find_a_record bs code count (length (r # rs)) (length pre) =
      (if is_a_record r then
         and_then (dns_read bs (?o + 10)) (\<lambda>a. and_then (dns_read bs (?o + 10 + 1)) (\<lambda>b.
         and_then (dns_read bs (?o + 10 + 2)) (\<lambda>c. and_then (dns_read bs (?o + 10 + 3)) (\<lambda>d.
           Ok \<lparr>ar_response_code = code, ar_answer_count = count, ar_address = (a, b, c, d)\<rparr>))))
       else find_a_record bs code count (length rs) (?o + 10 + length (dr_data r)))"
    using name reads len room by (simp add: is_a_record_def Let_def)
  show ?case
  proof (cases "is_a_record r")
    case True
    then obtain a b c d where data: "dr_data r = [a, b, c, d]"
      by (auto simp: is_a_record_def numeral_eq_Suc length_Suc_conv)
    have "bs = (pre @ ?n @ ?t @ ?c @ dr_ttl r @ ?l) @ [a, b, c, d] @ ?rest"
      unfolding bs data by simp
    moreover have "length (pre @ ?n @ ?t @ ?c @ dr_ttl r @ ?l) = ?o + 10" using ok(2) by simp
    ultimately have "dns_read bs (?o + 10) = Ok a" "dns_read bs (?o + 10 + 1) = Ok b"
      "dns_read bs (?o + 10 + 2) = Ok c" "dns_read bs (?o + 10 + 3) = Ok d"
      by (simp_all only: dns_read_def nth_append) simp_all
    with True step data show ?thesis by (simp add: octets4_at_def)
  next
    case False
    have "bs = (pre @ record_wire r) @ concat (map record_wire rs) @ post"
      using Cons.prems(2) by simp
    moreover have "length (pre @ record_wire r) = ?o + 10 + length (dr_data r)"
      using ok(2) by (simp add: record_wire_def)
    ultimately have "find_a_record bs code count (length rs) (?o + 10 + length (dr_data r)) =
        (case find is_a_record rs of
           Some r \<Rightarrow> Ok \<lparr>ar_response_code = code, ar_answer_count = count, ar_address = octets4_at (dr_data r) 0\<rparr>
         | None \<Rightarrow> Err NoIpv4Answer)"
      using Cons.IH [of "pre @ record_wire r"] Cons.prems(1) by (simp add: add.assoc)
    then show ?thesis unfolding step using False by (simp add: add.assoc)
  qed
qed

lemma skip_questions_wire:
  assumes "\<forall>q \<in> set qs. name_ok (length bs) (fst q)" and "bs = pre @ concat (map question_wire qs) @ post"
  shows "skip_questions bs (length qs) (length pre) = Ok (length pre + length (concat (map question_wire qs)))"
  using assms
proof (induction qs arbitrary: pre)
  case Nil
  then show ?case by simp
next
  case (Cons q qs)
  obtain name t c where q: "q = (name, t, c)" by (cases q)
  have bs: "bs = pre @ name_wire name @ to_be16 t @ to_be16 c @ concat (map question_wire qs) @ post"
    using Cons.prems(2) by (simp add: q question_wire_def [of "(name, t, c)"])
  have "skip_name bs (length pre) = Ok (length pre + length (name_wire name))"
    using skip_name_wire [OF _ bs] Cons.prems(1) by (simp add: q)
  moreover have "length pre + length (name_wire name) + 4 \<le> length bs" by (simp add: bs)
  moreover have "skip_questions bs (length qs) (length (pre @ question_wire q)) =
      Ok (length (pre @ question_wire q) + length (concat (map question_wire qs)))"
    using Cons.prems by (intro Cons.IH) simp_all
  ultimately show ?case by (simp add: q question_wire_def [of "(name, t, c)"] Let_def add.assoc)
qed

definition response_wire ::
  "u16 \<Rightarrow> u16 \<Rightarrow> bytes \<Rightarrow> (dns_name \<times> u16 \<times> u16) list \<Rightarrow> dns_record list \<Rightarrow> bytes \<Rightarrow> bytes" where
  "response_wire ident flags counts qs rs trailer =
     to_be16 ident @ to_be16 flags @ to_be16 (of_nat (length qs)) @ to_be16 (of_nat (length rs)) @ counts @
     concat (map question_wire qs) @ concat (map record_wire rs) @ trailer"

lemma flags_bits:
  assumes "flags AND 0x7800 = (0 :: u16)" and "flags AND 0x000f = 0"
  shows "(ucast (drop_bit 11 (flags AND OPCODE_MASK)) :: u8) = 0" "(ucast (flags AND RESPONSE_CODE_MASK) :: u8) = 0"
  using assms by (simp_all add: OPCODE_MASK_def RESPONSE_CODE_MASK_def)

lemma unat_count: "1 \<le> n \<Longrightarrow> n \<le> 65535 \<Longrightarrow> unat (of_nat n :: u16) = n \<and> (of_nat n :: u16) \<noteq> 0"
  using word_unat_eq_iff [of "of_nat n :: u16" 0] by (simp add: unat_of_nat16)

text \<open>
  C16: the parser finds the address in every well-formed response. A message with the expected
  identifier, the response flag, opcode zero, no truncation, response code zero, at least one question
  and at least one record (each name a sequence of labels of 1 to 63 octets ended by the root or by a
  compression pointer into the message, records of any type and data length, anything behind them)
  yields the data of the first IN record of type A with four octets of data, however many other records
  precede it, and \<open>NoIpv4Answer\<close> when there is none.
\<close>

theorem dns_reads_first_address:
  assumes message: "message = response_wire ident flags counts qs rs trailer"
    and flags: "flags AND 0x8000 \<noteq> 0" "flags AND 0x7800 = 0" "flags AND 0x0200 = 0" "flags AND 0x000f = 0"
    and counts: "length counts = 4"
    and sizes: "1 \<le> length qs" "length qs \<le> 65535" "1 \<le> length rs" "length rs \<le> 65535"
    and names: "\<forall>q \<in> set qs. name_ok (length message) (fst q)"
    and data: "\<forall>r \<in> set rs. record_ok (length message) r"
  shows "parse_a_response ident message =
    (case find is_a_record rs of
       Some r \<Rightarrow> Ok \<lparr>ar_response_code = 0, ar_answer_count = of_nat (length rs),
                   ar_address = octets4_at (dr_data r) 0\<rparr>
     | None \<Rightarrow> Err NoIpv4Answer)"
proof -
  let ?h = "to_be16 ident @ to_be16 flags @ to_be16 (of_nat (length qs)) @ to_be16 (of_nat (length rs)) @ counts"
  let ?qs = "concat (map question_wire qs)" and ?rs = "concat (map record_wire rs)"
  have msg: "message = ?h @ ?qs @ ?rs @ trailer" by (simp add: message response_wire_def)
  have h: "length ?h = 12" using counts by simp
  have "dns_read_u16 message 0 = Ok ident" "dns_read_u16 message 2 = Ok flags"
    "dns_read_u16 message 4 = Ok (of_nat (length qs))" "dns_read_u16 message 6 = Ok (of_nat (length rs))"
    using dns_read_u16_at [of "[]" 0 ident] dns_read_u16_at [of "to_be16 ident" 2 flags]
      dns_read_u16_at [of "to_be16 ident @ to_be16 flags" 4 "of_nat (length qs)"]
      dns_read_u16_at [of "to_be16 ident @ to_be16 flags @ to_be16 (of_nat (length qs))" 6 "of_nat (length rs)"]
    by (simp_all add: msg)
  moreover have "skip_questions message (length qs) 12 = Ok (12 + length ?qs)"
    using skip_questions_wire [of qs message ?h "?rs @ trailer"] names h by (simp add: msg)
  moreover have "find_a_record message 0 (of_nat (length rs)) (length rs) (12 + length ?qs) =
    (case find is_a_record rs of
       Some r \<Rightarrow> Ok \<lparr>ar_response_code = 0, ar_answer_count = of_nat (length rs), ar_address = octets4_at (dr_data r) 0\<rparr>
     | None \<Rightarrow> Err NoIpv4Answer)"
    using find_a_record_wire [of rs message "?h @ ?qs" trailer 0 "of_nat (length rs)"] data h by (simp add: msg)
  moreover have "\<not> length message < DNS_HEADER_LENGTH" using h by (simp add: msg DNS_HEADER_LENGTH_def)
  ultimately show ?thesis
    using flags_bits [OF flags(2,4)] unat_count [OF sizes(1,2)] unat_count [OF sizes(3,4)] flags(1,3)
    by (simp add: parse_a_response_def Let_def FLAG_RESPONSE_def FLAG_TRUNCATED_def DNS_HEADER_LENGTH_def)
qed

theorem dns_reads_first_address_witness:
  "parse_a_response 7 (response_wire 7 0x8180 [0, 0, 0, 0] [(([[110, 116, 112], [99, 111, 109]], Root), 1, 1)]
     [\<lparr>dr_name = ([], Pointer 12), dr_type = 5, dr_class = 1, dr_ttl = [0, 0, 0, 60], dr_data = [1, 120, 0]\<rparr>,
      \<lparr>dr_name = ([[120]], Root), dr_type = 1, dr_class = 1, dr_ttl = [0, 0, 0, 60], dr_data = [192, 0, 2, 9]\<rparr>] []) =
   Ok \<lparr>ar_response_code = 0, ar_answer_count = 2, ar_address = (192, 0, 2, 9)\<rparr>"
proof -
  let ?qs = "[(([[110, 116, 112], [99, 111, 109]], Root), 1, 1)] :: (dns_name \<times> u16 \<times> u16) list"
  let ?rs = "[\<lparr>dr_name = ([], Pointer 12), dr_type = 5, dr_class = 1, dr_ttl = [0, 0, 0, 60], dr_data = [1, 120, 0]\<rparr>,
      \<lparr>dr_name = ([[120]], Root), dr_type = 1, dr_class = 1, dr_ttl = [0, 0, 0, 60], dr_data = [192, 0, 2, 9]\<rparr>]"
  note sizes = response_wire_def question_wire_def record_wire_def name_wire_def end_wire_def name_ok_def
    record_ok_def is_a_record_def TYPE_A_def CLASS_IN_def octets4_at_def
  show ?thesis
    using dns_reads_first_address [OF refl, where ident = 7 and flags = "0x8180" and counts = "[0, 0, 0, 0]" and qs = ?qs and
        rs = ?rs and trailer = "[]"] by (simp add: sizes)
qed

section \<open>Well-formed queries\<close>

fun join_dots :: "bytes list \<Rightarrow> bytes" where
  "join_dots [] = []"
| "join_dots [l] = l"
| "join_dots (l # ls) = l @ 46 # join_dots ls"

definition labels_ok :: "bytes list \<Rightarrow> bool" where
  "labels_ok labels \<longleftrightarrow> (\<forall>l \<in> set labels. 1 \<le> length l \<and> length l \<le> 63 \<and> (\<forall>x \<in> set l. label_octet x))"

definition query_wire :: "u16 \<Rightarrow> bytes list \<Rightarrow> bytes" where
  "query_wire ident labels =
     to_be16 ident @ to_be16 0x0100 @ to_be16 1 @ [0, 0, 0, 0, 0, 0] @ name_wire (labels, Root) @ to_be16 1 @ to_be16 1"

lemma split_dots_not_nil [simp]: "split_dots name \<noteq> []"
  by (cases name) (auto split: list.split)

lemma join_split_dots: "join_dots (split_dots name) = name"
proof (induction name)
  case (Cons x name)
  then show ?case by (cases "split_dots name"; cases "tl (split_dots name)") auto
qed simp

lemma length_split_dots: "length (concat (map label_wire (split_dots name))) = length name + 1"
proof (induction name)
  case (Cons x name)
  then show ?case by (cases "split_dots name") auto
qed simp

lemma check_labels_eq:
  "check_labels n labels = Ok m \<longleftrightarrow> labels_ok labels \<and> m = n + length (concat (map label_wire labels))"
proof (induction labels arbitrary: n)
  case (Cons l ls)
  then show ?case
    by (cases l)
      (auto simp: labels_ok_def MAX_LABEL_LENGTH_def find_None_iff find_Some_iff split: option.split)
qed (auto simp: labels_ok_def)

lemma check_labels_not_panic: "check_labels n labels \<noteq> Panic"
  by (induction labels arbitrary: n) (auto split: option.split)

lemma write_labels_eq:
  "write_labels (pre @ replicate (length (concat (map label_wire labels))) 0 @ post) (length pre) labels =
    (pre @ concat (map label_wire labels) @ post, length pre + length (concat (map label_wire labels)))"
proof (induction labels arbitrary: pre)
  case (Cons l ls)
  let ?rest = "replicate (length (concat (map label_wire ls))) 0 @ post" and ?n = "of_nat (length l) :: u8"
  have "(pre @ replicate (length (concat (map label_wire (l # ls)))) 0 @ post)[length pre := ?n] =
      (pre @ [?n]) @ replicate (length l) 0 @ ?rest"
    by (simp add: list_update_append replicate_add)
  moreover have "write_slice ((pre @ [?n]) @ replicate (length l) 0 @ ?rest) (length pre + 1) l = (pre @ label_wire l) @ ?rest"
    by (subst write_slice_append) (simp_all add: label_wire_def)
  ultimately show ?case using Cons.IH [of "pre @ label_wire l"] by (simp add: Let_def)
qed simp

lemma query_tail:
  assumes "length pre = n"
  shows "write_u16 (write_u16 ((pre @ [0, 0, 0, 0, 0]) [n := 0]) (n + 1) a) (n + 1 + 2) b =
    pre @ 0 # to_be16 a @ to_be16 b"
proof -
  have "(pre @ [0, 0, 0, 0, 0]) [n := 0] = (pre @ [0]) @ [0, 0] @ [0, 0]" using assms by (simp add: list_update_append)
  moreover have "write_u16 ((pre @ [0]) @ [0, 0] @ [0, 0]) (n + 1) a = (pre @ 0 # to_be16 a) @ [0, 0] @ []"
    unfolding write_u16_def by (subst write_slice_append) (simp_all add: assms)
  moreover have "write_u16 ((pre @ 0 # to_be16 a) @ [0, 0] @ []) (n + 1 + 2) b = pre @ 0 # to_be16 a @ to_be16 b"
    unfolding write_u16_def by (subst write_slice_append) (simp_all add: assms)
  ultimately show ?thesis by simp
qed

lemma set_split_dots: "x \<in> set name \<Longrightarrow> x = 46 \<or> (\<exists>l \<in> set (split_dots name). x \<in> set l)"
proof (induction name)
  case (Cons y name)
  then show ?case by (cases "split_dots name") auto
qed simp

lemma labels_ok_ascii:
  assumes "labels_ok (split_dots name)" and "x \<in> set name"
  shows "\<not> 128 \<le> x"
proof -
  have "label_octet y \<Longrightarrow> \<not> 128 \<le> y" for y
    by (auto simp: label_octet_def word_le_nat_alt word_unat_eq_iff)
  then show ?thesis using set_split_dots [OF assms(2)] assms(1) by (auto simp: labels_ok_def)
qed

text \<open>
  \<open>encode_a_query\<close> encodes exactly the host names. A name, its trailing dot removed, is
  encoded when every label between dots has 1 to 63 letters, digits or hyphens, the whole has at most
  253 octets and the buffer has room for 18 octets more; then the buffer starts with the query (the
  identifier, recursion desired, one question, the labels with their lengths, the root, type A, class
  IN) and is otherwise unchanged. Any other name is refused with an error and the buffer untouched.
\<close>

theorem dns_query_encodes_host_names:
  "if labels_ok (split_dots (strip_dot name)) \<and> length (strip_dot name) \<le> 253 \<and>
      length (strip_dot name) + 18 \<le> length buffer
   then encode_a_query ident name buffer =
     (Ok (length (strip_dot name) + 18),
      query_wire ident (split_dots (strip_dot name)) @ drop (length (strip_dot name) + 18) buffer)
   else \<exists>e. encode_a_query ident name buffer = (Err e, buffer)"
proof (cases "labels_ok (split_dots (strip_dot name)) \<and> length (strip_dot name) \<le> 253 \<and>
    length (strip_dot name) + 18 \<le> length buffer")
  case True
  let ?name = "strip_dot name" and ?wire = "concat (map label_wire (split_dots (strip_dot name)))"
  let ?head = "to_be16 ident @ to_be16 0x0100 @ to_be16 1 @ [0, 0, 0, 0, 0, 0]"
  have name: "?name \<noteq> []" using True by (auto simp: labels_ok_def)
  have wire: "length ?wire = length ?name + 1" by (rule length_split_dots)
  have ascii: "\<not> list_ex (\<lambda>x. 128 \<le> x) ?name" using labels_ok_ascii True by (metis list_ex_iff)
  have labels: "check_labels 1 (split_dots ?name) = Ok (length ?name + 2)" using True wire by (simp add: check_labels_eq)
  have zeros: "replicate (18 + length ?name) (0 :: u8) =
      [0, 0, 0, 0, 0, 0, 0, 0, 0, 0, 0, 0] @ replicate (length ?wire) 0 @ [0, 0, 0, 0, 0]"
    using wire by (simp add: replicate_add [symmetric] numeral_eq_Suc replicate_app_Cons_same)
  have head: "write_u16 (write_u16 (write_u16 (replicate (18 + length ?name) 0) 0 ident) 2 FLAG_RECURSION_DESIRED) 4 1 =
      ?head @ replicate (length ?wire) 0 @ [0, 0, 0, 0, 0]"
    using to_be16_cases [of ident] to_be16_cases [of "0x0100"] to_be16_cases [of 1]
    by (auto simp: zeros write_u16_def FLAG_RECURSION_DESIRED_def)
  have body: "write_labels (?head @ replicate (length ?wire) 0 @ [0, 0, 0, 0, 0]) 12 (split_dots ?name) =
      (?head @ ?wire @ [0, 0, 0, 0, 0], 12 + length ?wire)"
    using write_labels_eq [where pre = ?head and labels = "split_dots ?name" and post = "[0, 0, 0, 0, 0]"] by simp
  have tail: "write_u16 (write_u16 ((?head @ ?wire @ [0, 0, 0, 0, 0]) [12 + length ?wire := 0]) (12 + length ?wire + 1) TYPE_A)
      (12 + length ?wire + 1 + 2) CLASS_IN = query_wire ident (split_dots ?name)"
    using query_tail [of "?head @ ?wire" "12 + length ?wire" TYPE_A CLASS_IN]
    by (simp add: query_wire_def name_wire_def end_wire_def TYPE_A_def CLASS_IN_def)
  show ?thesis using True name ascii labels head body tail
    by (simp add: encode_a_query_def Let_def MAX_NAME_LENGTH_def DNS_HEADER_LENGTH_def add.commute [of _ 18])
next
  case False
  let ?name = "strip_dot name"
  have "check_labels 1 (split_dots ?name) = Ok (2 + length ?name) \<and> labels_ok (split_dots ?name) \<or>
      (\<exists>e. check_labels 1 (split_dots ?name) = Err e)"
    using check_labels_not_panic [of 1 "split_dots ?name"]
    by (cases "check_labels 1 (split_dots ?name)") (simp_all add: check_labels_eq length_split_dots)
  then show ?thesis
    unfolding if_not_P [OF False]
    using False
    by (elim disjE exE) (auto simp: encode_a_query_def Let_def MAX_NAME_LENGTH_def DNS_HEADER_LENGTH_def add.commute [of _ 18])
qed

end
