(* ===== verification/Ntp.thy ===== *)
theory Ntp
  imports Checksum
begin

text \<open>
  The NTPv4 client codec, \<^verbatim>\<open>crates/ndm24-ppp/src/ntp.rs\<close>: the request it sends, the responses it
  accepts, and the conversion of a timestamp to Unix seconds. An \<^verbatim>\<open>i8\<close> is an octet, read with \<open>sint\<close>.
\<close>

section \<open>Data\<close>

definition PACKET_LENGTH :: nat where "PACKET_LENGTH = 48"
definition SERVER_PORT :: u16 where "SERVER_PORT = 123"
definition UNIX_EPOCH_OFFSET_SECONDS :: u32 where "UNIX_EPOCH_OFFSET_SECONDS = 2208988800"
definition LI_SHIFT :: nat where "LI_SHIFT = 6"
definition VERSION_SHIFT :: nat where "VERSION_SHIFT = 3"
definition VERSION_MASK :: u8 where "VERSION_MASK = 0x07"
definition MODE_MASK :: u8 where "MODE_MASK = 0x07"
definition MODE_CLIENT :: u8 where "MODE_CLIENT = 3"
definition MODE_SERVER :: u8 where "MODE_SERVER = 4"
definition LEAP_UNSYNCHRONIZED :: u8 where "LEAP_UNSYNCHRONIZED = 3"

datatype ntp_encode_error = NtpOutputTooSmall nat nat

record timestamp =
  ts_seconds :: u32
  ts_fraction :: u32

datatype response_error =
    NtpTruncated nat
  | NtpUnsupportedVersion u8
  | UnexpectedMode u8
  | KissOfDeath octets4
  | InvalidStratum u8
  | Unsynchronized
  | OriginateTimestampMismatch timestamp timestamp \<comment> \<open>expected, received\<close>

definition timestamp_zero :: timestamp where
  "timestamp_zero = \<lparr>ts_seconds = 0, ts_fraction = 0\<rparr>"

definition timestamp_raw :: "timestamp \<Rightarrow> u64" where
  "timestamp_raw t = push_bit 32 (ucast (ts_seconds t)) OR ucast (ts_fraction t)"

text \<open>\<^verbatim>\<open>checked_sub\<close>.\<close>

definition unix_seconds :: "timestamp \<Rightarrow> u32 option" where
  "unix_seconds t =
     (if ts_seconds t < UNIX_EPOCH_OFFSET_SECONDS then None
      else Some (ts_seconds t - UNIX_EPOCH_OFFSET_SECONDS))"

record server_response =
  sr_leap_indicator :: u8
  sr_version :: u8
  sr_stratum :: u8
  sr_poll :: u8
  sr_precision :: u8
  sr_root_delay :: u32
  sr_root_dispersion :: u32
  sr_reference_id :: octets4
  sr_reference_timestamp :: timestamp
  sr_originate_timestamp :: timestamp
  sr_receive_timestamp :: timestamp
  sr_transmit_timestamp :: timestamp

section \<open>Operations\<close>

definition read_array :: "bytes \<Rightarrow> nat \<Rightarrow> octets4" where
  "read_array bs offset = (bs ! offset, bs ! (offset + 1), bs ! (offset + 2), bs ! (offset + 3))"

definition read_u32 :: "bytes \<Rightarrow> nat \<Rightarrow> u32" where
  "read_u32 bs offset = from_be32 (read_array bs offset)"

definition write_u32 :: "bytes \<Rightarrow> nat \<Rightarrow> u32 \<Rightarrow> bytes" where
  "write_u32 bs offset value = write_slice bs offset (to_be32 value)"

definition read_timestamp :: "bytes \<Rightarrow> nat \<Rightarrow> timestamp" where
  "read_timestamp bs offset =
     \<lparr>ts_seconds = read_u32 bs offset, ts_fraction = read_u32 bs (offset + 4)\<rparr>"

definition write_timestamp :: "bytes \<Rightarrow> nat \<Rightarrow> timestamp \<Rightarrow> bytes" where
  "write_timestamp bs offset t =
     write_u32 (write_u32 bs offset (ts_seconds t)) (offset + 4) (ts_fraction t)"

definition ntp_parse :: "bytes \<Rightarrow> timestamp \<Rightarrow> (server_response, response_error) result" where
  "ntp_parse bs expected_originate =
     (if length bs < PACKET_LENGTH then Err (NtpTruncated (length bs))
      else
        (let first = bs ! 0;
             leap_indicator = drop_bit LI_SHIFT first;
             version = drop_bit VERSION_SHIFT first AND VERSION_MASK;
             mode = first AND MODE_MASK;
             stratum = bs ! 1;
             reference_id = read_array bs 12;
             originate_timestamp = read_timestamp bs 24
         in if \<not> (3 \<le> version \<and> version \<le> 4) then Err (NtpUnsupportedVersion version)
            else if mode \<noteq> MODE_SERVER then Err (UnexpectedMode mode)
            else if stratum = 0 then Err (KissOfDeath reference_id)
            else if stratum > 15 then Err (InvalidStratum stratum)
            else if leap_indicator = LEAP_UNSYNCHRONIZED then Err Unsynchronized
            else if originate_timestamp \<noteq> expected_originate then
              Err (OriginateTimestampMismatch expected_originate originate_timestamp)
            else Ok \<lparr>sr_leap_indicator = leap_indicator, sr_version = version, sr_stratum = stratum,
              sr_poll = bs ! 2, sr_precision = bs ! 3, sr_root_delay = read_u32 bs 4,
              sr_root_dispersion = read_u32 bs 8, sr_reference_id = reference_id,
              sr_reference_timestamp = read_timestamp bs 16, sr_originate_timestamp = originate_timestamp,
              sr_receive_timestamp = read_timestamp bs 32, sr_transmit_timestamp = read_timestamp bs 40\<rparr>))"

definition encode_client_request :: "timestamp \<Rightarrow> bytes \<Rightarrow> (nat, ntp_encode_error) result \<times> bytes" where
  "encode_client_request transmit_timestamp output =
     (if length output < PACKET_LENGTH then
        (Err (NtpOutputTooSmall PACKET_LENGTH (length output)), output)
      else
        (let packet = replicate PACKET_LENGTH 0;
             packet = packet[0 := push_bit VERSION_SHIFT 4 OR MODE_CLIENT];
             packet = write_timestamp packet 40 transmit_timestamp
         in (Ok PACKET_LENGTH, packet @ drop PACKET_LENGTH output)))"

section \<open>Requests\<close>

text \<open>
  The request on the wire. With room for 48 octets \<open>encode_client_request\<close> writes a version 4
  client packet that is zero but for its first octet and the transmit timestamp in the last eight, and
  leaves the rest of the buffer alone; otherwise it fails and the buffer is unchanged. The timestamp
  can be read back.
\<close>

theorem ntp_request_layout:
  "let (r, output') = encode_client_request t output in
   if 48 \<le> length output then
     r = Ok 48 \<and> output' = 0x23 # replicate 39 0 @ to_be32 (ts_seconds t) @ to_be32 (ts_fraction t) @ drop 48 output \<and>
     read_timestamp output' 40 = t
   else r = Err (NtpOutputTooSmall 48 (length output)) \<and> output' = output"
proof (cases "48 \<le> length output")
  case True
  obtain a b c d where s: "to_be32 (ts_seconds t) = [a, b, c, d]" "from_be32 (a, b, c, d) = ts_seconds t"
    by (rule to_be32_octets)
  obtain e f g h where r: "to_be32 (ts_fraction t) = [e, f, g, h]" "from_be32 (e, f, g, h) = ts_fraction t"
    by (rule to_be32_octets)
  have "replicate 48 (0 :: u8) = replicate 40 0 @ [0, 0, 0, 0] @ [0, 0, 0, 0]"
    by (simp add: numeral_eq_Suc)
  moreover have "replicate 40 (0 :: u8) = 0 # replicate 39 0" by (simp add: numeral_eq_Suc)
  ultimately have z: "(replicate 48 (0 :: u8))[0 := 0x23] = (0x23 # replicate 39 0) @ [0, 0, 0, 0] @ [0, 0, 0, 0]"
    by simp
  have w: "write_timestamp ((0x23 # replicate 39 0) @ [0, 0, 0, 0] @ [0, 0, 0, 0]) 40 t =
      (0x23 # replicate 39 0) @ [a, b, c, d] @ [e, f, g, h]"
    unfolding write_timestamp_def write_u32_def s r
    using write_slice_append [of 44 "(0x23 # replicate 39 0) @ [a, b, c, d]" "[0, 0, 0, 0]" "[e, f, g, h]" "[]"]
    by (subst write_slice_append) simp_all
  have first: "push_bit VERSION_SHIFT 4 OR MODE_CLIENT = 0x23" by (simp add: VERSION_SHIFT_def MODE_CLIENT_def)
  let ?o = "(0x23 # replicate 39 0) @ [a, b, c, d] @ [e, f, g, h] @ drop 48 output"
  have "read_timestamp ?o 40 = t"
    using s(2) r(2) by (simp add: read_timestamp_def read_u32_def read_array_def nth_append)
  then show ?thesis
    using True by (simp add: encode_client_request_def PACKET_LENGTH_def first z w [simplified] s r Let_def)
next
  case False
  then show ?thesis by (simp add: encode_client_request_def PACKET_LENGTH_def)
qed

section \<open>Responses\<close>

text \<open>A response in octets, and the values the client accepts in it.\<close>

definition timestamp_bytes :: "timestamp \<Rightarrow> bytes" where
  "timestamp_bytes t = to_be32 (ts_seconds t) @ to_be32 (ts_fraction t)"

definition response_bytes :: "server_response \<Rightarrow> bytes" where
  "response_bytes r =
     [of_nat (64 * unat (sr_leap_indicator r) + 8 * unat (sr_version r) + 4), sr_stratum r, sr_poll r,
      sr_precision r] @
     to_be32 (sr_root_delay r) @ to_be32 (sr_root_dispersion r) @ octets4_list (sr_reference_id r) @
     timestamp_bytes (sr_reference_timestamp r) @ timestamp_bytes (sr_originate_timestamp r) @
     timestamp_bytes (sr_receive_timestamp r) @ timestamp_bytes (sr_transmit_timestamp r)"

definition acceptable_response :: "server_response \<Rightarrow> bool" where
  "acceptable_response r \<longleftrightarrow>
     sr_leap_indicator r \<in> {0, 1, 2} \<and> sr_version r \<in> {3, 4} \<and> 1 \<le> sr_stratum r \<and> sr_stratum r \<le> 15"

lemma length_timestamp_bytes [simp]: "length (timestamp_bytes t) = 8"
  by (simp add: timestamp_bytes_def)

lemma length_response_bytes [simp]: "length (response_bytes r) = 48"
  by (simp add: response_bytes_def)

lemma read_u32_append:
  "length xs = n \<Longrightarrow> read_u32 (xs @ to_be32 w @ ys) n = w"
  by (rule to_be32_octets [of w]) (simp add: read_u32_def read_array_def nth_append)

lemma read_timestamp_append:
  "length xs = n \<Longrightarrow> read_timestamp (xs @ timestamp_bytes t @ ys) n = t"
  using read_u32_append [of xs n "ts_seconds t" "to_be32 (ts_fraction t) @ ys"]
    read_u32_append [of "xs @ to_be32 (ts_seconds t)" "n + 4" "ts_fraction t" ys]
  by (simp add: read_timestamp_def timestamp_bytes_def)

lemma read_array_append: "length xs = n \<Longrightarrow> read_array (xs @ octets4_list q @ ys) n = q"
  by (cases q) (simp add: read_array_def octets4_list_def nth_append)

lemma response_fields:
  "read_u32 (response_bytes r @ pad) 4 = sr_root_delay r"
  "read_u32 (response_bytes r @ pad) 8 = sr_root_dispersion r"
  "read_array (response_bytes r @ pad) 12 = sr_reference_id r"
  "read_timestamp (response_bytes r @ pad) 16 = sr_reference_timestamp r"
  "read_timestamp (response_bytes r @ pad) 24 = sr_originate_timestamp r"
  "read_timestamp (response_bytes r @ pad) 32 = sr_receive_timestamp r"
  "read_timestamp (response_bytes r @ pad) 40 = sr_transmit_timestamp r"
proof -
  let ?a = "[of_nat (64 * unat (sr_leap_indicator r) + 8 * unat (sr_version r) + 4), sr_stratum r, sr_poll r,
      sr_precision r]"
  let ?b = "?a @ to_be32 (sr_root_delay r)"
  let ?c = "?b @ to_be32 (sr_root_dispersion r)"
  let ?d = "?c @ octets4_list (sr_reference_id r)"
  let ?e = "?d @ timestamp_bytes (sr_reference_timestamp r)"
  let ?f = "?e @ timestamp_bytes (sr_originate_timestamp r)"
  let ?g = "?f @ timestamp_bytes (sr_receive_timestamp r)"
  note eq = response_bytes_def append_assoc
  show "read_u32 (response_bytes r @ pad) 4 = sr_root_delay r"
    using read_u32_append [of ?a 4] by (simp only: eq) simp
  show "read_u32 (response_bytes r @ pad) 8 = sr_root_dispersion r"
    using read_u32_append [of ?b 8] by (simp only: eq) simp
  show "read_array (response_bytes r @ pad) 12 = sr_reference_id r"
    using read_array_append [of ?c 12] by (simp only: eq) simp
  show "read_timestamp (response_bytes r @ pad) 16 = sr_reference_timestamp r"
    using read_timestamp_append [of ?d 16] by (simp only: eq) simp
  show "read_timestamp (response_bytes r @ pad) 24 = sr_originate_timestamp r"
    using read_timestamp_append [of ?e 24] by (simp only: eq) simp
  show "read_timestamp (response_bytes r @ pad) 32 = sr_receive_timestamp r"
    using read_timestamp_append [of ?f 32] by (simp only: eq) simp
  show "read_timestamp (response_bytes r @ pad) 40 = sr_transmit_timestamp r"
    using read_timestamp_append [of ?g 40] by (simp only: eq) simp
qed

lemma response_first:
  assumes "acceptable_response r" "w = of_nat (64 * unat (sr_leap_indicator r) + 8 * unat (sr_version r) + 4)"
  shows "drop_bit LI_SHIFT w = sr_leap_indicator r" "drop_bit VERSION_SHIFT w AND VERSION_MASK = sr_version r"
    "w AND MODE_MASK = MODE_SERVER"
  using assms
  by (auto simp: acceptable_response_def LI_SHIFT_def VERSION_SHIFT_def VERSION_MASK_def MODE_MASK_def MODE_SERVER_def)

lemma ntp_parse_response:
  assumes "acceptable_response r"
  shows "ntp_parse (response_bytes r @ pad) (sr_originate_timestamp r) = Ok r"
proof -
  have i: "(response_bytes r @ pad) ! 0 = of_nat (64 * unat (sr_leap_indicator r) + 8 * unat (sr_version r) + 4)"
    "(response_bytes r @ pad) ! 1 = sr_stratum r" "(response_bytes r @ pad) ! 2 = sr_poll r"
    "(response_bytes r @ pad) ! 3 = sr_precision r"
    by (simp_all add: response_bytes_def)
  have ranges: "3 \<le> sr_version r" "sr_version r \<le> 4" "sr_leap_indicator r \<noteq> 3" "sr_stratum r \<noteq> 0" "\<not> 15 < sr_stratum r"
    using assms by (auto simp: acceptable_response_def)
  show ?thesis
    unfolding ntp_parse_def Let_def response_fields i
    using response_first [OF assms refl] ranges
    by (simp add: PACKET_LENGTH_def LEAP_UNSYNCHRONIZED_def del: of_nat_add of_nat_mult)
qed

lemma timestamp_bytes_read:
  assumes "n + 8 \<le> length bs"
  shows "timestamp_bytes (read_timestamp bs n) = take 8 (drop n bs)"
proof -
  have "drop n bs = bs ! n # bs ! (n + 1) # bs ! (n + 2) # bs ! (n + 3) # bs ! (n + 4) # bs ! (n + 5) #
      bs ! (n + 6) # bs ! (n + 7) # drop (n + 8) bs"
    using assms by (simp add: Cons_nth_drop_Suc numeral_eq_Suc)
  then show ?thesis
    by (simp add: timestamp_bytes_def read_timestamp_def read_u32_def read_array_def to_from_be32 ac_simps)
qed

lemma u32_bytes_read:
  assumes "n + 4 \<le> length bs"
  shows "to_be32 (read_u32 bs n) = take 4 (drop n bs)" "octets4_list (read_array bs n) = take 4 (drop n bs)"
proof -
  have "drop n bs = bs ! n # bs ! (n + 1) # bs ! (n + 2) # bs ! (n + 3) # drop (n + 4) bs"
    using assms by (simp add: Cons_nth_drop_Suc numeral_eq_Suc)
  then show "to_be32 (read_u32 bs n) = take 4 (drop n bs)" "octets4_list (read_array bs n) = take 4 (drop n bs)"
    by (simp_all add: read_u32_def read_array_def to_from_be32 octets4_list_def)
qed

lemma first_octet_fields:
  "of_nat (64 * unat (drop_bit LI_SHIFT w) + 8 * unat (drop_bit VERSION_SHIFT w AND VERSION_MASK) +
     unat (w AND MODE_MASK)) = (w :: u8)"
proof -
  have low: "x AND 7 = take_bit 3 x" for x :: u8 by (simp add: take_bit_eq_mask mask_eq_exp_minus_1)
  have "unat w = 64 * (unat w div 64) + 8 * (unat w div 8 mod 8) + unat w mod 8"
  proof -
    have "unat w div 64 = unat w div 8 div 8" by (simp add: div_mult2_eq [symmetric])
    moreover have "unat w div 8 = 8 * (unat w div 8 div 8) + unat w div 8 mod 8"
      by (rule mult_div_mod_eq [symmetric])
    moreover have "unat w = 8 * (unat w div 8) + unat w mod 8" by (rule mult_div_mod_eq [symmetric])
    ultimately show ?thesis by linarith
  qed
  moreover have "unat (drop_bit LI_SHIFT w) = unat w div 64" "unat (w AND MODE_MASK) = unat w mod 8"
    "unat (drop_bit VERSION_SHIFT w AND VERSION_MASK) = unat w div 8 mod 8"
    unfolding LI_SHIFT_def VERSION_SHIFT_def VERSION_MASK_def MODE_MASK_def low
    by (simp_all only: unsigned_take_bit_eq unat_drop_bit_eq) (simp_all add: drop_bit_eq_div take_bit_eq_mod)
  ultimately show ?thesis by (simp flip: \<open>unat w = _\<close>)
qed

lemma take_48:
  assumes "48 \<le> length bs"
  shows "take 48 bs = [bs ! 0, bs ! 1, bs ! 2, bs ! 3] @ take 4 (drop 4 bs) @ take 4 (drop 8 bs) @
    take 4 (drop 12 bs) @ take 8 (drop 16 bs) @ take 8 (drop 24 bs) @ take 8 (drop 32 bs) @ take 8 (drop 40 bs)"
proof -
  have "4 \<le> length bs" using assms by simp
  then obtain a b c d rest where "bs = a # b # c # d # rest"
    by (auto simp: numeral_eq_Suc Suc_le_length_iff)
  then have "take 4 bs = [bs ! 0, bs ! 1, bs ! 2, bs ! 3]" by simp
  moreover have "take 48 bs = take 4 bs @ take 44 (drop 4 bs)" using take_add [of 4 44 bs] by simp
  moreover have "take 44 (drop 4 bs) = take 4 (drop 4 bs) @ take 40 (drop 8 bs)"
    using take_add [of 4 40 "drop 4 bs"] by simp
  moreover have "take 40 (drop 8 bs) = take 4 (drop 8 bs) @ take 36 (drop 12 bs)"
    using take_add [of 4 36 "drop 8 bs"] by simp
  moreover have "take 36 (drop 12 bs) = take 4 (drop 12 bs) @ take 32 (drop 16 bs)"
    using take_add [of 4 32 "drop 12 bs"] by simp
  moreover have "take 32 (drop 16 bs) = take 8 (drop 16 bs) @ take 24 (drop 24 bs)"
    using take_add [of 8 24 "drop 16 bs"] by simp
  moreover have "take 24 (drop 24 bs) = take 8 (drop 24 bs) @ take 16 (drop 32 bs)"
    using take_add [of 8 16 "drop 24 bs"] by simp
  moreover have "take 16 (drop 32 bs) = take 8 (drop 32 bs) @ take 8 (drop 40 bs)"
    using take_add [of 8 8 "drop 32 bs"] by simp
  ultimately show ?thesis by simp
qed

lemma leap_range: "drop_bit LI_SHIFT w \<noteq> LEAP_UNSYNCHRONIZED \<Longrightarrow> drop_bit LI_SHIFT (w :: u8) \<in> {0, 1, 2}"
proof -
  have "unat (drop_bit LI_SHIFT w) = unat w div 64"
    unfolding LI_SHIFT_def by (simp only: unat_drop_bit_eq) (simp add: drop_bit_eq_div)
  moreover have "unat w div 64 < 4" by (simp add: less_mult_imp_div_less)
  ultimately show "drop_bit LI_SHIFT w \<noteq> LEAP_UNSYNCHRONIZED \<Longrightarrow> drop_bit LI_SHIFT w \<in> {0, 1, 2}"
    by (auto simp: LEAP_UNSYNCHRONIZED_def word_unat_eq_iff)
qed

lemma ntp_parse_sound:
  assumes "ntp_parse bs expected = Ok r"
  shows "acceptable_response r \<and> sr_originate_timestamp r = expected \<and> 48 \<le> length bs \<and>
    take 48 bs = response_bytes r"
proof -
  let ?w = "bs ! 0"
  from assms have len: "48 \<le> length bs"
    by (auto simp: ntp_parse_def PACKET_LENGTH_def split: if_splits)
  from assms have c: "3 \<le> drop_bit VERSION_SHIFT ?w AND VERSION_MASK"
      "drop_bit VERSION_SHIFT ?w AND VERSION_MASK \<le> 4" "?w AND MODE_MASK = MODE_SERVER" "bs ! 1 \<noteq> 0"
      "\<not> 15 < bs ! 1" "drop_bit LI_SHIFT ?w \<noteq> LEAP_UNSYNCHRONIZED" "read_timestamp bs 24 = expected"
    and r: "r = \<lparr>sr_leap_indicator = drop_bit LI_SHIFT ?w, sr_version = drop_bit VERSION_SHIFT ?w AND VERSION_MASK,
      sr_stratum = bs ! 1, sr_poll = bs ! 2, sr_precision = bs ! 3, sr_root_delay = read_u32 bs 4,
      sr_root_dispersion = read_u32 bs 8, sr_reference_id = read_array bs 12,
      sr_reference_timestamp = read_timestamp bs 16, sr_originate_timestamp = read_timestamp bs 24,
      sr_receive_timestamp = read_timestamp bs 32, sr_transmit_timestamp = read_timestamp bs 40\<rparr>"
    by (auto simp: ntp_parse_def Let_def split: if_splits)
  have "of_nat (64 * unat (drop_bit LI_SHIFT ?w) + 8 * unat (drop_bit VERSION_SHIFT ?w AND VERSION_MASK) + 4) = ?w"
    using first_octet_fields [of ?w] unfolding c(3) by (simp add: MODE_SERVER_def)
  then have "response_bytes r = take 48 bs"
    unfolding response_bytes_def r take_48 [OF len] using len
    by (simp add: u32_bytes_read timestamp_bytes_read del: of_nat_add of_nat_mult)
  moreover have "drop_bit VERSION_SHIFT ?w AND VERSION_MASK \<in> {3, 4}"
    using c(1,2) by (auto simp: word_le_nat_alt word_unat_eq_iff)
  moreover have "1 \<le> bs ! 1" using c(4) by (simp add: word_le_nat_alt unat_gt_0 Suc_leI)
  ultimately show ?thesis
    using c leap_range [OF c(6)] len by (simp add: r acceptable_response_def not_less)
qed

text \<open>
  Exactly the synchronised answers to the outstanding request are accepted. The client
  accepts input of at least 48 octets whose first 48 encode a server response of version 3 or 4 with a
  leap indicator other than 3 and a stratum from 1 to 15, and whose originate timestamp is the one it
  sent; it then reads every field as encoded, and it accepts nothing else.
\<close>

theorem ntp_accepts_exactly:
  "ntp_parse bs expected = Ok r \<longleftrightarrow>
     acceptable_response r \<and> sr_originate_timestamp r = expected \<and> 48 \<le> length bs \<and>
     take 48 bs = response_bytes r"
proof
  assume "ntp_parse bs expected = Ok r"
  then show "acceptable_response r \<and> sr_originate_timestamp r = expected \<and> 48 \<le> length bs \<and>
     take 48 bs = response_bytes r" by (rule ntp_parse_sound)
next
  assume a: "acceptable_response r \<and> sr_originate_timestamp r = expected \<and> 48 \<le> length bs \<and>
     take 48 bs = response_bytes r"
  then have "bs = response_bytes r @ drop 48 bs" by (metis append_take_drop_id)
  with a ntp_parse_response [of r "drop 48 bs"] show "ntp_parse bs expected = Ok r" by simp
qed

section \<open>Unix time\<close>

text \<open>
  Timestamps give Unix seconds in NTP era 0 only. The timestamp of a Unix time below
  2085978496 (7 February 2036, 06:28:16 UTC) converts back to it; the seconds field of a later time
  has wrapped around, and up to the end of the 32-bit Unix range the conversion gives no time at all
  rather than a wrong one.
\<close>

theorem ntp_unix_seconds_era:
  "unix_seconds \<lparr>ts_seconds = u + UNIX_EPOCH_OFFSET_SECONDS, ts_fraction = f\<rparr> =
     (if unat u < 2085978496 then Some u else None)"
proof (cases "unat u < 2085978496")
  case True
  then have "unat (u + UNIX_EPOCH_OFFSET_SECONDS) = unat u + 2208988800"
    by (subst unat_add_lem [THEN iffD1]) (simp_all add: UNIX_EPOCH_OFFSET_SECONDS_def)
  then have "\<not> u + UNIX_EPOCH_OFFSET_SECONDS < UNIX_EPOCH_OFFSET_SECONDS"
    by (simp add: word_less_nat_alt UNIX_EPOCH_OFFSET_SECONDS_def)
  with True show ?thesis by (simp add: unix_seconds_def)
next
  case False
  have "unat u < 4294967296" using unsigned_less [of u, where 'a = nat] by simp
  then have "unat (u + UNIX_EPOCH_OFFSET_SECONDS) = unat u + 2208988800 - 4294967296"
    using False by (simp add: unat_plus_if' UNIX_EPOCH_OFFSET_SECONDS_def)
  then have "u + UNIX_EPOCH_OFFSET_SECONDS < UNIX_EPOCH_OFFSET_SECONDS"
    using \<open>unat u < 4294967296\<close> by (simp add: word_less_nat_alt UNIX_EPOCH_OFFSET_SECONDS_def)
  with False show ?thesis by (simp add: unix_seconds_def)
qed

end
