(* ===== verification/Diagnostic_Abi.thy ===== *)
theory Diagnostic_Abi
  imports Prelude
begin

text \<open>
  The constants of \<^verbatim>\<open>crates/ndm24-protocol/src/generated.rs\<close> that the decoders of the diagnostic
  blocks use: magic numbers, versions, sizes, the octet offset of every field, the mailbox, the driver states and
  the masks of the receive decision. The collection \<open>abi\<close> evaluates them.
\<close>

named_theorems abi \<open>the values of the generated constants\<close>

section \<open>The receive decision\<close>

definition MODEM_RX_PRESENT_ASSERTED :: nat where [abi]: "MODEM_RX_PRESENT_ASSERTED = 128"
definition MODEM_RX_PRESENT_MASK :: nat where [abi]: "MODEM_RX_PRESENT_MASK = 128"
definition MODEM_STATUS_TRANSFER_HINT_MASK :: nat where [abi]: "MODEM_STATUS_TRANSFER_HINT_MASK = 64"
definition MODEM_DISCARD_FULL_REPORT :: u8 where [abi]: "MODEM_DISCARD_FULL_REPORT = 1"
definition MODEM_DISCARD_NO_DATA :: u8 where [abi]: "MODEM_DISCARD_NO_DATA = 3"
definition MODEM_DISCARD_NONE :: u8 where [abi]: "MODEM_DISCARD_NONE = 0"

section \<open>Driver states\<close>

definition MODEM_STATE_AT_COMMAND :: u8 where [abi]: "MODEM_STATE_AT_COMMAND = 5"
definition MODEM_STATE_CONNECTED :: u8 where [abi]: "MODEM_STATE_CONNECTED = 7"
definition MODEM_STATE_DIALING :: u8 where [abi]: "MODEM_STATE_DIALING = 6"
definition MODEM_STATE_DISCONNECTING :: u8 where [abi]: "MODEM_STATE_DISCONNECTING = 8"
definition MODEM_STATE_ERROR :: u8 where [abi]: "MODEM_STATE_ERROR = 4"
definition MODEM_STATE_OFF :: u8 where [abi]: "MODEM_STATE_OFF = 0"
definition MODEM_STATE_PROBING :: u8 where [abi]: "MODEM_STATE_PROBING = 2"
definition MODEM_STATE_READY :: u8 where [abi]: "MODEM_STATE_READY = 3"
definition MODEM_STATE_RESETTING :: u8 where [abi]: "MODEM_STATE_RESETTING = 1"

section \<open>The modem block\<close>

definition MODEM_DIAGNOSTIC_MAGIC :: bytes where [abi]: "MODEM_DIAGNOSTIC_MAGIC = [78, 68, 77, 50]"
definition MODEM_DIAGNOSTIC_VERSION :: u16 where [abi]: "MODEM_DIAGNOSTIC_VERSION = 2"
definition MODEM_DIAGNOSTIC_SIZE :: nat where [abi]: "MODEM_DIAGNOSTIC_SIZE = 128"
definition MODEM_TRACE_EVENT_SIZE :: nat where [abi]: "MODEM_TRACE_EVENT_SIZE = 16"
definition MODEM_TRACE_SIZE :: nat where [abi]: "MODEM_TRACE_SIZE = 4096"
definition MODEM_DIAG_MAGIC :: nat where [abi]: "MODEM_DIAG_MAGIC = 0"
definition MODEM_DIAG_VERSION :: nat where [abi]: "MODEM_DIAG_VERSION = 4"
definition MODEM_DIAG_SIZE :: nat where [abi]: "MODEM_DIAG_SIZE = 6"
definition MODEM_DIAG_SNAPSHOT_SEQUENCE :: nat where [abi]: "MODEM_DIAG_SNAPSHOT_SEQUENCE = 8"
definition MODEM_DIAG_DRIVER_STATE :: nat where [abi]: "MODEM_DIAG_DRIVER_STATE = 12"
definition MODEM_DIAG_FLAGS :: nat where [abi]: "MODEM_DIAG_FLAGS = 13"
definition MODEM_DIAG_LAST_ERROR :: nat where [abi]: "MODEM_DIAG_LAST_ERROR = 14"
definition MODEM_DIAG_LAST_DISCARD_REASON :: nat where [abi]: "MODEM_DIAG_LAST_DISCARD_REASON = 15"
definition MODEM_DIAG_POLL_TICK :: nat where [abi]: "MODEM_DIAG_POLL_TICK = 16"
definition MODEM_DIAG_TRACE_FROZEN :: nat where [abi]: "MODEM_DIAG_TRACE_FROZEN = 17"
definition MODEM_DIAG_RX_READ_INDEX :: nat where [abi]: "MODEM_DIAG_RX_READ_INDEX = 18"
definition MODEM_DIAG_RX_WRITE_INDEX :: nat where [abi]: "MODEM_DIAG_RX_WRITE_INDEX = 19"
definition MODEM_DIAG_TX_READ_INDEX :: nat where [abi]: "MODEM_DIAG_TX_READ_INDEX = 20"
definition MODEM_DIAG_TX_WRITE_INDEX :: nat where [abi]: "MODEM_DIAG_TX_WRITE_INDEX = 21"
definition MODEM_DIAG_LAST_RX_BYTE :: nat where [abi]: "MODEM_DIAG_LAST_RX_BYTE = 22"
definition MODEM_DIAG_LAST_TX_BYTE :: nat where [abi]: "MODEM_DIAG_LAST_TX_BYTE = 23"
definition MODEM_DIAG_LAST_DATA_REPORT :: nat where [abi]: "MODEM_DIAG_LAST_DATA_REPORT = 24"
definition MODEM_DIAG_LAST_STATUS_REPORT :: nat where [abi]: "MODEM_DIAG_LAST_STATUS_REPORT = 26"
definition MODEM_DIAG_TRACE_NEXT_SEQUENCE :: nat where [abi]: "MODEM_DIAG_TRACE_NEXT_SEQUENCE = 28"
definition MODEM_DIAG_RX_ACCEPTED :: nat where [abi]: "MODEM_DIAG_RX_ACCEPTED = 32"
definition MODEM_DIAG_RX_DISCARDED :: nat where [abi]: "MODEM_DIAG_RX_DISCARDED = 36"
definition MODEM_DIAG_TX_BYTES :: nat where [abi]: "MODEM_DIAG_TX_BYTES = 40"
definition MODEM_DIAG_RX_OVERFLOW :: nat where [abi]: "MODEM_DIAG_RX_OVERFLOW = 44"
definition MODEM_DIAG_TX_OVERFLOW :: nat where [abi]: "MODEM_DIAG_TX_OVERFLOW = 48"
definition MODEM_DIAG_POLL_BUDGET_YIELD :: nat where [abi]: "MODEM_DIAG_POLL_BUDGET_YIELD = 52"
definition MODEM_DIAG_TIMEOUT :: nat where [abi]: "MODEM_DIAG_TIMEOUT = 56"
definition MODEM_DIAG_REINITIALIZE :: nat where [abi]: "MODEM_DIAG_REINITIALIZE = 60"
definition MODEM_DIAG_TRACE_OVERWRITTEN :: nat where [abi]: "MODEM_DIAG_TRACE_OVERWRITTEN = 64"
definition MODEM_DIAG_RESET_START_FRAME :: nat where [abi]: "MODEM_DIAG_RESET_START_FRAME = 68"
definition MODEM_DIAG_TERMINAL_DROPPED :: nat where [abi]: "MODEM_DIAG_TERMINAL_DROPPED = 72"
definition MODEM_DIAG_AT_STATUS :: nat where [abi]: "MODEM_DIAG_AT_STATUS = 76"
definition MODEM_DIAG_AT_EXPECTED_RESULT :: nat where [abi]: "MODEM_DIAG_AT_EXPECTED_RESULT = 77"
definition MODEM_DIAG_SESSION_LAST_RESULT :: nat where [abi]: "MODEM_DIAG_SESSION_LAST_RESULT = 78"
definition MODEM_DIAG_SESSION_LINE_LENGTH :: nat where [abi]: "MODEM_DIAG_SESSION_LINE_LENGTH = 79"
definition MODEM_DIAG_AT_START_FRAME :: nat where [abi]: "MODEM_DIAG_AT_START_FRAME = 80"

section \<open>The mailbox\<close>

definition MODEM_MAILBOX_MAGIC :: bytes where [abi]: "MODEM_MAILBOX_MAGIC = [78, 68, 77, 67]"
definition MODEM_MAILBOX_VERSION :: u16 where [abi]: "MODEM_MAILBOX_VERSION = 10"
definition MODEM_MAILBOX_SIZE :: nat where [abi]: "MODEM_MAILBOX_SIZE = 96"
definition MODEM_MAILBOX_ARGUMENT_SIZE :: nat where [abi]: "MODEM_MAILBOX_ARGUMENT_SIZE = 32"
definition MODEM_RING_STORAGE_SIZE :: nat where [abi]: "MODEM_RING_STORAGE_SIZE = 256"
definition MODEM_MAILBOX_OFFSET_MAGIC :: nat where [abi]: "MODEM_MAILBOX_OFFSET_MAGIC = 0"
definition MODEM_MAILBOX_OFFSET_VERSION :: nat where [abi]: "MODEM_MAILBOX_OFFSET_VERSION = 4"
definition MODEM_MAILBOX_OFFSET_BLOCK_SIZE :: nat where [abi]: "MODEM_MAILBOX_OFFSET_BLOCK_SIZE = 6"
definition MODEM_MAILBOX_OFFSET_HOST_SEQUENCE :: nat where [abi]: "MODEM_MAILBOX_OFFSET_HOST_SEQUENCE = 8"
definition MODEM_MAILBOX_OFFSET_PROCESSED_SEQUENCE :: nat where [abi]: "MODEM_MAILBOX_OFFSET_PROCESSED_SEQUENCE = 12"
definition MODEM_MAILBOX_OFFSET_COMMAND :: nat where [abi]: "MODEM_MAILBOX_OFFSET_COMMAND = 16"
definition MODEM_MAILBOX_OFFSET_STATUS :: nat where [abi]: "MODEM_MAILBOX_OFFSET_STATUS = 17"
definition MODEM_MAILBOX_OFFSET_RESULT :: nat where [abi]: "MODEM_MAILBOX_OFFSET_RESULT = 18"
definition MODEM_MAILBOX_OFFSET_ARGUMENTS :: nat where [abi]: "MODEM_MAILBOX_OFFSET_ARGUMENTS = 20"
definition MODEM_MAILBOX_OFFSET_OUTPUT :: nat where [abi]: "MODEM_MAILBOX_OFFSET_OUTPUT = 52"
definition MODEM_MAILBOX_COMMAND_AT_TRANSACTION :: u8 where [abi]: "MODEM_MAILBOX_COMMAND_AT_TRANSACTION = 6"
definition MODEM_MAILBOX_COMMAND_DNS_QUERY :: u8 where [abi]: "MODEM_MAILBOX_COMMAND_DNS_QUERY = 15"
definition MODEM_MAILBOX_COMMAND_ICMP_ECHO_REQUEST :: u8 where [abi]: "MODEM_MAILBOX_COMMAND_ICMP_ECHO_REQUEST = 14"
definition MODEM_MAILBOX_COMMAND_NTP_REQUEST :: u8 where [abi]: "MODEM_MAILBOX_COMMAND_NTP_REQUEST = 13"
definition MODEM_MAILBOX_COMMAND_PAP_CREDENTIALS_CLEAR :: u8 where [abi]: "MODEM_MAILBOX_COMMAND_PAP_CREDENTIALS_CLEAR = 18"
definition MODEM_MAILBOX_COMMAND_PAP_PASSWORD_SET :: u8 where [abi]: "MODEM_MAILBOX_COMMAND_PAP_PASSWORD_SET = 20"
definition MODEM_MAILBOX_COMMAND_PAP_PEER_ID_SET :: u8 where [abi]: "MODEM_MAILBOX_COMMAND_PAP_PEER_ID_SET = 19"
definition MODEM_MAILBOX_COMMAND_PPP_CLOSE :: u8 where [abi]: "MODEM_MAILBOX_COMMAND_PPP_CLOSE = 16"
definition MODEM_MAILBOX_COMMAND_PPP_OPEN :: u8 where [abi]: "MODEM_MAILBOX_COMMAND_PPP_OPEN = 17"
definition MODEM_MAILBOX_COMMAND_PPP_RECEIVE_START :: u8 where [abi]: "MODEM_MAILBOX_COMMAND_PPP_RECEIVE_START = 11"
definition MODEM_MAILBOX_COMMAND_PPP_RECEIVE_STOP :: u8 where [abi]: "MODEM_MAILBOX_COMMAND_PPP_RECEIVE_STOP = 12"
definition MODEM_MAILBOX_STATUS_FAILED :: u8 where [abi]: "MODEM_MAILBOX_STATUS_FAILED = 4"
definition MODEM_MAILBOX_STATUS_PASSED :: u8 where [abi]: "MODEM_MAILBOX_STATUS_PASSED = 3"

section \<open>The PPP block\<close>

definition PPP_DIAGNOSTIC_MAGIC :: bytes where [abi]: "PPP_DIAGNOSTIC_MAGIC = [80, 80, 80, 49]"
definition PPP_DIAGNOSTIC_VERSION :: u16 where [abi]: "PPP_DIAGNOSTIC_VERSION = 22"
definition PPP_DIAGNOSTIC_SIZE :: nat where [abi]: "PPP_DIAGNOSTIC_SIZE = 511"
definition PPP_DIAG_MAGIC :: nat where [abi]: "PPP_DIAG_MAGIC = 0"
definition PPP_DIAG_VERSION :: nat where [abi]: "PPP_DIAG_VERSION = 4"
definition PPP_DIAG_SIZE :: nat where [abi]: "PPP_DIAG_SIZE = 6"
definition PPP_DIAG_SNAPSHOT_SEQUENCE :: nat where [abi]: "PPP_DIAG_SNAPSHOT_SEQUENCE = 8"
definition PPP_DIAG_RECEIVE_ENABLED :: nat where [abi]: "PPP_DIAG_RECEIVE_ENABLED = 12"
definition PPP_DIAG_RECEIVE_ACTIVE :: nat where [abi]: "PPP_DIAG_RECEIVE_ACTIVE = 13"
definition PPP_DIAG_FRAME_READY :: nat where [abi]: "PPP_DIAG_FRAME_READY = 14"
definition PPP_DIAG_RECEIVE_LAST_EVENT :: nat where [abi]: "PPP_DIAG_RECEIVE_LAST_EVENT = 15"
definition PPP_DIAG_RECEIVE_LAST_INVALID_REASON :: nat where [abi]: "PPP_DIAG_RECEIVE_LAST_INVALID_REASON = 16"
definition PPP_DIAG_DECODER_FLAGS :: nat where [abi]: "PPP_DIAG_DECODER_FLAGS = 17"
definition PPP_DIAG_TRANSMIT_ACTIVE :: nat where [abi]: "PPP_DIAG_TRANSMIT_ACTIVE = 18"
definition PPP_DIAG_TRANSMIT_STAGE :: nat where [abi]: "PPP_DIAG_TRANSMIT_STAGE = 19"
definition PPP_DIAG_TRANSMIT_ESCAPE_SECOND :: nat where [abi]: "PPP_DIAG_TRANSMIT_ESCAPE_SECOND = 20"
definition PPP_DIAG_TRANSMIT_LAST_WIRE_BYTE :: nat where [abi]: "PPP_DIAG_TRANSMIT_LAST_WIRE_BYTE = 21"
definition PPP_DIAG_LAST_PROTOCOL :: nat where [abi]: "PPP_DIAG_LAST_PROTOCOL = 22"
definition PPP_DIAG_LAST_FRAME_LENGTH :: nat where [abi]: "PPP_DIAG_LAST_FRAME_LENGTH = 24"
definition PPP_DIAG_DECODER_LENGTH :: nat where [abi]: "PPP_DIAG_DECODER_LENGTH = 26"
definition PPP_DIAG_DECODER_FCS :: nat where [abi]: "PPP_DIAG_DECODER_FCS = 28"
definition PPP_DIAG_TRANSMIT_LENGTH :: nat where [abi]: "PPP_DIAG_TRANSMIT_LENGTH = 30"
definition PPP_DIAG_TRANSMIT_POSITION :: nat where [abi]: "PPP_DIAG_TRANSMIT_POSITION = 32"
definition PPP_DIAG_TRANSMIT_FCS :: nat where [abi]: "PPP_DIAG_TRANSMIT_FCS = 34"
definition PPP_DIAG_RECEIVE_BYTE_COUNT :: nat where [abi]: "PPP_DIAG_RECEIVE_BYTE_COUNT = 36"
definition PPP_DIAG_RECEIVE_FRAME_COUNT :: nat where [abi]: "PPP_DIAG_RECEIVE_FRAME_COUNT = 40"
definition PPP_DIAG_RECEIVE_FCS_ERROR_COUNT :: nat where [abi]: "PPP_DIAG_RECEIVE_FCS_ERROR_COUNT = 44"
definition PPP_DIAG_RECEIVE_INVALID_COUNT :: nat where [abi]: "PPP_DIAG_RECEIVE_INVALID_COUNT = 48"
definition PPP_DIAG_RECEIVE_OVERFLOW_COUNT :: nat where [abi]: "PPP_DIAG_RECEIVE_OVERFLOW_COUNT = 52"
definition PPP_DIAG_RECEIVE_DRAIN_BUDGET_YIELD_COUNT :: nat where [abi]: "PPP_DIAG_RECEIVE_DRAIN_BUDGET_YIELD_COUNT = 56"
definition PPP_DIAG_TRANSMIT_WIRE_BYTE_COUNT :: nat where [abi]: "PPP_DIAG_TRANSMIT_WIRE_BYTE_COUNT = 60"
definition PPP_DIAG_TRANSMIT_FRAME_COUNT :: nat where [abi]: "PPP_DIAG_TRANSMIT_FRAME_COUNT = 64"
definition PPP_DIAG_TRANSMIT_BACKPRESSURE_COUNT :: nat where [abi]: "PPP_DIAG_TRANSMIT_BACKPRESSURE_COUNT = 68"
definition PPP_DIAG_TRANSMIT_ABORT_COUNT :: nat where [abi]: "PPP_DIAG_TRANSMIT_ABORT_COUNT = 72"
definition PPP_DIAG_LCP_STATE :: nat where [abi]: "PPP_DIAG_LCP_STATE = 76"
definition PPP_DIAG_LCP_LAST_CODE :: nat where [abi]: "PPP_DIAG_LCP_LAST_CODE = 77"
definition PPP_DIAG_LCP_LAST_IDENTIFIER :: nat where [abi]: "PPP_DIAG_LCP_LAST_IDENTIFIER = 78"
definition PPP_DIAG_LCP_LAST_ERROR :: nat where [abi]: "PPP_DIAG_LCP_LAST_ERROR = 79"
definition PPP_DIAG_LCP_REQUEST_IDENTIFIER :: nat where [abi]: "PPP_DIAG_LCP_REQUEST_IDENTIFIER = 80"
definition PPP_DIAG_LCP_RESTART_REMAINING :: nat where [abi]: "PPP_DIAG_LCP_RESTART_REMAINING = 81"
definition PPP_DIAG_LCP_PEER_FLAGS :: nat where [abi]: "PPP_DIAG_LCP_PEER_FLAGS = 82"
definition PPP_DIAG_LCP_PENDING_ACTION :: nat where [abi]: "PPP_DIAG_LCP_PENDING_ACTION = 83"
definition PPP_DIAG_LCP_PACKET_LENGTH :: nat where [abi]: "PPP_DIAG_LCP_PACKET_LENGTH = 84"
definition PPP_DIAG_LCP_PEER_MRU :: nat where [abi]: "PPP_DIAG_LCP_PEER_MRU = 86"
definition PPP_DIAG_LCP_PEER_ACCM :: nat where [abi]: "PPP_DIAG_LCP_PEER_ACCM = 88"
definition PPP_DIAG_LCP_RECEIVE_COUNT :: nat where [abi]: "PPP_DIAG_LCP_RECEIVE_COUNT = 92"
definition PPP_DIAG_LCP_TIMER_ACTIVE :: nat where [abi]: "PPP_DIAG_LCP_TIMER_ACTIVE = 96"
definition PPP_DIAG_LCP_DEFERRED_REQUEST :: nat where [abi]: "PPP_DIAG_LCP_DEFERRED_REQUEST = 97"
definition PPP_DIAG_LCP_RESTART_DEADLINE :: nat where [abi]: "PPP_DIAG_LCP_RESTART_DEADLINE = 98"
definition PPP_DIAG_LCP_PEER_MAGIC :: nat where [abi]: "PPP_DIAG_LCP_PEER_MAGIC = 100"
definition PPP_DIAG_CARRIER_LOSS_COUNT :: nat where [abi]: "PPP_DIAG_CARRIER_LOSS_COUNT = 104"
definition PPP_DIAG_CARRIER_TAIL_BYTE_COUNT :: nat where [abi]: "PPP_DIAG_CARRIER_TAIL_BYTE_COUNT = 108"
definition PPP_DIAG_PAP_STATE :: nat where [abi]: "PPP_DIAG_PAP_STATE = 112"
definition PPP_DIAG_PAP_LAST_CODE :: nat where [abi]: "PPP_DIAG_PAP_LAST_CODE = 113"
definition PPP_DIAG_PAP_LAST_IDENTIFIER :: nat where [abi]: "PPP_DIAG_PAP_LAST_IDENTIFIER = 114"
definition PPP_DIAG_PAP_LAST_ERROR :: nat where [abi]: "PPP_DIAG_PAP_LAST_ERROR = 115"
definition PPP_DIAG_PAP_REQUEST_IDENTIFIER :: nat where [abi]: "PPP_DIAG_PAP_REQUEST_IDENTIFIER = 116"
definition PPP_DIAG_PAP_NEXT_IDENTIFIER :: nat where [abi]: "PPP_DIAG_PAP_NEXT_IDENTIFIER = 117"
definition PPP_DIAG_PAP_RESTART_REMAINING :: nat where [abi]: "PPP_DIAG_PAP_RESTART_REMAINING = 118"
definition PPP_DIAG_PAP_PENDING_ACTION :: nat where [abi]: "PPP_DIAG_PAP_PENDING_ACTION = 119"
definition PPP_DIAG_PAP_TIMER_ACTIVE :: nat where [abi]: "PPP_DIAG_PAP_TIMER_ACTIVE = 120"
definition PPP_DIAG_PAP_FAILURE :: nat where [abi]: "PPP_DIAG_PAP_FAILURE = 121"
definition PPP_DIAG_PAP_PACKET_LENGTH :: nat where [abi]: "PPP_DIAG_PAP_PACKET_LENGTH = 122"
definition PPP_DIAG_PAP_RESTART_DEADLINE :: nat where [abi]: "PPP_DIAG_PAP_RESTART_DEADLINE = 124"
definition PPP_DIAG_PAP_RECEIVE_COUNT :: nat where [abi]: "PPP_DIAG_PAP_RECEIVE_COUNT = 126"
definition PPP_DIAG_PAP_TRANSMIT_COUNT :: nat where [abi]: "PPP_DIAG_PAP_TRANSMIT_COUNT = 130"
definition PPP_DIAG_IPCP_STATE :: nat where [abi]: "PPP_DIAG_IPCP_STATE = 134"
definition PPP_DIAG_IPCP_LAST_CODE :: nat where [abi]: "PPP_DIAG_IPCP_LAST_CODE = 135"
definition PPP_DIAG_IPCP_LAST_IDENTIFIER :: nat where [abi]: "PPP_DIAG_IPCP_LAST_IDENTIFIER = 136"
definition PPP_DIAG_IPCP_LAST_ERROR :: nat where [abi]: "PPP_DIAG_IPCP_LAST_ERROR = 137"
definition PPP_DIAG_IPCP_REQUEST_IDENTIFIER :: nat where [abi]: "PPP_DIAG_IPCP_REQUEST_IDENTIFIER = 138"
definition PPP_DIAG_IPCP_RESTART_REMAINING :: nat where [abi]: "PPP_DIAG_IPCP_RESTART_REMAINING = 139"
definition PPP_DIAG_IPCP_PENDING_ACTION :: nat where [abi]: "PPP_DIAG_IPCP_PENDING_ACTION = 140"
definition PPP_DIAG_IPCP_TIMER_ACTIVE :: nat where [abi]: "PPP_DIAG_IPCP_TIMER_ACTIVE = 141"
definition PPP_DIAG_IPCP_PACKET_LENGTH :: nat where [abi]: "PPP_DIAG_IPCP_PACKET_LENGTH = 142"
definition PPP_DIAG_IPCP_RESTART_DEADLINE :: nat where [abi]: "PPP_DIAG_IPCP_RESTART_DEADLINE = 144"
definition PPP_DIAG_IPCP_RECEIVE_COUNT :: nat where [abi]: "PPP_DIAG_IPCP_RECEIVE_COUNT = 146"
definition PPP_DIAG_IPCP_TRANSMIT_COUNT :: nat where [abi]: "PPP_DIAG_IPCP_TRANSMIT_COUNT = 150"
definition PPP_DIAG_IPCP_LOCAL_ADDRESS :: nat where [abi]: "PPP_DIAG_IPCP_LOCAL_ADDRESS = 154"
definition PPP_DIAG_IPCP_PEER_ADDRESS :: nat where [abi]: "PPP_DIAG_IPCP_PEER_ADDRESS = 158"
definition PPP_DIAG_IPCP_FLAGS :: nat where [abi]: "PPP_DIAG_IPCP_FLAGS = 162"
definition PPP_DIAG_IPCP_DEFERRED_REQUEST :: nat where [abi]: "PPP_DIAG_IPCP_DEFERRED_REQUEST = 163"
definition PPP_DIAG_IPV4_LAST_ERROR :: nat where [abi]: "PPP_DIAG_IPV4_LAST_ERROR = 164"
definition PPP_DIAG_IPV4_HEADER_LENGTH :: nat where [abi]: "PPP_DIAG_IPV4_HEADER_LENGTH = 165"
definition PPP_DIAG_IPV4_PROTOCOL :: nat where [abi]: "PPP_DIAG_IPV4_PROTOCOL = 166"
definition PPP_DIAG_IPV4_TTL :: nat where [abi]: "PPP_DIAG_IPV4_TTL = 167"
definition PPP_DIAG_IPV4_TOTAL_LENGTH :: nat where [abi]: "PPP_DIAG_IPV4_TOTAL_LENGTH = 168"
definition PPP_DIAG_IPV4_PAYLOAD_LENGTH :: nat where [abi]: "PPP_DIAG_IPV4_PAYLOAD_LENGTH = 170"
definition PPP_DIAG_IPV4_IDENTIFICATION :: nat where [abi]: "PPP_DIAG_IPV4_IDENTIFICATION = 172"
definition PPP_DIAG_IPV4_FLAGS_FRAGMENT_OFFSET :: nat where [abi]: "PPP_DIAG_IPV4_FLAGS_FRAGMENT_OFFSET = 174"
definition PPP_DIAG_IPV4_HEADER_CHECKSUM :: nat where [abi]: "PPP_DIAG_IPV4_HEADER_CHECKSUM = 176"
definition PPP_DIAG_IPV4_SOURCE_ADDRESS :: nat where [abi]: "PPP_DIAG_IPV4_SOURCE_ADDRESS = 178"
definition PPP_DIAG_IPV4_DESTINATION_ADDRESS :: nat where [abi]: "PPP_DIAG_IPV4_DESTINATION_ADDRESS = 182"
definition PPP_DIAG_IPV4_RECEIVE_COUNT :: nat where [abi]: "PPP_DIAG_IPV4_RECEIVE_COUNT = 186"
definition PPP_DIAG_IPV4_ACCEPTED_COUNT :: nat where [abi]: "PPP_DIAG_IPV4_ACCEPTED_COUNT = 190"
definition PPP_DIAG_IPV4_CHECKSUM_ERROR_COUNT :: nat where [abi]: "PPP_DIAG_IPV4_CHECKSUM_ERROR_COUNT = 194"
definition PPP_DIAG_IPV4_DROP_COUNT :: nat where [abi]: "PPP_DIAG_IPV4_DROP_COUNT = 198"
definition PPP_DIAG_IPV4_TRANSMIT_COUNT :: nat where [abi]: "PPP_DIAG_IPV4_TRANSMIT_COUNT = 202"
definition PPP_DIAG_IPV4_NEXT_IDENTIFICATION :: nat where [abi]: "PPP_DIAG_IPV4_NEXT_IDENTIFICATION = 206"
definition PPP_DIAG_IPV4_FLAGS :: nat where [abi]: "PPP_DIAG_IPV4_FLAGS = 208"
definition PPP_DIAG_ICMP_LAST_ERROR :: nat where [abi]: "PPP_DIAG_ICMP_LAST_ERROR = 209"
definition PPP_DIAG_ICMP_LAST_TYPE :: nat where [abi]: "PPP_DIAG_ICMP_LAST_TYPE = 210"
definition PPP_DIAG_ICMP_LAST_CODE :: nat where [abi]: "PPP_DIAG_ICMP_LAST_CODE = 211"
definition PPP_DIAG_ICMP_FLAGS :: nat where [abi]: "PPP_DIAG_ICMP_FLAGS = 212"
definition PPP_DIAG_ICMP_IDENTIFIER :: nat where [abi]: "PPP_DIAG_ICMP_IDENTIFIER = 213"
definition PPP_DIAG_ICMP_SEQUENCE :: nat where [abi]: "PPP_DIAG_ICMP_SEQUENCE = 215"
definition PPP_DIAG_ICMP_PAYLOAD_LENGTH :: nat where [abi]: "PPP_DIAG_ICMP_PAYLOAD_LENGTH = 217"
definition PPP_DIAG_ICMP_CHECKSUM :: nat where [abi]: "PPP_DIAG_ICMP_CHECKSUM = 219"
definition PPP_DIAG_ICMP_RECEIVE_COUNT :: nat where [abi]: "PPP_DIAG_ICMP_RECEIVE_COUNT = 221"
definition PPP_DIAG_ICMP_ECHO_REQUEST_COUNT :: nat where [abi]: "PPP_DIAG_ICMP_ECHO_REQUEST_COUNT = 225"
definition PPP_DIAG_ICMP_ECHO_REPLY_COUNT :: nat where [abi]: "PPP_DIAG_ICMP_ECHO_REPLY_COUNT = 229"
definition PPP_DIAG_ICMP_CHECKSUM_ERROR_COUNT :: nat where [abi]: "PPP_DIAG_ICMP_CHECKSUM_ERROR_COUNT = 233"
definition PPP_DIAG_ICMP_DROP_COUNT :: nat where [abi]: "PPP_DIAG_ICMP_DROP_COUNT = 237"
definition PPP_DIAG_ICMP_TRANSMIT_COUNT :: nat where [abi]: "PPP_DIAG_ICMP_TRANSMIT_COUNT = 241"
definition PPP_DIAG_UDP_LAST_ERROR :: nat where [abi]: "PPP_DIAG_UDP_LAST_ERROR = 245"
definition PPP_DIAG_UDP_FLAGS :: nat where [abi]: "PPP_DIAG_UDP_FLAGS = 246"
definition PPP_DIAG_UDP_SOURCE_PORT :: nat where [abi]: "PPP_DIAG_UDP_SOURCE_PORT = 247"
definition PPP_DIAG_UDP_DESTINATION_PORT :: nat where [abi]: "PPP_DIAG_UDP_DESTINATION_PORT = 249"
definition PPP_DIAG_UDP_LENGTH :: nat where [abi]: "PPP_DIAG_UDP_LENGTH = 251"
definition PPP_DIAG_UDP_PAYLOAD_LENGTH :: nat where [abi]: "PPP_DIAG_UDP_PAYLOAD_LENGTH = 253"
definition PPP_DIAG_UDP_CHECKSUM :: nat where [abi]: "PPP_DIAG_UDP_CHECKSUM = 255"
definition PPP_DIAG_UDP_RECEIVE_COUNT :: nat where [abi]: "PPP_DIAG_UDP_RECEIVE_COUNT = 257"
definition PPP_DIAG_UDP_CHECKSUM_ERROR_COUNT :: nat where [abi]: "PPP_DIAG_UDP_CHECKSUM_ERROR_COUNT = 261"
definition PPP_DIAG_UDP_DROP_COUNT :: nat where [abi]: "PPP_DIAG_UDP_DROP_COUNT = 265"
definition PPP_DIAG_UDP_TRANSMIT_COUNT :: nat where [abi]: "PPP_DIAG_UDP_TRANSMIT_COUNT = 269"
definition PPP_DIAG_NTP_STATE :: nat where [abi]: "PPP_DIAG_NTP_STATE = 273"
definition PPP_DIAG_NTP_LAST_ERROR :: nat where [abi]: "PPP_DIAG_NTP_LAST_ERROR = 274"
definition PPP_DIAG_NTP_FLAGS :: nat where [abi]: "PPP_DIAG_NTP_FLAGS = 275"
definition PPP_DIAG_NTP_VERSION :: nat where [abi]: "PPP_DIAG_NTP_VERSION = 276"
definition PPP_DIAG_NTP_LEAP_INDICATOR :: nat where [abi]: "PPP_DIAG_NTP_LEAP_INDICATOR = 277"
definition PPP_DIAG_NTP_STRATUM :: nat where [abi]: "PPP_DIAG_NTP_STRATUM = 278"
definition PPP_DIAG_NTP_POLL :: nat where [abi]: "PPP_DIAG_NTP_POLL = 279"
definition PPP_DIAG_NTP_PRECISION :: nat where [abi]: "PPP_DIAG_NTP_PRECISION = 280"
definition PPP_DIAG_NTP_REFERENCE_ID :: nat where [abi]: "PPP_DIAG_NTP_REFERENCE_ID = 281"
definition PPP_DIAG_NTP_COOKIE_SECONDS :: nat where [abi]: "PPP_DIAG_NTP_COOKIE_SECONDS = 285"
definition PPP_DIAG_NTP_COOKIE_FRACTION :: nat where [abi]: "PPP_DIAG_NTP_COOKIE_FRACTION = 289"
definition PPP_DIAG_NTP_SERVER_RECEIVE_SECONDS :: nat where [abi]: "PPP_DIAG_NTP_SERVER_RECEIVE_SECONDS = 293"
definition PPP_DIAG_NTP_SERVER_RECEIVE_FRACTION :: nat where [abi]: "PPP_DIAG_NTP_SERVER_RECEIVE_FRACTION = 297"
definition PPP_DIAG_NTP_SERVER_TRANSMIT_SECONDS :: nat where [abi]: "PPP_DIAG_NTP_SERVER_TRANSMIT_SECONDS = 301"
definition PPP_DIAG_NTP_SERVER_TRANSMIT_FRACTION :: nat where [abi]: "PPP_DIAG_NTP_SERVER_TRANSMIT_FRACTION = 305"
definition PPP_DIAG_NTP_UNIX_SECONDS :: nat where [abi]: "PPP_DIAG_NTP_UNIX_SECONDS = 309"
definition PPP_DIAG_NTP_DEADLINE :: nat where [abi]: "PPP_DIAG_NTP_DEADLINE = 313"
definition PPP_DIAG_NTP_REQUEST_COUNT :: nat where [abi]: "PPP_DIAG_NTP_REQUEST_COUNT = 315"
definition PPP_DIAG_NTP_RESPONSE_COUNT :: nat where [abi]: "PPP_DIAG_NTP_RESPONSE_COUNT = 319"
definition PPP_DIAG_NTP_DROP_COUNT :: nat where [abi]: "PPP_DIAG_NTP_DROP_COUNT = 323"
definition PPP_DIAG_NTP_TIMEOUT_COUNT :: nat where [abi]: "PPP_DIAG_NTP_TIMEOUT_COUNT = 327"
definition PPP_DIAG_ICMP_REQUEST_STATE :: nat where [abi]: "PPP_DIAG_ICMP_REQUEST_STATE = 331"
definition PPP_DIAG_ICMP_REQUEST_LAST_ERROR :: nat where [abi]: "PPP_DIAG_ICMP_REQUEST_LAST_ERROR = 332"
definition PPP_DIAG_ICMP_REQUEST_FLAGS :: nat where [abi]: "PPP_DIAG_ICMP_REQUEST_FLAGS = 333"
definition PPP_DIAG_ICMP_REQUEST_DESTINATION :: nat where [abi]: "PPP_DIAG_ICMP_REQUEST_DESTINATION = 334"
definition PPP_DIAG_ICMP_REQUEST_IDENTIFIER :: nat where [abi]: "PPP_DIAG_ICMP_REQUEST_IDENTIFIER = 338"
definition PPP_DIAG_ICMP_REQUEST_SEQUENCE :: nat where [abi]: "PPP_DIAG_ICMP_REQUEST_SEQUENCE = 340"
definition PPP_DIAG_ICMP_REQUEST_DEADLINE :: nat where [abi]: "PPP_DIAG_ICMP_REQUEST_DEADLINE = 342"
definition PPP_DIAG_ICMP_REQUEST_SENT_FRAME :: nat where [abi]: "PPP_DIAG_ICMP_REQUEST_SENT_FRAME = 344"
definition PPP_DIAG_ICMP_REQUEST_RTT_FRAMES :: nat where [abi]: "PPP_DIAG_ICMP_REQUEST_RTT_FRAMES = 346"
definition PPP_DIAG_ICMP_REQUEST_COUNT :: nat where [abi]: "PPP_DIAG_ICMP_REQUEST_COUNT = 348"
definition PPP_DIAG_ICMP_REQUEST_RESPONSE_COUNT :: nat where [abi]: "PPP_DIAG_ICMP_REQUEST_RESPONSE_COUNT = 352"
definition PPP_DIAG_ICMP_REQUEST_DROP_COUNT :: nat where [abi]: "PPP_DIAG_ICMP_REQUEST_DROP_COUNT = 356"
definition PPP_DIAG_ICMP_REQUEST_TIMEOUT_COUNT :: nat where [abi]: "PPP_DIAG_ICMP_REQUEST_TIMEOUT_COUNT = 360"
definition PPP_DIAG_DNS_STATE :: nat where [abi]: "PPP_DIAG_DNS_STATE = 364"
definition PPP_DIAG_DNS_LAST_ERROR :: nat where [abi]: "PPP_DIAG_DNS_LAST_ERROR = 365"
definition PPP_DIAG_DNS_FLAGS :: nat where [abi]: "PPP_DIAG_DNS_FLAGS = 366"
definition PPP_DIAG_DNS_RESPONSE_CODE :: nat where [abi]: "PPP_DIAG_DNS_RESPONSE_CODE = 367"
definition PPP_DIAG_DNS_RESOLVER :: nat where [abi]: "PPP_DIAG_DNS_RESOLVER = 368"
definition PPP_DIAG_DNS_TRANSACTION_ID :: nat where [abi]: "PPP_DIAG_DNS_TRANSACTION_ID = 372"
definition PPP_DIAG_DNS_ANSWER_COUNT :: nat where [abi]: "PPP_DIAG_DNS_ANSWER_COUNT = 374"
definition PPP_DIAG_DNS_ANSWER_ADDRESS :: nat where [abi]: "PPP_DIAG_DNS_ANSWER_ADDRESS = 376"
definition PPP_DIAG_DNS_DEADLINE :: nat where [abi]: "PPP_DIAG_DNS_DEADLINE = 380"
definition PPP_DIAG_DNS_SENT_FRAME :: nat where [abi]: "PPP_DIAG_DNS_SENT_FRAME = 382"
definition PPP_DIAG_DNS_RTT_FRAMES :: nat where [abi]: "PPP_DIAG_DNS_RTT_FRAMES = 384"
definition PPP_DIAG_DNS_QUERY_COUNT :: nat where [abi]: "PPP_DIAG_DNS_QUERY_COUNT = 386"
definition PPP_DIAG_DNS_RESPONSE_COUNT :: nat where [abi]: "PPP_DIAG_DNS_RESPONSE_COUNT = 390"
definition PPP_DIAG_DNS_DROP_COUNT :: nat where [abi]: "PPP_DIAG_DNS_DROP_COUNT = 394"
definition PPP_DIAG_DNS_TIMEOUT_COUNT :: nat where [abi]: "PPP_DIAG_DNS_TIMEOUT_COUNT = 398"
definition PPP_DIAG_ICMP_INBOUND_STATE :: nat where [abi]: "PPP_DIAG_ICMP_INBOUND_STATE = 402"
definition PPP_DIAG_ICMP_INBOUND_LAST_ERROR :: nat where [abi]: "PPP_DIAG_ICMP_INBOUND_LAST_ERROR = 403"
definition PPP_DIAG_ICMP_INBOUND_FLAGS :: nat where [abi]: "PPP_DIAG_ICMP_INBOUND_FLAGS = 404"
definition PPP_DIAG_ICMP_INBOUND_SOURCE :: nat where [abi]: "PPP_DIAG_ICMP_INBOUND_SOURCE = 405"
definition PPP_DIAG_ICMP_INBOUND_IDENTIFIER :: nat where [abi]: "PPP_DIAG_ICMP_INBOUND_IDENTIFIER = 409"
definition PPP_DIAG_ICMP_INBOUND_SEQUENCE :: nat where [abi]: "PPP_DIAG_ICMP_INBOUND_SEQUENCE = 411"
definition PPP_DIAG_ICMP_INBOUND_PAYLOAD_LENGTH :: nat where [abi]: "PPP_DIAG_ICMP_INBOUND_PAYLOAD_LENGTH = 413"
definition PPP_DIAG_ICMP_INBOUND_REPLY_COUNT :: nat where [abi]: "PPP_DIAG_ICMP_INBOUND_REPLY_COUNT = 415"
definition PPP_DIAG_ICMP_INBOUND_DROP_COUNT :: nat where [abi]: "PPP_DIAG_ICMP_INBOUND_DROP_COUNT = 419"
definition PPP_DIAG_IPCP_PRIMARY_DNS_ADDRESS :: nat where [abi]: "PPP_DIAG_IPCP_PRIMARY_DNS_ADDRESS = 423"
definition PPP_DIAG_IPCP_SECONDARY_DNS_ADDRESS :: nat where [abi]: "PPP_DIAG_IPCP_SECONDARY_DNS_ADDRESS = 427"
definition PPP_DIAG_LCP_TERMINATE_REQUEST_COUNT :: nat where [abi]: "PPP_DIAG_LCP_TERMINATE_REQUEST_COUNT = 431"
definition PPP_DIAG_LCP_TERMINATE_ACK_COUNT :: nat where [abi]: "PPP_DIAG_LCP_TERMINATE_ACK_COUNT = 435"
definition PPP_DIAG_LCP_PROTOCOL_REJECT_COUNT :: nat where [abi]: "PPP_DIAG_LCP_PROTOCOL_REJECT_COUNT = 439"
definition PPP_DIAG_LCP_LAST_REJECTED_PROTOCOL :: nat where [abi]: "PPP_DIAG_LCP_LAST_REJECTED_PROTOCOL = 443"
definition PPP_DIAG_LCP_REJECT_IDENTIFIER :: nat where [abi]: "PPP_DIAG_LCP_REJECT_IDENTIFIER = 445"
definition PPP_DIAG_LCP_CODE_REJECT_COUNT :: nat where [abi]: "PPP_DIAG_LCP_CODE_REJECT_COUNT = 446"
definition PPP_DIAG_LCP_LAST_REJECTED_CODE :: nat where [abi]: "PPP_DIAG_LCP_LAST_REJECTED_CODE = 450"
definition PPP_DIAG_LCP_ECHO_REQUEST_COUNT :: nat where [abi]: "PPP_DIAG_LCP_ECHO_REQUEST_COUNT = 451"
definition PPP_DIAG_LCP_ECHO_REPLY_COUNT :: nat where [abi]: "PPP_DIAG_LCP_ECHO_REPLY_COUNT = 455"
definition PPP_DIAG_LCP_ECHO_DROP_COUNT :: nat where [abi]: "PPP_DIAG_LCP_ECHO_DROP_COUNT = 459"
definition PPP_DIAG_LCP_LAST_ECHO_IDENTIFIER :: nat where [abi]: "PPP_DIAG_LCP_LAST_ECHO_IDENTIFIER = 463"
definition PPP_DIAG_LCP_LAST_ECHO_MAGIC :: nat where [abi]: "PPP_DIAG_LCP_LAST_ECHO_MAGIC = 464"
definition PPP_DIAG_LCP_ADMINISTRATIVE_OPEN :: nat where [abi]: "PPP_DIAG_LCP_ADMINISTRATIVE_OPEN = 468"
definition PPP_DIAG_LCP_LOCAL_TERMINATE_REQUEST_COUNT :: nat where [abi]: "PPP_DIAG_LCP_LOCAL_TERMINATE_REQUEST_COUNT = 469"
definition PPP_DIAG_LCP_LOCAL_TERMINATE_ACK_COUNT :: nat where [abi]: "PPP_DIAG_LCP_LOCAL_TERMINATE_ACK_COUNT = 473"
definition PPP_DIAG_LCP_LOCAL_TERMINATE_TIMEOUT_COUNT :: nat where [abi]: "PPP_DIAG_LCP_LOCAL_TERMINATE_TIMEOUT_COUNT = 477"
definition PPP_DIAG_LCP_LOCAL_MAGIC :: nat where [abi]: "PPP_DIAG_LCP_LOCAL_MAGIC = 481"
definition PPP_DIAG_LCP_LOCAL_FLAGS :: nat where [abi]: "PPP_DIAG_LCP_LOCAL_FLAGS = 485"
definition PPP_DIAG_LCP_LOOPBACK_COUNT :: nat where [abi]: "PPP_DIAG_LCP_LOOPBACK_COUNT = 486"
definition PPP_DIAG_PAP_CREDENTIAL_FLAGS :: nat where [abi]: "PPP_DIAG_PAP_CREDENTIAL_FLAGS = 490"
definition PPP_DIAG_PAP_PEER_ID_LENGTH :: nat where [abi]: "PPP_DIAG_PAP_PEER_ID_LENGTH = 491"
definition PPP_DIAG_PAP_PASSWORD_LENGTH :: nat where [abi]: "PPP_DIAG_PAP_PASSWORD_LENGTH = 492"
definition PPP_DIAG_CHAP_STATE :: nat where [abi]: "PPP_DIAG_CHAP_STATE = 493"
definition PPP_DIAG_CHAP_LAST_CODE :: nat where [abi]: "PPP_DIAG_CHAP_LAST_CODE = 494"
definition PPP_DIAG_CHAP_LAST_IDENTIFIER :: nat where [abi]: "PPP_DIAG_CHAP_LAST_IDENTIFIER = 495"
definition PPP_DIAG_CHAP_LAST_ERROR :: nat where [abi]: "PPP_DIAG_CHAP_LAST_ERROR = 496"
definition PPP_DIAG_CHAP_RESPONSE_IDENTIFIER :: nat where [abi]: "PPP_DIAG_CHAP_RESPONSE_IDENTIFIER = 497"
definition PPP_DIAG_CHAP_FAILURE :: nat where [abi]: "PPP_DIAG_CHAP_FAILURE = 498"
definition PPP_DIAG_CHAP_CHALLENGE_LENGTH :: nat where [abi]: "PPP_DIAG_CHAP_CHALLENGE_LENGTH = 499"
definition PPP_DIAG_CHAP_PEER_NAME_LENGTH :: nat where [abi]: "PPP_DIAG_CHAP_PEER_NAME_LENGTH = 500"
definition PPP_DIAG_CHAP_PACKET_LENGTH :: nat where [abi]: "PPP_DIAG_CHAP_PACKET_LENGTH = 501"
definition PPP_DIAG_CHAP_RECEIVE_COUNT :: nat where [abi]: "PPP_DIAG_CHAP_RECEIVE_COUNT = 503"
definition PPP_DIAG_CHAP_TRANSMIT_COUNT :: nat where [abi]: "PPP_DIAG_CHAP_TRANSMIT_COUNT = 507"

end
