(* ===== verification/Diagnostic.thy ===== *)
theory Diagnostic
  imports Diagnostic_Abi
begin

text \<open>
  The decoders of \<^verbatim>\<open>crates/ndm24-protocol/src/lib.rs\<close> for the diagnostic block of the modem driver and
  for trace events, and the decisions about received octets. The block is little-endian and its
  offsets are generated constants. A slice out of range is an error through \<^verbatim>\<open>get\<close> and a panic
  through an index. An \<^verbatim>\<open>anyhow\<close> error is a constructor for each of its messages.

  The theorem \<open>diagnostic_decode_exact\<close> says which octets decode to which snapshot.
\<close>

section \<open>Errors and reading\<close>

datatype protocol_error =
    UnknownModemState u8
  | DiagnosticTooShort nat
  | DiagnosticMagicMismatch
  | UnsupportedDiagnosticVersion
  | DiagnosticSizeMismatch
  | DiagnosticBeingUpdated
  | PppDiagnosticTooShort nat
  | PppDiagnosticMagicMismatch
  | UnsupportedPppDiagnosticVersion
  | PppDiagnosticSizeMismatch
  | PppDiagnosticBeingUpdated
  | TraceEventTruncated
  | U16OutsideInput
  | U32OutsideInput
  | ArrayOutsideInput

text \<open>\<^verbatim>\<open>data.get(a..b)\<close>, \<^verbatim>\<open>data[a..b]\<close> and \<^verbatim>\<open>data[i]\<close>.\<close>

definition get_range :: "bytes \<Rightarrow> nat \<Rightarrow> nat \<Rightarrow> bytes option" where
  "get_range data a b = (if a \<le> b \<and> b \<le> length data then Some (take (b - a) (drop a data)) else None)"

definition index_range :: "bytes \<Rightarrow> nat \<Rightarrow> nat \<Rightarrow> (bytes, 'e) result" where
  "index_range data a b = (case get_range data a b of Some bs \<Rightarrow> Ok bs | None \<Rightarrow> Panic)"

definition octet_at :: "bytes \<Rightarrow> nat \<Rightarrow> (u8, 'e) result" where
  "octet_at data i = (if i < length data then Ok (data ! i) else Panic)"

definition read_le16 :: "bytes \<Rightarrow> nat \<Rightarrow> (u16, protocol_error) result" where
  "read_le16 data offset =
     (case get_range data offset (offset + 2) of
        None \<Rightarrow> Err U16OutsideInput
      | Some bs \<Rightarrow> Ok (from_be16 (bs ! 1) (bs ! 0)))"

definition read_le32 :: "bytes \<Rightarrow> nat \<Rightarrow> (u32, protocol_error) result" where
  "read_le32 data offset =
     (case get_range data offset (offset + 4) of
        None \<Rightarrow> Err U32OutsideInput
      | Some bs \<Rightarrow> Ok (from_le32 (octets4_at bs 0)))"

text \<open>\<^verbatim>\<open>read_array\<close> at \<^verbatim>\<open>N = 4\<close>, its only use; the slice has that length, so \<^verbatim>\<open>try_into\<close> succeeds.\<close>

definition read_octets4 :: "bytes \<Rightarrow> nat \<Rightarrow> (octets4, protocol_error) result" where
  "read_octets4 data offset =
     (case get_range data offset (offset + 4) of
        None \<Rightarrow> Err ArrayOutsideInput
      | Some bs \<Rightarrow> Ok (octets4_at bs 0))"

section \<open>Driver states\<close>

datatype driver_state =
  Off | Resetting | Probing | Ready | Error | AtCommand | Dialing | Connected | Disconnecting

fun driver_state_octet :: "driver_state \<Rightarrow> u8" where
  "driver_state_octet Off = MODEM_STATE_OFF"
| "driver_state_octet Resetting = MODEM_STATE_RESETTING"
| "driver_state_octet Probing = MODEM_STATE_PROBING"
| "driver_state_octet Ready = MODEM_STATE_READY"
| "driver_state_octet Error = MODEM_STATE_ERROR"
| "driver_state_octet AtCommand = MODEM_STATE_AT_COMMAND"
| "driver_state_octet Dialing = MODEM_STATE_DIALING"
| "driver_state_octet Connected = MODEM_STATE_CONNECTED"
| "driver_state_octet Disconnecting = MODEM_STATE_DISCONNECTING"

definition driver_state_try_from :: "u8 \<Rightarrow> (driver_state, protocol_error) result" where
  "driver_state_try_from v =
     (if v = MODEM_STATE_OFF then Ok Off
      else if v = MODEM_STATE_RESETTING then Ok Resetting
      else if v = MODEM_STATE_PROBING then Ok Probing
      else if v = MODEM_STATE_READY then Ok Ready
      else if v = MODEM_STATE_ERROR then Ok Error
      else if v = MODEM_STATE_AT_COMMAND then Ok AtCommand
      else if v = MODEM_STATE_DIALING then Ok Dialing
      else if v = MODEM_STATE_CONNECTED then Ok Connected
      else if v = MODEM_STATE_DISCONNECTING then Ok Disconnecting
      else Err (UnknownModemState v))"

lemma driver_state_try_from_iff: "driver_state_try_from v = Ok d \<longleftrightarrow> v = driver_state_octet d"
  by (cases d) (auto simp: driver_state_try_from_def abi)

lemma driver_state_try_from_no_panic [simp]: "driver_state_try_from v \<noteq> Panic"
  by (simp add: driver_state_try_from_def)

section \<open>The modem block\<close>

record diagnostic_snapshot =
  ds_snapshot_sequence :: u32
  ds_driver_state :: driver_state
  ds_flags :: u8
  ds_last_error :: u8
  ds_last_discard_reason :: u8
  ds_poll_tick :: bool
  ds_trace_frozen :: bool
  ds_rx_read_index :: u8
  ds_rx_write_index :: u8
  ds_tx_read_index :: u8
  ds_tx_write_index :: u8
  ds_last_rx_byte :: u8
  ds_last_tx_byte :: u8
  ds_last_data_report :: u16
  ds_last_status_report :: u16
  ds_trace_next_sequence :: u32
  ds_rx_accepted :: u32
  ds_rx_discarded :: u32
  ds_tx_bytes :: u32
  ds_rx_overflow :: u32
  ds_tx_overflow :: u32
  ds_poll_budget_yield :: u32
  ds_timeout :: u32
  ds_reinitialize :: u32
  ds_trace_overwritten :: u32
  ds_reset_start_frame :: u32
  ds_terminal_dropped :: u32
  ds_at_status :: u8
  ds_at_expected_result :: u8
  ds_session_last_result :: u8
  ds_session_line_length :: u8
  ds_at_start_frame :: u32

text \<open>The checks that come before the fields: length, magic, version, size, an even sequence.\<close>

definition diagnostic_header :: "bytes \<Rightarrow> (u32, protocol_error) result" where
  "diagnostic_header data =
     (if length data < MODEM_DIAGNOSTIC_SIZE then Err (DiagnosticTooShort (length data))
      else and_then (index_range data MODEM_DIAG_MAGIC (MODEM_DIAG_MAGIC + 4)) (\<lambda>magic.
        if magic \<noteq> MODEM_DIAGNOSTIC_MAGIC then Err DiagnosticMagicMismatch
        else and_then (read_le16 data MODEM_DIAG_VERSION) (\<lambda>version.
        if version \<noteq> MODEM_DIAGNOSTIC_VERSION then Err UnsupportedDiagnosticVersion
        else and_then (read_le16 data MODEM_DIAG_SIZE) (\<lambda>block_size.
        if unat block_size \<noteq> MODEM_DIAGNOSTIC_SIZE then Err DiagnosticSizeMismatch
        else and_then (read_le32 data MODEM_DIAG_SNAPSHOT_SEQUENCE) (\<lambda>sequence.
        if sequence AND 1 \<noteq> 0 then Err DiagnosticBeingUpdated else Ok sequence)))))"

definition diagnostic_decode :: "bytes \<Rightarrow> (diagnostic_snapshot, protocol_error) result" where
  "diagnostic_decode data =
     and_then (diagnostic_header data) (\<lambda>sequence.
       and_then (and_then (octet_at data MODEM_DIAG_DRIVER_STATE) driver_state_try_from) (\<lambda>driver_state.
       and_then (octet_at data MODEM_DIAG_FLAGS) (\<lambda>flags.
       and_then (octet_at data MODEM_DIAG_LAST_ERROR) (\<lambda>last_error.
       and_then (octet_at data MODEM_DIAG_LAST_DISCARD_REASON) (\<lambda>last_discard_reason.
       and_then (octet_at data MODEM_DIAG_POLL_TICK) (\<lambda>poll_tick.
       and_then (octet_at data MODEM_DIAG_TRACE_FROZEN) (\<lambda>trace_frozen.
       and_then (octet_at data MODEM_DIAG_RX_READ_INDEX) (\<lambda>rx_read_index.
       and_then (octet_at data MODEM_DIAG_RX_WRITE_INDEX) (\<lambda>rx_write_index.
       and_then (octet_at data MODEM_DIAG_TX_READ_INDEX) (\<lambda>tx_read_index.
       and_then (octet_at data MODEM_DIAG_TX_WRITE_INDEX) (\<lambda>tx_write_index.
       and_then (octet_at data MODEM_DIAG_LAST_RX_BYTE) (\<lambda>last_rx_byte.
       and_then (octet_at data MODEM_DIAG_LAST_TX_BYTE) (\<lambda>last_tx_byte.
       and_then (read_le16 data MODEM_DIAG_LAST_DATA_REPORT) (\<lambda>last_data_report.
       and_then (read_le16 data MODEM_DIAG_LAST_STATUS_REPORT) (\<lambda>last_status_report.
       and_then (read_le32 data MODEM_DIAG_TRACE_NEXT_SEQUENCE) (\<lambda>trace_next_sequence.
       and_then (read_le32 data MODEM_DIAG_RX_ACCEPTED) (\<lambda>rx_accepted.
       and_then (read_le32 data MODEM_DIAG_RX_DISCARDED) (\<lambda>rx_discarded.
       and_then (read_le32 data MODEM_DIAG_TX_BYTES) (\<lambda>tx_bytes.
       and_then (read_le32 data MODEM_DIAG_RX_OVERFLOW) (\<lambda>rx_overflow.
       and_then (read_le32 data MODEM_DIAG_TX_OVERFLOW) (\<lambda>tx_overflow.
       and_then (read_le32 data MODEM_DIAG_POLL_BUDGET_YIELD) (\<lambda>poll_budget_yield.
       and_then (read_le32 data MODEM_DIAG_TIMEOUT) (\<lambda>timeout.
       and_then (read_le32 data MODEM_DIAG_REINITIALIZE) (\<lambda>reinitialize.
       and_then (read_le32 data MODEM_DIAG_TRACE_OVERWRITTEN) (\<lambda>trace_overwritten.
       and_then (read_le32 data MODEM_DIAG_RESET_START_FRAME) (\<lambda>reset_start_frame.
       and_then (read_le32 data MODEM_DIAG_TERMINAL_DROPPED) (\<lambda>terminal_dropped.
       and_then (octet_at data MODEM_DIAG_AT_STATUS) (\<lambda>at_status.
       and_then (octet_at data MODEM_DIAG_AT_EXPECTED_RESULT) (\<lambda>at_expected_result.
       and_then (octet_at data MODEM_DIAG_SESSION_LAST_RESULT) (\<lambda>session_last_result.
       and_then (octet_at data MODEM_DIAG_SESSION_LINE_LENGTH) (\<lambda>session_line_length.
       and_then (read_le32 data MODEM_DIAG_AT_START_FRAME) (\<lambda>at_start_frame.
       Ok \<lparr>ds_snapshot_sequence = sequence,
           ds_driver_state = driver_state, ds_flags = flags, ds_last_error = last_error,
           ds_last_discard_reason = last_discard_reason, ds_poll_tick = (poll_tick \<noteq> 0),
           ds_trace_frozen = (trace_frozen \<noteq> 0), ds_rx_read_index = rx_read_index,
           ds_rx_write_index = rx_write_index, ds_tx_read_index = tx_read_index,
           ds_tx_write_index = tx_write_index, ds_last_rx_byte = last_rx_byte,
           ds_last_tx_byte = last_tx_byte, ds_last_data_report = last_data_report,
           ds_last_status_report = last_status_report, ds_trace_next_sequence = trace_next_sequence,
           ds_rx_accepted = rx_accepted, ds_rx_discarded = rx_discarded, ds_tx_bytes = tx_bytes,
           ds_rx_overflow = rx_overflow, ds_tx_overflow = tx_overflow,
           ds_poll_budget_yield = poll_budget_yield, ds_timeout = timeout,
           ds_reinitialize = reinitialize, ds_trace_overwritten = trace_overwritten,
           ds_reset_start_frame = reset_start_frame, ds_terminal_dropped = terminal_dropped,
           ds_at_status = at_status, ds_at_expected_result = at_expected_result,
           ds_session_last_result = session_last_result,
           ds_session_line_length = session_line_length, ds_at_start_frame = at_start_frame\<rparr>))))))))))))))))))))))))))))))))"

definition rx_used :: "diagnostic_snapshot \<Rightarrow> u8" where
  "rx_used s = ds_rx_write_index s - ds_rx_read_index s"

definition tx_used :: "diagnostic_snapshot \<Rightarrow> u8" where
  "tx_used s = ds_tx_write_index s - ds_tx_read_index s"

section \<open>Trace events and receive decisions\<close>

record trace_event =
  te_sequence :: u32
  te_frame :: u32
  te_kind :: u8
  te_state :: u8
  te_reason :: u8
  te_flags :: u8
  te_data_report :: u16
  te_status_report :: u16

definition trace_event_decode :: "bytes \<Rightarrow> (trace_event, protocol_error) result" where
  "trace_event_decode data =
     (if length data < MODEM_TRACE_EVENT_SIZE then Err TraceEventTruncated
      else
        and_then (read_le32 data 0) (\<lambda>sequence.
        and_then (read_le32 data 4) (\<lambda>frame.
        and_then (octet_at data 8) (\<lambda>kind.
        and_then (octet_at data 9) (\<lambda>state.
        and_then (octet_at data 10) (\<lambda>reason.
        and_then (octet_at data 11) (\<lambda>flags.
        and_then (read_le16 data 12) (\<lambda>data_report.
        and_then (read_le16 data 14) (\<lambda>status_report.
        Ok \<lparr>te_sequence = sequence, te_frame = frame, te_kind = kind, te_state = state,
            te_reason = reason, te_flags = flags, te_data_report = data_report,
            te_status_report = status_report\<rparr>)))))))))"

datatype poll_kind = Full16 | Transfer9

text \<open>A \<^verbatim>\<open>usize\<close> mask \<^verbatim>\<open>as u8\<close> is \<open>of_nat\<close>.\<close>

definition receive_decision :: "poll_kind \<Rightarrow> u16 \<Rightarrow> u16 \<Rightarrow> u8" where
  "receive_decision kind data_report status_report =
     (let receive_present =
        (to_le16 data_report ! 0) AND of_nat MODEM_RX_PRESENT_MASK = of_nat MODEM_RX_PRESENT_ASSERTED
      in if \<not> receive_present then
           (if kind = Full16 then MODEM_DISCARD_FULL_REPORT else MODEM_DISCARD_NO_DATA)
         else MODEM_DISCARD_NONE)"

definition receive_is_accepted :: "poll_kind \<Rightarrow> u16 \<Rightarrow> u16 \<Rightarrow> bool" where
  "receive_is_accepted kind data_report status_report \<longleftrightarrow>
     receive_decision kind data_report status_report = MODEM_DISCARD_NONE"

definition transfer_requested :: "u8 \<Rightarrow> u16 \<Rightarrow> bool \<Rightarrow> bool" where
  "transfer_requested previous_receive_decision status_report transmit_pending \<longleftrightarrow>
     previous_receive_decision = MODEM_DISCARD_NONE \<or>
     (to_le16 status_report ! 1) AND of_nat MODEM_STATUS_TRANSFER_HINT_MASK \<noteq> 0 \<or>
     transmit_pending"

section \<open>Segments\<close>

text \<open>
  The lemmas of this section read a block as a concatenation of segments: a reader returns the value
  whose octets are the segment at its offset, and adjacent segments join. So the layout of a whole
  block reduces to arithmetic on its offsets.
\<close>

definition le16_at :: "bytes \<Rightarrow> nat \<Rightarrow> u16" where
  "le16_at data i = from_be16 (data ! (i + 1)) (data ! i)"

definition le32_at :: "bytes \<Rightarrow> nat \<Rightarrow> u32" where
  "le32_at data i = from_le32 (octets4_at data i)"

lemma octet_at_ok: "i < length data \<Longrightarrow> octet_at data i = Ok (data ! i)"
  by (simp add: octet_at_def)

lemma read_le16_ok: "i + 2 \<le> length data \<Longrightarrow> read_le16 data i = Ok (le16_at data i)"
  by (simp add: read_le16_def get_range_def le16_at_def)

lemma octets4_at_segment: "i + 4 \<le> length data \<Longrightarrow> octets4_at (take 4 (drop i data)) 0 = octets4_at data i"
  by (simp add: octets4_at_def)

lemma read_le32_ok: "i + 4 \<le> length data \<Longrightarrow> read_le32 data i = Ok (le32_at data i)"
  by (simp add: read_le32_def get_range_def le32_at_def octets4_at_segment)

lemma read_octets4_ok: "i + 4 \<le> length data \<Longrightarrow> read_octets4 data i = Ok (octets4_at data i)"
  by (simp add: read_octets4_def get_range_def octets4_at_segment)

lemmas reads = octet_at_ok read_le16_ok read_le32_ok read_octets4_ok

lemma take_drop_Suc: "i < length data \<Longrightarrow> take (Suc n) (drop i data) = data ! i # take n (drop (Suc i) data)"
  by (metis Cons_nth_drop_Suc take_Suc_Cons)

lemma segment1: "i < length data \<Longrightarrow> [data ! i] = take 1 (drop i data)"
  using take_drop_Suc [of i data 0] by simp

lemma segment16: "i + 2 \<le> length data \<Longrightarrow> to_le16 (le16_at data i) = take 2 (drop i data)"
  using to_from_be16 [of "data ! (i + 1)" "data ! i"]
  by (simp add: to_le16_def to_be16_def le16_at_def numeral_2_eq_2 take_drop_Suc)

lemma segment4: "i + 4 \<le> length data \<Longrightarrow> octets4_list (octets4_at data i) = take 4 (drop i data)"
  by (simp add: octets4_list_def octets4_at_def take_drop_Suc numeral_eq_Suc)

lemma segment32: "i + 4 \<le> length data \<Longrightarrow> to_le32 (le32_at data i) = take 4 (drop i data)"
  by (simp add: le32_at_def to_from_le32 rev_octets4 segment4)

lemma segment_join: "j = i + m \<Longrightarrow> take m (drop i data) @ take n (drop j data) = take (m + n) (drop i data)"
  by (simp add: take_add add.commute)

lemma segment_join0: "take m data @ take n (drop m data) = take (m + n) data"
  by (simp add: take_add)

lemma segment_Cons: "j = Suc i \<Longrightarrow> i < length data \<Longrightarrow> data ! i # take n (drop j data) = take (Suc n) (drop i data)"
  by (simp add: take_drop_Suc)

lemmas segments = segment16 segment32 segment4 segment1 segment_join segment_join0 segment_Cons

section \<open>What the decoder accepts\<close>

text \<open>
  The 84 octets of a snapshot. The octets of the two flags are arguments, because any
  non-zero octet is read as true.
\<close>

definition diagnostic_header_image :: "u32 \<Rightarrow> bytes" where
  "diagnostic_header_image sequence =
     MODEM_DIAGNOSTIC_MAGIC @ to_le16 MODEM_DIAGNOSTIC_VERSION @ to_le16 (of_nat MODEM_DIAGNOSTIC_SIZE) @
     to_le32 sequence"

definition diagnostic_image :: "diagnostic_snapshot \<Rightarrow> u8 \<Rightarrow> u8 \<Rightarrow> bytes" where
  "diagnostic_image s tick frozen = diagnostic_header_image (ds_snapshot_sequence s) @
     [driver_state_octet (ds_driver_state s)] @ [ds_flags s] @ [ds_last_error s] @
     [ds_last_discard_reason s] @ [tick] @ [frozen] @ [ds_rx_read_index s] @
     [ds_rx_write_index s] @ [ds_tx_read_index s] @ [ds_tx_write_index s] @ [ds_last_rx_byte s] @
     [ds_last_tx_byte s] @ to_le16 (ds_last_data_report s) @ to_le16 (ds_last_status_report s) @
     to_le32 (ds_trace_next_sequence s) @ to_le32 (ds_rx_accepted s) @
     to_le32 (ds_rx_discarded s) @ to_le32 (ds_tx_bytes s) @ to_le32 (ds_rx_overflow s) @
     to_le32 (ds_tx_overflow s) @ to_le32 (ds_poll_budget_yield s) @ to_le32 (ds_timeout s) @
     to_le32 (ds_reinitialize s) @ to_le32 (ds_trace_overwritten s) @
     to_le32 (ds_reset_start_frame s) @ to_le32 (ds_terminal_dropped s) @ [ds_at_status s] @
     [ds_at_expected_result s] @ [ds_session_last_result s] @ [ds_session_line_length s] @
     to_le32 (ds_at_start_frame s)"

lemma driver_state_octet_inject [simp]: "driver_state_octet d = driver_state_octet e \<longleftrightarrow> d = e"
  by (metis driver_state_try_from_iff result.inject(1))

lemma length_magic [simp]: "length MODEM_DIAGNOSTIC_MAGIC = 4"
  by (simp add: abi)

lemma length_diagnostic_header_image [simp]: "length (diagnostic_header_image sequence) = 12"
  by (simp add: diagnostic_header_image_def)

lemma length_diagnostic_image [simp]: "length (diagnostic_image s tick frozen) = 84"
  by (simp add: diagnostic_image_def)

lemma diagnostic_header_iff:
  "diagnostic_header data = Ok sequence \<longleftrightarrow>
     128 \<le> length data \<and> even sequence \<and> take 12 data = diagnostic_header_image sequence"
proof (cases "128 \<le> length data")
  case True
  then have "take 12 data = take 4 data @ to_le16 (le16_at data 4) @ to_le16 (le16_at data 6) @ to_le32 (le32_at data 8)"
    by (simp add: segments)
  with True have split: "take 12 data = diagnostic_header_image sequence \<longleftrightarrow> take 4 data = MODEM_DIAGNOSTIC_MAGIC \<and>
      le16_at data 4 = MODEM_DIAGNOSTIC_VERSION \<and> le16_at data 6 = of_nat MODEM_DIAGNOSTIC_SIZE \<and>
      le32_at data 8 = sequence"
    by (simp add: diagnostic_header_image_def)
  have bit: "w AND 1 = 0 \<longleftrightarrow> even w" for w :: u32
    by (simp add: and_one_eq even_iff_mod_2_eq_zero)
  have size128: "unat w = 128 \<longleftrightarrow> w = 128" for w :: u16
    by (simp add: word_unat_eq_iff)
  show ?thesis
    using True unfolding split
    by (auto simp: diagnostic_header_def reads index_range_def get_range_def bit size128 abi)
qed (auto simp: diagnostic_header_def abi)

lemma diagnostic_header_no_panic: "diagnostic_header data \<noteq> Panic"
  by (cases "128 \<le> length data") (simp_all add: diagnostic_header_def reads index_range_def get_range_def abi)

lemma diagnostic_fields:
  assumes "diagnostic_header data = Ok sequence" "driver_state_try_from (data ! 12) = Ok d"
  shows "\<exists>s. diagnostic_decode data = Ok s \<and> diagnostic_image s (data ! 16) (data ! 17) = take 84 data \<and>
    ds_snapshot_sequence s = sequence \<and> (ds_poll_tick s \<longleftrightarrow> data ! 16 \<noteq> 0) \<and> (ds_trace_frozen s \<longleftrightarrow> data ! 17 \<noteq> 0)"
proof -
  have len: "128 \<le> length data" and start: "diagnostic_header_image sequence = take 12 data"
    using assms(1) by (simp_all add: diagnostic_header_iff)
  have d: "driver_state_octet d = data ! 12" using assms(2) by (simp add: driver_state_try_from_iff)
  show ?thesis
    using len by (simp add: diagnostic_decode_def assms reads abi diagnostic_image_def d start segments)
qed

lemma diagnostic_image_inject:
  "diagnostic_image s tick frozen = diagnostic_image s' tick' frozen' \<Longrightarrow>
   ds_poll_tick s = ds_poll_tick s' \<Longrightarrow> ds_trace_frozen s = ds_trace_frozen s' \<Longrightarrow> s = s'"
  by (cases s; cases s') (simp add: diagnostic_image_def diagnostic_header_image_def)


lemma diagnostic_decode_no_panic: "diagnostic_decode data \<noteq> Panic"
proof (cases "diagnostic_header data")
  case (Ok sequence)
  then have "128 \<le> length data" by (simp add: diagnostic_header_iff)
  with Ok show ?thesis
    by (cases "driver_state_try_from (data ! 12)") (simp_all add: diagnostic_decode_def reads abi)
qed (simp_all add: diagnostic_decode_def diagnostic_header_no_panic)

lemma diagnostic_decode_Ok:
  assumes "diagnostic_decode data = Ok s"
  obtains d where "diagnostic_header data = Ok (ds_snapshot_sequence s)" "driver_state_try_from (data ! 12) = Ok d"
    "128 \<le> length data" "even (ds_snapshot_sequence s)"
    "diagnostic_image s (data ! 16) (data ! 17) = take 84 data"
    "ds_poll_tick s \<longleftrightarrow> data ! 16 \<noteq> 0" "ds_trace_frozen s \<longleftrightarrow> data ! 17 \<noteq> 0"
proof -
  from assms obtain sequence where h: "diagnostic_header data = Ok sequence"
    by (auto simp: diagnostic_decode_def and_then_eq_Ok)
  then have "128 \<le> length data" "even sequence" by (simp_all add: diagnostic_header_iff)
  with assms h obtain d where d: "driver_state_try_from (data ! 12) = Ok d"
    by (cases "driver_state_try_from (data ! 12)") (simp_all add: diagnostic_decode_def reads abi)
  from diagnostic_fields [OF h d] assms \<open>128 \<le> length data\<close> \<open>even sequence\<close> h d show ?thesis by (auto intro: that)
qed

lemma diagnostic_image_parts:
  "diagnostic_image s tick frozen = diagnostic_header_image (ds_snapshot_sequence s) @
     driver_state_octet (ds_driver_state s) # ds_flags s # ds_last_error s # ds_last_discard_reason s #
     tick # frozen # drop 18 (diagnostic_image s tick frozen)"
  by (simp add: diagnostic_image_def)

text \<open>
  The decoder reads exactly the blocks that the layout describes. It never panics. It
  returns a snapshot if and only if there are at least 128 octets, the sequence number of the snapshot
  is even, and the input starts with the 84 octets of that snapshot, in which only the octets of the
  two flags are free as long as they are non-zero exactly when the flag is set. So no two fields share
  an octet, every snapshot with an even sequence has a block, and a block with the wrong magic, version,
  size or driver state, or with an odd sequence number, is refused.
\<close>

theorem diagnostic_decode_exact:
  "diagnostic_decode data \<noteq> Panic \<and>
   (diagnostic_decode data = Ok s \<longleftrightarrow>
     128 \<le> length data \<and> even (ds_snapshot_sequence s) \<and>
     (\<exists>tick frozen reserved. data = diagnostic_image s tick frozen @ reserved \<and>
        (ds_poll_tick s \<longleftrightarrow> tick \<noteq> 0) \<and> (ds_trace_frozen s \<longleftrightarrow> frozen \<noteq> 0)))"
proof (intro conjI iffI diagnostic_decode_no_panic)
  assume ok: "diagnostic_decode data = Ok s"
  show "128 \<le> length data" "even (ds_snapshot_sequence s)" using diagnostic_decode_Ok [OF ok] by blast+
  show "\<exists>tick frozen reserved. data = diagnostic_image s tick frozen @ reserved \<and>
        (ds_poll_tick s \<longleftrightarrow> tick \<noteq> 0) \<and> (ds_trace_frozen s \<longleftrightarrow> frozen \<noteq> 0)"
    using diagnostic_decode_Ok [OF ok] by (metis append_take_drop_id)
next
  assume "128 \<le> length data \<and> even (ds_snapshot_sequence s) \<and>
     (\<exists>tick frozen reserved. data = diagnostic_image s tick frozen @ reserved \<and>
        (ds_poll_tick s \<longleftrightarrow> tick \<noteq> 0) \<and> (ds_trace_frozen s \<longleftrightarrow> frozen \<noteq> 0))"
  then obtain tick frozen reserved where len: "128 \<le> length data" "even (ds_snapshot_sequence s)"
    and data: "data = diagnostic_image s tick frozen @ reserved"
    and flags: "ds_poll_tick s \<longleftrightarrow> tick \<noteq> 0" "ds_trace_frozen s \<longleftrightarrow> frozen \<noteq> 0" by blast
  have parts: "data = diagnostic_header_image (ds_snapshot_sequence s) @
     driver_state_octet (ds_driver_state s) # ds_flags s # ds_last_error s # ds_last_discard_reason s #
     tick # frozen # drop 18 (diagnostic_image s tick frozen) @ reserved"
    using data by (subst (asm) diagnostic_image_parts) simp
  then have octets: "data ! 12 = driver_state_octet (ds_driver_state s)" "data ! 16 = tick" "data ! 17 = frozen"
    "take 12 data = diagnostic_header_image (ds_snapshot_sequence s)"
    by (simp_all add: nth_append)
  then have h: "diagnostic_header data = Ok (ds_snapshot_sequence s)" using len by (simp add: diagnostic_header_iff)
  have "driver_state_try_from (data ! 12) = Ok (ds_driver_state s)" by (simp add: driver_state_try_from_iff octets)
  from diagnostic_fields [OF h this] obtain s' where s': "diagnostic_decode data = Ok s'"
    "diagnostic_image s' tick frozen = take 84 data" "ds_poll_tick s' \<longleftrightarrow> tick \<noteq> 0" "ds_trace_frozen s' \<longleftrightarrow> frozen \<noteq> 0"
    by (auto simp: octets)
  moreover have "take 84 data = diagnostic_image s tick frozen" by (simp add: data)
  ultimately show "diagnostic_decode data = Ok s" using diagnostic_image_inject [of s' tick frozen s tick frozen] flags by simp
qed

lemma and_exp_eq_exp_iff: "w AND 2 ^ n = 2 ^ n \<longleftrightarrow> bit w n" if "n < LENGTH('a)" for w :: "'a::len word"
  using that by (auto simp: bit_eq_iff [where 'a = "'a word"] bit_and_iff bit_exp_iff)

lemma bit_high_octet: "bit (of_nat (unat w div 256) :: u8) n \<longleftrightarrow> n < 8 \<and> bit (w :: u16) (n + 8)"
proof -
  have "unat w div 256 = drop_bit 8 (unat w)" by (simp add: drop_bit_eq_div)
  moreover have "n < Suc (Suc (Suc (Suc (Suc (Suc (Suc (Suc 0))))))) \<longleftrightarrow> n < 8" by arith
  ultimately show ?thesis by (simp add: bit_of_nat_iff bit_unsigned_iff bit_drop_bit_eq add.commute)
qed

text \<open>An octet was received exactly when bit 7 of the data report is set, whatever the status report says.\<close>

lemma receive_accepted_iff: "receive_is_accepted kind data_report status_report \<longleftrightarrow> bit data_report 7"
  using and_exp_eq_exp_iff [of 7 "of_nat (unat data_report) :: u8"]
  by (simp add: receive_is_accepted_def receive_decision_def to_le16_def bit_unsigned_iff abi)

lemma transfer_requested_iff:
  "transfer_requested (receive_decision kind data_report status_report) status_report' pending \<longleftrightarrow>
     bit data_report 7 \<or> bit status_report' 14 \<or> pending"
  using receive_accepted_iff [of kind data_report status_report]
    and_exp_eq_0_iff_not_bit [of "of_nat (unat status_report' div 256) :: u8" 6]
  by (auto simp: transfer_requested_def receive_is_accepted_def to_le16_def bit_high_octet abi)

lemma trace_event_decode_exact:
  "trace_event_decode data = Ok e \<longleftrightarrow> 16 \<le> length data \<and>
     take 16 data = to_le32 (te_sequence e) @ to_le32 (te_frame e) @ [te_kind e, te_state e, te_reason e, te_flags e] @
       to_le16 (te_data_report e) @ to_le16 (te_status_report e)"
proof (cases "16 \<le> length data")
  case True
  then have "take 16 data = to_le32 (le32_at data 0) @ to_le32 (le32_at data 4) @
     [data ! 8, data ! 9, data ! 10, data ! 11] @ to_le16 (le16_at data 12) @ to_le16 (le16_at data 14)"
    by (simp add: segments)
  with True show ?thesis by (cases e) (auto simp: trace_event_decode_def reads abi)
qed (simp add: trace_event_decode_def abi)

end
