(* ===== verification/Ppp_Diagnostic.thy ===== *)
theory Ppp_Diagnostic
  imports Diagnostic
begin

text \<open>
  \<^verbatim>\<open>PppDiagnosticSnapshot\<close> of \<^verbatim>\<open>crates/ndm24-protocol/src/lib.rs\<close> and its decoder. The structure has 212
  fields in one sequence; here the consecutive fields of each subsystem form a record of their own, with
  a decoder that reads them in the order of the code, and \<open>ppp_diagnostic_decode\<close> runs these decoders
  one after the other. Beside each decoder stands the image of its fields: the octets in the order of
  the offsets, with the octets of the flags given by a function of the offset. The theorem
  \<open>ppp_diagnostic_decode_exact\<close> puts the images together.
\<close>

section \<open>Framing\<close>

record link_diagnostic =
  pd_receive_enabled :: bool
  pd_receive_active :: bool
  pd_frame_ready :: bool
  pd_receive_last_event :: u8
  pd_receive_last_invalid_reason :: u8
  pd_decoder_flags :: u8
  pd_transmit_active :: bool
  pd_transmit_stage :: u8
  pd_transmit_escape_second :: bool
  pd_transmit_last_wire_byte :: u8
  pd_last_protocol :: u16
  pd_last_frame_length :: u16
  pd_decoder_length :: u16
  pd_decoder_fcs :: u16
  pd_transmit_length :: u16
  pd_transmit_position :: u16
  pd_transmit_fcs :: u16
  pd_receive_byte_count :: u32
  pd_receive_frame_count :: u32
  pd_receive_fcs_error_count :: u32
  pd_receive_invalid_count :: u32
  pd_receive_overflow_count :: u32
  pd_receive_drain_budget_yield_count :: u32
  pd_transmit_wire_byte_count :: u32
  pd_transmit_frame_count :: u32
  pd_transmit_backpressure_count :: u32
  pd_transmit_abort_count :: u32

definition decode_link :: "bytes \<Rightarrow> (link_diagnostic, protocol_error) result" where
  "decode_link data =
     and_then (octet_at data PPP_DIAG_RECEIVE_ENABLED) (\<lambda>receive_enabled.
     and_then (octet_at data PPP_DIAG_RECEIVE_ACTIVE) (\<lambda>receive_active.
     and_then (octet_at data PPP_DIAG_FRAME_READY) (\<lambda>frame_ready.
     and_then (octet_at data PPP_DIAG_RECEIVE_LAST_EVENT) (\<lambda>receive_last_event.
     and_then (octet_at data PPP_DIAG_RECEIVE_LAST_INVALID_REASON) (\<lambda>receive_last_invalid_reason.
     and_then (octet_at data PPP_DIAG_DECODER_FLAGS) (\<lambda>decoder_flags.
     and_then (octet_at data PPP_DIAG_TRANSMIT_ACTIVE) (\<lambda>transmit_active.
     and_then (octet_at data PPP_DIAG_TRANSMIT_STAGE) (\<lambda>transmit_stage.
     and_then (octet_at data PPP_DIAG_TRANSMIT_ESCAPE_SECOND) (\<lambda>transmit_escape_second.
     and_then (octet_at data PPP_DIAG_TRANSMIT_LAST_WIRE_BYTE) (\<lambda>transmit_last_wire_byte.
     and_then (read_le16 data PPP_DIAG_LAST_PROTOCOL) (\<lambda>last_protocol.
     and_then (read_le16 data PPP_DIAG_LAST_FRAME_LENGTH) (\<lambda>last_frame_length.
     and_then (read_le16 data PPP_DIAG_DECODER_LENGTH) (\<lambda>decoder_length.
     and_then (read_le16 data PPP_DIAG_DECODER_FCS) (\<lambda>decoder_fcs.
     and_then (read_le16 data PPP_DIAG_TRANSMIT_LENGTH) (\<lambda>transmit_length.
     and_then (read_le16 data PPP_DIAG_TRANSMIT_POSITION) (\<lambda>transmit_position.
     and_then (read_le16 data PPP_DIAG_TRANSMIT_FCS) (\<lambda>transmit_fcs.
     and_then (read_le32 data PPP_DIAG_RECEIVE_BYTE_COUNT) (\<lambda>receive_byte_count.
     and_then (read_le32 data PPP_DIAG_RECEIVE_FRAME_COUNT) (\<lambda>receive_frame_count.
     and_then (read_le32 data PPP_DIAG_RECEIVE_FCS_ERROR_COUNT) (\<lambda>receive_fcs_error_count.
     and_then (read_le32 data PPP_DIAG_RECEIVE_INVALID_COUNT) (\<lambda>receive_invalid_count.
     and_then (read_le32 data PPP_DIAG_RECEIVE_OVERFLOW_COUNT) (\<lambda>receive_overflow_count.
     and_then (read_le32 data PPP_DIAG_RECEIVE_DRAIN_BUDGET_YIELD_COUNT) (\<lambda>receive_drain_budget_yield_count.
     and_then (read_le32 data PPP_DIAG_TRANSMIT_WIRE_BYTE_COUNT) (\<lambda>transmit_wire_byte_count.
     and_then (read_le32 data PPP_DIAG_TRANSMIT_FRAME_COUNT) (\<lambda>transmit_frame_count.
     and_then (read_le32 data PPP_DIAG_TRANSMIT_BACKPRESSURE_COUNT) (\<lambda>transmit_backpressure_count.
     and_then (read_le32 data PPP_DIAG_TRANSMIT_ABORT_COUNT) (\<lambda>transmit_abort_count.
     Ok \<lparr>pd_receive_enabled = (receive_enabled \<noteq> 0),
         pd_receive_active = (receive_active \<noteq> 0),
         pd_frame_ready = (frame_ready \<noteq> 0), pd_receive_last_event = receive_last_event,
         pd_receive_last_invalid_reason = receive_last_invalid_reason,
         pd_decoder_flags = decoder_flags, pd_transmit_active = (transmit_active \<noteq> 0),
         pd_transmit_stage = transmit_stage,
         pd_transmit_escape_second = (transmit_escape_second \<noteq> 0),
         pd_transmit_last_wire_byte = transmit_last_wire_byte, pd_last_protocol = last_protocol,
         pd_last_frame_length = last_frame_length, pd_decoder_length = decoder_length,
         pd_decoder_fcs = decoder_fcs, pd_transmit_length = transmit_length,
         pd_transmit_position = transmit_position, pd_transmit_fcs = transmit_fcs,
         pd_receive_byte_count = receive_byte_count, pd_receive_frame_count = receive_frame_count,
         pd_receive_fcs_error_count = receive_fcs_error_count,
         pd_receive_invalid_count = receive_invalid_count,
         pd_receive_overflow_count = receive_overflow_count,
         pd_receive_drain_budget_yield_count = receive_drain_budget_yield_count,
         pd_transmit_wire_byte_count = transmit_wire_byte_count,
         pd_transmit_frame_count = transmit_frame_count,
         pd_transmit_backpressure_count = transmit_backpressure_count,
         pd_transmit_abort_count = transmit_abort_count\<rparr>)))))))))))))))))))))))))))"

definition link_image :: "link_diagnostic \<Rightarrow> (nat \<Rightarrow> u8) \<Rightarrow> bytes" where
  "link_image s flag =
     [flag PPP_DIAG_RECEIVE_ENABLED] @ [flag PPP_DIAG_RECEIVE_ACTIVE] @
     [flag PPP_DIAG_FRAME_READY] @ [pd_receive_last_event s] @ [pd_receive_last_invalid_reason s] @
     [pd_decoder_flags s] @ [flag PPP_DIAG_TRANSMIT_ACTIVE] @ [pd_transmit_stage s] @
     [flag PPP_DIAG_TRANSMIT_ESCAPE_SECOND] @ [pd_transmit_last_wire_byte s] @
     to_le16 (pd_last_protocol s) @ to_le16 (pd_last_frame_length s) @
     to_le16 (pd_decoder_length s) @ to_le16 (pd_decoder_fcs s) @ to_le16 (pd_transmit_length s) @
     to_le16 (pd_transmit_position s) @ to_le16 (pd_transmit_fcs s) @
     to_le32 (pd_receive_byte_count s) @ to_le32 (pd_receive_frame_count s) @
     to_le32 (pd_receive_fcs_error_count s) @ to_le32 (pd_receive_invalid_count s) @
     to_le32 (pd_receive_overflow_count s) @ to_le32 (pd_receive_drain_budget_yield_count s) @
     to_le32 (pd_transmit_wire_byte_count s) @ to_le32 (pd_transmit_frame_count s) @
     to_le32 (pd_transmit_backpressure_count s) @ to_le32 (pd_transmit_abort_count s)"

definition link_flags :: "link_diagnostic \<Rightarrow> (nat \<Rightarrow> u8) \<Rightarrow> bool" where
  "link_flags s flag \<longleftrightarrow>
     (pd_receive_enabled s \<longleftrightarrow> flag PPP_DIAG_RECEIVE_ENABLED \<noteq> 0) \<and>
     (pd_receive_active s \<longleftrightarrow> flag PPP_DIAG_RECEIVE_ACTIVE \<noteq> 0) \<and>
     (pd_frame_ready s \<longleftrightarrow> flag PPP_DIAG_FRAME_READY \<noteq> 0) \<and>
     (pd_transmit_active s \<longleftrightarrow> flag PPP_DIAG_TRANSMIT_ACTIVE \<noteq> 0) \<and>
     (pd_transmit_escape_second s \<longleftrightarrow> flag PPP_DIAG_TRANSMIT_ESCAPE_SECOND \<noteq> 0)"

lemma length_link_image [simp]: "length (link_image s flag) = 64"
  by (simp add: link_image_def)

lemma decode_link_fields:
  "511 \<le> length data \<Longrightarrow>
   \<exists>s. decode_link data = Ok s \<and> link_image s ((!) data) = take 64 (drop 12 data) \<and> link_flags s ((!) data)"
  by (simp add: decode_link_def reads abi link_image_def link_flags_def segments)

lemma link_inject:
  "link_image s flag = link_image s' flag' \<Longrightarrow> link_flags s flag \<Longrightarrow> link_flags s' flag' \<Longrightarrow> s = s'"
  by (cases s; cases s') (auto simp: link_image_def link_flags_def)

section \<open>LCP and the carrier\<close>

record lcp_diagnostic =
  pd_lcp_state :: u8
  pd_lcp_last_code :: u8
  pd_lcp_last_identifier :: u8
  pd_lcp_last_error :: u8
  pd_lcp_request_identifier :: u8
  pd_lcp_restart_remaining :: u8
  pd_lcp_peer_flags :: u8
  pd_lcp_pending_action :: u8
  pd_lcp_packet_length :: u16
  pd_lcp_peer_mru :: u16
  pd_lcp_peer_accm :: u32
  pd_lcp_receive_count :: u32
  pd_lcp_timer_active :: bool
  pd_lcp_deferred_request :: bool
  pd_lcp_restart_deadline :: u16
  pd_lcp_peer_magic :: u32
  pd_carrier_loss_count :: u32
  pd_carrier_tail_byte_count :: u32

definition decode_lcp :: "bytes \<Rightarrow> (lcp_diagnostic, protocol_error) result" where
  "decode_lcp data =
     and_then (octet_at data PPP_DIAG_LCP_STATE) (\<lambda>lcp_state.
     and_then (octet_at data PPP_DIAG_LCP_LAST_CODE) (\<lambda>lcp_last_code.
     and_then (octet_at data PPP_DIAG_LCP_LAST_IDENTIFIER) (\<lambda>lcp_last_identifier.
     and_then (octet_at data PPP_DIAG_LCP_LAST_ERROR) (\<lambda>lcp_last_error.
     and_then (octet_at data PPP_DIAG_LCP_REQUEST_IDENTIFIER) (\<lambda>lcp_request_identifier.
     and_then (octet_at data PPP_DIAG_LCP_RESTART_REMAINING) (\<lambda>lcp_restart_remaining.
     and_then (octet_at data PPP_DIAG_LCP_PEER_FLAGS) (\<lambda>lcp_peer_flags.
     and_then (octet_at data PPP_DIAG_LCP_PENDING_ACTION) (\<lambda>lcp_pending_action.
     and_then (read_le16 data PPP_DIAG_LCP_PACKET_LENGTH) (\<lambda>lcp_packet_length.
     and_then (read_le16 data PPP_DIAG_LCP_PEER_MRU) (\<lambda>lcp_peer_mru.
     and_then (read_le32 data PPP_DIAG_LCP_PEER_ACCM) (\<lambda>lcp_peer_accm.
     and_then (read_le32 data PPP_DIAG_LCP_RECEIVE_COUNT) (\<lambda>lcp_receive_count.
     and_then (octet_at data PPP_DIAG_LCP_TIMER_ACTIVE) (\<lambda>lcp_timer_active.
     and_then (octet_at data PPP_DIAG_LCP_DEFERRED_REQUEST) (\<lambda>lcp_deferred_request.
     and_then (read_le16 data PPP_DIAG_LCP_RESTART_DEADLINE) (\<lambda>lcp_restart_deadline.
     and_then (read_le32 data PPP_DIAG_LCP_PEER_MAGIC) (\<lambda>lcp_peer_magic.
     and_then (read_le32 data PPP_DIAG_CARRIER_LOSS_COUNT) (\<lambda>carrier_loss_count.
     and_then (read_le32 data PPP_DIAG_CARRIER_TAIL_BYTE_COUNT) (\<lambda>carrier_tail_byte_count.
     Ok \<lparr>pd_lcp_state = lcp_state, pd_lcp_last_code = lcp_last_code,
         pd_lcp_last_identifier = lcp_last_identifier, pd_lcp_last_error = lcp_last_error,
         pd_lcp_request_identifier = lcp_request_identifier,
         pd_lcp_restart_remaining = lcp_restart_remaining, pd_lcp_peer_flags = lcp_peer_flags,
         pd_lcp_pending_action = lcp_pending_action, pd_lcp_packet_length = lcp_packet_length,
         pd_lcp_peer_mru = lcp_peer_mru, pd_lcp_peer_accm = lcp_peer_accm,
         pd_lcp_receive_count = lcp_receive_count,
         pd_lcp_timer_active = (lcp_timer_active \<noteq> 0),
         pd_lcp_deferred_request = (lcp_deferred_request \<noteq> 0),
         pd_lcp_restart_deadline = lcp_restart_deadline, pd_lcp_peer_magic = lcp_peer_magic,
         pd_carrier_loss_count = carrier_loss_count,
         pd_carrier_tail_byte_count = carrier_tail_byte_count\<rparr>))))))))))))))))))"

definition lcp_image :: "lcp_diagnostic \<Rightarrow> (nat \<Rightarrow> u8) \<Rightarrow> bytes" where
  "lcp_image s flag =
     [pd_lcp_state s] @ [pd_lcp_last_code s] @ [pd_lcp_last_identifier s] @ [pd_lcp_last_error s] @
     [pd_lcp_request_identifier s] @ [pd_lcp_restart_remaining s] @ [pd_lcp_peer_flags s] @
     [pd_lcp_pending_action s] @ to_le16 (pd_lcp_packet_length s) @ to_le16 (pd_lcp_peer_mru s) @
     to_le32 (pd_lcp_peer_accm s) @ to_le32 (pd_lcp_receive_count s) @
     [flag PPP_DIAG_LCP_TIMER_ACTIVE] @ [flag PPP_DIAG_LCP_DEFERRED_REQUEST] @
     to_le16 (pd_lcp_restart_deadline s) @ to_le32 (pd_lcp_peer_magic s) @
     to_le32 (pd_carrier_loss_count s) @ to_le32 (pd_carrier_tail_byte_count s)"

definition lcp_flags :: "lcp_diagnostic \<Rightarrow> (nat \<Rightarrow> u8) \<Rightarrow> bool" where
  "lcp_flags s flag \<longleftrightarrow>
     (pd_lcp_timer_active s \<longleftrightarrow> flag PPP_DIAG_LCP_TIMER_ACTIVE \<noteq> 0) \<and>
     (pd_lcp_deferred_request s \<longleftrightarrow> flag PPP_DIAG_LCP_DEFERRED_REQUEST \<noteq> 0)"

lemma length_lcp_image [simp]: "length (lcp_image s flag) = 36"
  by (simp add: lcp_image_def)

lemma decode_lcp_fields:
  "511 \<le> length data \<Longrightarrow>
   \<exists>s. decode_lcp data = Ok s \<and> lcp_image s ((!) data) = take 36 (drop 76 data) \<and> lcp_flags s ((!) data)"
  by (simp add: decode_lcp_def reads abi lcp_image_def lcp_flags_def segments)

lemma lcp_inject:
  "lcp_image s flag = lcp_image s' flag' \<Longrightarrow> lcp_flags s flag \<Longrightarrow> lcp_flags s' flag' \<Longrightarrow> s = s'"
  by (cases s; cases s') (auto simp: lcp_image_def lcp_flags_def)

section \<open>PAP\<close>

record pap_diagnostic =
  pd_pap_state :: u8
  pd_pap_last_code :: u8
  pd_pap_last_identifier :: u8
  pd_pap_last_error :: u8
  pd_pap_request_identifier :: u8
  pd_pap_next_identifier :: u8
  pd_pap_restart_remaining :: u8
  pd_pap_pending_action :: u8
  pd_pap_timer_active :: bool
  pd_pap_failure :: u8
  pd_pap_packet_length :: u16
  pd_pap_restart_deadline :: u16
  pd_pap_receive_count :: u32
  pd_pap_transmit_count :: u32

definition decode_pap :: "bytes \<Rightarrow> (pap_diagnostic, protocol_error) result" where
  "decode_pap data =
     and_then (octet_at data PPP_DIAG_PAP_STATE) (\<lambda>pap_state.
     and_then (octet_at data PPP_DIAG_PAP_LAST_CODE) (\<lambda>pap_last_code.
     and_then (octet_at data PPP_DIAG_PAP_LAST_IDENTIFIER) (\<lambda>pap_last_identifier.
     and_then (octet_at data PPP_DIAG_PAP_LAST_ERROR) (\<lambda>pap_last_error.
     and_then (octet_at data PPP_DIAG_PAP_REQUEST_IDENTIFIER) (\<lambda>pap_request_identifier.
     and_then (octet_at data PPP_DIAG_PAP_NEXT_IDENTIFIER) (\<lambda>pap_next_identifier.
     and_then (octet_at data PPP_DIAG_PAP_RESTART_REMAINING) (\<lambda>pap_restart_remaining.
     and_then (octet_at data PPP_DIAG_PAP_PENDING_ACTION) (\<lambda>pap_pending_action.
     and_then (octet_at data PPP_DIAG_PAP_TIMER_ACTIVE) (\<lambda>pap_timer_active.
     and_then (octet_at data PPP_DIAG_PAP_FAILURE) (\<lambda>pap_failure.
     and_then (read_le16 data PPP_DIAG_PAP_PACKET_LENGTH) (\<lambda>pap_packet_length.
     and_then (read_le16 data PPP_DIAG_PAP_RESTART_DEADLINE) (\<lambda>pap_restart_deadline.
     and_then (read_le32 data PPP_DIAG_PAP_RECEIVE_COUNT) (\<lambda>pap_receive_count.
     and_then (read_le32 data PPP_DIAG_PAP_TRANSMIT_COUNT) (\<lambda>pap_transmit_count.
     Ok \<lparr>pd_pap_state = pap_state, pd_pap_last_code = pap_last_code,
         pd_pap_last_identifier = pap_last_identifier, pd_pap_last_error = pap_last_error,
         pd_pap_request_identifier = pap_request_identifier,
         pd_pap_next_identifier = pap_next_identifier,
         pd_pap_restart_remaining = pap_restart_remaining,
         pd_pap_pending_action = pap_pending_action,
         pd_pap_timer_active = (pap_timer_active \<noteq> 0), pd_pap_failure = pap_failure,
         pd_pap_packet_length = pap_packet_length, pd_pap_restart_deadline = pap_restart_deadline,
         pd_pap_receive_count = pap_receive_count, pd_pap_transmit_count = pap_transmit_count\<rparr>))))))))))))))"

definition pap_image :: "pap_diagnostic \<Rightarrow> (nat \<Rightarrow> u8) \<Rightarrow> bytes" where
  "pap_image s flag =
     [pd_pap_state s] @ [pd_pap_last_code s] @ [pd_pap_last_identifier s] @ [pd_pap_last_error s] @
     [pd_pap_request_identifier s] @ [pd_pap_next_identifier s] @ [pd_pap_restart_remaining s] @
     [pd_pap_pending_action s] @ [flag PPP_DIAG_PAP_TIMER_ACTIVE] @ [pd_pap_failure s] @
     to_le16 (pd_pap_packet_length s) @ to_le16 (pd_pap_restart_deadline s) @
     to_le32 (pd_pap_receive_count s) @ to_le32 (pd_pap_transmit_count s)"

definition pap_flags :: "pap_diagnostic \<Rightarrow> (nat \<Rightarrow> u8) \<Rightarrow> bool" where
  "pap_flags s flag \<longleftrightarrow>
     (pd_pap_timer_active s \<longleftrightarrow> flag PPP_DIAG_PAP_TIMER_ACTIVE \<noteq> 0)"

lemma length_pap_image [simp]: "length (pap_image s flag) = 22"
  by (simp add: pap_image_def)

lemma decode_pap_fields:
  "511 \<le> length data \<Longrightarrow>
   \<exists>s. decode_pap data = Ok s \<and> pap_image s ((!) data) = take 22 (drop 112 data) \<and> pap_flags s ((!) data)"
  by (simp add: decode_pap_def reads abi pap_image_def pap_flags_def segments)

lemma pap_inject:
  "pap_image s flag = pap_image s' flag' \<Longrightarrow> pap_flags s flag \<Longrightarrow> pap_flags s' flag' \<Longrightarrow> s = s'"
  by (cases s; cases s') (auto simp: pap_image_def pap_flags_def)

section \<open>IPCP\<close>

record ipcp_diagnostic =
  pd_ipcp_state :: u8
  pd_ipcp_last_code :: u8
  pd_ipcp_last_identifier :: u8
  pd_ipcp_last_error :: u8
  pd_ipcp_request_identifier :: u8
  pd_ipcp_restart_remaining :: u8
  pd_ipcp_pending_action :: u8
  pd_ipcp_timer_active :: bool
  pd_ipcp_packet_length :: u16
  pd_ipcp_restart_deadline :: u16
  pd_ipcp_receive_count :: u32
  pd_ipcp_transmit_count :: u32
  pd_ipcp_local_address :: octets4
  pd_ipcp_peer_address :: octets4
  pd_ipcp_flags :: u8
  pd_ipcp_deferred_request :: bool

definition decode_ipcp :: "bytes \<Rightarrow> (ipcp_diagnostic, protocol_error) result" where
  "decode_ipcp data =
     and_then (octet_at data PPP_DIAG_IPCP_STATE) (\<lambda>ipcp_state.
     and_then (octet_at data PPP_DIAG_IPCP_LAST_CODE) (\<lambda>ipcp_last_code.
     and_then (octet_at data PPP_DIAG_IPCP_LAST_IDENTIFIER) (\<lambda>ipcp_last_identifier.
     and_then (octet_at data PPP_DIAG_IPCP_LAST_ERROR) (\<lambda>ipcp_last_error.
     and_then (octet_at data PPP_DIAG_IPCP_REQUEST_IDENTIFIER) (\<lambda>ipcp_request_identifier.
     and_then (octet_at data PPP_DIAG_IPCP_RESTART_REMAINING) (\<lambda>ipcp_restart_remaining.
     and_then (octet_at data PPP_DIAG_IPCP_PENDING_ACTION) (\<lambda>ipcp_pending_action.
     and_then (octet_at data PPP_DIAG_IPCP_TIMER_ACTIVE) (\<lambda>ipcp_timer_active.
     and_then (read_le16 data PPP_DIAG_IPCP_PACKET_LENGTH) (\<lambda>ipcp_packet_length.
     and_then (read_le16 data PPP_DIAG_IPCP_RESTART_DEADLINE) (\<lambda>ipcp_restart_deadline.
     and_then (read_le32 data PPP_DIAG_IPCP_RECEIVE_COUNT) (\<lambda>ipcp_receive_count.
     and_then (read_le32 data PPP_DIAG_IPCP_TRANSMIT_COUNT) (\<lambda>ipcp_transmit_count.
     and_then (read_octets4 data PPP_DIAG_IPCP_LOCAL_ADDRESS) (\<lambda>ipcp_local_address.
     and_then (read_octets4 data PPP_DIAG_IPCP_PEER_ADDRESS) (\<lambda>ipcp_peer_address.
     and_then (octet_at data PPP_DIAG_IPCP_FLAGS) (\<lambda>ipcp_flags.
     and_then (octet_at data PPP_DIAG_IPCP_DEFERRED_REQUEST) (\<lambda>ipcp_deferred_request.
     Ok \<lparr>pd_ipcp_state = ipcp_state, pd_ipcp_last_code = ipcp_last_code,
         pd_ipcp_last_identifier = ipcp_last_identifier, pd_ipcp_last_error = ipcp_last_error,
         pd_ipcp_request_identifier = ipcp_request_identifier,
         pd_ipcp_restart_remaining = ipcp_restart_remaining,
         pd_ipcp_pending_action = ipcp_pending_action,
         pd_ipcp_timer_active = (ipcp_timer_active \<noteq> 0),
         pd_ipcp_packet_length = ipcp_packet_length,
         pd_ipcp_restart_deadline = ipcp_restart_deadline,
         pd_ipcp_receive_count = ipcp_receive_count, pd_ipcp_transmit_count = ipcp_transmit_count,
         pd_ipcp_local_address = ipcp_local_address, pd_ipcp_peer_address = ipcp_peer_address,
         pd_ipcp_flags = ipcp_flags,
         pd_ipcp_deferred_request = (ipcp_deferred_request \<noteq> 0)\<rparr>))))))))))))))))"

definition ipcp_image :: "ipcp_diagnostic \<Rightarrow> (nat \<Rightarrow> u8) \<Rightarrow> bytes" where
  "ipcp_image s flag =
     [pd_ipcp_state s] @ [pd_ipcp_last_code s] @ [pd_ipcp_last_identifier s] @
     [pd_ipcp_last_error s] @ [pd_ipcp_request_identifier s] @ [pd_ipcp_restart_remaining s] @
     [pd_ipcp_pending_action s] @ [flag PPP_DIAG_IPCP_TIMER_ACTIVE] @
     to_le16 (pd_ipcp_packet_length s) @ to_le16 (pd_ipcp_restart_deadline s) @
     to_le32 (pd_ipcp_receive_count s) @ to_le32 (pd_ipcp_transmit_count s) @
     octets4_list (pd_ipcp_local_address s) @ octets4_list (pd_ipcp_peer_address s) @
     [pd_ipcp_flags s] @ [flag PPP_DIAG_IPCP_DEFERRED_REQUEST]"

definition ipcp_flags :: "ipcp_diagnostic \<Rightarrow> (nat \<Rightarrow> u8) \<Rightarrow> bool" where
  "ipcp_flags s flag \<longleftrightarrow>
     (pd_ipcp_timer_active s \<longleftrightarrow> flag PPP_DIAG_IPCP_TIMER_ACTIVE \<noteq> 0) \<and>
     (pd_ipcp_deferred_request s \<longleftrightarrow> flag PPP_DIAG_IPCP_DEFERRED_REQUEST \<noteq> 0)"

lemma length_ipcp_image [simp]: "length (ipcp_image s flag) = 30"
  by (simp add: ipcp_image_def)

lemma decode_ipcp_fields:
  "511 \<le> length data \<Longrightarrow>
   \<exists>s. decode_ipcp data = Ok s \<and> ipcp_image s ((!) data) = take 30 (drop 134 data) \<and> ipcp_flags s ((!) data)"
  by (simp add: decode_ipcp_def reads abi ipcp_image_def ipcp_flags_def segments)

lemma ipcp_inject:
  "ipcp_image s flag = ipcp_image s' flag' \<Longrightarrow> ipcp_flags s flag \<Longrightarrow> ipcp_flags s' flag' \<Longrightarrow> s = s'"
  by (cases s; cases s') (auto simp: ipcp_image_def ipcp_flags_def)

section \<open>IPv4\<close>

record ipv4_diagnostic =
  pd_ipv4_last_error :: u8
  pd_ipv4_header_length :: u8
  pd_ipv4_protocol :: u8
  pd_ipv4_ttl :: u8
  pd_ipv4_total_length :: u16
  pd_ipv4_payload_length :: u16
  pd_ipv4_identification :: u16
  pd_ipv4_flags_fragment_offset :: u16
  pd_ipv4_header_checksum :: u16
  pd_ipv4_source_address :: octets4
  pd_ipv4_destination_address :: octets4
  pd_ipv4_receive_count :: u32
  pd_ipv4_accepted_count :: u32
  pd_ipv4_checksum_error_count :: u32
  pd_ipv4_drop_count :: u32
  pd_ipv4_transmit_count :: u32
  pd_ipv4_next_identification :: u16
  pd_ipv4_flags :: u8

definition decode_ipv4 :: "bytes \<Rightarrow> (ipv4_diagnostic, protocol_error) result" where
  "decode_ipv4 data =
     and_then (octet_at data PPP_DIAG_IPV4_LAST_ERROR) (\<lambda>ipv4_last_error.
     and_then (octet_at data PPP_DIAG_IPV4_HEADER_LENGTH) (\<lambda>ipv4_header_length.
     and_then (octet_at data PPP_DIAG_IPV4_PROTOCOL) (\<lambda>ipv4_protocol.
     and_then (octet_at data PPP_DIAG_IPV4_TTL) (\<lambda>ipv4_ttl.
     and_then (read_le16 data PPP_DIAG_IPV4_TOTAL_LENGTH) (\<lambda>ipv4_total_length.
     and_then (read_le16 data PPP_DIAG_IPV4_PAYLOAD_LENGTH) (\<lambda>ipv4_payload_length.
     and_then (read_le16 data PPP_DIAG_IPV4_IDENTIFICATION) (\<lambda>ipv4_identification.
     and_then (read_le16 data PPP_DIAG_IPV4_FLAGS_FRAGMENT_OFFSET) (\<lambda>ipv4_flags_fragment_offset.
     and_then (read_le16 data PPP_DIAG_IPV4_HEADER_CHECKSUM) (\<lambda>ipv4_header_checksum.
     and_then (read_octets4 data PPP_DIAG_IPV4_SOURCE_ADDRESS) (\<lambda>ipv4_source_address.
     and_then (read_octets4 data PPP_DIAG_IPV4_DESTINATION_ADDRESS) (\<lambda>ipv4_destination_address.
     and_then (read_le32 data PPP_DIAG_IPV4_RECEIVE_COUNT) (\<lambda>ipv4_receive_count.
     and_then (read_le32 data PPP_DIAG_IPV4_ACCEPTED_COUNT) (\<lambda>ipv4_accepted_count.
     and_then (read_le32 data PPP_DIAG_IPV4_CHECKSUM_ERROR_COUNT) (\<lambda>ipv4_checksum_error_count.
     and_then (read_le32 data PPP_DIAG_IPV4_DROP_COUNT) (\<lambda>ipv4_drop_count.
     and_then (read_le32 data PPP_DIAG_IPV4_TRANSMIT_COUNT) (\<lambda>ipv4_transmit_count.
     and_then (read_le16 data PPP_DIAG_IPV4_NEXT_IDENTIFICATION) (\<lambda>ipv4_next_identification.
     and_then (octet_at data PPP_DIAG_IPV4_FLAGS) (\<lambda>ipv4_flags.
     Ok \<lparr>pd_ipv4_last_error = ipv4_last_error, pd_ipv4_header_length = ipv4_header_length,
         pd_ipv4_protocol = ipv4_protocol, pd_ipv4_ttl = ipv4_ttl,
         pd_ipv4_total_length = ipv4_total_length, pd_ipv4_payload_length = ipv4_payload_length,
         pd_ipv4_identification = ipv4_identification,
         pd_ipv4_flags_fragment_offset = ipv4_flags_fragment_offset,
         pd_ipv4_header_checksum = ipv4_header_checksum,
         pd_ipv4_source_address = ipv4_source_address,
         pd_ipv4_destination_address = ipv4_destination_address,
         pd_ipv4_receive_count = ipv4_receive_count, pd_ipv4_accepted_count = ipv4_accepted_count,
         pd_ipv4_checksum_error_count = ipv4_checksum_error_count,
         pd_ipv4_drop_count = ipv4_drop_count, pd_ipv4_transmit_count = ipv4_transmit_count,
         pd_ipv4_next_identification = ipv4_next_identification, pd_ipv4_flags = ipv4_flags\<rparr>))))))))))))))))))"

definition ipv4_image :: "ipv4_diagnostic \<Rightarrow> bytes" where
  "ipv4_image s =
     [pd_ipv4_last_error s] @ [pd_ipv4_header_length s] @ [pd_ipv4_protocol s] @ [pd_ipv4_ttl s] @
     to_le16 (pd_ipv4_total_length s) @ to_le16 (pd_ipv4_payload_length s) @
     to_le16 (pd_ipv4_identification s) @ to_le16 (pd_ipv4_flags_fragment_offset s) @
     to_le16 (pd_ipv4_header_checksum s) @ octets4_list (pd_ipv4_source_address s) @
     octets4_list (pd_ipv4_destination_address s) @ to_le32 (pd_ipv4_receive_count s) @
     to_le32 (pd_ipv4_accepted_count s) @ to_le32 (pd_ipv4_checksum_error_count s) @
     to_le32 (pd_ipv4_drop_count s) @ to_le32 (pd_ipv4_transmit_count s) @
     to_le16 (pd_ipv4_next_identification s) @ [pd_ipv4_flags s]"

lemma length_ipv4_image [simp]: "length (ipv4_image s) = 45"
  by (simp add: ipv4_image_def)

lemma decode_ipv4_fields:
  "511 \<le> length data \<Longrightarrow>
   \<exists>s. decode_ipv4 data = Ok s \<and> ipv4_image s = take 45 (drop 164 data)"
  by (simp add: decode_ipv4_def reads abi ipv4_image_def segments)

lemma ipv4_inject: "ipv4_image s = ipv4_image s' \<longleftrightarrow> s = s'"
  by (cases s; cases s') (auto simp: ipv4_image_def)

section \<open>ICMP\<close>

record icmp_diagnostic =
  pd_icmp_last_error :: u8
  pd_icmp_last_type :: u8
  pd_icmp_last_code :: u8
  pd_icmp_flags :: u8
  pd_icmp_identifier :: u16
  pd_icmp_sequence :: u16
  pd_icmp_payload_length :: u16
  pd_icmp_checksum :: u16
  pd_icmp_receive_count :: u32
  pd_icmp_echo_request_count :: u32
  pd_icmp_echo_reply_count :: u32
  pd_icmp_checksum_error_count :: u32
  pd_icmp_drop_count :: u32
  pd_icmp_transmit_count :: u32

definition decode_icmp :: "bytes \<Rightarrow> (icmp_diagnostic, protocol_error) result" where
  "decode_icmp data =
     and_then (octet_at data PPP_DIAG_ICMP_LAST_ERROR) (\<lambda>icmp_last_error.
     and_then (octet_at data PPP_DIAG_ICMP_LAST_TYPE) (\<lambda>icmp_last_type.
     and_then (octet_at data PPP_DIAG_ICMP_LAST_CODE) (\<lambda>icmp_last_code.
     and_then (octet_at data PPP_DIAG_ICMP_FLAGS) (\<lambda>icmp_flags.
     and_then (read_le16 data PPP_DIAG_ICMP_IDENTIFIER) (\<lambda>icmp_identifier.
     and_then (read_le16 data PPP_DIAG_ICMP_SEQUENCE) (\<lambda>icmp_sequence.
     and_then (read_le16 data PPP_DIAG_ICMP_PAYLOAD_LENGTH) (\<lambda>icmp_payload_length.
     and_then (read_le16 data PPP_DIAG_ICMP_CHECKSUM) (\<lambda>icmp_checksum.
     and_then (read_le32 data PPP_DIAG_ICMP_RECEIVE_COUNT) (\<lambda>icmp_receive_count.
     and_then (read_le32 data PPP_DIAG_ICMP_ECHO_REQUEST_COUNT) (\<lambda>icmp_echo_request_count.
     and_then (read_le32 data PPP_DIAG_ICMP_ECHO_REPLY_COUNT) (\<lambda>icmp_echo_reply_count.
     and_then (read_le32 data PPP_DIAG_ICMP_CHECKSUM_ERROR_COUNT) (\<lambda>icmp_checksum_error_count.
     and_then (read_le32 data PPP_DIAG_ICMP_DROP_COUNT) (\<lambda>icmp_drop_count.
     and_then (read_le32 data PPP_DIAG_ICMP_TRANSMIT_COUNT) (\<lambda>icmp_transmit_count.
     Ok \<lparr>pd_icmp_last_error = icmp_last_error, pd_icmp_last_type = icmp_last_type,
         pd_icmp_last_code = icmp_last_code, pd_icmp_flags = icmp_flags,
         pd_icmp_identifier = icmp_identifier, pd_icmp_sequence = icmp_sequence,
         pd_icmp_payload_length = icmp_payload_length, pd_icmp_checksum = icmp_checksum,
         pd_icmp_receive_count = icmp_receive_count,
         pd_icmp_echo_request_count = icmp_echo_request_count,
         pd_icmp_echo_reply_count = icmp_echo_reply_count,
         pd_icmp_checksum_error_count = icmp_checksum_error_count,
         pd_icmp_drop_count = icmp_drop_count, pd_icmp_transmit_count = icmp_transmit_count\<rparr>))))))))))))))"

definition icmp_image :: "icmp_diagnostic \<Rightarrow> bytes" where
  "icmp_image s =
     [pd_icmp_last_error s] @ [pd_icmp_last_type s] @ [pd_icmp_last_code s] @ [pd_icmp_flags s] @
     to_le16 (pd_icmp_identifier s) @ to_le16 (pd_icmp_sequence s) @
     to_le16 (pd_icmp_payload_length s) @ to_le16 (pd_icmp_checksum s) @
     to_le32 (pd_icmp_receive_count s) @ to_le32 (pd_icmp_echo_request_count s) @
     to_le32 (pd_icmp_echo_reply_count s) @ to_le32 (pd_icmp_checksum_error_count s) @
     to_le32 (pd_icmp_drop_count s) @ to_le32 (pd_icmp_transmit_count s)"

lemma length_icmp_image [simp]: "length (icmp_image s) = 36"
  by (simp add: icmp_image_def)

lemma decode_icmp_fields:
  "511 \<le> length data \<Longrightarrow>
   \<exists>s. decode_icmp data = Ok s \<and> icmp_image s = take 36 (drop 209 data)"
  by (simp add: decode_icmp_def reads abi icmp_image_def segments)

lemma icmp_inject: "icmp_image s = icmp_image s' \<longleftrightarrow> s = s'"
  by (cases s; cases s') (auto simp: icmp_image_def)

section \<open>UDP\<close>

record udp_diagnostic =
  pd_udp_last_error :: u8
  pd_udp_flags :: u8
  pd_udp_source_port :: u16
  pd_udp_destination_port :: u16
  pd_udp_length :: u16
  pd_udp_payload_length :: u16
  pd_udp_checksum :: u16
  pd_udp_receive_count :: u32
  pd_udp_checksum_error_count :: u32
  pd_udp_drop_count :: u32
  pd_udp_transmit_count :: u32

definition decode_udp :: "bytes \<Rightarrow> (udp_diagnostic, protocol_error) result" where
  "decode_udp data =
     and_then (octet_at data PPP_DIAG_UDP_LAST_ERROR) (\<lambda>udp_last_error.
     and_then (octet_at data PPP_DIAG_UDP_FLAGS) (\<lambda>udp_flags.
     and_then (read_le16 data PPP_DIAG_UDP_SOURCE_PORT) (\<lambda>udp_source_port.
     and_then (read_le16 data PPP_DIAG_UDP_DESTINATION_PORT) (\<lambda>udp_destination_port.
     and_then (read_le16 data PPP_DIAG_UDP_LENGTH) (\<lambda>udp_length.
     and_then (read_le16 data PPP_DIAG_UDP_PAYLOAD_LENGTH) (\<lambda>udp_payload_length.
     and_then (read_le16 data PPP_DIAG_UDP_CHECKSUM) (\<lambda>udp_checksum.
     and_then (read_le32 data PPP_DIAG_UDP_RECEIVE_COUNT) (\<lambda>udp_receive_count.
     and_then (read_le32 data PPP_DIAG_UDP_CHECKSUM_ERROR_COUNT) (\<lambda>udp_checksum_error_count.
     and_then (read_le32 data PPP_DIAG_UDP_DROP_COUNT) (\<lambda>udp_drop_count.
     and_then (read_le32 data PPP_DIAG_UDP_TRANSMIT_COUNT) (\<lambda>udp_transmit_count.
     Ok \<lparr>pd_udp_last_error = udp_last_error, pd_udp_flags = udp_flags,
         pd_udp_source_port = udp_source_port, pd_udp_destination_port = udp_destination_port,
         pd_udp_length = udp_length, pd_udp_payload_length = udp_payload_length,
         pd_udp_checksum = udp_checksum, pd_udp_receive_count = udp_receive_count,
         pd_udp_checksum_error_count = udp_checksum_error_count,
         pd_udp_drop_count = udp_drop_count, pd_udp_transmit_count = udp_transmit_count\<rparr>)))))))))))"

definition udp_image :: "udp_diagnostic \<Rightarrow> bytes" where
  "udp_image s =
     [pd_udp_last_error s] @ [pd_udp_flags s] @ to_le16 (pd_udp_source_port s) @
     to_le16 (pd_udp_destination_port s) @ to_le16 (pd_udp_length s) @
     to_le16 (pd_udp_payload_length s) @ to_le16 (pd_udp_checksum s) @
     to_le32 (pd_udp_receive_count s) @ to_le32 (pd_udp_checksum_error_count s) @
     to_le32 (pd_udp_drop_count s) @ to_le32 (pd_udp_transmit_count s)"

lemma length_udp_image [simp]: "length (udp_image s) = 28"
  by (simp add: udp_image_def)

lemma decode_udp_fields:
  "511 \<le> length data \<Longrightarrow>
   \<exists>s. decode_udp data = Ok s \<and> udp_image s = take 28 (drop 245 data)"
  by (simp add: decode_udp_def reads abi udp_image_def segments)

lemma udp_inject: "udp_image s = udp_image s' \<longleftrightarrow> s = s'"
  by (cases s; cases s') (auto simp: udp_image_def)

section \<open>NTP\<close>

record ntp_diagnostic =
  pd_ntp_state :: u8
  pd_ntp_last_error :: u8
  pd_ntp_flags :: u8
  pd_ntp_version :: u8
  pd_ntp_leap_indicator :: u8
  pd_ntp_stratum :: u8
  pd_ntp_poll :: u8
  pd_ntp_precision :: u8
  pd_ntp_reference_id :: octets4
  pd_ntp_cookie_seconds :: u32
  pd_ntp_cookie_fraction :: u32
  pd_ntp_server_receive_seconds :: u32
  pd_ntp_server_receive_fraction :: u32
  pd_ntp_server_transmit_seconds :: u32
  pd_ntp_server_transmit_fraction :: u32
  pd_ntp_unix_seconds :: u32
  pd_ntp_deadline :: u16
  pd_ntp_request_count :: u32
  pd_ntp_response_count :: u32
  pd_ntp_drop_count :: u32
  pd_ntp_timeout_count :: u32

definition decode_ntp :: "bytes \<Rightarrow> (ntp_diagnostic, protocol_error) result" where
  "decode_ntp data =
     and_then (octet_at data PPP_DIAG_NTP_STATE) (\<lambda>ntp_state.
     and_then (octet_at data PPP_DIAG_NTP_LAST_ERROR) (\<lambda>ntp_last_error.
     and_then (octet_at data PPP_DIAG_NTP_FLAGS) (\<lambda>ntp_flags.
     and_then (octet_at data PPP_DIAG_NTP_VERSION) (\<lambda>ntp_version.
     and_then (octet_at data PPP_DIAG_NTP_LEAP_INDICATOR) (\<lambda>ntp_leap_indicator.
     and_then (octet_at data PPP_DIAG_NTP_STRATUM) (\<lambda>ntp_stratum.
     and_then (octet_at data PPP_DIAG_NTP_POLL) (\<lambda>ntp_poll.
     and_then (octet_at data PPP_DIAG_NTP_PRECISION) (\<lambda>ntp_precision.
     and_then (read_octets4 data PPP_DIAG_NTP_REFERENCE_ID) (\<lambda>ntp_reference_id.
     and_then (read_le32 data PPP_DIAG_NTP_COOKIE_SECONDS) (\<lambda>ntp_cookie_seconds.
     and_then (read_le32 data PPP_DIAG_NTP_COOKIE_FRACTION) (\<lambda>ntp_cookie_fraction.
     and_then (read_le32 data PPP_DIAG_NTP_SERVER_RECEIVE_SECONDS) (\<lambda>ntp_server_receive_seconds.
     and_then (read_le32 data PPP_DIAG_NTP_SERVER_RECEIVE_FRACTION) (\<lambda>ntp_server_receive_fraction.
     and_then (read_le32 data PPP_DIAG_NTP_SERVER_TRANSMIT_SECONDS) (\<lambda>ntp_server_transmit_seconds.
     and_then (read_le32 data PPP_DIAG_NTP_SERVER_TRANSMIT_FRACTION) (\<lambda>ntp_server_transmit_fraction.
     and_then (read_le32 data PPP_DIAG_NTP_UNIX_SECONDS) (\<lambda>ntp_unix_seconds.
     and_then (read_le16 data PPP_DIAG_NTP_DEADLINE) (\<lambda>ntp_deadline.
     and_then (read_le32 data PPP_DIAG_NTP_REQUEST_COUNT) (\<lambda>ntp_request_count.
     and_then (read_le32 data PPP_DIAG_NTP_RESPONSE_COUNT) (\<lambda>ntp_response_count.
     and_then (read_le32 data PPP_DIAG_NTP_DROP_COUNT) (\<lambda>ntp_drop_count.
     and_then (read_le32 data PPP_DIAG_NTP_TIMEOUT_COUNT) (\<lambda>ntp_timeout_count.
     Ok \<lparr>pd_ntp_state = ntp_state, pd_ntp_last_error = ntp_last_error, pd_ntp_flags = ntp_flags,
         pd_ntp_version = ntp_version, pd_ntp_leap_indicator = ntp_leap_indicator,
         pd_ntp_stratum = ntp_stratum, pd_ntp_poll = ntp_poll, pd_ntp_precision = ntp_precision,
         pd_ntp_reference_id = ntp_reference_id, pd_ntp_cookie_seconds = ntp_cookie_seconds,
         pd_ntp_cookie_fraction = ntp_cookie_fraction,
         pd_ntp_server_receive_seconds = ntp_server_receive_seconds,
         pd_ntp_server_receive_fraction = ntp_server_receive_fraction,
         pd_ntp_server_transmit_seconds = ntp_server_transmit_seconds,
         pd_ntp_server_transmit_fraction = ntp_server_transmit_fraction,
         pd_ntp_unix_seconds = ntp_unix_seconds, pd_ntp_deadline = ntp_deadline,
         pd_ntp_request_count = ntp_request_count, pd_ntp_response_count = ntp_response_count,
         pd_ntp_drop_count = ntp_drop_count, pd_ntp_timeout_count = ntp_timeout_count\<rparr>)))))))))))))))))))))"

definition ntp_image :: "ntp_diagnostic \<Rightarrow> bytes" where
  "ntp_image s =
     [pd_ntp_state s] @ [pd_ntp_last_error s] @ [pd_ntp_flags s] @ [pd_ntp_version s] @
     [pd_ntp_leap_indicator s] @ [pd_ntp_stratum s] @ [pd_ntp_poll s] @ [pd_ntp_precision s] @
     octets4_list (pd_ntp_reference_id s) @ to_le32 (pd_ntp_cookie_seconds s) @
     to_le32 (pd_ntp_cookie_fraction s) @ to_le32 (pd_ntp_server_receive_seconds s) @
     to_le32 (pd_ntp_server_receive_fraction s) @ to_le32 (pd_ntp_server_transmit_seconds s) @
     to_le32 (pd_ntp_server_transmit_fraction s) @ to_le32 (pd_ntp_unix_seconds s) @
     to_le16 (pd_ntp_deadline s) @ to_le32 (pd_ntp_request_count s) @
     to_le32 (pd_ntp_response_count s) @ to_le32 (pd_ntp_drop_count s) @
     to_le32 (pd_ntp_timeout_count s)"

lemma length_ntp_image [simp]: "length (ntp_image s) = 58"
  by (simp add: ntp_image_def)

lemma decode_ntp_fields:
  "511 \<le> length data \<Longrightarrow>
   \<exists>s. decode_ntp data = Ok s \<and> ntp_image s = take 58 (drop 273 data)"
  by (simp add: decode_ntp_def reads abi ntp_image_def segments)

lemma ntp_inject: "ntp_image s = ntp_image s' \<longleftrightarrow> s = s'"
  by (cases s; cases s') (auto simp: ntp_image_def)

section \<open>Outgoing echo requests\<close>

record icmp_request_diagnostic =
  pd_icmp_request_state :: u8
  pd_icmp_request_last_error :: u8
  pd_icmp_request_flags :: u8
  pd_icmp_request_destination :: octets4
  pd_icmp_request_identifier :: u16
  pd_icmp_request_sequence :: u16
  pd_icmp_request_deadline :: u16
  pd_icmp_request_sent_frame :: u16
  pd_icmp_request_rtt_frames :: u16
  pd_icmp_request_count :: u32
  pd_icmp_request_response_count :: u32
  pd_icmp_request_drop_count :: u32
  pd_icmp_request_timeout_count :: u32

definition decode_icmp_request :: "bytes \<Rightarrow> (icmp_request_diagnostic, protocol_error) result" where
  "decode_icmp_request data =
     and_then (octet_at data PPP_DIAG_ICMP_REQUEST_STATE) (\<lambda>icmp_request_state.
     and_then (octet_at data PPP_DIAG_ICMP_REQUEST_LAST_ERROR) (\<lambda>icmp_request_last_error.
     and_then (octet_at data PPP_DIAG_ICMP_REQUEST_FLAGS) (\<lambda>icmp_request_flags.
     and_then (read_octets4 data PPP_DIAG_ICMP_REQUEST_DESTINATION) (\<lambda>icmp_request_destination.
     and_then (read_le16 data PPP_DIAG_ICMP_REQUEST_IDENTIFIER) (\<lambda>icmp_request_identifier.
     and_then (read_le16 data PPP_DIAG_ICMP_REQUEST_SEQUENCE) (\<lambda>icmp_request_sequence.
     and_then (read_le16 data PPP_DIAG_ICMP_REQUEST_DEADLINE) (\<lambda>icmp_request_deadline.
     and_then (read_le16 data PPP_DIAG_ICMP_REQUEST_SENT_FRAME) (\<lambda>icmp_request_sent_frame.
     and_then (read_le16 data PPP_DIAG_ICMP_REQUEST_RTT_FRAMES) (\<lambda>icmp_request_rtt_frames.
     and_then (read_le32 data PPP_DIAG_ICMP_REQUEST_COUNT) (\<lambda>icmp_request_count.
     and_then (read_le32 data PPP_DIAG_ICMP_REQUEST_RESPONSE_COUNT) (\<lambda>icmp_request_response_count.
     and_then (read_le32 data PPP_DIAG_ICMP_REQUEST_DROP_COUNT) (\<lambda>icmp_request_drop_count.
     and_then (read_le32 data PPP_DIAG_ICMP_REQUEST_TIMEOUT_COUNT) (\<lambda>icmp_request_timeout_count.
     Ok \<lparr>pd_icmp_request_state = icmp_request_state,
         pd_icmp_request_last_error = icmp_request_last_error,
         pd_icmp_request_flags = icmp_request_flags,
         pd_icmp_request_destination = icmp_request_destination,
         pd_icmp_request_identifier = icmp_request_identifier,
         pd_icmp_request_sequence = icmp_request_sequence,
         pd_icmp_request_deadline = icmp_request_deadline,
         pd_icmp_request_sent_frame = icmp_request_sent_frame,
         pd_icmp_request_rtt_frames = icmp_request_rtt_frames,
         pd_icmp_request_count = icmp_request_count,
         pd_icmp_request_response_count = icmp_request_response_count,
         pd_icmp_request_drop_count = icmp_request_drop_count,
         pd_icmp_request_timeout_count = icmp_request_timeout_count\<rparr>)))))))))))))"

definition icmp_request_image :: "icmp_request_diagnostic \<Rightarrow> bytes" where
  "icmp_request_image s =
     [pd_icmp_request_state s] @ [pd_icmp_request_last_error s] @ [pd_icmp_request_flags s] @
     octets4_list (pd_icmp_request_destination s) @ to_le16 (pd_icmp_request_identifier s) @
     to_le16 (pd_icmp_request_sequence s) @ to_le16 (pd_icmp_request_deadline s) @
     to_le16 (pd_icmp_request_sent_frame s) @ to_le16 (pd_icmp_request_rtt_frames s) @
     to_le32 (pd_icmp_request_count s) @ to_le32 (pd_icmp_request_response_count s) @
     to_le32 (pd_icmp_request_drop_count s) @ to_le32 (pd_icmp_request_timeout_count s)"

lemma length_icmp_request_image [simp]: "length (icmp_request_image s) = 33"
  by (simp add: icmp_request_image_def)

lemma decode_icmp_request_fields:
  "511 \<le> length data \<Longrightarrow>
   \<exists>s. decode_icmp_request data = Ok s \<and> icmp_request_image s = take 33 (drop 331 data)"
  by (simp add: decode_icmp_request_def reads abi icmp_request_image_def segments)

lemma icmp_request_inject: "icmp_request_image s = icmp_request_image s' \<longleftrightarrow> s = s'"
  by (cases s; cases s') (auto simp: icmp_request_image_def)

section \<open>DNS\<close>

record dns_diagnostic =
  pd_dns_state :: u8
  pd_dns_last_error :: u8
  pd_dns_flags :: u8
  pd_dns_response_code :: u8
  pd_dns_resolver :: octets4
  pd_dns_transaction_id :: u16
  pd_dns_answer_count :: u16
  pd_dns_answer_address :: octets4
  pd_dns_deadline :: u16
  pd_dns_sent_frame :: u16
  pd_dns_rtt_frames :: u16
  pd_dns_query_count :: u32
  pd_dns_response_count :: u32
  pd_dns_drop_count :: u32
  pd_dns_timeout_count :: u32

definition decode_dns :: "bytes \<Rightarrow> (dns_diagnostic, protocol_error) result" where
  "decode_dns data =
     and_then (octet_at data PPP_DIAG_DNS_STATE) (\<lambda>dns_state.
     and_then (octet_at data PPP_DIAG_DNS_LAST_ERROR) (\<lambda>dns_last_error.
     and_then (octet_at data PPP_DIAG_DNS_FLAGS) (\<lambda>dns_flags.
     and_then (octet_at data PPP_DIAG_DNS_RESPONSE_CODE) (\<lambda>dns_response_code.
     and_then (read_octets4 data PPP_DIAG_DNS_RESOLVER) (\<lambda>dns_resolver.
     and_then (read_le16 data PPP_DIAG_DNS_TRANSACTION_ID) (\<lambda>dns_transaction_id.
     and_then (read_le16 data PPP_DIAG_DNS_ANSWER_COUNT) (\<lambda>dns_answer_count.
     and_then (read_octets4 data PPP_DIAG_DNS_ANSWER_ADDRESS) (\<lambda>dns_answer_address.
     and_then (read_le16 data PPP_DIAG_DNS_DEADLINE) (\<lambda>dns_deadline.
     and_then (read_le16 data PPP_DIAG_DNS_SENT_FRAME) (\<lambda>dns_sent_frame.
     and_then (read_le16 data PPP_DIAG_DNS_RTT_FRAMES) (\<lambda>dns_rtt_frames.
     and_then (read_le32 data PPP_DIAG_DNS_QUERY_COUNT) (\<lambda>dns_query_count.
     and_then (read_le32 data PPP_DIAG_DNS_RESPONSE_COUNT) (\<lambda>dns_response_count.
     and_then (read_le32 data PPP_DIAG_DNS_DROP_COUNT) (\<lambda>dns_drop_count.
     and_then (read_le32 data PPP_DIAG_DNS_TIMEOUT_COUNT) (\<lambda>dns_timeout_count.
     Ok \<lparr>pd_dns_state = dns_state, pd_dns_last_error = dns_last_error, pd_dns_flags = dns_flags,
         pd_dns_response_code = dns_response_code, pd_dns_resolver = dns_resolver,
         pd_dns_transaction_id = dns_transaction_id, pd_dns_answer_count = dns_answer_count,
         pd_dns_answer_address = dns_answer_address, pd_dns_deadline = dns_deadline,
         pd_dns_sent_frame = dns_sent_frame, pd_dns_rtt_frames = dns_rtt_frames,
         pd_dns_query_count = dns_query_count, pd_dns_response_count = dns_response_count,
         pd_dns_drop_count = dns_drop_count, pd_dns_timeout_count = dns_timeout_count\<rparr>)))))))))))))))"

definition dns_image :: "dns_diagnostic \<Rightarrow> bytes" where
  "dns_image s =
     [pd_dns_state s] @ [pd_dns_last_error s] @ [pd_dns_flags s] @ [pd_dns_response_code s] @
     octets4_list (pd_dns_resolver s) @ to_le16 (pd_dns_transaction_id s) @
     to_le16 (pd_dns_answer_count s) @ octets4_list (pd_dns_answer_address s) @
     to_le16 (pd_dns_deadline s) @ to_le16 (pd_dns_sent_frame s) @ to_le16 (pd_dns_rtt_frames s) @
     to_le32 (pd_dns_query_count s) @ to_le32 (pd_dns_response_count s) @
     to_le32 (pd_dns_drop_count s) @ to_le32 (pd_dns_timeout_count s)"

lemma length_dns_image [simp]: "length (dns_image s) = 38"
  by (simp add: dns_image_def)

lemma decode_dns_fields:
  "511 \<le> length data \<Longrightarrow>
   \<exists>s. decode_dns data = Ok s \<and> dns_image s = take 38 (drop 364 data)"
  by (simp add: decode_dns_def reads abi dns_image_def segments)

lemma dns_inject: "dns_image s = dns_image s' \<longleftrightarrow> s = s'"
  by (cases s; cases s') (auto simp: dns_image_def)

section \<open>Incoming echo requests and the DNS servers\<close>

record icmp_inbound_diagnostic =
  pd_icmp_inbound_state :: u8
  pd_icmp_inbound_last_error :: u8
  pd_icmp_inbound_flags :: u8
  pd_icmp_inbound_source :: octets4
  pd_icmp_inbound_identifier :: u16
  pd_icmp_inbound_sequence :: u16
  pd_icmp_inbound_payload_length :: u16
  pd_icmp_inbound_reply_count :: u32
  pd_icmp_inbound_drop_count :: u32
  pd_ipcp_primary_dns_address :: octets4
  pd_ipcp_secondary_dns_address :: octets4

definition decode_icmp_inbound :: "bytes \<Rightarrow> (icmp_inbound_diagnostic, protocol_error) result" where
  "decode_icmp_inbound data =
     and_then (octet_at data PPP_DIAG_ICMP_INBOUND_STATE) (\<lambda>icmp_inbound_state.
     and_then (octet_at data PPP_DIAG_ICMP_INBOUND_LAST_ERROR) (\<lambda>icmp_inbound_last_error.
     and_then (octet_at data PPP_DIAG_ICMP_INBOUND_FLAGS) (\<lambda>icmp_inbound_flags.
     and_then (read_octets4 data PPP_DIAG_ICMP_INBOUND_SOURCE) (\<lambda>icmp_inbound_source.
     and_then (read_le16 data PPP_DIAG_ICMP_INBOUND_IDENTIFIER) (\<lambda>icmp_inbound_identifier.
     and_then (read_le16 data PPP_DIAG_ICMP_INBOUND_SEQUENCE) (\<lambda>icmp_inbound_sequence.
     and_then (read_le16 data PPP_DIAG_ICMP_INBOUND_PAYLOAD_LENGTH) (\<lambda>icmp_inbound_payload_length.
     and_then (read_le32 data PPP_DIAG_ICMP_INBOUND_REPLY_COUNT) (\<lambda>icmp_inbound_reply_count.
     and_then (read_le32 data PPP_DIAG_ICMP_INBOUND_DROP_COUNT) (\<lambda>icmp_inbound_drop_count.
     and_then (read_octets4 data PPP_DIAG_IPCP_PRIMARY_DNS_ADDRESS) (\<lambda>ipcp_primary_dns_address.
     and_then (read_octets4 data PPP_DIAG_IPCP_SECONDARY_DNS_ADDRESS) (\<lambda>ipcp_secondary_dns_address.
     Ok \<lparr>pd_icmp_inbound_state = icmp_inbound_state,
         pd_icmp_inbound_last_error = icmp_inbound_last_error,
         pd_icmp_inbound_flags = icmp_inbound_flags, pd_icmp_inbound_source = icmp_inbound_source,
         pd_icmp_inbound_identifier = icmp_inbound_identifier,
         pd_icmp_inbound_sequence = icmp_inbound_sequence,
         pd_icmp_inbound_payload_length = icmp_inbound_payload_length,
         pd_icmp_inbound_reply_count = icmp_inbound_reply_count,
         pd_icmp_inbound_drop_count = icmp_inbound_drop_count,
         pd_ipcp_primary_dns_address = ipcp_primary_dns_address,
         pd_ipcp_secondary_dns_address = ipcp_secondary_dns_address\<rparr>)))))))))))"

definition icmp_inbound_image :: "icmp_inbound_diagnostic \<Rightarrow> bytes" where
  "icmp_inbound_image s =
     [pd_icmp_inbound_state s] @ [pd_icmp_inbound_last_error s] @ [pd_icmp_inbound_flags s] @
     octets4_list (pd_icmp_inbound_source s) @ to_le16 (pd_icmp_inbound_identifier s) @
     to_le16 (pd_icmp_inbound_sequence s) @ to_le16 (pd_icmp_inbound_payload_length s) @
     to_le32 (pd_icmp_inbound_reply_count s) @ to_le32 (pd_icmp_inbound_drop_count s) @
     octets4_list (pd_ipcp_primary_dns_address s) @
     octets4_list (pd_ipcp_secondary_dns_address s)"

lemma length_icmp_inbound_image [simp]: "length (icmp_inbound_image s) = 29"
  by (simp add: icmp_inbound_image_def)

lemma decode_icmp_inbound_fields:
  "511 \<le> length data \<Longrightarrow>
   \<exists>s. decode_icmp_inbound data = Ok s \<and> icmp_inbound_image s = take 29 (drop 402 data)"
  by (simp add: decode_icmp_inbound_def reads abi icmp_inbound_image_def segments)

lemma icmp_inbound_inject: "icmp_inbound_image s = icmp_inbound_image s' \<longleftrightarrow> s = s'"
  by (cases s; cases s') (auto simp: icmp_inbound_image_def)

section \<open>LCP control packets and the credentials\<close>

record lcp_control_diagnostic =
  pd_lcp_terminate_request_count :: u32
  pd_lcp_terminate_ack_count :: u32
  pd_lcp_protocol_reject_count :: u32
  pd_lcp_last_rejected_protocol :: u16
  pd_lcp_reject_identifier :: u8
  pd_lcp_code_reject_count :: u32
  pd_lcp_last_rejected_code :: u8
  pd_lcp_echo_request_count :: u32
  pd_lcp_echo_reply_count :: u32
  pd_lcp_echo_drop_count :: u32
  pd_lcp_last_echo_identifier :: u8
  pd_lcp_last_echo_magic :: u32
  pd_lcp_administrative_open :: bool
  pd_lcp_local_terminate_request_count :: u32
  pd_lcp_local_terminate_ack_count :: u32
  pd_lcp_local_terminate_timeout_count :: u32
  pd_lcp_local_magic :: u32
  pd_lcp_local_flags :: u8
  pd_lcp_loopback_count :: u32
  pd_pap_credential_flags :: u8
  pd_pap_peer_id_length :: u8
  pd_pap_password_length :: u8

definition decode_lcp_control :: "bytes \<Rightarrow> (lcp_control_diagnostic, protocol_error) result" where
  "decode_lcp_control data =
     and_then (read_le32 data PPP_DIAG_LCP_TERMINATE_REQUEST_COUNT) (\<lambda>lcp_terminate_request_count.
     and_then (read_le32 data PPP_DIAG_LCP_TERMINATE_ACK_COUNT) (\<lambda>lcp_terminate_ack_count.
     and_then (read_le32 data PPP_DIAG_LCP_PROTOCOL_REJECT_COUNT) (\<lambda>lcp_protocol_reject_count.
     and_then (read_le16 data PPP_DIAG_LCP_LAST_REJECTED_PROTOCOL) (\<lambda>lcp_last_rejected_protocol.
     and_then (octet_at data PPP_DIAG_LCP_REJECT_IDENTIFIER) (\<lambda>lcp_reject_identifier.
     and_then (read_le32 data PPP_DIAG_LCP_CODE_REJECT_COUNT) (\<lambda>lcp_code_reject_count.
     and_then (octet_at data PPP_DIAG_LCP_LAST_REJECTED_CODE) (\<lambda>lcp_last_rejected_code.
     and_then (read_le32 data PPP_DIAG_LCP_ECHO_REQUEST_COUNT) (\<lambda>lcp_echo_request_count.
     and_then (read_le32 data PPP_DIAG_LCP_ECHO_REPLY_COUNT) (\<lambda>lcp_echo_reply_count.
     and_then (read_le32 data PPP_DIAG_LCP_ECHO_DROP_COUNT) (\<lambda>lcp_echo_drop_count.
     and_then (octet_at data PPP_DIAG_LCP_LAST_ECHO_IDENTIFIER) (\<lambda>lcp_last_echo_identifier.
     and_then (read_le32 data PPP_DIAG_LCP_LAST_ECHO_MAGIC) (\<lambda>lcp_last_echo_magic.
     and_then (octet_at data PPP_DIAG_LCP_ADMINISTRATIVE_OPEN) (\<lambda>lcp_administrative_open.
     and_then (read_le32 data PPP_DIAG_LCP_LOCAL_TERMINATE_REQUEST_COUNT) (\<lambda>lcp_local_terminate_request_count.
     and_then (read_le32 data PPP_DIAG_LCP_LOCAL_TERMINATE_ACK_COUNT) (\<lambda>lcp_local_terminate_ack_count.
     and_then (read_le32 data PPP_DIAG_LCP_LOCAL_TERMINATE_TIMEOUT_COUNT) (\<lambda>lcp_local_terminate_timeout_count.
     and_then (read_le32 data PPP_DIAG_LCP_LOCAL_MAGIC) (\<lambda>lcp_local_magic.
     and_then (octet_at data PPP_DIAG_LCP_LOCAL_FLAGS) (\<lambda>lcp_local_flags.
     and_then (read_le32 data PPP_DIAG_LCP_LOOPBACK_COUNT) (\<lambda>lcp_loopback_count.
     and_then (octet_at data PPP_DIAG_PAP_CREDENTIAL_FLAGS) (\<lambda>pap_credential_flags.
     and_then (octet_at data PPP_DIAG_PAP_PEER_ID_LENGTH) (\<lambda>pap_peer_id_length.
     and_then (octet_at data PPP_DIAG_PAP_PASSWORD_LENGTH) (\<lambda>pap_password_length.
     Ok \<lparr>pd_lcp_terminate_request_count = lcp_terminate_request_count,
         pd_lcp_terminate_ack_count = lcp_terminate_ack_count,
         pd_lcp_protocol_reject_count = lcp_protocol_reject_count,
         pd_lcp_last_rejected_protocol = lcp_last_rejected_protocol,
         pd_lcp_reject_identifier = lcp_reject_identifier,
         pd_lcp_code_reject_count = lcp_code_reject_count,
         pd_lcp_last_rejected_code = lcp_last_rejected_code,
         pd_lcp_echo_request_count = lcp_echo_request_count,
         pd_lcp_echo_reply_count = lcp_echo_reply_count,
         pd_lcp_echo_drop_count = lcp_echo_drop_count,
         pd_lcp_last_echo_identifier = lcp_last_echo_identifier,
         pd_lcp_last_echo_magic = lcp_last_echo_magic,
         pd_lcp_administrative_open = (lcp_administrative_open \<noteq> 0),
         pd_lcp_local_terminate_request_count = lcp_local_terminate_request_count,
         pd_lcp_local_terminate_ack_count = lcp_local_terminate_ack_count,
         pd_lcp_local_terminate_timeout_count = lcp_local_terminate_timeout_count,
         pd_lcp_local_magic = lcp_local_magic, pd_lcp_local_flags = lcp_local_flags,
         pd_lcp_loopback_count = lcp_loopback_count,
         pd_pap_credential_flags = pap_credential_flags,
         pd_pap_peer_id_length = pap_peer_id_length, pd_pap_password_length = pap_password_length\<rparr>))))))))))))))))))))))"

definition lcp_control_image :: "lcp_control_diagnostic \<Rightarrow> (nat \<Rightarrow> u8) \<Rightarrow> bytes" where
  "lcp_control_image s flag =
     to_le32 (pd_lcp_terminate_request_count s) @ to_le32 (pd_lcp_terminate_ack_count s) @
     to_le32 (pd_lcp_protocol_reject_count s) @ to_le16 (pd_lcp_last_rejected_protocol s) @
     [pd_lcp_reject_identifier s] @ to_le32 (pd_lcp_code_reject_count s) @
     [pd_lcp_last_rejected_code s] @ to_le32 (pd_lcp_echo_request_count s) @
     to_le32 (pd_lcp_echo_reply_count s) @ to_le32 (pd_lcp_echo_drop_count s) @
     [pd_lcp_last_echo_identifier s] @ to_le32 (pd_lcp_last_echo_magic s) @
     [flag PPP_DIAG_LCP_ADMINISTRATIVE_OPEN] @ to_le32 (pd_lcp_local_terminate_request_count s) @
     to_le32 (pd_lcp_local_terminate_ack_count s) @
     to_le32 (pd_lcp_local_terminate_timeout_count s) @ to_le32 (pd_lcp_local_magic s) @
     [pd_lcp_local_flags s] @ to_le32 (pd_lcp_loopback_count s) @ [pd_pap_credential_flags s] @
     [pd_pap_peer_id_length s] @ [pd_pap_password_length s]"

definition lcp_control_flags :: "lcp_control_diagnostic \<Rightarrow> (nat \<Rightarrow> u8) \<Rightarrow> bool" where
  "lcp_control_flags s flag \<longleftrightarrow>
     (pd_lcp_administrative_open s \<longleftrightarrow> flag PPP_DIAG_LCP_ADMINISTRATIVE_OPEN \<noteq> 0)"

lemma length_lcp_control_image [simp]: "length (lcp_control_image s flag) = 62"
  by (simp add: lcp_control_image_def)

lemma decode_lcp_control_fields:
  "511 \<le> length data \<Longrightarrow>
   \<exists>s. decode_lcp_control data = Ok s \<and> lcp_control_image s ((!) data) = take 62 (drop 431 data) \<and> lcp_control_flags s ((!) data)"
  by (simp add: decode_lcp_control_def reads abi lcp_control_image_def lcp_control_flags_def segments)

lemma lcp_control_inject:
  "lcp_control_image s flag = lcp_control_image s' flag' \<Longrightarrow> lcp_control_flags s flag \<Longrightarrow> lcp_control_flags s' flag' \<Longrightarrow> s = s'"
  by (cases s; cases s') (auto simp: lcp_control_image_def lcp_control_flags_def)

section \<open>CHAP\<close>

record chap_diagnostic =
  pd_chap_state :: u8
  pd_chap_last_code :: u8
  pd_chap_last_identifier :: u8
  pd_chap_last_error :: u8
  pd_chap_response_identifier :: u8
  pd_chap_failure :: u8
  pd_chap_challenge_length :: u8
  pd_chap_peer_name_length :: u8
  pd_chap_packet_length :: u16
  pd_chap_receive_count :: u32
  pd_chap_transmit_count :: u32

definition decode_chap :: "bytes \<Rightarrow> (chap_diagnostic, protocol_error) result" where
  "decode_chap data =
     and_then (octet_at data PPP_DIAG_CHAP_STATE) (\<lambda>chap_state.
     and_then (octet_at data PPP_DIAG_CHAP_LAST_CODE) (\<lambda>chap_last_code.
     and_then (octet_at data PPP_DIAG_CHAP_LAST_IDENTIFIER) (\<lambda>chap_last_identifier.
     and_then (octet_at data PPP_DIAG_CHAP_LAST_ERROR) (\<lambda>chap_last_error.
     and_then (octet_at data PPP_DIAG_CHAP_RESPONSE_IDENTIFIER) (\<lambda>chap_response_identifier.
     and_then (octet_at data PPP_DIAG_CHAP_FAILURE) (\<lambda>chap_failure.
     and_then (octet_at data PPP_DIAG_CHAP_CHALLENGE_LENGTH) (\<lambda>chap_challenge_length.
     and_then (octet_at data PPP_DIAG_CHAP_PEER_NAME_LENGTH) (\<lambda>chap_peer_name_length.
     and_then (read_le16 data PPP_DIAG_CHAP_PACKET_LENGTH) (\<lambda>chap_packet_length.
     and_then (read_le32 data PPP_DIAG_CHAP_RECEIVE_COUNT) (\<lambda>chap_receive_count.
     and_then (read_le32 data PPP_DIAG_CHAP_TRANSMIT_COUNT) (\<lambda>chap_transmit_count.
     Ok \<lparr>pd_chap_state = chap_state, pd_chap_last_code = chap_last_code,
         pd_chap_last_identifier = chap_last_identifier, pd_chap_last_error = chap_last_error,
         pd_chap_response_identifier = chap_response_identifier, pd_chap_failure = chap_failure,
         pd_chap_challenge_length = chap_challenge_length,
         pd_chap_peer_name_length = chap_peer_name_length,
         pd_chap_packet_length = chap_packet_length, pd_chap_receive_count = chap_receive_count,
         pd_chap_transmit_count = chap_transmit_count\<rparr>)))))))))))"

definition chap_image :: "chap_diagnostic \<Rightarrow> bytes" where
  "chap_image s =
     [pd_chap_state s] @ [pd_chap_last_code s] @ [pd_chap_last_identifier s] @
     [pd_chap_last_error s] @ [pd_chap_response_identifier s] @ [pd_chap_failure s] @
     [pd_chap_challenge_length s] @ [pd_chap_peer_name_length s] @
     to_le16 (pd_chap_packet_length s) @ to_le32 (pd_chap_receive_count s) @
     to_le32 (pd_chap_transmit_count s)"

lemma length_chap_image [simp]: "length (chap_image s) = 18"
  by (simp add: chap_image_def)

lemma decode_chap_fields:
  "511 \<le> length data \<Longrightarrow>
   \<exists>s. decode_chap data = Ok s \<and> chap_image s = take 18 (drop 493 data)"
  by (simp add: decode_chap_def reads abi chap_image_def segments)

lemma chap_inject: "chap_image s = chap_image s' \<longleftrightarrow> s = s'"
  by (cases s; cases s') (auto simp: chap_image_def)

section \<open>The block\<close>

record ppp_diagnostic_snapshot =
  pd_snapshot_sequence :: u32
  pd_link :: link_diagnostic
  pd_lcp :: lcp_diagnostic
  pd_pap :: pap_diagnostic
  pd_ipcp :: ipcp_diagnostic
  pd_ipv4 :: ipv4_diagnostic
  pd_icmp :: icmp_diagnostic
  pd_udp :: udp_diagnostic
  pd_ntp :: ntp_diagnostic
  pd_icmp_request :: icmp_request_diagnostic
  pd_dns :: dns_diagnostic
  pd_icmp_inbound :: icmp_inbound_diagnostic
  pd_lcp_control :: lcp_control_diagnostic
  pd_chap :: chap_diagnostic

definition ppp_diagnostic_header :: "bytes \<Rightarrow> (u32, protocol_error) result" where
  "ppp_diagnostic_header data =
     (if length data < PPP_DIAGNOSTIC_SIZE then Err (PppDiagnosticTooShort (length data))
      else and_then (index_range data PPP_DIAG_MAGIC (PPP_DIAG_MAGIC + 4)) (\<lambda>magic.
        if magic \<noteq> PPP_DIAGNOSTIC_MAGIC then Err PppDiagnosticMagicMismatch
        else and_then (read_le16 data PPP_DIAG_VERSION) (\<lambda>version.
        if version \<noteq> PPP_DIAGNOSTIC_VERSION then Err UnsupportedPppDiagnosticVersion
        else and_then (read_le16 data PPP_DIAG_SIZE) (\<lambda>block_size.
        if unat block_size \<noteq> PPP_DIAGNOSTIC_SIZE then Err PppDiagnosticSizeMismatch
        else and_then (read_le32 data PPP_DIAG_SNAPSHOT_SEQUENCE) (\<lambda>sequence.
        if sequence AND 1 \<noteq> 0 then Err PppDiagnosticBeingUpdated else Ok sequence)))))"

definition ppp_diagnostic_decode :: "bytes \<Rightarrow> (ppp_diagnostic_snapshot, protocol_error) result" where
  "ppp_diagnostic_decode data =
     and_then (ppp_diagnostic_header data) (\<lambda>sequence.
     and_then (decode_link data) (\<lambda>link.
     and_then (decode_lcp data) (\<lambda>lcp.
     and_then (decode_pap data) (\<lambda>pap.
     and_then (decode_ipcp data) (\<lambda>ipcp.
     and_then (decode_ipv4 data) (\<lambda>ipv4.
     and_then (decode_icmp data) (\<lambda>icmp.
     and_then (decode_udp data) (\<lambda>udp.
     and_then (decode_ntp data) (\<lambda>ntp.
     and_then (decode_icmp_request data) (\<lambda>icmp_request.
     and_then (decode_dns data) (\<lambda>dns.
     and_then (decode_icmp_inbound data) (\<lambda>icmp_inbound.
     and_then (decode_lcp_control data) (\<lambda>lcp_control.
     and_then (decode_chap data) (\<lambda>chap.
     Ok \<lparr>pd_snapshot_sequence = sequence, pd_link = link, pd_lcp = lcp, pd_pap = pap, pd_ipcp = ipcp,
         pd_ipv4 = ipv4, pd_icmp = icmp, pd_udp = udp, pd_ntp = ntp,
         pd_icmp_request = icmp_request, pd_dns = dns, pd_icmp_inbound = icmp_inbound, pd_lcp_control = lcp_control,
         pd_chap = chap\<rparr>))))))))))))))"

definition ppp_header_image :: "u32 \<Rightarrow> bytes" where
  "ppp_header_image sequence =
     PPP_DIAGNOSTIC_MAGIC @ to_le16 PPP_DIAGNOSTIC_VERSION @ to_le16 (of_nat PPP_DIAGNOSTIC_SIZE) @ to_le32 sequence"

definition ppp_diagnostic_image :: "ppp_diagnostic_snapshot \<Rightarrow> (nat \<Rightarrow> u8) \<Rightarrow> bytes" where
  "ppp_diagnostic_image s flag =
     ppp_header_image (pd_snapshot_sequence s) @ link_image (pd_link s) flag @ lcp_image (pd_lcp s) flag @ pap_image (pd_pap s) flag @
     ipcp_image (pd_ipcp s) flag @ ipv4_image (pd_ipv4 s) @ icmp_image (pd_icmp s) @
     udp_image (pd_udp s) @ ntp_image (pd_ntp s) @ icmp_request_image (pd_icmp_request s) @
     dns_image (pd_dns s) @ icmp_inbound_image (pd_icmp_inbound s) @ lcp_control_image (pd_lcp_control s) flag @
     chap_image (pd_chap s)"

definition ppp_diagnostic_flags :: "ppp_diagnostic_snapshot \<Rightarrow> (nat \<Rightarrow> u8) \<Rightarrow> bool" where
  "ppp_diagnostic_flags s flag \<longleftrightarrow>
     link_flags (pd_link s) flag \<and> lcp_flags (pd_lcp s) flag \<and> pap_flags (pd_pap s) flag \<and>
     ipcp_flags (pd_ipcp s) flag \<and> lcp_control_flags (pd_lcp_control s) flag"

lemma length_ppp_magic [simp]: "length PPP_DIAGNOSTIC_MAGIC = 4"
  by (simp add: abi)

lemma length_ppp_header_image [simp]: "length (ppp_header_image sequence) = 12"
  by (simp add: ppp_header_image_def)

lemma length_ppp_diagnostic_image [simp]: "length (ppp_diagnostic_image s flag) = 511"
  by (simp add: ppp_diagnostic_image_def)

lemma ppp_diagnostic_header_iff:
  "ppp_diagnostic_header data = Ok sequence \<longleftrightarrow>
     511 \<le> length data \<and> even sequence \<and> take 12 data = ppp_header_image sequence"
proof (cases "511 \<le> length data")
  case True
  then have "take 12 data = take 4 data @ to_le16 (le16_at data 4) @ to_le16 (le16_at data 6) @ to_le32 (le32_at data 8)"
    by (simp add: segments)
  with True have split: "take 12 data = ppp_header_image sequence \<longleftrightarrow> take 4 data = PPP_DIAGNOSTIC_MAGIC \<and>
      le16_at data 4 = PPP_DIAGNOSTIC_VERSION \<and> le16_at data 6 = of_nat PPP_DIAGNOSTIC_SIZE \<and>
      le32_at data 8 = sequence"
    by (simp add: ppp_header_image_def)
  have bit: "w AND 1 = 0 \<longleftrightarrow> even w" for w :: u32
    by (simp add: and_one_eq even_iff_mod_2_eq_zero)
  have size511: "unat w = 511 \<longleftrightarrow> w = 511" for w :: u16
    by (simp add: word_unat_eq_iff)
  show ?thesis
    using True unfolding split
    by (auto simp: ppp_diagnostic_header_def reads index_range_def get_range_def bit size511 abi)
qed (auto simp: ppp_diagnostic_header_def abi)

lemma ppp_diagnostic_header_no_panic: "ppp_diagnostic_header data \<noteq> Panic"
  by (cases "511 \<le> length data") (simp_all add: ppp_diagnostic_header_def reads index_range_def get_range_def abi)

lemma ppp_diagnostic_fields:
  assumes h: "ppp_diagnostic_header data = Ok sequence"
  shows "\<exists>s. ppp_diagnostic_decode data = Ok s \<and> ppp_diagnostic_image s ((!) data) = take 511 data \<and>
    ppp_diagnostic_flags s ((!) data) \<and> pd_snapshot_sequence s = sequence"
proof -
  have len: "511 \<le> length data" and start: "ppp_header_image sequence = take 12 data"
    using h by (simp_all add: ppp_diagnostic_header_iff)
  from decode_link_fields [OF len] obtain g0 where g0: "decode_link data = Ok g0"
    "link_image g0 ((!) data) = take 64 (drop 12 data)" "link_flags g0 ((!) data)" by blast
  from decode_lcp_fields [OF len] obtain g1 where g1: "decode_lcp data = Ok g1"
    "lcp_image g1 ((!) data) = take 36 (drop 76 data)" "lcp_flags g1 ((!) data)" by blast
  from decode_pap_fields [OF len] obtain g2 where g2: "decode_pap data = Ok g2"
    "pap_image g2 ((!) data) = take 22 (drop 112 data)" "pap_flags g2 ((!) data)" by blast
  from decode_ipcp_fields [OF len] obtain g3 where g3: "decode_ipcp data = Ok g3"
    "ipcp_image g3 ((!) data) = take 30 (drop 134 data)" "ipcp_flags g3 ((!) data)" by blast
  from decode_ipv4_fields [OF len] obtain g4 where g4: "decode_ipv4 data = Ok g4"
    "ipv4_image g4 = take 45 (drop 164 data)" by blast
  from decode_icmp_fields [OF len] obtain g5 where g5: "decode_icmp data = Ok g5"
    "icmp_image g5 = take 36 (drop 209 data)" by blast
  from decode_udp_fields [OF len] obtain g6 where g6: "decode_udp data = Ok g6"
    "udp_image g6 = take 28 (drop 245 data)" by blast
  from decode_ntp_fields [OF len] obtain g7 where g7: "decode_ntp data = Ok g7"
    "ntp_image g7 = take 58 (drop 273 data)" by blast
  from decode_icmp_request_fields [OF len] obtain g8 where g8: "decode_icmp_request data = Ok g8"
    "icmp_request_image g8 = take 33 (drop 331 data)" by blast
  from decode_dns_fields [OF len] obtain g9 where g9: "decode_dns data = Ok g9"
    "dns_image g9 = take 38 (drop 364 data)" by blast
  from decode_icmp_inbound_fields [OF len] obtain g10 where g10: "decode_icmp_inbound data = Ok g10"
    "icmp_inbound_image g10 = take 29 (drop 402 data)" by blast
  from decode_lcp_control_fields [OF len] obtain g11 where g11: "decode_lcp_control data = Ok g11"
    "lcp_control_image g11 ((!) data) = take 62 (drop 431 data)" "lcp_control_flags g11 ((!) data)" by blast
  from decode_chap_fields [OF len] obtain g12 where g12: "decode_chap data = Ok g12"
    "chap_image g12 = take 18 (drop 493 data)" by blast
  show ?thesis
    using len by (simp add: ppp_diagnostic_decode_def ppp_diagnostic_image_def ppp_diagnostic_flags_def h start
      g0 g1 g2 g3 g4 g5 g6 g7 g8 g9 g10 g11 g12 segments)
qed

lemma ppp_diagnostic_inject:
  "ppp_diagnostic_image s flag = ppp_diagnostic_image s' flag' \<Longrightarrow> ppp_diagnostic_flags s flag \<Longrightarrow>
   ppp_diagnostic_flags s' flag' \<Longrightarrow> s = s'"
  by (cases s; cases s')
    (auto simp: ppp_diagnostic_image_def ppp_diagnostic_flags_def ppp_header_image_def
      ipv4_inject icmp_inject udp_inject ntp_inject icmp_request_inject dns_inject icmp_inbound_inject chap_inject
      dest: link_inject lcp_inject pap_inject ipcp_inject lcp_control_inject)

text \<open>
  C17: the PPP block decodes exactly as laid out. The decoder never panics. It returns a snapshot
  if and only if the snapshot's sequence number is even and the input starts with the 511 octets of
  that snapshot, in which only the octets of the eleven flags are free, as long as each is non-zero
  exactly when its flag is set. So the 212 fields tile the block without overlap or gap, and every
  snapshot with an even sequence number has a block.
\<close>

theorem ppp_diagnostic_decode_exact:
  "ppp_diagnostic_decode data \<noteq> Panic \<and>
   (ppp_diagnostic_decode data = Ok s \<longleftrightarrow>
     even (pd_snapshot_sequence s) \<and>
     (\<exists>flag reserved. data = ppp_diagnostic_image s flag @ reserved \<and> ppp_diagnostic_flags s flag))"
proof (cases "ppp_diagnostic_header data")
  case (Ok sequence)
  then have len: "even sequence" by (simp add: ppp_diagnostic_header_iff)
  from ppp_diagnostic_fields [OF Ok] obtain s' where s': "ppp_diagnostic_decode data = Ok s'"
    "ppp_diagnostic_image s' ((!) data) = take 511 data" "ppp_diagnostic_flags s' ((!) data)"
    "pd_snapshot_sequence s' = sequence" by blast
  have "s' = s" if "data = ppp_diagnostic_image s flag @ reserved" "ppp_diagnostic_flags s flag" for flag reserved
    using that s'(2,3) ppp_diagnostic_inject [of s' "(!) data" s flag] by simp
  moreover have "\<exists>flag reserved. data = ppp_diagnostic_image s' flag @ reserved \<and> ppp_diagnostic_flags s' flag"
    using s'(2,3) by (metis append_take_drop_id)
  ultimately show ?thesis using s' len by auto
next
  case (Err e)
  have False if "even (pd_snapshot_sequence s)" "data = ppp_diagnostic_image s flag @ reserved" for flag reserved
  proof -
    have "take 12 data = ppp_header_image (pd_snapshot_sequence s)" by (simp add: that ppp_diagnostic_image_def)
    moreover have "511 \<le> length data" by (simp add: that)
    ultimately have "ppp_diagnostic_header data = Ok (pd_snapshot_sequence s)"
      using that(1) by (simp add: ppp_diagnostic_header_iff)
    with Err show False by simp
  qed
  with Err show ?thesis by (auto simp: ppp_diagnostic_decode_def)
qed (simp add: ppp_diagnostic_header_no_panic)

end
