(* ===== verification/Prbs.thy ===== *)
theory Prbs
  imports Diagnostic
begin

text \<open>
  The pseudo-random test pattern of the host tools, \<^verbatim>\<open>tools/ndm24-tools/src/prbs.rs\<close>: a 16-bit linear
  feedback shift register whose low octets are the pattern, and the outcome of a transfer as the
  firmware reports it in the mailbox output.

  The register is multiplication by a fixed element in a field of 65536 elements, with the state
  \<open>0x8000\<close> as its unit. So the powers of the register are computed by repeated squaring of single
  states, and its period follows from the factors 3, 5, 17 and 257 of 65535.
\<close>

section \<open>The register\<close>

definition LFSR_FEEDBACK :: u16 where "LFSR_FEEDBACK = 0xb400"

record prbs16 =
  prbs_state :: u16

datatype prbs_error = PrbsSeedZero | PrbsOutputTruncated

definition prbs16_new :: "u16 \<Rightarrow> (prbs16, prbs_error) result" where
  "prbs16_new seed = (if seed = 0 then Err PrbsSeedZero else Ok \<lparr>prbs_state = seed\<rparr>)"

definition prbs16_next :: "prbs16 \<Rightarrow> u8 \<times> prbs16" where
  "prbs16_next p =
     (let byte = ucast (prbs_state p);
          lsb = prbs_state p AND 1;
          p = p\<lparr>prbs_state := drop_bit 1 (prbs_state p)\<rparr>;
          p = (if lsb \<noteq> 0 then p\<lparr>prbs_state := prbs_state p XOR LFSR_FEEDBACK\<rparr> else p)
      in (byte, p))"

fun prbs16_take :: "nat \<Rightarrow> prbs16 \<Rightarrow> bytes" where
  "prbs16_take 0 p = []"
| "prbs16_take (Suc n) p = (let (byte, p) = prbs16_next p in byte # prbs16_take n p)"

definition prbs_bytes :: "u16 \<Rightarrow> nat \<Rightarrow> (bytes, prbs_error) result" where
  "prbs_bytes seed n = and_then (prbs16_new seed) (\<lambda>p. Ok (prbs16_take n p))"

section \<open>The outcome\<close>

record prbs_outcome =
  po_processed :: u32
  po_mismatch_count :: u32
  po_first_mismatch :: "u32 option"
  po_expected :: u8
  po_actual :: u8
  po_start_frame :: u32
  po_end_frame :: u32

text \<open>The private \<^verbatim>\<open>read_u32\<close>, which slices by index.\<close>

definition prbs_read_u32 :: "bytes \<Rightarrow> nat \<Rightarrow> (u32, prbs_error) result" where
  "prbs_read_u32 bs offset =
     and_then (index_range bs offset (offset + 4)) (\<lambda>q. Ok (from_le32 (octets4_at q 0)))"

definition prbs_outcome_decode :: "bytes \<Rightarrow> (prbs_outcome, prbs_error) result" where
  "prbs_outcome_decode outcome =
     (if length outcome < 22 then Err PrbsOutputTruncated
      else
        and_then (prbs_read_u32 outcome 8) (\<lambda>first.
        and_then (prbs_read_u32 outcome 0) (\<lambda>processed.
        and_then (prbs_read_u32 outcome 4) (\<lambda>mismatch_count.
        and_then (octet_at outcome 12) (\<lambda>expected.
        and_then (octet_at outcome 13) (\<lambda>actual.
        and_then (prbs_read_u32 outcome 14) (\<lambda>start_frame.
        and_then (prbs_read_u32 outcome 18) (\<lambda>end_frame.
        Ok \<lparr>po_processed = processed, po_mismatch_count = mismatch_count,
            po_first_mismatch = (if first \<noteq> - 1 then Some first else None),
            po_expected = expected, po_actual = actual, po_start_frame = start_frame,
            po_end_frame = end_frame\<rparr>))))))))"

definition frame_delta :: "prbs_outcome \<Rightarrow> u32" where
  "frame_delta r = po_end_frame r - po_start_frame r"

lemma prbs_read_u32_ok: "i + 4 \<le> length bs \<Longrightarrow> prbs_read_u32 bs i = Ok (le32_at bs i)"
  by (simp add: prbs_read_u32_def index_range_def get_range_def le32_at_def octets4_at_segment)

text \<open>The decoder never panics and reads the 22 octets in their order.\<close>

lemma prbs_outcome_decode_exact:
  "prbs_outcome_decode bs = Ok r \<longleftrightarrow> 22 \<le> length bs \<and>
     (\<exists>first. take 22 bs = to_le32 (po_processed r) @ to_le32 (po_mismatch_count r) @ to_le32 first @
        [po_expected r, po_actual r] @ to_le32 (po_start_frame r) @ to_le32 (po_end_frame r) \<and>
        po_first_mismatch r = (if first = - 1 then None else Some first))"
proof (cases "22 \<le> length bs")
  case True
  then have "take 22 bs = to_le32 (le32_at bs 0) @ to_le32 (le32_at bs 4) @ to_le32 (le32_at bs 8) @
     [bs ! 12, bs ! 13] @ to_le32 (le32_at bs 14) @ to_le32 (le32_at bs 18)"
    by (simp add: segments)
  with True show ?thesis
    by (cases r) (auto simp: prbs_outcome_decode_def prbs_read_u32_ok reads)
qed (simp add: prbs_outcome_decode_def)

lemma prbs_outcome_decode_no_panic: "prbs_outcome_decode bs \<noteq> Panic"
  by (cases "22 \<le> length bs") (simp_all add: prbs_outcome_decode_def prbs_read_u32_ok reads)

section \<open>The register as a field\<close>

definition lfsr :: "u16 \<Rightarrow> u16" where
  "lfsr x = (if odd x then drop_bit 1 x XOR 0xb400 else drop_bit 1 x)"

lemma next_state: "prbs16_next p = (ucast (prbs_state p), \<lparr>prbs_state = lfsr (prbs_state p)\<rparr>)"
  by (cases p) (simp add: prbs16_next_def lfsr_def LFSR_FEEDBACK_def Let_def and_one_eq odd_iff_mod_2_eq_one even_iff_mod_2_eq_zero)

lemma lfsr_xor: "lfsr (x XOR y) = lfsr x XOR lfsr y"
  by (auto simp: lfsr_def drop_bit_xor even_xor_iff ac_simps)

lemma lfsr_0 [simp]: "lfsr 0 = 0"
  by (simp add: lfsr_def)

text \<open>A polynomial in the register, by its coefficients.\<close>

fun poly :: "bool list \<Rightarrow> u16 \<Rightarrow> u16" where
  "poly [] y = 0"
| "poly (b # bs) y = (if b then y else 0) XOR lfsr (poly bs y)"

definition coeffs :: "u16 \<Rightarrow> bool list" where
  "coeffs x = map (\<lambda>k. bit x (15 - k)) [0..<16]"

definition commutes :: "(u16 \<Rightarrow> u16) \<Rightarrow> bool" where
  "commutes f \<longleftrightarrow> (\<forall>x y. f (x XOR y) = f x XOR f y) \<and> (\<forall>x. f (lfsr x) = lfsr (f x))"

lemma commutes_0: "commutes f \<Longrightarrow> f 0 = 0"
  unfolding commutes_def by (metis bit.xor_self)

lemma commutes_poly: "commutes f \<Longrightarrow> f (poly bs y) = poly bs (f y)"
  by (induction bs) (auto simp: commutes_0 commutes_def)

lemma poly_0 [simp]: "poly bs 0 = 0"
  by (induction bs) simp_all

lemma poly_commutes: "commutes (poly bs)"
proof -
  have "poly bs (x XOR y) = poly bs x XOR poly bs y" for x y
    by (induction bs) (auto simp: lfsr_xor ac_simps)
  moreover have "poly bs (lfsr x) = lfsr (poly bs x)" for x
    by (induction bs) (auto simp: lfsr_xor)
  ultimately show ?thesis by (simp add: commutes_def)
qed

lemma commutes_power: "commutes (lfsr ^^ n)"
proof -
  have "(lfsr ^^ n) (x XOR y) = (lfsr ^^ n) x XOR (lfsr ^^ n) y" for x y
    by (induction n) (simp_all add: lfsr_xor)
  moreover have "(lfsr ^^ n) (lfsr x) = lfsr ((lfsr ^^ n) x)" for x
    by (simp add: funpow_swap1)
  ultimately show ?thesis by (simp add: commutes_def)
qed

lemma commutes_xor: "commutes f \<Longrightarrow> commutes g \<Longrightarrow> commutes (\<lambda>x. f x XOR g x)"
  by (simp add: commutes_def lfsr_xor ac_simps)

lemma commutes_id: "commutes (\<lambda>x. x)"
  by (simp add: commutes_def)

lemma bit_poly_unit:
  "length bs \<le> 16 \<Longrightarrow> bit (poly bs 0x8000) i \<longleftrightarrow> i < 16 \<and> 15 - i < length bs \<and> bs ! (15 - i)"
proof (induction bs arbitrary: i)
  case (Cons b bs)
  then have "\<not> bit (poly bs 0x8000) 0" by simp
  then have shift: "lfsr (poly bs 0x8000) = drop_bit 1 (poly bs 0x8000)"
    by (simp add: lfsr_def bit_0)
  have "bit (0x8000 :: u16) i \<longleftrightarrow> i = 15"
    using bit_exp_iff [of 15 i, where 'a = u16] by auto
  then have unit: "bit (if b then 0x8000 else 0 :: u16) i \<longleftrightarrow> b \<and> i = 15" by simp
  have "bit (poly (b # bs) 0x8000) i \<longleftrightarrow> (b \<and> i = 15) \<noteq> bit (poly bs 0x8000) (Suc i)"
    by (simp only: poly.simps bit_xor_iff unit shift bit_drop_bit_eq plus_1_eq_Suc o_apply)
  then show ?case
    using Cons.IH [of "Suc i"] Cons.prems
    by (cases "i = 15"; cases "i < 15") (auto simp: nth_Cons' Suc_diff_Suc)
qed simp

lemma poly_coeffs: "poly (coeffs x) 0x8000 = x"
  by (rule bit_word_eqI) (auto simp: bit_poly_unit coeffs_def)

text \<open>So an operation that commutes with the register is multiplication by its value at the unit.\<close>

definition times16 :: "u16 \<Rightarrow> u16 \<Rightarrow> u16" where
  "times16 y c = poly (coeffs y) c"

lemma commutes_times16: "commutes f \<Longrightarrow> f y = times16 y (f 0x8000)"
  using commutes_poly [of f "coeffs y" "0x8000"] by (simp add: times16_def poly_coeffs)

text \<open>An operation with an inverse at the unit has no zero but zero.\<close>

lemma invertible_zero:
  assumes f: "commutes f" and u: "times16 u (f 0x8000) = 0x8000" and zero: "f y = 0"
  shows "y = 0"
proof -
  have "f u = 0x8000" using commutes_times16 [OF f, of u] u by simp
  have "y = poly (coeffs y) (f u)" using \<open>f u = _\<close> by (simp add: poly_coeffs)
  also have "\<dots> = f (poly (coeffs y) (poly (coeffs u) 0x8000))"
    by (simp add: commutes_poly [OF f] poly_coeffs)
  also have "\<dots> = f (poly (coeffs u) (poly (coeffs y) 0x8000))"
    by (simp only: commutes_poly [OF poly_commutes])
  also have "\<dots> = poly (coeffs u) (f y)"
    by (simp only: commutes_poly [OF f] poly_coeffs)
  finally show ?thesis by (simp add: zero)
qed

lemma no_fixed_point:
  assumes u: "times16 u ((lfsr ^^ n) 0x8000 XOR 0x8000) = 0x8000" and fixed: "(lfsr ^^ n) y = y"
  shows "y = 0"
  using invertible_zero [OF commutes_xor [OF commutes_power commutes_id], of u n y] u fixed by simp

section \<open>The period\<close>

text \<open>The powers of the register, by repeated squaring in the field.\<close>

definition power16 :: "nat \<Rightarrow> u16" where
  "power16 n = (lfsr ^^ n) 0x8000"

definition square16 :: "u16 \<Rightarrow> u16" where
  "square16 c = times16 c c"

lemma power16_double: "power16 (n + n) = square16 (power16 n)"
  using commutes_times16 [OF commutes_power, of n "(lfsr ^^ n) 0x8000"]
  by (simp add: power16_def square16_def funpow_add)

lemma power16_Suc: "power16 (n + 1) = lfsr (power16 n)"
  by (simp add: power16_def)

lemma coeffs_simp: "coeffs x = [bit x 15, bit x 14, bit x 13, bit x 12, bit x 11, bit x 10, bit x 9, bit x 8,
    bit x 7, bit x 6, bit x 5, bit x 4, bit x 3, bit x 2, bit x 1, bit x 0]"
  by (simp add: coeffs_def upt_rec numeral_eq_Suc)

lemmas times16_simps = times16_def coeffs_simp lfsr_def bit_0

lemma power16_numeral:
  "power16 (Suc 0) = 0x4000"
  "power16 (numeral (Num.Bit0 k)) = square16 (power16 (numeral k))"
  "power16 (numeral (Num.Bit1 k)) = lfsr (square16 (power16 (numeral k)))"
proof -
  show "power16 (Suc 0) = 0x4000" by (simp add: power16_def lfsr_def)
  show "power16 (numeral (Num.Bit0 k)) = square16 (power16 (numeral k))"
    by (simp only: numeral_Bit0 power16_double)
  show "power16 (numeral (Num.Bit1 k)) = lfsr (square16 (power16 (numeral k)))"
    by (simp only: numeral_Bit1 power16_double power16_Suc)
qed

lemma powers:
  "power16 255 = 0xa300" "power16 3855 = 0x2d35" "power16 13107 = 0x5f61" "power16 21845 = 0x5335"
  "power16 65535 = 0x8000"
  by (simp_all add: power16_numeral square16_def times16_simps)

lemma full_period: "(lfsr ^^ 65535) x = x"
  using commutes_times16 [OF commutes_power, of 65535 x] powers(5)
  by (simp only: power16_def times16_def poly_coeffs)

lemma no_shorter_period:
  assumes "(lfsr ^^ n) x = x" and "n = 255 \<or> n = 3855 \<or> n = 13107 \<or> n = 21845"
  shows "x = 0"
proof -
  have "times16 0x0e55 (power16 255 XOR 0x8000) = 0x8000" "times16 0xeefe (power16 3855 XOR 0x8000) = 0x8000"
    "times16 0xf03c (power16 13107 XOR 0x8000) = 0x8000" "times16 0x5335 (power16 21845 XOR 0x8000) = 0x8000"
    unfolding powers by (simp_all add: times16_simps)
  then show ?thesis using assms no_fixed_point unfolding power16_def by blast
qed

lemma period_multiple: "(f ^^ k) x = x \<Longrightarrow> (f ^^ (k * c)) x = x"
  by (induction c) (simp_all add: funpow_add)

lemma period_gcd:
  assumes "(f ^^ m) x = x" "(f ^^ n) x = x" "m \<noteq> 0"
  shows "(f ^^ gcd m n) x = x"
proof -
  obtain a b where "m * a = n * b + gcd m n" using bezout_nat [OF assms(3)] by blast
  then have "(f ^^ (gcd m n + n * b)) x = x" using period_multiple [OF assms(1), of a] by (simp add: add.commute)
  then show ?thesis using period_multiple [OF assms(2), of b] by (simp add: funpow_add)
qed

lemma small_divisor: "k \<le> 16 \<Longrightarrow> k dvd (257::nat) \<Longrightarrow> k = 1"
proof -
  assume "k \<le> 16" "k dvd (257::nat)"
  moreover from \<open>k \<le> 16\<close> have "k \<in> {0, 1, 2, 3, 4, 5, 6, 7, 8, 9, 10, 11, 12, 13, 14, 15, 16}"
    unfolding insert_iff empty_iff by presburger
  ultimately show "k = 1" by auto
qed

lemma dvd_257:
  assumes "d dvd (257::nat)"
  shows "d = 1 \<or> d = 257"
proof -
  from assms obtain k where k: "257 = d * k" by (rule dvdE)
  have "\<not> (17 \<le> d \<and> 17 \<le> k)" using mult_le_mono [of 17 d 17 k] k by auto
  then consider "d \<le> 16" | "k \<le> 16" by linarith
  then show ?thesis
  proof cases
    case 1
    with assms show ?thesis using small_divisor by blast
  next
    case 2
    moreover have "k dvd 257" by (simp add: k)
    ultimately have "k = 1" by (rule small_divisor)
    with k show ?thesis by simp
  qed
qed

lemma dvd_small_prime:
  assumes "d dvd p" "p = 3 \<or> p = 5 \<or> p = (17::nat)"
  shows "d = 1 \<or> d = p"
proof -
  from assms have "d \<le> 17" by (auto dest: dvd_imp_le)
  then have "d \<in> {0, 1, 2, 3, 4, 5, 6, 7, 8, 9, 10, 11, 12, 13, 14, 15, 16, 17}"
    unfolding insert_iff empty_iff by presburger
  with assms show ?thesis by auto
qed

lemma proper_divisor:
  assumes "d dvd (65535 :: nat)" "d \<noteq> 65535"
  shows "\<exists>m. d dvd m \<and> (m = 255 \<or> m = 3855 \<or> m = 13107 \<or> m = 21845)"
proof -
  have "d dvd 3 * (5 * (17 * 257))" using assms(1) by simp
  then obtain a b c e where d: "d = a * (b * (c * e))" "a dvd 3" "b dvd 5" "c dvd 17" "e dvd 257"
    using division_decomp by metis
  consider "a = 1" | "b = 1" | "c = 1" | "e = 1"
    using d assms(2) dvd_small_prime [of a 3] dvd_small_prime [of b 5] dvd_small_prime [of c 17] dvd_257 [of e] by auto
  then show ?thesis
  proof cases
    case 1
    have "b * (c * e) dvd 5 * (17 * 257)" using d by (intro mult_dvd_mono)
    then show ?thesis using 1 d(1) by (intro exI [of _ 21845]) simp
  next
    case 2
    have "a * (c * e) dvd 3 * (17 * 257)" using d by (intro mult_dvd_mono)
    then show ?thesis using 2 d(1) by (intro exI [of _ 13107]) simp
  next
    case 3
    have "a * (b * e) dvd 3 * (5 * 257)" using d by (intro mult_dvd_mono)
    then show ?thesis using 3 d(1) by (intro exI [of _ 3855]) simp
  next
    case 4
    have "a * (b * c) dvd 3 * (5 * 17)" using d by (intro mult_dvd_mono)
    then show ?thesis using 4 d(1) by (intro exI [of _ 255]) simp
  qed
qed

lemma lfsr_period:
  assumes "x \<noteq> 0"
  shows "(lfsr ^^ n) x = x \<longleftrightarrow> 65535 dvd n"
proof
  assume "65535 dvd n"
  then show "(lfsr ^^ n) x = x" using period_multiple [OF full_period] by (auto elim: dvdE)
next
  assume "(lfsr ^^ n) x = x"
  then have d: "(lfsr ^^ gcd 65535 n) x = x" using period_gcd [OF full_period] by simp
  show "65535 dvd n"
  proof (rule ccontr)
    assume "\<not> 65535 dvd n"
    then have "gcd 65535 n \<noteq> 65535" using gcd_dvd2 [of 65535 n] by metis
    then obtain m where dvd: "gcd 65535 n dvd m" and m: "m = 255 \<or> m = 3855 \<or> m = 13107 \<or> m = 21845"
      using proper_divisor [OF gcd_dvd1] by blast
    from dvd obtain c where "m = gcd 65535 n * c" by (rule dvdE)
    then have "(lfsr ^^ m) x = x" using period_multiple [OF d, where c = c] by (simp only:)
    then show False using no_shorter_period m assms by blast
  qed
qed

text \<open>The register runs through every non-zero state before it repeats one.\<close>

definition prbs_after :: "nat \<Rightarrow> prbs16 \<Rightarrow> prbs16" where
  "prbs_after n p = ((\<lambda>p. snd (prbs16_next p)) ^^ n) p"

lemma prbs_after_state: "prbs_state (prbs_after n p) = (lfsr ^^ n) (prbs_state p)"
  by (induction n) (simp_all add: prbs_after_def next_state)

lemma prbs16_take_nth: "prbs16_take n p = map (\<lambda>k. ucast ((lfsr ^^ k) (prbs_state p))) [0..<n]"
proof (induction n arbitrary: p)
  case (Suc n)
  have "[0..<Suc n] = 0 # map Suc [0..<n]" by (simp add: upt_conv_Cons map_Suc_upt del: upt_Suc)
  then show ?case using Suc.IH by (simp add: next_state funpow_swap1 del: upt_Suc)
qed simp

lemma lfsr_inject:
  assumes "(lfsr ^^ n) x = (lfsr ^^ n) y"
  shows "x = y"
proof -
  have "(lfsr ^^ (65535 * n)) z = (lfsr ^^ (65534 * n)) ((lfsr ^^ n) z)" for z
    using funpow_add [of "65534 * n" n lfsr] by (simp add: algebra_simps)
  then show ?thesis using assms period_multiple [OF full_period, where c = n] by metis
qed

lemma lfsr_same:
  assumes "x \<noteq> 0" "m \<le> n"
  shows "(lfsr ^^ m) x = (lfsr ^^ n) x \<longleftrightarrow> 65535 dvd n - m"
proof -
  have "(lfsr ^^ n) x = (lfsr ^^ m) ((lfsr ^^ (n - m)) x)"
    using assms(2) funpow_add [of m "n - m" lfsr] by simp
  then show ?thesis using lfsr_period [OF assms(1)] lfsr_inject by metis
qed

lemma lfsr_same_mod:
  assumes "x \<noteq> 0"
  shows "(lfsr ^^ m) x = (lfsr ^^ n) x \<longleftrightarrow> m mod 65535 = n mod 65535"
proof (cases "m \<le> n")
  case True
  then show ?thesis using lfsr_same [OF assms True] mod_eq_dvd_iff_nat [OF True, of 65535] by auto
next
  case False
  then have le: "n \<le> m" by simp
  show ?thesis using lfsr_same [OF assms le] mod_eq_dvd_iff_nat [OF le, of 65535] by auto
qed

lemma prbs16_new_Ok: "prbs16_new seed = Ok p \<longleftrightarrow> seed \<noteq> 0 \<and> p = \<lparr>prbs_state = seed\<rparr>"
  by (auto simp: prbs16_new_def)

lemma card_nonzero: "card (UNIV - {0 :: u16}) = 65535"
  by (simp add: card_word)

lemma lfsr_orbit:
  assumes "x \<noteq> 0"
  shows "bij_betw (\<lambda>n. (lfsr ^^ n) x) {..<65535} (UNIV - {0})"
proof -
  have inj: "inj_on (\<lambda>n. (lfsr ^^ n) x) {..<65535}"
    by (rule inj_onI) (simp add: lfsr_same_mod [OF assms])
  have "(\<lambda>n. (lfsr ^^ n) x) ` {..<65535} = UNIV - {0}"
  proof (rule card_subset_eq)
    show "(\<lambda>n. (lfsr ^^ n) x) ` {..<65535} \<subseteq> UNIV - {0}"
      using lfsr_inject [of _ x 0] commutes_0 [OF commutes_power] assms by auto
    show "card ((\<lambda>n. (lfsr ^^ n) x) ` {..<65535}) = card (UNIV - {0 :: u16})"
      using card_image [OF inj] by (simp add: card_nonzero)
  qed simp
  with inj show ?thesis by (simp add: bij_betw_def)
qed

text \<open>How many states have a given low octet.\<close>

lemma unat_low_octet: "unat (ucast (x :: u16) :: u8) = unat x mod 256"
  by (simp add: unsigned_ucast_eq take_bit_eq_mod)

lemma card_low_octet: "card {x :: u16. ucast x = (b :: u8)} = 256"
proof -
  let ?f = "\<lambda>h. of_nat (256 * h + unat b) :: u16"
  have unat_f: "unat (?f h) = 256 * h + unat b" if "h < 256" for h
  proof -
    have "256 * h + unat b < 65536" using that unat_less_256 [of b] by linarith
    then show ?thesis unfolding unat_of_nat16 by simp
  qed
  have "inj_on ?f {..<256}" by (rule inj_onI) (metis unat_f lessThan_iff add_right_cancel mult_left_cancel zero_neq_numeral)
  moreover have "?f ` {..<256} = {x. ucast x = b}"
  proof (rule antisym; rule subsetI)
    fix x assume "x \<in> ?f ` {..<256}"
    then obtain h where "h < 256" "x = ?f h" by auto
    then have "unat (ucast x :: u8) = unat b" using unat_f [of h] by (simp add: unat_low_octet)
    then show "x \<in> {x. ucast x = b}" by (simp add: word_unat_eq_iff)
  next
    fix x :: u16 assume "x \<in> {x. ucast x = b}"
    then have "unat b = unat x mod 256" by (auto simp: unat_low_octet)
    then have "256 * (unat x div 256) + unat b = unat x" by simp
    then have "x = ?f (unat x div 256)" by simp
    moreover have "unat x div 256 < 256" by (simp add: less_mult_imp_div_less)
    ultimately show "x \<in> ?f ` {..<256}" by blast
  qed
  ultimately show ?thesis using card_image [of ?f "{..<256}"] by simp
qed

lemma card_low_octet_nonzero: "card {x :: u16. x \<noteq> 0 \<and> ucast x = (b :: u8)} = (if b = 0 then 255 else 256)"
proof -
  have "{x :: u16. x \<noteq> 0 \<and> ucast x = b} = {x. ucast x = b} - {0}" by auto
  moreover have "(0 :: u16) \<in> {x. ucast x = b} \<longleftrightarrow> b = 0" by auto
  ultimately show ?thesis by (simp only: card_Diff_singleton_if card_low_octet if_distrib) simp
qed

lemma count_list_map_upt: "count_list (map f [0..<n]) b = card {k. k < n \<and> f k = b}"
proof (induction n)
  case (Suc n)
  have "{k. k < Suc n \<and> f k = b} = {k. k < n \<and> f k = b} \<union> (if f n = b then {n} else {})" by (auto simp: less_Suc_eq)
  with Suc show ?case by simp
qed simp

text \<open>
  C18: the test pattern is as random as sixteen bits can make it. From any seed that is
  accepted the register visits every one of the 65535 non-zero states once before it repeats, two
  positions of the sequence have the same state exactly when they are a multiple of 65535 apart, and
  among the 65535 octets of a period each value occurs 256 times, only zero 255 times.
\<close>

theorem prbs_maximal_length:
  assumes "prbs16_new seed = Ok p"
  shows "bij_betw (\<lambda>n. prbs_state (prbs_after n p)) {..<65535} (UNIV - {0}) \<and>
    (\<forall>n m. prbs_after n p = prbs_after m p \<longleftrightarrow> n mod 65535 = m mod 65535) \<and>
    (\<forall>b. count_list (prbs16_take 65535 p) b = (if b = 0 then 255 else 256))"
proof (intro conjI allI)
  from assms have p: "prbs_state p \<noteq> 0" by (auto simp: prbs16_new_Ok)
  show "bij_betw (\<lambda>n. prbs_state (prbs_after n p)) {..<65535} (UNIV - {0})"
    unfolding prbs_after_state by (rule lfsr_orbit [OF p])
  show "prbs_after n p = prbs_after m p \<longleftrightarrow> n mod 65535 = m mod 65535" for n m
    using lfsr_same_mod [OF p, of n m] by (metis prbs_after_state prbs16.surjective unit.exhaust)
  show "count_list (prbs16_take 65535 p) b = (if b = 0 then 255 else 256)" for b
  proof -
    let ?s = "\<lambda>n. (lfsr ^^ n) (prbs_state p)"
    have "count_list (prbs16_take 65535 p) b = card {n. n < 65535 \<and> ucast (?s n) = b}"
      by (simp add: prbs16_take_nth count_list_map_upt)
    also have "\<dots> = card {x :: u16. x \<noteq> 0 \<and> ucast x = b}"
    proof (rule bij_betw_same_card)
      show "bij_betw ?s {n. n < 65535 \<and> ucast (?s n) = b} {x :: u16. x \<noteq> 0 \<and> ucast x = b}"
        using lfsr_orbit [OF p] unfolding bij_betw_def inj_on_def by auto
    qed
    finally show ?thesis by (simp only: card_low_octet_nonzero)
  qed
qed

theorem prbs_maximal_length_witness: "count_list (prbs16_take 65535 \<lparr>prbs_state = 0xace1\<rparr>) 0 = 255"
  using prbs_maximal_length [of "0xace1" "\<lparr>prbs_state = 0xace1\<rparr>"] by (simp add: prbs16_new_Ok)

end
