(* ===== verification/Execution_Payload.thy ===== *)
theory Execution_Payload
  imports Diagnostic
begin

text \<open>
  The 65816 code that the host tools upload to write console memory,
  \<^verbatim>\<open>tools/ndm24-tools/src/qusb2snes.rs\<close>: \<^verbatim>\<open>WramAddress\<close>, \<^verbatim>\<open>ExecutionPayload\<close> and \<^verbatim>\<open>build_wram_write_payload\<close>.
  The type parameter of \<^verbatim>\<open>ExecutionPayload\<close> only orders the calls and has no value at run time, so a
  payload is its octets.

  The last part gives the seven instructions that occur their meaning as the processor's manual states
  it, and shows that a payload performs the writes and leaves the registers as they were.
\<close>

section \<open>Building a payload\<close>

datatype tool_error =
    NotInWram u32
  | PayloadTooLong nat
  | PayloadWithoutWrites
  | ArgumentsTooLong nat
  | LabelNotInWram
  | NotStable
  | CommandFailed u16
  | CommandTimedOut u32 u32 u8 u8 u16 \<comment> \<open>host sequence, processed sequence, command, status, result\<close>
  | MailboxTooShort
  | MailboxMagicMismatch
  | UnsupportedMailboxVersion
  | MailboxSizeMismatch
  | FieldOutsideInput
  | Decoding protocol_error
  | Device \<comment> \<open>any error of the connection\<close>
  | LabelMissing string
  | InvalidLabels \<comment> \<open>the label file cannot be read\<close>
  | SnapshotTimedOut
  | RequestFailed u8
  | ClosedWithoutRequest
  | DnsTrailingDot
  | DnsNameTooLong nat
  | InvalidDnsName
  | MissingRunningPath
  | WrongRom string string
  | InvalidPeerId
  | PasswordLength
  | PasswordOctet u8
  | UploadFailed tool_error
  | UploadAndClearFailed tool_error tool_error
  | NotStaged
  | AtCommandTooLong
  | UnexpectedResult u16 u8
  | UnsupportedSpeed u32
  | DriverNotReady
  | NoResolver
  | WorkflowCancelled
  | FixtureMismatch nat u8 u8 \<comment> \<open>sample, expected, actual\<close>
  | DialFailed tool_error
  | DialAndStopFailed tool_error tool_error

definition FXPAK_EXECUTION_CAPACITY :: nat where "FXPAK_EXECUTION_CAPACITY = 0x100"

text \<open>\<^verbatim>\<open>WramAddress([u8; 3])\<close>\<close>

type_synonym wram_address = "u8 \<times> u8 \<times> u8"

type_synonym execution_payload = bytes

definition wram_address_new :: "u32 \<Rightarrow> (wram_address, tool_error) result" where
  "wram_address_new address =
     (if 0x7e0000 \<le> address \<and> address \<le> 0x7fffff then
        (let bs = to_le32 address in Ok (bs ! 0, bs ! 1, bs ! 2))
      else Err (NotInWram address))"

text \<open>The argument only reserves capacity.\<close>

definition payload_new :: "nat \<Rightarrow> execution_payload" where
  "payload_new write_count = []"

definition preserve_status_and_accumulator_as_a8 :: "execution_payload \<Rightarrow> execution_payload" where
  "preserve_status_and_accumulator_as_a8 payload = payload @ [0x08] @ [0xe2, 0x20] @ [0x48]"

fun store_wram_byte :: "execution_payload \<Rightarrow> wram_address \<Rightarrow> u8 \<Rightarrow> execution_payload" where
  "store_wram_byte payload (low, high, bank) v = payload @ [0xa9, v] @ [0x8f] @ [low, high, bank]"

definition restore_status_and_accumulator :: "execution_payload \<Rightarrow> (bytes, tool_error) result" where
  "restore_status_and_accumulator payload =
     (let payload = payload @ [0x68] @ [0x28]
      in if length payload \<le> FXPAK_EXECUTION_CAPACITY then Ok payload else Err (PayloadTooLong (length payload)))"

text \<open>The loop of \<^verbatim>\<open>build_wram_write_payload\<close>.\<close>

fun store_writes :: "execution_payload \<Rightarrow> (u32 \<times> u8) list \<Rightarrow> (execution_payload, tool_error) result" where
  "store_writes payload [] = Ok payload"
| "store_writes payload ((address, v) # writes) =
     and_then (wram_address_new address) (\<lambda>a. store_writes (store_wram_byte payload a v) writes)"

definition build_wram_write_payload :: "(u32 \<times> u8) list \<Rightarrow> (bytes, tool_error) result" where
  "build_wram_write_payload writes =
     (if writes = [] then Err PayloadWithoutWrites
      else and_then (store_writes (preserve_status_and_accumulator_as_a8 (payload_new (length writes))) writes)
        restore_status_and_accumulator)"

section \<open>The processor\<close>

text \<open>
  The accumulator, the status register with its bits \<open>NVMXDIZC\<close>, the stack pointer, and the memory by 24-bit
  address. The stack is in bank 0, whose first 8 KiB are the start of the work RAM at \<open>0x7e0000\<close>.
\<close>

record cpu =
  cpu_a :: u16
  cpu_p :: u8
  cpu_s :: u16
  cpu_memory :: "nat \<Rightarrow> u8"

definition stack_address :: "u16 \<Rightarrow> nat" where
  "stack_address s = (if unat s < 0x2000 then 0x7e0000 + unat s else unat s)"

definition push8 :: "u8 \<Rightarrow> cpu \<Rightarrow> cpu" where
  "push8 v c = c\<lparr>cpu_memory := (cpu_memory c)(stack_address (cpu_s c) := v), cpu_s := cpu_s c - 1\<rparr>"

definition pull8 :: "cpu \<Rightarrow> u8 \<times> cpu" where
  "pull8 c = (cpu_memory c (stack_address (cpu_s c + 1)), c\<lparr>cpu_s := cpu_s c + 1\<rparr>)"

text \<open>An 8-bit load changes the low half of the accumulator and the flags N and Z.\<close>

definition load8 :: "u8 \<Rightarrow> cpu \<Rightarrow> cpu" where
  "load8 v c = c\<lparr>cpu_a := push_bit 8 (drop_bit 8 (cpu_a c)) OR ucast v,
     cpu_p := (cpu_p c AND 0x7d) OR (v AND 0x80) OR (if v = 0 then 0x02 else 0)\<rparr>"

definition accumulator8 :: "cpu \<Rightarrow> bool" where
  "accumulator8 c \<longleftrightarrow> bit (cpu_p c) 5"

text \<open>
  One instruction and the code behind it, in native mode. The instructions on the accumulator are
  given for its 8-bit mode only, and others than those that occur not at all.
\<close>

fun execute1 :: "bytes \<Rightarrow> cpu \<Rightarrow> (bytes \<times> cpu) option" where
  "execute1 code c =
     (case code of
        opcode # code \<Rightarrow>
          if opcode = 0x08 then Some (code, push8 (cpu_p c) c)
          else if opcode = 0x28 then (let (v, c) = pull8 c in Some (code, c\<lparr>cpu_p := v\<rparr>))
          else if opcode = 0xe2 then
            (case code of
               v # code \<Rightarrow> if v = 0x20 then Some (code, c\<lparr>cpu_p := cpu_p c OR v\<rparr>) else None
             | [] \<Rightarrow> None)
          else if \<not> accumulator8 c then None
          else if opcode = 0x48 then Some (code, push8 (ucast (cpu_a c)) c)
          else if opcode = 0x68 then (let (v, c) = pull8 c in Some (code, load8 v c))
          else if opcode = 0xa9 then
            (case code of v # code \<Rightarrow> Some (code, load8 v c) | [] \<Rightarrow> None)
          else if opcode = 0x8f then
            (case code of
               low # high # bank # code \<Rightarrow>
                 Some (code, c\<lparr>cpu_memory := (cpu_memory c)
                   (65536 * unat bank + 256 * unat high + unat low := ucast (cpu_a c))\<rparr>)
             | _ \<Rightarrow> None)
          else None
      | [] \<Rightarrow> None)"

text \<open>Running code to its end.\<close>

fun execute_all :: "nat \<Rightarrow> bytes \<Rightarrow> cpu \<Rightarrow> cpu option" where
  "execute_all n [] c = Some c"
| "execute_all 0 (v # code) c = None"
| "execute_all (Suc n) (v # code) c =
     (case execute1 (v # code) c of None \<Rightarrow> None | Some (code', c') \<Rightarrow> execute_all n code' c')"

section \<open>What a payload does\<close>

definition in_wram :: "u32 \<Rightarrow> bool" where
  "in_wram address \<longleftrightarrow> 0x7e0000 \<le> address \<and> address \<le> 0x7fffff"

fun write_all :: "(u32 \<times> u8) list \<Rightarrow> (nat \<Rightarrow> u8) \<Rightarrow> nat \<Rightarrow> u8" where
  "write_all [] mem = mem"
| "write_all ((a, v) # writes) mem = write_all writes (mem(unat a := v))"

lemma wram_address_new_Ok:
  assumes "in_wram address"
  obtains low high bank where "wram_address_new address = Ok (low, high, bank)"
    "65536 * unat bank + 256 * unat high + unat low = unat address"
proof -
  let ?bs = "to_le32 address"
  have le: "unat address < 16777216"
    using assms by (simp add: in_wram_def word_le_nat_alt)
  have "?bs ! 0 = of_nat (unat address)" "?bs ! 1 = of_nat (unat address div 256)" "?bs ! 2 = of_nat (unat address div 65536)"
    by (simp_all add: to_le32_def to_be32_def octets_be32_def octets4_list_def)
  then have u: "unat (?bs ! 0) = unat address mod 256" "unat (?bs ! 1) = unat address div 256 mod 256"
    "unat (?bs ! 2) = unat address div 65536 mod 256"
    by (simp_all only: unat_of_nat8)
  have "unat address div 65536 < 256" using le by (simp add: less_mult_imp_div_less)
  then have "65536 * unat (?bs ! 2) + 256 * unat (?bs ! 1) + unat (?bs ! 0) =
      256 * (256 * (unat address div 256 div 256) + unat address div 256 mod 256) + unat address mod 256"
    unfolding u by (simp add: div_mult2_eq [symmetric])
  also have "\<dots> = unat address" by (simp only: mult_div_mod_eq)
  finally have "65536 * unat (?bs ! 2) + 256 * unat (?bs ! 1) + unat (?bs ! 0) = unat address" .
  moreover have "wram_address_new address = Ok (?bs ! 0, ?bs ! 1, ?bs ! 2)"
    using assms by (simp add: wram_address_new_def in_wram_def Let_def)
  ultimately show ?thesis by (rule that [rotated])
qed

lemma wram_address_new_Err: "\<not> in_wram address \<Longrightarrow> wram_address_new address = Err (NotInWram address)"
  by (auto simp: wram_address_new_def in_wram_def)

lemma low_octet: "ucast (push_bit 8 h OR ucast v :: u16) = (v :: u8)"
  by (rule bit_word_eqI) (auto simp: bit_or_iff bit_push_bit_iff bit_unsigned_iff)

lemma high_octet: "drop_bit 8 (push_bit 8 (drop_bit 8 a) OR ucast (v :: u8) :: u16) = drop_bit 8 a"
  by (rule bit_word_eqI) (auto simp: bit_or_iff bit_push_bit_iff bit_unsigned_iff bit_drop_bit_eq dest: bit_imp_le_length)

lemma octets_of_u16: "push_bit 8 (drop_bit 8 a) OR ucast (ucast a :: u8) = (a :: u16)"
  by (rule bit_word_eqI) (auto simp: bit_or_iff bit_push_bit_iff bit_unsigned_iff bit_drop_bit_eq dest: bit_imp_le_length)

lemma load8_simps [simp]:
  "cpu_s (load8 v c) = cpu_s c" "cpu_memory (load8 v c) = cpu_memory c"
  "ucast (cpu_a (load8 v c)) = v" "drop_bit 8 (cpu_a (load8 v c)) = drop_bit 8 (cpu_a c)"
  using high_octet [of "cpu_a c" v] by (simp_all add: load8_def low_octet del: drop_bit_or)

lemma accumulator8_load8 [simp]: "accumulator8 (load8 v c) = accumulator8 c"
proof -
  have "bit (0x7d :: u8) 5" "\<not> bit (0x80 :: u8) 5" "\<not> bit (0x02 :: u8) 5"
    by simp_all
  then show ?thesis by (simp add: accumulator8_def load8_def bit_or_iff bit_and_iff)
qed

lemma execute_all_step:
  "execute1 (v # code) c = Some (code', c') \<Longrightarrow> execute_all (Suc n) (v # code) c = execute_all n code' c'"
  by simp

definition stored :: "nat \<Rightarrow> u8 \<Rightarrow> cpu \<Rightarrow> cpu" where
  "stored address v c = (load8 v c)\<lparr>cpu_memory := (cpu_memory c)(address := v)\<rparr>"

lemma execute_store:
  assumes "accumulator8 c" "65536 * unat bank + 256 * unat high + unat low = address"
  shows "execute_all (Suc (Suc n)) ([0xa9, v, 0x8f, low, high, bank] @ rest) c = execute_all n rest (stored address v c)"
proof -
  have "execute1 ([0xa9, v, 0x8f, low, high, bank] @ rest) c = Some ([0x8f, low, high, bank] @ rest, load8 v c)"
    using assms(1) by simp
  moreover have "execute1 ([0x8f, low, high, bank] @ rest) (load8 v c) = Some (rest, stored address v c)"
    using assms by (simp add: stored_def)
  ultimately show ?thesis by (simp del: execute1.simps)
qed

lemma stored_simps [simp]:
  "cpu_s (stored a v c) = cpu_s c" "drop_bit 8 (cpu_a (stored a v c)) = drop_bit 8 (cpu_a c)"
  "cpu_memory (stored a v c) = (cpu_memory c)(a := v)" "accumulator8 (stored a v c) = accumulator8 c"
  using accumulator8_load8 [of v c] by (simp_all add: stored_def accumulator8_def)

lemma store_writes_Ok:
  "store_writes payload writes = Ok payload' \<Longrightarrow> accumulator8 c \<Longrightarrow>
   \<exists>stores c'. payload' = payload @ stores \<and> length stores = 6 * length writes \<and>
     (\<forall>n rest. execute_all (2 * length writes + n) (stores @ rest) c = execute_all n rest c') \<and>
     accumulator8 c' \<and> cpu_s c' = cpu_s c \<and> drop_bit 8 (cpu_a c') = drop_bit 8 (cpu_a c) \<and>
     cpu_memory c' = write_all writes (cpu_memory c)"
proof (induction payload writes arbitrary: c rule: store_writes.induct)
  case (1 payload)
  then show ?case by (intro exI [of _ "[]"] exI [of _ c]) simp
next
  case (2 payload address v writes)
  have "in_wram address" using 2(2) wram_address_new_Err [of address] by (cases "in_wram address") simp_all
  then obtain low high bank where w: "wram_address_new address = Ok (low, high, bank)"
    "65536 * unat bank + 256 * unat high + unat low = unat address" by (rule wram_address_new_Ok)
  let ?c = "stored (unat address) v c"
  have "store_writes (store_wram_byte payload (low, high, bank) v) writes = Ok payload'" using 2(2) w(1) by simp
  moreover have "accumulator8 ?c" using 2(3) by simp
  ultimately obtain stores c' where
    "payload' = store_wram_byte payload (low, high, bank) v @ stores" "length stores = 6 * length writes"
    and run: "\<forall>n rest. execute_all (2 * length writes + n) (stores @ rest) ?c = execute_all n rest c'"
    and rest: "accumulator8 c'" "cpu_s c' = cpu_s c" "drop_bit 8 (cpu_a c') = drop_bit 8 (cpu_a c)"
      "cpu_memory c' = write_all writes ((cpu_memory c)(unat address := v))"
    using 2(1) [of "(low, high, bank)" ?c] unfolding stored_simps by blast
  moreover have "execute_all (2 * length ((address, v) # writes) + n)
      (([0xa9, v, 0x8f, low, high, bank] @ stores) @ tail) c = execute_all n tail c'" for n tail
    using execute_store [OF 2(3) w(2), of "2 * length writes + n" v "stores @ tail"] run by simp
  ultimately show ?case
    by (intro exI [of _ "[0xa9, v, 0x8f, low, high, bank] @ stores"] exI [of _ c']) simp
qed

lemma write_all_other: "a \<notin> (\<lambda>w. unat (fst w)) ` set writes \<Longrightarrow> write_all writes mem a = mem a"
  by (induction writes arbitrary: mem) auto

lemma write_all_append: "write_all (ws @ ws') mem = write_all ws' (write_all ws mem)"
  by (induction ws arbitrary: mem) auto

lemma is_ok_store_writes: "is_ok (store_writes payload writes) \<longleftrightarrow> (\<forall>w \<in> set writes. in_wram (fst w))"
proof (induction payload writes rule: store_writes.induct)
  case (2 payload address v writes)
  show ?case
  proof (cases "in_wram address")
    case True
    then obtain low high bank where "wram_address_new address = Ok (low, high, bank)" by (rule wram_address_new_Ok)
    with 2 [of "(low, high, bank)"] True show ?thesis by simp
  next
    case False
    then show ?thesis by (simp add: wram_address_new_Err)
  qed
qed simp

lemma store_writes_no_panic: "store_writes payload writes \<noteq> Panic"
proof (induction payload writes rule: store_writes.induct)
  case (2 payload address v writes)
  then show ?case by (cases "wram_address_new address") (auto simp: wram_address_new_def Let_def split: if_splits)
qed simp

lemma length_store_writes: "store_writes payload writes = Ok payload' \<Longrightarrow> length payload' = length payload + 6 * length writes"
proof (induction payload writes rule: store_writes.induct)
  case (2 payload address v writes)
  then show ?case by (cases "wram_address_new address") (auto simp: and_then_eq_Ok)
qed simp

text \<open>A payload is built exactly for one to 41 writes to work RAM.\<close>

lemma build_wram_write_payload_iff:
  "is_ok (build_wram_write_payload writes) \<longleftrightarrow>
     writes \<noteq> [] \<and> (\<forall>w \<in> set writes. in_wram (fst w)) \<and> length writes \<le> 41"
proof (cases "store_writes (preserve_status_and_accumulator_as_a8 (payload_new (length writes))) writes")
  case (Ok payload)
  with length_store_writes [OF Ok] show ?thesis
    using is_ok_store_writes [of "preserve_status_and_accumulator_as_a8 (payload_new (length writes))" writes]
    by (auto simp: build_wram_write_payload_def restore_status_and_accumulator_def preserve_status_and_accumulator_as_a8_def
        payload_new_def FXPAK_EXECUTION_CAPACITY_def Let_def)
next
  case (Err e)
  with is_ok_store_writes [of "preserve_status_and_accumulator_as_a8 (payload_new (length writes))" writes]
  show ?thesis by (auto simp: build_wram_write_payload_def)
qed (simp add: store_writes_no_panic)

lemma execute_prologue:
  "\<exists>c'. (\<forall>n rest. execute_all (Suc (Suc (Suc n))) ([0x08, 0xe2, 0x20, 0x48] @ rest) c = execute_all n rest c') \<and>
     accumulator8 c' \<and> cpu_s c' = cpu_s c - 2 \<and> cpu_a c' = cpu_a c \<and>
     cpu_memory c' = (cpu_memory c)(stack_address (cpu_s c) := cpu_p c, stack_address (cpu_s c - 1) := ucast (cpu_a c))"
proof -
  have b: "bit (0x20 :: u8) 5" by simp
  show ?thesis
    by (intro exI [of _ "push8 (ucast (cpu_a c)) ((push8 (cpu_p c) c)\<lparr>cpu_p := cpu_p c OR 0x20\<rparr>)"])
      (simp add: push8_def accumulator8_def bit_or_iff b)
qed

lemma execute_epilogue:
  assumes "accumulator8 c" "cpu_memory c (stack_address (cpu_s c + 1)) = ucast a"
    "drop_bit 8 (cpu_a c) = drop_bit 8 a"
  shows "execute_all (Suc (Suc 0)) [0x68, 0x28] c = Some (c\<lparr>cpu_a := a, cpu_p := cpu_memory c (stack_address (cpu_s c + 2)), cpu_s := cpu_s c + 2\<rparr>)"
proof -
  have "push_bit 8 (drop_bit 8 (cpu_a c)) OR ucast (ucast a :: u8) = a"
    using octets_of_u16 [of a] assms(3) by simp
  then show ?thesis using assms
    by (simp add: pull8_def load8_def accumulator8_def add.commute [of 2 "cpu_s c"])
qed

lemma stack_address_differs: "stack_address s \<noteq> stack_address (s - 1)"
proof -
  have "unat s \<noteq> unat (s - 1)" unfolding word_unat_eq_iff [symmetric] by simp
  then show ?thesis using unat_le_65535 [of s] unat_le_65535 [of "s - 1"] 
    by (auto simp: stack_address_def simp del: unat_le_65535 unat_less_65536)
qed

lemma payload_executes:
  assumes built: "build_wram_write_payload writes = Ok payload"
    and stack: "stack_address (cpu_s c) \<notin> (\<lambda>w. unat (fst w)) ` set writes"
      "stack_address (cpu_s c - 1) \<notin> (\<lambda>w. unat (fst w)) ` set writes"
  shows "execute_all (2 * length writes + 5) payload c =
    Some (c\<lparr>cpu_memory := write_all writes ((cpu_memory c)
      (stack_address (cpu_s c) := cpu_p c, stack_address (cpu_s c - 1) := ucast (cpu_a c)))\<rparr>)"
proof -
  let ?mem = "(cpu_memory c)(stack_address (cpu_s c) := cpu_p c, stack_address (cpu_s c - 1) := ucast (cpu_a c))"
  let ?pre = "[0x08, 0xe2, 0x20, 0x48] :: bytes"
  from execute_prologue [of c] obtain c1 where
    pre: "\<And>n rest. execute_all (Suc (Suc (Suc n))) (?pre @ rest) c = execute_all n rest c1"
    and c1: "accumulator8 c1" "cpu_s c1 = cpu_s c - 2" "cpu_a c1 = cpu_a c" "cpu_memory c1 = ?mem" by blast
  from built obtain body where body: "store_writes ?pre writes = Ok body" "payload = body @ [0x68, 0x28]"
    by (auto simp: build_wram_write_payload_def and_then_eq_Ok preserve_status_and_accumulator_as_a8_def payload_new_def
        restore_status_and_accumulator_def Let_def split: if_splits)
  from store_writes_Ok [OF body(1) c1(1)] obtain stores c2 where
    stores: "body = ?pre @ stores" "\<And>n rest. execute_all (2 * length writes + n) (stores @ rest) c1 = execute_all n rest c2"
    and c2: "accumulator8 c2" "cpu_s c2 = cpu_s c1" "drop_bit 8 (cpu_a c2) = drop_bit 8 (cpu_a c1)"
      "cpu_memory c2 = write_all writes (cpu_memory c1)" by blast
  have mem2: "cpu_memory c2 (stack_address (cpu_s c - 1)) = ucast (cpu_a c)"
    "cpu_memory c2 (stack_address (cpu_s c)) = cpu_p c"
    using write_all_other [OF stack(1), of ?mem] write_all_other [OF stack(2), of ?mem] stack_address_differs [of "cpu_s c"]
    by (simp_all add: c2(4) c1(4))
  have "execute_all (2 * length writes + 5) payload c = execute_all (Suc (Suc 0)) [0x68, 0x28] c2"
    using pre [of "2 * length writes + 2" "stores @ [0x68, 0x28]"] stores(2) [of 2 "[0x68, 0x28]"]
    by (simp add: body(2) stores(1) numeral_2_eq_2 eval_nat_numeral)
  also have "\<dots> = Some (c2\<lparr>cpu_a := cpu_a c, cpu_p := cpu_p c, cpu_s := cpu_s c\<rparr>)"
    using execute_epilogue [of c2 "cpu_a c"] c2 c1 mem2 by simp
  also have "c2\<lparr>cpu_a := cpu_a c, cpu_p := cpu_p c, cpu_s := cpu_s c\<rparr> = c\<lparr>cpu_memory := write_all writes ?mem\<rparr>"
    using c2(4) c1(4) by (cases c; cases c2) simp
  finally show ?thesis .
qed

section \<open>A mailbox request\<close>

text \<open>The addition of \<^verbatim>\<open>u32\<close>, which panics on overflow as it does in the development profile.\<close>

definition u32_add :: "u32 \<Rightarrow> u32 \<Rightarrow> (u32, tool_error) result" where
  "u32_add a b = (if unat a + unat b < 2 ^ 32 then Ok (a + b) else Panic)"

text \<open>The closures that pair the octets of a field with their addresses, from index \<open>i\<close> on.\<close>

fun field_writes :: "u32 \<Rightarrow> nat \<Rightarrow> nat \<Rightarrow> bytes \<Rightarrow> ((u32 \<times> u8) list, tool_error) result" where
  "field_writes mailbox offset i [] = Ok []"
| "field_writes mailbox offset i (byte # bs) =
     and_then (u32_add mailbox (of_nat offset)) (\<lambda>base.
     and_then (u32_add base (of_nat i)) (\<lambda>address.
     and_then (field_writes mailbox offset (Suc i) bs) (\<lambda>writes.
     Ok ((address, byte) # writes))))"

definition mailbox_writes :: "u32 \<Rightarrow> bytes \<Rightarrow> u8 \<Rightarrow> u32 \<Rightarrow> ((u32 \<times> u8) list, tool_error) result" where
  "mailbox_writes mailbox arguments command sequence =
     and_then (field_writes mailbox MODEM_MAILBOX_OFFSET_ARGUMENTS 0 arguments) (\<lambda>writes.
     and_then (u32_add mailbox (of_nat MODEM_MAILBOX_OFFSET_COMMAND)) (\<lambda>address.
     and_then (field_writes mailbox MODEM_MAILBOX_OFFSET_HOST_SEQUENCE 0 (to_le32 sequence)) (\<lambda>sequence_writes.
     Ok (writes @ [(address, command)] @ sequence_writes))))"

lemma field_writes_Ok:
  "unat mailbox + offset + i + length bs \<le> 2 ^ 32 \<Longrightarrow>
   \<exists>writes. field_writes mailbox offset i bs = Ok writes \<and> length writes = length bs \<and>
     (\<forall>k < length bs. unat (fst (writes ! k)) = unat mailbox + offset + i + k \<and> snd (writes ! k) = bs ! k)"
proof (induction bs arbitrary: i)
  case (Cons b bs)
  have u: "unat (of_nat offset :: u32) = offset" "unat (of_nat i :: u32) = i"
    using Cons.prems by (simp_all add: unat_of_nat32)
  have add1: "u32_add mailbox (of_nat offset) = Ok (mailbox + of_nat offset)" 
    "unat (mailbox + of_nat offset) = unat mailbox + offset"
    using Cons.prems by (simp_all add: u32_add_def u unat_word_ariths)
  have add2: "u32_add (mailbox + of_nat offset) (of_nat i) = Ok (mailbox + of_nat offset + of_nat i)"
    "unat (mailbox + of_nat offset + of_nat i) = unat mailbox + offset + i"
    using Cons.prems add1 by (simp_all add: u32_add_def u unat_word_ariths)
  from Cons.IH [of "Suc i"] Cons.prems obtain writes where w: "field_writes mailbox offset (Suc i) bs = Ok writes"
    "length writes = length bs"
    "\<forall>k < length bs. unat (fst (writes ! k)) = unat mailbox + offset + Suc i + k \<and> snd (writes ! k) = bs ! k" by auto
  show ?case
    using add1 add2 w by (auto simp: nth_Cons less_Suc_eq_0_disj)
qed simp

text \<open>The memory behind a field after its writes.\<close>

lemma write_all_nth:
  assumes "k < length writes" "distinct (map (\<lambda>w. unat (fst w)) writes)"
  shows "write_all writes mem (unat (fst (writes ! k))) = snd (writes ! k)"
  using assms
proof (induction writes arbitrary: k mem)
  case (Cons w writes)
  obtain a v where w: "w = (a, v)" by (cases w)
  show ?case
  proof (cases k)
    case 0
    with Cons.prems write_all_other [of "unat a" writes] show ?thesis by (simp add: w image_image [symmetric] image_def)
  next
    case (Suc j)
    with Cons show ?thesis by (simp add: w)
  qed
qed simp

lemma field_writes_effect:
  assumes "unat mailbox + offset + length bs \<le> 2 ^ 32"
  obtains writes where "field_writes mailbox offset 0 bs = Ok writes" "length writes = length bs"
    "(\<lambda>w. unat (fst w)) ` set writes = {unat mailbox + offset ..< unat mailbox + offset + length bs}"
    "\<And>mem k. k < length bs \<Longrightarrow> write_all writes mem (unat mailbox + offset + k) = bs ! k"
proof -
  from field_writes_Ok [of mailbox offset 0 bs] assms obtain writes where w: "field_writes mailbox offset 0 bs = Ok writes"
    "length writes = length bs"
    "\<forall>k < length bs. unat (fst (writes ! k)) = unat mailbox + offset + k \<and> snd (writes ! k) = bs ! k" by auto
  then have map: "map (\<lambda>w. unat (fst w)) writes = [unat mailbox + offset ..< unat mailbox + offset + length bs]"
    by (intro nth_equalityI) simp_all
  have image: "(\<lambda>w. unat (fst w)) ` set writes = {unat mailbox + offset ..< unat mailbox + offset + length bs}"
    using arg_cong [OF map, of set] by simp
  have nth: "write_all writes mem (unat mailbox + offset + k) = bs ! k" if "k < length bs" for mem k
    using write_all_nth [of k writes mem] w that by (simp add: map)
  show ?thesis by (rule that [OF w(1,2) image nth])
qed

lemma mailbox_writes_effect:
  assumes "unat mailbox + 96 \<le> 2 ^ 24" "length arguments \<le> 32"
  obtains writes where "mailbox_writes mailbox arguments command sequence = Ok writes"
    "writes \<noteq> []" "length writes \<le> 41"
    "(\<lambda>w. unat (fst w)) ` set writes = {unat mailbox + 20 ..< unat mailbox + 20 + length arguments} \<union>
       {unat mailbox + 16} \<union> {unat mailbox + 8 ..< unat mailbox + 12}"
    "\<And>mem k. k < length arguments \<Longrightarrow> write_all writes mem (unat mailbox + 20 + k) = arguments ! k"
    "\<And>mem. write_all writes mem (unat mailbox + 16) = command"
    "\<And>mem k. k < 4 \<Longrightarrow> write_all writes mem (unat mailbox + 8 + k) = to_le32 sequence ! k"
proof -
  let ?m = "unat mailbox"
  have "?m + 20 + length arguments \<le> 2 ^ 32" using assms by simp
  then obtain W1 where W1: "field_writes mailbox 20 0 arguments = Ok W1" "length W1 = length arguments"
    "(\<lambda>w. unat (fst w)) ` set W1 = {?m + 20 ..< ?m + 20 + length arguments}"
    "\<And>mem k. k < length arguments \<Longrightarrow> write_all W1 mem (?m + 20 + k) = arguments ! k"
    by (rule field_writes_effect) blast
  have "?m + 8 + length (to_le32 sequence) \<le> 2 ^ 32" using assms by simp
  then obtain W3 where W3: "field_writes mailbox 8 0 (to_le32 sequence) = Ok W3" "length W3 = 4"
    "(\<lambda>w. unat (fst w)) ` set W3 = {?m + 8 ..< ?m + 8 + 4}"
    "\<And>mem k. k < 4 \<Longrightarrow> write_all W3 mem (?m + 8 + k) = to_le32 sequence ! k"
    by (rule field_writes_effect) simp
  have address: "u32_add mailbox 16 = Ok (mailbox + 16)" "unat (mailbox + 16) = ?m + 16"
    using assms by (simp_all add: u32_add_def unat_word_ariths)
  let ?W = "W1 @ [(mailbox + 16, command)] @ W3"
  have W: "mailbox_writes mailbox arguments command sequence = Ok ?W"
    using W1(1) W3(1) address(1) by (simp add: mailbox_writes_def abi)
  have image: "(\<lambda>w. unat (fst w)) ` set ?W = {?m + 20 ..< ?m + 20 + length arguments} \<union> {?m + 16} \<union> {?m + 8 ..< ?m + 12}"
    by (auto simp: image_Un W1(3) W3(3) address(2))
  have split: "write_all ?W mem a = write_all W3 ((write_all W1 mem)(?m + 16 := command)) a" for mem a
    by (simp add: write_all_append address(2))
  have args: "write_all ?W mem (?m + 20 + k) = arguments ! k" if "k < length arguments" for mem k
  proof -
    have "?m + 20 + k \<notin> (\<lambda>w. unat (fst w)) ` set W3" unfolding W3(3) by simp
    then show ?thesis unfolding split using W1(4) [OF that] by (simp add: write_all_other)
  qed
  have cmd: "write_all ?W mem (?m + 16) = command" for mem
  proof -
    have "?m + 16 \<notin> (\<lambda>w. unat (fst w)) ` set W3" unfolding W3(3) by simp
    then show ?thesis unfolding split by (simp add: write_all_other)
  qed
  have sequ: "write_all ?W mem (?m + 8 + k) = to_le32 sequence ! k" if "k < 4" for mem k
    unfolding split by (rule W3(4) [OF that])
  show ?thesis by (rule that [OF W _ _ image args cmd sequ]) (use W1(2) W3(2) assms(2) in simp_all)
qed

lemma mailbox_payload_builds:
  fixes mailbox :: u32
  assumes wram: "0x7e0000 \<le> unat mailbox" "unat mailbox + 96 \<le> 0x800000" and arguments: "length arguments \<le> 32"
    and writes: "writes \<noteq> []" "length writes \<le> 41"
    and image: "(\<lambda>w. unat (fst w)) ` set writes = {unat mailbox + 20 ..< unat mailbox + 20 + length arguments} \<union>
       {unat mailbox + 16} \<union> {unat mailbox + 8 ..< unat mailbox + 12}"
  shows "\<exists>payload. build_wram_write_payload writes = Ok payload"
    "x \<in> set writes \<Longrightarrow> unat mailbox \<le> unat (fst x) \<and> unat (fst x) < unat mailbox + 96"
proof -
  have inside: "unat mailbox \<le> unat (fst x) \<and> unat (fst x) < unat mailbox + 96" if "x \<in> set writes" for x
  proof -
    have "unat (fst x) \<in> (\<lambda>w. unat (fst w)) ` set writes" using that by blast
    then show ?thesis unfolding image using arguments by auto
  qed
  have "in_wram (fst x)" if "x \<in> set writes" for x
    using inside [OF that] wram by (simp add: in_wram_def word_le_nat_alt)
  then show "\<exists>payload. build_wram_write_payload writes = Ok payload"
    using build_wram_write_payload_iff [of writes] writes by (auto simp: is_ok_iff)
  show "unat mailbox \<le> unat (fst x) \<and> unat (fst x) < unat mailbox + 96" if "x \<in> set writes"
    by (rule inside [OF that])
qed

lemma payload_length: "build_wram_write_payload writes = Ok payload \<Longrightarrow> length payload \<le> 256"
  by (auto simp: build_wram_write_payload_def and_then_eq_Ok restore_status_and_accumulator_def FXPAK_EXECUTION_CAPACITY_def
      Let_def split: if_splits)

text \<open>
  C20: a command reaches the mailbox and nothing else. For a mailbox inside the work RAM and at most 32
  octets of arguments the host builds a payload that fits the execution area. When the console executes
  it, and the two octets below its stack pointer are not in the mailbox, it ends with all registers as
  they were; the arguments, the command and the new sequence number are in their fields of the mailbox;
  and no other octet of memory has changed but those two of the stack.
\<close>

theorem mailbox_request_executes:
  assumes wram: "0x7e0000 \<le> unat mailbox" "unat mailbox + 96 \<le> 0x800000"
    and arguments: "length arguments \<le> 32"
    and stack: "stack_address (cpu_s c) \<notin> {unat mailbox ..< unat mailbox + 96}"
      "stack_address (cpu_s c - 1) \<notin> {unat mailbox ..< unat mailbox + 96}"
  shows "\<exists>payload mem. and_then (mailbox_writes mailbox arguments command sequence) build_wram_write_payload = Ok payload \<and>
    length payload \<le> 256 \<and> (\<exists>n. execute_all n payload c = Some (c\<lparr>cpu_memory := mem\<rparr>)) \<and>
    (\<forall>k < length arguments. mem (unat mailbox + 20 + k) = arguments ! k) \<and>
    mem (unat mailbox + 16) = command \<and>
    (\<forall>k < 4. mem (unat mailbox + 8 + k) = to_le32 sequence ! k) \<and>
    (\<forall>a. a \<notin> {unat mailbox + 8 ..< unat mailbox + 12} \<union> {unat mailbox + 16} \<union>
        {unat mailbox + 20 ..< unat mailbox + 20 + length arguments} \<union>
        {stack_address (cpu_s c), stack_address (cpu_s c - 1)} \<longrightarrow> mem a = cpu_memory c a)"
proof -
  let ?m = "unat mailbox"
  let ?mem = "(cpu_memory c)(stack_address (cpu_s c) := cpu_p c, stack_address (cpu_s c - 1) := ucast (cpu_a c))"
  from wram(2) have "?m + 96 \<le> 2 ^ 24" by simp
  then obtain writes where w: "mailbox_writes mailbox arguments command sequence = Ok writes" "writes \<noteq> []" "length writes \<le> 41"
    and image: "(\<lambda>w. unat (fst w)) ` set writes = {?m + 20 ..< ?m + 20 + length arguments} \<union> {?m + 16} \<union> {?m + 8 ..< ?m + 12}"
    and effect: "\<And>mem k. k < length arguments \<Longrightarrow> write_all writes mem (?m + 20 + k) = arguments ! k"
      "\<And>mem. write_all writes mem (?m + 16) = command"
      "\<And>mem k. k < 4 \<Longrightarrow> write_all writes mem (?m + 8 + k) = to_le32 sequence ! k"
    using arguments by (rule mailbox_writes_effect) blast+
  note built = mailbox_payload_builds [OF wram arguments w(2,3) image]
  from built(1) obtain payload where p: "build_wram_write_payload writes = Ok payload" by blast
  have away: "stack_address (cpu_s c) \<notin> (\<lambda>w. unat (fst w)) ` set writes"
    "stack_address (cpu_s c - 1) \<notin> (\<lambda>w. unat (fst w)) ` set writes"
    using built(2) stack by fastforce+
  have "write_all writes ?mem a = cpu_memory c a" if "a \<notin> (\<lambda>w. unat (fst w)) ` set writes"
    "a \<noteq> stack_address (cpu_s c)" "a \<noteq> stack_address (cpu_s c - 1)" for a
    using that by (simp add: write_all_other)
  then show ?thesis
    using payload_executes [OF p away] payload_length [OF p] w(1) p effect unfolding image
    by (intro exI [of _ payload] exI [of _ "write_all writes ?mem"]) auto
qed

theorem mailbox_request_executes_witness:
  "\<exists>payload mem. and_then (mailbox_writes 0x7e1000 [] 1 7) build_wram_write_payload = Ok payload \<and>
    (\<exists>n. execute_all n payload \<lparr>cpu_a = 0x1234, cpu_p = 0x30, cpu_s = 0x1fff, cpu_memory = (\<lambda>_. 0)\<rparr> =
      Some \<lparr>cpu_a = 0x1234, cpu_p = 0x30, cpu_s = 0x1fff, cpu_memory = mem\<rparr>) \<and> mem 0x7e1010 = 1"
  using mailbox_request_executes [of "0x7e1000" "[]" "\<lparr>cpu_a = 0x1234, cpu_p = 0x30, cpu_s = 0x1fff, cpu_memory = (\<lambda>_. 0)\<rparr>" 1 7]
  by (auto simp: stack_address_def)

end
