(* ===== verification/Device_Reads.thy ===== *)
theory Device_Reads
  imports Execution_Payload Ppp_Diagnostic
begin

text \<open>
  How the host tools read the console through the flash cartridge while it runs,
  \<^verbatim>\<open>tools/ndm24-tools/src/qusb2snes.rs\<close>: fields of a block, the checks of the mailbox, the receive ring, values
  that are read until they repeat, and diagnostic blocks that are read under their sequence number.

  The connection is a parameter: \<open>'s\<close> is the state of the cartridge, the console and the clock, and a
  \<open>device\<close> has the operations that the code calls on it. \<open>expired\<close> compares the clock with the deadline of
  the loop at hand. A loop without a bound of its own is a partial function, and that it returns is proved
  from the progress of the clock.
\<close>

section \<open>Fields\<close>

definition tool_read_u16 :: "bytes \<Rightarrow> nat \<Rightarrow> (u16, tool_error) result" where
  "tool_read_u16 data offset =
     (case get_range data offset (offset + 2) of
        None \<Rightarrow> Err FieldOutsideInput
      | Some bs \<Rightarrow> Ok (from_be16 (bs ! 1) (bs ! 0)))"

definition tool_read_u32 :: "bytes \<Rightarrow> nat \<Rightarrow> (u32, tool_error) result" where
  "tool_read_u32 data offset =
     (case get_range data offset (offset + 4) of
        None \<Rightarrow> Err FieldOutsideInput
      | Some bs \<Rightarrow> Ok (from_le32 (octets4_at bs 0)))"

definition validate_mailbox :: "bytes \<Rightarrow> (unit, tool_error) result" where
  "validate_mailbox data =
     (if length data < MODEM_MAILBOX_SIZE then Err MailboxTooShort
      else and_then (index_range data 0 4) (\<lambda>magic.
        if magic \<noteq> MODEM_MAILBOX_MAGIC then Err MailboxMagicMismatch
        else and_then (tool_read_u16 data MODEM_MAILBOX_OFFSET_VERSION) (\<lambda>version.
        if version \<noteq> MODEM_MAILBOX_VERSION then Err UnsupportedMailboxVersion
        else and_then (tool_read_u16 data MODEM_MAILBOX_OFFSET_BLOCK_SIZE) (\<lambda>block_size.
        if unat block_size \<noteq> MODEM_MAILBOX_SIZE then Err MailboxSizeMismatch else Ok ()))))"

text \<open>The octets between the two indices of a ring; \<open>index\<close> wraps as a \<^verbatim>\<open>u8\<close>.\<close>

function pending_ring_bytes :: "bytes \<Rightarrow> u8 \<Rightarrow> u8 \<Rightarrow> (bytes, tool_error) result" where
  "pending_ring_bytes ring index write_index =
     (if index = write_index then Ok []
      else and_then (octet_at ring (unat index)) (\<lambda>byte.
        and_then (pending_ring_bytes ring (index + 1) write_index) (\<lambda>rest. Ok (byte # rest))))"
  by pat_completeness auto

termination
proof (relation "measure (\<lambda>(ring, index, write_index). unat (write_index - index))")
  fix ring :: bytes and index write_index byte :: u8
  assume "index \<noteq> write_index"
  then have "write_index - index \<noteq> 0" by simp
  then have "unat (write_index - index - 1) < unat (write_index - index)"
    by (simp add: unat_dec unat_gt_0)
  then show "((ring, index + 1, write_index), ring, index, write_index) \<in>
      measure (\<lambda>(ring, index, write_index). unat (write_index - index))"
    by (simp add: diff_diff_eq)
qed simp

declare pending_ring_bytes.simps [simp del]

lemma pending_ring_bytes_eq:
  assumes "length ring = 256"
  shows "pending_ring_bytes ring index write_index =
    Ok (map (\<lambda>k. ring ! ((unat index + k) mod 256)) [0..<unat (write_index - index)])"
  using assms
proof (induction ring index write_index rule: pending_ring_bytes.induct)
  case (1 ring index write_index)
  show ?case
  proof (cases "index = write_index")
    case False
    let ?n = "unat (write_index - (index + 1))"
    have n: "unat (write_index - index) = Suc ?n"
      using False Suc_unat_dec [of "write_index - index"] by (simp add: diff_diff_eq word_gt_0)
    have next_index: "unat (index + 1) = (unat index + 1) mod 256" by (simp add: unat_word_ariths)
    have "(unat (index + 1) + k) mod 256 = (unat index + Suc k) mod 256" for k
      unfolding next_index by (simp add: mod_add_left_eq)
    then have "pending_ring_bytes ring (index + 1) write_index = Ok (map (\<lambda>k. ring ! ((unat index + Suc k) mod 256)) [0..<?n])"
      using 1 False by (simp add: octet_at_def)
    moreover have "[0..<Suc ?n] = 0 # map Suc [0..<?n]" by (simp add: upt_conv_Cons map_Suc_upt del: upt_Suc)
    ultimately show ?thesis
      using False 1 by (subst pending_ring_bytes.simps) (simp add: octet_at_def n del: upt_Suc)
  qed (subst pending_ring_bytes.simps, simp)
qed

section \<open>Values that repeat\<close>

record 's device =
  read_address :: "nat \<Rightarrow> nat \<Rightarrow> 's \<Rightarrow> (bytes, tool_error) result \<times> 's"
  expired :: "'s \<Rightarrow> bool"
  pause :: "'s \<Rightarrow> 's" \<comment> \<open>\<^verbatim>\<open>yield_now\<close> and \<^verbatim>\<open>sleep\<close>\<close>
  connect :: "'s \<Rightarrow> (unit, tool_error) result \<times> 's"
  execute_address :: "nat \<Rightarrow> bytes \<Rightarrow> 's \<Rightarrow> (unit, tool_error) result \<times> 's"

text \<open>
  A console is a device with a clock: the nanoseconds from one state to another, as \<^verbatim>\<open>Instant\<close> measures them. A loop that
  starts in a state with a limit works on the device whose deadline that is.
\<close>

record 's console =
  attached :: "'s device"
  elapsed :: "'s \<Rightarrow> 's \<Rightarrow> nat"

definition seconds :: "nat \<Rightarrow> nat" where "seconds n = n * 10 ^ 9"

definition within :: "'s console \<Rightarrow> nat \<Rightarrow> 's \<Rightarrow> 's device" where
  "within con limit start = (attached con)\<lparr>expired := \<lambda>s. limit \<le> elapsed con start s\<rparr>"

lemma within_simps [simp]:
  "read_address (within con limit start) = read_address (attached con)" "pause (within con limit start) = pause (attached con)"
  "connect (within con limit start) = connect (attached con)"
  "execute_address (within con limit start) = execute_address (attached con)"
  "expired (within con limit start) s \<longleftrightarrow> limit \<le> elapsed con start s"
  by (simp_all add: within_def)

text \<open>The loop \<^verbatim>\<open>for _ in 0..20\<close> of \<^verbatim>\<open>read_stable_u32\<close> and \<^verbatim>\<open>read_stable_clock\<close>, with the rounds left.\<close>

fun read_until_repeated :: "nat \<Rightarrow> 's device \<Rightarrow> nat \<Rightarrow> nat \<Rightarrow> bytes option \<Rightarrow> 's \<Rightarrow> (bytes, tool_error) result \<times> 's" where
  "read_until_repeated 0 dev offset n previous s = (Err NotStable, s)"
| "read_until_repeated (Suc rounds) dev offset n previous s =
     and_then_st (read_address dev offset n s) (\<lambda>current s.
       if previous = Some current then (Ok current, s)
       else read_until_repeated rounds dev offset n (Some current) s)"

text \<open>A value of another length than four octets is an error, a short clock value is a panic.\<close>

definition read_stable_u32 :: "'s device \<Rightarrow> nat \<Rightarrow> 's \<Rightarrow> (u32, tool_error) result \<times> 's" where
  "read_stable_u32 dev offset s =
     and_then_st (read_until_repeated 20 dev offset 4 None s) (\<lambda>current s.
       (if length current = 4 then Ok (from_le32 (octets4_at current 0)) else Err FieldOutsideInput, s))"

definition read_stable_clock :: "'s device \<Rightarrow> nat \<Rightarrow> 's \<Rightarrow> (u32 \<times> u32, tool_error) result \<times> 's" where
  "read_stable_clock dev offset s =
     and_then_st (read_until_repeated 20 dev offset 8 None s) (\<lambda>current s.
       (and_then (index_range current 0 4) (\<lambda>seconds.
        and_then (index_range current 4 8) (\<lambda>subsecond.
        Ok (from_le32 (octets4_at seconds 0), from_le32 (octets4_at subsecond 0)))), s))"

section \<open>Blocks under a sequence number\<close>

text \<open>
  One round of \<^verbatim>\<open>read_stable_snapshot\<close>: the sequence number, the block, the sequence number again. \<open>None\<close> is
  \<^verbatim>\<open>continue\<close>.
\<close>

definition stable_attempt ::
  "'s device \<Rightarrow> nat \<Rightarrow> nat \<Rightarrow> nat \<Rightarrow> 's \<Rightarrow> (bytes option, tool_error) result \<times> 's" where
  "stable_attempt dev offset sequence_offset n s =
     and_then_st (read_address dev (offset + sequence_offset) 4 s) (\<lambda>first s.
     and_then_st (tool_read_u32 first 0, s) (\<lambda>first_sequence s.
     if first_sequence AND 1 \<noteq> 0 then (Ok None, s)
     else
       and_then_st (read_address dev offset n s) (\<lambda>snapshot s.
       and_then_st (tool_read_u32 snapshot sequence_offset, s) (\<lambda>snapshot_sequence s.
       if snapshot_sequence \<noteq> first_sequence then (Ok None, s)
       else
         and_then_st (read_address dev (offset + sequence_offset) 4 s) (\<lambda>last_octets s.
         and_then_st (tool_read_u32 last_octets 0, s) (\<lambda>last_sequence s.
         if last_sequence \<noteq> first_sequence then (Ok None, s)
         else (Ok (Some snapshot), s)))))))"

partial_function (option) read_stable ::
  "'s device \<Rightarrow> nat \<Rightarrow> nat \<Rightarrow> nat \<Rightarrow> 's \<Rightarrow> ((bytes, tool_error) result \<times> 's) option" where
  "read_stable dev offset sequence_offset n s =
     (if expired dev s then Some (Err NotStable, s)
      else case stable_attempt dev offset sequence_offset n s of
          (Ok (Some snapshot), s) \<Rightarrow> Some (Ok snapshot, s)
        | (Ok None, s) \<Rightarrow> read_stable dev offset sequence_offset n (pause dev s)
        | (Err e, s) \<Rightarrow> Some (Err e, s)
        | (Panic, s) \<Rightarrow> Some (Panic, s))"

definition read_stable_snapshot ::
  "'s console \<Rightarrow> nat \<Rightarrow> 's \<Rightarrow> ((diagnostic_snapshot, tool_error) result \<times> 's) option" where
  "read_stable_snapshot con offset s =
     map_option (\<lambda>(r, s). (and_then r (\<lambda>snapshot. map_err Decoding (diagnostic_decode snapshot)), s))
       (read_stable (within con (seconds 2) s) offset MODEM_DIAG_SNAPSHOT_SEQUENCE MODEM_DIAGNOSTIC_SIZE s)"

definition read_stable_ppp_snapshot ::
  "'s console \<Rightarrow> nat \<Rightarrow> 's \<Rightarrow> ((ppp_diagnostic_snapshot, tool_error) result \<times> 's) option" where
  "read_stable_ppp_snapshot con offset s =
     map_option (\<lambda>(r, s). (and_then r (\<lambda>snapshot. map_err Decoding (ppp_diagnostic_decode snapshot)), s))
       (read_stable (within con (seconds 2) s) offset PPP_DIAG_SNAPSHOT_SEQUENCE PPP_DIAGNOSTIC_SIZE s)"

section \<open>A stable block is one the console had\<close>

text \<open>
  What a read returns: \<open>hist t a\<close> is the octet at address \<open>a\<close> of the console at time \<open>t\<close>, and every octet of
  a read is the one at some time during the read; only the four octets of the sequence number, at \<open>word\<close>, are
  taken at one time.
\<close>

definition observes :: "'s device \<Rightarrow> ('s \<Rightarrow> nat) \<Rightarrow> (nat \<Rightarrow> nat \<Rightarrow> u8) \<Rightarrow> nat \<Rightarrow> bool" where
  "observes dev clock hist word \<longleftrightarrow>
     (\<forall>offset n s bs s'. read_address dev offset n s = (Ok bs, s') \<longrightarrow>
        length bs = n \<and>
        (\<exists>at. (\<forall>i < n. clock s \<le> at i \<and> at i \<le> clock s' \<and> bs ! i = hist (at i) (offset + i)) \<and>
           (\<forall>i < n. \<forall>j < n. {offset + i, offset + j} \<subseteq> {word ..< word + 4} \<longrightarrow> at i = at j))) \<and>
     (\<forall>offset n s. clock s < clock (snd (read_address dev offset n s))) \<and>
     (\<forall>s. clock s \<le> clock (pause dev s))"

text \<open>
  How the firmware writes a block: it counts the sequence number up before and after every update, so
  that the block does not change while the number is even and stays.
\<close>

definition sequenced :: "(nat \<Rightarrow> nat \<Rightarrow> u8) \<Rightarrow> nat \<Rightarrow> nat \<Rightarrow> nat \<Rightarrow> (nat \<Rightarrow> nat) \<Rightarrow> bool" where
  "sequenced hist offset n word count \<longleftrightarrow>
     mono count \<and> (\<forall>t. count t < 2 ^ 32) \<and>
     (\<forall>t. map (hist t) [word ..< word + 4] = to_le32 (of_nat (count t))) \<and>
     (\<forall>t. \<forall>a \<in> {offset ..< offset + n}. even (count t) \<longrightarrow> count (Suc t) = count t \<longrightarrow> hist (Suc t) a = hist t a)"

lemma observes_within [simp]: "observes (within con limit start) clock hist word \<longleftrightarrow> observes (attached con) clock hist word"
  by (simp add: observes_def)

text \<open>The clock of a console counts what \<open>elapsed\<close> measures.\<close>

definition timed :: "'s console \<Rightarrow> ('s \<Rightarrow> nat) \<Rightarrow> bool" where
  "timed con clock \<longleftrightarrow> (\<forall>s t. elapsed con s t = clock t - clock s)"

lemma tool_read_u32_ok: "offset + 4 \<le> length data \<Longrightarrow> tool_read_u32 data offset = Ok (le32_at data offset)"
  by (simp add: tool_read_u32_def get_range_def le32_at_def octets4_at_segment)

lemma unchanged:
  assumes sequ: "sequenced hist offset n word count" and even: "even (count a)" and same: "count c = count a"
    and t: "a \<le> t" "t \<le> c" and x: "x \<in> {offset ..< offset + n}"
  shows "count t = count a \<and> hist t x = hist a x"
  using t
proof (induction t)
  case (Suc t)
  have mono: "mono count" using sequ by (simp add: sequenced_def)
  show ?case
  proof (cases "a \<le> t")
    case True
    with Suc have IH: "count t = count a" "hist t x = hist a x" by simp_all
    have "count t \<le> count (Suc t)" "count (Suc t) \<le> count c"
      using mono Suc.prems(2) by (simp_all add: monoD)
    with IH same have "count (Suc t) = count t" by simp
    moreover from this have "hist (Suc t) x = hist t x" using sequ x even IH by (simp add: sequenced_def)
    ultimately show ?thesis using IH by simp
  next
    case False
    with Suc.prems have "a = Suc t" by simp
    then show ?thesis by simp
  qed
qed simp

text \<open>The value of the sequence number in a read that covers it.\<close>

lemma observed_sequence:
  assumes obs: "observes dev clock hist (base + sequence_offset)" and sequ: "sequenced hist offset m (base + sequence_offset) count"
    and r: "read_address dev base n s = (Ok bs, s')" and n: "sequence_offset + 4 \<le> n"
  shows "\<exists>t. clock s \<le> t \<and> t \<le> clock s' \<and> tool_read_u32 bs sequence_offset = Ok (of_nat (count t))"
proof -
  from obs r obtain at where len: "length bs = n"
    and at: "\<And>i. i < n \<Longrightarrow> clock s \<le> at i \<and> at i \<le> clock s' \<and> bs ! i = hist (at i) (base + i)"
    and one: "\<And>i j. i < n \<Longrightarrow> j < n \<Longrightarrow> {base + i, base + j} \<subseteq> {base + sequence_offset ..< base + sequence_offset + 4} \<Longrightarrow> at i = at j"
    using conjunct1 [OF obs [unfolded observes_def], rule_format, OF r] by auto
  let ?t = "at sequence_offset"
  have same: "at (sequence_offset + k) = ?t" if "k < 4" for k
    using one [of "sequence_offset + k" sequence_offset] n that by simp
  have "take 4 (drop sequence_offset bs) = map (hist ?t) [base + sequence_offset ..< base + sequence_offset + 4]"
  proof (rule nth_equalityI)
    fix k assume "k < length (take 4 (drop sequence_offset bs))"
    then have k: "k < 4" by simp
    have "bs ! (sequence_offset + k) = hist ?t (base + (sequence_offset + k))"
      using at [of "sequence_offset + k"] same [OF k] n k by simp
    then show "take 4 (drop sequence_offset bs) ! k = map (hist ?t) [base + sequence_offset ..< base + sequence_offset + 4] ! k"
      using k len n by (simp add: add.assoc)
  qed (use len n in simp)
  also have "\<dots> = to_le32 (of_nat (count ?t))" using sequ by (simp add: sequenced_def)
  finally have "to_le32 (le32_at bs sequence_offset) = to_le32 (of_nat (count ?t))"
    using segment32 [of sequence_offset bs] len n by simp
  then have "tool_read_u32 bs sequence_offset = Ok (of_nat (count ?t))"
    using len n by (simp add: tool_read_u32_ok)
  then show ?thesis using at [of sequence_offset] n by (intro exI [of _ ?t]) simp
qed

lemma observes_clock:
  assumes "observes dev clock hist word" "read_address dev offset n s = (r, s')"
  shows "clock s < clock s'"
  using assms unfolding observes_def by (metis snd_conv)

lemma stable_attempt_Some:
  assumes "stable_attempt dev offset sequence_offset n s = (Ok (Some block), s')"
  obtains first v s1 s2 last_octets where
    "read_address dev (offset + sequence_offset) 4 s = (Ok first, s1)" "tool_read_u32 first 0 = Ok v" "v AND 1 = 0"
    "read_address dev offset n s1 = (Ok block, s2)" "tool_read_u32 block sequence_offset = Ok v"
    "read_address dev (offset + sequence_offset) 4 s2 = (Ok last_octets, s')" "tool_read_u32 last_octets 0 = Ok v"
  using assms by (auto simp: stable_attempt_def and_then_st_eq_Ok split: if_splits)

lemma stable_attempt_consistent:
  assumes obs: "observes dev clock hist (offset + sequence_offset)"
    and sequ: "sequenced hist offset n (offset + sequence_offset) count"
    and n: "sequence_offset + 4 \<le> n"
    and ok: "stable_attempt dev offset sequence_offset n s = (Ok (Some block), s')"
  shows "\<exists>t. clock s \<le> t \<and> t \<le> clock s' \<and> even (count t) \<and> block = map (hist t) [offset ..< offset + n]"
proof -
  let ?w = "offset + sequence_offset"
  from ok obtain first v s1 s2 last_octets where r1: "read_address dev ?w 4 s = (Ok first, s1)" "tool_read_u32 first 0 = Ok v"
    and v: "v AND 1 = 0" and r2: "read_address dev offset n s1 = (Ok block, s2)"
    and r3: "read_address dev ?w 4 s2 = (Ok last_octets, s')" "tool_read_u32 last_octets 0 = Ok v"
    by (rule stable_attempt_Some)
  have sequ': "sequenced hist offset n (?w + 0) count" and obs': "observes dev clock hist (?w + 0)" using sequ obs by simp_all
  from observed_sequence [OF obs' sequ' r1(1)] r1(2) obtain a where a: "clock s \<le> a" "a \<le> clock s1" "v = of_nat (count a)" by auto
  from observed_sequence [OF obs' sequ' r3(1)] r3(2) obtain c where c: "clock s2 \<le> c" "v = of_nat (count c)" by auto
  have "count a < 2 ^ 32" "count c < 2 ^ 32" using sequ by (simp_all add: sequenced_def)
  then have u: "unat v = count a" "unat v = count c" 
    using unat_of_nat32 [of "count a"] unat_of_nat32 [of "count c"] a(3) c(2) by auto
  have "even v" using v by (simp add: and_one_eq even_iff_mod_2_eq_zero)
  then have "even (unat v)" using bit_unsigned_iff [where 'a = nat, of v 0] by (simp add: bit_0)
  then have even: "even (count a)" by (simp add: u)
  have "length block = n" using conjunct1 [OF obs [unfolded observes_def], rule_format, OF r2] by blast
  moreover have "block ! i = hist a (offset + i)" if "i < n" for i
  proof -
    from conjunct1 [OF obs [unfolded observes_def], rule_format, OF r2] that obtain t where
      t: "clock s1 \<le> t" "t \<le> clock s2" "block ! i = hist t (offset + i)" by blast
    have "count t = count a \<and> hist t (offset + i) = hist a (offset + i)"
      by (rule unchanged [where c = c, OF sequ even]) (use u a c t that in auto)
    with t show ?thesis by simp
  qed
  ultimately have "block = map (hist a) [offset ..< offset + n]" by (intro nth_equalityI) simp_all
  moreover have "a \<le> clock s'"
    using a(2) observes_clock [OF obs r2] observes_clock [OF obs r3(1)] by linarith
  ultimately show ?thesis using a(1) even by blast
qed

lemma clock_and_then_st:
  fixes clock :: "'s \<Rightarrow> nat"
  assumes "t \<le> clock (snd r)" "\<And>x s. clock s \<le> clock (snd (f x s))"
  shows "t \<le> clock (snd (and_then_st r f))"
  using assms by (cases "(r, f)" rule: and_then_st.cases) (auto intro: order_trans)

lemma observes_time:
  assumes "observes dev clock hist word"
  shows "clock s < clock (snd (read_address dev a k s))" "clock s \<le> clock (pause dev s)"
  using assms by (simp_all add: observes_def)

lemma stable_attempt_clock:
  fixes clock :: "'s \<Rightarrow> nat"
  assumes read: "\<And>a k s. clock s < clock (snd (read_address dev a k s))"
  shows "clock s < clock (snd (stable_attempt dev offset sequence_offset n s))"
proof -
  note reads = less_imp_le [OF read] and step = clock_and_then_st [where clock = clock]
  have "clock (snd (read_address dev (offset + sequence_offset) 4 s)) \<le>
      clock (snd (stable_attempt dev offset sequence_offset n s))"
    unfolding stable_attempt_def
    by ((rule step, simp)+, (split if_split, intro conjI impI, simp)?, rule step, rule reads,
        rule step, simp, (split if_split, intro conjI impI, simp)?, rule step, rule reads, rule step, simp, simp)
  with read [of s "offset + sequence_offset" 4] show ?thesis by linarith
qed

lemma read_stable_consistent:
  assumes "read_stable dev offset sequence_offset n s = Some y" and "y = (Ok block, s')"
    and "observes dev clock hist (offset + sequence_offset)"
    and "sequenced hist offset n (offset + sequence_offset) count" and "sequence_offset + 4 \<le> n"
  shows "\<exists>t. clock s \<le> t \<and> t \<le> clock s' \<and> even (count t) \<and> block = map (hist t) [offset ..< offset + n]"
  using assms
proof (induction arbitrary: block s' rule: read_stable.raw_induct [rotated, consumes 1, case_names step])
  case (step loop dev offset sequence_offset n s y)
  note IH = step(1) and body = step(2) and prems = step(3-)
  show ?case
  proof (cases "stable_attempt dev offset sequence_offset n s")
    case (Pair r s1)
    show ?thesis
    proof (cases "r = Ok None")
      case True
      with body prems(1) Pair have "loop dev offset sequence_offset n (pause dev s1) = Some y"
        by (simp split: if_splits)
      from IH [OF this prems] obtain t where
        "clock (pause dev s1) \<le> t" "t \<le> clock s'" "even (count t)" "block = map (hist t) [offset ..< offset + n]" by blast
      moreover have "clock s < clock s1" using stable_attempt_clock [OF observes_time(1) [OF prems(2)], of s offset sequence_offset n] Pair by simp
      moreover have "clock s1 \<le> clock (pause dev s1)" using prems(2) by (simp add: observes_def)
      ultimately show ?thesis by (intro exI [of _ t]) simp
    next
      case False
      with body prems(1) Pair have "stable_attempt dev offset sequence_offset n s = (Ok (Some block), s')"
        by (auto split: if_splits result.splits option.splits)
      from stable_attempt_consistent [OF prems(2-4) this] show ?thesis .
    qed
  qed
qed

text \<open>The loop ends, because every round takes time.\<close>

lemma read_stable_returns:
  fixes clock :: "'s \<Rightarrow> nat"
  assumes time: "\<And>a k s. clock s < clock (snd (read_address dev a k s))" "\<And>s. clock s \<le> clock (pause dev s)"
    and deadline: "\<And>s. deadline \<le> clock s \<Longrightarrow> expired dev s"
  shows "read_stable dev offset sequence_offset n s \<noteq> None"
proof (induction "deadline - clock s" arbitrary: s rule: less_induct)
  case less
  show ?case
  proof (cases "expired dev s")
    case False
    then have early: "clock s < deadline" using deadline [of s] by linarith
    show ?thesis
    proof (cases "stable_attempt dev offset sequence_offset n s")
      case (Pair r s1)
      have "clock s < clock s1" using stable_attempt_clock [OF time(1), of s offset sequence_offset n] Pair by simp
      moreover have "clock s1 \<le> clock (pause dev s1)" by (rule time(2))
      ultimately have "deadline - clock (pause dev s1) < deadline - clock s" using early by linarith
      with less Pair False show ?thesis
        by (subst read_stable.simps) (auto split: result.splits option.splits)
    qed
  qed (subst read_stable.simps, simp)
qed

lemma ppp_snapshot_real:
  assumes "observes (attached con) clock hist (offset + 8)" and "sequenced hist offset 511 (offset + 8) count"
    and "read_stable_ppp_snapshot con offset s = Some (Ok snapshot, s')"
  shows "\<exists>t. clock s \<le> t \<and> t \<le> clock s' \<and> even (count t) \<and>
    ppp_diagnostic_decode (map (hist t) [offset ..< offset + 511]) = Ok snapshot"
proof -
  from assms(3) obtain block where r: "read_stable (within con (seconds 2) s) offset 8 511 s = Some (Ok block, s')"
    "ppp_diagnostic_decode block = Ok snapshot"
    by (auto simp: read_stable_ppp_snapshot_def and_then_eq_Ok abi)
  have "observes (within con (seconds 2) s) clock hist (offset + 8)" using assms(1) by simp
  from read_stable_consistent [OF r(1) refl this assms(2)] r(2) show ?thesis by auto
qed

text \<open>
  How long the operations take at most: \<open>d\<close> nanoseconds a read, \<open>p\<close> nanoseconds a pause. Then the loop
  is over soon after its deadline, because no round begins once it has passed.
\<close>

definition paced :: "'s device \<Rightarrow> ('s \<Rightarrow> nat) \<Rightarrow> nat \<Rightarrow> nat \<Rightarrow> bool" where
  "paced dev clock d p \<longleftrightarrow>
     (\<forall>offset n s. clock (snd (read_address dev offset n s)) \<le> clock s + d) \<and> (\<forall>s. clock (pause dev s) \<le> clock s + p)"

lemma paced_within [simp]: "paced (within con limit start) clock d p \<longleftrightarrow> paced (attached con) clock d p"
  by (simp add: paced_def)

lemma pace_and_then_st:
  fixes clock :: "'s \<Rightarrow> nat"
  assumes "clock (snd r) \<le> clock s + d" "\<And>x s. clock (snd (f x s)) \<le> clock s + u"
  shows "clock (snd (and_then_st r f)) \<le> clock s + (d + u)"
proof (cases "(r, f)" rule: and_then_st.cases)
  case (1 x s g)
  then show ?thesis using assms(1) assms(2) [of x s] by simp
qed (use assms(1) in auto)

lemma stable_attempt_pace:
  assumes "paced dev clock d p"
  shows "clock (snd (stable_attempt dev offset sequence_offset n s)) \<le> clock s + 3 * d"
proof -
  have read: "clock (snd (read_address dev a k t)) \<le> clock t + d" for a k t using assms by (simp add: paced_def)
  note step = pace_and_then_st [where clock = clock]
  have "clock (snd (stable_attempt dev offset sequence_offset n s)) \<le> clock s + (d + (0 + (d + (0 + (d + (0 + 0))))))"
    unfolding stable_attempt_def
    by (rule step, rule read, rule step, simp, split if_split, intro conjI impI, simp,
        rule step, rule read, rule step, simp, split if_split, intro conjI impI, simp,
        rule step, rule read, rule step, simp, simp)
  then show ?thesis by simp
qed

lemma read_stable_deadline:
  assumes "read_stable dev offset sequence_offset n s = Some y" and "paced dev clock d p"
    and "\<And>t. \<not> expired dev t \<Longrightarrow> clock t < deadline" and "clock s \<le> deadline + 3 * d + p"
  shows "clock (snd y) \<le> deadline + 3 * d + p"
  using assms
proof (induction rule: read_stable.raw_induct [rotated, consumes 1, case_names step])
  case (step loop dev offset sequence_offset n s y)
  note IH = step(1) and body = step(2) and prems = step(3-)
  show ?case
  proof (cases "expired dev s")
    case False
    obtain r s1 where round: "stable_attempt dev offset sequence_offset n s = (r, s1)" by (cases "stable_attempt dev offset sequence_offset n s")
    have late: "clock s1 < deadline + 3 * d" using stable_attempt_pace [OF prems(1), of offset sequence_offset n s] prems(2) [OF False] round by simp
    show ?thesis
    proof (cases "r = Ok None")
      case True
      have "clock (pause dev s1) \<le> deadline + 3 * d + p" using prems(1) late by (fastforce simp: paced_def dest: spec [of _ s1])
      moreover have "loop dev offset sequence_offset n (pause dev s1) = Some y" using body False True round by simp
      ultimately show ?thesis using IH prems(1,2) by blast
    next
      case False
      then have "snd y = s1" using body \<open>\<not> expired dev s\<close> round by (auto split: result.splits option.splits)
      with late show ?thesis by simp
    qed
  qed (use body prems(3) in auto)
qed

text \<open>
  C19: a snapshot that the host reports is one the console really had. Suppose a read returns, octet by octet,
  what the console's memory held during the read, with the sequence number taken at one time, that the
  firmware counts the sequence number up before and after every update of the block, and that a read takes some
  time and at most \<open>d\<close> nanoseconds, a pause between two rounds at most \<open>p\<close>. Then reading the PPP block ends at
  most the three reads of one round and a pause after its deadline of two seconds, since a round that has begun is
  finished; and if it yields a
  snapshot, that is the decoding of the whole block as it stood at one time during the call, outside
  of any update, although the octets were read one after the other.
\<close>

theorem stable_snapshot_is_real:
  assumes "observes (attached con) clock hist (offset + 8)" and "sequenced hist offset 511 (offset + 8) count"
    and "timed con clock" and "paced (attached con) clock d p"
  shows "\<exists>r s'. read_stable_ppp_snapshot con offset s = Some (r, s') \<and>
    clock s' \<le> clock s + 2 * 10 ^ 9 + 3 * d + p \<and>
    (\<forall>snapshot. r = Ok snapshot \<longrightarrow>
      (\<exists>t. clock s \<le> t \<and> t \<le> clock s' \<and> even (count t) \<and>
         ppp_diagnostic_decode (map (hist t) [offset ..< offset + 511]) = Ok snapshot))"
proof -
  let ?dev = "within con (seconds 2) s"
  have obs: "observes ?dev clock hist (offset + 8)" using assms(1) by simp
  have expired: "expired ?dev t \<longleftrightarrow> clock s + seconds 2 \<le> clock t" for t using assms(3) by (auto simp: timed_def seconds_def)
  then have "read_stable ?dev offset 8 511 s \<noteq> None"
    by (intro read_stable_returns [OF observes_time [OF obs], where deadline = "clock s + seconds 2"]) simp
  then obtain r s' where run: "read_stable ?dev offset 8 511 s = Some (r, s')" by auto
  have "clock s' \<le> clock s + seconds 2 + 3 * d + p"
    using read_stable_deadline [OF run, where clock = clock and d = d and p = p and deadline = "clock s + seconds 2"] assms(4) expired
    by (simp add: not_le [symmetric] del: within_simps(5))
  moreover obtain r' where result: "read_stable_ppp_snapshot con offset s = Some (r', s')"
    using run by (simp add: read_stable_ppp_snapshot_def abi)
  ultimately show ?thesis using ppp_snapshot_real [OF assms(1,2)] by (auto simp: seconds_def)
qed

text \<open>A console that stands still, for the examples, and one whose PPP block holds a snapshot.\<close>

definition still_console :: "(nat \<Rightarrow> u8) \<Rightarrow> nat console" where
  "still_console mem = \<lparr>attached = \<lparr>read_address = (\<lambda>offset n s. (Ok (map mem [offset ..< offset + n]), Suc s)),
     expired = (\<lambda>s. False), pause = Suc, connect = (\<lambda>s. (Ok (), s)),
     execute_address = (\<lambda>offset payload s. (Ok (), Suc s))\<rparr>, elapsed = (\<lambda>s t. t - s)\<rparr>"

lemma still_console_observes: "observes (attached (still_console mem)) (\<lambda>s. s) (\<lambda>_. mem) word"
  by (auto simp: observes_def still_console_def)

lemma still_console_time:
  "timed (still_console mem) (\<lambda>s. s)" "paced (attached (still_console mem)) (\<lambda>s. s) 1 1"
  by (simp_all add: timed_def paced_def still_console_def)

definition still_block :: bytes where "still_block = ppp_header_image 6 @ replicate 499 0"

definition still_memory :: "nat \<Rightarrow> u8" where "still_memory a = still_block ! (a - 0x1000)"

lemma still_block_facts: "length still_block = 511" "take 4 (drop 8 still_block) = to_le32 6" "ppp_diagnostic_header still_block = Ok 6"
  by (simp_all add: still_block_def ppp_diagnostic_header_iff, simp add: ppp_header_image_def)

lemma still_read:
  "k + n \<le> 511 \<Longrightarrow>
   read_address (attached (still_console still_memory)) (0x1000 + k) n s = (Ok (take n (drop k still_block)), Suc s)"
  by (auto simp: still_console_def still_memory_def still_block_facts intro!: nth_equalityI)

lemma still_snapshot: "\<exists>snapshot. read_stable_ppp_snapshot (still_console still_memory) 0x1000 3 = Some (Ok snapshot, 6)"
proof -
  from ppp_diagnostic_fields [OF still_block_facts(3)] obtain snapshot where "ppp_diagnostic_decode still_block = Ok snapshot" by blast
  moreover have u32: "tool_read_u32 (take 4 (drop 8 still_block)) 0 = Ok 6" "tool_read_u32 still_block 8 = Ok 6"
    using still_block_facts by (simp_all add: tool_read_u32_def get_range_def octets4_at_def
        to_le32_def to_be32_def octets_be32_def octets4_list_def from_le32_def from_be32_def)
  have elapsed: "elapsed (still_console still_memory) s t = t - s" for s t by (simp add: still_console_def)
  have "read_stable (within (still_console still_memory) (seconds 2) 3) 0x1000 8 511 3 = Some (Ok still_block, 6)"
    using still_read [of 8 4] still_read [of 0 511] still_block_facts(1)
    by (subst read_stable.simps) (simp add: stable_attempt_def u32 seconds_def elapsed)
  ultimately show ?thesis by (simp add: read_stable_ppp_snapshot_def abi)
qed

lemma still_sequenced: "sequenced (\<lambda>_. still_memory) 0x1000 511 (0x1000 + 8) (\<lambda>_. 6)"
proof -
  have "map still_memory [0x1000 + 8 ..< 0x1000 + 8 + 4] = take 4 (drop 8 still_block)"
    by (rule nth_equalityI) (auto simp: still_memory_def still_block_facts(1) simp del: upt_Suc upt_rec_numeral)
  then show ?thesis by (simp add: sequenced_def monoI still_block_facts(2))
qed

theorem stable_snapshot_is_real_witness:
  "\<exists>snapshot s'. read_stable_ppp_snapshot (still_console still_memory) 0x1000 3 = Some (Ok snapshot, s') \<and>
     s' \<le> 3 + 2 * 10 ^ 9 + 3 + 1 \<and> ppp_diagnostic_decode (map still_memory [0x1000 ..< 0x1000 + 511]) = Ok snapshot"
  using stable_snapshot_is_real [OF still_console_observes still_sequenced still_console_time, of 3] still_snapshot by auto

section \<open>Mailbox commands\<close>

definition FXPAK_EXECUTION_SCRATCH :: nat where "FXPAK_EXECUTION_SCRATCH = 0x3f0000"

record mailbox_outcome =
  mo_sequence :: u32
  mo_result :: u16
  mo_output :: bytes

text \<open>The address of a work RAM label in the address space of the cartridge, \<^verbatim>\<open>labels.rs\<close>.\<close>

definition wram_to_usb2snes :: "u32 \<Rightarrow> (nat, tool_error) result" where
  "wram_to_usb2snes address =
     (if 0x7e0000 \<le> address then Ok (0xf50000 + unat (address - 0x7e0000)) else Err LabelNotInWram)"

definition output_attempt :: "'s device \<Rightarrow> nat \<Rightarrow> 's \<Rightarrow> (bytes option, tool_error) result \<times> 's" where
  "output_attempt dev output_offset s =
     and_then_st (read_address dev output_offset MODEM_MAILBOX_ARGUMENT_SIZE s) (\<lambda>first s.
     and_then_st (read_address dev output_offset MODEM_MAILBOX_ARGUMENT_SIZE (pause dev s)) (\<lambda>second s.
     (if first = second then Ok (Some second) else if expired dev s then Err NotStable else Ok None, s)))"

partial_function (option) read_output_loop ::
  "'s device \<Rightarrow> nat \<Rightarrow> 's \<Rightarrow> ((bytes, tool_error) result \<times> 's) option" where
  "read_output_loop dev output_offset s =
     (case output_attempt dev output_offset s of
        (Ok (Some out), s) \<Rightarrow> Some (Ok out, s)
      | (Ok None, s) \<Rightarrow> read_output_loop dev output_offset s
      | (Err e, s) \<Rightarrow> Some (Err e, s)
      | (Panic, s) \<Rightarrow> Some (Panic, s))"

definition read_stable_mailbox_output ::
  "'s console \<Rightarrow> nat \<Rightarrow> 's \<Rightarrow> ((bytes, tool_error) result \<times> 's) option" where
  "read_stable_mailbox_output con mailbox_offset s =
     (case connect (attached con) s of
        (Ok _, s) \<Rightarrow> read_output_loop (within con (seconds 2) s) (mailbox_offset + MODEM_MAILBOX_OFFSET_OUTPUT) s
      | (Err e, s) \<Rightarrow> Some (Err e, s)
      | (Panic, s) \<Rightarrow> Some (Panic, s))"

text \<open>
  One round of the loop of \<^verbatim>\<open>mailbox_command_with_arguments\<close>: it ends with the result, or goes on with the
  mailbox to be confirmed by the next round.
\<close>

datatype mailbox_round = Confirmed u16 | Again "bytes option"

definition mailbox_poll ::
  "'s device \<Rightarrow> nat \<Rightarrow> u32 \<Rightarrow> bytes option \<Rightarrow> 's \<Rightarrow> (mailbox_round, tool_error) result \<times> 's" where
  "mailbox_poll dev offset sequence completion_candidate s =
     and_then_st (read_address dev offset MODEM_MAILBOX_SIZE s) (\<lambda>mailbox s.
     and_then_st (validate_mailbox mailbox, s) (\<lambda>_ s.
     and_then_st (tool_read_u32 mailbox MODEM_MAILBOX_OFFSET_PROCESSED_SEQUENCE, s) (\<lambda>processed s.
     and_then_st (octet_at mailbox MODEM_MAILBOX_OFFSET_STATUS, s) (\<lambda>status s.
     if processed = sequence \<and> (status = MODEM_MAILBOX_STATUS_PASSED \<or> status = MODEM_MAILBOX_STATUS_FAILED) then
       (if completion_candidate \<noteq> Some mailbox then
          (if expired dev s then (Err NotStable, s) else (Ok (Again (Some mailbox)), pause dev s))
        else
          and_then_st (tool_read_u16 mailbox MODEM_MAILBOX_OFFSET_RESULT, s) (\<lambda>outcome s.
          if status \<noteq> MODEM_MAILBOX_STATUS_PASSED then (Err (CommandFailed outcome), s)
          else (Ok (Confirmed outcome), s)))
     else if expired dev s then
       and_then_st (tool_read_u32 mailbox MODEM_MAILBOX_OFFSET_HOST_SEQUENCE, s) (\<lambda>host s.
       and_then_st (tool_read_u16 mailbox MODEM_MAILBOX_OFFSET_RESULT, s) (\<lambda>outcome s.
       and_then_st (octet_at mailbox MODEM_MAILBOX_OFFSET_COMMAND, s) (\<lambda>observed_command s.
       (Err (CommandTimedOut host processed observed_command status outcome), s))))
     else (Ok (Again None), pause dev s)))))"

partial_function (option) mailbox_wait ::
  "'s device \<Rightarrow> nat \<Rightarrow> u32 \<Rightarrow> bytes option \<Rightarrow> 's \<Rightarrow> ((u16, tool_error) result \<times> 's) option" where
  "mailbox_wait dev offset sequence completion_candidate s =
     (case mailbox_poll dev offset sequence completion_candidate s of
        (Ok (Confirmed outcome), s) \<Rightarrow> Some (Ok outcome, s)
      | (Ok (Again candidate), s) \<Rightarrow> mailbox_wait dev offset sequence candidate s
      | (Err e, s) \<Rightarrow> Some (Err e, s)
      | (Panic, s) \<Rightarrow> Some (Panic, s))"

text \<open>The label file is read by \<^verbatim>\<open>read_labels\<close>, whose outcome is an argument.\<close>

type_synonym label_table = "(string \<Rightarrow> u32 option, tool_error) result"

definition label_at :: "label_table \<Rightarrow> string \<Rightarrow> (u32, tool_error) result" where
  "label_at labels n =
     and_then labels (\<lambda>table. case table n of None \<Rightarrow> Err (LabelMissing n) | Some address \<Rightarrow> Ok address)"

text \<open>What happens before the loop: the request is written and the sequence number to wait for is known.\<close>

definition mailbox_submit ::
  "'s device \<Rightarrow> label_table \<Rightarrow> u8 \<Rightarrow> bytes \<Rightarrow> 's \<Rightarrow> (nat \<times> u32, tool_error) result \<times> 's" where
  "mailbox_submit dev labels command arguments s =
     (if length arguments > MODEM_MAILBOX_ARGUMENT_SIZE then (Err (ArgumentsTooLong (length arguments)), s)
      else
        and_then_st (label_at labels ''modemMailbox'', s) (\<lambda>mailbox s.
        and_then_st (wram_to_usb2snes mailbox, s) (\<lambda>offset s.
        and_then_st (connect dev s) (\<lambda>_ s.
        and_then_st (read_address dev offset MODEM_MAILBOX_SIZE s) (\<lambda>initial s.
        and_then_st (validate_mailbox initial, s) (\<lambda>_ s.
        and_then_st (tool_read_u32 initial MODEM_MAILBOX_OFFSET_PROCESSED_SEQUENCE, s) (\<lambda>current s.
        and_then_st (mailbox_writes mailbox arguments command (current + 1), s) (\<lambda>writes s.
        and_then_st (build_wram_write_payload writes, s) (\<lambda>payload s.
        and_then_st (execute_address dev FXPAK_EXECUTION_SCRATCH payload s) (\<lambda>_ s.
        (Ok (offset, current + 1), s)))))))))))"

definition mailbox_command ::
  "'s console \<Rightarrow> label_table \<Rightarrow> u8 \<Rightarrow> bytes \<Rightarrow> nat \<Rightarrow> 's \<Rightarrow> ((mailbox_outcome, tool_error) result \<times> 's) option" where
  "mailbox_command con labels command arguments timeout s =
     (case mailbox_submit (attached con) labels command arguments s of
        (Err e, s) \<Rightarrow> Some (Err e, s)
      | (Panic, s) \<Rightarrow> Some (Panic, s)
      | (Ok (offset, sequence), s) \<Rightarrow>
          (case mailbox_wait (within con timeout s) offset sequence None s of
             None \<Rightarrow> None
           | Some (Err e, s) \<Rightarrow> Some (Err e, s)
           | Some (Panic, s) \<Rightarrow> Some (Panic, s)
           | Some (Ok outcome, s) \<Rightarrow>
               map_option (\<lambda>(r, s). (and_then r (\<lambda>out. Ok \<lparr>mo_sequence = sequence, mo_result = outcome, mo_output = out\<rparr>), s))
                 (read_stable_mailbox_output con offset s)))"

lemma mailbox_poll_Confirmed:
  assumes "mailbox_poll dev offset sequence candidate s = (Ok (Confirmed outcome), s')"
  shows "\<exists>block. candidate = Some block \<and> read_address dev offset 96 s = (Ok block, s') \<and>
    validate_mailbox block = Ok () \<and> tool_read_u32 block 12 = Ok sequence \<and> block ! 17 = 3 \<and>
    tool_read_u16 block 18 = Ok outcome"
  using assms by (auto simp: mailbox_poll_def and_then_st_eq_Ok octet_at_def abi split: if_splits)

lemma mailbox_poll_Again:
  assumes "mailbox_poll dev offset sequence candidate s = (Ok (Again (Some block)), s')"
  shows "\<exists>s1. read_address dev offset 96 s = (Ok block, s1) \<and> s' = pause dev s1"
  using assms by (auto simp: mailbox_poll_def and_then_st_eq_Ok abi split: if_splits)

text \<open>
  The order of what happens: a state follows another one when the operations of the connection lead from the one to the
  other.
\<close>

inductive device_step :: "'s device \<Rightarrow> 's \<Rightarrow> 's \<Rightarrow> bool" for dev :: "'s device" where
  step_read: "read_address dev offset n s = (r, t) \<Longrightarrow> device_step dev s t"
| step_pause: "device_step dev s (pause dev s)"
| step_connect: "connect dev s = (u, t) \<Longrightarrow> device_step dev s t"
| step_execute: "execute_address dev offset bs s = (u, t) \<Longrightarrow> device_step dev s t"

abbreviation leads_to :: "'s device \<Rightarrow> 's \<Rightarrow> 's \<Rightarrow> bool" where
  "leads_to dev \<equiv> (device_step dev)\<^sup>*\<^sup>*"

definition confirmed_by :: "'s device \<Rightarrow> nat \<Rightarrow> u32 \<Rightarrow> u16 \<Rightarrow> 's \<Rightarrow> 's \<Rightarrow> bool" where
  "confirmed_by dev offset sequence outcome s s' \<longleftrightarrow>
     (\<exists>block s1 s2. leads_to dev s s1 \<and> read_address dev offset 96 s1 = (Ok block, s2) \<and>
        read_address dev offset 96 (pause dev s2) = (Ok block, s') \<and>
        validate_mailbox block = Ok () \<and> tool_read_u32 block 12 = Ok sequence \<and> block ! 17 = 3 \<and>
        tool_read_u16 block 18 = Ok outcome)"

lemma mailbox_poll_leads:
  assumes "mailbox_poll dev offset sequence candidate s = (Ok (Again candidate'), s')"
  shows "leads_to dev s s'"
proof -
  from assms obtain r s1 where "read_address dev offset 96 s = (r, s1)" "s' = pause dev s1"
    by (cases "read_address dev offset 96 s") (auto simp: mailbox_poll_def and_then_st_eq_Ok abi split: if_splits)
  then show ?thesis by (metis r_into_rtranclp rtranclp.rtrancl_into_rtrancl step_pause step_read)
qed

lemma mailbox_wait_confirmed:
  assumes "mailbox_wait dev offset sequence candidate s = Some y" and "y = (Ok outcome, s')" and "leads_to dev start s"
    and "\<And>block. candidate = Some block \<Longrightarrow>
      \<exists>s1 s2. leads_to dev start s1 \<and> read_address dev offset 96 s1 = (Ok block, s2) \<and> s = pause dev s2"
  shows "confirmed_by dev offset sequence outcome start s'"
  using assms
proof (induction rule: mailbox_wait.raw_induct [rotated, consumes 1, case_names step])
  case (step loop dev offset sequence candidate s y)
  show ?case
  proof (cases "mailbox_poll dev offset sequence candidate s")
    case (Pair r s1)
    consider outcome' where "r = Ok (Confirmed outcome')" | candidate' where "r = Ok (Again candidate')"
      | "\<forall>q. r \<noteq> Ok q" by (metis mailbox_round.exhaust)
    then show ?thesis
    proof cases
      case 1
      with step(2,3) Pair have "mailbox_poll dev offset sequence candidate s = (Ok (Confirmed outcome), s')" by simp
      from mailbox_poll_Confirmed [OF this] step(5) show ?thesis unfolding confirmed_by_def by blast
    next
      case 2
      with step(2) Pair have "loop dev offset sequence candidate' s1 = Some y" by simp
      moreover have "leads_to dev start s1" using mailbox_poll_leads Pair 2 step(4) by (metis rtranclp_trans)
      moreover have "\<exists>s2 s3. leads_to dev start s2 \<and> read_address dev offset 96 s2 = (Ok block, s3) \<and> s1 = pause dev s3"
        if "candidate' = Some block" for block
        using mailbox_poll_Again [of dev offset sequence candidate s block s1] Pair 2 that step(4) by blast
      ultimately show ?thesis using step(1,3) by blast
    next
      case 3
      with step(2,3) Pair show ?thesis by (auto split: result.splits)
    qed
  qed
qed

lemma device_step_within [simp]: "device_step (within con limit start) = device_step (attached con)"
  by (intro ext) (simp add: device_step.simps)

lemma confirmed_within [simp]:
  "confirmed_by (within con limit start) offset sequence outcome s s' \<longleftrightarrow>
   confirmed_by (attached con) offset sequence outcome s s'"
  by (simp add: confirmed_by_def)

text \<open>What is done before the loop: one valid mailbox is read, and the request for the next number handed over at once.\<close>

definition submitted_by :: "'s device \<Rightarrow> u32 \<Rightarrow> nat \<Rightarrow> u8 \<Rightarrow> bytes \<Rightarrow> u32 \<Rightarrow> 's \<Rightarrow> 's \<Rightarrow> bool" where
  "submitted_by dev mailbox offset command arguments sequence s s' \<longleftrightarrow>
     (\<exists>initial writes payload s1 s2. connect dev s = (Ok (), s1) \<and> read_address dev offset 96 s1 = (Ok initial, s2) \<and>
        validate_mailbox initial = Ok () \<and> tool_read_u32 initial 12 = Ok (sequence - 1) \<and>
        mailbox_writes mailbox arguments command sequence = Ok writes \<and>
        build_wram_write_payload writes = Ok payload \<and>
        execute_address dev 0x3f0000 payload s2 = (Ok (), s'))"

lemma mailbox_submit_Ok:
  assumes "mailbox_submit dev labels command arguments s = (Ok (offset, sequence), s')"
  shows "\<exists>mailbox. label_at labels ''modemMailbox'' = Ok mailbox \<and> 0x7e0000 \<le> mailbox \<and> length arguments \<le> 32 \<and>
    offset = 0xf50000 + unat (mailbox - 0x7e0000) \<and> submitted_by dev mailbox offset command arguments sequence s s'"
  using assms
  by (auto simp: mailbox_submit_def submitted_by_def FXPAK_EXECUTION_SCRATCH_def and_then_st_eq_Ok wram_to_usb2snes_def abi
      split: if_splits)

text \<open>
  C21: the host reports a command as done only after the console has done it. If a mailbox command
  succeeds, then these steps were taken one after the other: a valid mailbox was read; the request, with a sequence number
  one above the one that this mailbox gave as processed, was built and handed to the console; after that, two
  reads in a row returned the same valid mailbox, in which that number is processed, the status is passed and
  the result is the one reported; and then the reported output was read from the mailbox.
\<close>

theorem mailbox_success_confirmed:
  assumes "mailbox_command con labels command arguments timeout s = Some (Ok mo, s')"
  shows "\<exists>mailbox offset. label_at labels ''modemMailbox'' = Ok mailbox \<and> 0x7e0000 \<le> mailbox \<and> length arguments \<le> 32 \<and>
    offset = 0xf50000 + unat (mailbox - 0x7e0000) \<and>
    (\<exists>s1 s2. submitted_by (attached con) mailbox offset command arguments (mo_sequence mo) s s1 \<and>
       confirmed_by (attached con) offset (mo_sequence mo) (mo_result mo) s1 s2 \<and>
       read_stable_mailbox_output con offset s2 = Some (Ok (mo_output mo), s'))"
proof -
  from assms obtain offset sequence s1
    where submit: "mailbox_submit (attached con) labels command arguments s = (Ok (offset, sequence), s1)"
    by (auto simp: mailbox_command_def split: prod.splits result.splits)
  with assms obtain outcome s2 where wait: "mailbox_wait (within con timeout s1) offset sequence None s1 = Some (Ok outcome, s2)"
    by (auto simp: mailbox_command_def split: prod.splits result.splits option.splits)
  have mo: "mo_sequence mo = sequence" "mo_result mo = outcome"
    "read_stable_mailbox_output con offset s2 = Some (Ok (mo_output mo), s')"
    using assms submit wait
    by (auto simp: mailbox_command_def and_then_eq_Ok split: prod.splits result.splits option.splits)
  from mailbox_wait_confirmed [OF wait refl, of s1] have "confirmed_by (attached con) offset sequence outcome s1 s2" by simp
  with mailbox_submit_Ok [OF submit] mo show ?thesis by blast
qed

text \<open>A console that has processed the first command by the time of the second read.\<close>

definition example_mailbox :: "nat \<Rightarrow> bytes" where
  "example_mailbox s = [78, 68, 77, 67, 10, 0, 96, 0, 0, 0, 0, 0, if s = 0 then 0 else 1, 0, 0, 0, 1, 3, 0, 0] @ replicate 76 0"

definition example_console :: "nat console" where
  "example_console = \<lparr>attached = \<lparr>read_address = (\<lambda>offset n s. (Ok (take n (drop (offset - 0xf51000) (example_mailbox s))), Suc s)),
     expired = (\<lambda>s. False), pause = Suc, connect = (\<lambda>s. (Ok (), s)),
     execute_address = (\<lambda>offset payload s. (Ok (), Suc s))\<rparr>, elapsed = (\<lambda>s t. t - s)\<rparr>"

abbreviation example_labels :: label_table where "example_labels \<equiv> Ok [''modemMailbox'' \<mapsto> 0x7e1000]"

lemma example_fields:
  "length (example_mailbox s) = 96" "validate_mailbox (example_mailbox s) = Ok ()"
  "tool_read_u32 (example_mailbox s) 12 = Ok (if s = 0 then 0 else 1)" "tool_read_u16 (example_mailbox s) 18 = Ok 0"
  "octet_at (example_mailbox s) 17 = Ok 3"
  by (simp_all add: example_mailbox_def validate_mailbox_def tool_read_u16_def tool_read_u32_def get_range_def
      index_range_def octets4_at_def from_le32_def from_be32_def from_be16_def octet_at_def abi)

lemma example_request:
  "\<exists>writes payload. mailbox_writes 0x7e1000 [] 1 1 = Ok writes \<and> build_wram_write_payload writes = Ok payload"
proof -
  obtain writes where w: "mailbox_writes 0x7e1000 [] 1 1 = Ok writes" "writes \<noteq> []" "length writes \<le> 41"
    "(\<lambda>w. unat (fst w)) ` set writes = {unat (0x7e1000 :: u32) + 20 ..< unat (0x7e1000 :: u32) + 20 + length ([] :: bytes)} \<union>
       {unat (0x7e1000 :: u32) + 16} \<union> {unat (0x7e1000 :: u32) + 8 ..< unat (0x7e1000 :: u32) + 12}"
    by (rule mailbox_writes_effect [of "0x7e1000" "[]" 1 1]) simp_all
  with mailbox_payload_builds(1) [of "0x7e1000" "[]" writes] show ?thesis by auto
qed

lemma example_runs:
  "\<exists>mo s'. mailbox_command example_console example_labels 1 [] 10 0 = Some (Ok mo, s')"
proof -
  from example_request obtain writes payload where w: "mailbox_writes 0x7e1000 [] 1 1 = Ok writes"
    "build_wram_write_payload writes = Ok payload" by blast
  have read: "read_address (attached example_console) 0xf51000 96 s = (Ok (example_mailbox s), Suc s)" for s
    by (simp add: example_console_def example_fields)
  have out: "read_address (attached example_console) 0xf51034 32 s = (Ok (replicate 32 0), Suc s)" for s
    by (simp add: example_console_def example_mailbox_def)
  have dev: "pause (attached example_console) = Suc" "elapsed example_console s t = t - s" "connect (attached example_console) s = (Ok (), s)"
    "execute_address (attached example_console) offset payload s = (Ok (), Suc s)" for s t offset payload
    by (simp_all add: example_console_def)
  have submit: "mailbox_submit (attached example_console) example_labels 1 [] 0 = (Ok (0xf51000, 1), 2)"
    using w by (simp add: mailbox_submit_def label_at_def wram_to_usb2snes_def read dev example_fields abi)
  have same: "example_mailbox 4 = example_mailbox 2" by (simp add: example_mailbox_def)
  have poll: "mailbox_poll (within example_console 10 2) 0xf51000 1 None 2 = (Ok (Again (Some (example_mailbox 2))), 4)"
    "mailbox_poll (within example_console 10 2) 0xf51000 1 (Some (example_mailbox 2)) 4 = (Ok (Confirmed 0), 5)"
    by (simp_all add: mailbox_poll_def read dev example_fields abi same)
  have wait: "mailbox_wait (within example_console 10 2) 0xf51000 1 None 2 = Some (Ok 0, 5)"
    by (subst mailbox_wait.simps, simp add: poll, subst mailbox_wait.simps, simp add: poll)
  have "read_stable_mailbox_output example_console 0xf51000 5 = Some (Ok (replicate 32 0), 8)"
    unfolding read_stable_mailbox_output_def
    by (subst read_output_loop.simps) (simp add: output_attempt_def out dev abi)
  with submit wait show ?thesis by (simp add: mailbox_command_def dev abi)
qed

theorem mailbox_success_confirmed_witness:
  "\<exists>mo s1 s2 s'. mailbox_command example_console example_labels 1 [] 10 0 = Some (Ok mo, s') \<and>
     submitted_by (attached example_console) 0x7e1000 0xf51000 1 [] (mo_sequence mo) 0 s1 \<and>
     confirmed_by (attached example_console) 0xf51000 (mo_sequence mo) (mo_result mo) s1 s2"
proof -
  from example_runs obtain mo s' where m: "mailbox_command example_console example_labels 1 [] 10 0 = Some (Ok mo, s')" by blast
  from mailbox_success_confirmed [OF this] m show ?thesis by (auto simp: label_at_def)
qed

end
