(* ===== verification/Lint_Text.thy ===== *)
theory Lint_Text
  imports Prelude
begin

text \<open>
  The text helpers of \<^verbatim>\<open>xtask/src/asm_lint.rs\<close>: comments, labels, operands and number literals of
  a line of assembly.

  A \<^verbatim>\<open>&str\<close> is a \<open>string\<close>, the list of its characters; the characters are those of HOL, the code
  points below 256. The first section models what the linter uses of Rust's \<^verbatim>\<open>str\<close> and \<^verbatim>\<open>char\<close>
  (for these code points \<open>is_whitespace\<close> is exactly \<^verbatim>\<open>char::is_whitespace\<close>); \<^verbatim>\<open>usize\<close> has 64 bits
  where a literal is parsed.
\<close>

section \<open>Strings of the standard library\<close>

definition is_whitespace :: "char \<Rightarrow> bool" where
  "is_whitespace c =
    (let n = (of_char c :: nat) in (9 \<le> n \<and> n \<le> 13) \<or> n = 32 \<or> n = 0x85 \<or> n = 0xA0)"

definition is_ascii_alphanumeric :: "char \<Rightarrow> bool" where
  "is_ascii_alphanumeric c =
    (let n = (of_char c :: nat) in (48 \<le> n \<and> n \<le> 57) \<or> (65 \<le> n \<and> n \<le> 90) \<or> (97 \<le> n \<and> n \<le> 122))"

definition ascii_lower :: "char \<Rightarrow> char" where
  "ascii_lower c = (let n = (of_char c :: nat) in if 65 \<le> n \<and> n \<le> 90 then char_of (n + 32) else c)"

definition ascii_upper :: "char \<Rightarrow> char" where
  "ascii_upper c = (let n = (of_char c :: nat) in if 97 \<le> n \<and> n \<le> 122 then char_of (n - 32) else c)"

definition to_ascii_lowercase :: "string \<Rightarrow> string" where
  "to_ascii_lowercase s = map ascii_lower s"

definition to_ascii_uppercase :: "string \<Rightarrow> string" where
  "to_ascii_uppercase s = map ascii_upper s"

definition trim_start :: "string \<Rightarrow> string" where
  "trim_start s = dropWhile is_whitespace s"

definition trim_end :: "string \<Rightarrow> string" where
  "trim_end s = rev (dropWhile is_whitespace (rev s))"

definition trim :: "string \<Rightarrow> string" where
  "trim s = trim_end (trim_start s)"

definition starts_with :: "string \<Rightarrow> string \<Rightarrow> bool" where
  "starts_with p s = (take (length p) s = p)"

definition strip_prefix :: "string \<Rightarrow> string \<Rightarrow> string option" where
  "strip_prefix p s = (if starts_with p s then Some (drop (length p) s) else None)"

definition ends_with :: "char \<Rightarrow> string \<Rightarrow> bool" where
  "ends_with c s = (s \<noteq> [] \<and> last s = c)"

definition strip_suffix :: "char \<Rightarrow> string \<Rightarrow> string option" where
  "strip_suffix c s = (if ends_with c s then Some (butlast s) else None)"

text \<open>\<^verbatim>\<open>split_once\<close> with a predicate on characters: the text before and after the first match.\<close>

definition split_once :: "(char \<Rightarrow> bool) \<Rightarrow> string \<Rightarrow> (string \<times> string) option" where
  "split_once p s =
    (case dropWhile (\<lambda>c. \<not> p c) s of
       [] \<Rightarrow> None
     | _ # rest \<Rightarrow> Some (takeWhile (\<lambda>c. \<not> p c) s, rest))"

text \<open>\<^verbatim>\<open>split_whitespace().next()\<close>.\<close>

definition first_word :: "string \<Rightarrow> string option" where
  "first_word s =
    (let t = trim_start s in if t = [] then None else Some (takeWhile (\<lambda>c. \<not> is_whitespace c) t))"

lemma split_once_Some:
  assumes "split_once p s = Some (before, after)"
  shows "\<exists>c. p c \<and> s = before @ c # after \<and> (\<forall>d \<in> set before. \<not> p d)"
proof -
  obtain c where drop: "dropWhile (\<lambda>c. \<not> p c) s = c # after"
    and before: "before = takeWhile (\<lambda>c. \<not> p c) s"
    using assms by (auto simp: split_once_def split: list.splits)
  have "s = before @ c # after"
    using takeWhile_dropWhile_id [of "\<lambda>c. \<not> p c" s] unfolding drop before by simp
  moreover have "p c" using hd_dropWhile [of "\<lambda>c. \<not> p c" s] unfolding drop by simp
  moreover have "\<forall>d \<in> set before. \<not> p d" unfolding before by (auto dest: set_takeWhileD)
  ultimately show ?thesis by blast
qed

lemma split_once_None: "split_once p s = None \<longleftrightarrow> (\<forall>d \<in> set s. \<not> p d)"
proof -
  have "split_once p s = None \<longleftrightarrow> dropWhile (\<lambda>c. \<not> p c) s = []"
    by (cases "dropWhile (\<lambda>c. \<not> p c) s") (simp_all add: split_once_def del: dropWhile_eq_Nil_conv)
  then show ?thesis by (simp add: dropWhile_eq_Nil_conv)
qed

text \<open>\<^verbatim>\<open>str::lines\<close>: a line ends at a line feed, with an optional carriage return before it.\<close>

definition line_feed :: char where "line_feed = CHR 0x0A"
definition carriage_return :: char where "carriage_return = CHR 0x0D"

definition strip_return :: "string \<Rightarrow> string" where
  "strip_return line = (case strip_suffix carriage_return line of Some l \<Rightarrow> l | None \<Rightarrow> line)"

function text_lines :: "string \<Rightarrow> string list" where
  "text_lines s =
    (if s = [] then []
     else (case split_once (\<lambda>c. c = line_feed) s of
         None \<Rightarrow> [s]
       | Some (line, rest) \<Rightarrow> strip_return line # text_lines rest))"
  by pat_completeness auto
termination
  by (relation "measure length") (auto dest: split_once_Some)

declare text_lines.simps [simp del]

text \<open>
  \<^verbatim>\<open>from_str_radix\<close> of an unsigned type whose values are below \<open>limit\<close>: an optional plus sign and at
  least one digit; a value that does not fit is refused.
\<close>

definition to_digit :: "nat \<Rightarrow> char \<Rightarrow> nat option" where
  "to_digit radix c =
    (let n = of_char c;
       d = (if 48 \<le> n \<and> n \<le> 57 then n - 48 else if 97 \<le> n \<and> n \<le> 122 then n - 87
            else if 65 \<le> n \<and> n \<le> 90 then n - 55 else radix)
     in if d < radix then Some d else None)"

fun digits_value :: "nat \<Rightarrow> nat \<Rightarrow> nat \<Rightarrow> string \<Rightarrow> nat option" where
  "digits_value radix limit acc [] = Some acc"
| "digits_value radix limit acc (c # cs) =
    (case to_digit radix c of
       None \<Rightarrow> None
     | Some d \<Rightarrow>
         if acc * radix + d < limit then digits_value radix limit (acc * radix + d) cs else None)"

definition from_str_radix :: "nat \<Rightarrow> nat \<Rightarrow> string \<Rightarrow> nat option" where
  "from_str_radix radix limit s =
    (case s of
       [] \<Rightarrow> None
     | c # cs \<Rightarrow>
         if c = CHR ''+'' then (if cs = [] then None else digits_value radix limit 0 cs)
         else digits_value radix limit 0 s)"

lemma digits_value_bound:
  "acc < limit \<Longrightarrow> digits_value radix limit acc s = Some n \<Longrightarrow> n < limit"
  by (induction s arbitrary: acc) (auto split: option.splits if_splits)

lemma from_str_radix_bound: "0 < limit \<Longrightarrow> from_str_radix radix limit s = Some n \<Longrightarrow> n < limit"
  by (auto simp del: digits_value.simps simp: from_str_radix_def
      split: list.splits if_splits dest: digits_value_bound)

section \<open>Lines of assembly\<close>

definition strip_comment :: "string \<Rightarrow> string" where
  "strip_comment line =
    (case split_once (\<lambda>c. c = CHR '';'') line of None \<Rightarrow> line | Some (code, _) \<Rightarrow> code)"

definition is_label :: "string \<Rightarrow> bool" where
  "is_label code = ends_with (CHR '':'') code"

definition split_statement :: "string \<Rightarrow> string \<times> string" where
  "split_statement code =
    (let code = trim code
     in if is_label code then (code, [])
        else (case split_once is_whitespace code of
            None \<Rightarrow> (code, [])
          | Some (mnemonic, operand) \<Rightarrow> (mnemonic, trim operand)))"

definition label_name :: "string \<Rightarrow> string option" where
  "label_name code = strip_suffix (CHR '':'') (trim code)"

definition normalize_target :: "string \<Rightarrow> string" where
  "normalize_target operand =
    trim (case split_once (\<lambda>c. c = CHR '','') operand of None \<Rightarrow> operand | Some (target, _) \<Rightarrow> target)"

section \<open>Literals\<close>

definition parse_immediate :: "string \<Rightarrow> u8 option" where
  "parse_immediate operand =
    (case strip_prefix ''#'' (trim operand) of
       None \<Rightarrow> None
     | Some rest \<Rightarrow>
         (let value = trim rest
          in map_option of_nat
              (case strip_prefix ''$'' value of
                 Some hex \<Rightarrow> from_str_radix 16 256 hex
               | None \<Rightarrow> from_str_radix 10 256 value)))"

definition parse_usize_literal :: "string \<Rightarrow> nat option" where
  "parse_usize_literal value =
    (case strip_prefix ''$'' value of
       Some hex \<Rightarrow> from_str_radix 16 (2 ^ 64) hex
     | None \<Rightarrow>
         (case strip_prefix ''0x'' value of
            Some hex \<Rightarrow> from_str_radix 16 (2 ^ 64) hex
          | None \<Rightarrow> from_str_radix 10 (2 ^ 64) value))"

section \<open>Operands\<close>

definition accumulator_immediate :: "string \<Rightarrow> string \<Rightarrow> bool" where
  "accumulator_immediate mnemonic operand =
    (starts_with ''#'' (trim_start operand) \<and>
     mnemonic \<in> {''adc'', ''and'', ''bit'', ''cmp'', ''eor'', ''lda'', ''ora'', ''sbc''})"

definition index_immediate :: "string \<Rightarrow> string \<Rightarrow> bool" where
  "index_immediate mnemonic operand =
    (starts_with ''#'' (trim_start operand) \<and> mnemonic \<in> {''cpx'', ''cpy'', ''ldx'', ''ldy''})"

definition is_terminal_return_macro :: "string \<Rightarrow> bool" where
  "is_terminal_return_macro mnemonic =
    (mnemonic \<in> {''pppicmpreceiveerror'', ''pppipcpreturnerror'', ''pppipv4receiveerror'',
       ''ppppapreturnerror'', ''pppudpreceiveerror''})"

definition symbol_character :: "char \<Rightarrow> bool" where
  "symbol_character c = (c = CHR ''_'' \<or> is_ascii_alphanumeric c)"

definition allocation_operand :: "string \<Rightarrow> (string \<times> nat) option" where
  "allocation_operand operand =
    (let operand = normalize_target operand
     in if operand = [] \<or> starts_with ''#'' operand \<or> starts_with ''('' operand
           \<or> starts_with ''['' operand then None
        else
          (let operand = trim (case strip_prefix ''f:'' operand of
                 Some rest \<Rightarrow> rest
               | None \<Rightarrow> (case strip_prefix ''a:'' operand of Some rest \<Rightarrow> rest | None \<Rightarrow> operand));
             (symbol, offset) =
               (case split_once (\<lambda>c. c = CHR ''+'') operand of
                  None \<Rightarrow> (operand, 0)
                | Some (symbol, offset) \<Rightarrow>
                    (trim symbol,
                     case parse_usize_literal (trim offset) of Some n \<Rightarrow> n | None \<Rightarrow> 0))
           in if symbol = [] \<or> \<not> list_all symbol_character symbol then None
              else Some (symbol, offset)))"

section \<open>Facts\<close>

lemma label_mnemonic: "is_label (trim code) \<Longrightarrow> fst (split_statement code) = trim code"
  by (simp add: split_statement_def)

lemma trim_end_last: "trim_end s \<noteq> [] \<Longrightarrow> \<not> is_whitespace (last (trim_end s))"
  unfolding trim_end_def
  by (metis hd_dropWhile last_rev rev_is_Nil_conv)

lemma trim_start_trimmed: "s = [] \<or> \<not> is_whitespace (hd s) \<Longrightarrow> trim_start s = s"
  by (cases s) (auto simp: trim_start_def)

lemma trim_end_trimmed: "s = [] \<or> \<not> is_whitespace (last s) \<Longrightarrow> trim_end s = s"
  by (cases s rule: rev_cases) (auto simp: trim_end_def)

lemma hd_trim_end: "trim_end s \<noteq> [] \<Longrightarrow> hd (trim_end s) = hd s"
proof -
  assume ne: "trim_end s \<noteq> []"
  have "s = trim_end s @ rev (takeWhile is_whitespace (rev s))"
    unfolding trim_end_def by (metis rev_append rev_rev_ident takeWhile_dropWhile_id)
  then show ?thesis using ne by (metis hd_append2)
qed

lemma trim_idem [simp]: "trim (trim s) = trim s"
proof (cases "trim s = []")
  case True
  have "trim [] = []" by (simp add: trim_def trim_start_def trim_end_def)
  then show ?thesis by (simp only: True)
next
  case False
  then have "trim_start s \<noteq> []" by (auto simp: trim_def trim_end_def)
  then have "\<not> is_whitespace (hd (trim_start s))" unfolding trim_start_def by (rule hd_dropWhile)
  with False have "\<not> is_whitespace (hd (trim s))" by (simp add: trim_def hd_trim_end)
  then have "trim_start (trim s) = trim s" by (simp add: trim_start_trimmed)
  moreover have "trim_end (trim s) = trim s"
    using False by (intro trim_end_trimmed disjI2) (simp add: trim_def trim_end_last)
  ultimately show ?thesis by (simp add: trim_def [of "trim s"])
qed

lemma text_lines_join:
  assumes "\<forall>l \<in> set ls. line_feed \<notin> set l \<and> \<not> ends_with carriage_return l"
  shows "text_lines (concat (map (\<lambda>l. l @ [line_feed]) ls)) = ls"
  using assms
proof (induction ls)
  case Nil
  then show ?case by (simp add: text_lines.simps)
next
  case (Cons l ls)
  have no_feed: "\<forall>c \<in> set l. c \<noteq> line_feed" using Cons.prems by auto
  then have "split_once (\<lambda>c. c = line_feed) (l @ line_feed # concat (map (\<lambda>l. l @ [line_feed]) ls))
      = Some (l, concat (map (\<lambda>l. l @ [line_feed]) ls))"
    by (simp add: split_once_def dropWhile_append2 takeWhile_append2)
  moreover have "strip_return l = l"
    using Cons.prems by (simp add: strip_return_def strip_suffix_def)
  ultimately show ?case using Cons by (subst text_lines.simps) simp
qed

end
