(* ===== verification/Lint_Source.thy ===== *)
theory Lint_Source
  imports Lint_Text "HOL-Library.Sublist"
begin

text \<open>
  The data of \<^verbatim>\<open>xtask/src/asm_lint.rs\<close> and its parser: which lines a build profile keeps
  (\<open>active_lines\<close>), the storage a source allocates (\<open>collect_source_allocations\<close>) and the
  procedures it declares, statement by statement, with the widths the assembler assumes there
  (\<open>parse_procedures\<close>).

  A path is the list of its components, so that \<^verbatim>\<open>Path::ends_with\<close> is \<open>suffix\<close>. A \<^verbatim>\<open>Vec\<close> used as a
  stack is a list whose head is the top. The set of diagnostics the linter passes by \<^verbatim>\<open>&mut\<close> is an
  argument and part of the result; a message is a constructor for each of its format strings,
  applied to what the string shows.
\<close>

section \<open>Data\<close>

datatype profile = Normal_Profile | Smoke_Profile | Font_Test_Profile

definition all_profiles :: "profile list" where
  "all_profiles = [Normal_Profile, Smoke_Profile, Font_Test_Profile]"

fun profile_name :: "profile \<Rightarrow> string" where
  "profile_name Normal_Profile = ''normal''"
| "profile_name Smoke_Profile = ''smoke''"
| "profile_name Font_Test_Profile = ''font-test''"

fun profile_defines :: "profile \<Rightarrow> string set" where
  "profile_defines Normal_Profile = {}"
| "profile_defines Smoke_Profile = {''MODEM_SMOKE_TEST''}"
| "profile_defines Font_Test_Profile = {''MODEM_FONT_TEST''}"

datatype width = Eight | Sixteen

fun width_bits :: "width \<Rightarrow> nat" where
  "width_bits Eight = 8"
| "width_bits Sixteen = 16"

datatype stack_item =
    Item_A width
  | Item_X width
  | Item_Y width
  | Saved_Status width width
  | Saved_Bank
  | Saved_Direct_Page
  | Raw_Byte
  | Raw_Word

record call_frame =
  frame_return_index :: nat
  frame_stack :: "stack_item list"

record runtime_state =
  run_a :: width
  run_i :: width
  run_stack :: "stack_item list"
  run_calls :: "call_frame list"

record abi =
  abi_a :: width
  abi_i :: width

datatype procedure_kind = Ordinary | Interrupt

type_synonym path = "string list"

record location =
  loc_path :: path
  loc_line :: nat

record statement =
  stmt_location :: location
  stmt_text :: string
  mnemonic :: string
  operand :: string
  asm_a :: "width option"
  asm_i :: "width option"

record procedure =
  proc_name :: string
  proc_location :: location
  proc_statements :: "statement list"
  proc_abi :: "abi option"
  proc_kind :: procedure_kind

record allocation =
  alloc_size :: nat

datatype lint_message =
    Nested_Proc
  | Missing_Entry_Widths
  | Interrupt_Entry_Not_First
  | Bare_Accumulator_Directive
  | Bare_Index_Directive
  | Bare_Status_Instruction string
  | Local_Return_Unbalanced "stack_item list" "stack_item list"
  | Interrupt_Returns_With_Rts
  | Return_Leaves_Items "stack_item list"
  | Return_Widths width width width width
  | Rti_Outside_Interrupt
  | Rti_In_Local_Subroutine
  | Interrupt_Return_Leaves_Items "stack_item list"
  | Incompatible_Merge "width \<times> width \<times> stack_item list" "width \<times> width \<times> stack_item list"
  | Accumulator_Immediate string nat nat
  | Index_Immediate string nat nat
  | Call_Widths string width width width width
  | Access_Exceeds_Allocation string nat string nat nat
  | Plp_Mismatch "stack_item option"
  | Width_Assert width width width width
  | Status_Restore width width "stack_item option"
  | Pop_Expected stack_item "stack_item option"
  | Pop_Accumulator width "stack_item option"
  | Pop_Bank "stack_item option"
  | Pop_Direct_Page "stack_item option"

record lint_diagnostic =
  diag_path :: path
  diag_line :: nat
  diag_column :: nat
  diag_profile :: string
  diag_message :: lint_message

definition lint_diagnostic_new :: "location \<Rightarrow> profile \<Rightarrow> lint_message \<Rightarrow> lint_diagnostic" where
  "lint_diagnostic_new location profile message =
    \<lparr>diag_path = loc_path location, diag_line = loc_line location, diag_column = 1,
     diag_profile = profile_name profile, diag_message = message\<rparr>"

type_synonym diagnostics = "lint_diagnostic set"

text \<open>\<^verbatim>\<open>diagnostics.insert(Diagnostic::new(...))\<close>, on its own and under a condition.\<close>

abbreviation report ::
  "location \<Rightarrow> profile \<Rightarrow> lint_message \<Rightarrow> diagnostics \<Rightarrow> diagnostics" where
  "report location profile message ds \<equiv> insert (lint_diagnostic_new location profile message) ds"

definition report_if ::
  "bool \<Rightarrow> location \<Rightarrow> profile \<Rightarrow> lint_message \<Rightarrow> diagnostics \<Rightarrow> diagnostics" where
  "report_if c location profile message ds = (if c then report location profile message ds else ds)"

lemma report_if_empty [simp]:
  "report_if c location profile message ds = {} \<longleftrightarrow> \<not> c \<and> ds = {}"
  by (auto simp: report_if_def)

lemma report_if_mono: "ds \<subseteq> report_if c location profile message ds"
  by (auto simp: report_if_def)

section \<open>Conditional assembly\<close>

record conditional =
  parent_active :: bool
  condition :: bool
  in_else :: bool

fun active_flags :: "string set \<Rightarrow> conditional list \<Rightarrow> bool \<Rightarrow> string list \<Rightarrow> bool list" where
  "active_flags defines stack active [] = []"
| "active_flags defines stack active (line # lines) =
    (let code = trim (strip_comment line)
     in case map_option trim (strip_prefix ''.ifdef '' code) of
          Some symbol \<Rightarrow>
            (let condition = symbol \<in> defines
             in False # active_flags defines
                  (\<lparr>parent_active = active, condition = condition, in_else = False\<rparr> # stack)
                  (active \<and> condition) lines)
        | None \<Rightarrow>
          (case map_option trim (strip_prefix ''.ifndef '' code) of
             Some symbol \<Rightarrow>
               (let condition = symbol \<notin> defines
                in False # active_flags defines
                     (\<lparr>parent_active = active, condition = condition, in_else = False\<rparr> # stack)
                     (active \<and> condition) lines)
           | None \<Rightarrow>
               if code = ''.else'' then
                 (case stack of
                    [] \<Rightarrow> False # active_flags defines stack active lines
                  | conditional # outer \<Rightarrow>
                      False # active_flags defines (conditional\<lparr>in_else := True\<rparr> # outer)
                        (parent_active conditional \<and> \<not> condition conditional) lines)
               else if code = ''.endif'' then
                 (case stack of
                    [] \<Rightarrow> False # active_flags defines stack active lines
                  | conditional # outer \<Rightarrow>
                      False # active_flags defines outer (parent_active conditional) lines)
               else active # active_flags defines stack active lines))"

definition active_lines :: "string \<Rightarrow> profile \<Rightarrow> bool list" where
  "active_lines source profile = active_flags (profile_defines profile) [] True (text_lines source)"

lemma length_active_flags [simp]: "length (active_flags defines stack active lines) = length lines"
  by (induction lines arbitrary: stack active) (auto simp: Let_def split: option.split list.split)

section \<open>Allocations\<close>

definition source_allocation :: "string \<Rightarrow> (string \<times> allocation) option" where
  "source_allocation line =
    (case split_once (\<lambda>c. c = CHR '':'') (trim (strip_comment line)) of
       None \<Rightarrow> None
     | Some (name, declaration) \<Rightarrow>
         (let name = trim name
          in if name = [] \<or> \<not> list_all symbol_character name then None
             else
               (case strip_prefix ''.res '' (trim declaration) of
                  None \<Rightarrow> None
                | Some value \<Rightarrow>
                    (case first_word value of
                       None \<Rightarrow> None
                     | Some word \<Rightarrow>
                         map_option (\<lambda>n. (name, \<lparr>alloc_size = n\<rparr>)) (parse_usize_literal word)))))"

definition add_allocation ::
  "string \<Rightarrow> (string \<rightharpoonup> allocation) \<Rightarrow> (string \<rightharpoonup> allocation)" where
  "add_allocation line allocations =
    (case source_allocation line of
       None \<Rightarrow> allocations
     | Some (name, a) \<Rightarrow> allocations(name \<mapsto> a))"

definition collect_source_allocations ::
  "string \<Rightarrow> (string \<rightharpoonup> allocation) \<Rightarrow> (string \<rightharpoonup> allocation)" where
  "collect_source_allocations source allocations =
    fold add_allocation (text_lines source) allocations"

section \<open>Procedures\<close>

record lint_options =
  enforce_policy :: bool

definition accumulator_directive :: "string \<Rightarrow> width option" where
  "accumulator_directive mnem =
    (if mnem = ''.a8'' then Some Eight else if mnem = ''.a16'' then Some Sixteen else None)"

definition index_directive :: "string \<Rightarrow> width option" where
  "index_directive mnem =
    (if mnem = ''.i8'' then Some Eight else if mnem = ''.i16'' then Some Sixteen else None)"

text \<open>The widths the assembler assumes after a macro, as \<open>parse_procedures\<close> tracks them.\<close>

definition macro_asm_a :: "string \<Rightarrow> width option \<Rightarrow> width option" where
  "macro_asm_a lower a =
    (if lower \<in> {''m8'', ''mi8'', ''enternativem8i16'', ''assert_m8_i8'', ''assert_m8_i16''} then Some Eight
     else if lower \<in> {''m16'', ''pppipv4entera16'', ''pppudpentera16'', ''mi16'', ''assert_m16_i8'',
         ''assert_m16_i16''} then Some Sixteen
     else a)"

definition macro_asm_i :: "string \<Rightarrow> width option \<Rightarrow> width option" where
  "macro_asm_i lower i =
    (if lower \<in> {''i8'', ''mi8'', ''assert_m8_i8'', ''assert_m16_i8''} then Some Eight
     else if lower \<in> {''i16'', ''mi16'', ''enternativem8i16'', ''assert_m8_i16'', ''assert_m16_i16''}
       then Some Sixteen
     else i)"

record parse_state =
  parsed :: "procedure list"
  current :: "procedure option"
  par_asm_a :: "width option"
  par_asm_i :: "width option"
  entry_a :: "width option"
  entry_i :: "width option"
  seen_body :: bool
  par_diagnostics :: diagnostics

definition begin_procedure ::
  "profile \<Rightarrow> location \<Rightarrow> string \<Rightarrow> parse_state \<Rightarrow> parse_state" where
  "begin_procedure profile loc name st =
    (if current st \<noteq> None then
       st\<lparr>par_diagnostics := report loc profile Nested_Proc (par_diagnostics st)\<rparr>
     else
       st\<lparr>current := Some \<lparr>proc_name = name, proc_location = loc, proc_statements = [],
            proc_abi = None, proc_kind = Ordinary\<rparr>,
          par_asm_a := None, par_asm_i := None, entry_a := None, entry_i := None,
          seen_body := False\<rparr>)"

definition end_procedure :: "profile \<Rightarrow> parse_state \<Rightarrow> parse_state" where
  "end_procedure profile st =
    (case current st of
       None \<Rightarrow> st
     | Some p \<Rightarrow>
         (if proc_kind p = Ordinary then
            (case (entry_a st, entry_i st) of
               (Some a, Some i) \<Rightarrow>
                 st\<lparr>current := None,
                    parsed := parsed st @ [p\<lparr>proc_abi := Some \<lparr>abi_a = a, abi_i = i\<rparr>\<rparr>]\<rparr>
             | _ \<Rightarrow>
                 st\<lparr>current := None, parsed := parsed st @ [p\<lparr>proc_abi := None\<rparr>],
                    par_diagnostics :=
                      report (proc_location p) profile Missing_Entry_Widths (par_diagnostics st)\<rparr>)
          else st\<lparr>current := None, parsed := parsed st @ [p]\<rparr>))"

definition utility_path :: path where
  "utility_path = [''macro'', ''utility.asm'']"

text \<open>The directives at the start of a procedure, which set its ABI and its kind.\<close>

definition parse_directive ::
  "lint_options \<Rightarrow> profile \<Rightarrow> location \<Rightarrow> string \<Rightarrow> string \<Rightarrow> procedure \<Rightarrow> parse_state
    \<Rightarrow> procedure \<times> parse_state" where
  "parse_directive options profile loc code lower p st =
    (if lower = ''interrupt_entry'' then
       (p\<lparr>proc_kind := Interrupt\<rparr>,
        st\<lparr>par_diagnostics :=
             report_if (seen_body st \<or> entry_a st \<noteq> None \<or> entry_i st \<noteq> None) loc profile
               Interrupt_Entry_Not_First (par_diagnostics st)\<rparr>)
     else
       (case accumulator_directive lower of
          Some width \<Rightarrow>
            (p,
             if \<not> seen_body st \<and> entry_a st = None then
               st\<lparr>par_asm_a := Some width, entry_a := Some width\<rparr>
             else
               st\<lparr>par_asm_a := Some width,
                  par_diagnostics := report_if (enforce_policy options) loc profile
                    Bare_Accumulator_Directive (par_diagnostics st)\<rparr>)
        | None \<Rightarrow>
          (case index_directive lower of
             Some width \<Rightarrow>
               (p,
                if \<not> seen_body st \<and> entry_i st = None then
                  st\<lparr>par_asm_i := Some width, entry_i := Some width\<rparr>
                else
                  st\<lparr>par_asm_i := Some width,
                     par_diagnostics := report_if (enforce_policy options) loc profile
                       Bare_Index_Directive (par_diagnostics st)\<rparr>)
           | None \<Rightarrow>
               (p, if \<not> starts_with ''.'' lower \<and> \<not> is_label code then st\<lparr>seen_body := True\<rparr>
                   else st))))"

definition parse_statement ::
  "lint_options \<Rightarrow> profile \<Rightarrow> location \<Rightarrow> string \<Rightarrow> procedure \<Rightarrow> parse_state \<Rightarrow> parse_state" where
  "parse_statement options profile loc code p st =
    (let (mnem, oper) = split_statement code;
         lower = to_ascii_lowercase mnem;
         (p, st) = parse_directive options profile loc code lower p st;
         ds = report_if
                (enforce_policy options \<and> \<not> suffix utility_path (loc_path loc) \<and>
                 lower \<in> {''rep'', ''sep'', ''plp'', ''xce''})
                loc profile (Bare_Status_Instruction lower) (par_diagnostics st);
         s = \<lparr>stmt_location = loc, stmt_text = code, mnemonic = lower, operand = oper,
              asm_a = par_asm_a st, asm_i = par_asm_i st\<rparr>
     in st\<lparr>current := Some (p\<lparr>proc_statements := proc_statements p @ [s]\<rparr>),
           par_diagnostics := ds,
           par_asm_a := macro_asm_a lower (par_asm_a st),
           par_asm_i := macro_asm_i lower (par_asm_i st)\<rparr>)"

definition parse_line ::
  "lint_options \<Rightarrow> profile \<Rightarrow> path \<Rightarrow> nat \<times> bool \<times> string \<Rightarrow> parse_state \<Rightarrow> parse_state" where
  "parse_line options profile path indexed st =
    (case indexed of (line_index, active, original) \<Rightarrow>
      (let code = trim (strip_comment original);
           loc = \<lparr>loc_path = path, loc_line = line_index + 1\<rparr>
       in if \<not> active \<or> code = [] then st
          else
            (case map_option trim (strip_prefix ''.proc '' code) of
               Some name \<Rightarrow> begin_procedure profile loc name st
             | None \<Rightarrow>
                 if code = ''.endproc'' then end_procedure profile st
                 else
                   (case current st of
                      None \<Rightarrow> st
                    | Some p \<Rightarrow> parse_statement options profile loc code p st))))"

definition parse_start :: "diagnostics \<Rightarrow> parse_state" where
  "parse_start ds =
    \<lparr>parsed = [], current = None, par_asm_a = None, par_asm_i = None, entry_a = None,
     entry_i = None, seen_body = False, par_diagnostics = ds\<rparr>"

definition parse_procedures ::
  "path \<Rightarrow> string \<Rightarrow> profile \<Rightarrow> lint_options \<Rightarrow> diagnostics \<Rightarrow> procedure list \<times> diagnostics" where
  "parse_procedures path source profile options ds =
    (let st = fold (parse_line options profile path)
                (enumerate 0 (zip (active_lines source profile) (text_lines source)))
                (parse_start ds)
     in (parsed st, par_diagnostics st))"

end
