(* ===== verification/Lint_Transfer.thy ===== *)
theory Lint_Transfer
  imports Lint_Source
begin

text \<open>
  The abstract interpreter of \<^verbatim>\<open>xtask/src/asm_lint.rs\<close>: what one statement does to the runtime
  widths of the accumulator and the index registers and to the software stack (\<open>transfer\<close>), and
  what the linter checks of a statement in a state (\<open>validate_statement_width\<close>).
\<close>

section \<open>Width macros\<close>

definition set_a :: "width \<Rightarrow> runtime_state \<Rightarrow> runtime_state" where
  "set_a w s = s\<lparr>run_a := w\<rparr>"

definition set_i :: "width \<Rightarrow> runtime_state \<Rightarrow> runtime_state" where
  "set_i w s = s\<lparr>run_i := w\<rparr>"

definition normalize_at_entry :: "string \<Rightarrow> runtime_state \<Rightarrow> runtime_state" where
  "normalize_at_entry m s =
    (if m = ''m8'' then set_a Eight s
     else if m \<in> {''m16'', ''pppipv4entera16'', ''pppudpentera16''} then set_a Sixteen s
     else if m = ''i8'' then set_i Eight s
     else if m = ''i16'' then set_i Sixteen s
     else if m = ''mi8'' then set_a Eight (set_i Eight s)
     else if m = ''mi16'' then set_a Sixteen (set_i Sixteen s)
     else if m = ''enternativem8i16'' then set_a Eight (set_i Sixteen s)
     else s)"

section \<open>Validation\<close>

definition access_width :: "string \<Rightarrow> runtime_state \<Rightarrow> nat option" where
  "access_width m s =
    (if m \<in> {''adc'', ''and'', ''asl'', ''bit'', ''cmp'', ''dec'', ''eor'', ''inc'', ''lda'', ''lsr'', ''ora'',
        ''rol'', ''ror'', ''sbc'', ''sta'', ''stz'', ''trb'', ''tsb''} then Some (width_bits (run_a s) div 8)
     else if m \<in> {''cpx'', ''cpy'', ''ldx'', ''ldy'', ''stx'', ''sty''} then Some (width_bits (run_i s) div 8)
     else if m = ''inc32'' then Some 4
     else None)"

definition usize_saturating_add :: "nat \<Rightarrow> nat \<Rightarrow> nat" where
  "usize_saturating_add a b = min (a + b) (2 ^ 64 - 1)"

definition validate_memory_access ::
  "profile \<Rightarrow> statement \<Rightarrow> runtime_state \<Rightarrow> (string \<rightharpoonup> allocation) \<Rightarrow> diagnostics \<Rightarrow> diagnostics"
where
  "validate_memory_access profile st s allocations ds =
    (case access_width (mnemonic st) s of
       None \<Rightarrow> ds
     | Some width \<Rightarrow>
         (case allocation_operand (operand st) of
            None \<Rightarrow> ds
          | Some (symbol, offset) \<Rightarrow>
              (case allocations symbol of
                 None \<Rightarrow> ds
               | Some allocation \<Rightarrow>
                   report_if (\<not> usize_saturating_add offset width \<le> alloc_size allocation)
                     (stmt_location st) profile
                     (Access_Exceeds_Allocation (to_ascii_uppercase (mnemonic st)) width symbol
                       offset (alloc_size allocation)) ds)))"

definition encoded_bits :: "width option \<Rightarrow> nat" where
  "encoded_bits w = (case w of None \<Rightarrow> 0 | Some w \<Rightarrow> width_bits w)"

definition validate_call ::
  "profile \<Rightarrow> statement \<Rightarrow> runtime_state \<Rightarrow> (string \<rightharpoonup> abi) \<Rightarrow> diagnostics \<Rightarrow> diagnostics" where
  "validate_call profile st s abis ds =
    (let target = normalize_target (operand st)
     in if mnemonic st \<in> {''jsr'', ''jsl''} \<and> \<not> starts_with ''@'' target then
          (case abis target of
             None \<Rightarrow> ds
           | Some callee \<Rightarrow>
               report_if (abi_a callee \<noteq> run_a s \<or> abi_i callee \<noteq> run_i s) (stmt_location st)
                 profile (Call_Widths target (abi_a callee) (abi_i callee) (run_a s) (run_i s)) ds)
        else ds)"

definition validate_statement_width ::
  "profile \<Rightarrow> statement \<Rightarrow> runtime_state \<Rightarrow> (string \<rightharpoonup> abi) \<Rightarrow> (string \<rightharpoonup> allocation)
    \<Rightarrow> diagnostics \<Rightarrow> diagnostics" where
  "validate_statement_width profile st s abis allocations ds =
    (let upper = to_ascii_uppercase (mnemonic st);
         ds = report_if
                (accumulator_immediate (mnemonic st) (operand st) \<and> asm_a st \<noteq> Some (run_a s))
                (stmt_location st) profile
                (Accumulator_Immediate upper (encoded_bits (asm_a st)) (width_bits (run_a s))) ds;
         ds = report_if
                (index_immediate (mnemonic st) (operand st) \<and> asm_i st \<noteq> Some (run_i s))
                (stmt_location st) profile
                (Index_Immediate upper (encoded_bits (asm_i st)) (width_bits (run_i s))) ds;
         ds = validate_call profile st s abis ds
     in validate_memory_access profile st s allocations ds)"

section \<open>The effect of a statement\<close>

definition push_item :: "stack_item \<Rightarrow> runtime_state \<Rightarrow> runtime_state" where
  "push_item item s = s\<lparr>run_stack := item # run_stack s\<rparr>"

text \<open>\<^verbatim>\<open>Vec::pop\<close>: the top, if there is one, and the rest.\<close>

definition pop_item :: "runtime_state \<Rightarrow> stack_item option \<times> runtime_state" where
  "pop_item s =
    (case run_stack s of
       [] \<Rightarrow> (None, s)
     | item # rest \<Rightarrow> (Some item, s\<lparr>run_stack := rest\<rparr>))"

definition apply_status_immediate :: "string \<Rightarrow> string \<Rightarrow> runtime_state \<Rightarrow> runtime_state" where
  "apply_status_immediate m oper s =
    (case parse_immediate oper of
       None \<Rightarrow> s
     | Some value \<Rightarrow>
         (let w = (if m = ''sep'' then Eight else Sixteen);
              s = (if value AND 0x20 \<noteq> 0 then set_a w s else s)
          in if value AND 0x10 \<noteq> 0 then set_i w s else s))"

definition assert_state ::
  "profile \<Rightarrow> statement \<Rightarrow> runtime_state \<Rightarrow> width \<times> width \<Rightarrow> diagnostics \<Rightarrow> diagnostics" where
  "assert_state profile st s expected ds =
    report_if (run_a s \<noteq> fst expected \<or> run_i s \<noteq> snd expected) (stmt_location st) profile
      (Width_Assert (fst expected) (snd expected) (run_a s) (run_i s)) ds"

definition restore_status ::
  "profile \<Rightarrow> statement \<Rightarrow> runtime_state \<Rightarrow> width \<times> width \<Rightarrow> diagnostics
    \<Rightarrow> runtime_state \<times> diagnostics" where
  "restore_status profile st s expected ds =
    (let (actual, s) = pop_item s
     in if actual = Some (Saved_Status (fst expected) (snd expected))
        then (set_a (fst expected) (set_i (snd expected) s), ds)
        else (s, report (stmt_location st) profile
                (Status_Restore (fst expected) (snd expected) actual) ds))"

definition pull_status ::
  "profile \<Rightarrow> statement \<Rightarrow> runtime_state \<Rightarrow> diagnostics \<Rightarrow> runtime_state \<times> diagnostics" where
  "pull_status profile st s ds =
    (let (actual, s) = pop_item s
     in case actual of
          Some (Saved_Status a i) \<Rightarrow> (set_a a (set_i i s), ds)
        | _ \<Rightarrow> (s, report (stmt_location st) profile (Plp_Mismatch actual) ds))"

definition pop_expected ::
  "profile \<Rightarrow> statement \<Rightarrow> runtime_state \<Rightarrow> stack_item \<Rightarrow> diagnostics
    \<Rightarrow> runtime_state \<times> diagnostics" where
  "pop_expected profile st s expected ds =
    (let (actual, s) = pop_item s
     in (s, report_if (actual \<noteq> Some expected) (stmt_location st) profile
            (Pop_Expected expected actual) ds))"

definition accumulator_items :: "width \<Rightarrow> stack_item set" where
  "accumulator_items w = {Item_A w, (case w of Sixteen \<Rightarrow> Raw_Word | Eight \<Rightarrow> Raw_Byte)}"

definition pop_accumulator ::
  "profile \<Rightarrow> statement \<Rightarrow> runtime_state \<Rightarrow> width \<Rightarrow> diagnostics \<Rightarrow> runtime_state \<times> diagnostics"
where
  "pop_accumulator profile st s w ds =
    (let (actual, s) = pop_item s;
         valid = (case actual of None \<Rightarrow> False | Some item \<Rightarrow> item \<in> accumulator_items w)
     in (s, report_if (\<not> valid) (stmt_location st) profile (Pop_Accumulator w actual) ds))"

definition pop_bank ::
  "profile \<Rightarrow> statement \<Rightarrow> runtime_state \<Rightarrow> diagnostics \<Rightarrow> runtime_state \<times> diagnostics" where
  "pop_bank profile st s ds =
    (let (actual, s) = pop_item s
     in if actual \<in> {Some Saved_Bank, Some Raw_Byte} then (s, ds)
        else if actual = Some Raw_Word then (push_item Raw_Byte s, ds)
        else (s, report (stmt_location st) profile (Pop_Bank actual) ds))"

definition pop_direct_page ::
  "profile \<Rightarrow> statement \<Rightarrow> runtime_state \<Rightarrow> diagnostics \<Rightarrow> runtime_state \<times> diagnostics" where
  "pop_direct_page profile st s ds =
    (let (actual, s) = pop_item s
     in (s, report_if (actual \<notin> {Some Saved_Direct_Page, Some Raw_Word}) (stmt_location st) profile
            (Pop_Direct_Page actual) ds))"

text \<open>The widths named by \<^verbatim>\<open>assert_m8_i8\<close> and its kin, and by \<^verbatim>\<open>plp_m8_i8\<close> and its kin.\<close>

definition asserted_widths :: "string \<Rightarrow> (width \<times> width) option" where
  "asserted_widths m =
    (if m = ''assert_m8_i8'' then Some (Eight, Eight)
     else if m = ''assert_m8_i16'' then Some (Eight, Sixteen)
     else if m = ''assert_m16_i8'' then Some (Sixteen, Eight)
     else if m = ''assert_m16_i16'' then Some (Sixteen, Sixteen)
     else None)"

definition restored_widths :: "string \<Rightarrow> (width \<times> width) option" where
  "restored_widths m =
    (if m = ''plp_m8_i8'' then Some (Eight, Eight)
     else if m = ''plp_m8_i16'' then Some (Eight, Sixteen)
     else if m = ''plp_m16_i8'' then Some (Sixteen, Eight)
     else if m = ''plp_m16_i16'' then Some (Sixteen, Sixteen)
     else None)"

definition width_macros :: "string set" where
  "width_macros = {''m8'', ''m16'', ''pppipv4entera16'', ''pppudpentera16'', ''i8'', ''i16'', ''mi8'',
    ''mi16'', ''enternativem8i16''}"

text \<open>The pushes, and the pulls with their checks.\<close>

definition pushed_item :: "string \<Rightarrow> runtime_state \<Rightarrow> stack_item option" where
  "pushed_item m s =
    (if m = ''pha'' then Some (Item_A (run_a s))
     else if m = ''phx'' then Some (Item_X (run_i s))
     else if m = ''phy'' then Some (Item_Y (run_i s))
     else if m = ''php'' then Some (Saved_Status (run_a s) (run_i s))
     else if m = ''phb'' then Some Saved_Bank
     else if m = ''phd'' then Some Saved_Direct_Page
     else if m \<in> {''pea'', ''pei'', ''per''} then Some Raw_Word
     else None)"

definition pull ::
  "profile \<Rightarrow> statement \<Rightarrow> runtime_state \<Rightarrow> diagnostics
    \<Rightarrow> (runtime_state \<times> diagnostics) option" where
  "pull profile st s ds =
    (let m = mnemonic st
     in if m = ''pla'' then Some (pop_accumulator profile st s (run_a s) ds)
        else if m = ''plx'' then Some (pop_expected profile st s (Item_X (run_i s)) ds)
        else if m = ''ply'' then Some (pop_expected profile st s (Item_Y (run_i s)) ds)
        else if m = ''plb'' then Some (pop_bank profile st s ds)
        else if m = ''pld'' then Some (pop_direct_page profile st s ds)
        else if m \<in> {''plp'', ''plp_interrupt''} then Some (pull_status profile st s ds)
        else map_option (\<lambda>expected. restore_status profile st s expected ds) (restored_widths m))"

definition transfer ::
  "profile \<Rightarrow> statement \<Rightarrow> runtime_state \<Rightarrow> diagnostics \<Rightarrow> runtime_state option \<times> diagnostics"
where
  "transfer profile st s ds =
    (let m = mnemonic st
     in if m \<in> width_macros then (Some (normalize_at_entry m s), ds)
        else if m \<in> {''rep'', ''sep''} then (Some (apply_status_immediate m (operand st) s), ds)
        else
          (case asserted_widths m of
             Some expected \<Rightarrow> (Some s, assert_state profile st s expected ds)
           | None \<Rightarrow>
               (case pushed_item m s of
                  Some item \<Rightarrow> (Some (push_item item s), ds)
                | None \<Rightarrow>
                    (case pull profile st s ds of
                       Some (s', ds') \<Rightarrow> (Some s', ds')
                     | None \<Rightarrow>
                         if m \<in> {''rti'', ''stp''} \<or> is_terminal_return_macro m then (None, ds)
                         else (Some s, ds)))))"

section \<open>Facts\<close>

lemma set_a_simps [simp]:
  "run_a (set_a w s) = w" "run_i (set_a w s) = run_i s" "run_stack (set_a w s) = run_stack s"
  "run_calls (set_a w s) = run_calls s"
  by (simp_all add: set_a_def)

lemma set_i_simps [simp]:
  "run_a (set_i w s) = run_a s" "run_i (set_i w s) = w" "run_stack (set_i w s) = run_stack s"
  "run_calls (set_i w s) = run_calls s"
  by (simp_all add: set_i_def)

lemma set_absorb [simp]:
  "set_a v (set_a w s) = set_a v s" "set_i v (set_i w s) = set_i v s"
  "set_a v (set_i u (set_a w s)) = set_a v (set_i u s)"
  "set_a v (set_i u (set_i w s)) = set_a v (set_i u s)"
  by (simp_all add: set_a_def set_i_def)

lemma normalize_at_entry_other: "m \<notin> width_macros \<Longrightarrow> normalize_at_entry m s = s"
  by (simp add: normalize_at_entry_def width_macros_def)

lemma normalize_idem [simp]: "normalize_at_entry m (normalize_at_entry m s) = normalize_at_entry m s"
  by (simp add: normalize_at_entry_def)

lemma normalize_calls [simp]: "run_calls (normalize_at_entry m s) = run_calls s"
  by (simp add: normalize_at_entry_def)

lemma normalize_stack [simp]: "run_stack (normalize_at_entry m s) = run_stack s"
  by (simp add: normalize_at_entry_def)

lemma normalize_with_calls:
  "normalize_at_entry m (s\<lparr>run_calls := cs\<rparr>) = (normalize_at_entry m s)\<lparr>run_calls := cs\<rparr>"
  by (simp add: normalize_at_entry_def set_a_def set_i_def)

lemma pop_item_calls [simp]: "run_calls (snd (pop_item s)) = run_calls s"
  by (simp add: pop_item_def split: list.split)

lemma pop_itemD: "pop_item s = (x, s') \<Longrightarrow> run_calls s' = run_calls s"
  using pop_item_calls [of s] by simp

lemmas pull_defs = pop_accumulator_def pop_expected_def pop_bank_def pop_direct_page_def
  pull_status_def restore_status_def

lemma pulls_calls [simp]:
  "run_calls (fst (pop_accumulator profile st s w ds)) = run_calls s"
  "run_calls (fst (pop_expected profile st s item ds)) = run_calls s"
  "run_calls (fst (pop_bank profile st s ds)) = run_calls s"
  "run_calls (fst (pop_direct_page profile st s ds)) = run_calls s"
  "run_calls (fst (pull_status profile st s ds)) = run_calls s"
  "run_calls (fst (restore_status profile st s expected ds)) = run_calls s"
  by (auto simp: pull_defs Let_def push_item_def dest: pop_itemD
      split: prod.split option.split stack_item.split)

lemma pulls_mono:
  "ds \<subseteq> snd (pop_accumulator profile st s w ds)"
  "ds \<subseteq> snd (pop_expected profile st s item ds)"
  "ds \<subseteq> snd (pop_bank profile st s ds)"
  "ds \<subseteq> snd (pop_direct_page profile st s ds)"
  "ds \<subseteq> snd (pull_status profile st s ds)"
  "ds \<subseteq> snd (restore_status profile st s expected ds)"
  by (auto simp: pull_defs Let_def report_if_def split: prod.split option.split stack_item.split)

lemma pull_effect:
  "case pull profile st s ds of None \<Rightarrow> True | Some r \<Rightarrow> run_calls (fst r) = run_calls s \<and> ds \<subseteq> snd r"
  by (simp add: pull_def Let_def pulls_mono split: option.split)

lemma pull_facts:
  "pull profile st s ds = Some r \<Longrightarrow> run_calls (fst r) = run_calls s \<and> ds \<subseteq> snd r"
  using pull_effect [where profile = profile and st = st and s = s and ds = ds] by simp

lemma apply_status_calls [simp]: "run_calls (apply_status_immediate m oper s) = run_calls s"
  by (simp add: apply_status_immediate_def Let_def split: option.split)

lemma transfer_facts:
  "(case fst (transfer profile st s ds) of None \<Rightarrow> True | Some s' \<Rightarrow> run_calls s' = run_calls s)
    \<and> ds \<subseteq> snd (transfer profile st s ds)"
proof (cases "pull profile st s ds")
  case None
  then show ?thesis
    by (simp add: transfer_def Let_def push_item_def assert_state_def report_if_mono
        split: option.split)
next
  case (Some r)
  with pull_facts [OF Some] show ?thesis
    by (simp add: transfer_def Let_def push_item_def assert_state_def report_if_mono split_beta
        split: option.split)
qed

lemma transfer_calls: "transfer profile st s ds = (Some s', ds') \<Longrightarrow> run_calls s' = run_calls s"
  using transfer_facts [where profile = profile and st = st and s = s and ds = ds] by simp

lemma transfer_mono: "ds \<subseteq> snd (transfer profile st s ds)"
  using transfer_facts by blast

lemma validate_memory_access_mono: "ds \<subseteq> validate_memory_access profile st s allocations ds"
  by (auto simp: validate_memory_access_def report_if_def split: option.split)

lemma validate_call_mono: "ds \<subseteq> validate_call profile st s abis ds"
  by (auto simp: validate_call_def report_if_def Let_def split: option.split)

lemma validate_statement_width_mono:
  "ds \<subseteq> validate_statement_width profile st s abis allocations ds"
  unfolding validate_statement_width_def Let_def
  by (intro order_trans [OF _ validate_memory_access_mono] order_trans [OF _ validate_call_mono]
      order_trans [OF _ report_if_mono] order_refl)

end
