(* ===== verification/Lint_Analysis.thy ===== *)
theory Lint_Analysis
  imports Lint_Transfer "HOL-Library.While_Combinator"
begin

text \<open>
  The control-flow analysis of \<^verbatim>\<open>xtask/src/asm_lint.rs\<close>: labels and branch targets, the merge of a
  state into the states already known at a statement, the work queue of \<open>analyze_procedure\<close>, and
  the passes over procedures, profiles and files.

  The three \<^verbatim>\<open>&mut\<close> arguments \<open>states\<close>, \<open>queue\<close> and \<open>diagnostics\<close> are the fields of a \<open>flow\<close>. The
  \<^verbatim>\<open>while\<close> loop over the queue is \<open>while_option\<close>: \<open>None\<close> is an analysis that never ends.
\<close>

section \<open>Labels and targets\<close>

definition label_entries :: "statement list \<Rightarrow> (string \<times> nat) list" where
  "label_entries statements =
    List.map_filter
      (\<lambda>(index, st). case label_name (stmt_text st) of
          None \<Rightarrow> None
        | Some name \<Rightarrow> if name = [] then None else Some (name, index))
      (enumerate 0 statements)"

text \<open>Collecting into a map: a label that is defined twice keeps its last position.\<close>

definition collect_labels :: "statement list \<Rightarrow> (string \<rightharpoonup> nat)" where
  "collect_labels statements = map_of (rev (label_entries statements))"

definition collect_anonymous_labels :: "statement list \<Rightarrow> nat list" where
  "collect_anonymous_labels statements =
    map fst (filter (\<lambda>(_, st). trim (stmt_text st) = '':'') (enumerate 0 statements))"

definition nth_option :: "'a list \<Rightarrow> nat \<Rightarrow> 'a option" where
  "nth_option xs k = (if k < length xs then Some (xs ! k) else None)"

definition resolve_target :: "nat \<Rightarrow> string \<Rightarrow> (string \<rightharpoonup> nat) \<Rightarrow> nat list \<Rightarrow> nat option" where
  "resolve_target index oper labels anonymous =
    (let target = normalize_target oper
     in case strip_prefix '':'' target of
          None \<Rightarrow> labels target
        | Some signs \<Rightarrow>
            if list_all (\<lambda>c. c = CHR ''+'') signs then
              nth_option (filter (\<lambda>candidate. index < candidate) anonymous) (length signs - 1)
            else if list_all (\<lambda>c. c = CHR ''-'') signs then
              nth_option (rev (filter (\<lambda>candidate. candidate < index) anonymous)) (length signs - 1)
            else labels target)"

definition branch_mnemonics :: "string set" where
  "branch_mnemonics = {''bcc'', ''bcs'', ''beq'', ''bmi'', ''bne'', ''bpl'', ''bvc'', ''bvs''}"

definition successors ::
  "nat \<Rightarrow> statement list \<Rightarrow> (string \<rightharpoonup> nat) \<Rightarrow> nat list \<Rightarrow> nat list" where
  "successors index statements labels anonymous =
    (let st = statements ! index;
         next_index = index + 1;
         fall = (if next_index < length statements then [next_index] else []);
         target = resolve_target index (operand st) labels anonymous
     in if mnemonic st \<in> {''rts'', ''rtl'', ''rti'', ''stp''} then []
        else if mnemonic st \<in> {''bra'', ''brl'', ''jmp'', ''jml''} then
          (case target of None \<Rightarrow> [] | Some t \<Rightarrow> [t])
        else if mnemonic st \<in> branch_mnemonics then
          (case target of
             None \<Rightarrow> fall
           | Some t \<Rightarrow> if t \<in> set fall then fall else fall @ [t])
        else fall)"

section \<open>Merging\<close>

record flow =
  flow_states :: "runtime_state list list"
  flow_queue :: "(nat \<times> runtime_state) list"
  flow_diagnostics :: diagnostics

text \<open>The mnemonic of the first statement from \<open>successor\<close> on that is not a label.\<close>

definition normalizer :: "statement list \<Rightarrow> nat \<Rightarrow> string" where
  "normalizer statements successor =
    (case List.find (\<lambda>st. \<not> is_label (stmt_text st)) (drop successor statements) of
       None \<Rightarrow> mnemonic (statements ! successor)
     | Some st \<Rightarrow> mnemonic st)"

definition render_state :: "runtime_state \<Rightarrow> width \<times> width \<times> stack_item list" where
  "render_state s = (run_a s, run_i s, run_stack s)"

definition merge_state ::
  "profile \<Rightarrow> statement list \<Rightarrow> nat \<Rightarrow> runtime_state \<Rightarrow> flow \<Rightarrow> flow" where
  "merge_state profile statements successor incoming fl =
    (if length (flow_states fl) \<le> successor then fl
     else
       (let incoming = normalize_at_entry (normalizer statements successor) incoming;
            known = flow_states fl ! successor
        in if incoming \<in> set known then fl
           else
             (case List.find (\<lambda>s. run_calls s = run_calls incoming) known of
                Some existing \<Rightarrow>
                  fl\<lparr>flow_diagnostics :=
                       report (stmt_location (statements ! successor)) profile
                         (Incompatible_Merge (render_state incoming) (render_state existing))
                         (flow_diagnostics fl)\<rparr>
              | None \<Rightarrow>
                  fl\<lparr>flow_states := (flow_states fl)[successor := known @ [incoming]],
                     flow_queue := flow_queue fl @ [(successor, incoming)]\<rparr>)))"

section \<open>Returns\<close>

definition validate_return ::
  "profile \<Rightarrow> statement \<Rightarrow> abi option \<Rightarrow> runtime_state \<Rightarrow> diagnostics \<Rightarrow> diagnostics" where
  "validate_return profile st return_abi s ds =
    (case return_abi of
       None \<Rightarrow> report (stmt_location st) profile Interrupt_Returns_With_Rts ds
     | Some abi \<Rightarrow>
         (let ds = report_if (run_stack s \<noteq> []) (stmt_location st) profile
                     (Return_Leaves_Items (run_stack s)) ds
          in report_if (run_a s \<noteq> abi_a abi \<or> run_i s \<noteq> abi_i abi) (stmt_location st) profile
               (Return_Widths (abi_a abi) (abi_i abi) (run_a s) (run_i s)) ds))"

definition handle_return ::
  "profile \<Rightarrow> procedure \<Rightarrow> abi option \<Rightarrow> statement \<Rightarrow> runtime_state \<Rightarrow> flow \<Rightarrow> flow" where
  "handle_return profile p return_abi st s fl =
    (case run_calls s of
       frame # outer \<Rightarrow>
         if run_stack s \<noteq> frame_stack frame then
           fl\<lparr>flow_diagnostics :=
                report (stmt_location st) profile
                  (Local_Return_Unbalanced (frame_stack frame) (run_stack s)) (flow_diagnostics fl)\<rparr>
         else
           merge_state profile (proc_statements p) (frame_return_index frame)
             (s\<lparr>run_calls := outer\<rparr>) fl
     | [] \<Rightarrow>
         fl\<lparr>flow_diagnostics := validate_return profile st return_abi s (flow_diagnostics fl)\<rparr>)"

definition handle_interrupt_return ::
  "profile \<Rightarrow> procedure \<Rightarrow> statement \<Rightarrow> runtime_state \<Rightarrow> diagnostics \<Rightarrow> diagnostics" where
  "handle_interrupt_return profile p st s ds =
    (if proc_kind p \<noteq> Interrupt then report (stmt_location st) profile Rti_Outside_Interrupt ds
     else
       report_if (run_stack s \<noteq> []) (stmt_location st) profile
         (Interrupt_Return_Leaves_Items (run_stack s))
         (report_if (run_calls s \<noteq> []) (stmt_location st) profile Rti_In_Local_Subroutine ds))"

section \<open>The work queue\<close>

text \<open>The target of a \<^verbatim>\<open>jsr\<close> or \<^verbatim>\<open>jsl\<close> to a label of the same procedure.\<close>

definition local_call :: "nat \<Rightarrow> statement list \<Rightarrow> nat option" where
  "local_call index statements =
    (let st = statements ! index
     in if mnemonic st \<in> {''jsr'', ''jsl''}
        then resolve_target index (operand st) (collect_labels statements)
               (collect_anonymous_labels statements)
        else None)"

definition enter_call :: "nat \<Rightarrow> runtime_state \<Rightarrow> runtime_state" where
  "enter_call index s =
    s\<lparr>run_calls := \<lparr>frame_return_index = index + 1, frame_stack = run_stack s\<rparr> # run_calls s\<rparr>"

definition propagate ::
  "profile \<Rightarrow> statement list \<Rightarrow> nat \<Rightarrow> runtime_state \<Rightarrow> flow \<Rightarrow> flow" where
  "propagate profile statements index output fl =
    (case local_call index statements of
       Some target \<Rightarrow> merge_state profile statements target (enter_call index output) fl
     | None \<Rightarrow>
         fold (\<lambda>successor. merge_state profile statements successor output)
           (successors index statements (collect_labels statements)
             (collect_anonymous_labels statements)) fl)"

definition analyze_statement ::
  "profile \<Rightarrow> procedure \<Rightarrow> abi option \<Rightarrow> (string \<rightharpoonup> abi) \<Rightarrow> (string \<rightharpoonup> allocation)
    \<Rightarrow> nat \<Rightarrow> runtime_state \<Rightarrow> flow \<Rightarrow> flow" where
  "analyze_statement profile p return_abi abis allocations index input fl =
    (let statements = proc_statements p;
         st = statements ! index;
         fl = fl\<lparr>flow_diagnostics :=
                validate_statement_width profile st input abis allocations (flow_diagnostics fl)\<rparr>
     in if mnemonic st = ''rti'' then
          fl\<lparr>flow_diagnostics := handle_interrupt_return profile p st input (flow_diagnostics fl)\<rparr>
        else if mnemonic st \<in> {''rts'', ''rtl''} then
          handle_return profile p return_abi st input fl
        else
          (case transfer profile st input (flow_diagnostics fl) of
             (None, ds) \<Rightarrow> fl\<lparr>flow_diagnostics := ds\<rparr>
           | (Some output, ds) \<Rightarrow>
               propagate profile statements index output (fl\<lparr>flow_diagnostics := ds\<rparr>)))"

definition analyze_step ::
  "profile \<Rightarrow> procedure \<Rightarrow> abi option \<Rightarrow> (string \<rightharpoonup> abi) \<Rightarrow> (string \<rightharpoonup> allocation) \<Rightarrow> flow \<Rightarrow> flow"
where
  "analyze_step profile p return_abi abis allocations fl =
    (case flow_queue fl of
       [] \<Rightarrow> fl
     | (index, input) # rest \<Rightarrow>
         analyze_statement profile p return_abi abis allocations index input
           (fl\<lparr>flow_queue := rest\<rparr>))"

definition entry_state :: "abi \<Rightarrow> runtime_state" where
  "entry_state entry =
    \<lparr>run_a = abi_a entry, run_i = abi_i entry, run_stack = [], run_calls = []\<rparr>"

definition initial_flow :: "procedure \<Rightarrow> abi \<Rightarrow> diagnostics \<Rightarrow> flow" where
  "initial_flow p entry ds =
    \<lparr>flow_states = (replicate (length (proc_statements p)) [])[0 := [entry_state entry]],
     flow_queue = [(0, entry_state entry)],
     flow_diagnostics = ds\<rparr>"

definition analyze_procedure ::
  "profile \<Rightarrow> procedure \<Rightarrow> abi option \<Rightarrow> abi \<Rightarrow> (string \<rightharpoonup> abi) \<Rightarrow> (string \<rightharpoonup> allocation)
    \<Rightarrow> diagnostics \<Rightarrow> diagnostics option" where
  "analyze_procedure profile p return_abi entry abis allocations ds =
    (if proc_statements p = [] then Some ds
     else
       map_option flow_diagnostics
         (while_option (\<lambda>fl. flow_queue fl \<noteq> [])
            (analyze_step profile p return_abi abis allocations)
            (initial_flow p entry ds)))"

section \<open>Procedures, profiles and files\<close>

definition interrupt_entries :: "abi list" where
  "interrupt_entries =
    [\<lparr>abi_a = Eight, abi_i = Eight\<rparr>, \<lparr>abi_a = Eight, abi_i = Sixteen\<rparr>,
     \<lparr>abi_a = Sixteen, abi_i = Eight\<rparr>, \<lparr>abi_a = Sixteen, abi_i = Sixteen\<rparr>]"

text \<open>The entry widths under which a procedure is analysed, each with the ABI of its return.\<close>

definition procedure_entries :: "procedure \<Rightarrow> (abi option \<times> abi) list" where
  "procedure_entries p =
    (case proc_kind p of
       Ordinary \<Rightarrow> (case proc_abi p of None \<Rightarrow> [] | Some abi \<Rightarrow> [(Some abi, abi)])
     | Interrupt \<Rightarrow> map (\<lambda>entry. (None, entry)) interrupt_entries)"

definition procedure_abis :: "procedure list \<Rightarrow> (string \<rightharpoonup> abi)" where
  "procedure_abis procedures =
    map_of (rev (List.map_filter
      (\<lambda>p. map_option (\<lambda>abi. (proc_name p, abi)) (proc_abi p)) procedures))"

fun fold_option :: "('a \<Rightarrow> 's \<Rightarrow> 's option) \<Rightarrow> 'a list \<Rightarrow> 's \<Rightarrow> 's option" where
  "fold_option f [] s = Some s"
| "fold_option f (x # xs) s = (case f x s of None \<Rightarrow> None | Some s' \<Rightarrow> fold_option f xs s')"

definition analyze_entries ::
  "profile \<Rightarrow> (string \<rightharpoonup> abi) \<Rightarrow> (string \<rightharpoonup> allocation) \<Rightarrow> procedure \<Rightarrow> diagnostics
    \<Rightarrow> diagnostics option" where
  "analyze_entries profile abis allocations p =
    fold_option
      (\<lambda>(return_abi, entry). analyze_procedure profile p return_abi entry abis allocations)
      (procedure_entries p)"

definition analyze_procedures ::
  "profile \<Rightarrow> procedure list \<Rightarrow> (string \<rightharpoonup> allocation) \<Rightarrow> diagnostics \<Rightarrow> diagnostics option" where
  "analyze_procedures profile procedures allocations =
    fold_option (analyze_entries profile (procedure_abis procedures) allocations) procedures"

definition parse_file ::
  "lint_options \<Rightarrow> profile \<Rightarrow> path \<times> string \<Rightarrow> procedure list \<times> diagnostics
    \<Rightarrow> procedure list \<times> diagnostics" where
  "parse_file options profile file acc =
    (let (ps, ds) = parse_procedures (fst file) (snd file) profile options (snd acc)
     in (fst acc @ ps, ds))"

definition parse_files ::
  "lint_options \<Rightarrow> profile \<Rightarrow> (path \<times> string) list \<Rightarrow> diagnostics \<Rightarrow> procedure list \<times> diagnostics"
where
  "parse_files options profile files ds = fold (parse_file options profile) files ([], ds)"

definition collect_allocations :: "(path \<times> string) list \<Rightarrow> (string \<rightharpoonup> allocation)" where
  "collect_allocations files =
    fold (\<lambda>file. collect_source_allocations (snd file)) files Map.empty"

definition lint_profile ::
  "lint_options \<Rightarrow> (path \<times> string) list \<Rightarrow> profile \<Rightarrow> diagnostics \<Rightarrow> diagnostics option" where
  "lint_profile options files profile ds =
    (case parse_files options profile files ds of
       (procedures, ds') \<Rightarrow> analyze_procedures profile procedures (collect_allocations files) ds')"

text \<open>
  \<open>lint_workspace\<close> on the assembly files it has found, sorted by path, and read. The sorted list it
  returns is the set here.
\<close>

definition lint_workspace :: "(path \<times> string) list \<Rightarrow> lint_options \<Rightarrow> diagnostics option" where
  "lint_workspace files options = fold_option (lint_profile options files) all_profiles {}"

text \<open>
  \<open>run\<close>: the lines printed are grouped by place and message, with the profiles they occur in; what is
  returned is success, an audit report or a failure, with the numbers of groups and of diagnostics.
\<close>

datatype lint_outcome = Lint_Passed | Lint_Audit nat nat | Lint_Failed nat nat

definition lint_group :: "lint_diagnostic \<Rightarrow> path \<times> nat \<times> nat \<times> lint_message" where
  "lint_group d = (diag_path d, diag_line d, diag_column d, diag_message d)"

definition lint_run :: "(path \<times> string) list \<Rightarrow> bool \<Rightarrow> lint_outcome option" where
  "lint_run files audit =
    map_option
      (\<lambda>ds. if ds = {} then Lint_Passed
            else if audit then Lint_Audit (card (lint_group ` ds)) (card ds)
            else Lint_Failed (card (lint_group ` ds)) (card ds))
      (lint_workspace files \<lparr>enforce_policy = True\<rparr>)"

end
