(* ===== verification/Lint_Flow.thy ===== *)
theory Lint_Flow
  imports Lint_Analysis
begin

text \<open>
  Facts on the operations of \<open>Lint_Analysis\<close> that change a \<open>flow\<close>: they only add diagnostics, and
  every state they record they also queue (\<open>extends\<close>).
\<close>

section \<open>What is recorded\<close>

definition recorded_states :: "flow \<Rightarrow> (nat \<times> runtime_state) set" where
  "recorded_states fl = {(j, s). j < length (flow_states fl) \<and> s \<in> set (flow_states fl ! j)}"

definition recorded_count :: "flow \<Rightarrow> nat" where
  "recorded_count fl = sum_list (map length (flow_states fl))"

definition extends :: "flow \<Rightarrow> flow \<Rightarrow> bool" where
  "extends fl fl' \<longleftrightarrow>
    flow_diagnostics fl \<subseteq> flow_diagnostics fl' \<and>
    length (flow_states fl') = length (flow_states fl) \<and>
    (\<exists>new. flow_queue fl' = flow_queue fl @ new \<and>
           recorded_states fl' = recorded_states fl \<union> set new \<and>
           recorded_count fl' = recorded_count fl + length new)"

lemma extends_refl [simp]: "extends fl fl"
  by (simp add: extends_def)

lemma extends_trans: "extends fl fl' \<Longrightarrow> extends fl' fl'' \<Longrightarrow> extends fl fl''"
  unfolding extends_def by fastforce

lemma extends_report:
  "flow_diagnostics fl \<subseteq> ds \<Longrightarrow> extends fl (fl\<lparr>flow_diagnostics := ds\<rparr>)"
  by (simp add: extends_def recorded_states_def recorded_count_def)

lemma extends_recorded: "extends fl fl' \<Longrightarrow> recorded_states fl \<subseteq> recorded_states fl'"
  unfolding extends_def by blast

lemma extends_clean: "extends fl fl' \<Longrightarrow> flow_diagnostics fl' = {} \<Longrightarrow> flow_diagnostics fl = {}"
  unfolding extends_def by blast

lemma extends_length: "extends fl fl' \<Longrightarrow> length (flow_states fl') = length (flow_states fl)"
  by (simp add: extends_def)

lemma recorded_states_queue [simp]: "recorded_states (fl\<lparr>flow_queue := q\<rparr>) = recorded_states fl"
  by (simp add: recorded_states_def)

lemma recorded_count_queue [simp]: "recorded_count (fl\<lparr>flow_queue := q\<rparr>) = recorded_count fl"
  by (simp add: recorded_count_def)

section \<open>Merging\<close>

lemma record_state:
  assumes "j < length (flow_states fl)"
  shows "extends fl (fl\<lparr>flow_states := (flow_states fl)[j := flow_states fl ! j @ [s]],
                        flow_queue := flow_queue fl @ [(j, s)]\<rparr>)"
proof -
  have "sum_list (map length ((flow_states fl)[j := flow_states fl ! j @ [s]])) =
      Suc (sum_list (map length (flow_states fl)))"
    using assms
    by (simp add: map_update sum_list_update elem_le_sum_list)
  then show ?thesis
    using assms by (auto simp: extends_def recorded_states_def recorded_count_def nth_list_update
        split: if_splits)
qed

lemma merge_extends: "extends fl (merge_state profile statements j s fl)"
  by (auto simp: merge_state_def Let_def intro: record_state extends_report
      split: option.split)

text \<open>A clean merge records the state, in its normal form.\<close>

lemma merge_records:
  assumes "flow_diagnostics (merge_state profile statements j s fl) = {}"
    and "j < length (flow_states fl)"
  shows "(j, normalize_at_entry (normalizer statements j) s)
      \<in> recorded_states (merge_state profile statements j s fl)"
  using assms
  by (auto simp: merge_state_def Let_def recorded_states_def split: option.splits if_splits)

lemma fold_merge_extends:
  "extends fl (fold (\<lambda>j. merge_state profile statements j s) js fl)"
  by (induction js arbitrary: fl) (auto intro: extends_trans merge_extends)

lemma fold_merge_records:
  assumes "flow_diagnostics (fold (\<lambda>j. merge_state profile statements j s) js fl) = {}"
    and "j \<in> set js" and "j < length (flow_states fl)"
  shows "(j, normalize_at_entry (normalizer statements j) s)
      \<in> recorded_states (fold (\<lambda>j. merge_state profile statements j s) js fl)"
  using assms
proof (induction js arbitrary: fl)
  case Nil
  then show ?case by simp
next
  case (Cons k js)
  let ?fl = "merge_state profile statements k s fl"
  have len: "j < length (flow_states ?fl)"
    using Cons.prems(3) extends_length [OF merge_extends] by simp
  show ?case
  proof (cases "j \<in> set js")
    case True
    then show ?thesis using Cons.IH [OF _ True len] Cons.prems(1) by simp
  next
    case False
    then have "k = j" using Cons.prems(2) by simp
    moreover have "flow_diagnostics ?fl = {}"
      using extends_clean [OF fold_merge_extends] Cons.prems(1) by simp
    ultimately show ?thesis
      using merge_records [of profile statements j s fl] Cons.prems(3)
        extends_recorded [OF fold_merge_extends, of ?fl profile statements s js] by auto
  qed
qed

lemma propagate_extends: "extends fl (propagate profile statements index s fl)"
  by (simp add: propagate_def merge_extends fold_merge_extends split: option.split)

section \<open>One turn of the queue\<close>

lemma validate_return_mono: "ds \<subseteq> validate_return profile st return_abi s ds"
  by (auto simp: validate_return_def report_if_def Let_def split: option.split)

lemma handle_return_extends: "extends fl (handle_return profile p return_abi st s fl)"
  by (simp add: handle_return_def merge_extends validate_return_mono extends_report subset_insertI
      split: list.split)

lemma handle_interrupt_return_mono: "ds \<subseteq> handle_interrupt_return profile p st s ds"
  by (auto simp: handle_interrupt_return_def report_if_def)

lemma extends_update:
  "flow_diagnostics fl \<subseteq> ds \<Longrightarrow> extends (fl\<lparr>flow_diagnostics := ds\<rparr>) fl' \<Longrightarrow> extends fl fl'"
  by (rule extends_trans [OF extends_report])

lemma analyze_statement_extends:
  "extends fl (analyze_statement profile p return_abi abis allocations index input fl)"
proof -
  let ?st = "proc_statements p ! index"
  let ?ds = "validate_statement_width profile ?st input abis allocations (flow_diagnostics fl)"
  let ?tr = "transfer profile ?st input ?ds"
  have ds: "flow_diagnostics fl \<subseteq> ?ds" by (rule validate_statement_width_mono)
  have tr: "?ds \<subseteq> snd ?tr" by (rule transfer_mono)
  obtain out ds' where out: "?tr = (out, ds')" by fastforce
  have ds': "flow_diagnostics fl \<subseteq> ds'" using ds tr out by auto
  have propagated: "extends fl (propagate profile (proc_statements p) index s (fl\<lparr>flow_diagnostics := ds'\<rparr>))"
    for s by (rule extends_update [OF ds' propagate_extends])
  have returned: "extends fl (handle_return profile p return_abi ?st input (fl\<lparr>flow_diagnostics := ?ds\<rparr>))"
    by (rule extends_update [OF ds handle_return_extends])
  have interrupted: "extends fl (fl\<lparr>flow_diagnostics := handle_interrupt_return profile p ?st input ?ds\<rparr>)"
    by (rule extends_report [OF order_trans [OF ds handle_interrupt_return_mono]])
  show ?thesis
    using propagated returned interrupted extends_report [OF ds']
    by (cases out) (simp_all add: analyze_statement_def Let_def out)
qed

lemma analyze_step_extends:
  assumes "flow_queue fl = n # ns"
  shows "extends (fl\<lparr>flow_queue := ns\<rparr>) (analyze_step profile p return_abi abis allocations fl)"
  using analyze_statement_extends by (simp add: analyze_step_def assms split: prod.split)

end
