(* ===== verification/Lint_Paths.thy ===== *)
theory Lint_Paths
  imports Lint_Flow
begin

text \<open>
  The reference for the linter. \<open>path_step\<close> follows the control-flow paths of a procedure one
  statement at a time, without any merging; \<open>statement_safe\<close> is what has to hold wherever a path
  arrives. A turn of \<open>analyze_procedure\<close> that leaves no diagnostic has checked \<open>statement_safe\<close> and
  has recorded every state a step of a path leads to.
\<close>

section \<open>Paths\<close>

definition effect :: "statement \<Rightarrow> runtime_state \<Rightarrow> runtime_state option" where
  "effect st s = fst (transfer Normal_Profile st s {})"

lemma pulls_indep:
  "fst (pop_accumulator profile st s w ds) = fst (pop_accumulator profile' st s w ds')"
  "fst (pop_expected profile st s item ds) = fst (pop_expected profile' st s item ds')"
  "fst (pop_bank profile st s ds) = fst (pop_bank profile' st s ds')"
  "fst (pop_direct_page profile st s ds) = fst (pop_direct_page profile' st s ds')"
  "fst (pull_status profile st s ds) = fst (pull_status profile' st s ds')"
  "fst (restore_status profile st s expected ds) = fst (restore_status profile' st s expected ds')"
  by (simp_all add: pull_defs Let_def split: prod.split option.split stack_item.split)

lemma pull_effect_indep:
  "map_option fst (pull profile st s ds) = map_option fst (pull profile' st s ds')"
  by (cases "restored_widths (mnemonic st)") (auto simp: pull_def Let_def intro: pulls_indep)

lemma transfer_effect: "fst (transfer profile st s ds) = effect st s"
proof -
  note indep = pull_effect_indep [of profile st s ds Normal_Profile "{}"]
  show ?thesis
    using indep
    by (cases "pull profile st s ds"; cases "pull Normal_Profile st s {}")
      (simp_all add: effect_def transfer_def Let_def split_beta split: option.split)
qed

inductive path_step ::
  "statement list \<Rightarrow> nat \<times> runtime_state \<Rightarrow> nat \<times> runtime_state \<Rightarrow> bool"
  for statements :: "statement list" where
  path_next: "i < length statements \<Longrightarrow> mnemonic (statements ! i) \<notin> {''rti'', ''rts'', ''rtl''} \<Longrightarrow>
    effect (statements ! i) s = Some t \<Longrightarrow> local_call i statements = None \<Longrightarrow>
    j \<in> set (successors i statements (collect_labels statements)
                (collect_anonymous_labels statements)) \<Longrightarrow>
    j < length statements \<Longrightarrow> path_step statements (i, s) (j, t)"
| path_call: "i < length statements \<Longrightarrow> local_call i statements = Some j \<Longrightarrow>
    effect (statements ! i) s = Some t \<Longrightarrow> j < length statements \<Longrightarrow>
    path_step statements (i, s) (j, enter_call i t)"
| path_return: "i < length statements \<Longrightarrow> mnemonic (statements ! i) \<in> {''rts'', ''rtl''} \<Longrightarrow>
    run_calls s = frame # outer \<Longrightarrow> frame_return_index frame < length statements \<Longrightarrow>
    path_step statements (i, s) (frame_return_index frame, s\<lparr>run_calls := outer\<rparr>)"

inductive_cases path_stepE: "path_step statements (i, s) (j, t)"

lemmas path_step_cases = path_stepE [consumes 1, case_names path_next path_call path_return]

section \<open>Safe statements\<close>

definition widths_agree :: "(string \<rightharpoonup> abi) \<Rightarrow> statement \<Rightarrow> runtime_state \<Rightarrow> bool" where
  "widths_agree abis st s \<longleftrightarrow>
    (accumulator_immediate (mnemonic st) (operand st) \<longrightarrow> asm_a st = Some (run_a s)) \<and>
    (index_immediate (mnemonic st) (operand st) \<longrightarrow> asm_i st = Some (run_i s)) \<and>
    (mnemonic st \<in> {''jsr'', ''jsl''} \<longrightarrow> \<not> starts_with ''@'' (normalize_target (operand st)) \<longrightarrow>
      (case abis (normalize_target (operand st)) of
         None \<Rightarrow> True
       | Some callee \<Rightarrow> abi_a callee = run_a s \<and> abi_i callee = run_i s))"

definition access_fits :: "(string \<rightharpoonup> allocation) \<Rightarrow> statement \<Rightarrow> runtime_state \<Rightarrow> bool" where
  "access_fits allocations st s \<longleftrightarrow>
    (case (access_width (mnemonic st) s, allocation_operand (operand st)) of
       (Some width, Some (symbol, offset)) \<Rightarrow>
         (case allocations symbol of
            None \<Rightarrow> True
          | Some a \<Rightarrow> alloc_size a < 2 ^ 64 - 1 \<longrightarrow> offset + width \<le> alloc_size a)
     | _ \<Rightarrow> True)"

text \<open>The items a pull may find on top of the stack.\<close>

definition pulled_items :: "string \<Rightarrow> runtime_state \<Rightarrow> stack_item set option" where
  "pulled_items m s =
    (if m = ''pla'' then Some (accumulator_items (run_a s))
     else if m = ''plx'' then Some {Item_X (run_i s)}
     else if m = ''ply'' then Some {Item_Y (run_i s)}
     else if m = ''plb'' then Some {Saved_Bank, Raw_Byte, Raw_Word}
     else if m = ''pld'' then Some {Saved_Direct_Page, Raw_Word}
     else if m \<in> {''plp'', ''plp_interrupt''} then Some (range (case_prod Saved_Status))
     else map_option (\<lambda>w. {case_prod Saved_Status w}) (restored_widths m))"

definition stack_fits :: "statement \<Rightarrow> runtime_state \<Rightarrow> bool" where
  "stack_fits st s \<longleftrightarrow>
    (case pulled_items (mnemonic st) s of
       None \<Rightarrow> True
     | Some items \<Rightarrow> run_stack s \<noteq> [] \<and> hd (run_stack s) \<in> items)"

definition asserts_hold :: "statement \<Rightarrow> runtime_state \<Rightarrow> bool" where
  "asserts_hold st s \<longleftrightarrow>
    (case asserted_widths (mnemonic st) of None \<Rightarrow> True | Some w \<Rightarrow> w = (run_a s, run_i s))"

definition return_fits :: "abi option \<Rightarrow> statement \<Rightarrow> runtime_state \<Rightarrow> bool" where
  "return_fits return_abi st s \<longleftrightarrow>
    (mnemonic st \<in> {''rts'', ''rtl''} \<longrightarrow>
      (case run_calls s of
         frame # _ \<Rightarrow> run_stack s = frame_stack frame
       | [] \<Rightarrow> run_stack s = [] \<and> return_abi = Some \<lparr>abi_a = run_a s, abi_i = run_i s\<rparr>))"

definition interrupt_fits :: "procedure_kind \<Rightarrow> statement \<Rightarrow> runtime_state \<Rightarrow> bool" where
  "interrupt_fits kind st s \<longleftrightarrow>
    (mnemonic st = ''rti'' \<longrightarrow> kind = Interrupt \<and> run_calls s = [] \<and> run_stack s = [])"

definition statement_safe ::
  "procedure \<Rightarrow> abi option \<Rightarrow> (string \<rightharpoonup> abi) \<Rightarrow> (string \<rightharpoonup> allocation) \<Rightarrow> nat \<times> runtime_state \<Rightarrow> bool"
where
  "statement_safe p return_abi abis allocations n \<longleftrightarrow>
    (let st = proc_statements p ! fst n; s = snd n
     in widths_agree abis st s \<and> access_fits allocations st s \<and> stack_fits st s \<and>
        asserts_hold st s \<and> return_fits return_abi st s \<and> interrupt_fits (proc_kind p) st s)"

section \<open>A clean turn checks the statement\<close>

lemma validate_call_clean:
  "validate_call profile st s abis ds = {} \<Longrightarrow> ds = {} \<and>
    (mnemonic st \<in> {''jsr'', ''jsl''} \<longrightarrow> \<not> starts_with ''@'' (normalize_target (operand st)) \<longrightarrow>
      (case abis (normalize_target (operand st)) of
         None \<Rightarrow> True
       | Some callee \<Rightarrow> abi_a callee = run_a s \<and> abi_i callee = run_i s))"
  by (auto simp: validate_call_def Let_def split: if_splits option.splits)

lemma validate_memory_access_clean:
  "validate_memory_access profile st s allocations ds = {} \<Longrightarrow> ds = {} \<and> access_fits allocations st s"
  by (auto simp: validate_memory_access_def access_fits_def usize_saturating_add_def
      split: option.splits prod.splits)

lemma validate_clean:
  assumes "validate_statement_width profile st s abis allocations ds = {}"
  shows "ds = {} \<and> widths_agree abis st s \<and> access_fits allocations st s"
  using validate_memory_access_clean [OF assms [unfolded validate_statement_width_def Let_def]]
  unfolding widths_agree_def by (auto dest!: validate_call_clean)

lemma pull_clean:
  assumes "pull profile st s ds = Some (s', {})"
  shows "stack_fits st s"
  using assms
  by (cases "run_stack s")
    (auto simp: pull_def pull_defs pop_item_def Let_def stack_fits_def pulled_items_def
      split: if_splits option.splits stack_item.splits)

lemma transfer_asserts:
  assumes "snd (transfer profile st s ds) = {}"
  shows "asserts_hold st s"
proof (cases "asserted_widths (mnemonic st)")
  case None
  then show ?thesis by (simp add: asserts_hold_def)
next
  case (Some w)
  then have "mnemonic st \<in> {''assert_m8_i8'', ''assert_m8_i16'', ''assert_m16_i8'', ''assert_m16_i16''}"
    by (simp add: asserted_widths_def split: if_splits)
  then have "mnemonic st \<notin> width_macros" "mnemonic st \<notin> {''rep'', ''sep''}"
    by (auto simp: width_macros_def)
  then have "assert_state profile st s w ds = {}"
    using assms Some by (simp add: transfer_def Let_def)
  then show ?thesis by (cases w) (simp add: asserts_hold_def Some assert_state_def)
qed

lemma transfer_pull:
  assumes "pull profile st s ds = Some r"
  shows "transfer profile st s ds = (Some (fst r), snd r)"
proof -
  have "mnemonic st \<in> {''pla'', ''plx'', ''ply'', ''plb'', ''pld'', ''plp'', ''plp_interrupt'',
      ''plp_m8_i8'', ''plp_m8_i16'', ''plp_m16_i8'', ''plp_m16_i16''}"
    using assms by (auto simp: pull_def restored_widths_def Let_def split: if_splits)
  then have "mnemonic st \<notin> width_macros \<and> mnemonic st \<notin> {''rep'', ''sep''} \<and>
      asserted_widths (mnemonic st) = None \<and> pushed_item (mnemonic st) s = None"
    by (auto simp: width_macros_def asserted_widths_def pushed_item_def)
  with assms show ?thesis by (cases r) (simp add: transfer_def Let_def)
qed

lemma transfer_clean:
  assumes "snd (transfer profile st s ds) = {}"
  shows "stack_fits st s \<and> asserts_hold st s"
proof (cases "pull profile st s ds")
  case None
  then have "pulled_items (mnemonic st) s = None"
    by (simp add: pull_def pulled_items_def Let_def split: if_splits)
  then show ?thesis using transfer_asserts [OF assms] by (simp add: stack_fits_def)
next
  case (Some r)
  then have "r = (fst r, {})" using assms transfer_pull [OF Some] by (cases r) simp
  then have "stack_fits st s" using pull_clean Some by metis
  then show ?thesis using transfer_asserts [OF assms] by simp
qed

lemma validate_return_clean:
  "validate_return profile st return_abi s ds = {} \<Longrightarrow>
    run_stack s = [] \<and> return_abi = Some \<lparr>abi_a = run_a s, abi_i = run_i s\<rparr>"
  by (auto simp: validate_return_def Let_def split: option.splits)

lemma handle_return_clean:
  assumes "flow_diagnostics (handle_return profile p return_abi st s fl) = {}"
  shows "return_fits return_abi st s"
  using assms
  by (auto simp: handle_return_def return_fits_def dest: validate_return_clean
      split: list.splits if_splits)

lemma return_fits_other:
  "mnemonic st \<notin> {''rts'', ''rtl''} \<Longrightarrow> return_fits return_abi st s"
  by (simp add: return_fits_def)

lemma no_transfer_checks:
  "mnemonic st \<in> {''rti'', ''rts'', ''rtl''} \<Longrightarrow> stack_fits st s \<and> asserts_hold st s"
  by (auto simp: stack_fits_def pulled_items_def restored_widths_def asserts_hold_def
      asserted_widths_def)

lemma analyze_statement_safe:
  assumes "flow_diagnostics
      (analyze_statement profile p return_abi abis allocations i s fl) = {}" (is "flow_diagnostics ?fl = {}")
  shows "statement_safe p return_abi abis allocations (i, s)"
proof -
  define st where "st = proc_statements p ! i"
  define ds where "ds = validate_statement_width profile st s abis allocations (flow_diagnostics fl)"
  have fl: "?fl = (let fl = fl\<lparr>flow_diagnostics := ds\<rparr>
     in if mnemonic st = ''rti'' then
          fl\<lparr>flow_diagnostics := handle_interrupt_return profile p st s (flow_diagnostics fl)\<rparr>
        else if mnemonic st \<in> {''rts'', ''rtl''} then handle_return profile p return_abi st s fl
        else
          (case transfer profile st s (flow_diagnostics fl) of
             (None, ds) \<Rightarrow> fl\<lparr>flow_diagnostics := ds\<rparr>
           | (Some output, ds) \<Rightarrow>
               propagate profile (proc_statements p) i output (fl\<lparr>flow_diagnostics := ds\<rparr>)))"
    by (simp only: analyze_statement_def Let_def st_def ds_def flow.simps)
  have safe: "ds = {} \<and> stack_fits st s \<and> asserts_hold st s \<and> return_fits return_abi st s \<and>
      interrupt_fits (proc_kind p) st s"
  proof (cases "mnemonic st \<in> {''rti'', ''rts'', ''rtl''}")
    case True
    note checks = no_transfer_checks [OF True]
    show ?thesis
    proof (cases "mnemonic st = ''rti''")
      case rti: True
      then have "handle_interrupt_return profile p st s ds = {}"
        using assms fl by (simp add: Let_def)
      then show ?thesis using checks rti
        by (auto simp: handle_interrupt_return_def return_fits_def interrupt_fits_def split: if_splits)
    next
      case False
      then have "flow_diagnostics (handle_return profile p return_abi st s (fl\<lparr>flow_diagnostics := ds\<rparr>)) = {}"
        using assms fl True by (auto simp: Let_def)
      then show ?thesis
        using checks False handle_return_clean extends_clean [OF handle_return_extends]
        by (fastforce simp: interrupt_fits_def)
    qed
  next
    case False
    obtain out ds' where out: "transfer profile st s ds = (out, ds')" by fastforce
    have "ds' = {}"
    proof (cases out)
      case None
      then show ?thesis using assms fl False out by (simp add: Let_def)
    next
      case (Some t)
      have "?fl = propagate profile (proc_statements p) i t (fl\<lparr>flow_diagnostics := ds'\<rparr>)"
        using fl False out Some by (simp add: Let_def)
      with assms show ?thesis
        using extends_clean [OF propagate_extends, of profile "proc_statements p" i t
            "fl\<lparr>flow_diagnostics := ds'\<rparr>"] by simp
    qed
    then have "ds = {}" "snd (transfer profile st s ds) = {}"
      using transfer_mono [of ds profile st s] out by auto
    then show ?thesis using transfer_clean [of profile st s ds] False
      by (simp add: return_fits_def interrupt_fits_def)
  qed
  moreover from this have "widths_agree abis st s \<and> access_fits allocations st s"
    unfolding ds_def by (intro validate_clean [THEN conjunct2]) (rule conjunct1)
  ultimately show ?thesis unfolding statement_safe_def Let_def fst_conv snd_conv st_def by blast
qed

section \<open>A clean turn covers the next statements\<close>

lemma local_call_mnemonic: "local_call i statements = Some j \<Longrightarrow>
    mnemonic (statements ! i) \<in> {''jsr'', ''jsl''}"
  by (simp add: local_call_def Let_def split: if_splits)

lemma transfer_split:
  assumes "effect st s = Some t"
  obtains ds' where "transfer profile st s ds = (Some t, ds')"
  using assms transfer_effect [of profile st s ds] by (cases "transfer profile st s ds") simp

lemma analyze_statement_output:
  assumes "mnemonic (proc_statements p ! i) \<notin> {''rti'', ''rts'', ''rtl''}"
    and "effect (proc_statements p ! i) s = Some t"
  obtains fl' where "analyze_statement profile p return_abi abis allocations i s fl =
      propagate profile (proc_statements p) i t fl'" and "\<exists>ds. fl' = fl\<lparr>flow_diagnostics := ds\<rparr>"
proof -
  obtain ds' where "transfer profile (proc_statements p ! i) s (validate_statement_width profile
      (proc_statements p ! i) s abis allocations (flow_diagnostics fl)) = (Some t, ds')"
    using transfer_split [OF assms(2)] by blast
  then show ?thesis
    using that [of "fl\<lparr>flow_diagnostics := ds'\<rparr>"] assms(1)
    by (simp add: analyze_statement_def Let_def) blast
qed

lemma analyze_statement_covers:
  fixes p :: procedure and fl :: flow
  defines "statements \<equiv> proc_statements p"
  assumes clean: "flow_diagnostics
      (analyze_statement profile p return_abi abis allocations i s fl) = {}"
    and len: "length (flow_states fl) = length statements"
    and path: "path_step statements (i, s) (j, t)"
  shows "(j, normalize_at_entry (normalizer statements j) t)
      \<in> recorded_states (analyze_statement profile p return_abi abis allocations i s fl)"
  using path
proof (cases rule: path_step_cases)
  case path_next
  have "mnemonic (proc_statements p ! i) \<notin> {''rti'', ''rts'', ''rtl''}"
    using path_next by (simp add: statements_def)
  moreover have "effect (proc_statements p ! i) s = Some t"
    using path_next by (simp add: statements_def)
  ultimately obtain fl' where fl': "analyze_statement profile p return_abi abis allocations i s fl =
      propagate profile statements i t fl'" "\<exists>ds. fl' = fl\<lparr>flow_diagnostics := ds\<rparr>"
    unfolding statements_def by (rule analyze_statement_output)
  then have states: "flow_states fl' = flow_states fl" by auto
  have "propagate profile statements i t fl' = fold (\<lambda>j. merge_state profile statements j t)
      (successors i statements (collect_labels statements) (collect_anonymous_labels statements)) fl'"
    using path_next by (simp add: propagate_def)
  with fl' clean show ?thesis
    using fold_merge_records [of profile statements t _ fl' j] path_next len states by simp
next
  case (path_call u)
  then have "mnemonic (proc_statements p ! i) \<notin> {''rti'', ''rts'', ''rtl''}"
    using local_call_mnemonic [of i statements j] by (auto simp: statements_def)
  moreover have "effect (proc_statements p ! i) s = Some u"
    using path_call by (simp add: statements_def)
  ultimately obtain fl' where fl': "analyze_statement profile p return_abi abis allocations i s fl =
      propagate profile statements i u fl'" "\<exists>ds. fl' = fl\<lparr>flow_diagnostics := ds\<rparr>"
    unfolding statements_def by (rule analyze_statement_output)
  then have states: "flow_states fl' = flow_states fl" by auto
  have "propagate profile statements i u fl' = merge_state profile statements j (enter_call i u) fl'"
    using path_call by (simp add: propagate_def)
  with fl' clean show ?thesis
    using merge_records [of profile statements j "enter_call i u" fl'] path_call len states by simp
next
  case (path_return frame outer)
  define ds where "ds = validate_statement_width profile (statements ! i) s abis allocations
      (flow_diagnostics fl)"
  have fl': "analyze_statement profile p return_abi abis allocations i s fl =
      handle_return profile p return_abi (statements ! i) s (fl\<lparr>flow_diagnostics := ds\<rparr>)"
    using path_return by (auto simp: analyze_statement_def Let_def ds_def statements_def)
  have "run_stack s = frame_stack frame"
    using handle_return_clean [OF clean [unfolded fl']] path_return by (auto simp: return_fits_def)
  then have "analyze_statement profile p return_abi abis allocations i s fl =
      merge_state profile statements j t (fl\<lparr>flow_diagnostics := ds\<rparr>)"
    using fl' path_return by (simp add: handle_return_def statements_def)
  with clean show ?thesis using merge_records [of profile statements j t] path_return len by simp
qed

end
