(* ===== verification/Lint_Macros.thy ===== *)
theory Lint_Macros
  imports Lint_Source
begin

text \<open>
  What the assembler does with the widths, independently of the linter. The macros of the firmware are transcribed with their
  bodies from \<^verbatim>\<open>src/macro/utility.asm\<close> and the other sources; ca65 replaces a macro by its body, and
  only the directives \<^verbatim>\<open>.a8\<close>, \<^verbatim>\<open>.a16\<close>, \<^verbatim>\<open>.i8\<close> and \<^verbatim>\<open>.i16\<close> change the widths for which it encodes
  immediates. The table of   \<^verbatim>\<open>parse_procedures\<close> agrees with this for all macros but those of \<open>untracked_macros\<close>.
\<close>

section \<open>The macros of the firmware\<close>

text \<open>
  Names and mnemonics are in lower case, as the linter compares them, and each line of a body is split into mnemonic
  and operand.
\<close>

type_synonym macro_body = "(string \<times> string) list" \<comment> \<open>mnemonic and operand of each line\<close>

definition utility_macro :: "string \<Rightarrow> macro_body option" where
  "utility_macro m =
    (if m = ''m16'' then Some [(''rep'', ''#$20''), (''.a16'', [])]
     else if m = ''m8'' then Some [(''sep'', ''#$20''), (''.a8'', [])]
     else if m = ''i16'' then Some [(''rep'', ''#$10''), (''.i16'', [])]
     else if m = ''i8'' then Some [(''sep'', ''#$10''), (''.i8'', [])]
     else if m = ''mi16'' then Some [(''rep'', ''#$30''), (''.a16'', []), (''.i16'', [])]
     else if m = ''mi8'' then Some [(''sep'', ''#$30''), (''.a8'', []), (''.i8'', [])]
     else if m = ''enternativem8i16'' then Some [(''clc'', []), (''xce'', []), (''rep'', ''#$ff''),
        (''sep'', ''#$24''), (''.a8'', []), (''.i16'', [])]
     else if m = ''interrupt_entry'' then Some []
     else if m = ''plp_interrupt'' then Some [(''plp'', [])]
     else if m = ''assert_m8_i8'' then Some [(''.a8'', []), (''.i8'', [])]
     else if m = ''assert_m8_i16'' then Some [(''.a8'', []), (''.i16'', [])]
     else if m = ''assert_m16_i8'' then Some [(''.a16'', []), (''.i8'', [])]
     else if m = ''assert_m16_i16'' then Some [(''.a16'', []), (''.i16'', [])]
     else if m = ''plp_m8_i8'' then Some [(''plp'', []), (''.a8'', []), (''.i8'', [])]
     else if m = ''plp_m8_i16'' then Some [(''plp'', []), (''.a8'', []), (''.i16'', [])]
     else if m = ''plp_m16_i8'' then Some [(''plp'', []), (''.a16'', []), (''.i8'', [])]
     else if m = ''plp_m16_i16'' then Some [(''plp'', []), (''.a16'', []), (''.i16'', [])]
     else if m = ''inc32'' then Some [(''m16'', []), (''inc'', ''address''), (''bne'', ''@end''),
        (''inc'', ''address + 2''), (''@end:'', [])]
     else if m = ''setdbr'' then Some [(''pea'', ''bank << 8''), (''plb'', []), (''plb'', [])]
     else if m = ''setdp'' then Some [(''pea'', ''address''), (''pld'', [])]
     else if m = ''suspendnmi'' then Some [(''lda'', ''shadow''), (''pha'', []), (''phb'', []),
        (''setdbr'', ''$00''), ('':'', []), (''lda'', ''HVBJOY''), (''bmi'', '':-''), (''stz'', ''NMITIMEN''),
        (''plb'', []), (''stz'', ''shadow'')]
     else if m = ''restorenmi'' then Some [(''phb'', []), (''setdbr'', ''$00''), ('':'', []),
        (''lda'', ''HVBJOY''), (''bmi'', '':-''), (''plb'', []), (''pla'', []), (''sta'', ''shadow''),
        (''phb'', []), (''setdbr'', ''$00''), (''sta'', ''NMITIMEN''), (''plb'', [])]
     else None)"

text \<open>
  The macros in the other sources that have a width directive or another macro in their body, with these lines of it. Nothing
  else concerns the widths.
\<close>

definition firmware_macro :: "string \<Rightarrow> macro_body option" where
  "firmware_macro m =
    (if m = ''networkdecimaldigit'' then Some [(''m8'', []), (''m16'', []), (''m8'', []), (''m16'', [])]
     else if m = ''modemincrement32'' then Some [(''m16'', []), (''m8'', [])]
     else if m = ''pppincrement32'' then Some [(''m16'', []), (''m8'', [])]
     else if m = ''pppdnsfail'' then Some [(''pppincrement32'', ''pppDnsDropCount'')]
     else if m = ''pppicmpreceiveerror'' then Some [(''pppincrement32'', ''pppIcmpInboundDropCount''),
        (''pppincrement32'', ''pppIcmpDropCount'')]
     else if m = ''pppicmprequestfail'' then Some [(''pppincrement32'', ''pppIcmpRequestDropCount'')]
     else if m = ''pppipv4receiveerror'' then Some [(''pppincrement32'', ''pppIpv4DropCount'')]
     else if m = ''pppipv4entera16'' then Some [(''m8'', []), (''m16'', [])]
     else if m = ''pppntpfail'' then Some [(''pppincrement32'', ''pppNtpDropCount'')]
     else if m = ''pppudpreceiveerror'' then Some [(''pppincrement32'', ''pppUdpDropCount'')]
     else if m = ''pppudpentera16'' then Some [(''m8'', []), (''m16'', [])]
     else if m = ''clearramall'' then Some [(''.a16'', []), (''.i16'', []), (''m8'', []), (''.i16'', []), (''mi16'', [])]
     else None)"

definition macro_names :: "string list" where
  "macro_names =
    [''m16'', ''m8'', ''i16'', ''i8'', ''mi16'', ''mi8'', ''enternativem8i16'', ''interrupt_entry'',
     ''plp_interrupt'', ''assert_m8_i8'', ''assert_m8_i16'', ''assert_m16_i8'', ''assert_m16_i16'',
     ''plp_m8_i8'', ''plp_m8_i16'', ''plp_m16_i8'', ''plp_m16_i16'', ''inc32'', ''setdbr'', ''setdp'',
     ''suspendnmi'', ''restorenmi''] @
    [''networkdecimaldigit'', ''modemincrement32'', ''pppincrement32'', ''pppdnsfail'', ''pppicmpreceiveerror'',
     ''pppicmprequestfail'', ''pppipv4receiveerror'', ''pppipv4entera16'', ''pppntpfail'',
     ''pppudpreceiveerror'', ''pppudpentera16'', ''clearramall'']"

definition macro_expansion :: "string \<Rightarrow> macro_body option" where
  "macro_expansion m = (case utility_macro m of None \<Rightarrow> firmware_macro m | Some body \<Rightarrow> Some body)"

lemma macro_names: "m \<notin> set macro_names \<Longrightarrow> macro_expansion m = None"
  by (simp add: macro_expansion_def utility_macro_def firmware_macro_def macro_names_def)

section \<open>Expansion and directives\<close>

text \<open>
  The mnemonics that a line with the mnemonic \<open>m\<close> assembles to, \<open>None\<close> if the depth is not enough. Depth 4 is enough for
  every macro (\<open>macros_expand\<close>).
\<close>

fun expand_macro :: "nat \<Rightarrow> string \<Rightarrow> string list option" where
  "expand_macro 0 m = None"
| "expand_macro (Suc depth) m =
    (case macro_expansion m of
       None \<Rightarrow> Some [m]
     | Some body \<Rightarrow> map_option concat (those (map (expand_macro depth) (map fst body))))"

definition directive_a :: "string \<Rightarrow> width option \<Rightarrow> width option" where
  "directive_a m a = (if m = ''.a8'' then Some Eight else if m = ''.a16'' then Some Sixteen else a)"

definition directive_i :: "string \<Rightarrow> width option \<Rightarrow> width option" where
  "directive_i m i = (if m = ''.i8'' then Some Eight else if m = ''.i16'' then Some Sixteen else i)"

definition directive_widths :: "string \<Rightarrow> width option \<times> width option \<Rightarrow> width option \<times> width option" where
  "directive_widths m ws = (directive_a m (fst ws), directive_i m (snd ws))"

definition asm_next :: "statement \<Rightarrow> width option \<times> width option \<Rightarrow> width option \<times> width option" where
  "asm_next st ws =
    (case expand_macro 4 (mnemonic st) of None \<Rightarrow> ws | Some ms \<Rightarrow> fold directive_widths ms ws)"

text \<open>The widths after some statements of a procedure, which starts with none declared.\<close>

definition asm_widths :: "statement list \<Rightarrow> width option \<times> width option" where
  "asm_widths statements = fold asm_next statements (None, None)"

text \<open>The widths with which statement \<open>k\<close> is assembled: those before it, or a directive that it is itself.\<close>

definition encoded_widths :: "statement list \<Rightarrow> nat \<Rightarrow> width option \<times> width option" where
  "encoded_widths statements k = directive_widths (mnemonic (statements ! k)) (asm_widths (take k statements))"

text \<open>The macros that change the widths without the linter knowing.\<close>

definition untracked_macros :: "string list" where
  "untracked_macros =
    [''networkdecimaldigit'', ''plp_m8_i8'', ''plp_m8_i16'', ''plp_m16_i8'', ''plp_m16_i16'', ''inc32'',
     ''modemincrement32'', ''pppincrement32'', ''pppdnsfail'', ''pppicmpreceiveerror'', ''pppicmprequestfail'',
     ''pppipv4receiveerror'', ''pppntpfail'', ''pppudpreceiveerror'', ''clearramall'']"

definition tracked_before :: "statement list \<Rightarrow> nat \<Rightarrow> bool" where
  "tracked_before statements k \<longleftrightarrow> (\<forall>j < k. mnemonic (statements ! j) \<notin> set untracked_macros)"

section \<open>The table of the linter\<close>

definition or_else :: "'a option \<Rightarrow> 'a option \<Rightarrow> 'a option" where
  "or_else x y = (case x of None \<Rightarrow> y | Some w \<Rightarrow> Some w)"

lemma fold_directives:
  "fold directive_widths ms ws =
    (or_else (fst (fold directive_widths ms (None, None))) (fst ws), or_else (snd (fold directive_widths ms (None, None))) (snd ws))"
proof (induction ms arbitrary: ws rule: rev_induct)
  case (snoc m ms)
  show ?case unfolding fold_append comp_apply by (subst snoc) (simp add: directive_widths_def directive_a_def directive_i_def or_else_def)
qed (simp add: or_else_def)

lemma macro_asm_table:
  "macro_asm_a m a = or_else (macro_asm_a m None) a" "macro_asm_i m i = or_else (macro_asm_i m None) i"
  by (simp_all add: macro_asm_a_def macro_asm_i_def or_else_def)

text \<open>Every macro expands; the table of the linter is right for it unless it is one of the untracked, and wrong for these.\<close>

definition macro_checked :: "string \<Rightarrow> bool" where
  "macro_checked m \<longleftrightarrow>
     (case expand_macro 4 m of
        None \<Rightarrow> False
      | Some ms \<Rightarrow> (m \<notin> set untracked_macros) =
          (fold directive_widths ms (None, None) = (macro_asm_a m None, macro_asm_i m None))) \<and>
     directive_a m None = None \<and> directive_i m None = None"

lemma macros_expand: "list_all macro_checked macro_names"
  by (simp add: macro_names_def macro_checked_def macro_expansion_def utility_macro_def firmware_macro_def untracked_macros_def
      directive_widths_def directive_a_def directive_i_def macro_asm_a_def macro_asm_i_def eval_nat_numeral)

lemma table_names:
  "list_all (List.member macro_names)
    [''m8'', ''m16'', ''i8'', ''i16'', ''mi8'', ''mi16'', ''enternativem8i16'', ''assert_m8_i8'', ''assert_m8_i16'',
     ''assert_m16_i8'', ''assert_m16_i16'', ''pppipv4entera16'', ''pppudpentera16'']"
  by (simp add: macro_names_def)

lemma asm_next_table:
  assumes "mnemonic st = m" and "m \<notin> set untracked_macros"
  shows "asm_next st (a, i) = (macro_asm_a m (directive_a m a), macro_asm_i m (directive_i m i))"
proof (cases "m \<in> set macro_names")
  case True
  then have checked: "macro_checked m" using macros_expand by (simp only: list_all_iff)
  then obtain ms where ms: "expand_macro 4 m = Some ms" "fold directive_widths ms (None, None) = (macro_asm_a m None, macro_asm_i m None)"
    using assms(2) unfolding macro_checked_def by (cases "expand_macro 4 m") auto
  have none: "directive_a m None = None" "directive_i m None = None" using checked by (simp_all add: macro_checked_def)
  then have "directive_a m a = a" "directive_i m i = i" by (auto simp: directive_a_def directive_i_def split: if_splits)
  moreover have "asm_next st (a, i) = fold directive_widths ms (a, i)" by (simp add: asm_next_def assms(1) ms(1))
  moreover have "\<dots> = (or_else (macro_asm_a m None) a, or_else (macro_asm_i m None) i)"
    using fold_directives [of ms "(a, i)"] ms(2) by simp
  ultimately show ?thesis by (simp only: macro_asm_table [of m, symmetric])
next
  case False
  then have expand: "expand_macro 4 m = Some [m]" using macro_names [of m] by (simp add: eval_nat_numeral)
  have "m \<notin> {''m8'', ''m16'', ''i8'', ''i16'', ''mi8'', ''mi16'', ''enternativem8i16'', ''assert_m8_i8'',
      ''assert_m8_i16'', ''assert_m16_i8'', ''assert_m16_i16'', ''pppipv4entera16'', ''pppudpentera16''}"
    using False table_names by (auto simp: List.member_iff)
  then have "macro_asm_a m w = w \<and> macro_asm_i m w = w" for w
    by (simp add: macro_asm_a_def macro_asm_i_def)
  with expand show ?thesis using assms(1) by (simp add: asm_next_def directive_widths_def)
qed

end
