(* ===== verification/Lint_Parsing.thy ===== *)
theory Lint_Parsing
  imports Lint_Macros
begin

text \<open>
  What \<open>parse_procedures\<close> makes of a source file: each statement is an active line of the file, split
  into mnemonic and operand, and it carries the widths the assembler has at that line.
\<close>

section \<open>Well-formed statements\<close>

text \<open>
  A statement as the parser makes it: its mnemonic and operand come from its text. A label is its
  own mnemonic, so no label is mistaken for an instruction.
\<close>

definition well_formed_statement :: "statement \<Rightarrow> bool" where
  "well_formed_statement st \<longleftrightarrow>
    trim (stmt_text st) = stmt_text st \<and> stmt_text st \<noteq> [] \<and>
    mnemonic st = to_ascii_lowercase (fst (split_statement (stmt_text st))) \<and>
    operand st = snd (split_statement (stmt_text st))"

lemma label_has_colon:
  assumes "well_formed_statement st" and "is_label (stmt_text st)"
  shows "ends_with (CHR '':'') (mnemonic st)"
proof -
  have "mnemonic st = map ascii_lower (stmt_text st)"
    using assms label_mnemonic [of "stmt_text st"]
    by (simp add: well_formed_statement_def to_ascii_lowercase_def)
  moreover have "ascii_lower (CHR '':'') = CHR '':''" by (simp add: ascii_lower_def Let_def)
  ultimately show ?thesis
    using assms(2) by (simp add: is_label_def ends_with_def last_map)
qed

text \<open>The statement is what a build of the profile assembles at that line of the file.\<close>

definition source_statement :: "path \<Rightarrow> string \<Rightarrow> profile \<Rightarrow> statement \<Rightarrow> bool" where
  "source_statement path source profile st \<longleftrightarrow>
    (let line = loc_line (stmt_location st)
     in loc_path (stmt_location st) = path \<and> 0 < line \<and> line \<le> length (text_lines source) \<and>
        active_lines source profile ! (line - 1) \<and>
        stmt_text st = trim (strip_comment (text_lines source ! (line - 1))))"

section \<open>The widths of the assembler\<close>

text \<open>A statement carries the widths it is assembled with, as long as no untracked macro stands before it.\<close>

definition asm_tracked :: "statement list \<Rightarrow> bool" where
  "asm_tracked statements \<longleftrightarrow>
    (\<forall>k < length statements. tracked_before statements k \<longrightarrow>
      (asm_a (statements ! k), asm_i (statements ! k)) = encoded_widths statements k)"

lemma asm_widths_snoc: "asm_widths (statements @ [st]) = asm_next st (asm_widths statements)"
  by (simp add: asm_widths_def)

lemma tracked_before_snoc:
  "k \<le> length statements \<Longrightarrow> tracked_before (statements @ [st]) k \<longleftrightarrow> tracked_before statements k"
  "tracked_before (statements @ [st]) (Suc (length statements)) \<longleftrightarrow>
    tracked_before statements (length statements) \<and> mnemonic st \<notin> set untracked_macros"
  by (auto simp: tracked_before_def nth_append less_Suc_eq)

lemma asm_tracked_snoc:
  "asm_tracked (statements @ [st]) \<longleftrightarrow> asm_tracked statements \<and>
    (tracked_before statements (length statements) \<longrightarrow>
      (asm_a st, asm_i st) = directive_widths (mnemonic st) (asm_widths statements))"
  by (auto simp: asm_tracked_def encoded_widths_def tracked_before_snoc(1) nth_append less_Suc_eq)

section \<open>The invariant of the parser\<close>

definition well_typed_procedure :: "path \<Rightarrow> string \<Rightarrow> profile \<Rightarrow> procedure \<Rightarrow> bool" where
  "well_typed_procedure path source profile p \<longleftrightarrow>
    (\<forall>st \<in> set (proc_statements p).
      well_formed_statement st \<and> source_statement path source profile st) \<and>
    asm_tracked (proc_statements p) \<and>
    (proc_kind p = Interrupt \<longrightarrow> proc_abi p = None)"

text \<open>An ordinary procedure without entry widths is reported, so none slips by unanalysed.\<close>

definition analysable :: "procedure \<Rightarrow> bool" where
  "analysable p \<longleftrightarrow> proc_kind p = Ordinary \<longrightarrow> proc_abi p \<noteq> None"

definition parse_inv :: "path \<Rightarrow> string \<Rightarrow> profile \<Rightarrow> parse_state \<Rightarrow> bool" where
  "parse_inv path source profile st \<longleftrightarrow>
    (\<forall>p \<in> set (parsed st). well_typed_procedure path source profile p) \<and>
    (par_diagnostics st = {} \<longrightarrow> (\<forall>p \<in> set (parsed st). analysable p)) \<and>
    (case current st of
       None \<Rightarrow> True
     | Some p \<Rightarrow> well_typed_procedure path source profile p \<and> proc_abi p = None \<and>
         (tracked_before (proc_statements p) (length (proc_statements p)) \<longrightarrow>
           asm_widths (proc_statements p) = (par_asm_a st, par_asm_i st)))"

lemma begin_procedure_inv:
  "parse_inv path source profile st \<Longrightarrow>
    parse_inv path source profile (begin_procedure profile loc name st)"
  by (auto simp: parse_inv_def begin_procedure_def well_typed_procedure_def asm_tracked_def
      asm_widths_def)

lemma end_procedure_inv:
  "parse_inv path source profile st \<Longrightarrow> parse_inv path source profile (end_procedure profile st)"
  by (auto simp: parse_inv_def end_procedure_def well_typed_procedure_def analysable_def
      split: option.splits if_splits)

lemma parse_directive_facts:
  assumes "parse_directive options profile loc code lower p st = (p', st')"
  shows "proc_statements p' = proc_statements p \<and> proc_abi p' = proc_abi p \<and>
    parsed st' = parsed st \<and> par_diagnostics st \<subseteq> par_diagnostics st' \<and>
    par_asm_a st' = directive_a lower (par_asm_a st) \<and>
    par_asm_i st' = directive_i lower (par_asm_i st)"
  using assms
  by (auto simp: parse_directive_def directive_a_def directive_i_def accumulator_directive_def
      index_directive_def report_if_def split: if_splits)

lemma parse_statement_inv:
  assumes inv: "parse_inv path source profile st" and current: "current st = Some p"
    and code: "code = trim (strip_comment original)" "code \<noteq> []"
    and line: "k < length (text_lines source)" "active_lines source profile ! k"
      "original = text_lines source ! k"
  shows "parse_inv path source profile
      (parse_statement options profile \<lparr>loc_path = path, loc_line = k + 1\<rparr> code p st)"
proof -
  let ?loc = "\<lparr>loc_path = path, loc_line = k + 1\<rparr>"
  let ?lower = "to_ascii_lowercase (fst (split_statement code))"
  obtain p' st' where dir: "parse_directive options profile ?loc code ?lower p st = (p', st')"
    by fastforce
  note facts = parse_directive_facts [OF dir]
  define new where "new = \<lparr>stmt_location = ?loc, stmt_text = code, mnemonic = ?lower,
      operand = snd (split_statement code), asm_a = par_asm_a st', asm_i = par_asm_i st'\<rparr>"
  have p: "well_typed_procedure path source profile p" "proc_abi p = None"
      "tracked_before (proc_statements p) (length (proc_statements p)) \<Longrightarrow>
        asm_widths (proc_statements p) = (par_asm_a st, par_asm_i st)"
    using inv current by (auto simp: parse_inv_def)
  have new: "well_formed_statement new" "source_statement path source profile new"
    using code line by (simp_all add: new_def well_formed_statement_def source_statement_def Let_def)
  have "well_typed_procedure path source profile
      (p'\<lparr>proc_statements := proc_statements p' @ [new]\<rparr>)"
    using p facts new by (auto simp: well_typed_procedure_def asm_tracked_snoc directive_widths_def new_def)
  moreover have "asm_widths (proc_statements p' @ [new]) =
      (macro_asm_a ?lower (par_asm_a st'), macro_asm_i ?lower (par_asm_i st'))"
    if "tracked_before (proc_statements p' @ [new]) (Suc (length (proc_statements p')))"
    using p facts that asm_next_table [of new ?lower] by (simp add: asm_widths_snoc tracked_before_snoc new_def)
  ultimately show ?thesis
    using inv p facts dir
    by (auto simp: parse_statement_def Let_def split_beta parse_inv_def report_if_def new_def)
qed

lemma parse_line_inv:
  assumes "parse_inv path source profile st"
    and "k < length (text_lines source)" "active = active_lines source profile ! k"
      "original = text_lines source ! k"
  shows "parse_inv path source profile (parse_line options profile path (k, active, original) st)"
  using assms begin_procedure_inv end_procedure_inv parse_statement_inv
  by (simp add: parse_line_def Let_def split: option.split)

lemma parse_fold_inv:
  assumes "parse_inv path source profile st"
  shows "parse_inv path source profile
    (fold (parse_line options profile path)
      (enumerate 0 (zip (active_lines source profile) (text_lines source))) st)"
proof (rule fold_invariant [where P = "parse_inv path source profile" and
      Q = "\<lambda>(k, active, original). k < length (text_lines source) \<and>
        active = active_lines source profile ! k \<and> original = text_lines source ! k"])
  have "length (active_lines source profile) = length (text_lines source)"
    by (simp add: active_lines_def)
  then show "x \<in> set (enumerate 0 (zip (active_lines source profile) (text_lines source))) \<Longrightarrow>
      case x of (k, active, original) \<Rightarrow> k < length (text_lines source) \<and>
        active = active_lines source profile ! k \<and> original = text_lines source ! k" for x
    by (auto simp: in_set_enumerate_eq)
qed (use assms parse_line_inv in auto)

lemma parse_procedures_inv:
  assumes "parse_procedures path source profile options ds = (ps, ds')" and "p \<in> set ps"
  shows "well_typed_procedure path source profile p \<and> (ds' = {} \<longrightarrow> analysable p)"
proof -
  have "parse_inv path source profile (parse_start ds)"
    by (simp add: parse_inv_def parse_start_def)
  from parse_fold_inv [OF this, of options] assms show ?thesis
    by (auto simp: parse_procedures_def Let_def parse_inv_def)
qed

section \<open>Diagnostics of the parser\<close>

lemma parse_line_mono:
  "par_diagnostics st \<subseteq> par_diagnostics (parse_line options profile path indexed st)"
proof -
  have "par_diagnostics st \<subseteq> par_diagnostics (parse_statement options profile loc code p st)"
    for loc code p
  proof -
    obtain p' st' where dir: "parse_directive options profile loc code
        (to_ascii_lowercase (fst (split_statement code))) p st = (p', st')" by fastforce
    with parse_directive_facts [OF dir] show ?thesis
      by (auto simp: parse_statement_def Let_def split_beta report_if_def)
  qed
  then show ?thesis
    by (auto simp: parse_line_def begin_procedure_def end_procedure_def Let_def
        split: prod.split option.splits if_splits)
qed

lemma parse_procedures_mono:
  assumes "parse_procedures path source profile options ds = (ps, ds')"
  shows "ds \<subseteq> ds'"
proof -
  have "ds \<subseteq> par_diagnostics (fold (parse_line options profile path) xs (parse_start ds))" for xs
    by (rule fold_invariant [where P = "\<lambda>st. ds \<subseteq> par_diagnostics st" and Q = "\<lambda>_. True"])
      (use parse_line_mono in \<open>fastforce simp: parse_start_def\<close>)+
  then show ?thesis using assms by (auto simp: parse_procedures_def Let_def)
qed

section \<open>The parser is well typed\<close>


definition typed_source :: string where
  "typed_source = concat (map (\<lambda>l. l @ [line_feed])
    [''.proc p ; x'', '' .a8'', '' .i16'', ''.ifdef MODEM_SMOKE_TEST'', '' nop'', ''.endif'', ''@l:'', '' M16'',
     '' LDA #1'', '' rts'', ''.endproc''])"


end
