(* ===== verification/Worklist.thy ===== *)
theory Worklist
  imports Main "HOL-Library.While_Combinator"
begin

text \<open>
  The contract between a work-queue analysis and the paths it has to cover, as a locale.

  The client is the argument over runs: when the loop over the queue ends with a clean record, every
  configuration on every path from a recorded one is safe. The provider promises what one turn of
  the loop does: it keeps what is recorded, it queues what it adds, and after a clean turn the
  configuration it took is safe and its successors are recorded up to a normal form.
  \<open>bounded_worklist\<close> adds what makes the loop end: everything recorded is queued exactly once, and
  there is a bound on the number of recordings.
\<close>

locale queue_loop =
  fixes turn :: "'f \<Rightarrow> 'f"
    and pending :: "'f \<Rightarrow> 'n list"
    and inv :: "'f \<Rightarrow> bool"
  assumes inv_turn: "inv f \<Longrightarrow> pending f \<noteq> [] \<Longrightarrow> inv (turn f)"
begin

lemma run_inv:
  assumes run: "while_option (\<lambda>f. pending f \<noteq> []) turn f = Some g" and "inv f"
  shows "inv g"
  by (rule while_option_rule [OF _ run, where P = inv]) (use assms inv_turn in blast)+

end

locale worklist = queue_loop turn pending inv
  for turn :: "'f \<Rightarrow> 'f" and pending :: "'f \<Rightarrow> 'n list" and inv :: "'f \<Rightarrow> bool" +
  fixes recorded :: "'f \<Rightarrow> 'n set"
    and clean :: "'f \<Rightarrow> bool"
    and path :: "'n \<Rightarrow> 'n \<Rightarrow> bool"
    and safe :: "'n \<Rightarrow> bool"
    and norm :: "'n \<Rightarrow> 'n"
  assumes turn_clean: "pending f \<noteq> [] \<Longrightarrow> clean (turn f) \<Longrightarrow> clean f"
    and turn_recorded: "pending f \<noteq> [] \<Longrightarrow> recorded f \<subseteq> recorded (turn f)"
    and turn_pending: "pending f = n # ns \<Longrightarrow>
          set ns \<union> (recorded (turn f) - recorded f) \<subseteq> set (pending (turn f))"
    and turn_safe: "pending f = n # ns \<Longrightarrow> clean (turn f) \<Longrightarrow> safe n"
    and turn_covers: "inv f \<Longrightarrow> pending f = n # ns \<Longrightarrow> clean (turn f) \<Longrightarrow> path n m \<Longrightarrow>
          \<exists>r \<in> recorded (turn f). norm r = norm m"
    and norm_safe: "inv f \<Longrightarrow> r \<in> recorded f \<Longrightarrow> norm r = norm n \<Longrightarrow> safe r \<Longrightarrow> safe n"
    and norm_path: "inv f \<Longrightarrow> r \<in> recorded f \<Longrightarrow> norm r = norm n \<Longrightarrow> path n m \<Longrightarrow>
          \<exists>q. path r q \<and> norm q = norm m"
begin

definition processed :: "'f \<Rightarrow> 'n \<Rightarrow> bool" where
  "processed f n \<longleftrightarrow> safe n \<and> (\<forall>m. path n m \<longrightarrow> (\<exists>r \<in> recorded f. norm r = norm m))"

definition covers :: "'f \<Rightarrow> bool" where
  "covers f \<longleftrightarrow> (clean f \<longrightarrow> (\<forall>n \<in> recorded f. n \<in> set (pending f) \<or> processed f n))"

lemma processed_turn: "pending f \<noteq> [] \<Longrightarrow> processed f n \<Longrightarrow> processed (turn f) n"
  using turn_recorded [of f] unfolding processed_def by blast

lemma covers_turn:
  assumes inv: "inv f" and covers: "covers f" and queue: "pending f = n # ns"
  shows "covers (turn f)"
  unfolding covers_def
proof (intro impI ballI)
  fix m assume clean: "clean (turn f)" and m: "m \<in> recorded (turn f)"
  have nonempty: "pending f \<noteq> []" using queue by simp
  show "m \<in> set (pending (turn f)) \<or> processed (turn f) m"
  proof (cases "m \<in> recorded f")
    case False
    then show ?thesis using turn_pending [OF queue] m by blast
  next
    case True
    from turn_clean [OF nonempty clean] covers True
    consider "m = n" | "m \<in> set ns" | "processed f m"
      unfolding covers_def queue by auto
    then show ?thesis
    proof cases
      case 1
      then show ?thesis
        using turn_safe [OF queue clean] turn_covers [OF inv queue clean] by (auto simp: processed_def)
    next
      case 2
      then show ?thesis using turn_pending [OF queue] by blast
    next
      case 3
      then show ?thesis using processed_turn [OF nonempty] by blast
    qed
  qed
qed

lemma run_recorded:
  assumes run: "while_option (\<lambda>f. pending f \<noteq> []) turn f = Some g"
  shows "recorded f \<subseteq> recorded g"
  by (rule while_option_rule [OF _ run, where P = "\<lambda>h. recorded f \<subseteq> recorded h"])
    (use turn_recorded in blast)+

lemma run_clean:
  assumes run: "while_option (\<lambda>f. pending f \<noteq> []) turn f = Some g" and "clean g"
  shows "clean f"
proof -
  have "clean g \<longrightarrow> clean f"
    by (rule while_option_rule [OF _ run, where P = "\<lambda>h. clean h \<longrightarrow> clean f"])
      (use turn_clean in blast)+
  with assms show ?thesis by simp
qed

lemma run_processed:
  assumes run: "while_option (\<lambda>f. pending f \<noteq> []) turn f = Some g" and inv: "inv f"
    and start: "recorded f \<subseteq> set (pending f)" and clean: "clean g" and n: "n \<in> recorded g"
  shows "processed g n"
proof -
  have "inv g \<and> covers g"
  proof (rule while_option_rule [OF _ run])
    show "inv f \<and> covers f" using inv start unfolding covers_def by blast
    fix h assume "inv h \<and> covers h" "pending h \<noteq> []"
    then show "inv (turn h) \<and> covers (turn h)"
      by (cases "pending h") (auto intro: covers_turn inv_turn)
  qed
  then show ?thesis
    using while_option_stop [OF run] clean n unfolding covers_def by auto
qed

theorem paths_covered:
  assumes run: "while_option (\<lambda>f. pending f \<noteq> []) turn f = Some g" and inv: "inv f"
    and start: "recorded f \<subseteq> set (pending f)" and clean: "clean g"
    and reached: "path\<^sup>*\<^sup>* n m" and n: "n \<in> recorded f"
  shows "\<exists>r \<in> recorded g. norm r = norm m"
  using reached
proof (induction rule: rtranclp_induct)
  case base
  then show ?case using n run_recorded [OF run] by blast
next
  case (step k m)
  then obtain r where r: "r \<in> recorded g" "norm r = norm k" by blast
  then obtain q where "path r q" "norm q = norm m"
    using norm_path [OF run_inv [OF run inv]] step.hyps(2) by blast
  moreover have "processed g r" by (rule run_processed [OF run inv start clean r(1)])
  ultimately show ?case unfolding processed_def by metis
qed

theorem paths_safe:
  assumes run: "while_option (\<lambda>f. pending f \<noteq> []) turn f = Some g" and inv: "inv f"
    and start: "recorded f \<subseteq> set (pending f)" and clean: "clean g"
    and reached: "path\<^sup>*\<^sup>* n m" and n: "n \<in> recorded f"
  shows "safe m"
proof -
  obtain r where r: "r \<in> recorded g" "norm r = norm m"
    using paths_covered [OF assms] by blast
  then show ?thesis
    using run_processed [OF run inv start clean r(1)] norm_safe [OF run_inv [OF run inv]]
    unfolding processed_def by blast
qed

end

locale bounded_worklist = queue_loop turn pending inv
  for turn :: "'f \<Rightarrow> 'f" and pending :: "'f \<Rightarrow> 'n list" and inv :: "'f \<Rightarrow> bool" +
  fixes count :: "'f \<Rightarrow> nat"
    and bound :: nat
  assumes inv_bound: "inv f \<Longrightarrow> count f \<le> bound"
    and turn_count: "inv f \<Longrightarrow> pending f \<noteq> [] \<Longrightarrow>
          length (pending (turn f)) + count f < length (pending f) + count (turn f)"
begin

theorem run_ends:
  assumes "inv f"
  shows "\<exists>g. while_option (\<lambda>f. pending f \<noteq> []) turn f = Some g"
proof (rule measure_while_option_Some
    [where P = inv and f = "\<lambda>f. length (pending f) + (bound - count f)"])
  fix h assume h: "inv h" "pending h \<noteq> []"
  have "count (turn h) \<le> bound" by (rule inv_bound [OF inv_turn [OF h]])
  with turn_count [OF h] inv_bound [OF h(1)]
  have "length (pending (turn h)) + (bound - count (turn h)) < length (pending h) + (bound - count h)"
    by linarith
  then show "inv (turn h) \<and>
      length (pending (turn h)) + (bound - count (turn h)) < length (pending h) + (bound - count h)"
    using inv_turn [OF h] by simp
qed (rule assms)

end

end
