(* ===== verification/Lint_Soundness.thy ===== *)
theory Lint_Soundness
  imports Lint_Paths Lint_Parsing Worklist "HOL-Library.Code_Target_Nat"
begin

text \<open>
  Soundness of the linter: the interpretation of \<open>worklist\<close> discharges its laws for
  \<open>analyze_step\<close>, and its client theorem says that a clean analysis has covered every path.
\<close>

section \<open>Labels and width macros\<close>

text \<open>Labels and width macros: the statements a normal form of the state is meant for.\<close>

definition neutral :: "statement \<Rightarrow> bool" where
  "neutral st \<longleftrightarrow> ends_with (CHR '':'') (mnemonic st) \<or> mnemonic st \<in> width_macros"

text \<open>Every mnemonic the linter knows, other than the width macros.\<close>

definition instructions :: "string set" where
  "instructions = branch_mnemonics \<union>
    {''jsr'', ''jsl'', ''rti'', ''rts'', ''rtl'', ''rep'', ''sep'', ''stp'', ''bra'', ''brl'', ''jmp'', ''jml'',
     ''adc'', ''and'', ''asl'', ''bit'', ''cmp'', ''dec'', ''eor'', ''inc'', ''lda'', ''lsr'', ''ora'', ''rol'',
     ''ror'', ''sbc'', ''sta'', ''stz'', ''trb'', ''tsb'', ''cpx'', ''cpy'', ''ldx'', ''ldy'', ''stx'', ''sty'',
     ''inc32'', ''pla'', ''plx'', ''ply'', ''plb'', ''pld'', ''plp'', ''plp_interrupt'',
     ''pha'', ''phx'', ''phy'', ''php'', ''phb'', ''phd'', ''pea'', ''pei'', ''per''} \<union>
    {''plp_m8_i8'', ''plp_m8_i16'', ''plp_m16_i8'', ''plp_m16_i16'',
     ''assert_m8_i8'', ''assert_m8_i16'', ''assert_m16_i8'', ''assert_m16_i16''} \<union>
    {m. is_terminal_return_macro m}"

lemma instructions_not_neutral:
  "m \<in> instructions \<Longrightarrow> \<not> ends_with (CHR '':'') m \<and> m \<notin> width_macros"
  by (auto simp: instructions_def branch_mnemonics_def is_terminal_return_macro_def ends_with_def
      width_macros_def)

lemma neutral_no_instruction: "neutral st \<Longrightarrow> mnemonic st \<notin> instructions"
  using instructions_not_neutral by (auto simp: neutral_def)

text \<open>What is not one of them has no use, so it is neither checked nor executed.\<close>

lemma not_instruction:
  assumes "m \<notin> instructions"
  shows "m \<notin> {''jsr'', ''jsl'', ''rti'', ''rts'', ''rtl'', ''rep'', ''sep'', ''stp'', ''bra'', ''brl'',
      ''jmp'', ''jml'', ''plp'', ''plp_interrupt''}"
    and "m \<notin> branch_mnemonics"
    and "\<not> accumulator_immediate m oper"
    and "\<not> index_immediate m oper"
    and "access_width m s = None"
    and "restored_widths m = None"
    and "asserted_widths m = None"
    and "pushed_item m s = None"
    and "\<not> is_terminal_return_macro m"
  using assms
  by (simp_all add: instructions_def accumulator_immediate_def index_immediate_def access_width_def
      restored_widths_def asserted_widths_def pushed_item_def)

lemma not_instruction_pull:
  "m \<notin> instructions \<Longrightarrow> pulled_items m s = None"
  "mnemonic st \<notin> instructions \<Longrightarrow> pull profile st s ds = None"
  using not_instruction(6) by (simp_all add: pulled_items_def pull_def Let_def instructions_def)

lemmas neutral_facts = not_instruction [OF neutral_no_instruction]
  not_instruction_pull(1) [OF neutral_no_instruction]
  not_instruction_pull(2) [OF neutral_no_instruction]

lemma neutral_effect:
  assumes "neutral st"
  shows "effect st s = Some (normalize_at_entry (mnemonic st) s)"
  using neutral_facts [OF assms]
  by (auto simp: effect_def transfer_def Let_def normalize_at_entry_other)

lemma neutral_successors:
  assumes "neutral (statements ! i)"
  shows "successors i statements labels anonymous =
    (if i + 1 < length statements then [i + 1] else [])"
  using neutral_facts(1,2) [OF assms] by (simp add: successors_def Let_def)

lemma neutral_step:
  assumes "neutral (statements ! i)" and "path_step statements (i, s) (j, t)"
  shows "j = i + 1 \<and> j < length statements \<and> t = normalize_at_entry (mnemonic (statements ! i)) s \<and>
    (\<forall>r. path_step statements (i, r) (j, normalize_at_entry (mnemonic (statements ! i)) r))"
  using assms(2)
proof (cases rule: path_step_cases)
  case path_next
  have j: "j = i + 1"
    using path_next by (simp add: neutral_successors [OF assms(1)] split: if_splits)
  have "path_step statements (i, r) (j, normalize_at_entry (mnemonic (statements ! i)) r)" for r
    using path_next by (intro path_step.path_next) (auto simp: neutral_effect [OF assms(1)])
  then show ?thesis using j path_next neutral_effect [OF assms(1)] by simp
next
  case (path_call u)
  then show ?thesis using local_call_mnemonic neutral_facts(1) [OF assms(1)] by fastforce
next
  case (path_return frame outer)
  then show ?thesis using neutral_facts(1) [OF assms(1)] by auto
qed

lemma neutral_safe:
  assumes "neutral (proc_statements p ! i)"
  shows "statement_safe p return_abi abis allocations (i, s)"
  using neutral_facts [OF assms]
  by (simp add: statement_safe_def Let_def widths_agree_def access_fits_def stack_fits_def
      asserts_hold_def return_fits_def interrupt_fits_def)

text \<open>The normal form of a state is only ever different where a label or a width macro stands.\<close>

lemma normalizer_cases:
  assumes wf: "\<forall>st \<in> set statements. well_formed_statement st" and i: "i < length statements"
  shows "(neutral (statements ! i) \<and>
      (\<forall>s. normalize_at_entry (normalizer statements i) s = s \<or>
        normalizer statements i = mnemonic (statements ! i) \<or>
        i + 1 < length statements \<and> normalizer statements (i + 1) = normalizer statements i \<and>
          ends_with (CHR '':'') (mnemonic (statements ! i))))
    \<or> (\<forall>s. normalize_at_entry (normalizer statements i) s = s)"
proof (cases "is_label (stmt_text (statements ! i))")
  case False
  then have "normalizer statements i = mnemonic (statements ! i)"
    using i by (simp add: normalizer_def Cons_nth_drop_Suc [symmetric])
  then show ?thesis
    by (cases "mnemonic (statements ! i) \<in> width_macros")
      (auto simp: neutral_def normalize_at_entry_other)
next
  case True
  then have colon: "ends_with (CHR '':'') (mnemonic (statements ! i))"
    using wf i by (auto intro: label_has_colon)
  then have neutral: "neutral (statements ! i)" by (simp add: neutral_def)
  have step: "drop i statements = statements ! i # drop (Suc i) statements"
    using i by (simp add: Cons_nth_drop_Suc)
  show ?thesis
  proof (cases "List.find (\<lambda>st. \<not> is_label (stmt_text st)) (drop (Suc i) statements)")
    case None
    then have "normalizer statements i = mnemonic (statements ! i)"
      using True by (simp add: normalizer_def step)
    with neutral show ?thesis by blast
  next
    case (Some st)
    then have "i + 1 < length statements" by (cases "i + 1 < length statements") auto
    moreover have "normalizer statements (i + 1) = normalizer statements i"
      using True Some by (simp add: normalizer_def step)
    ultimately show ?thesis using neutral colon by blast
  qed
qed

definition norm_state :: "statement list \<Rightarrow> nat \<times> runtime_state \<Rightarrow> nat \<times> runtime_state" where
  "norm_state statements n = (fst n, normalize_at_entry (normalizer statements (fst n)) (snd n))"

lemma norm_state_path:
  assumes wf: "\<forall>st \<in> set statements. well_formed_statement st"
    and norm: "norm_state statements (i, r) = norm_state statements (i, s)"
    and path: "path_step statements (i, s) (j, t)"
  shows "\<exists>q. path_step statements (i, r) (j, q) \<and>
      norm_state statements (j, q) = norm_state statements (j, t)"
proof -
  let ?norm = "normalize_at_entry (normalizer statements i)"
  have i: "i < length statements" using path by (cases rule: path_step_cases) auto
  have eq: "?norm r = ?norm s" using norm by (simp add: norm_state_def)
  show ?thesis
  proof (cases "r = s")
    case True
    then show ?thesis using path by blast
  next
    case False
    with eq have changed: "\<not> (\<forall>s. ?norm s = s)" by metis
    with normalizer_cases [OF wf i] have neutral: "neutral (statements ! i)" by blast
    note next_step = neutral_step [OF neutral path]
    from normalizer_cases [OF wf i] changed
    consider "normalizer statements i = mnemonic (statements ! i)"
      | "normalizer statements (i + 1) = normalizer statements i"
        "ends_with (CHR '':'') (mnemonic (statements ! i))"
      by blast
    then show ?thesis
    proof cases
      case 1
      then show ?thesis using next_step eq by metis
    next
      case 2
      then have "mnemonic (statements ! i) \<notin> width_macros"
        by (auto simp: width_macros_def ends_with_def)
      then have same: "normalize_at_entry (mnemonic (statements ! i)) u = u" for u
        by (rule normalize_at_entry_other)
      have "path_step statements (i, r) (j, r)" using next_step same by metis
      moreover have "norm_state statements (j, r) = norm_state statements (j, t)"
        using next_step same 2 eq by (simp add: norm_state_def)
      ultimately show ?thesis by blast
    qed
  qed
qed

lemma norm_state_safe:
  assumes wf: "\<forall>st \<in> set (proc_statements p). well_formed_statement st"
    and i: "i < length (proc_statements p)"
    and norm: "norm_state (proc_statements p) (i, r) = norm_state (proc_statements p) (i, s)"
    and safe: "statement_safe p return_abi abis allocations (i, r)"
  shows "statement_safe p return_abi abis allocations (i, s)"
proof (cases "r = s")
  case False
  then have "neutral (proc_statements p ! i)"
    using normalizer_cases [OF wf i] norm by (auto simp: norm_state_def)
  then show ?thesis by (rule neutral_safe)
qed (use safe in simp)

section \<open>The linter is a work-queue analysis\<close>

definition flow_wf :: "procedure \<Rightarrow> flow \<Rightarrow> bool" where
  "flow_wf p fl \<longleftrightarrow>
    (\<forall>st \<in> set (proc_statements p). well_formed_statement st) \<and>
    length (flow_states fl) = length (proc_statements p)"

interpretation lint: worklist
  "analyze_step profile p return_abi abis allocations" flow_queue "flow_wf p" recorded_states
  "\<lambda>fl. flow_diagnostics fl = {}" "path_step (proc_statements p)"
  "statement_safe p return_abi abis allocations" "norm_state (proc_statements p)"
  for profile p return_abi abis allocations
proof unfold_locales
  fix f :: flow
  let ?turn = "analyze_step profile p return_abi abis allocations"
  assume "flow_queue f \<noteq> []"
  then obtain n ns where queue: "flow_queue f = n # ns" by (cases "flow_queue f") auto
  note ext = analyze_step_extends [OF queue, of profile p return_abi abis allocations]
  show "flow_wf p f \<Longrightarrow> flow_wf p (?turn f)"
    using extends_length [OF ext] by (simp add: flow_wf_def)
  show "flow_diagnostics (?turn f) = {} \<Longrightarrow> flow_diagnostics f = {}"
    using extends_clean [OF ext] by simp
  show "recorded_states f \<subseteq> recorded_states (?turn f)" using extends_recorded [OF ext] by simp
next
  fix f :: flow and n :: "nat \<times> runtime_state" and ns :: "(nat \<times> runtime_state) list"
  let ?turn = "analyze_step profile p return_abi abis allocations"
  assume queue: "flow_queue f = n # ns"
  note ext = analyze_step_extends [OF queue, of profile p return_abi abis allocations]
  show "set ns \<union> (recorded_states (?turn f) - recorded_states f) \<subseteq> set (flow_queue (?turn f))"
    using ext by (auto simp: extends_def)
  have turn: "?turn f = analyze_statement profile p return_abi abis allocations (fst n) (snd n)
      (f\<lparr>flow_queue := ns\<rparr>)"
    by (cases n) (simp add: analyze_step_def queue)
  assume clean: "flow_diagnostics (?turn f) = {}"
  show "statement_safe p return_abi abis allocations n"
    using analyze_statement_safe [OF clean [unfolded turn]] by simp
  fix m assume wf: "flow_wf p f" and path: "path_step (proc_statements p) n m"
  have "norm_state (proc_statements p) m \<in> recorded_states (?turn f)"
    using analyze_statement_covers [OF clean [unfolded turn], of "fst m" "snd m"] wf path
    by (simp add: flow_wf_def turn norm_state_def)
  then show "\<exists>r \<in> recorded_states (?turn f).
      norm_state (proc_statements p) r = norm_state (proc_statements p) m"
    by (rule bexI [rotated]) (simp add: norm_state_def)
next
  fix f :: flow and r n :: "nat \<times> runtime_state"
  assume wf: "flow_wf p f" and r: "r \<in> recorded_states f"
    and norm: "norm_state (proc_statements p) r = norm_state (proc_statements p) n"
  obtain i u where r_pair: "r = (i, u)" by fastforce
  with norm obtain s where n_pair: "n = (i, s)" by (cases n) (simp add: norm_state_def)
  have i: "i < length (proc_statements p)"
    using wf r r_pair by (simp add: flow_wf_def recorded_states_def)
  show "statement_safe p return_abi abis allocations r \<Longrightarrow>
      statement_safe p return_abi abis allocations n"
    using norm_state_safe [OF _ i norm [unfolded r_pair n_pair]] wf
    by (simp add: flow_wf_def r_pair n_pair)
  fix m assume path: "path_step (proc_statements p) n m"
  show "\<exists>q. path_step (proc_statements p) r q \<and>
      norm_state (proc_statements p) q = norm_state (proc_statements p) m"
    using norm_state_path [OF _ norm [unfolded r_pair n_pair], of "fst m" "snd m"] wf path
    by (auto simp: flow_wf_def r_pair n_pair)
qed

section \<open>Soundness\<close>

lemma initial_flow_wf:
  assumes "\<forall>st \<in> set (proc_statements p). well_formed_statement st"
  shows "flow_wf p (initial_flow p entry ds)"
  using assms by (simp add: flow_wf_def initial_flow_def)

lemma initial_flow_recorded:
  assumes "proc_statements p \<noteq> []"
  shows "recorded_states (initial_flow p entry ds) = {(0, entry_state entry)}"
  using assms
  by (auto simp: recorded_states_def initial_flow_def nth_list_update split: if_splits)

lemma analyze_procedure_run:
  assumes "analyze_procedure profile p return_abi entry abis allocations ds = Some ds'"
    and "proc_statements p \<noteq> []"
  obtains g where "while_option (\<lambda>fl. flow_queue fl \<noteq> [])
      (analyze_step profile p return_abi abis allocations) (initial_flow p entry ds) = Some g"
    and "flow_diagnostics g = ds'"
  using assms by (auto simp: analyze_procedure_def)

text \<open>The core of soundness, for one procedure and one entry.\<close>

lemma analyze_procedure_safe:
  assumes run: "analyze_procedure profile p return_abi entry abis allocations ds = Some {}"
    and wf: "\<forall>st \<in> set (proc_statements p). well_formed_statement st"
    and path: "(path_step (proc_statements p))\<^sup>*\<^sup>* (0, entry_state entry) (i, s)"
    and i: "i < length (proc_statements p)"
  shows "statement_safe p return_abi abis allocations (i, s)"
proof -
  have nonempty: "proc_statements p \<noteq> []" using i by auto
  obtain g where g: "while_option (\<lambda>fl. flow_queue fl \<noteq> [])
      (analyze_step profile p return_abi abis allocations) (initial_flow p entry ds) = Some g"
    "flow_diagnostics g = {}"
    using analyze_procedure_run [OF run nonempty] .
  show ?thesis
    by (rule lint.paths_safe [OF g(1) initial_flow_wf [OF wf] _ g(2) path])
      (simp_all add: initial_flow_recorded [OF nonempty], simp add: initial_flow_def)
qed

lemma analyze_procedure_clean:
  assumes "analyze_procedure profile p return_abi entry abis allocations ds = Some {}"
  shows "ds = {}"
proof (cases "proc_statements p = []")
  case True
  then show ?thesis using assms by (simp add: analyze_procedure_def)
next
  case False
  from analyze_procedure_run [OF assms this] lint.run_clean show ?thesis
    by (metis flow.select_convs(3) initial_flow_def)
qed

section \<open>Files\<close>

lemma fold_option_clean:
  assumes "\<And>x s. f x s = Some {} \<Longrightarrow> s = {}" and "fold_option f xs s = Some {}"
  shows "s = {} \<and> (\<forall>x \<in> set xs. f x {} = Some {})"
  using assms(2)
proof (induction xs arbitrary: s)
  case (Cons x xs)
  then obtain s' where "f x s = Some s'" "fold_option f xs s' = Some {}"
    by (auto split: option.splits)
  with Cons.IH [of s'] assms(1) [of x s] show ?case by auto
qed simp

lemma analyze_entries_clean:
  assumes "analyze_entries profile abis allocations p ds = Some {}"
  shows "ds = {} \<and> (\<forall>(return_abi, entry) \<in> set (procedure_entries p).
    analyze_procedure profile p return_abi entry abis allocations {} = Some {})"
  using fold_option_clean [OF _ assms [unfolded analyze_entries_def]] analyze_procedure_clean
  by (fastforce split: prod.splits)

lemma analyze_procedures_clean:
  assumes "analyze_procedures profile procedures allocations ds = Some {}"
  shows "ds = {} \<and> (\<forall>p \<in> set procedures.
    analyze_entries profile (procedure_abis procedures) allocations p {} = Some {})"
  using fold_option_clean [OF _ assms [unfolded analyze_procedures_def]] analyze_entries_clean
  by blast

lemma parse_files_inv:
  assumes "parse_files options profile files ds = (ps, ds')"
  shows "ds \<subseteq> ds' \<and> (\<forall>p \<in> set ps. (\<exists>(path, source) \<in> set files.
    well_typed_procedure path source profile p) \<and> (ds' = {} \<longrightarrow> analysable p))"
proof -
  let ?P = "\<lambda>(ps, ds'). ds \<subseteq> ds' \<and> (\<forall>p \<in> set ps. (\<exists>(path, source) \<in> set files.
    well_typed_procedure path source profile p) \<and> (ds' = {} \<longrightarrow> analysable p))"
  have "?P (fold (parse_file options profile) files ([], ds))"
  proof (rule fold_invariant [where P = ?P and Q = "\<lambda>f. f \<in> set files"])
    fix f acc assume f: "f \<in> set files" and acc: "?P acc"
    obtain qs ds2 where parse: "parse_procedures (fst f) (snd f) profile options (snd acc) = (qs, ds2)"
      by fastforce
    then have "snd acc \<subseteq> ds2" by (rule parse_procedures_mono)
    with acc f parse parse_procedures_inv [OF parse] show "?P (parse_file options profile f acc)"
      by (fastforce simp: parse_file_def split_beta)
  qed auto
  then show ?thesis using assms by (simp add: parse_files_def)
qed

lemma lint_profile_clean:
  assumes lint: "lint_profile options files profile ds = Some {}"
  shows "ds = {} \<and> (\<exists>ps. parse_files options profile files {} = (ps, {}) \<and>
    analyze_procedures profile ps (collect_allocations files) {} = Some {})"
proof -
  obtain ps ds' where parse: "parse_files options profile files ds = (ps, ds')" by fastforce
  with lint have "analyze_procedures profile ps (collect_allocations files) ds' = Some {}"
    by (simp add: lint_profile_def)
  moreover from this have "ds' = {}" using analyze_procedures_clean by blast
  ultimately show ?thesis using parse_files_inv [OF parse] parse by simp
qed

lemma lint_workspace_clean:
  assumes "lint_workspace files options = Some {}"
  shows "lint_profile options files profile {} = Some {}"
proof -
  have "profile \<in> set all_profiles" by (cases profile) (simp_all add: all_profiles_def)
  with fold_option_clean [OF _ assms [unfolded lint_workspace_def]] lint_profile_clean
  show ?thesis by blast
qed

lemma lint_workspace_safe:
  assumes lint: "lint_workspace files options = Some {}"
    and parse: "parse_files options profile files {} = (ps, ds)" and p: "p \<in> set ps"
  shows "procedure_entries p \<noteq> []"
    and "\<forall>st \<in> set (proc_statements p). well_formed_statement st"
    and "(return_abi, entry) \<in> set (procedure_entries p) \<Longrightarrow>
      (path_step (proc_statements p))\<^sup>*\<^sup>* (0, entry_state entry) (i, s) \<Longrightarrow>
      i < length (proc_statements p) \<Longrightarrow>
      statement_safe p return_abi (procedure_abis ps) (collect_allocations files) (i, s)"
proof -
  from lint_profile_clean [OF lint_workspace_clean [OF lint], of profile] parse
  have ds: "ds = {}" and run: "analyze_procedures profile ps (collect_allocations files) {} = Some {}"
    by auto
  from parse_files_inv [OF parse] p ds
  have ready: "analysable p" and wf: "\<forall>st \<in> set (proc_statements p). well_formed_statement st"
    by (auto simp: well_typed_procedure_def)
  show "procedure_entries p \<noteq> []"
    using ready by (auto simp: procedure_entries_def analysable_def interrupt_entries_def
        split: procedure_kind.split)
  show "\<forall>st \<in> set (proc_statements p). well_formed_statement st" by (rule wf)
  show "statement_safe p return_abi (procedure_abis ps) (collect_allocations files) (i, s)"
    if "(return_abi, entry) \<in> set (procedure_entries p)"
      "(path_step (proc_statements p))\<^sup>*\<^sup>* (0, entry_state entry) (i, s)"
      "i < length (proc_statements p)"
  proof -
    have "analyze_procedure profile p return_abi entry (procedure_abis ps)
        (collect_allocations files) {} = Some {}"
      using analyze_procedures_clean [OF run] analyze_entries_clean p that(1) by blast
    then show ?thesis using analyze_procedure_safe wf that(2,3) by blast
  qed
qed

text \<open>
  C22: The work queue misses no path. When the linter accepts a set of source files, then in every build profile every
  procedure has been analysed under its entry widths (all four for an interrupt procedure), and wherever a path of the linter's
  own model arrives, which follows \<open>successors\<close> and local calls one statement at a time and changes widths and the stack of
  saved items as \<open>transfer\<close> does, all the checks hold: an immediate operand has the tracked encoding of the width in that
  state, a call meets the widths of the callee, an access with a literal offset and no index to a known allocation of fewer
  than \<open>2 ^ 64 - 1\<close> octets stays inside it (an indexed access is not checked), a pull finds an item of the kind and width it
  takes, a width assertion
  holds, and a return leaves balanced stacks and the widths of the ABI. What this says about the processor is the subject
  of \<^verbatim>\<open>Lint_Hardware\<close>.
\<close>

theorem lint_workspace_sound:
  assumes lint: "lint_workspace files options = Some {}"
    and parse: "parse_files options profile files {} = (ps, ds)" and p: "p \<in> set ps"
  shows "procedure_entries p \<noteq> [] \<and>
    (\<forall>return_abi entry i s.
      (return_abi, entry) \<in> set (procedure_entries p) \<longrightarrow>
      (path_step (proc_statements p))\<^sup>*\<^sup>* (0, entry_state entry) (i, s) \<longrightarrow>
      i < length (proc_statements p) \<longrightarrow>
      statement_safe p return_abi (procedure_abis ps) (collect_allocations files) (i, s))"
  using lint_workspace_safe [OF assms] by blast

text \<open>A procedure with a width change, a saved accumulator and a local subroutine.\<close>

definition sample_source :: string where
  "sample_source = concat (map (\<lambda>l. l @ [line_feed])
    [''v: .res 2'', ''.proc p'', '' .a8'', '' .i8'', '' pha;'', '' m16'', '' sta v'', '' m8'', '' jsr @s'',
     '' pla'', ''@s:'', '' rts'', ''.endproc''])"

lemma lint_workspace_sound_witness:
  "\<exists>p. proc_name p = ''p'' \<and> length (proc_statements p) = 10 \<and> procedure_entries p \<noteq> [] \<and>
    (\<forall>return_abi entry i s.
      (return_abi, entry) \<in> set (procedure_entries p) \<longrightarrow>
      (path_step (proc_statements p))\<^sup>*\<^sup>* (0, entry_state entry) (i, s) \<longrightarrow>
      i < length (proc_statements p) \<longrightarrow>
      statement_safe p return_abi
        (procedure_abis (fst (parse_files \<lparr>enforce_policy = True\<rparr> Normal_Profile
          [([''a.asm''], sample_source)] {})))
        (collect_allocations [([''a.asm''], sample_source)]) (i, s))"
proof -
  let ?files = "[([''a.asm''], sample_source)]"
  have lint: "lint_workspace ?files \<lparr>enforce_policy = True\<rparr> = Some {}"
    by code_simp
  have "map (\<lambda>p. (proc_name p, length (proc_statements p)))
      (fst (parse_files \<lparr>enforce_policy = True\<rparr> Normal_Profile ?files {})) = [(''p'', 10)]"
    by code_simp
  then obtain p where p: "p \<in> set (fst (parse_files \<lparr>enforce_policy = True\<rparr> Normal_Profile ?files {}))"
    "proc_name p = ''p''" "length (proc_statements p) = 10"
    by auto
  show ?thesis
    using lint_workspace_sound [OF lint prod.collapse [symmetric] p(1)] p(2,3) by blast
qed

end
