(* ===== verification/Lint_Termination.thy ===== *)
theory Lint_Termination
  imports Lint_Soundness
begin

text \<open>
  When the analysis ends. It keeps one state for every statement and every chain of local calls that
  leads there, so it ends when those chains are bounded: \<open>call_ranked\<close> gives every statement a rank
  that never drops along a branch and rises at every local call. The other way round, a local
  subroutine that calls itself keeps the linter busy for ever.
\<close>

section \<open>Ranks\<close>

definition call_ranked :: "statement list \<Rightarrow> (nat \<Rightarrow> nat) \<Rightarrow> bool" where
  "call_ranked statements r \<longleftrightarrow>
    (\<forall>i < length statements.
      (\<forall>j \<in> set (successors i statements (collect_labels statements)
                   (collect_anonymous_labels statements)). j < length statements \<longrightarrow> r i \<le> r j) \<and>
      (case local_call i statements of
         None \<Rightarrow> True
       | Some j \<Rightarrow> j < length statements \<longrightarrow> r i < r j))"

lemma call_ranked_call:
  assumes "call_ranked statements r" and "i < length statements"
    and "local_call i statements = Some j" and "j < length statements"
  shows "r i < r j"
  using assms(1) [unfolded call_ranked_def, rule_format, OF assms(2)] assms(3,4) by simp

definition returns :: "runtime_state \<Rightarrow> nat list" where
  "returns s = map frame_return_index (run_calls s)"

text \<open>A frame is there because a recorded state made the call.\<close>

primrec grounded :: "statement list \<Rightarrow> (nat \<times> runtime_state) set \<Rightarrow> call_frame list \<Rightarrow> bool" where
  "grounded statements R [] \<longleftrightarrow> True"
| "grounded statements R (frame # outer) \<longleftrightarrow>
    (\<exists>i s t. frame_return_index frame = i + 1 \<and> (i, s) \<in> R \<and> run_calls s = outer \<and>
       effect (statements ! i) s = Some t \<and> frame_stack frame = run_stack t) \<and>
    grounded statements R outer"

primrec frames_bounded :: "statement list \<Rightarrow> (nat \<Rightarrow> nat) \<Rightarrow> call_frame list \<Rightarrow> bool" where
  "frames_bounded statements r [] \<longleftrightarrow> True"
| "frames_bounded statements r (frame # outer) \<longleftrightarrow>
    frame_return_index frame \<le> length statements \<and>
    (frame_return_index frame < length statements \<longrightarrow> length outer \<le> r (frame_return_index frame)) \<and>
    frames_bounded statements r outer"

definition one_per_chain :: "(nat \<times> runtime_state) set \<Rightarrow> bool" where
  "one_per_chain R \<longleftrightarrow> (\<forall>i s t. (i, s) \<in> R \<longrightarrow> (i, t) \<in> R \<longrightarrow> returns s = returns t \<longrightarrow> s = t)"

lemma grounded_mono: "grounded statements R cs \<Longrightarrow> R \<subseteq> R' \<Longrightarrow> grounded statements R' cs"
  by (induction cs) (simp, fastforce)

text \<open>With one state per chain of return points, the return points determine the frames.\<close>

lemma grounded_determined:
  assumes unique: "one_per_chain R"
  shows "grounded statements R cs \<Longrightarrow> grounded statements R ds \<Longrightarrow>
    map frame_return_index cs = map frame_return_index ds \<Longrightarrow> cs = ds"
proof (induction cs arbitrary: ds)
  case Nil
  then show ?case by simp
next
  case (Cons f cs)
  then obtain g ds' where ds: "ds = g # ds'" and index: "frame_return_index f = frame_return_index g"
    by (cases ds) auto
  have outer: "cs = ds'" using Cons ds by auto
  obtain i s t where s: "frame_return_index f = i + 1" "(i, s) \<in> R" "run_calls s = cs"
    "effect (statements ! i) s = Some t" "frame_stack f = run_stack t"
    using Cons.prems(1) by auto
  obtain j u v where u: "frame_return_index g = j + 1" "(j, u) \<in> R" "run_calls u = ds'"
    "effect (statements ! j) u = Some v" "frame_stack g = run_stack v"
    using Cons.prems(2) ds by auto
  have "i = j" using s u index by simp
  moreover have "s = u"
    using unique s u \<open>i = j\<close> outer by (auto simp: one_per_chain_def returns_def)
  ultimately have "frame_stack f = frame_stack g" using s u by simp
  then show ?case using ds outer index by simp
qed

section \<open>The invariant\<close>

definition chain_ok :: "statement list \<Rightarrow> (nat \<Rightarrow> nat) \<Rightarrow> (nat \<times> runtime_state) set \<Rightarrow> nat
    \<Rightarrow> call_frame list \<Rightarrow> bool" where
  "chain_ok statements r R i cs \<longleftrightarrow>
    length cs \<le> r i \<and> frames_bounded statements r cs \<and> grounded statements R cs"

definition analysis_inv :: "procedure \<Rightarrow> (nat \<Rightarrow> nat) \<Rightarrow> flow \<Rightarrow> bool" where
  "analysis_inv p r fl \<longleftrightarrow>
    call_ranked (proc_statements p) r \<and>
    length (flow_states fl) = length (proc_statements p) \<and>
    (\<forall>row \<in> set (flow_states fl). distinct row) \<and>
    one_per_chain (recorded_states fl) \<and>
    (\<forall>(i, s) \<in> recorded_states fl.
      chain_ok (proc_statements p) r (recorded_states fl) i (run_calls s)) \<and>
    set (flow_queue fl) \<subseteq> recorded_states fl"

lemma chain_ok_mono: "chain_ok statements r R i cs \<Longrightarrow> R \<subseteq> R' \<Longrightarrow> chain_ok statements r R' i cs"
  unfolding chain_ok_def using grounded_mono by blast

lemma merge_inv:
  assumes inv: "analysis_inv p r fl"
    and chain: "j < length (proc_statements p) \<Longrightarrow>
      chain_ok (proc_statements p) r (recorded_states fl) j (run_calls s)"
  shows "analysis_inv p r (merge_state profile (proc_statements p) j s fl)"
proof -
  let ?stmts = "proc_statements p"
  let ?s = "normalize_at_entry (normalizer ?stmts j) s"
  let ?row = "flow_states fl ! j"
  have len: "length (flow_states fl) = length ?stmts" using inv by (simp add: analysis_inv_def)
  show ?thesis
  proof (cases "j < length ?stmts \<and> ?s \<notin> set ?row \<and>
      List.find (\<lambda>t. run_calls t = run_calls ?s) ?row = None")
    case False
    then show ?thesis
      using inv len by (auto simp: merge_state_def Let_def analysis_inv_def recorded_states_def
          not_less split: option.split)
  next
    case True
    let ?fl = "merge_state profile ?stmts j s fl"
    have fl: "?fl = fl\<lparr>flow_states := (flow_states fl)[j := ?row @ [?s]],
        flow_queue := flow_queue fl @ [(j, ?s)]\<rparr>"
      using True len by (simp add: merge_state_def Let_def)
    have new: "recorded_states ?fl = insert (j, ?s) (recorded_states fl)"
      unfolding fl recorded_states_def using True len by (auto simp: nth_list_update split: if_splits)
    have grow: "recorded_states fl \<subseteq> recorded_states ?fl" using new by blast
    have chain_j: "chain_ok ?stmts r (recorded_states fl) j (run_calls s)" using chain True by simp
    have fresh: "run_calls t \<noteq> run_calls s" if "(j, t) \<in> recorded_states fl" for t
      using True that by (auto simp: recorded_states_def find_None_iff)
    have fresh_returns: "returns t \<noteq> returns s" if t: "(j, t) \<in> recorded_states fl" for t
    proof
      assume "returns t = returns s"
      moreover have "grounded ?stmts (recorded_states fl) (run_calls t)"
        using inv t by (auto simp: analysis_inv_def chain_ok_def)
      moreover have "one_per_chain (recorded_states fl)" using inv by (simp add: analysis_inv_def)
      ultimately have "run_calls t = run_calls s"
        using grounded_determined chain_j by (simp add: chain_ok_def returns_def)
      then show False using fresh [OF t] by simp
    qed
    have same: "returns ?s = returns s" by (simp add: returns_def)
    have "one_per_chain (recorded_states ?fl)"
      unfolding new one_per_chain_def
    proof (intro allI impI)
      fix i t u
      assume t: "(i, t) \<in> insert (j, ?s) (recorded_states fl)"
        and u: "(i, u) \<in> insert (j, ?s) (recorded_states fl)" and eq: "returns t = returns u"
      have old: "one_per_chain (recorded_states fl)" using inv by (simp add: analysis_inv_def)
      show "t = u"
        using t u eq same fresh_returns [of t] fresh_returns [of u] old
        unfolding one_per_chain_def by (elim insertE) (auto simp del: normalize_calls)
    qed
    moreover have "\<forall>(i, t) \<in> recorded_states ?fl.
        chain_ok ?stmts r (recorded_states ?fl) i (run_calls t)"
      using inv chain_j chain_ok_mono [OF _ grow] unfolding new by (auto simp: analysis_inv_def)
    moreover have "\<forall>row \<in> set (flow_states ?fl). distinct row"
      using inv True len unfolding fl
      by (auto simp: analysis_inv_def dest!: set_update_subset_insert [THEN subsetD])
    moreover have "set (flow_queue ?fl) \<subseteq> recorded_states ?fl"
      using inv unfolding new by (auto simp: analysis_inv_def fl)
    moreover have "length (flow_states ?fl) = length ?stmts" by (simp add: fl len)
    ultimately show ?thesis using inv by (simp add: analysis_inv_def)
  qed
qed

lemma fold_merge_inv:
  assumes "analysis_inv p r fl"
    and "\<forall>j \<in> set js. j < length (proc_statements p) \<longrightarrow>
      chain_ok (proc_statements p) r (recorded_states fl) j (run_calls s)"
  shows "analysis_inv p r (fold (\<lambda>j. merge_state profile (proc_statements p) j s) js fl)"
  using assms
proof (induction js arbitrary: fl)
  case (Cons j js)
  have "recorded_states fl \<subseteq> recorded_states (merge_state profile (proc_statements p) j s fl)"
    by (rule extends_recorded [OF merge_extends])
  then show ?case
    using Cons.prems chain_ok_mono by (auto intro!: Cons.IH merge_inv)
qed simp

section \<open>One turn keeps the invariant\<close>

lemma recorded_states_report [simp]:
  "recorded_states (fl\<lparr>flow_diagnostics := ds\<rparr>) = recorded_states fl"
  by (simp add: recorded_states_def)

lemma analysis_inv_report:
  "analysis_inv p r fl \<Longrightarrow> analysis_inv p r (fl\<lparr>flow_diagnostics := ds\<rparr>)"
  by (simp add: analysis_inv_def)

lemma propagate_inv:
  assumes inv: "analysis_inv p r fl" and i: "(i, s) \<in> recorded_states fl"
    and effect: "effect (proc_statements p ! i) s = Some t"
  shows "analysis_inv p r (propagate profile (proc_statements p) i t fl)"
proof -
  let ?stmts = "proc_statements p"
  let ?succ = "successors i ?stmts (collect_labels ?stmts) (collect_anonymous_labels ?stmts)"
  have calls: "run_calls t = run_calls s"
    using effect transfer_calls [of Normal_Profile "?stmts ! i" s "{}" t]
    by (metis effect_def prod.collapse)
  have chain: "chain_ok ?stmts r (recorded_states fl) i (run_calls s)"
    using inv i by (auto simp: analysis_inv_def)
  have i_len: "i < length ?stmts" using inv i by (simp add: analysis_inv_def recorded_states_def)
  have rank: "j \<in> set ?succ \<Longrightarrow> j < length ?stmts \<Longrightarrow> r i \<le> r j" for j
    using inv i_len by (simp add: analysis_inv_def call_ranked_def)
  show ?thesis
  proof (cases "local_call i ?stmts")
    case None
    have "\<forall>j \<in> set ?succ. j < length ?stmts \<longrightarrow> chain_ok ?stmts r (recorded_states fl) j (run_calls t)"
      using chain rank calls by (fastforce simp: chain_ok_def)
    then show ?thesis using fold_merge_inv [OF inv] None by (simp add: propagate_def)
  next
    case (Some j)
    then have "mnemonic (?stmts ! i) \<in> {''jsr'', ''jsl''}" by (rule local_call_mnemonic)
    then have fall: "i + 1 < length ?stmts \<Longrightarrow> r i \<le> r (i + 1)"
      using rank [of "i + 1"] by (auto simp: successors_def branch_mnemonics_def Let_def)
    have "chain_ok ?stmts r (recorded_states fl) j (run_calls (enter_call i t))"
      if "j < length ?stmts"
    proof -
      have "r i < r j" using inv i_len Some that call_ranked_call by (auto simp: analysis_inv_def)
      then have "length (run_calls (enter_call i t)) \<le> r j"
        using chain calls by (simp add: chain_ok_def enter_call_def)
      moreover have "frames_bounded ?stmts r (run_calls (enter_call i t))"
        using chain calls fall i_len by (auto simp: chain_ok_def enter_call_def)
      moreover have "grounded ?stmts (recorded_states fl) (run_calls (enter_call i t))"
        using chain calls i effect by (auto simp: chain_ok_def enter_call_def)
      ultimately show ?thesis by (simp add: chain_ok_def)
    qed
    then show ?thesis using merge_inv [OF inv] Some by (simp add: propagate_def)
  qed
qed

lemma handle_return_inv:
  assumes inv: "analysis_inv p r fl" and i: "(i, s) \<in> recorded_states fl"
  shows "analysis_inv p r (handle_return profile p return_abi st s fl)"
proof (cases "run_calls s")
  case Nil
  then show ?thesis using analysis_inv_report [OF inv] by (simp add: handle_return_def)
next
  case (Cons frame outer)
  have "chain_ok (proc_statements p) r (recorded_states fl) i (frame # outer)"
    using inv i Cons by (auto simp: analysis_inv_def)
  then have "frame_return_index frame < length (proc_statements p) \<Longrightarrow>
      chain_ok (proc_statements p) r (recorded_states fl) (frame_return_index frame) outer"
    by (simp add: chain_ok_def)
  then show ?thesis
    using merge_inv [OF inv] analysis_inv_report [OF inv] Cons by (simp add: handle_return_def)
qed

lemma analyze_step_inv:
  assumes inv: "analysis_inv p r fl" and nonempty: "flow_queue fl \<noteq> []"
  shows "analysis_inv p r (analyze_step profile p return_abi abis allocations fl)"
proof -
  obtain i s ns where queue: "flow_queue fl = (i, s) # ns"
    using nonempty by (cases "flow_queue fl") auto
  let ?st = "proc_statements p ! i"
  let ?fl = "\<lambda>ds. fl\<lparr>flow_queue := ns, flow_diagnostics := ds\<rparr>"
  have rest: "analysis_inv p r (?fl ds)" for ds
    using inv queue by (simp add: analysis_inv_def)
  have rec: "(i, s) \<in> recorded_states (?fl ds)" for ds
    using inv queue by (simp add: analysis_inv_def)
  define ds where "ds = validate_statement_width profile ?st s abis allocations (flow_diagnostics fl)"
  obtain out ds' where out: "transfer profile ?st s ds = (out, ds')" by fastforce
  then have "effect ?st s = out" using transfer_effect [of profile ?st s ds] by simp
  then show ?thesis
    using out propagate_inv [OF rest rec] handle_return_inv [OF rest rec] rest
    by (cases out) (simp_all add: analyze_step_def analyze_statement_def Let_def queue flip: ds_def)
qed

section \<open>The bound\<close>

definition chains :: "statement list \<Rightarrow> (nat \<Rightarrow> nat) \<Rightarrow> nat list set" where
  "chains statements r =
    {xs. set xs \<subseteq> {..length statements} \<and> length xs \<le> Max (insert 0 (r ` {..<length statements}))}"

definition analysis_bound :: "procedure \<Rightarrow> (nat \<Rightarrow> nat) \<Rightarrow> nat" where
  "analysis_bound p r = length (proc_statements p) * card (chains (proc_statements p) r)"

lemma finite_chains: "finite (chains statements r)"
  unfolding chains_def by (rule finite_lists_length_le) simp

lemma frames_bounded_returns:
  "frames_bounded statements r cs \<Longrightarrow> set (map frame_return_index cs) \<subseteq> {..length statements}"
  by (induction cs) auto

lemma sum_list_le: "(\<And>x. x \<in> set xs \<Longrightarrow> f x \<le> (K::nat)) \<Longrightarrow> sum_list (map f xs) \<le> length xs * K"
  by (induction xs) (auto intro: add_mono)

lemma recorded_bound:
  assumes inv: "analysis_inv p r fl"
  shows "recorded_count fl \<le> analysis_bound p r"
proof -
  let ?C = "chains (proc_statements p) r"
  have len: "length (flow_states fl) = length (proc_statements p)"
    using inv by (simp add: analysis_inv_def)
  have "length row \<le> card ?C" if row: "row \<in> set (flow_states fl)" for row
  proof -
    obtain i where i: "i < length (flow_states fl)" "row = flow_states fl ! i"
      using row by (metis in_set_conv_nth)
    have rec: "s \<in> set row \<Longrightarrow> (i, s) \<in> recorded_states fl" for s
      using i by (simp add: recorded_states_def)
    have "one_per_chain (recorded_states fl)" using inv by (simp add: analysis_inv_def)
    then have "inj_on returns (set row)"
      unfolding one_per_chain_def using rec by (intro inj_onI) blast
    moreover have "returns s \<in> ?C" if "s \<in> set row" for s
    proof -
      have chain: "length (run_calls s) \<le> r i" "frames_bounded (proc_statements p) r (run_calls s)"
        using inv rec [OF that] by (auto simp: analysis_inv_def chain_ok_def)
      have "r i \<le> Max (insert 0 (r ` {..<length (proc_statements p)}))"
        using i len by (intro Max_ge) auto
      then show ?thesis
        using chain frames_bounded_returns [OF chain(2)] by (simp add: chains_def returns_def)
    qed
    ultimately have "card (set row) \<le> card ?C"
      using finite_chains by (metis card_inj_on_le image_subsetI)
    moreover have "distinct row" using inv row by (simp add: analysis_inv_def)
    ultimately show ?thesis by (simp add: distinct_card)
  qed
  then have "recorded_count fl \<le> length (flow_states fl) * card ?C"
    unfolding recorded_count_def by (rule sum_list_le)
  then show ?thesis by (simp add: analysis_bound_def len)
qed

interpretation lint_bounded: bounded_worklist
  "analyze_step profile p return_abi abis allocations" flow_queue "analysis_inv p r"
  recorded_count "analysis_bound p r"
  for profile p return_abi abis allocations r
proof unfold_locales
  fix f :: flow
  assume inv: "analysis_inv p r f"
  show "recorded_count f \<le> analysis_bound p r" by (rule recorded_bound [OF inv])
  assume nonempty: "flow_queue f \<noteq> []"
  show "analysis_inv p r (analyze_step profile p return_abi abis allocations f)"
    by (rule analyze_step_inv [OF inv nonempty])
  obtain n ns where queue: "flow_queue f = n # ns" using nonempty by (cases "flow_queue f") auto
  show "length (flow_queue (analyze_step profile p return_abi abis allocations f)) + recorded_count f
      < length (flow_queue f) + recorded_count (analyze_step profile p return_abi abis allocations f)"
    using analyze_step_extends [OF queue, of profile p return_abi abis allocations] queue
    by (auto simp: extends_def)
qed

lemma initial_analysis_inv:
  assumes "call_ranked (proc_statements p) r" and nonempty: "proc_statements p \<noteq> []"
  shows "analysis_inv p r (initial_flow p entry ds)"
proof -
  have "\<forall>row \<in> set (flow_states (initial_flow p entry ds)). distinct row"
    unfolding initial_flow_def
    by (auto dest!: set_update_subset_insert [THEN subsetD])
  moreover have "flow_queue (initial_flow p entry ds) = [(0, entry_state entry)]"
    and "length (flow_states (initial_flow p entry ds)) = length (proc_statements p)"
    and "run_calls (entry_state entry) = []"
    by (simp_all add: initial_flow_def entry_state_def)
  ultimately show ?thesis
    using assms(1)
    by (simp add: analysis_inv_def initial_flow_recorded [OF nonempty] one_per_chain_def chain_ok_def)
qed

text \<open>
  C24: The analysis of a procedure always comes to an end when its local subroutines do not call
  themselves, directly or in a circle: as soon as there is a rank of the statements that never drops
  along the control flow and rises at every local call, \<open>analyze_procedure\<close> returns.
\<close>

theorem lint_terminates:
  assumes "call_ranked (proc_statements p) r"
  shows "\<exists>ds'. analyze_procedure profile p return_abi entry abis allocations ds = Some ds'"
proof (cases "proc_statements p = []")
  case True
  then show ?thesis by (simp add: analyze_procedure_def)
next
  case False
  from lint_bounded.run_ends [OF initial_analysis_inv [OF assms False]]
  show ?thesis by (simp add: analyze_procedure_def)
qed

text \<open>A procedure with two calls of one local subroutine, which branches.\<close>

definition sample_statement :: "string \<Rightarrow> statement" where
  "sample_statement code =
    \<lparr>stmt_location = \<lparr>loc_path = [''a.asm''], loc_line = 1\<rparr>, stmt_text = code,
     mnemonic = to_ascii_lowercase (fst (split_statement code)), operand = snd (split_statement code),
     asm_a = Some Eight, asm_i = Some Eight\<rparr>"

definition sample_procedure :: procedure where
  "sample_procedure =
    \<lparr>proc_name = ''p'', proc_location = \<lparr>loc_path = [''a.asm''], loc_line = 1\<rparr>,
     proc_statements = map sample_statement
       [''jsr @s'', ''jsr @s'', ''rts'', ''@s:'', ''bne @s'', ''rts''],
     proc_abi = Some \<lparr>abi_a = Eight, abi_i = Eight\<rparr>, proc_kind = Ordinary\<rparr>"

definition sample_rank :: "nat \<Rightarrow> nat" where
  "sample_rank i = (if i < 3 then 0 else 1)"

lemma lint_terminates_witness:
  "\<exists>ds'. analyze_procedure Normal_Profile sample_procedure (proc_abi sample_procedure)
    \<lparr>abi_a = Eight, abi_i = Eight\<rparr> Map.empty Map.empty {} = Some ds'"
proof (rule lint_terminates)
  show "call_ranked (proc_statements sample_procedure) sample_rank"
    by code_simp
qed

section \<open>A subroutine that calls itself\<close>

definition recursive_source :: string where
  "recursive_source = concat (map (\<lambda>l. l @ [line_feed])
    [''.proc p'', '' .a8'', '' .i8'', ''@s:'', '' jsr @s'', ''.endproc''])"

text \<open>The four statements of the procedure: two directives, the label and the call.\<close>

definition directive_statement :: "nat \<Rightarrow> string \<Rightarrow> width option \<Rightarrow> statement" where
  "directive_statement line code i =
    \<lparr>stmt_location = \<lparr>loc_path = [''a.asm''], loc_line = line\<rparr>, stmt_text = code,
     mnemonic = fst (split_statement code), operand = snd (split_statement code),
     asm_a = Some Eight, asm_i = i\<rparr>"

definition recursive_procedure :: procedure where
  "recursive_procedure =
    \<lparr>proc_name = ''p'', proc_location = \<lparr>loc_path = [''a.asm''], loc_line = 1\<rparr>,
     proc_statements = [directive_statement 2 ''.a8'' None, directive_statement 3 ''.i8'' (Some Eight),
       directive_statement 4 ''@s:'' (Some Eight), directive_statement 5 ''jsr @s'' (Some Eight)],
     proc_abi = Some \<lparr>abi_a = Eight, abi_i = Eight\<rparr>, proc_kind = Ordinary\<rparr>"

lemma recursive_parsed:
  "parse_files \<lparr>enforce_policy = True\<rparr> Normal_Profile [([''a.asm''], recursive_source)] {}
    = ([recursive_procedure], {})"
  by code_simp

text \<open>One state is in the queue at any time, and none of the known states has as many calls.\<close>

definition chasing :: "flow \<Rightarrow> bool" where
  "chasing fl \<longleftrightarrow>
    (\<exists>i s. flow_queue fl = [(i, s)] \<and> i < 4 \<and> length (flow_states fl) = 4 \<and>
      (\<forall>(j, t) \<in> recorded_states fl.
        length (run_calls t) < length (run_calls s) \<or>
        length (run_calls t) = length (run_calls s) \<and> j \<le> i))"

lemma recursive_facts:
  "mnemonic (proc_statements recursive_procedure ! 0) = ''.a8''"
  "mnemonic (proc_statements recursive_procedure ! 1) = ''.i8''"
  "mnemonic (proc_statements recursive_procedure ! 2) = ''@s:''"
  "mnemonic (proc_statements recursive_procedure ! 3) = ''jsr''"
  "map (\<lambda>i. local_call i (proc_statements recursive_procedure)) [0, 1, 2, 3] =
    [None, None, None, Some 2]"
  "map (normalizer (proc_statements recursive_procedure)) [0, 1, 2, 3] =
    [''.a8'', ''.i8'', ''jsr'', ''jsr'']"
  "map (\<lambda>i. successors i (proc_statements recursive_procedure)
      (collect_labels (proc_statements recursive_procedure))
      (collect_anonymous_labels (proc_statements recursive_procedure))) [0, 1, 2] = [[1], [2], [3]]"
  by code_simp+

lemma recursive_effect:
  assumes "i < 4"
  shows "effect (proc_statements recursive_procedure ! i) s = Some s"
    and "mnemonic (proc_statements recursive_procedure ! i) \<notin> {''rti'', ''rts'', ''rtl''}"
proof -
  from assms have "i = 0 \<or> i = 1 \<or> i = 2 \<or> i = 3" by linarith
  then have m: "mnemonic (proc_statements recursive_procedure ! i) \<in> {''.a8'', ''.i8'', ''@s:'', ''jsr''}"
    using recursive_facts(1-4) by (elim disjE) simp_all
  then show "effect (proc_statements recursive_procedure ! i) s = Some s"
    by (auto simp: effect_def transfer_def Let_def width_macros_def asserted_widths_def
        pushed_item_def pull_def restored_widths_def is_terminal_return_macro_def)
  show "mnemonic (proc_statements recursive_procedure ! i) \<notin> {''rti'', ''rts'', ''rtl''}"
    using m by auto
qed

text \<open>What one statement of the procedure queues: the state goes on, with one more call at the end.\<close>

lemma recursive_propagate:
  assumes i: "i < 4" and len: "length (flow_states fl) = 4"
  obtains j t where "propagate profile (proc_statements recursive_procedure) i s fl =
      merge_state profile (proc_statements recursive_procedure) j t fl"
    and "j < 4" "normalizer (proc_statements recursive_procedure) j \<in> {''.i8'', ''jsr''}"
    and "j = Suc i \<and> run_calls t = run_calls s \<or>
      j = 2 \<and> length (run_calls t) = Suc (length (run_calls s))"
proof -
  from i consider "i = 0" | "i = 1" | "i = 2" | "i = 3" by linarith
  then show ?thesis
  proof cases
    case 4
    with that [of 2 "enter_call i s"] recursive_facts show ?thesis
      by (simp add: propagate_def enter_call_def)
  qed (use that [of "Suc i" s] recursive_facts in \<open>simp add: propagate_def numeral_2_eq_2 numeral_3_eq_3\<close>)+
qed

lemma chasing_merge:
  assumes len: "length (flow_states fl) = 4" and j: "j < 4"
    and normalizer: "normalizer (proc_statements recursive_procedure) j \<in> {''.i8'', ''jsr''}"
    and queue: "flow_queue fl = []"
    and known: "\<forall>(k, u) \<in> recorded_states fl. length (run_calls u) < length (run_calls t) \<or>
        length (run_calls u) = length (run_calls t) \<and> k < j"
  shows "chasing (merge_state profile (proc_statements recursive_procedure) j t fl)"
proof -
  have "normalizer (proc_statements recursive_procedure) j \<notin> width_macros"
    using normalizer by (auto simp: width_macros_def)
  then have id: "normalize_at_entry (normalizer (proc_statements recursive_procedure) j) t = t"
    by (rule normalize_at_entry_other)
  have fresh: "run_calls u \<noteq> run_calls t" if "u \<in> set (flow_states fl ! j)" for u
  proof -
    have "(j, u) \<in> recorded_states fl" using that j len by (simp add: recorded_states_def)
    from bspec [OF known this] have "length (run_calls u) < length (run_calls t)" by simp
    then show ?thesis by auto
  qed
  then have "List.find (\<lambda>u. run_calls u = run_calls t) (flow_states fl ! j) = None"
    by (simp add: find_None_iff)
  moreover have "t \<notin> set (flow_states fl ! j)" using fresh by blast
  ultimately have fl: "merge_state profile (proc_statements recursive_procedure) j t fl =
      fl\<lparr>flow_states := (flow_states fl)[j := flow_states fl ! j @ [t]], flow_queue := [(j, t)]\<rparr>"
    using j len id queue by (simp add: merge_state_def Let_def)
  have "recorded_states (merge_state profile (proc_statements recursive_procedure) j t fl) =
      insert (j, t) (recorded_states fl)"
    unfolding fl recorded_states_def using j len by (auto simp: nth_list_update split: if_splits)
  then show ?thesis
    using known j len unfolding chasing_def by (auto simp: fl)
qed

lemma chasing_step:
  assumes "chasing fl"
  shows "chasing (analyze_step profile recursive_procedure return_abi abis allocations fl)"
proof -
  obtain i s where queue: "flow_queue fl = [(i, s)]" and i: "i < 4" and len: "length (flow_states fl) = 4"
    and known: "\<forall>(j, t) \<in> recorded_states fl. length (run_calls t) < length (run_calls s) \<or>
        length (run_calls t) = length (run_calls s) \<and> j \<le> i"
    using assms unfolding chasing_def by blast
  obtain fl' where step: "analyze_statement profile recursive_procedure return_abi abis allocations i s
        (fl\<lparr>flow_queue := []\<rparr>) = propagate profile (proc_statements recursive_procedure) i s fl'"
      and "\<exists>ds. fl' = fl\<lparr>flow_queue := [], flow_diagnostics := ds\<rparr>"
    using analyze_statement_output [OF recursive_effect(2,1) [OF i]] by metis
  then obtain ds where fl': "fl' = fl\<lparr>flow_queue := [], flow_diagnostics := ds\<rparr>" by blast
  have len': "length (flow_states fl') = 4" using len by (simp add: fl')
  obtain j t where merge: "propagate profile (proc_statements recursive_procedure) i s fl' =
      merge_state profile (proc_statements recursive_procedure) j t fl'"
    and j: "j < 4" "normalizer (proc_statements recursive_procedure) j \<in> {''.i8'', ''jsr''}"
    and t: "j = Suc i \<and> run_calls t = run_calls s \<or>
      j = 2 \<and> length (run_calls t) = Suc (length (run_calls s))"
    by (rule recursive_propagate [OF i len'])
  have "\<forall>(k, u) \<in> recorded_states fl'. length (run_calls u) < length (run_calls t) \<or>
      length (run_calls u) = length (run_calls t) \<and> k < j"
    using known t by (fastforce simp: fl')
  then have "chasing (merge_state profile (proc_statements recursive_procedure) j t fl')"
    using chasing_merge [OF len' j] by (simp add: fl')
  then show ?thesis by (simp add: analyze_step_def queue step merge)
qed

lemma recursive_endless:
  "analyze_procedure profile recursive_procedure return_abi entry abis allocations ds = None"
proof (rule ccontr)
  have nonempty: "proc_statements recursive_procedure \<noteq> []" by (simp add: recursive_procedure_def)
  assume "analyze_procedure profile recursive_procedure return_abi entry abis allocations ds \<noteq> None"
  then obtain g where g: "while_option (\<lambda>fl. flow_queue fl \<noteq> [])
      (analyze_step profile recursive_procedure return_abi abis allocations)
      (initial_flow recursive_procedure entry ds) = Some g"
    using analyze_procedure_run [OF _ nonempty] by blast
  have "chasing g"
  proof (rule while_option_rule [OF _ g])
    show "chasing (initial_flow recursive_procedure entry ds)"
      unfolding chasing_def initial_flow_recorded [OF nonempty]
      by (simp add: initial_flow_def recursive_procedure_def)
  qed (rule chasing_step)
  then show False using while_option_stop [OF g] by (simp add: chasing_def)
qed

text \<open>
  C40: a local subroutine that calls itself makes the linter run for ever: on the source
  \<^verbatim>\<open>.proc p / .a8 / .i8 / @s: / jsr @s / .endproc\<close> neither a diagnostic nor an acceptance is ever
  produced, because every turn around the call is a new chain of frames.
\<close>

theorem lint_recursion_endless:
  "lint_workspace [([''a.asm''], recursive_source)] \<lparr>enforce_policy = True\<rparr> = None"
  by (simp add: lint_workspace_def all_profiles_def lint_profile_def recursive_parsed
      analyze_procedures_def analyze_entries_def procedure_entries_def recursive_endless
      recursive_procedure_def [THEN arg_cong [of _ _ proc_kind]]
      recursive_procedure_def [THEN arg_cong [of _ _ proc_abi]])

end
