(* ===== verification/Lint_Hardware.thy ===== *)
theory Lint_Hardware
  imports Lint_Soundness
begin

text \<open>
  What the linter is about: the processor. A 65816 keeps the widths in the M and X bits of its
  status register and the stack is bytes, which a \<^verbatim>\<open>plp\<close> turns back into widths whatever they are.
  The theorems relate this to the abstract interpreter: an accepted procedure of known statements runs with the
  widths its immediates are encoded for and leaves the stack as it found it. Three theorems show
  accepted sources for which this fails: a local subroutine that pulls what its caller has pushed
  (on the processor it pulls its own return address), the macro \<^verbatim>\<open>inc32\<close>, which changes the width, and code after a
  \<^verbatim>\<open>plp_m8_i8\<close>, whose directives change the widths of the assembler.

  Values do not matter here, so a pushed register is any bytes of its size. The statements the model
  does not know, the project's other macros among them, are a parameter \<open>other\<close> of the steps.
\<close>

section \<open>Bytes on the stack\<close>

record hardware =
  hw_m :: bool
  hw_x :: bool
  hw_stack :: "u8 list"

definition width_of :: "bool \<Rightarrow> width" where
  "width_of narrow = (if narrow then Eight else Sixteen)"

definition byte_size :: "bool \<Rightarrow> nat" where
  "byte_size narrow = (if narrow then 1 else 2)"

definition status_m :: "u8 \<Rightarrow> bool" where "status_m b \<longleftrightarrow> b AND 0x20 \<noteq> 0"
definition status_x :: "u8 \<Rightarrow> bool" where "status_x b \<longleftrightarrow> b AND 0x10 \<noteq> 0"

definition set_flags :: "bool option \<Rightarrow> bool option \<Rightarrow> hardware \<Rightarrow> hardware" where
  "set_flags m x c =
    c\<lparr>hw_m := (case m of None \<Rightarrow> hw_m c | Some b \<Rightarrow> b),
      hw_x := (case x of None \<Rightarrow> hw_x c | Some b \<Rightarrow> b)\<rparr>"

text \<open>What the width macros of \<^verbatim>\<open>macro/utility.asm\<close> assemble to: flags to set or to clear.\<close>

definition macro_flags :: "string \<Rightarrow> (bool option \<times> bool option) option" where
  "macro_flags m =
    (if m = ''m8'' then Some (Some True, None)
     else if m \<in> {''m16'', ''pppipv4entera16'', ''pppudpentera16''} then Some (Some False, None)
     else if m = ''i8'' then Some (None, Some True)
     else if m = ''i16'' then Some (None, Some False)
     else if m = ''mi8'' then Some (Some True, Some True)
     else if m = ''mi16'' then Some (Some False, Some False)
     else if m = ''enternativem8i16'' then Some (Some True, Some False)
     else None)"

definition status_flags :: "bool \<Rightarrow> u8 \<Rightarrow> bool option \<times> bool option" where
  "status_flags b v = (if status_m v then Some b else None, if status_x v then Some b else None)"

definition push_size :: "string \<Rightarrow> hardware \<Rightarrow> nat option" where
  "push_size m c =
    (if m = ''pha'' then Some (byte_size (hw_m c))
     else if m \<in> {''phx'', ''phy''} then Some (byte_size (hw_x c))
     else if m = ''phb'' then Some 1
     else if m \<in> {''phd'', ''pea'', ''pei'', ''per''} then Some 2
     else None)"

definition pull_size :: "string \<Rightarrow> hardware \<Rightarrow> nat option" where
  "pull_size m c =
    (if m = ''pla'' then Some (byte_size (hw_m c))
     else if m \<in> {''plx'', ''ply''} then Some (byte_size (hw_x c))
     else if m = ''plb'' then Some 1
     else if m = ''pld'' then Some 2
     else None)"

definition status_pulls :: "string set" where
  "status_pulls = {''plp'', ''plp_interrupt'', ''plp_m8_i8'', ''plp_m8_i16'', ''plp_m16_i8'', ''plp_m16_i16''}"

text \<open>Instructions that touch neither the widths nor the stack, and the assertions, which assemble
  to nothing. A call to another procedure comes back as it went.\<close>

definition plain_instructions :: "string set" where
  "plain_instructions = branch_mnemonics \<union>
    {''jsr'', ''jsl'', ''bra'', ''brl'', ''jmp'', ''jml'',
     ''adc'', ''and'', ''asl'', ''bit'', ''cmp'', ''dec'', ''eor'', ''inc'', ''lda'', ''lsr'', ''ora'', ''rol'',
     ''ror'', ''sbc'', ''sta'', ''stz'', ''trb'', ''tsb'', ''cpx'', ''cpy'', ''ldx'', ''ldy'', ''stx'', ''sty'',
     ''assert_m8_i8'', ''assert_m8_i16'', ''assert_m16_i8'', ''assert_m16_i16''}"

text \<open>
  Statements that leave widths and stack alone: width directives, labels, the instructions on registers and flags other than M
  and X, and three macros, of which \<^verbatim>\<open>interrupt_entry\<close> is empty and \<^verbatim>\<open>setDBR\<close> and \<^verbatim>\<open>setDP\<close> pull what they push (\<open>setdbr_balanced\<close>, \<open>setdp_balanced\<close>).
\<close>

definition silent_mnemonics :: "string set" where
  "silent_mnemonics =
    {''.a8'', ''.a16'', ''.i8'', ''.i16'', ''interrupt_entry'', ''setdbr'', ''setdp'',
     ''clc'', ''cld'', ''cli'', ''clv'', ''sec'', ''sed'', ''sei'', ''dea'', ''dex'', ''dey'', ''ina'', ''inx'', ''iny'',
     ''nop'', ''tax'', ''tay'', ''tcd'', ''tdc'', ''tsc'', ''tsx'', ''txa'', ''txy'', ''tya'', ''tyx'', ''wai'', ''xba'',
     ''mvn'', ''mvp''}"

definition silent_statement :: "statement \<Rightarrow> bool" where
  "silent_statement st \<longleftrightarrow>
    mnemonic st \<in> silent_mnemonics \<or> ends_with (CHR '':'') (mnemonic st) \<and> operand st = []"

text \<open>The statements whose effect the model knows.\<close>

definition known_statement :: "statement \<Rightarrow> bool" where
  "known_statement st \<longleftrightarrow>
    silent_statement st \<or> macro_flags (mnemonic st) \<noteq> None \<or>
    mnemonic st \<in> {''rep'', ''sep''} \<and> parse_immediate (operand st) \<noteq> None \<or>
    mnemonic st \<in> {''pha'', ''phx'', ''phy'', ''php'', ''phb'', ''phd'', ''pea'', ''pei'', ''per'',
      ''pla'', ''plx'', ''ply'', ''plb'', ''pld'', ''rts'', ''rtl'', ''rti'', ''stp''} \<or>
    mnemonic st \<in> status_pulls \<or> mnemonic st \<in> plain_instructions"

type_synonym macro_effect = "string \<Rightarrow> hardware \<Rightarrow> hardware \<Rightarrow> bool"

inductive hw_effect :: "macro_effect \<Rightarrow> statement \<Rightarrow> hardware \<Rightarrow> hardware \<Rightarrow> bool"
  for other :: macro_effect and st :: statement where
  hw_macro: "macro_flags (mnemonic st) = Some (m, x) \<Longrightarrow> hw_effect other st c (set_flags m x c)"
| hw_immediate: "mnemonic st \<in> {''rep'', ''sep''} \<Longrightarrow> parse_immediate (operand st) = Some v \<Longrightarrow>
    status_flags (mnemonic st = ''sep'') v = (m, x) \<Longrightarrow> hw_effect other st c (set_flags m x c)"
| hw_push: "push_size (mnemonic st) c = Some n \<Longrightarrow> length ks = n \<Longrightarrow>
    hw_effect other st c (c\<lparr>hw_stack := ks @ hw_stack c\<rparr>)"
| hw_push_status: "mnemonic st = ''php'' \<Longrightarrow> status_m b = hw_m c \<Longrightarrow> status_x b = hw_x c \<Longrightarrow>
    hw_effect other st c (c\<lparr>hw_stack := b # hw_stack c\<rparr>)"
| hw_pull: "pull_size (mnemonic st) c = Some n \<Longrightarrow> hw_stack c = ks @ rest \<Longrightarrow> length ks = n \<Longrightarrow>
    hw_effect other st c (c\<lparr>hw_stack := rest\<rparr>)"
| hw_pull_status: "mnemonic st \<in> status_pulls \<Longrightarrow> hw_stack c = b # rest \<Longrightarrow>
    hw_effect other st c \<lparr>hw_m = status_m b, hw_x = status_x b, hw_stack = rest\<rparr>"
| hw_plain: "mnemonic st \<in> plain_instructions \<Longrightarrow> hw_effect other st c c"
| hw_silent: "silent_statement st \<Longrightarrow> hw_effect other st c c"
| hw_other: "\<not> known_statement st \<Longrightarrow> other (mnemonic st) c d \<Longrightarrow> hw_effect other st c d"

text \<open>
  Control flow. A local call pushes the address of the next statement, which a return has to find
  on top of the stack; \<open>address\<close> is where the assembler puts the statements.
\<close>

inductive hw_step ::
  "macro_effect \<Rightarrow> (nat \<Rightarrow> u8 list) \<Rightarrow> statement list \<Rightarrow> nat \<times> hardware \<Rightarrow> nat \<times> hardware \<Rightarrow> bool"
  for other :: macro_effect and address :: "nat \<Rightarrow> u8 list" and statements :: "statement list" where
  hw_next: "i < length statements \<Longrightarrow> hw_effect other (statements ! i) c d \<Longrightarrow>
    local_call i statements = None \<Longrightarrow>
    j \<in> set (successors i statements (collect_labels statements)
                (collect_anonymous_labels statements)) \<Longrightarrow>
    j < length statements \<Longrightarrow> hw_step other address statements (i, c) (j, d)"
| hw_call: "i < length statements \<Longrightarrow> local_call i statements = Some j \<Longrightarrow> j < length statements \<Longrightarrow>
    hw_step other address statements (i, c) (j, c\<lparr>hw_stack := address (i + 1) @ hw_stack c\<rparr>)"
| hw_return: "i < length statements \<Longrightarrow> mnemonic (statements ! i) \<in> {''rts'', ''rtl''} \<Longrightarrow>
    hw_stack c = address j @ rest \<Longrightarrow> 0 < j \<Longrightarrow> j < length statements \<Longrightarrow>
    local_call (j - 1) statements \<noteq> None \<Longrightarrow>
    hw_step other address statements (i, c) (j, c\<lparr>hw_stack := rest\<rparr>)"

inductive_cases hw_stepE: "hw_step other address statements (i, c) (j, d)"

lemmas hw_step_cases = hw_stepE [consumes 1, case_names hw_next hw_call hw_return]

section \<open>The abstract stack represents the bytes\<close>

definition item_bytes :: "stack_item \<Rightarrow> u8 list \<Rightarrow> bool" where
  "item_bytes item ks \<longleftrightarrow>
    (case item of
       Item_A w \<Rightarrow> length ks = width_bits w div 8
     | Item_X w \<Rightarrow> length ks = width_bits w div 8
     | Item_Y w \<Rightarrow> length ks = width_bits w div 8
     | Saved_Status a i \<Rightarrow>
         length ks = 1 \<and> width_of (status_m (hd ks)) = a \<and> width_of (status_x (hd ks)) = i
     | Saved_Bank \<Rightarrow> length ks = 1
     | Saved_Direct_Page \<Rightarrow> length ks = 2
     | Raw_Byte \<Rightarrow> length ks = 1
     | Raw_Word \<Rightarrow> length ks = 2)"

primrec layout :: "u8 list \<Rightarrow> stack_item list \<Rightarrow> u8 list \<Rightarrow> bool" where
  "layout base [] bs \<longleftrightarrow> bs = base"
| "layout base (item # items) bs \<longleftrightarrow>
    (\<exists>ks rest. bs = ks @ rest \<and> item_bytes item ks \<and> layout base items rest)"

definition represents :: "u8 list \<Rightarrow> runtime_state \<Rightarrow> hardware \<Rightarrow> bool" where
  "represents base s c \<longleftrightarrow>
    run_a s = width_of (hw_m c) \<and> run_i s = width_of (hw_x c) \<and> layout base (run_stack s) (hw_stack c)"

lemma width_of_simps [simp]: "width_of True = Eight" "width_of False = Sixteen"
  by (simp_all add: width_of_def)

lemma byte_size_width: "byte_size b = width_bits (width_of b) div 8"
  by (simp add: byte_size_def width_of_def)

lemma width_of_inject [simp]: "width_of a = width_of b \<longleftrightarrow> a = b"
  by (cases a; cases b) (simp_all add: width_of_def)

section \<open>One statement\<close>

lemma push_item_represents:
  assumes "item_bytes item ks" and "represents base s c"
  shows "represents base (push_item item s) (c\<lparr>hw_stack := ks @ hw_stack c\<rparr>)"
proof -
  have "layout base (item # run_stack s) (ks @ hw_stack c)"
    unfolding layout.simps using assms by (intro exI conjI) (auto simp: represents_def)
  then show ?thesis using assms by (simp add: represents_def push_item_def del: layout.simps)
qed

lemma represents_set:
  assumes "represents base s c"
  shows "represents base (set_a (width_of b) s) (c\<lparr>hw_m := b\<rparr>)"
    and "represents base (set_i (width_of b) s) (c\<lparr>hw_x := b\<rparr>)"
  using assms by (simp_all add: represents_def)

lemma set_flags_simps [simp]:
  "hw_m (set_flags m x c) = (case m of None \<Rightarrow> hw_m c | Some b \<Rightarrow> b)"
  "hw_x (set_flags m x c) = (case x of None \<Rightarrow> hw_x c | Some b \<Rightarrow> b)"
  "hw_stack (set_flags m x c) = hw_stack c"
  by (simp_all add: set_flags_def)

lemma macro_flags_width_macros: "macro_flags m \<noteq> None \<Longrightarrow> m \<in> width_macros"
  by (rule ccontr) (simp add: macro_flags_def width_macros_def)

lemma macro_represented:
  assumes flags: "macro_flags m = Some (b, x)" and rep: "represents base s c"
  shows "m \<in> width_macros" and "represents base (normalize_at_entry m s) (set_flags b x c)"
proof -
  show m: "m \<in> width_macros" using macro_flags_width_macros flags by simp
  have "run_a (normalize_at_entry m s) = width_of (case b of None \<Rightarrow> hw_m c | Some v \<Rightarrow> v) \<and>
      run_i (normalize_at_entry m s) = width_of (case x of None \<Rightarrow> hw_x c | Some v \<Rightarrow> v)"
    using m flags rep unfolding width_macros_def insert_iff empty_iff represents_def
    by (elim disjE) (auto simp: macro_flags_def normalize_at_entry_def)
  then show "represents base (normalize_at_entry m s) (set_flags b x c)"
    using rep by (simp add: represents_def)
qed

lemma immediate_represented:
  assumes "parse_immediate oper = Some v" and "status_flags (m = ''sep'') v = (b, x)"
    and "represents base s c"
  shows "represents base (apply_status_immediate m oper s) (set_flags b x c)"
  using assms
  by (auto simp: apply_status_immediate_def status_flags_def status_m_def status_x_def represents_def
      Let_def)

lemma push_represented:
  assumes "push_size m c = Some n" and "length ks = n" and "represents base s c"
  obtains item where "pushed_item m s = Some item"
    and "represents base (push_item item s) (c\<lparr>hw_stack := ks @ hw_stack c\<rparr>)"
proof -
  have "m \<in> {''pha'', ''phx'', ''phy'', ''phb'', ''phd'', ''pea'', ''pei'', ''per''}"
    by (rule ccontr) (use assms(1) in \<open>simp add: push_size_def\<close>)
  then have "\<exists>item. pushed_item m s = Some item \<and> item_bytes item ks"
    using assms unfolding insert_iff empty_iff
    by (elim disjE)
      (auto simp: push_size_def pushed_item_def represents_def item_bytes_def byte_size_width)
  then show ?thesis using that push_item_represents [OF _ assms(3)] by blast
qed

lemma pushed_effect:
  assumes "pushed_item (mnemonic st) s = Some item"
  shows "effect st s = Some (push_item item s)"
proof -
  have "mnemonic st \<in> {''pha'', ''phx'', ''phy'', ''php'', ''phb'', ''phd'', ''pea'', ''pei'', ''per''}"
    by (rule ccontr) (use assms in \<open>simp add: pushed_item_def\<close>)
  then have "mnemonic st \<notin> width_macros" "mnemonic st \<notin> {''rep'', ''sep''}"
    "asserted_widths (mnemonic st) = None"
    by (auto simp: width_macros_def asserted_widths_def)
  then show ?thesis using assms by (simp add: effect_def transfer_def Let_def)
qed

lemma push_status_represented:
  assumes "status_m b = hw_m c" and "status_x b = hw_x c" and "represents base s c"
  shows "represents base (push_item (Saved_Status (run_a s) (run_i s)) s)
    (c\<lparr>hw_stack := b # hw_stack c\<rparr>)"
proof -
  have "item_bytes (Saved_Status (run_a s) (run_i s)) [b]"
    using assms by (simp add: item_bytes_def represents_def)
  from push_item_represents [OF this assms(3)] show ?thesis by simp
qed

text \<open>A pull of the size of the item on top takes its bytes.\<close>

lemma layout_pull:
  assumes "layout base (item # items) (ks @ rest)"
    and "\<And>ks'. item_bytes item ks' \<Longrightarrow> length ks' = length ks"
  shows "item_bytes item ks \<and> layout base items rest"
proof -
  obtain ks' rest' where "ks @ rest = ks' @ rest'" "item_bytes item ks'" "layout base items rest'"
    using assms(1) by auto
  moreover from this have "length ks' = length ks" using assms(2) by blast
  ultimately show ?thesis by (metis append_eq_append_conv)
qed

lemma pull_status_represented:
  assumes "represents base s c" and "hw_stack c = b # rest"
    and "run_stack s = Saved_Status a i # items"
  shows "represents base (set_a a (set_i i (s\<lparr>run_stack := items\<rparr>)))
    \<lparr>hw_m = status_m b, hw_x = status_x b, hw_stack = rest\<rparr>"
proof -
  have "item_bytes (Saved_Status a i) [b] \<and> layout base items rest"
    using assms by (intro layout_pull) (auto simp: represents_def item_bytes_def)
  then show ?thesis by (auto simp: represents_def item_bytes_def)
qed

lemma effect_pull:
  assumes "map_option fst (pull Normal_Profile st s {}) = Some t"
  shows "effect st s = Some t"
  using assms by (cases "pull Normal_Profile st s {}") (simp_all add: effect_def transfer_pull)

lemma drop_represented:
  assumes rep: "represents base s c" and "run_stack s = item # items" and "hw_stack c = ks @ rest"
    and "\<And>ks'. item_bytes item ks' \<Longrightarrow> length ks' = length ks"
  shows "represents base (s\<lparr>run_stack := items\<rparr>) (c\<lparr>hw_stack := rest\<rparr>)"
proof -
  have "layout base (item # items) (ks @ rest)" using assms(1-3) by (simp add: represents_def)
  from layout_pull [OF this assms(4)] rep show ?thesis by (simp add: represents_def)
qed

lemma pull_top:
  assumes "stack_fits st s" and "pulled_items (mnemonic st) s = Some allowed"
  obtains item items where "run_stack s = item # items" and "item \<in> allowed"
  using assms by (cases "run_stack s") (auto simp: stack_fits_def)

lemma register_pull_effect:
  assumes "mnemonic st \<in> {''pla'', ''plx'', ''ply'', ''pld''}" and "run_stack s = item # items"
  shows "effect st s = Some (s\<lparr>run_stack := items\<rparr>)"
  using assms
  by (intro effect_pull)
    (auto simp: pull_def pop_accumulator_def pop_expected_def pop_direct_page_def pop_item_def Let_def)

lemma register_pull_size:
  assumes "mnemonic st \<in> {''pla'', ''plx'', ''ply'', ''pld''}" and "represents base s c"
    and "pull_size (mnemonic st) c = Some n" and "pulled_items (mnemonic st) s = Some allowed"
    and "item \<in> allowed" and "item_bytes item ks"
  shows "length ks = n"
  using assms
  by (auto simp: item_bytes_def accumulator_items_def pull_size_def pulled_items_def byte_size_def
      represents_def width_of_def split: if_splits)

lemma bank_pull_represented:
  assumes "mnemonic st = ''plb''" and stack: "hw_stack c = k # rest"
    and rep: "represents base s c" and top: "run_stack s = item # items"
    and item: "item \<in> {Saved_Bank, Raw_Byte, Raw_Word}"
  shows "\<exists>t. effect st s = Some t \<and> represents base t (c\<lparr>hw_stack := rest\<rparr>)"
proof (cases "item = Raw_Word")
  case False
  have "effect st s = Some (s\<lparr>run_stack := items\<rparr>)"
    using assms False by (intro effect_pull)
      (auto simp: pull_def pop_bank_def pop_item_def Let_def)
  moreover have "length ks = length [k]" if "item_bytes item ks" for ks
    using item that False by (auto simp: item_bytes_def)
  ultimately show ?thesis
    using drop_represented [OF rep top, of "[k]" rest] stack by simp
next
  case True
  have effect: "effect st s = Some (push_item Raw_Byte (s\<lparr>run_stack := items\<rparr>))"
    using assms True by (intro effect_pull)
      (auto simp: pull_def pop_bank_def pop_item_def Let_def)
  obtain ks rest' where word: "k # rest = ks @ rest'" "length ks = 2" "layout base items rest'"
    using rep top True stack by (auto simp: represents_def item_bytes_def)
  then obtain k' where "rest = [k'] @ rest'" by (cases ks; cases "tl ks") auto
  then have "layout base (Raw_Byte # items) rest"
    unfolding layout.simps using word(3) by (intro exI conjI) (auto simp: item_bytes_def)
  then show ?thesis using effect rep by (simp add: represents_def push_item_def del: layout.simps)
qed

lemma pull_represented:
  assumes size: "pull_size (mnemonic st) c = Some n" and stack: "hw_stack c = ks @ rest"
    and len: "length ks = n" and rep: "represents base s c" and fits: "stack_fits st s"
  shows "\<exists>t. effect st s = Some t \<and> represents base t (c\<lparr>hw_stack := rest\<rparr>)"
proof -
  have m: "mnemonic st \<in> {''pla'', ''plx'', ''ply'', ''plb'', ''pld''}"
    by (rule ccontr) (use size in \<open>simp add: pull_size_def\<close>)
  then obtain allowed where allowed: "pulled_items (mnemonic st) s = Some allowed"
    by (auto simp: pulled_items_def)
  obtain item items where top: "run_stack s = item # items" "item \<in> allowed"
    by (rule pull_top [OF fits allowed])
  show ?thesis
  proof (cases "mnemonic st = ''plb''")
    case True
    then obtain k where "ks = [k]" using size len by (cases ks) (auto simp: pull_size_def)
    then show ?thesis
      using bank_pull_represented [OF True _ rep top(1)] stack top(2) allowed True
      by (auto simp: pulled_items_def)
  next
    case False
    then have m: "mnemonic st \<in> {''pla'', ''plx'', ''ply'', ''pld''}" using m by blast
    show ?thesis
      using register_pull_effect [OF m top(1)] drop_represented [OF rep top(1) stack]
        register_pull_size [OF m rep size allowed top(2)] len by blast
  qed
qed

text \<open>What the processor does to a statement that fits, the abstract interpreter does too.\<close>

lemma status_pull_effect:
  assumes "run_stack s = Saved_Status a i # items"
    and "mnemonic st \<in> {''plp'', ''plp_interrupt''} \<or> restored_widths (mnemonic st) = Some (a, i)"
  shows "effect st s = Some (set_a a (set_i i (s\<lparr>run_stack := items\<rparr>)))"
proof -
  have "mnemonic st \<notin> {''pla'', ''plx'', ''ply'', ''plb'', ''pld''}"
    using assms(2) by (auto simp: restored_widths_def)
  then show ?thesis
    using assms
    by (intro effect_pull)
      (auto simp: pull_def pull_status_def restore_status_def pop_item_def Let_def)
qed

lemma status_pull_represented:
  assumes m: "mnemonic st \<in> status_pulls" and stack: "hw_stack c = b # rest"
    and rep: "represents base s c" and fits: "stack_fits st s"
  shows "\<exists>t. effect st s = Some t \<and>
    represents base t \<lparr>hw_m = status_m b, hw_x = status_x b, hw_stack = rest\<rparr>"
proof -
  have "\<exists>a i items. run_stack s = Saved_Status a i # items \<and>
      (mnemonic st \<in> {''plp'', ''plp_interrupt''} \<or> restored_widths (mnemonic st) = Some (a, i))"
  proof (cases "mnemonic st \<in> {''plp'', ''plp_interrupt''}")
    case True
    then have "pulled_items (mnemonic st) s = Some (range (case_prod Saved_Status))"
      by (auto simp: pulled_items_def)
    then obtain item items where "run_stack s = item # items" "item \<in> range (case_prod Saved_Status)"
      by (rule pull_top [OF fits])
    then show ?thesis using True by auto
  next
    case False
    then have "mnemonic st \<in> {''plp_m8_i8'', ''plp_m8_i16'', ''plp_m16_i8'', ''plp_m16_i16''}"
      using m by (simp add: status_pulls_def)
    then obtain a i where w: "restored_widths (mnemonic st) = Some (a, i)"
      "pulled_items (mnemonic st) s = Some {Saved_Status a i}"
      by (auto simp: restored_widths_def pulled_items_def)
    obtain item items where "run_stack s = item # items" "item \<in> {Saved_Status a i}"
      by (rule pull_top [OF fits w(2)])
    then show ?thesis using w(1) by auto
  qed
  then show ?thesis
    using status_pull_effect pull_status_represented [OF rep stack] by blast
qed

lemma plain_effect:
  assumes "mnemonic st \<in> plain_instructions"
  shows "effect st s = Some s"
  using assms unfolding plain_instructions_def branch_mnemonics_def insert_iff empty_iff Un_iff
  by (elim disjE)
    (simp_all add: effect_def transfer_def Let_def width_macros_def asserted_widths_def
      pushed_item_def pull_def restored_widths_def is_terminal_return_macro_def)

lemma silent_effect:
  assumes "silent_statement st"
  shows "effect st s = Some s"
proof -
  have m: "mnemonic st \<notin> instructions \<and> mnemonic st \<notin> width_macros"
  proof (cases "ends_with (CHR '':'') (mnemonic st)")
    case True
    then show ?thesis using instructions_not_neutral by (auto simp: width_macros_def ends_with_def)
  next
    case False
    then have "mnemonic st \<in> silent_mnemonics" using assms by (simp add: silent_statement_def)
    then show ?thesis unfolding silent_mnemonics_def insert_iff empty_iff
      by (elim disjE) (simp_all add: instructions_def branch_mnemonics_def width_macros_def is_terminal_return_macro_def)
  qed
  then have "mnemonic st \<notin> instructions" by simp
  from not_instruction [OF this] not_instruction_pull(2) [OF this] m show ?thesis
    by (simp add: effect_def transfer_def Let_def)
qed

lemma effect_represented:
  assumes "hw_effect other st c d" and rep: "represents base s c" and fits: "stack_fits st s"
    and known: "known_statement st"
  shows "\<exists>t. effect st s = Some t \<and> represents base t d"
  using assms(1)
proof cases
  case (hw_macro m x)
  note macro = macro_represented [OF hw_macro(2) rep]
  then have "effect st s = Some (normalize_at_entry (mnemonic st) s)"
    by (simp add: effect_def transfer_def Let_def)
  then show ?thesis using macro hw_macro by simp
next
  case (hw_immediate v m x)
  have "mnemonic st \<notin> width_macros" using hw_immediate(2) by (auto simp: width_macros_def)
  then have "effect st s = Some (apply_status_immediate (mnemonic st) (operand st) s)"
    using hw_immediate(2) by (simp add: effect_def transfer_def Let_def)
  then show ?thesis using immediate_represented [OF hw_immediate(3,4) rep] hw_immediate(1) by simp
next
  case (hw_push n ks)
  obtain item where item: "pushed_item (mnemonic st) s = Some item"
    and pushed: "represents base (push_item item s) (c\<lparr>hw_stack := ks @ hw_stack c\<rparr>)"
    by (rule push_represented [OF hw_push(2,3) rep])
  then show ?thesis using hw_push(1) pushed_effect [OF item] by blast
next
  case (hw_push_status b)
  then have "pushed_item (mnemonic st) s = Some (Saved_Status (run_a s) (run_i s))"
    by (simp add: pushed_item_def)
  then show ?thesis
    using pushed_effect push_status_represented [OF hw_push_status(3,4) rep] hw_push_status(1) by blast
next
  case (hw_pull n ks rest)
  then show ?thesis using pull_represented [OF hw_pull(2,3,4) rep fits] by simp
next
  case (hw_pull_status b rest)
  then show ?thesis using status_pull_represented [OF hw_pull_status(2,3) rep fits] by simp
next
  case hw_plain
  then show ?thesis using plain_effect rep by blast
next
  case hw_silent
  then show ?thesis using silent_effect rep by blast
next
  case hw_other
  then show ?thesis using known by simp
qed

text \<open>\<^verbatim>\<open>setDBR\<close> is \<^verbatim>\<open>pea\<close> and two \<^verbatim>\<open>plb\<close>, \<^verbatim>\<open>setDP\<close> is \<^verbatim>\<open>pea\<close> and \<^verbatim>\<open>pld\<close>.\<close>

lemmas effect_defs = macro_flags_def push_size_def pull_size_def status_pulls_def plain_instructions_def branch_mnemonics_def
  silent_statement_def silent_mnemonics_def known_statement_def ends_with_def

lemma pea_effect:
  "hw_effect other st c d \<Longrightarrow> mnemonic st = ''pea'' \<Longrightarrow> \<exists>ks. length ks = 2 \<and> d = c\<lparr>hw_stack := ks @ hw_stack c\<rparr>"
  by (erule hw_effect.cases) (auto simp: effect_defs)

lemma plb_effect:
  "hw_effect other st c d \<Longrightarrow> mnemonic st = ''plb'' \<Longrightarrow> \<exists>k. hw_stack c = k # hw_stack d \<and> d = c\<lparr>hw_stack := tl (hw_stack c)\<rparr>"
  by (erule hw_effect.cases) (auto simp: effect_defs length_Suc_conv)

lemma pld_effect:
  "hw_effect other st c d \<Longrightarrow> mnemonic st = ''pld'' \<Longrightarrow> d = c\<lparr>hw_stack := drop 2 (hw_stack c)\<rparr>"
  by (erule hw_effect.cases) (auto simp: effect_defs)

lemma setdbr_balanced:
  assumes "map mnemonic sts = map fst (the (utility_macro ''setdbr''))" and "length sts = 3"
    and "hw_effect other (sts ! 0) c c1" and "hw_effect other (sts ! 1) c1 c2" and "hw_effect other (sts ! 2) c2 d"
  shows "d = c"
proof -
  have m: "map mnemonic sts = [''pea'', ''plb'', ''plb'']" using assms(1) by (simp add: utility_macro_def)
  have "mnemonic (sts ! k) = [''pea'', ''plb'', ''plb''] ! k" if "k < 3" for k
    using that assms(2) arg_cong [OF m, of "\<lambda>ms. ms ! k"] by simp
  from this [of 0] this [of 1] this [of 2] have "mnemonic (sts ! 0) = ''pea''" "mnemonic (sts ! 1) = ''plb''" "mnemonic (sts ! 2) = ''plb''"
    by simp_all
  from pea_effect [OF assms(3) this(1)] plb_effect [OF assms(4) this(2)] plb_effect [OF assms(5) this(3)]
  show ?thesis by (auto simp: length_Suc_conv numeral_2_eq_2)
qed

lemma setdp_balanced:
  assumes "map mnemonic sts = map fst (the (utility_macro ''setdp''))" and "length sts = 2"
    and "hw_effect other (sts ! 0) c c1" and "hw_effect other (sts ! 1) c1 d"
  shows "d = c"
proof -
  have m: "map mnemonic sts = [''pea'', ''pld'']" using assms(1) by (simp add: utility_macro_def)
  have "mnemonic (sts ! k) = [''pea'', ''pld''] ! k" if "k < 2" for k
    using that assms(2) arg_cong [OF m, of "\<lambda>ms. ms ! k"] by simp
  from this [of 0] this [of 1] have "mnemonic (sts ! 0) = ''pea''" "mnemonic (sts ! 1) = ''pld''" by simp_all
  from pea_effect [OF assms(3) this(1)] pld_effect [OF assms(4) this(2)] show ?thesis by auto
qed

section \<open>Whole executions\<close>

text \<open>A procedure without local subroutines.\<close>

definition no_local_calls :: "statement list \<Rightarrow> bool" where
  "no_local_calls statements \<longleftrightarrow> (\<forall>i < length statements. local_call i statements = None)"

definition hw_entry :: "abi \<Rightarrow> u8 list \<Rightarrow> hardware" where
  "hw_entry entry base = \<lparr>hw_m = (abi_a entry = Eight), hw_x = (abi_i entry = Eight), hw_stack = base\<rparr>"

lemma entry_represented: "represents base (entry_state entry) (hw_entry entry base)"
  by (simp add: represents_def entry_state_def hw_entry_def width_of_def)
    (metis width.exhaust)

lemma effect_not_return:
  assumes "hw_effect other st c d"
  shows "mnemonic st \<notin> {''rti'', ''rts'', ''rtl''}"
proof
  assume "mnemonic st \<in> {''rti'', ''rts'', ''rtl''}"
  with assms show False
    unfolding insert_iff empty_iff
    by (elim hw_effect.cases disjE FalseE)
      (simp_all add: macro_flags_def push_size_def pull_size_def status_pulls_def
        plain_instructions_def branch_mnemonics_def silent_statement_def silent_mnemonics_def known_statement_def
        ends_with_def)
qed

lemma execution_represented:
  assumes steps: "(hw_step other address statements)\<^sup>*\<^sup>* (0, hw_entry entry base) (i, c)"
    and local: "no_local_calls statements" and known: "list_all known_statement statements"
    and fits: "\<And>i s. (path_step statements)\<^sup>*\<^sup>* (0, entry_state entry) (i, s) \<Longrightarrow>
      i < length statements \<Longrightarrow> stack_fits (statements ! i) s"
  shows "\<exists>s. (path_step statements)\<^sup>*\<^sup>* (0, entry_state entry) (i, s) \<and> run_calls s = [] \<and>
    represents base s c"
  using steps
proof (induction rule: rtranclp_induct2)
  case refl
  then show ?case using entry_represented by (auto simp: entry_state_def)
next
  case (step i c j d)
  then obtain s where s: "(path_step statements)\<^sup>*\<^sup>* (0, entry_state entry) (i, s)" "run_calls s = []"
    "represents base s c" by blast
  from step.hyps(2) show ?case
  proof (cases rule: hw_step_cases)
    case hw_next
    have "stack_fits (statements ! i) s" by (rule fits [OF s(1) hw_next(1)])
    moreover have "known_statement (statements ! i)"
      using known hw_next(1) nth_mem unfolding list_all_iff by blast
    ultimately obtain t where t: "effect (statements ! i) s = Some t" "represents base t d"
      using effect_represented [OF hw_next(2) s(3)] by blast
    have "path_step statements (i, s) (j, t)"
      by (rule path_step.path_next) (use hw_next t(1) effect_not_return in \<open>simp_all\<close>)
    moreover have "run_calls t = run_calls s"
      using t(1) transfer_calls [of Normal_Profile "statements ! i" s "{}" t]
      by (metis effect_def prod.collapse)
    ultimately have "(path_step statements)\<^sup>*\<^sup>* (0, entry_state entry) (j, t)" "run_calls t = []"
      using s(1,2) rtranclp.rtrancl_into_rtrancl [OF s(1)] by simp_all
    then show ?thesis using t(2) by blast
  next
    case hw_call
    then show ?thesis using local by (simp add: no_local_calls_def)
  next
    case (hw_return rest)
    then show ?thesis using local by (simp add: no_local_calls_def)
  qed
qed

text \<open>
  C23: On the processor, a procedure without local subroutines that the linter accepts and whose statements are all known
  runs with the widths it is assembled for: started with the flags of its entry, at every immediate the M or X
  flag is the width the linter tracks for the operand, which is the width the assembler encodes it with unless an untracked macro
  stands before it; and at every return the stack is exactly the one
  of the caller and the flags are those of the ABI; an \<^verbatim>\<open>rti\<close> stands only in an interrupt procedure.
  Known are the instructions of the processor that do not move the stack pointer otherwise, \<^verbatim>\<open>rep\<close> and \<^verbatim>\<open>sep\<close> with a literal,
  labels, width directives, and the macros of \<^verbatim>\<open>macro/utility.asm\<close> except \<^verbatim>\<open>inc32\<close>, \<^verbatim>\<open>suspendNmi\<close> and \<^verbatim>\<open>restoreNmi\<close>;
  other macros are excluded. A call of another procedure is taken to come back with the flags and the stack it
  left with, and jumps go where the linter resolves them.
\<close>

theorem lint_hardware_sound:
  assumes lint: "lint_workspace files options = Some {}"
    and parse: "parse_files options profile files {} = (ps, ds)" and p: "p \<in> set ps"
    and local: "no_local_calls (proc_statements p)"
    and known: "list_all known_statement (proc_statements p)"
    and entry: "(return_abi, entry) \<in> set (procedure_entries p)"
    and steps: "(hw_step other address (proc_statements p))\<^sup>*\<^sup>* (0, hw_entry entry base) (i, c)"
    and i: "i < length (proc_statements p)" and st: "st = proc_statements p ! i"
  shows "(accumulator_immediate (mnemonic st) (operand st) \<longrightarrow> asm_a st = Some (width_of (hw_m c))) \<and>
    (index_immediate (mnemonic st) (operand st) \<longrightarrow> asm_i st = Some (width_of (hw_x c))) \<and>
    (tracked_before (proc_statements p) i \<longrightarrow> encoded_widths (proc_statements p) i = (asm_a st, asm_i st)) \<and>
    (mnemonic st \<in> {''rts'', ''rtl''} \<longrightarrow> hw_stack c = base \<and>
      return_abi = Some \<lparr>abi_a = width_of (hw_m c), abi_i = width_of (hw_x c)\<rparr>) \<and>
    (mnemonic st = ''rti'' \<longrightarrow> hw_stack c = base \<and> proc_kind p = Interrupt)"
proof -
  note safe = lint_workspace_safe(3) [OF lint parse p entry]
  have fits: "stack_fits (proc_statements p ! k) s"
    if "(path_step (proc_statements p))\<^sup>*\<^sup>* (0, entry_state entry) (k, s)" "k < length (proc_statements p)"
    for k s
    using safe [OF that] by (simp add: statement_safe_def Let_def)
  obtain s where s: "(path_step (proc_statements p))\<^sup>*\<^sup>* (0, entry_state entry) (i, s)" "run_calls s = []"
    "represents base s c"
    using execution_represented [OF steps local known fits] by blast
  have "widths_agree (procedure_abis ps) st s" "return_fits return_abi st s"
    "interrupt_fits (proc_kind p) st s"
    using safe [OF s(1) i] st by (simp_all add: statement_safe_def Let_def)
  then have "(accumulator_immediate (mnemonic st) (operand st) \<longrightarrow> asm_a st = Some (width_of (hw_m c))) \<and>
    (index_immediate (mnemonic st) (operand st) \<longrightarrow> asm_i st = Some (width_of (hw_x c))) \<and>
    (mnemonic st \<in> {''rts'', ''rtl''} \<longrightarrow> hw_stack c = base \<and>
      return_abi = Some \<lparr>abi_a = width_of (hw_m c), abi_i = width_of (hw_x c)\<rparr>) \<and>
    (mnemonic st = ''rti'' \<longrightarrow> hw_stack c = base \<and> proc_kind p = Interrupt)"
    using s(2,3) by (auto simp: widths_agree_def return_fits_def interrupt_fits_def represents_def)
  moreover have "tracked_before (proc_statements p) i \<longrightarrow> encoded_widths (proc_statements p) i = (asm_a st, asm_i st)"
    using parse_files_inv [OF parse] p i st by (auto simp: well_typed_procedure_def asm_tracked_def)
  ultimately show ?thesis by blast
qed

section \<open>Executions of sample sources\<close>

definition source_text :: "string list \<Rightarrow> string" where
  "source_text lines = concat (map (\<lambda>l. l @ [line_feed]) lines)"

definition source_line :: "nat \<Rightarrow> string \<Rightarrow> width option \<Rightarrow> width option \<Rightarrow> statement" where
  "source_line line code a i =
    \<lparr>stmt_location = \<lparr>loc_path = [''a.asm''], loc_line = line\<rparr>, stmt_text = code,
     mnemonic = to_ascii_lowercase (fst (split_statement code)), operand = snd (split_statement code),
     asm_a = a, asm_i = i\<rparr>"

definition narrow_procedure :: "statement list \<Rightarrow> procedure" where
  "narrow_procedure statements =
    \<lparr>proc_name = ''p'', proc_location = \<lparr>loc_path = [''a.asm''], loc_line = 1\<rparr>,
     proc_statements = statements, proc_abi = Some \<lparr>abi_a = Eight, abi_i = Eight\<rparr>,
     proc_kind = Ordinary\<rparr>"

definition narrow_entry :: abi where "narrow_entry = \<lparr>abi_a = Eight, abi_i = Eight\<rparr>"

lemma hw_next_at:
  assumes "i < length statements" and "hw_effect other (statements ! i) c d"
    and "(local_call i statements, successors i statements (collect_labels statements)
            (collect_anonymous_labels statements)) = (None, js)"
    and "j \<in> set js" and "j < length statements"
  shows "hw_step other address statements (i, c) (j, d)"
  using assms by (auto intro: hw_step.hw_next)

text \<open>Macros that do nothing, and \<^verbatim>\<open>inc32\<close> of \<^verbatim>\<open>macro/utility.asm\<close>, which starts with \<^verbatim>\<open>m16\<close>.\<close>

definition idle_macros :: macro_effect where
  "idle_macros m c d \<longleftrightarrow> d = c"

definition utility_macros :: macro_effect where
  "utility_macros m c d \<longleftrightarrow> d = (if m = ''inc32'' then c\<lparr>hw_m := False\<rparr> else c)"

lemma directive_step: "hw_effect other st c c" if "mnemonic st \<in> {''.a8'', ''.i8''}"
  using that by (intro hw_silent) (auto simp: silent_statement_def silent_mnemonics_def)

lemma label_step: "hw_effect other st c c" if "mnemonic st = l @ '':''" "operand st = []"
  using that by (intro hw_silent) (simp add: silent_statement_def ends_with_def)

subsection \<open>An immediate after a width change\<close>

definition wide_lines :: "string list" where
  "wide_lines = [''.proc p'', '' .a8'', '' .i8'', '' m16'', '' lda #1'', '' m8'', '' rts'', ''.endproc'']"

definition wide_statements :: "statement list" where
  "wide_statements =
    [source_line 2 ''.a8'' (Some Eight) None, source_line 3 ''.i8'' (Some Eight) (Some Eight),
     source_line 4 ''m16'' (Some Eight) (Some Eight), source_line 5 ''lda #1'' (Some Sixteen) (Some Eight),
     source_line 6 ''m8'' (Some Sixteen) (Some Eight), source_line 7 ''rts'' (Some Eight) (Some Eight)]"

lemma wide_facts:
  "lint_workspace [([''a.asm''], source_text wide_lines)] \<lparr>enforce_policy = True\<rparr> = Some {}"
  "parse_files \<lparr>enforce_policy = True\<rparr> Normal_Profile [([''a.asm''], source_text wide_lines)] {} =
    ([narrow_procedure wide_statements], {})"
  "no_local_calls wide_statements"
  "map (\<lambda>i. (local_call i wide_statements, successors i wide_statements
      (collect_labels wide_statements) (collect_anonymous_labels wide_statements))) [0, 1, 2] =
    [(None, [1]), (None, [2]), (None, [3])]"
  "map mnemonic wide_statements = [''.a8'', ''.i8'', ''m16'', ''lda'', ''m8'', ''rts'']"
  "accumulator_immediate (mnemonic (wide_statements ! 3)) (operand (wide_statements ! 3))"
  by code_simp+

lemma wide_known: "list_all known_statement wide_statements"
  using wide_facts(5) unfolding wide_statements_def
  by (simp add: known_statement_def silent_statement_def silent_mnemonics_def macro_flags_def plain_instructions_def)

lemma lint_hardware_sound_witness:
  "\<exists>c. (hw_step idle_macros (\<lambda>_. []) wide_statements)\<^sup>*\<^sup>* (0, hw_entry narrow_entry [7]) (3, c) \<and>
    \<not> hw_m c \<and> asm_a (wide_statements ! 3) = Some (width_of (hw_m c))"
proof -
  let ?c = "hw_entry narrow_entry [7]"
  let ?step = "hw_step idle_macros (\<lambda>_. []) wide_statements"
  have len: "length wide_statements = 6" by (simp add: wide_statements_def)
  have m: "mnemonic (wide_statements ! 0) = ''.a8''" "mnemonic (wide_statements ! 1) = ''.i8''"
    "mnemonic (wide_statements ! 2) = ''m16''"
    using wide_facts(5) by (simp_all add: wide_statements_def)
  have s1: "?step (0, ?c) (1, ?c)"
    by (rule hw_next_at [where js = "[1]"]) (use m wide_facts(4) in \<open>simp_all add: len directive_step\<close>)
  have s2: "?step (1, ?c) (2, ?c)"
    by (rule hw_next_at [where js = "[2]"]) (use m wide_facts(4) in \<open>simp_all add: len directive_step\<close>)
  have s3: "?step (2, ?c) (3, set_flags (Some False) None ?c)"
    by (rule hw_next_at [where js = "[3]"])
      (use m wide_facts(4) in \<open>simp_all add: len hw_macro macro_flags_def\<close>)
  note step_trans = converse_rtranclp_into_rtranclp
  have steps: "?step\<^sup>*\<^sup>* (0, ?c) (3, set_flags (Some False) None ?c)"
    by (rule step_trans [OF s1 step_trans [OF s2 r_into_rtranclp [of ?step, OF s3]]])
  have "asm_a (wide_statements ! 3) = Some (width_of (hw_m (set_flags (Some False) None ?c)))"
    using lint_hardware_sound [OF wide_facts(1,2), of "narrow_procedure wide_statements"
        "Some narrow_entry" narrow_entry idle_macros "\<lambda>_. []" "[7]" 3 "set_flags (Some False) None ?c"
        "wide_statements ! 3"] wide_facts(3,6) wide_known steps
    by (simp add: narrow_procedure_def procedure_entries_def narrow_entry_def len)
  with steps show ?thesis by (intro exI [of _ "set_flags (Some False) None ?c"]) simp
qed

subsection \<open>A macro the linter does not know\<close>

definition inc32_lines :: "string list" where
  "inc32_lines = [''.proc p'', '' .a8'', '' .i8'', '' inc32 v'', '' rts'', ''.endproc'']"

definition inc32_statements :: "statement list" where
  "inc32_statements =
    [source_line 2 ''.a8'' (Some Eight) None, source_line 3 ''.i8'' (Some Eight) (Some Eight),
     source_line 4 ''inc32 v'' (Some Eight) (Some Eight), source_line 5 ''rts'' (Some Eight) (Some Eight)]"

lemma inc32_facts:
  "lint_workspace [([''a.asm''], source_text inc32_lines)] \<lparr>enforce_policy = True\<rparr> = Some {}"
  "parse_files \<lparr>enforce_policy = True\<rparr> Normal_Profile [([''a.asm''], source_text inc32_lines)] {} =
    ([narrow_procedure inc32_statements], {})"
  "map (\<lambda>i. (local_call i inc32_statements, successors i inc32_statements
      (collect_labels inc32_statements) (collect_anonymous_labels inc32_statements))) [0, 1, 2] =
    [(None, [1]), (None, [2]), (None, [3])]"
  "map mnemonic inc32_statements = [''.a8'', ''.i8'', ''inc32'', ''rts'']"
  by code_simp+

lemma inc32_step: "hw_effect utility_macros st c (c\<lparr>hw_m := False\<rparr>)" if "mnemonic st = ''inc32''"
  using that by (intro hw_other)
    (auto simp: utility_macros_def known_statement_def silent_statement_def silent_mnemonics_def ends_with_def
      macro_flags_def status_pulls_def plain_instructions_def branch_mnemonics_def)

text \<open>
  The macro \<^verbatim>\<open>inc32\<close> of \<^verbatim>\<open>macro/utility.asm\<close> begins with \<^verbatim>\<open>m16\<close>, but the transfer model leaves the
  widths alone: the linter accepts a procedure with an 8-bit ABI whose only instruction is \<^verbatim>\<open>inc32\<close>,
  and on the processor that procedure returns with a 16-bit accumulator.
\<close>

theorem lint_misses_inc32:
  "lint_workspace [([''a.asm''], source_text inc32_lines)] \<lparr>enforce_policy = True\<rparr> = Some {} \<and>
   parse_files \<lparr>enforce_policy = True\<rparr> Normal_Profile [([''a.asm''], source_text inc32_lines)] {} =
     ([narrow_procedure inc32_statements], {}) \<and>
   (\<exists>c. (hw_step utility_macros address inc32_statements)\<^sup>*\<^sup>* (0, hw_entry narrow_entry base) (3, c) \<and>
     mnemonic (inc32_statements ! 3) = ''rts'' \<and> width_of (hw_m c) \<noteq> abi_a narrow_entry)"
proof -
  let ?c = "hw_entry narrow_entry base"
  let ?step = "hw_step utility_macros address inc32_statements"
  have len: "length inc32_statements = 4" by (simp add: inc32_statements_def)
  have m: "mnemonic (inc32_statements ! 0) = ''.a8''" "mnemonic (inc32_statements ! 1) = ''.i8''"
    "mnemonic (inc32_statements ! 2) = ''inc32''" "mnemonic (inc32_statements ! 3) = ''rts''"
    using inc32_facts(4) by (simp_all add: inc32_statements_def)
  have s1: "?step (0, ?c) (1, ?c)"
    by (rule hw_next_at [where js = "[1]"]) (use m inc32_facts(3) in \<open>simp_all add: len directive_step\<close>)
  have s2: "?step (1, ?c) (2, ?c)"
    by (rule hw_next_at [where js = "[2]"]) (use m inc32_facts(3) in \<open>simp_all add: len directive_step\<close>)
  have s3: "?step (2, ?c) (3, ?c\<lparr>hw_m := False\<rparr>)"
    by (rule hw_next_at [where js = "[3]"]) (use m inc32_facts(3) in \<open>simp_all add: len inc32_step\<close>)
  note step_trans = converse_rtranclp_into_rtranclp
  have "?step\<^sup>*\<^sup>* (0, ?c) (3, ?c\<lparr>hw_m := False\<rparr>)"
    by (rule step_trans [OF s1 step_trans [OF s2 r_into_rtranclp [of ?step, OF s3]]])
  then show ?thesis
    using inc32_facts(1,2) m(4)
    by (intro conjI exI [of _ "?c\<lparr>hw_m := False\<rparr>"]) (simp_all add: narrow_entry_def)
qed

subsection \<open>A local subroutine that pulls what its caller pushed\<close>

definition robber_lines :: "string list" where
  "robber_lines = [''.proc p'', '' .a8'', '' .i8'', '' php'', '' jsr @s'', '' plp_m8_i8'', '' rts'', ''@s:'',
     '' plp_m8_i8'', '' lda #1'', '' php'', '' rts'', ''.endproc'']"

definition narrow_line :: "nat \<Rightarrow> string \<Rightarrow> statement" where
  "narrow_line line code = source_line line code (Some Eight) (Some Eight)"

definition robber_statements :: "statement list" where
  "robber_statements =
    [source_line 2 ''.a8'' (Some Eight) None, narrow_line 3 ''.i8'', narrow_line 4 ''php'',
     narrow_line 5 ''jsr @s'', narrow_line 6 ''plp_m8_i8'', narrow_line 7 ''rts'', narrow_line 8 ''@s:'',
     narrow_line 9 ''plp_m8_i8'', narrow_line 10 ''lda #1'', narrow_line 11 ''php'', narrow_line 12 ''rts'']"

lemma robber_facts:
  "lint_workspace [([''a.asm''], source_text robber_lines)] \<lparr>enforce_policy = True\<rparr> = Some {}"
  "parse_files \<lparr>enforce_policy = True\<rparr> Normal_Profile [([''a.asm''], source_text robber_lines)] {} =
    ([narrow_procedure robber_statements], {})"
  "map (\<lambda>i. (local_call i robber_statements, successors i robber_statements
      (collect_labels robber_statements) (collect_anonymous_labels robber_statements))) [0, 1, 2, 3, 6, 7] =
    [(None, [1]), (None, [2]), (None, [3]), (Some 6, [4]), (None, [7]), (None, [8])]"
  "map (\<lambda>i. mnemonic (robber_statements ! i)) [0, 1, 2, 3, 6, 7, 8] =
    [''.a8'', ''.i8'', ''php'', ''jsr'', ''@s:'', ''plp_m8_i8'', ''lda'']"
  "accumulator_immediate (mnemonic (robber_statements ! 8)) (operand (robber_statements ! 8))"
  by code_simp+

lemma robber_label: "operand (robber_statements ! 6) = []"
  by code_simp

text \<open>
  C25: A local subroutine may pull what its caller has pushed, as long as it pushes it again: the
  linter keeps no return address on its stack and accepts the source. On the processor the
  subroutine pulls the low octet of its return address into the status register, so the 8-bit
  immediate that follows is executed with a 16-bit accumulator.
\<close>

theorem lint_misses_stolen_return:
  "lint_workspace [([''a.asm''], source_text robber_lines)] \<lparr>enforce_policy = True\<rparr> = Some {} \<and>
   parse_files \<lparr>enforce_policy = True\<rparr> Normal_Profile [([''a.asm''], source_text robber_lines)] {} =
     ([narrow_procedure robber_statements], {}) \<and>
   (\<exists>c. (hw_step idle_macros (\<lambda>_. [0x00, 0x80]) robber_statements)\<^sup>*\<^sup>*
       (0, hw_entry narrow_entry base) (8, c) \<and>
     accumulator_immediate (mnemonic (robber_statements ! 8)) (operand (robber_statements ! 8)) \<and>
     asm_a (robber_statements ! 8) \<noteq> Some (width_of (hw_m c)))"
proof -
  let ?c = "hw_entry narrow_entry base"
  let ?pushed = "?c\<lparr>hw_stack := 0x30 # base\<rparr>"
  let ?called = "?c\<lparr>hw_stack := 0x00 # 0x80 # 0x30 # base\<rparr>"
  let ?robbed = "\<lparr>hw_m = status_m 0x00, hw_x = status_x 0x00, hw_stack = 0x80 # 0x30 # base\<rparr>"
  let ?step = "hw_step idle_macros (\<lambda>_. [0x00, 0x80]) robber_statements"
  have len: "length robber_statements = 11" by (simp add: robber_statements_def)
  note m = robber_facts(4)
  have s1: "?step (0, ?c) (1, ?c)"
    by (rule hw_next_at [where js = "[1]"]) (use m robber_facts(3) in \<open>simp_all add: len directive_step\<close>)
  have s2: "?step (1, ?c) (2, ?c)"
    by (rule hw_next_at [where js = "[2]"]) (use m robber_facts(3) in \<open>simp_all add: len directive_step\<close>)
  have "hw_effect idle_macros (robber_statements ! 2) ?c (?c\<lparr>hw_stack := 0x30 # hw_stack ?c\<rparr>)"
    by (rule hw_push_status)
      (use m in \<open>simp_all add: hw_entry_def narrow_entry_def status_m_def status_x_def\<close>)
  then have s3: "?step (2, ?c) (3, ?pushed)"
    by (intro hw_next_at [where js = "[3]"])
      (use m robber_facts(3) in \<open>simp_all add: len hw_entry_def\<close>)
  have s4: "?step (3, ?pushed) (6, ?called)"
    using hw_call [of 3 robber_statements 6 idle_macros "\<lambda>_. [0x00, 0x80]" ?pushed] robber_facts(3)
    by (simp add: len)
  have s5: "?step (6, ?called) (7, ?called)"
    by (rule hw_next_at [where js = "[7]"])
      (use m robber_facts(3) in \<open>simp_all add: len label_step [where l = "''@s''"] robber_label\<close>)
  have "hw_effect idle_macros (robber_statements ! 7) ?called ?robbed"
    by (rule hw_pull_status) (use m in \<open>simp_all add: status_pulls_def\<close>)
  then have s6: "?step (7, ?called) (8, ?robbed)"
    by (intro hw_next_at [where js = "[8]"]) (use robber_facts(3) in \<open>simp_all add: len\<close>)
  note step_trans = converse_rtranclp_into_rtranclp
  have "?step\<^sup>*\<^sup>* (0, ?c) (8, ?robbed)"
    by (rule step_trans [OF s1 step_trans [OF s2 step_trans [OF s3 step_trans [OF s4
        step_trans [OF s5 r_into_rtranclp [of ?step, OF s6]]]]]])
  moreover have "asm_a (robber_statements ! 8) = Some Eight"
    by (simp add: robber_statements_def narrow_line_def source_line_def)
  ultimately show ?thesis
    using robber_facts(1,2,5)
    by (intro conjI exI [of _ ?robbed]) (simp_all add: status_m_def)
qed

subsection \<open>Code after a status restore\<close>

definition restored_lines :: "string list" where
  "restored_lines = [''.proc p'', '' .a8'', '' .i8'', '' php'', '' m16'', '' bra @x'', ''@r:'', '' plp_m8_i8'', '' rts'', ''@x:'',
     '' lda #1'', '' bra @r'', ''.endproc'']"

definition restored_statements :: "statement list" where
  "restored_statements =
    [source_line 2 ''.a8'' (Some Eight) None, narrow_line 3 ''.i8'', narrow_line 4 ''php'', narrow_line 5 ''m16'',
     source_line 6 ''bra @x'' (Some Sixteen) (Some Eight), source_line 7 ''@r:'' (Some Sixteen) (Some Eight),
     source_line 8 ''plp_m8_i8'' (Some Sixteen) (Some Eight), source_line 9 ''rts'' (Some Sixteen) (Some Eight),
     source_line 10 ''@x:'' (Some Sixteen) (Some Eight), source_line 11 ''lda #1'' (Some Sixteen) (Some Eight),
     source_line 12 ''bra @r'' (Some Sixteen) (Some Eight)]"

lemma restored_facts:
  "lint_workspace [([''a.asm''], source_text restored_lines)] \<lparr>enforce_policy = True\<rparr> = Some {}"
  "parse_files \<lparr>enforce_policy = True\<rparr> Normal_Profile [([''a.asm''], source_text restored_lines)] {} =
    ([narrow_procedure restored_statements], {})"
  "map (\<lambda>i. (local_call i restored_statements, successors i restored_statements
      (collect_labels restored_statements) (collect_anonymous_labels restored_statements))) [0, 1, 2, 3, 4, 8] =
    [(None, [1]), (None, [2]), (None, [3]), (None, [4]), (None, [8]), (None, [9])]"
  "map mnemonic restored_statements =
    [''.a8'', ''.i8'', ''php'', ''m16'', ''bra'', ''@r:'', ''plp_m8_i8'', ''rts'', ''@x:'', ''lda'', ''bra'']"
  "accumulator_immediate (mnemonic (restored_statements ! 9)) (operand (restored_statements ! 9))"
  "operand (restored_statements ! 8) = []"
  by code_simp+

lemma restored_encoding: "fst (encoded_widths restored_statements 9) = Some Eight"
proof -
  have expand: "expand_macro 4 m = (case macro_expansion m of None \<Rightarrow> Some [m]
     | Some body \<Rightarrow> map_option concat (those (map (expand_macro 3) (map fst body))))" for m
    using expand_macro.simps(2) [of 3 m] by simp
  have "asm_widths statements = fold (\<lambda>m ws. case expand_macro 4 m of None \<Rightarrow> ws | Some ms \<Rightarrow> fold directive_widths ms ws)
      (map mnemonic statements) (None, None)" for statements
    unfolding asm_widths_def fold_map by (rule fold_cong) (simp_all add: asm_next_def fun_eq_iff)
  then have "asm_widths (take 9 restored_statements) =
      fold (\<lambda>m ws. case expand_macro 4 m of None \<Rightarrow> ws | Some ms \<Rightarrow> fold directive_widths ms ws)
        (take 9 (map mnemonic restored_statements)) (None, None)" by (simp add: take_map)
  also have "fst \<dots> = Some Eight"
    unfolding restored_facts(4) expand
    by (simp add: macro_expansion_def utility_macro_def firmware_macro_def eval_nat_numeral directive_widths_def
        directive_a_def directive_i_def)
  finally have "fst (asm_widths (take 9 restored_statements)) = Some Eight" .
  moreover have "mnemonic (restored_statements ! 9) = ''lda''"
    using arg_cong [OF restored_facts(4), of "\<lambda>ms. ms ! 9"] by (simp add: restored_statements_def)
  ultimately show ?thesis by (simp add: encoded_widths_def directive_widths_def directive_a_def)
qed

text \<open>
  C31: The macros that restore a status declare the widths to the assembler, but the parser of the linter does not follow
  them. It accepts a procedure in which a line after such a macro, reached by a branch, is executed with a
  16-bit accumulator, as \<^verbatim>\<open>m16\<close> left it, while the assembler encodes its immediate for 8 bits, as \<^verbatim>\<open>plp_m8_i8\<close> declared: the
  processor takes the first octet of the next instruction for the high octet of the operand.
\<close>

theorem lint_misses_restored_widths:
  "lint_workspace [([''a.asm''], source_text restored_lines)] \<lparr>enforce_policy = True\<rparr> = Some {} \<and>
   parse_files \<lparr>enforce_policy = True\<rparr> Normal_Profile [([''a.asm''], source_text restored_lines)] {} =
     ([narrow_procedure restored_statements], {}) \<and>
   (\<exists>c. (hw_step other address restored_statements)\<^sup>*\<^sup>* (0, hw_entry narrow_entry base) (9, c) \<and>
     accumulator_immediate (mnemonic (restored_statements ! 9)) (operand (restored_statements ! 9)) \<and>
     \<not> hw_m c \<and> fst (encoded_widths restored_statements 9) = Some Eight)"
proof -
  let ?c = "hw_entry narrow_entry base"
  let ?pushed = "?c\<lparr>hw_stack := 0x30 # base\<rparr>"
  let ?wide = "set_flags (Some False) None ?pushed"
  let ?step = "hw_step other address restored_statements"
  have len: "length restored_statements = 11" by (simp add: restored_statements_def)
  have m: "mnemonic (restored_statements ! k) =
      [''.a8'', ''.i8'', ''php'', ''m16'', ''bra'', ''@r:'', ''plp_m8_i8'', ''rts'', ''@x:'', ''lda'', ''bra''] ! k" if "k < 11" for k
    using that len arg_cong [OF restored_facts(4), of "\<lambda>ms. ms ! k"] by simp
  note flow = restored_facts(3)
  have s1: "?step (0, ?c) (1, ?c)"
    by (rule hw_next_at [where js = "[1]"]) (use m [of 0] flow in \<open>simp_all add: len directive_step\<close>)
  have s2: "?step (1, ?c) (2, ?c)"
    by (rule hw_next_at [where js = "[2]"]) (use m [of 1] flow in \<open>simp_all add: len directive_step\<close>)
  have "hw_effect other (restored_statements ! 2) ?c (?c\<lparr>hw_stack := 0x30 # hw_stack ?c\<rparr>)"
    by (rule hw_push_status)
      (use m [of 2] in \<open>simp_all add: hw_entry_def narrow_entry_def status_m_def status_x_def\<close>)
  then have s3: "?step (2, ?c) (3, ?pushed)"
    by (intro hw_next_at [where js = "[3]"]) (use flow in \<open>simp_all add: len hw_entry_def\<close>)
  have s4: "?step (3, ?pushed) (4, ?wide)"
    by (rule hw_next_at [where js = "[4]"]) (use m [of 3] flow in \<open>simp_all add: len hw_macro macro_flags_def\<close>)
  have s5: "?step (4, ?wide) (8, ?wide)"
    by (rule hw_next_at [where js = "[8]"]) (use m [of 4] flow in \<open>simp_all add: len hw_plain plain_instructions_def\<close>)
  have s6: "?step (8, ?wide) (9, ?wide)"
    by (rule hw_next_at [where js = "[9]"])
      (use m [of 8] flow restored_facts(6) in \<open>simp_all add: len label_step [where l = "''@x''"]\<close>)
  note step_trans = converse_rtranclp_into_rtranclp
  have "?step\<^sup>*\<^sup>* (0, ?c) (9, ?wide)"
    by (rule step_trans [OF s1 step_trans [OF s2 step_trans [OF s3 step_trans [OF s4
        step_trans [OF s5 r_into_rtranclp [of ?step, OF s6]]]]]])
  then show ?thesis
    using restored_facts(1,2,5) restored_encoding by (intro conjI exI [of _ ?wide]) simp_all
qed

end
