(* ===== verification/Lint_Conditional.thy ===== *)
theory Lint_Conditional
  imports Lint_Source
begin

text \<open>
  Conditional assembly against a reference: a source file with \<^verbatim>\<open>.ifdef\<close>, \<^verbatim>\<open>.ifndef\<close>, \<^verbatim>\<open>.else\<close> and
  \<^verbatim>\<open>.endif\<close> is a tree, and which of its lines are assembled is read off the tree. \<open>active_lines\<close>
  finds the same with its stack of open conditionals. The directives stand in their lines as people write them: indented, with
  blanks before the symbol and at the end, and with a comment.
\<close>

text \<open>What surrounds a directive in its line: blanks before it, blanks after it, and a comment.\<close>

record margin =
  indentation :: string
  trailing :: string
  remark :: string

definition written :: "margin \<Rightarrow> string \<Rightarrow> string" where
  "written m code = indentation m @ code @ trailing m @ remark m"

definition blank :: "string \<Rightarrow> bool" where
  "blank s \<longleftrightarrow> list_all is_whitespace s"

definition margin_ok :: "margin \<Rightarrow> bool" where
  "margin_ok m \<longleftrightarrow> blank (indentation m) \<and> blank (trailing m) \<and>
     (case remark m of [] \<Rightarrow> True | c # _ \<Rightarrow> c = CHR '';'')"

text \<open>
  \<open>Conditional negated gap symbol m thn m' els m''\<close> has the directives in the margins \<open>m\<close>, \<open>m'\<close> and \<open>m''\<close>; \<open>gap\<close> are more blanks
  before the symbol than the one that belongs to the directive. Without an else part \<open>m'\<close> is not used.
\<close>

datatype source_item =
    Code_Line string
  | Conditional bool string string margin "source_item list" margin "source_item list option" margin

definition condition_code :: "bool \<Rightarrow> string \<Rightarrow> string \<Rightarrow> string" where
  "condition_code negated gap symbol = (if negated then ''.ifndef '' else ''.ifdef '') @ gap @ symbol"

fun item_lines :: "source_item \<Rightarrow> string list" where
  "item_lines (Code_Line line) = [line]"
| "item_lines (Conditional negated gap symbol m thn m' els m'') =
    written m (condition_code negated gap symbol) # concat (map item_lines thn) @
    (case els of None \<Rightarrow> [] | Some items \<Rightarrow> written m' ''.else'' # concat (map item_lines items)) @ [written m'' ''.endif'']"

text \<open>Whether each line is assembled, when the item stands where lines are (\<open>active\<close>) or are not.\<close>

fun item_flags :: "string set \<Rightarrow> bool \<Rightarrow> source_item \<Rightarrow> bool list" where
  "item_flags defs active (Code_Line line) = [active]"
| "item_flags defs active (Conditional negated gap symbol m thn m' els m'') =
    (let holds = ((symbol \<in> defs) \<noteq> negated)
     in False # concat (map (item_flags defs (active \<and> holds)) thn) @
        (case els of
           None \<Rightarrow> []
         | Some items \<Rightarrow> False # concat (map (item_flags defs (active \<and> \<not> holds)) items)) @
        [False])"

text \<open>A line of code is one that is none of the four directives once its comment and margin are gone.\<close>

definition plain_code :: "string \<Rightarrow> bool" where
  "plain_code line \<longleftrightarrow>
    (let code = trim (strip_comment line)
     in \<not> starts_with ''.ifdef '' code \<and> \<not> starts_with ''.ifndef '' code \<and>
        code \<noteq> ''.else'' \<and> code \<noteq> ''.endif'')"

definition symbol_name :: "string \<Rightarrow> bool" where
  "symbol_name symbol \<longleftrightarrow> symbol \<noteq> [] \<and> list_all (\<lambda>c. \<not> is_whitespace c \<and> c \<noteq> CHR '';'') symbol"

fun item_wf :: "source_item \<Rightarrow> bool" where
  "item_wf (Code_Line line) \<longleftrightarrow> plain_code line"
| "item_wf (Conditional negated gap symbol m thn m' els m'') \<longleftrightarrow>
    symbol_name symbol \<and> blank gap \<and> margin_ok m \<and> margin_ok m' \<and> margin_ok m'' \<and> list_all item_wf thn \<and>
    (case els of None \<Rightarrow> True | Some items \<Rightarrow> list_all item_wf items)"

section \<open>The lines of a conditional\<close>

lemma blank_trim_start: "blank s \<Longrightarrow> trim_start (s @ t) = trim_start t"
  by (induction s) (simp_all add: blank_def trim_start_def)

lemma blank_trim_end: "blank s \<Longrightarrow> trim_end (t @ s) = trim_end t"
  by (induction s rule: rev_induct) (simp_all add: blank_def trim_end_def)

lemma blank_no_comment: "blank s \<Longrightarrow> CHR '';'' \<notin> set s"
  by (auto simp: blank_def list_all_iff is_whitespace_def)

lemma no_comment:
  assumes "CHR '';'' \<notin> set line"
  shows "strip_comment line = line"
proof -
  have "split_once (\<lambda>c. c = CHR '';'') line = None"
    unfolding split_once_None using assms by blast
  then show ?thesis by (simp add: strip_comment_def)
qed

lemma strip_remark:
  assumes "CHR '';'' \<notin> set code" "case r of [] \<Rightarrow> True | c # _ \<Rightarrow> c = CHR '';''"
  shows "strip_comment (code @ r) = code"
proof (cases r)
  case Nil
  then show ?thesis using no_comment [OF assms(1)] by simp
next
  case (Cons c r')
  have "dropWhile (\<lambda>c. c \<noteq> CHR '';'') code = []" "takeWhile (\<lambda>c. c \<noteq> CHR '';'') code = code"
    using assms(1) by (auto simp: dropWhile_eq_Nil_conv takeWhile_eq_all_conv)
  then show ?thesis using Cons assms
    by (simp add: strip_comment_def split_once_def dropWhile_append takeWhile_append)
qed

text \<open>A directive is what remains of its line when the comment is cut and the blanks are trimmed.\<close>

lemma written_code:
  assumes "margin_ok m" "CHR '';'' \<notin> set code" "code \<noteq> []" "\<not> is_whitespace (hd code)" "\<not> is_whitespace (last code)"
  shows "trim (strip_comment (written m code)) = code"
proof -
  have m: "blank (indentation m)" "blank (trailing m)" "case remark m of [] \<Rightarrow> True | c # _ \<Rightarrow> c = CHR '';''"
    using assms(1) by (simp_all add: margin_ok_def)
  have "strip_comment ((indentation m @ code @ trailing m) @ remark m) = indentation m @ code @ trailing m"
    using assms(2) m by (intro strip_remark) (auto dest: blank_no_comment)
  moreover have "trim_start (indentation m @ code @ trailing m) = code @ trailing m"
    unfolding blank_trim_start [OF m(1)] using assms(3,4) by (intro trim_start_trimmed) (simp add: hd_append)
  moreover have "trim_end (code @ trailing m) = code"
    unfolding blank_trim_end [OF m(2)] using assms(5) by (intro trim_end_trimmed) simp
  ultimately show ?thesis by (simp add: trim_def written_def)
qed

lemma symbol_ends:
  assumes "symbol_name symbol"
  shows "symbol \<noteq> []" "\<not> is_whitespace (hd symbol)" "\<not> is_whitespace (last symbol)" "CHR '';'' \<notin> set symbol"
  using assms hd_in_set [of symbol] last_in_set [of symbol] by (auto simp: symbol_name_def list_all_iff)

lemma condition_line_code:
  assumes "symbol_name symbol" "blank gap" "margin_ok m"
  shows "trim (strip_comment (written m (condition_code negated gap symbol))) = condition_code negated gap symbol"
  using symbol_ends [OF assms(1)] blank_no_comment [OF assms(2)]
  by (intro written_code assms(3)) (auto simp: condition_code_def is_whitespace_def)

lemma condition_prefix:
  "strip_prefix ''.ifdef '' (condition_code False gap symbol) = Some (gap @ symbol)"
  "strip_prefix ''.ifdef '' (condition_code True gap symbol) = None"
  "strip_prefix ''.ifndef '' (condition_code True gap symbol) = Some (gap @ symbol)"
  by (simp_all add: strip_prefix_def starts_with_def condition_code_def)

lemma condition_symbol:
  assumes "symbol_name symbol" "blank gap"
  shows "trim (gap @ symbol) = symbol"
  unfolding trim_def blank_trim_start [OF assms(2)] using symbol_ends [OF assms(1)]
  by (simp add: trim_start_trimmed trim_end_trimmed)

definition open_conditional :: "bool \<Rightarrow> bool \<Rightarrow> conditional" where
  "open_conditional active holds = \<lparr>parent_active = active, condition = holds, in_else = False\<rparr>"

lemma active_flags_condition:
  assumes "symbol_name symbol" "blank gap" "margin_ok m"
  shows "active_flags defs stack active (written m (condition_code negated gap symbol) # lines) =
    False # active_flags defs (open_conditional active ((symbol \<in> defs) \<noteq> negated) # stack)
      (active \<and> ((symbol \<in> defs) \<noteq> negated)) lines"
  using condition_symbol [OF assms(1,2)]
  by (cases negated) (simp_all add: condition_line_code [OF assms] condition_prefix open_conditional_def Let_def)

lemma closing_code:
  assumes "margin_ok m"
  shows "trim (strip_comment (written m ''.else'')) = ''.else''" "trim (strip_comment (written m ''.endif'')) = ''.endif''"
  by (rule written_code [OF assms]; simp add: is_whitespace_def)+

lemma active_flags_else:
  "margin_ok m \<Longrightarrow> active_flags defs (conditional # stack) active (written m ''.else'' # lines) =
    False # active_flags defs (conditional\<lparr>in_else := True\<rparr> # stack)
      (parent_active conditional \<and> \<not> condition conditional) lines"
  by (simp add: closing_code strip_prefix_def starts_with_def)

lemma active_flags_endif:
  "margin_ok m \<Longrightarrow> active_flags defs (conditional # stack) active (written m ''.endif'' # lines) =
    False # active_flags defs stack (parent_active conditional) lines"
  by (simp add: closing_code strip_prefix_def starts_with_def)

lemma active_flags_plain:
  "plain_code line \<Longrightarrow>
    active_flags defs stack active (line # lines) = active # active_flags defs stack active lines"
  by (simp add: plain_code_def strip_prefix_def Let_def)

section \<open>The tree and the stack agree\<close>

lemma active_flags_items:
  assumes "\<And>item defs stack active lines. item \<in> set items \<Longrightarrow>
      active_flags defs stack active (item_lines item @ lines) =
      item_flags defs active item @ active_flags defs stack active lines"
  shows "active_flags defs stack active (concat (map item_lines items) @ lines) =
    concat (map (item_flags defs active) items) @ active_flags defs stack active lines"
  using assms by (induction items arbitrary: lines) auto

lemma active_flags_item:
  assumes "item_wf item"
  shows "active_flags defs stack active (item_lines item @ lines) =
    item_flags defs active item @ active_flags defs stack active lines"
  using assms
proof (induction item arbitrary: defs stack active lines)
  case (Code_Line line)
  then show ?case by (simp add: active_flags_plain del: active_flags.simps)
next
  case (Conditional negated gap symbol m thn m' els m'')
  let ?holds = "(symbol \<in> defs) \<noteq> negated"
  have thn: "active_flags defs stack active (concat (map item_lines thn) @ lines) =
      concat (map (item_flags defs active) thn) @ active_flags defs stack active lines"
    for defs stack active lines
    using Conditional.IH(1) Conditional.prems by (intro active_flags_items) (auto simp: list_all_iff)
  show ?case
  proof (cases els)
    case None
    then show ?thesis
      using Conditional.prems
      by (simp add: active_flags_condition thn active_flags_endif open_conditional_def Let_def
          del: active_flags.simps)
  next
    case (Some items)
    have "active_flags defs stack active (concat (map item_lines items) @ lines) =
        concat (map (item_flags defs active) items) @ active_flags defs stack active lines"
      for defs stack active lines
      using Conditional.IH(2) Conditional.prems Some
      by (intro active_flags_items) (auto simp: list_all_iff)
    then show ?thesis
      using Conditional.prems Some
      by (simp add: active_flags_condition thn active_flags_else active_flags_endif
          open_conditional_def Let_def del: active_flags.simps)
  qed
qed

text \<open>
  C27: Whatever conditional blocks a source file nests, with or without \<^verbatim>\<open>.else\<close>, with any indentation, further blanks
  before the symbol, blanks at the end and comments in the lines of the directives, \<open>active_lines\<close> marks
  exactly the lines that a build of the profile assembles: a line inside a block counts when the
  block itself does and its condition holds, and after the block everything is as before. The blocks are closed, a
  space separates a directive from its symbol, which has no blanks, and the other lines are none of the four directives; no other
  conditional directive is known to the code or the reference.
\<close>

theorem active_lines_reference:
  assumes wf: "list_all item_wf items"
    and lines: "\<forall>l \<in> set (concat (map item_lines items)).
      line_feed \<notin> set l \<and> \<not> ends_with carriage_return l"
  shows "active_lines (concat (map (\<lambda>l. l @ [line_feed]) (concat (map item_lines items)))) profile =
    concat (map (item_flags (profile_defines profile) True) items)"
proof -
  have "active_flags (profile_defines profile) [] True (concat (map item_lines items) @ []) =
      concat (map (item_flags (profile_defines profile) True) items) @
      active_flags (profile_defines profile) [] True []"
    using wf by (intro active_flags_items active_flags_item) (auto simp: list_all_iff)
  then show ?thesis by (simp only: active_lines_def text_lines_join [OF lines]) simp
qed

definition sample_items :: "source_item list" where
  "sample_items =
    (let plain = \<lparr>indentation = [], trailing = [], remark = []\<rparr>;
         indented = \<lparr>indentation = ''    '', trailing = '' '', remark = ''; .endif''\<rparr>
     in [Code_Line '' nop'',
         Conditional False '' '' ''MODEM_SMOKE_TEST'' indented
           [Code_Line '' inx'', Conditional True [] ''X'' indented [Code_Line '' iny''] plain None indented] plain
           (Some [Code_Line '' dex'']) indented,
         Code_Line '' rts ; done''])"

lemma active_lines_reference_witness:
  "item_lines (sample_items ! 1) ! 0 = ''    .ifdef  MODEM_SMOKE_TEST ; .endif'' \<and>
   active_lines (concat (map (\<lambda>l. l @ [line_feed]) (concat (map item_lines sample_items)))) Normal_Profile =
    [True, False, False, False, False, False, False, True, False, True]"
proof -
  have "list_all item_wf sample_items" by code_simp
  moreover have "\<forall>l \<in> set (concat (map item_lines sample_items)).
      line_feed \<notin> set l \<and> \<not> ends_with carriage_return l"
    by code_simp
  moreover have "concat (map (item_flags (profile_defines Normal_Profile) True) sample_items) =
      [True, False, False, False, False, False, False, True, False, True]"
    by code_simp
  moreover have "item_lines (sample_items ! 1) ! 0 = ''    .ifdef  MODEM_SMOKE_TEST ; .endif''" by code_simp
  ultimately show ?thesis using active_lines_reference [of sample_items Normal_Profile] by simp
qed

end
