(* ===== verification/Format_Text.thy ===== *)
theory Format_Text
  imports Lint_Text
begin

text \<open>
  What the generator \<^verbatim>\<open>xtask/src/main.rs\<close> uses of Rust's \<^verbatim>\<open>format!\<close> and \<^verbatim>\<open>str\<close>: numbers in
  hexadecimal and decimal, with padding, the \<^verbatim>\<open>Debug\<close> form of octets, searching, replacing and
  splitting; with the facts that the number parsers of \<open>Lint_Text\<close> read back what is printed and that
  splitting undoes joining. An offset into a text counts characters, which are octets where the text
  is ASCII.
\<close>

definition digit_char :: "nat \<Rightarrow> char" where
  "digit_char d = (if d < 10 then char_of (48 + d) else char_of (55 + d))"

function radix_text :: "nat \<Rightarrow> nat \<Rightarrow> string" where
  "radix_text radix n =
    (if n < radix \<or> radix < 2 then [digit_char n]
     else radix_text radix (n div radix) @ [digit_char (n mod radix)])"
  by pat_completeness auto
termination by (relation "measure snd") auto

declare radix_text.simps [simp del]

definition pad_with_zeros :: "nat \<Rightarrow> string \<Rightarrow> string" where
  "pad_with_zeros width s = replicate (width - length s) (CHR ''0'') @ s"

text \<open>\<^verbatim>\<open>{:02X}\<close> and \<^verbatim>\<open>{:04X}\<close>, and \<^verbatim>\<open>{}\<close> of an unsigned number.\<close>

definition hex_text :: "nat \<Rightarrow> nat \<Rightarrow> string" where
  "hex_text width n = pad_with_zeros width (radix_text 16 n)"

definition decimal_text :: "nat \<Rightarrow> string" where
  "decimal_text n = radix_text 10 n"

text \<open>\<^verbatim>\<open>{}\<close> of an \<^verbatim>\<open>i64\<close>, with a sign; \<^verbatim>\<open>{:04X}\<close> of one prints its octets as an unsigned number.\<close>

definition decimal_text_i64 :: "int \<Rightarrow> string" where
  "decimal_text_i64 v = (if v < 0 then CHR ''-'' # decimal_text (nat (- v)) else decimal_text (nat v))"

text \<open>\<^verbatim>\<open>{:?}\<close> of a \<^verbatim>\<open>Vec<u8>\<close>.\<close>

fun join :: "string \<Rightarrow> string list \<Rightarrow> string" where
  "join sep [] = []"
| "join sep [s] = s"
| "join sep (s # ss) = s @ sep @ join sep ss"

definition debug_octets :: "bytes \<Rightarrow> string" where
  "debug_octets bs = ''['' @ join '', '' (map (\<lambda>b. decimal_text (unat b)) bs) @ '']''"

text \<open>\<^verbatim>\<open>str::find\<close>, \<^verbatim>\<open>contains\<close>, \<^verbatim>\<open>replace\<close> (of a pattern that is not empty), \<^verbatim>\<open>trim_start_matches\<close>,
  \<^verbatim>\<open>trim_end_matches\<close> and \<^verbatim>\<open>split\<close> at a character, and \<^verbatim>\<open>split_whitespace\<close>.\<close>

fun find_text :: "string \<Rightarrow> string \<Rightarrow> nat option" where
  "find_text p [] = (if p = [] then Some 0 else None)"
| "find_text p (c # cs) =
    (if starts_with p (c # cs) then Some 0 else map_option Suc (find_text p cs))"

definition contains :: "string \<Rightarrow> string \<Rightarrow> bool" where
  "contains p s = (find_text p s \<noteq> None)"

function replace_text :: "string \<Rightarrow> string \<Rightarrow> string \<Rightarrow> string" where
  "replace_text p new [] = []"
| "replace_text p new (c # cs) =
    (if p \<noteq> [] \<and> starts_with p (c # cs) then new @ replace_text p new (drop (length p) (c # cs))
     else c # replace_text p new cs)"
  by pat_completeness auto
termination by (relation "measure (\<lambda>(p, new, s). length s)") auto

definition trim_start_matches :: "char \<Rightarrow> string \<Rightarrow> string" where
  "trim_start_matches x s = dropWhile (\<lambda>c. c = x) s"

definition trim_end_matches :: "char \<Rightarrow> string \<Rightarrow> string" where
  "trim_end_matches x s = rev (dropWhile (\<lambda>c. c = x) (rev s))"

fun split_on :: "char \<Rightarrow> string \<Rightarrow> string list" where
  "split_on x [] = [[]]"
| "split_on x (c # cs) =
    (if c = x then [] # split_on x cs
     else case split_on x cs of [] \<Rightarrow> [[c]] | s # ss \<Rightarrow> (c # s) # ss)"

function split_whitespace :: "string \<Rightarrow> string list" where
  "split_whitespace s =
    (let t = trim_start s
     in if t = [] then []
        else takeWhile (\<lambda>c. \<not> is_whitespace c) t #
          split_whitespace (dropWhile (\<lambda>c. \<not> is_whitespace c) t))"
  by pat_completeness auto
termination
proof (relation "measure length", goal_cases)
  case (2 s t)
  then have "\<not> is_whitespace (hd t)" unfolding trim_start_def by (metis hd_dropWhile)
  then have "length (dropWhile (\<lambda>c. \<not> is_whitespace c) t) < length t"
    using 2(2) by (cases t) (simp_all add: le_imp_less_Suc length_dropWhile_le)
  also have "length t \<le> length s" using 2 by (simp add: trim_start_def length_dropWhile_le)
  finally show ?case by simp
qed simp

declare split_whitespace.simps [simp del]

section \<open>Digits\<close>

lemma of_char_digit_char:
  "d < 16 \<Longrightarrow> (of_char (digit_char d) :: nat) = (if d < 10 then 48 + d else 55 + d)"
  by (simp add: digit_char_def of_char_of)

lemma to_digit_char:
  assumes "d < radix" and "radix \<le> 16"
  shows "to_digit radix (digit_char d) = Some d"
  using assms of_char_digit_char [of d] by (simp add: to_digit_def Let_def)

lemma digit_char_plain:
  assumes "d < 16"
  shows "is_ascii_alphanumeric (digit_char d)" and "\<not> is_whitespace (digit_char d)"
    and "digit_char d \<noteq> CHR ''+''"
proof -
  note code = of_char_digit_char [OF assms]
  show "is_ascii_alphanumeric (digit_char d)"
    using assms code by (simp add: is_ascii_alphanumeric_def Let_def)
  show "\<not> is_whitespace (digit_char d)" using assms code by (simp add: is_whitespace_def Let_def)
  show "digit_char d \<noteq> CHR ''+''"
  proof
    assume "digit_char d = CHR ''+''"
    then have "(of_char (digit_char d) :: nat) = 43" by simp
    with code show False by (simp split: if_splits)
  qed
qed

lemma zero_digit: "CHR ''0'' = digit_char 0"
  by code_simp

definition digit_text :: "nat \<Rightarrow> string \<Rightarrow> bool" where
  "digit_text radix s \<longleftrightarrow> (\<forall>c \<in> set s. \<exists>d < radix. c = digit_char d)"

lemma digit_text_append [simp]: "digit_text radix (s @ t) \<longleftrightarrow> digit_text radix s \<and> digit_text radix t"
  by (auto simp: digit_text_def)

lemma digit_text_single [intro]: "d < radix \<Longrightarrow> digit_text radix [digit_char d]"
  by (auto simp: digit_text_def)

lemma radix_text_digits: "1 < radix \<Longrightarrow> digit_text radix (radix_text radix n)"
proof (induction radix n rule: radix_text.induct)
  case (1 radix n)
  show ?case
  proof (cases "n < radix")
    case True
    then show ?thesis by (subst radix_text.simps) (simp add: digit_text_single)
  next
    case False
    then have "digit_text radix (radix_text radix (n div radix))" using 1 by simp
    moreover have "n mod radix < radix" using 1(2) by simp
    ultimately show ?thesis
      using False 1(2) by (subst radix_text.simps) (simp add: digit_text_single)
  qed
qed

lemma radix_text_nonempty: "radix_text radix n \<noteq> []"
  by (subst radix_text.simps) simp

lemma hex_text_digits: "digit_text 16 (hex_text width n)"
proof -
  have "digit_text 16 (replicate k (CHR ''0''))" for k
    unfolding zero_digit digit_text_def by (auto simp: in_set_replicate intro: exI [of _ "0::nat"])
  then show ?thesis by (simp add: hex_text_def pad_with_zeros_def radix_text_digits)
qed

lemma hex_text_nonempty: "hex_text width n \<noteq> []"
  by (simp add: hex_text_def pad_with_zeros_def radix_text_nonempty)

lemma digit_text_char:
  assumes "digit_text radix s" and "radix \<le> 16" and "c \<in> set s"
  shows "is_ascii_alphanumeric c" and "\<not> is_whitespace c" and "c \<noteq> CHR ''+''"
proof -
  obtain d where "c = digit_char d" and "d < radix"
    using assms(1,3) unfolding digit_text_def by blast
  then show "is_ascii_alphanumeric c" and "\<not> is_whitespace c" and "c \<noteq> CHR ''+''"
    using digit_char_plain [of d] assms(2) by simp_all
qed

section \<open>Reading back\<close>

lemma digits_value_append:
  "digits_value radix limit acc (s @ t) =
    (case digits_value radix limit acc s of None \<Rightarrow> None | Some v \<Rightarrow> digits_value radix limit v t)"
  by (induction s arbitrary: acc) (auto split: option.split)

lemma digits_value_radix_text:
  assumes "1 < radix" "radix \<le> 16"
  shows "n < limit \<Longrightarrow> digits_value radix limit 0 (radix_text radix n) = Some n"
  using assms
proof (induction radix n rule: radix_text.induct)
  case (1 radix n)
  show ?case
  proof (cases "n < radix")
    case True
    then show ?thesis using 1(2-4) by (subst radix_text.simps) (simp add: to_digit_char)
  next
    case False
    have "n div radix < limit" using 1(2) by (metis div_le_dividend le_less_trans)
    then have "digits_value radix limit 0 (radix_text radix (n div radix)) = Some (n div radix)"
      using 1 False by simp
    moreover have "to_digit radix (digit_char (n mod radix)) = Some (n mod radix)"
      using 1(3,4) by (intro to_digit_char) simp_all
    ultimately show ?thesis
      using False 1(2-4) by (subst radix_text.simps) (simp add: digits_value_append)
  qed
qed

lemma digits_value_zeros:
  "0 < limit \<Longrightarrow> digits_value 16 limit 0 (replicate k (CHR ''0'')) = Some 0"
proof (induction k)
  case (Suc k)
  moreover have "to_digit 16 (CHR ''0'') = Some 0" by (simp add: to_digit_def Let_def)
  ultimately show ?case by simp
qed simp

lemma from_str_radix_digits:
  assumes "digit_text radix s" and "radix \<le> 16" and "s \<noteq> []"
  shows "from_str_radix radix limit s = digits_value radix limit 0 s"
proof -
  obtain c cs where s: "s = c # cs" using assms(3) by (cases s) auto
  then have "c \<noteq> CHR ''+''" using digit_text_char(3) [OF assms(1,2)] by simp
  then show ?thesis by (simp add: from_str_radix_def s)
qed

lemma parse_hex_text: "n < limit \<Longrightarrow> from_str_radix 16 limit (hex_text width n) = Some n"
  using from_str_radix_digits [OF hex_text_digits _ hex_text_nonempty]
  by (simp add: hex_text_def pad_with_zeros_def digits_value_append digits_value_zeros
      digits_value_radix_text)

lemma parse_decimal_text: "n < limit \<Longrightarrow> from_str_radix 10 limit (decimal_text n) = Some n"
  using from_str_radix_digits [OF radix_text_digits _ radix_text_nonempty, of 10 limit n]
  by (simp add: decimal_text_def digits_value_radix_text)

section \<open>Splitting\<close>

lemma split_on_nonempty [simp]: "split_on x s \<noteq> []"
  by (induction s) (auto split: list.split)

lemma split_on_append:
  "x \<notin> set s \<Longrightarrow> split_on x (s @ x # t) = s # split_on x t"
  by (induction s) auto

lemma split_on_id: "x \<notin> set s \<Longrightarrow> split_on x s = [s]"
  by (induction s) auto

lemma split_on_join:
  assumes "\<forall>s \<in> set ss. x \<notin> set s" and "ss \<noteq> []"
  shows "split_on x (join [x] ss) = ss"
  using assms
proof (induction ss)
  case (Cons s ss)
  then show ?case by (cases ss) (simp_all add: split_on_id split_on_append)
qed simp

text \<open>With white space after the separator, which trimming removes.\<close>

lemma split_on_space: "x \<noteq> y \<Longrightarrow> map trim (split_on x (y # t)) =
    (case split_on x t of s # ss \<Rightarrow> trim (y # s) # map trim ss)"
  by (simp split: list.split)

lemma trim_space: "trim (CHR '' '' # s) = trim s"
  by (simp add: trim_def trim_start_def is_whitespace_def)

lemma map_trim_split_on_join:
  assumes "\<forall>s \<in> set ss. x \<notin> set s" and "ss \<noteq> []" and "x \<noteq> CHR '' ''"
  shows "map trim (split_on x (join [x, CHR '' ''] ss)) = map trim ss"
  using assms
proof (induction ss)
  case (Cons s ss)
  show ?case
  proof (cases "ss = []")
    case True
    then show ?thesis using Cons by (simp add: split_on_id)
  next
    case False
    let ?t = "join [x, CHR '' ''] ss"
    have "join [x, CHR '' ''] (s # ss) = s @ x # CHR '' '' # ?t" using False by (cases ss) simp_all
    then have "map trim (split_on x (join [x, CHR '' ''] (s # ss))) =
        trim s # map trim (split_on x (CHR '' '' # ?t))"
      using Cons.prems by (simp add: split_on_append del: split_on.simps)
    also have "map trim (split_on x (CHR '' '' # ?t)) = map trim (split_on x ?t)"
      using Cons.prems(3) by (cases "split_on x ?t") (simp_all add: split_on_space trim_space)
    finally show ?thesis using Cons False by simp
  qed
qed simp

lemma find_text_absent:
  assumes "p \<noteq> []" and "hd p \<notin> set s"
  shows "find_text p (s @ t) = map_option ((+) (length s)) (find_text p t)"
  using assms
proof (induction s)
  case (Cons c s)
  then have "\<not> starts_with p (c # s @ t)" by (cases p) (auto simp: starts_with_def)
  then show ?case using Cons by (auto simp: option.map_comp comp_def)
qed (cases "find_text p t"; simp)

lemma find_text_here: "starts_with p s \<Longrightarrow> find_text p s = Some 0"
  by (cases s) (auto simp: starts_with_def)

text \<open>The linter reads a hexadecimal number of the generator.\<close>

lemma parse_usize_hex: "n < 2 ^ 64 \<Longrightarrow> parse_usize_literal (CHR ''$'' # hex_text width n) = Some n"
  by (simp add: parse_usize_literal_def strip_prefix_def starts_with_def parse_hex_text)

end
