(* ===== verification/Xtask_Spec.thy ===== *)
theory Xtask_Spec
  imports Format_Text
begin

text \<open>
  The specification \<^verbatim>\<open>spec/ndm24.toml\<close> as \<^verbatim>\<open>xtask/src/main.rs\<close> reads it, and the checks of
  \<^verbatim>\<open>validate_spec\<close>.

  A \<^verbatim>\<open>toml::Value\<close> counts for its \<^verbatim>\<open>as_integer()\<close> only: an \<^verbatim>\<open>i64\<close>, or a value of another type. A
  \<^verbatim>\<open>BTreeMap\<close> is the list of its entries in the order of iteration. \<^verbatim>\<open>usize\<close> has 64 bits; a sum or
  product of two that does not fit is a panic, as in the development profile that \<^verbatim>\<open>cargo xtask\<close>
  runs. An error is the condition that was not met.
\<close>

section \<open>Data\<close>

type_synonym i64 = "64 word"

datatype toml_value = Integer_value i64 | Other_value

type_synonym 'v btree_map = "(string \<times> 'v) list"

record field =
  field_name :: string
  field_offset :: nat
  field_size :: nat
  field_type :: string
  field_description :: string

record spec_info =
  spec_name :: string
  spec_version :: u16

record diagnostic_spec =
  magic :: bytes
  diagnostic_version :: u16
  diagnostic_size :: nat
  trace_event_size :: nat
  trace_capacity :: nat
  trace_size :: nat
  diagnostic_fields :: "field list"

record ppp_diagnostic_spec =
  ppp_magic :: bytes
  ppp_version :: u16
  ppp_size :: nat
  ppp_fields :: "field list"

record mailbox_spec =
  mailbox_magic :: bytes
  mailbox_version :: u16
  mailbox_size :: nat
  argument_size :: nat
  mailbox_fields :: "field list"

record spec_file =
  spec_of :: spec_info
  protocol_values :: "toml_value btree_map"
  driver_values :: "toml_value btree_map"
  terminal_values :: "toml_value btree_map"
  diagnostic :: diagnostic_spec
  ppp_diagnostic :: ppp_diagnostic_spec
  mailbox :: mailbox_spec
  states :: "u8 btree_map"
  flags :: "u8 btree_map"
  discard_reasons :: "u8 btree_map"
  trace_events :: "u8 btree_map"
  mailbox_commands :: "u8 btree_map"
  mailbox_status :: "u8 btree_map"

datatype spec_error =
    MagicLength string
  | FieldsOverlap string string
  | FieldExceedsBlock string string
  | TraceSizeMismatch
  | ScalarMissing string string
  | ScalarNotInteger string string
  | ScalarNegative string string
  | ColumnsNotPowerOfTwo
  | QueueStorageNot256
  | QueueCapacityNotOneLess
  | RenderBudgetOutOfRange
  | TilemapMaskMismatch
  | PaletteColorTooWide
  | ValueNotInteger string

section \<open>Checks\<close>

definition usize_limit :: nat where "usize_limit = 2 ^ 64"

fun as_integer :: "toml_value \<Rightarrow> i64 option" where
  "as_integer (Integer_value v) = Some v"
| "as_integer Other_value = None"

text \<open>\<^verbatim>\<open>usize::try_from(i64)\<close>.\<close>

definition usize_of_i64 :: "i64 \<Rightarrow> nat option" where
  "usize_of_i64 v = (if 0 \<le> sint v then Some (nat (sint v)) else None)"

definition scalar_value ::
  "toml_value btree_map \<Rightarrow> string \<Rightarrow> string \<Rightarrow> (nat, spec_error) result" where
  "scalar_value values n section_name =
    (case map_of values n of
       None \<Rightarrow> Err (ScalarMissing section_name n)
     | Some value \<Rightarrow>
         (case as_integer value of
            None \<Rightarrow> Err (ScalarNotInteger section_name n)
          | Some v \<Rightarrow>
              (case usize_of_i64 v of None \<Rightarrow> Err (ScalarNegative section_name n) | Some k \<Rightarrow> Ok k)))"

definition ensure :: "bool \<Rightarrow> 'e \<Rightarrow> (unit, 'e) result" where
  "ensure b e = (if b then Ok () else Err e)"

definition is_power_of_two :: "nat \<Rightarrow> bool" where
  "is_power_of_two n = (\<exists>k < 64. n = 2 ^ k)"

definition checked_add :: "nat \<Rightarrow> nat \<Rightarrow> nat option" where
  "checked_add a b = (if a + b < usize_limit then Some (a + b) else None)"

definition checked_mul :: "nat \<Rightarrow> nat \<Rightarrow> nat option" where
  "checked_mul a b = (if a * b < usize_limit then Some (a * b) else None)"

definition validate_terminal :: "toml_value btree_map \<Rightarrow> (unit, spec_error) result" where
  "validate_terminal values =
    and_then (scalar_value values ''columns'' ''terminal'') (\<lambda>columns.
    and_then (scalar_value values ''rows'' ''terminal'') (\<lambda>rows.
    and_then (scalar_value values ''queue_storage_size'' ''terminal'') (\<lambda>queue_storage_size.
    and_then (scalar_value values ''queue_capacity'' ''terminal'') (\<lambda>queue_capacity.
    and_then (scalar_value values ''render_budget'' ''terminal'') (\<lambda>render_budget.
    and_then (scalar_value values ''tilemap_mask'' ''terminal'') (\<lambda>tilemap_mask.
    and_then (scalar_value values ''palette_background'' ''terminal'') (\<lambda>palette_background.
    and_then (scalar_value values ''palette_foreground'' ''terminal'') (\<lambda>palette_foreground.
    and_then (scalar_value values ''palette_unused_2'' ''terminal'') (\<lambda>palette_unused_2.
    and_then (scalar_value values ''palette_unused_3'' ''terminal'') (\<lambda>palette_unused_3.
    and_then (ensure (is_power_of_two columns) ColumnsNotPowerOfTwo) (\<lambda>_.
    and_then (ensure (queue_storage_size = 256) QueueStorageNot256) (\<lambda>_.
    and_then (ensure (checked_add queue_capacity 1 = Some queue_storage_size)
        QueueCapacityNotOneLess) (\<lambda>_.
    and_then (ensure (render_budget > 0 \<and> render_budget \<le> queue_capacity)
        RenderBudgetOutOfRange) (\<lambda>_.
    and_then (ensure (checked_mul columns rows = checked_add tilemap_mask 1)
        TilemapMaskMismatch) (\<lambda>_.
    ensure (list_all (\<lambda>color. color \<le> 0x7fff)
        [palette_background, palette_foreground, palette_unused_2, palette_unused_3])
      PaletteColorTooWide)))))))))))))))"

text \<open>The loop of \<^verbatim>\<open>validate_fields\<close>, with the end of the field before.\<close>

fun validate_fields_from ::
  "nat \<Rightarrow> field list \<Rightarrow> nat \<Rightarrow> string \<Rightarrow> (unit, spec_error) result" where
  "validate_fields_from previous_end [] block_size block_name = Ok ()"
| "validate_fields_from previous_end (f # fs) block_size block_name =
    and_then (ensure (field_offset f \<ge> previous_end) (FieldsOverlap block_name (field_name f))) (\<lambda>_.
    case checked_add (field_offset f) (field_size f) of
      None \<Rightarrow> Panic
    | Some field_end \<Rightarrow>
        and_then (ensure (field_end \<le> block_size) (FieldExceedsBlock block_name (field_name f))) (\<lambda>_.
        validate_fields_from field_end fs block_size block_name))"

definition validate_fields :: "field list \<Rightarrow> nat \<Rightarrow> string \<Rightarrow> (unit, spec_error) result" where
  "validate_fields fs block_size block_name = validate_fields_from 0 fs block_size block_name"

definition validate_spec :: "spec_file \<Rightarrow> (unit, spec_error) result" where
  "validate_spec spec =
    and_then (ensure (length (magic (diagnostic spec)) = 4) (MagicLength ''diagnostic'')) (\<lambda>_.
    and_then (ensure (length (mailbox_magic (mailbox spec)) = 4) (MagicLength ''mailbox'')) (\<lambda>_.
    and_then (ensure (length (ppp_magic (ppp_diagnostic spec)) = 4)
        (MagicLength ''PPP diagnostic'')) (\<lambda>_.
    and_then (validate_fields (diagnostic_fields (diagnostic spec)) (diagnostic_size (diagnostic spec))
        ''diagnostic'') (\<lambda>_.
    and_then (validate_fields (ppp_fields (ppp_diagnostic spec)) (ppp_size (ppp_diagnostic spec))
        ''PPP diagnostic'') (\<lambda>_.
    and_then (validate_fields (mailbox_fields (mailbox spec)) (mailbox_size (mailbox spec))
        ''mailbox'') (\<lambda>_.
    and_then (case checked_mul (trace_event_size (diagnostic spec)) (trace_capacity (diagnostic spec)) of
        None \<Rightarrow> Panic
      | Some product \<Rightarrow> ensure (product = trace_size (diagnostic spec)) TraceSizeMismatch) (\<lambda>_.
    validate_terminal (terminal_values spec))))))))"

text \<open>\<^verbatim>\<open>read_spec\<close> of the text of the file; the parser \<^verbatim>\<open>toml::from_str\<close> is a parameter.\<close>

datatype read_spec_error = SpecUnreadable | SpecUnparsed | SpecInvalid spec_error

definition read_spec ::
  "(string \<Rightarrow> spec_file option) \<Rightarrow> string option \<Rightarrow> (spec_file, read_spec_error) result" where
  "read_spec from_toml source =
    (case source of
       None \<Rightarrow> Err SpecUnreadable
     | Some text \<Rightarrow>
         (case from_toml text of
            None \<Rightarrow> Err SpecUnparsed
          | Some spec \<Rightarrow> and_then (map_err SpecInvalid (validate_spec spec)) (\<lambda>_. Ok spec)))"

section \<open>What the checks promise\<close>

text \<open>The fields of a block stand in order, each ends before the next begins, and all end in the block.\<close>

definition fields_laid_out :: "field list \<Rightarrow> nat \<Rightarrow> bool" where
  "fields_laid_out fs block_size \<longleftrightarrow>
    sorted_wrt (\<lambda>f g. field_offset f + field_size f \<le> field_offset g) fs \<and>
    (\<forall>f \<in> set fs. field_offset f + field_size f \<le> block_size)"

definition terminal_scalar :: "spec_file \<Rightarrow> string \<Rightarrow> nat option" where
  "terminal_scalar spec n =
    (case map_of (terminal_values spec) n of
       Some (Integer_value v) \<Rightarrow> usize_of_i64 v
     | _ \<Rightarrow> None)"

definition palette_names :: "string list" where
  "palette_names =
    [''palette_background'', ''palette_foreground'', ''palette_unused_2'', ''palette_unused_3'']"

definition terminal_fits :: "spec_file \<Rightarrow> bool" where
  "terminal_fits spec \<longleftrightarrow>
    (\<exists>k rows mask budget.
      terminal_scalar spec ''columns'' = Some (2 ^ k) \<and>
      terminal_scalar spec ''rows'' = Some rows \<and>
      terminal_scalar spec ''tilemap_mask'' = Some mask \<and> 2 ^ k * rows = mask + 1 \<and>
      terminal_scalar spec ''queue_storage_size'' = Some 256 \<and>
      terminal_scalar spec ''queue_capacity'' = Some 255 \<and>
      terminal_scalar spec ''render_budget'' = Some budget \<and> 0 < budget \<and> budget \<le> 255) \<and>
    (\<forall>n \<in> set palette_names. \<exists>c \<le> 0x7fff. terminal_scalar spec n = Some c)"

definition spec_well_formed :: "spec_file \<Rightarrow> bool" where
  "spec_well_formed spec \<longleftrightarrow>
    length (magic (diagnostic spec)) = 4 \<and> length (ppp_magic (ppp_diagnostic spec)) = 4 \<and>
    length (mailbox_magic (mailbox spec)) = 4 \<and>
    fields_laid_out (diagnostic_fields (diagnostic spec)) (diagnostic_size (diagnostic spec)) \<and>
    fields_laid_out (ppp_fields (ppp_diagnostic spec)) (ppp_size (ppp_diagnostic spec)) \<and>
    fields_laid_out (mailbox_fields (mailbox spec)) (mailbox_size (mailbox spec)) \<and>
    trace_event_size (diagnostic spec) * trace_capacity (diagnostic spec) =
      trace_size (diagnostic spec) \<and>
    terminal_fits spec"

text \<open>The sizes are values of type \<^verbatim>\<open>usize\<close>.\<close>

definition spec_sizes_usize :: "spec_file \<Rightarrow> bool" where
  "spec_sizes_usize spec \<longleftrightarrow>
    diagnostic_size (diagnostic spec) < usize_limit \<and> ppp_size (ppp_diagnostic spec) < usize_limit \<and>
    mailbox_size (mailbox spec) < usize_limit \<and> trace_size (diagnostic spec) < usize_limit"


section \<open>Facts\<close>

lemma ensure_eq_Ok [simp]: "ensure b e = Ok u \<longleftrightarrow> b"
  by (simp add: ensure_def)

lemma validate_fields_from_eq_Ok:
  assumes "block_size < usize_limit"
  shows "validate_fields_from previous_end fs block_size block_name = Ok () \<longleftrightarrow>
    (\<forall>f \<in> set fs. previous_end \<le> field_offset f) \<and> fields_laid_out fs block_size"
proof (induction fs arbitrary: previous_end)
  case (Cons f fs)
  let ?e = "field_offset f + field_size f"
  show ?case
  proof (cases "previous_end \<le> field_offset f \<and> ?e \<le> block_size")
    case True
    then have "checked_add (field_offset f) (field_size f) = Some ?e"
      using assms by (simp add: checked_add_def)
    then show ?thesis
      using True Cons [of ?e] by (fastforce simp: ensure_def fields_laid_out_def)
  next
    case False
    then show ?thesis
      by (auto simp: ensure_def fields_laid_out_def checked_add_def)
  qed
qed (simp add: fields_laid_out_def)

lemma validate_fields_eq_Ok:
  "block_size < usize_limit \<Longrightarrow>
    validate_fields fs block_size block_name = Ok () \<longleftrightarrow> fields_laid_out fs block_size"
  by (simp add: validate_fields_def validate_fields_from_eq_Ok)

lemma scalar_value_eq_Ok:
  "scalar_value (terminal_values spec) n g = Ok k \<longleftrightarrow> terminal_scalar spec n = Some k"
  by (auto simp: scalar_value_def terminal_scalar_def split: option.splits toml_value.splits
      elim!: as_integer.elims)

lemma terminal_scalar_bound:
  assumes "terminal_scalar spec n = Some k"
  shows "k < 2 ^ 63"
proof -
  obtain v where v: "usize_of_i64 v = Some k"
    using assms by (auto simp: terminal_scalar_def split: option.splits toml_value.splits)
  then have k: "k = nat (sint v)" by (auto simp: usize_of_i64_def split: if_splits)
  have "sint v < 2 ^ 63" using sint_less [of v] by simp
  then show ?thesis unfolding k by (simp add: nat_less_iff)
qed

lemma validate_terminal_eq_Ok: "validate_terminal (terminal_values spec) = Ok () \<longleftrightarrow> terminal_fits spec"
proof
  assume ok: "validate_terminal (terminal_values spec) = Ok ()"
  then obtain columns rows storage capacity budget mask c0 c1 c2 c3 where
    scalars: "terminal_scalar spec ''columns'' = Some columns"
      "terminal_scalar spec ''rows'' = Some rows"
      "terminal_scalar spec ''queue_storage_size'' = Some storage"
      "terminal_scalar spec ''queue_capacity'' = Some capacity"
      "terminal_scalar spec ''render_budget'' = Some budget"
      "terminal_scalar spec ''tilemap_mask'' = Some mask"
      "terminal_scalar spec ''palette_background'' = Some c0"
      "terminal_scalar spec ''palette_foreground'' = Some c1"
      "terminal_scalar spec ''palette_unused_2'' = Some c2"
      "terminal_scalar spec ''palette_unused_3'' = Some c3"
    and checks: "is_power_of_two columns" "storage = 256" "checked_add capacity 1 = Some storage"
      "budget > 0" "budget \<le> capacity" "checked_mul columns rows = checked_add mask 1"
      "c0 \<le> 0x7fff" "c1 \<le> 0x7fff" "c2 \<le> 0x7fff" "c3 \<le> 0x7fff"
    unfolding validate_terminal_def and_then_eq_Ok scalar_value_eq_Ok ensure_eq_Ok list.pred_inject
    by blast
  have "capacity = 255" using checks(2,3) by (simp add: checked_add_def split: if_splits)
  moreover have "columns * rows = mask + 1"
    using checks(6) terminal_scalar_bound [OF scalars(6)]
    by (simp add: checked_mul_def checked_add_def usize_limit_def split: if_splits)
  moreover obtain k where "columns = 2 ^ k" using checks(1) by (auto simp: is_power_of_two_def)
  ultimately show "terminal_fits spec"
    using scalars checks unfolding terminal_fits_def palette_names_def by auto
next
  assume "terminal_fits spec"
  then obtain k rows mask budget c0 c1 c2 c3 where
    scalars: "terminal_scalar spec ''columns'' = Some (2 ^ k)"
      "terminal_scalar spec ''rows'' = Some rows"
      "terminal_scalar spec ''tilemap_mask'' = Some mask"
      "terminal_scalar spec ''queue_storage_size'' = Some 256"
      "terminal_scalar spec ''queue_capacity'' = Some 255"
      "terminal_scalar spec ''render_budget'' = Some budget"
      "terminal_scalar spec ''palette_background'' = Some c0"
      "terminal_scalar spec ''palette_foreground'' = Some c1"
      "terminal_scalar spec ''palette_unused_2'' = Some c2"
      "terminal_scalar spec ''palette_unused_3'' = Some c3"
    and checks: "2 ^ k * rows = mask + 1" "0 < budget" "budget \<le> 255"
      "c0 \<le> 0x7fff" "c1 \<le> 0x7fff" "c2 \<le> 0x7fff" "c3 \<le> 0x7fff"
    unfolding terminal_fits_def palette_names_def by auto
  have "(2::nat) ^ k < 2 ^ 63" using terminal_scalar_bound [OF scalars(1)] .
  then have "k < 63" by (rule power_less_imp_less_exp [rotated]) simp
  then have "is_power_of_two (2 ^ k)"
    unfolding is_power_of_two_def by (intro exI [of _ k]) simp
  moreover have "checked_mul (2 ^ k) rows = checked_add mask 1"
    using checks(1) terminal_scalar_bound [OF scalars(3)]
    by (simp add: checked_mul_def checked_add_def usize_limit_def)
  moreover have "checked_add 255 1 = Some 256" by (simp add: checked_add_def usize_limit_def)
  ultimately show "validate_terminal (terminal_values spec) = Ok ()"
    unfolding validate_terminal_def and_then_eq_Ok scalar_value_eq_Ok ensure_eq_Ok list.pred_inject
    using scalars checks by simp
qed

lemma trace_product_eq_Ok:
  assumes "t < usize_limit"
  shows "(case checked_mul a b of None \<Rightarrow> Panic | Some product \<Rightarrow> ensure (product = t) e) = Ok () \<longleftrightarrow>
    a * b = t"
  using assms by (auto simp: checked_mul_def)

lemma validate_spec_iff:
  assumes "spec_sizes_usize spec"
  shows "validate_spec spec = Ok () \<longleftrightarrow> spec_well_formed spec"
  using assms
  by (auto simp: validate_spec_def spec_sizes_usize_def spec_well_formed_def and_then_eq_Ok
      validate_fields_eq_Ok validate_terminal_eq_Ok trace_product_eq_Ok)

end
