(* ===== verification/Xtask_Render.thy ===== *)
theory Xtask_Render
  imports Xtask_Spec
begin

text \<open>
  The texts that \<^verbatim>\<open>xtask/src/main.rs\<close> generates from the specification: the constants of the
  firmware (\<^verbatim>\<open>render_assembly\<close>), of the Rust crate (\<^verbatim>\<open>render_rust\<close>) and the documentation of the
  blocks (\<^verbatim>\<open>render_markdown\<close>); and what an assembler and a Rust compiler read from the first two.

  A function that takes \<^verbatim>\<open>out: &mut String\<close> returns the text it leaves in it. \<open>asm_line\<close> and
  \<open>rust_line\<close> are the two formats of the \<^verbatim>\<open>format!\<close> calls.
\<close>

section \<open>Lines\<close>

definition generated_banner :: "string \<Rightarrow> string" where
  "generated_banner comment =
    comment @ '' Generated by `cargo xtask generate`; do not edit directly.'' @ [line_feed, line_feed]"

definition screaming :: "string \<Rightarrow> string" where
  "screaming n = map (\<lambda>c. if c = CHR ''-'' then CHR ''_'' else c) (to_ascii_uppercase n)"

definition writeln :: "string \<Rightarrow> string \<Rightarrow> string" where
  "writeln out line = out @ line @ [line_feed]"

definition asm_line :: "string \<Rightarrow> nat \<Rightarrow> nat \<Rightarrow> string" where
  "asm_line n width v = n @ '' = $'' @ hex_text width v"

definition rust_line :: "string \<Rightarrow> string \<Rightarrow> string \<Rightarrow> string" where
  "rust_line n ty v = ''pub const '' @ n @ '': '' @ ty @ '' = '' @ v @ '';''"

fun scalar_maps_asm ::
  "string \<Rightarrow> string \<Rightarrow> toml_value btree_map \<Rightarrow> (string, spec_error) result" where
  "scalar_maps_asm out pre [] = Ok out"
| "scalar_maps_asm out pre ((n, value) # values) =
    (case as_integer value of
       None \<Rightarrow> Err (ValueNotInteger n)
     | Some v \<Rightarrow>
         scalar_maps_asm (writeln out (asm_line (pre @ ''_'' @ screaming n) 4 (unat v))) pre values)"

fun scalar_maps_rust ::
  "string \<Rightarrow> string \<Rightarrow> toml_value btree_map \<Rightarrow> (string, spec_error) result" where
  "scalar_maps_rust out pre [] = Ok out"
| "scalar_maps_rust out pre ((n, value) # values) =
    (case as_integer value of
       None \<Rightarrow> Err (ValueNotInteger n)
     | Some v \<Rightarrow>
         scalar_maps_rust (writeln out
           (rust_line (pre @ ''_'' @ screaming n) ''usize'' (decimal_text_i64 (sint v)))) pre values)"

fun enum_map_asm :: "string \<Rightarrow> string \<Rightarrow> u8 btree_map \<Rightarrow> string" where
  "enum_map_asm out pre [] = out"
| "enum_map_asm out pre ((n, value) # values) =
    enum_map_asm (writeln out (asm_line (pre @ ''_'' @ screaming n) 2 (unat value))) pre values"

fun enum_map_rust :: "string \<Rightarrow> string \<Rightarrow> u8 btree_map \<Rightarrow> string" where
  "enum_map_rust out pre [] = out"
| "enum_map_rust out pre ((n, value) # values) =
    enum_map_rust (writeln out
      (rust_line (pre @ ''_'' @ screaming n) ''u8'' (decimal_text (unat value)))) pre values"

fun byte_array_from :: "nat \<Rightarrow> string \<Rightarrow> string \<Rightarrow> bytes \<Rightarrow> string" where
  "byte_array_from index out pre [] = out"
| "byte_array_from index out pre (byte # bs) =
    byte_array_from (index + 1)
      (writeln out (asm_line (pre @ ''_'' @ decimal_text index) 2 (unat byte))) pre bs"

definition byte_array_asm :: "string \<Rightarrow> string \<Rightarrow> bytes \<Rightarrow> string" where
  "byte_array_asm out pre bs = byte_array_from 0 out pre bs"

text \<open>The loops over the fields of a block.\<close>

definition field_lines_asm :: "string \<Rightarrow> string \<Rightarrow> field list \<Rightarrow> string" where
  "field_lines_asm out pre fs =
    foldl (\<lambda>out f. writeln out (asm_line (pre @ screaming (field_name f)) 4 (field_offset f))) out fs"

definition field_lines_rust :: "string \<Rightarrow> string \<Rightarrow> field list \<Rightarrow> string" where
  "field_lines_rust out pre fs =
    foldl (\<lambda>out f. writeln out
      (rust_line (pre @ screaming (field_name f)) ''usize'' (decimal_text (field_offset f)))) out fs"

section \<open>Files\<close>

text \<open>The part of \<^verbatim>\<open>render_assembly\<close> after the scalar maps.\<close>

definition render_assembly_rest :: "spec_file \<Rightarrow> string \<Rightarrow> string" where
  "render_assembly_rest spec out =
    (let out = writeln out (asm_line ''MODEM_SPEC_VERSION'' 4 (unat (spec_version (spec_of spec))));
       out = writeln out (asm_line ''MODEM_DIAGNOSTIC_VERSION'' 4 (unat (diagnostic_version (diagnostic spec))));
       out = writeln out (asm_line ''MODEM_DIAGNOSTIC_SIZE'' 4 (diagnostic_size (diagnostic spec)));
       out = writeln out (asm_line ''MODEM_TRACE_EVENT_SIZE'' 4 (trace_event_size (diagnostic spec)));
       out = writeln out (asm_line ''MODEM_TRACE_CAPACITY'' 4 (trace_capacity (diagnostic spec)));
       out = writeln out (asm_line ''MODEM_TRACE_SIZE'' 4 (trace_size (diagnostic spec)));
       out = field_lines_asm out ''MODEM_DIAG_'' (diagnostic_fields (diagnostic spec));
       out = writeln out (asm_line ''PPP_DIAGNOSTIC_VERSION'' 4 (unat (ppp_version (ppp_diagnostic spec))));
       out = writeln out (asm_line ''PPP_DIAGNOSTIC_SIZE'' 4 (ppp_size (ppp_diagnostic spec)));
       out = field_lines_asm out ''PPP_DIAG_'' (ppp_fields (ppp_diagnostic spec));
       out = field_lines_asm out ''MODEM_MAILBOX_OFFSET_'' (mailbox_fields (mailbox spec));
       out = writeln out (asm_line ''MODEM_MAILBOX_VERSION'' 4 (unat (mailbox_version (mailbox spec))));
       out = writeln out (asm_line ''MODEM_MAILBOX_SIZE'' 4 (mailbox_size (mailbox spec)));
       out = writeln out (asm_line ''MODEM_MAILBOX_ARGUMENT_SIZE'' 4 (argument_size (mailbox spec)));
       out = byte_array_asm out ''MODEM_DIAGNOSTIC_MAGIC'' (magic (diagnostic spec));
       out = byte_array_asm out ''PPP_DIAGNOSTIC_MAGIC'' (ppp_magic (ppp_diagnostic spec));
       out = byte_array_asm out ''MODEM_MAILBOX_MAGIC'' (mailbox_magic (mailbox spec));
       out = enum_map_asm out ''MODEM_STATE'' (states spec);
       out = enum_map_asm out ''MODEM_FLAG'' (flags spec);
       out = enum_map_asm out ''MODEM_DISCARD'' (discard_reasons spec);
       out = enum_map_asm out ''MODEM_TRACE'' (trace_events spec);
       out = enum_map_asm out ''MODEM_MAILBOX_COMMAND'' (mailbox_commands spec);
       out = enum_map_asm out ''MODEM_MAILBOX_STATUS'' (mailbox_status spec)
     in out)"

definition render_assembly :: "spec_file \<Rightarrow> (string, spec_error) result" where
  "render_assembly spec =
    and_then (scalar_maps_asm (generated_banner '';'') ''MODEM'' (protocol_values spec)) (\<lambda>out.
    and_then (scalar_maps_asm out ''MODEM'' (driver_values spec)) (\<lambda>out.
    and_then (scalar_maps_asm out ''TERMINAL'' (terminal_values spec)) (\<lambda>out.
    Ok (render_assembly_rest spec out))))"

text \<open>The part of \<^verbatim>\<open>render_rust\<close> after the scalar maps.\<close>

definition render_rust_rest :: "spec_file \<Rightarrow> string \<Rightarrow> string" where
  "render_rust_rest spec out =
    (let out = writeln out (rust_line ''MODEM_SPEC_VERSION'' ''u16'' (decimal_text (unat (spec_version (spec_of spec)))));
       out = writeln out (rust_line ''MODEM_DIAGNOSTIC_MAGIC'' ''[u8; 4]'' (debug_octets (magic (diagnostic spec))));
       out = writeln out (rust_line ''MODEM_DIAGNOSTIC_VERSION'' ''u16'' (decimal_text (unat (diagnostic_version (diagnostic spec)))));
       out = writeln out (rust_line ''MODEM_DIAGNOSTIC_SIZE'' ''usize'' (decimal_text (diagnostic_size (diagnostic spec))));
       out = writeln out (rust_line ''MODEM_TRACE_EVENT_SIZE'' ''usize'' (decimal_text (trace_event_size (diagnostic spec))));
       out = writeln out (rust_line ''MODEM_TRACE_CAPACITY'' ''usize'' (decimal_text (trace_capacity (diagnostic spec))));
       out = writeln out (rust_line ''MODEM_TRACE_SIZE'' ''usize'' (decimal_text (trace_size (diagnostic spec))));
       out = field_lines_rust out ''MODEM_DIAG_'' (diagnostic_fields (diagnostic spec));
       out = writeln out (rust_line ''PPP_DIAGNOSTIC_MAGIC'' ''[u8; 4]'' (debug_octets (ppp_magic (ppp_diagnostic spec))));
       out = writeln out (rust_line ''PPP_DIAGNOSTIC_VERSION'' ''u16'' (decimal_text (unat (ppp_version (ppp_diagnostic spec)))));
       out = writeln out (rust_line ''PPP_DIAGNOSTIC_SIZE'' ''usize'' (decimal_text (ppp_size (ppp_diagnostic spec))));
       out = field_lines_rust out ''PPP_DIAG_'' (ppp_fields (ppp_diagnostic spec));
       out = field_lines_rust out ''MODEM_MAILBOX_OFFSET_'' (mailbox_fields (mailbox spec));
       out = writeln out (rust_line ''MODEM_MAILBOX_MAGIC'' ''[u8; 4]'' (debug_octets (mailbox_magic (mailbox spec))));
       out = writeln out (rust_line ''MODEM_MAILBOX_VERSION'' ''u16'' (decimal_text (unat (mailbox_version (mailbox spec)))));
       out = writeln out (rust_line ''MODEM_MAILBOX_SIZE'' ''usize'' (decimal_text (mailbox_size (mailbox spec))));
       out = writeln out (rust_line ''MODEM_MAILBOX_ARGUMENT_SIZE'' ''usize'' (decimal_text (argument_size (mailbox spec))));
       out = enum_map_rust out ''MODEM_STATE'' (states spec);
       out = enum_map_rust out ''MODEM_FLAG'' (flags spec);
       out = enum_map_rust out ''MODEM_DISCARD'' (discard_reasons spec);
       out = enum_map_rust out ''MODEM_TRACE'' (trace_events spec);
       out = enum_map_rust out ''MODEM_MAILBOX_COMMAND'' (mailbox_commands spec);
       out = enum_map_rust out ''MODEM_MAILBOX_STATUS'' (mailbox_status spec)
     in out)"

definition render_rust :: "spec_file \<Rightarrow> (string, spec_error) result" where
  "render_rust spec =
    and_then (scalar_maps_rust (generated_banner ''//'') ''MODEM'' (protocol_values spec)) (\<lambda>out.
    and_then (scalar_maps_rust out ''MODEM'' (driver_values spec)) (\<lambda>out.
    and_then (scalar_maps_rust out ''TERMINAL'' (terminal_values spec)) (\<lambda>out.
    Ok (render_rust_rest spec out))))"

definition markdown_row :: "field \<Rightarrow> string" where
  "markdown_row f =
    ''| `0x'' @ hex_text 2 (field_offset f) @ ''` | '' @ decimal_text (field_size f) @ '' | `'' @
    field_type f @ ''` | `'' @ field_name f @ ''` | '' @ field_description f @ '' |'' @ [line_feed]"

text \<open>The heading, the sizes and the table of one of the three blocks.\<close>

definition markdown_block :: "string \<Rightarrow> u16 \<Rightarrow> nat \<Rightarrow> field list \<Rightarrow> string" where
  "markdown_block heading version block_size fs =
    heading @ [line_feed, line_feed] @ ''ABI version: `'' @ decimal_text (unat version) @
    ''`. Block size: `'' @ decimal_text block_size @ ''` bytes.'' @ [line_feed, line_feed] @
    ''| Offset | Size | Type | Field | Meaning |'' @ [line_feed] @
    ''|---:|---:|---|---|---|'' @ [line_feed] @
    concat (map markdown_row fs)"

definition render_markdown :: "spec_file \<Rightarrow> string" where
  "render_markdown spec =
    ''<!-- Generated by `cargo xtask generate`; do not edit directly. -->'' @ [line_feed, line_feed] @
    markdown_block (''# '' @ spec_name (spec_of spec) @ '' diagnostic ABI'')
      (diagnostic_version (diagnostic spec)) (diagnostic_size (diagnostic spec))
      (diagnostic_fields (diagnostic spec)) @
    markdown_block ([line_feed] @ ''## PPP Diagnostic ABI'')
      (ppp_version (ppp_diagnostic spec)) (ppp_size (ppp_diagnostic spec))
      (ppp_fields (ppp_diagnostic spec)) @
    markdown_block ([line_feed] @ ''## Mailbox ABI'')
      (mailbox_version (mailbox spec)) (mailbox_size (mailbox spec))
      (mailbox_fields (mailbox spec))"

end
