(* ===== verification/Xtask_Font.thy ===== *)
theory Xtask_Font
  imports Xtask_Render
begin

text \<open>
  The font of the terminal in \<^verbatim>\<open>xtask/src/main.rs\<close>: reading \<^verbatim>\<open>font8x8_basic.h\<close>, the tiles and the
  palette of the console, the preview picture, and the screens of the font test as assembly.

  A \<^verbatim>\<open>[[u8; 8]; 128]\<close> is a list of 128 lists of eight octets. Not under \<^verbatim>\<open>src/\<close> and therefore
  parameters are the parser of TOML, SHA-256 and the encoder of PNG files.
\<close>

section \<open>The source of the font\<close>

record font_source =
  source_url :: string
  source_file :: string
  readme_file :: string
  commit :: string
  sha256_lf :: string
  readme_sha256_canonical_lf :: string
  author :: string
  license :: string
  provenance :: string

datatype font_error =
    FontUnreadable string
  | FontMetadataUnparsed
  | LicenseChanged
  | ProvenanceIncomplete
  | SourceHashMismatch
  | SourceNotPublicDomain
  | ReadmeHashMismatch
  | ReadmeIncomplete
  | TruncatedMarker
  | InvalidCodepoint string
  | CodepointOutOfRange
  | DuplicateCodepoint nat
  | MissingOpenBrace
  | MissingCloseBrace
  | ValueNotHexadecimal string
  | InvalidByte string
  | NotEightRows nat
  | NotAllCodepoints
  | PaletteInvalid spec_error
  | PreviewFontSize
  | PreviewPaletteSize
  | PreviewLineTooLong
  | PngFailed

type_synonym glyphs = "bytes list"

definition canonical_text :: "string \<Rightarrow> string" where
  "canonical_text source =
    (let normalized = replace_text [carriage_return, line_feed] [line_feed] source
     in trim_end_matches line_feed normalized @ [line_feed])"

definition text_range :: "string \<Rightarrow> nat \<Rightarrow> nat \<Rightarrow> string option" where
  "text_range s a b = (if a \<le> b \<and> b \<le> length s then Some (take (b - a) (drop a s)) else None)"

text \<open>One value of a row: \<^verbatim>\<open>0x\<close> or \<^verbatim>\<open>0X\<close> and a number below 256.\<close>

definition font_value :: "string \<Rightarrow> (u8, font_error) result" where
  "font_value value =
    (case (case strip_prefix ''0x'' value of Some h \<Rightarrow> Some h | None \<Rightarrow> strip_prefix ''0X'' value) of
       None \<Rightarrow> Err (ValueNotHexadecimal value)
     | Some hexadecimal \<Rightarrow>
         (case from_str_radix 16 256 hexadecimal of
            None \<Rightarrow> Err (InvalidByte value)
          | Some n \<Rightarrow> Ok (of_nat n)))"

text \<open>\<^verbatim>\<open>collect::<Result<Vec<_>>>\<close>: the first error, or all values.\<close>

fun font_values :: "string list \<Rightarrow> (bytes, font_error) result" where
  "font_values [] = Ok []"
| "font_values (v # vs) =
    and_then (font_value v) (\<lambda>b. and_then (font_values vs) (\<lambda>bs. Ok (b # bs)))"

definition line_codepoint :: "string \<Rightarrow> nat \<Rightarrow> (nat, font_error) result" where
  "line_codepoint line marker =
    (case text_range line (marker + 5) (marker + 9) of
       None \<Rightarrow> Err TruncatedMarker
     | Some codepoint_text \<Rightarrow>
         (case from_str_radix 16 usize_limit codepoint_text of
            None \<Rightarrow> Err (InvalidCodepoint codepoint_text)
          | Some codepoint \<Rightarrow> Ok codepoint))"

definition line_values :: "string \<Rightarrow> (bytes, font_error) result" where
  "line_values line =
    (case find_text ''{'' line of
       None \<Rightarrow> Err MissingOpenBrace
     | Some start \<Rightarrow>
         (case find_text ''}'' (drop (start + 1) line) of
            None \<Rightarrow> Err MissingCloseBrace
          | Some k \<Rightarrow>
              font_values (filter (\<lambda>v. v \<noteq> [])
                (map trim (split_on (CHR '','') (take k (drop (start + 1) line)))))))"

text \<open>One round of the loop, on the glyphs and the code points seen.\<close>

definition font_line ::
  "string \<Rightarrow> glyphs \<times> bool list \<Rightarrow> (glyphs \<times> bool list, font_error) result" where
  "font_line line table =
    (case table of (glyphs, seen) \<Rightarrow>
     case find_text ''// U+'' line of
       None \<Rightarrow> Ok table
     | Some marker \<Rightarrow>
         and_then (line_codepoint line marker) (\<lambda>codepoint.
         and_then (ensure (codepoint < 128) CodepointOutOfRange) (\<lambda>_.
         and_then (ensure (\<not> seen ! codepoint) (DuplicateCodepoint codepoint)) (\<lambda>_.
         and_then (line_values line) (\<lambda>values.
         and_then (ensure (length values = 8) (NotEightRows codepoint)) (\<lambda>_.
         Ok (glyphs[codepoint := values], seen[codepoint := True])))))))"

fun font_lines ::
  "string list \<Rightarrow> glyphs \<times> bool list \<Rightarrow> (glyphs \<times> bool list, font_error) result" where
  "font_lines [] table = Ok table"
| "font_lines (line # ls) table = and_then (font_line line table) (font_lines ls)"

definition parse_font8x8_basic :: "string \<Rightarrow> (glyphs, font_error) result" where
  "parse_font8x8_basic source =
    and_then (font_lines (text_lines source) (replicate 128 (replicate 8 0), replicate 128 False))
      (\<lambda>(glyphs, seen).
        and_then (ensure (list_all (\<lambda>present. present) seen) NotAllCodepoints) (\<lambda>_. Ok glyphs))"

text \<open>
  \<^verbatim>\<open>PathBuf::join\<close> of an absolute path is that path. \<open>read\<close> is \<^verbatim>\<open>read_to_string\<close>; the paths are
  relative to the root of the workspace.
\<close>

definition path_join :: "string \<Rightarrow> string \<Rightarrow> string" where
  "path_join directory n = (if starts_with ''/'' n then n else directory @ ''/'' @ n)"

definition read_or :: "(string \<Rightarrow> string option) \<Rightarrow> string \<Rightarrow> (string, font_error) result" where
  "read_or read path = (case read path of None \<Rightarrow> Err (FontUnreadable path) | Some s \<Rightarrow> Ok s)"

definition load_font8x8 ::
  "(string \<Rightarrow> font_source option) \<Rightarrow> (string \<Rightarrow> string) \<Rightarrow> (string \<Rightarrow> string option) \<Rightarrow>
    (font_source \<times> glyphs, font_error) result" where
  "load_font8x8 from_toml sha256 read =
    (let directory = ''third_party/font8x8'' in
    and_then (read_or read (path_join directory ''SOURCE.toml'')) (\<lambda>metadata_text.
    case from_toml metadata_text of
      None \<Rightarrow> Err FontMetadataUnparsed
    | Some metadata \<Rightarrow>
        and_then (ensure (license metadata = ''Public Domain'') LicenseChanged) (\<lambda>_.
        and_then (ensure (contains ''Marcel Sondaar'' (provenance metadata) \<and>
            contains ''International Business Machines'' (provenance metadata))
          ProvenanceIncomplete) (\<lambda>_.
        and_then (read_or read (path_join directory (source_file metadata))) (\<lambda>source_text.
        let source = canonical_text source_text in
        and_then (ensure (sha256 source = sha256_lf metadata) SourceHashMismatch) (\<lambda>_.
        and_then (ensure (contains ''License: Public Domain'' source) SourceNotPublicDomain) (\<lambda>_.
        and_then (read_or read (path_join directory (readme_file metadata))) (\<lambda>readme_text.
        let readme = canonical_text readme_text in
        and_then (ensure (sha256 readme = readme_sha256_canonical_lf metadata)
          ReadmeHashMismatch) (\<lambda>_.
        and_then (ensure (contains ''Author: Daniel Hepper'' readme \<and>
            contains ''License: Public Domain'' readme \<and> contains ''Marcel Sondaar'' readme \<and>
            contains ''International Business Machines'' readme)
          ReadmeIncomplete) (\<lambda>_.
        and_then (parse_font8x8_basic source) (\<lambda>glyphs. Ok (metadata, glyphs))))))))))))"

section \<open>Tiles and palette\<close>

definition reverse_bits :: "u8 \<Rightarrow> u8" where
  "reverse_bits w = horner_sum of_bool 2 (map (\<lambda>i. bit w (7 - i)) [0..<8])"

definition write_tile :: "glyphs \<Rightarrow> bytes \<Rightarrow> nat \<Rightarrow> bytes" where
  "write_tile glyphs out codepoint =
    (let destination = codepoint * 16
     in foldl (\<lambda>out row.
         (out[destination + row * 2 := reverse_bits (glyphs ! codepoint ! row)])
           [destination + row * 2 + 1 := 0])
       out [0..<8])"

definition generate_sfc_font :: "glyphs \<Rightarrow> bytes" where
  "generate_sfc_font glyphs = foldl (write_tile glyphs) (replicate (256 * 16) 0) [0x20..<0x7f]"

text \<open>\<^verbatim>\<open>copy_from_slice\<close> into a range that is in bounds.\<close>

definition splice :: "bytes \<Rightarrow> nat \<Rightarrow> bytes \<Rightarrow> bytes" where
  "splice bs k new = take k bs @ new @ drop (k + length new) bs"

text \<open>\<^verbatim>\<open>u16::try_from\<close> fails above \<^verbatim>\<open>u16::MAX\<close>; \<open>None\<close> is that error.\<close>

fun palette_from ::
  "nat \<Rightarrow> toml_value btree_map \<Rightarrow> string list \<Rightarrow> bytes \<Rightarrow> (bytes, spec_error option) result" where
  "palette_from index values [] out = Ok out"
| "palette_from index values (n # ns) out =
    and_then (map_err Some (scalar_value values n ''terminal'')) (\<lambda>color.
    if color < 65536 then palette_from (index + 1) values ns (splice out (index * 2) (to_le16 (of_nat color)))
    else Err None)"

definition generate_palette :: "spec_file \<Rightarrow> (bytes, spec_error option) result" where
  "generate_palette spec =
    palette_from 0 (terminal_values spec)
      [''palette_background'', ''palette_foreground'', ''palette_unused_2'', ''palette_unused_3'']
      (replicate 512 0)"

section \<open>The preview\<close>

definition FONT_TEST_LINES :: "string list" where
  "FONT_TEST_LINES =
    ['' !'' @ [CHR 0x22] @ ''#$%&'' @ [CHR 0x27] @ ''()*+,-./'',
     ''0123456789:;<=>?'',
     ''@ABCDEFGHIJKLMNO'',
     ''PQRSTUVWXYZ['' @ [CHR 0x5C] @ '']^_'',
     CHR 0x60 # ''abcdefghijklmno'',
     ''pqrstuvwxyz{|}~'',
     [],
     ''0O 1Il| 2Z 5S 6G 8B 9g'',
     ''AT%B2400 ATS10=14'',
     ''192.168.100.255'',
     ''!@#$%^&*()[]{}'' @ [CHR 0x5C] @ ''|;:'' @ [CHR 0x27, CHR 0x22] @ '',.<>/?'',
     ''font8x8 / Public Domain'']"

definition decode_bgr555 :: "u16 \<Rightarrow> bytes" where
  "decode_bgr555 color =
    (let expand = (\<lambda>component :: u16. of_nat ((unat component * 255 + 15) div 31) :: u8)
     in [expand (color AND 0x1f), expand (drop_bit 5 color AND 0x1f), expand (drop_bit 10 color AND 0x1f)])"

text \<open>The eight pixels of a row of a tile, then the rows, the characters of a line and the lines.\<close>

definition paint_row :: "bytes \<Rightarrow> u8 \<Rightarrow> nat \<Rightarrow> bytes \<Rightarrow> bytes" where
  "paint_row foreground plane left pixels =
    foldl (\<lambda>pixels glyph_x.
      if plane AND drop_bit glyph_x 0x80 = 0 then pixels
      else splice pixels ((left + glyph_x) * 3) foreground) pixels [0..<8]"

definition paint_character :: "bytes \<Rightarrow> bytes \<Rightarrow> nat \<Rightarrow> nat \<Rightarrow> char \<Rightarrow> bytes \<Rightarrow> bytes" where
  "paint_character font foreground row column codepoint pixels =
    (let tile = of_char codepoint * 16
     in foldl (\<lambda>pixels glyph_y.
         paint_row foreground (font ! (tile + glyph_y * 2)) ((row * 8 + glyph_y) * 256 + column * 8) pixels)
       pixels [0..<8])"

fun paint_line ::
  "bytes \<Rightarrow> bytes \<Rightarrow> nat \<Rightarrow> nat \<Rightarrow> string \<Rightarrow> bytes \<Rightarrow> (bytes, font_error) result" where
  "paint_line font foreground row column [] pixels = Ok pixels"
| "paint_line font foreground row column (c # cs) pixels =
    and_then (ensure (column < 32) PreviewLineTooLong) (\<lambda>_.
    paint_line font foreground row (column + 1) cs
      (paint_character font foreground row column c pixels))"

fun paint_lines ::
  "bytes \<Rightarrow> bytes \<Rightarrow> nat \<Rightarrow> string list \<Rightarrow> bytes \<Rightarrow> (bytes, font_error) result" where
  "paint_lines font foreground row [] pixels = Ok pixels"
| "paint_lines font foreground row (l # ls) pixels =
    and_then (paint_line font foreground row 0 l pixels) (paint_lines font foreground (row + 1) ls)"

text \<open>Every pixel becomes a square of \<^verbatim>\<open>SCALE\<close> by \<^verbatim>\<open>SCALE\<close>.\<close>

definition scale_pixels :: "nat \<Rightarrow> nat \<Rightarrow> bytes \<Rightarrow> bytes" where
  "scale_pixels width height pixels =
    (let scaled_width = width * 4; scaled_height = height * 4
     in foldl (\<lambda>scaled y.
         foldl (\<lambda>scaled x.
           (let source = ((y div 4) * width + x div 4) * 3;
              destination = (y * scaled_width + x) * 3
            in splice scaled destination (take 3 (drop source pixels))))
         scaled [0..<scaled_width])
       (replicate (scaled_width * scaled_height * 3) 0) [0..<scaled_height])"

definition generate_font_preview ::
  "(nat \<Rightarrow> nat \<Rightarrow> bytes \<Rightarrow> bytes option) \<Rightarrow> bytes \<Rightarrow> bytes \<Rightarrow> (bytes, font_error) result" where
  "generate_font_preview png_encode font palette =
    and_then (ensure (length font = 4096) PreviewFontSize) (\<lambda>_.
    and_then (ensure (length palette = 512) PreviewPaletteSize) (\<lambda>_.
    let background = decode_bgr555 (from_be16 (palette ! 1) (palette ! 0));
      foreground = decode_bgr555 (from_be16 (palette ! 3) (palette ! 2));
      width = 32 * 8;
      height = length FONT_TEST_LINES * 8;
      pixels = concat (replicate (width * height) background)
    in and_then (paint_lines font foreground 0 FONT_TEST_LINES pixels) (\<lambda>pixels.
      case png_encode (width * 4) (height * 4) (scale_pixels width height pixels) of
        None \<Rightarrow> Err PngFailed
      | Some png \<Rightarrow> Ok png)))"

section \<open>The font test as assembly\<close>

text \<open>\<^verbatim>\<open>chunks(16)\<close>, and the lines of \<^verbatim>\<open>.byte\<close> directives.\<close>

function chunks16 :: "bytes \<Rightarrow> bytes list" where
  "chunks16 bs = (if bs = [] then [] else take 16 bs # chunks16 (drop 16 bs))"
  by pat_completeness auto
termination by (relation "measure length") (auto simp: length_greater_0_conv)

declare chunks16.simps [simp del]

definition byte_line :: "bytes \<Rightarrow> string" where
  "byte_line chunk = ''.byte '' @ join '','' (map (\<lambda>b. CHR ''$'' # hex_text 2 (unat b)) chunk) @ [line_feed]"

definition write_assembly_bytes :: "string \<Rightarrow> bytes \<Rightarrow> string" where
  "write_assembly_bytes out bs = foldl (\<lambda>out chunk. out @ byte_line chunk) out (chunks16 bs)"

text \<open>\<^verbatim>\<open>as_bytes\<close>: the UTF-8 octets of the characters below 256.\<close>

definition utf8_char :: "char \<Rightarrow> bytes" where
  "utf8_char c =
    (let n = of_char c :: nat
     in if n < 128 then [of_nat n] else [of_nat (0xC0 + n div 64), of_nat (0x80 + n mod 64)])"

definition as_bytes :: "string \<Rightarrow> bytes" where
  "as_bytes s = concat (map utf8_char s)"

definition attribution :: "font_source \<Rightarrow> string" where
  "attribution source =
    ''font8x8 by '' @ author source @ ''; '' @ license source @
    ''; derived from Marcel Sondaar and IBM public-domain VGA fonts; commit '' @ commit source @
    ''; '' @ source_url source"

definition render_font_assembly :: "font_source \<Rightarrow> string" where
  "render_font_assembly source =
    (let out = generated_banner '';'';
       out = out @ ''.export fontTestScreen, fontAttribution'' @ [line_feed, line_feed];
       out = out @ ''fontTestScreen:'' @ [line_feed];
       out = foldl (\<lambda>out line. write_assembly_bytes out (map of_char line) @ ''.byte $0A'' @ [line_feed])
         out FONT_TEST_LINES;
       out = out @ ''.byte $00'' @ [line_feed, line_feed] @ ''fontAttribution:'' @ [line_feed];
       out = write_assembly_bytes out (as_bytes (attribution source))
     in out @ ''.byte $00'' @ [line_feed])"

end
