(* ===== verification/Xtask_Generate.thy ===== *)
theory Xtask_Generate
  imports Xtask_Font
begin

text \<open>
  \<^verbatim>\<open>cargo xtask generate\<close>, the function \<^verbatim>\<open>generate\<close> of \<^verbatim>\<open>xtask/src/main.rs\<close>: it writes the seven
  generated files, or with \<^verbatim>\<open>--check\<close> compares them with what is on the disk.

  The disk is a map from paths, relative to the root of the workspace, to octets. Of the surroundings
  are parameters: the two TOML parsers, SHA-256, the PNG encoder, and which files can be written.
  Lines on the standard output are left out. A text is read if its octets are UTF-8 of characters below
  256; other texts count as unreadable, and no generated text is one.
\<close>

type_synonym disk = "string \<Rightarrow> bytes option"

record surroundings =
  parse_spec :: "string \<Rightarrow> spec_file option"
  parse_font :: "string \<Rightarrow> font_source option"
  sha256 :: "string \<Rightarrow> string"
  png_encode :: "nat \<Rightarrow> nat \<Rightarrow> bytes \<Rightarrow> bytes option"
  writable :: "string \<Rightarrow> bool"

datatype generate_error =
    SpecFailed read_spec_error
  | FontFailed font_error
  | RenderFailed spec_error
  | PaletteFailed "spec_error option"
  | GeneratedMissing string
  | OutOfDate string
  | WriteFailed string

section \<open>Texts on the disk\<close>

fun decode_utf8 :: "bytes \<Rightarrow> string option" where
  "decode_utf8 [] = Some []"
| "decode_utf8 (b # bs) =
    (if b < 128 then map_option ((#) (char_of (unat b))) (decode_utf8 bs)
     else case bs of
         [] \<Rightarrow> None
       | c # cs \<Rightarrow>
           if (b = 0xC2 \<or> b = 0xC3) \<and> 0x80 \<le> c \<and> c < 0xC0
           then map_option ((#) (char_of ((unat b - 0xC0) * 64 + (unat c - 0x80)))) (decode_utf8 cs)
           else None)"

definition read_to_string :: "disk \<Rightarrow> string \<Rightarrow> string option" where
  "read_to_string disk path = (case disk path of None \<Rightarrow> None | Some bs \<Rightarrow> decode_utf8 bs)"

text \<open>\<^verbatim>\<open>create_dir_all\<close> of the parent and \<^verbatim>\<open>fs::write\<close>.\<close>

definition write_file ::
  "surroundings \<Rightarrow> string \<Rightarrow> bytes \<Rightarrow> disk \<Rightarrow> (unit, generate_error) result \<times> disk" where
  "write_file env path content disk =
    (if writable env path then (Ok (), disk(path \<mapsto> content)) else (Err (WriteFailed path), disk))"

section \<open>Generating\<close>

text \<open>One round of the loop over the texts, and \<^verbatim>\<open>sync_generated_bytes\<close>.\<close>

definition sync_generated_text ::
  "surroundings \<Rightarrow> bool \<Rightarrow> string \<Rightarrow> string \<Rightarrow> disk \<Rightarrow> (unit, generate_error) result \<times> disk" where
  "sync_generated_text env check path content disk =
    (if check then
       (case read_to_string disk path of
          None \<Rightarrow> (Err (GeneratedMissing path), disk)
        | Some current \<Rightarrow> (ensure (current = content) (OutOfDate path), disk))
     else write_file env path (as_bytes content) disk)"

definition sync_generated_bytes ::
  "surroundings \<Rightarrow> bool \<Rightarrow> string \<Rightarrow> bytes \<Rightarrow> disk \<Rightarrow> (unit, generate_error) result \<times> disk" where
  "sync_generated_bytes env check path content disk =
    (if check then
       (case disk path of
          None \<Rightarrow> (Err (GeneratedMissing path), disk)
        | Some current \<Rightarrow> (ensure (current = content) (OutOfDate path), disk))
     else write_file env path content disk)"

fun sync_all ::
  "(string \<Rightarrow> 'c \<Rightarrow> disk \<Rightarrow> (unit, generate_error) result \<times> disk) \<Rightarrow> (string \<times> 'c) list \<Rightarrow> disk \<Rightarrow>
    (unit, generate_error) result \<times> disk" where
  "sync_all sync [] disk = (Ok (), disk)"
| "sync_all sync ((path, content) # outputs) disk =
    and_then_st (sync path content disk) (\<lambda>_. sync_all sync outputs)"

definition read_sources ::
  "surroundings \<Rightarrow> disk \<Rightarrow> (spec_file \<times> font_source \<times> glyphs, generate_error) result" where
  "read_sources env disk =
    and_then (map_err SpecFailed
      (read_spec (parse_spec env) (read_to_string disk ''spec/ndm24.toml''))) (\<lambda>spec.
    and_then (map_err FontFailed
      (load_font8x8 (parse_font env) (sha256 env) (read_to_string disk))) (\<lambda>(source, font).
    Ok (spec, source, font)))"

definition text_outputs ::
  "spec_file \<Rightarrow> font_source \<Rightarrow> ((string \<times> string) list, generate_error) result" where
  "text_outputs spec source =
    and_then (map_err RenderFailed (render_assembly spec)) (\<lambda>assembly.
    and_then (map_err RenderFailed (render_rust spec)) (\<lambda>rust.
    Ok [(''src/modem/generated.inc'', assembly),
        (''crates/ndm24-protocol/src/generated.rs'', rust),
        (''docs/generated/diagnostic-abi.md'', render_markdown spec),
        (''src/terminal/generated-font.inc'', render_font_assembly source)]))"

definition binary_outputs ::
  "surroundings \<Rightarrow> spec_file \<Rightarrow> glyphs \<Rightarrow> ((string \<times> bytes) list, generate_error) result" where
  "binary_outputs env spec font =
    (let sfc_font = generate_sfc_font font in
    and_then (map_err PaletteFailed (generate_palette spec)) (\<lambda>palette.
    and_then (map_err FontFailed (generate_font_preview (png_encode env) sfc_font palette)) (\<lambda>preview.
    Ok [(''assets/font.bin'', sfc_font), (''assets/palette.bin'', palette),
        (''docs/generated/font-preview.png'', preview)])))"

definition generate ::
  "surroundings \<Rightarrow> bool \<Rightarrow> disk \<Rightarrow> (unit, generate_error) result \<times> disk" where
  "generate env check disk =
    and_then_st (read_sources env disk, disk) (\<lambda>(spec, source, font) disk.
    and_then_st (text_outputs spec source, disk) (\<lambda>texts disk.
    and_then_st (sync_all (sync_generated_text env check) texts disk) (\<lambda>_ disk.
    and_then_st (binary_outputs env spec font, disk) (\<lambda>binaries disk.
    sync_all (sync_generated_bytes env check) binaries disk))))"

section \<open>Reading back what is written\<close>

lemma decode_utf8_char: "decode_utf8 (utf8_char c @ bs) = map_option ((#) c) (decode_utf8 bs)"
proof -
  let ?n = "of_char c :: nat"
  show ?thesis
  proof (cases "?n < 128")
    case True
    then have "unat (of_nat ?n :: u8) = ?n" by (simp add: unat_of_nat8)
    then show ?thesis using True by (simp add: utf8_char_def Let_def word_less_nat_alt)
  next
    case False
    have "?n < 256" by simp
    then have high: "?n div 64 = 2 \<or> ?n div 64 = 3" using False by linarith
    have low: "?n mod 64 < 64" by simp
    then have c: "unat (of_nat (0x80 + ?n mod 64) :: u8) = 0x80 + ?n mod 64"
      unfolding unat_of_nat8 by simp
    have b: "unat (of_nat (0xC0 + ?n div 64) :: u8) = 0xC0 + ?n div 64"
      using high unfolding unat_of_nat8 by auto
    have "?n div 64 * 64 + ?n mod 64 = ?n" by simp
    then have char: "char_of (?n div 64 * 64 + ?n mod 64) = c" by simp
    have "(of_nat (0xC0 + ?n div 64) :: u8) = 0xC2 \<or> (of_nat (0xC0 + ?n div 64) :: u8) = 0xC3"
      using high by auto
    moreover have "\<not> (of_nat (0xC0 + ?n div 64) :: u8) < 128"
      using b unfolding word_less_nat_alt by simp
    moreover have "(0x80 :: u8) \<le> of_nat (0x80 + ?n mod 64)" "(of_nat (0x80 + ?n mod 64) :: u8) < 0xC0"
      using low unfolding word_le_nat_alt word_less_nat_alt c by simp_all
    moreover have "char_of ((unat (of_nat (0xC0 + ?n div 64) :: u8) - 0xC0) * 64 +
        (unat (of_nat (0x80 + ?n mod 64) :: u8) - 0x80)) = c"
      unfolding b c using char by simp
    moreover have "utf8_char c = [of_nat (0xC0 + ?n div 64), of_nat (0x80 + ?n mod 64)]"
      using False by (simp add: utf8_char_def Let_def)
    ultimately show ?thesis by (simp only: append_Cons append_Nil decode_utf8.simps list.case if_False if_True simp_thms)
  qed
qed

lemma decode_utf8_as_bytes: "decode_utf8 (as_bytes s) = Some s"
  by (induction s) (simp_all add: as_bytes_def decode_utf8_char)

text \<open>Only one sequence of octets is read as a given text.\<close>

lemma utf8_char_of:
  assumes "n < 256"
  shows "utf8_char (char_of n) =
    (if n < 128 then [of_nat n] else [of_nat (0xC0 + n div 64), of_nat (0x80 + n mod 64)])"
  using assms by (simp add: utf8_char_def Let_def of_char_of)

lemma as_bytes_decode_utf8: "decode_utf8 bs = Some s \<Longrightarrow> as_bytes s = bs"
proof (induction bs arbitrary: s rule: decode_utf8.induct)
  case (2 b bs)
  show ?case
  proof (cases "b < 128")
    case True
    then obtain t where t: "decode_utf8 bs = Some t" "s = char_of (unat b) # t" using 2(3) by auto
    have "unat b < 128" using True by (simp add: word_less_nat_alt)
    then have "utf8_char (char_of (unat b)) = [b]" by (simp add: utf8_char_of)
    then show ?thesis using t 2(1) [OF True t(1)] by (simp add: as_bytes_def)
  next
    case False
    then obtain c cs where bs: "bs = c # cs" using 2(3) by (cases bs) auto
    with False 2(3) obtain t where b: "b = 0xC2 \<or> b = 0xC3" and c: "0x80 \<le> c" "c < 0xC0"
      and t: "decode_utf8 cs = Some t" "s = char_of ((unat b - 0xC0) * 64 + (unat c - 0x80)) # t"
      by (auto split: if_splits)
    let ?n = "(unat b - 0xC0) * 64 + (unat c - 0x80)"
    have c': "0x80 \<le> unat c" "unat c < 0xC0" using c by (simp_all add: word_le_nat_alt word_less_nat_alt)
    have ub: "unat b = 0xC2 \<or> unat b = 0xC3" using b by auto
    have "128 \<le> ?n" "?n < 256" using c' ub by auto
    moreover have "unat c - 0x80 < 64" using c' by simp
    then have "?n div 64 = unat b - 0xC0" "?n mod 64 = unat c - 0x80" by simp_all
    moreover have "0xC0 + (unat b - 0xC0) = unat b" "0x80 + (unat c - 0x80) = unat c" using c' ub by auto
    ultimately have "utf8_char (char_of ?n) = [b, c]" by (simp add: utf8_char_of)
    then show ?thesis
      using t 2(2) [OF False bs _ t(1)] b c unfolding bs by (simp add: as_bytes_def)
  qed
qed (simp add: as_bytes_def)

lemma read_to_string_eq: "read_to_string disk path = Some s \<longleftrightarrow> disk path = Some (as_bytes s)"
  using decode_utf8_as_bytes as_bytes_decode_utf8
  by (auto simp: read_to_string_def split: option.splits)

section \<open>Writing and checking\<close>

text \<open>The generated files of a disk, with their octets.\<close>

definition generated_files :: "surroundings \<Rightarrow> disk \<Rightarrow> ((string \<times> bytes) list, generate_error) result" where
  "generated_files env disk =
    and_then (read_sources env disk) (\<lambda>(spec, source, font).
    and_then (text_outputs spec source) (\<lambda>texts.
    and_then (binary_outputs env spec font) (\<lambda>binaries.
    Ok (map (\<lambda>(path, content). (path, as_bytes content)) texts @ binaries))))"

definition holds_files :: "disk \<Rightarrow> (string \<times> bytes) list \<Rightarrow> bool" where
  "holds_files disk files \<longleftrightarrow> (\<forall>(path, content) \<in> set files. disk path = Some content)"

lemma holds_files_append [simp]:
  "holds_files disk (files @ others) \<longleftrightarrow> holds_files disk files \<and> holds_files disk others"
  by (auto simp: holds_files_def)

lemma holds_files_Cons [simp]:
  "holds_files disk ((path, content) # files) \<longleftrightarrow> disk path = Some content \<and> holds_files disk files"
  by (auto simp: holds_files_def)

lemma holds_files_Nil [simp]: "holds_files disk []"
  by (simp add: holds_files_def)

lemma check_text_Ok:
  "sync_generated_text env True path content disk = (r, d) \<Longrightarrow>
    d = disk \<and> (r = Ok () \<longleftrightarrow> disk path = Some (as_bytes content))"
  unfolding read_to_string_eq [symmetric]
  by (auto simp: sync_generated_text_def split: option.splits)

lemma check_bytes_Ok:
  "sync_generated_bytes env True path content disk = (r, d) \<Longrightarrow>
    d = disk \<and> (r = Ok () \<longleftrightarrow> disk path = Some content)"
  by (auto simp: sync_generated_bytes_def split: option.splits)

lemma check_all:
  assumes "\<And>path content d r. sync path content disk = (r, d) \<Longrightarrow>
    d = disk \<and> (r = Ok () \<longleftrightarrow> disk path = Some (octets content))"
    and "sync_all sync outputs disk = (r, d)"
  shows "d = disk \<and> (r = Ok () \<longleftrightarrow> holds_files disk (map (\<lambda>(path, content). (path, octets content)) outputs))"
  using assms(2)
proof (induction outputs arbitrary: r d)
  case (Cons entry outputs)
  obtain path content where entry: "entry = (path, content)" by (cases entry)
  obtain r1 d1 where step: "sync path content disk = (r1, d1)" by (cases "sync path content disk")
  note one = assms(1) [OF step]
  show ?case
    using Cons one step by (cases r1) (auto simp: entry)
qed simp

lemma keys_map: "map fst (map (\<lambda>(path, content). (path, octets content)) files) = map fst files"
  by (simp add: comp_def case_prod_unfold)

lemma dom_files: "dom (map_of files) = set (map fst files)"
  by (simp add: dom_map_of_conv_image_fst)

lemma write_all_files:
  assumes "\<And>path content disk d. sync path content disk = (Ok (), d) \<Longrightarrow> d = disk(path \<mapsto> octets content)"
    and "sync_all sync outputs disk = (Ok (), d)" and "distinct (map fst outputs)"
  shows "d = disk ++ map_of (map (\<lambda>(path, content). (path, octets content)) outputs)"
  using assms(2,3)
proof (induction outputs arbitrary: disk)
  case (Cons entry outputs)
  obtain path content where entry: "entry = (path, content)" by (cases entry)
  then obtain d1 where "sync path content disk = (Ok (), d1)" and rest: "sync_all sync outputs d1 = (Ok (), d)"
    using Cons.prems(1) by (auto simp: and_then_st_eq_Ok)
  then have "d1 = disk(path \<mapsto> octets content)" using assms(1) by blast
  moreover have "d = d1 ++ map_of (map (\<lambda>(path, content). (path, octets content)) outputs)"
    using Cons.IH [OF rest] Cons.prems(2) by simp
  moreover have "path \<notin> dom (map_of (map (\<lambda>(path, content). (path, octets content)) outputs))"
    using Cons.prems(2) unfolding dom_files keys_map by (simp add: entry)
  ultimately show ?case by (auto simp: entry fun_eq_iff map_add_def split: option.splits)
qed simp

lemma write_file_Ok: "write_file env path content disk = (Ok (), d) \<Longrightarrow> d = disk(path \<mapsto> content)"
  by (simp add: write_file_def split: if_splits)

definition output_paths :: "string list" where
  "output_paths =
    [''src/modem/generated.inc'', ''crates/ndm24-protocol/src/generated.rs'',
     ''docs/generated/diagnostic-abi.md'', ''src/terminal/generated-font.inc'',
     ''assets/font.bin'', ''assets/palette.bin'', ''docs/generated/font-preview.png'']"

lemma output_paths_distinct: "distinct output_paths"
  by code_simp

lemma text_outputs_paths: "text_outputs spec source = Ok texts \<Longrightarrow> map fst texts = take 4 output_paths"
  by (auto simp: text_outputs_def and_then_eq_Ok output_paths_def)

lemma binary_outputs_paths: "binary_outputs env spec font = Ok binaries \<Longrightarrow> map fst binaries = drop 4 output_paths"
  by (auto simp: binary_outputs_def and_then_eq_Ok output_paths_def Let_def)

lemma generated_files_paths: "generated_files env disk = Ok files \<Longrightarrow> map fst files = output_paths"
proof -
  assume "generated_files env disk = Ok files"
  then obtain spec source font texts binaries
    where "text_outputs spec source = Ok texts" and "binary_outputs env spec font = Ok binaries"
      and files: "files = map (\<lambda>(path, content). (path, as_bytes content)) texts @ binaries"
    by (auto simp: generated_files_def and_then_eq_Ok)
  moreover have "map fst (map (\<lambda>(path, content). (path, as_bytes content)) texts) = map fst texts"
    by (simp add: comp_def case_prod_unfold)
  ultimately show ?thesis
    using text_outputs_paths binary_outputs_paths by (metis append_take_drop_id map_append)
qed

lemma and_then_st_pure: "and_then_st (r, s) f =
    (case r of Ok x \<Rightarrow> f x s | Err e \<Rightarrow> (Err e, s) | Panic \<Rightarrow> (Panic, s))"
  by (cases r) simp_all

lemma check_generate:
  "snd (generate env True disk) = disk \<and>
   (fst (generate env True disk) = Ok () \<longleftrightarrow>
     (\<exists>files. generated_files env disk = Ok files \<and> holds_files disk files))"
proof (cases "read_sources env disk")
  case (Ok sources)
  obtain spec source font where sources: "sources = (spec, source, font)" by (cases sources)
  show ?thesis
  proof (cases "text_outputs spec source")
    case texts: (Ok texts)
    obtain r d where sync: "sync_all (sync_generated_text env True) texts disk = (r, d)"
      by (cases "sync_all (sync_generated_text env True) texts disk")
    let ?texts = "map (\<lambda>(path, content). (path, as_bytes content)) texts"
    have d: "d = disk" and r: "r = Ok () \<longleftrightarrow> holds_files disk ?texts"
      using check_all [OF check_text_Ok sync] by simp_all
    have run: "generate env True disk = and_then_st (r, disk) (\<lambda>_ disk.
        and_then_st (binary_outputs env spec font, disk) (\<lambda>binaries disk.
        sync_all (sync_generated_bytes env True) binaries disk))"
      by (simp add: generate_def Ok sources texts sync d)
    have files: "generated_files env disk =
        and_then (binary_outputs env spec font) (\<lambda>binaries. Ok (?texts @ binaries))"
      by (simp add: generated_files_def Ok sources texts)
    show ?thesis
    proof (cases "holds_files disk ?texts")
      case True
      then have r: "r = Ok ()" using r by simp
      show ?thesis
      proof (cases "binary_outputs env spec font")
        case binaries: (Ok binaries)
        obtain r' d' where sync': "sync_all (sync_generated_bytes env True) binaries disk = (r', d')"
          by (cases "sync_all (sync_generated_bytes env True) binaries disk")
        have "d' = disk \<and> (r' = Ok () \<longleftrightarrow> holds_files disk (map (\<lambda>(path, content). (path, content)) binaries))"
          by (rule check_all [OF _ sync']) (rule check_bytes_Ok)
        then show ?thesis using True by (simp add: run r files binaries sync')
      qed (simp_all add: run r files)
    next
      case False
      then have "r \<noteq> Ok ()" using r by simp
      then have "generate env True disk = (case r of Err e \<Rightarrow> Err e | _ \<Rightarrow> Panic, disk)"
        by (cases r) (simp_all add: run)
      then show ?thesis
        using False \<open>r \<noteq> Ok ()\<close> by (cases r) (auto simp: files and_then_eq_Ok)
    qed
  qed (simp_all add: generate_def generated_files_def Ok sources)
qed (simp_all add: generate_def generated_files_def)

lemma write_generate:
  assumes "generate env False disk = (Ok (), disk')"
  shows "\<exists>files. generated_files env disk = Ok files \<and> disk' = disk ++ map_of files"
proof -
  obtain spec source font texts d binaries
    where sources: "read_sources env disk = Ok (spec, source, font)"
      and texts: "text_outputs spec source = Ok texts"
      and one: "sync_all (sync_generated_text env False) texts disk = (Ok (), d)"
      and binaries: "binary_outputs env spec font = Ok binaries"
      and two: "sync_all (sync_generated_bytes env False) binaries d = (Ok (), disk')"
    using assms by (auto simp: generate_def and_then_st_eq_Ok)
  let ?texts = "map (\<lambda>(path, content). (path, as_bytes content)) texts"
  have files: "generated_files env disk = Ok (?texts @ binaries)"
    using sources texts binaries by (simp add: generated_files_def)
  have paths: "map fst texts = take 4 output_paths" "map fst binaries = drop 4 output_paths"
    using text_outputs_paths [OF texts] binary_outputs_paths [OF binaries] by simp_all
  have "d = disk ++ map_of ?texts"
    using one paths output_paths_distinct
    by (intro write_all_files [of "sync_generated_text env False"])
      (auto simp: sync_generated_text_def dest: write_file_Ok)
  moreover have "disk' = d ++ map_of (map (\<lambda>(path, content). (path, content)) binaries)"
    using two paths output_paths_distinct
    by (intro write_all_files [of "sync_generated_bytes env False"])
      (auto simp: sync_generated_bytes_def dest: write_file_Ok)
  moreover have "map_of binaries ++ map_of ?texts = map_of ?texts ++ map_of binaries"
  proof (rule map_add_comm)
    have "set (drop 4 output_paths) \<inter> set (take 4 output_paths) = {}" by code_simp
    then show "dom (map_of binaries) \<inter> dom (map_of ?texts) = {}"
      unfolding dom_files keys_map paths .
  qed
  ultimately have "disk' = disk ++ map_of (?texts @ binaries)" by (simp add: map_add_assoc)
  with files show ?thesis by blast
qed

end
