(* ===== verification/Xtask_Constants.thy ===== *)
theory Xtask_Constants
  imports Xtask_Render "HOL-Library.Multiset"
begin

text \<open>
  The constants that an assembler and a Rust compiler read from the generated texts are those of the
  specification: the firmware and the host tools agree on every name and value.
\<close>

section \<open>Readers\<close>

text \<open>What an assembler reads from a line: the name before \<^verbatim>\<open> = $\<close> and the hexadecimal number.\<close>

definition asm_constant :: "string \<Rightarrow> (string \<times> nat) list" where
  "asm_constant line =
    (case split_once is_whitespace line of
       None \<Rightarrow> []
     | Some (n, rest) \<Rightarrow>
         (case strip_prefix ''= $'' rest of
            None \<Rightarrow> []
          | Some hex \<Rightarrow>
              (case from_str_radix 16 usize_limit hex of None \<Rightarrow> [] | Some v \<Rightarrow> [(n, v)])))"

definition asm_constants :: "string \<Rightarrow> (string \<times> nat) list" where
  "asm_constants contents = concat (map asm_constant (text_lines contents))"

text \<open>
  What a Rust compiler reads from a line \<^verbatim>\<open>pub const NAME: type = value;\<close>. An array gives a
  constant for each element, under the name that the assembler has for it.
\<close>

definition array_constants :: "string \<Rightarrow> nat list \<Rightarrow> (string \<times> nat) list" where
  "array_constants n vs = map (\<lambda>(i, v). (n @ ''_'' @ decimal_text i, v)) (enumerate 0 vs)"

definition rust_value :: "string \<Rightarrow> string \<Rightarrow> (string \<times> nat) list" where
  "rust_value n v =
    (case strip_prefix ''['' v of
       None \<Rightarrow> (case from_str_radix 10 usize_limit v of None \<Rightarrow> [] | Some k \<Rightarrow> [(n, k)])
     | Some elements \<Rightarrow>
         (case strip_suffix (CHR '']'') elements of
            None \<Rightarrow> []
          | Some elements \<Rightarrow>
              (case those (map (from_str_radix 10 256) (map trim (split_on (CHR '','') elements))) of
                 None \<Rightarrow> []
               | Some vs \<Rightarrow> array_constants n vs)))"

definition rust_constant :: "string \<Rightarrow> (string \<times> nat) list" where
  "rust_constant line =
    (case strip_prefix ''pub const '' line of
       None \<Rightarrow> []
     | Some item \<Rightarrow>
         (case split_once (\<lambda>c. c = CHR '':'') item of
            None \<Rightarrow> []
          | Some (n, typed) \<Rightarrow>
              (case split_once (\<lambda>c. c = CHR ''='') typed of
                 None \<Rightarrow> []
               | Some (_, v) \<Rightarrow>
                   (case strip_suffix (CHR '';'') v of
                      None \<Rightarrow> []
                    | Some v \<Rightarrow> rust_value n (trim v)))))"

definition rust_constants :: "string \<Rightarrow> (string \<times> nat) list" where
  "rust_constants contents = concat (map rust_constant (text_lines contents))"

section \<open>The constants of a specification\<close>

fun natural_value :: "toml_value \<Rightarrow> nat" where
  "natural_value (Integer_value v) = unat v"
| "natural_value Other_value = 0"

definition map_constants :: "('v \<Rightarrow> nat) \<Rightarrow> string \<Rightarrow> 'v btree_map \<Rightarrow> (string \<times> nat) list" where
  "map_constants value pre values =
    map (\<lambda>(n, v). (pre @ ''_'' @ screaming n, value v)) values"

definition field_constants :: "string \<Rightarrow> field list \<Rightarrow> (string \<times> nat) list" where
  "field_constants pre fs = map (\<lambda>f. (pre @ screaming (field_name f), field_offset f)) fs"

definition magic_constants :: "string \<Rightarrow> bytes \<Rightarrow> (string \<times> nat) list" where
  "magic_constants n bs = array_constants n (map unat bs)"

text \<open>The scalar maps, then the rest in the order of the Rust text.\<close>

definition scalar_constants :: "spec_file \<Rightarrow> (string \<times> nat) list" where
  "scalar_constants spec =
    map_constants natural_value ''MODEM'' (protocol_values spec) @
    map_constants natural_value ''MODEM'' (driver_values spec) @
    map_constants natural_value ''TERMINAL'' (terminal_values spec)"

definition rust_order_constants :: "spec_file \<Rightarrow> (string \<times> nat) list" where
  "rust_order_constants spec =
    [(''MODEM_SPEC_VERSION'', unat (spec_version (spec_of spec)))] @
    magic_constants ''MODEM_DIAGNOSTIC_MAGIC'' (magic (diagnostic spec)) @
    [(''MODEM_DIAGNOSTIC_VERSION'', unat (diagnostic_version (diagnostic spec)))] @
    [(''MODEM_DIAGNOSTIC_SIZE'', diagnostic_size (diagnostic spec))] @
    [(''MODEM_TRACE_EVENT_SIZE'', trace_event_size (diagnostic spec))] @
    [(''MODEM_TRACE_CAPACITY'', trace_capacity (diagnostic spec))] @
    [(''MODEM_TRACE_SIZE'', trace_size (diagnostic spec))] @
    field_constants ''MODEM_DIAG_'' (diagnostic_fields (diagnostic spec)) @
    magic_constants ''PPP_DIAGNOSTIC_MAGIC'' (ppp_magic (ppp_diagnostic spec)) @
    [(''PPP_DIAGNOSTIC_VERSION'', unat (ppp_version (ppp_diagnostic spec)))] @
    [(''PPP_DIAGNOSTIC_SIZE'', ppp_size (ppp_diagnostic spec))] @
    field_constants ''PPP_DIAG_'' (ppp_fields (ppp_diagnostic spec)) @
    field_constants ''MODEM_MAILBOX_OFFSET_'' (mailbox_fields (mailbox spec)) @
    magic_constants ''MODEM_MAILBOX_MAGIC'' (mailbox_magic (mailbox spec)) @
    [(''MODEM_MAILBOX_VERSION'', unat (mailbox_version (mailbox spec)))] @
    [(''MODEM_MAILBOX_SIZE'', mailbox_size (mailbox spec))] @
    [(''MODEM_MAILBOX_ARGUMENT_SIZE'', argument_size (mailbox spec))] @
    map_constants unat ''MODEM_STATE'' (states spec) @
    map_constants unat ''MODEM_FLAG'' (flags spec) @
    map_constants unat ''MODEM_DISCARD'' (discard_reasons spec) @
    map_constants unat ''MODEM_TRACE'' (trace_events spec) @
    map_constants unat ''MODEM_MAILBOX_COMMAND'' (mailbox_commands spec) @
    map_constants unat ''MODEM_MAILBOX_STATUS'' (mailbox_status spec)"

definition spec_constants :: "spec_file \<Rightarrow> (string \<times> nat) list" where
  "spec_constants spec = scalar_constants spec @ rust_order_constants spec"

section \<open>Texts made of lines\<close>

definition unlines :: "string list \<Rightarrow> string" where
  "unlines ls = concat (map (\<lambda>l. l @ [line_feed]) ls)"

definition plain_line :: "string \<Rightarrow> bool" where
  "plain_line l \<longleftrightarrow> line_feed \<notin> set l \<and> \<not> ends_with carriage_return l"

definition reads_as ::
  "(string \<Rightarrow> (string \<times> nat) list) \<Rightarrow> string \<Rightarrow> (string \<times> nat) list \<Rightarrow> bool" where
  "reads_as reader contents cs \<longleftrightarrow>
    (\<exists>ls. contents = unlines ls \<and> list_all plain_line ls \<and> concat (map reader ls) = cs)"

lemma reads_as_constants:
  assumes "reads_as reader contents cs"
  shows "concat (map reader (text_lines contents)) = cs"
proof -
  obtain ls where contents: "contents = unlines ls" and "list_all plain_line ls" and cs: "concat (map reader ls) = cs"
    using assms by (auto simp: reads_as_def)
  then have "text_lines contents = ls"
    unfolding contents unlines_def by (intro text_lines_join) (simp add: list_all_iff plain_line_def)
  with cs show ?thesis by simp
qed

lemma reads_as_writeln:
  assumes "reads_as reader out cs" and "plain_line l"
  shows "reads_as reader (writeln out l) (cs @ reader l)"
proof -
  obtain ls where ls: "out = unlines ls" "list_all plain_line ls" "concat (map reader ls) = cs"
    using assms(1) by (auto simp: reads_as_def)
  then have "writeln out l = unlines (ls @ [l])" by (simp add: writeln_def unlines_def)
  moreover have "list_all plain_line (ls @ [l])" using ls assms(2) by simp
  moreover have "concat (map reader (ls @ [l])) = cs @ reader l" using ls by simp
  ultimately show ?thesis unfolding reads_as_def by blast
qed

section \<open>Names\<close>

definition plain_name :: "string \<Rightarrow> bool" where
  "plain_name n \<longleftrightarrow> (\<forall>c \<in> set n. symbol_character c)"

text \<open>A bare key of TOML.\<close>

definition bare_key :: "string \<Rightarrow> bool" where
  "bare_key n \<longleftrightarrow> (\<forall>c \<in> set n. c = CHR ''-'' \<or> symbol_character c)"

lemma plain_name_append [simp]: "plain_name (m @ n) \<longleftrightarrow> plain_name m \<and> plain_name n"
  by (auto simp: plain_name_def)

lemma plain_name_Cons [simp]: "plain_name (c # n) \<longleftrightarrow> symbol_character c \<and> plain_name n"
  by (auto simp: plain_name_def)

lemma plain_name_Nil [simp]: "plain_name []"
  by (simp add: plain_name_def)

lemma symbol_character_upper: "symbol_character c \<Longrightarrow> symbol_character (ascii_upper c)"
proof -
  assume c: "symbol_character c"
  show ?thesis
  proof (cases "97 \<le> (of_char c :: nat) \<and> of_char c \<le> (122 :: nat)")
    case True
    then have "of_char c - 32 < (256 :: nat)" by linarith
    with True have "(of_char (ascii_upper c) :: nat) = of_char c - 32"
      by (simp add: ascii_upper_def Let_def of_char_of)
    with True show ?thesis by (auto simp: symbol_character_def is_ascii_alphanumeric_def Let_def)
  qed (use c in \<open>auto simp: ascii_upper_def Let_def\<close>)
qed

lemma ascii_upper_dash: "ascii_upper (CHR ''-'') = CHR ''-''"
  by code_simp

lemma symbol_underscore: "symbol_character (CHR ''_'')"
  by code_simp

lemma plain_name_screaming: "bare_key n \<Longrightarrow> plain_name (screaming n)"
  using symbol_character_upper symbol_underscore
  by (fastforce simp: plain_name_def bare_key_def screaming_def to_ascii_uppercase_def ascii_upper_dash)

lemma not_symbol:
  "\<not> symbol_character (CHR '':'')" "\<not> symbol_character (CHR ''='')" "\<not> symbol_character line_feed"
  "\<not> symbol_character carriage_return" "\<not> symbol_character (CHR '' '')"
  by (code_simp, code_simp, code_simp, code_simp, code_simp)

lemma symbol_not_whitespace: "symbol_character c \<Longrightarrow> \<not> is_whitespace c"
proof
  assume c: "symbol_character c" and w: "is_whitespace c"
  have "c \<noteq> CHR ''_''"
    using w by (auto simp: is_whitespace_def)
  with c w show False
    by (auto simp: symbol_character_def is_ascii_alphanumeric_def is_whitespace_def Let_def)
qed

lemma plain_name_not_in:
  "plain_name n \<Longrightarrow> \<not> symbol_character c \<Longrightarrow> c \<notin> set n"
  by (auto simp: plain_name_def)

lemma digit_text_plain: "digit_text radix s \<Longrightarrow> radix \<le> 16 \<Longrightarrow> plain_name s"
  by (auto simp: plain_name_def symbol_character_def dest: digit_text_char(1))

lemma plain_hex_text: "plain_name (hex_text w v)"
  by (rule digit_text_plain [OF hex_text_digits]) simp

lemma plain_decimal_text: "plain_name (decimal_text v)"
  unfolding decimal_text_def by (rule digit_text_plain [OF radix_text_digits]) simp_all

lemma plain_name_trim: "plain_name s \<Longrightarrow> trim s = s"
  using symbol_not_whitespace
  by (cases "s = []") (auto simp: trim_def plain_name_def trim_start_trimmed trim_end_trimmed)

lemma split_once_first:
  "(\<forall>d \<in> set s. \<not> p d) \<Longrightarrow> p c \<Longrightarrow> split_once p (s @ c # t) = Some (s, t)"
  by (simp add: split_once_def dropWhile_append2 takeWhile_append2)

lemma split_once_char:
  "c \<notin> set s \<Longrightarrow> split_once (\<lambda>d. d = c) (s @ c # t) = Some (s, t)"
  by (rule split_once_first) auto

section \<open>Lines read back\<close>

lemma asm_constant_line:
  assumes "plain_name n" and "v < usize_limit"
  shows "asm_constant (asm_line n w v) = [(n, v)]"
proof -
  have "split_once is_whitespace (n @ CHR '' '' # ''= $'' @ hex_text w v) = Some (n, ''= $'' @ hex_text w v)"
    using assms(1) symbol_not_whitespace
    by (intro split_once_first) (auto simp: plain_name_def is_whitespace_def)
  then show ?thesis
    using assms(2)
    by (simp add: asm_constant_def asm_line_def strip_prefix_def starts_with_def parse_hex_text)
qed

lemma asm_line_plain:
  assumes "plain_name n"
  shows "plain_line (asm_line n w v)"
proof -
  note hex = plain_hex_text [of w v]
  have "line_feed \<notin> set (asm_line n w v)"
    using plain_name_not_in [OF assms not_symbol(3)] plain_name_not_in [OF hex not_symbol(3)]
    by (simp add: asm_line_def line_feed_def)
  moreover have "last (asm_line n w v) = last (hex_text w v)"
    by (simp add: asm_line_def hex_text_nonempty)
  moreover have "carriage_return \<notin> set (hex_text w v)" by (rule plain_name_not_in [OF hex not_symbol(4)])
  then have "last (hex_text w v) \<noteq> carriage_return"
    using last_in_set [OF hex_text_nonempty [of w v]] by metis
  ultimately show ?thesis by (simp add: plain_line_def ends_with_def)
qed

definition plain_type :: "string \<Rightarrow> bool" where
  "plain_type ty \<longleftrightarrow> CHR ''='' \<notin> set ty \<and> line_feed \<notin> set ty"

lemma rust_constant_line:
  assumes "plain_name n" and "plain_type ty"
  shows "rust_constant (rust_line n ty v) = rust_value n (trim v)"
proof -
  have "split_once (\<lambda>c. c = CHR '':'') (n @ CHR '':'' # '' '' @ ty @ '' = '' @ v @ '';'') =
      Some (n, '' '' @ ty @ '' = '' @ v @ '';'')"
    by (rule split_once_char) (rule plain_name_not_in [OF assms(1) not_symbol(1)])
  moreover have "split_once (\<lambda>c. c = CHR ''='') (('' '' @ ty @ '' '') @ CHR ''='' # '' '' @ v @ '';'') =
      Some ('' '' @ ty @ '' '', '' '' @ v @ '';'')"
    using assms(2) by (intro split_once_char) (simp add: plain_type_def)
  ultimately show ?thesis
    by (simp add: rust_constant_def rust_line_def strip_prefix_def starts_with_def strip_suffix_def
        ends_with_def trim_space)
qed

lemma rust_line_plain:
  assumes "plain_name n" and "plain_type ty" and "line_feed \<notin> set v"
  shows "plain_line (rust_line n ty v)"
  using assms plain_name_not_in [OF assms(1) not_symbol(3)]
  by (simp add: plain_line_def rust_line_def plain_type_def ends_with_def line_feed_def
      carriage_return_def)

lemma decimal_text_nonempty: "decimal_text v \<noteq> []"
  by (simp add: decimal_text_def radix_text_nonempty)

lemma rust_value_decimal:
  assumes "v < usize_limit"
  shows "rust_value n (trim (decimal_text v)) = [(n, v)]"
proof -
  have "hd (decimal_text v) \<noteq> CHR ''[''"
  proof
    assume "hd (decimal_text v) = CHR ''[''"
    then have "symbol_character (CHR ''['')"
      using plain_decimal_text [of v] decimal_text_nonempty [of v] by (metis plain_name_def hd_in_set)
    moreover have "\<not> symbol_character (CHR ''['')" by code_simp
    ultimately show False by simp
  qed
  then have "strip_prefix ''['' (decimal_text v) = None"
    by (cases "decimal_text v") (simp_all add: strip_prefix_def starts_with_def)
  then show ?thesis
    using assms by (simp add: plain_name_trim plain_decimal_text rust_value_def parse_decimal_text)
qed

lemma those_map_Some: "those (map (\<lambda>x. Some (f x)) xs) = Some (map f xs)"
  by (induction xs) simp_all

lemma rust_value_octets:
  assumes "bs \<noteq> []"
  shows "rust_value n (trim (debug_octets bs)) = array_constants n (map unat bs)"
proof -
  let ?ds = "map (\<lambda>b. decimal_text (unat b)) bs"
  have bracket: "\<not> is_whitespace (CHR ''['')" "\<not> is_whitespace (CHR '']'')" by (code_simp, code_simp)
  have trimmed: "trim (debug_octets bs) = debug_octets bs"
    using bracket by (simp add: trim_def debug_octets_def trim_start_trimmed trim_end_trimmed)
  have "\<not> symbol_character (CHR '','')" by code_simp
  then have "\<forall>s \<in> set ?ds. CHR '','' \<notin> set s"
    using plain_name_not_in [OF plain_decimal_text] by simp
  then have "map trim (split_on (CHR '','') (join '', '' ?ds)) = map trim ?ds"
    using assms by (intro map_trim_split_on_join) simp_all
  then have "map (from_str_radix 10 256) (map trim (split_on (CHR '','') (join '', '' ?ds))) =
      map (\<lambda>b. Some (unat b)) bs"
    by (simp add: comp_def plain_name_trim plain_decimal_text parse_decimal_text)
  then show ?thesis
    unfolding trimmed
    by (simp add: rust_value_def debug_octets_def strip_prefix_def starts_with_def strip_suffix_def
        ends_with_def those_map_Some)
qed

section \<open>Loops\<close>

text \<open>
  The two languages share a contract: a line of a plain name and a number is one line of the text, and
  its reader gives the name and the number back. From it the loops write what their readers read.
\<close>

locale constant_format =
  fixes reader :: "string \<Rightarrow> (string \<times> nat) list"
    and format_line :: "string \<Rightarrow> nat \<Rightarrow> string"
  assumes line_read: "plain_name n \<Longrightarrow> v < usize_limit \<Longrightarrow> reader (format_line n v) = [(n, v)]"
    and line_plain: "plain_name n \<Longrightarrow> plain_line (format_line n v)"
begin

lemma write_line:
  "reads_as reader out cs \<Longrightarrow> plain_name n \<Longrightarrow> v < usize_limit \<Longrightarrow>
    reads_as reader (writeln out (format_line n v)) (cs @ [(n, v)])"
  using reads_as_writeln [OF _ line_plain, of reader out cs n v] line_read by simp

lemma write_loop:
  "reads_as reader out cs \<Longrightarrow> (\<And>x. x \<in> set xs \<Longrightarrow> plain_name (n x) \<and> v x < usize_limit) \<Longrightarrow>
    reads_as reader (foldl (\<lambda>out x. writeln out (format_line (n x) (v x))) out xs)
      (cs @ map (\<lambda>x. (n x, v x)) xs)"
proof (induction xs arbitrary: out cs)
  case (Cons x xs)
  then have "reads_as reader (writeln out (format_line (n x) (v x))) (cs @ [(n x, v x)])"
    by (intro write_line) simp_all
  from Cons.IH [OF this] Cons.prems(2) show ?case by simp
qed simp

end

interpretation asm_format: constant_format asm_constant "\<lambda>n v. asm_line n w v" for w
  by unfold_locales (simp_all add: asm_constant_line asm_line_plain)

lemma plain_types: "plain_type ''usize''" "plain_type ''u16''" "plain_type ''u8''" "plain_type ''[u8; 4]''"
  by (simp_all add: plain_type_def line_feed_def)

lemma rust_line_read:
  "plain_type ty \<Longrightarrow> plain_name n \<Longrightarrow> v < usize_limit \<Longrightarrow>
    rust_constant (rust_line n ty (decimal_text v)) = [(n, v)]"
  by (simp add: rust_constant_line rust_value_decimal)

lemma rust_decimal_plain:
  "plain_type ty \<Longrightarrow> plain_name n \<Longrightarrow> plain_line (rust_line n ty (decimal_text v))"
  using plain_name_not_in [OF plain_decimal_text not_symbol(3)] by (intro rust_line_plain)

interpretation rust_usize: constant_format rust_constant "\<lambda>n v. rust_line n ''usize'' (decimal_text v)"
  by unfold_locales (simp_all add: rust_line_read rust_decimal_plain plain_types)

interpretation rust_u16: constant_format rust_constant "\<lambda>n v. rust_line n ''u16'' (decimal_text v)"
  by unfold_locales (simp_all add: rust_line_read rust_decimal_plain plain_types)

interpretation rust_u8: constant_format rust_constant "\<lambda>n v. rust_line n ''u8'' (decimal_text v)"
  by unfold_locales (simp_all add: rust_line_read rust_decimal_plain plain_types)

text \<open>The values of the scalar maps are natural numbers.\<close>

definition natural_map :: "toml_value btree_map \<Rightarrow> bool" where
  "natural_map values \<longleftrightarrow>
    list_all (\<lambda>(n, value). bare_key n \<and>
      (case value of Integer_value v \<Rightarrow> 0 \<le> sint v | Other_value \<Rightarrow> False)) values"

definition bare_map :: "'v btree_map \<Rightarrow> bool" where
  "bare_map values \<longleftrightarrow> list_all (\<lambda>(n, v). bare_key n) values"

definition bare_fields :: "field list \<Rightarrow> bool" where
  "bare_fields fs \<longleftrightarrow> list_all (\<lambda>f. bare_key (field_name f) \<and> field_offset f < usize_limit) fs"

lemma nat_sint: "0 \<le> sint (v :: i64) \<Longrightarrow> nat (sint v) = unat v"
proof -
  assume "0 \<le> sint v"
  then have "\<not> bit (uint v) 63"
    by (simp add: sint_uint)
  then have "sint v = take_bit 63 (uint v)"
    by (simp add: sint_uint signed_take_bit_eq_if_positive)
  moreover have "take_bit 63 (uint v) = uint v"
  proof (rule bit_eqI)
    fix k
    show "bit (take_bit 63 (uint v)) k = bit (uint v) k"
      using \<open>\<not> bit (uint v) 63\<close>
      by (cases "k < 63"; cases "k = 63") (auto simp: bit_take_bit_iff bit_uint_iff)
  qed
  ultimately show ?thesis by (simp only: nat_uint_eq)
qed

lemma decimal_text_natural: "0 \<le> sint (v :: i64) \<Longrightarrow> decimal_text_i64 (sint v) = decimal_text (unat v)"
  by (simp add: decimal_text_i64_def nat_sint)

lemma unat_usize: "unat (v :: i64) < usize_limit"
  using unsigned_less [of v, where 'a = nat] by (simp add: usize_limit_def)

lemma scalar_maps_asm_foldl:
  "natural_map vs \<Longrightarrow> scalar_maps_asm out pre vs =
    Ok (foldl (\<lambda>out x. writeln out (asm_line (pre @ ''_'' @ screaming (fst x)) 4 (natural_value (snd x))))
      out vs)"
  by (induction out pre vs rule: scalar_maps_asm.induct)
    (auto simp: natural_map_def split: toml_value.splits)

lemma scalar_maps_rust_foldl:
  "natural_map vs \<Longrightarrow> scalar_maps_rust out pre vs =
    Ok (foldl (\<lambda>out x. writeln out
        (rust_line (pre @ ''_'' @ screaming (fst x)) ''usize'' (decimal_text (natural_value (snd x)))))
      out vs)"
  by (induction out pre vs rule: scalar_maps_rust.induct)
    (auto simp: natural_map_def decimal_text_natural split: toml_value.splits)

lemma enum_map_asm_foldl:
  "enum_map_asm out pre vs =
    foldl (\<lambda>out x. writeln out (asm_line (pre @ ''_'' @ screaming (fst x)) 2 (unat (snd x)))) out vs"
  by (induction out pre vs rule: enum_map_asm.induct) simp_all

lemma enum_map_rust_foldl:
  "enum_map_rust out pre vs =
    foldl (\<lambda>out x. writeln out
        (rust_line (pre @ ''_'' @ screaming (fst x)) ''u8'' (decimal_text (unat (snd x))))) out vs"
  by (induction out pre vs rule: enum_map_rust.induct) simp_all

lemma byte_array_from_foldl:
  "byte_array_from i out pre bs =
    foldl (\<lambda>out x. writeln out (asm_line (pre @ ''_'' @ decimal_text (fst x)) 2 (unat (snd x)))) out
      (enumerate i bs)"
  by (induction i out pre bs rule: byte_array_from.induct) simp_all

lemma map_constants_map:
  "map_constants value pre values = map (\<lambda>x. (pre @ ''_'' @ screaming (fst x), value (snd x))) values"
  by (simp add: map_constants_def case_prod_unfold)

lemma enumerate_map: "enumerate i (map f xs) = map (\<lambda>x. (fst x, f (snd x))) (enumerate i xs)"
  by (induction xs arbitrary: i) simp_all

lemma magic_constants_map:
  "magic_constants n bs = map (\<lambda>x. (n @ ''_'' @ decimal_text (fst x), unat (snd x))) (enumerate 0 bs)"
  by (simp add: magic_constants_def array_constants_def enumerate_map case_prod_unfold)

lemma plain_key:
  assumes "plain_name pre" and "bare_map values" and "x \<in> set values"
  shows "plain_name (pre @ ''_'' @ screaming (fst x))"
proof -
  have "bare_key (fst x)" using assms(2,3) by (auto simp: bare_map_def list_all_iff)
  then show ?thesis using assms(1) by (simp add: plain_name_screaming symbol_underscore)
qed

lemma natural_map_bare: "natural_map values \<Longrightarrow> bare_map values"
  by (auto simp: natural_map_def bare_map_def list_all_iff)

lemma natural_value_usize: "natural_value v < usize_limit"
  by (cases v) (simp_all add: unat_usize, simp add: usize_limit_def)

lemma unat8_usize: "unat (v :: u8) < usize_limit"
  by (rule less_trans [OF unat_less_256]) (simp add: usize_limit_def)

lemma unat16_usize: "unat (v :: u16) < usize_limit"
  by (rule less_trans [OF unat_less_65536]) (simp add: usize_limit_def)

section \<open>Files read back\<close>

named_theorems reads_steps \<open>what each part of a generated text adds to its constants\<close>

lemma reads_let:
  "reads_as reader out (cs @ ds) \<Longrightarrow>
    (\<And>out. reads_as reader out (cs @ ds) \<Longrightarrow> reads_as reader (rest out) ((cs @ ds) @ es)) \<Longrightarrow>
    reads_as reader (let out = out in rest out) (cs @ ds @ es)"
  by simp

lemma reads_let_last:
  "reads_as reader out (cs @ ds) \<Longrightarrow> reads_as reader (let out = out in out) (cs @ ds)"
  by simp

lemmas [reads_steps] = asm_format.write_line rust_usize.write_line rust_u16.write_line

lemma reads_magic_rust [reads_steps]:
  assumes "reads_as rust_constant out cs" and "plain_name n" and "length bs = 4"
  shows "reads_as rust_constant (writeln out (rust_line n ''[u8; 4]'' (debug_octets bs)))
    (cs @ magic_constants n bs)"
proof -
  have "line_feed \<notin> set (decimal_text k)" for k
    by (rule plain_name_not_in [OF plain_decimal_text not_symbol(3)])
  moreover have "line_feed \<notin> set (join '', '' ss)" if "\<forall>s \<in> set ss. line_feed \<notin> set s" for ss
    using that by (induction "'', ''" ss rule: join.induct) (auto simp: line_feed_def)
  ultimately have "line_feed \<notin> set (debug_octets bs)"
    by (auto simp: debug_octets_def line_feed_def)
  then have plain: "plain_line (rust_line n ''[u8; 4]'' (debug_octets bs))"
    using assms(2) by (intro rust_line_plain plain_types)
  have "bs \<noteq> []" using assms(3) by auto
  then have read: "rust_constant (rust_line n ''[u8; 4]'' (debug_octets bs)) = array_constants n (map unat bs)"
    unfolding rust_constant_line [OF assms(2) plain_types(4)] by (rule rust_value_octets)
  show ?thesis
    using reads_as_writeln [OF assms(1) plain] unfolding read magic_constants_def .
qed

lemma reads_fields_asm [reads_steps]:
  "reads_as asm_constant out cs \<Longrightarrow> plain_name pre \<Longrightarrow> bare_fields fs \<Longrightarrow>
    reads_as asm_constant (field_lines_asm out pre fs) (cs @ field_constants pre fs)"
  unfolding field_lines_asm_def field_constants_def
  by (intro asm_format.write_loop) (auto simp: bare_fields_def list_all_iff plain_name_screaming)

lemma reads_fields_rust [reads_steps]:
  "reads_as rust_constant out cs \<Longrightarrow> plain_name pre \<Longrightarrow> bare_fields fs \<Longrightarrow>
    reads_as rust_constant (field_lines_rust out pre fs) (cs @ field_constants pre fs)"
  unfolding field_lines_rust_def field_constants_def
  by (intro rust_usize.write_loop) (auto simp: bare_fields_def list_all_iff plain_name_screaming)

lemma reads_enum_asm [reads_steps]:
  "reads_as asm_constant out cs \<Longrightarrow> plain_name pre \<Longrightarrow> bare_map vs \<Longrightarrow>
    reads_as asm_constant (enum_map_asm out pre vs) (cs @ map_constants unat pre vs)"
  unfolding enum_map_asm_foldl map_constants_map
  by (intro asm_format.write_loop conjI plain_key unat8_usize)

lemma reads_enum_rust [reads_steps]:
  "reads_as rust_constant out cs \<Longrightarrow> plain_name pre \<Longrightarrow> bare_map vs \<Longrightarrow>
    reads_as rust_constant (enum_map_rust out pre vs) (cs @ map_constants unat pre vs)"
  unfolding enum_map_rust_foldl map_constants_map
  by (intro rust_u8.write_loop conjI plain_key unat8_usize)

lemma reads_magic_asm [reads_steps]:
  "reads_as asm_constant out cs \<Longrightarrow> plain_name pre \<Longrightarrow>
    reads_as asm_constant (byte_array_asm out pre bs) (cs @ magic_constants pre bs)"
  unfolding byte_array_asm_def byte_array_from_foldl magic_constants_map
  by (intro asm_format.write_loop conjI unat8_usize) (simp_all add: symbol_underscore plain_decimal_text)

lemma reads_scalars_asm:
  assumes "reads_as asm_constant out cs" and "plain_name pre" and "natural_map vs"
  obtains out' where "scalar_maps_asm out pre vs = Ok out'"
    and "reads_as asm_constant out' (cs @ map_constants natural_value pre vs)"
proof
  show "scalar_maps_asm out pre vs = Ok (foldl (\<lambda>out x. writeln out
      (asm_line (pre @ ''_'' @ screaming (fst x)) 4 (natural_value (snd x)))) out vs)"
    by (rule scalar_maps_asm_foldl [OF assms(3)])
  show "reads_as asm_constant (foldl (\<lambda>out x. writeln out
      (asm_line (pre @ ''_'' @ screaming (fst x)) 4 (natural_value (snd x)))) out vs)
      (cs @ map_constants natural_value pre vs)"
    unfolding map_constants_map using assms
    by (intro asm_format.write_loop conjI plain_key natural_value_usize natural_map_bare)
qed

lemma reads_scalars_rust:
  assumes "reads_as rust_constant out cs" and "plain_name pre" and "natural_map vs"
  obtains out' where "scalar_maps_rust out pre vs = Ok out'"
    and "reads_as rust_constant out' (cs @ map_constants natural_value pre vs)"
proof
  show "scalar_maps_rust out pre vs = Ok (foldl (\<lambda>out x. writeln out (rust_line
      (pre @ ''_'' @ screaming (fst x)) ''usize'' (decimal_text (natural_value (snd x))))) out vs)"
    by (rule scalar_maps_rust_foldl [OF assms(3)])
  show "reads_as rust_constant (foldl (\<lambda>out x. writeln out (rust_line
      (pre @ ''_'' @ screaming (fst x)) ''usize'' (decimal_text (natural_value (snd x))))) out vs)
      (cs @ map_constants natural_value pre vs)"
    unfolding map_constants_map using assms
    by (intro rust_usize.write_loop conjI plain_key natural_value_usize natural_map_bare)
qed

lemma reads_banner_asm: "reads_as asm_constant (generated_banner '';'') []"
  unfolding reads_as_def
  by (intro exI [of _ "['';'' @ '' Generated by `cargo xtask generate`; do not edit directly.'', []]"])
    code_simp

lemma reads_banner_rust: "reads_as rust_constant (generated_banner ''//'') []"
  unfolding reads_as_def
  by (intro exI [of _ "[''//'' @ '' Generated by `cargo xtask generate`; do not edit directly.'', []]"])
    code_simp

section \<open>Agreement\<close>

text \<open>
  Keys and names are bare keys of TOML, the values of the scalar maps natural numbers, the sizes values
  of \<^verbatim>\<open>usize\<close>, and the magics of four octets, which \<open>validate_spec\<close> checks.
\<close>

definition plain_spec :: "spec_file \<Rightarrow> bool" where
  "plain_spec spec \<longleftrightarrow>
    natural_map (protocol_values spec) \<and> natural_map (driver_values spec) \<and>
    natural_map (terminal_values spec) \<and>
    bare_map (states spec) \<and> bare_map (flags spec) \<and> bare_map (discard_reasons spec) \<and>
    bare_map (trace_events spec) \<and> bare_map (mailbox_commands spec) \<and> bare_map (mailbox_status spec) \<and>
    bare_fields (diagnostic_fields (diagnostic spec)) \<and>
    bare_fields (ppp_fields (ppp_diagnostic spec)) \<and> bare_fields (mailbox_fields (mailbox spec)) \<and>
    length (magic (diagnostic spec)) = 4 \<and> length (ppp_magic (ppp_diagnostic spec)) = 4 \<and>
    length (mailbox_magic (mailbox spec)) = 4 \<and>
    diagnostic_size (diagnostic spec) < usize_limit \<and> trace_event_size (diagnostic spec) < usize_limit \<and>
    trace_capacity (diagnostic spec) < usize_limit \<and> trace_size (diagnostic spec) < usize_limit \<and>
    ppp_size (ppp_diagnostic spec) < usize_limit \<and> mailbox_size (mailbox spec) < usize_limit \<and>
    argument_size (mailbox spec) < usize_limit"

text \<open>The order of the assembly, in which the magics follow the numbers.\<close>

definition asm_order_constants :: "spec_file \<Rightarrow> (string \<times> nat) list" where
  "asm_order_constants spec =
    [(''MODEM_SPEC_VERSION'', unat (spec_version (spec_of spec)))] @
    [(''MODEM_DIAGNOSTIC_VERSION'', unat (diagnostic_version (diagnostic spec)))] @
    [(''MODEM_DIAGNOSTIC_SIZE'', diagnostic_size (diagnostic spec))] @
    [(''MODEM_TRACE_EVENT_SIZE'', trace_event_size (diagnostic spec))] @
    [(''MODEM_TRACE_CAPACITY'', trace_capacity (diagnostic spec))] @
    [(''MODEM_TRACE_SIZE'', trace_size (diagnostic spec))] @
    field_constants ''MODEM_DIAG_'' (diagnostic_fields (diagnostic spec)) @
    [(''PPP_DIAGNOSTIC_VERSION'', unat (ppp_version (ppp_diagnostic spec)))] @
    [(''PPP_DIAGNOSTIC_SIZE'', ppp_size (ppp_diagnostic spec))] @
    field_constants ''PPP_DIAG_'' (ppp_fields (ppp_diagnostic spec)) @
    field_constants ''MODEM_MAILBOX_OFFSET_'' (mailbox_fields (mailbox spec)) @
    [(''MODEM_MAILBOX_VERSION'', unat (mailbox_version (mailbox spec)))] @
    [(''MODEM_MAILBOX_SIZE'', mailbox_size (mailbox spec))] @
    [(''MODEM_MAILBOX_ARGUMENT_SIZE'', argument_size (mailbox spec))] @
    magic_constants ''MODEM_DIAGNOSTIC_MAGIC'' (magic (diagnostic spec)) @
    magic_constants ''PPP_DIAGNOSTIC_MAGIC'' (ppp_magic (ppp_diagnostic spec)) @
    magic_constants ''MODEM_MAILBOX_MAGIC'' (mailbox_magic (mailbox spec)) @
    map_constants unat ''MODEM_STATE'' (states spec) @
    map_constants unat ''MODEM_FLAG'' (flags spec) @
    map_constants unat ''MODEM_DISCARD'' (discard_reasons spec) @
    map_constants unat ''MODEM_TRACE'' (trace_events spec) @
    map_constants unat ''MODEM_MAILBOX_COMMAND'' (mailbox_commands spec) @
    map_constants unat ''MODEM_MAILBOX_STATUS'' (mailbox_status spec)"

lemma asm_order_mset: "mset (asm_order_constants spec) = mset (rust_order_constants spec)"
  unfolding asm_order_constants_def rust_order_constants_def mset_append by (simp only: ac_simps)

lemma plain_prefixes:
  "plain_name ''MODEM''" "plain_name ''TERMINAL''" "plain_name ''MODEM_DIAG_''" "plain_name ''PPP_DIAG_''"
  "plain_name ''MODEM_MAILBOX_OFFSET_''"
  by (code_simp, code_simp, code_simp, code_simp, code_simp)

lemma reads_assembly_rest:
  assumes "plain_spec spec" and "reads_as asm_constant out cs"
  shows "reads_as asm_constant (render_assembly_rest spec out) (cs @ asm_order_constants spec)"
proof -
  note plain = assms(1) [unfolded plain_spec_def]
  show ?thesis
    unfolding render_assembly_rest_def asm_order_constants_def
    by (intro reads_let reads_let_last reads_steps;
        (rule assms(2) | assumption | simp (no_asm) only: plain unat16_usize |
          simp (no_asm) add: symbol_character_def is_ascii_alphanumeric_def))
qed

lemma reads_rust_rest:
  assumes "plain_spec spec" and "reads_as rust_constant out cs"
  shows "reads_as rust_constant (render_rust_rest spec out) (cs @ rust_order_constants spec)"
proof -
  note plain = assms(1) [unfolded plain_spec_def]
  show ?thesis
    unfolding render_rust_rest_def rust_order_constants_def
    by (intro reads_let reads_let_last reads_steps;
        (rule assms(2) | assumption | simp (no_asm) only: plain unat16_usize |
          simp (no_asm) add: symbol_character_def is_ascii_alphanumeric_def))
qed

lemma render_assembly_reads:
  assumes "plain_spec spec"
  obtains contents where "render_assembly spec = Ok contents"
    and "asm_constants contents = scalar_constants spec @ asm_order_constants spec"
proof -
  note plain = assms [unfolded plain_spec_def]
  obtain out1 where out1: "scalar_maps_asm (generated_banner '';'') ''MODEM'' (protocol_values spec) = Ok out1"
    and "reads_as asm_constant out1 ([] @ map_constants natural_value ''MODEM'' (protocol_values spec))"
    using reads_scalars_asm [OF reads_banner_asm plain_prefixes(1)] plain by blast
  moreover obtain out2 where out2: "scalar_maps_asm out1 ''MODEM'' (driver_values spec) = Ok out2"
    and "reads_as asm_constant out2 (([] @ map_constants natural_value ''MODEM'' (protocol_values spec)) @
      map_constants natural_value ''MODEM'' (driver_values spec))"
    using reads_scalars_asm [OF calculation(2) plain_prefixes(1)] plain by blast
  moreover obtain out3 where out3: "scalar_maps_asm out2 ''TERMINAL'' (terminal_values spec) = Ok out3"
    and "reads_as asm_constant out3 ((([] @ map_constants natural_value ''MODEM'' (protocol_values spec)) @
      map_constants natural_value ''MODEM'' (driver_values spec)) @
      map_constants natural_value ''TERMINAL'' (terminal_values spec))"
    using reads_scalars_asm [OF calculation(4) plain_prefixes(2)] plain by blast
  ultimately have "reads_as asm_constant out3 (scalar_constants spec)" by (simp add: scalar_constants_def)
  then have "reads_as asm_constant (render_assembly_rest spec out3)
      (scalar_constants spec @ asm_order_constants spec)"
    by (rule reads_assembly_rest [OF assms])
  then show thesis
    by (intro that [of "render_assembly_rest spec out3"])
      (simp_all add: render_assembly_def out1 out2 out3 asm_constants_def reads_as_constants)
qed

lemma render_rust_reads:
  assumes "plain_spec spec"
  obtains contents where "render_rust spec = Ok contents"
    and "rust_constants contents = scalar_constants spec @ rust_order_constants spec"
proof -
  note plain = assms [unfolded plain_spec_def]
  obtain out1 where out1: "scalar_maps_rust (generated_banner ''//'') ''MODEM'' (protocol_values spec) = Ok out1"
    and "reads_as rust_constant out1 ([] @ map_constants natural_value ''MODEM'' (protocol_values spec))"
    using reads_scalars_rust [OF reads_banner_rust plain_prefixes(1)] plain by blast
  moreover obtain out2 where out2: "scalar_maps_rust out1 ''MODEM'' (driver_values spec) = Ok out2"
    and "reads_as rust_constant out2 (([] @ map_constants natural_value ''MODEM'' (protocol_values spec)) @
      map_constants natural_value ''MODEM'' (driver_values spec))"
    using reads_scalars_rust [OF calculation(2) plain_prefixes(1)] plain by blast
  moreover obtain out3 where out3: "scalar_maps_rust out2 ''TERMINAL'' (terminal_values spec) = Ok out3"
    and "reads_as rust_constant out3 ((([] @ map_constants natural_value ''MODEM'' (protocol_values spec)) @
      map_constants natural_value ''MODEM'' (driver_values spec)) @
      map_constants natural_value ''TERMINAL'' (terminal_values spec))"
    using reads_scalars_rust [OF calculation(4) plain_prefixes(2)] plain by blast
  ultimately have "reads_as rust_constant out3 (scalar_constants spec)" by (simp add: scalar_constants_def)
  then have "reads_as rust_constant (render_rust_rest spec out3)
      (scalar_constants spec @ rust_order_constants spec)"
    by (rule reads_rust_rest [OF assms])
  then show thesis
    by (intro that [of "render_rust_rest spec out3"])
      (simp_all add: render_rust_def out1 out2 out3 rust_constants_def reads_as_constants)
qed

lemma render_agree:
  assumes "plain_spec spec"
  shows "\<exists>asm rust. render_assembly spec = Ok asm \<and> render_rust spec = Ok rust \<and>
    rust_constants rust = spec_constants spec \<and>
    mset (asm_constants asm) = mset (rust_constants rust)"
proof -
  obtain asm where "render_assembly spec = Ok asm"
    and "asm_constants asm = scalar_constants spec @ asm_order_constants spec"
    using assms by (rule render_assembly_reads)
  moreover obtain rust where "render_rust spec = Ok rust"
    and "rust_constants rust = scalar_constants spec @ rust_order_constants spec"
    using assms by (rule render_rust_reads)
  ultimately show ?thesis by (auto simp: spec_constants_def asm_order_mset)
qed

end
