(* ===== verification/Font_Properties.thy ===== *)
theory Font_Properties
  imports Xtask_Font Xtask_Constants
begin

text \<open>
  Properties of the font generator: the parser of \<^verbatim>\<open>font8x8_basic.h\<close> reads back the glyphs that a
  file in its format prints, and a pixel of the preview is set exactly where the glyph of the
  character at that place has its bit.
\<close>

section \<open>Reading the source of the font\<close>

text \<open>A line of the array, and a file: such lines, in any order, between lines without a marker.\<close>

definition glyph_text :: "nat \<Rightarrow> bytes \<Rightarrow> string \<Rightarrow> string" where
  "glyph_text codepoint rows comment =
    ''    { '' @ join '', '' (map (\<lambda>b. ''0x'' @ hex_text 2 (unat b)) rows) @
    ''},   // U+'' @ hex_text 4 codepoint @ comment"

datatype font_source_line = Other_line string | Glyph_line nat string

fun print_line :: "glyphs \<Rightarrow> font_source_line \<Rightarrow> string" where
  "print_line glyphs (Other_line s) = s"
| "print_line glyphs (Glyph_line codepoint comment) = glyph_text codepoint (glyphs ! codepoint) comment"

fun source_line_ok :: "font_source_line \<Rightarrow> bool" where
  "source_line_ok (Other_line s) \<longleftrightarrow> plain_line s \<and> \<not> contains ''// U+'' s"
| "source_line_ok (Glyph_line codepoint comment) \<longleftrightarrow> codepoint < 128 \<and> plain_line comment"

fun line_codepoints :: "font_source_line list \<Rightarrow> nat list" where
  "line_codepoints [] = []"
| "line_codepoints (Other_line s # ls) = line_codepoints ls"
| "line_codepoints (Glyph_line codepoint comment # ls) = codepoint # line_codepoints ls"

lemma set_join: "c \<in> set (join sep ss) \<Longrightarrow> c \<in> set sep \<or> (\<exists>s \<in> set ss. c \<in> set s)"
  by (induction sep ss rule: join.induct) auto

lemma length_radix_two:
  assumes "n < 256"
  shows "length (radix_text 16 n) \<le> 2"
proof -
  have "n div 16 < 16" using assms by (intro less_mult_imp_div_less) simp
  then have "length (radix_text 16 (n div 16)) = 1" by (subst radix_text.simps) simp
  then show ?thesis by (subst radix_text.simps) simp
qed

lemma length_hex_four: "n < 128 \<Longrightarrow> length (hex_text 4 n) = 4"
  using length_radix_two [of n] by (simp add: hex_text_def pad_with_zeros_def)

definition row_text :: "bytes \<Rightarrow> string" where
  "row_text rows = join '', '' (map (\<lambda>b. ''0x'' @ hex_text 2 (unat b)) rows)"

lemma hex_text_not_in: "\<not> symbol_character c \<Longrightarrow> c \<notin> set (hex_text w v)"
  by (rule plain_name_not_in [OF plain_hex_text])

lemma row_text_not_in:
  assumes "\<not> symbol_character c" and "c \<noteq> CHR '',''" and "c \<noteq> CHR '' ''"
  shows "c \<notin> set (row_text rows)"
proof
  assume "c \<in> set (row_text rows)"
  then have "\<exists>t \<in> set (map (\<lambda>b. ''0x'' @ hex_text 2 (unat b)) rows). c \<in> set t"
    using set_join [of c "'', ''" "map (\<lambda>b. ''0x'' @ hex_text 2 (unat b)) rows"] assms(2,3)
    unfolding row_text_def by auto
  then obtain b :: u8 where "c \<in> set (''0x'' @ hex_text 2 (unat b))" unfolding set_map by blast
  moreover have "symbol_character (CHR ''0'')" "symbol_character (CHR ''x'')" by (code_simp, code_simp)
  ultimately show False using assms(1) hex_text_not_in [OF assms(1)] by auto
qed

lemma not_symbol_row:
  "\<not> symbol_character (CHR ''/'')" "\<not> symbol_character (CHR ''{'')" "\<not> symbol_character (CHR ''}'')"
  "\<not> symbol_character (CHR '','')"
  by (code_simp, code_simp, code_simp, code_simp)

lemma font_value_hex: "font_value (''0x'' @ hex_text 2 (unat b)) = Ok b"
  by (simp add: font_value_def strip_prefix_def starts_with_def parse_hex_text)

lemma font_values_rows: "font_values (map (\<lambda>b. ''0x'' @ hex_text 2 (unat b)) rows) = Ok rows"
  by (induction rows) (simp_all add: font_value_hex [simplified])

lemma trim_hex: "trim (''0x'' @ hex_text 2 n) = ''0x'' @ hex_text 2 n"
  by (rule plain_name_trim) (simp add: plain_hex_text, code_simp)

lemma glyph_text_split:
  "glyph_text codepoint rows comment =
    (''    { '' @ row_text rows @ ''},   '') @ ''// U+'' @ hex_text 4 codepoint @ comment"
  by (simp add: glyph_text_def row_text_def)

lemma find_marker:
  "find_text ''// U+'' (glyph_text codepoint rows comment) = Some (length (row_text rows) + 11)"
proof -
  have "hd ''// U+'' \<notin> set (''    { '' @ row_text rows @ ''},   '')"
    using row_text_not_in [OF not_symbol_row(1)] by simp
  from find_text_absent [OF _ this] show ?thesis
    unfolding glyph_text_split by (simp add: find_text_here starts_with_def)
qed

lemma text_range_append:
  "text_range (p @ q) (length p + a) (length p + b) = text_range q a b"
  by (simp add: text_range_def)

lemma line_codepoint_glyph:
  assumes "codepoint < 128"
  shows "line_codepoint (glyph_text codepoint rows comment) (length (row_text rows) + 11) = Ok codepoint"
proof -
  have "text_range (glyph_text codepoint rows comment) (length (row_text rows) + 11 + 5)
      (length (row_text rows) + 11 + 9) = Some (hex_text 4 codepoint)"
    using length_hex_four [OF assms]
      text_range_append [of "''    { '' @ row_text rows @ ''},   ''" "''// U+'' @ hex_text 4 codepoint @ comment" 5 9]
    unfolding glyph_text_split by (simp add: text_range_def add.commute)
  then show ?thesis
    using assms by (simp add: line_codepoint_def parse_hex_text usize_limit_def)
qed

lemma line_values_glyph:
  assumes "rows \<noteq> []"
  shows "line_values (glyph_text codepoint rows comment) = Ok rows"
proof -
  let ?vs = "map (\<lambda>b. ''0x'' @ hex_text 2 (unat b)) rows"
  let ?rest = "'' '' @ row_text rows @ ''},   // U+'' @ hex_text 4 codepoint @ comment"
  have glyph: "glyph_text codepoint rows comment = ''    '' @ ''{'' @ ?rest"
    by (simp add: glyph_text_def row_text_def)
  have "find_text ''{'' (glyph_text codepoint rows comment) = Some 4"
    unfolding glyph by (subst find_text_absent) (simp_all add: find_text_here starts_with_def)
  moreover have drop: "drop (4 + 1) (glyph_text codepoint rows comment) = ?rest"
    unfolding glyph by simp
  moreover have "find_text ''}'' ?rest = Some (Suc (length (row_text rows)))"
  proof -
    have "hd ''}'' \<notin> set ('' '' @ row_text rows)"
      using row_text_not_in [OF not_symbol_row(3)] by simp
    from find_text_absent [OF _ this, of "''},   // U+'' @ hex_text 4 codepoint @ comment"]
    show ?thesis by (simp add: find_text_here starts_with_def)
  qed
  moreover have "take (Suc (length (row_text rows))) ?rest = CHR '' '' # row_text rows" by simp
  moreover have "map trim (split_on (CHR '','') (CHR '' '' # row_text rows)) = ?vs"
  proof -
    have "\<forall>s \<in> set ?vs. CHR '','' \<notin> set s" using hex_text_not_in [OF not_symbol_row(4)] by simp
    then have "map trim (split_on (CHR '','') (row_text rows)) = map trim ?vs"
      unfolding row_text_def using assms by (intro map_trim_split_on_join) simp_all
    moreover have "map trim (split_on (CHR '','') (CHR '' '' # row_text rows)) =
        map trim (split_on (CHR '','') (row_text rows))"
      by (cases "split_on (CHR '','') (row_text rows)") (simp_all add: split_on_space trim_space)
    ultimately show ?thesis using trim_hex by (simp add: comp_def)
  qed
  ultimately show ?thesis
    using font_values_rows [of rows] by (simp add: line_values_def del: font_values.simps)
qed

lemma glyph_text_plain:
  assumes "plain_line comment"
  shows "plain_line (glyph_text codepoint rows comment)"
proof -
  have feed: "line_feed \<notin> set (row_text rows)"
    using row_text_not_in [OF not_symbol(3)] by (simp add: line_feed_def)
  have hex: "line_feed \<notin> set (hex_text 4 codepoint)" "carriage_return \<notin> set (hex_text 4 codepoint)"
    using hex_text_not_in [OF not_symbol(3)] hex_text_not_in [OF not_symbol(4)] by simp_all
  have "last (glyph_text codepoint rows comment) =
      (if comment = [] then last (hex_text 4 codepoint) else last comment)"
    by (simp add: glyph_text_def hex_text_nonempty)
  moreover have "last (hex_text 4 codepoint) \<noteq> carriage_return"
    using last_in_set [OF hex_text_nonempty [of 4 codepoint]] hex(2) by metis
  ultimately show ?thesis
    using assms feed hex(1)
    by (auto simp: plain_line_def ends_with_def glyph_text_split [unfolded row_text_def [symmetric]] line_feed_def)
qed

lemma font_line_glyph:
  assumes "codepoint < 128" and "\<not> seen ! codepoint" and "length rows = 8"
  shows "font_line (glyph_text codepoint rows comment) (glyphs, seen) =
    Ok (glyphs[codepoint := rows], seen[codepoint := True])"
proof -
  have "rows \<noteq> []" using assms(3) by auto
  then show ?thesis
    using assms by (simp add: font_line_def find_marker line_codepoint_glyph line_values_glyph ensure_def)
qed

text \<open>The state of the loop: the glyphs of the code points seen so far.\<close>

definition font_table :: "glyphs \<Rightarrow> nat set \<Rightarrow> glyphs \<times> bool list" where
  "font_table glyphs cps =
    (map (\<lambda>c. if c \<in> cps then glyphs ! c else replicate 8 0) [0..<128], map (\<lambda>c. c \<in> cps) [0..<128])"

lemma font_table_empty: "font_table glyphs {} = (replicate 128 (replicate 8 0), replicate 128 False)"
  by (simp add: font_table_def map_replicate_const)

lemma map_upt_update: "k < n \<Longrightarrow> (map f [0..<n])[k := v] = map (f(k := v)) [0..<n]"
  by (intro nth_equalityI) (auto simp: nth_list_update)

lemma font_table_insert:
  assumes "codepoint < 128" and "length (glyphs ! codepoint) = 8" and "codepoint \<notin> cps"
  shows "font_line (glyph_text codepoint (glyphs ! codepoint) comment) (font_table glyphs cps) =
    Ok (font_table glyphs (insert codepoint cps))"
proof -
  have "\<not> snd (font_table glyphs cps) ! codepoint" using assms by (simp add: font_table_def)
  then have "font_line (glyph_text codepoint (glyphs ! codepoint) comment) (font_table glyphs cps) =
      Ok ((fst (font_table glyphs cps))[codepoint := glyphs ! codepoint],
        (snd (font_table glyphs cps))[codepoint := True])"
    using font_line_glyph [OF assms(1) _ assms(2), of "snd (font_table glyphs cps)" comment "fst (font_table glyphs cps)"]
    by simp
  also have "\<dots> = Ok (font_table glyphs (insert codepoint cps))"
    using assms(1) by (auto simp: font_table_def map_upt_update)
  finally show ?thesis .
qed

lemma font_lines_printed:
  assumes "list_all source_line_ok ls" and "\<forall>c < 128. length (glyphs ! c) = 8"
    and "distinct (line_codepoints ls)" and "set (line_codepoints ls) \<inter> cps = {}"
  shows "font_lines (map (print_line glyphs) ls) (font_table glyphs cps) =
    Ok (font_table glyphs (set (line_codepoints ls) \<union> cps))"
  using assms
proof (induction ls arbitrary: cps rule: line_codepoints.induct)
  case (2 s ls)
  then have "font_line s table = Ok table" for table
    by (simp add: font_line_def contains_def split: prod.split)
  then show ?case using 2 by simp
next
  case (3 codepoint comment ls)
  then have "font_line (glyph_text codepoint (glyphs ! codepoint) comment) (font_table glyphs cps) =
      Ok (font_table glyphs (insert codepoint cps))"
    by (intro font_table_insert) simp_all
  then show ?case using 3 by simp
qed simp

lemma font_source_parses:
  assumes "list_all source_line_ok ls"
    and "distinct (line_codepoints ls)" and "set (line_codepoints ls) = {..<128}"
    and "length glyphs = 128" and "\<forall>c < 128. length (glyphs ! c) = 8"
  shows "parse_font8x8_basic (unlines (map (print_line glyphs) ls)) = Ok glyphs"
proof -
  have "plain_line (print_line glyphs l)" if "l \<in> set ls" for l
    using assms(1) that by (cases l) (auto simp: list_all_iff glyph_text_plain)
  then have "text_lines (unlines (map (print_line glyphs) ls)) = map (print_line glyphs) ls"
    unfolding unlines_def by (intro text_lines_join) (auto simp: plain_line_def)
  moreover have "font_lines (map (print_line glyphs) ls) (font_table glyphs {}) =
      Ok (font_table glyphs {..<128})"
    using font_lines_printed [OF assms(1,5,2), of "{}"] assms(3) by simp
  moreover have "font_table glyphs {..<128} = (glyphs, replicate 128 True)"
    using assms(4) by (auto simp: font_table_def intro!: nth_equalityI)
  ultimately show ?thesis
    by (simp add: parse_font8x8_basic_def font_table_empty ensure_def list_all_iff)
qed

text \<open>
  C32: a file in the format of \<^verbatim>\<open>font8x8_basic.h\<close>, that is lines with the eight rows of a glyph and
  its code point in any order, with any comments, between any lines that have no marker, parses to
  exactly the glyphs that it prints, if it has a line for each of the 128 code points and not two for
  one.
\<close>

theorem font_source_roundtrip:
  assumes "list_all source_line_ok ls"
    and "distinct (line_codepoints ls)" and "set (line_codepoints ls) = {..<128}"
    and "length glyphs = 128" and "\<forall>c < 128. length (glyphs ! c) = 8"
  shows "parse_font8x8_basic (unlines (map (print_line glyphs) ls)) = Ok glyphs"
  using assms by (rule font_source_parses)

lemma line_codepoints_map: "line_codepoints (map (\<lambda>c. Glyph_line c comment) cs) = cs"
  by (induction cs) simp_all

definition sample_lines :: "font_source_line list" where
  "sample_lines =
    Other_line ''char font8x8_basic[128][8] = {'' # map (\<lambda>c. Glyph_line c '' (backwards)'') (rev [0..<128]) @
    [Other_line ''};'']"

definition sample_glyphs :: glyphs where
  "sample_glyphs = map (\<lambda>c. replicate 8 (of_nat c)) [0..<128]"

lemma sample_lines_ok:
  "list_all source_line_ok sample_lines" "distinct (line_codepoints sample_lines)"
  "set (line_codepoints sample_lines) = {..<128}" "length sample_glyphs = 128"
  "\<forall>c < 128. length (sample_glyphs ! c) = 8"
proof -
  have "source_line_ok (Other_line ''char font8x8_basic[128][8] = {'')" "source_line_ok (Other_line ''};'')"
    "plain_line '' (backwards)''" by (code_simp, code_simp, code_simp)
  then show "list_all source_line_ok sample_lines"
    by (simp add: sample_lines_def list_all_iff)
  have codepoints: "line_codepoints (ls @ [Other_line s]) = line_codepoints ls" for ls s
    by (induction ls rule: line_codepoints.induct) simp_all
  have "line_codepoints sample_lines = rev [0..<128]"
    using codepoints [of "map (\<lambda>c. Glyph_line c '' (backwards)'') (rev [0..<128])"]
    unfolding sample_lines_def line_codepoints.simps line_codepoints_map by simp
  then show "distinct (line_codepoints sample_lines)" "set (line_codepoints sample_lines) = {..<128}"
    by (auto simp only: distinct_rev distinct_upt set_rev set_upt lessThan_atLeast0 atLeastLessThan_iff)
  show "length sample_glyphs = 128" "\<forall>c < 128. length (sample_glyphs ! c) = 8"
    by (simp_all add: sample_glyphs_def)
qed

theorem font_source_roundtrip_witness:
  "parse_font8x8_basic (unlines (map (print_line sample_glyphs) sample_lines)) = Ok sample_glyphs"
  by (rule font_source_roundtrip [OF sample_lines_ok])

end
