(* ===== verification/Font_Preview.thy ===== *)
theory Font_Preview
  imports Xtask_Font
begin

text \<open>
  What the tiles and the preview show: a pixel of the picture has the foreground colour exactly where
  the glyph of the character at that place has its bit. A picture is described by the colour of each
  pixel, and every loop of the generator by what it does to this description.
\<close>

section \<open>Tiles\<close>

lemma length_write_tile [simp]: "length (write_tile glyphs out c) = length out"
proof -
  have "length (foldl (\<lambda>out row. (out[f row := g row])[h row := 0]) out rows) = length out"
    for f h g and out :: bytes and rows :: "nat list"
    by (induction rows arbitrary: out) simp_all
  then show ?thesis by (simp add: write_tile_def Let_def)
qed

definition tile_octet :: "glyphs \<Rightarrow> nat \<Rightarrow> u8" where
  "tile_octet glyphs k = (if even k then reverse_bits (glyphs ! (k div 16) ! (k mod 16 div 2)) else 0)"

lemma nth_update: "k < length xs \<Longrightarrow> xs[i := v] ! k = (if i = k then v else xs ! k)"
  by (cases "i < length xs") (simp_all add: nth_list_update)

lemma write_rows_nth:
  assumes "k < length out" and "n \<le> 8"
  shows "foldl (\<lambda>out row. (out[c * 16 + row * 2 := reverse_bits (glyphs ! c ! row)])[c * 16 + row * 2 + 1 := 0])
      out [0..<n] ! k =
    (if c * 16 \<le> k \<and> k < c * 16 + n * 2 then tile_octet glyphs k else out ! k)"
  using assms(2)
proof (induction n)
  case (Suc n)
  let ?f = "\<lambda>out row. (out[c * 16 + row * 2 := reverse_bits (glyphs ! c ! row)])[c * 16 + row * 2 + 1 := 0]"
  have len: "length (foldl ?f out rows) = length out" for out :: bytes and rows
    by (induction rows arbitrary: out) simp_all
  have "(c * 16 + n * 2) div 16 = c" "(c * 16 + n * 2) mod 16 div 2 = n" using Suc.prems by simp_all
  then have "tile_octet glyphs (c * 16 + n * 2) = reverse_bits (glyphs ! c ! n)"
    "tile_octet glyphs (c * 16 + n * 2 + 1) = 0" by (simp_all add: tile_octet_def)
  then show ?case
    using Suc assms(1) by (auto simp: nth_update len [simplified] less_Suc_eq)
qed auto

lemma write_tile_nth:
  assumes "k < length out"
  shows "write_tile glyphs out c ! k = (if k div 16 = c then tile_octet glyphs k else out ! k)"
proof -
  have "c * 16 \<le> k \<and> k < c * 16 + 8 * 2 \<longleftrightarrow> k div 16 = c" by auto
  then show ?thesis
    using write_rows_nth [OF assms, of 8 c glyphs] by (simp add: write_tile_def Let_def)
qed

lemma length_sfc_font [simp]: "length (generate_sfc_font glyphs) = 4096"
proof -
  have "length (foldl (write_tile glyphs) out cs) = length out" for out cs
    by (induction cs arbitrary: out) simp_all
  then show ?thesis by (simp add: generate_sfc_font_def)
qed

lemma sfc_font_nth:
  assumes "k < 4096"
  shows "generate_sfc_font glyphs ! k =
    (if 0x20 \<le> k div 16 \<and> k div 16 < 0x7f then tile_octet glyphs k else 0)"
proof -
  have len: "length (foldl (write_tile glyphs) out cs) = length out" for out cs
    by (induction cs arbitrary: out) simp_all
  have "foldl (write_tile glyphs) (replicate 4096 0) [a..<a + n] ! k =
      (if a \<le> k div 16 \<and> k div 16 < a + n then tile_octet glyphs k else 0)" for a n
    using assms by (induction n) (auto simp: write_tile_nth len)
  from this [of 32 95] show ?thesis by (simp add: generate_sfc_font_def)
qed

lemma bit_reverse_bits: "i < 8 \<Longrightarrow> bit (reverse_bits w) (7 - i) = bit w i"
  using nth_upt [of 0 "7 - i" 8] by (auto simp: reverse_bits_def bit_horner_sum_bit_iff)

text \<open>The bit of a tile that stands for a pixel of a character, with the leftmost pixel first.\<close>

lemma sfc_font_bit:
  assumes "c < 256" and "r < 8" and "i < 8"
  shows "bit (generate_sfc_font glyphs ! (c * 16 + r * 2)) (7 - i) \<longleftrightarrow>
    0x20 \<le> c \<and> c < 0x7f \<and> bit (glyphs ! c ! r) i"
proof -
  have "c * 16 + r * 2 < 4096" "(c * 16 + r * 2) div 16 = c" "(c * 16 + r * 2) mod 16 div 2 = r"
    using assms by simp_all
  then show ?thesis
    using assms(3) by (auto simp: sfc_font_nth tile_octet_def bit_reverse_bits)
qed

section \<open>Pictures\<close>

text \<open>The octets of a picture of \<open>n\<close> pixels whose colours are \<open>f\<close>.\<close>

definition picture :: "nat \<Rightarrow> (nat \<Rightarrow> bytes) \<Rightarrow> bytes" where
  "picture n f = concat (map f [0..<n])"

definition colours :: "(nat \<Rightarrow> bytes) \<Rightarrow> bool" where
  "colours f \<longleftrightarrow> (\<forall>j. length (f j) = 3)"

lemma length_picture: "colours f \<Longrightarrow> length (picture n f) = 3 * n"
  by (induction n) (simp_all add: picture_def colours_def)

lemma picture_split:
  assumes "k < n"
  shows "picture n f = picture k f @ f k @ concat (map f [Suc k..<n])"
proof -
  have "[0..<n] = [0..<k] @ k # [Suc k..<n]"
    using assms upt_add_eq_append [of 0 k "n - k"] by (simp add: upt_conv_Cons)
  then show ?thesis by (simp add: picture_def)
qed

lemma picture_pixel:
  assumes "colours f" and "k < n"
  shows "take 3 (drop (k * 3) (picture n f)) = f k"
  using assms(1) length_picture [OF assms(1), of k]
  unfolding picture_split [OF assms(2)] by (simp add: colours_def mult.commute)

lemma splice_picture:
  assumes "colours f" and "k < n" and "length colour = 3"
  shows "splice (picture n f) (k * 3) colour = picture n (f(k := colour))"
proof -
  have "picture k (f(k := colour)) = picture k f"
    unfolding picture_def by (intro arg_cong [where f = concat] map_cong) auto
  moreover have "concat (map (f(k := colour)) [Suc k..<n]) = concat (map f [Suc k..<n])"
    by (intro arg_cong [where f = concat] map_cong) auto
  ultimately have "picture n (f(k := colour)) = picture k f @ colour @ concat (map f [Suc k..<n])"
    unfolding picture_split [OF assms(2)] by simp
  moreover have "splice (picture n f) (k * 3) colour = picture k f @ colour @ concat (map f [Suc k..<n])"
    using length_picture [OF assms(1), of k] assms(1,3)
    unfolding picture_split [OF assms(2), of f] splice_def colours_def by (simp add: mult.commute)
  ultimately show ?thesis by simp
qed

lemma colours_update [simp]: "colours f \<Longrightarrow> length colour = 3 \<Longrightarrow> colours (f(k := colour))"
  by (simp add: colours_def)

lemma colours_if [simp]: "colours f \<Longrightarrow> length colour = 3 \<Longrightarrow> colours (\<lambda>j. if P j then colour else f j)"
  by (simp add: colours_def)

lemma picture_cong: "(\<And>j. j < n \<Longrightarrow> f j = g j) \<Longrightarrow> picture n f = picture n g"
  unfolding picture_def by (intro arg_cong [where f = concat] map_cong) auto

section \<open>Painting\<close>

lemma mask_bit: "i < 8 \<Longrightarrow> (plane :: u8) AND drop_bit i 0x80 = 0 \<longleftrightarrow> \<not> bit plane (7 - i)"
proof -
  assume "i < 8"
  then have "i \<in> {0, 1, 2, 3, 4, 5, 6, 7}" by auto
  then have "drop_bit i (0x80 :: u8) = 2 ^ (7 - i)"
    unfolding insert_iff empty_iff by (elim disjE) simp_all
  then show ?thesis by (simp add: and_exp_eq_0_iff_not_bit)
qed

lemma paint_row_picture:
  assumes "colours f" and "length fg = 3" and "q * 8 + 8 \<le> n"
  shows "paint_row fg plane (q * 8) (picture n f) =
    picture n (\<lambda>j. if j div 8 = q \<and> bit plane (7 - j mod 8) then fg else f j)"
proof -
  have "foldl (\<lambda>pixels glyph_x. if plane AND drop_bit glyph_x 0x80 = 0 then pixels
          else splice pixels ((q * 8 + glyph_x) * 3) fg) (picture n f) [0..<m] =
      picture n (\<lambda>j. if q * 8 \<le> j \<and> j < q * 8 + m \<and> bit plane (7 - j mod 8) then fg else f j)"
    if "m \<le> 8" for m
    using that
  proof (induction m)
    case (Suc m)
    let ?g = "\<lambda>j. if q * 8 \<le> j \<and> j < q * 8 + m \<and> bit plane (7 - j mod 8) then fg else f j"
    have "(q * 8 + m) mod 8 = m" using Suc.prems by simp
    then have "(\<lambda>j. if q * 8 \<le> j \<and> j < q * 8 + Suc m \<and> bit plane (7 - j mod 8) then fg else f j) =
        (if bit plane (7 - m) then ?g(q * 8 + m := fg) else ?g)"
      by (auto simp: less_Suc_eq fun_eq_iff)
    then show ?case
      using Suc assms splice_picture [of ?g "q * 8 + m" n fg] by (simp add: mask_bit)
  qed (auto intro!: picture_cong)
  from this [of 8] have "paint_row fg plane (q * 8) (picture n f) =
      picture n (\<lambda>j. if q * 8 \<le> j \<and> j < q * 8 + 8 \<and> bit plane (7 - j mod 8) then fg else f j)"
    by (simp add: paint_row_def)
  moreover have "q * 8 \<le> j \<and> j < q * 8 + 8 \<longleftrightarrow> j div 8 = q" for j by auto
  then have "(\<lambda>j. if q * 8 \<le> j \<and> j < q * 8 + 8 \<and> bit plane (7 - j mod 8) then fg else f j) =
      (\<lambda>j. if j div 8 = q \<and> bit plane (7 - j mod 8) then fg else f j)"
    by (auto simp: fun_eq_iff)
  ultimately show ?thesis by (simp only:)
qed

text \<open>The line of pixels, the line of text and the column of a pixel, and its bit in a tile.\<close>

abbreviation pixel_line :: "nat \<Rightarrow> nat" where "pixel_line j \<equiv> j div 256"
abbreviation text_column :: "nat \<Rightarrow> nat" where "text_column j \<equiv> j mod 256 div 8"
abbreviation text_line :: "nat \<Rightarrow> nat" where "text_line j \<equiv> pixel_line j div 8"

definition lit :: "bytes \<Rightarrow> char \<Rightarrow> nat \<Rightarrow> bool" where
  "lit font c j \<longleftrightarrow> bit (font ! (of_char c * 16 + pixel_line j mod 8 * 2)) (7 - j mod 8)"

lemma split_iff:
  assumes "m < k"
  shows "l = row * k + m \<longleftrightarrow> l div k = row \<and> l mod k = (m :: nat)"
proof
  assume "l div k = row \<and> l mod k = m"
  then show "l = row * k + m" using div_mult_mod_eq [of l k] by auto
qed (use assms in simp)

lemma cell_iff:
  assumes "column < 32"
  shows "j div 8 = l * 32 + column \<longleftrightarrow> pixel_line j = l \<and> text_column j = column"
proof -
  have "pixel_line j = j div 8 div 32" by (simp add: div_mult2_eq [symmetric])
  moreover have "text_column j = j div 8 mod 32"
    using mod_mult2_eq [of j 8 32] by simp
  ultimately show ?thesis using split_iff [OF assms, of "j div 8" l] by simp
qed

lemma cell_bound: "x < w \<Longrightarrow> y < h \<Longrightarrow> y * w + x < w * (h :: nat)"
proof -
  assume "x < w" and "y < h"
  then have "y * w + x < Suc y * w" by simp
  also have "\<dots> \<le> h * w" using \<open>y < h\<close> by (intro mult_le_mono1) simp
  finally show ?thesis by (simp add: mult.commute)
qed

lemma paint_character_picture:
  assumes "colours f" and "length fg = 3" and "column < 32" and "(row + 1) * 2048 \<le> n"
  shows "paint_character font fg row column c (picture n f) =
    picture n (\<lambda>j. if text_line j = row \<and> text_column j = column \<and> lit font c j then fg else f j)"
proof -
  have "foldl (\<lambda>pixels glyph_y. paint_row fg (font ! (of_char c * 16 + glyph_y * 2))
          ((row * 8 + glyph_y) * 256 + column * 8) pixels) (picture n f) [0..<m] =
      picture n (\<lambda>j. if text_line j = row \<and> pixel_line j mod 8 < m \<and> text_column j = column \<and> lit font c j
        then fg else f j)" if "m \<le> 8" for m
    using that
  proof (induction m)
    case (Suc m)
    let ?g = "\<lambda>j. if text_line j = row \<and> pixel_line j mod 8 < m \<and> text_column j = column \<and> lit font c j
        then fg else f j"
    let ?q = "(row * 8 + m) * 32 + column"
    have q: "(row * 8 + m) * 256 + column * 8 = ?q * 8" by simp
    have "colours ?g" using assms(1,2) by (auto simp: colours_def)
    moreover have "?q * 8 + 8 \<le> n" using assms(3,4) Suc.prems by simp
    ultimately have "paint_row fg (font ! (of_char c * 16 + m * 2)) (?q * 8) (picture n ?g) =
        picture n (\<lambda>j. if j div 8 = ?q \<and> bit (font ! (of_char c * 16 + m * 2)) (7 - j mod 8)
          then fg else ?g j)"
      using assms(2) by (intro paint_row_picture)
    also have "\<dots> = picture n (\<lambda>j. if text_line j = row \<and> pixel_line j mod 8 < Suc m \<and>
        text_column j = column \<and> lit font c j then fg else f j)"
      unfolding cell_iff [OF assms(3)] using Suc.prems split_iff [of m 8 _ row]
      by (intro picture_cong) (auto simp: lit_def less_Suc_eq)
    finally have "paint_row fg (font ! (of_char c * 16 + m * 2)) (?q * 8) (picture n ?g) = \<dots>" .
    then show ?case
      by (simp only: upt_Suc_append le0 foldl_append foldl.simps Suc.IH [OF Suc_leD [OF Suc.prems]] q)
  qed (auto intro!: picture_cong)
  from this [of 8] show ?thesis by (simp add: paint_character_def Let_def)
qed

lemma paint_line_picture:
  assumes "colours f" and "length fg = 3" and "column + length cs \<le> 32" and "(row + 1) * 2048 \<le> n"
  shows "paint_line font fg row column cs (picture n f) = Ok (picture n (\<lambda>j.
    if text_line j = row \<and> column \<le> text_column j \<and> text_column j < column + length cs \<and>
      lit font (cs ! (text_column j - column)) j then fg else f j))"
  using assms(1,3)
proof (induction cs arbitrary: column f)
  case (Cons c cs)
  let ?g = "\<lambda>j. if text_line j = row \<and> text_column j = column \<and> lit font c j then fg else f j"
  have "colours ?g" using Cons.prems(1) assms(2) by (auto simp: colours_def)
  moreover have "column + 1 + length cs \<le> 32" using Cons.prems(2) by simp
  ultimately have "paint_line font fg row (column + 1) cs (picture n ?g) = Ok (picture n (\<lambda>j.
      if text_line j = row \<and> column + 1 \<le> text_column j \<and> text_column j < column + 1 + length cs \<and>
        lit font (cs ! (text_column j - (column + 1))) j then fg else ?g j))"
    by (rule Cons.IH)
  also have "\<dots> = Ok (picture n (\<lambda>j.
      if text_line j = row \<and> column \<le> text_column j \<and> text_column j < column + length (c # cs) \<and>
        lit font ((c # cs) ! (text_column j - column)) j then fg else f j))"
    by (intro arg_cong [where f = Ok] picture_cong) (auto simp: nth_Cons' Suc_le_eq)
  finally show ?case
    using Cons.prems assms(2,4) by (simp add: ensure_def paint_character_picture)
qed (auto intro!: picture_cong)

lemma paint_lines_picture:
  assumes "colours f" and "length fg = 3" and "\<forall>l \<in> set ls. length l \<le> 32" and "(row + length ls) * 2048 \<le> n"
  shows "paint_lines font fg row ls (picture n f) = Ok (picture n (\<lambda>j.
    if row \<le> text_line j \<and> text_line j < row + length ls \<and>
      text_column j < length (ls ! (text_line j - row)) \<and>
      lit font (ls ! (text_line j - row) ! text_column j) j then fg else f j))"
  using assms(1,3,4)
proof (induction ls arbitrary: row f)
  case (Cons l ls)
  let ?g = "\<lambda>j. if text_line j = row \<and> text_column j < length l \<and> lit font (l ! text_column j) j
      then fg else f j"
  have "colours ?g" using Cons.prems(1) assms(2) by (auto simp: colours_def)
  then have "paint_lines font fg (row + 1) ls (picture n ?g) = Ok (picture n (\<lambda>j.
      if row + 1 \<le> text_line j \<and> text_line j < row + 1 + length ls \<and>
        text_column j < length (ls ! (text_line j - (row + 1))) \<and>
        lit font (ls ! (text_line j - (row + 1)) ! text_column j) j then fg else ?g j))"
    using Cons.prems by (intro Cons.IH) simp_all
  also have "\<dots> = Ok (picture n (\<lambda>j.
      if row \<le> text_line j \<and> text_line j < row + length (l # ls) \<and>
        text_column j < length ((l # ls) ! (text_line j - row)) \<and>
        lit font ((l # ls) ! (text_line j - row) ! text_column j) j then fg else f j))"
    by (intro arg_cong [where f = Ok] picture_cong) (auto simp: nth_Cons' Suc_le_eq)
  moreover have "paint_line font fg row 0 l (picture n f) = Ok (picture n ?g)"
    using Cons.prems assms(2) by (subst paint_line_picture) simp_all
  ultimately show ?case by simp
qed (auto intro!: picture_cong)

section \<open>Scaling\<close>

lemma scale_picture:
  assumes "colours f" and "0 < width"
  shows "scale_pixels width height (picture (width * height) f) =
    picture (width * 4 * (height * 4))
      (\<lambda>j. f (j div (width * 4) div 4 * width + j mod (width * 4) div 4))"
proof -
  let ?W = "width * 4" and ?H = "height * 4"
  let ?h = "\<lambda>j. f (j div ?W div 4 * width + j mod ?W div 4)"
  let ?read = "\<lambda>x y. take 3 (drop ((y div 4 * width + x div 4) * 3) (picture (width * height) f))"
  let ?row = "\<lambda>scaled y. foldl (\<lambda>scaled x. splice scaled ((y * ?W + x) * 3) (?read x y)) scaled [0..<?W]"
  have colour: "length (f k) = 3" for k using assms(1) by (simp add: colours_def)
  have read: "?read x y = f (y div 4 * width + x div 4)" if "x < ?W" and "y < ?H" for x y
  proof -
    have "x div 4 < width" "y div 4 < height" using that by (simp_all add: less_mult_imp_div_less)
    then have "y div 4 * width + x div 4 < width * height"
      by (rule cell_bound)
    then show ?thesis using assms(1) by (rule picture_pixel [rotated])
  qed
  have row: "foldl (\<lambda>scaled x. splice scaled ((y * ?W + x) * 3) (?read x y)) (picture (?W * ?H) g) [0..<m] =
      picture (?W * ?H) (\<lambda>j. if y * ?W \<le> j \<and> j < y * ?W + m then ?h j else g j)"
    if "colours g" and "y < ?H" and "m \<le> ?W" for g y m
    using that(3)
  proof (induction m)
    case (Suc m)
    let ?g = "\<lambda>j. if y * ?W \<le> j \<and> j < y * ?W + m then ?h j else g j"
    have "colours ?g" using that(1) colour by (auto simp: colours_def)
    moreover have "y * ?W + m < ?W * ?H"
      using that(2) Suc.prems by (intro cell_bound) simp_all
    moreover have "?read m y = ?h (y * ?W + m)" using Suc.prems that(2) read [of m y] by simp
    ultimately have "splice (picture (?W * ?H) ?g) ((y * ?W + m) * 3) (?read m y) =
        picture (?W * ?H) (?g(y * ?W + m := ?h (y * ?W + m)))"
      using colour by (simp only:) (rule splice_picture)
    also have "?g(y * ?W + m := ?h (y * ?W + m)) =
        (\<lambda>j. if y * ?W \<le> j \<and> j < y * ?W + Suc m then ?h j else g j)"
      by (auto simp: fun_eq_iff less_Suc_eq)
    finally show ?case using Suc by simp
  qed (auto intro!: picture_cong)
  have "foldl ?row (picture (?W * ?H) (\<lambda>_. [0, 0, 0])) [0..<n] =
      picture (?W * ?H) (\<lambda>j. if j < n * ?W then ?h j else [0, 0, 0])" if "n \<le> ?H" for n
    using that
  proof (induction n)
    case (Suc n)
    let ?g = "\<lambda>j. if j < n * ?W then ?h j else [0, 0, 0]"
    have "colours ?g" using colour by (auto simp: colours_def)
    then have "?row (picture (?W * ?H) ?g) n =
        picture (?W * ?H) (\<lambda>j. if n * ?W \<le> j \<and> j < n * ?W + ?W then ?h j else ?g j)"
      using Suc.prems by (intro row) simp_all
    also have "(\<lambda>j. if n * ?W \<le> j \<and> j < n * ?W + ?W then ?h j else ?g j) =
        (\<lambda>j. if j < Suc n * ?W then ?h j else [0, 0, 0])" by (auto simp: fun_eq_iff)
    finally show ?case using Suc by simp
  qed (auto intro!: picture_cong)
  from this [of ?H] have "foldl ?row (picture (?W * ?H) (\<lambda>_. [0, 0, 0])) [0..<?H] =
      picture (?W * ?H) (\<lambda>j. if j < ?H * ?W then ?h j else [0, 0, 0])" by simp
  also have "\<dots> = picture (?W * ?H) ?h" by (intro picture_cong) (simp add: mult.commute)
  moreover have "replicate (?W * ?H * 3) 0 = picture (?W * ?H) (\<lambda>_. [0, 0, 0])"
  proof -
    have "replicate (k * 3) 0 = concat (replicate k [0, 0, 0])" for k
      by (induction k) (simp_all add: replicate_add numeral_3_eq_3)
    then have "replicate (k * 3) 0 = picture k (\<lambda>_. [0, 0, 0])" for k
      by (simp add: picture_def map_replicate_const)
    then show ?thesis .
  qed
  ultimately show ?thesis by (simp add: scale_pixels_def Let_def)
qed

section \<open>The preview\<close>

text \<open>A pixel of the specimen: the bit of the glyph of the character, bit 0 leftmost.\<close>

definition specimen_pixel :: "glyphs \<Rightarrow> nat \<Rightarrow> nat \<Rightarrow> bool" where
  "specimen_pixel glyphs x y \<longleftrightarrow>
    y div 8 < length FONT_TEST_LINES \<and> x div 8 < length (FONT_TEST_LINES ! (y div 8)) \<and>
    (let c = of_char (FONT_TEST_LINES ! (y div 8) ! (x div 8))
     in 0x20 \<le> c \<and> c < 0x7f \<and> bit (glyphs ! c ! (y mod 8)) (x mod 8))"

lemma length_FONT_TEST_LINES: "length FONT_TEST_LINES = 12" "\<forall>l \<in> set FONT_TEST_LINES. length l \<le> 32"
  by (code_simp, code_simp)

lemma lit_specimen:
  "lit (generate_sfc_font glyphs) c j \<longleftrightarrow>
    0x20 \<le> (of_char c :: nat) \<and> of_char c < (0x7f :: nat) \<and> bit (glyphs ! of_char c ! (pixel_line j mod 8)) (j mod 8)"
  unfolding lit_def by (rule sfc_font_bit) simp_all

lemma length_decode_bgr555: "length (decode_bgr555 colour) = 3"
  by (simp add: decode_bgr555_def Let_def)

definition background :: "bytes \<Rightarrow> bytes" where
  "background palette = decode_bgr555 (from_be16 (palette ! 1) (palette ! 0))"

definition foreground :: "bytes \<Rightarrow> bytes" where
  "foreground palette = decode_bgr555 (from_be16 (palette ! 3) (palette ! 2))"

definition specimen_picture :: "glyphs \<Rightarrow> bytes \<Rightarrow> nat \<Rightarrow> bytes" where
  "specimen_picture glyphs palette j =
    (if specimen_pixel glyphs (j mod 256) (pixel_line j) then foreground palette else background palette)"

lemma colours_specimen: "colours (specimen_picture glyphs palette)"
  by (simp add: colours_def specimen_picture_def foreground_def background_def length_decode_bgr555)

lemma paint_specimen:
  "paint_lines (generate_sfc_font glyphs) (foreground palette) 0 FONT_TEST_LINES
      (concat (replicate 24576 (background palette))) =
    Ok (picture 24576 (specimen_picture glyphs palette))"
proof -
  let ?f = "\<lambda>_ :: nat. background palette"
  have "concat (replicate n (background palette)) = picture n ?f" for n
    by (simp add: picture_def map_replicate_const)
  moreover have "colours ?f" "length (foreground palette) = 3"
    by (simp_all add: colours_def background_def foreground_def length_decode_bgr555)
  moreover have "j mod 256 mod 8 = j mod 8" for j :: nat by (simp add: mod_mod_cancel)
  ultimately show ?thesis
    using length_FONT_TEST_LINES
    by (simp only:, subst paint_lines_picture)
      (auto simp: specimen_picture_def specimen_pixel_def lit_specimen Let_def intro!: picture_cong)
qed

text \<open>
  C33: the preview of the generated font is a picture of 1024 by 384 pixels, in which a pixel has the
  foreground colour of the palette exactly if it lies in the cell of a printable character of the
  specimen and the glyph of this character has its bit, the rows from the top and bit 0 leftmost; all
  other pixels have the background colour. The conversion to tiles, with its reversed bits, and the
  conversion back cancel out.
\<close>

theorem font_preview_shows_glyphs:
  assumes "length palette = 512"
  shows "\<exists>pixels. length pixels = 1024 * 384 * 3 \<and>
    (\<forall>x < 1024. \<forall>y < 384. take 3 (drop ((y * 1024 + x) * 3) pixels) =
      (if specimen_pixel glyphs (x div 4) (y div 4) then foreground palette else background palette)) \<and>
    generate_font_preview png_encode (generate_sfc_font glyphs) palette =
      (case png_encode 1024 384 pixels of None \<Rightarrow> Err PngFailed | Some png \<Rightarrow> Ok png)"
proof (intro exI conjI allI impI)
  let ?f = "specimen_picture glyphs palette"
  let ?h = "\<lambda>j. ?f (j div 1024 div 4 * 256 + j mod 1024 div 4)"
  let ?pixels = "scale_pixels 256 96 (picture 24576 ?f)"
  have pixels: "?pixels = picture 393216 ?h"
    using scale_picture [OF colours_specimen, of 256 96] by simp
  have colours: "colours ?h" using colours_specimen by (simp add: colours_def)
  show "length ?pixels = 1024 * 384 * 3" using length_picture [OF colours] by (simp add: pixels)
  show "take 3 (drop ((y * 1024 + x) * 3) ?pixels) =
      (if specimen_pixel glyphs (x div 4) (y div 4) then foreground palette else background palette)"
    if "x < 1024" and "y < 384" for x y
  proof -
    have "y * 1024 + x < 393216" using that by linarith
    then have "take 3 (drop ((y * 1024 + x) * 3) ?pixels) = ?h (y * 1024 + x)"
      unfolding pixels by (rule picture_pixel [OF colours])
    moreover have "(y div 4 * 256 + x div 4) div 256 = y div 4" "(y div 4 * 256 + x div 4) mod 256 = x div 4"
      using that by simp_all
    ultimately show ?thesis using that by (simp add: specimen_picture_def)
  qed
  show "generate_font_preview png_encode (generate_sfc_font glyphs) palette =
      (case png_encode 1024 384 ?pixels of None \<Rightarrow> Err PngFailed | Some png \<Rightarrow> Ok png)"
    using assms paint_specimen [of glyphs palette]
    by (simp add: generate_font_preview_def ensure_def length_FONT_TEST_LINES Let_def
        foreground_def background_def)
qed

theorem font_preview_shows_glyphs_witness:
  "length ([0, 0, 0x7b, 0x6f] @ replicate 508 (0 :: u8)) = 512 \<and>
   (\<exists>pixels. length pixels = 1024 * 384 * 3 \<and>
    (\<forall>x < 1024. \<forall>y < 384. take 3 (drop ((y * 1024 + x) * 3) pixels) =
      (if specimen_pixel (replicate 128 (replicate 8 0x18)) (x div 4) (y div 4)
       then foreground ([0, 0, 0x7b, 0x6f] @ replicate 508 0)
       else background ([0, 0, 0x7b, 0x6f] @ replicate 508 0))) \<and>
    generate_font_preview (\<lambda>_ _ pixels. Some pixels)
      (generate_sfc_font (replicate 128 (replicate 8 0x18))) ([0, 0, 0x7b, 0x6f] @ replicate 508 0) =
      (case Some pixels of None \<Rightarrow> Err PngFailed | Some png \<Rightarrow> Ok png))"
  by (intro conjI font_preview_shows_glyphs) simp_all

end
