(* ===== verification/Ndm24_Spec.thy ===== *)
theory Ndm24_Spec
  imports Xtask_Constants Diagnostic_Abi "HOL-Library.Code_Target_Numeral"
begin

text \<open>
  The specification of this repository, \<^verbatim>\<open>spec/ndm24.toml\<close>, as the value that \<^verbatim>\<open>toml::from_str\<close>
  gives for it: it passes \<^verbatim>\<open>validate_spec\<close>, and the constants that are generated from it are those
  of \<^verbatim>\<open>crates/ndm24-protocol/src/generated.rs\<close>, with which the decoders are modelled.
\<close>

section \<open>The specification\<close>

definition ndm24_field :: "string \<Rightarrow> nat \<Rightarrow> nat \<Rightarrow> string \<Rightarrow> string \<Rightarrow> field" where
  "ndm24_field n k size_of ty text_of =
    \<lparr>field_name = n, field_offset = k, field_size = size_of, field_type = ty, field_description = text_of\<rparr>"

definition ndm24_diagnostic_fields :: "field list" where
  "ndm24_diagnostic_fields =
    [ndm24_field ''magic'' 0 4 ''bytes''
       ''ASCII NDM2'',
     ndm24_field ''version'' 4 2 ''u16''
       ''Diagnostic ABI version'',
     ndm24_field ''size'' 6 2 ''u16''
       ''Diagnostic block size'',
     ndm24_field ''snapshot_sequence'' 8 4 ''u32''
       ''Even when the snapshot is stable'',
     ndm24_field ''driver_state'' 12 1 ''u8''
       ''Current modem state'',
     ndm24_field ''flags'' 13 1 ''u8''
       ''Sticky driver flags'',
     ndm24_field ''last_error'' 14 1 ''u8''
       ''Last error code'',
     ndm24_field ''last_discard_reason'' 15 1 ''u8''
       ''Reason the most recent RX candidate was discarded'',
     ndm24_field ''poll_tick'' 16 1 ''u8''
       ''Advisory VBlank poll request; may change outside the snapshot sequence'',
     ndm24_field ''trace_frozen'' 17 1 ''u8''
       ''Non-zero when trace recording is frozen'',
     ndm24_field ''rx_read_index'' 18 1 ''u8''
       ''RX ring read index'',
     ndm24_field ''rx_write_index'' 19 1 ''u8''
       ''RX ring write index'',
     ndm24_field ''tx_read_index'' 20 1 ''u8''
       ''TX ring read index'',
     ndm24_field ''tx_write_index'' 21 1 ''u8''
       ''TX ring write index'',
     ndm24_field ''last_rx_byte'' 22 1 ''u8''
       ''Last accepted RX byte'',
     ndm24_field ''last_tx_byte'' 23 1 ''u8''
       ''Last byte clocked to the NDM24 interface'',
     ndm24_field ''last_data_report'' 24 2 ''u16''
       ''Raw Data1 report'',
     ndm24_field ''last_status_report'' 26 2 ''u16''
       ''Raw Data2 report'',
     ndm24_field ''trace_next_sequence'' 28 4 ''u32''
       ''Sequence assigned to the next trace event'',
     ndm24_field ''rx_accepted'' 32 4 ''u32''
       ''Accepted receive bytes'',
     ndm24_field ''rx_discarded'' 36 4 ''u32''
       ''Discarded receive candidates'',
     ndm24_field ''tx_bytes'' 40 4 ''u32''
       ''Bytes clocked to the NDM24 interface'',
     ndm24_field ''rx_overflow'' 44 4 ''u32''
       ''RX ring overflow count'',
     ndm24_field ''tx_overflow'' 48 4 ''u32''
       ''TX ring overflow count'',
     ndm24_field ''poll_budget_yield'' 52 4 ''u32''
       ''Poll budget yield count'',
     ndm24_field ''timeout'' 56 4 ''u32''
       ''Timeout count'',
     ndm24_field ''reinitialize'' 60 4 ''u32''
       ''Initialization request count'',
     ndm24_field ''trace_overwritten'' 64 4 ''u32''
       ''Trace events written after the first full ring'',
     ndm24_field ''reset_start_frame'' 68 4 ''u32''
       ''Frame at which the R command was sent'',
     ndm24_field ''terminal_dropped'' 72 4 ''u32''
       ''Oldest display-mirror bytes discarded to retain newer output'',
     ndm24_field ''at_status'' 76 1 ''u8''
       ''Current generic AT transaction status'',
     ndm24_field ''at_expected_result'' 77 1 ''u8''
       ''Result code expected by the generic AT transaction'',
     ndm24_field ''session_last_result'' 78 1 ''u8''
       ''Most recent parsed AT result code'',
     ndm24_field ''session_line_length'' 79 1 ''u8''
       ''Bytes currently accumulated by the AT line parser'',
     ndm24_field ''at_start_frame'' 80 4 ''u32''
       ''Frame at which the current generic AT transaction started'']"

definition ndm24_ppp_fields :: "field list" where
  "ndm24_ppp_fields =
    [ndm24_field ''magic'' 0 4 ''bytes''
       ''ASCII PPP1'',
     ndm24_field ''version'' 4 2 ''u16''
       ''PPP diagnostic ABI version'',
     ndm24_field ''size'' 6 2 ''u16''
       ''PPP diagnostic block size'',
     ndm24_field ''snapshot_sequence'' 8 4 ''u32''
       ''Even when the PPP snapshot is stable'',
     ndm24_field ''receive_enabled'' 12 1 ''u8''
       ''Non-zero when PPP owns the NDM24 RX ring'',
     ndm24_field ''receive_active'' 13 1 ''u8''
       ''Non-zero after PPP entered CONNECTED receive mode'',
     ndm24_field ''frame_ready'' 14 1 ''u8''
       ''Non-zero while the completed receive frame is owned by the upper layer'',
     ndm24_field ''receive_last_event'' 15 1 ''u8''
       ''Most recent non-zero decoder event'',
     ndm24_field ''receive_last_invalid_reason'' 16 1 ''u8''
       ''Reason for the most recent invalid receive frame'',
     ndm24_field ''decoder_flags'' 17 1 ''u8''
       ''Current RFC 1662 decoder flags'',
     ndm24_field ''transmit_active'' 18 1 ''u8''
       ''Non-zero while a frame is being encoded'',
     ndm24_field ''transmit_stage'' 19 1 ''u8''
       ''Current RFC 1662 encoder stage'',
     ndm24_field ''transmit_escape_second'' 20 1 ''u8''
       ''Non-zero when the escaped value follows the escape prefix'',
     ndm24_field ''transmit_last_wire_byte'' 21 1 ''u8''
       ''Most recent encoded byte accepted by the NDM24 TX ring'',
     ndm24_field ''last_protocol'' 22 2 ''u16''
       ''Protocol of the most recent valid receive frame'',
     ndm24_field ''last_frame_length'' 24 2 ''u16''
       ''Length of the most recent valid receive frame, excluding FCS'',
     ndm24_field ''decoder_length'' 26 2 ''u16''
       ''Current unescaped receive length, including any received FCS'',
     ndm24_field ''decoder_fcs'' 28 2 ''u16''
       ''Current receive FCS accumulator'',
     ndm24_field ''transmit_length'' 30 2 ''u16''
       ''Unescaped transmit frame length, excluding FCS'',
     ndm24_field ''transmit_position'' 32 2 ''u16''
       ''Current offset in the unescaped transmit frame'',
     ndm24_field ''transmit_fcs'' 34 2 ''u16''
       ''Current transmit FCS accumulator'',
     ndm24_field ''receive_byte_count'' 36 4 ''u32''
       ''Raw bytes delivered to the PPP decoder'',
     ndm24_field ''receive_frame_count'' 40 4 ''u32''
       ''Valid receive frames'',
     ndm24_field ''receive_fcs_error_count'' 44 4 ''u32''
       ''Receive frames rejected by FCS'',
     ndm24_field ''receive_invalid_count'' 48 4 ''u32''
       ''Structurally invalid receive frames'',
     ndm24_field ''receive_overflow_count'' 52 4 ''u32''
       ''Receive frames exceeding the frame buffer'',
     ndm24_field ''receive_drain_budget_yield_count'' 56 4 ''u32''
       ''Receive polls that consumed the complete drain budget'',
     ndm24_field ''transmit_wire_byte_count'' 60 4 ''u32''
       ''Encoded bytes accepted by the NDM24 TX ring'',
     ndm24_field ''transmit_frame_count'' 64 4 ''u32''
       ''Completed transmit frames'',
     ndm24_field ''transmit_backpressure_count'' 68 4 ''u32''
       ''NDM24 TX ring rejections that paused the encoder'',
     ndm24_field ''transmit_abort_count'' 72 4 ''u32''
       ''Transmit frames aborted after leaving CONNECTED'',
     ndm24_field ''lcp_state'' 76 1 ''u8''
       ''Current RFC 1661 LCP state'',
     ndm24_field ''lcp_last_code'' 77 1 ''u8''
       ''Code of the most recently parsed LCP packet'',
     ndm24_field ''lcp_last_identifier'' 78 1 ''u8''
       ''Identifier of the most recently parsed LCP packet'',
     ndm24_field ''lcp_last_error'' 79 1 ''u8''
       ''Most recent LCP parser or negotiation error'',
     ndm24_field ''lcp_request_identifier'' 80 1 ''u8''
       ''Identifier of the outstanding local Configure-Request or Terminate-Request'',
     ndm24_field ''lcp_restart_remaining'' 81 1 ''u8''
       ''Remaining LCP Configure-Request or Terminate-Request retransmissions'',
     ndm24_field ''lcp_peer_flags'' 82 1 ''u8''
       ''Accepted peer LCP option flags'',
     ndm24_field ''lcp_pending_action'' 83 1 ''u8''
       ''LCP transmit action waiting for the shared PPP encoder'',
     ndm24_field ''lcp_packet_length'' 84 2 ''u16''
       ''Length field of the most recently parsed LCP packet'',
     ndm24_field ''lcp_peer_mru'' 86 2 ''u16''
       ''Peer MRU accepted for local transmission'',
     ndm24_field ''lcp_peer_accm'' 88 4 ''u32''
       ''Peer ACCM accepted for local transmission'',
     ndm24_field ''lcp_receive_count'' 92 4 ''u32''
       ''LCP packets presented to the packet parser'',
     ndm24_field ''lcp_timer_active'' 96 1 ''u8''
       ''Non-zero while the LCP restart timer is armed'',
     ndm24_field ''lcp_deferred_request'' 97 1 ''u8''
       ''Non-zero while Opened renegotiation owes a local Configure-Request'',
     ndm24_field ''lcp_restart_deadline'' 98 2 ''u16''
       ''Low 16-bit VBlank frame deadline for LCP restart'',
     ndm24_field ''lcp_peer_magic'' 100 4 ''u32''
       ''Accepted peer Magic-Number'',
     ndm24_field ''carrier_loss_count'' 104 4 ''u32''
       ''Raw NDM24 NO CARRIER result lines detected while PPP owned RX'',
     ndm24_field ''carrier_tail_byte_count'' 108 4 ''u32''
       ''Bytes discarded from the current RX burst after NO CARRIER'',
     ndm24_field ''pap_state'' 112 1 ''u8''
       ''Current PAP client state'',
     ndm24_field ''pap_last_code'' 113 1 ''u8''
       ''Code of the most recently parsed PAP packet'',
     ndm24_field ''pap_last_identifier'' 114 1 ''u8''
       ''Identifier of the most recently parsed PAP packet'',
     ndm24_field ''pap_last_error'' 115 1 ''u8''
       ''Most recent PAP parser or state error'',
     ndm24_field ''pap_request_identifier'' 116 1 ''u8''
       ''Identifier of the outstanding PAP Authenticate-Request'',
     ndm24_field ''pap_next_identifier'' 117 1 ''u8''
       ''Identifier reserved for the next PAP Authenticate-Request'',
     ndm24_field ''pap_restart_remaining'' 118 1 ''u8''
       ''Remaining PAP Authenticate-Request transmissions'',
     ndm24_field ''pap_pending_action'' 119 1 ''u8''
       ''PAP transmit action waiting for the shared PPP encoder'',
     ndm24_field ''pap_timer_active'' 120 1 ''u8''
       ''Non-zero while the PAP restart timer is armed'',
     ndm24_field ''pap_failure'' 121 1 ''u8''
       ''Reason for the most recent PAP failure'',
     ndm24_field ''pap_packet_length'' 122 2 ''u16''
       ''Length field of the most recently parsed PAP packet'',
     ndm24_field ''pap_restart_deadline'' 124 2 ''u16''
       ''Low 16-bit VBlank frame deadline for PAP restart'',
     ndm24_field ''pap_receive_count'' 126 4 ''u32''
       ''PAP packets presented to the packet parser'',
     ndm24_field ''pap_transmit_count'' 130 4 ''u32''
       ''PAP Authenticate-Requests accepted by the shared encoder'',
     ndm24_field ''ipcp_state'' 134 1 ''u8''
       ''Current RFC 1332 IPCP state'',
     ndm24_field ''ipcp_last_code'' 135 1 ''u8''
       ''Code of the most recently parsed IPCP packet'',
     ndm24_field ''ipcp_last_identifier'' 136 1 ''u8''
       ''Identifier of the most recently parsed IPCP packet'',
     ndm24_field ''ipcp_last_error'' 137 1 ''u8''
       ''Most recent IPCP parser or negotiation error'',
     ndm24_field ''ipcp_request_identifier'' 138 1 ''u8''
       ''Identifier of the outstanding local IPCP Configure-Request'',
     ndm24_field ''ipcp_restart_remaining'' 139 1 ''u8''
       ''Remaining IPCP Configure retransmissions'',
     ndm24_field ''ipcp_pending_action'' 140 1 ''u8''
       ''IPCP transmit action waiting for the shared PPP encoder'',
     ndm24_field ''ipcp_timer_active'' 141 1 ''u8''
       ''Non-zero while the IPCP restart timer is armed'',
     ndm24_field ''ipcp_packet_length'' 142 2 ''u16''
       ''Length field of the most recently parsed IPCP packet'',
     ndm24_field ''ipcp_restart_deadline'' 144 2 ''u16''
       ''Low 16-bit VBlank frame deadline for IPCP restart'',
     ndm24_field ''ipcp_receive_count'' 146 4 ''u32''
       ''IPCP packets presented to the packet parser'',
     ndm24_field ''ipcp_transmit_count'' 150 4 ''u32''
       ''IPCP packets accepted by the shared encoder'',
     ndm24_field ''ipcp_local_address'' 154 4 ''ipv4''
       ''Negotiated local IPv4 address in network byte order'',
     ndm24_field ''ipcp_peer_address'' 158 4 ''ipv4''
       ''Negotiated peer IPv4 address in network byte order'',
     ndm24_field ''ipcp_flags'' 162 1 ''u8''
       ''IPCP address-option and validity flags'',
     ndm24_field ''ipcp_deferred_request'' 163 1 ''u8''
       ''Non-zero while Opened renegotiation owes a local Configure-Request'',
     ndm24_field ''ipv4_last_error'' 164 1 ''u8''
       ''Most recent IPv4 parser or receive-policy error'',
     ndm24_field ''ipv4_header_length'' 165 1 ''u8''
       ''IPv4 header length in bytes'',
     ndm24_field ''ipv4_protocol'' 166 1 ''u8''
       ''Protocol field of the most recently parsed IPv4 packet'',
     ndm24_field ''ipv4_ttl'' 167 1 ''u8''
       ''TTL field of the most recently parsed IPv4 packet'',
     ndm24_field ''ipv4_total_length'' 168 2 ''u16''
       ''Total Length of the most recently parsed IPv4 packet'',
     ndm24_field ''ipv4_payload_length'' 170 2 ''u16''
       ''Payload length after the variable IPv4 header'',
     ndm24_field ''ipv4_identification'' 172 2 ''u16''
       ''Identification field of the most recently parsed IPv4 packet'',
     ndm24_field ''ipv4_flags_fragment_offset'' 174 2 ''u16''
       ''IPv4 flags and fragment offset in host byte order'',
     ndm24_field ''ipv4_header_checksum'' 176 2 ''u16''
       ''IPv4 header checksum in host byte order'',
     ndm24_field ''ipv4_source_address'' 178 4 ''ipv4''
       ''Source address of the most recently parsed IPv4 packet'',
     ndm24_field ''ipv4_destination_address'' 182 4 ''ipv4''
       ''Destination address of the most recently parsed IPv4 packet'',
     ndm24_field ''ipv4_receive_count'' 186 4 ''u32''
       ''IPv4 packets presented to the parser'',
     ndm24_field ''ipv4_accepted_count'' 190 4 ''u32''
       ''Valid unfragmented IPv4 packets addressed to the local endpoint'',
     ndm24_field ''ipv4_checksum_error_count'' 194 4 ''u32''
       ''IPv4 packets rejected for an invalid header checksum'',
     ndm24_field ''ipv4_drop_count'' 198 4 ''u32''
       ''IPv4 packets rejected by parser or receive policy'',
     ndm24_field ''ipv4_transmit_count'' 202 4 ''u32''
       ''IPv4 packets accepted by the shared PPP encoder'',
     ndm24_field ''ipv4_next_identification'' 206 2 ''u16''
       ''Identification value reserved for the next local IPv4 packet'',
     ndm24_field ''ipv4_flags'' 208 1 ''u8''
       ''IPv4 header-valid, destination-local, and fragmentation flags'',
     ndm24_field ''icmp_last_error'' 209 1 ''u8''
       ''Most recent ICMP Echo parser or transmit error'',
     ndm24_field ''icmp_last_type'' 210 1 ''u8''
       ''Type of the most recently parsed ICMP Echo message'',
     ndm24_field ''icmp_last_code'' 211 1 ''u8''
       ''Code of the most recently parsed ICMP Echo message'',
     ndm24_field ''icmp_flags'' 212 1 ''u8''
       ''ICMP message-valid, request, reply, and pending-response flags'',
     ndm24_field ''icmp_identifier'' 213 2 ''u16''
       ''Identifier of the most recently parsed ICMP Echo message'',
     ndm24_field ''icmp_sequence'' 215 2 ''u16''
       ''Sequence number of the most recently parsed ICMP Echo message'',
     ndm24_field ''icmp_payload_length'' 217 2 ''u16''
       ''Payload length after the ICMP Echo header'',
     ndm24_field ''icmp_checksum'' 219 2 ''u16''
       ''Checksum of the most recently parsed ICMP Echo message'',
     ndm24_field ''icmp_receive_count'' 221 4 ''u32''
       ''ICMP messages presented to the Echo parser'',
     ndm24_field ''icmp_echo_request_count'' 225 4 ''u32''
       ''Valid ICMP Echo Requests received'',
     ndm24_field ''icmp_echo_reply_count'' 229 4 ''u32''
       ''Valid ICMP Echo Replies received'',
     ndm24_field ''icmp_checksum_error_count'' 233 4 ''u32''
       ''ICMP Echo messages rejected for an invalid checksum'',
     ndm24_field ''icmp_drop_count'' 237 4 ''u32''
       ''ICMP messages rejected by parser or transmit handling'',
     ndm24_field ''icmp_transmit_count'' 241 4 ''u32''
       ''ICMP Echo messages accepted by the IPv4 transmitter'',
     ndm24_field ''udp_last_error'' 245 1 ''u8''
       ''Most recent UDP parser or transmit error'',
     ndm24_field ''udp_flags'' 246 1 ''u8''
       ''UDP datagram-valid and checksum-present flags'',
     ndm24_field ''udp_source_port'' 247 2 ''u16''
       ''Source port of the most recently parsed UDP datagram'',
     ndm24_field ''udp_destination_port'' 249 2 ''u16''
       ''Destination port of the most recently parsed UDP datagram'',
     ndm24_field ''udp_length'' 251 2 ''u16''
       ''Length field of the most recently parsed UDP datagram'',
     ndm24_field ''udp_payload_length'' 253 2 ''u16''
       ''Payload length after the UDP header'',
     ndm24_field ''udp_checksum'' 255 2 ''u16''
       ''Checksum of the most recently parsed UDP datagram'',
     ndm24_field ''udp_receive_count'' 257 4 ''u32''
       ''UDP datagrams presented to the parser'',
     ndm24_field ''udp_checksum_error_count'' 261 4 ''u32''
       ''UDP datagrams rejected for an invalid non-zero checksum'',
     ndm24_field ''udp_drop_count'' 265 4 ''u32''
       ''UDP datagrams rejected by parser or transmit handling'',
     ndm24_field ''udp_transmit_count'' 269 4 ''u32''
       ''UDP datagrams accepted by the IPv4 transmitter'',
     ndm24_field ''ntp_state'' 273 1 ''u8''
       ''NTP client state'',
     ndm24_field ''ntp_last_error'' 274 1 ''u8''
       ''Most recent NTP request or response error'',
     ndm24_field ''ntp_flags'' 275 1 ''u8''
       ''NTP cookie, response, and Unix-time validity flags'',
     ndm24_field ''ntp_version'' 276 1 ''u8''
       ''Version in the most recently parsed NTP response'',
     ndm24_field ''ntp_leap_indicator'' 277 1 ''u8''
       ''Leap Indicator in the most recently parsed NTP response'',
     ndm24_field ''ntp_stratum'' 278 1 ''u8''
       ''Stratum in the most recently parsed NTP response'',
     ndm24_field ''ntp_poll'' 279 1 ''u8''
       ''Raw signed Poll exponent from the NTP response'',
     ndm24_field ''ntp_precision'' 280 1 ''u8''
       ''Raw signed Precision exponent from the NTP response'',
     ndm24_field ''ntp_reference_id'' 281 4 ''bytes''
       ''Reference ID or Kiss-o'-Death code from the NTP response'',
     ndm24_field ''ntp_cookie_seconds'' 285 4 ''u32''
       ''NTP request cookie seconds word'',
     ndm24_field ''ntp_cookie_fraction'' 289 4 ''u32''
       ''NTP request cookie fraction word'',
     ndm24_field ''ntp_server_receive_seconds'' 293 4 ''u32''
       ''Server Receive Timestamp seconds word'',
     ndm24_field ''ntp_server_receive_fraction'' 297 4 ''u32''
       ''Server Receive Timestamp fraction word'',
     ndm24_field ''ntp_server_transmit_seconds'' 301 4 ''u32''
       ''Server Transmit Timestamp seconds word'',
     ndm24_field ''ntp_server_transmit_fraction'' 305 4 ''u32''
       ''Server Transmit Timestamp fraction word'',
     ndm24_field ''ntp_unix_seconds'' 309 4 ''u32''
       ''Server Transmit Timestamp converted to Unix seconds'',
     ndm24_field ''ntp_deadline'' 313 2 ''u16''
       ''Low frame counter deadline for the pending NTP response'',
     ndm24_field ''ntp_request_count'' 315 4 ''u32''
       ''NTP requests accepted by the UDP transmitter'',
     ndm24_field ''ntp_response_count'' 319 4 ''u32''
       ''Correlated valid NTP server responses'',
     ndm24_field ''ntp_drop_count'' 323 4 ''u32''
       ''NTP responses or local requests rejected by validation'',
     ndm24_field ''ntp_timeout_count'' 327 4 ''u32''
       ''NTP requests that expired without a valid response'',
     ndm24_field ''icmp_request_state'' 331 1 ''u8''
       ''Outbound ICMP Echo request state'',
     ndm24_field ''icmp_request_last_error'' 332 1 ''u8''
       ''Most recent outbound ICMP Echo request or correlation error'',
     ndm24_field ''icmp_request_flags'' 333 1 ''u8''
       ''Outbound ICMP Echo response-valid flag'',
     ndm24_field ''icmp_request_destination'' 334 4 ''ipv4''
       ''Destination of the current or most recent outbound Echo Request'',
     ndm24_field ''icmp_request_identifier'' 338 2 ''u16''
       ''Identifier used by the current or most recent Echo Request'',
     ndm24_field ''icmp_request_sequence'' 340 2 ''u16''
       ''Sequence used by the current or most recent Echo Request'',
     ndm24_field ''icmp_request_deadline'' 342 2 ''u16''
       ''Low frame counter deadline for the pending Echo Reply'',
     ndm24_field ''icmp_request_sent_frame'' 344 2 ''u16''
       ''Low frame counter when the Echo Request entered the IPv4 transmitter'',
     ndm24_field ''icmp_request_rtt_frames'' 346 2 ''u16''
       ''Round-trip time of the correlated Echo Reply in SFC frames'',
     ndm24_field ''icmp_request_count'' 348 4 ''u32''
       ''Outbound Echo Requests accepted by the IPv4 transmitter'',
     ndm24_field ''icmp_request_response_count'' 352 4 ''u32''
       ''Correlated valid Echo Replies received'',
     ndm24_field ''icmp_request_drop_count'' 356 4 ''u32''
       ''Outbound requests or candidate replies rejected'',
     ndm24_field ''icmp_request_timeout_count'' 360 4 ''u32''
       ''Outbound Echo Requests that expired without a correlated reply'',
     ndm24_field ''dns_state'' 364 1 ''u8''
       ''DNS A-query client state'',
     ndm24_field ''dns_last_error'' 365 1 ''u8''
       ''Most recent DNS request, response, or parser error'',
     ndm24_field ''dns_flags'' 366 1 ''u8''
       ''DNS response-valid flag'',
     ndm24_field ''dns_response_code'' 367 1 ''u8''
       ''DNS RCODE from the most recent correlated response'',
     ndm24_field ''dns_resolver'' 368 4 ''ipv4''
       ''Resolver IPv4 address for the current or most recent query'',
     ndm24_field ''dns_transaction_id'' 372 2 ''u16''
       ''Transaction ID for the current or most recent query'',
     ndm24_field ''dns_answer_count'' 374 2 ''u16''
       ''ANCOUNT from the most recent correlated response'',
     ndm24_field ''dns_answer_address'' 376 4 ''ipv4''
       ''First validated IN A-record address'',
     ndm24_field ''dns_deadline'' 380 2 ''u16''
       ''Low frame counter deadline for the pending DNS response'',
     ndm24_field ''dns_sent_frame'' 382 2 ''u16''
       ''Low frame counter when the DNS query entered the IPv4 transmitter'',
     ndm24_field ''dns_rtt_frames'' 384 2 ''u16''
       ''Round-trip time of the correlated DNS response in SFC frames'',
     ndm24_field ''dns_query_count'' 386 4 ''u32''
       ''DNS queries accepted by the UDP transmitter'',
     ndm24_field ''dns_response_count'' 390 4 ''u32''
       ''Correlated DNS responses containing a valid IN A record'',
     ndm24_field ''dns_drop_count'' 394 4 ''u32''
       ''DNS requests or candidate responses rejected'',
     ndm24_field ''dns_timeout_count'' 398 4 ''u32''
       ''DNS queries that expired without a valid response'',
     ndm24_field ''icmp_inbound_state'' 402 1 ''u8''
       ''State of the most recent inbound ICMP Echo Request'',
     ndm24_field ''icmp_inbound_last_error'' 403 1 ''u8''
       ''Most recent inbound Echo Request validation or reply error'',
     ndm24_field ''icmp_inbound_flags'' 404 1 ''u8''
       ''Inbound Echo Request snapshot-valid flag'',
     ndm24_field ''icmp_inbound_source'' 405 4 ''ipv4''
       ''Source address of the most recent valid inbound Echo Request'',
     ndm24_field ''icmp_inbound_identifier'' 409 2 ''u16''
       ''Identifier of the most recent valid inbound Echo Request'',
     ndm24_field ''icmp_inbound_sequence'' 411 2 ''u16''
       ''Sequence number of the most recent valid inbound Echo Request'',
     ndm24_field ''icmp_inbound_payload_length'' 413 2 ''u16''
       ''Payload length of the most recent valid inbound Echo Request'',
     ndm24_field ''icmp_inbound_reply_count'' 415 4 ''u32''
       ''Inbound Echo Replies accepted by the IPv4 transmitter'',
     ndm24_field ''icmp_inbound_drop_count'' 419 4 ''u32''
       ''Inbound Echo Requests rejected by validation or reply handling'',
     ndm24_field ''ipcp_primary_dns_address'' 423 4 ''bytes''
       ''Primary DNS server address negotiated through RFC 1877 IPCP option 129'',
     ndm24_field ''ipcp_secondary_dns_address'' 427 4 ''bytes''
       ''Secondary DNS server address negotiated through RFC 1877 IPCP option 131'',
     ndm24_field ''lcp_terminate_request_count'' 431 4 ''u32''
       ''Valid peer Terminate-Requests accepted by the LCP state machine'',
     ndm24_field ''lcp_terminate_ack_count'' 435 4 ''u32''
       ''Terminate-Acks accepted by the shared PPP transmitter'',
     ndm24_field ''lcp_protocol_reject_count'' 439 4 ''u32''
       ''Protocol-Reject packets accepted by the shared PPP transmitter'',
     ndm24_field ''lcp_last_rejected_protocol'' 443 2 ''u16''
       ''Most recent unsupported PPP protocol rejected by LCP'',
     ndm24_field ''lcp_reject_identifier'' 445 1 ''u8''
       ''Identifier used by the most recent LCP Code-Reject or Protocol-Reject'',
     ndm24_field ''lcp_code_reject_count'' 446 4 ''u32''
       ''Code-Reject packets accepted by the shared PPP transmitter'',
     ndm24_field ''lcp_last_rejected_code'' 450 1 ''u8''
       ''Most recent unknown LCP Code rejected by LCP'',
     ndm24_field ''lcp_echo_request_count'' 451 4 ''u32''
       ''Valid peer Echo-Requests accepted while LCP is Opened'',
     ndm24_field ''lcp_echo_reply_count'' 455 4 ''u32''
       ''Echo-Replies accepted by the shared PPP transmitter'',
     ndm24_field ''lcp_echo_drop_count'' 459 4 ''u32''
       ''Echo-Requests discarded for phase, length, or Magic-Number validation'',
     ndm24_field ''lcp_last_echo_identifier'' 463 1 ''u8''
       ''Identifier of the most recent valid peer Echo-Request'',
     ndm24_field ''lcp_last_echo_magic'' 464 4 ''u32''
       ''Magic-Number of the most recent valid peer Echo-Request'',
     ndm24_field ''lcp_administrative_open'' 468 1 ''u8''
       ''Nonzero while local policy permits LCP establishment or re-establishment'',
     ndm24_field ''lcp_local_terminate_request_count'' 469 4 ''u32''
       ''Locally initiated Terminate-Requests accepted by the shared PPP transmitter, including retries'',
     ndm24_field ''lcp_local_terminate_ack_count'' 473 4 ''u32''
       ''Matching Terminate-Acks received for locally initiated closure'',
     ndm24_field ''lcp_local_terminate_timeout_count'' 477 4 ''u32''
       ''Locally initiated closures completed after Max-Terminate exhaustion'',
     ndm24_field ''lcp_local_magic'' 481 4 ''u32''
       ''Local Magic-Number currently proposed in Configure-Request'',
     ndm24_field ''lcp_local_flags'' 485 1 ''u8''
       ''Local Magic-Number request and acknowledgement flags'',
     ndm24_field ''lcp_loopback_count'' 486 4 ''u32''
       ''Peer Configure-Requests whose Magic-Number matched the local proposal'',
     ndm24_field ''pap_credential_flags'' 490 1 ''u8''
       ''PAP credential presence and transient-sensitive mode flags; never contains credential bytes'',
     ndm24_field ''pap_peer_id_length'' 491 1 ''u8''
       ''Length of the staged PAP Peer-ID'',
     ndm24_field ''pap_password_length'' 492 1 ''u8''
       ''Length of the staged PAP password'',
     ndm24_field ''chap_state'' 493 1 ''u8''
       ''CHAP-MD5 client state'',
     ndm24_field ''chap_last_code'' 494 1 ''u8''
       ''Most recently received CHAP code'',
     ndm24_field ''chap_last_identifier'' 495 1 ''u8''
       ''Most recently received CHAP Identifier'',
     ndm24_field ''chap_last_error'' 496 1 ''u8''
       ''Most recent CHAP parser error'',
     ndm24_field ''chap_response_identifier'' 497 1 ''u8''
       ''Identifier of the most recently emitted CHAP Response'',
     ndm24_field ''chap_failure'' 498 1 ''u8''
       ''Terminal CHAP failure reason'',
     ndm24_field ''chap_challenge_length'' 499 1 ''u8''
       ''Length of the retained CHAP Challenge; bytes are never published'',
     ndm24_field ''chap_peer_name_length'' 500 1 ''u8''
       ''Length of the peer name in the last CHAP Challenge'',
     ndm24_field ''chap_packet_length'' 501 2 ''u16''
       ''Declared length of the last CHAP packet'',
     ndm24_field ''chap_receive_count'' 503 4 ''u32''
       ''Received CHAP packets'',
     ndm24_field ''chap_transmit_count'' 507 4 ''u32''
       ''Transmitted CHAP Responses'']"

definition ndm24_mailbox_fields :: "field list" where
  "ndm24_mailbox_fields =
    [ndm24_field ''magic'' 0 4 ''bytes''
       ''ASCII NDMC'',
     ndm24_field ''version'' 4 2 ''u16''
       ''Mailbox ABI version'',
     ndm24_field ''block_size'' 6 2 ''u16''
       ''Mailbox block size'',
     ndm24_field ''host_sequence'' 8 4 ''u32''
       ''Sequence written last by the host'',
     ndm24_field ''processed_sequence'' 12 4 ''u32''
       ''Last command accepted by the SFC'',
     ndm24_field ''command'' 16 1 ''u8''
       ''Requested command'',
     ndm24_field ''status'' 17 1 ''u8''
       ''Command status'',
     ndm24_field ''result'' 18 2 ''u16''
       ''Command-specific result'',
     ndm24_field ''arguments'' 20 32 ''bytes''
       ''Command arguments'',
     ndm24_field ''output'' 52 32 ''bytes''
       ''Command output; written only by the SFC'',
     ndm24_field ''reserved'' 84 12 ''bytes''
       ''Reserved; must be zero'']"

definition ndm24_protocol :: "toml_value btree_map" where
  "ndm24_protocol =
    [(''latch_assert'', Integer_value 1),
     (''reset_command'', Integer_value 82),
     (''rx_present_asserted'', Integer_value 128),
     (''rx_present_mask'', Integer_value 128),
     (''status_transfer_hint_mask'', Integer_value 64),
     (''tx_assert'', Integer_value 0),
     (''tx_release'', Integer_value 128)]"

definition ndm24_driver :: "toml_value btree_map" where
  "ndm24_driver =
    [(''poll_budget'', Integer_value 32),
     (''probe_retry_limit'', Integer_value 3),
     (''probe_timeout_frames'', Integer_value 300),
     (''reset_guard_frames'', Integer_value 600),
     (''ring_capacity'', Integer_value 255),
     (''ring_storage_size'', Integer_value 256)]"

definition ndm24_terminal :: "toml_value btree_map" where
  "ndm24_terminal =
    [(''bg1sc'', Integer_value 74),
     (''columns'', Integer_value 32),
     (''palette_background'', Integer_value 0),
     (''palette_foreground'', Integer_value 28539),
     (''palette_unused_2'', Integer_value 0),
     (''palette_unused_3'', Integer_value 0),
     (''queue_capacity'', Integer_value 255),
     (''queue_storage_size'', Integer_value 256),
     (''render_budget'', Integer_value 32),
     (''rows'', Integer_value 64),
     (''scroll_anchor'', Integer_value 217),
     (''status_bg1sc'', Integer_value 66),
     (''status_rows'', Integer_value 32),
     (''status_tilemap_base'', Integer_value 16384),
     (''tilemap_base'', Integer_value 18432),
     (''tilemap_mask'', Integer_value 2047)]"

definition ndm24_states :: "u8 btree_map" where
  "ndm24_states =
    [(''at_command'', 5),
     (''connected'', 7),
     (''dialing'', 6),
     (''disconnecting'', 8),
     (''error'', 4),
     (''off'', 0),
     (''probing'', 2),
     (''ready'', 3),
     (''resetting'', 1)]"

definition ndm24_flags :: "u8 btree_map" where
  "ndm24_flags =
    [(''poll_budget_yield'', 1),
     (''rx_overflow'', 2),
     (''timeout'', 8),
     (''trace_overwrite'', 16),
     (''tx_overflow'', 4)]"

definition ndm24_discard_reasons :: "u8 btree_map" where
  "ndm24_discard_reasons =
    [(''full_report'', 1),
     (''no_data'', 3),
     (''none'', 0),
     (''rx_overflow'', 4),
     (''status_not_ready'', 2)]"

definition ndm24_trace_events :: "u8 btree_map" where
  "ndm24_trace_events =
    [(''error'', 7),
     (''none'', 0),
     (''poll16'', 1),
     (''rx_accepted'', 3),
     (''rx_discarded'', 4),
     (''state'', 6),
     (''transfer9'', 2),
     (''tx'', 5)]"

definition ndm24_mailbox_commands :: "u8 btree_map" where
  "ndm24_mailbox_commands =
    [(''at_transaction'', 6),
     (''binary_prbs_receive'', 22),
     (''binary_prbs_transmit'', 21),
     (''binary_receive'', 8),
     (''binary_stress_transmit'', 9),
     (''binary_transmit'', 7),
     (''clear_trace'', 3),
     (''dns_query'', 15),
     (''freeze_trace'', 4),
     (''icmp_echo_request'', 14),
     (''initialize'', 1),
     (''none'', 0),
     (''ntp_request'', 13),
     (''pap_credentials_clear'', 18),
     (''pap_password_set'', 20),
     (''pap_peer_id_set'', 19),
     (''ppp_close'', 16),
     (''ppp_open'', 17),
     (''ppp_receive_start'', 11),
     (''ppp_receive_stop'', 12),
     (''ppp_self_test'', 10),
     (''quick_test'', 2),
     (''resume_trace'', 5)]"

definition ndm24_mailbox_status :: "u8 btree_map" where
  "ndm24_mailbox_status =
    [(''failed'', 4),
     (''idle'', 0),
     (''passed'', 3),
     (''pending'', 1),
     (''running'', 2)]"

definition ndm24_spec :: spec_file where
  "ndm24_spec =
    \<lparr>spec_of = \<lparr>spec_name = ''NTT DATA NDM24'', spec_version = 1\<rparr>,
     protocol_values = ndm24_protocol,
     driver_values = ndm24_driver,
     terminal_values = ndm24_terminal,
     diagnostic =
       \<lparr>magic = [78, 68, 77, 50], diagnostic_version = 2, diagnostic_size = 128, trace_event_size = 16,
        trace_capacity = 256, trace_size = 4096, diagnostic_fields = ndm24_diagnostic_fields\<rparr>,
     ppp_diagnostic =
       \<lparr>ppp_magic = [80, 80, 80, 49], ppp_version = 22, ppp_size = 511, ppp_fields = ndm24_ppp_fields\<rparr>,
     mailbox =
       \<lparr>mailbox_magic = [78, 68, 77, 67], mailbox_version = 10, mailbox_size = 96, argument_size = 32,
        mailbox_fields = ndm24_mailbox_fields\<rparr>,
     states = ndm24_states,
     flags = ndm24_flags,
     discard_reasons = ndm24_discard_reasons,
     trace_events = ndm24_trace_events,
     mailbox_commands = ndm24_mailbox_commands,
     mailbox_status = ndm24_mailbox_status\<rparr>"

section \<open>The generated file\<close>

text \<open>The items of \<^verbatim>\<open>generated.rs\<close>; an array stands for the constants of its octets.\<close>

definition generated_rs_constants :: "(string \<times> nat) list" where
  "generated_rs_constants =
    concat
     [[(''MODEM_LATCH_ASSERT'', 1)],
      [(''MODEM_RESET_COMMAND'', 82)],
      [(''MODEM_RX_PRESENT_ASSERTED'', 128)],
      [(''MODEM_RX_PRESENT_MASK'', 128)],
      [(''MODEM_STATUS_TRANSFER_HINT_MASK'', 64)],
      [(''MODEM_TX_ASSERT'', 0)],
      [(''MODEM_TX_RELEASE'', 128)],
      [(''MODEM_POLL_BUDGET'', 32)],
      [(''MODEM_PROBE_RETRY_LIMIT'', 3)],
      [(''MODEM_PROBE_TIMEOUT_FRAMES'', 300)],
      [(''MODEM_RESET_GUARD_FRAMES'', 600)],
      [(''MODEM_RING_CAPACITY'', 255)],
      [(''MODEM_RING_STORAGE_SIZE'', 256)],
      [(''TERMINAL_BG1SC'', 74)],
      [(''TERMINAL_COLUMNS'', 32)],
      [(''TERMINAL_PALETTE_BACKGROUND'', 0)],
      [(''TERMINAL_PALETTE_FOREGROUND'', 28539)],
      [(''TERMINAL_PALETTE_UNUSED_2'', 0)],
      [(''TERMINAL_PALETTE_UNUSED_3'', 0)],
      [(''TERMINAL_QUEUE_CAPACITY'', 255)],
      [(''TERMINAL_QUEUE_STORAGE_SIZE'', 256)],
      [(''TERMINAL_RENDER_BUDGET'', 32)],
      [(''TERMINAL_ROWS'', 64)],
      [(''TERMINAL_SCROLL_ANCHOR'', 217)],
      [(''TERMINAL_STATUS_BG1SC'', 66)],
      [(''TERMINAL_STATUS_ROWS'', 32)],
      [(''TERMINAL_STATUS_TILEMAP_BASE'', 16384)],
      [(''TERMINAL_TILEMAP_BASE'', 18432)],
      [(''TERMINAL_TILEMAP_MASK'', 2047)],
      [(''MODEM_SPEC_VERSION'', 1)],
      array_constants ''MODEM_DIAGNOSTIC_MAGIC'' [78, 68, 77, 50],
      [(''MODEM_DIAGNOSTIC_VERSION'', 2)],
      [(''MODEM_DIAGNOSTIC_SIZE'', 128)],
      [(''MODEM_TRACE_EVENT_SIZE'', 16)],
      [(''MODEM_TRACE_CAPACITY'', 256)],
      [(''MODEM_TRACE_SIZE'', 4096)],
      [(''MODEM_DIAG_MAGIC'', 0)],
      [(''MODEM_DIAG_VERSION'', 4)],
      [(''MODEM_DIAG_SIZE'', 6)],
      [(''MODEM_DIAG_SNAPSHOT_SEQUENCE'', 8)],
      [(''MODEM_DIAG_DRIVER_STATE'', 12)],
      [(''MODEM_DIAG_FLAGS'', 13)],
      [(''MODEM_DIAG_LAST_ERROR'', 14)],
      [(''MODEM_DIAG_LAST_DISCARD_REASON'', 15)],
      [(''MODEM_DIAG_POLL_TICK'', 16)],
      [(''MODEM_DIAG_TRACE_FROZEN'', 17)],
      [(''MODEM_DIAG_RX_READ_INDEX'', 18)],
      [(''MODEM_DIAG_RX_WRITE_INDEX'', 19)],
      [(''MODEM_DIAG_TX_READ_INDEX'', 20)],
      [(''MODEM_DIAG_TX_WRITE_INDEX'', 21)],
      [(''MODEM_DIAG_LAST_RX_BYTE'', 22)],
      [(''MODEM_DIAG_LAST_TX_BYTE'', 23)],
      [(''MODEM_DIAG_LAST_DATA_REPORT'', 24)],
      [(''MODEM_DIAG_LAST_STATUS_REPORT'', 26)],
      [(''MODEM_DIAG_TRACE_NEXT_SEQUENCE'', 28)],
      [(''MODEM_DIAG_RX_ACCEPTED'', 32)],
      [(''MODEM_DIAG_RX_DISCARDED'', 36)],
      [(''MODEM_DIAG_TX_BYTES'', 40)],
      [(''MODEM_DIAG_RX_OVERFLOW'', 44)],
      [(''MODEM_DIAG_TX_OVERFLOW'', 48)],
      [(''MODEM_DIAG_POLL_BUDGET_YIELD'', 52)],
      [(''MODEM_DIAG_TIMEOUT'', 56)],
      [(''MODEM_DIAG_REINITIALIZE'', 60)],
      [(''MODEM_DIAG_TRACE_OVERWRITTEN'', 64)],
      [(''MODEM_DIAG_RESET_START_FRAME'', 68)],
      [(''MODEM_DIAG_TERMINAL_DROPPED'', 72)],
      [(''MODEM_DIAG_AT_STATUS'', 76)],
      [(''MODEM_DIAG_AT_EXPECTED_RESULT'', 77)],
      [(''MODEM_DIAG_SESSION_LAST_RESULT'', 78)],
      [(''MODEM_DIAG_SESSION_LINE_LENGTH'', 79)],
      [(''MODEM_DIAG_AT_START_FRAME'', 80)],
      array_constants ''PPP_DIAGNOSTIC_MAGIC'' [80, 80, 80, 49],
      [(''PPP_DIAGNOSTIC_VERSION'', 22)],
      [(''PPP_DIAGNOSTIC_SIZE'', 511)],
      [(''PPP_DIAG_MAGIC'', 0)],
      [(''PPP_DIAG_VERSION'', 4)],
      [(''PPP_DIAG_SIZE'', 6)],
      [(''PPP_DIAG_SNAPSHOT_SEQUENCE'', 8)],
      [(''PPP_DIAG_RECEIVE_ENABLED'', 12)],
      [(''PPP_DIAG_RECEIVE_ACTIVE'', 13)],
      [(''PPP_DIAG_FRAME_READY'', 14)],
      [(''PPP_DIAG_RECEIVE_LAST_EVENT'', 15)],
      [(''PPP_DIAG_RECEIVE_LAST_INVALID_REASON'', 16)],
      [(''PPP_DIAG_DECODER_FLAGS'', 17)],
      [(''PPP_DIAG_TRANSMIT_ACTIVE'', 18)],
      [(''PPP_DIAG_TRANSMIT_STAGE'', 19)],
      [(''PPP_DIAG_TRANSMIT_ESCAPE_SECOND'', 20)],
      [(''PPP_DIAG_TRANSMIT_LAST_WIRE_BYTE'', 21)],
      [(''PPP_DIAG_LAST_PROTOCOL'', 22)],
      [(''PPP_DIAG_LAST_FRAME_LENGTH'', 24)],
      [(''PPP_DIAG_DECODER_LENGTH'', 26)],
      [(''PPP_DIAG_DECODER_FCS'', 28)],
      [(''PPP_DIAG_TRANSMIT_LENGTH'', 30)],
      [(''PPP_DIAG_TRANSMIT_POSITION'', 32)],
      [(''PPP_DIAG_TRANSMIT_FCS'', 34)],
      [(''PPP_DIAG_RECEIVE_BYTE_COUNT'', 36)],
      [(''PPP_DIAG_RECEIVE_FRAME_COUNT'', 40)],
      [(''PPP_DIAG_RECEIVE_FCS_ERROR_COUNT'', 44)],
      [(''PPP_DIAG_RECEIVE_INVALID_COUNT'', 48)],
      [(''PPP_DIAG_RECEIVE_OVERFLOW_COUNT'', 52)],
      [(''PPP_DIAG_RECEIVE_DRAIN_BUDGET_YIELD_COUNT'', 56)],
      [(''PPP_DIAG_TRANSMIT_WIRE_BYTE_COUNT'', 60)],
      [(''PPP_DIAG_TRANSMIT_FRAME_COUNT'', 64)],
      [(''PPP_DIAG_TRANSMIT_BACKPRESSURE_COUNT'', 68)],
      [(''PPP_DIAG_TRANSMIT_ABORT_COUNT'', 72)],
      [(''PPP_DIAG_LCP_STATE'', 76)],
      [(''PPP_DIAG_LCP_LAST_CODE'', 77)],
      [(''PPP_DIAG_LCP_LAST_IDENTIFIER'', 78)],
      [(''PPP_DIAG_LCP_LAST_ERROR'', 79)],
      [(''PPP_DIAG_LCP_REQUEST_IDENTIFIER'', 80)],
      [(''PPP_DIAG_LCP_RESTART_REMAINING'', 81)],
      [(''PPP_DIAG_LCP_PEER_FLAGS'', 82)],
      [(''PPP_DIAG_LCP_PENDING_ACTION'', 83)],
      [(''PPP_DIAG_LCP_PACKET_LENGTH'', 84)],
      [(''PPP_DIAG_LCP_PEER_MRU'', 86)],
      [(''PPP_DIAG_LCP_PEER_ACCM'', 88)],
      [(''PPP_DIAG_LCP_RECEIVE_COUNT'', 92)],
      [(''PPP_DIAG_LCP_TIMER_ACTIVE'', 96)],
      [(''PPP_DIAG_LCP_DEFERRED_REQUEST'', 97)],
      [(''PPP_DIAG_LCP_RESTART_DEADLINE'', 98)],
      [(''PPP_DIAG_LCP_PEER_MAGIC'', 100)],
      [(''PPP_DIAG_CARRIER_LOSS_COUNT'', 104)],
      [(''PPP_DIAG_CARRIER_TAIL_BYTE_COUNT'', 108)],
      [(''PPP_DIAG_PAP_STATE'', 112)],
      [(''PPP_DIAG_PAP_LAST_CODE'', 113)],
      [(''PPP_DIAG_PAP_LAST_IDENTIFIER'', 114)],
      [(''PPP_DIAG_PAP_LAST_ERROR'', 115)],
      [(''PPP_DIAG_PAP_REQUEST_IDENTIFIER'', 116)],
      [(''PPP_DIAG_PAP_NEXT_IDENTIFIER'', 117)],
      [(''PPP_DIAG_PAP_RESTART_REMAINING'', 118)],
      [(''PPP_DIAG_PAP_PENDING_ACTION'', 119)],
      [(''PPP_DIAG_PAP_TIMER_ACTIVE'', 120)],
      [(''PPP_DIAG_PAP_FAILURE'', 121)],
      [(''PPP_DIAG_PAP_PACKET_LENGTH'', 122)],
      [(''PPP_DIAG_PAP_RESTART_DEADLINE'', 124)],
      [(''PPP_DIAG_PAP_RECEIVE_COUNT'', 126)],
      [(''PPP_DIAG_PAP_TRANSMIT_COUNT'', 130)],
      [(''PPP_DIAG_IPCP_STATE'', 134)],
      [(''PPP_DIAG_IPCP_LAST_CODE'', 135)],
      [(''PPP_DIAG_IPCP_LAST_IDENTIFIER'', 136)],
      [(''PPP_DIAG_IPCP_LAST_ERROR'', 137)],
      [(''PPP_DIAG_IPCP_REQUEST_IDENTIFIER'', 138)],
      [(''PPP_DIAG_IPCP_RESTART_REMAINING'', 139)],
      [(''PPP_DIAG_IPCP_PENDING_ACTION'', 140)],
      [(''PPP_DIAG_IPCP_TIMER_ACTIVE'', 141)],
      [(''PPP_DIAG_IPCP_PACKET_LENGTH'', 142)],
      [(''PPP_DIAG_IPCP_RESTART_DEADLINE'', 144)],
      [(''PPP_DIAG_IPCP_RECEIVE_COUNT'', 146)],
      [(''PPP_DIAG_IPCP_TRANSMIT_COUNT'', 150)],
      [(''PPP_DIAG_IPCP_LOCAL_ADDRESS'', 154)],
      [(''PPP_DIAG_IPCP_PEER_ADDRESS'', 158)],
      [(''PPP_DIAG_IPCP_FLAGS'', 162)],
      [(''PPP_DIAG_IPCP_DEFERRED_REQUEST'', 163)],
      [(''PPP_DIAG_IPV4_LAST_ERROR'', 164)],
      [(''PPP_DIAG_IPV4_HEADER_LENGTH'', 165)],
      [(''PPP_DIAG_IPV4_PROTOCOL'', 166)],
      [(''PPP_DIAG_IPV4_TTL'', 167)],
      [(''PPP_DIAG_IPV4_TOTAL_LENGTH'', 168)],
      [(''PPP_DIAG_IPV4_PAYLOAD_LENGTH'', 170)],
      [(''PPP_DIAG_IPV4_IDENTIFICATION'', 172)],
      [(''PPP_DIAG_IPV4_FLAGS_FRAGMENT_OFFSET'', 174)],
      [(''PPP_DIAG_IPV4_HEADER_CHECKSUM'', 176)],
      [(''PPP_DIAG_IPV4_SOURCE_ADDRESS'', 178)],
      [(''PPP_DIAG_IPV4_DESTINATION_ADDRESS'', 182)],
      [(''PPP_DIAG_IPV4_RECEIVE_COUNT'', 186)],
      [(''PPP_DIAG_IPV4_ACCEPTED_COUNT'', 190)],
      [(''PPP_DIAG_IPV4_CHECKSUM_ERROR_COUNT'', 194)],
      [(''PPP_DIAG_IPV4_DROP_COUNT'', 198)],
      [(''PPP_DIAG_IPV4_TRANSMIT_COUNT'', 202)],
      [(''PPP_DIAG_IPV4_NEXT_IDENTIFICATION'', 206)],
      [(''PPP_DIAG_IPV4_FLAGS'', 208)],
      [(''PPP_DIAG_ICMP_LAST_ERROR'', 209)],
      [(''PPP_DIAG_ICMP_LAST_TYPE'', 210)],
      [(''PPP_DIAG_ICMP_LAST_CODE'', 211)],
      [(''PPP_DIAG_ICMP_FLAGS'', 212)],
      [(''PPP_DIAG_ICMP_IDENTIFIER'', 213)],
      [(''PPP_DIAG_ICMP_SEQUENCE'', 215)],
      [(''PPP_DIAG_ICMP_PAYLOAD_LENGTH'', 217)],
      [(''PPP_DIAG_ICMP_CHECKSUM'', 219)],
      [(''PPP_DIAG_ICMP_RECEIVE_COUNT'', 221)],
      [(''PPP_DIAG_ICMP_ECHO_REQUEST_COUNT'', 225)],
      [(''PPP_DIAG_ICMP_ECHO_REPLY_COUNT'', 229)],
      [(''PPP_DIAG_ICMP_CHECKSUM_ERROR_COUNT'', 233)],
      [(''PPP_DIAG_ICMP_DROP_COUNT'', 237)],
      [(''PPP_DIAG_ICMP_TRANSMIT_COUNT'', 241)],
      [(''PPP_DIAG_UDP_LAST_ERROR'', 245)],
      [(''PPP_DIAG_UDP_FLAGS'', 246)],
      [(''PPP_DIAG_UDP_SOURCE_PORT'', 247)],
      [(''PPP_DIAG_UDP_DESTINATION_PORT'', 249)],
      [(''PPP_DIAG_UDP_LENGTH'', 251)],
      [(''PPP_DIAG_UDP_PAYLOAD_LENGTH'', 253)],
      [(''PPP_DIAG_UDP_CHECKSUM'', 255)],
      [(''PPP_DIAG_UDP_RECEIVE_COUNT'', 257)],
      [(''PPP_DIAG_UDP_CHECKSUM_ERROR_COUNT'', 261)],
      [(''PPP_DIAG_UDP_DROP_COUNT'', 265)],
      [(''PPP_DIAG_UDP_TRANSMIT_COUNT'', 269)],
      [(''PPP_DIAG_NTP_STATE'', 273)],
      [(''PPP_DIAG_NTP_LAST_ERROR'', 274)],
      [(''PPP_DIAG_NTP_FLAGS'', 275)],
      [(''PPP_DIAG_NTP_VERSION'', 276)],
      [(''PPP_DIAG_NTP_LEAP_INDICATOR'', 277)],
      [(''PPP_DIAG_NTP_STRATUM'', 278)],
      [(''PPP_DIAG_NTP_POLL'', 279)],
      [(''PPP_DIAG_NTP_PRECISION'', 280)],
      [(''PPP_DIAG_NTP_REFERENCE_ID'', 281)],
      [(''PPP_DIAG_NTP_COOKIE_SECONDS'', 285)],
      [(''PPP_DIAG_NTP_COOKIE_FRACTION'', 289)],
      [(''PPP_DIAG_NTP_SERVER_RECEIVE_SECONDS'', 293)],
      [(''PPP_DIAG_NTP_SERVER_RECEIVE_FRACTION'', 297)],
      [(''PPP_DIAG_NTP_SERVER_TRANSMIT_SECONDS'', 301)],
      [(''PPP_DIAG_NTP_SERVER_TRANSMIT_FRACTION'', 305)],
      [(''PPP_DIAG_NTP_UNIX_SECONDS'', 309)],
      [(''PPP_DIAG_NTP_DEADLINE'', 313)],
      [(''PPP_DIAG_NTP_REQUEST_COUNT'', 315)],
      [(''PPP_DIAG_NTP_RESPONSE_COUNT'', 319)],
      [(''PPP_DIAG_NTP_DROP_COUNT'', 323)],
      [(''PPP_DIAG_NTP_TIMEOUT_COUNT'', 327)],
      [(''PPP_DIAG_ICMP_REQUEST_STATE'', 331)],
      [(''PPP_DIAG_ICMP_REQUEST_LAST_ERROR'', 332)],
      [(''PPP_DIAG_ICMP_REQUEST_FLAGS'', 333)],
      [(''PPP_DIAG_ICMP_REQUEST_DESTINATION'', 334)],
      [(''PPP_DIAG_ICMP_REQUEST_IDENTIFIER'', 338)],
      [(''PPP_DIAG_ICMP_REQUEST_SEQUENCE'', 340)],
      [(''PPP_DIAG_ICMP_REQUEST_DEADLINE'', 342)],
      [(''PPP_DIAG_ICMP_REQUEST_SENT_FRAME'', 344)],
      [(''PPP_DIAG_ICMP_REQUEST_RTT_FRAMES'', 346)],
      [(''PPP_DIAG_ICMP_REQUEST_COUNT'', 348)],
      [(''PPP_DIAG_ICMP_REQUEST_RESPONSE_COUNT'', 352)],
      [(''PPP_DIAG_ICMP_REQUEST_DROP_COUNT'', 356)],
      [(''PPP_DIAG_ICMP_REQUEST_TIMEOUT_COUNT'', 360)],
      [(''PPP_DIAG_DNS_STATE'', 364)],
      [(''PPP_DIAG_DNS_LAST_ERROR'', 365)],
      [(''PPP_DIAG_DNS_FLAGS'', 366)],
      [(''PPP_DIAG_DNS_RESPONSE_CODE'', 367)],
      [(''PPP_DIAG_DNS_RESOLVER'', 368)],
      [(''PPP_DIAG_DNS_TRANSACTION_ID'', 372)],
      [(''PPP_DIAG_DNS_ANSWER_COUNT'', 374)],
      [(''PPP_DIAG_DNS_ANSWER_ADDRESS'', 376)],
      [(''PPP_DIAG_DNS_DEADLINE'', 380)],
      [(''PPP_DIAG_DNS_SENT_FRAME'', 382)],
      [(''PPP_DIAG_DNS_RTT_FRAMES'', 384)],
      [(''PPP_DIAG_DNS_QUERY_COUNT'', 386)],
      [(''PPP_DIAG_DNS_RESPONSE_COUNT'', 390)],
      [(''PPP_DIAG_DNS_DROP_COUNT'', 394)],
      [(''PPP_DIAG_DNS_TIMEOUT_COUNT'', 398)],
      [(''PPP_DIAG_ICMP_INBOUND_STATE'', 402)],
      [(''PPP_DIAG_ICMP_INBOUND_LAST_ERROR'', 403)],
      [(''PPP_DIAG_ICMP_INBOUND_FLAGS'', 404)],
      [(''PPP_DIAG_ICMP_INBOUND_SOURCE'', 405)],
      [(''PPP_DIAG_ICMP_INBOUND_IDENTIFIER'', 409)],
      [(''PPP_DIAG_ICMP_INBOUND_SEQUENCE'', 411)],
      [(''PPP_DIAG_ICMP_INBOUND_PAYLOAD_LENGTH'', 413)],
      [(''PPP_DIAG_ICMP_INBOUND_REPLY_COUNT'', 415)],
      [(''PPP_DIAG_ICMP_INBOUND_DROP_COUNT'', 419)],
      [(''PPP_DIAG_IPCP_PRIMARY_DNS_ADDRESS'', 423)],
      [(''PPP_DIAG_IPCP_SECONDARY_DNS_ADDRESS'', 427)],
      [(''PPP_DIAG_LCP_TERMINATE_REQUEST_COUNT'', 431)],
      [(''PPP_DIAG_LCP_TERMINATE_ACK_COUNT'', 435)],
      [(''PPP_DIAG_LCP_PROTOCOL_REJECT_COUNT'', 439)],
      [(''PPP_DIAG_LCP_LAST_REJECTED_PROTOCOL'', 443)],
      [(''PPP_DIAG_LCP_REJECT_IDENTIFIER'', 445)],
      [(''PPP_DIAG_LCP_CODE_REJECT_COUNT'', 446)],
      [(''PPP_DIAG_LCP_LAST_REJECTED_CODE'', 450)],
      [(''PPP_DIAG_LCP_ECHO_REQUEST_COUNT'', 451)],
      [(''PPP_DIAG_LCP_ECHO_REPLY_COUNT'', 455)],
      [(''PPP_DIAG_LCP_ECHO_DROP_COUNT'', 459)],
      [(''PPP_DIAG_LCP_LAST_ECHO_IDENTIFIER'', 463)],
      [(''PPP_DIAG_LCP_LAST_ECHO_MAGIC'', 464)],
      [(''PPP_DIAG_LCP_ADMINISTRATIVE_OPEN'', 468)],
      [(''PPP_DIAG_LCP_LOCAL_TERMINATE_REQUEST_COUNT'', 469)],
      [(''PPP_DIAG_LCP_LOCAL_TERMINATE_ACK_COUNT'', 473)],
      [(''PPP_DIAG_LCP_LOCAL_TERMINATE_TIMEOUT_COUNT'', 477)],
      [(''PPP_DIAG_LCP_LOCAL_MAGIC'', 481)],
      [(''PPP_DIAG_LCP_LOCAL_FLAGS'', 485)],
      [(''PPP_DIAG_LCP_LOOPBACK_COUNT'', 486)],
      [(''PPP_DIAG_PAP_CREDENTIAL_FLAGS'', 490)],
      [(''PPP_DIAG_PAP_PEER_ID_LENGTH'', 491)],
      [(''PPP_DIAG_PAP_PASSWORD_LENGTH'', 492)],
      [(''PPP_DIAG_CHAP_STATE'', 493)],
      [(''PPP_DIAG_CHAP_LAST_CODE'', 494)],
      [(''PPP_DIAG_CHAP_LAST_IDENTIFIER'', 495)],
      [(''PPP_DIAG_CHAP_LAST_ERROR'', 496)],
      [(''PPP_DIAG_CHAP_RESPONSE_IDENTIFIER'', 497)],
      [(''PPP_DIAG_CHAP_FAILURE'', 498)],
      [(''PPP_DIAG_CHAP_CHALLENGE_LENGTH'', 499)],
      [(''PPP_DIAG_CHAP_PEER_NAME_LENGTH'', 500)],
      [(''PPP_DIAG_CHAP_PACKET_LENGTH'', 501)],
      [(''PPP_DIAG_CHAP_RECEIVE_COUNT'', 503)],
      [(''PPP_DIAG_CHAP_TRANSMIT_COUNT'', 507)],
      [(''MODEM_MAILBOX_OFFSET_MAGIC'', 0)],
      [(''MODEM_MAILBOX_OFFSET_VERSION'', 4)],
      [(''MODEM_MAILBOX_OFFSET_BLOCK_SIZE'', 6)],
      [(''MODEM_MAILBOX_OFFSET_HOST_SEQUENCE'', 8)],
      [(''MODEM_MAILBOX_OFFSET_PROCESSED_SEQUENCE'', 12)],
      [(''MODEM_MAILBOX_OFFSET_COMMAND'', 16)],
      [(''MODEM_MAILBOX_OFFSET_STATUS'', 17)],
      [(''MODEM_MAILBOX_OFFSET_RESULT'', 18)],
      [(''MODEM_MAILBOX_OFFSET_ARGUMENTS'', 20)],
      [(''MODEM_MAILBOX_OFFSET_OUTPUT'', 52)],
      [(''MODEM_MAILBOX_OFFSET_RESERVED'', 84)],
      array_constants ''MODEM_MAILBOX_MAGIC'' [78, 68, 77, 67],
      [(''MODEM_MAILBOX_VERSION'', 10)],
      [(''MODEM_MAILBOX_SIZE'', 96)],
      [(''MODEM_MAILBOX_ARGUMENT_SIZE'', 32)],
      [(''MODEM_STATE_AT_COMMAND'', 5)],
      [(''MODEM_STATE_CONNECTED'', 7)],
      [(''MODEM_STATE_DIALING'', 6)],
      [(''MODEM_STATE_DISCONNECTING'', 8)],
      [(''MODEM_STATE_ERROR'', 4)],
      [(''MODEM_STATE_OFF'', 0)],
      [(''MODEM_STATE_PROBING'', 2)],
      [(''MODEM_STATE_READY'', 3)],
      [(''MODEM_STATE_RESETTING'', 1)],
      [(''MODEM_FLAG_POLL_BUDGET_YIELD'', 1)],
      [(''MODEM_FLAG_RX_OVERFLOW'', 2)],
      [(''MODEM_FLAG_TIMEOUT'', 8)],
      [(''MODEM_FLAG_TRACE_OVERWRITE'', 16)],
      [(''MODEM_FLAG_TX_OVERFLOW'', 4)],
      [(''MODEM_DISCARD_FULL_REPORT'', 1)],
      [(''MODEM_DISCARD_NO_DATA'', 3)],
      [(''MODEM_DISCARD_NONE'', 0)],
      [(''MODEM_DISCARD_RX_OVERFLOW'', 4)],
      [(''MODEM_DISCARD_STATUS_NOT_READY'', 2)],
      [(''MODEM_TRACE_ERROR'', 7)],
      [(''MODEM_TRACE_NONE'', 0)],
      [(''MODEM_TRACE_POLL16'', 1)],
      [(''MODEM_TRACE_RX_ACCEPTED'', 3)],
      [(''MODEM_TRACE_RX_DISCARDED'', 4)],
      [(''MODEM_TRACE_STATE'', 6)],
      [(''MODEM_TRACE_TRANSFER9'', 2)],
      [(''MODEM_TRACE_TX'', 5)],
      [(''MODEM_MAILBOX_COMMAND_AT_TRANSACTION'', 6)],
      [(''MODEM_MAILBOX_COMMAND_BINARY_PRBS_RECEIVE'', 22)],
      [(''MODEM_MAILBOX_COMMAND_BINARY_PRBS_TRANSMIT'', 21)],
      [(''MODEM_MAILBOX_COMMAND_BINARY_RECEIVE'', 8)],
      [(''MODEM_MAILBOX_COMMAND_BINARY_STRESS_TRANSMIT'', 9)],
      [(''MODEM_MAILBOX_COMMAND_BINARY_TRANSMIT'', 7)],
      [(''MODEM_MAILBOX_COMMAND_CLEAR_TRACE'', 3)],
      [(''MODEM_MAILBOX_COMMAND_DNS_QUERY'', 15)],
      [(''MODEM_MAILBOX_COMMAND_FREEZE_TRACE'', 4)],
      [(''MODEM_MAILBOX_COMMAND_ICMP_ECHO_REQUEST'', 14)],
      [(''MODEM_MAILBOX_COMMAND_INITIALIZE'', 1)],
      [(''MODEM_MAILBOX_COMMAND_NONE'', 0)],
      [(''MODEM_MAILBOX_COMMAND_NTP_REQUEST'', 13)],
      [(''MODEM_MAILBOX_COMMAND_PAP_CREDENTIALS_CLEAR'', 18)],
      [(''MODEM_MAILBOX_COMMAND_PAP_PASSWORD_SET'', 20)],
      [(''MODEM_MAILBOX_COMMAND_PAP_PEER_ID_SET'', 19)],
      [(''MODEM_MAILBOX_COMMAND_PPP_CLOSE'', 16)],
      [(''MODEM_MAILBOX_COMMAND_PPP_OPEN'', 17)],
      [(''MODEM_MAILBOX_COMMAND_PPP_RECEIVE_START'', 11)],
      [(''MODEM_MAILBOX_COMMAND_PPP_RECEIVE_STOP'', 12)],
      [(''MODEM_MAILBOX_COMMAND_PPP_SELF_TEST'', 10)],
      [(''MODEM_MAILBOX_COMMAND_QUICK_TEST'', 2)],
      [(''MODEM_MAILBOX_COMMAND_RESUME_TRACE'', 5)],
      [(''MODEM_MAILBOX_STATUS_FAILED'', 4)],
      [(''MODEM_MAILBOX_STATUS_IDLE'', 0)],
      [(''MODEM_MAILBOX_STATUS_PASSED'', 3)],
      [(''MODEM_MAILBOX_STATUS_PENDING'', 1)],
      [(''MODEM_MAILBOX_STATUS_RUNNING'', 2)]]"

text \<open>The constants as the decoders use them.\<close>

definition decoder_constants :: "(string \<times> nat) list" where
  "decoder_constants =
    concat
     [[(''MODEM_RX_PRESENT_ASSERTED'', MODEM_RX_PRESENT_ASSERTED)],
      [(''MODEM_RX_PRESENT_MASK'', MODEM_RX_PRESENT_MASK)],
      [(''MODEM_STATUS_TRANSFER_HINT_MASK'', MODEM_STATUS_TRANSFER_HINT_MASK)],
      [(''MODEM_RING_STORAGE_SIZE'', MODEM_RING_STORAGE_SIZE)],
      magic_constants ''MODEM_DIAGNOSTIC_MAGIC'' MODEM_DIAGNOSTIC_MAGIC,
      [(''MODEM_DIAGNOSTIC_VERSION'', unat MODEM_DIAGNOSTIC_VERSION)],
      [(''MODEM_DIAGNOSTIC_SIZE'', MODEM_DIAGNOSTIC_SIZE)],
      [(''MODEM_TRACE_EVENT_SIZE'', MODEM_TRACE_EVENT_SIZE)],
      [(''MODEM_DIAG_MAGIC'', MODEM_DIAG_MAGIC)],
      [(''MODEM_DIAG_VERSION'', MODEM_DIAG_VERSION)],
      [(''MODEM_DIAG_SIZE'', MODEM_DIAG_SIZE)],
      [(''MODEM_DIAG_SNAPSHOT_SEQUENCE'', MODEM_DIAG_SNAPSHOT_SEQUENCE)],
      [(''MODEM_DIAG_DRIVER_STATE'', MODEM_DIAG_DRIVER_STATE)],
      [(''MODEM_DIAG_FLAGS'', MODEM_DIAG_FLAGS)],
      [(''MODEM_DIAG_LAST_ERROR'', MODEM_DIAG_LAST_ERROR)],
      [(''MODEM_DIAG_LAST_DISCARD_REASON'', MODEM_DIAG_LAST_DISCARD_REASON)],
      [(''MODEM_DIAG_POLL_TICK'', MODEM_DIAG_POLL_TICK)],
      [(''MODEM_DIAG_TRACE_FROZEN'', MODEM_DIAG_TRACE_FROZEN)],
      [(''MODEM_DIAG_RX_READ_INDEX'', MODEM_DIAG_RX_READ_INDEX)],
      [(''MODEM_DIAG_RX_WRITE_INDEX'', MODEM_DIAG_RX_WRITE_INDEX)],
      [(''MODEM_DIAG_TX_READ_INDEX'', MODEM_DIAG_TX_READ_INDEX)],
      [(''MODEM_DIAG_TX_WRITE_INDEX'', MODEM_DIAG_TX_WRITE_INDEX)],
      [(''MODEM_DIAG_LAST_RX_BYTE'', MODEM_DIAG_LAST_RX_BYTE)],
      [(''MODEM_DIAG_LAST_TX_BYTE'', MODEM_DIAG_LAST_TX_BYTE)],
      [(''MODEM_DIAG_LAST_DATA_REPORT'', MODEM_DIAG_LAST_DATA_REPORT)],
      [(''MODEM_DIAG_LAST_STATUS_REPORT'', MODEM_DIAG_LAST_STATUS_REPORT)],
      [(''MODEM_DIAG_TRACE_NEXT_SEQUENCE'', MODEM_DIAG_TRACE_NEXT_SEQUENCE)],
      [(''MODEM_DIAG_RX_ACCEPTED'', MODEM_DIAG_RX_ACCEPTED)],
      [(''MODEM_DIAG_RX_DISCARDED'', MODEM_DIAG_RX_DISCARDED)],
      [(''MODEM_DIAG_TX_BYTES'', MODEM_DIAG_TX_BYTES)],
      [(''MODEM_DIAG_RX_OVERFLOW'', MODEM_DIAG_RX_OVERFLOW)],
      [(''MODEM_DIAG_TX_OVERFLOW'', MODEM_DIAG_TX_OVERFLOW)],
      [(''MODEM_DIAG_POLL_BUDGET_YIELD'', MODEM_DIAG_POLL_BUDGET_YIELD)],
      [(''MODEM_DIAG_TIMEOUT'', MODEM_DIAG_TIMEOUT)],
      [(''MODEM_DIAG_REINITIALIZE'', MODEM_DIAG_REINITIALIZE)],
      [(''MODEM_DIAG_TRACE_OVERWRITTEN'', MODEM_DIAG_TRACE_OVERWRITTEN)],
      [(''MODEM_DIAG_RESET_START_FRAME'', MODEM_DIAG_RESET_START_FRAME)],
      [(''MODEM_DIAG_TERMINAL_DROPPED'', MODEM_DIAG_TERMINAL_DROPPED)],
      [(''MODEM_DIAG_AT_STATUS'', MODEM_DIAG_AT_STATUS)],
      [(''MODEM_DIAG_AT_EXPECTED_RESULT'', MODEM_DIAG_AT_EXPECTED_RESULT)],
      [(''MODEM_DIAG_SESSION_LAST_RESULT'', MODEM_DIAG_SESSION_LAST_RESULT)],
      [(''MODEM_DIAG_SESSION_LINE_LENGTH'', MODEM_DIAG_SESSION_LINE_LENGTH)],
      [(''MODEM_DIAG_AT_START_FRAME'', MODEM_DIAG_AT_START_FRAME)],
      magic_constants ''PPP_DIAGNOSTIC_MAGIC'' PPP_DIAGNOSTIC_MAGIC,
      [(''PPP_DIAGNOSTIC_VERSION'', unat PPP_DIAGNOSTIC_VERSION)],
      [(''PPP_DIAGNOSTIC_SIZE'', PPP_DIAGNOSTIC_SIZE)],
      [(''PPP_DIAG_MAGIC'', PPP_DIAG_MAGIC)],
      [(''PPP_DIAG_VERSION'', PPP_DIAG_VERSION)],
      [(''PPP_DIAG_SIZE'', PPP_DIAG_SIZE)],
      [(''PPP_DIAG_SNAPSHOT_SEQUENCE'', PPP_DIAG_SNAPSHOT_SEQUENCE)],
      [(''PPP_DIAG_RECEIVE_ENABLED'', PPP_DIAG_RECEIVE_ENABLED)],
      [(''PPP_DIAG_RECEIVE_ACTIVE'', PPP_DIAG_RECEIVE_ACTIVE)],
      [(''PPP_DIAG_FRAME_READY'', PPP_DIAG_FRAME_READY)],
      [(''PPP_DIAG_RECEIVE_LAST_EVENT'', PPP_DIAG_RECEIVE_LAST_EVENT)],
      [(''PPP_DIAG_RECEIVE_LAST_INVALID_REASON'', PPP_DIAG_RECEIVE_LAST_INVALID_REASON)],
      [(''PPP_DIAG_DECODER_FLAGS'', PPP_DIAG_DECODER_FLAGS)],
      [(''PPP_DIAG_TRANSMIT_ACTIVE'', PPP_DIAG_TRANSMIT_ACTIVE)],
      [(''PPP_DIAG_TRANSMIT_STAGE'', PPP_DIAG_TRANSMIT_STAGE)],
      [(''PPP_DIAG_TRANSMIT_ESCAPE_SECOND'', PPP_DIAG_TRANSMIT_ESCAPE_SECOND)],
      [(''PPP_DIAG_TRANSMIT_LAST_WIRE_BYTE'', PPP_DIAG_TRANSMIT_LAST_WIRE_BYTE)],
      [(''PPP_DIAG_LAST_PROTOCOL'', PPP_DIAG_LAST_PROTOCOL)],
      [(''PPP_DIAG_LAST_FRAME_LENGTH'', PPP_DIAG_LAST_FRAME_LENGTH)],
      [(''PPP_DIAG_DECODER_LENGTH'', PPP_DIAG_DECODER_LENGTH)],
      [(''PPP_DIAG_DECODER_FCS'', PPP_DIAG_DECODER_FCS)],
      [(''PPP_DIAG_TRANSMIT_LENGTH'', PPP_DIAG_TRANSMIT_LENGTH)],
      [(''PPP_DIAG_TRANSMIT_POSITION'', PPP_DIAG_TRANSMIT_POSITION)],
      [(''PPP_DIAG_TRANSMIT_FCS'', PPP_DIAG_TRANSMIT_FCS)],
      [(''PPP_DIAG_RECEIVE_BYTE_COUNT'', PPP_DIAG_RECEIVE_BYTE_COUNT)],
      [(''PPP_DIAG_RECEIVE_FRAME_COUNT'', PPP_DIAG_RECEIVE_FRAME_COUNT)],
      [(''PPP_DIAG_RECEIVE_FCS_ERROR_COUNT'', PPP_DIAG_RECEIVE_FCS_ERROR_COUNT)],
      [(''PPP_DIAG_RECEIVE_INVALID_COUNT'', PPP_DIAG_RECEIVE_INVALID_COUNT)],
      [(''PPP_DIAG_RECEIVE_OVERFLOW_COUNT'', PPP_DIAG_RECEIVE_OVERFLOW_COUNT)],
      [(''PPP_DIAG_RECEIVE_DRAIN_BUDGET_YIELD_COUNT'', PPP_DIAG_RECEIVE_DRAIN_BUDGET_YIELD_COUNT)],
      [(''PPP_DIAG_TRANSMIT_WIRE_BYTE_COUNT'', PPP_DIAG_TRANSMIT_WIRE_BYTE_COUNT)],
      [(''PPP_DIAG_TRANSMIT_FRAME_COUNT'', PPP_DIAG_TRANSMIT_FRAME_COUNT)],
      [(''PPP_DIAG_TRANSMIT_BACKPRESSURE_COUNT'', PPP_DIAG_TRANSMIT_BACKPRESSURE_COUNT)],
      [(''PPP_DIAG_TRANSMIT_ABORT_COUNT'', PPP_DIAG_TRANSMIT_ABORT_COUNT)],
      [(''PPP_DIAG_LCP_STATE'', PPP_DIAG_LCP_STATE)],
      [(''PPP_DIAG_LCP_LAST_CODE'', PPP_DIAG_LCP_LAST_CODE)],
      [(''PPP_DIAG_LCP_LAST_IDENTIFIER'', PPP_DIAG_LCP_LAST_IDENTIFIER)],
      [(''PPP_DIAG_LCP_LAST_ERROR'', PPP_DIAG_LCP_LAST_ERROR)],
      [(''PPP_DIAG_LCP_REQUEST_IDENTIFIER'', PPP_DIAG_LCP_REQUEST_IDENTIFIER)],
      [(''PPP_DIAG_LCP_RESTART_REMAINING'', PPP_DIAG_LCP_RESTART_REMAINING)],
      [(''PPP_DIAG_LCP_PEER_FLAGS'', PPP_DIAG_LCP_PEER_FLAGS)],
      [(''PPP_DIAG_LCP_PENDING_ACTION'', PPP_DIAG_LCP_PENDING_ACTION)],
      [(''PPP_DIAG_LCP_PACKET_LENGTH'', PPP_DIAG_LCP_PACKET_LENGTH)],
      [(''PPP_DIAG_LCP_PEER_MRU'', PPP_DIAG_LCP_PEER_MRU)],
      [(''PPP_DIAG_LCP_PEER_ACCM'', PPP_DIAG_LCP_PEER_ACCM)],
      [(''PPP_DIAG_LCP_RECEIVE_COUNT'', PPP_DIAG_LCP_RECEIVE_COUNT)],
      [(''PPP_DIAG_LCP_TIMER_ACTIVE'', PPP_DIAG_LCP_TIMER_ACTIVE)],
      [(''PPP_DIAG_LCP_DEFERRED_REQUEST'', PPP_DIAG_LCP_DEFERRED_REQUEST)],
      [(''PPP_DIAG_LCP_RESTART_DEADLINE'', PPP_DIAG_LCP_RESTART_DEADLINE)],
      [(''PPP_DIAG_LCP_PEER_MAGIC'', PPP_DIAG_LCP_PEER_MAGIC)],
      [(''PPP_DIAG_CARRIER_LOSS_COUNT'', PPP_DIAG_CARRIER_LOSS_COUNT)],
      [(''PPP_DIAG_CARRIER_TAIL_BYTE_COUNT'', PPP_DIAG_CARRIER_TAIL_BYTE_COUNT)],
      [(''PPP_DIAG_PAP_STATE'', PPP_DIAG_PAP_STATE)],
      [(''PPP_DIAG_PAP_LAST_CODE'', PPP_DIAG_PAP_LAST_CODE)],
      [(''PPP_DIAG_PAP_LAST_IDENTIFIER'', PPP_DIAG_PAP_LAST_IDENTIFIER)],
      [(''PPP_DIAG_PAP_LAST_ERROR'', PPP_DIAG_PAP_LAST_ERROR)],
      [(''PPP_DIAG_PAP_REQUEST_IDENTIFIER'', PPP_DIAG_PAP_REQUEST_IDENTIFIER)],
      [(''PPP_DIAG_PAP_NEXT_IDENTIFIER'', PPP_DIAG_PAP_NEXT_IDENTIFIER)],
      [(''PPP_DIAG_PAP_RESTART_REMAINING'', PPP_DIAG_PAP_RESTART_REMAINING)],
      [(''PPP_DIAG_PAP_PENDING_ACTION'', PPP_DIAG_PAP_PENDING_ACTION)],
      [(''PPP_DIAG_PAP_TIMER_ACTIVE'', PPP_DIAG_PAP_TIMER_ACTIVE)],
      [(''PPP_DIAG_PAP_FAILURE'', PPP_DIAG_PAP_FAILURE)],
      [(''PPP_DIAG_PAP_PACKET_LENGTH'', PPP_DIAG_PAP_PACKET_LENGTH)],
      [(''PPP_DIAG_PAP_RESTART_DEADLINE'', PPP_DIAG_PAP_RESTART_DEADLINE)],
      [(''PPP_DIAG_PAP_RECEIVE_COUNT'', PPP_DIAG_PAP_RECEIVE_COUNT)],
      [(''PPP_DIAG_PAP_TRANSMIT_COUNT'', PPP_DIAG_PAP_TRANSMIT_COUNT)],
      [(''PPP_DIAG_IPCP_STATE'', PPP_DIAG_IPCP_STATE)],
      [(''PPP_DIAG_IPCP_LAST_CODE'', PPP_DIAG_IPCP_LAST_CODE)],
      [(''PPP_DIAG_IPCP_LAST_IDENTIFIER'', PPP_DIAG_IPCP_LAST_IDENTIFIER)],
      [(''PPP_DIAG_IPCP_LAST_ERROR'', PPP_DIAG_IPCP_LAST_ERROR)],
      [(''PPP_DIAG_IPCP_REQUEST_IDENTIFIER'', PPP_DIAG_IPCP_REQUEST_IDENTIFIER)],
      [(''PPP_DIAG_IPCP_RESTART_REMAINING'', PPP_DIAG_IPCP_RESTART_REMAINING)],
      [(''PPP_DIAG_IPCP_PENDING_ACTION'', PPP_DIAG_IPCP_PENDING_ACTION)],
      [(''PPP_DIAG_IPCP_TIMER_ACTIVE'', PPP_DIAG_IPCP_TIMER_ACTIVE)],
      [(''PPP_DIAG_IPCP_PACKET_LENGTH'', PPP_DIAG_IPCP_PACKET_LENGTH)],
      [(''PPP_DIAG_IPCP_RESTART_DEADLINE'', PPP_DIAG_IPCP_RESTART_DEADLINE)],
      [(''PPP_DIAG_IPCP_RECEIVE_COUNT'', PPP_DIAG_IPCP_RECEIVE_COUNT)],
      [(''PPP_DIAG_IPCP_TRANSMIT_COUNT'', PPP_DIAG_IPCP_TRANSMIT_COUNT)],
      [(''PPP_DIAG_IPCP_LOCAL_ADDRESS'', PPP_DIAG_IPCP_LOCAL_ADDRESS)],
      [(''PPP_DIAG_IPCP_PEER_ADDRESS'', PPP_DIAG_IPCP_PEER_ADDRESS)],
      [(''PPP_DIAG_IPCP_FLAGS'', PPP_DIAG_IPCP_FLAGS)],
      [(''PPP_DIAG_IPCP_DEFERRED_REQUEST'', PPP_DIAG_IPCP_DEFERRED_REQUEST)],
      [(''PPP_DIAG_IPV4_LAST_ERROR'', PPP_DIAG_IPV4_LAST_ERROR)],
      [(''PPP_DIAG_IPV4_HEADER_LENGTH'', PPP_DIAG_IPV4_HEADER_LENGTH)],
      [(''PPP_DIAG_IPV4_PROTOCOL'', PPP_DIAG_IPV4_PROTOCOL)],
      [(''PPP_DIAG_IPV4_TTL'', PPP_DIAG_IPV4_TTL)],
      [(''PPP_DIAG_IPV4_TOTAL_LENGTH'', PPP_DIAG_IPV4_TOTAL_LENGTH)],
      [(''PPP_DIAG_IPV4_PAYLOAD_LENGTH'', PPP_DIAG_IPV4_PAYLOAD_LENGTH)],
      [(''PPP_DIAG_IPV4_IDENTIFICATION'', PPP_DIAG_IPV4_IDENTIFICATION)],
      [(''PPP_DIAG_IPV4_FLAGS_FRAGMENT_OFFSET'', PPP_DIAG_IPV4_FLAGS_FRAGMENT_OFFSET)],
      [(''PPP_DIAG_IPV4_HEADER_CHECKSUM'', PPP_DIAG_IPV4_HEADER_CHECKSUM)],
      [(''PPP_DIAG_IPV4_SOURCE_ADDRESS'', PPP_DIAG_IPV4_SOURCE_ADDRESS)],
      [(''PPP_DIAG_IPV4_DESTINATION_ADDRESS'', PPP_DIAG_IPV4_DESTINATION_ADDRESS)],
      [(''PPP_DIAG_IPV4_RECEIVE_COUNT'', PPP_DIAG_IPV4_RECEIVE_COUNT)],
      [(''PPP_DIAG_IPV4_ACCEPTED_COUNT'', PPP_DIAG_IPV4_ACCEPTED_COUNT)],
      [(''PPP_DIAG_IPV4_CHECKSUM_ERROR_COUNT'', PPP_DIAG_IPV4_CHECKSUM_ERROR_COUNT)],
      [(''PPP_DIAG_IPV4_DROP_COUNT'', PPP_DIAG_IPV4_DROP_COUNT)],
      [(''PPP_DIAG_IPV4_TRANSMIT_COUNT'', PPP_DIAG_IPV4_TRANSMIT_COUNT)],
      [(''PPP_DIAG_IPV4_NEXT_IDENTIFICATION'', PPP_DIAG_IPV4_NEXT_IDENTIFICATION)],
      [(''PPP_DIAG_IPV4_FLAGS'', PPP_DIAG_IPV4_FLAGS)],
      [(''PPP_DIAG_ICMP_LAST_ERROR'', PPP_DIAG_ICMP_LAST_ERROR)],
      [(''PPP_DIAG_ICMP_LAST_TYPE'', PPP_DIAG_ICMP_LAST_TYPE)],
      [(''PPP_DIAG_ICMP_LAST_CODE'', PPP_DIAG_ICMP_LAST_CODE)],
      [(''PPP_DIAG_ICMP_FLAGS'', PPP_DIAG_ICMP_FLAGS)],
      [(''PPP_DIAG_ICMP_IDENTIFIER'', PPP_DIAG_ICMP_IDENTIFIER)],
      [(''PPP_DIAG_ICMP_SEQUENCE'', PPP_DIAG_ICMP_SEQUENCE)],
      [(''PPP_DIAG_ICMP_PAYLOAD_LENGTH'', PPP_DIAG_ICMP_PAYLOAD_LENGTH)],
      [(''PPP_DIAG_ICMP_CHECKSUM'', PPP_DIAG_ICMP_CHECKSUM)],
      [(''PPP_DIAG_ICMP_RECEIVE_COUNT'', PPP_DIAG_ICMP_RECEIVE_COUNT)],
      [(''PPP_DIAG_ICMP_ECHO_REQUEST_COUNT'', PPP_DIAG_ICMP_ECHO_REQUEST_COUNT)],
      [(''PPP_DIAG_ICMP_ECHO_REPLY_COUNT'', PPP_DIAG_ICMP_ECHO_REPLY_COUNT)],
      [(''PPP_DIAG_ICMP_CHECKSUM_ERROR_COUNT'', PPP_DIAG_ICMP_CHECKSUM_ERROR_COUNT)],
      [(''PPP_DIAG_ICMP_DROP_COUNT'', PPP_DIAG_ICMP_DROP_COUNT)],
      [(''PPP_DIAG_ICMP_TRANSMIT_COUNT'', PPP_DIAG_ICMP_TRANSMIT_COUNT)],
      [(''PPP_DIAG_UDP_LAST_ERROR'', PPP_DIAG_UDP_LAST_ERROR)],
      [(''PPP_DIAG_UDP_FLAGS'', PPP_DIAG_UDP_FLAGS)],
      [(''PPP_DIAG_UDP_SOURCE_PORT'', PPP_DIAG_UDP_SOURCE_PORT)],
      [(''PPP_DIAG_UDP_DESTINATION_PORT'', PPP_DIAG_UDP_DESTINATION_PORT)],
      [(''PPP_DIAG_UDP_LENGTH'', PPP_DIAG_UDP_LENGTH)],
      [(''PPP_DIAG_UDP_PAYLOAD_LENGTH'', PPP_DIAG_UDP_PAYLOAD_LENGTH)],
      [(''PPP_DIAG_UDP_CHECKSUM'', PPP_DIAG_UDP_CHECKSUM)],
      [(''PPP_DIAG_UDP_RECEIVE_COUNT'', PPP_DIAG_UDP_RECEIVE_COUNT)],
      [(''PPP_DIAG_UDP_CHECKSUM_ERROR_COUNT'', PPP_DIAG_UDP_CHECKSUM_ERROR_COUNT)],
      [(''PPP_DIAG_UDP_DROP_COUNT'', PPP_DIAG_UDP_DROP_COUNT)],
      [(''PPP_DIAG_UDP_TRANSMIT_COUNT'', PPP_DIAG_UDP_TRANSMIT_COUNT)],
      [(''PPP_DIAG_NTP_STATE'', PPP_DIAG_NTP_STATE)],
      [(''PPP_DIAG_NTP_LAST_ERROR'', PPP_DIAG_NTP_LAST_ERROR)],
      [(''PPP_DIAG_NTP_FLAGS'', PPP_DIAG_NTP_FLAGS)],
      [(''PPP_DIAG_NTP_VERSION'', PPP_DIAG_NTP_VERSION)],
      [(''PPP_DIAG_NTP_LEAP_INDICATOR'', PPP_DIAG_NTP_LEAP_INDICATOR)],
      [(''PPP_DIAG_NTP_STRATUM'', PPP_DIAG_NTP_STRATUM)],
      [(''PPP_DIAG_NTP_POLL'', PPP_DIAG_NTP_POLL)],
      [(''PPP_DIAG_NTP_PRECISION'', PPP_DIAG_NTP_PRECISION)],
      [(''PPP_DIAG_NTP_REFERENCE_ID'', PPP_DIAG_NTP_REFERENCE_ID)],
      [(''PPP_DIAG_NTP_COOKIE_SECONDS'', PPP_DIAG_NTP_COOKIE_SECONDS)],
      [(''PPP_DIAG_NTP_COOKIE_FRACTION'', PPP_DIAG_NTP_COOKIE_FRACTION)],
      [(''PPP_DIAG_NTP_SERVER_RECEIVE_SECONDS'', PPP_DIAG_NTP_SERVER_RECEIVE_SECONDS)],
      [(''PPP_DIAG_NTP_SERVER_RECEIVE_FRACTION'', PPP_DIAG_NTP_SERVER_RECEIVE_FRACTION)],
      [(''PPP_DIAG_NTP_SERVER_TRANSMIT_SECONDS'', PPP_DIAG_NTP_SERVER_TRANSMIT_SECONDS)],
      [(''PPP_DIAG_NTP_SERVER_TRANSMIT_FRACTION'', PPP_DIAG_NTP_SERVER_TRANSMIT_FRACTION)],
      [(''PPP_DIAG_NTP_UNIX_SECONDS'', PPP_DIAG_NTP_UNIX_SECONDS)],
      [(''PPP_DIAG_NTP_DEADLINE'', PPP_DIAG_NTP_DEADLINE)],
      [(''PPP_DIAG_NTP_REQUEST_COUNT'', PPP_DIAG_NTP_REQUEST_COUNT)],
      [(''PPP_DIAG_NTP_RESPONSE_COUNT'', PPP_DIAG_NTP_RESPONSE_COUNT)],
      [(''PPP_DIAG_NTP_DROP_COUNT'', PPP_DIAG_NTP_DROP_COUNT)],
      [(''PPP_DIAG_NTP_TIMEOUT_COUNT'', PPP_DIAG_NTP_TIMEOUT_COUNT)],
      [(''PPP_DIAG_ICMP_REQUEST_STATE'', PPP_DIAG_ICMP_REQUEST_STATE)],
      [(''PPP_DIAG_ICMP_REQUEST_LAST_ERROR'', PPP_DIAG_ICMP_REQUEST_LAST_ERROR)],
      [(''PPP_DIAG_ICMP_REQUEST_FLAGS'', PPP_DIAG_ICMP_REQUEST_FLAGS)],
      [(''PPP_DIAG_ICMP_REQUEST_DESTINATION'', PPP_DIAG_ICMP_REQUEST_DESTINATION)],
      [(''PPP_DIAG_ICMP_REQUEST_IDENTIFIER'', PPP_DIAG_ICMP_REQUEST_IDENTIFIER)],
      [(''PPP_DIAG_ICMP_REQUEST_SEQUENCE'', PPP_DIAG_ICMP_REQUEST_SEQUENCE)],
      [(''PPP_DIAG_ICMP_REQUEST_DEADLINE'', PPP_DIAG_ICMP_REQUEST_DEADLINE)],
      [(''PPP_DIAG_ICMP_REQUEST_SENT_FRAME'', PPP_DIAG_ICMP_REQUEST_SENT_FRAME)],
      [(''PPP_DIAG_ICMP_REQUEST_RTT_FRAMES'', PPP_DIAG_ICMP_REQUEST_RTT_FRAMES)],
      [(''PPP_DIAG_ICMP_REQUEST_COUNT'', PPP_DIAG_ICMP_REQUEST_COUNT)],
      [(''PPP_DIAG_ICMP_REQUEST_RESPONSE_COUNT'', PPP_DIAG_ICMP_REQUEST_RESPONSE_COUNT)],
      [(''PPP_DIAG_ICMP_REQUEST_DROP_COUNT'', PPP_DIAG_ICMP_REQUEST_DROP_COUNT)],
      [(''PPP_DIAG_ICMP_REQUEST_TIMEOUT_COUNT'', PPP_DIAG_ICMP_REQUEST_TIMEOUT_COUNT)],
      [(''PPP_DIAG_DNS_STATE'', PPP_DIAG_DNS_STATE)],
      [(''PPP_DIAG_DNS_LAST_ERROR'', PPP_DIAG_DNS_LAST_ERROR)],
      [(''PPP_DIAG_DNS_FLAGS'', PPP_DIAG_DNS_FLAGS)],
      [(''PPP_DIAG_DNS_RESPONSE_CODE'', PPP_DIAG_DNS_RESPONSE_CODE)],
      [(''PPP_DIAG_DNS_RESOLVER'', PPP_DIAG_DNS_RESOLVER)],
      [(''PPP_DIAG_DNS_TRANSACTION_ID'', PPP_DIAG_DNS_TRANSACTION_ID)],
      [(''PPP_DIAG_DNS_ANSWER_COUNT'', PPP_DIAG_DNS_ANSWER_COUNT)],
      [(''PPP_DIAG_DNS_ANSWER_ADDRESS'', PPP_DIAG_DNS_ANSWER_ADDRESS)],
      [(''PPP_DIAG_DNS_DEADLINE'', PPP_DIAG_DNS_DEADLINE)],
      [(''PPP_DIAG_DNS_SENT_FRAME'', PPP_DIAG_DNS_SENT_FRAME)],
      [(''PPP_DIAG_DNS_RTT_FRAMES'', PPP_DIAG_DNS_RTT_FRAMES)],
      [(''PPP_DIAG_DNS_QUERY_COUNT'', PPP_DIAG_DNS_QUERY_COUNT)],
      [(''PPP_DIAG_DNS_RESPONSE_COUNT'', PPP_DIAG_DNS_RESPONSE_COUNT)],
      [(''PPP_DIAG_DNS_DROP_COUNT'', PPP_DIAG_DNS_DROP_COUNT)],
      [(''PPP_DIAG_DNS_TIMEOUT_COUNT'', PPP_DIAG_DNS_TIMEOUT_COUNT)],
      [(''PPP_DIAG_ICMP_INBOUND_STATE'', PPP_DIAG_ICMP_INBOUND_STATE)],
      [(''PPP_DIAG_ICMP_INBOUND_LAST_ERROR'', PPP_DIAG_ICMP_INBOUND_LAST_ERROR)],
      [(''PPP_DIAG_ICMP_INBOUND_FLAGS'', PPP_DIAG_ICMP_INBOUND_FLAGS)],
      [(''PPP_DIAG_ICMP_INBOUND_SOURCE'', PPP_DIAG_ICMP_INBOUND_SOURCE)],
      [(''PPP_DIAG_ICMP_INBOUND_IDENTIFIER'', PPP_DIAG_ICMP_INBOUND_IDENTIFIER)],
      [(''PPP_DIAG_ICMP_INBOUND_SEQUENCE'', PPP_DIAG_ICMP_INBOUND_SEQUENCE)],
      [(''PPP_DIAG_ICMP_INBOUND_PAYLOAD_LENGTH'', PPP_DIAG_ICMP_INBOUND_PAYLOAD_LENGTH)],
      [(''PPP_DIAG_ICMP_INBOUND_REPLY_COUNT'', PPP_DIAG_ICMP_INBOUND_REPLY_COUNT)],
      [(''PPP_DIAG_ICMP_INBOUND_DROP_COUNT'', PPP_DIAG_ICMP_INBOUND_DROP_COUNT)],
      [(''PPP_DIAG_IPCP_PRIMARY_DNS_ADDRESS'', PPP_DIAG_IPCP_PRIMARY_DNS_ADDRESS)],
      [(''PPP_DIAG_IPCP_SECONDARY_DNS_ADDRESS'', PPP_DIAG_IPCP_SECONDARY_DNS_ADDRESS)],
      [(''PPP_DIAG_LCP_TERMINATE_REQUEST_COUNT'', PPP_DIAG_LCP_TERMINATE_REQUEST_COUNT)],
      [(''PPP_DIAG_LCP_TERMINATE_ACK_COUNT'', PPP_DIAG_LCP_TERMINATE_ACK_COUNT)],
      [(''PPP_DIAG_LCP_PROTOCOL_REJECT_COUNT'', PPP_DIAG_LCP_PROTOCOL_REJECT_COUNT)],
      [(''PPP_DIAG_LCP_LAST_REJECTED_PROTOCOL'', PPP_DIAG_LCP_LAST_REJECTED_PROTOCOL)],
      [(''PPP_DIAG_LCP_REJECT_IDENTIFIER'', PPP_DIAG_LCP_REJECT_IDENTIFIER)],
      [(''PPP_DIAG_LCP_CODE_REJECT_COUNT'', PPP_DIAG_LCP_CODE_REJECT_COUNT)],
      [(''PPP_DIAG_LCP_LAST_REJECTED_CODE'', PPP_DIAG_LCP_LAST_REJECTED_CODE)],
      [(''PPP_DIAG_LCP_ECHO_REQUEST_COUNT'', PPP_DIAG_LCP_ECHO_REQUEST_COUNT)],
      [(''PPP_DIAG_LCP_ECHO_REPLY_COUNT'', PPP_DIAG_LCP_ECHO_REPLY_COUNT)],
      [(''PPP_DIAG_LCP_ECHO_DROP_COUNT'', PPP_DIAG_LCP_ECHO_DROP_COUNT)],
      [(''PPP_DIAG_LCP_LAST_ECHO_IDENTIFIER'', PPP_DIAG_LCP_LAST_ECHO_IDENTIFIER)],
      [(''PPP_DIAG_LCP_LAST_ECHO_MAGIC'', PPP_DIAG_LCP_LAST_ECHO_MAGIC)],
      [(''PPP_DIAG_LCP_ADMINISTRATIVE_OPEN'', PPP_DIAG_LCP_ADMINISTRATIVE_OPEN)],
      [(''PPP_DIAG_LCP_LOCAL_TERMINATE_REQUEST_COUNT'', PPP_DIAG_LCP_LOCAL_TERMINATE_REQUEST_COUNT)],
      [(''PPP_DIAG_LCP_LOCAL_TERMINATE_ACK_COUNT'', PPP_DIAG_LCP_LOCAL_TERMINATE_ACK_COUNT)],
      [(''PPP_DIAG_LCP_LOCAL_TERMINATE_TIMEOUT_COUNT'', PPP_DIAG_LCP_LOCAL_TERMINATE_TIMEOUT_COUNT)],
      [(''PPP_DIAG_LCP_LOCAL_MAGIC'', PPP_DIAG_LCP_LOCAL_MAGIC)],
      [(''PPP_DIAG_LCP_LOCAL_FLAGS'', PPP_DIAG_LCP_LOCAL_FLAGS)],
      [(''PPP_DIAG_LCP_LOOPBACK_COUNT'', PPP_DIAG_LCP_LOOPBACK_COUNT)],
      [(''PPP_DIAG_PAP_CREDENTIAL_FLAGS'', PPP_DIAG_PAP_CREDENTIAL_FLAGS)],
      [(''PPP_DIAG_PAP_PEER_ID_LENGTH'', PPP_DIAG_PAP_PEER_ID_LENGTH)],
      [(''PPP_DIAG_PAP_PASSWORD_LENGTH'', PPP_DIAG_PAP_PASSWORD_LENGTH)],
      [(''PPP_DIAG_CHAP_STATE'', PPP_DIAG_CHAP_STATE)],
      [(''PPP_DIAG_CHAP_LAST_CODE'', PPP_DIAG_CHAP_LAST_CODE)],
      [(''PPP_DIAG_CHAP_LAST_IDENTIFIER'', PPP_DIAG_CHAP_LAST_IDENTIFIER)],
      [(''PPP_DIAG_CHAP_LAST_ERROR'', PPP_DIAG_CHAP_LAST_ERROR)],
      [(''PPP_DIAG_CHAP_RESPONSE_IDENTIFIER'', PPP_DIAG_CHAP_RESPONSE_IDENTIFIER)],
      [(''PPP_DIAG_CHAP_FAILURE'', PPP_DIAG_CHAP_FAILURE)],
      [(''PPP_DIAG_CHAP_CHALLENGE_LENGTH'', PPP_DIAG_CHAP_CHALLENGE_LENGTH)],
      [(''PPP_DIAG_CHAP_PEER_NAME_LENGTH'', PPP_DIAG_CHAP_PEER_NAME_LENGTH)],
      [(''PPP_DIAG_CHAP_PACKET_LENGTH'', PPP_DIAG_CHAP_PACKET_LENGTH)],
      [(''PPP_DIAG_CHAP_RECEIVE_COUNT'', PPP_DIAG_CHAP_RECEIVE_COUNT)],
      [(''PPP_DIAG_CHAP_TRANSMIT_COUNT'', PPP_DIAG_CHAP_TRANSMIT_COUNT)],
      [(''MODEM_MAILBOX_OFFSET_MAGIC'', MODEM_MAILBOX_OFFSET_MAGIC)],
      [(''MODEM_MAILBOX_OFFSET_VERSION'', MODEM_MAILBOX_OFFSET_VERSION)],
      [(''MODEM_MAILBOX_OFFSET_BLOCK_SIZE'', MODEM_MAILBOX_OFFSET_BLOCK_SIZE)],
      [(''MODEM_MAILBOX_OFFSET_HOST_SEQUENCE'', MODEM_MAILBOX_OFFSET_HOST_SEQUENCE)],
      [(''MODEM_MAILBOX_OFFSET_PROCESSED_SEQUENCE'', MODEM_MAILBOX_OFFSET_PROCESSED_SEQUENCE)],
      [(''MODEM_MAILBOX_OFFSET_COMMAND'', MODEM_MAILBOX_OFFSET_COMMAND)],
      [(''MODEM_MAILBOX_OFFSET_STATUS'', MODEM_MAILBOX_OFFSET_STATUS)],
      [(''MODEM_MAILBOX_OFFSET_RESULT'', MODEM_MAILBOX_OFFSET_RESULT)],
      [(''MODEM_MAILBOX_OFFSET_ARGUMENTS'', MODEM_MAILBOX_OFFSET_ARGUMENTS)],
      [(''MODEM_MAILBOX_OFFSET_OUTPUT'', MODEM_MAILBOX_OFFSET_OUTPUT)],
      magic_constants ''MODEM_MAILBOX_MAGIC'' MODEM_MAILBOX_MAGIC,
      [(''MODEM_MAILBOX_VERSION'', unat MODEM_MAILBOX_VERSION)],
      [(''MODEM_MAILBOX_SIZE'', MODEM_MAILBOX_SIZE)],
      [(''MODEM_MAILBOX_ARGUMENT_SIZE'', MODEM_MAILBOX_ARGUMENT_SIZE)],
      [(''MODEM_STATE_AT_COMMAND'', unat MODEM_STATE_AT_COMMAND)],
      [(''MODEM_STATE_CONNECTED'', unat MODEM_STATE_CONNECTED)],
      [(''MODEM_STATE_DIALING'', unat MODEM_STATE_DIALING)],
      [(''MODEM_STATE_DISCONNECTING'', unat MODEM_STATE_DISCONNECTING)],
      [(''MODEM_STATE_ERROR'', unat MODEM_STATE_ERROR)],
      [(''MODEM_STATE_OFF'', unat MODEM_STATE_OFF)],
      [(''MODEM_STATE_PROBING'', unat MODEM_STATE_PROBING)],
      [(''MODEM_STATE_READY'', unat MODEM_STATE_READY)],
      [(''MODEM_STATE_RESETTING'', unat MODEM_STATE_RESETTING)],
      [(''MODEM_DISCARD_FULL_REPORT'', unat MODEM_DISCARD_FULL_REPORT)],
      [(''MODEM_DISCARD_NO_DATA'', unat MODEM_DISCARD_NO_DATA)],
      [(''MODEM_DISCARD_NONE'', unat MODEM_DISCARD_NONE)],
      [(''MODEM_MAILBOX_STATUS_FAILED'', unat MODEM_MAILBOX_STATUS_FAILED)],
      [(''MODEM_MAILBOX_STATUS_PASSED'', unat MODEM_MAILBOX_STATUS_PASSED)]]"

section \<open>Evaluation\<close>

text \<open>
  The descriptions play no part in the checks and the constants; without them the fields of the
  blocks are evaluated fast.
\<close>

definition bare_field :: "string \<times> nat \<times> nat \<Rightarrow> field" where
  "bare_field = (\<lambda>(n, k, size_of). ndm24_field n k size_of [] [])"

definition strip_field :: "field \<Rightarrow> field" where
  "strip_field f = f\<lparr>field_type := [], field_description := []\<rparr>"

definition ndm24_diagnostic_layout :: "(string \<times> nat \<times> nat) list" where
  "ndm24_diagnostic_layout =
    [(''magic'', 0, 4),
     (''version'', 4, 2),
     (''size'', 6, 2),
     (''snapshot_sequence'', 8, 4),
     (''driver_state'', 12, 1),
     (''flags'', 13, 1),
     (''last_error'', 14, 1),
     (''last_discard_reason'', 15, 1),
     (''poll_tick'', 16, 1),
     (''trace_frozen'', 17, 1),
     (''rx_read_index'', 18, 1),
     (''rx_write_index'', 19, 1),
     (''tx_read_index'', 20, 1),
     (''tx_write_index'', 21, 1),
     (''last_rx_byte'', 22, 1),
     (''last_tx_byte'', 23, 1),
     (''last_data_report'', 24, 2),
     (''last_status_report'', 26, 2),
     (''trace_next_sequence'', 28, 4),
     (''rx_accepted'', 32, 4),
     (''rx_discarded'', 36, 4),
     (''tx_bytes'', 40, 4),
     (''rx_overflow'', 44, 4),
     (''tx_overflow'', 48, 4),
     (''poll_budget_yield'', 52, 4),
     (''timeout'', 56, 4),
     (''reinitialize'', 60, 4),
     (''trace_overwritten'', 64, 4),
     (''reset_start_frame'', 68, 4),
     (''terminal_dropped'', 72, 4),
     (''at_status'', 76, 1),
     (''at_expected_result'', 77, 1),
     (''session_last_result'', 78, 1),
     (''session_line_length'', 79, 1),
     (''at_start_frame'', 80, 4)]"

lemma ndm24_diagnostic_strip: "map strip_field ndm24_diagnostic_fields = map bare_field ndm24_diagnostic_layout"
  by (simp only: strip_field_def bare_field_def ndm24_diagnostic_fields_def ndm24_diagnostic_layout_def ndm24_field_def
      list.map prod.case field.simps)

definition ndm24_ppp_layout :: "(string \<times> nat \<times> nat) list" where
  "ndm24_ppp_layout =
    [(''magic'', 0, 4),
     (''version'', 4, 2),
     (''size'', 6, 2),
     (''snapshot_sequence'', 8, 4),
     (''receive_enabled'', 12, 1),
     (''receive_active'', 13, 1),
     (''frame_ready'', 14, 1),
     (''receive_last_event'', 15, 1),
     (''receive_last_invalid_reason'', 16, 1),
     (''decoder_flags'', 17, 1),
     (''transmit_active'', 18, 1),
     (''transmit_stage'', 19, 1),
     (''transmit_escape_second'', 20, 1),
     (''transmit_last_wire_byte'', 21, 1),
     (''last_protocol'', 22, 2),
     (''last_frame_length'', 24, 2),
     (''decoder_length'', 26, 2),
     (''decoder_fcs'', 28, 2),
     (''transmit_length'', 30, 2),
     (''transmit_position'', 32, 2),
     (''transmit_fcs'', 34, 2),
     (''receive_byte_count'', 36, 4),
     (''receive_frame_count'', 40, 4),
     (''receive_fcs_error_count'', 44, 4),
     (''receive_invalid_count'', 48, 4),
     (''receive_overflow_count'', 52, 4),
     (''receive_drain_budget_yield_count'', 56, 4),
     (''transmit_wire_byte_count'', 60, 4),
     (''transmit_frame_count'', 64, 4),
     (''transmit_backpressure_count'', 68, 4),
     (''transmit_abort_count'', 72, 4),
     (''lcp_state'', 76, 1),
     (''lcp_last_code'', 77, 1),
     (''lcp_last_identifier'', 78, 1),
     (''lcp_last_error'', 79, 1),
     (''lcp_request_identifier'', 80, 1),
     (''lcp_restart_remaining'', 81, 1),
     (''lcp_peer_flags'', 82, 1),
     (''lcp_pending_action'', 83, 1),
     (''lcp_packet_length'', 84, 2),
     (''lcp_peer_mru'', 86, 2),
     (''lcp_peer_accm'', 88, 4),
     (''lcp_receive_count'', 92, 4),
     (''lcp_timer_active'', 96, 1),
     (''lcp_deferred_request'', 97, 1),
     (''lcp_restart_deadline'', 98, 2),
     (''lcp_peer_magic'', 100, 4),
     (''carrier_loss_count'', 104, 4),
     (''carrier_tail_byte_count'', 108, 4),
     (''pap_state'', 112, 1),
     (''pap_last_code'', 113, 1),
     (''pap_last_identifier'', 114, 1),
     (''pap_last_error'', 115, 1),
     (''pap_request_identifier'', 116, 1),
     (''pap_next_identifier'', 117, 1),
     (''pap_restart_remaining'', 118, 1),
     (''pap_pending_action'', 119, 1),
     (''pap_timer_active'', 120, 1),
     (''pap_failure'', 121, 1),
     (''pap_packet_length'', 122, 2),
     (''pap_restart_deadline'', 124, 2),
     (''pap_receive_count'', 126, 4),
     (''pap_transmit_count'', 130, 4),
     (''ipcp_state'', 134, 1),
     (''ipcp_last_code'', 135, 1),
     (''ipcp_last_identifier'', 136, 1),
     (''ipcp_last_error'', 137, 1),
     (''ipcp_request_identifier'', 138, 1),
     (''ipcp_restart_remaining'', 139, 1),
     (''ipcp_pending_action'', 140, 1),
     (''ipcp_timer_active'', 141, 1),
     (''ipcp_packet_length'', 142, 2),
     (''ipcp_restart_deadline'', 144, 2),
     (''ipcp_receive_count'', 146, 4),
     (''ipcp_transmit_count'', 150, 4),
     (''ipcp_local_address'', 154, 4),
     (''ipcp_peer_address'', 158, 4),
     (''ipcp_flags'', 162, 1),
     (''ipcp_deferred_request'', 163, 1),
     (''ipv4_last_error'', 164, 1),
     (''ipv4_header_length'', 165, 1),
     (''ipv4_protocol'', 166, 1),
     (''ipv4_ttl'', 167, 1),
     (''ipv4_total_length'', 168, 2),
     (''ipv4_payload_length'', 170, 2),
     (''ipv4_identification'', 172, 2),
     (''ipv4_flags_fragment_offset'', 174, 2),
     (''ipv4_header_checksum'', 176, 2),
     (''ipv4_source_address'', 178, 4),
     (''ipv4_destination_address'', 182, 4),
     (''ipv4_receive_count'', 186, 4),
     (''ipv4_accepted_count'', 190, 4),
     (''ipv4_checksum_error_count'', 194, 4),
     (''ipv4_drop_count'', 198, 4),
     (''ipv4_transmit_count'', 202, 4),
     (''ipv4_next_identification'', 206, 2),
     (''ipv4_flags'', 208, 1),
     (''icmp_last_error'', 209, 1),
     (''icmp_last_type'', 210, 1),
     (''icmp_last_code'', 211, 1),
     (''icmp_flags'', 212, 1),
     (''icmp_identifier'', 213, 2),
     (''icmp_sequence'', 215, 2),
     (''icmp_payload_length'', 217, 2),
     (''icmp_checksum'', 219, 2),
     (''icmp_receive_count'', 221, 4),
     (''icmp_echo_request_count'', 225, 4),
     (''icmp_echo_reply_count'', 229, 4),
     (''icmp_checksum_error_count'', 233, 4),
     (''icmp_drop_count'', 237, 4),
     (''icmp_transmit_count'', 241, 4),
     (''udp_last_error'', 245, 1),
     (''udp_flags'', 246, 1),
     (''udp_source_port'', 247, 2),
     (''udp_destination_port'', 249, 2),
     (''udp_length'', 251, 2),
     (''udp_payload_length'', 253, 2),
     (''udp_checksum'', 255, 2),
     (''udp_receive_count'', 257, 4),
     (''udp_checksum_error_count'', 261, 4),
     (''udp_drop_count'', 265, 4),
     (''udp_transmit_count'', 269, 4),
     (''ntp_state'', 273, 1),
     (''ntp_last_error'', 274, 1),
     (''ntp_flags'', 275, 1),
     (''ntp_version'', 276, 1),
     (''ntp_leap_indicator'', 277, 1),
     (''ntp_stratum'', 278, 1),
     (''ntp_poll'', 279, 1),
     (''ntp_precision'', 280, 1),
     (''ntp_reference_id'', 281, 4),
     (''ntp_cookie_seconds'', 285, 4),
     (''ntp_cookie_fraction'', 289, 4),
     (''ntp_server_receive_seconds'', 293, 4),
     (''ntp_server_receive_fraction'', 297, 4),
     (''ntp_server_transmit_seconds'', 301, 4),
     (''ntp_server_transmit_fraction'', 305, 4),
     (''ntp_unix_seconds'', 309, 4),
     (''ntp_deadline'', 313, 2),
     (''ntp_request_count'', 315, 4),
     (''ntp_response_count'', 319, 4),
     (''ntp_drop_count'', 323, 4),
     (''ntp_timeout_count'', 327, 4),
     (''icmp_request_state'', 331, 1),
     (''icmp_request_last_error'', 332, 1),
     (''icmp_request_flags'', 333, 1),
     (''icmp_request_destination'', 334, 4),
     (''icmp_request_identifier'', 338, 2),
     (''icmp_request_sequence'', 340, 2),
     (''icmp_request_deadline'', 342, 2),
     (''icmp_request_sent_frame'', 344, 2),
     (''icmp_request_rtt_frames'', 346, 2),
     (''icmp_request_count'', 348, 4),
     (''icmp_request_response_count'', 352, 4),
     (''icmp_request_drop_count'', 356, 4),
     (''icmp_request_timeout_count'', 360, 4),
     (''dns_state'', 364, 1),
     (''dns_last_error'', 365, 1),
     (''dns_flags'', 366, 1),
     (''dns_response_code'', 367, 1),
     (''dns_resolver'', 368, 4),
     (''dns_transaction_id'', 372, 2),
     (''dns_answer_count'', 374, 2),
     (''dns_answer_address'', 376, 4),
     (''dns_deadline'', 380, 2),
     (''dns_sent_frame'', 382, 2),
     (''dns_rtt_frames'', 384, 2),
     (''dns_query_count'', 386, 4),
     (''dns_response_count'', 390, 4),
     (''dns_drop_count'', 394, 4),
     (''dns_timeout_count'', 398, 4),
     (''icmp_inbound_state'', 402, 1),
     (''icmp_inbound_last_error'', 403, 1),
     (''icmp_inbound_flags'', 404, 1),
     (''icmp_inbound_source'', 405, 4),
     (''icmp_inbound_identifier'', 409, 2),
     (''icmp_inbound_sequence'', 411, 2),
     (''icmp_inbound_payload_length'', 413, 2),
     (''icmp_inbound_reply_count'', 415, 4),
     (''icmp_inbound_drop_count'', 419, 4),
     (''ipcp_primary_dns_address'', 423, 4),
     (''ipcp_secondary_dns_address'', 427, 4),
     (''lcp_terminate_request_count'', 431, 4),
     (''lcp_terminate_ack_count'', 435, 4),
     (''lcp_protocol_reject_count'', 439, 4),
     (''lcp_last_rejected_protocol'', 443, 2),
     (''lcp_reject_identifier'', 445, 1),
     (''lcp_code_reject_count'', 446, 4),
     (''lcp_last_rejected_code'', 450, 1),
     (''lcp_echo_request_count'', 451, 4),
     (''lcp_echo_reply_count'', 455, 4),
     (''lcp_echo_drop_count'', 459, 4),
     (''lcp_last_echo_identifier'', 463, 1),
     (''lcp_last_echo_magic'', 464, 4),
     (''lcp_administrative_open'', 468, 1),
     (''lcp_local_terminate_request_count'', 469, 4),
     (''lcp_local_terminate_ack_count'', 473, 4),
     (''lcp_local_terminate_timeout_count'', 477, 4),
     (''lcp_local_magic'', 481, 4),
     (''lcp_local_flags'', 485, 1),
     (''lcp_loopback_count'', 486, 4),
     (''pap_credential_flags'', 490, 1),
     (''pap_peer_id_length'', 491, 1),
     (''pap_password_length'', 492, 1),
     (''chap_state'', 493, 1),
     (''chap_last_code'', 494, 1),
     (''chap_last_identifier'', 495, 1),
     (''chap_last_error'', 496, 1),
     (''chap_response_identifier'', 497, 1),
     (''chap_failure'', 498, 1),
     (''chap_challenge_length'', 499, 1),
     (''chap_peer_name_length'', 500, 1),
     (''chap_packet_length'', 501, 2),
     (''chap_receive_count'', 503, 4),
     (''chap_transmit_count'', 507, 4)]"

lemma ndm24_ppp_strip: "map strip_field ndm24_ppp_fields = map bare_field ndm24_ppp_layout"
  by (simp only: strip_field_def bare_field_def ndm24_ppp_fields_def ndm24_ppp_layout_def ndm24_field_def
      list.map prod.case field.simps)

definition ndm24_mailbox_layout :: "(string \<times> nat \<times> nat) list" where
  "ndm24_mailbox_layout =
    [(''magic'', 0, 4),
     (''version'', 4, 2),
     (''block_size'', 6, 2),
     (''host_sequence'', 8, 4),
     (''processed_sequence'', 12, 4),
     (''command'', 16, 1),
     (''status'', 17, 1),
     (''result'', 18, 2),
     (''arguments'', 20, 32),
     (''output'', 52, 32),
     (''reserved'', 84, 12)]"

lemma ndm24_mailbox_strip: "map strip_field ndm24_mailbox_fields = map bare_field ndm24_mailbox_layout"
  by (simp only: strip_field_def bare_field_def ndm24_mailbox_fields_def ndm24_mailbox_layout_def ndm24_field_def
      list.map prod.case field.simps)

text \<open>The characters of the keys, so that names are evaluated character by character.\<close>

lemma key_characters:
  "symbol_character (CHR ''a'')" "symbol_character (CHR ''b'')"
  "symbol_character (CHR ''c'')" "symbol_character (CHR ''d'')"
  "symbol_character (CHR ''e'')" "symbol_character (CHR ''f'')"
  "symbol_character (CHR ''g'')" "symbol_character (CHR ''h'')"
  "symbol_character (CHR ''i'')" "symbol_character (CHR ''j'')"
  "symbol_character (CHR ''k'')" "symbol_character (CHR ''l'')"
  "symbol_character (CHR ''m'')" "symbol_character (CHR ''n'')"
  "symbol_character (CHR ''o'')" "symbol_character (CHR ''p'')"
  "symbol_character (CHR ''q'')" "symbol_character (CHR ''r'')"
  "symbol_character (CHR ''s'')" "symbol_character (CHR ''t'')"
  "symbol_character (CHR ''u'')" "symbol_character (CHR ''v'')"
  "symbol_character (CHR ''w'')" "symbol_character (CHR ''x'')"
  "symbol_character (CHR ''y'')" "symbol_character (CHR ''z'')"
  "symbol_character (CHR ''0'')" "symbol_character (CHR ''1'')"
  "symbol_character (CHR ''2'')" "symbol_character (CHR ''3'')"
  "symbol_character (CHR ''4'')" "symbol_character (CHR ''5'')"
  "symbol_character (CHR ''6'')" "symbol_character (CHR ''7'')"
  "symbol_character (CHR ''8'')" "symbol_character (CHR ''9'')"
  "symbol_character (CHR ''_'')"
  by (simp_all add: symbol_character_def is_ascii_alphanumeric_def)

lemma key_characters_upper:
  "ascii_upper (CHR ''a'') = CHR ''A''" "ascii_upper (CHR ''b'') = CHR ''B''"
  "ascii_upper (CHR ''c'') = CHR ''C''" "ascii_upper (CHR ''d'') = CHR ''D''"
  "ascii_upper (CHR ''e'') = CHR ''E''" "ascii_upper (CHR ''f'') = CHR ''F''"
  "ascii_upper (CHR ''g'') = CHR ''G''" "ascii_upper (CHR ''h'') = CHR ''H''"
  "ascii_upper (CHR ''i'') = CHR ''I''" "ascii_upper (CHR ''j'') = CHR ''J''"
  "ascii_upper (CHR ''k'') = CHR ''K''" "ascii_upper (CHR ''l'') = CHR ''L''"
  "ascii_upper (CHR ''m'') = CHR ''M''" "ascii_upper (CHR ''n'') = CHR ''N''"
  "ascii_upper (CHR ''o'') = CHR ''O''" "ascii_upper (CHR ''p'') = CHR ''P''"
  "ascii_upper (CHR ''q'') = CHR ''Q''" "ascii_upper (CHR ''r'') = CHR ''R''"
  "ascii_upper (CHR ''s'') = CHR ''S''" "ascii_upper (CHR ''t'') = CHR ''T''"
  "ascii_upper (CHR ''u'') = CHR ''U''" "ascii_upper (CHR ''v'') = CHR ''V''"
  "ascii_upper (CHR ''w'') = CHR ''W''" "ascii_upper (CHR ''x'') = CHR ''X''"
  "ascii_upper (CHR ''y'') = CHR ''Y''" "ascii_upper (CHR ''z'') = CHR ''Z''"
  "ascii_upper (CHR ''0'') = CHR ''0''" "ascii_upper (CHR ''1'') = CHR ''1''"
  "ascii_upper (CHR ''2'') = CHR ''2''" "ascii_upper (CHR ''3'') = CHR ''3''"
  "ascii_upper (CHR ''4'') = CHR ''4''" "ascii_upper (CHR ''5'') = CHR ''5''"
  "ascii_upper (CHR ''6'') = CHR ''6''" "ascii_upper (CHR ''7'') = CHR ''7''"
  "ascii_upper (CHR ''8'') = CHR ''8''" "ascii_upper (CHR ''9'') = CHR ''9''"
  "ascii_upper (CHR ''_'') = CHR ''_''"
  by code_simp+

lemma bare_key_Nil: "bare_key []"
  by (simp add: bare_key_def)

lemma bare_key_Cons: "symbol_character c \<Longrightarrow> bare_key n \<Longrightarrow> bare_key (c # n)"
  by (simp add: bare_key_def)

lemmas bare_key_simps = bare_key_Nil bare_key_Cons key_characters

lemma screaming_Nil: "screaming [] = []"
  by (simp add: screaming_def to_ascii_uppercase_def)

lemma screaming_Cons: "ascii_upper c = d \<Longrightarrow> d \<noteq> CHR ''-'' \<Longrightarrow> screaming (c # n) = d # screaming n"
  by (simp add: screaming_def to_ascii_uppercase_def)

lemmas screaming_simps = screaming_Nil key_characters_upper [THEN screaming_Cons, simplified]

lemma validate_fields_strip:
  "validate_fields_from previous_end (map strip_field fs) block_size b =
    validate_fields_from previous_end fs block_size b"
  by (induction fs arbitrary: previous_end)
    (simp_all add: strip_field_def ensure_def split: option.split)

lemma bare_fields_strip: "bare_fields (map strip_field fs) = bare_fields fs"
  by (simp add: bare_fields_def list_all_iff strip_field_def)

lemma field_constants_strip: "field_constants pre (map strip_field fs) = field_constants pre fs"
  by (simp add: field_constants_def strip_field_def)

lemma ndm24_parts:
  "diagnostic_fields (diagnostic ndm24_spec) = ndm24_diagnostic_fields"
  "ppp_fields (ppp_diagnostic ndm24_spec) = ndm24_ppp_fields"
  "mailbox_fields (mailbox ndm24_spec) = ndm24_mailbox_fields"
  by (simp_all add: ndm24_spec_def)

lemma ndm24_numbers:
  "unat (spec_version (spec_of ndm24_spec)) = 1"
  "magic (diagnostic ndm24_spec) = [78, 68, 77, 50]"
  "unat (diagnostic_version (diagnostic ndm24_spec)) = 2"
  "diagnostic_size (diagnostic ndm24_spec) = 128" "trace_event_size (diagnostic ndm24_spec) = 16"
  "trace_capacity (diagnostic ndm24_spec) = 256" "trace_size (diagnostic ndm24_spec) = 4096"
  "ppp_magic (ppp_diagnostic ndm24_spec) = [80, 80, 80, 49]"
  "unat (ppp_version (ppp_diagnostic ndm24_spec)) = 22" "ppp_size (ppp_diagnostic ndm24_spec) = 511"
  "mailbox_magic (mailbox ndm24_spec) = [78, 68, 77, 67]" "unat (mailbox_version (mailbox ndm24_spec)) = 10"
  "mailbox_size (mailbox ndm24_spec) = 96" "argument_size (mailbox ndm24_spec) = 32"
  by (simp_all add: ndm24_spec_def)

fun valid_layout :: "nat \<Rightarrow> (string \<times> nat \<times> nat) list \<Rightarrow> nat \<Rightarrow> bool" where
  "valid_layout previous_end [] block_size = True"
| "valid_layout previous_end ((n, k, s) # l) block_size =
    (previous_end \<le> k \<and> k + s \<le> block_size \<and> valid_layout (k + s) l block_size)"

lemma validate_fields_layout:
  "block_size < usize_limit \<Longrightarrow> valid_layout previous_end l block_size \<Longrightarrow>
    validate_fields_from previous_end (map bare_field l) block_size b = Ok ()"
  by (induction previous_end l block_size rule: valid_layout.induct)
    (auto simp: bare_field_def ndm24_field_def ensure_def checked_add_def)

lemma layout_valid:
  "valid_layout 0 ndm24_diagnostic_layout 128" "valid_layout 0 ndm24_ppp_layout 511"
  "valid_layout 0 ndm24_mailbox_layout 96"
  by (simp_all add: ndm24_diagnostic_layout_def ndm24_ppp_layout_def ndm24_mailbox_layout_def)

lemma ndm24_fields_valid:
  "validate_fields ndm24_diagnostic_fields 128 ''diagnostic'' = Ok ()"
  "validate_fields ndm24_ppp_fields 511 ''PPP diagnostic'' = Ok ()"
  "validate_fields ndm24_mailbox_fields 96 ''mailbox'' = Ok ()"
  using layout_valid [THEN validate_fields_layout [rotated]]
  by (simp_all add: validate_fields_def validate_fields_strip ndm24_diagnostic_strip [symmetric]
      ndm24_ppp_strip [symmetric] ndm24_mailbox_strip [symmetric] usize_limit_def)

lemma ndm24_trace: "checked_mul 16 256 = Some 4096"
  by (simp add: checked_mul_def usize_limit_def)

lemma ndm24_terminal_valid: "validate_terminal ndm24_terminal = Ok ()"
  by code_simp

lemma ndm24_values:
  "protocol_values ndm24_spec = ndm24_protocol" "driver_values ndm24_spec = ndm24_driver"
  "terminal_values ndm24_spec = ndm24_terminal" "states ndm24_spec = ndm24_states"
  "flags ndm24_spec = ndm24_flags" "discard_reasons ndm24_spec = ndm24_discard_reasons"
  "trace_events ndm24_spec = ndm24_trace_events" "mailbox_commands ndm24_spec = ndm24_mailbox_commands"
  "mailbox_status ndm24_spec = ndm24_mailbox_status"
  by (simp_all add: ndm24_spec_def)

lemma ndm24_valid: "validate_spec ndm24_spec = Ok ()"
  unfolding validate_spec_def ndm24_parts ndm24_numbers ndm24_values
  by (simp add: ndm24_fields_valid ndm24_terminal_valid ndm24_trace ensure_def)

lemma bare_fields_layout:
  "bare_fields (map bare_field l) = list_all (\<lambda>(n, k, s). bare_key n \<and> k < usize_limit) l"
  by (auto simp: bare_fields_def list_all_iff bare_field_def ndm24_field_def)

lemma layout_bare:
  "list_all (\<lambda>(n, k, s). bare_key n \<and> k < usize_limit) ndm24_diagnostic_layout"
  "list_all (\<lambda>(n, k, s). bare_key n \<and> k < usize_limit) ndm24_ppp_layout"
  "list_all (\<lambda>(n, k, s). bare_key n \<and> k < usize_limit) ndm24_mailbox_layout"
  unfolding ndm24_diagnostic_layout_def ndm24_ppp_layout_def ndm24_mailbox_layout_def usize_limit_def
  by (simp_all add: bare_key_simps)

lemma ndm24_bare_fields:
  "bare_fields ndm24_diagnostic_fields" "bare_fields ndm24_ppp_fields" "bare_fields ndm24_mailbox_fields"
  using bare_fields_strip [of ndm24_diagnostic_fields] bare_fields_strip [of ndm24_ppp_fields]
    bare_fields_strip [of ndm24_mailbox_fields] layout_bare
  by (simp_all only: ndm24_diagnostic_strip ndm24_ppp_strip ndm24_mailbox_strip bare_fields_layout)

lemma ndm24_maps:
  "natural_map ndm24_protocol" "natural_map ndm24_driver" "natural_map ndm24_terminal"
  "bare_map ndm24_states" "bare_map ndm24_flags" "bare_map ndm24_discard_reasons"
  "bare_map ndm24_trace_events" "bare_map ndm24_mailbox_commands" "bare_map ndm24_mailbox_status"
  by (simp_all add: natural_map_def bare_map_def ndm24_protocol_def ndm24_driver_def ndm24_terminal_def
      ndm24_states_def ndm24_flags_def ndm24_discard_reasons_def ndm24_trace_events_def
      ndm24_mailbox_commands_def ndm24_mailbox_status_def bare_key_simps)

lemma ndm24_plain: "plain_spec ndm24_spec"
  unfolding plain_spec_def ndm24_values ndm24_parts ndm24_numbers
  by (intro conjI ndm24_maps ndm24_bare_fields) (simp_all add: usize_limit_def)

lemma field_constants_layout:
  "field_constants pre (map bare_field l) = map (\<lambda>(n, k, s). (pre @ screaming n, k)) l"
  by (auto simp: field_constants_def bare_field_def ndm24_field_def)

lemma ndm24_field_constants:
  "field_constants pre ndm24_diagnostic_fields =
    map (\<lambda>(n, k, s). (pre @ screaming n, k)) ndm24_diagnostic_layout"
  "field_constants pre ndm24_ppp_fields = map (\<lambda>(n, k, s). (pre @ screaming n, k)) ndm24_ppp_layout"
  "field_constants pre ndm24_mailbox_fields =
    map (\<lambda>(n, k, s). (pre @ screaming n, k)) ndm24_mailbox_layout"
  by (simp_all only: field_constants_layout [symmetric] ndm24_diagnostic_strip [symmetric]
      ndm24_ppp_strip [symmetric] ndm24_mailbox_strip [symmetric] field_constants_strip)

lemma decimal_indices:
  "decimal_text 0 = ''0''" "decimal_text (Suc 0) = ''1''" "decimal_text 2 = ''2''" "decimal_text 3 = ''3''"
  by (code_simp, code_simp, code_simp, code_simp)

lemma array_constants_four:
  "array_constants n [a, b, c, d] = [(n @ ''_0'', a), (n @ ''_1'', b), (n @ ''_2'', c), (n @ ''_3'', d)]"
  by (simp add: array_constants_def decimal_indices numeral_2_eq_2 [symmetric] numeral_3_eq_3 [symmetric])

lemma ndm24_constants: "spec_constants ndm24_spec = generated_rs_constants"
  unfolding spec_constants_def scalar_constants_def rust_order_constants_def ndm24_values ndm24_parts
    ndm24_numbers ndm24_field_constants generated_rs_constants_def
  by (simp add: magic_constants_def array_constants_four map_constants_def screaming_simps
      ndm24_diagnostic_layout_def ndm24_ppp_layout_def ndm24_mailbox_layout_def
      ndm24_protocol_def ndm24_driver_def ndm24_terminal_def
      ndm24_states_def ndm24_flags_def ndm24_discard_reasons_def ndm24_trace_events_def
      ndm24_mailbox_commands_def ndm24_mailbox_status_def)

text \<open>The decoders' constants stand in the order of the file, so one pass over it finds them.\<close>

definition listed :: "'a list \<Rightarrow> 'a list \<Rightarrow> bool" where
  "listed xs ys \<longleftrightarrow> set xs \<subseteq> set ys"

lemma listed_Nil: "listed [] ys"
  and listed_here: "listed xs ys \<Longrightarrow> listed (x # xs) (x # ys)"
  and listed_later: "listed xs ys \<Longrightarrow> listed xs (y # ys)"
  by (auto simp: listed_def)

lemma decoder_constants_listed: "listed decoder_constants generated_rs_constants"
  by (simp add: decoder_constants_def generated_rs_constants_def magic_constants_def array_constants_four abi)
    ((rule listed_Nil | rule listed_here | rule listed_later)+)

lemma decoder_constants_generated: "set decoder_constants \<subseteq> set generated_rs_constants"
  using decoder_constants_listed by (simp only: listed_def)

text \<open>
  C29: for sizes that are values of \<^verbatim>\<open>usize\<close>, \<^verbatim>\<open>validate_spec\<close> accepts exactly the well-formed
  specifications: the three magics have four octets, the fields of each of the three blocks stand in
  order, are disjoint and end within their block, the trace buffer holds its events, and the terminal
  has a power of two of columns, a tilemap mask one below its number of cells, a queue of 255 of 256
  octets, a render budget that the queue can hold and palette colours of 15 bits.
\<close>

theorem validate_spec_exact:
  assumes "spec_sizes_usize spec"
  shows "validate_spec spec = Ok () \<longleftrightarrow> spec_well_formed spec"
  using assms by (rule validate_spec_iff)

theorem validate_spec_exact_witness:
  "spec_sizes_usize ndm24_spec \<and> validate_spec ndm24_spec = Ok () \<and> spec_well_formed ndm24_spec"
proof -
  have sizes: "spec_sizes_usize ndm24_spec"
    by (simp add: spec_sizes_usize_def ndm24_numbers usize_limit_def)
  show ?thesis using validate_spec_exact [OF sizes] sizes ndm24_valid by simp
qed

text \<open>
  C30: for a specification with bare keys, natural numbers and magics of four octets, both
  \<^verbatim>\<open>render_assembly\<close> and \<^verbatim>\<open>render_rust\<close> succeed, and an assembler reads from the first
  text exactly the constants (names with their values, up to the order) that a Rust compiler reads
  from the second; these are the constants that the specification states.
\<close>

theorem generated_constants_agree:
  assumes "plain_spec spec"
  shows "\<exists>asm rust. render_assembly spec = Ok asm \<and> render_rust spec = Ok rust \<and>
    rust_constants rust = spec_constants spec \<and>
    mset (asm_constants asm) = mset (rust_constants rust)"
  using assms by (rule render_agree)

theorem generated_constants_agree_witness:
  "\<exists>asm rust. render_assembly ndm24_spec = Ok asm \<and> render_rust ndm24_spec = Ok rust \<and>
    rust_constants rust = spec_constants ndm24_spec \<and>
    mset (asm_constants asm) = mset (rust_constants rust)"
  by (rule generated_constants_agree [OF ndm24_plain])

text \<open>
  The specification of the repository passes the checks, and what is generated from it are the
  items of \<^verbatim>\<open>generated.rs\<close> as it stands in the repository: a Rust compiler reads exactly these
  constants from the text of \<^verbatim>\<open>render_rust\<close>, the assembler reads the same ones from the text of
  \<^verbatim>\<open>render_assembly\<close>, and among them are, with their values, all the constants with which the
  decoders of the diagnostic blocks and of the mailbox are modelled.
\<close>

lemma ndm24_generates:
  "validate_spec ndm24_spec = Ok () \<and>
   (\<exists>rust. render_rust ndm24_spec = Ok rust \<and> rust_constants rust = generated_rs_constants) \<and>
   (\<exists>asm. render_assembly ndm24_spec = Ok asm \<and> mset (asm_constants asm) = mset generated_rs_constants) \<and>
   set decoder_constants \<subseteq> set generated_rs_constants"
  using ndm24_valid render_agree [OF ndm24_plain] ndm24_constants decoder_constants_generated by auto

end
