(* ===== verification/Generate_Properties.thy ===== *)
theory Generate_Properties
  imports Xtask_Generate Font_Properties Font_Preview Ndm24_Spec
begin

text \<open>
  \<^verbatim>\<open>cargo xtask generate\<close> and \<^verbatim>\<open>--check\<close> agree: the check passes after generating, and on a disk with
  the same sources it passes exactly if the seven files hold what would be generated.
\<close>

section \<open>Sources\<close>

text \<open>
  The files that are read are not among those that are written; for the two whose names stand in
  \<^verbatim>\<open>SOURCE.toml\<close> this depends on the file.
\<close>

definition sources_apart :: "surroundings \<Rightarrow> disk \<Rightarrow> bool" where
  "sources_apart env disk \<longleftrightarrow>
    (\<forall>contents metadata.
      read_to_string disk ''third_party/font8x8/SOURCE.toml'' = Some contents \<longrightarrow>
      parse_font env contents = Some metadata \<longrightarrow>
      path_join ''third_party/font8x8'' (source_file metadata) \<notin> set output_paths \<and>
      path_join ''third_party/font8x8'' (readme_file metadata) \<notin> set output_paths)"

definition same_sources :: "disk \<Rightarrow> disk \<Rightarrow> bool" where
  "same_sources d disk \<longleftrightarrow> (\<forall>path. path \<notin> set output_paths \<longrightarrow> d path = disk path)"

lemma fixed_sources:
  "''spec/ndm24.toml'' \<notin> set output_paths" "''third_party/font8x8/SOURCE.toml'' \<notin> set output_paths"
  by (code_simp, code_simp)

lemma source_toml_path: "path_join ''third_party/font8x8'' ''SOURCE.toml'' = ''third_party/font8x8/SOURCE.toml''"
  by code_simp

lemma load_font8x8_cong:
  assumes "read' ''third_party/font8x8/SOURCE.toml'' = read ''third_party/font8x8/SOURCE.toml''"
    and "\<And>contents metadata. read ''third_party/font8x8/SOURCE.toml'' = Some contents \<Longrightarrow>
      from_toml contents = Some metadata \<Longrightarrow>
      read' (path_join ''third_party/font8x8'' (source_file metadata)) =
        read (path_join ''third_party/font8x8'' (source_file metadata)) \<and>
      read' (path_join ''third_party/font8x8'' (readme_file metadata)) =
        read (path_join ''third_party/font8x8'' (readme_file metadata))"
  shows "load_font8x8 from_toml hash read' = load_font8x8 from_toml hash read"
proof (cases "read ''third_party/font8x8/SOURCE.toml''")
  case (Some contents)
  show ?thesis
  proof (cases "from_toml contents")
    case metadata: (Some metadata)
    show ?thesis
      using assms(1) assms(2) [OF Some metadata]
      by (simp add: load_font8x8_def read_or_def source_toml_path Let_def Some metadata)
  qed (use assms(1) in \<open>simp add: load_font8x8_def read_or_def source_toml_path Let_def Some\<close>)
qed (use assms(1) in \<open>simp add: load_font8x8_def read_or_def source_toml_path Let_def\<close>)

lemma read_sources_same:
  assumes "same_sources d disk" and "sources_apart env disk"
  shows "read_sources env d = read_sources env disk"
proof -
  have same: "path \<notin> set output_paths \<Longrightarrow> read_to_string d path = read_to_string disk path" for path
    using assms(1) by (simp add: same_sources_def read_to_string_def)
  have "load_font8x8 (parse_font env) (sha256 env) (read_to_string d) =
      load_font8x8 (parse_font env) (sha256 env) (read_to_string disk)"
    using assms(2) same fixed_sources
    by (intro load_font8x8_cong) (simp_all add: sources_apart_def)
  then show ?thesis using same [OF fixed_sources(1)] by (simp only: read_sources_def)
qed

section \<open>Generating, then checking\<close>

lemma generated_files_same:
  "same_sources d disk \<Longrightarrow> sources_apart env disk \<Longrightarrow> generated_files env d = generated_files env disk"
  by (simp only: generated_files_def read_sources_same)

lemma holds_map_of: "distinct (map fst files) \<Longrightarrow> holds_files (disk ++ map_of files) files"
  by (auto simp: holds_files_def map_add_def)

section \<open>A run\<close>

definition sample_font_text :: string where
  "sample_font_text = unlines (map (print_line sample_glyphs) (Other_line ''/* License: Public Domain */'' # sample_lines))"

definition sample_readme :: string where
  "sample_readme =
    ''Author: Daniel Hepper, License: Public Domain, Marcel Sondaar, International Business Machines'' @ [line_feed]"

definition sample_metadata :: font_source where
  "sample_metadata =
    \<lparr>source_url = ''https://github.com/dhepper/font8x8'', source_file = ''font8x8_basic.h'',
     readme_file = ''README'', commit = ''8e279d2d'', sha256_lf = ''00'', readme_sha256_canonical_lf = ''00'',
     author = ''Daniel Hepper'', license = ''Public Domain'',
     provenance = ''Marcel Sondaar and International Business Machines''\<rparr>"

definition sample_surroundings :: surroundings where
  "sample_surroundings =
    \<lparr>parse_spec = (\<lambda>_. Some ndm24_spec), parse_font = (\<lambda>_. Some sample_metadata), sha256 = (\<lambda>_. ''00''),
     png_encode = (\<lambda>_ _ pixels. Some (take 3 pixels)), writable = (\<lambda>_. True)\<rparr>"

definition sample_disk :: disk where
  "sample_disk =
    [''spec/ndm24.toml'' \<mapsto> [], ''third_party/font8x8/SOURCE.toml'' \<mapsto> [],
     ''third_party/font8x8/font8x8_basic.h'' \<mapsto> as_bytes sample_font_text,
     ''third_party/font8x8/README'' \<mapsto> as_bytes sample_readme]"

lemma replace_text_absent: "hd p \<notin> set s \<Longrightarrow> replace_text p new s = s"
  by (induction p new s rule: replace_text.induct) (auto simp: starts_with_def neq_Nil_conv)

lemma canonical_text_id:
  assumes "carriage_return \<notin> set s" and "s = t @ [c, line_feed]" and "c \<noteq> line_feed"
  shows "canonical_text s = s"
  using assms by (simp add: canonical_text_def replace_text_absent trim_end_matches_def)

lemma contains_append: "contains p (a @ p @ b)"
proof (induction a)
  case Nil
  then show ?case by (simp add: contains_def find_text_here starts_with_def)
qed (simp add: contains_def)

lemma glyph_text_no_return:
  "carriage_return \<notin> set comment \<Longrightarrow> carriage_return \<notin> set (glyph_text codepoint rows comment)"
  using row_text_not_in [OF not_symbol(4), of rows] hex_text_not_in [OF not_symbol(4), of 4 codepoint]
  by (simp add: glyph_text_split carriage_return_def)

fun no_return :: "font_source_line \<Rightarrow> bool" where
  "no_return (Other_line s) = (carriage_return \<notin> set s)"
| "no_return (Glyph_line codepoint comment) = (carriage_return \<notin> set comment)"

lemma print_line_no_return: "no_return l \<Longrightarrow> carriage_return \<notin> set (print_line glyphs l)"
  by (cases l) (simp_all add: glyph_text_no_return)

lemma unlines_no_return:
  "\<forall>l \<in> set ls. no_return l \<Longrightarrow> carriage_return \<notin> set (unlines (map (print_line glyphs) ls))"
proof (induction ls)
  case (Cons l ls)
  then show ?case
    using print_line_no_return [of l glyphs] by (simp add: unlines_def carriage_return_def line_feed_def)
qed (simp add: unlines_def)

lemma sample_font_text_canonical: "canonical_text sample_font_text = sample_font_text"
proof (rule canonical_text_id)
  have "no_return (Other_line ''/* License: Public Domain */'')"
    "no_return (Other_line ''char font8x8_basic[128][8] = {'')" "no_return (Other_line ''};'')"
    "carriage_return \<notin> set '' (backwards)''"
    by (simp_all add: carriage_return_def)
  then have "\<forall>l \<in> set (Other_line ''/* License: Public Domain */'' # sample_lines). no_return l"
    unfolding sample_lines_def by (simp del: no_return.simps(1))
  then show "carriage_return \<notin> set sample_font_text"
    unfolding sample_font_text_def by (rule unlines_no_return)
  show "sample_font_text =
      (unlines (map (print_line sample_glyphs)
        (Other_line ''/* License: Public Domain */'' # butlast sample_lines)) @ ''}'') @ [CHR '';'', line_feed]"
    by (simp add: sample_font_text_def sample_lines_def unlines_def butlast_append)
qed (simp add: line_feed_def)

lemma sample_font:
  "load_font8x8 (parse_font sample_surroundings) (sha256 sample_surroundings) (read_to_string sample_disk) =
    Ok (sample_metadata, sample_glyphs)"
proof -
  have "source_line_ok (Other_line ''/* License: Public Domain */'')" by code_simp
  then have "parse_font8x8_basic sample_font_text = Ok sample_glyphs"
    unfolding sample_font_text_def using sample_lines_ok by (intro font_source_parses) simp_all
  moreover have "contains ''License: Public Domain'' sample_font_text"
    using contains_append [of "''License: Public Domain''" "''/* ''"]
    by (simp add: sample_font_text_def unlines_def)
  moreover have "canonical_text sample_readme = sample_readme"
    by (rule canonical_text_id [where t = "butlast (butlast sample_readme)" and c = "CHR ''s''"])
      (simp_all add: sample_readme_def carriage_return_def line_feed_def)
  moreover have "contains ''Author: Daniel Hepper'' sample_readme" "contains ''License: Public Domain'' sample_readme"
    "contains ''Marcel Sondaar'' sample_readme" "contains ''International Business Machines'' sample_readme"
    "contains ''Marcel Sondaar'' (provenance sample_metadata)"
    "contains ''International Business Machines'' (provenance sample_metadata)"
    by (code_simp, code_simp, code_simp, code_simp, code_simp, code_simp)
  moreover have "path_join ''third_party/font8x8'' ''font8x8_basic.h'' = ''third_party/font8x8/font8x8_basic.h''"
    "path_join ''third_party/font8x8'' ''README'' = ''third_party/font8x8/README''"
    by (code_simp, code_simp)
  moreover have "read_to_string sample_disk ''third_party/font8x8/SOURCE.toml'' = Some []"
    "read_to_string sample_disk ''third_party/font8x8/font8x8_basic.h'' = Some sample_font_text"
    "read_to_string sample_disk ''third_party/font8x8/README'' = Some sample_readme"
    unfolding read_to_string_eq by (simp_all add: sample_disk_def as_bytes_def)
  moreover have "source_file sample_metadata = ''font8x8_basic.h''" "readme_file sample_metadata = ''README''"
    "license sample_metadata = ''Public Domain''" "sha256_lf sample_metadata = ''00''"
    "readme_sha256_canonical_lf sample_metadata = ''00''"
    by (simp_all add: sample_metadata_def)
  ultimately show ?thesis
    using sample_font_text_canonical
    by (simp add: load_font8x8_def read_or_def source_toml_path ensure_def Let_def sample_surroundings_def)
qed

lemma sync_all_writes:
  assumes "\<And>path content disk. \<exists>d. sync path content disk = (Ok (), d)"
  shows "\<exists>d. sync_all sync outputs disk = (Ok (), d)"
proof (induction outputs arbitrary: disk)
  case (Cons entry outputs)
  obtain d where "sync (fst entry) (snd entry) disk = (Ok (), d)" using assms by blast
  then show ?case using Cons [of d] by (cases entry) simp
qed simp

lemma write_generate_succeeds:
  assumes "read_sources env disk = Ok (spec, source, font)" and "text_outputs spec source = Ok texts"
    and "binary_outputs env spec font = Ok binaries" and "\<And>path. writable env path"
  shows "\<exists>d. generate env False disk = (Ok (), d)"
proof -
  have one: "\<exists>d. sync_generated_text env False path content disk = (Ok (), d)"
    and octets: "\<exists>d. sync_generated_bytes env False path bs disk = (Ok (), d)" for path content bs disk
    using assms(4) by (simp_all add: sync_generated_text_def sync_generated_bytes_def write_file_def)
  obtain d where "sync_all (sync_generated_text env False) texts disk = (Ok (), d)"
    using sync_all_writes [of "sync_generated_text env False"] one by blast
  moreover obtain d' where "sync_all (sync_generated_bytes env False) binaries d = (Ok (), d')"
    using sync_all_writes [of "sync_generated_bytes env False"] octets by blast
  ultimately show ?thesis using assms(1-3) by (simp add: generate_def)
qed

lemma ndm24_palette: "\<exists>palette. generate_palette ndm24_spec = Ok palette \<and> length palette = 512"
proof -
  have "(case generate_palette ndm24_spec of Ok palette \<Rightarrow> length palette = 512 | _ \<Rightarrow> False)"
    unfolding generate_palette_def ndm24_values by code_simp
  then show ?thesis by (cases "generate_palette ndm24_spec") simp_all
qed

lemma sample_binaries: "\<exists>binaries. binary_outputs sample_surroundings ndm24_spec font = Ok binaries"
proof -
  obtain palette where palette: "generate_palette ndm24_spec = Ok palette" "length palette = 512"
    using ndm24_palette by blast
  then have "\<exists>preview. generate_font_preview (png_encode sample_surroundings) (generate_sfc_font font) palette = Ok preview"
    using paint_specimen [of font palette]
    by (simp add: generate_font_preview_def ensure_def length_FONT_TEST_LINES Let_def
        foreground_def background_def sample_surroundings_def)
  then show ?thesis using palette(1) by (auto simp: binary_outputs_def Let_def)
qed

lemma sample_run: "\<exists>d. generate sample_surroundings False sample_disk = (Ok (), d)"
proof -
  have "read_to_string sample_disk ''spec/ndm24.toml'' = Some []"
    unfolding read_to_string_eq by (simp add: sample_disk_def as_bytes_def)
  then have "read_sources sample_surroundings sample_disk = Ok (ndm24_spec, sample_metadata, sample_glyphs)"
    using sample_font ndm24_valid by (simp add: read_sources_def read_spec_def sample_surroundings_def)
  moreover obtain texts where "text_outputs ndm24_spec sample_metadata = Ok texts"
    using render_agree [OF ndm24_plain] by (auto simp: text_outputs_def)
  moreover obtain binaries where "binary_outputs sample_surroundings ndm24_spec sample_glyphs = Ok binaries"
    using sample_binaries by blast
  ultimately show ?thesis
    by (rule write_generate_succeeds) (simp add: sample_surroundings_def)
qed

lemma sample_apart: "sources_apart sample_surroundings sample_disk"
proof -
  have "path_join ''third_party/font8x8'' ''font8x8_basic.h'' \<notin> set output_paths"
    "path_join ''third_party/font8x8'' ''README'' \<notin> set output_paths"
    by (code_simp, code_simp)
  then show ?thesis by (simp add: sources_apart_def sample_surroundings_def sample_metadata_def)
qed

text \<open>
  C34: where \<^verbatim>\<open>generate\<close> succeeds, it changes exactly the seven generated files, to what the
  sources determine. After it \<^verbatim>\<open>--check\<close> passes and changes nothing; and on any disk with the same
  sources the check passes exactly if each of the seven files is there with exactly that content. The
  texts are compared after decoding UTF-8 and the other files as octets. The files named in
  \<^verbatim>\<open>SOURCE.toml\<close> must not be generated ones.
\<close>

theorem generate_check_exact:
  assumes "generate env False disk = (Ok (), disk')" and "sources_apart env disk"
  shows "\<exists>files. generated_files env disk = Ok files \<and> map fst files = output_paths \<and>
    disk' = disk ++ map_of files \<and> generate env True disk' = (Ok (), disk') \<and>
    (\<forall>d. same_sources d disk \<longrightarrow> (fst (generate env True d) = Ok () \<longleftrightarrow> holds_files d files))"
proof -
  obtain files where files: "generated_files env disk = Ok files" and disk': "disk' = disk ++ map_of files"
    using write_generate [OF assms(1)] by blast
  note paths = generated_files_paths [OF files]
  have exact: "fst (generate env True d) = Ok () \<longleftrightarrow> holds_files d files" if "same_sources d disk" for d
    using check_generate [of env d] generated_files_same [OF that assms(2)] files by simp
  have "same_sources disk' disk"
    using paths by (auto simp: same_sources_def disk' map_add_def dom_files [symmetric] split: option.splits)
      (metis domI dom_files)
  moreover have "holds_files disk' files"
    unfolding disk' using paths output_paths_distinct by (intro holds_map_of) simp
  ultimately have "fst (generate env True disk') = Ok ()" using exact by blast
  then have "generate env True disk' = (Ok (), disk')"
    using check_generate [of env disk'] by (metis prod.collapse)
  then show ?thesis using files paths disk' exact by blast
qed

theorem generate_check_exact_witness:
  "\<exists>disk' files. generate sample_surroundings False sample_disk = (Ok (), disk') \<and>
    generated_files sample_surroundings sample_disk = Ok files \<and>
    generate sample_surroundings True disk' = (Ok (), disk')"
proof -
  obtain d where run: "generate sample_surroundings False sample_disk = (Ok (), d)"
    using sample_run by blast
  then show ?thesis using generate_check_exact [OF run sample_apart] by blast
qed

end
