(* ===== verification/Xtask_Build.thy ===== *)
theory Xtask_Build
  imports Xtask_Spec
begin

text \<open>
  Building and testing the ROM, \<^verbatim>\<open>xtask/src/main.rs\<close>: the profiles, the label file of the linker, the
  script of the MesenCE self-test with the offsets filled in, and what an exit code of the emulator
  means; and the other reader of label files, \<^verbatim>\<open>tools/ndm24-tools/src/labels.rs\<close>. Running the assembler,
  the linker and the emulator, and finding them, is left out.

  A \<^verbatim>\<open>u32\<close> is a number below \<open>2 ^ 32\<close>; \<^verbatim>\<open>HashMap::insert\<close> replaces.
\<close>

section \<open>Profiles\<close>

datatype rom_profile = Normal_rom | Smoke_rom | Font_test_rom

definition from_flags :: "bool \<Rightarrow> bool \<Rightarrow> rom_profile" where
  "from_flags smoke font_test =
    (if smoke then Smoke_rom else if font_test then Font_test_rom else Normal_rom)"

fun output_directory :: "rom_profile \<Rightarrow> string" where
  "output_directory Normal_rom = ''build/normal''"
| "output_directory Smoke_rom = ''build/smoke''"
| "output_directory Font_test_rom = ''build/font-test''"

fun assembler_define :: "rom_profile \<Rightarrow> string option" where
  "assembler_define Normal_rom = None"
| "assembler_define Smoke_rom = Some ''MODEM_SMOKE_TEST''"
| "assembler_define Font_test_rom = Some ''MODEM_FONT_TEST''"

text \<open>The checks of \<^verbatim>\<open>assemble_rom\<close> on the linked ROM.\<close>

datatype build_error =
    RomSize
  | RomWithoutAttribution
  | LabelNotFound string
  | InvalidLabelAddress string
  | NotInWram string
  | OutsideWram
  | MissingCommand
  | MissingStatus string
  | UnresolvedPlaceholder

definition check_rom :: "bytes \<Rightarrow> (unit, build_error) result" where
  "check_rom rom =
    and_then (ensure (length rom = 131072) RomSize) (\<lambda>_.
    ensure (find_text ''font8x8 by Daniel Hepper'' (map (\<lambda>b. char_of (unat b)) rom) \<noteq> None)
      RomWithoutAttribution)"

section \<open>Label files\<close>

text \<open>
  \<^verbatim>\<open>al 7E078D .modemMailbox\<close>: the address and the name of a line with at least three words, of which
  the first is \<^verbatim>\<open>al\<close>.
\<close>

definition label_line :: "string \<Rightarrow> (string \<times> string) option" where
  "label_line line =
    (case split_whitespace line of
       kind # address # n # _ \<Rightarrow>
         if kind = ''al'' then Some (address, trim_start_matches (CHR ''.'') n) else None
     | _ \<Rightarrow> None)"

definition label_address :: "string \<Rightarrow> nat option" where
  "label_address address = from_str_radix 16 (2 ^ 32) (trim_start_matches (CHR ''$'') address)"

text \<open>\<^verbatim>\<open>parse_label_address\<close> of xtask: the first line with the name decides.\<close>

fun find_label :: "string list \<Rightarrow> string \<Rightarrow> (nat, build_error) result" where
  "find_label [] wanted = Err (LabelNotFound wanted)"
| "find_label (line # ls) wanted =
    (case label_line line of
       None \<Rightarrow> find_label ls wanted
     | Some (address, n) \<Rightarrow>
         if n \<noteq> wanted then find_label ls wanted
         else (case label_address address of
             None \<Rightarrow> Err (InvalidLabelAddress wanted)
           | Some a \<Rightarrow> Ok a))"

definition parse_label_address :: "string \<Rightarrow> string \<Rightarrow> (nat, build_error) result" where
  "parse_label_address source wanted = find_label (text_lines source) wanted"

text \<open>\<^verbatim>\<open>read_labels\<close> of the host tools: every line must be right, and the last one with a name decides.\<close>

fun collect_label_lines ::
  "string list \<Rightarrow> (string \<Rightarrow> nat option) \<Rightarrow> (string \<Rightarrow> nat option, build_error) result" where
  "collect_label_lines [] labels = Ok labels"
| "collect_label_lines (line # ls) labels =
    (case label_line line of
       None \<Rightarrow> collect_label_lines ls labels
     | Some (address, n) \<Rightarrow>
         (case label_address address of
            None \<Rightarrow> Err (InvalidLabelAddress n)
          | Some a \<Rightarrow> collect_label_lines ls (labels(n \<mapsto> a))))"

definition read_labels :: "string \<Rightarrow> (string \<Rightarrow> nat option, build_error) result" where
  "read_labels source = collect_label_lines (text_lines source) (\<lambda>_. None)"

section \<open>The self-test in the emulator\<close>

definition wram_offset :: "string \<Rightarrow> string \<Rightarrow> (nat, build_error) result" where
  "wram_offset labels n =
    and_then (parse_label_address labels n) (\<lambda>address.
    if 0x7e0000 \<le> address then Ok (address - 0x7e0000) else Err (NotInWram n))"

definition hex_offset :: "nat \<Rightarrow> string" where
  "hex_offset k = ''0x'' @ hex_text 5 k"

text \<open>The placeholders and their texts, in the order of the calls of \<^verbatim>\<open>replace\<close>.\<close>

definition mesen_substitutions :: "string \<Rightarrow> spec_file \<Rightarrow> ((string \<times> string) list, build_error) result" where
  "mesen_substitutions labels spec =
    and_then (wram_offset labels ''modemMailbox'') (\<lambda>mailbox_offset.
    and_then (ensure (mailbox_offset \<le> 0x1ffff) OutsideWram) (\<lambda>_.
    and_then (wram_offset labels ''screenMode'') (\<lambda>screen_mode_offset.
    and_then (wram_offset labels ''statusPage'') (\<lambda>status_page_offset.
    and_then (wram_offset labels ''statusRenderedPage'') (\<lambda>status_rendered_page_offset.
    and_then (wram_offset labels ''statusTileBuffer'') (\<lambda>status_tile_buffer_offset.
    and_then (wram_offset labels ''clockValid'') (\<lambda>clock_valid_offset.
    and_then (wram_offset labels ''pppNtpLastError'') (\<lambda>ntp_last_error_offset.
    and_then (wram_offset labels ''pppNtpRequestCount'') (\<lambda>ntp_request_count_offset.
    and_then (wram_offset labels ''frameCounter'') (\<lambda>frame_counter_offset.
    case map_of (mailbox_commands spec) ''ppp_self_test'' of None \<Rightarrow> Err MissingCommand | Some command \<Rightarrow>
    case map_of (mailbox_status spec) ''passed'' of None \<Rightarrow> Err (MissingStatus ''passed'') | Some passed \<Rightarrow>
    case map_of (mailbox_status spec) ''failed'' of None \<Rightarrow> Err (MissingStatus ''failed'') | Some failed \<Rightarrow>
    Ok [(''@MAILBOX_OFFSET@'', hex_offset mailbox_offset),
        (''@MAILBOX_VERSION@'', decimal_text (unat (mailbox_version (mailbox spec)))),
        (''@MAILBOX_SIZE@'', decimal_text (mailbox_size (mailbox spec))),
        (''@COMMAND_PPP_SELF_TEST@'', decimal_text (unat command)),
        (''@STATUS_PASSED@'', decimal_text (unat passed)),
        (''@STATUS_FAILED@'', decimal_text (unat failed)),
        (''@SCREEN_MODE_OFFSET@'', hex_offset screen_mode_offset),
        (''@STATUS_TILE_BUFFER_OFFSET@'', hex_offset status_tile_buffer_offset),
        (''@STATUS_PAGE_OFFSET@'', hex_offset status_page_offset),
        (''@STATUS_RENDERED_PAGE_OFFSET@'', hex_offset status_rendered_page_offset),
        (''@CLOCK_VALID_OFFSET@'', hex_offset clock_valid_offset),
        (''@NTP_LAST_ERROR_OFFSET@'', hex_offset ntp_last_error_offset),
        (''@NTP_REQUEST_COUNT_OFFSET@'', hex_offset ntp_request_count_offset),
        (''@FRAME_COUNTER_OFFSET@'', hex_offset frame_counter_offset)]))))))))))"

definition mesen_script :: "string \<Rightarrow> (string \<times> string) list \<Rightarrow> (string, build_error) result" where
  "mesen_script template substitutions =
    (let script = foldl (\<lambda>script (placeholder, v). replace_text placeholder v script) template substitutions
     in if CHR ''@'' \<in> set script then Err UnresolvedPlaceholder else Ok script)"

text \<open>The exit code of the emulator; \<open>None\<close> is a termination without one.\<close>

datatype mesen_outcome =
    Passed
  | RejectedVersion | RejectedSize
  | StatusScreenNotDefault | FrameCounterRate | StatusPageNotPersistent | StatusPageNotObserved
  | StatusPageHeading | DnsDashboard | IcmpDashboard | CommonStatusPage | NetworkDashboard
  | ClockRestoration | CompletionTimeout | InitializationTimeout
  | FailedAtStep int
  | OtherExitCode int
  | NoExitCode

definition mesen_outcome_of :: "int option \<Rightarrow> mesen_outcome" where
  "mesen_outcome_of code =
    (case code of
       None \<Rightarrow> NoExitCode
     | Some c \<Rightarrow>
         if c = 0 then Passed
         else if c = 250 then RejectedVersion
         else if c = 251 then RejectedSize
         else if c = 245 then StatusScreenNotDefault
         else if c = 244 then FrameCounterRate
         else if c = 241 then StatusPageNotPersistent
         else if c = 242 then StatusPageNotObserved
         else if c = 243 then StatusPageHeading
         else if c = 240 then DnsDashboard
         else if c = 239 then IcmpDashboard
         else if c = 246 then CommonStatusPage
         else if c = 247 then NetworkDashboard
         else if c = 248 then ClockRestoration
         else if c = 249 then CompletionTimeout
         else if c = 252 then InitializationTimeout
         else if 1 \<le> c \<and> c \<le> 249 then FailedAtStep c
         else OtherExitCode c)"

section \<open>The two readers of label files\<close>

text \<open>The labels of a file in its order, with \<open>None\<close> for an address that is not one.\<close>

definition label_file_entries :: "string list \<Rightarrow> (string \<times> nat option) list" where
  "label_file_entries ls =
    List.map_filter (\<lambda>line. map_option (\<lambda>(address, n). (n, label_address address)) (label_line line)) ls"

lemma label_file_entries_Nil [simp]: "label_file_entries [] = []"
  by (simp add: label_file_entries_def List.map_filter_simps)

lemma label_file_entries_Cons [simp]: "label_file_entries (line # ls) =
    (case label_line line of None \<Rightarrow> label_file_entries ls
     | Some (address, n) \<Rightarrow> (n, label_address address) # label_file_entries ls)"
  by (simp add: label_file_entries_def List.map_filter_simps split: option.split)

lemma find_label_file_entries: "find_label ls wanted =
    (case map_of (label_file_entries ls) wanted of
       None \<Rightarrow> Err (LabelNotFound wanted)
     | Some None \<Rightarrow> Err (InvalidLabelAddress wanted)
     | Some (Some a) \<Rightarrow> Ok a)"
  by (induction ls) (auto split: option.split)

lemma collect_label_file_entries: "collect_label_lines ls labels = Ok m \<Longrightarrow>
    (\<forall>(n, a) \<in> set (label_file_entries ls). a \<noteq> None) \<and>
    m = labels ++ map_of (rev (map (\<lambda>(n, a). (n, the a)) (label_file_entries ls)))"
proof (induction ls arbitrary: labels)
  case (Cons line ls)
  show ?case
  proof (cases "label_line line")
    case None
    then show ?thesis using Cons by simp
  next
    case (Some entry)
    obtain address n where entry: "entry = (address, n)" by (cases entry)
    then obtain a where a: "label_address address = Some a"
      and rest: "collect_label_lines ls (labels(n \<mapsto> a)) = Ok m"
      using Cons.prems Some by (auto split: option.splits)
    have "labels(n \<mapsto> a) = labels ++ [n \<mapsto> a]" by simp
    then show ?thesis using Cons.IH [OF rest] a by (simp add: Some entry map_add_assoc del: map_add_upd)
  qed
qed simp

lemma map_of_rev_distinct: "distinct (map fst xs) \<Longrightarrow> map_of (rev xs) = map_of xs"
  by (rule map_of_inject_set [THEN iffD2]) (simp_all add: rev_map [symmetric])

text \<open>
  On a label file without repeated names that the host tools can read, both readers give the same
  address for every label, and xtask does not find a label exactly if the host tools do not have it.
\<close>

theorem label_readers_agree:
  assumes "read_labels source = Ok labels" and "distinct (map fst (label_file_entries (text_lines source)))"
  shows "parse_label_address source n =
    (case labels n of None \<Rightarrow> Err (LabelNotFound n) | Some a \<Rightarrow> Ok a)"
proof -
  let ?es = "label_file_entries (text_lines source)"
  let ?vs = "map (\<lambda>(n, a). (n, the a)) ?es"
  have valid: "\<forall>(n, a) \<in> set ?es. a \<noteq> None" and labels: "labels = map_of (rev ?vs)"
    using collect_label_file_entries [OF assms(1) [unfolded read_labels_def]] by (simp_all add: map_add_def)
  have keys: "map fst ?vs = map fst ?es" by (simp add: comp_def case_prod_unfold)
  have "map_of (rev ?vs) = map_of ?vs" by (rule map_of_rev_distinct) (unfold keys, rule assms(2))
  then have "labels n = map_of ?vs n" unfolding labels by simp
  moreover have "map_of (map (\<lambda>(n, a). (n, the a)) es) n = map_option the (map_of es n)"
    for es :: "(string \<times> nat option) list" by (induction es) auto
  moreover have "map_of ?es n \<noteq> Some None" using valid by (auto dest: map_of_SomeD)
  ultimately show ?thesis
    by (auto simp: parse_label_address_def find_label_file_entries split: option.splits)
qed

end
