(* ===== verification/Console_Loop.thy ===== *)
theory Console_Loop
  imports Device_Reads
begin

text \<open>
  What the commands of \<^verbatim>\<open>tools/ndm24-tools/src/qusb2snes.rs\<close> share: sequences of fallible steps that may not return, the
  loops that poll the console, and that all of them come to an end because time passes.

  A \<open>run\<close> is the outcome of a step and the state it leaves; \<open>None\<close> is a step that never returns. Rust's
  question mark is \<open>run_then\<close>.
\<close>

type_synonym ('a, 's) run = "(('a, tool_error) result \<times> 's) option"

definition run_then :: "('a, 's) run \<Rightarrow> ('a \<Rightarrow> 's \<Rightarrow> ('b, 's) run) \<Rightarrow> ('b, 's) run" where
  "run_then r f = Option.bind r (\<lambda>(q, s). case q of
     Ok x \<Rightarrow> f x s | Err e \<Rightarrow> Some (Err e, s) | Panic \<Rightarrow> Some (Panic, s))"

lemma run_then_simps [simp]:
  "run_then (Some (Ok x, s)) f = f x s" "run_then (Some (Err e, s)) f = Some (Err e, s)"
  "run_then (Some (Panic, s)) f = Some (Panic, s)" "run_then None f = None"
  by (simp_all add: run_then_def)

lemma run_then_eq_Ok:
  "run_then r f = Some (Ok y, s') \<longleftrightarrow> (\<exists>x s. r = Some (Ok x, s) \<and> f x s = Some (Ok y, s'))"
  by (cases r; cases "fst (the r)") (auto simp: run_then_def)

lemma run_then_mono [partial_function_mono]:
  assumes "mono_option B" and "\<And>x s. mono_option (C x s)"
  shows "mono_option (\<lambda>g. run_then (B g) (\<lambda>x s. C x s g))"
  unfolding run_then_def
  by (intro bind_mono assms(1)) (auto split: prod.split result.split intro!: monotoneI option.leq_refl dest: monotoneD [OF assms(2)])

lemma run_then_returns:
  assumes "r \<noteq> None" and "\<And>x s. r = Some (Ok x, s) \<Longrightarrow> f x s \<noteq> None"
  shows "run_then r f \<noteq> None"
  using assms by (auto simp: run_then_def split: result.splits)

section \<open>Polling\<close>

text \<open>A loop around a turn, which ends with a value, with an error, or asks for another turn.\<close>

partial_function (option) repeat_until :: "('s \<Rightarrow> ('r option, 's) run) \<Rightarrow> 's \<Rightarrow> ('r, 's) run" where
  "repeat_until turn s =
     run_then (turn s) (\<lambda>outcome s. case outcome of Some r \<Rightarrow> Some (Ok r, s) | None \<Rightarrow> repeat_until turn s)"

text \<open>The value comes from a turn in a state that the earlier turns led to.\<close>

lemma repeat_until_Ok:
  assumes "repeat_until turn s = Some y" and "y = (Ok r, s')" and "P s"
    and "\<And>t t'. P t \<Longrightarrow> turn t = Some (Ok None, t') \<Longrightarrow> P t'"
  shows "\<exists>t. P t \<and> turn t = Some (Ok (Some r), s')"
  using assms
proof (induction arbitrary: rule: repeat_until.raw_induct [rotated, consumes 1, case_names step])
  case (step loop turn s y)
  from step(2,3) obtain outcome s1 where turn: "turn s = Some (Ok outcome, s1)"
    and rest: "(case outcome of Some r \<Rightarrow> Some (Ok r, s1) | None \<Rightarrow> loop turn s1) = Some (Ok r, s')"
    by (auto simp: run_then_eq_Ok)
  show ?case
  proof (cases outcome)
    case None
    with turn step(4,5) have "P s1" by blast
    with step(1) [of turn s1 y] rest None step(3,5) show ?thesis by auto
  qed (use turn rest step(4) in auto)
qed

text \<open>It returns if every turn does and another turn is asked for only before a deadline, after some time.\<close>

lemma repeat_until_returns:
  fixes clock :: "'s \<Rightarrow> nat"
  assumes "P s" and turn: "\<And>s. P s \<Longrightarrow> turn s \<noteq> None"
    and progress: "\<And>s s'. P s \<Longrightarrow> turn s = Some (Ok None, s') \<Longrightarrow> P s' \<and> clock s < clock s' \<and> clock s < limit"
  shows "repeat_until turn s \<noteq> None"
  using assms(1)
proof (induction "limit - clock s" arbitrary: s rule: less_induct)
  case less
  show ?case
  proof (subst repeat_until.simps, rule run_then_returns)
    show "turn s \<noteq> None" by (rule turn) (rule less.prems)
  next
    fix outcome t assume t: "turn s = Some (Ok outcome, t)"
    show "(case outcome of Some r \<Rightarrow> Some (Ok r, t) | None \<Rightarrow> repeat_until turn t) \<noteq> None"
    proof (cases outcome)
      case None
      with progress [OF less.prems] t have "P t" "limit - clock t < limit - clock s" by (simp_all add: diff_less_mono2)
      with less.hyps None show ?thesis by simp
    qed simp
  qed
qed

section \<open>Time\<close>

text \<open>The operations of a connection take time; a read takes some.\<close>

definition takes_time :: "'s device \<Rightarrow> ('s \<Rightarrow> nat) \<Rightarrow> bool" where
  "takes_time dev clock \<longleftrightarrow>
     (\<forall>offset n s. clock s < clock (snd (read_address dev offset n s))) \<and>
     (\<forall>s. clock s \<le> clock (pause dev s)) \<and> (\<forall>s. clock s \<le> clock (snd (connect dev s))) \<and>
     (\<forall>offset payload s. clock s \<le> clock (snd (execute_address dev offset payload s)))"

lemma takes_time_within [simp]: "takes_time (within con limit start) clock \<longleftrightarrow> takes_time (attached con) clock"
  by (simp add: takes_time_def)

lemma takes_time_read: "takes_time dev clock \<Longrightarrow> read_address dev offset n s = (r, s') \<Longrightarrow> clock s < clock s'"
  unfolding takes_time_def by (metis snd_conv)

lemma takes_time_pause: "takes_time dev clock \<Longrightarrow> clock s \<le> clock (pause dev s)"
  by (simp add: takes_time_def)

lemma takes_time_connect: "takes_time dev clock \<Longrightarrow> connect dev s = (r, s') \<Longrightarrow> clock s \<le> clock s'"
  unfolding takes_time_def by (metis snd_conv)

text \<open>A run that does not turn the clock back.\<close>

definition forward :: "('s \<Rightarrow> nat) \<Rightarrow> 's \<Rightarrow> ('a, 's) run \<Rightarrow> bool" where
  "forward clock s r \<longleftrightarrow> (\<forall>q s'. r = Some (q, s') \<longrightarrow> clock s \<le> clock s')"

lemma forward_Some [simp]: "forward clock s (Some (q, s')) \<longleftrightarrow> clock s \<le> clock s'"
  by (simp add: forward_def)

lemma forward_None [simp]: "forward clock s None"
  by (simp add: forward_def)

lemma forward_trans: "clock s \<le> clock t \<Longrightarrow> forward clock t r \<Longrightarrow> forward clock s r"
  by (auto simp: forward_def intro: order_trans)

lemma forward_run_then:
  assumes "forward clock s r" and "\<And>x t. clock s \<le> clock t \<Longrightarrow> r = Some (Ok x, t) \<Longrightarrow> forward clock t (f x t)"
  shows "forward clock s (run_then r f)"
proof (cases r)
  case (Some a)
  then show ?thesis
    using assms by (cases a; cases "fst a") (auto intro: forward_trans)
qed simp

lemma forward_read: "takes_time dev clock \<Longrightarrow> forward clock s (Some (read_address dev offset n s))"
  by (auto simp: forward_def intro: less_imp_le takes_time_read)

lemma forward_connect: "takes_time dev clock \<Longrightarrow> forward clock s (Some (connect dev s))"
  by (auto simp: forward_def intro: takes_time_connect)

text \<open>The same for the loops of \<^verbatim>\<open>Device_Reads\<close>.\<close>

lemma takes_time_reads:
  assumes "takes_time dev clock"
  shows "clock s < clock (snd (read_address dev offset n s))" "clock s \<le> clock (pause dev s)"
  using assms by (simp_all add: takes_time_def)

lemma read_stable_forward:
  assumes "read_stable dev offset sequence_offset n s = Some y" and "takes_time dev clock"
  shows "clock s \<le> clock (snd y) \<and> (is_ok (fst y) \<longrightarrow> clock s < clock (snd y))"
  using assms
proof (induction rule: read_stable.raw_induct [rotated, consumes 1, case_names step])
  case (step loop dev offset sequence_offset n s y)
  note time = takes_time_reads [OF step(3)]
  show ?case
  proof (cases "stable_attempt dev offset sequence_offset n s")
    case (Pair r t)
    have t: "clock s < clock t"
      using stable_attempt_clock [OF time(1), of s offset sequence_offset n] Pair by simp
    show ?thesis
    proof (cases "\<not> expired dev s \<and> r = Ok None")
      case True
      with step(2) Pair have "loop dev offset sequence_offset n (pause dev t) = Some y" by simp
      with step(1,3) have "clock (pause dev t) \<le> clock (snd y)" by blast
      with t time(2) [of t] show ?thesis by linarith
    next
      case False
      with step(2) Pair t show ?thesis by (auto split: if_splits result.splits option.splits)
    qed
  qed
qed

lemma read_stable_within:
  assumes "timed con clock" and "takes_time (attached con) clock"
  shows "read_stable (within con limit start) offset sequence_offset n s \<noteq> None"
proof (rule read_stable_returns [where clock = clock and deadline = "clock start + limit"])
  show "expired (within con limit start) t" if "clock start + limit \<le> clock t" for t
    using that assms(1) by (simp add: timed_def)
qed (use takes_time_reads [OF assms(2)] in simp_all)

lemma ppp_snapshot_returns:
  "timed con clock \<Longrightarrow> takes_time (attached con) clock \<Longrightarrow> read_stable_ppp_snapshot con offset s \<noteq> None"
  using read_stable_within [of con clock] by (auto simp: read_stable_ppp_snapshot_def)

lemma modem_snapshot_returns:
  "timed con clock \<Longrightarrow> takes_time (attached con) clock \<Longrightarrow> read_stable_snapshot con offset s \<noteq> None"
  using read_stable_within [of con clock] by (auto simp: read_stable_snapshot_def)

lemma ppp_snapshot_time:
  assumes "takes_time (attached con) clock"
  shows "forward clock s (read_stable_ppp_snapshot con offset s)"
    "read_stable_ppp_snapshot con offset s = Some (Ok snapshot, s') \<Longrightarrow> clock s < clock s'"
  using assms
  by (auto simp: forward_def read_stable_ppp_snapshot_def and_then_eq_Ok dest!: read_stable_forward [where clock = clock])

lemma modem_snapshot_time:
  assumes "takes_time (attached con) clock"
  shows "forward clock s (read_stable_snapshot con offset s)"
    "read_stable_snapshot con offset s = Some (Ok snapshot, s') \<Longrightarrow> clock s < clock s'"
  using assms
  by (auto simp: forward_def read_stable_snapshot_def and_then_eq_Ok dest!: read_stable_forward [where clock = clock])

section \<open>Mailbox commands take time and return\<close>

text \<open>Both loops are repeated turns.\<close>

lemma read_output_loop_again:
  assumes "takes_time dev clock" and "output_attempt dev offset s = (Ok None, t)"
  shows "clock s < clock t \<and> \<not> expired dev t"
proof -
  from assms(2) obtain first a second where r: "read_address dev offset MODEM_MAILBOX_ARGUMENT_SIZE s = (Ok first, a)"
    "read_address dev offset MODEM_MAILBOX_ARGUMENT_SIZE (pause dev a) = (Ok second, t)" "\<not> expired dev t"
    by (auto simp: output_attempt_def and_then_st_eq_Ok split: if_splits)
  from takes_time_read [OF assms(1) r(1)] takes_time_pause [OF assms(1), of a] takes_time_read [OF assms(1) r(2)]
  have "clock s < clock t" by linarith
  with r(3) show ?thesis by simp
qed

lemma mailbox_poll_again:
  assumes "takes_time dev clock" and "mailbox_poll dev offset sequence candidate s = (Ok (Again next), t)"
  shows "\<exists>u. clock s < clock u \<and> clock u \<le> clock t \<and> \<not> expired dev u"
proof -
  from assms(2) obtain block u where r: "read_address dev offset MODEM_MAILBOX_SIZE s = (Ok block, u)"
    "t = pause dev u" "\<not> expired dev u"
    by (auto simp: mailbox_poll_def and_then_st_eq_Ok split: if_splits)
  with takes_time_read [OF assms(1) r(1)] takes_time_pause [OF assms(1), of u] show ?thesis by blast
qed

lemma output_attempt_forward:
  assumes "takes_time dev clock"
  shows "clock s \<le> clock (snd (output_attempt dev offset s))"
proof -
  note step = clock_and_then_st [where clock = clock] and reads = less_imp_le [OF takes_time_reads(1) [OF assms]]
  show ?thesis unfolding output_attempt_def
    by (rule step, rule reads, rule step, rule order_trans [OF takes_time_reads(2) [OF assms] reads], simp)
qed

lemma mailbox_poll_forward:
  assumes "takes_time dev clock"
  shows "clock s \<le> clock (snd (mailbox_poll dev offset sequence candidate s))"
proof -
  note step = clock_and_then_st [where clock = clock] and reads = less_imp_le [OF takes_time_reads(1) [OF assms]]
  show ?thesis unfolding mailbox_poll_def
    by (rule step, rule reads, (rule step, simp)+, auto intro!: step simp: takes_time_reads(2) [OF assms])
qed

lemma read_output_loop_forward:
  assumes "read_output_loop dev offset s = Some y" and "takes_time dev clock"
  shows "clock s \<le> clock (snd y)"
  using assms
proof (induction rule: read_output_loop.raw_induct [rotated, consumes 1, case_names step])
  case (step loop dev offset s y)
  show ?case
  proof (cases "output_attempt dev offset s")
    case (Pair r t)
    with output_attempt_forward [OF step(3), of s offset] have "clock s \<le> clock t" by simp
    moreover have "clock t \<le> clock (snd y)" if "r = Ok None"
      using step(2) Pair that by (intro step(1) [OF _ step(3)]) simp
    ultimately show ?thesis
      using step(2) Pair by (cases "r = Ok None") (auto split: result.splits option.splits)
  qed
qed

lemma mailbox_wait_forward:
  assumes "mailbox_wait dev offset sequence candidate s = Some y" and "takes_time dev clock"
  shows "clock s \<le> clock (snd y)"
  using assms
proof (induction rule: mailbox_wait.raw_induct [rotated, consumes 1, case_names step])
  case (step loop dev offset sequence candidate s y)
  show ?case
  proof (cases "mailbox_poll dev offset sequence candidate s")
    case (Pair r t)
    with mailbox_poll_forward [OF step(3), of s offset sequence candidate] have "clock s \<le> clock t" by simp
    moreover have "clock t \<le> clock (snd y)" if "r = Ok (Again following)" for following
      using step(2) Pair that by (intro step(1) [OF _ step(3)]) simp
    ultimately show ?thesis
      using step(2) Pair by (fastforce split: result.splits mailbox_round.splits)
  qed
qed

lemma read_output_loop_returns:
  assumes "takes_time dev clock" and deadline: "\<And>s. deadline \<le> clock s \<Longrightarrow> expired dev s"
  shows "read_output_loop dev offset s \<noteq> None"
proof (induction "deadline - clock s" arbitrary: s rule: less_induct)
  case less
  have "read_output_loop dev offset t \<noteq> None" if "output_attempt dev offset s = (Ok None, t)" for t
  proof -
    from read_output_loop_again [OF assms(1) that] deadline [of t] have "deadline - clock t < deadline - clock s" by force
    then show ?thesis by (rule less)
  qed
  then show ?case
    by (subst read_output_loop.simps) (auto split: prod.split result.split option.split)
qed

lemma mailbox_wait_returns:
  assumes "takes_time dev clock" and deadline: "\<And>s. deadline \<le> clock s \<Longrightarrow> expired dev s"
  shows "mailbox_wait dev offset sequence candidate s \<noteq> None"
proof (induction "deadline - clock s" arbitrary: s candidate rule: less_induct)
  case less
  have "mailbox_wait dev offset sequence following t \<noteq> None"
    if "mailbox_poll dev offset sequence candidate s = (Ok (Again following), t)" for following t
  proof -
    from mailbox_poll_again [OF assms(1) that] deadline have "deadline - clock t < deadline - clock s" by force
    then show ?thesis by (rule less)
  qed
  then show ?case
    by (subst mailbox_wait.simps) (auto split: prod.split result.split mailbox_round.split)
qed

lemma mailbox_submit_forward:
  assumes "takes_time dev clock"
  shows "clock s \<le> clock (snd (mailbox_submit dev labels command arguments s))"
proof -
  note step = clock_and_then_st [where clock = clock] and reads = less_imp_le [OF takes_time_reads(1) [OF assms]]
  have dev: "clock s \<le> clock (snd (connect dev s))" "clock s \<le> clock (snd (execute_address dev a payload s))" for a payload s
    using assms by (simp_all add: takes_time_def)
  show ?thesis unfolding mailbox_submit_def
    by (cases "length arguments > MODEM_MAILBOX_ARGUMENT_SIZE", simp, simp only: if_False, rule step, simp, rule step, simp,
        rule step, rule dev, rule step, rule reads, rule step, simp, rule step, simp, rule step, simp, rule step, simp,
        rule step, rule dev, simp)
qed

text \<open>A mailbox command as a sequence of runs.\<close>

lemma mailbox_command_runs:
  "mailbox_command con labels command arguments timeout s =
     run_then (Some (mailbox_submit (attached con) labels command arguments s)) (\<lambda>(offset, sequence) s.
     run_then (mailbox_wait (within con timeout s) offset sequence None s) (\<lambda>outcome s.
     run_then (Some (connect (attached con) s)) (\<lambda>_ s.
     run_then (read_output_loop (within con (seconds 2) s) (offset + MODEM_MAILBOX_OFFSET_OUTPUT) s) (\<lambda>out s.
     Some (Ok \<lparr>mo_sequence = sequence, mo_result = outcome, mo_output = out\<rparr>, s)))))"
proof -
  have last_step: "map_option (\<lambda>(r, s). (and_then r (\<lambda>out. Ok (g out)), s)) r = run_then r (\<lambda>out s. Some (Ok (g out), s))"
    for g :: "bytes \<Rightarrow> mailbox_outcome" and r :: "(bytes, 's) run"
    by (cases r; cases "fst (the r)") auto
  show ?thesis
    unfolding mailbox_command_def read_stable_mailbox_output_def last_step
    by (auto simp: run_then_def split: prod.split result.split option.split bind_split)
qed

lemma mailbox_command_forward:
  assumes "takes_time (attached con) clock"
  shows "forward clock s (mailbox_command con labels command arguments timeout s)"
proof -
  have "forward clock s (Some (mailbox_submit (attached con) labels command arguments s))" for s
    using mailbox_submit_forward [OF assms] by (cases "mailbox_submit (attached con) labels command arguments s") (metis forward_Some snd_conv)
  moreover have "forward clock s (mailbox_wait (within con limit start) offset sequence None s)"
    "forward clock s (read_output_loop (within con limit start) offset s)" for limit start offset sequence s
    using assms by (auto simp: forward_def dest!: mailbox_wait_forward read_output_loop_forward)
  ultimately show ?thesis
    unfolding mailbox_command_runs by (auto intro!: forward_run_then forward_connect [OF assms])
qed

lemma mailbox_command_returns:
  assumes "timed con clock" and "takes_time (attached con) clock"
  shows "mailbox_command con labels command arguments timeout s \<noteq> None"
proof -
  have dev: "takes_time (within con limit start) clock"
    "clock start + limit \<le> clock s \<Longrightarrow> expired (within con limit start) s" for limit start s
    using assms by (simp_all add: timed_def)
  show ?thesis unfolding mailbox_command_runs
    by (rule run_then_returns, simp, simp only: split_beta, rule run_then_returns, rule mailbox_wait_returns [OF dev], assumption,
        rule run_then_returns, simp, rule run_then_returns, rule read_output_loop_returns [OF dev], assumption, simp)
qed

end
