(* ===== verification/Console_Commands.thy ===== *)
theory Console_Commands
  imports Console_Loop Dns Format_Text
begin

text \<open>
  The commands of \<^verbatim>\<open>tools/ndm24-tools/src/qusb2snes.rs\<close> on a console: opening and closing PPP, waiting for the network
  phase, the requests by NTP, ICMP and DNS, reading the trace and the pending octets of the receive ring, and the check of the
  running ROM. What is printed on the way, and the counters that an error message carries, are left out.

  \<^verbatim>\<open>DnsQuery\<close> takes the octets of a name; in UTF-8 it ends with a full stop exactly if its last octet is 46.
\<close>

section \<open>PPP\<close>

definition ppp_state_offset :: "label_table \<Rightarrow> (nat, tool_error) result" where
  "ppp_state_offset labels = and_then (label_at labels ''pppDiagnosticState'') wram_to_usb2snes"

definition read_ppp_snapshot :: "'s console \<Rightarrow> label_table \<Rightarrow> 's \<Rightarrow> (ppp_diagnostic_snapshot, 's) run" where
  "read_ppp_snapshot con labels s =
     run_then (Some (ppp_state_offset labels, s)) (\<lambda>offset s.
     run_then (Some (connect (attached con) s)) (\<lambda>_ s.
     read_stable_ppp_snapshot con offset s))"

text \<open>
  The loops that look at snapshots until one decides: \<open>verdict\<close> is what the loop returns, with an error or not, or
  \<open>None\<close>. Before another look the time since \<open>started\<close> must be within the limit.
\<close>

definition await_turn ::
  "'s console \<Rightarrow> nat \<Rightarrow> ('s \<Rightarrow> (ppp_diagnostic_snapshot, 's) run) \<Rightarrow>
   (ppp_diagnostic_snapshot \<Rightarrow> ('r, tool_error) result option) \<Rightarrow> 's \<Rightarrow> 's \<Rightarrow> ('r option, 's) run" where
  "await_turn con timeout look verdict started s =
     run_then (look s) (\<lambda>snapshot s.
       case verdict snapshot of
         Some r \<Rightarrow> Some (and_then r (\<lambda>x. Ok (Some x)), s)
       | None \<Rightarrow>
           if elapsed con started s < timeout then Some (Ok None, pause (attached con) s)
           else Some (Err SnapshotTimedOut, s))"

definition await_snapshot ::
  "'s console \<Rightarrow> nat \<Rightarrow> ('s \<Rightarrow> (ppp_diagnostic_snapshot, 's) run) \<Rightarrow>
   (ppp_diagnostic_snapshot \<Rightarrow> ('r, tool_error) result option) \<Rightarrow> 's \<Rightarrow> ('r, 's) run" where
  "await_snapshot con timeout look verdict s = repeat_until (await_turn con timeout look verdict s) s"

text \<open>The frame that four commands share: a snapshot before the mailbox command, and snapshots after it.\<close>

definition snapshot_request ::
  "'s console \<Rightarrow> label_table \<Rightarrow> u8 \<Rightarrow> bytes \<Rightarrow> nat \<Rightarrow>
   (ppp_diagnostic_snapshot \<Rightarrow> ppp_diagnostic_snapshot \<Rightarrow> ('r, tool_error) result option) \<Rightarrow> 's \<Rightarrow> ('r, 's) run" where
  "snapshot_request con labels command arguments timeout verdict s =
     run_then (Some (ppp_state_offset labels, s)) (\<lambda>offset s.
     run_then (Some (connect (attached con) s)) (\<lambda>_ s.
     run_then (read_stable_ppp_snapshot con offset s) (\<lambda>before s.
     run_then (mailbox_command con labels command arguments timeout s) (\<lambda>_ s.
     run_then (Some (connect (attached con) s)) (\<lambda>_ s.
     await_snapshot con timeout (read_stable_ppp_snapshot con offset) (verdict before) s)))))"

definition LCP_STATE_CLOSED :: u8 where "LCP_STATE_CLOSED = 0"
definition LCP_STATE_OPENED :: u8 where "LCP_STATE_OPENED = 9"
definition PAP_STATE_OPENED :: u8 where "PAP_STATE_OPENED = 3"
definition CHAP_STATE_OPENED :: u8 where "CHAP_STATE_OPENED = 4"
definition LCP_PEER_FLAG_CHAP_MD5 :: u8 where "LCP_PEER_FLAG_CHAP_MD5 = 0x10"
definition IPCP_STATE_OPENED :: u8 where "IPCP_STATE_OPENED = 9"
definition NTP_STATE_RECEIVED :: u8 where "NTP_STATE_RECEIVED = 3"
definition NTP_STATE_FAILED :: u8 where "NTP_STATE_FAILED = 4"
definition ICMP_REQUEST_STATE_RECEIVED :: u8 where "ICMP_REQUEST_STATE_RECEIVED = 3"
definition ICMP_REQUEST_STATE_FAILED :: u8 where "ICMP_REQUEST_STATE_FAILED = 4"
definition DNS_STATE_RECEIVED :: u8 where "DNS_STATE_RECEIVED = 3"
definition DNS_STATE_FAILED :: u8 where "DNS_STATE_FAILED = 4"
definition SFC_DNS_MAXIMUM_NAME_LENGTH :: nat where "SFC_DNS_MAXIMUM_NAME_LENGTH = 27"

record ppp_close_report =
  pc_local_terminate_request_delta :: u32
  pc_local_terminate_ack_delta :: u32
  pc_local_terminate_timeout_delta :: u32
  pc_snapshot :: ppp_diagnostic_snapshot

definition lcp_closed :: "ppp_diagnostic_snapshot \<Rightarrow> bool" where
  "lcp_closed snapshot \<longleftrightarrow>
     pd_lcp_state (pd_lcp snapshot) = LCP_STATE_CLOSED \<and> \<not> pd_lcp_administrative_open (pd_lcp_control snapshot)"

definition close_verdict ::
  "ppp_diagnostic_snapshot \<Rightarrow> ppp_diagnostic_snapshot \<Rightarrow> (ppp_close_report, tool_error) result option" where
  "close_verdict before snapshot =
     (let delta = \<lambda>count. count (pd_lcp_control snapshot) - count (pd_lcp_control before);
          report = \<lparr>pc_local_terminate_request_delta = delta pd_lcp_local_terminate_request_count,
            pc_local_terminate_ack_delta = delta pd_lcp_local_terminate_ack_count,
            pc_local_terminate_timeout_delta = delta pd_lcp_local_terminate_timeout_count,
            pc_snapshot = snapshot\<rparr>
      in if \<not> lcp_closed snapshot then None
         else if pd_lcp_state (pd_lcp before) \<noteq> LCP_STATE_OPENED \<or> pc_local_terminate_request_delta report \<noteq> 0
         then Some (Ok report)
         else Some (Err ClosedWithoutRequest))"

definition ppp_close :: "'s console \<Rightarrow> label_table \<Rightarrow> nat \<Rightarrow> 's \<Rightarrow> (ppp_close_report, 's) run" where
  "ppp_close con labels timeout s =
     snapshot_request con labels MODEM_MAILBOX_COMMAND_PPP_CLOSE [] timeout close_verdict s"

definition ppp_open :: "'s console \<Rightarrow> label_table \<Rightarrow> nat \<Rightarrow> 's \<Rightarrow> (ppp_diagnostic_snapshot, 's) run" where
  "ppp_open con labels timeout s =
     run_then (Some (ppp_state_offset labels, s)) (\<lambda>offset s.
     run_then (mailbox_command con labels MODEM_MAILBOX_COMMAND_PPP_OPEN [] timeout s) (\<lambda>_ s.
     run_then (Some (connect (attached con) s)) (\<lambda>_ s.
     await_snapshot con timeout (read_stable_ppp_snapshot con offset) (\<lambda>snapshot.
       if pd_lcp_state (pd_lcp snapshot) = LCP_STATE_OPENED \<and> pd_lcp_administrative_open (pd_lcp_control snapshot)
       then Some (Ok snapshot) else None) s)))"

definition network_opened :: "ppp_diagnostic_snapshot \<Rightarrow> bool" where
  "network_opened snapshot \<longleftrightarrow>
     (let authentication_opened =
        if pd_lcp_peer_flags (pd_lcp snapshot) AND LCP_PEER_FLAG_CHAP_MD5 \<noteq> 0
        then pd_chap_state (pd_chap snapshot) = CHAP_STATE_OPENED
        else pd_pap_state (pd_pap snapshot) = PAP_STATE_OPENED
      in pd_lcp_state (pd_lcp snapshot) = LCP_STATE_OPENED \<and> authentication_opened \<and>
         pd_ipcp_state (pd_ipcp snapshot) = IPCP_STATE_OPENED)"

definition wait_ppp_network_opened ::
  "'s console \<Rightarrow> label_table \<Rightarrow> nat \<Rightarrow> 's \<Rightarrow> (ppp_diagnostic_snapshot, 's) run" where
  "wait_ppp_network_opened con labels timeout s =
     await_snapshot con timeout (read_ppp_snapshot con labels)
       (\<lambda>snapshot. if network_opened snapshot then Some (Ok snapshot) else None) s"

section \<open>Requests\<close>

definition ntp_verdict ::
  "ppp_diagnostic_snapshot \<Rightarrow> ppp_diagnostic_snapshot \<Rightarrow> (ppp_diagnostic_snapshot, tool_error) result option" where
  "ntp_verdict before snapshot =
     (if pd_ntp_state (pd_ntp snapshot) = NTP_STATE_RECEIVED \<and>
         pd_ntp_response_count (pd_ntp snapshot) \<noteq> pd_ntp_response_count (pd_ntp before)
      then Some (Ok snapshot)
      else if pd_ntp_state (pd_ntp snapshot) = NTP_STATE_FAILED
      then Some (Err (RequestFailed (pd_ntp_last_error (pd_ntp snapshot))))
      else None)"

definition ntp_request :: "'s console \<Rightarrow> label_table \<Rightarrow> nat \<Rightarrow> 's \<Rightarrow> (ppp_diagnostic_snapshot, 's) run" where
  "ntp_request con labels timeout s =
     snapshot_request con labels MODEM_MAILBOX_COMMAND_NTP_REQUEST [] timeout ntp_verdict s"

definition icmp_verdict ::
  "ppp_diagnostic_snapshot \<Rightarrow> ppp_diagnostic_snapshot \<Rightarrow> (ppp_diagnostic_snapshot, tool_error) result option" where
  "icmp_verdict before snapshot =
     (if pd_icmp_request_state (pd_icmp_request snapshot) = ICMP_REQUEST_STATE_RECEIVED \<and>
         pd_icmp_request_response_count (pd_icmp_request snapshot) \<noteq> pd_icmp_request_response_count (pd_icmp_request before)
      then Some (Ok snapshot)
      else if pd_icmp_request_state (pd_icmp_request snapshot) = ICMP_REQUEST_STATE_FAILED
      then Some (Err (RequestFailed (pd_icmp_request_last_error (pd_icmp_request snapshot))))
      else None)"

definition icmp_echo ::
  "'s console \<Rightarrow> label_table \<Rightarrow> octets4 \<Rightarrow> nat \<Rightarrow> 's \<Rightarrow> (ppp_diagnostic_snapshot, 's) run" where
  "icmp_echo con labels destination timeout s =
     snapshot_request con labels MODEM_MAILBOX_COMMAND_ICMP_ECHO_REQUEST (octets4_list destination) timeout icmp_verdict s"

definition dns_verdict ::
  "ppp_diagnostic_snapshot \<Rightarrow> ppp_diagnostic_snapshot \<Rightarrow> (ppp_diagnostic_snapshot, tool_error) result option" where
  "dns_verdict before snapshot =
     (if pd_dns_state (pd_dns snapshot) = DNS_STATE_RECEIVED \<and>
         pd_dns_response_count (pd_dns snapshot) \<noteq> pd_dns_response_count (pd_dns before)
      then Some (Ok snapshot)
      else if pd_dns_state (pd_dns snapshot) = DNS_STATE_FAILED
      then Some (Err (RequestFailed (pd_dns_last_error (pd_dns snapshot))))
      else None)"

definition check_query_name :: "bytes \<Rightarrow> (unit, tool_error) result" where
  "check_query_name n =
     (if n \<noteq> [] \<and> last n = 46 then Err DnsTrailingDot
      else if length n > SFC_DNS_MAXIMUM_NAME_LENGTH then Err (DnsNameTooLong (length n))
      else and_then (map_err (\<lambda>_. InvalidDnsName) (fst (encode_a_query 0 n (replicate 64 0)))) (\<lambda>_. Ok ()))"

definition dns_query ::
  "'s console \<Rightarrow> label_table \<Rightarrow> octets4 \<Rightarrow> bytes \<Rightarrow> nat \<Rightarrow> 's \<Rightarrow> (ppp_diagnostic_snapshot, 's) run" where
  "dns_query con labels resolver n timeout s =
     run_then (Some (check_query_name n, s)) (\<lambda>_ s.
     snapshot_request con labels MODEM_MAILBOX_COMMAND_DNS_QUERY
       (octets4_list resolver @ [of_nat (length n)] @ n) timeout dns_verdict s)"

section \<open>The modem block, the receive ring and the trace\<close>

definition modem_state_offset :: "label_table \<Rightarrow> (nat, tool_error) result" where
  "modem_state_offset labels = and_then (label_at labels ''modemState'') wram_to_usb2snes"

definition read_snapshot :: "'s console \<Rightarrow> label_table \<Rightarrow> 's \<Rightarrow> (diagnostic_snapshot, 's) run" where
  "read_snapshot con labels s =
     run_then (Some (modem_state_offset labels, s)) (\<lambda>offset s.
     run_then (Some (connect (attached con) s)) (\<lambda>_ s.
     read_stable_snapshot con offset s))"

text \<open>Octets that are read between two snapshots that agree; \<open>None\<close> is another turn before the deadline of two seconds.\<close>

definition between_turn ::
  "'s console \<Rightarrow> nat \<Rightarrow> nat \<Rightarrow> nat \<Rightarrow> (diagnostic_snapshot \<Rightarrow> diagnostic_snapshot \<Rightarrow> bool) \<Rightarrow> 's \<Rightarrow> 's \<Rightarrow>
   ((diagnostic_snapshot \<times> bytes) option, 's) run" where
  "between_turn con state_offset offset n agree started s =
     run_then (read_stable_snapshot con state_offset s) (\<lambda>before s.
     run_then (Some (Device_Reads.read_address (attached con) offset n s)) (\<lambda>data s.
     run_then (read_stable_snapshot con state_offset s) (\<lambda>after s.
     if agree before after then Some (Ok (Some (after, data)), s)
     else if elapsed con started s < seconds 2 then Some (Ok None, s)
     else Some (Err NotStable, s))))"

definition read_between ::
  "'s console \<Rightarrow> label_table \<Rightarrow> string \<Rightarrow> nat \<Rightarrow> (diagnostic_snapshot \<Rightarrow> diagnostic_snapshot \<Rightarrow> bool) \<Rightarrow> 's \<Rightarrow>
   (diagnostic_snapshot \<times> bytes, 's) run" where
  "read_between con labels block n agree s =
     run_then (Some (label_at labels ''modemState'', s)) (\<lambda>state s.
     run_then (Some (label_at labels block, s)) (\<lambda>address s.
     run_then (Some (wram_to_usb2snes state, s)) (\<lambda>state_offset s.
     run_then (Some (wram_to_usb2snes address, s)) (\<lambda>offset s.
     run_then (Some (connect (attached con) s)) (\<lambda>_ s.
     repeat_until (between_turn con state_offset offset n agree s) s)))))"

definition rx_unchanged :: "diagnostic_snapshot \<Rightarrow> diagnostic_snapshot \<Rightarrow> bool" where
  "rx_unchanged before after \<longleftrightarrow>
     ds_rx_read_index before = ds_rx_read_index after \<and> ds_rx_write_index before = ds_rx_write_index after \<and>
     ds_rx_accepted before = ds_rx_accepted after"

definition read_pending_rx :: "'s console \<Rightarrow> label_table \<Rightarrow> 's \<Rightarrow> (bytes, 's) run" where
  "read_pending_rx con labels s =
     run_then (read_between con labels ''modemReceiveBuffer'' MODEM_RING_STORAGE_SIZE rx_unchanged s) (\<lambda>(after, ring) s.
     Some (pending_ring_bytes ring (ds_rx_read_index after) (ds_rx_write_index after), s))"

text \<open>The slots of the trace, and the events among them that are in the window before the next sequence number.\<close>

function trace_chunks :: "bytes \<Rightarrow> bytes list" where
  "trace_chunks data =
     (if length data < MODEM_TRACE_EVENT_SIZE then []
      else take MODEM_TRACE_EVENT_SIZE data # trace_chunks (drop MODEM_TRACE_EVENT_SIZE data))"
  by pat_completeness auto

termination by (relation "measure length") (auto simp: abi)

declare trace_chunks.simps [simp del]

fun decode_events :: "bytes list \<Rightarrow> (trace_event list, tool_error) result" where
  "decode_events [] = Ok []"
| "decode_events (chunk # chunks) =
     and_then (map_err Decoding (trace_event_decode chunk)) (\<lambda>event.
     and_then (decode_events chunks) (\<lambda>events. Ok (event # events)))"

definition in_trace_window :: "u32 \<Rightarrow> trace_event \<Rightarrow> bool" where
  "in_trace_window next_sequence event \<longleftrightarrow>
     (let available = min next_sequence 256; distance = next_sequence - te_sequence event
      in 1 \<le> distance \<and> distance \<le> available)"

definition trace_events :: "u32 \<Rightarrow> bytes \<Rightarrow> (trace_event list, tool_error) result" where
  "trace_events next_sequence data =
     and_then (decode_events (trace_chunks data)) (\<lambda>events.
     Ok (sort_key te_sequence (filter (in_trace_window next_sequence) events)))"

definition trace_unchanged :: "diagnostic_snapshot \<Rightarrow> diagnostic_snapshot \<Rightarrow> bool" where
  "trace_unchanged before after \<longleftrightarrow> ds_trace_next_sequence before = ds_trace_next_sequence after"

definition read_trace_events :: "'s console \<Rightarrow> label_table \<Rightarrow> 's \<Rightarrow> (trace_event list, 's) run" where
  "read_trace_events con labels s =
     run_then (read_between con labels ''modemTrace'' MODEM_TRACE_SIZE trace_unchanged s) (\<lambda>(snapshot, data) s.
     Some (trace_events (ds_trace_next_sequence snapshot) data, s))"

section \<open>The running ROM\<close>

definition verify_running_rom :: "string list \<Rightarrow> string \<Rightarrow> (unit, tool_error) result" where
  "verify_running_rom info expected_path =
     (if length info \<le> 2 then Err MissingRunningPath
      else let running_path = trim_end_matches (CHR 0x00) (info ! 2) in
        if to_ascii_lowercase running_path = to_ascii_lowercase expected_path then Ok ()
        else Err (WrongRom running_path expected_path))"

section \<open>Trace fixtures\<close>

text \<open>\<^verbatim>\<open>trace.rs\<close>: recorded samples and the decisions that are expected for them; the parser of TOML is left out.\<close>

record trace_sample =
  ts_kind :: poll_kind
  ts_data_report :: u16
  ts_status_report :: u16
  ts_expected_discard_reason :: u8

record trace_fixture =
  tf_name :: string
  tf_source :: string
  tf_samples :: "trace_sample list"

fun verify_samples :: "nat \<Rightarrow> trace_sample list \<Rightarrow> (unit, tool_error) result" where
  "verify_samples i [] = Ok ()"
| "verify_samples i (sample # samples) =
     (let actual = receive_decision (ts_kind sample) (ts_data_report sample) (ts_status_report sample)
      in if actual = ts_expected_discard_reason sample then verify_samples (i + 1) samples
         else Err (FixtureMismatch i (ts_expected_discard_reason sample) actual))"

definition verify_fixture :: "trace_fixture \<Rightarrow> (unit, tool_error) result" where
  "verify_fixture fixture = verify_samples 0 (tf_samples fixture)"

lemma verify_samples_Ok:
  "verify_samples i samples = Ok () \<longleftrightarrow>
     (\<forall>sample \<in> set samples. receive_decision (ts_kind sample) (ts_data_report sample) (ts_status_report sample) =
        ts_expected_discard_reason sample)"
  by (induction samples arbitrary: i) (auto simp: Let_def)

end
