(* ===== verification/Trace_Properties.thy ===== *)
theory Trace_Properties
  imports Console_Commands "HOL-Library.Multiset"
begin

text \<open>
  The trace ring of the console, \<^verbatim>\<open>modem/trace.asm\<close>: event \<open>q\<close> is written into slot \<open>q mod 256\<close>, and clearing the trace
  resets the next sequence number without erasing the slots. \<^verbatim>\<open>read_trace_events\<close> recovers the
  events from the slots alone.
\<close>

definition trace_image :: "trace_event \<Rightarrow> bytes" where
  "trace_image e = to_le32 (te_sequence e) @ to_le32 (te_frame e) @ [te_kind e, te_state e, te_reason e, te_flags e] @
     to_le16 (te_data_report e) @ to_le16 (te_status_report e)"

lemma length_trace_image [simp]: "length (trace_image e) = 16"
  by (simp add: trace_image_def)

lemma trace_event_decode_image: "trace_event_decode (trace_image e) = Ok e"
  by (simp add: trace_event_decode_exact) (simp add: trace_image_def)

lemma trace_chunks_images: "trace_chunks (concat (map trace_image es)) = map trace_image es"
  by (induction es; subst trace_chunks.simps) (simp_all add: abi)

lemma decode_events_images: "decode_events (map trace_image es) = Ok es"
  by (induction es) (simp_all add: trace_event_decode_image)

lemma trace_events_images:
  "trace_events next_sequence (concat (map trace_image ring)) = Ok (sort_key te_sequence (filter (in_trace_window next_sequence) ring))"
  by (simp add: trace_events_def trace_chunks_images decode_events_images)

text \<open>The window in numbers; the distance of a later number wraps and is too far.\<close>

lemma in_trace_window_iff:
  "in_trace_window next_sequence e \<longleftrightarrow>
     unat next_sequence - min (unat next_sequence) 256 \<le> unat (te_sequence e) \<and> unat (te_sequence e) < unat next_sequence"
proof -
  have "unat (te_sequence e) < 2 ^ 32" using unsigned_less [of "te_sequence e", where 'a = nat] by simp
  moreover have "unat (min next_sequence 256) = min (unat next_sequence) 256"
    by (auto simp: min_def word_le_nat_alt)
  ultimately show ?thesis
    by (auto simp: in_trace_window_def Let_def word_le_nat_alt unat_sub_if')
qed

text \<open>
  C37: the trace is what was recorded last. Suppose all 256 slots of the ring hold events, each in the slot of its
  sequence number, whether recorded since the trace was cleared or before, and the events before the next sequence number, as far as
  they fit the ring, are in it. Then exactly these events are returned, oldest first: stale events of
  an earlier recording are left out.
\<close>

theorem trace_window_exact:
  assumes ring: "length ring = 256" "\<And>k. k < 256 \<Longrightarrow> unat (te_sequence (ring ! k)) mod 256 = k"
    and latest: "\<And>q. unat next_sequence - min (unat next_sequence) 256 \<le> q \<Longrightarrow> q < unat next_sequence \<Longrightarrow>
      unat (te_sequence (ring ! (q mod 256))) = q"
  shows "trace_events next_sequence (concat (map trace_image ring)) =
    Ok (map (\<lambda>q. ring ! (q mod 256)) [unat next_sequence - min (unat next_sequence) 256 ..< unat next_sequence])"
proof -
  let ?n = "unat next_sequence" and ?s = "\<lambda>e. unat (te_sequence e)"
  let ?kept = "filter (in_trace_window next_sequence) ring"
  let ?latest = "map (\<lambda>q. ring ! (q mod 256)) [?n - min ?n 256 ..< ?n]"
  have numbers: "map ?s ?latest = [?n - min ?n 256 ..< ?n]"
    by (simp only: map_map comp_def, rule map_idI) (simp add: latest)
  then have "distinct (map ?s ?latest)" by simp
  then have latest_distinct: "distinct ?latest" by (rule distinct_map [THEN iffD1, THEN conjunct1])
  have "distinct ring"
    using ring by (metis distinct_conv_nth)
  have "set ?kept = set ?latest"
  proof (intro set_eqI iffI)
    fix e assume "e \<in> set ?kept"
    then obtain k where k: "k < 256" "e = ring ! k" "?n - min ?n 256 \<le> ?s e" "?s e < ?n"
      using ring(1) by (auto simp: in_trace_window_iff in_set_conv_nth)
    then show "e \<in> set ?latest" using ring(2) [of k] by (auto intro!: image_eqI [of _ _ "?s e"])
  next
    fix e assume "e \<in> set ?latest"
    then show "e \<in> set ?kept" using latest ring(1) by (auto simp: in_trace_window_iff)
  qed
  with latest_distinct \<open>distinct ring\<close> have "mset ?kept = mset ?latest"
    by (metis set_eq_iff_mset_eq_distinct distinct_filter)
  moreover have "inj_on te_sequence (set ?kept)"
    using ring by (auto simp: inj_on_def in_set_conv_nth) metis
  moreover have "sorted (map te_sequence ?latest)"
    unfolding sorted_map [of te_sequence] word_le_nat_alt by (simp only: numbers sorted_upt flip: sorted_map [of ?s])
  ultimately show ?thesis by (simp add: trace_events_images sort_key_inj_key_eq)
qed

text \<open>A ring that was filled, cleared, and now has two new events before stale ones.\<close>

definition numbered_event :: "u32 \<Rightarrow> trace_event" where
  "numbered_event q = \<lparr>te_sequence = q, te_frame = 0, te_kind = 1, te_state = 0, te_reason = 0, te_flags = 0,
     te_data_report = 0, te_status_report = 0\<rparr>"

theorem trace_window_exact_witness:
  "trace_events 2 (concat (map trace_image (map (\<lambda>k. numbered_event (if k < 2 then of_nat k else of_nat (k + 256))) [0..<256]))) =
     Ok [numbered_event 0, numbered_event 1]"
proof -
  let ?ring = "map (\<lambda>k. numbered_event (if k < 2 then of_nat k else of_nat (k + 256))) [0..<256]"
  have small: "unat (of_nat k :: u32) = k" if "k < 512" for k using that by (simp add: unat_of_nat)
  have "unat (te_sequence (?ring ! k)) mod 256 = k" if "k < 256" for k
    using that small [of k] small [of "k + 256"] by (simp add: numbered_event_def)
  moreover have "unat (te_sequence (?ring ! (q mod 256))) = q" if "q < unat (2 :: u32)" for q
    using that small [of q] by (simp add: numbered_event_def)
  ultimately have "trace_events 2 (concat (map trace_image ?ring)) =
      Ok (map (\<lambda>q. ?ring ! (q mod 256)) [unat (2 :: u32) - min (unat (2 :: u32)) 256 ..< unat (2 :: u32)])"
    by (intro trace_window_exact) simp_all
  then show ?thesis by (simp add: upt_rec)
qed

section \<open>Slots that were never written\<close>

text \<open>The console clears its memory when it starts; an empty slot reads as this event.\<close>

definition blank_event :: trace_event where
  "blank_event = \<lparr>te_sequence = 0, te_frame = 0, te_kind = 0, te_state = 0, te_reason = 0, te_flags = 0,
     te_data_report = 0, te_status_report = 0\<rparr>"

lemma blank_image: "trace_image blank_event = replicate 16 0"
proof -
  have "to_le32 0 = [0, 0, 0, 0]" "to_le16 0 = [0, 0]"
    by (simp_all add: to_le32_def to_be32_def octets_be32_def octets4_list_def to_le16_def)
  then show ?thesis by (simp add: trace_image_def blank_event_def numeral_eq_Suc)
qed

lemma blank_images: "replicate (16 * m) 0 = concat (map trace_image (replicate m blank_event))"
  by (induction m) (simp_all add: blank_image replicate_add)

text \<open>
  C38: before the ring is full the trace contains events that never happened. If 1 to 256 events were recorded since the
  start of the console, then each slot that was never written is returned as an event with number 0 of kind
  0, right after the first event, because its number 0 is in the window.
\<close>

theorem trace_reports_blank_slots:
  assumes "1 \<le> length events" "length events \<le> 256" and "\<And>k. k < length events \<Longrightarrow> te_sequence (events ! k) = of_nat k"
  shows "trace_events (of_nat (length events)) (concat (map trace_image events) @ replicate (16 * (256 - length events)) 0) =
    Ok (hd events # replicate (256 - length events) blank_event @ tl events)"
proof -
  let ?m = "256 - length events" and ?n = "length events"
  have small: "unat (of_nat k :: u32) = k" if "k \<le> 256" for k using that by (simp add: unat_of_nat)
  obtain e es where events: "events = e # es" using assms(1) by (cases events) auto
  have zero: "te_sequence e = 0" using assms(3) [of 0] events by simp
  have later: "te_sequence x \<noteq> 0" if "x \<in> set es" for x
  proof -
    from that obtain k where k: "k < length es" "x = es ! k" by (auto simp: in_set_conv_nth)
    with assms(2) events assms(3) [of "Suc k"] have "te_sequence x = of_nat (Suc k)" "Suc k \<le> 256" by simp_all
    with small [of "Suc k"] show ?thesis by (metis nat.distinct(1) unat_0)
  qed
  have numbers: "sorted (map te_sequence events)"
    using assms small by (auto simp: sorted_iff_nth_mono word_le_nat_alt)
  have "replicate (16 * ?m) 0 = concat (map trace_image (replicate ?m blank_event))"
    by (rule blank_images)
  then have "concat (map trace_image events) @ replicate (16 * ?m) 0 = concat (map trace_image (events @ replicate ?m blank_event))"
    by simp
  moreover have "filter (in_trace_window (of_nat ?n)) (events @ replicate ?m blank_event) = events @ replicate ?m blank_event"
  proof (rule filter_True, rule ballI)
    fix x assume "x \<in> set (events @ replicate ?m blank_event)"
    then have "x = blank_event \<or> (\<exists>k < ?n. te_sequence x = of_nat k)" using assms(3) by (auto simp: in_set_conv_nth)
    then have "unat (te_sequence x) < ?n" using assms(1,2) small by (fastforce simp: blank_event_def)
    with assms(2) small [of ?n] show "in_trace_window (of_nat ?n) x" by (simp add: in_trace_window_iff)
  qed
  moreover have "sort_key te_sequence (events @ replicate ?m blank_event) = e # replicate ?m blank_event @ es"
  proof (rule properties_for_sort_key)
    fix k assume "k \<in> set (e # replicate ?m blank_event @ es)"
    show "filter (\<lambda>x. te_sequence k = te_sequence x) (e # replicate ?m blank_event @ es) =
        filter (\<lambda>x. te_sequence k = te_sequence x) (events @ replicate ?m blank_event)"
    proof (cases "te_sequence k = 0")
      case True
      then have "filter (\<lambda>x. te_sequence k = te_sequence x) es = []" using later by (auto simp: filter_empty_conv)
      then show ?thesis
        by (simp only: events append_Cons filter.simps filter_append append_Nil append_Nil2)
    next
      case False
      then have "filter (\<lambda>x. te_sequence k = te_sequence x) (replicate ?m blank_event) = []"
        by (auto simp: filter_empty_conv blank_event_def)
      then show ?thesis
        by (simp only: events append_Cons filter.simps filter_append append_Nil append_Nil2)
    qed
  next
    show "sorted (map te_sequence (e # replicate ?m blank_event @ es))"
      using numbers zero by (auto simp: events sorted_append blank_event_def)
  qed (simp add: events)
  ultimately show ?thesis by (simp only: trace_events_images) (simp add: events)
qed

theorem trace_reports_blank_slots_witness:
  "trace_events 1 (trace_image (numbered_event 0) @ replicate 4080 0) = Ok (numbered_event 0 # replicate 255 blank_event)"
  using trace_reports_blank_slots [of "[numbered_event 0]"] by (simp add: numbered_event_def)

end
