(* ===== verification/Console_Example.thy ===== *)
theory Console_Example
  imports Console_Loop
begin

text \<open>Two consoles, given by what they hold over time, on which the commands succeed.\<close>

text \<open>
  A console that answers: until time 3 the block says that nothing was asked and the mailbox that no command was processed;
  from then on the first command is processed and one response received.
\<close>

definition answering_block :: "nat \<Rightarrow> bytes" where
  "answering_block t = ppp_header_image (if t \<le> 3 then 0 else 2) @ replicate 352 0 @ [if t \<le> 3 then 0 else 3] @
     replicate 25 0 @ [if t \<le> 3 then 0 else 1, 0, 0, 0] @ replicate 117 0"

definition answering_memory :: "nat \<Rightarrow> nat \<Rightarrow> u8" where
  "answering_memory t a = (if a < 0xf52000 then example_mailbox (t - 3) ! (a - 0xf51000) else answering_block t ! (a - 0xf52000))"

definition answering_console :: "nat console" where
  "answering_console = \<lparr>attached = \<lparr>read_address = (\<lambda>offset n t. (Ok (map (answering_memory t) [offset ..< offset + n]), Suc t)),
     expired = (\<lambda>s. False), pause = Suc, connect = (\<lambda>s. (Ok (), s)),
     execute_address = (\<lambda>offset payload s. (Ok (), Suc s))\<rparr>, elapsed = (\<lambda>s t. t - s)\<rparr>"

abbreviation answering_labels :: label_table where
  "answering_labels \<equiv> Ok [''modemMailbox'' \<mapsto> 0x7e1000, ''pppDiagnosticState'' \<mapsto> 0x7e2000]"

lemma length_answering_block [simp]: "length (answering_block t) = 511"
  by (simp add: answering_block_def)

lemma answering_read:
  "k + n \<le> 511 \<Longrightarrow> read_address (attached answering_console) (0xf52000 + k) n t = (Ok (take n (drop k (answering_block t))), Suc t)"
  "k + n \<le> 96 \<Longrightarrow> read_address (attached answering_console) (0xf51000 + k) n t = (Ok (take n (drop k (example_mailbox (t - 3)))), Suc t)"
  by (auto simp: answering_console_def answering_memory_def example_fields intro!: nth_equalityI)

lemma answering_dev [simp]:
  "pause (attached answering_console) = Suc" "connect (attached answering_console) t = (Ok (), t)"
  "execute_address (attached answering_console) a payload t = (Ok (), Suc t)" "elapsed answering_console s t = t - s"
  by (simp_all add: answering_console_def)

lemma answering_observes: "observes (attached answering_console) (\<lambda>t. t) answering_memory word"
  by (auto simp: observes_def answering_console_def)

lemma answering_takes_time: "takes_time (attached answering_console) (\<lambda>t. t)"
  by (simp add: takes_time_def answering_console_def)

lemma answering_word: "take 4 (drop 8 (answering_block t)) = to_le32 (of_nat (if t \<le> 3 then 0 else 2))"
  by (simp add: answering_block_def ppp_header_image_def)

lemma answering_sequenced:
  "sequenced answering_memory 0xf52000 511 (0xf52000 + 8) (\<lambda>t. if t \<le> 3 then 0 else 2)"
proof -
  have "map (answering_memory t) [0xf52000 + 8 ..< 0xf52000 + 8 + 4] = take 4 (drop 8 (answering_block t))" for t
    by (rule nth_equalityI) (auto simp: answering_memory_def simp del: upt_Suc upt_rec_numeral)
  moreover have "answering_memory (Suc t) a = answering_memory t a" if "0xf52000 \<le> a" "(t \<le> 3) = (Suc t \<le> 3)" for t a
  proof -
    have "answering_block (Suc t) = answering_block t" unfolding answering_block_def that(2) ..
    with that(1) show ?thesis by (simp add: answering_memory_def)
  qed
  ultimately show ?thesis by (auto simp: sequenced_def answering_word mono_def split: if_splits)
qed

lemma answering_decode:
  "\<exists>s. ppp_diagnostic_decode (answering_block t) = Ok s \<and> pd_dns_state (pd_dns s) = (if t \<le> 3 then 0 else 3) \<and>
     pd_dns_response_count (pd_dns s) = (if t \<le> 3 then 0 else 1)"
proof -
  have "ppp_diagnostic_header (answering_block t) = Ok (if t \<le> 3 then 0 else 2)"
    by (simp add: ppp_diagnostic_header_iff answering_block_def)
  from ppp_diagnostic_fields [OF this] obtain s where s: "ppp_diagnostic_decode (answering_block t) = Ok s" by blast
  then have "decode_dns (answering_block t) = Ok (pd_dns s)" by (auto simp: ppp_diagnostic_decode_def and_then_eq_Ok)
  then have "pd_dns_state (pd_dns s) = answering_block t ! 364" "pd_dns_response_count (pd_dns s) = le32_at (answering_block t) 390"
    by (auto simp: decode_dns_def reads abi dest!: sym [of _ "pd_dns s"])
  moreover have "answering_block t ! 364 = (if t \<le> 3 then 0 else 3)" "le32_at (answering_block t) 390 = (if t \<le> 3 then 0 else 1)"
    by (simp_all add: answering_block_def nth_append le32_at_def octets4_at_def from_le32_def from_be32_def)
  ultimately show ?thesis using s by simp
qed

lemma answering_snapshot:
  assumes "(t \<le> 3) = (t \<le> 1)"
  shows "\<exists>s. read_stable_ppp_snapshot answering_console 0xf52000 t = Some (Ok s, t + 3) \<and>
    ppp_diagnostic_decode (answering_block t) = Ok s"
proof -
  have same: "answering_block (Suc t) = answering_block t" "answering_block (t + 2) = answering_block t"
    using assms by (auto simp: answering_block_def)
  have u32: "tool_read_u32 (take 4 (drop 8 (answering_block t))) 0 = Ok (if t \<le> 3 then 0 else 2)"
    "tool_read_u32 (answering_block t) 8 = Ok (if t \<le> 3 then 0 else 2)"
    by (simp_all add: tool_read_u32_def get_range_def answering_block_def ppp_header_image_def octets4_at_def
        to_le32_def to_be32_def octets_be32_def octets4_list_def from_le32_def from_be32_def)
  have "read_stable (within answering_console (seconds 2) t) 0xf52000 8 511 t = Some (Ok (answering_block t), t + 3)"
    using same answering_read(1) [of 8 4] answering_read(1) [of 0 511]
    by (subst read_stable.simps) (simp add: stable_attempt_def u32 seconds_def)
  with answering_decode [of t] show ?thesis
    by (auto simp: read_stable_ppp_snapshot_def abi)
qed

text \<open>A command on this console: the mailbox has the sequence number 1 after the first three moments.\<close>

lemma answering_command:
  assumes args: "length arguments = 6"
  shows "\<exists>mo. mailbox_command answering_console answering_labels command arguments 10 3 = Some (Ok mo, 11)"
proof -
  obtain writes where w: "mailbox_writes 0x7e1000 arguments command 1 = Ok writes" "writes \<noteq> []" "length writes \<le> 41"
    "(\<lambda>w. unat (fst w)) ` set writes = {unat (0x7e1000 :: u32) + 20 ..< unat (0x7e1000 :: u32) + 20 + length arguments} \<union>
       {unat (0x7e1000 :: u32) + 16} \<union> {unat (0x7e1000 :: u32) + 8 ..< unat (0x7e1000 :: u32) + 12}"
    by (rule mailbox_writes_effect [of "0x7e1000" arguments command 1]) (simp_all add: args)
  with mailbox_payload_builds(1) [of "0x7e1000" arguments writes] args obtain payload where
    payload: "build_wram_write_payload writes = Ok payload" by auto
  have read: "read_address (attached answering_console) 0xf51000 96 t = (Ok (example_mailbox (t - 3)), Suc t)" for t
    using answering_read(2) [of 0 96 t] by (simp add: example_fields)
  have out: "read_address (attached answering_console) 0xf51034 32 t = (Ok (replicate 32 0), Suc t)" for t
    using answering_read(2) [of 52 32 t] by (simp add: example_mailbox_def)
  have submit: "mailbox_submit (attached answering_console) answering_labels command arguments 3 = (Ok (0xf51000, 1), 5)"
    using w(1) payload args by (simp add: mailbox_submit_def label_at_def wram_to_usb2snes_def read example_fields abi)
  have same: "example_mailbox 4 = example_mailbox 2" by (simp add: example_mailbox_def)
  have poll: "mailbox_poll (within answering_console 10 5) 0xf51000 1 None 5 = (Ok (Again (Some (example_mailbox 2))), 7)"
    "mailbox_poll (within answering_console 10 5) 0xf51000 1 (Some (example_mailbox 2)) 7 = (Ok (Confirmed 0), 8)"
    by (simp_all add: mailbox_poll_def read example_fields abi same)
  have wait: "mailbox_wait (within answering_console 10 5) 0xf51000 1 None 5 = Some (Ok 0, 8)"
    by (subst mailbox_wait.simps, simp add: poll, subst mailbox_wait.simps, simp add: poll)
  have "read_stable_mailbox_output answering_console 0xf51000 8 = Some (Ok (replicate 32 0), 11)"
    unfolding read_stable_mailbox_output_def
    by (subst read_output_loop.simps) (simp add: output_attempt_def out abi)
  with submit wait show ?thesis by (simp add: mailbox_command_def)
qed

section \<open>Several commands\<close>

text \<open>A console that processes a command in every eight moments and has credentials of 8 and 6 octets staged.\<close>

definition staging_mailbox :: "nat \<Rightarrow> bytes" where
  "staging_mailbox k = [78, 68, 77, 67, 10, 0, 96, 0, 0, 0, 0, 0, of_nat k, 0, 0, 0, 1, 3, 0, 0] @ replicate 76 0"

definition staging_block :: bytes where
  "staging_block = ppp_header_image 0 @ replicate 478 0 @ [7, 8, 6] @ replicate 18 0"

definition staging_console :: "nat console" where
  "staging_console = \<lparr>attached = \<lparr>read_address = (\<lambda>offset n t.
       (Ok (if offset < 0xf52000 then take n (drop (offset - 0xf51000) (staging_mailbox ((t + 7) div 8)))
            else take n (drop (offset - 0xf52000) staging_block)), Suc t)),
     expired = (\<lambda>s. False), pause = Suc, connect = (\<lambda>s. (Ok (), s)),
     execute_address = (\<lambda>offset payload s. (Ok (), Suc s))\<rparr>, elapsed = (\<lambda>s t. t - s)\<rparr>"

lemma staging_dev [simp]:
  "pause (attached staging_console) = Suc" "connect (attached staging_console) t = (Ok (), t)"
  "execute_address (attached staging_console) a payload t = (Ok (), Suc t)" "elapsed staging_console s t = t - s"
  by (simp_all add: staging_console_def)

lemma staging_fields:
  assumes "k \<le> 3"
  shows "length (staging_mailbox k) = 96" "validate_mailbox (staging_mailbox k) = Ok ()"
    "tool_read_u32 (staging_mailbox k) 12 = Ok (of_nat k)" "tool_read_u16 (staging_mailbox k) 18 = Ok 0"
    "octet_at (staging_mailbox k) 17 = Ok 3"
proof -
  from assms have "k = 0 \<or> k = 1 \<or> k = 2 \<or> k = 3" by auto
  then show "length (staging_mailbox k) = 96" "validate_mailbox (staging_mailbox k) = Ok ()"
    "tool_read_u32 (staging_mailbox k) 12 = Ok (of_nat k)" "tool_read_u16 (staging_mailbox k) 18 = Ok 0"
    "octet_at (staging_mailbox k) 17 = Ok 3"
    by (auto simp: staging_mailbox_def validate_mailbox_def tool_read_u16_def tool_read_u32_def get_range_def
      index_range_def octets4_at_def from_le32_def from_be32_def from_be16_def octet_at_def abi)
qed

lemma poll_candidate:
  assumes "read_address dev offset 96 t = (Ok box, u)" and "validate_mailbox box = Ok ()" "tool_read_u32 box 12 = Ok sequence"
    "octet_at box 17 = (Ok 3 :: (u8, tool_error) result)" and "\<not> expired dev u"
  shows "mailbox_poll dev offset sequence None t = (Ok (Again (Some box)), pause dev u)"
  using assms by (simp add: mailbox_poll_def abi)

lemma poll_confirmed:
  assumes "read_address dev offset 96 t = (Ok box, u)" and "validate_mailbox box = Ok ()" "tool_read_u32 box 12 = Ok sequence"
    "octet_at box 17 = (Ok 3 :: (u8, tool_error) result)" and "tool_read_u16 box 18 = Ok outcome"
  shows "mailbox_poll dev offset sequence (Some box) t = (Ok (Confirmed outcome), u)"
  using assms by (simp add: mailbox_poll_def abi)

lemma staging_command:
  assumes args: "length arguments \<le> 32" and k: "k < 3"
  shows "\<exists>mo. mailbox_command staging_console answering_labels command arguments 10 (8 * k) = Some (Ok mo, 8 * k + 8)"
proof -
  define following :: u32 where "following = of_nat k + 1"
  let ?box = "staging_mailbox (Suc k)"
  obtain writes where w: "mailbox_writes 0x7e1000 arguments command following = Ok writes" "writes \<noteq> []" "length writes \<le> 41"
    "(\<lambda>w. unat (fst w)) ` set writes = {unat (0x7e1000 :: u32) + 20 ..< unat (0x7e1000 :: u32) + 20 + length arguments} \<union>
       {unat (0x7e1000 :: u32) + 16} \<union> {unat (0x7e1000 :: u32) + 8 ..< unat (0x7e1000 :: u32) + 12}"
    by (rule mailbox_writes_effect [of "0x7e1000" arguments command following]) (use args in simp_all)
  with mailbox_payload_builds(1) [of "0x7e1000" arguments writes] args obtain payload where
    payload: "build_wram_write_payload writes = Ok payload" by auto
  have read: "read_address (attached staging_console) 0xf51000 96 t = (Ok (staging_mailbox ((t + 7) div 8)), Suc t)" for t
    by (simp add: staging_console_def staging_mailbox_def)
  have out: "read_address (attached staging_console) 0xf51034 32 t = (Ok (replicate 32 0), Suc t)" for t
    by (simp add: staging_console_def staging_mailbox_def)
  have "(8 * k + 7) div 8 = k" "(8 * k + 9) div 8 = Suc k" "(8 * k + 11) div 8 = Suc k" by linarith+
  then have reads: "read_address (attached staging_console) 0xf51000 96 (8 * k) = (Ok (staging_mailbox k), 8 * k + 1)"
    "read_address (attached staging_console) 0xf51000 96 (8 * k + 2) = (Ok ?box, 8 * k + 3)"
    "read_address (attached staging_console) 0xf51000 96 (8 * k + 4) = (Ok ?box, 8 * k + 5)"
    by (simp_all add: read)
  have submit: "mailbox_submit (attached staging_console) answering_labels command arguments (8 * k) = (Ok (0xf51000, following), 8 * k + 2)"
    using w(1) payload args k
    by (simp add: mailbox_submit_def label_at_def wram_to_usb2snes_def reads staging_fields abi flip: following_def)
  have box: "validate_mailbox ?box = Ok ()" "tool_read_u32 ?box 12 = Ok following" "tool_read_u16 ?box 18 = Ok 0"
    using k staging_fields [of "Suc k"] by (simp_all add: following_def add.commute)
  let ?dev = "within staging_console 10 (8 * k + 2)"
  have "read_address ?dev = read_address (attached staging_console)" by simp
  note reads = reads [folded this]
  have seventeen: "octet_at ?box 17 = (Ok 3 :: (u8, tool_error) result)" using k by (intro staging_fields) simp
  have "\<not> expired ?dev (8 * k + 3)" "pause ?dev (8 * k + 3) = 8 * k + 4" by simp_all
  with poll_candidate [OF reads(2) box(1,2) seventeen] k
  have poll: "mailbox_poll ?dev 0xf51000 following None (8 * k + 2) = (Ok (Again (Some ?box)), 8 * k + 4)" by simp
  moreover have "mailbox_poll ?dev 0xf51000 following (Some ?box) (8 * k + 4) = (Ok (Confirmed 0), 8 * k + 5)"
    by (rule poll_confirmed [OF reads(3) box(1,2) seventeen box(3)])
  ultimately have wait: "mailbox_wait (within staging_console 10 (8 * k + 2)) 0xf51000 following None (8 * k + 2) = Some (Ok 0, 8 * k + 5)"
    by (subst mailbox_wait.simps, simp only: prod.case result.case mailbox_round.case)
      (subst mailbox_wait.simps, simp only: prod.case result.case mailbox_round.case)
  have "read_stable_mailbox_output staging_console 0xf51000 (8 * k + 5) = Some (Ok (replicate 32 0), 8 * k + 8)"
    unfolding read_stable_mailbox_output_def
    by (subst read_output_loop.simps) (simp add: output_attempt_def out abi)
  with submit wait show ?thesis by (simp add: mailbox_command_def)
qed

lemma staging_snapshot:
  "\<exists>s. read_stable_ppp_snapshot staging_console 0xf52000 t = Some (Ok s, t + 3) \<and>
    pd_pap_credential_flags (pd_lcp_control s) = 7 \<and> pd_pap_peer_id_length (pd_lcp_control s) = 8 \<and>
    pd_pap_password_length (pd_lcp_control s) = 6"
proof -
  have len: "length staging_block = 511" by (simp add: staging_block_def)
  have "ppp_diagnostic_header staging_block = Ok 0"
    by (simp add: ppp_diagnostic_header_iff staging_block_def)
  from ppp_diagnostic_fields [OF this] obtain s where s: "ppp_diagnostic_decode staging_block = Ok s" by blast
  then have "decode_lcp_control staging_block = Ok (pd_lcp_control s)" by (auto simp: ppp_diagnostic_decode_def and_then_eq_Ok)
  then have "pd_pap_credential_flags (pd_lcp_control s) = staging_block ! 490" "pd_pap_peer_id_length (pd_lcp_control s) = staging_block ! 491"
    "pd_pap_password_length (pd_lcp_control s) = staging_block ! 492"
    by (auto simp: decode_lcp_control_def reads len abi dest!: sym [of _ "pd_lcp_control s"])
  then have fields: "pd_pap_credential_flags (pd_lcp_control s) = 7" "pd_pap_peer_id_length (pd_lcp_control s) = 8"
    "pd_pap_password_length (pd_lcp_control s) = 6"
    by (simp_all add: staging_block_def nth_append)
  have "tool_read_u32 (take 4 (drop 8 staging_block)) 0 = Ok 0" "tool_read_u32 staging_block 8 = Ok 0"
    by (simp_all add: tool_read_u32_def get_range_def staging_block_def ppp_header_image_def octets4_at_def
        to_le32_def to_be32_def octets_be32_def octets4_list_def from_le32_def from_be32_def)
  then have "read_stable (within staging_console (seconds 2) t) 0xf52000 8 511 t = Some (Ok staging_block, t + 3)"
    by (subst read_stable.simps) (simp add: stable_attempt_def seconds_def staging_console_def within_def len)
  with s fields show ?thesis by (auto simp: read_stable_ppp_snapshot_def abi)
qed

end
