(* ===== verification/Console_Properties.thy ===== *)
theory Console_Properties
  imports Console_Commands Console_Example
begin

text \<open>
  What the commands on a console promise: each returns, a response that is reported arrived after the
  question, and the trace is the window of the latest events, except for slots of the ring that were never written.
\<close>

section \<open>Waiting for a snapshot\<close>

lemma await_snapshot_Ok:
  assumes "await_snapshot con timeout look verdict s = Some (Ok r, s')" and "takes_time (attached con) clock"
    and look: "\<And>s snapshot s'. look s = Some (Ok snapshot, s') \<Longrightarrow> clock s \<le> clock s'"
  shows "\<exists>t snapshot. clock s \<le> clock t \<and> look t = Some (Ok snapshot, s') \<and> verdict snapshot = Some (Ok r)"
proof -
  have "\<exists>t. clock s \<le> clock t \<and> await_turn con timeout look verdict s t = Some (Ok (Some r), s')"
  proof (rule repeat_until_Ok [OF assms(1) [unfolded await_snapshot_def] refl order_refl])
    fix t t' assume t: "clock s \<le> clock t" and turn: "await_turn con timeout look verdict s t = Some (Ok None, t')"
    from turn obtain snapshot u where u: "look t = Some (Ok snapshot, u)" "t' = pause (attached con) u"
      by (auto simp: await_turn_def run_then_eq_Ok and_then_eq_Ok split: option.splits if_splits)
    with look [OF u(1)] takes_time_pause [OF assms(2), of u] t show "clock s \<le> clock t'" by simp
  qed
  then show ?thesis
    by (auto simp: await_turn_def run_then_eq_Ok and_then_eq_Ok split: option.splits if_splits)
qed

lemma await_snapshot_returns:
  assumes "timed con clock" and "takes_time (attached con) clock"
    and look: "\<And>s. look s \<noteq> None" "\<And>s snapshot s'. look s = Some (Ok snapshot, s') \<Longrightarrow> clock s < clock s'"
  shows "await_snapshot con timeout look verdict s \<noteq> None"
  unfolding await_snapshot_def
proof (rule repeat_until_returns [where P = "\<lambda>t. clock s \<le> clock t" and clock = clock and limit = "clock s + timeout"])
  show "await_turn con timeout look verdict s t \<noteq> None" for t
    unfolding await_turn_def by (rule run_then_returns [OF look(1)]) (auto split: option.split)
  fix t t' assume t: "clock s \<le> clock t" and turn: "await_turn con timeout look verdict s t = Some (Ok None, t')"
  from turn obtain snapshot u where u: "look t = Some (Ok snapshot, u)" "t' = pause (attached con) u" "elapsed con s u < timeout"
    by (auto simp: await_turn_def run_then_eq_Ok and_then_eq_Ok split: option.splits if_splits)
  with look(2) [OF u(1)] takes_time_pause [OF assms(2), of u] t assms(1)
  show "clock s \<le> clock t' \<and> clock t < clock t' \<and> clock t < clock s + timeout" by (auto simp: timed_def)
qed simp

lemma snapshot_request_returns:
  assumes "timed con clock" and "takes_time (attached con) clock"
  shows "snapshot_request con labels command arguments timeout verdict s \<noteq> None"
  unfolding snapshot_request_def
  by (rule run_then_returns, simp, rule run_then_returns, simp, rule run_then_returns, rule ppp_snapshot_returns [OF assms],
      rule run_then_returns, rule mailbox_command_returns [OF assms], rule run_then_returns, simp,
      rule await_snapshot_returns [OF assms ppp_snapshot_returns [OF assms] ppp_snapshot_time(2) [OF assms(2)]])

lemma between_turn_None:
  assumes "takes_time (attached con) clock"
    and "between_turn con state_offset offset n agree started s = Some (Ok None, s')"
  shows "clock s < clock s' \<and> elapsed con started s' < seconds 2"
proof -
  from assms(2) obtain before a data b "after" where r: "read_stable_snapshot con state_offset s = Some (Ok before, a)"
    "Device_Reads.read_address (attached con) offset n a = (Ok data, b)"
    "read_stable_snapshot con state_offset b = Some (Ok after, s')" "elapsed con started s' < seconds 2"
    by (auto simp: between_turn_def run_then_eq_Ok split: if_splits)
  from modem_snapshot_time(2) [OF assms(1) r(1)] takes_time_read [OF assms(1) r(2)] modem_snapshot_time(2) [OF assms(1) r(3)] r(4)
  show ?thesis by linarith
qed

lemma read_between_returns:
  assumes "timed con clock" and "takes_time (attached con) clock"
  shows "read_between con labels block n agree s \<noteq> None"
proof -
  have "repeat_until (between_turn con state_offset offset n agree started) started \<noteq> None" for state_offset offset started
  proof (rule repeat_until_returns [where P = "\<lambda>t. clock started \<le> clock t" and clock = clock and limit = "clock started + seconds 2"])
    show "between_turn con state_offset offset n agree started t \<noteq> None" for t
      unfolding between_turn_def
      by (rule run_then_returns, rule modem_snapshot_returns [OF assms], rule run_then_returns, simp,
          rule run_then_returns, rule modem_snapshot_returns [OF assms]) simp
    fix t t' assume "clock started \<le> clock t" "between_turn con state_offset offset n agree started t = Some (Ok None, t')"
    with between_turn_None [OF assms(2)] assms(1)
    show "clock started \<le> clock t' \<and> clock t < clock t' \<and> clock t < clock started + seconds 2" by (fastforce simp: timed_def)
  qed simp
  then show ?thesis
    unfolding read_between_def by (intro run_then_returns) simp_all
qed

lemma read_ppp_snapshot_time:
  assumes "takes_time (attached con) clock" and "read_ppp_snapshot con labels s = Some (Ok snapshot, s')"
  shows "clock s < clock s'"
proof -
  from assms(2) obtain offset x t where "connect (attached con) s = (Ok x, t)" "read_stable_ppp_snapshot con offset t = Some (Ok snapshot, s')"
    by (auto simp: read_ppp_snapshot_def run_then_eq_Ok)
  with takes_time_connect [OF assms(1)] ppp_snapshot_time(2) [OF assms(1)] show ?thesis by fastforce
qed

lemma await_command_returns:
  assumes "timed con clock" and "takes_time (attached con) clock"
  shows "ppp_open con labels timeout s \<noteq> None" and "wait_ppp_network_opened con labels timeout s \<noteq> None"
proof -
  show "ppp_open con labels timeout s \<noteq> None"
    unfolding ppp_open_def
    by (rule run_then_returns, simp, rule run_then_returns, rule mailbox_command_returns [OF assms], rule run_then_returns, simp,
        rule await_snapshot_returns [OF assms ppp_snapshot_returns [OF assms] ppp_snapshot_time(2) [OF assms(2)]])
  have "read_ppp_snapshot con labels t \<noteq> None" for t
    unfolding read_ppp_snapshot_def
    by (rule run_then_returns, simp, rule run_then_returns, simp, rule ppp_snapshot_returns [OF assms])
  then show "wait_ppp_network_opened con labels timeout s \<noteq> None"
    unfolding wait_ppp_network_opened_def
    by (rule await_snapshot_returns [OF assms _ read_ppp_snapshot_time [OF assms(2)]])
qed

lemma request_command_returns:
  assumes "timed con clock" and "takes_time (attached con) clock"
  shows "ppp_close con labels timeout s \<noteq> None" and "dns_query con labels resolver n timeout s \<noteq> None"
    and "ntp_request con labels timeout s \<noteq> None" and "icmp_echo con labels destination timeout s \<noteq> None"
  unfolding ppp_close_def ntp_request_def icmp_echo_def dns_query_def
  by (rule snapshot_request_returns [OF assms], rule run_then_returns, simp, (rule snapshot_request_returns [OF assms])+)

lemma read_command_returns:
  assumes "timed con clock" and "takes_time (attached con) clock"
  shows "read_pending_rx con labels s \<noteq> None" and "read_trace_events con labels s \<noteq> None"
  unfolding read_pending_rx_def read_trace_events_def
  by (rule run_then_returns, rule read_between_returns [OF assms], simp add: split_beta)+

text \<open>
  C35: nine commands of the console return: a mailbox command, opening and closing PPP, waiting for the network
  phase, the requests by NTP, ICMP and DNS, reading the pending octets of the receive ring and reading the trace.
  If a read takes time, no operation of the connection turns the clock back and the
  clock is what the code measures its limits with, then none of these loops forever, whatever the console
  answers and however it behaves. The monitors, which run until they are interrupted, are not among them.
\<close>

theorem console_commands_return:
  assumes "timed con clock" and "takes_time (attached con) clock"
  shows "mailbox_command con labels command arguments timeout s \<noteq> None \<and>
    ppp_open con labels timeout s \<noteq> None \<and> ppp_close con labels timeout s \<noteq> None \<and>
    wait_ppp_network_opened con labels timeout s \<noteq> None \<and>
    ntp_request con labels timeout s \<noteq> None \<and> icmp_echo con labels destination timeout s \<noteq> None \<and>
    dns_query con labels resolver n timeout s \<noteq> None \<and>
    read_pending_rx con labels s \<noteq> None \<and> read_trace_events con labels s \<noteq> None"
  by (intro conjI mailbox_command_returns await_command_returns request_command_returns read_command_returns) (rule assms)+

lemma example_console_time: "timed example_console (\<lambda>s. s)" "takes_time (attached example_console) (\<lambda>s. s)"
  by (simp_all add: timed_def takes_time_def example_console_def)

theorem console_commands_return_witness:
  "dns_query example_console example_labels (192, 0, 2, 53) [97] 10 0 \<noteq> None"
  using console_commands_return [OF example_console_time] by blast

section \<open>A response is a new one\<close>

lemma snapshot_request_Ok:
  assumes obs: "observes (attached con) clock hist (offset + 8)" "sequenced hist offset 511 (offset + 8) count"
    and time: "takes_time (attached con) clock" and offset: "ppp_state_offset labels = Ok offset"
    and run: "snapshot_request con labels command arguments timeout verdict s = Some (Ok r, s')"
  shows "\<exists>t\<^sub>0 before u mo u' t\<^sub>1 snapshot.
    clock s \<le> t\<^sub>0 \<and> ppp_diagnostic_decode (map (hist t\<^sub>0) [offset ..< offset + 511]) = Ok before \<and> t\<^sub>0 \<le> clock u \<and>
    mailbox_command con labels command arguments timeout u = Some (Ok mo, u') \<and> clock u' \<le> t\<^sub>1 \<and>
    ppp_diagnostic_decode (map (hist t\<^sub>1) [offset ..< offset + 511]) = Ok snapshot \<and> t\<^sub>1 \<le> clock s' \<and>
    verdict before snapshot = Some (Ok r)"
proof -
  from run offset obtain x a before u mo u' y b where
    c: "connect (attached con) s = (Ok x, a)" "read_stable_ppp_snapshot con offset a = Some (Ok before, u)"
    "mailbox_command con labels command arguments timeout u = Some (Ok mo, u')" "connect (attached con) u' = (Ok y, b)"
    "await_snapshot con timeout (read_stable_ppp_snapshot con offset) (verdict before) b = Some (Ok r, s')"
    by (auto simp: snapshot_request_def run_then_eq_Ok)
  have "\<exists>t snapshot. clock b \<le> clock t \<and> read_stable_ppp_snapshot con offset t = Some (Ok snapshot, s') \<and>
      verdict before snapshot = Some (Ok r)"
    by (rule await_snapshot_Ok [OF c(5) time]) (rule less_imp_le, erule ppp_snapshot_time(2) [OF time])
  then obtain t snapshot where
    t: "clock b \<le> clock t" "read_stable_ppp_snapshot con offset t = Some (Ok snapshot, s')" "verdict before snapshot = Some (Ok r)"
    by blast
  from ppp_snapshot_real [OF obs c(2)] obtain t\<^sub>0 where
    t0: "clock a \<le> t\<^sub>0" "t\<^sub>0 \<le> clock u" "ppp_diagnostic_decode (map (hist t\<^sub>0) [offset ..< offset + 511]) = Ok before" by blast
  from ppp_snapshot_real [OF obs t(2)] obtain t\<^sub>1 where
    t1: "clock t \<le> t\<^sub>1" "t\<^sub>1 \<le> clock s'" "ppp_diagnostic_decode (map (hist t\<^sub>1) [offset ..< offset + 511]) = Ok snapshot" by blast
  from takes_time_connect [OF time c(1)] t0(1) have "clock s \<le> t\<^sub>0" by simp
  moreover from takes_time_connect [OF time c(4)] t(1) t1(1) have "clock u' \<le> t\<^sub>1" by simp
  ultimately show ?thesis using t0(2,3) t1(2,3) t(3) c(3) by blast
qed

text \<open>
  C36: what \<open>dns_query\<close> reports was counted while it ran. Under the discipline of the diagnostic
  block and with a clock that does not go back, if a query succeeds then the name is one that \<open>encode_a_query\<close>
  accepts, the request fits the mailbox and gives the length of the name without loss, and there are a time in the call
  before the request was handed over and a time in the call after the console confirmed it, such that the reported snapshot
  is the console's block at the later time, says that a response was received, and counts another number of
  responses than the block at the earlier time. The code compares nothing but the two counts, so a late response to an
  earlier question that arrives between the two times is reported as well.
\<close>

theorem dns_answer_counted_during_call:
  assumes "observes (attached con) clock hist (offset + 8)" and "sequenced hist offset 511 (offset + 8) count"
    and "takes_time (attached con) clock" and "ppp_state_offset labels = Ok offset"
    and "dns_query con labels resolver n timeout s = Some (Ok snapshot, s')"
  shows "is_ok (fst (encode_a_query 0 n (replicate 64 0))) \<and> length n \<le> 27 \<and> unat (of_nat (length n) :: u8) = length n \<and>
    (\<exists>t\<^sub>0 before u mo u' t\<^sub>1.
      clock s \<le> t\<^sub>0 \<and> ppp_diagnostic_decode (map (hist t\<^sub>0) [offset ..< offset + 511]) = Ok before \<and> t\<^sub>0 \<le> clock u \<and>
      mailbox_command con labels 15 (octets4_list resolver @ of_nat (length n) # n) timeout u = Some (Ok mo, u') \<and>
      clock u' \<le> t\<^sub>1 \<and> t\<^sub>1 \<le> clock s' \<and>
      ppp_diagnostic_decode (map (hist t\<^sub>1) [offset ..< offset + 511]) = Ok snapshot \<and>
      pd_dns_state (pd_dns snapshot) = 3 \<and>
      pd_dns_response_count (pd_dns snapshot) \<noteq> pd_dns_response_count (pd_dns before))"
proof -
  from assms(5) have check: "check_query_name n = Ok ()"
    and run: "snapshot_request con labels 15 (octets4_list resolver @ [of_nat (length n)] @ n) timeout dns_verdict s = Some (Ok snapshot, s')"
    by (auto simp: dns_query_def run_then_eq_Ok abi)
  from check have n: "is_ok (fst (encode_a_query 0 n (replicate 64 0)))" "length n \<le> 27"
    by (auto simp: check_query_name_def SFC_DNS_MAXIMUM_NAME_LENGTH_def and_then_eq_Ok is_ok_iff split: if_splits)
  then have "unat (of_nat (length n) :: u8) = length n" by (simp add: unat_of_nat)
  moreover have verdict: "snapshot' = snapshot \<and> pd_dns_state (pd_dns snapshot) = 3 \<and>
      pd_dns_response_count (pd_dns snapshot) \<noteq> pd_dns_response_count (pd_dns before)"
    if "dns_verdict before snapshot' = Some (Ok snapshot)" for before snapshot'
    using that by (auto simp: dns_verdict_def DNS_STATE_RECEIVED_def split: if_splits)
  ultimately show ?thesis
    using n snapshot_request_Ok [OF assms(1-4) run] by (auto dest!: verdict) blast
qed

lemma answering_query:
  "\<exists>snapshot. dns_query answering_console answering_labels (192, 0, 2, 53) [97] 10 0 = Some (Ok snapshot, 14)"
proof -
  from answering_snapshot [of 0] answering_snapshot [of 11] obtain before snapshot where
    snapshots: "read_stable_ppp_snapshot answering_console 0xf52000 0 = Some (Ok before, 3)"
      "read_stable_ppp_snapshot answering_console 0xf52000 11 = Some (Ok snapshot, 14)"
    and decode: "ppp_diagnostic_decode (answering_block 0) = Ok before" "ppp_diagnostic_decode (answering_block 11) = Ok snapshot"
    by auto
  from decode answering_decode [of 0] answering_decode [of 11] have verdict: "dns_verdict before snapshot = Some (Ok snapshot)"
    by (auto simp: dns_verdict_def DNS_STATE_RECEIVED_def)
  have "check_query_name [97] = Ok ()"
    by code_simp
  moreover have "ppp_state_offset answering_labels = Ok 0xf52000"
    by (simp add: ppp_state_offset_def label_at_def wram_to_usb2snes_def)
  moreover obtain mo where "mailbox_command answering_console answering_labels MODEM_MAILBOX_COMMAND_DNS_QUERY [192, 0, 2, 53, 1, 97] 10 3 =
      Some (Ok mo, 11)"
    using answering_command [of "[192, 0, 2, 53, 1, 97]"] by auto
  moreover have "await_snapshot answering_console 10 (read_stable_ppp_snapshot answering_console 0xf52000) (dns_verdict before) 11 =
      Some (Ok snapshot, 14)"
    unfolding await_snapshot_def by (subst repeat_until.simps) (simp add: await_turn_def snapshots verdict)
  ultimately show ?thesis
    by (simp add: dns_query_def snapshot_request_def snapshots octets4_list_def)
qed

theorem dns_answer_counted_during_call_witness:
  "\<exists>snapshot t. ppp_diagnostic_decode (map (answering_memory t) [0xf52000 ..< 0xf52000 + 511]) = Ok snapshot \<and>
     pd_dns_state (pd_dns snapshot) = 3"
proof -
  obtain snapshot where q: "dns_query answering_console answering_labels (192, 0, 2, 53) [97] 10 0 = Some (Ok snapshot, 14)"
    using answering_query by blast
  have "ppp_state_offset answering_labels = Ok 0xf52000"
    by (simp add: ppp_state_offset_def label_at_def wram_to_usb2snes_def)
  from dns_answer_counted_during_call [OF answering_observes answering_sequenced answering_takes_time this q] show ?thesis by blast
qed

end
