(* ===== verification/Pap_Credentials.thy ===== *)
theory Pap_Credentials
  imports Console_Properties
begin

text \<open>
  The login credentials of a dial-up connection, \<^verbatim>\<open>tools/ndm24-tools/src/credentials.rs\<close>: what is accepted as a
  user name and a password, and how they are staged in the console by three mailbox commands. A text is given by its
  UTF-8 octets, of which 10 and 13 are the line feed and the carriage return. Reading the terminal is left out, as is the
  clearing of the host's memory.
\<close>

section \<open>Checks\<close>

definition NIFTY_ID_LENGTH :: nat where "NIFTY_ID_LENGTH = 8"
definition NIFTY_PASSWORD_MINIMUM_LENGTH :: nat where "NIFTY_PASSWORD_MINIMUM_LENGTH = 6"
definition NIFTY_PASSWORD_MAXIMUM_LENGTH :: nat where "NIFTY_PASSWORD_MAXIMUM_LENGTH = 24"
definition FLAG_PEER_ID :: u8 where "FLAG_PEER_ID = 0x01"
definition FLAG_PASSWORD :: u8 where "FLAG_PASSWORD = 0x02"
definition FLAG_TRANSIENT :: u8 where "FLAG_TRANSIENT = 0x04"
definition REQUIRED_FLAGS :: u8 where "REQUIRED_FLAGS = FLAG_PEER_ID OR FLAG_PASSWORD OR FLAG_TRANSIENT"

record pap_credentials =
  cr_peer_id :: bytes
  cr_password :: bytes

definition octet_digit :: "u8 \<Rightarrow> bool" where "octet_digit b \<longleftrightarrow> 48 \<le> b \<and> b \<le> 57"
definition octet_alphabetic :: "u8 \<Rightarrow> bool" where "octet_alphabetic b \<longleftrightarrow> 65 \<le> b \<and> b \<le> 90 \<or> 97 \<le> b \<and> b \<le> 122"

text \<open>The signs number, dollar, ampersand, \<dots>, exclamation mark, in the order of the source.\<close>

definition password_signs :: bytes where
  "password_signs = [0x23, 0x24, 0x26, 0x27, 0x28, 0x29, 0x2a, 0x2c, 0x2e, 0x2d, 0x2f, 0x3a, 0x3b, 0x3c, 0x3d, 0x3e,
     0x5b, 0x5d, 0x5e, 0x5f, 0x60, 0x7b, 0x7c, 0x7d, 0x7e, 0x21]"

definition password_octet :: "u8 \<Rightarrow> bool" where
  "password_octet b \<longleftrightarrow> octet_alphabetic b \<or> octet_digit b \<or> b \<in> set password_signs"

definition truncate_line_ending :: "bytes \<Rightarrow> bytes" where
  "truncate_line_ending v =
     (if v \<noteq> [] \<and> last v = 10 then
        (let v = butlast v in if v \<noteq> [] \<and> last v = 13 then butlast v else v)
      else v)"

definition validate_nifty_id :: "bytes \<Rightarrow> (unit, tool_error) result" where
  "validate_nifty_id v =
     (if length v = NIFTY_ID_LENGTH \<and> list_all octet_alphabetic (take 3 v) \<and> list_all octet_digit (drop 3 v)
      then Ok () else Err InvalidPeerId)"

definition validate_nifty_password :: "bytes \<Rightarrow> (unit, tool_error) result" where
  "validate_nifty_password v =
     (if \<not> (NIFTY_PASSWORD_MINIMUM_LENGTH \<le> length v \<and> length v \<le> NIFTY_PASSWORD_MAXIMUM_LENGTH) then Err PasswordLength
      else case find (\<lambda>b. \<not> password_octet b) v of Some b \<Rightarrow> Err (PasswordOctet b) | None \<Rightarrow> Ok ())"

definition credentials_new :: "bytes \<Rightarrow> bytes \<Rightarrow> (pap_credentials, tool_error) result" where
  "credentials_new peer_id password =
     and_then (validate_nifty_id peer_id) (\<lambda>_.
     and_then (validate_nifty_password password) (\<lambda>_.
     Ok \<lparr>cr_peer_id = peer_id, cr_password = password\<rparr>))"

text \<open>What is entered at the two prompts; the masked one returns the line without its end.\<close>

definition credentials_prompt :: "bytes \<Rightarrow> bytes \<Rightarrow> (pap_credentials, tool_error) result" where
  "credentials_prompt line password = credentials_new (truncate_line_ending line) password"

section \<open>Staging\<close>

definition upload_fields :: "'s console \<Rightarrow> label_table \<Rightarrow> pap_credentials \<Rightarrow> nat \<Rightarrow> 's \<Rightarrow> (unit, 's) run" where
  "upload_fields con labels cr timeout s =
     run_then (mailbox_command con labels MODEM_MAILBOX_COMMAND_PAP_PEER_ID_SET
       (of_nat (length (cr_peer_id cr)) # cr_peer_id cr) timeout s) (\<lambda>_ s.
     run_then (mailbox_command con labels MODEM_MAILBOX_COMMAND_PAP_PASSWORD_SET
       (of_nat (length (cr_password cr)) # cr_password cr) timeout s) (\<lambda>_ s.
     Some (Ok (), s)))"

text \<open>\<^verbatim>\<open>match\<close> on the outcome of an awaited call, in which a panic goes on.\<close>

definition run_match ::
  "('a, 's) run \<Rightarrow> ('a \<Rightarrow> 's \<Rightarrow> ('b, 's) run) \<Rightarrow> (tool_error \<Rightarrow> 's \<Rightarrow> ('b, 's) run) \<Rightarrow> ('b, 's) run" where
  "run_match r ok err = Option.bind r (\<lambda>(q, s). case q of Ok x \<Rightarrow> ok x s | Err e \<Rightarrow> err e s | Panic \<Rightarrow> Some (Panic, s))"

definition staged :: "pap_credentials \<Rightarrow> ppp_diagnostic_snapshot \<Rightarrow> bool" where
  "staged cr snapshot \<longleftrightarrow>
     pd_pap_credential_flags (pd_lcp_control snapshot) AND REQUIRED_FLAGS = REQUIRED_FLAGS \<and>
     unat (pd_pap_peer_id_length (pd_lcp_control snapshot)) = length (cr_peer_id cr) \<and>
     unat (pd_pap_password_length (pd_lcp_control snapshot)) = length (cr_password cr)"

definition upload :: "'s console \<Rightarrow> label_table \<Rightarrow> pap_credentials \<Rightarrow> nat \<Rightarrow> 's \<Rightarrow> (unit, 's) run" where
  "upload con labels cr timeout s =
     run_then (mailbox_command con labels MODEM_MAILBOX_COMMAND_PAP_CREDENTIALS_CLEAR [] timeout s) (\<lambda>_ s.
     run_match (upload_fields con labels cr timeout s)
       (\<lambda>_ s.
         run_then (read_ppp_snapshot con labels s) (\<lambda>snapshot s.
         Some (if staged cr snapshot then Ok () else Err NotStaged, s)))
       (\<lambda>e s.
         run_match (mailbox_command con labels MODEM_MAILBOX_COMMAND_PAP_CREDENTIALS_CLEAR [] timeout s)
           (\<lambda>_ s. Some (Err (UploadFailed e), s))
           (\<lambda>e' s. Some (Err (UploadAndClearFailed e e'), s))))"

lemma run_match_simps [simp]:
  "run_match (Some (Ok x, s)) ok err = ok x s" "run_match (Some (Err e, s)) ok err = err e s"
  "run_match (Some (Panic, s)) ok err = Some (Panic, s)" "run_match None ok err = None"
  by (simp_all add: run_match_def)

lemma run_match_returns:
  assumes "r \<noteq> None" and "\<And>x s. ok x s \<noteq> None" and "\<And>e s. err e s \<noteq> None"
  shows "run_match r ok err \<noteq> None"
proof -
  from assms(1) obtain q s where "r = Some (q, s)" by fast
  with assms(2,3) show ?thesis by (cases q) simp_all
qed

lemma validate_nifty_id_Ok:
  "validate_nifty_id v = Ok () \<longleftrightarrow>
     (\<exists>letters digits. v = letters @ digits \<and> length letters = 3 \<and> length digits = 5 \<and>
        (\<forall>b \<in> set letters. octet_alphabetic b) \<and> (\<forall>b \<in> set digits. octet_digit b))"
proof
  assume "validate_nifty_id v = Ok ()"
  then have "length v = 8" "\<forall>b \<in> set (take 3 v). octet_alphabetic b" "\<forall>b \<in> set (drop 3 v). octet_digit b"
    by (simp_all add: validate_nifty_id_def NIFTY_ID_LENGTH_def list_all_iff split: if_splits)
  then show "\<exists>letters digits. v = letters @ digits \<and> length letters = 3 \<and> length digits = 5 \<and>
      (\<forall>b \<in> set letters. octet_alphabetic b) \<and> (\<forall>b \<in> set digits. octet_digit b)"
    by (intro exI [of _ "take 3 v"] exI [of _ "drop 3 v"]) simp
qed (auto simp: validate_nifty_id_def NIFTY_ID_LENGTH_def list_all_iff)

lemma find_decides: "(case find P xs of Some x \<Rightarrow> Err (f x) | None \<Rightarrow> Ok ()) = Ok () \<longleftrightarrow> (\<forall>x \<in> set xs. \<not> P x)"
  by (induction xs) auto

lemma validate_nifty_password_Ok:
  "validate_nifty_password v = Ok () \<longleftrightarrow> 6 \<le> length v \<and> length v \<le> 24 \<and> (\<forall>b \<in> set v. password_octet b)"
  by (auto simp: validate_nifty_password_def NIFTY_PASSWORD_MINIMUM_LENGTH_def NIFTY_PASSWORD_MAXIMUM_LENGTH_def find_decides)

text \<open>A run that succeeds, as a step between states.\<close>

definition succeeds :: "'s console \<Rightarrow> label_table \<Rightarrow> nat \<Rightarrow> u8 \<Rightarrow> bytes \<Rightarrow> 's \<Rightarrow> 's \<Rightarrow> bool" where
  "succeeds con labels timeout command arguments s t \<longleftrightarrow>
     (\<exists>mo. mailbox_command con labels command arguments timeout s = Some (Ok mo, t))"

lemma upload_fields_Ok:
  "upload_fields con labels cr timeout s = Some (Ok (), s') \<longleftrightarrow>
     (\<exists>t. succeeds con labels timeout 19 (of_nat (length (cr_peer_id cr)) # cr_peer_id cr) s t \<and>
        succeeds con labels timeout 20 (of_nat (length (cr_password cr)) # cr_password cr) t s')"
  by (auto simp: upload_fields_def run_then_eq_Ok succeeds_def abi)

text \<open>
  C39: how an upload of credentials ends. Take credentials that were accepted at the prompts. Their
  user name is three letters and five digits and both requests fit the mailbox, with the length octets
  exact. When \<open>upload\<close> ends without a panic of the host, one of four things happened: the first clear failed, and nothing
  else was done; the three commands succeeded in
  order and a snapshot after them confirms the flags and both lengths, with success; the three commands
  succeeded but the snapshot could not be read or does not confirm them, with that error and without another clear, so that the
  credentials stay where they are; or staging failed with \<open>e\<close>, and then
  the clear command was given again, and the outcome says whether it succeeded.
\<close>

theorem upload_outcomes:
  assumes "credentials_prompt line password = Ok cr" and "upload con labels cr timeout s = Some (r, s')" and "r \<noteq> Panic"
  shows "(\<exists>letters digits. cr_peer_id cr = letters @ digits \<and> length letters = 3 \<and> length digits = 5 \<and>
      (\<forall>b \<in> set letters. octet_alphabetic b) \<and> (\<forall>b \<in> set digits. octet_digit b)) \<and>
    (\<forall>v \<in> {cr_peer_id cr, cr_password cr}. Suc (length v) \<le> MODEM_MAILBOX_ARGUMENT_SIZE \<and> unat (of_nat (length v) :: u8) = length v) \<and>
    ((\<exists>e. mailbox_command con labels 18 [] timeout s = Some (Err e, s') \<and> r = Err e) \<or>
     (\<exists>a b c. succeeds con labels timeout 18 [] s a \<and>
        succeeds con labels timeout 19 (8 # cr_peer_id cr) a b \<and>
        succeeds con labels timeout 20 (of_nat (length (cr_password cr)) # cr_password cr) b c \<and>
        (case read_ppp_snapshot con labels c of
           Some (Ok snapshot, t) \<Rightarrow> s' = t \<and> r = (if staged cr snapshot then Ok () else Err NotStaged)
         | Some (Err e, t) \<Rightarrow> s' = t \<and> r = Err e | _ \<Rightarrow> False)) \<or>
     (\<exists>a e b. succeeds con labels timeout 18 [] s a \<and> upload_fields con labels cr timeout a = Some (Err e, b) \<and>
        (case mailbox_command con labels 18 [] timeout b of
           Some (Ok mo, t) \<Rightarrow> s' = t \<and> r = Err (UploadFailed e)
         | Some (Err e', t) \<Rightarrow> s' = t \<and> r = Err (UploadAndClearFailed e e') | _ \<Rightarrow> False)))"
proof -
  from assms(1) have id: "validate_nifty_id (cr_peer_id cr) = Ok ()" and password: "validate_nifty_password (cr_password cr) = Ok ()"
    by (auto simp: credentials_prompt_def credentials_new_def and_then_eq_Ok)
  then have len: "length (cr_peer_id cr) = 8" "6 \<le> length (cr_password cr)" "length (cr_password cr) \<le> 24"
    by (simp_all add: validate_nifty_id_def NIFTY_ID_LENGTH_def validate_nifty_password_Ok split: if_splits)
  then have fits: "\<forall>v \<in> {cr_peer_id cr, cr_password cr}. Suc (length v) \<le> MODEM_MAILBOX_ARGUMENT_SIZE \<and>
      unat (of_nat (length v) :: u8) = length v"
    by (auto simp: abi unat_of_nat)
  let ?clear = "mailbox_command con labels 18 [] timeout"
  obtain q a where first: "?clear s = Some (q, a)"
    using assms(2) by (cases "?clear s") (auto simp: upload_def abi)
  show ?thesis
  proof (cases q)
    case (Err e)
    with first assms(2) id fits show ?thesis by (simp add: upload_def abi validate_nifty_id_Ok)
  next
    case Panic
    with first assms(2,3) show ?thesis by (simp add: upload_def abi)
  next
    case (Ok mo)
    then have clear: "succeeds con labels timeout 18 [] s a" using first by (auto simp: succeeds_def)
    obtain p b where fields: "upload_fields con labels cr timeout a = Some (p, b)"
      using assms(2) first Ok by (cases "upload_fields con labels cr timeout a") (auto simp: upload_def abi)
    show ?thesis
    proof (cases p)
      case (Ok u)
      obtain v t where snapshot: "read_ppp_snapshot con labels b = Some (v, t)"
        using assms(2) first \<open>q = Ok mo\<close> fields Ok by (cases "read_ppp_snapshot con labels b") (auto simp: upload_def abi)
      from fields Ok upload_fields_Ok [of con labels cr timeout a b] len(1) obtain c where
        "succeeds con labels timeout 19 (8 # cr_peer_id cr) a c"
        "succeeds con labels timeout 20 (of_nat (length (cr_password cr)) # cr_password cr) c b" by auto
      moreover have "case read_ppp_snapshot con labels b of
           Some (Ok snapshot, t) \<Rightarrow> s' = t \<and> r = (if staged cr snapshot then Ok () else Err NotStaged)
         | Some (Err e, t) \<Rightarrow> s' = t \<and> r = Err e | _ \<Rightarrow> False"
        using assms(2,3) first \<open>q = Ok mo\<close> fields Ok snapshot by (cases v) (auto simp: upload_def abi)
      ultimately show ?thesis using id fits clear unfolding validate_nifty_id_Ok by blast
    next
      case (Err e)
      obtain v t where again: "?clear b = Some (v, t)"
        using assms(2) first \<open>q = Ok mo\<close> fields Err by (cases "?clear b") (auto simp: upload_def abi)
      have "case ?clear b of Some (Ok mo, t) \<Rightarrow> s' = t \<and> r = Err (UploadFailed e)
         | Some (Err e', t) \<Rightarrow> s' = t \<and> r = Err (UploadAndClearFailed e e') | _ \<Rightarrow> False"
        using assms(2,3) first \<open>q = Ok mo\<close> fields Err again by (cases v) (auto simp: upload_def abi)
      then show ?thesis using id fits clear fields Err unfolding validate_nifty_id_Ok by blast
    next
      case Panic
      with first assms(2,3) \<open>q = Ok mo\<close> fields show ?thesis by (simp add: upload_def abi)
    qed
  qed
qed

lemma staging_succeeds:
  "length arguments \<le> 32 \<Longrightarrow> k < 3 \<Longrightarrow> succeeds staging_console answering_labels 10 command arguments (8 * k) (8 * k + 8)"
  using staging_command [of arguments k command] by (simp add: succeeds_def)

abbreviation example_credentials :: pap_credentials where
  "example_credentials \<equiv> \<lparr>cr_peer_id = [97, 98, 99, 49, 50, 51, 52, 53], cr_password = [97, 98, 99, 100, 101, 33]\<rparr>"

lemma example_upload:
  "upload staging_console answering_labels example_credentials 10 0 = Some (Ok (), 27)"
proof -
  let ?cr = example_credentials
  obtain mo where clear: "mailbox_command staging_console answering_labels 18 [] 10 0 = Some (Ok mo, 8)"
    using staging_succeeds [of "[]" 0 18] by (auto simp: succeeds_def)
  have "succeeds staging_console answering_labels 10 19 (of_nat (length (cr_peer_id ?cr)) # cr_peer_id ?cr) 8 16"
    "succeeds staging_console answering_labels 10 20 (of_nat (length (cr_password ?cr)) # cr_password ?cr) 16 24"
    using staging_succeeds [of _ 1 19] staging_succeeds [of _ 2 20] by simp_all
  then have fields: "upload_fields staging_console answering_labels ?cr 10 8 = Some (Ok (), 24)"
    unfolding upload_fields_Ok by blast
  obtain snapshot where snapshot: "read_stable_ppp_snapshot staging_console 0xf52000 24 = Some (Ok snapshot, 27)"
    "pd_pap_credential_flags (pd_lcp_control snapshot) = 7" "pd_pap_peer_id_length (pd_lcp_control snapshot) = 8"
    "pd_pap_password_length (pd_lcp_control snapshot) = 6"
    using staging_snapshot [of 24] by auto
  then have "staged ?cr snapshot"
    by (simp add: staged_def REQUIRED_FLAGS_def FLAG_PEER_ID_def FLAG_PASSWORD_def FLAG_TRANSIENT_def)
  moreover have "ppp_state_offset answering_labels = Ok 0xf52000"
    by (simp add: ppp_state_offset_def label_at_def wram_to_usb2snes_def)
  then have "read_ppp_snapshot staging_console answering_labels 24 = Some (Ok snapshot, 27)"
    by (simp add: read_ppp_snapshot_def snapshot(1))
  ultimately show ?thesis using clear fields by (simp add: upload_def abi)
qed

theorem upload_outcomes_witness:
  "(\<exists>letters digits. cr_peer_id example_credentials = letters @ digits \<and> length letters = 3 \<and> length digits = 5 \<and>
     (\<forall>b \<in> set letters. octet_alphabetic b) \<and> (\<forall>b \<in> set digits. octet_digit b)) \<and>
   upload staging_console answering_labels example_credentials 10 0 = Some (Ok (), 27)"
proof -
  have "credentials_prompt [97, 98, 99, 49, 50, 51, 52, 53, 13, 10] [97, 98, 99, 100, 101, 33] = Ok example_credentials"
    by code_simp
  from upload_outcomes [OF this example_upload] example_upload show ?thesis by blast
qed

end
