(* ===== verification/Dial_Workflow.thy ===== *)
theory Dial_Workflow
  imports Pap_Credentials
begin

text \<open>
  Dialling on the console: AT transactions through the mailbox (\<^verbatim>\<open>at_arguments\<close> of
  \<^verbatim>\<open>tools/ndm24-tools/src/connect_test.rs\<close>), \<^verbatim>\<open>ppp_dial.rs\<close>, and the single charged call of
  \<^verbatim>\<open>nifty_dial.rs\<close> with its cleanup. What is printed, the confirmation by the user and the wait with an open connection are
  left out; the wait is an argument, as is \<^verbatim>\<open>tokio::time::timeout\<close>.
\<close>

section \<open>AT transactions\<close>

definition MODEM_SESSION_RESULT_OK :: u8 where "MODEM_SESSION_RESULT_OK = 1"
definition MODEM_SESSION_RESULT_CONNECT :: u8 where "MODEM_SESSION_RESULT_CONNECT = 3"

text \<open>\<^verbatim>\<open>as_bytes\<close> of a text of ASCII characters.\<close>

definition text_octets :: "string \<Rightarrow> bytes" where
  "text_octets s = map (\<lambda>c. of_nat (of_char c)) s"

definition at_arguments :: "bytes \<Rightarrow> u8 \<Rightarrow> u16 \<Rightarrow> (bytes, tool_error) result" where
  "at_arguments command expected_result timeout_frames =
     (let framed = if command \<noteq> [] then command @ [13, 10] else command
      in if length framed > 28 then Err AtCommandTooLong
         else Ok ([expected_result] @ to_le16 timeout_frames @ [of_nat (length framed)] @ framed))"

definition transact ::
  "'s console \<Rightarrow> label_table \<Rightarrow> string \<Rightarrow> u8 \<Rightarrow> u16 \<Rightarrow> nat \<Rightarrow> 's \<Rightarrow> (unit, 's) run" where
  "transact con labels command expected_result timeout_frames host_timeout s =
     run_then (Some (at_arguments (text_octets command) expected_result timeout_frames, s)) (\<lambda>arguments s.
     run_then (mailbox_command con labels MODEM_MAILBOX_COMMAND_AT_TRANSACTION arguments host_timeout s) (\<lambda>outcome s.
     Some (if mo_result outcome = ucast expected_result then Ok ()
           else Err (UnexpectedResult (mo_result outcome) expected_result), s)))"

definition SETUP_TIMEOUT_FRAMES :: u16 where "SETUP_TIMEOUT_FRAMES = 300"
definition DIAL_TIMEOUT_FRAMES :: u16 where "DIAL_TIMEOUT_FRAMES = 3900"

fun transact_setup :: "'s console \<Rightarrow> label_table \<Rightarrow> nat \<Rightarrow> string list \<Rightarrow> 's \<Rightarrow> (unit, 's) run" where
  "transact_setup con labels timeout [] s = Some (Ok (), s)"
| "transact_setup con labels timeout (command # commands) s =
     run_then (transact con labels command MODEM_SESSION_RESULT_OK SETUP_TIMEOUT_FRAMES timeout s) (\<lambda>_ s.
     transact_setup con labels timeout commands s)"

definition require_ready :: "'s console \<Rightarrow> label_table \<Rightarrow> 's \<Rightarrow> (unit, 's) run" where
  "require_ready con labels s =
     run_then (read_snapshot con labels s) (\<lambda>initial s.
     Some (if ds_driver_state initial = Ready then Ok () else Err DriverNotReady, s))"

section \<open>A PPP call\<close>

definition setup_commands :: "u32 \<Rightarrow> (string list, tool_error) result" where
  "setup_commands speed =
     (if speed = 2400 \<or> speed = 14400
      then Ok [''AT&F'', ''ATM0'', ''AT%B'' @ decimal_text (unat speed), ''ATS7=60'', ''ATX3'']
      else Err (UnsupportedSpeed speed))"

definition ppp_dial :: "'s console \<Rightarrow> label_table \<Rightarrow> u32 \<Rightarrow> nat \<Rightarrow> nat \<Rightarrow> 's \<Rightarrow> (unit, 's) run" where
  "ppp_dial con labels speed setup_timeout dial_timeout s =
     run_then (require_ready con labels s) (\<lambda>_ s.
     run_then (Some (setup_commands speed, s)) (\<lambda>commands s.
     run_then (transact_setup con labels setup_timeout commands s) (\<lambda>_ s.
     run_then (mailbox_command con labels MODEM_MAILBOX_COMMAND_PPP_OPEN [] setup_timeout s) (\<lambda>_ s.
     run_then (mailbox_command con labels MODEM_MAILBOX_COMMAND_PPP_RECEIVE_START [] setup_timeout s) (\<lambda>_ s.
     run_match (transact con labels ''ATDT0'' MODEM_SESSION_RESULT_CONNECT DIAL_TIMEOUT_FRAMES dial_timeout s)
       (\<lambda>_ s. Some (Ok (), s))
       (\<lambda>e s.
         run_match (mailbox_command con labels MODEM_MAILBOX_COMMAND_PPP_RECEIVE_STOP [] setup_timeout s)
           (\<lambda>_ s. Some (Err (DialFailed e), s))
           (\<lambda>e' s. Some (Err (DialAndStopFailed e e'), s))))))))"

section \<open>The charged call\<close>

definition ACCESS_NUMBER :: string where "ACCESS_NUMBER = ''0570077705''"
definition DNS_TEST_NAME :: string where "DNS_TEST_NAME = ''example.com''"
definition TOTAL_CALL_WORKFLOW_LIMIT :: nat where "TOTAL_CALL_WORKFLOW_LIMIT = seconds 105"
definition HOLD_LIMIT :: nat where "HOLD_LIMIT = seconds (10 * 60)"
definition CLEANUP_LIMIT :: nat where "CLEANUP_LIMIT = seconds 15"
definition SETUP_TIMEOUT :: nat where "SETUP_TIMEOUT = seconds 15"
definition DIAL_TIMEOUT :: nat where "DIAL_TIMEOUT = seconds 60"
definition NETWORK_TIMEOUT :: nat where "NETWORK_TIMEOUT = seconds 30"
definition DNS_TIMEOUT :: nat where "DNS_TIMEOUT = seconds 20"

definition SETUP_COMMANDS :: "string list" where
  "SETUP_COMMANDS = [''AT&F'', ''ATM0'', ''AT%B2400'', ''ATS7=60'', ''ATX4'']"

definition run_once ::
  "'s console \<Rightarrow> label_table \<Rightarrow> pap_credentials \<Rightarrow> ('s \<Rightarrow> (unit, 's) run) option \<Rightarrow> 's \<Rightarrow> (unit, 's) run" where
  "run_once con labels credentials hold s =
     run_then (require_ready con labels s) (\<lambda>_ s.
     run_then (transact_setup con labels SETUP_TIMEOUT SETUP_COMMANDS s) (\<lambda>_ s.
     run_then (upload con labels credentials SETUP_TIMEOUT s) (\<lambda>_ s.
     run_then (mailbox_command con labels MODEM_MAILBOX_COMMAND_PPP_OPEN [] SETUP_TIMEOUT s) (\<lambda>_ s.
     run_then (mailbox_command con labels MODEM_MAILBOX_COMMAND_PPP_RECEIVE_START [] SETUP_TIMEOUT s) (\<lambda>_ s.
     run_then (transact con labels (''ATDT'' @ ACCESS_NUMBER) MODEM_SESSION_RESULT_CONNECT DIAL_TIMEOUT_FRAMES DIAL_TIMEOUT s) (\<lambda>_ s.
     run_then (wait_ppp_network_opened con labels NETWORK_TIMEOUT s) (\<lambda>snapshot s.
     let resolver = pd_ipcp_primary_dns_address (pd_icmp_inbound snapshot) in
     run_then (Some (if resolver \<noteq> (0, 0, 0, 0) then Ok () else Err NoResolver, s)) (\<lambda>_ s.
     run_then (dns_query con labels resolver (text_octets DNS_TEST_NAME) DNS_TIMEOUT s) (\<lambda>_ s.
     case hold of None \<Rightarrow> Some (Ok (), s) | Some wait \<Rightarrow> wait s)))))))))"

text \<open>An outcome that is kept for later; a panic is not.\<close>

definition run_keep ::
  "('a, 's) run \<Rightarrow> (('a, tool_error) result \<Rightarrow> 's \<Rightarrow> ('b, 's) run) \<Rightarrow> ('b, 's) run" where
  "run_keep r f = run_match r (\<lambda>x. f (Ok x)) (\<lambda>e. f (Err e))"

definition cleanup :: "'s console \<Rightarrow> label_table \<Rightarrow> 's \<Rightarrow> (unit, 's) run" where
  "cleanup con labels s =
     run_keep (mailbox_command con labels MODEM_MAILBOX_COMMAND_PAP_CREDENTIALS_CLEAR [] (seconds 3) s) (\<lambda>clear s.
     run_keep (ppp_close con labels (seconds 8) s) (\<lambda>close s.
     run_keep (mailbox_command con labels MODEM_MAILBOX_COMMAND_PPP_RECEIVE_STOP [] (seconds 3) s) (\<lambda>stop s.
     Some (and_then clear (\<lambda>_. and_then close (\<lambda>_. and_then stop (\<lambda>_. Ok ()))), s))))"

text \<open>
  \<^verbatim>\<open>tokio::time::timeout\<close> runs what it is given up to a limit and returns its outcome, or \<open>None\<close> when it was cancelled.
  The outcome of the cleanup is only printed.
\<close>

type_synonym 's timeout = "nat \<Rightarrow> ('s \<Rightarrow> (unit, 's) run) \<Rightarrow> 's \<Rightarrow> ((unit, tool_error) result option \<times> 's) option"

definition nifty_call ::
  "'s timeout \<Rightarrow> 's console \<Rightarrow> label_table \<Rightarrow> pap_credentials \<Rightarrow> ('s \<Rightarrow> (unit, 's) run) option \<Rightarrow> 's \<Rightarrow> (unit, 's) run" where
  "nifty_call timeout con labels credentials hold s =
     (let workflow_limit = if hold \<noteq> None then TOTAL_CALL_WORKFLOW_LIMIT + HOLD_LIMIT else TOTAL_CALL_WORKFLOW_LIMIT
      in Option.bind (timeout workflow_limit (run_once con labels credentials hold) s) (\<lambda>(workflow, s).
         if workflow = Some Panic then Some (Panic, s)
         else Option.bind (timeout CLEANUP_LIMIT (cleanup con labels) s) (\<lambda>(cleaned, s).
           if cleaned = Some Panic then Some (Panic, s)
           else Some (case workflow of Some r \<Rightarrow> r | None \<Rightarrow> Err WorkflowCancelled, s))))"

section \<open>Properties\<close>

text \<open>The arguments of a transaction fit the mailbox, and the length octet is exact.\<close>

lemma at_arguments_fit:
  assumes "at_arguments command expected_result timeout_frames = Ok arguments"
  shows "length arguments \<le> MODEM_MAILBOX_ARGUMENT_SIZE \<and> unat (arguments ! 3) = length arguments - 4 \<and>
     drop 4 arguments = (if command = [] then [] else command @ [13, 10])"
proof -
  define framed where "framed = (if command \<noteq> [] then command @ [13, 10] else command)"
  have "length framed \<le> 28" "arguments = [expected_result] @ to_le16 timeout_frames @ [of_nat (length framed)] @ framed"
    using assms by (simp_all only: at_arguments_def Let_def flip: framed_def) (auto split: if_split_asm)
  moreover from this(1) have "unat (of_nat (length framed) :: u8) = length framed" by (simp add: unat_of_nat)
  ultimately show ?thesis by (auto simp: to_le16_def abi framed_def)
qed

lemma setup_commands_14400:
  "setup_commands 14400 = Ok [''AT&F'', ''ATM0'', ''AT%B14400'', ''ATS7=60'', ''ATX3'']"
proof -
  have "decimal_text 14400 = ''14400''"
    by (simp add: decimal_text_def radix_text.simps [of 10] digit_char_def char_of_def bit_iff_odd)
  then show ?thesis by (simp add: setup_commands_def)
qed

lemma run_keep_Some:
  "run_keep r f = Some (y, s') \<Longrightarrow> y \<noteq> Panic \<Longrightarrow> \<exists>q s. r = Some (q, s) \<and> q \<noteq> Panic \<and> f q s = Some (y, s')"
  by (cases r; cases "fst (the r)") (auto simp: run_keep_def)

lemma cleanup_attempts_all:
  assumes "cleanup con labels s = Some (r, s')" and "r \<noteq> Panic"
  shows "\<exists>clear a close b stop.
    mailbox_command con labels 18 [] (seconds 3) s = Some (clear, a) \<and> ppp_close con labels (seconds 8) a = Some (close, b) \<and>
    mailbox_command con labels 12 [] (seconds 3) b = Some (stop, s') \<and>
    (r = Ok () \<longleftrightarrow> is_ok clear \<and> is_ok close \<and> is_ok stop)"
proof -
  from run_keep_Some [OF assms [unfolded cleanup_def]] obtain clear a where 1: "clear \<noteq> Panic"
    "mailbox_command con labels 18 [] (seconds 3) s = Some (clear, a)"
    "run_keep (ppp_close con labels (seconds 8) a) (\<lambda>close s.
       run_keep (mailbox_command con labels MODEM_MAILBOX_COMMAND_PPP_RECEIVE_STOP [] (seconds 3) s) (\<lambda>stop s.
       Some (and_then clear (\<lambda>_. and_then close (\<lambda>_. and_then stop (\<lambda>_. Ok ()))), s))) = Some (r, s')"
    by (auto simp: abi)
  from run_keep_Some [OF 1(3) assms(2)] obtain close b where 2: "close \<noteq> Panic" "ppp_close con labels (seconds 8) a = Some (close, b)"
    "run_keep (mailbox_command con labels MODEM_MAILBOX_COMMAND_PPP_RECEIVE_STOP [] (seconds 3) b) (\<lambda>stop s.
       Some (and_then clear (\<lambda>_. and_then close (\<lambda>_. and_then stop (\<lambda>_. Ok ()))), s)) = Some (r, s')" by blast
  from run_keep_Some [OF 2(3) assms(2)] obtain stop where 3: "mailbox_command con labels 12 [] (seconds 3) b = Some (stop, s')"
    "r = and_then clear (\<lambda>_. and_then close (\<lambda>_. and_then stop (\<lambda>_. Ok ())))"
    by (auto simp: abi)
  have "r = Ok () \<longleftrightarrow> is_ok clear \<and> is_ok close \<and> is_ok stop"
    unfolding 3(2) by (cases clear; cases close; cases stop) simp_all
  with 1(2) 2(2) 3(1) show ?thesis by blast
qed

text \<open>
  A call is cleaned up after, however it ended. Suppose that \<^verbatim>\<open>timeout\<close>, when it does not cancel, returns the outcome
  of what it ran. If the call returns without a panic, then after the workflow, be it successful, failed or
  cancelled, the cleanup was started with its limit of 15 seconds, the result is that of the workflow, and unless the cleanup
  was cancelled, it gave the clear command, then closed PPP, then stopped the receiver, each of them
  whatever the one before returned.
\<close>

theorem nifty_call_cleans_up:
  assumes timeout: "\<And>limit f s q t. timeout limit f s = Some (Some q, t) \<Longrightarrow> f s = Some (q, t)"
    and call: "nifty_call timeout con labels credentials hold s = Some (r, s')" and "r \<noteq> Panic"
  shows "\<exists>workflow t cleaned.
    timeout (if hold = None then seconds 105 else seconds 705) (run_once con labels credentials hold) s = Some (workflow, t) \<and>
    r = (case workflow of Some q \<Rightarrow> q | None \<Rightarrow> Err WorkflowCancelled) \<and>
    timeout (seconds 15) (cleanup con labels) t = Some (cleaned, s') \<and>
    (cleaned \<noteq> None \<longrightarrow>
      (\<exists>clear a close b stop.
        mailbox_command con labels 18 [] (seconds 3) t = Some (clear, a) \<and> ppp_close con labels (seconds 8) a = Some (close, b) \<and>
        mailbox_command con labels 12 [] (seconds 3) b = Some (stop, s')))"
proof -
  let ?limit = "if hold = None then seconds 105 else seconds 705"
  have "(if hold \<noteq> None then TOTAL_CALL_WORKFLOW_LIMIT + HOLD_LIMIT else TOTAL_CALL_WORKFLOW_LIMIT) = ?limit"
    by (simp add: TOTAL_CALL_WORKFLOW_LIMIT_def HOLD_LIMIT_def seconds_def)
  with call assms(3) obtain workflow t cleaned where w: "timeout ?limit (run_once con labels credentials hold) s = Some (workflow, t)"
    "timeout (seconds 15) (cleanup con labels) t = Some (cleaned, s')" "cleaned \<noteq> Some Panic"
    "r = (case workflow of Some q \<Rightarrow> q | None \<Rightarrow> Err WorkflowCancelled)"
    by (auto simp: nifty_call_def CLEANUP_LIMIT_def bind_eq_Some_conv simp del: not_None_eq split: if_split_asm)
  moreover have "\<exists>clear a close b stop. mailbox_command con labels 18 [] (seconds 3) t = Some (clear, a) \<and>
      ppp_close con labels (seconds 8) a = Some (close, b) \<and> mailbox_command con labels 12 [] (seconds 3) b = Some (stop, s')"
    if "cleaned \<noteq> None"
  proof -
    from that obtain q where "cleaned = Some q" by blast
    with timeout [of "seconds 15" "cleanup con labels" t q s'] w(2,3) cleanup_attempts_all [of con labels t q s'] show ?thesis by blast
  qed
  ultimately show ?thesis by blast
qed

text \<open>A limit that never cancels, and a label file that cannot be read.\<close>

theorem nifty_call_cleans_up_witness:
  "\<exists>clear a close b stop. mailbox_command answering_console (Err InvalidLabels) 18 [] (seconds 3) 0 = Some (clear, a) \<and>
     ppp_close answering_console (Err InvalidLabels) (seconds 8) a = Some (close, b) \<and>
     mailbox_command answering_console (Err InvalidLabels) 12 [] (seconds 3) b = Some (stop, 0)"
proof -
  let ?timeout = "\<lambda>limit f s. map_option (\<lambda>(q, t). (Some q, t)) (f s)"
  have "mailbox_command answering_console (Err InvalidLabels) command [] timeout 0 = Some (Err InvalidLabels, 0)" for command timeout
    by (simp add: mailbox_command_def mailbox_submit_def label_at_def)
  then have "nifty_call ?timeout answering_console (Err InvalidLabels) credentials None 0 = Some (Err InvalidLabels, 0)" for credentials
    by (simp add: nifty_call_def run_once_def require_ready_def read_snapshot_def modem_state_offset_def label_at_def cleanup_def
        run_keep_def ppp_close_def snapshot_request_def ppp_state_offset_def)
  from nifty_call_cleans_up [where timeout = ?timeout, OF _ this] show ?thesis
    by (auto simp: ppp_close_def run_once_def require_ready_def read_snapshot_def modem_state_offset_def label_at_def cleanup_def)
qed

end
