(* ===== verification/Spec2Isabelle.thy ===== *)
theory Spec2Isabelle
  imports Fcs Hdlc_Encoder Hdlc_Decoder Lcp_Properties Lcp_Agreement Ipcp_Properties Pap_Codec Pap_Client Chap
    Ipv4 Icmp Udp Dns Ntp Diagnostic Ppp_Diagnostic Prbs Execution_Payload Device_Reads
    Lint_Termination Lint_Hardware Lint_Conditional Generate_Properties Xtask_Build Trace_Properties Dial_Workflow
begin

text \<open>
  A model of the Rust code of the NDM24 modem project: the PPP reference implementation
  \<^verbatim>\<open>crates/ndm24-ppp\<close>, which the 65816 firmware ports, the decoders of the diagnostic blocks in
  \<^verbatim>\<open>crates/ndm24-protocol\<close>, of the host tools the test pattern and the access to the console, and
  \<^verbatim>\<open>xtask\<close> with its assembly linter and its generator.

  \<^bold>\<open>The program.\<close> Octets from the modem pass through the HDLC decoder, which removes escapes, checks
  the FCS-16 and yields PPP frames; frames for the line pass through the HDLC encoder, in one go or
  restartably. The frames carry LCP, which negotiates the link and owns the automaton of RFC 1661; then
  PAP or CHAP, which authenticate; then IPCP, which obtains the addresses; and then IPv4 with ICMP echo, UDP,
  and over UDP a DNS and an NTP client. The Rust crate has no driver that connects these parts: each is a
  set of functions or a state machine that a caller feeds with packets and times, and that answers with
  packets to send and events to report. The host tools read the counters and states of the firmware
  from two diagnostic blocks and give it commands through a mailbox.

  \<^bold>\<open>Conventions\<close> (\<^verbatim>\<open>Prelude\<close>). Fixed-width integers are words and wrap where the code wraps or saturates
  where it saturates; \<^verbatim>\<open>usize\<close> is \<open>nat\<close>, as it counts octets in memory; slices and vectors are lists. A
  computation is \<open>Ok\<close>, \<open>Err\<close> or \<open>Panic\<close>, so that an index out of range or a failed \<^verbatim>\<open>unwrap\<close> is a value that
  the theorems exclude. A method with \<^verbatim>\<open>&mut self\<close>, or one that fills a buffer, returns the state or the buffer it
  leaves behind, also after an error. Time is an argument, as it is in the code.

  \<^bold>\<open>Theories and sources.\<close>

  \<^item> \<^verbatim>\<open>Fcs\<close>, \<^verbatim>\<open>Hdlc_Encoder\<close>, \<^verbatim>\<open>Hdlc_Decoder\<close>: \<^verbatim>\<open>lib.rs\<close>. The FCS detects any single changed octet. The
    restartable encoder satisfies the interface \<open>octet_source\<close>, from which follow that it emits exactly what the
    one-shot encoder returns and that interruptions lose nothing. The decoder meets an abstract verdict on
    whatever octets stand between two flags (\<open>unescape\<close>, \<open>frame_verdict\<close>), delivers only frames with a valid FCS, and inverts
    the encoder.
  \<^item> \<^verbatim>\<open>Control_Packet\<close>: the interfaces that the control protocols share. \<open>header_parser\<close> reads code,
    identifier and length; \<open>control_codec\<close> adds an encoder and its round trip; \<open>option_collector\<close> is a list
    of type-length-value options. \<^verbatim>\<open>Layer_Machine\<close>: \<open>layer_machine\<close>, a step function with a state in which the
    layer is up, whose Up and Down then alternate, and \<open>restart_timer\<close>, a bounded number of
    retransmissions.
  \<^item> \<^verbatim>\<open>Lcp_Codec\<close>: \<^verbatim>\<open>lcp.rs\<close>. \<^verbatim>\<open>Lcp_Negotiation\<close>, \<^verbatim>\<open>Lcp_Machine\<close>: \<^verbatim>\<open>lcp/negotiation.rs\<close>, its free functions and its
    automaton. \<^verbatim>\<open>Lcp_Properties\<close>: no sequence of events makes the automaton fail, and a silent peer ends it.
    \<^verbatim>\<open>Lcp_Agreement\<close>: what a request is answered with, when the layer comes up, and what a Nak changes.
  \<^item> \<^verbatim>\<open>Ipcp_Codec\<close>, \<^verbatim>\<open>Ipcp_Client\<close>: \<^verbatim>\<open>ipcp.rs\<close> and \<^verbatim>\<open>ipcp/client.rs\<close>; \<^verbatim>\<open>Ipcp_Properties\<close> has the counterparts of
    the LCP properties, a complete negotiation with a peer that assigns addresses, and two defects.
  \<^item> \<^verbatim>\<open>Pap_Codec\<close>, \<^verbatim>\<open>Pap_Client\<close>: \<^verbatim>\<open>pap.rs\<close> and \<^verbatim>\<open>pap/client.rs\<close>, with round trips and the retry budget. \<^verbatim>\<open>Md5\<close>,
    \<^verbatim>\<open>Chap\<close>: \<^verbatim>\<open>chap.rs\<close>; the streaming digest refines the hash of the whole message.
  \<^item> \<^verbatim>\<open>Checksum\<close>, \<^verbatim>\<open>Ipv4\<close>, \<^verbatim>\<open>Icmp\<close>, \<^verbatim>\<open>Udp\<close>, \<^verbatim>\<open>Dns\<close>, \<^verbatim>\<open>Ntp\<close>: the files of these names; round trips, the bounds
    of every accepted packet, error detection, and the exact set of accepted responses.
  \<^item> \<^verbatim>\<open>Diagnostic_Abi\<close>, \<^verbatim>\<open>Diagnostic\<close>, \<^verbatim>\<open>Ppp_Diagnostic\<close>: \<^verbatim>\<open>generated.rs\<close> and \<^verbatim>\<open>lib.rs\<close> of \<^verbatim>\<open>ndm24-protocol\<close>. The decoders
    accept exactly the blocks that the offsets describe, and the fields do not overlap.
  \<^item> \<^verbatim>\<open>Prbs\<close>: \<^verbatim>\<open>tools/ndm24-tools/src/prbs.rs\<close>; the pattern has the full period of 65535.
  \<^item> \<^verbatim>\<open>Execution_Payload\<close>, \<^verbatim>\<open>Device_Reads\<close>: \<^verbatim>\<open>tools/ndm24-tools/src/qusb2snes.rs\<close>, which works on the console through the
    flash cartridge. A command is written by a short 65816 program, which is shown to do exactly its writes
    under the processor's meaning of its instructions. Blocks are read while the console runs; under the
    discipline of the sequence number, what is reported is a state the console had, and a command is
    reported as done only after a newer number than before its request was read twice as processed (\<open>submitted_by\<close>, then
    \<open>confirmed_by\<close>). The connection is a parameter, a record of functions on an arbitrary
    state; the hypotheses on it are the definitions \<open>observes\<close> and \<open>sequenced\<close>. A console is a connection with a
    clock (\<open>timed\<close>, \<open>takes_time\<close>, and \<open>paced\<close> for the longest read and pause).
  \<^item> \<^verbatim>\<open>Console_Loop\<close>, \<^verbatim>\<open>Console_Commands\<close>: the commands of \<^verbatim>\<open>qusb2snes.rs\<close> as sequences of runs and polling loops;
    \<^verbatim>\<open>Console_Properties\<close>: each returns, and an answer that is reported was counted during the call. \<^verbatim>\<open>Console_Example\<close> has two
    consoles on which commands succeed. \<^verbatim>\<open>Trace_Properties\<close>: which events are read from the trace ring, and a defect.
    \<^verbatim>\<open>Pap_Credentials\<close>: \<^verbatim>\<open>credentials.rs\<close>, with all the ways an upload of credentials can end. \<^verbatim>\<open>Dial_Workflow\<close>: \<^verbatim>\<open>ppp_dial.rs\<close>,
    \<^verbatim>\<open>nifty_dial.rs\<close> and \<^verbatim>\<open>at_arguments\<close> of \<^verbatim>\<open>connect_test.rs\<close>; a call is cleaned up after however it ended.

  \<^item> \<^verbatim>\<open>Lint_Text\<close>, \<^verbatim>\<open>Lint_Source\<close>, \<^verbatim>\<open>Lint_Transfer\<close>, \<^verbatim>\<open>Lint_Analysis\<close>: \<^verbatim>\<open>xtask/src/asm_lint.rs\<close>, which checks the widths and the
    stack of the 65816 sources before they are assembled: string helpers and literals; data, conditional
    assembly and the parser; the abstract interpreter and its checks; the work queue over statements and states, and
    the passes over procedures, profiles and files. \<^verbatim>\<open>Lint_Macros\<close> transcribes the macros of the firmware and says
    which widths the assembler has after each line; the parser's table is right but for the \<open>untracked_macros\<close>.
    \<^verbatim>\<open>Lint_Conditional\<close> and \<^verbatim>\<open>Lint_Parsing\<close> relate the parser to a
    tree of conditional blocks, to the source lines and to these widths. \<^verbatim>\<open>Worklist\<close> is the contract of a work-queue analysis as
    locales; \<^verbatim>\<open>Lint_Flow\<close> and \<^verbatim>\<open>Lint_Paths\<close> prove its laws for one turn of the queue, \<^verbatim>\<open>Lint_Soundness\<close> interprets it: what is
    accepted is safe on every path of the linter's own model of control flow, widths and stack. \<^verbatim>\<open>Lint_Termination\<close> bounds the analysis when local
    subroutines do not recurse and shows that it never ends on one that does. \<^verbatim>\<open>Lint_Hardware\<close> carries soundness to the
    processor, with status bits and octets on the stack, for procedures of known statements, and shows three accepted sources
    that go wrong there: a local subroutine that pulls its return address, \<^verbatim>\<open>inc32\<close>, and code after \<^verbatim>\<open>plp_m8_i8\<close>.

  \<^item> \<^verbatim>\<open>Format_Text\<close>, \<^verbatim>\<open>Xtask_Spec\<close>, \<^verbatim>\<open>Xtask_Render\<close>, \<^verbatim>\<open>Xtask_Font\<close>, \<^verbatim>\<open>Xtask_Generate\<close>, \<^verbatim>\<open>Xtask_Build\<close>:
    \<^verbatim>\<open>xtask/src/main.rs\<close>, which generates the constants of the firmware and of the host tools from
    \<^verbatim>\<open>spec/ndm24.toml\<close>, and the font of the terminal: printing and reading of numbers and text; the data and
    checks of the specification; the generated texts; the font, its tiles and preview; \<^verbatim>\<open>generate\<close> on a disk that
    is a map, with \<^verbatim>\<open>--check\<close>; profiles, label files (with \<^verbatim>\<open>labels.rs\<close> of the host tools) and the self-test.
    \<^verbatim>\<open>Xtask_Constants\<close> states as the locale \<open>constant_format\<close> what a line of a constant must satisfy to be read back, and
    interprets it for the assembler and for Rust: both read the same constants. \<^verbatim>\<open>Ndm24_Spec\<close> holds the specification of
    the repository and evaluates that what is generated from it is \<^verbatim>\<open>generated.rs\<close> and what the decoders are
    modelled with. \<^verbatim>\<open>Font_Properties\<close>, \<^verbatim>\<open>Font_Preview\<close>, \<^verbatim>\<open>Generate_Properties\<close>: the font source is read back, the
    preview shows the glyphs, and the check accepts exactly what is generated.

  This theory joins the layers: a datagram encoded, framed and sent arrives unchanged.

  \<^bold>\<open>Loops.\<close> No loop is cut off. \<^verbatim>\<open>pump\<close> terminates because each octet lowers \<open>encoder_fuel\<close>, a measure of the encoder
    state and not a bound; the option iterators, the DNS name and record loops and the
    digest consume their input; folding a checksum lowers its value; a ring is read up to its write index. The loops
  that wait for the console are partial functions, and they are shown to return because time passes. The queue of the
  linter is a \<open>while_option\<close>, so an analysis that does not end is \<open>None\<close>; the bound is the number of statements
  times the number of chains of return points. A silent peer is bounded by the
    restart counter that the machine itself holds.

  \<^bold>\<open>Not modelled.\<close> Of \<^verbatim>\<open>ndm24-tools\<close>, the messages on the WebSocket and the serial line, the measurement of the frame
  rate in floating point, the monitors and test drivers with their printing and reports, reading the terminal, and
  wiping secrets from the memory of the host; the label file is read once, and the texts of error messages are
  reduced to constructors; of \<^verbatim>\<open>xtask\<close>, running and finding the assembler, the linker and the emulator, the download of the
  tools, the command line, and of its linter the search for files and the printing (the messages are kept as
  values); serialisation through \<^verbatim>\<open>serde\<close>, which is derived
  code. The parser of TOML, SHA-256, the encoder of PNG files and \<^verbatim>\<open>tokio::time::timeout\<close> are parameters. The firmware itself is
  assembly. An extension would be the test drivers, on the same device parameter with the serial peer beside it.
\<close>

section \<open>Across the layers\<close>

text \<open>An uncompressed PPP frame: address, control, protocol, information.\<close>

definition ppp_frame :: "u16 \<Rightarrow> bytes \<Rightarrow> bytes" where
  "ppp_frame protocol information = [0xff, 0x03] @ to_be16 protocol @ information"

text \<open>
  C9: a datagram crosses the line. Take any UDP payload of at most 1472 octets and any header
  for UDP without the reserved flag. The payload encoded as a datagram between the header's addresses,
  that as an IPv4 packet, and that as a frame under any ACCM that covers the receiver's, arrives at an idle
  decoder of the default size as exactly one frame, which leaves the decoder idle; and from the
  information of that frame the parsers of IPv4 and UDP read the header's protocol and addresses, the
  ports and the payload.
\<close>

theorem datagram_crosses_the_line:
  assumes decoder: "decoder_idle d" "accm_covered (dec_receive_accm d) accm"
      "dec_maximum d = DEFAULT_MAX_UNESCAPED_FRAME_LENGTH"
    and payload: "length payload \<le> 1472"
    and header: "ih_protocol header = PROTOCOL_UDP" "ih_flags_fragment_offset header AND FLAG_RESERVED = 0"
  shows "\<exists>datagram packet frame view dg.
    encode_datagram (ih_source header) (ih_destination header) sp dp payload (replicate (8 + length payload) 0) =
      (Ok (8 + length payload), datagram) \<and>
    ipv4_encode_packet header datagram (replicate (28 + length payload) 0) = (Ok (28 + length payload), packet) \<and>
    frame = ppp_frame IP_PROTOCOL packet \<and>
    decode_all d (encode_async frame accm) = ([Frame frame], d) \<and>
    ipv4_packet_parse (drop 4 frame) = Ok view \<and> ipk_protocol view = PROTOCOL_UDP \<and>
    udp_parse (ipk_source view) (ipk_destination view) (ipk_payload view) = Ok dg \<and>
    dg_source_port dg = sp \<and> dg_destination_port dg = dp \<and> dg_payload dg = payload"
proof -
  let ?s = "ih_source header" and ?d = "ih_destination header"
  let ?dg = "udp_wire ?s ?d sp dp payload"
  let ?packet = "ipv4_wire header ?dg"
  let ?frame = "ppp_frame IP_PROTOCOL ?packet"
  let ?view = "\<lparr>ipk_bytes = ?packet, ipk_header_length = 20\<rparr>"
  let ?udp = "\<lparr>dg_bytes = ?dg, dg_checksum_present = True\<rparr>"
  have small: "8 + length payload \<le> 65535" "20 + length ?dg \<le> 65535" using payload by simp_all
  have "encode_datagram ?s ?d sp dp payload (replicate (8 + length payload) 0) = (Ok (8 + length payload), ?dg)"
    using small by (simp add: encode_datagram_eq)
  moreover have "ipv4_encode_packet header ?dg (replicate (28 + length payload) 0) = (Ok (28 + length payload), ?packet)"
    using small header by (simp add: ipv4_encode_eq)
  moreover have "decode_all d (encode_async ?frame accm) = ([Frame ?frame], d)"
  proof -
    have "finish_at_flag d = (None, d)" using decoder(1)
      by (simp add: finish_at_flag_def decoder_idle_def)
    moreover have "2 \<le> length ?frame" "length ?frame + 2 \<le> dec_maximum d"
      using payload decoder(3)
      by (simp_all add: ppp_frame_def DEFAULT_MAX_UNESCAPED_FRAME_LENGTH_def DEFAULT_MRU_def
          UNCOMPRESSED_HEADER_LENGTH_def FCS16_LENGTH_def)
    ultimately show ?thesis using decode_encode_events [OF decoder(2), of ?frame] by simp
  qed
  moreover have "drop 4 ?frame = ?packet" by (simp add: ppp_frame_def to_be16_def)
  moreover have "ipv4_packet_parse ?packet = Ok ?view" using ipv4_parse_wire [OF small(2), of header "[]"] by simp
  moreover have "udp_parse ?s ?d ?dg = Ok ?udp" using udp_parse_wire [OF small(1), of ?s ?d sp dp "[]"] by simp
  moreover have "dg_source_port ?udp = sp" "dg_destination_port ?udp = dp" "dg_payload ?udp = payload"
    using udp_wire_fields [OF small(1), of ?s ?d sp dp "[]"]
    by (simp_all add: dg_source_port_def dg_destination_port_def dg_payload_def UDP_HEADER_LENGTH_def)
  ultimately show ?thesis
    using ipv4_wire_view [of header ?dg] header(1)
    by (intro exI [of _ ?dg] exI [of _ ?packet] exI [of _ ?frame] exI [of _ ?view] exI [of _ ?udp])
      (simp add: ipv4_view_def)
qed

theorem datagram_crosses_the_line_witness:
  "\<exists>frame. decode_all (snd (finish_at_flag decoder_default)) (encode_async frame DEFAULT_ACCM) =
     ([Frame frame], snd (finish_at_flag decoder_default)) \<and>
     (\<exists>view. ipv4_packet_parse (drop 4 frame) = Ok view \<and> ipk_protocol view = PROTOCOL_UDP)"
proof -
  let ?d = "snd (finish_at_flag decoder_default)"
    and ?h = "ipv4_header_new PROTOCOL_UDP (10, 24, 0, 2) (1, 1, 1, 1)"
  have "decoder_idle ?d" "accm_covered (dec_receive_accm ?d) DEFAULT_ACCM"
    "dec_maximum ?d = DEFAULT_MAX_UNESCAPED_FRAME_LENGTH"
    by (simp_all add: finish_at_flag_idle decoder_default_def decoder_new_def)
  moreover have "length [1, 2, 3 :: u8] \<le> 1472" "ih_protocol ?h = PROTOCOL_UDP"
    "ih_flags_fragment_offset ?h AND FLAG_RESERVED = 0"
    by (simp_all add: ipv4_header_new_def FLAG_RESERVED_def FLAG_DONT_FRAGMENT_def)
  ultimately show ?thesis using datagram_crosses_the_line [of ?d DEFAULT_ACCM "[1, 2, 3]" ?h 49152 53] by blast
qed

end
